(* ===== verification/Prelude.thy ===== *)
theory Prelude
  imports Main "HOL-Library.Word"
begin

text \<open>
  The vocabulary shared by every component: PHP values (\<open>zval\<close>) and exceptions, the
  pointer and index types, the collections of rewrite rules the component theories fill, and
  a few facts on lists, function updates and words that several of them use.
\<close>

unbundle bit_operations_syntax

section \<open>Fact collections\<close>

text \<open>
  \<open>store_simps\<close> holds the equations of the macros that read and write the store of
  operations, \<open>inv_intros\<close> the preservation lemmas of invariants, \<open>flag_simps\<close> the bit tests
  on flag words.
\<close>

named_theorems store_simps
named_theorems inv_intros
named_theorems flag_simps

section \<open>PHP values\<close>

text \<open>
  Exception classes thrown by the extension, and the \<open>zval\<close> type as far as the extension
  looks at it. \<open>IS_OBJECT\<close> carries the handle of an object whose class the model does
  not know, \<open>IS_ERROR\<close> an exception object created by the extension or passed by the
  user: class, message and the previous exception chained to it.
\<close>

datatype exc_class =
    ErrorCe
  | TypeErrorCe
  | ArgumentCountErrorCe
  | CancellationExceptionCe
  | ChannelClosedExceptionCe
  | TimeoutExceptionCe
  | StreamExceptionCe
  | StreamClosedExceptionCe
  | PendingReadExceptionCe
  | SocketExceptionCe
  | SocketDisconnectExceptionCe
  | SocketAcceptExceptionCe
  | SocketBindExceptionCe
  | SocketConnectExceptionCe
  | SocketListenExceptionCe
  | UserExceptionCe nat

datatype zval =
    IS_UNDEF
  | IS_NULL
  | IS_BOOL bool
  | IS_LONG int
  | IS_STRING string
  | IS_OBJECT nat
  | IS_ERROR exc_class string "zval option"

type_synonym opid = nat

text \<open>Chaining a cause onto a fresh exception (\<open>zend_exception_set_previous\<close>).\<close>

fun set_previous :: "zval \<Rightarrow> zval \<Rightarrow> zval" where
  "set_previous (IS_ERROR c m p) cause = IS_ERROR c m (Some cause)"
| "set_previous v cause = v"

section \<open>Lists\<close>

lemma distinct_remove1_notin [simp]: "distinct xs \<Longrightarrow> x \<notin> set (remove1 x xs)"
  by (simp add: set_remove1_eq)

lemma notin_remove1 [intro]: "x \<notin> set xs \<Longrightarrow> x \<notin> set (remove1 y xs)"
  using set_remove1_subset by fastforce

lemma remove1_hd [simp]: "xs \<noteq> [] \<Longrightarrow> remove1 (hd xs) xs = tl xs"
  by (cases xs) simp_all

lemma set_remove1_distinct: "distinct xs \<Longrightarrow> set (remove1 x xs) = set xs - {x}"
  by (rule set_remove1_eq)

lemma mod_add_if:
  assumes "a < n" and "b \<le> (n::nat)"
  shows "(a + b) mod n = (if a + b < n then a + b else a + b - n)"
  using assms by (simp add: le_mod_geq)

lemma mod_index_step: "i < n \<Longrightarrow> (i + 1) mod n = (if i + 1 = n then 0 else i + (1::nat))"
  by auto

section \<open>Machine integers\<close>

text \<open>The conversion of an integer to \<open>int\<close>.\<close>

definition to_c_int :: "int \<Rightarrow> int" where
  "to_c_int n = sint (word_of_int n :: 32 word)"

lemma to_c_int_id [simp]: "- (2 ^ 31) \<le> n \<Longrightarrow> n < 2 ^ 31 \<Longrightarrow> to_c_int n = n"
  unfolding to_c_int_def sint_sbintrunc' by (rule signed_take_bit_int_eq_self) simp_all

section \<open>Flag words\<close>

text \<open>
  Flags are unsigned words whose masks are single bits. \<open>has_flag w m\<close> is the C test
  \<open>w & m\<close>; \<open>set_flag\<close> is \<open>w |= m\<close> and \<open>clear_flag\<close> is \<open>w &= ~m\<close>.
\<close>

definition has_flag :: "'a::len word \<Rightarrow> 'a word \<Rightarrow> bool" where
  "has_flag w m = (w AND m \<noteq> 0)"

definition set_flag :: "'a::len word \<Rightarrow> 'a word \<Rightarrow> 'a word" where
  "set_flag w m = w OR m"

definition clear_flag :: "'a::len word \<Rightarrow> 'a word \<Rightarrow> 'a word" where
  "clear_flag w m = w AND NOT m"

lemma has_flag_set [simp, flag_simps]: "m \<noteq> 0 \<Longrightarrow> has_flag (set_flag w m) m"
  by (simp add: has_flag_def set_flag_def bit.conj_disj_distrib2)

lemma has_flag_clear [simp, flag_simps]: "\<not> has_flag (clear_flag w m) m"
  by (simp add: has_flag_def clear_flag_def and.assoc)

lemma has_flag_zero [simp, flag_simps]: "\<not> has_flag 0 m"
  by (simp add: has_flag_def)

lemma has_flag_set_other [flag_simps]: "m AND k = 0 \<Longrightarrow> has_flag (set_flag w m) k = has_flag w k"
  by (simp add: has_flag_def set_flag_def bit.conj_disj_distrib2)

lemma has_flag_clear_other [flag_simps]:
  assumes "m AND k = 0"
  shows "has_flag (clear_flag w m) k = has_flag w k"
proof -
  have "NOT m AND k = k"
  proof (rule bit_eqI)
    fix n
    have "\<not> (bit m n \<and> bit k n)" using assms by (metis bit_0_eq bit_and_iff bot_apply bot_bool_def)
    then show "bit (NOT m AND k) n = bit k n"
      by (auto simp: bit_simps dest: bit_imp_le_length)
  qed
  then show ?thesis by (simp add: has_flag_def clear_flag_def and.assoc)
qed

lemma set_flag_set [simp]: "set_flag (set_flag w m) m = set_flag w m"
  by (simp add: set_flag_def or.assoc)

section \<open>Rings\<close>

text \<open>
  The contents of an array ring: \<open>len\<close> elements from index \<open>r\<close> on, wrapping around at the
  end of the array.
\<close>

definition ring_view :: "'e list \<Rightarrow> nat \<Rightarrow> nat \<Rightarrow> nat \<Rightarrow> 'e list" where
  "ring_view d r n len = map (\<lambda>i. d ! ((r + i) mod n)) [0..<len]"

lemma length_ring_view [simp]: "length (ring_view d r n len) = len"
  by (simp add: ring_view_def)

lemma ring_view_Nil [simp]: "ring_view d r n len = [] \<longleftrightarrow> len = 0"
  by (simp add: ring_view_def)

lemma nth_ring_view: "i < len \<Longrightarrow> ring_view d r n len ! i = d ! ((r + i) mod n)"
  by (simp add: ring_view_def)

lemma ring_view_Cons:
  assumes "0 < len" and "r < n"
  shows "ring_view d r n len = d ! r # ring_view d ((r + 1) mod n) n (len - 1)"
proof (rule nth_equalityI)
  show "length (ring_view d r n len) = length (d ! r # ring_view d ((r + 1) mod n) n (len - 1))"
    using assms by simp
  fix i assume "i < length (ring_view d r n len)"
  then show "ring_view d r n len ! i = (d ! r # ring_view d ((r + 1) mod n) n (len - 1)) ! i"
    using assms by (cases i) (auto simp: nth_ring_view mod_add_left_eq)
qed

lemma ring_view_put:
  assumes "r < n" and "len < n" and "length d = n"
  shows "ring_view (d[(r + len) mod n := v]) r n (len + 1) = ring_view d r n len @ [v]"
proof (rule nth_equalityI)
  show "length (ring_view (d[(r + len) mod n := v]) r n (len + 1)) = length (ring_view d r n len @ [v])"
    by simp
  fix i assume i: "i < length (ring_view (d[(r + len) mod n := v]) r n (len + 1))"
  have k: "(r + len) mod n < length d" using assms by simp
  show "ring_view (d[(r + len) mod n := v]) r n (len + 1) ! i = (ring_view d r n len @ [v]) ! i"
  proof (cases "i = len")
    case True
    with k show ?thesis by (simp add: nth_ring_view nth_append)
  next
    case False
    with i have "i < len" by simp
    moreover have "(r + i) mod n \<noteq> (r + len) mod n"
      using assms \<open>i < len\<close> by (auto simp: mod_add_if)
    ultimately show ?thesis by (simp add: nth_ring_view nth_append)
  qed
qed

end
