(* ===== verification/AsyncList.thy ===== *)
theory AsyncList
  imports Prelude
begin

text \<open>
  The intrusive doubly linked lists of \<open>php_async.h\<close> (\<open>ASYNC_LIST_APPEND\<close>,
  \<open>ASYNC_LIST_PREPEND\<close>, \<open>ASYNC_LIST_EXTRACT_FIRST\<close>, \<open>ASYNC_LIST_EXTRACT_LAST\<close>,
  \<open>ASYNC_LIST_REMOVE\<close>). Every queue of the extension is one of these: pending operations,
  ready tasks, suspended fibers, cancellation and shutdown callbacks, ticks. The macros are
  modelled on a heap of nodes with \<open>prev\<close> and \<open>next\<close> pointers (\<open>None\<close> is NULL) and a queue
  header with \<open>first\<close> and \<open>last\<close>, and shown to implement list append, prepend, tail,
  butlast and removal. The other theories use queues at the level of lists.
\<close>

section \<open>Nodes and headers\<close>

record links =
  prv :: "nat \<Rightarrow> nat option"
  nxt :: "nat \<Rightarrow> nat option"

record list_head =
  first :: "nat option"
  last_node :: "nat option"

type_synonym linked = "links \<times> list_head"

abbreviation set_prv :: "nat \<Rightarrow> nat option \<Rightarrow> links \<Rightarrow> links" where
  "set_prv v p h \<equiv> h\<lparr>prv := (prv h)(v := p)\<rparr>"

abbreviation set_nxt :: "nat \<Rightarrow> nat option \<Rightarrow> links \<Rightarrow> links" where
  "set_nxt v n h \<equiv> h\<lparr>nxt := (nxt h)(v := n)\<rparr>"

section \<open>The list macros\<close>

definition async_list_append :: "nat \<Rightarrow> linked \<Rightarrow> linked" where
  "async_list_append v = (\<lambda>(h, q).
     let h = set_nxt v None h
     in case last_node q of
          None \<Rightarrow> (set_prv v None h, q\<lparr>first := Some v, last_node := Some v\<rparr>)
        | Some l \<Rightarrow>
            (set_nxt l (Some v) (set_prv v (Some l) h), q\<lparr>last_node := Some v\<rparr>))"

definition async_list_prepend :: "nat \<Rightarrow> linked \<Rightarrow> linked" where
  "async_list_prepend v = (\<lambda>(h, q).
     let h = set_prv v None h
     in case first q of
          None \<Rightarrow> (set_nxt v None h, q\<lparr>first := Some v, last_node := Some v\<rparr>)
        | Some f \<Rightarrow>
            (set_prv f (Some v) (set_nxt v (Some f) h), q\<lparr>first := Some v\<rparr>))"

definition async_list_extract_first :: "linked \<Rightarrow> nat option \<times> linked" where
  "async_list_extract_first = (\<lambda>(h, q).
     case first q of
       None \<Rightarrow> (None, (h, q))
     | Some v \<Rightarrow>
         let q = q\<lparr>first := nxt h v\<rparr>;
             h = (case first q of None \<Rightarrow> h | Some f \<Rightarrow> set_prv f None h);
             q = (if last_node q = Some v then q\<lparr>last_node := None\<rparr> else q)
         in (Some v, (set_nxt v None (set_prv v None h), q)))"

definition async_list_extract_last :: "linked \<Rightarrow> nat option \<times> linked" where
  "async_list_extract_last = (\<lambda>(h, q).
     case last_node q of
       None \<Rightarrow> (None, (h, q))
     | Some v \<Rightarrow>
         let q = q\<lparr>last_node := prv h v\<rparr>;
             h = (case last_node q of None \<Rightarrow> h | Some l \<Rightarrow> set_nxt l None h);
             q = (if first q = Some v then q\<lparr>first := None\<rparr> else q)
         in (Some v, (set_nxt v None (set_prv v None h), q)))"

definition async_list_remove :: "nat \<Rightarrow> linked \<Rightarrow> linked" where
  "async_list_remove v = (\<lambda>(h, q).
     let h = (case prv h v of None \<Rightarrow> h | Some p \<Rightarrow> set_nxt p (nxt h v) h);
         h = (case nxt h v of None \<Rightarrow> h | Some n \<Rightarrow> set_prv n (prv h v) h);
         q = (if first q = Some v then q\<lparr>first := nxt h v\<rparr> else q);
         q = (if last_node q = Some v then q\<lparr>last_node := prv h v\<rparr> else q)
     in (set_nxt v None (set_prv v None h), q))"

section \<open>Abstraction to lists\<close>

definition hd_opt :: "'a list \<Rightarrow> 'a option" where
  "hd_opt xs = (case xs of [] \<Rightarrow> None | x # _ \<Rightarrow> Some x)"

definition last_opt :: "'a list \<Rightarrow> 'a option" where
  "last_opt xs = (if xs = [] then None else Some (last xs))"

lemma hd_opt_simps [simp]: "hd_opt [] = None" "hd_opt (x # xs) = Some x"
  by (simp_all add: hd_opt_def)

lemma last_opt_simps [simp]:
  "last_opt [] = None" "last_opt (xs @ [x]) = Some x" "last_opt [x] = Some x"
  "last_opt (x # y # zs) = last_opt (y # zs)"
  by (simp_all add: last_opt_def)

lemma hd_opt_append [simp]: "hd_opt (xs @ ys) = (if xs = [] then hd_opt ys else hd_opt xs)"
  by (cases xs) simp_all

lemma last_opt_append [simp]: "last_opt (xs @ ys) = (if ys = [] then last_opt xs else last_opt ys)"
  by (simp add: last_opt_def)

lemma hd_opt_None [simp]: "hd_opt xs = None \<longleftrightarrow> xs = []" "None = hd_opt xs \<longleftrightarrow> xs = []"
  by (cases xs; simp)+

lemma last_opt_None [simp]: "last_opt xs = None \<longleftrightarrow> xs = []" "None = last_opt xs \<longleftrightarrow> xs = []"
  by (simp_all add: last_opt_def)

lemma last_opt_in: "last_opt xs = Some x \<Longrightarrow> x \<in> set xs"
  by (auto simp: last_opt_def split: if_splits)

lemma hd_opt_in: "hd_opt xs = Some x \<Longrightarrow> x \<in> set xs"
  by (cases xs) auto

lemma hd_opt_neq [simp]:
  "v \<notin> set xs \<Longrightarrow> hd_opt xs \<noteq> Some v" "v \<notin> set xs \<Longrightarrow> Some v \<noteq> hd_opt xs"
  by (cases xs; auto)+

lemma last_opt_neq [simp]:
  "v \<notin> set xs \<Longrightarrow> last_opt xs \<noteq> Some v" "v \<notin> set xs \<Longrightarrow> Some v \<noteq> last_opt xs"
  by (auto simp: last_opt_def)

text \<open>
  \<open>dseg pf nf p xs n\<close>: under the \<open>prev\<close> pointers \<open>pf\<close> and the \<open>next\<close> pointers \<open>nf\<close> the
  nodes \<open>xs\<close> are linked in both directions, the first one points back to \<open>p\<close> and the last
  one points on to \<open>n\<close>.
\<close>

definition or_opt :: "'a option \<Rightarrow> 'a option \<Rightarrow> 'a option" where
  "or_opt a b = (case a of None \<Rightarrow> b | Some x \<Rightarrow> Some x)"

lemma or_opt_simps [simp]: "or_opt None b = b" "or_opt (Some x) b = Some x" "or_opt a None = a"
  by (simp_all add: or_opt_def split: option.split)

fun dseg :: "(nat \<Rightarrow> nat option) \<Rightarrow> (nat \<Rightarrow> nat option) \<Rightarrow> nat option \<Rightarrow> nat list \<Rightarrow> nat option \<Rightarrow> bool" where
  "dseg pf nf p [] n \<longleftrightarrow> True"
| "dseg pf nf p (x # xs) n \<longleftrightarrow>
     pf x = p \<and> nf x = or_opt (hd_opt xs) n \<and> dseg pf nf (Some x) xs n"

definition is_list :: "linked \<Rightarrow> nat list \<Rightarrow> bool" where
  "is_list hq xs \<longleftrightarrow> distinct xs \<and> dseg (prv (fst hq)) (nxt (fst hq)) None xs None \<and>
     first (snd hq) = hd_opt xs \<and> last_node (snd hq) = last_opt xs"

lemma or_opt_hd_append: "or_opt (hd_opt (xs @ ys)) n = or_opt (hd_opt xs) (or_opt (hd_opt ys) n)"
  by (cases xs) simp_all

lemma or_opt_hd_nonempty [simp]: "xs \<noteq> [] \<Longrightarrow> or_opt (hd_opt xs) n = hd_opt xs"
  by (cases xs) simp_all

lemma dseg_append:
  "dseg pf nf p (xs @ ys) n \<longleftrightarrow>
     dseg pf nf p xs (or_opt (hd_opt ys) n) \<and> dseg pf nf (or_opt (last_opt xs) p) ys n"
proof (induction xs arbitrary: p)
  case Nil
  then show ?case by simp
next
  case (Cons x xs)
  have "or_opt (last_opt (x # xs)) p = or_opt (last_opt xs) (Some x)"
    by (cases xs) (simp_all add: last_opt_def)
  with Cons.IH [of "Some x"] show ?case
    by (simp add: or_opt_hd_append)
qed

lemma dseg_prv_frame [simp]: "v \<notin> set xs \<Longrightarrow> dseg (pf(v := a)) nf p xs n = dseg pf nf p xs n"
  by (induction xs arbitrary: p) auto

lemma dseg_nxt_frame [simp]: "v \<notin> set xs \<Longrightarrow> dseg pf (nf(v := a)) p xs n = dseg pf nf p xs n"
  by (induction xs arbitrary: p) auto

text \<open>Splitting a list at its last element, and at a given element.\<close>

lemma rev_list_cases [case_names Nil snoc]:
  obtains "xs = []" | ys y where "xs = ys @ [y]"
  by (cases xs rule: rev_cases) auto

lemma is_list_append_op:
  assumes "is_list hq xs" and "v \<notin> set xs"
  shows "is_list (async_list_append v hq) (xs @ [v])"
proof (cases xs rule: rev_list_cases)
  case Nil
  with assms show ?thesis
    by (simp add: is_list_def async_list_append_def split_beta Let_def)
next
  case (snoc ys y)
  with assms show ?thesis
    by (simp add: is_list_def async_list_append_def split_beta Let_def dseg_append)
qed

lemma is_list_prepend_op:
  assumes "is_list hq xs" and "v \<notin> set xs"
  shows "is_list (async_list_prepend v hq) (v # xs)"
proof (cases xs)
  case Nil
  with assms show ?thesis
    by (simp add: is_list_def async_list_prepend_def split_beta Let_def)
next
  case (Cons y ys)
  with assms show ?thesis
    by (simp add: is_list_def async_list_prepend_def split_beta Let_def)
qed

lemma is_list_extract_first_op:
  assumes "is_list hq xs"
  shows "fst (async_list_extract_first hq) = hd_opt xs \<and>
         is_list (snd (async_list_extract_first hq)) (tl xs)"
proof (cases xs)
  case Nil
  with assms show ?thesis
    by (simp add: is_list_def async_list_extract_first_def split_beta)
next
  case (Cons y ys)
  show ?thesis
  proof (cases ys)
    case Nil
    with Cons assms show ?thesis
      by (simp add: is_list_def async_list_extract_first_def split_beta Let_def)
  next
    case (Cons z zs)
    from assms have "last_opt (z # zs) \<noteq> Some y"
      using \<open>xs = y # ys\<close> Cons by (auto simp: is_list_def dest: last_opt_in)
    with \<open>xs = y # ys\<close> Cons assms show ?thesis
      by (simp add: is_list_def async_list_extract_first_def split_beta Let_def)
  qed
qed

lemma is_list_extract_last_op:
  assumes "is_list hq xs"
  shows "fst (async_list_extract_last hq) = last_opt xs \<and>
         is_list (snd (async_list_extract_last hq)) (butlast xs)"
proof (cases xs rule: rev_list_cases)
  case Nil
  with assms show ?thesis
    by (simp add: is_list_def async_list_extract_last_def split_beta)
next
  case (snoc ys y)
  show ?thesis
  proof (cases ys rule: rev_list_cases)
    case Nil
    with snoc assms show ?thesis
      by (simp add: is_list_def async_list_extract_last_def split_beta Let_def)
  next
    case (snoc zs z)
    have *: "is_list hq ((zs @ [z]) @ [y])" "xs = (zs @ [z]) @ [y]"
      using \<open>xs = ys @ [y]\<close> snoc assms by simp_all
    from *(1) have "hd_opt (zs @ [z]) \<noteq> Some y"
      by (auto simp: is_list_def simp del: hd_opt_append dest: hd_opt_in)
    with * show ?thesis
      by (simp add: is_list_def async_list_extract_last_def split_beta Let_def dseg_append
          butlast_append split: if_splits)
  qed
qed

lemma remove1_split: "v \<notin> set ys \<Longrightarrow> remove1 v (ys @ v # zs) = ys @ zs"
  by (simp add: remove1_append)

lemma is_list_remove_at:
  assumes "is_list hq (ys @ v # zs)"
  shows "is_list (async_list_remove v hq) (ys @ zs)"
proof -
  have d: "v \<notin> set ys" "v \<notin> set zs" "distinct ys" "distinct zs" "set ys \<inter> set zs = {}"
    using assms by (auto simp: is_list_def)
  have h: "prv (fst hq) v = last_opt ys" "nxt (fst hq) v = hd_opt zs"
    using assms by (simp_all add: is_list_def dseg_append)
  have hy: "hd_opt ys \<noteq> Some v" and lz: "last_opt zs \<noteq> Some v"
    using d hd_opt_in last_opt_in by fastforce+
  show ?thesis
  proof (cases ys rule: rev_list_cases)
    case Nil
    with assms d h lz show ?thesis
      by (cases zs) (simp_all add: is_list_def async_list_remove_def split_beta Let_def)
  next
    case (snoc us u)
    show ?thesis
    proof (cases zs)
      case Nil
      with snoc assms d h hy show ?thesis
        by (simp add: is_list_def async_list_remove_def split_beta Let_def dseg_append)
    next
      case (Cons z zt)
      with snoc assms d h hy lz show ?thesis
        by (simp add: is_list_def async_list_remove_def split_beta Let_def dseg_append
            or_opt_hd_append)
    qed
  qed
qed

lemma is_list_remove_op:
  assumes "is_list hq xs" and "v \<in> set xs"
  shows "is_list (async_list_remove v hq) (remove1 v xs)"
proof -
  from assms(2) obtain ys zs where xs: "xs = ys @ v # zs" and v: "v \<notin> set ys"
    by (meson split_list_first)
  with assms(1) is_list_remove_at show ?thesis by (simp add: remove1_split)
qed

text \<open>
  Removing a node that is in no queue (its links are NULL and the header does not point to
  it) leaves the queue as it is.
\<close>

lemma is_list_remove_foreign:
  assumes "is_list hq xs" and "v \<notin> set xs"
    and "prv (fst hq) v = None" and "nxt (fst hq) v = None"
  shows "is_list (async_list_remove v hq) xs"
proof -
  have "hd_opt xs \<noteq> Some v" and "last_opt xs \<noteq> Some v"
    using assms(2) hd_opt_in last_opt_in by fastforce+
  with assms show ?thesis
    by (simp add: is_list_def async_list_remove_def split_beta Let_def)
qed

text \<open>A second queue over the same heap is not affected by an operation on the first one.\<close>

lemma is_list_append_frame:
  assumes "is_list (h, q) xs" and "is_list (h, q') ys" and "set xs \<inter> set ys = {}" and "v \<notin> set ys"
  shows "is_list (fst (async_list_append v (h, q)), q') ys"
proof (cases "last_node q")
  case None
  with assms(2,4) show ?thesis
    by (simp add: is_list_def async_list_append_def Let_def)
next
  case (Some l)
  with assms(1) have "last_opt xs = Some l"
    by (simp add: is_list_def)
  with assms(3) have "l \<notin> set ys"
    by (auto dest: last_opt_in)
  with Some assms(2,4) show ?thesis
    by (simp add: is_list_def async_list_append_def Let_def)
qed

lemma is_list_remove_frame:
  assumes "is_list (h, q) xs" and "is_list (h, q') ys" and "set xs \<inter> set ys = {}" and "v \<in> set xs"
  shows "is_list (fst (async_list_remove v (h, q)), q') ys"
proof -
  from assms(4) obtain us zs where xs: "xs = us @ v # zs"
    by (meson split_list)
  from assms(1) xs have p: "prv h v = last_opt us" and n: "nxt h v = hd_opt zs"
    by (simp_all add: is_list_def dseg_append)
  have "v \<notin> set ys" "\<And>l. last_opt us = Some l \<Longrightarrow> l \<notin> set ys" "\<And>l. hd_opt zs = Some l \<Longrightarrow> l \<notin> set ys"
    using assms(3) xs last_opt_in hd_opt_in by fastforce+
  moreover have "last_opt us \<noteq> Some v" "hd_opt zs \<noteq> Some v"
    using assms(1) xs by (simp_all add: is_list_def)
  ultimately show ?thesis using assms(2) p n
    by (cases "last_opt us"; cases "hd_opt zs")
       (simp_all add: is_list_def async_list_remove_def Let_def)
qed

section \<open>The queue interface\<close>

text \<open>
  What the clients of the macros rely on: the five operations act on the abstract list as
  expected, provided an element is not queued twice. \<open>rel q xs\<close> says that the
  representation \<open>q\<close> holds the list \<open>xs\<close>.
\<close>

locale async_queue =
  fixes rel :: "'q \<Rightarrow> 'a list \<Rightarrow> bool"
    and append :: "'a \<Rightarrow> 'q \<Rightarrow> 'q"
    and prepend :: "'a \<Rightarrow> 'q \<Rightarrow> 'q"
    and remove :: "'a \<Rightarrow> 'q \<Rightarrow> 'q"
    and extract_first :: "'q \<Rightarrow> 'a option \<times> 'q"
  assumes rel_append: "rel q xs \<Longrightarrow> v \<notin> set xs \<Longrightarrow> rel (append v q) (xs @ [v])"
    and rel_prepend: "rel q xs \<Longrightarrow> v \<notin> set xs \<Longrightarrow> rel (prepend v q) (v # xs)"
    and rel_remove: "rel q xs \<Longrightarrow> v \<in> set xs \<Longrightarrow> rel (remove v q) (remove1 v xs)"
    and rel_extract: "rel q xs \<Longrightarrow>
      fst (extract_first q) = hd_opt xs \<and> rel (snd (extract_first q)) (tl xs)"

text \<open>Extracting the first element \<open>n\<close> times, as the drain loops of the extension do.\<close>

fun extract_n :: "('q \<Rightarrow> 'a option \<times> 'q) \<Rightarrow> nat \<Rightarrow> 'q \<Rightarrow> 'a option list \<times> 'q" where
  "extract_n ext 0 q = ([], q)"
| "extract_n ext (Suc n) q =
     (let (v, q') = ext q; (vs, q'') = extract_n ext n q' in (v # vs, q''))"

context async_queue begin

lemma rel_append_all:
  "rel q xs \<Longrightarrow> distinct (xs @ vs) \<Longrightarrow> rel (fold append vs q) (xs @ vs)"
proof (induction vs arbitrary: q xs)
  case Nil
  then show ?case by simp
next
  case (Cons v vs)
  then have "rel (append v q) (xs @ [v])" by (auto intro: rel_append)
  from Cons.IH [OF this] Cons.prems(2) show ?case by simp
qed

lemma rel_extract_n:
  "rel q (xs @ ys) \<Longrightarrow>
   fst (extract_n extract_first (length xs) q) = map Some xs \<and>
   rel (snd (extract_n extract_first (length xs) q)) ys"
proof (induction xs arbitrary: q)
  case Nil
  then show ?case by simp
next
  case (Cons x xs)
  from rel_extract [OF Cons.prems]
  have "fst (extract_first q) = Some x" and "rel (snd (extract_first q)) (xs @ ys)"
    by simp_all
  with Cons.IH show ?case by (simp add: split_beta Let_def)
qed

text \<open>First in, first out: what was appended comes out in the order it went in.\<close>

lemma fifo:
  assumes "rel q []" and "distinct vs"
  shows "fst (extract_n extract_first (length vs) (fold append vs q)) = map Some vs \<and>
         rel (snd (extract_n extract_first (length vs) (fold append vs q))) []"
  using rel_append_all [OF assms(1), of vs] assms(2) rel_extract_n [of _ vs "[]"] by simp

text \<open>An element that was prepended overtakes everything that is queued.\<close>

lemma prepend_overtakes:
  assumes "rel q xs" and "v \<notin> set xs"
  shows "fst (extract_first (prepend v q)) = Some v \<and> rel (snd (extract_first (prepend v q))) xs"
  using rel_extract [OF rel_prepend [OF assms]] by simp

text \<open>Removing a queued element leaves the order of the others alone.\<close>

lemma removed_is_skipped:
  assumes "rel q (xs @ v # ys)" and "v \<notin> set xs"
  shows "rel (remove v q) (xs @ ys)"
  using rel_remove [OF assms(1), of v] assms(2) by (simp add: remove1_append)

end

interpretation linked: async_queue is_list async_list_append async_list_prepend async_list_remove
    async_list_extract_first
  by unfold_locales
    (auto intro: is_list_append_op is_list_prepend_op is_list_remove_op
       dest: is_list_extract_first_op)

text \<open>The level the other theories work at: the queue is the list itself.\<close>

abbreviation list_append :: "'a \<Rightarrow> 'a list \<Rightarrow> 'a list" where
  "list_append v xs \<equiv> xs @ [v]"

abbreviation list_extract_first :: "'a list \<Rightarrow> 'a option \<times> 'a list" where
  "list_extract_first xs \<equiv> (hd_opt xs, tl xs)"

interpretation plain: async_queue "(=)" list_append "(#)" remove1 list_extract_first
  by unfold_locales auto

definition empty_list :: linked where
  "empty_list = (\<lparr>prv = \<lambda>_. None, nxt = \<lambda>_. None\<rparr>, \<lparr>first = None, last_node = None\<rparr>)"

lemma is_list_empty: "is_list empty_list []"
  by (simp add: is_list_def empty_list_def)

section \<open>Properties\<close>

text \<open>
  C6. The list macros implement a first-in first-out queue: the nodes appended to an empty list
  come out of \<open>ASYNC_LIST_EXTRACT_FIRST\<close> in the order in which they went in, and the pointers
  left behind are those of the empty list; an element that is removed from the middle leaves a
  list of the others in their order.
\<close>

theorem async_list_fifo:
  assumes "distinct (xs @ v # ys)"
  defines "q \<equiv> fold async_list_append (xs @ v # ys) empty_list"
  shows "fst (extract_n async_list_extract_first (length (xs @ v # ys)) q) = map Some (xs @ v # ys) \<and>
    is_list (snd (extract_n async_list_extract_first (length (xs @ v # ys)) q)) [] \<and>
    fst (extract_n async_list_extract_first (length (xs @ ys)) (async_list_remove v q)) = map Some (xs @ ys)"
proof -
  have q: "is_list q (xs @ v # ys)"
    unfolding q_def using linked.rel_append_all [OF is_list_empty, of "xs @ v # ys"] assms(1) by simp
  have "is_list (async_list_remove v q) (xs @ ys)"
    by (rule linked.removed_is_skipped [OF q]) (use assms(1) in simp)
  then show ?thesis
    using linked.rel_extract_n [of q "xs @ v # ys" "[]"] q
      linked.rel_extract_n [of "async_list_remove v q" "xs @ ys" "[]"] by simp
qed

theorem async_list_fifo_witness:
  "fst (extract_n async_list_extract_first 2 (async_list_remove 8 (fold async_list_append [7, 8, 9] empty_list)))
     = [Some 7, Some 9]"
  using async_list_fifo [of "[7]" 8 "[9]"] by (simp add: numeral_2_eq_2 del: extract_n.simps)

end
