(* ===== verification/RingBuffer.thy ===== *)
theory RingBuffer
  imports Prelude
begin

text \<open>
  The byte ring buffer of streams (\<open>include/async/buffer.h\<close>): a block of \<open>size\<close> bytes, a
  read and a write position (offsets from \<open>base\<close>) and the number of buffered bytes. The
  buffered bytes are, in order, the \<open>len\<close> bytes from the read position on, wrapping at the
  end of the block. The theory shows that reading, consuming and writing are the queue
  operations on that byte sequence.
\<close>

type_synonym byte = "8 word"

record async_ring_buffer =
  rb_base :: "byte list"
  rb_rpos :: nat
  rb_wpos :: nat
  rb_size :: nat
  rb_len :: nat

section \<open>Operations\<close>

definition async_ring_buffer_read_len :: "async_ring_buffer \<Rightarrow> nat" where
  "async_ring_buffer_read_len b =
     (if rb_len b = 0 then 0
      else if rb_rpos b \<le> rb_wpos b then rb_len b
      else rb_size b - rb_rpos b)"

definition async_ring_buffer_write_len :: "async_ring_buffer \<Rightarrow> nat" where
  "async_ring_buffer_write_len b =
     (if rb_len b = rb_size b then 0
      else if rb_rpos b \<le> rb_wpos b then rb_size b - rb_wpos b
      else rb_rpos b - rb_wpos b)"

text \<open>
  The copy loop; the bytes copied so far are the accumulator, \<open>consumed\<close> is its length. A
  buffer whose read position is not inside the block would make the loop copy nothing and run
  forever, so the loop is a partial function.
\<close>

definition read_count :: "async_ring_buffer \<Rightarrow> nat \<Rightarrow> nat" where
  "read_count b len =
     (let count = rb_size b - rb_rpos b
      in if rb_len b < count then min len (rb_len b) else min len count)"

definition read_step :: "async_ring_buffer \<Rightarrow> nat \<Rightarrow> async_ring_buffer" where
  "read_step b len =
     (let count = read_count b len;
          rpos = rb_rpos b + count
      in b\<lparr>rb_rpos := (if rpos = rb_size b then 0 else rpos), rb_len := rb_len b - count\<rparr>)"

partial_function (option) read_loop ::
  "async_ring_buffer \<Rightarrow> nat \<Rightarrow> byte list \<Rightarrow> (byte list \<times> async_ring_buffer) option" where
  "read_loop b len acc =
     (if 0 < len \<and> 0 < rb_len b
      then read_loop (read_step b len) (len - read_count b len)
             (acc @ take (read_count b len) (drop (rb_rpos b) (rb_base b)))
      else Some (acc, b))"

definition async_ring_buffer_read ::
  "async_ring_buffer \<Rightarrow> nat \<Rightarrow> (byte list \<times> async_ring_buffer) option" where
  "async_ring_buffer_read b len = read_loop b len []"

definition async_ring_buffer_read_string ::
  "async_ring_buffer \<Rightarrow> nat \<Rightarrow> (byte list option \<times> nat \<times> async_ring_buffer) option" where
  "async_ring_buffer_read_string b len =
     (let len = min (rb_len b) len
      in if len = 0 then Some (None, 0, b)
         else map_option (\<lambda>(bs, b'). (Some bs, len, b')) (async_ring_buffer_read b len))"

definition async_ring_buffer_write_move :: "async_ring_buffer \<Rightarrow> nat \<Rightarrow> async_ring_buffer" where
  "async_ring_buffer_write_move b offset =
     b\<lparr>rb_wpos := (rb_wpos b + offset) mod rb_size b, rb_len := rb_len b + offset\<rparr>"

definition async_ring_buffer_consume :: "async_ring_buffer \<Rightarrow> nat \<Rightarrow> async_ring_buffer" where
  "async_ring_buffer_consume b len =
     b\<lparr>rb_rpos := (rb_rpos b + len) mod rb_size b, rb_len := rb_len b - len\<rparr>"

text \<open>\<open>init_buffer\<close> of \<open>stream.c\<close>: both positions at the start of a fresh block.\<close>

definition init_buffer :: "byte list \<Rightarrow> async_ring_buffer" where
  "init_buffer block = \<lparr>rb_base = block, rb_rpos = 0, rb_wpos = 0, rb_size = length block, rb_len = 0\<rparr>"

text \<open>
  Bytes arrive by libuv (or \<open>SSL_read\<close>) writing into the block at the write position, at most
  \<open>async_ring_buffer_write_len\<close> of them, before \<open>async_ring_buffer_write_move\<close> is called.
\<close>

definition store_bytes :: "async_ring_buffer \<Rightarrow> byte list \<Rightarrow> async_ring_buffer" where
  "store_bytes b bs = b\<lparr>rb_base :=
     take (rb_wpos b) (rb_base b) @ bs @ drop (rb_wpos b + length bs) (rb_base b)\<rparr>"

section \<open>Abstraction: the buffered bytes\<close>

definition rb_wf :: "async_ring_buffer \<Rightarrow> bool" where
  "rb_wf b \<longleftrightarrow> 0 < rb_size b \<and> length (rb_base b) = rb_size b \<and> rb_rpos b < rb_size b \<and>
     rb_len b \<le> rb_size b \<and> rb_wpos b = (rb_rpos b + rb_len b) mod rb_size b"

definition rb_bytes :: "async_ring_buffer \<Rightarrow> byte list" where
  "rb_bytes b = map (\<lambda>i. rb_base b ! ((rb_rpos b + i) mod rb_size b)) [0..<rb_len b]"

lemma length_rb_bytes [simp]: "length (rb_bytes b) = rb_len b"
  by (simp add: rb_bytes_def)

lemma rb_bytes_Nil [simp]: "rb_bytes b = [] \<longleftrightarrow> rb_len b = 0"
  by (simp add: rb_bytes_def)

lemma nth_rb_bytes: "i < rb_len b \<Longrightarrow> rb_bytes b ! i = rb_base b ! ((rb_rpos b + i) mod rb_size b)"
  by (simp add: rb_bytes_def)

lemma rb_wf_init: "block \<noteq> [] \<Longrightarrow> rb_wf (init_buffer block) \<and> rb_bytes (init_buffer block) = []"
  by (simp add: rb_wf_def rb_bytes_def init_buffer_def)

lemma rb_wpos_less: "rb_wf b \<Longrightarrow> rb_wpos b < rb_size b"
  by (simp add: rb_wf_def)

subsection \<open>Consuming\<close>

lemma rb_consume:
  assumes "rb_wf b" and "n \<le> rb_len b"
  shows "rb_wf (async_ring_buffer_consume b n)"
    and "rb_bytes (async_ring_buffer_consume b n) = drop n (rb_bytes b)"
proof -
  show "rb_wf (async_ring_buffer_consume b n)"
  proof -
    have "((rb_rpos b + n) mod rb_size b + (rb_len b - n)) mod rb_size b =
        (rb_rpos b + n + (rb_len b - n)) mod rb_size b"
      by (rule mod_add_left_eq)
    moreover have "rb_len b - n \<le> rb_size b"
      using assms(1) by (auto simp: rb_wf_def)
    ultimately show ?thesis using assms by (simp add: rb_wf_def async_ring_buffer_consume_def)
  qed
  show "rb_bytes (async_ring_buffer_consume b n) = drop n (rb_bytes b)"
    by (rule nth_equalityI)
       (use assms in \<open>auto simp: nth_rb_bytes async_ring_buffer_consume_def mod_add_left_eq add.assoc\<close>)
qed

subsection \<open>Reading\<close>

lemma read_count_bounds:
  assumes "rb_wf b" and "0 < len" and "0 < rb_len b"
  shows "0 < read_count b len" and "read_count b len \<le> len" and "read_count b len \<le> rb_len b"
    and "rb_rpos b + read_count b len \<le> rb_size b"
  using assms by (auto simp: read_count_def rb_wf_def Let_def)

text \<open>One iteration of the copy loop is a contiguous consume.\<close>

lemma read_step_consume:
  assumes "rb_wf b" and "0 < len" and "0 < rb_len b"
  shows "read_step b len = async_ring_buffer_consume b (read_count b len)"
  using read_count_bounds(4) [OF assms]
  by (auto simp: read_step_def async_ring_buffer_consume_def Let_def)

lemma read_chunk:
  assumes "rb_wf b" and "0 < len" and "0 < rb_len b"
  shows "take (read_count b len) (drop (rb_rpos b) (rb_base b)) = take (read_count b len) (rb_bytes b)"
  using read_count_bounds [OF assms] assms(1)
  by (intro nth_equalityI) (auto simp: rb_wf_def nth_rb_bytes)

lemma read_loop_bytes:
  assumes "rb_wf b"
  shows "\<exists>b'. read_loop b len acc = Some (acc @ take len (rb_bytes b), b') \<and> rb_wf b' \<and>
     rb_bytes b' = drop len (rb_bytes b) \<and> rb_wpos b' = rb_wpos b \<and> rb_base b' = rb_base b \<and>
     rb_size b' = rb_size b"
  using assms
proof (induction len arbitrary: b acc rule: less_induct)
  case (less len)
  show ?case
  proof (cases "0 < len \<and> 0 < rb_len b")
    case False
    then show ?thesis
      using less.prems by (cases "len = 0") (simp_all add: read_loop.simps [of b] drop_all)
  next
    case True
    let ?n = "read_count b len"
    let ?b = "async_ring_buffer_consume b ?n"
    note bd = read_count_bounds [OF less.prems(1), of len]
    have n: "0 < ?n" "?n \<le> len" "?n \<le> rb_len b" using True bd by auto
    have wf: "rb_wf ?b" and bts: "rb_bytes ?b = drop ?n (rb_bytes b)"
      using rb_consume [OF less.prems(1) n(3)] by simp_all
    obtain b' where b': "read_loop ?b (len - ?n) (acc @ take ?n (rb_bytes b)) =
        Some ((acc @ take ?n (rb_bytes b)) @ take (len - ?n) (rb_bytes ?b), b')" "rb_wf b'"
      "rb_bytes b' = drop (len - ?n) (rb_bytes ?b)" "rb_wpos b' = rb_wpos b" "rb_base b' = rb_base b"
      "rb_size b' = rb_size b"
      using less.IH [of "len - ?n" ?b "acc @ take ?n (rb_bytes b)"] n wf
      by (auto simp: async_ring_buffer_consume_def)
    have "take len (rb_bytes b) = take ?n (rb_bytes b) @ take (len - ?n) (rb_bytes ?b)"
      unfolding bts using take_add [of ?n "len - ?n" "rb_bytes b"] n by simp
    moreover have "drop len (rb_bytes b) = drop (len - ?n) (rb_bytes ?b)"
      unfolding bts using n by simp
    ultimately show ?thesis
      using True b' less.prems
      by (subst read_loop.simps) (simp add: read_step_consume read_chunk)
  qed
qed

subsection \<open>Writing\<close>

lemma write_len_bounds:
  assumes "rb_wf b"
  shows "rb_wpos b + async_ring_buffer_write_len b \<le> rb_size b"
    and "rb_len b + async_ring_buffer_write_len b \<le> rb_size b"
proof -
  have *: "rb_rpos b + rb_len b < rb_size b \<and> rb_wpos b = rb_rpos b + rb_len b \<or>
        rb_size b \<le> rb_rpos b + rb_len b \<and> rb_wpos b + rb_size b = rb_rpos b + rb_len b"
    using assms by (auto simp: rb_wf_def mod_add_if)
  then show "rb_wpos b + async_ring_buffer_write_len b \<le> rb_size b"
    and "rb_len b + async_ring_buffer_write_len b \<le> rb_size b"
    using assms by (auto simp: async_ring_buffer_write_len_def rb_wf_def)
qed

lemma write_bytes:
  assumes wf: "rb_wf b" and len: "length bs \<le> async_ring_buffer_write_len b"
  defines "b' \<equiv> async_ring_buffer_write_move (store_bytes b bs) (length bs)"
  shows "rb_wf b'" and "rb_bytes b' = rb_bytes b @ bs"
proof -
  let ?n = "rb_size b"
  have w: "rb_wpos b + length bs \<le> ?n" and l: "rb_len b + length bs \<le> ?n"
    using write_len_bounds [OF wf] len by auto
  have base: "length (take (rb_wpos b) (rb_base b) @ bs @ drop (rb_wpos b + length bs) (rb_base b)) = ?n"
    using wf w by (simp add: rb_wf_def)
  have wp: "rb_wpos b = (rb_rpos b + rb_len b) mod ?n" and r: "rb_rpos b < ?n" and n0: "0 < ?n"
    using wf by (auto simp: rb_wf_def)
  show "rb_wf b'"
    using wf base l
    by (simp add: b'_def rb_wf_def async_ring_buffer_write_move_def store_bytes_def
        mod_add_left_eq add.assoc)
  show "rb_bytes b' = rb_bytes b @ bs"
  proof (rule nth_equalityI)
    show "length (rb_bytes b') = length (rb_bytes b @ bs)"
      by (simp add: b'_def async_ring_buffer_write_move_def store_bytes_def)
  next
    fix i assume i: "i < length (rb_bytes b')"
    then have i': "i < rb_len b + length bs"
      by (simp add: b'_def async_ring_buffer_write_move_def store_bytes_def)
    let ?k = "(rb_rpos b + i) mod ?n"
    have k: "?k < ?n" using n0 by simp
    have eq: "rb_bytes b' ! i =
        (take (rb_wpos b) (rb_base b) @ bs @ drop (rb_wpos b + length bs) (rb_base b)) ! ?k"
      using i' by (simp add: b'_def nth_rb_bytes async_ring_buffer_write_move_def store_bytes_def)
    show "rb_bytes b' ! i = (rb_bytes b @ bs) ! i"
    proof (cases "i < rb_len b")
      case True
      \<comment> \<open>an old byte: its index is outside the written range\<close>
      have "?k < rb_wpos b \<or> rb_wpos b + length bs \<le> ?k"
        using True l w wp r mod_add_if [of "rb_rpos b" ?n "rb_len b"] mod_add_if [of "rb_rpos b" ?n i]
        by (auto split: if_splits)
      then have "(take (rb_wpos b) (rb_base b) @ bs @ drop (rb_wpos b + length bs) (rb_base b)) ! ?k
          = rb_base b ! ?k"
        using w k wf rb_wpos_less [OF wf] by (auto simp: nth_append rb_wf_def min_def simp del: mod_less_divisor)
      with eq True show ?thesis by (simp add: nth_append nth_rb_bytes)
    next
      case False
      have k2: "?k = rb_wpos b + (i - rb_len b)"
      proof -
        have "rb_rpos b + i = rb_rpos b + rb_len b + (i - rb_len b)" using False by simp
        then have "?k = (rb_wpos b + (i - rb_len b)) mod ?n"
          by (simp only: wp mod_add_left_eq)
        moreover have "rb_wpos b + (i - rb_len b) < ?n" using False i' w by simp
        ultimately show ?thesis by simp
      qed
      then have "(take (rb_wpos b) (rb_base b) @ bs @ drop (rb_wpos b + length bs) (rb_base b)) ! ?k
          = bs ! (i - rb_len b)"
        using w i' False wf by (auto simp: nth_append rb_wf_def min_def)
      with eq False i' show ?thesis by (simp add: nth_append)
    qed
  qed
qed

section \<open>Streams of writes and reads\<close>

datatype rb_event = Rb_write "byte list" | Rb_read nat

text \<open>
  A run of the buffer: writes that fit (as the allocation callback hands out at most
  \<open>write_len\<close> bytes) and reads; the result is the list of the bytes read.
\<close>

fun rb_run :: "rb_event list \<Rightarrow> async_ring_buffer \<Rightarrow> (byte list \<times> async_ring_buffer) option" where
  "rb_run [] b = Some ([], b)"
| "rb_run (Rb_write bs # es) b =
     (if length bs \<le> async_ring_buffer_write_len b
      then rb_run es (async_ring_buffer_write_move (store_bytes b bs) (length bs))
      else None)"
| "rb_run (Rb_read n # es) b = (case async_ring_buffer_read b n of
     None \<Rightarrow> None
   | Some (bs, b') \<Rightarrow> map_option (\<lambda>(out, b''). (bs @ out, b'')) (rb_run es b'))"

fun rb_written :: "rb_event list \<Rightarrow> byte list" where
  "rb_written [] = []"
| "rb_written (Rb_write bs # es) = bs @ rb_written es"
| "rb_written (Rb_read n # es) = rb_written es"

lemma rb_run_stream:
  assumes "rb_wf b" and "rb_run es b = Some (out, b')"
  shows "rb_wf b' \<and> rb_bytes b @ rb_written es = out @ rb_bytes b'"
  using assms
proof (induction es b arbitrary: out b' rule: rb_run.induct)
  case (1 b)
  then show ?case by simp
next
  case (2 bs es b)
  then have fits: "length bs \<le> async_ring_buffer_write_len b" by (auto split: if_splits)
  with 2 write_bytes [OF "2.prems"(1) fits] show ?case by simp
next
  case (3 n es b)
  obtain b1 where b1: "async_ring_buffer_read b n = Some (take n (rb_bytes b), b1)" "rb_wf b1"
    "rb_bytes b1 = drop n (rb_bytes b)"
    using read_loop_bytes [OF "3.prems"(1), of n "[]"] by (auto simp: async_ring_buffer_read_def)
  from "3.prems"(2) obtain o1 where o1: "rb_run es b1 = Some (o1, b')" and out: "out = take n (rb_bytes b) @ o1"
    by (auto simp: b1(1))
  have "rb_wf b' \<and> rb_bytes b1 @ rb_written es = o1 @ rb_bytes b'"
    by (rule "3.IH" [OF b1(1) refl b1(2) o1])
  then have "rb_wf b'" and "drop n (rb_bytes b) @ rb_written es = o1 @ rb_bytes b'"
    by (simp_all add: b1(3))
  then have "take n (rb_bytes b) @ drop n (rb_bytes b) @ rb_written es = out @ rb_bytes b'"
    by (simp add: out)
  with \<open>rb_wf b'\<close> show ?case
    by (simp only: append_assoc [symmetric] append_take_drop_id rb_written.simps simp_thms)
qed

section \<open>Properties\<close>

text \<open>
  C5. The ring buffer is a byte queue: whatever reads and writes are interleaved, the bytes read
  so far followed by the bytes still stored are the bytes that were stored at the start followed
  by the bytes written, and the positions stay consistent with the length.
\<close>

theorem ring_buffer_stream:
  assumes "rb_wf b" and "rb_run es b = Some (out, b')"
  shows "rb_wf b' \<and> rb_bytes b @ rb_written es = out @ rb_bytes b'"
  using assms by (rule rb_run_stream)

theorem ring_buffer_stream_witness:
  "\<exists>b'. rb_run [Rb_write [1, 2, 3], Rb_read 2, Rb_write [4]] (init_buffer [0, 0, 0]) = Some ([1, 2], b') \<and>
     rb_bytes b' = [3, 4]"
proof -
  have wf: "rb_wf (init_buffer [0, 0, 0])" by (simp add: rb_wf_def init_buffer_def)
  obtain b' where b': "rb_run [Rb_write [1, 2, 3], Rb_read 2, Rb_write [4]] (init_buffer [0, 0, 0]) = Some ([1, 2], b')"
    by (simp add: init_buffer_def async_ring_buffer_write_len_def async_ring_buffer_write_move_def
        store_bytes_def async_ring_buffer_read_def read_loop.simps read_count_def read_step_def Let_def
        async_ring_buffer_read_len_def)
  from ring_buffer_stream [OF wf this] b' show ?thesis by (auto simp: rb_bytes_def init_buffer_def)
qed

end
