(* ===== verification/Ops.thy ===== *)
theory Ops
  imports AsyncList
begin

text \<open>
  Asynchronous operations (\<open>struct _async_op\<close> and the \<open>ASYNC_*_OP\<close> macros of
  \<open>php_async.h\<close>). An operation is what a suspended fiber waits for: a status, a result, a
  callback that continues the fiber, and the queue it is linked into. Operations live in a
  store; queues (\<open>async_op_list\<close>) are embedded in other structures and are named by their
  address. The store is an extensible record, every component extends it by its own state.

  The callback of an operation switches to the fiber that waits for it. What that fiber does
  before control returns is code outside the component (in the end the user's PHP code), so
  the macros take it as the parameter \<open>run\<close>: \<open>run op w\<close> is the state after
  \<open>tmp->callback(tmp)\<close> returned. Nothing is assumed about it in the definitions.
\<close>

section \<open>Operations and their queues\<close>

datatype async_status =
    ASYNC_STATUS_PENDING
  | ASYNC_STATUS_RUNNING
  | ASYNC_STATUS_RESOLVED
  | ASYNC_STATUS_FAILED

text \<open>The callbacks that are stored in operations, and the cancel callbacks.\<close>

datatype op_callback =
    Continue_op_task
  | Continue_op_root
  | Continue_select_cb
  | Continue_send_cb
  | Combine_cb
  | Transform_cb
  | Finish_async_write

datatype op_cancel = Cancel_op | Cancel_op_root

text \<open>Addresses of the \<open>async_op_list\<close> fields: the owning structure and its handle.\<close>

datatype list_addr =
    SchedOperations
  | TaskOps nat
  | AwaitableOps nat
  | DeferredOps nat
  | ChanSenders nat
  | ChanReceivers nat
  | CondWaiting nat
  | SignalOps nat
  | TimerOps nat
  | TimeoutOps nat
  | PollReads nat
  | PollWrites nat
  | MonitorOps nat
  | StreamWrites nat
  | StreamFlush nat
  | ServerAccepts nat
  | PipeAccepts nat
  | UdpReceivers nat
  | UdpSenders nat
  | UdpFlush nat
  | ProcessObservers nat
  | ThreadJoin nat
  | ConsoleWrites nat
  | XpTcpOps nat
  | XpSenders nat
  | XpReceivers nat
  | XpAccepts nat

type_synonym u8 = "8 word"

abbreviation ASYNC_OP_FLAG_CANCELLED :: u8 where "ASYNC_OP_FLAG_CANCELLED \<equiv> 1"
abbreviation ASYNC_OP_FLAG_DEFER :: u8 where "ASYNC_OP_FLAG_DEFER \<equiv> 2"
abbreviation ASYNC_OP_FLAG_ATOMIC :: u8 where "ASYNC_OP_FLAG_ATOMIC \<equiv> 4"

record async_op =
  op_status :: async_status
  op_callback :: "op_callback option"
  op_cancel :: "op_cancel option"
  op_arg :: nat
  op_result :: zval
  op_flags :: u8
  op_list :: "list_addr option"

record op_store =
  ops :: "opid \<Rightarrow> async_op"
  queues :: "list_addr \<Rightarrow> opid list"
  next_opid :: opid

type_synonym 'a resume = "opid \<Rightarrow> 'a op_store_scheme \<Rightarrow> 'a op_store_scheme"

text \<open>A zeroed operation, as \<open>ecalloc\<close> returns it.\<close>

definition zero_op :: async_op where
  "zero_op = \<lparr>op_status = ASYNC_STATUS_PENDING, op_callback = None, op_cancel = None,
     op_arg = 0, op_result = IS_UNDEF, op_flags = 0, op_list = None\<rparr>"

definition upd_op :: "opid \<Rightarrow> (async_op \<Rightarrow> async_op) \<Rightarrow> 'a op_store_scheme \<Rightarrow> 'a op_store_scheme" where
  "upd_op op f w = w\<lparr>ops := (ops w)(op := f (ops w op))\<rparr>"

definition upd_queue :: "list_addr \<Rightarrow> (opid list \<Rightarrow> opid list) \<Rightarrow> 'a op_store_scheme \<Rightarrow> 'a op_store_scheme" where
  "upd_queue q f w = w\<lparr>queues := (queues w)(q := f (queues w q))\<rparr>"

lemma upd_op_sel [simp, store_simps]:
  "ops (upd_op op f w) = (ops w)(op := f (ops w op))"
  "queues (upd_op op f w) = queues w" "next_opid (upd_op op f w) = next_opid w"
  "op_store.more (upd_op op f w) = op_store.more w"
  by (simp_all add: upd_op_def)

lemma upd_queue_sel [simp, store_simps]:
  "ops (upd_queue q f w) = ops w"
  "queues (upd_queue q f w) = (queues w)(q := f (queues w q))"
  "next_opid (upd_queue q f w) = next_opid w"
  "op_store.more (upd_queue q f w) = op_store.more w"
  by (simp_all add: upd_queue_def)

section \<open>The operation macros\<close>

definition async_alloc_op :: "'a op_store_scheme \<Rightarrow> opid \<times> 'a op_store_scheme" where
  "async_alloc_op w = (next_opid w, w\<lparr>ops := (ops w)(next_opid w := zero_op), next_opid := Suc (next_opid w)\<rparr>)"

text \<open>The common prologue \<open>if (tmp->list != NULL) { ASYNC_LIST_REMOVE; tmp->list = NULL; }\<close>\<close>

definition unlink_op :: "opid \<Rightarrow> 'a op_store_scheme \<Rightarrow> 'a op_store_scheme" where
  "unlink_op op w = (case op_list (ops w op) of
     None \<Rightarrow> w
   | Some q \<Rightarrow> upd_op op (\<lambda>x. x\<lparr>op_list := None\<rparr>) (upd_queue q (remove1 op) w))"

definition call_callback :: "'a resume \<Rightarrow> opid \<Rightarrow> 'a op_store_scheme \<Rightarrow> 'a op_store_scheme" where
  "call_callback run op w = (case op_callback (ops w op) of None \<Rightarrow> w | Some _ \<Rightarrow> run op w)"

definition async_finish_op :: "'a resume \<Rightarrow> opid \<Rightarrow> 'a op_store_scheme \<Rightarrow> 'a op_store_scheme" where
  "async_finish_op run op w =
     call_callback run op (upd_op op (\<lambda>x. x\<lparr>op_status := ASYNC_STATUS_RESOLVED\<rparr>) (unlink_op op w))"

definition async_resolve_op :: "'a resume \<Rightarrow> opid \<Rightarrow> zval \<Rightarrow> 'a op_store_scheme \<Rightarrow> 'a op_store_scheme" where
  "async_resolve_op run op v w =
     call_callback run op
       (upd_op op (\<lambda>x. x\<lparr>op_result := v, op_status := ASYNC_STATUS_RESOLVED\<rparr>) (unlink_op op w))"

definition async_fail_op :: "'a resume \<Rightarrow> opid \<Rightarrow> zval \<Rightarrow> 'a op_store_scheme \<Rightarrow> 'a op_store_scheme" where
  "async_fail_op run op err w =
     call_callback run op
       (upd_op op (\<lambda>x. x\<lparr>op_result := err, op_status := ASYNC_STATUS_FAILED\<rparr>) (unlink_op op w))"

definition async_append_op :: "list_addr \<Rightarrow> opid \<Rightarrow> 'a op_store_scheme \<Rightarrow> 'a op_store_scheme" where
  "async_append_op q op w =
     upd_queue q (list_append op) (upd_op op (\<lambda>x. x\<lparr>op_list := Some q\<rparr>) w)"

definition async_prepend_op :: "list_addr \<Rightarrow> opid \<Rightarrow> 'a op_store_scheme \<Rightarrow> 'a op_store_scheme" where
  "async_prepend_op q op w =
     upd_queue q ((#) op) (upd_op op (\<lambda>x. x\<lparr>op_list := Some q\<rparr>) w)"

text \<open>\<open>ASYNC_NEXT_OP\<close> dereferences the extracted node: \<open>None\<close> is the NULL dereference.\<close>

definition async_next_op :: "list_addr \<Rightarrow> 'a op_store_scheme \<Rightarrow> (opid \<times> 'a op_store_scheme) option" where
  "async_next_op q w = (case list_extract_first (queues w q) of
     (None, _) \<Rightarrow> None
   | (Some op, rest) \<Rightarrow>
       Some (op, upd_op op (\<lambda>x. x\<lparr>op_list := None\<rparr>) (upd_queue q (\<lambda>_. rest) w)))"

definition async_reset_op :: "opid \<Rightarrow> 'a op_store_scheme \<Rightarrow> 'a op_store_scheme" where
  "async_reset_op op w =
     unlink_op op (upd_op op (\<lambda>x. x\<lparr>op_status := ASYNC_STATUS_PENDING, op_flags := 0, op_result := IS_UNDEF\<rparr>) w)"

definition async_free_op :: "opid \<Rightarrow> 'a op_store_scheme \<Rightarrow> 'a op_store_scheme" where
  "async_free_op op w = upd_op op (\<lambda>x. x\<lparr>op_result := IS_UNDEF\<rparr>) (unlink_op op w)"

lemmas op_macro_defs = async_finish_op_def async_resolve_op_def async_fail_op_def
  async_append_op_def async_prepend_op_def async_reset_op_def async_free_op_def

section \<open>Well-formed stores\<close>

text \<open>
  A queue holds an operation at most once, and an operation is in a queue exactly when its
  \<open>list\<close> field says so; operations that are not allocated yet are in no queue.
\<close>

definition ops_wf :: "'a op_store_scheme \<Rightarrow> bool" where
  "ops_wf w \<longleftrightarrow>
     (\<forall>q. distinct (queues w q)) \<and>
     (\<forall>q op. op \<in> set (queues w q) \<longleftrightarrow> op_list (ops w op) = Some q) \<and>
     (\<forall>op\<ge>next_opid w. op_list (ops w op) = None)"

lemma ops_wfI [intro?]:
  assumes "\<And>q. distinct (queues w q)"
    and "\<And>q op. op \<in> set (queues w q) \<longleftrightarrow> op_list (ops w op) = Some q"
    and "\<And>op. next_opid w \<le> op \<Longrightarrow> op_list (ops w op) = None"
  shows "ops_wf w"
  using assms by (simp add: ops_wf_def)

lemma ops_wf_distinct: "ops_wf w \<Longrightarrow> distinct (queues w q)"
  and ops_wf_mem: "ops_wf w \<Longrightarrow> op \<in> set (queues w q) \<longleftrightarrow> op_list (ops w op) = Some q"
  and ops_wf_fresh: "ops_wf w \<Longrightarrow> next_opid w \<le> op \<Longrightarrow> op_list (ops w op) = None"
  by (simp_all add: ops_wf_def)

lemma ops_wf_one_queue:
  "ops_wf w \<Longrightarrow> op \<in> set (queues w q) \<Longrightarrow> op \<in> set (queues w q') \<Longrightarrow> q = q'"
  by (simp add: ops_wf_mem)

lemma ops_wf_fresh_notin: "ops_wf w \<Longrightarrow> next_opid w \<notin> set (queues w q)"
  by (simp add: ops_wf_mem ops_wf_fresh)

text \<open>The invariant reads the queues and the \<open>list\<close> fields only.\<close>

lemma ops_wf_cong:
  assumes "queues w' = queues w" and "\<And>op. op_list (ops w' op) = op_list (ops w op)"
    and "next_opid w' = next_opid w"
  shows "ops_wf w' = ops_wf w"
  by (simp add: ops_wf_def assms)

lemma ops_wf_upd_op [inv_intros]:
  assumes "ops_wf w" and "\<And>x. op_list (f x) = op_list x"
  shows "ops_wf (upd_op op f w)"
  using assms by (subst ops_wf_cong [where w = w]) auto

lemma ops_wf_alloc [inv_intros]: "ops_wf w \<Longrightarrow> ops_wf (snd (async_alloc_op w))"
  by (auto simp: ops_wf_def async_alloc_op_def zero_op_def)

lemma ops_wf_unlink [inv_intros]:
  assumes "ops_wf w"
  shows "ops_wf (unlink_op op w)"
proof (cases "op_list (ops w op)")
  case None
  with assms show ?thesis by (simp add: unlink_op_def)
next
  case (Some q)
  with assms have "op < next_opid w" by (metis linorder_not_le ops_wf_fresh option.distinct(1))
  with Some assms show ?thesis
    by (auto simp: unlink_op_def ops_wf_def set_remove1_distinct)
qed

lemma ops_wf_append [inv_intros]:
  assumes "ops_wf w" and "op_list (ops w op) = None" and "op < next_opid w"
  shows "ops_wf (async_append_op q op w)"
  using assms by (auto simp: async_append_op_def ops_wf_def)

lemma ops_wf_prepend [inv_intros]:
  assumes "ops_wf w" and "op_list (ops w op) = None" and "op < next_opid w"
  shows "ops_wf (async_prepend_op q op w)"
  using assms by (auto simp: async_prepend_op_def ops_wf_def)

lemma ops_wf_next [inv_intros]:
  assumes "ops_wf w" and "async_next_op q w = Some (op, w')"
  shows "ops_wf w'"
proof -
  from assms(2) obtain rest where q: "queues w q = op # rest"
    and w': "w' = upd_op op (\<lambda>x. x\<lparr>op_list := None\<rparr>) (upd_queue q (\<lambda>_. rest) w)"
    by (cases "queues w q") (auto simp: async_next_op_def)
  have d: "distinct (op # rest)" and m: "op_list (ops w op) = Some q"
    using assms(1) q by (metis ops_wf_distinct, metis ops_wf_mem list.set_intros(1))
  show ?thesis
  proof
    show "distinct (queues w' q')" for q'
      using d assms(1) w' by (simp add: ops_wf_distinct)
    show "x \<in> set (queues w' q') \<longleftrightarrow> op_list (ops w' x) = Some q'" for q' x
      using d m w' ops_wf_mem [OF assms(1), of x q'] q by auto
    show "op_list (ops w' x) = None" if "next_opid w' \<le> x" for x
      using that w' ops_wf_fresh [OF assms(1), of x] by simp
  qed
qed

text \<open>What the macros do to a well-formed store.\<close>

lemma async_next_op_Cons:
  "queues w q = op # rest \<Longrightarrow>
   async_next_op q w = Some (op, upd_op op (\<lambda>x. x\<lparr>op_list := None\<rparr>) (upd_queue q (\<lambda>_. rest) w))"
  by (simp add: async_next_op_def)

lemma async_next_op_None: "async_next_op q w = None \<longleftrightarrow> queues w q = []"
  by (cases "queues w q") (simp_all add: async_next_op_def)

lemma async_next_op_Some:
  assumes "async_next_op q w = Some (op, w')"
  shows "queues w q = op # queues w' q" and "\<And>q'. q' \<noteq> q \<Longrightarrow> queues w' q' = queues w q'"
    and "op_list (ops w' op) = None" and "\<And>x. x \<noteq> op \<Longrightarrow> ops w' x = ops w x"
    and "next_opid w' = next_opid w" and "op_store.more w' = op_store.more w"
    and "op_status (ops w' op) = op_status (ops w op)"
    and "op_callback (ops w' op) = op_callback (ops w op)"
    and "op_result (ops w' op) = op_result (ops w op)"
  using assms by (cases "queues w q"; auto simp: async_next_op_def)+

lemma unlink_op_None [simp]: "op_list (ops w op) = None \<Longrightarrow> unlink_op op w = w"
  by (simp add: unlink_op_def)

lemma unlink_op_sel [simp, store_simps]:
  "op_list (ops (unlink_op op w) op) = None" "next_opid (unlink_op op w) = next_opid w"
  "op_store.more (unlink_op op w) = op_store.more w"
  "op_status (ops (unlink_op op w) x) = op_status (ops w x)"
  "op_callback (ops (unlink_op op w) x) = op_callback (ops w x)"
  "op_result (ops (unlink_op op w) x) = op_result (ops w x)"
  "op_flags (ops (unlink_op op w) x) = op_flags (ops w x)"
  "op_arg (ops (unlink_op op w) x) = op_arg (ops w x)"
  by (auto simp: unlink_op_def split: option.splits)

lemma unlink_op_queues:
  "ops_wf w \<Longrightarrow> queues (unlink_op op w) q = remove1 op (queues w q)"
proof (cases "op_list (ops w op)")
  case None
  assume "ops_wf w"
  with None have "op \<notin> set (queues w q)" by (simp add: ops_wf_mem)
  with None show ?thesis by (simp add: remove1_idem)
next
  case (Some q')
  assume wf: "ops_wf w"
  show ?thesis
  proof (cases "q = q'")
    case True
    with Some show ?thesis by (simp add: unlink_op_def)
  next
    case False
    with Some wf have "op \<notin> set (queues w q)" by (auto simp: ops_wf_mem)
    with False Some show ?thesis by (simp add: unlink_op_def remove1_idem)
  qed
qed

lemma unlink_op_notin: "ops_wf w \<Longrightarrow> op \<notin> set (queues (unlink_op op w) q)"
  by (simp add: unlink_op_queues ops_wf_distinct)

section \<open>The resume interface\<close>

text \<open>
  What a component needs to know about the code that runs in a fiber it wakes up: it keeps
  the component's invariant. The components' lemmas are proved from that alone; each
  component instantiates the interface with its own resumption code.
\<close>

locale resumes =
  fixes run :: "opid \<Rightarrow> 'a op_store_scheme \<Rightarrow> 'a op_store_scheme"
    and inv :: "'a op_store_scheme \<Rightarrow> bool"
  assumes run_inv: "inv w \<Longrightarrow> inv (run op w)"
    and inv_wf: "inv w \<Longrightarrow> ops_wf w"
    and inv_status: "inv w \<Longrightarrow> inv (upd_op op (\<lambda>x. x\<lparr>op_status := s\<rparr>) w)"
    and inv_result: "inv w \<Longrightarrow> inv (upd_op op (\<lambda>x. x\<lparr>op_result := v, op_status := s\<rparr>) w)"
    and inv_unlink: "inv w \<Longrightarrow> inv (unlink_op op w)"
begin

lemma inv_callback: "inv w \<Longrightarrow> inv (call_callback run op w)"
  by (simp add: call_callback_def run_inv split: option.split)

lemma inv_finish: "inv w \<Longrightarrow> inv (async_finish_op run op w)"
  by (simp add: async_finish_op_def inv_callback inv_status inv_unlink)

lemma inv_resolve: "inv w \<Longrightarrow> inv (async_resolve_op run op v w)"
  by (simp add: async_resolve_op_def inv_callback inv_result inv_unlink)

lemma inv_fail: "inv w \<Longrightarrow> inv (async_fail_op run op v w)"
  by (simp add: async_fail_op_def inv_callback inv_result inv_unlink)

lemmas inv_ops = inv_callback inv_finish inv_resolve inv_fail inv_unlink

end

end
