(* ===== verification/Context.thy ===== *)
theory Context
  imports Ops
begin

text \<open>
  Execution contexts, context variables and contextual cancellation (\<open>context.c\<close>). A context
  is an immutable chain node: parent, at most one variable binding, and the cancellation it
  is subject to. A cancellation is shared (reference counted) by contexts and cancellation
  handlers; cancelling it calls every registered callback once, in registration order, and
  cancels the cancellations chained to it.

  PHP's output layer (\<open>output.handler\<close>) is not modelled; \<open>output.context\<close>, the
  context that owns the output buffers, is.
\<close>

section \<open>State\<close>

type_synonym u32 = "32 word"

abbreviation ASYNC_CONTEXT_FLAG_BACKGROUND :: u8 where "ASYNC_CONTEXT_FLAG_BACKGROUND \<equiv> 1"
abbreviation CANCELLATION_TRIGGERED :: u8 where "CANCELLATION_TRIGGERED \<equiv> 1"
abbreviation CANCELLATION_TIMEOUT :: u8 where "CANCELLATION_TIMEOUT \<equiv> 2"

text \<open>
  The registered \<open>async_cancel_cb\<close>s, named by the structure they are embedded in: an
  operation, the chain node of another cancellation, a deferred, or the shutdown callback of a
  component.
\<close>

datatype component =
    CTimer | CTimeout | CPoll | CSignal | CMonitor | CCondition | CPollEvent | CTimerEvent
  | CSocket | CServer | CPipe | CPipeServer | CUdpSocket | CProcess | CThread | CDeferredState | CChannel
  | CReadablePipe | CWritablePipe

datatype cancel_cb =
    OpCb opid
  | ChainCb nat
  | DeferredCb nat
  | ShutdownCb component nat

record async_context =
  x_parent :: "nat option"
  x_flags :: u8
  x_var :: "nat option"
  x_value :: zval
  x_cancel :: "nat option"
  x_output :: nat
  x_live :: bool

record async_context_cancellation =
  c_refcount :: u32
  c_flags :: u8
  c_error :: zval
  c_callbacks :: "cancel_cb list"
  c_timer :: "nat option"
  c_closing :: bool
  c_freed :: bool

text \<open>
  The state the component adds: the context and cancellation structures by address, the
  cancellation handler objects (\<open>Some c\<close> while alive), the module globals that name
  contexts, and the number of references the timeouts hold on the scheduler object.
\<close>

record ctx_store = op_store +
  contexts :: "nat \<Rightarrow> async_context"
  next_ctx :: nat
  cancels :: "nat \<Rightarrow> async_context_cancellation"
  next_cancel :: nat
  handlers :: "nat \<Rightarrow> nat option"
  next_handler :: nat
  g_context :: nat
  g_foreground :: nat
  g_background :: nat
  scheduler_refs :: nat

definition upd_cancel :: "nat \<Rightarrow> (async_context_cancellation \<Rightarrow> async_context_cancellation) \<Rightarrow>
    'a ctx_store_scheme \<Rightarrow> 'a ctx_store_scheme" where
  "upd_cancel c f w = w\<lparr>cancels := (cancels w)(c := f (cancels w c))\<rparr>"

lemma upd_cancel_sel [simp, store_simps]:
  "cancels (upd_cancel c f w) = (cancels w)(c := f (cancels w c))"
  "contexts (upd_cancel c f w) = contexts w" "next_ctx (upd_cancel c f w) = next_ctx w"
  "next_cancel (upd_cancel c f w) = next_cancel w" "handlers (upd_cancel c f w) = handlers w"
  "next_handler (upd_cancel c f w) = next_handler w" "g_context (upd_cancel c f w) = g_context w"
  "g_background (upd_cancel c f w) = g_background w" "g_foreground (upd_cancel c f w) = g_foreground w"
  "scheduler_refs (upd_cancel c f w) = scheduler_refs w"
  "ops (upd_cancel c f w) = ops w" "queues (upd_cancel c f w) = queues w"
  "next_opid (upd_cancel c f w) = next_opid w"
  by (simp_all add: upd_cancel_def)

section \<open>Creating contexts\<close>

definition triggered :: "async_context_cancellation \<Rightarrow> bool" where
  "triggered c = has_flag (c_flags c) CANCELLATION_TRIGGERED"

definition init_cancellation :: async_context_cancellation where
  "init_cancellation = \<lparr>c_refcount = 0, c_flags = 0, c_error = IS_UNDEF, c_callbacks = [],
     c_timer = None, c_closing = False, c_freed = False\<rparr>"

text \<open>A timeout takes a reference on the scheduler (\<open>async_task_scheduler_ref\<close>).\<close>

definition init_timeout_cancellation :: async_context_cancellation where
  "init_timeout_cancellation = init_cancellation\<lparr>c_flags := CANCELLATION_TIMEOUT\<rparr>"

definition async_context_object_create ::
  "nat option \<Rightarrow> zval option \<Rightarrow> async_context" where
  "async_context_object_create var val = \<lparr>x_parent = None, x_flags = 0, x_var = var,
     x_value = (case val of None \<Rightarrow> IS_NULL | Some v \<Rightarrow> v), x_cancel = None, x_output = 0, x_live = True\<rparr>"

definition alloc_ctx :: "async_context \<Rightarrow> 'a ctx_store_scheme \<Rightarrow> nat \<times> 'a ctx_store_scheme" where
  "alloc_ctx x w = (next_ctx w,
     w\<lparr>contexts := (contexts w)(next_ctx w := x), next_ctx := Suc (next_ctx w)\<rparr>)"

definition alloc_cancel ::
  "async_context_cancellation \<Rightarrow> 'a ctx_store_scheme \<Rightarrow> nat \<times> 'a ctx_store_scheme" where
  "alloc_cancel c w = (next_cancel w,
     w\<lparr>cancels := (cancels w)(next_cancel w := c), next_cancel := Suc (next_cancel w)\<rparr>)"

definition ref_cancel :: "nat \<Rightarrow> 'a ctx_store_scheme \<Rightarrow> 'a ctx_store_scheme" where
  "ref_cancel c w = upd_cancel c (\<lambda>x. x\<lparr>c_refcount := c_refcount x + 1\<rparr>) w"

text \<open>\<open>propagate_cancellation\<close>: the new context \<open>to\<close> shares the cancellation of \<open>from\<close>.\<close>

definition propagate_cancellation :: "nat \<Rightarrow> nat \<Rightarrow> 'a ctx_store_scheme \<Rightarrow> 'a ctx_store_scheme" where
  "propagate_cancellation from_ctx to w =
     (let w1 = w\<lparr>contexts := (contexts w)(to := (contexts w to)\<lparr>x_cancel := x_cancel (contexts w from_ctx)\<rparr>)\<rparr>
      in case x_cancel (contexts w from_ctx) of None \<Rightarrow> w1 | Some c \<Rightarrow> ref_cancel c w1)"

definition create_cancellable_context :: "nat \<Rightarrow> nat \<Rightarrow> 'a ctx_store_scheme \<Rightarrow> nat \<times> 'a ctx_store_scheme" where
  "create_cancellable_context c parent w =
     (let p = contexts w parent;
          (x, w1) = alloc_ctx ((async_context_object_create None None)
            \<lparr>x_parent := Some parent, x_flags := x_flags p, x_output := x_output p, x_cancel := Some c\<rparr>) w;
          w2 = ref_cancel c w1
      in case x_cancel p of
           None \<Rightarrow> (x, w2)
         | Some pc \<Rightarrow>
             if triggered (cancels w2 pc)
             then (x, upd_cancel c (\<lambda>y. y\<lparr>c_flags := set_flag (c_flags y) CANCELLATION_TRIGGERED,
                                          c_error := c_error (cancels w2 pc)\<rparr>) w2)
             else (x, upd_cancel pc (\<lambda>y. y\<lparr>c_callbacks := c_callbacks y @ [ChainCb c]\<rparr>) w2))"

definition context_with :: "nat \<Rightarrow> nat \<Rightarrow> zval \<Rightarrow> 'a ctx_store_scheme \<Rightarrow> nat \<times> 'a ctx_store_scheme" where
  "context_with current var val w =
     (let (x, w1) = alloc_ctx ((async_context_object_create (Some var) (Some val))
            \<lparr>x_parent := Some current, x_flags := x_flags (contexts w current),
             x_output := x_output (contexts w current)\<rparr>) w
      in (x, propagate_cancellation current x w1))"

definition context_with_isolated_output :: "nat \<Rightarrow> 'a ctx_store_scheme \<Rightarrow> nat \<times> 'a ctx_store_scheme" where
  "context_with_isolated_output current w =
     (let (x, w1) = alloc_ctx ((async_context_object_create None None)
            \<lparr>x_parent := Some current, x_flags := x_flags (contexts w current),
             x_output := next_ctx w\<rparr>) w
      in (x, propagate_cancellation current x w1))"

definition context_with_timeout :: "nat \<Rightarrow> nat \<Rightarrow> 'a ctx_store_scheme \<Rightarrow> nat \<times> 'a ctx_store_scheme" where
  "context_with_timeout parent timeout w =
     (let (c, w1) = alloc_cancel init_timeout_cancellation (w\<lparr>scheduler_refs := scheduler_refs w + 1\<rparr>);
          (x, w2) = create_cancellable_context c parent w1
      in (x, upd_cancel c (\<lambda>y. y\<lparr>c_timer := Some timeout\<rparr>) w2))"

text \<open>\<open>withCancel\<close> also returns the handler object that holds its own reference.\<close>

definition async_cancellation_handler_object_create ::
  "nat \<Rightarrow> 'a ctx_store_scheme \<Rightarrow> nat \<times> 'a ctx_store_scheme" where
  "async_cancellation_handler_object_create c w =
     (let w1 = ref_cancel c w
      in (next_handler w1, w1\<lparr>handlers := (handlers w1)(next_handler w1 := Some c),
                              next_handler := Suc (next_handler w1)\<rparr>))"

definition context_with_cancel :: "nat \<Rightarrow> 'a ctx_store_scheme \<Rightarrow> nat \<times> nat \<times> 'a ctx_store_scheme" where
  "context_with_cancel parent w =
     (let (c, w1) = alloc_cancel init_cancellation w;
          (x, w2) = create_cancellable_context c parent w1;
          (h, w3) = async_cancellation_handler_object_create c w2
      in (x, h, w3))"

definition context_shield :: "nat \<Rightarrow> 'a ctx_store_scheme \<Rightarrow> nat \<times> 'a ctx_store_scheme" where
  "context_shield prev w = alloc_ctx ((async_context_object_create None None)
     \<lparr>x_parent := Some prev, x_flags := x_flags (contexts w prev), x_output := x_output (contexts w prev)\<rparr>) w"

text \<open>Module startup: the foreground root context and the background root context.\<close>

definition async_context_init :: "'a ctx_store_scheme \<Rightarrow> 'a ctx_store_scheme" where
  "async_context_init w =
     (let (fg, w1) = alloc_ctx ((async_context_object_create None None)\<lparr>x_output := next_ctx w\<rparr>) w;
          w2 = w1\<lparr>g_context := fg, g_foreground := fg\<rparr>;
          (bg, w3) = alloc_ctx ((async_context_object_create None None)
            \<lparr>x_flags := ASYNC_CONTEXT_FLAG_BACKGROUND, x_output := g_foreground w2\<rparr>) w2
      in w3\<lparr>g_background := bg\<rparr>)"

section \<open>Releasing\<close>

definition release_cancellation :: "nat \<Rightarrow> 'a ctx_store_scheme \<Rightarrow> 'a ctx_store_scheme" where
  "release_cancellation c w =
     (let w1 = upd_cancel c (\<lambda>x. x\<lparr>c_refcount := c_refcount x - 1\<rparr>) w
      in if c_refcount (cancels w1 c) \<noteq> 0 then w1
         else
           let w2 = (if triggered (cancels w1 c) then upd_cancel c (\<lambda>x. x\<lparr>c_error := IS_UNDEF\<rparr>) w1 else w1)
           in if has_flag (c_flags (cancels w2 c)) CANCELLATION_TIMEOUT
              then (if c_closing (cancels w2 c) then w2
                    else upd_cancel c (\<lambda>x. x\<lparr>c_closing := True, c_timer := None\<rparr>) w2)
              else upd_cancel c (\<lambda>x. x\<lparr>c_freed := True\<rparr>) w2)"

text \<open>The close callback of the timer, run by the event loop after \<open>uv_close\<close>.\<close>

definition close_timeout :: "nat \<Rightarrow> 'a ctx_store_scheme \<Rightarrow> 'a ctx_store_scheme" where
  "close_timeout c w =
     upd_cancel c (\<lambda>x. x\<lparr>c_freed := True\<rparr>) (w\<lparr>scheduler_refs := scheduler_refs w - 1\<rparr>)"

definition async_context_object_destroy :: "nat \<Rightarrow> 'a ctx_store_scheme \<Rightarrow> 'a ctx_store_scheme" where
  "async_context_object_destroy x w =
     (let w1 = w\<lparr>contexts := (contexts w)(x := (contexts w x)\<lparr>x_live := False\<rparr>)\<rparr>
      in case x_cancel (contexts w x) of None \<Rightarrow> w1 | Some c \<Rightarrow> release_cancellation c w1)"

definition async_cancellation_handler_object_destroy :: "nat \<Rightarrow> 'a ctx_store_scheme \<Rightarrow> 'a ctx_store_scheme" where
  "async_cancellation_handler_object_destroy h w = (case handlers w h of
     None \<Rightarrow> w
   | Some c \<Rightarrow> release_cancellation c (w\<lparr>handlers := (handlers w)(h := None)\<rparr>))"

section \<open>Cancelling\<close>

definition trigger_cancel :: "nat \<Rightarrow> zval \<Rightarrow> 'a ctx_store_scheme \<Rightarrow> 'a ctx_store_scheme" where
  "trigger_cancel c err w =
     upd_cancel c (\<lambda>x. x\<lparr>c_flags := set_flag (c_flags x) CANCELLATION_TRIGGERED, c_error := err\<rparr>) w"

definition pop_callback :: "nat \<Rightarrow> 'a ctx_store_scheme \<Rightarrow> 'a ctx_store_scheme" where
  "pop_callback c w = upd_cancel c (\<lambda>x. x\<lparr>c_callbacks := tl (c_callbacks x)\<rparr>) w"

text \<open>
  The callback loop. \<open>call\<close> runs the callbacks other components registered (\<open>cancel_op\<close>
  of an operation, the shutdown of a component); the chain callback is
  \<open>chain_cancellation\<close> itself, which triggers the child and runs the same loop on it. The
  error is passed as a pointer to the \<open>error\<close> field of the cancellation the loop was started
  for (\<open>root\<close>), so it is read when a callback is called. What is called may register further callbacks, so the loop is a partial function.
\<close>

partial_function (option) run_cancel_callbacks ::
  "(cancel_cb \<Rightarrow> zval \<Rightarrow> 'a ctx_store_scheme \<Rightarrow> 'a ctx_store_scheme) \<Rightarrow> nat \<Rightarrow> nat \<Rightarrow>
   'a ctx_store_scheme \<Rightarrow> 'a ctx_store_scheme option" where
  "run_cancel_callbacks call root c w = (case c_callbacks (cancels w c) of
     [] \<Rightarrow> Some w
   | cb # _ \<Rightarrow> (case cb of
        ChainCb c' \<Rightarrow> Option.bind
          (run_cancel_callbacks call root c'
             (trigger_cancel c' (c_error (cancels w root)) (pop_callback c w)))
          (\<lambda>w'. run_cancel_callbacks call root c w')
      | _ \<Rightarrow> run_cancel_callbacks call root c
               (call cb (c_error (cancels w root)) (pop_callback c w))))"

definition chain_cancellation ::
  "(cancel_cb \<Rightarrow> zval \<Rightarrow> 'a ctx_store_scheme \<Rightarrow> 'a ctx_store_scheme) \<Rightarrow> nat \<Rightarrow> nat \<Rightarrow>
   'a ctx_store_scheme \<Rightarrow> 'a ctx_store_scheme option" where
  "chain_cancellation call root c w =
     run_cancel_callbacks call root c (trigger_cancel c (c_error (cancels w root)) w)"

definition timed_out ::
  "(cancel_cb \<Rightarrow> zval \<Rightarrow> 'a ctx_store_scheme \<Rightarrow> 'a ctx_store_scheme) \<Rightarrow> nat \<Rightarrow>
   'a ctx_store_scheme \<Rightarrow> 'a ctx_store_scheme option" where
  "timed_out call c w =
     (if triggered (cancels w c) then Some w
      else
        let err = IS_ERROR CancellationExceptionCe ''Context has timed out'' None
        in map_option (release_cancellation c)
             (run_cancel_callbacks call c c (trigger_cancel c err w)))"

definition cancellation_handler_invoke ::
  "(cancel_cb \<Rightarrow> zval \<Rightarrow> 'a ctx_store_scheme \<Rightarrow> 'a ctx_store_scheme) \<Rightarrow> nat \<Rightarrow> zval option \<Rightarrow>
   'a ctx_store_scheme \<Rightarrow> 'a ctx_store_scheme option" where
  "cancellation_handler_invoke call h err_arg w = (case handlers w h of
     None \<Rightarrow> None
   | Some c \<Rightarrow>
       if triggered (cancels w c) then Some w
       else
         let e = IS_ERROR CancellationExceptionCe ''Context has been cancelled'' None;
             err = (case err_arg of None \<Rightarrow> e | Some v \<Rightarrow> if v = IS_NULL then e else set_previous e v)
         in run_cancel_callbacks call c c (trigger_cancel c err w))"

section \<open>Reading\<close>

definition context_is_cancelled :: "nat \<Rightarrow> 'a ctx_store_scheme \<Rightarrow> bool" where
  "context_is_cancelled x w = (case x_cancel (contexts w x) of
     None \<Rightarrow> False | Some c \<Rightarrow> triggered (cancels w c))"

text \<open>\<open>throwIfCancelled\<close>: the error that is thrown, if any.\<close>

definition context_throw_if_cancelled :: "nat \<Rightarrow> 'a ctx_store_scheme \<Rightarrow> zval option" where
  "context_throw_if_cancelled x w = (case x_cancel (contexts w x) of
     None \<Rightarrow> None
   | Some c \<Rightarrow> if triggered (cancels w c) then Some (c_error (cancels w c)) else None)"

text \<open>
  \<open>ContextVar::get\<close> walks the parents; a method that does not return a value returns null.
\<close>

partial_function (option) context_var_lookup ::
  "nat \<Rightarrow> (nat \<Rightarrow> async_context) \<Rightarrow> nat \<Rightarrow> zval option" where
  "context_var_lookup var xs x =
     (if x_var (xs x) = Some var then Some (x_value (xs x))
      else (case x_parent (xs x) of None \<Rightarrow> Some IS_NULL | Some p \<Rightarrow> context_var_lookup var xs p))"

definition context_var_get :: "nat \<Rightarrow> nat option \<Rightarrow> 'a ctx_store_scheme \<Rightarrow> zval option" where
  "context_var_get var val w = context_var_lookup var (contexts w)
     (case val of None \<Rightarrow> g_context w | Some x \<Rightarrow> x)"

definition context_current :: "'a ctx_store_scheme \<Rightarrow> nat" where
  "context_current w = g_context w"

definition context_background :: "'a ctx_store_scheme \<Rightarrow> nat" where
  "context_background w = g_background w"

text \<open>
  \<open>Context::run\<close>: the callback is user code, which returns a value or bails out (PHP's
  \<open>exit\<close>); a bailout is handed to the scheduler (\<open>handle_exit\<close>).
\<close>

datatype call_result = Returned zval | Bailout

definition context_run ::
  "('a ctx_store_scheme \<Rightarrow> call_result \<times> 'a ctx_store_scheme) \<Rightarrow>
   ('a ctx_store_scheme \<Rightarrow> 'a ctx_store_scheme) \<Rightarrow> nat \<Rightarrow> 'a ctx_store_scheme \<Rightarrow>
   call_result \<times> 'a ctx_store_scheme" where
  "context_run call handle_exit x w =
     (let prev = g_context w;
          (r, w1) = call (w\<lparr>g_context := x\<rparr>);
          w2 = (case r of Returned _ \<Rightarrow> w1 | Bailout \<Rightarrow> handle_exit w1)
      in (r, w2\<lparr>g_context := prev\<rparr>))"

section \<open>Invariants\<close>

text \<open>
  Addresses are allocated upwards: parents are older than their children, a cancellation is
  older than the cancellations chained to it.
\<close>

definition chain_ok :: "'a ctx_store_scheme \<Rightarrow> bool" where
  "chain_ok w \<longleftrightarrow> (\<forall>c c'. ChainCb c' \<in> set (c_callbacks (cancels w c)) \<longrightarrow> c < c' \<and> c' < next_cancel w)"

definition ctx_wf :: "'a ctx_store_scheme \<Rightarrow> bool" where
  "ctx_wf w \<longleftrightarrow>
     (\<forall>x<next_ctx w. (\<forall>p. x_parent (contexts w x) = Some p \<longrightarrow> p < x) \<and>
        (\<forall>c. x_cancel (contexts w x) = Some c \<longrightarrow> c < next_cancel w)) \<and>
     (\<forall>h c. handlers w h = Some c \<longrightarrow> h < next_handler w \<and> c < next_cancel w) \<and>
     chain_ok w"

lemma chain_okD:
  "chain_ok w \<Longrightarrow> ChainCb c' \<in> set (c_callbacks (cancels w c)) \<Longrightarrow> c < c' \<and> c' < next_cancel w"
  by (auto simp: chain_ok_def)

lemma chain_ok_mono:
  assumes "chain_ok w" and "next_cancel w \<le> next_cancel w'"
    and "\<And>c. set (c_callbacks (cancels w' c)) \<subseteq> set (c_callbacks (cancels w c))"
  shows "chain_ok w'"
  unfolding chain_ok_def
proof (intro allI impI)
  fix c c' assume "ChainCb c' \<in> set (c_callbacks (cancels w' c))"
  with assms(3) have "ChainCb c' \<in> set (c_callbacks (cancels w c))" by blast
  with assms(1,2) show "c < c' \<and> c' < next_cancel w'" by (auto dest: chain_okD)
qed

lemma ctx_wf_chain: "ctx_wf w \<Longrightarrow> chain_ok w"
  by (simp add: ctx_wf_def)

section \<open>Cancellation reaches the descendants\<close>

text \<open>Reachability along the chain callbacks.\<close>

inductive chained :: "(nat \<Rightarrow> async_context_cancellation) \<Rightarrow> nat \<Rightarrow> nat \<Rightarrow> bool"
  for cs :: "nat \<Rightarrow> async_context_cancellation" where
  chained_refl: "chained cs c c"
| chained_step: "ChainCb c' \<in> set (c_callbacks (cs c)) \<Longrightarrow> chained cs c' d \<Longrightarrow> chained cs c d"

inductive_cases chained_cases: "chained cs c d"

lemma chained_le: "chained (cancels w) c d \<Longrightarrow> chain_ok w \<Longrightarrow> c \<le> d"
  by (induction rule: chained.induct) (auto dest: chain_okD)

lemma chained_mono:
  assumes "chained cs c d" and "\<And>c. set (c_callbacks (cs c)) \<subseteq> set (c_callbacks (cs' c))"
  shows "chained cs' c d"
  using assms(1)
proof induction
  case (chained_refl c)
  show ?case by (rule chained.chained_refl)
next
  case (chained_step c' c d)
  with assms(2) have "ChainCb c' \<in> set (c_callbacks (cs' c))" by blast
  then show ?case using chained_step.IH by (rule chained.chained_step)
qed

lemma chained_trans: "chained cs a b \<Longrightarrow> chained cs b c \<Longrightarrow> chained cs a c"
  by (induction rule: chained.induct) (auto intro: chained.chained_step)

text \<open>A path that avoids the nodes reached from \<open>c'\<close> survives the removal of their edges.\<close>

lemma chained_avoid:
  assumes "chained cs c d" and "\<not> chained cs c' d"
    and "\<And>e. chained cs e d \<Longrightarrow> \<not> chained cs c' e \<Longrightarrow>
           \<forall>e'. e' \<noteq> c' \<longrightarrow> ChainCb e' \<in> set (c_callbacks (cs e)) \<longrightarrow> ChainCb e' \<in> set (c_callbacks (cs' e))"
  shows "chained cs' c d"
  using assms
proof (induction rule: chained.induct)
  case (chained_refl c)
  show ?case by (rule chained.chained_refl)
next
  case (chained_step e c d)
  have cd: "chained cs c d" using chained_step.hyps by (rule chained.chained_step)
  have "e \<noteq> c'" using chained_step by blast
  moreover have "\<not> chained cs c' c" using cd chained_step.prems(1) chained_trans by blast
  ultimately have "ChainCb e \<in> set (c_callbacks (cs' c))"
    using chained_step.prems(2) [OF cd] chained_step.hyps(1) by blast
  moreover have "chained cs' e d" using chained_step by blast
  ultimately show ?case by (rule chained.chained_step)
qed

text \<open>What the loop leaves of a cancellation below the root.\<close>

definition cancelled_by :: "zval \<Rightarrow> async_context_cancellation \<Rightarrow> async_context_cancellation" where
  "cancelled_by err x = x\<lparr>c_flags := set_flag (c_flags x) CANCELLATION_TRIGGERED, c_error := err,
     c_callbacks := []\<rparr>"

lemma cancelled_by_sel [simp]:
  "triggered (cancelled_by err x)" "c_error (cancelled_by err x) = err"
  "c_callbacks (cancelled_by err x) = []" "c_refcount (cancelled_by err x) = c_refcount x"
  by (simp_all add: cancelled_by_def triggered_def)

lemma cancelled_by_idem [simp]:
  "cancelled_by err (cancelled_by err x) = cancelled_by err x"
  "cancelled_by err (x\<lparr>c_callbacks := ys\<rparr>) = cancelled_by err x"
  "cancelled_by err (x\<lparr>c_flags := set_flag (c_flags x) CANCELLATION_TRIGGERED, c_error := err\<rparr>) = cancelled_by err x"
  "(x\<lparr>c_flags := set_flag (c_flags x) CANCELLATION_TRIGGERED, c_error := err\<rparr>)\<lparr>c_callbacks := []\<rparr> = cancelled_by err x"
  by (simp_all add: cancelled_by_def)

definition callback_count :: "'a ctx_store_scheme \<Rightarrow> nat" where
  "callback_count w = (\<Sum>c<next_cancel w. length (c_callbacks (cancels w c)))"

lemma callback_count_le:
  assumes "next_cancel w' = next_cancel w"
    and "\<And>d. length (c_callbacks (cancels w' d)) \<le> length (c_callbacks (cancels w d))"
  shows "callback_count w' \<le> callback_count w"
  unfolding callback_count_def assms(1) by (rule sum_mono) (rule assms(2))

lemma callback_count_less:
  assumes "next_cancel w' = next_cancel w" and "c < next_cancel w"
    and "\<And>d. length (c_callbacks (cancels w' d)) \<le> length (c_callbacks (cancels w d))"
    and "length (c_callbacks (cancels w' c)) < length (c_callbacks (cancels w c))"
  shows "callback_count w' < callback_count w"
  unfolding callback_count_def assms(1)
  by (rule sum_strict_mono_ex1) (use assms in auto)

lemma chained_cong:
  assumes "\<And>e e'. ChainCb e' \<in> set (c_callbacks (cs e)) \<longleftrightarrow> ChainCb e' \<in> set (c_callbacks (cs' e))"
  shows "chained cs c d \<longleftrightarrow> chained cs' c d"
proof
  show "chained cs c d \<Longrightarrow> chained cs' c d"
    by (induction rule: chained.induct) (auto simp: assms intro: chained.intros)
  show "chained cs' c d \<Longrightarrow> chained cs c d"
    by (induction rule: chained.induct) (auto simp: assms [symmetric] intro: chained.intros)
qed

definition cancelled_from ::
  "nat \<Rightarrow> zval \<Rightarrow> (nat \<Rightarrow> async_context_cancellation) \<Rightarrow> nat \<Rightarrow> async_context_cancellation" where
  "cancelled_from c err cs d =
     (if d = c then (cs c)\<lparr>c_callbacks := []\<rparr>
      else if chained cs c d then cancelled_by err (cs d) else cs d)"

text \<open>
  The interface to the registered callbacks: calling one does not touch cancellations, keeps an
  invariant (\<open>inv\<close>), and has an effect (\<open>eff\<close>) that the later calls of the loop keep.
\<close>

locale cancel_calls =
  fixes call :: "cancel_cb \<Rightarrow> zval \<Rightarrow> 'a ctx_store_scheme \<Rightarrow> 'a ctx_store_scheme"
    and inv :: "zval \<Rightarrow> 'a ctx_store_scheme \<Rightarrow> bool"
    and eff :: "cancel_cb \<Rightarrow> zval \<Rightarrow> 'a ctx_store_scheme \<Rightarrow> bool"
  assumes call_cancels [simp]: "cancels (call cb err w) = cancels w"
    and call_next [simp]: "next_cancel (call cb err w) = next_cancel w"
    and inv_call: "inv err w \<Longrightarrow> inv err (call cb err w)"
    and inv_upd: "inv err (upd_cancel c f w) = inv err w"
    and call_eff: "inv err w \<Longrightarrow> eff cb err (call cb err w)"
    and eff_call: "eff cb err w \<Longrightarrow> eff cb err (call cb' err w)"
    and eff_upd: "eff cb err (upd_cancel c f w) = eff cb err w"
begin

text \<open>
  The loop ends, triggers exactly the cancellations chained below \<open>c\<close> with the same error,
  empties their callback lists, and has called every callback that was registered there.
\<close>

lemma run_cancel_callbacks_spec:
  assumes "chain_ok w" and "c < next_cancel w" and "root \<le> c" and "c_error (cancels w root) = err"
    and "inv err w"
  shows "\<exists>w'. run_cancel_callbacks call root c w = Some w' \<and> inv err w' \<and>
    cancels w' = cancelled_from c err (cancels w) \<and> next_cancel w' = next_cancel w \<and>
    (\<forall>cb. eff cb err w \<longrightarrow> eff cb err w') \<and>
    (\<forall>d cb. chained (cancels w) c d \<longrightarrow> cb \<in> set (c_callbacks (cancels w d)) \<longrightarrow>
        (\<forall>c'. cb \<noteq> ChainCb c') \<longrightarrow> eff cb err w')"
  using assms
proof (induction "callback_count w" arbitrary: w c rule: less_induct)
  case less
  show ?case
  proof (cases "c_callbacks (cancels w c)")
    case Nil
    have "chained (cancels w) c d \<longleftrightarrow> d = c" for d
      using Nil by (auto intro: chained_refl elim: chained_cases)
    with Nil less.prems(5) show ?thesis
      by (subst run_cancel_callbacks.simps) (auto simp: cancelled_from_def fun_eq_iff)
  next
    case (Cons cb rest)
    have pop: "cancels (pop_callback c w) = (cancels w)(c := (cancels w c)\<lparr>c_callbacks := rest\<rparr>)"
      "next_cancel (pop_callback c w) = next_cancel w"
      using Cons by (simp_all add: pop_callback_def)
    show ?thesis
    proof (cases "\<exists>c'. cb = ChainCb c'")
      case False
      define w1 where "w1 = call cb err (pop_callback c w)"
      have c1: "cancels w1 = (cancels w)(c := (cancels w c)\<lparr>c_callbacks := rest\<rparr>)"
        "next_cancel w1 = next_cancel w" by (simp_all add: pop w1_def)
      have step: "run_cancel_callbacks call root c w = run_cancel_callbacks call root c w1"
        unfolding w1_def using Cons False less.prems(4)
        by (subst run_cancel_callbacks.simps) (simp split: cancel_cb.split)
      have "callback_count w1 < callback_count w"
        by (rule callback_count_less [where c = c]) (use c1 Cons less.prems in auto)
      moreover have "chain_ok w1"
        by (rule chain_ok_mono [OF less.prems(1)]) (use c1 Cons in auto)
      moreover have "c_error (cancels w1 root) = err" using c1 less.prems by auto
      moreover have ip: "inv err (pop_callback c w)" using less.prems(5) by (simp add: pop_callback_def inv_upd)
      then have "inv err w1" unfolding w1_def by (rule inv_call)
      ultimately obtain w' where w': "run_cancel_callbacks call root c w1 = Some w'"
        "cancels w' = cancelled_from c err (cancels w1)" "next_cancel w' = next_cancel w"
        "\<forall>cb. eff cb err w1 \<longrightarrow> eff cb err w'"
        "\<forall>d cb. chained (cancels w1) c d \<longrightarrow> cb \<in> set (c_callbacks (cancels w1 d)) \<longrightarrow>
           (\<forall>c'. cb \<noteq> ChainCb c') \<longrightarrow> eff cb err w'" "inv err w'"
        using less.hyps [of w1 c] less.prems c1 by auto
      have ch: "chained (cancels w1) c d = chained (cancels w) c d" for d
        by (rule chained_cong) (use False Cons in \<open>auto simp: c1\<close>)
      have "cancels w' = cancelled_from c err (cancels w)"
        unfolding w'(2) by (auto simp: fun_eq_iff cancelled_from_def ch) (auto simp: c1)
      moreover have "eff cb' err w \<longrightarrow> eff cb' err w'" for cb'
        using w'(4) by (auto simp: w1_def pop_callback_def eff_upd intro!: eff_call)
      moreover have "eff cb err w'" using w'(4) call_eff [OF ip] unfolding w1_def by blast
      moreover have "eff cb' err w'"
        if "chained (cancels w) c d" "cb' \<in> set (c_callbacks (cancels w d))" "\<forall>c'. cb' \<noteq> ChainCb c'" for d cb'
      proof -
        have "cb' = cb \<or> cb' \<in> set (c_callbacks (cancels w1 d))"
          using that(2) by (auto simp: c1 Cons split: if_splits)
        moreover have "chained (cancels w1) c d" using that(1) ch by simp
        ultimately show ?thesis using w'(5) that(3) \<open>eff cb err w'\<close> by blast
      qed
      ultimately show ?thesis using w'(1,3,6) step by auto
    next
      case True
      then obtain c' where cb: "cb = ChainCb c'" by blast
      let ?w1 = "trigger_cancel c' err (pop_callback c w)"
      have cc: "c < c'" "c' < next_cancel w"
        using less.prems(1) Cons cb by (auto dest: chain_okD [of w c' c])
      have c1: "cancels ?w1 = (cancels w)(c := (cancels w c)\<lparr>c_callbacks := rest\<rparr>,
          c' := (cancels w c')\<lparr>c_flags := set_flag (c_flags (cancels w c')) CANCELLATION_TRIGGERED, c_error := err\<rparr>)"
        "next_cancel ?w1 = next_cancel w"
        using cc by (simp_all add: pop trigger_cancel_def)
      have step: "run_cancel_callbacks call root c w =
          Option.bind (run_cancel_callbacks call root c' ?w1) (\<lambda>w'. run_cancel_callbacks call root c w')"
        using Cons cb less.prems(4) by (subst run_cancel_callbacks.simps) simp
      have less1: "callback_count ?w1 < callback_count w"
        by (rule callback_count_less [where c = c]) (use c1 Cons less.prems cc in auto)
      have ok1: "chain_ok ?w1"
        by (rule chain_ok_mono [OF less.prems(1)]) (use c1 Cons in auto)
      have above: "chained (cancels ?w1) e d" if "chained (cancels w) e d" "c < e" for e d
        using that
      proof (induction rule: chained.induct)
        case (chained_refl e)
        show ?case by (rule chained.chained_refl)
      next
        case (chained_step e' e d)
        have "e < e'" using less.prems(1) chained_step.hyps(1) by (auto dest: chain_okD)
        with chained_step have "chained (cancels ?w1) e' d" by simp
        moreover have "ChainCb e' \<in> set (c_callbacks (cancels ?w1 e))"
          using chained_step.hyps(1) chained_step.prems by (auto simp: c1)
        ultimately show ?case by (rule chained.chained_step [rotated])
      qed
      have ch1: "chained (cancels ?w1) c' d = chained (cancels w) c' d" for d
      proof
        show "chained (cancels w) c' d \<Longrightarrow> chained (cancels ?w1) c' d" by (rule above [OF _ cc(1)])
        show "chained (cancels ?w1) c' d \<Longrightarrow> chained (cancels w) c' d"
          by (erule chained_mono) (use Cons in \<open>auto simp: c1 split: if_splits\<close>)
      qed
      have err1: "c_error (cancels ?w1 root) = err" using less.prems(3,4) cc(1) by (auto simp: c1)
      have inv1: "inv err ?w1" using less.prems(5) by (simp add: trigger_cancel_def pop_callback_def inv_upd)
      have lt1: "c' < next_cancel ?w1" "root \<le> c'" using cc less.prems(3) c1(2) by simp_all
      obtain w2 where w2: "run_cancel_callbacks call root c' ?w1 = Some w2"
        "cancels w2 = cancelled_from c' err (cancels ?w1)" "next_cancel w2 = next_cancel w"
        "\<forall>cb. eff cb err ?w1 \<longrightarrow> eff cb err w2"
        "\<forall>d cb. chained (cancels ?w1) c' d \<longrightarrow> cb \<in> set (c_callbacks (cancels ?w1 d)) \<longrightarrow>
           (\<forall>c'. cb \<noteq> ChainCb c') \<longrightarrow> eff cb err w2" "inv err w2"
        using less.hyps [OF less1 ok1 lt1 err1 inv1] c1(2) by (elim exE conjE) simp
      have nc: "\<not> chained (cancels w) c' c"
        using chained_le [OF _ less.prems(1)] cc(1) by fastforce
      have c2: "cancels w2 d = (if d = c then (cancels w c)\<lparr>c_callbacks := rest\<rparr>
          else if chained (cancels w) c' d then cancelled_by err (cancels w d) else cancels w d)" for d
        using nc cc(1) chained_refl [of "cancels w" c']
        unfolding w2(2) cancelled_from_def ch1 by (auto simp: c1)
      have "callback_count w2 < callback_count w"
        by (rule callback_count_less [where c = c]) (use c2 w2(3) Cons less.prems in auto)
      moreover have "chain_ok w2"
        by (rule chain_ok_mono [OF less.prems(1)]) (use c2 w2(3) Cons in auto)
      moreover have "c_error (cancels w2 root) = err"
        using c2 [of root] less.prems(4) by (auto split: if_splits)
      ultimately obtain w' where w': "run_cancel_callbacks call root c w2 = Some w'"
        "cancels w' = cancelled_from c err (cancels w2)" "next_cancel w' = next_cancel w"
        "\<forall>cb. eff cb err w2 \<longrightarrow> eff cb err w'"
        "\<forall>d cb. chained (cancels w2) c d \<longrightarrow> cb \<in> set (c_callbacks (cancels w2 d)) \<longrightarrow>
           (\<forall>c'. cb \<noteq> ChainCb c') \<longrightarrow> eff cb err w'" "inv err w'"
        using less.hyps [of w2 c] less.prems w2(3,6) by auto
      have into: "chained (cancels w2) c d \<Longrightarrow> chained (cancels w) c d" for d
        by (erule chained_mono) (use c2 Cons in auto)
      have below: "chained (cancels w) c' d \<Longrightarrow> chained (cancels w) c d" for d
        by (rule chained.chained_step [of c']) (use Cons cb in auto)
      have keep: "chained (cancels w2) c d"
        if "chained (cancels w) c d" "\<not> chained (cancels w) c' d" for d
        using that by (rule chained_avoid) (use Cons cb c2 in auto)
      have "cancels w' = cancelled_from c err (cancels w)"
      proof
        fix d
        show "cancels w' d = cancelled_from c err (cancels w) d"
          using into [of d] below [of d] keep [of d] c2 [of d] c2 [of c]
          by (auto simp: w'(2) cancelled_from_def)
      qed
      moreover have e: "eff cb' err w \<Longrightarrow> eff cb' err w'" for cb'
        using w2(4) w'(4) by (auto simp: trigger_cancel_def pop_callback_def eff_upd)
      moreover have "eff cb' err w'"
        if "chained (cancels w) c d" "cb' \<in> set (c_callbacks (cancels w d))" "\<forall>c'. cb' \<noteq> ChainCb c'" for d cb'
      proof (cases "chained (cancels w) c' d")
        case True
        with nc have "d \<noteq> c" by blast
        with that True have "eff cb' err w2" using w2(5) [rule_format, of d cb'] unfolding ch1 by (cases "d = c'") (simp_all add: c1)
        with w'(4) show ?thesis by blast
      next
        case False
        with that have "chained (cancels w2) c d" by (simp add: keep)
        moreover have "cb' \<in> set (c_callbacks (cancels w2 d))"
          using that False Cons cb by (auto simp: c2)
        ultimately show ?thesis using w'(5) that(3) by blast
      qed
      ultimately show ?thesis using step w2(1) w'(1,3,6) by auto
    qed
  qed
qed

end

section \<open>Context variables\<close>

text \<open>The chain of a context: itself and its ancestors, innermost first.\<close>

fun ancestors :: "(nat \<Rightarrow> async_context) \<Rightarrow> nat \<Rightarrow> nat \<Rightarrow> nat list" where
  "ancestors xs 0 x = [x]"
| "ancestors xs (Suc n) x = x # (case x_parent (xs x) of None \<Rightarrow> [] | Some p \<Rightarrow> ancestors xs n p)"

text \<open>What a variable is bound to: the binding of the innermost context that binds it.\<close>

definition var_value :: "nat \<Rightarrow> (nat \<Rightarrow> async_context) \<Rightarrow> nat list \<Rightarrow> zval" where
  "var_value var xs chain = (case filter (\<lambda>x. x_var (xs x) = Some var) chain of
     [] \<Rightarrow> IS_NULL | x # _ \<Rightarrow> x_value (xs x))"

lemma context_var_lookup_spec:
  assumes "\<And>x p. x \<le> b \<Longrightarrow> x_parent (xs x) = Some p \<Longrightarrow> p < x" and "x \<le> n" and "x \<le> b"
  shows "context_var_lookup var xs x = Some (var_value var xs (ancestors xs n x))"
  using assms(2,3)
proof (induction x arbitrary: n rule: less_induct)
  case (less x)
  show ?case
  proof (cases "x_parent (xs x)")
    case None
    then show ?thesis
      by (cases n) (auto simp: context_var_lookup.simps [of var xs x] var_value_def)
  next
    case (Some p)
    with assms(1) less.prems have p: "p < x" by blast
    with less.prems obtain m where n: "n = Suc m" by (cases n) auto
    have "context_var_lookup var xs p = Some (var_value var xs (ancestors xs m p))"
      using less.IH [OF p] p less.prems n by simp
    with Some n show ?thesis
      by (auto simp: context_var_lookup.simps [of var xs x] var_value_def)
  qed
qed

section \<open>Operations keep the invariants\<close>

definition cancel_refs :: "'a ctx_store_scheme \<Rightarrow> nat \<Rightarrow> nat" where
  "cancel_refs w c =
     (\<Sum>x<next_ctx w. of_bool (x_live (contexts w x) \<and> x_cancel (contexts w x) = Some c)) +
     (\<Sum>h<next_handler w. of_bool (handlers w h = Some c))"

text \<open>The reference count of a cancellation is the number of contexts and handlers that hold it.\<close>

definition refs_ok :: "'a ctx_store_scheme \<Rightarrow> bool" where
  "refs_ok w \<longleftrightarrow> (\<forall>c<next_cancel w. c_refcount (cancels w c) = of_nat (cancel_refs w c))"

text \<open>The methods of contexts and handlers that create and destroy references, as steps.\<close>

inductive ctx_step :: "'a ctx_store_scheme \<Rightarrow> 'a ctx_store_scheme \<Rightarrow> bool" where
  step_with: "cur < next_ctx w \<Longrightarrow> x_live (contexts w cur) \<Longrightarrow> ctx_step w (snd (context_with cur var val w))"
| step_isolated: "cur < next_ctx w \<Longrightarrow> x_live (contexts w cur) \<Longrightarrow> ctx_step w (snd (context_with_isolated_output cur w))"
| step_timeout: "cur < next_ctx w \<Longrightarrow> x_live (contexts w cur) \<Longrightarrow> ctx_step w (snd (context_with_timeout cur t w))"
| step_cancel: "cur < next_ctx w \<Longrightarrow> x_live (contexts w cur) \<Longrightarrow> ctx_step w (snd (snd (context_with_cancel cur w)))"
| step_shield: "cur < next_ctx w \<Longrightarrow> x_live (contexts w cur) \<Longrightarrow> ctx_step w (snd (context_shield cur w))"
| step_destroy: "x < next_ctx w \<Longrightarrow> x_live (contexts w x) \<Longrightarrow> ctx_step w (async_context_object_destroy x w)"
| step_destroy_handler: "ctx_step w (async_cancellation_handler_object_destroy h w)"
| step_close: "c < next_cancel w \<Longrightarrow> c_closing (cancels w c) \<Longrightarrow> ctx_step w (close_timeout c w)"

inductive_cases ctx_step_cases: "ctx_step w w'"

lemmas ctx_defs = context_with_def context_with_isolated_output_def context_with_timeout_def
  context_with_cancel_def context_shield_def async_cancellation_handler_object_create_def
  create_cancellable_context_def propagate_cancellation_def alloc_ctx_def alloc_cancel_def
  ref_cancel_def async_context_object_create_def init_cancellation_def init_timeout_cancellation_def

lemmas release_defs = async_context_object_destroy_def async_cancellation_handler_object_destroy_def
  release_cancellation_def close_timeout_def

lemma ctx_wf_parent: "ctx_wf w \<Longrightarrow> x < next_ctx w \<Longrightarrow> x_parent (contexts w x) = Some p \<Longrightarrow> p < x"
  and ctx_wf_cancel: "ctx_wf w \<Longrightarrow> x < next_ctx w \<Longrightarrow> x_cancel (contexts w x) = Some c \<Longrightarrow> c < next_cancel w"
  and ctx_wf_handler: "ctx_wf w \<Longrightarrow> handlers w h = Some c \<Longrightarrow> h < next_handler w \<and> c < next_cancel w"
  by (auto simp: ctx_wf_def)

lemma release_cancellation_sel [simp]:
  "contexts (release_cancellation c w) = contexts w" "next_ctx (release_cancellation c w) = next_ctx w"
  "handlers (release_cancellation c w) = handlers w" "next_handler (release_cancellation c w) = next_handler w"
  "next_cancel (release_cancellation c w) = next_cancel w" "g_context (release_cancellation c w) = g_context w"
  "c_callbacks (cancels (release_cancellation c w) d) = c_callbacks (cancels w d)"
  "c_refcount (cancels (release_cancellation c w) d) = c_refcount (cancels w d) - of_bool (d = c)"
  by (simp_all add: release_cancellation_def Let_def)

lemma chain_ok_same:
  assumes "chain_ok w" and "next_cancel w' = next_cancel w"
    and "\<And>c. c_callbacks (cancels w' c) = c_callbacks (cancels w c)"
  shows "chain_ok w'"
  using assms by (simp add: chain_ok_def)

lemma ctx_wf_release:
  assumes "ctx_wf w" shows "ctx_wf (release_cancellation c w)"
  using assms chain_ok_same [of w "release_cancellation c w"] by (simp add: ctx_wf_def)

lemma ctx_wf_step:
  assumes "ctx_step w w'" and "ctx_wf w"
  shows "ctx_wf w'"
  using assms
proof (induction rule: ctx_step.induct)
  case (step_with cur w var val)
  then show ?case
    by (auto simp: ctx_defs ctx_wf_def chain_ok_def Let_def less_Suc_eq split: option.splits)
next
  case (step_isolated cur w)
  then show ?case
    by (auto simp: ctx_defs ctx_wf_def chain_ok_def Let_def less_Suc_eq split: option.splits)
next
  case (step_timeout cur w t)
  then show ?case
    by (auto simp: ctx_defs ctx_wf_def chain_ok_def Let_def less_Suc_eq split: option.splits; fastforce)
next
  case (step_cancel cur w)
  then show ?case
    by (auto simp: ctx_defs ctx_wf_def chain_ok_def Let_def less_Suc_eq split: option.splits; fastforce)
next
  case (step_shield cur w)
  then show ?case
    by (auto simp: ctx_defs ctx_wf_def chain_ok_def Let_def less_Suc_eq split: option.splits)
next
  case (step_destroy x w)
  then have "ctx_wf (w\<lparr>contexts := (contexts w)(x := (contexts w x)\<lparr>x_live := False\<rparr>)\<rparr>)"
    by (auto simp: ctx_wf_def chain_ok_def)
  then show ?case
    by (simp add: async_context_object_destroy_def ctx_wf_release Let_def split: option.split)
next
  case (step_destroy_handler w h)
  then have "ctx_wf (w\<lparr>handlers := (handlers w)(h := None)\<rparr>)"
    by (auto simp: ctx_wf_def chain_ok_def)
  with step_destroy_handler show ?case
    by (simp add: async_cancellation_handler_object_destroy_def ctx_wf_release split: option.split)
next
  case (step_close c w)
  then show ?case by (auto simp: close_timeout_def ctx_wf_def chain_ok_def)
qed

text \<open>How the operations change the number of holders of a cancellation.\<close>

lemma sum_upd_new: "(\<Sum>x<Suc n. g ((f(n := v)) x)) = (\<Sum>x<n. g (f x)) + (g v :: nat)"
  by (simp add: sum.cong [of "{..<n}" "{..<n}" "\<lambda>x. g ((f(n := v)) x)" "\<lambda>x. g (f x)"])

lemma sum_upd_at:
  assumes "(k::nat) < n"
  shows "(\<Sum>x<n. g ((f(k := v)) x)) + g (f k) = (\<Sum>x<n. g (f x)) + (g v :: nat)"
proof -
  have "(\<Sum>x<n. g (h x)) = g (h k) + (\<Sum>x\<in>{..<n} - {k}. g (h x))" for h
    using assms by (intro sum.remove) auto
  moreover have "(\<Sum>x\<in>{..<n} - {k}. g ((f(k := v)) x)) = (\<Sum>x\<in>{..<n} - {k}. g (f x))"
    by (rule sum.cong) auto
  ultimately show ?thesis by simp
qed

lemma cancel_refs_cong:
  assumes "contexts w' = contexts w" "next_ctx w' = next_ctx w" "handlers w' = handlers w"
    "next_handler w' = next_handler w"
  shows "cancel_refs w' c = cancel_refs w c"
  by (simp add: cancel_refs_def assms)

lemma cancel_refs_alloc:
  assumes "contexts w' = (contexts w)(next_ctx w := x)" "next_ctx w' = Suc (next_ctx w)"
    "handlers w' = handlers w" "next_handler w' = next_handler w"
  shows "cancel_refs w' c = cancel_refs w c + of_bool (x_live x \<and> x_cancel x = Some c)"
  using sum_upd_new [of "\<lambda>y. of_bool (x_live y \<and> x_cancel y = Some c)" "contexts w" "next_ctx w" x]
  by (simp add: cancel_refs_def assms)

lemma cancel_refs_handler:
  assumes "contexts w' = contexts w" "next_ctx w' = next_ctx w"
    "handlers w' = (handlers w)(next_handler w := Some d)" "next_handler w' = Suc (next_handler w)"
  shows "cancel_refs w' c = cancel_refs w c + of_bool (d = c)"
  using sum_upd_new [of "\<lambda>y. of_bool (y = Some c)" "handlers w" "next_handler w" "Some d"]
  by (simp add: cancel_refs_def assms)

lemma cancel_refs_kill:
  assumes "contexts w' = (contexts w)(k := (contexts w k)\<lparr>x_live := False\<rparr>)" "next_ctx w' = next_ctx w"
    "handlers w' = handlers w" "next_handler w' = next_handler w" "k < next_ctx w"
    "x_live (contexts w k)"
  shows "cancel_refs w c = cancel_refs w' c + of_bool (x_cancel (contexts w k) = Some c)"
  using sum_upd_at [OF assms(5), of "\<lambda>y. of_bool (x_live y \<and> x_cancel y = Some c)" "contexts w"
      "(contexts w k)\<lparr>x_live := False\<rparr>"] assms(6)
  by (simp add: cancel_refs_def assms(1-4))

lemma cancel_refs_drop:
  assumes "contexts w' = contexts w" "next_ctx w' = next_ctx w"
    "handlers w' = (handlers w)(k := None)" "next_handler w' = next_handler w" "k < next_handler w"
  shows "cancel_refs w c = cancel_refs w' c + of_bool (handlers w k = Some c)"
  using sum_upd_at [OF assms(5), of "\<lambda>y. of_bool (y = Some c)" "handlers w" None]
  by (simp add: cancel_refs_def assms(1-4))

lemma cancel_refs_fresh:
  assumes "ctx_wf w" shows "cancel_refs w (next_cancel w) = 0"
proof -
  have "\<not> (x_live (contexts w x) \<and> x_cancel (contexts w x) = Some (next_cancel w))" if "x < next_ctx w" for x
    using ctx_wf_cancel [OF assms that] by blast
  moreover have "handlers w h \<noteq> Some (next_cancel w)" for h
    using ctx_wf_handler [OF assms] by blast
  ultimately show ?thesis by (auto simp: cancel_refs_def)
qed

text \<open>A new context that shares \<open>x_cancel x\<close>, with the reference taken on it.\<close>

lemma refs_ok_new:
  assumes "refs_ok w"
    and "contexts w' = (contexts w)(next_ctx w := x)" "next_ctx w' = Suc (next_ctx w)"
    and "handlers w' = handlers w" "next_handler w' = next_handler w" "next_cancel w' = next_cancel w"
    and "x_live x"
    and "\<And>c. c_refcount (cancels w' c) = c_refcount (cancels w c) + of_bool (x_cancel x = Some c)"
  shows "refs_ok w'"
  unfolding refs_ok_def
proof (intro allI impI)
  fix c assume "c < next_cancel w'"
  then have "c_refcount (cancels w c) = of_nat (cancel_refs w c)"
    using assms(1,6) by (simp add: refs_ok_def)
  moreover have "cancel_refs w' c = cancel_refs w c + of_bool (x_cancel x = Some c)"
    using cancel_refs_alloc [OF assms(2-5)] assms(7) by simp
  ultimately show "c_refcount (cancels w' c) = of_nat (cancel_refs w' c)"
    by (simp add: assms(8))
qed

lemma refs_ok_alloc_cancel:
  assumes "refs_ok w" and "ctx_wf w" and "c_refcount c = 0"
  shows "refs_ok (snd (alloc_cancel c w))"
proof -
  have "cancel_refs (snd (alloc_cancel c w)) d = cancel_refs w d" for d
    by (rule cancel_refs_cong) (simp_all add: alloc_cancel_def)
  with assms cancel_refs_fresh [OF assms(2)] show ?thesis
    by (auto simp: refs_ok_def alloc_cancel_def less_Suc_eq)
qed

lemma refs_ok_release:
  assumes "\<And>d. d < next_cancel w \<Longrightarrow>
      c_refcount (cancels w d) = of_nat (cancel_refs w d) + of_bool (d = c)"
  shows "refs_ok (release_cancellation c w)"
proof -
  have "cancel_refs (release_cancellation c w) d = cancel_refs w d" for d
    by (rule cancel_refs_cong) simp_all
  with assms show ?thesis by (auto simp: refs_ok_def)
qed

lemma refs_ok_cancellable:
  assumes "refs_ok w" and "c < next_cancel w"
  shows "refs_ok (snd (create_cancellable_context c parent w))"
    and "next_cancel (snd (create_cancellable_context c parent w)) = next_cancel w"
    and "handlers (snd (create_cancellable_context c parent w)) = handlers w"
    and "next_handler (snd (create_cancellable_context c parent w)) = next_handler w"
proof -
  show "refs_ok (snd (create_cancellable_context c parent w))"
    by (rule refs_ok_new [OF assms(1), where x = "(async_context_object_create None None)
        \<lparr>x_parent := Some parent, x_flags := x_flags (contexts w parent),
         x_output := x_output (contexts w parent), x_cancel := Some c\<rparr>"])
      (auto simp: ctx_defs Let_def split: option.split)
qed (auto simp: ctx_defs Let_def split: option.split)

lemma refs_ok_upd:
  assumes "refs_ok w" and "\<And>x. c_refcount (f x) = c_refcount x"
  shows "refs_ok (upd_cancel c f w)"
  using assms cancel_refs_cong [of "upd_cancel c f w" w] by (simp add: refs_ok_def)

lemma refs_ok_handler:
  assumes "refs_ok w" and "c < next_cancel w"
  shows "refs_ok (snd (async_cancellation_handler_object_create c w))"
proof -
  have "cancel_refs (snd (async_cancellation_handler_object_create c w)) d = cancel_refs w d + of_bool (c = d)" for d
    by (rule cancel_refs_handler) (simp_all add: ctx_defs Let_def)
  with assms show ?thesis by (auto simp: refs_ok_def ctx_defs Let_def)
qed

text \<open>\<open>with\<close> and \<open>withIsolatedOutput\<close>: allocate a context and share the cancellation of \<open>cur\<close>.\<close>

lemma refs_ok_propagate:
  assumes "refs_ok w" and "cur < next_ctx w" and "x_live x" and "x_cancel x = None"
  shows "refs_ok (propagate_cancellation cur (next_ctx w) (snd (alloc_ctx x w)))"
proof (rule refs_ok_new [OF assms(1), where x = "x\<lparr>x_cancel := x_cancel (contexts w cur)\<rparr>"])
  let ?w' = "propagate_cancellation cur (next_ctx w) (snd (alloc_ctx x w))"
  show "contexts ?w' = (contexts w)(next_ctx w := x\<lparr>x_cancel := x_cancel (contexts w cur)\<rparr>)"
    "next_ctx ?w' = Suc (next_ctx w)" "handlers ?w' = handlers w" "next_handler ?w' = next_handler w"
    "next_cancel ?w' = next_cancel w"
    using assms(2) by (simp_all add: propagate_cancellation_def alloc_ctx_def ref_cancel_def Let_def split: option.split)
  show "c_refcount (cancels ?w' c) = c_refcount (cancels w c) +
      of_bool (x_cancel (x\<lparr>x_cancel := x_cancel (contexts w cur)\<rparr>) = Some c)" for c
    using assms(2) by (simp add: propagate_cancellation_def alloc_ctx_def ref_cancel_def Let_def split: option.split)
qed (simp add: assms(3))

lemma refs_ok_timeout:
  assumes "refs_ok w" and "ctx_wf w"
  shows "refs_ok (snd (context_with_timeout cur t w))"
proof -
  let ?w0 = "w\<lparr>scheduler_refs := scheduler_refs w + 1\<rparr>"
  let ?w1 = "snd (alloc_cancel init_timeout_cancellation ?w0)"
  have "refs_ok ?w0"
    unfolding refs_ok_def using assms(1) cancel_refs_cong [of ?w0 w] by (simp add: refs_ok_def)
  moreover have "ctx_wf ?w0" using assms(2) by (simp add: ctx_wf_def chain_ok_def)
  ultimately have "refs_ok ?w1"
    by (rule refs_ok_alloc_cancel) (simp add: init_timeout_cancellation_def init_cancellation_def)
  then have "refs_ok (snd (create_cancellable_context (next_cancel w) cur ?w1))"
    by (rule refs_ok_cancellable(1)) (simp add: alloc_cancel_def)
  then have "refs_ok (upd_cancel (next_cancel w) (\<lambda>y. y\<lparr>c_timer := Some t\<rparr>)
      (snd (create_cancellable_context (next_cancel w) cur ?w1)))"
    by (rule refs_ok_upd) simp
  then show ?thesis
    by (simp add: context_with_timeout_def alloc_cancel_def split_beta)
qed

lemma refs_ok_cancel:
  assumes "refs_ok w" and "ctx_wf w"
  shows "refs_ok (snd (snd (context_with_cancel cur w)))"
proof -
  let ?w1 = "snd (alloc_cancel init_cancellation w)"
  have n: "next_cancel w < next_cancel ?w1" by (simp add: alloc_cancel_def)
  have "refs_ok ?w1"
    by (rule refs_ok_alloc_cancel [OF assms]) (simp add: init_cancellation_def)
  note * = refs_ok_cancellable [OF this n, of cur]
  then have "refs_ok (snd (async_cancellation_handler_object_create (next_cancel w)
      (snd (create_cancellable_context (next_cancel w) cur ?w1))))"
    using n by (intro refs_ok_handler) simp_all
  then show ?thesis
    by (simp add: context_with_cancel_def alloc_cancel_def split_beta)
qed

lemma refs_ok_destroy:
  assumes "refs_ok w" and "x < next_ctx w" and "x_live (contexts w x)"
  shows "refs_ok (async_context_object_destroy x w)"
proof -
  let ?w1 = "w\<lparr>contexts := (contexts w)(x := (contexts w x)\<lparr>x_live := False\<rparr>)\<rparr>"
  have *: "cancel_refs w c = cancel_refs ?w1 c + of_bool (x_cancel (contexts w x) = Some c)" for c
    by (rule cancel_refs_kill) (use assms in simp_all)
  have r: "c_refcount (cancels ?w1 c) = of_nat (cancel_refs ?w1 c) + of_bool (x_cancel (contexts w x) = Some c)"
    if "c < next_cancel w" for c
    using assms(1) that * [of c] by (simp add: refs_ok_def)
  show ?thesis
  proof (cases "x_cancel (contexts w x)")
    case None
    with r show ?thesis by (simp add: async_context_object_destroy_def refs_ok_def)
  next
    case (Some c)
    have "refs_ok (release_cancellation c ?w1)"
      by (rule refs_ok_release) (use r Some in auto)
    with Some show ?thesis by (simp add: async_context_object_destroy_def)
  qed
qed

lemma refs_ok_destroy_handler:
  assumes "refs_ok w" and "ctx_wf w"
  shows "refs_ok (async_cancellation_handler_object_destroy h w)"
proof (cases "handlers w h")
  case None
  with assms show ?thesis by (simp add: async_cancellation_handler_object_destroy_def)
next
  case (Some c)
  let ?w1 = "w\<lparr>handlers := (handlers w)(h := None)\<rparr>"
  have *: "cancel_refs w d = cancel_refs ?w1 d + of_bool (handlers w h = Some d)" for d
    by (rule cancel_refs_drop) (use ctx_wf_handler [OF assms(2) Some] in simp_all)
  have "refs_ok (release_cancellation c ?w1)"
  proof (rule refs_ok_release)
    fix d assume "d < next_cancel ?w1"
    then show "c_refcount (cancels ?w1 d) = of_nat (cancel_refs ?w1 d) + of_bool (d = c)"
      using assms(1) * [of d] Some by (auto simp: refs_ok_def)
  qed
  with Some show ?thesis by (simp add: async_cancellation_handler_object_destroy_def)
qed

lemma refs_ok_step:
  assumes "ctx_step w w'" and "ctx_wf w" and "refs_ok w"
  shows "refs_ok w'"
  using assms
proof (induction rule: ctx_step.induct)
  case (step_with cur w var val)
  from refs_ok_propagate [OF step_with.prems(2) step_with.hyps(1)] show ?case
    by (simp add: context_with_def alloc_ctx_def async_context_object_create_def)
next
  case (step_isolated cur w)
  from refs_ok_propagate [OF step_isolated.prems(2) step_isolated.hyps(1)] show ?case
    by (simp add: context_with_isolated_output_def alloc_ctx_def async_context_object_create_def)
next
  case (step_timeout cur w t)
  then show ?case by (simp add: refs_ok_timeout)
next
  case (step_cancel cur w)
  then show ?case by (simp add: refs_ok_cancel)
next
  case (step_shield cur w)
  show ?case
    by (rule refs_ok_new [OF step_shield.prems(2), of _ "(async_context_object_create None None)
        \<lparr>x_parent := Some cur, x_flags := x_flags (contexts w cur), x_output := x_output (contexts w cur)\<rparr>"])
      (simp_all add: context_shield_def alloc_ctx_def async_context_object_create_def)
next
  case (step_destroy x w)
  then show ?case by (simp add: refs_ok_destroy)
next
  case (step_destroy_handler w h)
  then show ?case by (simp add: refs_ok_destroy_handler)
next
  case (step_close c w)
  have "cancel_refs (close_timeout c w) d = cancel_refs w d" for d
    by (rule cancel_refs_cong) (simp_all add: close_timeout_def)
  with step_close.prems show ?case by (simp add: refs_ok_def close_timeout_def)
qed

end
