(* ===== verification/Fiber.thy ===== *)
theory Fiber
  imports Context
begin

text \<open>
  Fibers: the cooperative threads tasks run in (\<open>include/async/fiber.h\<close>,
  \<open>fiber/asm.c\<close>, \<open>fiber/stack.c\<close>). A fiber that gives up control stores the module
  globals (scheduler, context, task) in its structure and gets them back when it is resumed.
  The scheduler keeps a queue of fibers that switched to another fiber and are to be resumed
  before the event loop is; when the queue is empty, suspending continues the runner fiber,
  which runs the loop.

  The machine context switch (\<open>jump_fcontext\<close>) is assembly of the vendored Boost code. In
  the model it is the change of \<open>g_fiber\<close>: the state after a switch or a suspension is the
  state in which the other fiber continues. PHP's VM registers are not modelled.
\<close>

section \<open>State\<close>

abbreviation ASYNC_FIBER_FLAG_QUEUED :: u8 where "ASYNC_FIBER_FLAG_QUEUED \<equiv> 1"

text \<open>The function a fiber that was never resumed starts with.\<close>

datatype fiber_entry = Run_task_fiber nat | Run_scheduler_fiber nat

datatype async_fiber_suspend_type = SUSPEND_NONE | SUSPEND_PREPEND | SUSPEND_APPEND

record async_fiber =
  f_flags :: u8
  f_scheduler :: nat
  f_context :: nat
  f_task :: "nat option"
  f_entry :: "fiber_entry option"
  f_stack_size :: "64 word"

record fiber_store = ctx_store +
  fibers :: "nat \<Rightarrow> async_fiber"
  next_fiber :: nat
  fiber_queue :: "nat list"
  runner :: nat
  g_fiber :: nat
  g_task :: "nat option"
  g_scheduler :: nat

definition upd_fiber :: "nat \<Rightarrow> (async_fiber \<Rightarrow> async_fiber) \<Rightarrow> 'a fiber_store_scheme \<Rightarrow> 'a fiber_store_scheme" where
  "upd_fiber f h w = w\<lparr>fibers := (fibers w)(f := h (fibers w f))\<rparr>"

lemma upd_fiber_sel [simp, store_simps]:
  "fibers (upd_fiber f h w) = (fibers w)(f := h (fibers w f))"
  "next_fiber (upd_fiber f h w) = next_fiber w" "fiber_queue (upd_fiber f h w) = fiber_queue w"
  "runner (upd_fiber f h w) = runner w" "g_fiber (upd_fiber f h w) = g_fiber w"
  "g_task (upd_fiber f h w) = g_task w" "g_scheduler (upd_fiber f h w) = g_scheduler w"
  "g_context (upd_fiber f h w) = g_context w" "g_foreground (upd_fiber f h w) = g_foreground w"
  "contexts (upd_fiber f h w) = contexts w" "cancels (upd_fiber f h w) = cancels w"
  "next_cancel (upd_fiber f h w) = next_cancel w"
  "ops (upd_fiber f h w) = ops w" "queues (upd_fiber f h w) = queues w"
  "next_opid (upd_fiber f h w) = next_opid w"
  by (simp_all add: upd_fiber_def)

section \<open>Creating fibers\<close>

text \<open>
  The stack size is passed as an \<open>unsigned int\<close> and rounded up to whole pages; the page size
  is \<open>sysconf(_SC_PAGESIZE)\<close>, or 4096 where that is not available.
\<close>

definition async_fiber_stack_allocate :: "64 word \<Rightarrow> 64 word \<Rightarrow> 64 word" where
  "async_fiber_stack_allocate page sz =
     (let n = ucast (ucast sz :: 32 word) in (n + page - 1) div page * page)"

definition async_fiber_create :: "'a fiber_store_scheme \<Rightarrow> nat \<times> 'a fiber_store_scheme" where
  "async_fiber_create w = (next_fiber w,
     w\<lparr>fibers := (fibers w)(next_fiber w := \<lparr>f_flags = 0, f_scheduler = 0, f_context = 0,
         f_task = None, f_entry = None, f_stack_size = 0\<rparr>), next_fiber := Suc (next_fiber w)\<rparr>)"

text \<open>\<open>mmap\<close> says whether the system gave a stack of that size.\<close>

definition async_fiber_init ::
  "64 word \<Rightarrow> (64 word \<Rightarrow> bool) \<Rightarrow> nat \<Rightarrow> nat \<Rightarrow> fiber_entry \<Rightarrow> 64 word \<Rightarrow>
   'a fiber_store_scheme \<Rightarrow> bool \<times> 'a fiber_store_scheme" where
  "async_fiber_init page mmap f ctx entry stack_size w =
     (let sz = async_fiber_stack_allocate page stack_size
      in if mmap sz
         then (True, upd_fiber f (\<lambda>x. x\<lparr>f_context := ctx, f_entry := Some entry, f_stack_size := sz\<rparr>) w)
         else (False, w))"

section \<open>Switching\<close>

definition async_fiber_capture_state :: "nat \<Rightarrow> 'a fiber_store_scheme \<Rightarrow> 'a fiber_store_scheme" where
  "async_fiber_capture_state f w =
     upd_fiber f (\<lambda>x. x\<lparr>f_scheduler := g_scheduler w, f_context := g_context w, f_task := g_task w\<rparr>) w"

definition async_fiber_restore_state :: "nat \<Rightarrow> 'a fiber_store_scheme \<Rightarrow> 'a fiber_store_scheme" where
  "async_fiber_restore_state f w =
     w\<lparr>g_scheduler := f_scheduler (fibers w f), g_context := f_context (fibers w f),
       g_task := f_task (fibers w f)\<rparr>"

text \<open>
  The jump: a fiber that ran before restores its globals, a new one runs the prologue of its
  entry function (\<open>run_task_fiber\<close>, \<open>run_scheduler_fiber\<close>).
\<close>

definition start_fiber :: "fiber_entry \<Rightarrow> nat \<Rightarrow> 'a fiber_store_scheme \<Rightarrow> 'a fiber_store_scheme" where
  "start_fiber e f w = (case e of
     Run_task_fiber t \<Rightarrow> w\<lparr>g_task := Some t, g_context := f_context (fibers w f)\<rparr>
   | Run_scheduler_fiber s \<Rightarrow> w\<lparr>g_scheduler := s, g_context := g_foreground w, g_task := None\<rparr>)"

definition jump_fiber :: "nat \<Rightarrow> 'a fiber_store_scheme \<Rightarrow> 'a fiber_store_scheme" where
  "jump_fiber f w =
     (let w1 = w\<lparr>g_fiber := f\<rparr>
      in case f_entry (fibers w f) of
           None \<Rightarrow> async_fiber_restore_state f w1
         | Some e \<Rightarrow> start_fiber e f (upd_fiber f (\<lambda>x. x\<lparr>f_entry := None\<rparr>) w1))"

definition async_fiber_suspend :: "'a fiber_store_scheme \<Rightarrow> 'a fiber_store_scheme" where
  "async_fiber_suspend w =
     (let current = g_fiber w;
          (next, w1) = (case fiber_queue w of
             [] \<Rightarrow> (runner w, w)
           | f # rest \<Rightarrow> (f, upd_fiber f (\<lambda>x. x\<lparr>f_flags := clear_flag (f_flags x) ASYNC_FIBER_FLAG_QUEUED\<rparr>)
                              (w\<lparr>fiber_queue := rest\<rparr>)))
      in if current = next then w1
         else jump_fiber next (async_fiber_capture_state current w1))"

definition queue_fiber :: "async_fiber_suspend_type \<Rightarrow> nat \<Rightarrow> 'a fiber_store_scheme \<Rightarrow> 'a fiber_store_scheme" where
  "queue_fiber s f w =
     (if has_flag (f_flags (fibers w f)) ASYNC_FIBER_FLAG_QUEUED then w
      else
        let flagged = upd_fiber f (\<lambda>x. x\<lparr>f_flags := set_flag (f_flags x) ASYNC_FIBER_FLAG_QUEUED\<rparr>) w
        in case s of
             SUSPEND_PREPEND \<Rightarrow> flagged\<lparr>fiber_queue := f # fiber_queue w\<rparr>
           | SUSPEND_APPEND \<Rightarrow> flagged\<lparr>fiber_queue := fiber_queue w @ [f]\<rparr>
           | SUSPEND_NONE \<Rightarrow> w)"

definition async_fiber_switch ::
  "nat \<Rightarrow> async_fiber_suspend_type \<Rightarrow> 'a fiber_store_scheme \<Rightarrow> 'a fiber_store_scheme" where
  "async_fiber_switch next suspend w =
     jump_fiber next (async_fiber_capture_state (g_fiber w) (queue_fiber suspend (g_fiber w) w))"

section \<open>The queue of fibers\<close>

text \<open>
  A fiber is in the queue at most once, exactly the queued fibers carry the flag, and the
  running fiber is not queued.
\<close>

definition fibers_ok :: "'a fiber_store_scheme \<Rightarrow> bool" where
  "fibers_ok w \<longleftrightarrow> distinct (fiber_queue w) \<and> g_fiber w \<notin> set (fiber_queue w) \<and>
     (\<forall>f. has_flag (f_flags (fibers w f)) ASYNC_FIBER_FLAG_QUEUED \<longleftrightarrow> f \<in> set (fiber_queue w))"

lemma jump_fiber_sel [simp]:
  "g_fiber (jump_fiber f w) = f" "fiber_queue (jump_fiber f w) = fiber_queue w"
  "f_flags (fibers (jump_fiber f w) x) = f_flags (fibers w x)" "runner (jump_fiber f w) = runner w"
  "ops (jump_fiber f w) = ops w" "queues (jump_fiber f w) = queues w"
  "next_opid (jump_fiber f w) = next_opid w"
  "contexts (jump_fiber f w) = contexts w" "cancels (jump_fiber f w) = cancels w"
  "next_cancel (jump_fiber f w) = next_cancel w" "next_fiber (jump_fiber f w) = next_fiber w"
  by (simp_all add: jump_fiber_def async_fiber_restore_state_def start_fiber_def Let_def
      split: option.split fiber_entry.split)

lemma capture_state_sel [simp]:
  "g_fiber (async_fiber_capture_state f w) = g_fiber w"
  "fiber_queue (async_fiber_capture_state f w) = fiber_queue w"
  "f_flags (fibers (async_fiber_capture_state f w) x) = f_flags (fibers w x)"
  "f_entry (fibers (async_fiber_capture_state f w) x) = f_entry (fibers w x)"
  "runner (async_fiber_capture_state f w) = runner w"
  "ops (async_fiber_capture_state f w) = ops w" "queues (async_fiber_capture_state f w) = queues w"
  "next_opid (async_fiber_capture_state f w) = next_opid w"
  "contexts (async_fiber_capture_state f w) = contexts w"
  "cancels (async_fiber_capture_state f w) = cancels w"
  "next_cancel (async_fiber_capture_state f w) = next_cancel w"
  "next_fiber (async_fiber_capture_state f w) = next_fiber w"
  by (simp_all add: async_fiber_capture_state_def)

lemma queue_fiber_sel [simp]:
  "g_fiber (queue_fiber s f w) = g_fiber w" "runner (queue_fiber s f w) = runner w"
  "f_entry (fibers (queue_fiber s f w) x) = f_entry (fibers w x)"
  "ops (queue_fiber s f w) = ops w" "queues (queue_fiber s f w) = queues w"
  "next_opid (queue_fiber s f w) = next_opid w"
  "contexts (queue_fiber s f w) = contexts w" "cancels (queue_fiber s f w) = cancels w"
  "next_cancel (queue_fiber s f w) = next_cancel w" "next_fiber (queue_fiber s f w) = next_fiber w"
  "g_context (queue_fiber s f w) = g_context w" "g_task (queue_fiber s f w) = g_task w"
  "g_scheduler (queue_fiber s f w) = g_scheduler w"
  by (simp_all add: queue_fiber_def Let_def split: async_fiber_suspend_type.split)

lemma switch_sel [simp]:
  "g_fiber (async_fiber_switch f s w) = f" "runner (async_fiber_switch f s w) = runner w"
  "ops (async_fiber_switch f s w) = ops w" "queues (async_fiber_switch f s w) = queues w"
  "next_opid (async_fiber_switch f s w) = next_opid w"
  "contexts (async_fiber_switch f s w) = contexts w" "cancels (async_fiber_switch f s w) = cancels w"
  "next_cancel (async_fiber_switch f s w) = next_cancel w"
  by (simp_all add: async_fiber_switch_def)

lemma suspend_sel [simp]:
  "runner (async_fiber_suspend w) = runner w"
  "ops (async_fiber_suspend w) = ops w" "queues (async_fiber_suspend w) = queues w"
  "next_opid (async_fiber_suspend w) = next_opid w"
  "contexts (async_fiber_suspend w) = contexts w" "cancels (async_fiber_suspend w) = cancels w"
  "next_cancel (async_fiber_suspend w) = next_cancel w"
  by (simp_all add: async_fiber_suspend_def Let_def split: list.split)

lemma fibers_ok_switch:
  assumes "fibers_ok w" and "next \<notin> set (fiber_queue w)" and "next \<noteq> g_fiber w"
  shows "fibers_ok (async_fiber_switch next s w)"
  using assms
  by (auto simp: fibers_ok_def async_fiber_switch_def queue_fiber_def Let_def
      split: async_fiber_suspend_type.split)

lemma fibers_ok_suspend:
  assumes "fibers_ok w" and "runner w \<notin> set (fiber_queue w)"
  shows "fibers_ok (async_fiber_suspend w)"
  using assms
  by (cases "fiber_queue w") (auto simp: fibers_ok_def async_fiber_suspend_def Let_def)

text \<open>
  Switching to a fiber that then suspends comes back to the fiber that switched, with its
  scheduler, context and task as they were and the queue unchanged.
\<close>

lemma switch_suspend_returns:
  assumes "fibers_ok w" and "next \<noteq> g_fiber w" and "f_entry (fibers w (g_fiber w)) = None"
  defines "w' \<equiv> async_fiber_suspend (async_fiber_switch next SUSPEND_PREPEND w)"
  shows "g_fiber w' = g_fiber w" and "g_context w' = g_context w" and "g_task w' = g_task w"
    and "g_scheduler w' = g_scheduler w" and "fiber_queue w' = fiber_queue w"
proof -
  let ?c = "g_fiber w"
  let ?s = "async_fiber_switch next SUSPEND_PREPEND w"
  have nq: "\<not> has_flag (f_flags (fibers w ?c)) ASYNC_FIBER_FLAG_QUEUED"
    using assms(1) by (simp add: fibers_ok_def)
  have q: "fiber_queue ?s = ?c # fiber_queue w" and r: "g_fiber ?s = next"
    and c: "f_entry (fibers ?s ?c) = None" "f_context (fibers ?s ?c) = g_context w"
      "f_task (fibers ?s ?c) = g_task w" "f_scheduler (fibers ?s ?c) = g_scheduler w"
    using nq assms(2,3)
    by (simp_all add: async_fiber_switch_def queue_fiber_def jump_fiber_def Let_def
        async_fiber_capture_state_def async_fiber_restore_state_def start_fiber_def
        split: option.split fiber_entry.split)
  show "g_fiber w' = g_fiber w" "g_context w' = g_context w" "g_task w' = g_task w"
    "g_scheduler w' = g_scheduler w" "fiber_queue w' = fiber_queue w"
    using q r c assms(2)
    by (simp_all add: w'_def async_fiber_suspend_def jump_fiber_def Let_def
        async_fiber_capture_state_def async_fiber_restore_state_def)
qed

end
