(* ===== verification/Drain.thy ===== *)
theory Drain
  imports Ops
begin

text \<open>
  The loops that empty a queue of operations. They occur in every component that can be
  closed, disposed or settled: \<open>while (q->first != NULL) { ASYNC_NEXT_OP(q, op); settle(op); }\<close>
  and the variant \<open>while (q->first) settle(q->first)\<close> that leaves the unlinking to the
  settling macro. Settling wakes a fiber, whose code may queue operations again, so the
  loops are partial functions; they return when the woken code does not make the queue
  longer, and then the queue is empty.
\<close>

section \<open>The loops\<close>

partial_function (option) drain_ops ::
  "(opid \<Rightarrow> 'a op_store_scheme \<Rightarrow> 'a op_store_scheme) \<Rightarrow> list_addr \<Rightarrow> 'a op_store_scheme \<Rightarrow>
   'a op_store_scheme option" where
  "drain_ops settle q w = (case async_next_op q w of
     None \<Rightarrow> Some w
   | Some r \<Rightarrow> drain_ops settle q (settle (fst r) (snd r)))"

partial_function (option) drain_first ::
  "(opid \<Rightarrow> 'a op_store_scheme \<Rightarrow> 'a op_store_scheme) \<Rightarrow> list_addr \<Rightarrow> 'a op_store_scheme \<Rightarrow>
   'a op_store_scheme option" where
  "drain_first settle q w = (case queues w q of
     [] \<Rightarrow> Some w
   | op # _ \<Rightarrow> drain_first settle q (settle op w))"

lemma drain_ops_Nil [simp]: "queues w q = [] \<Longrightarrow> drain_ops settle q w = Some w"
  by (subst drain_ops.simps) (simp add: async_next_op_def)

lemma drain_ops_Cons:
  "queues w q = op # rest \<Longrightarrow>
   drain_ops settle q w =
     drain_ops settle q
       (settle op (upd_op op (\<lambda>x. x\<lparr>op_list := None\<rparr>) (upd_queue q (\<lambda>_. rest) w)))"
  by (subst drain_ops.simps) (simp add: async_next_op_def)

lemma drain_first_Nil [simp]: "queues w q = [] \<Longrightarrow> drain_first settle q w = Some w"
  by (subst drain_first.simps) simp

lemma drain_first_Cons:
  "queues w q = op # rest \<Longrightarrow> drain_first settle q w = drain_first settle q (settle op w)"
  by (subst drain_first.simps) simp

section \<open>Partial correctness\<close>

lemma drain_ops_rule:
  assumes "drain_ops settle q w = Some w'" and "P w"
    and "\<And>w op w1. P w \<Longrightarrow> async_next_op q w = Some (op, w1) \<Longrightarrow> P (settle op w1)"
  shows "P w' \<and> queues w' q = []"
proof -
  have "settle = settle \<longrightarrow> q = q \<longrightarrow> P w \<longrightarrow> P w' \<and> queues w' q = []"
  proof (rule drain_ops.raw_induct [where
        P = "\<lambda>s a w w'. s = settle \<longrightarrow> a = q \<longrightarrow> P w \<longrightarrow> P w' \<and> queues w' q = []",
        OF _ assms(1)])
    fix D s a w w'
    assume IH: "\<And>s a w w'. D s a w = Some w' \<Longrightarrow> s = settle \<longrightarrow> a = q \<longrightarrow> P w \<longrightarrow> P w' \<and> queues w' q = []"
      and eq: "(case async_next_op a w of None \<Rightarrow> Some w | Some r \<Rightarrow> D s a (s (fst r) (snd r))) = Some w'"
    show "s = settle \<longrightarrow> a = q \<longrightarrow> P w \<longrightarrow> P w' \<and> queues w' q = []"
    proof (intro impI)
      assume a: "s = settle" "a = q" "P w"
      show "P w' \<and> queues w' q = []"
      proof (cases "async_next_op q w")
      case None
      with eq a show ?thesis by (simp add: async_next_op_None)
    next
      case (Some r)
      with eq a have "D settle q (settle (fst r) (snd r)) = Some w'" by simp
      from IH [OF this] a assms(3) [of w "fst r" "snd r"] Some show ?thesis by simp
      qed
    qed
  qed
  with assms(2) show ?thesis by simp
qed

lemma drain_first_rule:
  assumes "drain_first settle q w = Some w'" and "P w"
    and "\<And>w op rest. P w \<Longrightarrow> queues w q = op # rest \<Longrightarrow> P (settle op w)"
  shows "P w' \<and> queues w' q = []"
proof -
  have "settle = settle \<longrightarrow> q = q \<longrightarrow> P w \<longrightarrow> P w' \<and> queues w' q = []"
  proof (rule drain_first.raw_induct [where
        P = "\<lambda>s a w w'. s = settle \<longrightarrow> a = q \<longrightarrow> P w \<longrightarrow> P w' \<and> queues w' q = []",
        OF _ assms(1)])
    fix D s a w w'
    assume IH: "\<And>s a w w'. D s a w = Some w' \<Longrightarrow> s = settle \<longrightarrow> a = q \<longrightarrow> P w \<longrightarrow> P w' \<and> queues w' q = []"
      and eq: "(case queues w a of [] \<Rightarrow> Some w | op # _ \<Rightarrow> D s a (s op w)) = Some w'"
    show "s = settle \<longrightarrow> a = q \<longrightarrow> P w \<longrightarrow> P w' \<and> queues w' q = []"
    proof (intro impI)
      assume a: "s = settle" "a = q" "P w"
      show "P w' \<and> queues w' q = []"
      proof (cases "queues w q")
      case Nil
      with eq a show ?thesis by simp
    next
      case (Cons op rest)
      with eq a have "D settle q (settle op w) = Some w'" by simp
      from IH [OF this] a assms(3) Cons show ?thesis by simp
      qed
    qed
  qed
  with assms(2) show ?thesis by simp
qed

section \<open>Termination\<close>

lemma drain_ops_terminates:
  assumes "P w"
    and step: "\<And>w op w1. P w \<Longrightarrow> async_next_op q w = Some (op, w1) \<Longrightarrow>
           P (settle op w1) \<and> length (queues (settle op w1) q) < length (queues w q)"
  shows "\<exists>w'. drain_ops settle q w = Some w'"
  using assms(1)
proof (induction "length (queues w q)" arbitrary: w rule: less_induct)
  case less
  show ?case
  proof (cases "async_next_op q w")
    case None
    then show ?thesis by (simp add: async_next_op_None)
  next
    case (Some r)
    then have "async_next_op q w = Some (fst r, snd r)" by simp
    from step [OF less.prems this] less.hyps have "\<exists>w'. drain_ops settle q (settle (fst r) (snd r)) = Some w'"
      by blast
    with Some show ?thesis by (subst drain_ops.simps) simp
  qed
qed

lemma drain_first_terminates:
  assumes "P w"
    and step: "\<And>w op rest. P w \<Longrightarrow> queues w q = op # rest \<Longrightarrow>
           P (settle op w) \<and> length (queues (settle op w) q) < length (queues w q)"
  shows "\<exists>w'. drain_first settle q w = Some w'"
  using assms(1)
proof (induction "length (queues w q)" arbitrary: w rule: less_induct)
  case less
  show ?case
  proof (cases "queues w q")
    case Nil
    then show ?thesis by simp
  next
    case (Cons op rest)
    from step [OF less.prems Cons] less.hyps have "\<exists>w'. drain_first settle q (settle op w) = Some w'"
      by blast
    with Cons show ?thesis by (simp add: drain_first_Cons)
  qed
qed

section \<open>Draining with a quiet resumption\<close>

text \<open>
  Operations flagged \<open>ASYNC_OP_FLAG_DEFER\<close> only put the waiting task on the ready queue
  when they complete: the resumption changes neither the operations nor the queues. For such
  resumptions the loops are a fold over the queue in its order, and every operation that was
  waiting is settled exactly as the macro says.
\<close>

locale quiet_resume =
  fixes run :: "opid \<Rightarrow> 'a op_store_scheme \<Rightarrow> 'a op_store_scheme"
  assumes run_ops [simp]: "ops (run op w) = ops w"
    and run_queues [simp]: "queues (run op w) = queues w"
    and run_next [simp]: "next_opid (run op w) = next_opid w"
begin

lemma callback_sel [simp]:
  "ops (call_callback run op w) = ops w" "queues (call_callback run op w) = queues w"
  "next_opid (call_callback run op w) = next_opid w"
  by (simp_all add: call_callback_def split: option.split)

lemma finish_sel [simp]:
  "op_list (ops w op) = None \<Longrightarrow>
   ops (async_finish_op run op w) = (ops w)(op := (ops w op)\<lparr>op_status := ASYNC_STATUS_RESOLVED\<rparr>)"
  "op_list (ops w op) = None \<Longrightarrow> queues (async_finish_op run op w) = queues w"
  by (simp_all add: async_finish_op_def)

lemma fail_sel [simp]:
  "op_list (ops w op) = None \<Longrightarrow>
   ops (async_fail_op run op v w) =
     (ops w)(op := (ops w op)\<lparr>op_result := v, op_status := ASYNC_STATUS_FAILED\<rparr>)"
  "op_list (ops w op) = None \<Longrightarrow> queues (async_fail_op run op v w) = queues w"
  by (simp_all add: async_fail_op_def)

lemma resolve_sel [simp]:
  "op_list (ops w op) = None \<Longrightarrow>
   ops (async_resolve_op run op v w) =
     (ops w)(op := (ops w op)\<lparr>op_result := v, op_status := ASYNC_STATUS_RESOLVED\<rparr>)"
  "op_list (ops w op) = None \<Longrightarrow> queues (async_resolve_op run op v w) = queues w"
  by (simp_all add: async_resolve_op_def)

end

text \<open>
  The general form: if settling an unlinked operation updates that operation by \<open>f\<close> and
  leaves the queues alone, draining applies \<open>f\<close> to exactly the operations of the queue.
  \<open>P\<close> is what the loop keeps.
\<close>

lemma drain_ops_quiet:
  assumes "ops_wf w" and "P w"
    and step: "\<And>op rest w. P w \<Longrightarrow> queues w q = op # rest \<Longrightarrow>
       P (settle op (upd_op op (\<lambda>x. x\<lparr>op_list := None\<rparr>) (upd_queue q (\<lambda>_. rest) w)))"
    and ops: "\<And>op rest w. P w \<Longrightarrow> queues w q = op # rest \<Longrightarrow>
       ops (settle op (upd_op op (\<lambda>x. x\<lparr>op_list := None\<rparr>) (upd_queue q (\<lambda>_. rest) w))) =
         (ops w)(op := f ((ops w op)\<lparr>op_list := None\<rparr>))"
    and qs: "\<And>op rest w. P w \<Longrightarrow> queues w q = op # rest \<Longrightarrow>
       queues (settle op (upd_op op (\<lambda>x. x\<lparr>op_list := None\<rparr>) (upd_queue q (\<lambda>_. rest) w))) = (queues w)(q := rest)"
  shows "\<exists>w'. drain_ops settle q w = Some w' \<and> P w' \<and> queues w' = (queues w)(q := []) \<and>
    (\<forall>x. ops w' x = (if x \<in> set (queues w q) then f ((ops w x)\<lparr>op_list := None\<rparr>) else ops w x))"
proof -
  have "\<exists>w'. drain_ops settle q w = Some w' \<and> P w' \<and> queues w' = (queues w)(q := []) \<and>
    (\<forall>x. ops w' x = (if x \<in> set (queues w q) then f ((ops w x)\<lparr>op_list := None\<rparr>) else ops w x))"
    if "distinct (queues w q)" "P w" for w
    using that
  proof (induction "queues w q" arbitrary: w)
    case Nil
    then have "queues w q = []" by simp
    then show ?case by (intro exI [of _ w]) (auto simp: fun_eq_iff Nil.prems)
  next
    case (Cons op rest)
    define w1 where "w1 = settle op (upd_op op (\<lambda>x. x\<lparr>op_list := None\<rparr>) (upd_queue q (\<lambda>_. rest) w))"
    have q: "queues w q = op # rest" using Cons.hyps(2) by simp
    have w1q: "queues w1 = (queues w)(q := rest)" and w1P: "P w1"
      and w1o: "ops w1 = (ops w)(op := f ((ops w op)\<lparr>op_list := None\<rparr>))"
      unfolding w1_def using Cons.prems(2) by (simp_all add: qs [OF _ q] ops [OF _ q] step [OF _ q])
    from Cons.prems(1) q have d: "distinct rest" "op \<notin> set rest"
      by simp_all
    with Cons.hyps(1) [of w1] obtain w' where w': "drain_ops settle q w1 = Some w'" "P w'"
      "queues w' = (queues w1)(q := [])"
      "\<forall>x. ops w' x = (if x \<in> set rest then f ((ops w1 x)\<lparr>op_list := None\<rparr>) else ops w1 x)"
      using w1P by (auto simp: w1q)
    have "drain_ops settle q w = Some w'"
      using q w'(1) by (simp add: drain_ops_Cons w1_def)
    moreover have "queues w' = (queues w)(q := [])"
      using w'(3) by (simp add: w1q)
    moreover have "ops w' x = (if x \<in> set (queues w q) then f ((ops w x)\<lparr>op_list := None\<rparr>) else ops w x)" for x
      using w'(4) d(2) q by (auto simp: w1o)
    ultimately show ?case using w'(2) by blast
  qed
  with assms(1,2) show ?thesis by (simp add: ops_wf_distinct)
qed

text \<open>The same for the loops that leave the unlinking to the settling macro.\<close>

lemma drain_first_quiet:
  assumes "P w"
    and step: "\<And>op rest w. P w \<Longrightarrow> queues w q = op # rest \<Longrightarrow> P (settle op w)"
    and wf: "\<And>op w. P w \<Longrightarrow> ops_wf w"
    and ops: "\<And>op rest w. P w \<Longrightarrow> queues w q = op # rest \<Longrightarrow> ops (settle op w) = (ops w)(op := f ((ops w op)\<lparr>op_list := None\<rparr>))"
    and qs: "\<And>op rest w. P w \<Longrightarrow> queues w q = op # rest \<Longrightarrow> queues (settle op w) = (queues w)(q := rest)"
  shows "\<exists>w'. drain_first settle q w = Some w' \<and> P w' \<and> queues w' = (queues w)(q := []) \<and>
    (\<forall>x. ops w' x = (if x \<in> set (queues w q) then f ((ops w x)\<lparr>op_list := None\<rparr>) else ops w x))"
  using assms(1)
proof (induction "queues w q" arbitrary: w)
  case Nil
  then have "queues w q = []" by simp
  then show ?case by (intro exI [of _ w]) (auto simp: fun_eq_iff Nil.prems)
next
  case (Cons op rest)
  have q: "queues w q = op # rest" using Cons.hyps(2) by simp
  have w1q: "queues (settle op w) = (queues w)(q := rest)" and w1P: "P (settle op w)"
    and w1o: "ops (settle op w) = (ops w)(op := f ((ops w op)\<lparr>op_list := None\<rparr>))"
    using Cons.prems by (simp_all add: qs [OF _ q] ops [OF _ q] step [OF _ q])
  have d: "op \<notin> set rest" using ops_wf_distinct [OF wf [OF Cons.prems], of q] q by simp
  obtain w' where w': "drain_first settle q (settle op w) = Some w'" "P w'"
    "queues w' = (queues (settle op w))(q := [])"
    "\<forall>x. ops w' x = (if x \<in> set rest then f ((ops (settle op w) x)\<lparr>op_list := None\<rparr>) else ops (settle op w) x)"
    using Cons.hyps(1) [of "settle op w"] w1P by (auto simp: w1q)
  have "drain_first settle q w = Some w'"
    using q w'(1) by (simp add: drain_first_Cons)
  moreover have "queues w' = (queues w)(q := [])"
    using w'(3) by (simp add: w1q)
  moreover have "ops w' x = (if x \<in> set (queues w q) then f ((ops w x)\<lparr>op_list := None\<rparr>) else ops w x)" for x
    using w'(4) d q by (auto simp: w1o)
  ultimately show ?case using w'(2) by blast
qed

end
