(* ===== verification/Scheduler.thy ===== *)
theory Scheduler
  imports Fiber Drain
begin

text \<open>
  The task scheduler (\<open>task.c\<close>): the ready queue, the state flags, errors that stop it, and
  the point where every suspension goes through, \<open>async_await_op\<close>.

  One scheduler is modelled, the one \<open>g_scheduler\<close> names; nested schedulers
  (\<open>TaskScheduler::run\<close>) are further copies of the same structure. A function that gives up
  control takes the parameter \<open>yield\<close>: \<open>yield tr w\<close> is the state in which the function
  continues, after the fiber was left by the transfer \<open>tr\<close> in state \<open>w\<close> and came back.
  \<open>run\<close> is the same for a callback of an operation that wakes a fiber. What happens in
  between is the code of other fibers.
\<close>

section \<open>State\<close>

type_synonym u16 = "16 word"

abbreviation SCHED_RUNNING :: u16 where "SCHED_RUNNING \<equiv> 1"
abbreviation SCHED_DISPOSED :: u16 where "SCHED_DISPOSED \<equiv> 2"
abbreviation SCHED_NOWAIT :: u16 where "SCHED_NOWAIT \<equiv> 4"
abbreviation SCHED_ERROR :: u16 where "SCHED_ERROR \<equiv> 8"
abbreviation SCHED_ACTIVE :: u16 where "SCHED_ACTIVE \<equiv> 16"

abbreviation TASK_FLAG_DISPOSED :: u8 where "TASK_FLAG_DISPOSED \<equiv> 1"
abbreviation TASK_FLAG_NOWAIT :: u8 where "TASK_FLAG_NOWAIT \<equiv> 2"

abbreviation TICK_EVENT_CLOSED :: u8 where "TICK_EVENT_CLOSED \<equiv> 1"
abbreviation TICK_EVENT_REFERENCED :: u8 where "TICK_EVENT_REFERENCED \<equiv> 2"

text \<open>The task states; the last two are \<open>ASYNC_OP_RESOLVED\<close> and \<open>ASYNC_OP_FAILED\<close>.\<close>

datatype task_status = TASK_INIT | TASK_SUSPENDED | TASK_RUNNING | TASK_FINISHED | TASK_FAILED

record async_task =
  t_fiber :: "nat option"
  t_scheduler :: nat
  t_flags :: u8
  t_status :: task_status
  t_stack_size :: int
  t_callback :: nat
  t_context :: nat
  t_result :: zval
  t_op :: opid
  t_refs :: nat

text \<open>An entry of the ready queue: a task, or the pseudo task of the root execution.\<close>

datatype task_ref = TaskRef nat | RootRef

text \<open>The list a tick event is in (\<open>event->list\<close>): waiting for the next run, or being run.\<close>

datatype tick_list = TickQueue | TickRunning

record tick_event =
  e_flags :: u8
  e_list :: "tick_list option"
  e_callback :: nat
  e_refs :: nat

record task_store = fiber_store +
  tasks :: "nat \<Rightarrow> async_task"
  next_task :: nat
  s_flags :: u16
  ready :: "task_ref list"
  s_caller :: "nat option"
  s_root_fiber :: "nat option"
  s_op :: opid
  s_error :: zval
  s_shutdown :: "cancel_cb list"
  busy_count :: "64 word"
  busy_ref :: bool
  idle_active :: bool
  loop_stopped :: bool
  tick_events :: "nat \<Rightarrow> tick_event"
  ticks :: "nat list"
  ticks_running :: "nat list"
  refticks :: u32
  g_exit :: bool

datatype transfer = Suspend | Switch nat

definition upd_task :: "nat \<Rightarrow> (async_task \<Rightarrow> async_task) \<Rightarrow> 'a task_store_scheme \<Rightarrow> 'a task_store_scheme" where
  "upd_task t f w = w\<lparr>tasks := (tasks w)(t := f (tasks w t))\<rparr>"

definition sched_flag :: "u16 \<Rightarrow> 'a task_store_scheme \<Rightarrow> bool" where
  "sched_flag m w = has_flag (s_flags w) m"

lemma upd_task_sel [simp, store_simps]:
  "tasks (upd_task t f w) = (tasks w)(t := f (tasks w t))" "s_flags (upd_task t f w) = s_flags w"
  "ready (upd_task t f w) = ready w" "s_caller (upd_task t f w) = s_caller w"
  "ops (upd_task t f w) = ops w" "queues (upd_task t f w) = queues w"
  "next_opid (upd_task t f w) = next_opid w" "cancels (upd_task t f w) = cancels w"
  "next_cancel (upd_task t f w) = next_cancel w" "contexts (upd_task t f w) = contexts w"
  "g_context (upd_task t f w) = g_context w" "g_task (upd_task t f w) = g_task w"
  "g_fiber (upd_task t f w) = g_fiber w" "fiber_queue (upd_task t f w) = fiber_queue w"
  "fibers (upd_task t f w) = fibers w" "idle_active (upd_task t f w) = idle_active w"
  by (simp_all add: upd_task_def)

text \<open>What the updates of one component leave of the others.\<close>

lemma upd_op_frame [simp]:
  "contexts (upd_op op f w) = contexts w" "next_ctx (upd_op op f w) = next_ctx w"
  "cancels (upd_op op f w) = cancels w" "next_cancel (upd_op op f w) = next_cancel w"
  "handlers (upd_op op f w) = handlers w" "next_handler (upd_op op f w) = next_handler w"
  "g_context (upd_op op f w) = g_context w" "g_foreground (upd_op op f w) = g_foreground w"
  "g_background (upd_op op f w) = g_background w" "scheduler_refs (upd_op op f w) = scheduler_refs w"
  "fibers (upd_op op f w) = fibers w" "next_fiber (upd_op op f w) = next_fiber w"
  "fiber_queue (upd_op op f w) = fiber_queue w" "runner (upd_op op f w) = runner w"
  "g_fiber (upd_op op f w) = g_fiber w" "g_task (upd_op op f w) = g_task w"
  "g_scheduler (upd_op op f w) = g_scheduler w" "tasks (upd_op op f w) = tasks w"
  "next_task (upd_op op f w) = next_task w" "s_flags (upd_op op f w) = s_flags w"
  "ready (upd_op op f w) = ready w" "s_caller (upd_op op f w) = s_caller w"
  "s_root_fiber (upd_op op f w) = s_root_fiber w" "s_op (upd_op op f w) = s_op w"
  "s_error (upd_op op f w) = s_error w" "s_shutdown (upd_op op f w) = s_shutdown w"
  "busy_count (upd_op op f w) = busy_count w" "busy_ref (upd_op op f w) = busy_ref w"
  "idle_active (upd_op op f w) = idle_active w" "loop_stopped (upd_op op f w) = loop_stopped w"
  "tick_events (upd_op op f w) = tick_events w" "ticks (upd_op op f w) = ticks w"
  "ticks_running (upd_op op f w) = ticks_running w" "refticks (upd_op op f w) = refticks w"
  "g_exit (upd_op op f w) = g_exit w" "task_store.more (upd_op op f w) = task_store.more w"
  by (simp_all add: upd_op_def)

lemma upd_queue_frame [simp]:
  "contexts (upd_queue q f w) = contexts w" "next_ctx (upd_queue q f w) = next_ctx w"
  "cancels (upd_queue q f w) = cancels w" "next_cancel (upd_queue q f w) = next_cancel w"
  "handlers (upd_queue q f w) = handlers w" "next_handler (upd_queue q f w) = next_handler w"
  "g_context (upd_queue q f w) = g_context w" "g_foreground (upd_queue q f w) = g_foreground w"
  "g_background (upd_queue q f w) = g_background w" "scheduler_refs (upd_queue q f w) = scheduler_refs w"
  "fibers (upd_queue q f w) = fibers w" "next_fiber (upd_queue q f w) = next_fiber w"
  "fiber_queue (upd_queue q f w) = fiber_queue w" "runner (upd_queue q f w) = runner w"
  "g_fiber (upd_queue q f w) = g_fiber w" "g_task (upd_queue q f w) = g_task w"
  "g_scheduler (upd_queue q f w) = g_scheduler w" "tasks (upd_queue q f w) = tasks w"
  "next_task (upd_queue q f w) = next_task w" "s_flags (upd_queue q f w) = s_flags w"
  "ready (upd_queue q f w) = ready w" "s_caller (upd_queue q f w) = s_caller w"
  "s_root_fiber (upd_queue q f w) = s_root_fiber w" "s_op (upd_queue q f w) = s_op w"
  "s_error (upd_queue q f w) = s_error w" "s_shutdown (upd_queue q f w) = s_shutdown w"
  "busy_count (upd_queue q f w) = busy_count w" "busy_ref (upd_queue q f w) = busy_ref w"
  "idle_active (upd_queue q f w) = idle_active w" "loop_stopped (upd_queue q f w) = loop_stopped w"
  "tick_events (upd_queue q f w) = tick_events w" "ticks (upd_queue q f w) = ticks w"
  "ticks_running (upd_queue q f w) = ticks_running w" "refticks (upd_queue q f w) = refticks w"
  "g_exit (upd_queue q f w) = g_exit w" "task_store.more (upd_queue q f w) = task_store.more w"
  by (simp_all add: upd_queue_def)

lemma upd_cancel_frame [simp]:
  "fibers (upd_cancel c f w) = fibers w" "next_fiber (upd_cancel c f w) = next_fiber w"
  "fiber_queue (upd_cancel c f w) = fiber_queue w" "runner (upd_cancel c f w) = runner w"
  "g_fiber (upd_cancel c f w) = g_fiber w" "g_task (upd_cancel c f w) = g_task w"
  "g_scheduler (upd_cancel c f w) = g_scheduler w" "tasks (upd_cancel c f w) = tasks w"
  "next_task (upd_cancel c f w) = next_task w" "s_flags (upd_cancel c f w) = s_flags w"
  "ready (upd_cancel c f w) = ready w" "s_caller (upd_cancel c f w) = s_caller w"
  "s_root_fiber (upd_cancel c f w) = s_root_fiber w" "s_op (upd_cancel c f w) = s_op w"
  "s_error (upd_cancel c f w) = s_error w" "s_shutdown (upd_cancel c f w) = s_shutdown w"
  "busy_count (upd_cancel c f w) = busy_count w" "busy_ref (upd_cancel c f w) = busy_ref w"
  "idle_active (upd_cancel c f w) = idle_active w" "loop_stopped (upd_cancel c f w) = loop_stopped w"
  "tick_events (upd_cancel c f w) = tick_events w" "ticks (upd_cancel c f w) = ticks w"
  "ticks_running (upd_cancel c f w) = ticks_running w" "refticks (upd_cancel c f w) = refticks w"
  "g_exit (upd_cancel c f w) = g_exit w" "task_store.more (upd_cancel c f w) = task_store.more w"
  by (simp_all add: upd_cancel_def)

lemma upd_fiber_frame [simp]:
  "tasks (upd_fiber x f w) = tasks w" "next_task (upd_fiber x f w) = next_task w"
  "s_flags (upd_fiber x f w) = s_flags w" "ready (upd_fiber x f w) = ready w"
  "s_caller (upd_fiber x f w) = s_caller w" "s_root_fiber (upd_fiber x f w) = s_root_fiber w"
  "s_op (upd_fiber x f w) = s_op w" "s_error (upd_fiber x f w) = s_error w"
  "s_shutdown (upd_fiber x f w) = s_shutdown w" "busy_count (upd_fiber x f w) = busy_count w"
  "busy_ref (upd_fiber x f w) = busy_ref w" "idle_active (upd_fiber x f w) = idle_active w"
  "loop_stopped (upd_fiber x f w) = loop_stopped w" "tick_events (upd_fiber x f w) = tick_events w"
  "ticks (upd_fiber x f w) = ticks w" "ticks_running (upd_fiber x f w) = ticks_running w"
  "refticks (upd_fiber x f w) = refticks w" "g_exit (upd_fiber x f w) = g_exit w"
  "task_store.more (upd_fiber x f w) = task_store.more w"
  by (simp_all add: upd_fiber_def)

lemma upd_task_frame [simp]:
  "ops (upd_task t f w) = ops w" "queues (upd_task t f w) = queues w"
  "next_opid (upd_task t f w) = next_opid w" "contexts (upd_task t f w) = contexts w"
  "next_ctx (upd_task t f w) = next_ctx w" "cancels (upd_task t f w) = cancels w"
  "next_cancel (upd_task t f w) = next_cancel w" "handlers (upd_task t f w) = handlers w"
  "next_handler (upd_task t f w) = next_handler w" "g_context (upd_task t f w) = g_context w"
  "g_foreground (upd_task t f w) = g_foreground w" "g_background (upd_task t f w) = g_background w"
  "scheduler_refs (upd_task t f w) = scheduler_refs w" "fibers (upd_task t f w) = fibers w"
  "next_fiber (upd_task t f w) = next_fiber w" "fiber_queue (upd_task t f w) = fiber_queue w"
  "runner (upd_task t f w) = runner w" "g_fiber (upd_task t f w) = g_fiber w"
  "g_task (upd_task t f w) = g_task w" "g_scheduler (upd_task t f w) = g_scheduler w"
  "next_task (upd_task t f w) = next_task w" "s_flags (upd_task t f w) = s_flags w"
  "ready (upd_task t f w) = ready w" "s_caller (upd_task t f w) = s_caller w"
  "s_root_fiber (upd_task t f w) = s_root_fiber w" "s_op (upd_task t f w) = s_op w"
  "s_error (upd_task t f w) = s_error w" "s_shutdown (upd_task t f w) = s_shutdown w"
  "busy_count (upd_task t f w) = busy_count w" "busy_ref (upd_task t f w) = busy_ref w"
  "idle_active (upd_task t f w) = idle_active w" "loop_stopped (upd_task t f w) = loop_stopped w"
  "tick_events (upd_task t f w) = tick_events w" "ticks (upd_task t f w) = ticks w"
  "ticks_running (upd_task t f w) = ticks_running w" "refticks (upd_task t f w) = refticks w"
  "g_exit (upd_task t f w) = g_exit w" "task_store.more (upd_task t f w) = task_store.more w"
  by (simp_all add: upd_task_def)

definition settled :: "async_task \<Rightarrow> bool" where
  "settled t \<longleftrightarrow> t_status t = TASK_FINISHED \<or> t_status t = TASK_FAILED"

section \<open>The ready queue\<close>

definition append_ready :: "task_ref \<Rightarrow> 'a task_store_scheme \<Rightarrow> 'a task_store_scheme" where
  "append_ready r w =
     (let w1 = (if ready w = [] then w\<lparr>idle_active := True\<rparr> else w)
      in w1\<lparr>ready := list_append r (ready w1)\<rparr>)"

definition async_task_scheduler_enqueue :: "task_ref \<Rightarrow> 'a task_store_scheme \<Rightarrow> 'a task_store_scheme" where
  "async_task_scheduler_enqueue r w = (case r of
     RootRef \<Rightarrow> append_ready r (w\<lparr>s_root_fiber := s_caller w\<rparr>)
   | TaskRef t \<Rightarrow> (case t_status (tasks w t) of
       TASK_INIT \<Rightarrow> append_ready r (upd_task t (\<lambda>x. x\<lparr>t_refs := t_refs x + 1\<rparr>) w)
     | TASK_SUSPENDED \<Rightarrow> append_ready r w
     | _ \<Rightarrow> w))"

text \<open>
  \<open>None\<close> is the fatal error for a second run of the loop; the loop itself runs in the runner
  fiber until it switches back to the caller.
\<close>

definition async_task_scheduler_run_loop ::
  "(transfer \<Rightarrow> 'a task_store_scheme \<Rightarrow> 'a task_store_scheme) \<Rightarrow> 'a task_store_scheme \<Rightarrow>
   'a task_store_scheme option" where
  "async_task_scheduler_run_loop yield w =
     (if sched_flag SCHED_RUNNING w then None
      else
        let w1 = w\<lparr>s_caller := Some (g_fiber w), s_flags := set_flag (s_flags w) SCHED_RUNNING\<rparr>;
            w2 = yield Suspend w1
        in Some (w2\<lparr>s_flags := clear_flag (s_flags w2) SCHED_RUNNING, s_caller := None\<rparr>))"

section \<open>Stopping the scheduler\<close>

definition drop_tick :: "nat \<Rightarrow> 'a task_store_scheme \<Rightarrow> 'a task_store_scheme" where
  "drop_tick e w =
     (let x = tick_events w e
      in w\<lparr>tick_events := (tick_events w)(e := x\<lparr>e_list := None, e_refs := e_refs x - 1\<rparr>),
           refticks := (if has_flag (e_flags x) TICK_EVENT_REFERENCED then refticks w - 1 else refticks w)\<rparr>)"

definition dispose_ticks :: "'a task_store_scheme \<Rightarrow> 'a task_store_scheme" where
  "dispose_ticks w =
     (let w1 = (fold drop_tick (ticks_running w) w)\<lparr>ticks_running := []\<rparr>
      in (fold drop_tick (ticks w1) w1)\<lparr>ticks := []\<rparr>)"

definition stop_active_loop :: "'a task_store_scheme \<Rightarrow> 'a task_store_scheme" where
  "stop_active_loop w = (if sched_flag SCHED_ACTIVE w then w\<lparr>loop_stopped := True\<rparr> else w)"

definition async_task_scheduler_handle_exit :: "'a task_store_scheme \<Rightarrow> 'a task_store_scheme" where
  "async_task_scheduler_handle_exit w =
     dispose_ticks (stop_active_loop (w\<lparr>g_exit := True, s_flags := set_flag (s_flags w) SCHED_ERROR\<rparr>))"

definition async_task_scheduler_handle_error :: "zval \<Rightarrow> 'a task_store_scheme \<Rightarrow> 'a task_store_scheme" where
  "async_task_scheduler_handle_error err w =
     (let w1 = w\<lparr>s_flags := set_flag (s_flags w) SCHED_ERROR\<rparr>;
          w2 = (if s_error w1 = IS_UNDEF then w1\<lparr>s_error := err\<rparr> else w1)
      in dispose_ticks (stop_active_loop w2))"

text \<open>\<open>ASYNC_BUSY_ENTER\<close> and \<open>ASYNC_BUSY_EXIT\<close> keep the loop alive while something waits.\<close>

definition async_busy_enter :: "'a task_store_scheme \<Rightarrow> 'a task_store_scheme" where
  "async_busy_enter w =
     (let n = busy_count w + 1
      in w\<lparr>busy_count := n, busy_ref := (if n = 1 then True else busy_ref w)\<rparr>)"

definition async_busy_exit :: "'a task_store_scheme \<Rightarrow> 'a task_store_scheme" where
  "async_busy_exit w =
     (let n = busy_count w - 1
      in w\<lparr>busy_count := n, busy_ref := (if n = 0 then False else busy_ref w)\<rparr>)"

lemma busy_enter_frame [simp]:
  "ops (async_busy_enter w) = ops w" "queues (async_busy_enter w) = queues w"
  "next_opid (async_busy_enter w) = next_opid w" "contexts (async_busy_enter w) = contexts w"
  "next_ctx (async_busy_enter w) = next_ctx w" "cancels (async_busy_enter w) = cancels w"
  "next_cancel (async_busy_enter w) = next_cancel w" "handlers (async_busy_enter w) = handlers w"
  "next_handler (async_busy_enter w) = next_handler w" "g_context (async_busy_enter w) = g_context w"
  "g_foreground (async_busy_enter w) = g_foreground w"
  "g_background (async_busy_enter w) = g_background w"
  "scheduler_refs (async_busy_enter w) = scheduler_refs w" "fibers (async_busy_enter w) = fibers w"
  "next_fiber (async_busy_enter w) = next_fiber w" "fiber_queue (async_busy_enter w) = fiber_queue w"
  "runner (async_busy_enter w) = runner w" "g_fiber (async_busy_enter w) = g_fiber w"
  "g_task (async_busy_enter w) = g_task w" "g_scheduler (async_busy_enter w) = g_scheduler w"
  "tasks (async_busy_enter w) = tasks w" "next_task (async_busy_enter w) = next_task w"
  "s_flags (async_busy_enter w) = s_flags w" "ready (async_busy_enter w) = ready w"
  "s_caller (async_busy_enter w) = s_caller w" "s_root_fiber (async_busy_enter w) = s_root_fiber w"
  "s_op (async_busy_enter w) = s_op w" "s_error (async_busy_enter w) = s_error w"
  "s_shutdown (async_busy_enter w) = s_shutdown w" "idle_active (async_busy_enter w) = idle_active w"
  "loop_stopped (async_busy_enter w) = loop_stopped w" "tick_events (async_busy_enter w) = tick_events w"
  "ticks (async_busy_enter w) = ticks w" "ticks_running (async_busy_enter w) = ticks_running w"
  "refticks (async_busy_enter w) = refticks w" "g_exit (async_busy_enter w) = g_exit w"
  "task_store.more (async_busy_enter w) = task_store.more w"
  by (simp_all add: async_busy_enter_def Let_def)

lemma busy_exit_frame [simp]:
  "ops (async_busy_exit w) = ops w" "queues (async_busy_exit w) = queues w"
  "next_opid (async_busy_exit w) = next_opid w" "contexts (async_busy_exit w) = contexts w"
  "next_ctx (async_busy_exit w) = next_ctx w" "cancels (async_busy_exit w) = cancels w"
  "next_cancel (async_busy_exit w) = next_cancel w" "handlers (async_busy_exit w) = handlers w"
  "next_handler (async_busy_exit w) = next_handler w" "g_context (async_busy_exit w) = g_context w"
  "g_foreground (async_busy_exit w) = g_foreground w" "g_background (async_busy_exit w) = g_background w"
  "scheduler_refs (async_busy_exit w) = scheduler_refs w" "fibers (async_busy_exit w) = fibers w"
  "next_fiber (async_busy_exit w) = next_fiber w" "fiber_queue (async_busy_exit w) = fiber_queue w"
  "runner (async_busy_exit w) = runner w" "g_fiber (async_busy_exit w) = g_fiber w"
  "g_task (async_busy_exit w) = g_task w" "g_scheduler (async_busy_exit w) = g_scheduler w"
  "tasks (async_busy_exit w) = tasks w" "next_task (async_busy_exit w) = next_task w"
  "s_flags (async_busy_exit w) = s_flags w" "ready (async_busy_exit w) = ready w"
  "s_caller (async_busy_exit w) = s_caller w" "s_root_fiber (async_busy_exit w) = s_root_fiber w"
  "s_op (async_busy_exit w) = s_op w" "s_error (async_busy_exit w) = s_error w"
  "s_shutdown (async_busy_exit w) = s_shutdown w" "idle_active (async_busy_exit w) = idle_active w"
  "loop_stopped (async_busy_exit w) = loop_stopped w" "tick_events (async_busy_exit w) = tick_events w"
  "ticks (async_busy_exit w) = ticks w" "ticks_running (async_busy_exit w) = ticks_running w"
  "refticks (async_busy_exit w) = refticks w" "g_exit (async_busy_exit w) = g_exit w"
  "task_store.more (async_busy_exit w) = task_store.more w"
  by (simp_all add: async_busy_exit_def Let_def)

definition async_context_is_background :: "nat \<Rightarrow> 'a ctx_store_scheme \<Rightarrow> bool" where
  "async_context_is_background x w = has_flag (x_flags (contexts w x)) ASYNC_CONTEXT_FLAG_BACKGROUND"

section \<open>Settling a task\<close>

type_synonym 'a wake = "opid \<Rightarrow> 'a task_store_scheme \<Rightarrow> 'a task_store_scheme"
type_synonym 'a yielding = "transfer \<Rightarrow> 'a task_store_scheme \<Rightarrow> 'a task_store_scheme"

definition settle_task_op :: "'a wake \<Rightarrow> nat \<Rightarrow> opid \<Rightarrow> 'a task_store_scheme \<Rightarrow> 'a task_store_scheme" where
  "settle_task_op run t op w =
     (if t_status (tasks w t) = TASK_FINISHED then async_resolve_op run op (t_result (tasks w t)) w
      else async_fail_op run op (t_result (tasks w t)) w)"

definition trigger_ops :: "'a wake \<Rightarrow> nat \<Rightarrow> 'a task_store_scheme \<Rightarrow> 'a task_store_scheme option" where
  "trigger_ops run t w = drain_ops (settle_task_op run t) (TaskOps t) w"

definition async_task_dispose :: "'a wake \<Rightarrow> nat \<Rightarrow> 'a task_store_scheme \<Rightarrow> 'a task_store_scheme option" where
  "async_task_dispose run t w =
     (if has_flag (t_flags (tasks w t)) TASK_FLAG_DISPOSED then Some w
      else map_option (upd_task t (\<lambda>x. x\<lparr>t_refs := t_refs x - 1\<rparr>))
             (trigger_ops run t (upd_task t (\<lambda>x. x\<lparr>t_flags := set_flag (t_flags x) TASK_FLAG_DISPOSED\<rparr>) w)))"

section \<open>Continuing and cancelling operations\<close>

text \<open>A task without a fiber cannot be switched to; \<open>None\<close> is that failed assertion.\<close>

definition reschedule_task ::
  "'a yielding \<Rightarrow> 'a wake \<Rightarrow> opid \<Rightarrow> nat \<Rightarrow> 'a task_store_scheme \<Rightarrow> 'a task_store_scheme option" where
  "reschedule_task yield run op t w =
     (if has_flag (op_flags (ops w op)) ASYNC_OP_FLAG_DEFER
      then Some (async_task_scheduler_enqueue (TaskRef t) w)
      else case t_fiber (tasks w t) of
        None \<Rightarrow> None
      | Some f \<Rightarrow>
          let w1 = yield (Switch f) (upd_task t (\<lambda>x. x\<lparr>t_status := TASK_RUNNING\<rparr>) w)
          in if settled (tasks w1 t) then async_task_dispose run t w1 else Some w1)"

definition continue_op_task ::
  "'a yielding \<Rightarrow> 'a wake \<Rightarrow> opid \<Rightarrow> 'a task_store_scheme \<Rightarrow> 'a task_store_scheme option" where
  "continue_op_task yield run op w =
     (if has_flag (op_flags (ops w op)) ASYNC_OP_FLAG_CANCELLED then Some w
      else reschedule_task yield run op (op_arg (ops w op)) w)"

text \<open>The common part of \<open>cancel_op\<close> and \<open>cancel_op_root\<close>.\<close>

definition mark_cancelled :: "opid \<Rightarrow> zval \<Rightarrow> 'a op_store_scheme \<Rightarrow> 'a op_store_scheme" where
  "mark_cancelled op err w = upd_op op (\<lambda>x. x\<lparr>op_result := err, op_status := ASYNC_STATUS_FAILED,
     op_flags := set_flag (op_flags x) ASYNC_OP_FLAG_CANCELLED, op_cancel := None\<rparr>) w"

definition cancel_op ::
  "'a yielding \<Rightarrow> 'a wake \<Rightarrow> opid \<Rightarrow> zval \<Rightarrow> 'a task_store_scheme \<Rightarrow> 'a task_store_scheme option" where
  "cancel_op yield run op err w =
     (if op_status (ops w op) = ASYNC_STATUS_RUNNING
      then reschedule_task yield run op (op_arg (ops w op)) (mark_cancelled op err w)
      else Some w)"

definition reschedule_root :: "'a yielding \<Rightarrow> opid \<Rightarrow> 'a task_store_scheme \<Rightarrow> 'a task_store_scheme option" where
  "reschedule_root yield op w =
     (if sched_flag SCHED_ERROR w then Some (yield Suspend w)
      else if has_flag (op_flags (ops w op)) ASYNC_OP_FLAG_DEFER
      then Some (async_task_scheduler_enqueue RootRef w)
      else case s_caller w of None \<Rightarrow> None | Some f \<Rightarrow> Some (yield (Switch f) w))"

definition continue_op_root :: "'a yielding \<Rightarrow> opid \<Rightarrow> 'a task_store_scheme \<Rightarrow> 'a task_store_scheme option" where
  "continue_op_root yield op w =
     (if has_flag (op_flags (ops w op)) ASYNC_OP_FLAG_CANCELLED then Some w
      else reschedule_root yield op w)"

definition cancel_op_root ::
  "'a yielding \<Rightarrow> opid \<Rightarrow> zval \<Rightarrow> 'a task_store_scheme \<Rightarrow> 'a task_store_scheme option" where
  "cancel_op_root yield op err w =
     (if op_status (ops w op) = ASYNC_STATUS_RUNNING
      then reschedule_root yield op (mark_cancelled op err w)
      else Some w)"

section \<open>Awaiting an operation\<close>

text \<open>A chain of \<open>ASYNC_CHECK_ERROR\<close>s: the message of the first condition that holds.\<close>

fun first_error :: "(bool \<times> string) list \<Rightarrow> string option" where
  "first_error [] = None"
| "first_error ((b, msg) # checks) = (if b then Some msg else first_error checks)"

definition await_checks_root :: "'a task_store_scheme \<Rightarrow> (bool \<times> string) list" where
  "await_checks_root w =
     [(sched_flag SCHED_DISPOSED w, ''Cannot await after the task scheduler has been disposed''),
      (sched_flag SCHED_ERROR w, ''Cannot await after the task scheduler was stopped due to an error''),
      (sched_flag SCHED_RUNNING w, ''Cannot await in the fiber that is running the task scheduler loop'')]"

definition await_checks_task :: "nat \<Rightarrow> 'a task_store_scheme \<Rightarrow> (bool \<times> string) list" where
  "await_checks_task t w =
     [(t_status (tasks w t) \<noteq> TASK_RUNNING, ''Cannot await in a task that is not running''),
      (has_flag (t_flags (tasks w t)) TASK_FLAG_DISPOSED, ''Task has been destroyed''),
      (sched_flag SCHED_DISPOSED w, ''Cannot await after the task scheduler has been disposed''),
      (sched_flag SCHED_ERROR w, ''Cannot await after the task scheduler has been stopped due to an error'')]"

datatype await_result = Await_success | Await_failure | Await_bailout

text \<open>\<open>context->cancel\<close>, unless the operation is atomic.\<close>

definition await_cancellation :: "opid \<Rightarrow> 'a task_store_scheme \<Rightarrow> nat option" where
  "await_cancellation op w =
     (if has_flag (op_flags (ops w op)) ASYNC_OP_FLAG_ATOMIC then None
      else x_cancel (contexts w (g_context w)))"

text \<open>Registering the operation: cancel callback, status, callback, argument, queue.\<close>

definition await_register ::
  "nat option \<Rightarrow> op_cancel \<Rightarrow> op_callback \<Rightarrow> nat \<Rightarrow> opid \<Rightarrow> 'a task_store_scheme \<Rightarrow> 'a task_store_scheme" where
  "await_register canc cfunc cb arg op w =
     (let w1 = (case canc of None \<Rightarrow> w
          | Some c \<Rightarrow> upd_cancel c (\<lambda>x. x\<lparr>c_callbacks := list_append (OpCb op) (c_callbacks x)\<rparr>)
                       (upd_op op (\<lambda>x. x\<lparr>op_cancel := Some cfunc\<rparr>) w));
          w2 = upd_op op (\<lambda>x. x\<lparr>op_status := ASYNC_STATUS_RUNNING, op_callback := Some cb, op_arg := arg\<rparr>) w1
      in if op_list (ops w2 op) = None then async_append_op SchedOperations op w2 else w2)"

text \<open>The end of \<open>async_await_op\<close>, when the fiber is running again.\<close>

definition await_finish :: "nat option \<Rightarrow> opid \<Rightarrow> 'a task_store_scheme \<Rightarrow> await_result \<times> 'a task_store_scheme" where
  "await_finish canc op w =
     (let w1 = (case canc of None \<Rightarrow> w
          | Some c \<Rightarrow> if op_cancel (ops w op) \<noteq> None
                      then upd_op op (\<lambda>x. x\<lparr>op_cancel := None\<rparr>)
                             (upd_cancel c (\<lambda>x. x\<lparr>c_callbacks := remove1 (OpCb op) (c_callbacks x)\<rparr>) w)
                      else w)
      in if sched_flag SCHED_ERROR w1 then (Await_bailout, async_reset_op op w1)
         else if op_status (ops w1 op) = ASYNC_STATUS_RESOLVED then (Await_success, w1)
         else (Await_failure, w1))"

definition await_fail :: "string \<Rightarrow> opid \<Rightarrow> 'a task_store_scheme \<Rightarrow> await_result \<times> 'a task_store_scheme" where
  "await_fail msg op w = (Await_failure,
     upd_op op (\<lambda>x. x\<lparr>op_status := ASYNC_STATUS_FAILED, op_result := IS_ERROR ErrorCe msg None\<rparr>) w)"

definition async_await_op ::
  "'a yielding \<Rightarrow> opid \<Rightarrow> 'a task_store_scheme \<Rightarrow> (await_result \<times> 'a task_store_scheme) option" where
  "async_await_op yield op w0 =
     (let w = upd_op op (\<lambda>x. x\<lparr>op_result := IS_NULL\<rparr>) w0;
          canc = await_cancellation op w
      in case (case canc of Some c \<Rightarrow> if triggered (cancels w c) then Some (c_error (cancels w c)) else None
                          | None \<Rightarrow> None) of
           Some err \<Rightarrow> Some (Await_failure,
             upd_op op (\<lambda>x. x\<lparr>op_status := ASYNC_STATUS_FAILED, op_result := err\<rparr>) w)
         | None \<Rightarrow> (case g_task w of
             None \<Rightarrow> (case first_error (await_checks_root w) of
                 Some msg \<Rightarrow> Some (await_fail msg op w)
               | None \<Rightarrow> map_option (await_finish canc op)
                   (async_task_scheduler_run_loop yield
                     (await_register canc Cancel_op_root Continue_op_root (g_scheduler w) op w)))
           | Some t \<Rightarrow> (case first_error (await_checks_task t w) of
                 Some msg \<Rightarrow> Some (await_fail msg op w)
               | None \<Rightarrow> Some (await_finish canc op
                   (yield Suspend (upd_task t (\<lambda>x. x\<lparr>t_status := TASK_SUSPENDED\<rparr>)
                     (await_register canc Cancel_op Continue_op_task t op w)))))))"

text \<open>In a task that may wait, the function is the registration, the suspension and the end.\<close>

lemma async_await_op_task:
  assumes "g_task w = Some t" and "first_error (await_checks_task t w) = None"
    and "\<And>c. await_cancellation op w = Some c \<Longrightarrow> \<not> triggered (cancels w c)"
  shows "async_await_op yield op w = Some (await_finish (await_cancellation op w) op
     (yield Suspend (upd_task t (\<lambda>x. x\<lparr>t_status := TASK_SUSPENDED\<rparr>)
        (await_register (await_cancellation op w) Cancel_op Continue_op_task t op
          (upd_op op (\<lambda>x. x\<lparr>op_result := IS_NULL\<rparr>) w)))))"
proof -
  let ?w = "upd_op op (\<lambda>x. x\<lparr>op_result := IS_NULL\<rparr>) w"
  have s: "await_cancellation op ?w = await_cancellation op w" "g_task ?w = Some t"
    "await_checks_task t ?w = await_checks_task t w" "cancels ?w = cancels w"
    using assms(1) by (simp_all add: await_cancellation_def await_checks_task_def sched_flag_def upd_op_def)
  show ?thesis
    using assms by (simp add: async_await_op_def s Let_def split: option.split)
qed

end
