(* ===== verification/Resume.thy ===== *)
theory Resume
  imports Scheduler
begin

text \<open>
  The resumption the scheduler itself provides: continuing an operation runs the code of
  \<open>task.c\<close> (\<open>continue_op_task\<close>, \<open>continue_op_root\<close>), and a fiber that is switched to gives
  control back without touching operations. With it the interfaces \<open>resumes\<close> and
  \<open>quiet_resume\<close> hold for the model, so the lemmas proved from them apply to it.
\<close>

section \<open>Immediate return\<close>

text \<open>
  A fiber that is switched to suspends at once; a suspended fiber is switched back to at once.
\<close>

definition bounce :: "'a yielding" where
  "bounce tr w = (case tr of
     Switch f \<Rightarrow> async_fiber_suspend (async_fiber_switch f SUSPEND_PREPEND w)
   | Suspend \<Rightarrow> async_fiber_switch (g_fiber w) SUSPEND_NONE (async_fiber_suspend w))"

definition or_keep :: "'w \<Rightarrow> 'w option \<Rightarrow> 'w" where
  "or_keep w r = (case r of None \<Rightarrow> w | Some w' \<Rightarrow> w')"

definition wake :: "'a wake" where
  "wake op w = (case op_callback (ops w op) of
     Some Continue_op_task \<Rightarrow> or_keep w (continue_op_task bounce (\<lambda>_ w. w) op w)
   | Some Continue_op_root \<Rightarrow> or_keep w (continue_op_root bounce op w)
   | _ \<Rightarrow> w)"

lemma or_keep_simps [simp]: "or_keep w None = w" "or_keep w (Some w') = w'"
  by (simp_all add: or_keep_def)

section \<open>What it leaves alone\<close>

lemma enqueue_sel [simp]:
  "ops (async_task_scheduler_enqueue r w) = ops w" "queues (async_task_scheduler_enqueue r w) = queues w"
  "next_opid (async_task_scheduler_enqueue r w) = next_opid w"
  "cancels (async_task_scheduler_enqueue r w) = cancels w"
  "next_cancel (async_task_scheduler_enqueue r w) = next_cancel w"
  "contexts (async_task_scheduler_enqueue r w) = contexts w"
  "s_flags (async_task_scheduler_enqueue r w) = s_flags w"
  "next_ctx (async_task_scheduler_enqueue r w) = next_ctx w" "handlers (async_task_scheduler_enqueue r w) = handlers w"
  "next_handler (async_task_scheduler_enqueue r w) = next_handler w" "g_exit (async_task_scheduler_enqueue r w) = g_exit w"
  by (simp_all add: async_task_scheduler_enqueue_def append_ready_def Let_def
      split: task_ref.split task_status.split)

text \<open>Switching and suspending change the fibers, their queue and the globals of the fiber only.\<close>

definition fiber_norm :: "'a fiber_store_scheme \<Rightarrow> 'a fiber_store_scheme" where
  "fiber_norm w = w\<lparr>fibers := (\<lambda>_. undefined), fiber_queue := [], g_fiber := 0, g_context := 0,
     g_task := None, g_scheduler := 0\<rparr>"

lemma fiber_norm_upd [simp]:
  "fiber_norm (upd_fiber f h w) = fiber_norm w" "fiber_norm (w\<lparr>fiber_queue := q\<rparr>) = fiber_norm w"
  "fiber_norm (w\<lparr>g_fiber := f\<rparr>) = fiber_norm w" "fiber_norm (w\<lparr>g_context := ctx\<rparr>) = fiber_norm w"
  "fiber_norm (w\<lparr>g_task := t\<rparr>) = fiber_norm w" "fiber_norm (w\<lparr>g_scheduler := s\<rparr>) = fiber_norm w"
  by (simp_all add: fiber_norm_def upd_fiber_def)

lemma fiber_norm_jump [simp]: "fiber_norm (jump_fiber f w) = fiber_norm w"
  by (simp add: jump_fiber_def async_fiber_restore_state_def start_fiber_def Let_def
      split: option.split fiber_entry.split)

lemma fiber_norm_switch [simp]: "fiber_norm (async_fiber_switch f s w) = fiber_norm w"
  by (simp add: async_fiber_switch_def async_fiber_capture_state_def queue_fiber_def Let_def
      split: async_fiber_suspend_type.split)

lemma fiber_norm_suspend [simp]: "fiber_norm (async_fiber_suspend w) = fiber_norm w"
  by (cases "fiber_queue w")
    (simp_all add: async_fiber_suspend_def async_fiber_capture_state_def Let_def)

lemma fiber_norm_bounce: "fiber_norm (bounce tr w) = fiber_norm w"
  by (simp add: bounce_def split: transfer.split)

lemma fiber_norm_sel:
  assumes "fiber_norm w' = fiber_norm w"
  shows "ops w' = ops w" "queues w' = queues w" "next_opid w' = next_opid w" "cancels w' = cancels w"
    "next_cancel w' = next_cancel w" "contexts w' = contexts w" "fiber_store.more w' = fiber_store.more w"
    "next_ctx w' = next_ctx w" "handlers w' = handlers w" "next_handler w' = next_handler w"
  using arg_cong [OF assms, of ops] arg_cong [OF assms, of queues] arg_cong [OF assms, of next_opid]
    arg_cong [OF assms, of cancels] arg_cong [OF assms, of next_cancel] arg_cong [OF assms, of contexts]
    arg_cong [OF assms, of fiber_store.more] arg_cong [OF assms, of next_ctx] arg_cong [OF assms, of handlers]
    arg_cong [OF assms, of next_handler]
  by (simp_all add: fiber_norm_def)

lemma task_store_more_eq:
  assumes "fiber_store.more w' = fiber_store.more (w :: 'a task_store_scheme)"
  shows "tasks w' = tasks w" "s_flags w' = s_flags w" "ready w' = ready w" "s_shutdown w' = s_shutdown w"
    "task_store.more w' = task_store.more w" "g_exit w' = g_exit w"
  using assms by (cases w; cases w'; simp)+

lemma bounce_sel [simp]:
  "ops (bounce tr w) = ops w" "queues (bounce tr w) = queues w" "next_opid (bounce tr w) = next_opid w"
  "cancels (bounce tr w) = cancels w" "next_cancel (bounce tr w) = next_cancel w"
  "contexts (bounce tr w) = contexts w" "tasks (bounce tr w) = tasks w" "s_flags (bounce tr w) = s_flags w"
  "ready (bounce tr w) = ready w" "task_store.more (bounce tr w) = task_store.more w"
  "next_ctx (bounce tr w) = next_ctx w" "handlers (bounce tr w) = handlers w" "next_handler (bounce tr w) = next_handler w"
  "g_exit (bounce tr w) = g_exit w"
  using fiber_norm_sel [OF fiber_norm_bounce [of tr w]]
    task_store_more_eq [OF fiber_norm_sel(7) [OF fiber_norm_bounce [of tr w]]]
  by simp_all

lemma enqueue_more [simp]: "task_store.more (async_task_scheduler_enqueue r w) = task_store.more w"
  by (simp add: async_task_scheduler_enqueue_def append_ready_def Let_def split: task_ref.split task_status.split)

lemma reschedule_task_form:
  "reschedule_task bounce run op t w = Some w' \<Longrightarrow>
   w' = async_task_scheduler_enqueue (TaskRef t) w \<or>
   (\<exists>f. w' = bounce (Switch f) (upd_task t (\<lambda>x. x\<lparr>t_status := TASK_RUNNING\<rparr>) w))"
  by (cases "t_fiber (tasks w t)") (auto simp: reschedule_task_def Let_def settled_def split: if_splits)

lemma reschedule_root_form:
  "reschedule_root bounce op w = Some w' \<Longrightarrow>
   w' = async_task_scheduler_enqueue RootRef w \<or> (\<exists>tr. w' = bounce tr w)"
  by (cases "s_caller w") (auto simp: reschedule_root_def split: if_splits)

lemma reschedule_task_bounce:
  assumes "reschedule_task bounce run op t w = Some w'"
  shows "ops w' = ops w" "queues w' = queues w" "next_opid w' = next_opid w" "cancels w' = cancels w"
    "next_cancel w' = next_cancel w" "contexts w' = contexts w" "s_flags w' = s_flags w"
    "task_store.more w' = task_store.more w" "g_exit w' = g_exit w"
  using reschedule_task_form [OF assms] by (elim disjE exE; simp)+

lemma reschedule_root_bounce:
  assumes "reschedule_root bounce op w = Some w'"
  shows "ops w' = ops w" "queues w' = queues w" "next_opid w' = next_opid w" "cancels w' = cancels w"
    "next_cancel w' = next_cancel w" "contexts w' = contexts w" "s_flags w' = s_flags w"
    "task_store.more w' = task_store.more w" "g_exit w' = g_exit w"
  using reschedule_root_form [OF assms] by (elim disjE exE; simp)+

lemma continue_op_bounce:
  "continue_op_task bounce run op w = Some w' \<Longrightarrow> w' = w \<or> reschedule_task bounce run op (op_arg (ops w op)) w = Some w'"
  "continue_op_root bounce op w = Some w' \<Longrightarrow> w' = w \<or> reschedule_root bounce op w = Some w'"
  by (auto simp: continue_op_task_def continue_op_root_def split: if_splits)

lemma wake_cases:
  obtains "wake op w = w"
  | "reschedule_task bounce (\<lambda>_ w. w) op (op_arg (ops w op)) w = Some (wake op w)"
  | "reschedule_root bounce op w = Some (wake op w)"
proof (cases "op_callback (ops w op)")
  case None
  then show ?thesis using that(1) by (simp add: wake_def)
next
  case (Some cb)
  note that' = that
  show ?thesis
  proof (cases cb)
    case Continue_op_task
    show ?thesis
    proof (cases "continue_op_task bounce (\<lambda>_ w. w) op w")
      case None
      with Some Continue_op_task that'(1) show ?thesis by (simp add: wake_def)
    next
      case (Some w')
      with \<open>op_callback (ops w op) = Some cb\<close> Continue_op_task have "wake op w = w'" by (simp add: wake_def)
      with continue_op_bounce(1) [OF Some] that' show ?thesis by blast
    qed
  next
    case Continue_op_root
    show ?thesis
    proof (cases "continue_op_root bounce op w")
      case None
      with Some Continue_op_root that'(1) show ?thesis by (simp add: wake_def)
    next
      case (Some w')
      with \<open>op_callback (ops w op) = Some cb\<close> Continue_op_root have "wake op w = w'" by (simp add: wake_def)
      with continue_op_bounce(2) [OF Some] that' show ?thesis by blast
    qed
  qed (use Some that'(1) in \<open>simp_all add: wake_def\<close>)
qed

lemma wake_sel [simp]:
  "ops (wake op w) = ops w" "queues (wake op w) = queues w" "next_opid (wake op w) = next_opid w"
  "cancels (wake op w) = cancels w" "next_cancel (wake op w) = next_cancel w"
  "contexts (wake op w) = contexts w" "s_flags (wake op w) = s_flags w"
  "task_store.more (wake op w) = task_store.more w" "g_exit (wake op w) = g_exit w"
  by (rule wake_cases [of op w]; simp add: reschedule_task_bounce reschedule_root_bounce)+

section \<open>The interfaces hold\<close>

interpretation waking: quiet_resume wake
  by unfold_locales simp_all

lemma ops_wf_wake [inv_intros]: "ops_wf w \<Longrightarrow> ops_wf (wake op w)"
  by (subst ops_wf_cong [where w = w]) simp_all

interpretation waking_wf: resumes wake ops_wf
  by unfold_locales (simp_all add: inv_intros)

lemma settle_wake_sel [simp]:
  "s_flags (async_finish_op wake op w) = s_flags w" "s_flags (async_resolve_op wake op v w) = s_flags w"
  "s_flags (async_fail_op wake op v w) = s_flags w" "contexts (async_finish_op wake op w) = contexts w"
  "contexts (async_resolve_op wake op v w) = contexts w" "contexts (async_fail_op wake op v w) = contexts w"
  "cancels (async_finish_op wake op w) = cancels w" "cancels (async_resolve_op wake op v w) = cancels w"
  "cancels (async_fail_op wake op v w) = cancels w"
  "task_store.more (async_finish_op wake op w) = task_store.more w"
  "task_store.more (async_resolve_op wake op v w) = task_store.more w"
  "task_store.more (async_fail_op wake op v w) = task_store.more w"
  "g_exit (async_finish_op wake op w) = g_exit w" "g_exit (async_resolve_op wake op v w) = g_exit w"
  "g_exit (async_fail_op wake op v w) = g_exit w"
  by (simp_all add: async_finish_op_def async_resolve_op_def async_fail_op_def call_callback_def unlink_op_def
      split: option.split)

text \<open>A deferred operation of a suspended task puts the task at the end of the ready queue.\<close>

lemma wake_deferred:
  assumes "op_callback (ops w op) = Some Continue_op_task" and "op_arg (ops w op) = t"
    and "has_flag (op_flags (ops w op)) ASYNC_OP_FLAG_DEFER"
    and "\<not> has_flag (op_flags (ops w op)) ASYNC_OP_FLAG_CANCELLED"
    and "t_status (tasks w t) = TASK_SUSPENDED"
  shows "ready (wake op w) = ready w @ [TaskRef t]" and "tasks (wake op w) = tasks w"
  using assms
  by (simp_all add: wake_def continue_op_task_def reschedule_task_def async_task_scheduler_enqueue_def
      append_ready_def Let_def)

lemma wake_cancelled:
  assumes "has_flag (op_flags (ops w op)) ASYNC_OP_FLAG_CANCELLED"
  shows "wake op w = w"
  using assms
  by (simp add: wake_def continue_op_task_def continue_op_root_def split: option.split op_callback.split)

section \<open>Frames of waiting\<close>

lemma await_finish_status:
  assumes "\<not> sched_flag SCHED_ERROR u"
  shows "\<exists>u'. await_finish canc op u =
      (if op_status (ops u op) = ASYNC_STATUS_RESOLVED then Await_success else Await_failure, u') \<and>
    op_result (ops u' op) = op_result (ops u op)"
proof -
  define u1 where "u1 = (case canc of None \<Rightarrow> u
      | Some c \<Rightarrow> if op_cancel (ops u op) \<noteq> None
                  then upd_op op (\<lambda>x. x\<lparr>op_cancel := None\<rparr>)
                         (upd_cancel c (\<lambda>x. x\<lparr>c_callbacks := remove1 (OpCb op) (c_callbacks x)\<rparr>) u)
                  else u)"
  have "s_flags u1 = s_flags u" "op_status (ops u1 op) = op_status (ops u op)" "op_result (ops u1 op) = op_result (ops u op)"
    by (simp_all add: u1_def upd_cancel_def upd_op_def split: option.split)
  moreover have "await_finish canc op u = (if op_status (ops u1 op) = ASYNC_STATUS_RESOLVED
      then Await_success else Await_failure, u1)"
    unfolding await_finish_def u1_def [symmetric] Let_def
    using assms \<open>s_flags u1 = s_flags u\<close> by (simp add: sched_flag_def)
  ultimately show ?thesis by (intro exI [of _ u1]) simp
qed

lemma register_sel [simp]:
  "op_list (ops w op) \<noteq> None \<Longrightarrow> queues (await_register canc cf cb a op w) = queues w"
  "s_flags (await_register canc cf cb a op w) = s_flags w" "task_store.more (await_register canc cf cb a op w) = task_store.more w"
  by (auto simp: await_register_def Let_def async_append_op_def split: option.split)

lemma ops_wf_register [inv_intros]:
  assumes "ops_wf w" and "op < next_opid w"
  shows "ops_wf (await_register canc cf cb a op w)"
proof -
  define w1 where "w1 = (case canc of None \<Rightarrow> w
          | Some c \<Rightarrow> upd_cancel c (\<lambda>x. x\<lparr>c_callbacks := list_append (OpCb op) (c_callbacks x)\<rparr>)
                       (upd_op op (\<lambda>x. x\<lparr>op_cancel := Some cf\<rparr>) w))"
  have "ops_wf w1" "next_opid w1 = next_opid w" using assms
    by (auto simp: w1_def split: option.split) (auto simp: ops_wf_def)
  then show ?thesis
    unfolding await_register_def w1_def [symmetric] Let_def
    using assms(2) by (auto intro!: ops_wf_append ops_wf_upd_op)
qed

lemma await_finish_frame:
  "task_store.more (snd (await_finish canc op u)) = task_store.more u"
  "op_status (ops u op) = ASYNC_STATUS_RESOLVED \<Longrightarrow> \<not> sched_flag SCHED_ERROR u \<Longrightarrow> fst (await_finish canc op u) = Await_success"
proof -
  define u1 where "u1 = (case canc of None \<Rightarrow> u
      | Some c \<Rightarrow> if op_cancel (ops u op) \<noteq> None
                  then upd_op op (\<lambda>x. x\<lparr>op_cancel := None\<rparr>)
                         (upd_cancel c (\<lambda>x. x\<lparr>c_callbacks := remove1 (OpCb op) (c_callbacks x)\<rparr>) u)
                  else u)"
  have u1: "s_flags u1 = s_flags u" "op_status (ops u1 op) = op_status (ops u op)" "task_store.more u1 = task_store.more u"
    by (simp_all add: u1_def upd_cancel_def upd_op_def split: option.split)
  have r: "task_store.more (async_reset_op op u1) = task_store.more u1"
    by (simp add: async_reset_op_def unlink_op_def upd_op_def upd_queue_def split: option.split)
  show "task_store.more (snd (await_finish canc op u)) = task_store.more u"
    unfolding await_finish_def u1_def [symmetric] Let_def using r u1(3) by simp
  show "fst (await_finish canc op u) = Await_success"
    if "op_status (ops u op) = ASYNC_STATUS_RESOLVED" "\<not> sched_flag SCHED_ERROR u"
    unfolding await_finish_def u1_def [symmetric] Let_def using that u1 by (simp add: sched_flag_def)
qed

end
