(* ===== verification/Boot.thy ===== *)
theory Boot
  imports Resume
begin

text \<open>
  The state after the module has started: zeroed globals, the root contexts
  (\<open>async_context_init\<close>), the scheduler with its runner fiber
  (\<open>async_task_scheduler_object_create\<close>) and the root fiber. It is the start of every run, the
  base of the invariants, and what the examples of the properties are built on.
\<close>

section \<open>Zeroed memory\<close>

definition zero_task :: async_task where
  "zero_task = \<lparr>t_fiber = None, t_scheduler = 0, t_flags = 0, t_status = TASK_INIT, t_stack_size = 0,
     t_callback = 0, t_context = 0, t_result = IS_UNDEF, t_op = 0, t_refs = 0\<rparr>"

definition zeroed :: "'a \<Rightarrow> 'a task_store_scheme" where
  "zeroed m = \<lparr>ops = \<lambda>_. zero_op, queues = \<lambda>_. [], next_opid = 0,
     contexts = \<lambda>_. async_context_object_create None None, next_ctx = 0,
     cancels = \<lambda>_. init_cancellation, next_cancel = 0, handlers = \<lambda>_. None, next_handler = 0,
     g_context = 0, g_foreground = 0, g_background = 0, scheduler_refs = 0,
     fibers = \<lambda>_. \<lparr>f_flags = 0, f_scheduler = 0, f_context = 0, f_task = None, f_entry = None, f_stack_size = 0\<rparr>,
     next_fiber = 0, fiber_queue = [], runner = 0, g_fiber = 0, g_task = None, g_scheduler = 0,
     tasks = \<lambda>_. zero_task, next_task = 0, s_flags = 0, ready = [], s_caller = None, s_root_fiber = None,
     s_op = 0, s_error = IS_UNDEF, s_shutdown = [], busy_count = 0, busy_ref = False, idle_active = False,
     loop_stopped = False, tick_events = \<lambda>_. \<lparr>e_flags = 0, e_list = None, e_callback = 0, e_refs = 0\<rparr>,
     ticks = [], ticks_running = [], refticks = 0, g_exit = False, \<dots> = m\<rparr>"

section \<open>The scheduler\<close>

text \<open>
  A new scheduler: zeroed, its busy timer unreferenced, its runner fiber about to run the loop.
\<close>

definition async_task_scheduler_object_create ::
  "64 word \<Rightarrow> (64 word \<Rightarrow> bool) \<Rightarrow> nat \<Rightarrow> 'a task_store_scheme \<Rightarrow> 'a task_store_scheme" where
  "async_task_scheduler_object_create page mmap s w =
     (let (f, w1) = async_fiber_create
            (w\<lparr>s_flags := 0, fiber_queue := [], ready := [], s_caller := None, s_root_fiber := None,
               s_error := IS_UNDEF, s_shutdown := [], busy_count := 0, busy_ref := False, idle_active := False,
               loop_stopped := False, ticks := [], ticks_running := [], refticks := 0\<rparr>);
          (_, w2) = async_fiber_init page mmap f (g_foreground w1) (Run_scheduler_fiber s) (1024 * 1024 * 128) w1
      in w2\<lparr>runner := f\<rparr>)"

definition boot :: "'a \<Rightarrow> 'a task_store_scheme" where
  "boot m =
     (let w = async_task_scheduler_object_create 4096 (\<lambda>_. True) 0 (async_context_init (zeroed m));
          (f, w1) = async_fiber_create w
      in w1\<lparr>g_fiber := f, g_scheduler := 0\<rparr>)"

lemmas boot_defs = upd_fiber_def boot_def async_task_scheduler_object_create_def async_fiber_create_def async_fiber_init_def
  async_context_init_def alloc_ctx_def zeroed_def async_fiber_stack_allocate_def

lemma boot_sel [simp]:
  "ops (boot m) = (\<lambda>_. zero_op)" "queues (boot m) = (\<lambda>_. [])" "next_opid (boot m) = 0"
  "next_ctx (boot m) = 2" "cancels (boot m) = (\<lambda>_. init_cancellation)" "next_cancel (boot m) = 0"
  "handlers (boot m) = (\<lambda>_. None)" "next_handler (boot m) = 0" "g_context (boot m) = 0"
  "g_foreground (boot m) = 0" "g_background (boot m) = 1" "scheduler_refs (boot m) = 0"
  "next_fiber (boot m) = 2" "fiber_queue (boot m) = []" "runner (boot m) = 0" "g_fiber (boot m) = 1"
  "g_task (boot m) = None" "g_scheduler (boot m) = 0" "tasks (boot m) = (\<lambda>_. zero_task)"
  "next_task (boot m) = 0" "s_flags (boot m) = 0" "ready (boot m) = []" "s_caller (boot m) = None"
  "s_root_fiber (boot m) = None" "s_op (boot m) = 0" "s_error (boot m) = IS_UNDEF"
  "s_shutdown (boot m) = []" "busy_count (boot m) = 0" "busy_ref (boot m) = False"
  "idle_active (boot m) = False" "loop_stopped (boot m) = False"
  "tick_events (boot m) = (\<lambda>_. \<lparr>e_flags = 0, e_list = None, e_callback = 0, e_refs = 0\<rparr>)"
  "ticks (boot m) = []" "ticks_running (boot m) = []" "refticks (boot m) = 0" "g_exit (boot m) = False"
  "task_store.more (boot m) = m"
  by (simp_all add: boot_defs Let_def)

lemma boot_contexts:
  "contexts (boot m) = (\<lambda>_. async_context_object_create None None)
     (1 := (async_context_object_create None None)\<lparr>x_flags := ASYNC_CONTEXT_FLAG_BACKGROUND\<rparr>)"
  by (auto simp: boot_defs async_context_object_create_def Let_def)

lemma boot_context_sel [simp]:
  "x_cancel (contexts (boot m) c) = None" "x_parent (contexts (boot m) c) = None"
  "x_flags (contexts (boot m) 0) = 0"
  by (simp_all add: boot_contexts async_context_object_create_def)

lemma zero_op_sel [simp]:
  "op_status zero_op = ASYNC_STATUS_PENDING" "op_callback zero_op = None" "op_cancel zero_op = None"
  "op_result zero_op = IS_UNDEF" "op_flags zero_op = 0" "op_list zero_op = None" "op_arg zero_op = 0"
  by (simp_all add: zero_op_def)

lemma zero_task_sel [simp]:
  "t_fiber zero_task = None" "t_flags zero_task = 0" "t_status zero_task = TASK_INIT" "t_refs zero_task = 0"
  "t_context zero_task = 0" "t_result zero_task = IS_UNDEF"
  by (simp_all add: zero_task_def)

section \<open>The invariants at the start\<close>

lemma ops_wf_boot: "ops_wf (boot m)"
  by (simp add: ops_wf_def)

lemma ctx_wf_boot: "ctx_wf (boot m)"
  by (simp add: ctx_wf_def chain_ok_def init_cancellation_def)

lemma refs_ok_boot: "refs_ok (boot m)"
  by (simp add: refs_ok_def)

lemma fibers_ok_boot: "fibers_ok (boot m)"
  by (simp add: fibers_ok_def) (simp add: boot_defs Let_def)

end
