(* ===== verification/AwaitProps.thy ===== *)
theory AwaitProps
  imports Boot
begin

text \<open>
  Properties of awaiting: an operation resumes the task that waits for it exactly once, in
  whatever order it is settled and cancelled; what \<open>async_await_op\<close> returns; and that it leaves
  no callback behind.
\<close>

section \<open>Settling and cancelling in any order\<close>

text \<open>
  To count resumptions the state carries the list of the transfers of control; a transfer is
  recorded and comes back at once.
\<close>

type_synonym traced = "transfer list task_store_scheme"

definition traced_yield :: "transfer \<Rightarrow> traced \<Rightarrow> traced" where
  "traced_yield tr w = task_store.more_update (\<lambda>l. l @ [tr]) w"

definition traced_wake :: "opid \<Rightarrow> traced \<Rightarrow> traced" where
  "traced_wake op w = or_keep w (continue_op_task traced_yield (\<lambda>_ w. w) op w)"

text \<open>What can happen to an operation while its task is suspended.\<close>

datatype op_signal = Op_resolve zval | Op_fail zval | Op_cancel zval

fun is_cancel :: "op_signal \<Rightarrow> bool" where
  "is_cancel (Op_cancel _) = True"
| "is_cancel _ = False"

fun op_event :: "opid \<Rightarrow> op_signal \<Rightarrow> traced \<Rightarrow> traced" where
  "op_event op (Op_resolve v) w = async_resolve_op traced_wake op v w"
| "op_event op (Op_fail e) w = async_fail_op traced_wake op e w"
| "op_event op (Op_cancel e) w = or_keep w (cancel_op traced_yield (\<lambda>_ w. w) op e w)"

text \<open>An operation the suspended task \<open>t\<close> in fiber \<open>f\<close> waits for.\<close>

definition waiting_for :: "nat \<Rightarrow> nat \<Rightarrow> opid \<Rightarrow> 'a task_store_scheme \<Rightarrow> bool" where
  "waiting_for t f op w \<longleftrightarrow> op_status (ops w op) = ASYNC_STATUS_RUNNING \<and>
     op_callback (ops w op) = Some Continue_op_task \<and> op_arg (ops w op) = t \<and>
     \<not> has_flag (op_flags (ops w op)) ASYNC_OP_FLAG_CANCELLED \<and>
     t_status (tasks w t) = TASK_SUSPENDED \<and> t_fiber (tasks w t) = Some f"

text \<open>One resumption: by the ready queue, or by a switch to the fiber.\<close>

definition resumed_once :: "nat \<Rightarrow> nat \<Rightarrow> bool \<Rightarrow> traced \<Rightarrow> traced \<Rightarrow> bool" where
  "resumed_once t f deferred w w' \<longleftrightarrow>
     (if deferred then ready w' = ready w @ [TaskRef t] \<and> task_store.more w' = task_store.more w
      else ready w' = ready w \<and> task_store.more w' = task_store.more w @ [Switch f])"

abbreviation deferred_op :: "opid \<Rightarrow> 'a op_store_scheme \<Rightarrow> bool" where
  "deferred_op op w \<equiv> has_flag (op_flags (ops w op)) ASYNC_OP_FLAG_DEFER"

lemma traced_yield_sel [simp]:
  "ops (traced_yield tr w) = ops w" "queues (traced_yield tr w) = queues w" "tasks (traced_yield tr w) = tasks w"
  "ready (traced_yield tr w) = ready w" "task_store.more (traced_yield tr w) = task_store.more w @ [tr]"
  by (simp_all add: traced_yield_def)

lemma unlink_frame [simp]:
  "ready (unlink_op op w) = ready w" "tasks (unlink_op op w) = tasks w"
  "task_store.more (unlink_op op w) = task_store.more w"
  "op_status (ops (unlink_op op w) x) = op_status (ops w x)" "op_flags (ops (unlink_op op w) x) = op_flags (ops w x)"
  "op_callback (ops (unlink_op op w) x) = op_callback (ops w x)" "op_arg (ops (unlink_op op w) x) = op_arg (ops w x)"
  by (auto simp: unlink_op_def split: option.split)

lemma reschedule_traced:
  assumes "t_status (tasks w t) = TASK_SUSPENDED" and "t_fiber (tasks w t) = Some f"
  shows "\<exists>w'. reschedule_task traced_yield (\<lambda>_ w. w) op t w = Some w' \<and> ops w' = ops w \<and>
    resumed_once t f (deferred_op op w) w w'"
  using assms by (auto simp: reschedule_task_def resumed_once_def settled_def async_task_scheduler_enqueue_def
      append_ready_def Let_def)

lemma settle_waiting:
  assumes "waiting_for t f op w" and "\<not> is_cancel e"
  shows "resumed_once t f (deferred_op op w) w (op_event op e w)"
    and "op_status (ops (op_event op e w) op) \<noteq> ASYNC_STATUS_RUNNING"
proof -
  have "resumed_once t f (deferred_op op w) w (traced_wake op u) \<and> op_status (ops (traced_wake op u) op) \<noteq> ASYNC_STATUS_RUNNING"
    if "u = upd_op op (\<lambda>x. x\<lparr>op_result := v, op_status := s\<rparr>) (unlink_op op w)" "s \<noteq> ASYNC_STATUS_RUNNING" for u v s
  proof -
    from assms(1) reschedule_traced [of u t f op] that
    obtain u' where "reschedule_task traced_yield (\<lambda>_ w. w) op t u = Some u'" "ops u' = ops u"
      "resumed_once t f (deferred_op op w) u u'" by (auto simp: waiting_for_def)
    with assms(1) that show ?thesis by (auto simp: traced_wake_def continue_op_task_def waiting_for_def resumed_once_def)
  qed
  with assms show "resumed_once t f (deferred_op op w) w (op_event op e w)"
    "op_status (ops (op_event op e w) op) \<noteq> ASYNC_STATUS_RUNNING"
    by (cases e; simp add: async_resolve_op_def async_fail_op_def call_callback_def waiting_for_def)+
qed

lemma cancel_waiting:
  fixes err :: zval
  assumes "waiting_for t f op w"
  defines "w' \<equiv> op_event op (Op_cancel err) w"
  shows "resumed_once t f (deferred_op op w) w w'" and "op_status (ops w' op) = ASYNC_STATUS_FAILED"
    and "has_flag (op_flags (ops w' op)) ASYNC_OP_FLAG_CANCELLED" and "op_result (ops w' op) = err"
proof -
  let ?u = "mark_cancelled op err w"
  from assms(1) reschedule_traced [of ?u t f op]
  obtain u' where "reschedule_task traced_yield (\<lambda>_ w. w) op t ?u = Some u'" "ops u' = ops ?u"
    "resumed_once t f (deferred_op op w) ?u u'"
    by (auto simp: waiting_for_def mark_cancelled_def flag_simps)
  with assms(1) show "resumed_once t f (deferred_op op w) w w'" "op_status (ops w' op) = ASYNC_STATUS_FAILED"
    "has_flag (op_flags (ops w' op)) ASYNC_OP_FLAG_CANCELLED" "op_result (ops w' op) = err"
    by (simp_all add: w'_def waiting_for_def cancel_op_def mark_cancelled_def resumed_once_def)
qed

lemma cancel_settled:
  "op_status (ops w op) \<noteq> ASYNC_STATUS_RUNNING \<Longrightarrow> op_event op (Op_cancel err) w = w"
  by (simp add: cancel_op_def)

lemma settle_cancelled:
  assumes "has_flag (op_flags (ops w op)) ASYNC_OP_FLAG_CANCELLED" and "\<not> is_cancel e"
  shows "ready (op_event op e w) = ready w" and "task_store.more (op_event op e w) = task_store.more w"
    and "op_status (ops (op_event op e w) op) \<noteq> ASYNC_STATUS_RUNNING"
  using assms
  by (cases e; simp add: async_resolve_op_def async_fail_op_def call_callback_def traced_wake_def
      continue_op_task_def split: option.split)+

lemma cancels_settled:
  "op_status (ops w op) \<noteq> ASYNC_STATUS_RUNNING \<Longrightarrow> list_all is_cancel evs \<Longrightarrow> fold (op_event op) evs w = w"
  by (induction evs) (auto simp: cancel_settled elim!: is_cancel.elims simp del: op_event.simps)

lemma events_cancelled:
  assumes "has_flag (op_flags (ops w op)) ASYNC_OP_FLAG_CANCELLED" and "op_status (ops w op) \<noteq> ASYNC_STATUS_RUNNING"
    and "length (filter (\<lambda>e. \<not> is_cancel e) evs) \<le> 1"
  shows "ready (fold (op_event op) evs w) = ready w \<and> task_store.more (fold (op_event op) evs w) = task_store.more w"
  using assms
proof (induction evs arbitrary: w)
  case Nil
  then show ?case by simp
next
  case (Cons e evs)
  show ?case
  proof (cases "is_cancel e")
    case True
    then obtain err where "e = Op_cancel err" by (cases e) simp_all
    with Cons show ?thesis by (simp add: cancel_settled del: op_event.simps)
  next
    case False
    with Cons.prems(3) have "list_all is_cancel evs" by (simp add: filter_empty_conv list_all_iff)
    with settle_cancelled [OF Cons.prems(1) False] show ?thesis by (simp add: cancels_settled)
  qed
qed

text \<open>
  C1. A suspended task is resumed exactly once, whatever the order in which its operation is
  settled and cancelled: for every sequence of cancellations with at most one settling (it unlinks
  the operation), there is one switch to the fiber of the task, or, for a deferred operation, one
  new entry of the ready queue.
\<close>

theorem op_resumes_task_once:
  assumes "waiting_for t f op w" and "evs \<noteq> []" and "length (filter (\<lambda>e. \<not> is_cancel e) evs) \<le> 1"
  shows "resumed_once t f (deferred_op op w) w (fold (op_event op) evs w)"
proof -
  obtain e es where evs: "evs = e # es" using assms(2) by (cases evs) auto
  show ?thesis
  proof (cases "is_cancel e")
    case True
    then obtain err where e: "e = Op_cancel err" by (cases e) simp_all
    note c = cancel_waiting [OF assms(1), of err]
    from events_cancelled [OF c(3), of es] c(1,2) assms(3) show ?thesis
      by (simp add: evs e resumed_once_def del: op_event.simps)
  next
    case False
    with assms(3) have "list_all is_cancel es" by (simp add: evs filter_empty_conv list_all_iff)
    with settle_waiting [OF assms(1) False] show ?thesis by (simp add: evs cancels_settled)
  qed
qed

text \<open>A task 0 in fiber 2 that waits for operation 0.\<close>

definition suspended_task :: "'a \<Rightarrow> 'a task_store_scheme" where
  "suspended_task m = upd_op 0 (\<lambda>x. x\<lparr>op_status := ASYNC_STATUS_RUNNING, op_callback := Some Continue_op_task\<rparr>)
     (upd_task 0 (\<lambda>x. x\<lparr>t_status := TASK_SUSPENDED, t_fiber := Some 2\<rparr>) (boot m))"

theorem op_resumes_task_once_witness:
  "task_store.more (fold (op_event 0) [Op_cancel (IS_OBJECT 1), Op_resolve IS_NULL, Op_cancel (IS_OBJECT 2)]
     (suspended_task [])) = [Switch 2]"
  using op_resumes_task_once [of 0 2 0 "suspended_task []" "[Op_cancel (IS_OBJECT 1), Op_resolve IS_NULL, Op_cancel (IS_OBJECT 2)]"]
  by (simp add: waiting_for_def suspended_task_def resumed_once_def del: fold_simps)

section \<open>What awaiting an operation does\<close>

text \<open>Why \<open>async_await_op\<close> refuses to suspend: the error it reports.\<close>

definition await_refusal :: "opid \<Rightarrow> 'a task_store_scheme \<Rightarrow> zval option" where
  "await_refusal op w =
     (case await_cancellation op w of
        Some c \<Rightarrow> if triggered (cancels w c) then Some (c_error (cancels w c)) else None
      | None \<Rightarrow> None)"

definition await_error :: "opid \<Rightarrow> 'a task_store_scheme \<Rightarrow> zval option" where
  "await_error op w = (case await_refusal op w of
     Some e \<Rightarrow> Some e
   | None \<Rightarrow> map_option (\<lambda>msg. IS_ERROR ErrorCe msg None)
       (first_error (case g_task w of None \<Rightarrow> await_checks_root w | Some t \<Rightarrow> await_checks_task t w)))"



text \<open>
  The link between an operation and the cancellation it is registered with: the callback is in
  the list at most once, and if it is, the operation has its cancel function set. Firing the
  cancellation takes the callback out; nothing else may touch it.
\<close>

definition cancel_link :: "opid \<Rightarrow> nat \<Rightarrow> 'a ctx_store_scheme \<Rightarrow> bool" where
  "cancel_link op c w \<longleftrightarrow> count_list (c_callbacks (cancels w c)) (OpCb op) \<le> 1 \<and>
     (OpCb op \<in> set (c_callbacks (cancels w c)) \<longrightarrow> op_cancel (ops w op) \<noteq> None)"

lemma count_remove1_le: "count_list xs x \<le> 1 \<Longrightarrow> x \<notin> set (remove1 x xs)"
  by (induction xs) (auto simp: count_list_0_iff split: if_splits)

lemma await_finish_cleanup:
  assumes "cancel_link op c u"
  shows "OpCb op \<notin> set (c_callbacks (cancels (snd (await_finish (Some c) op u)) c))"
    and "fst (await_finish (Some c) op u) = (if sched_flag SCHED_ERROR u then Await_bailout
           else if op_status (ops u op) = ASYNC_STATUS_RESOLVED then Await_success else Await_failure)"
proof -
  have r: "cancels (async_reset_op op w) = cancels w" for w :: "'b task_store_scheme"
    by (simp add: async_reset_op_def unlink_op_def split: option.split)
  show "OpCb op \<notin> set (c_callbacks (cancels (snd (await_finish (Some c) op u)) c))"
    using assms count_remove1_le [of "c_callbacks (cancels u c)" "OpCb op"]
    by (auto simp: await_finish_def cancel_link_def r Let_def)
  show "fst (await_finish (Some c) op u) = (if sched_flag SCHED_ERROR u then Await_bailout
           else if op_status (ops u op) = ASYNC_STATUS_RESOLVED then Await_success else Await_failure)"
    by (simp add: await_finish_def sched_flag_def Let_def)
qed

text \<open>
  C9. A task that waits in a cancellable context registers with the cancellation for exactly the
  time it waits: when \<open>async_await_op\<close> returns, in whatever way, the cancellation does not refer to
  the operation any more (so the caller may free it); the result is success just when the operation
  was resolved, and a bailout just when the scheduler was stopped.
\<close>

theorem async_await_op_unregisters:
  assumes "g_task w = Some t" and "first_error (await_checks_task t w) = None"
    and "await_cancellation op w = Some c" and "\<not> triggered (cancels w c)"
    and "OpCb op \<notin> set (c_callbacks (cancels w c))"
    and yield: "\<And>u. cancel_link op c u \<Longrightarrow> cancel_link op c (yield Suspend u)"
  shows "\<exists>r w' u. async_await_op yield op w = Some (r, w') \<and> OpCb op \<notin> set (c_callbacks (cancels w' c)) \<and>
    r = (if sched_flag SCHED_ERROR (yield Suspend u) then Await_bailout
         else if op_status (ops (yield Suspend u) op) = ASYNC_STATUS_RESOLVED then Await_success else Await_failure) \<and>
    t_status (tasks u t) = TASK_SUSPENDED \<and> OpCb op \<in> set (c_callbacks (cancels u c)) \<and> op_list (ops u op) \<noteq> None"
proof -
  define u where "u = upd_task t (\<lambda>x. x\<lparr>t_status := TASK_SUSPENDED\<rparr>)
      (await_register (Some c) Cancel_op Continue_op_task t op (upd_op op (\<lambda>x. x\<lparr>op_result := IS_NULL\<rparr>) w))"
  have u: "cancels u c = (cancels w c)\<lparr>c_callbacks := c_callbacks (cancels w c) @ [OpCb op]\<rparr>"
    "op_cancel (ops u op) = Some Cancel_op" "op_list (ops u op) \<noteq> None"
    by (auto simp: u_def await_register_def async_append_op_def Let_def)
  have "cancel_link op c u" using assms(5) u by (simp add: cancel_link_def)
  note f = await_finish_cleanup [OF yield [OF this]]
  have "async_await_op yield op w = Some (await_finish (Some c) op (yield Suspend u))"
    using async_await_op_task [OF assms(1,2), of op yield] assms(3,4) by (simp add: u_def)
  moreover have "t_status (tasks u t) = TASK_SUSPENDED" by (simp add: u_def)
  moreover obtain r w' where rw: "await_finish (Some c) op (yield Suspend u) = (r, w')"
    by (cases "await_finish (Some c) op (yield Suspend u)")
  ultimately show ?thesis
    using f u unfolding rw fst_conv snd_conv by (intro exI [of _ r] exI [of _ w'] exI [of _ u]) simp
qed

text \<open>A running task in a cancellable context.\<close>

definition cancellable_task :: "unit \<Rightarrow> task_store" where
  "cancellable_task m = (let (x, h, w) = context_with_cancel 0 (boot m)
     in (upd_task 0 (\<lambda>x. x\<lparr>t_status := TASK_RUNNING, t_fiber := Some 2\<rparr>) w)\<lparr>g_task := Some 0, g_context := x\<rparr>)"

theorem async_await_op_unregisters_witness:
  "\<exists>r w'. async_await_op bounce 0 (cancellable_task ()) = Some (r, w') \<and> OpCb 0 \<notin> set (c_callbacks (cancels w' 0))"
proof -
  have s: "g_task (cancellable_task ()) = Some 0" "first_error (await_checks_task 0 (cancellable_task ())) = None"
    "await_cancellation 0 (cancellable_task ()) = Some 0" "cancels (cancellable_task ()) 0 = init_cancellation\<lparr>c_refcount := 2\<rparr>"
    by (simp_all add: cancellable_task_def context_with_cancel_def create_cancellable_context_def alloc_ctx_def alloc_cancel_def
        ref_cancel_def async_cancellation_handler_object_create_def async_context_object_create_def await_checks_task_def
        await_cancellation_def sched_flag_def Let_def init_cancellation_def)
  have "cancel_link 0 0 u \<Longrightarrow> cancel_link 0 0 (bounce Suspend u)" for u :: task_store
    by (simp add: cancel_link_def)
  with async_await_op_unregisters [OF s(1-3), of bounce] s(4) show ?thesis
    by (auto simp: triggered_def init_cancellation_def)
qed

end
