(* ===== verification/ContextProps.thy ===== *)
theory ContextProps
  imports AwaitProps
begin

text \<open>
  Properties of contexts and cancellation: cancelling a context reaches every context derived
  from it and every operation that waits in one of them; reference counts of cancellations; what
  a context variable is bound to; and two ways in which a cancellation outlives its references.
\<close>

section \<open>The callbacks of the scheduler\<close>

text \<open>
  What the callbacks in the list of a cancellation do: the operations registered by
  \<open>async_await_op\<close> are cancelled by \<open>cancel_op\<close> or \<open>cancel_op_root\<close>; the callbacks of deferreds call
  user code, which here does nothing.
\<close>

definition cancel_call :: "cancel_cb \<Rightarrow> zval \<Rightarrow> 'a task_store_scheme \<Rightarrow> 'a task_store_scheme" where
  "cancel_call cb err w = (case cb of
     OpCb op \<Rightarrow> (case op_cancel (ops w op) of
         Some Cancel_op \<Rightarrow> or_keep w (cancel_op bounce (\<lambda>_ w. w) op err w)
       | Some Cancel_op_root \<Rightarrow> or_keep w (cancel_op_root bounce op err w)
       | None \<Rightarrow> w)
   | _ \<Rightarrow> w)"

text \<open>An operation of a suspended task, as \<open>async_await_op\<close> leaves it.\<close>

definition cancel_waits :: "opid \<Rightarrow> 'a task_store_scheme \<Rightarrow> bool" where
  "cancel_waits op w \<longleftrightarrow> op_cancel (ops w op) = Some Cancel_op \<and> op_status (ops w op) = ASYNC_STATUS_RUNNING \<and>
     t_fiber (tasks w (op_arg (ops w op))) \<noteq> None"

definition op_cancelled :: "opid \<Rightarrow> zval \<Rightarrow> 'a op_store_scheme \<Rightarrow> bool" where
  "op_cancelled op err w \<longleftrightarrow> op_status (ops w op) = ASYNC_STATUS_FAILED \<and> op_result (ops w op) = err \<and>
     has_flag (op_flags (ops w op)) ASYNC_OP_FLAG_CANCELLED"

text \<open>From the state \<open>w0\<close> in which the cancellation begins, a waiting operation waits or is cancelled.\<close>

definition ctx_frame :: "'a ctx_store_scheme \<Rightarrow> 'a ctx_store_scheme \<Rightarrow> bool" where
  "ctx_frame w w' \<longleftrightarrow> contexts w' = contexts w \<and> next_ctx w' = next_ctx w \<and> handlers w' = handlers w \<and>
     next_handler w' = next_handler w"

definition cancelling :: "'a task_store_scheme \<Rightarrow> zval \<Rightarrow> 'a task_store_scheme \<Rightarrow> bool" where
  "cancelling w0 err w \<longleftrightarrow> ctx_frame w0 w \<and> (\<forall>op. cancel_waits op w0 \<longrightarrow> cancel_waits op w \<or> op_cancelled op err w)"

definition cancel_effect :: "'a task_store_scheme \<Rightarrow> cancel_cb \<Rightarrow> zval \<Rightarrow> 'a task_store_scheme \<Rightarrow> bool" where
  "cancel_effect w0 cb err w \<longleftrightarrow> (\<forall>op. cb = OpCb op \<longrightarrow> cancel_waits op w0 \<longrightarrow> op_cancelled op err w)"

lemma reschedule_task_fiber:
  assumes "reschedule_task bounce run op t w = Some w'"
  shows "t_fiber (tasks w' x) = t_fiber (tasks w x) \<and> ctx_frame w w'"
  using reschedule_task_form [OF assms]
  by (auto simp: ctx_frame_def async_task_scheduler_enqueue_def append_ready_def Let_def split: task_status.split)

lemma reschedule_root_fiber:
  assumes "reschedule_root bounce op w = Some w'"
  shows "t_fiber (tasks w' x) = t_fiber (tasks w x) \<and> ctx_frame w w'"
  using reschedule_root_form [OF assms]
  by (auto simp: ctx_frame_def async_task_scheduler_enqueue_def append_ready_def Let_def)

lemma mark_cancelled_sel [simp]:
  "ops (mark_cancelled op err w) = (ops w)(op := (ops w op)\<lparr>op_result := err, op_status := ASYNC_STATUS_FAILED,
     op_flags := set_flag (op_flags (ops w op)) ASYNC_OP_FLAG_CANCELLED, op_cancel := None\<rparr>)"
  "cancels (mark_cancelled op err w) = cancels w" "next_cancel (mark_cancelled op err w) = next_cancel w"
  "ctx_frame w' (mark_cancelled op err w) = ctx_frame w' w" "ctx_frame (mark_cancelled op err w) w' = ctx_frame w w'" "tasks (mark_cancelled op err w) = tasks w"
  by (simp_all add: mark_cancelled_def ctx_frame_def)

text \<open>A call either does nothing or marks the operation.\<close>

lemma cancel_call_cases:
  obtains (keep) "cancel_call cb err w = w"
  | (mark) op where "cb = OpCb op" "op_status (ops w op) = ASYNC_STATUS_RUNNING"
      "ops (cancel_call cb err w) = ops (mark_cancelled op err w)" "cancels (cancel_call cb err w) = cancels w"
      "next_cancel (cancel_call cb err w) = next_cancel w" "ctx_frame w (cancel_call cb err w)"
      "\<And>t. t_fiber (tasks (cancel_call cb err w) t) = t_fiber (tasks w t)"
proof (cases cb)
  case (OpCb op)
  show thesis
  proof (cases "cancel_call cb err w = w")
    case True
    then show thesis by (rule keep)
  next
    case False
    have "(\<exists>t. reschedule_task bounce (\<lambda>_ w. w) op t (mark_cancelled op err w) = Some (cancel_call cb err w)) \<or>
        reschedule_root bounce op (mark_cancelled op err w) = Some (cancel_call cb err w)"
      and r: "op_status (ops w op) = ASYNC_STATUS_RUNNING"
      using False unfolding OpCb
      by (auto simp: cancel_call_def cancel_op_def cancel_op_root_def or_keep_def
          split: option.splits op_cancel.splits if_splits)
    then show thesis
    proof (elim disjE exE)
      fix t assume a: "reschedule_task bounce (\<lambda>_ w. w) op t (mark_cancelled op err w) = Some (cancel_call cb err w)"
      show thesis
        using mark [OF OpCb r] reschedule_task_bounce [OF a] reschedule_task_fiber [OF a] by simp
    next
      assume a: "reschedule_root bounce op (mark_cancelled op err w) = Some (cancel_call cb err w)"
      show thesis
        using mark [OF OpCb r] reschedule_root_bounce [OF a] reschedule_root_fiber [OF a] by simp
    qed
  qed
qed (use keep in \<open>simp_all add: cancel_call_def\<close>)

lemma cancel_call_sel [simp]:
  "cancels (cancel_call cb err w) = cancels w" "next_cancel (cancel_call cb err w) = next_cancel w"
  by (rule cancel_call_cases [of cb err w]; simp)+

lemma cancel_call_frame: "ctx_frame w (cancel_call cb err w)"
  by (rule cancel_call_cases [of cb err w]) (simp_all add: ctx_frame_def)

lemma cancel_call_cancelled:
  "op_cancelled op err w \<Longrightarrow> op_cancelled op err (cancel_call cb err w)"
  by (rule cancel_call_cases [of cb err w]) (auto simp: op_cancelled_def flag_simps)

lemma cancel_call_waits:
  "cancel_waits op w \<Longrightarrow> cancel_waits op (cancel_call cb err w) \<or> op_cancelled op err (cancel_call cb err w)"
  by (rule cancel_call_cases [of cb err w]) (auto simp: op_cancelled_def cancel_waits_def flag_simps)

lemma cancel_call_op:
  assumes "cancel_waits op w"
  shows "op_cancelled op err (cancel_call (OpCb op) err w)"
proof -
  obtain f where "t_fiber (tasks w (op_arg (ops w op))) = Some f" using assms by (auto simp: cancel_waits_def)
  then have "\<exists>w'. reschedule_task bounce (\<lambda>_ w. w) op (op_arg (ops w op)) (mark_cancelled op err w) = Some w' \<and>
      ops w' = ops (mark_cancelled op err w)"
    by (simp add: reschedule_task_def settled_def Let_def)
  with assms show ?thesis
    by (auto simp: cancel_call_def cancel_op_def cancel_waits_def op_cancelled_def flag_simps)
qed

interpretation cancelling: cancel_calls cancel_call "cancelling w0" "cancel_effect w0" for w0
proof
  fix cb cb' err c f and w :: "'a task_store_scheme"
  show "cancels (cancel_call cb err w) = cancels w" "next_cancel (cancel_call cb err w) = next_cancel w" by simp_all
  show "cancelling w0 err (cancel_call cb err w)" if "cancelling w0 err w"
  proof -
    have "ctx_frame w0 (cancel_call cb err w)"
      using that cancel_call_frame [of w cb err] by (simp add: cancelling_def ctx_frame_def)
    moreover have "\<forall>op. cancel_waits op w0 \<longrightarrow> cancel_waits op (cancel_call cb err w) \<or> op_cancelled op err (cancel_call cb err w)"
      using that cancel_call_waits cancel_call_cancelled unfolding cancelling_def by blast
    ultimately show ?thesis by (simp add: cancelling_def)
  qed
  show "cancelling w0 err (upd_cancel c f w) = cancelling w0 err w"
    by (simp add: cancelling_def ctx_frame_def cancel_waits_def op_cancelled_def)
  show "cancelling w0 err w \<Longrightarrow> cancel_effect w0 cb err (cancel_call cb err w)"
    unfolding cancelling_def cancel_effect_def using cancel_call_op cancel_call_cancelled by blast
  show "cancel_effect w0 cb err w \<Longrightarrow> cancel_effect w0 cb err (cancel_call cb' err w)"
    unfolding cancel_effect_def using cancel_call_cancelled by blast
  show "cancel_effect w0 cb err (upd_cancel c f w) = cancel_effect w0 cb err w"
    by (simp add: cancel_effect_def op_cancelled_def)
qed

section \<open>The tree of contexts\<close>

text \<open>
  What every state keeps: the cancellation of a derived context is that of its parent, or chained
  to it, or triggered already; a triggered cancellation has no chained ones left.
\<close>

definition tree_ok :: "'a ctx_store_scheme \<Rightarrow> bool" where
  "tree_ok w \<longleftrightarrow> ctx_wf w \<and>
     (\<forall>c c'. triggered (cancels w c) \<longrightarrow> ChainCb c' \<notin> set (c_callbacks (cancels w c))) \<and>
     (\<forall>x<next_ctx w. \<forall>p c c'. x_parent (contexts w x) = Some p \<longrightarrow> x_cancel (contexts w p) = Some c \<longrightarrow>
        x_cancel (contexts w x) = Some c' \<longrightarrow>
        c' = c \<or> ChainCb c' \<in> set (c_callbacks (cancels w c)) \<or> triggered (cancels w c'))"

text \<open>Contexts derived from \<open>p\<close>, except behind a shield.\<close>

inductive derived :: "'a ctx_store_scheme \<Rightarrow> nat \<Rightarrow> nat \<Rightarrow> bool" for w p where
  derived_self: "derived w p p"
| derived_child: "derived w p q \<Longrightarrow> x < next_ctx w \<Longrightarrow> x_parent (contexts w x) = Some q \<Longrightarrow>
    x_cancel (contexts w x) \<noteq> None \<Longrightarrow> derived w p x"

lemma tree_ok_derived:
  assumes "derived w p x" and "tree_ok w" and "x_cancel (contexts w p) = Some c"
  shows "\<exists>c'. x_cancel (contexts w x) = Some c' \<and> (chained (cancels w) c c' \<or> triggered (cancels w c'))"
  using assms(1)
proof induction
  case derived_self
  then show ?case using assms(3) by (auto intro: chained.intros)
next
  case (derived_child q x)
  then obtain cq cx where q: "x_cancel (contexts w q) = Some cq" "chained (cancels w) c cq \<or> triggered (cancels w cq)"
    and x: "x_cancel (contexts w x) = Some cx" by auto
  with derived_child.hyps assms(2)
  have d: "cx = cq \<or> ChainCb cx \<in> set (c_callbacks (cancels w cq)) \<or> triggered (cancels w cx)"
    unfolding tree_ok_def by blast
  have "chained (cancels w) c cx" if "chained (cancels w) c cq" "ChainCb cx \<in> set (c_callbacks (cancels w cq))"
    using chained_trans [OF that(1)] that(2) by (blast intro: chained.intros)
  moreover have "ChainCb cx \<notin> set (c_callbacks (cancels w cq))" if "triggered (cancels w cq)"
    using that assms(2) unfolding tree_ok_def by blast
  ultimately show ?case using q(2) x d by blast
qed

lemma tree_ok_boot: "tree_ok (boot m)"
  by (simp add: tree_ok_def ctx_wf_boot triggered_def init_cancellation_def)

text \<open>What a step may do to the tree: add a context, add a cancellation, chain it to an open one.\<close>

lemma tree_ok_grow:
  assumes "tree_ok w" and "ctx_wf w'"
    and old: "\<And>x. x < next_ctx w \<Longrightarrow> x_parent (contexts w' x) = x_parent (contexts w x) \<and>
      x_cancel (contexts w' x) = x_cancel (contexts w x)"
    and cb: "\<And>c. c < next_cancel w \<Longrightarrow> set (c_callbacks (cancels w c)) \<subseteq> set (c_callbacks (cancels w' c))"
    and tr: "\<And>c. c < next_cancel w \<Longrightarrow> triggered (cancels w' c) = triggered (cancels w c)"
    and ch: "\<And>c c'. ChainCb c' \<in> set (c_callbacks (cancels w' c)) \<Longrightarrow>
      c < next_cancel w \<and> (ChainCb c' \<in> set (c_callbacks (cancels w c)) \<or> \<not> triggered (cancels w c))"
    and new: "\<And>x p c c'. next_ctx w \<le> x \<Longrightarrow> x < next_ctx w' \<Longrightarrow> x_parent (contexts w' x) = Some p \<Longrightarrow>
      x_cancel (contexts w' p) = Some c \<Longrightarrow> x_cancel (contexts w' x) = Some c' \<Longrightarrow>
      c' = c \<or> ChainCb c' \<in> set (c_callbacks (cancels w' c)) \<or> triggered (cancels w' c')"
  shows "tree_ok w'"
  unfolding tree_ok_def
proof (intro conjI allI impI)
  show "ctx_wf w'" by (rule assms(2))
  show "ChainCb c' \<notin> set (c_callbacks (cancels w' c))" if "triggered (cancels w' c)" for c c'
    using ch [of c' c] tr [of c] that assms(1) unfolding tree_ok_def by blast
  show "c' = c \<or> ChainCb c' \<in> set (c_callbacks (cancels w' c)) \<or> triggered (cancels w' c')"
    if "x < next_ctx w'" "x_parent (contexts w' x) = Some p" "x_cancel (contexts w' p) = Some c"
      "x_cancel (contexts w' x) = Some c'" for x p c c'
  proof (cases "x < next_ctx w")
    case True
    have wf: "ctx_wf w" using assms(1) by (simp add: tree_ok_def)
    with True that old [OF True] have p: "p < x" by (auto dest: ctx_wf_parent)
    with True that old [OF True] old [of p] have v: "x_parent (contexts w x) = Some p" "x_cancel (contexts w p) = Some c"
      "x_cancel (contexts w x) = Some c'" by auto
    then have "c' = c \<or> ChainCb c' \<in> set (c_callbacks (cancels w c)) \<or> triggered (cancels w c')"
      using assms(1) True unfolding tree_ok_def by blast
    moreover have "c < next_cancel w" "c' < next_cancel w"
      using ctx_wf_cancel [OF wf _ v(2)] ctx_wf_cancel [OF wf True v(3)] True p by simp_all
    ultimately show ?thesis using cb [of c] tr by blast
  next
    case False
    then show ?thesis using new [OF _ that] by simp
  qed
qed

lemma triggered_refcount [simp]: "triggered (x\<lparr>c_refcount := n\<rparr>) = triggered x" "triggered (x\<lparr>c_timer := t\<rparr>) = triggered x"
  "triggered (x\<lparr>c_callbacks := l\<rparr>) = triggered x" "triggered (x\<lparr>c_freed := b\<rparr>) = triggered x"
  "triggered (x\<lparr>c_error := e\<rparr>) = triggered x" "triggered (x\<lparr>c_closing := b\<rparr>) = triggered x"
  "triggered (x\<lparr>c_flags := set_flag f CANCELLATION_TRIGGERED\<rparr>)"
  by (simp_all add: triggered_def)

lemma chain_below: "chain_ok w \<Longrightarrow> ChainCb c' \<in> set (c_callbacks (cancels w c)) \<Longrightarrow> c < next_cancel w \<and> c' < next_cancel w"
  by (fastforce dest: chain_okD)

lemma tree_ok_step:
  assumes "ctx_step w w'" and "tree_ok w"
  shows "tree_ok w'"
proof -
  have w0: "ctx_wf w" using assms(2) by (simp add: tree_ok_def)
  have wf: "ctx_wf w'" using ctx_wf_step [OF assms(1) w0] .
  note b = chain_below [OF ctx_wf_chain [OF w0]] and c = ctx_wf_cancel [OF w0]
  from assms(1) wf show ?thesis
  proof (cases rule: ctx_step.cases)
    case (step_with cur var val)
    show ?thesis
      by (rule tree_ok_grow [OF assms(2) wf]; insert step_with(2-);
        auto simp: step_with(1) context_with_def propagate_cancellation_def alloc_ctx_def ref_cancel_def
          async_context_object_create_def Let_def dest: b split: option.splits if_splits)
  next
    case (step_isolated cur)
    show ?thesis
      by (rule tree_ok_grow [OF assms(2) wf]; insert step_isolated(2-);
        auto simp: step_isolated(1) context_with_isolated_output_def propagate_cancellation_def alloc_ctx_def ref_cancel_def
          async_context_object_create_def Let_def dest: b split: option.splits if_splits)
  next
    case (step_timeout cur t)
    show ?thesis
      by (rule tree_ok_grow [OF assms(2) wf]; insert step_timeout(2-);
        auto simp: step_timeout(1) context_with_timeout_def create_cancellable_context_def alloc_ctx_def ref_cancel_def alloc_cancel_def
          async_context_object_create_def init_timeout_cancellation_def init_cancellation_def Let_def
          triggered_def dest: b c split: option.splits if_splits)
  next
    case (step_cancel cur)
    show ?thesis
      by (rule tree_ok_grow [OF assms(2) wf]; insert step_cancel(2-);
        auto simp: step_cancel(1) context_with_cancel_def create_cancellable_context_def alloc_ctx_def ref_cancel_def alloc_cancel_def
          async_cancellation_handler_object_create_def
          async_context_object_create_def init_timeout_cancellation_def init_cancellation_def Let_def
          triggered_def dest: b c split: option.splits if_splits)
  next
    case (step_shield cur)
    show ?thesis
      by (rule tree_ok_grow [OF assms(2) wf]; insert step_shield(2-);
        auto simp: step_shield(1) context_shield_def alloc_ctx_def async_context_object_create_def dest: b)
  next
    case (step_destroy x)
    show ?thesis
      by (rule tree_ok_grow [OF assms(2) wf]; insert step_destroy(2-);
        auto simp: step_destroy(1) async_context_object_destroy_def release_cancellation_def Let_def dest: b split: option.splits if_splits)
  next
    case (step_destroy_handler h)
    show ?thesis
      by (rule tree_ok_grow [OF assms(2) wf]; auto simp: step_destroy_handler(1) async_cancellation_handler_object_destroy_def release_cancellation_def Let_def dest: b
         split: option.splits if_splits)
  next
    case (step_close c)
    show ?thesis
      by (rule tree_ok_grow [OF assms(2) wf]; insert step_close(2-);
        auto simp: step_close(1) close_timeout_def dest: b split: if_splits)
  qed
qed

section \<open>Cancelling in every reachable state\<close>

text \<open>
  The steps of a program as far as contexts see them: the methods of \<open>ctx_step\<close>, cancelling by a
  handler or by a timer, and everything else (tasks, operations that are registered with or removed
  from a cancellation), which leaves contexts, chains and triggers alone.
\<close>

inductive context_step :: "'a task_store_scheme \<Rightarrow> 'a task_store_scheme \<Rightarrow> bool" where
  context_method: "ctx_step w w' \<Longrightarrow> context_step w w'"
| context_cancel: "cancellation_handler_invoke cancel_call h v w = Some w' \<Longrightarrow> context_step w w'"
| context_timeout: "c < next_cancel w \<Longrightarrow> timed_out cancel_call c w = Some w' \<Longrightarrow> context_step w w'"
| context_other: "ctx_frame w w' \<Longrightarrow> next_cancel w' = next_cancel w \<Longrightarrow>
    (\<And>c. triggered (cancels w' c) = triggered (cancels w c)) \<Longrightarrow>
    (\<And>c c'. ChainCb c' \<in> set (c_callbacks (cancels w' c)) \<longleftrightarrow> ChainCb c' \<in> set (c_callbacks (cancels w c))) \<Longrightarrow>
    context_step w w'"

lemma tree_ok_other:
  assumes "tree_ok w" and "ctx_frame w w'" and "next_cancel w' = next_cancel w"
    and "\<And>c. triggered (cancels w' c) = triggered (cancels w c)"
    and "\<And>c c'. ChainCb c' \<in> set (c_callbacks (cancels w' c)) \<longleftrightarrow> ChainCb c' \<in> set (c_callbacks (cancels w c))"
  shows "tree_ok w'"
  using assms(1,2) unfolding tree_ok_def ctx_wf_def chain_ok_def ctx_frame_def assms(3-) by simp

lemma trigger_cancel_sel [simp]:
  "cancels (trigger_cancel c err w) = (cancels w)(c := (cancels w c)\<lparr>c_flags :=
     set_flag (c_flags (cancels w c)) CANCELLATION_TRIGGERED, c_error := err\<rparr>)"
  "next_cancel (trigger_cancel c err w) = next_cancel w" "contexts (trigger_cancel c err w) = contexts w"
  "next_ctx (trigger_cancel c err w) = next_ctx w" "handlers (trigger_cancel c err w) = handlers w"
  "next_handler (trigger_cancel c err w) = next_handler w" "ops (trigger_cancel c err w) = ops w"
  by (simp_all add: trigger_cancel_def)

text \<open>The callback loop, started for a cancellation that was just triggered.\<close>

lemma cancel_spec:
  assumes "tree_ok w" and "c < next_cancel w" and "\<not> triggered (cancels w c)"
  shows "\<exists>w'. run_cancel_callbacks cancel_call c c (trigger_cancel c err w) = Some w' \<and> ctx_frame w w' \<and>
    next_cancel w' = next_cancel w \<and>
    (\<forall>d. triggered (cancels w' d) \<longleftrightarrow> triggered (cancels w d) \<or> chained (cancels w) c d) \<and>
    (\<forall>d. c_callbacks (cancels w' d) = (if chained (cancels w) c d then [] else c_callbacks (cancels w d))) \<and>
    (\<forall>d. chained (cancels w) c d \<longrightarrow> c_error (cancels w' d) = err) \<and>
    (\<forall>d op. chained (cancels w) c d \<longrightarrow> OpCb op \<in> set (c_callbacks (cancels w d)) \<longrightarrow> cancel_waits op w \<longrightarrow>
       op_cancelled op err w')"
proof -
  let ?w = "trigger_cancel c err w"
  have ok: "chain_ok ?w" using assms(1) by (auto simp: tree_ok_def ctx_wf_def chain_ok_def)
  have "cancelling w err ?w" by (simp add: cancelling_def ctx_frame_def cancel_waits_def trigger_cancel_def)
  with cancelling.run_cancel_callbacks_spec [OF ok, of c c err w] assms(2)
  obtain w' where w': "run_cancel_callbacks cancel_call c c ?w = Some w'" "cancelling w err w'"
    "cancels w' = cancelled_from c err (cancels ?w)" "next_cancel w' = next_cancel w"
    "\<forall>d cb. chained (cancels ?w) c d \<longrightarrow> cb \<in> set (c_callbacks (cancels ?w d)) \<longrightarrow> (\<forall>c'. cb \<noteq> ChainCb c') \<longrightarrow>
       cancel_effect w cb err w'" by auto
  have ch: "chained (cancels ?w) c d \<longleftrightarrow> chained (cancels w) c d" for d
    by (rule chained_cong) simp
  have self: "chained (cancels w) c c" by (rule chained.intros)
  have d: "cancels w' d = (if chained (cancels w) c d then cancelled_by err (cancels w d) else cancels w d)" for d
    using self unfolding w'(3) cancelled_from_def ch by auto
  have "op_cancelled op err w'"
    if "chained (cancels w) c d" "OpCb op \<in> set (c_callbacks (cancels w d))" "cancel_waits op w" for d op
    using w'(5) [rule_format, of d "OpCb op"] that unfolding ch by (cases "d = c") (simp_all add: cancel_effect_def)
  with w'(1,2,4) show ?thesis by (auto simp: d cancelling_def)
qed

lemma tree_ok_cancel:
  assumes "tree_ok w" and "c < next_cancel w" and "\<not> triggered (cancels w c)"
    and "run_cancel_callbacks cancel_call c c (trigger_cancel c err w) = Some w'"
  shows "tree_ok w'"
proof -
  from cancel_spec [OF assms(1-3), of err] assms(4)
  have w': "ctx_frame w w'" "next_cancel w' = next_cancel w"
    "\<And>d. triggered (cancels w' d) \<longleftrightarrow> triggered (cancels w d) \<or> chained (cancels w) c d"
    "\<And>d. c_callbacks (cancels w' d) = (if chained (cancels w) c d then [] else c_callbacks (cancels w d))" by auto
  have f: "contexts w' = contexts w" "next_ctx w' = next_ctx w" "handlers w' = handlers w" "next_handler w' = next_handler w"
    using w'(1) by (simp_all add: ctx_frame_def)
  have step: "chained (cancels w) c c2" if "chained (cancels w) c c1" "ChainCb c2 \<in> set (c_callbacks (cancels w c1))" for c1 c2
    using chained_trans [OF that(1)] that(2) by (blast intro: chained.intros)
  have "ctx_wf w'" using assms(1) by (auto simp: tree_ok_def ctx_wf_def chain_ok_def f w')
  moreover have "c' = ca \<or> ChainCb c' \<in> set (c_callbacks (cancels w' ca)) \<or> triggered (cancels w' c')"
    if "x < next_ctx w" "x_parent (contexts w x) = Some p" "x_cancel (contexts w p) = Some ca"
      "x_cancel (contexts w x) = Some c'" for x p ca c'
  proof -
    have "c' = ca \<or> ChainCb c' \<in> set (c_callbacks (cancels w ca)) \<or> triggered (cancels w c')"
      using assms(1) that unfolding tree_ok_def by blast
    then show ?thesis using step [of ca c'] unfolding w'(3,4) by auto
  qed
  ultimately show ?thesis using assms(1) unfolding tree_ok_def f w'(3,4) by auto
qed

lemma release_triggered [simp]: "triggered (cancels (release_cancellation c w) d) = triggered (cancels w d)"
  by (simp add: release_cancellation_def Let_def)

lemma tree_ok_context_step:
  assumes "context_step w w'" and "tree_ok w"
  shows "tree_ok w'"
  using assms
proof (cases rule: context_step.cases)
  case (context_cancel h v)
  then obtain c where h: "handlers w h = Some c" by (auto simp: cancellation_handler_invoke_def split: option.splits)
  with assms(2) have c: "c < next_cancel w" by (auto simp: tree_ok_def dest: ctx_wf_handler)
  with context_cancel h assms(2) show ?thesis
    by (auto simp: cancellation_handler_invoke_def Let_def split: if_splits dest: tree_ok_cancel)
next
  case (context_timeout c)
  show ?thesis
  proof (cases "triggered (cancels w c)")
    case False
    with context_timeout obtain u where u: "w' = release_cancellation c u"
      "run_cancel_callbacks cancel_call c c (trigger_cancel c (IS_ERROR CancellationExceptionCe ''Context has timed out'' None) w) = Some u"
      by (auto simp: timed_out_def)
    from tree_ok_cancel [OF assms(2) context_timeout(1) False u(2)] show ?thesis
      unfolding u(1) by (rule tree_ok_other) (simp_all add: ctx_frame_def)
  qed (use context_timeout assms(2) in \<open>simp add: timed_out_def\<close>)
qed (auto intro: tree_ok_step tree_ok_other)

lemma tree_ok_reachable: "context_step\<^sup>*\<^sup>* (boot m) w \<Longrightarrow> tree_ok w"
  by (induction rule: rtranclp_induct) (auto intro: tree_ok_boot tree_ok_context_step)

text \<open>The error a handler cancels with.\<close>

definition cancel_reason :: "zval option \<Rightarrow> zval" where
  "cancel_reason v = (let e = IS_ERROR CancellationExceptionCe ''Context has been cancelled'' None
     in case v of None \<Rightarrow> e | Some x \<Rightarrow> if x = IS_NULL then e else set_previous e x)"


text \<open>A context with a handler, and a context with a timeout below it.\<close>

definition nested_contexts :: "'a task_store_scheme \<Rightarrow> 'a task_store_scheme" where
  "nested_contexts w = snd (context_with_timeout 2 50 (snd (snd (context_with_cancel 0 w))))"

lemmas nested_defs = nested_contexts_def context_with_timeout_def context_with_cancel_def create_cancellable_context_def
  alloc_ctx_def ref_cancel_def alloc_cancel_def async_cancellation_handler_object_create_def
  async_context_object_create_def init_timeout_cancellation_def init_cancellation_def triggered_def Let_def


section \<open>Reference counts\<close>

definition few_refs :: "'a ctx_store_scheme \<Rightarrow> bool" where
  "few_refs w \<longleftrightarrow> next_ctx w + next_handler w < 2 ^ 32"

definition released :: "async_context_cancellation \<Rightarrow> bool" where
  "released c \<longleftrightarrow> c_freed c \<or> c_closing c"

text \<open>A cancellation is released exactly when nothing refers to it.\<close>

definition counted :: "'a ctx_store_scheme \<Rightarrow> bool" where
  "counted w \<longleftrightarrow> ctx_wf w \<and> refs_ok w \<and> (\<forall>c<next_cancel w. released (cancels w c) \<longleftrightarrow> cancel_refs w c = 0)"

lemma cancel_refs_le: "cancel_refs w c \<le> next_ctx w + next_handler w"
proof -
  have le: "(\<Sum>x<n. of_bool (P x)) \<le> (n :: nat)" for P and n :: nat
    using sum_mono [of "{..<n}" "\<lambda>x. of_bool (P x) :: nat" "\<lambda>_. 1"] by simp
  show ?thesis unfolding cancel_refs_def by (intro add_mono le)
qed

lemma cancel_refs_context:
  assumes "x < next_ctx w" and "x_live (contexts w x)" and "x_cancel (contexts w x) = Some c"
  shows "0 < cancel_refs w c"
proof -
  have "(1::nat) \<le> (\<Sum>y<next_ctx w. of_bool (x_live (contexts w y) \<and> x_cancel (contexts w y) = Some c))"
    using assms member_le_sum [of x "{..<next_ctx w}" "\<lambda>y. of_bool (x_live (contexts w y) \<and> x_cancel (contexts w y) = Some c) :: nat"]
    by simp
  then show ?thesis by (simp add: cancel_refs_def)
qed

lemma cancel_refs_held:
  assumes "h < next_handler w" and "handlers w h = Some c"
  shows "0 < cancel_refs w c"
proof -
  have "(1::nat) \<le> (\<Sum>y<next_handler w. of_bool (handlers w y = Some c))"
    using assms member_le_sum [of h "{..<next_handler w}" "\<lambda>y. of_bool (handlers w y = Some c) :: nat"] by simp
  then show ?thesis by (simp add: cancel_refs_def)
qed

lemma cancel_refs_both:
  assumes "contexts w' = (contexts w)(next_ctx w := x)" "next_ctx w' = Suc (next_ctx w)"
    "handlers w' = (handlers w)(next_handler w := Some d)" "next_handler w' = Suc (next_handler w)"
  shows "cancel_refs w' c = cancel_refs w c + of_bool (x_live x \<and> x_cancel x = Some c) + of_bool (d = c)"
  using sum_upd_new [of "\<lambda>y. of_bool (x_live y \<and> x_cancel y = Some c)" "contexts w" "next_ctx w" x]
    sum_upd_new [of "\<lambda>y. of_bool (y = Some c)" "handlers w" "next_handler w" "Some d"]
  by (simp add: cancel_refs_def assms)

lemma refcount_zero:
  assumes "refs_ok w" and "few_refs w" and "c < next_cancel w"
  shows "c_refcount (cancels w c) = 0 \<longleftrightarrow> cancel_refs w c = 0"
proof -
  have "cancel_refs w c < 2 ^ 32" using cancel_refs_le [of w c] assms(2) by (simp add: few_refs_def)
  then have "(of_nat (cancel_refs w c) :: u32) = 0 \<longleftrightarrow> cancel_refs w c = 0"
    by (auto simp: word_of_nat_eq_0_iff dest: dvd_imp_le)
  then show ?thesis using assms(1,3) by (simp add: refs_ok_def)
qed

lemma counted_boot: "counted (boot m)"
  by (simp add: counted_def ctx_wf_boot refs_ok_boot)

lemma counted_alloc:
  assumes "counted w" and "ctx_wf w'" and "refs_ok w'"
    and "contexts w' = (contexts w)(next_ctx w := x)" "next_ctx w' = Suc (next_ctx w)"
    and "handlers w' = handlers w" "next_handler w' = next_handler w" "next_cancel w' = next_cancel w"
    and "\<And>c. released (cancels w' c) = released (cancels w c)"
    and "\<And>c. x_cancel x = Some c \<Longrightarrow> 0 < cancel_refs w c"
  shows "counted w'"
  using assms(1-3,9,10) cancel_refs_alloc [OF assms(4-7)] unfolding counted_def assms(8) by auto

lemma counted_new:
  assumes "counted w" and "ctx_wf w'" and "refs_ok w'" and "next_cancel w' = Suc (next_cancel w)"
    and "\<And>c. c < next_cancel w \<Longrightarrow> released (cancels w' c) = released (cancels w c)"
    and "\<not> released (cancels w' (next_cancel w))"
    and "cancel_refs w' (next_cancel w) \<noteq> 0" and "\<And>c. c < next_cancel w \<Longrightarrow> cancel_refs w' c = cancel_refs w c"
  shows "counted w'"
  using assms unfolding counted_def by (auto simp: less_Suc_eq)

lemma released_fields [simp]:
  "released (x\<lparr>c_refcount := n\<rparr>) = released x" "released (x\<lparr>c_callbacks := l\<rparr>) = released x"
  "released (x\<lparr>c_error := e\<rparr>) = released x" "released (x\<lparr>c_flags := fl\<rparr>) = released x"
  "released (x\<lparr>c_timer := t\<rparr>) = released x"
  by (simp_all add: released_def)

lemma counted_release:
  assumes "counted w" and "few_refs w" and "ctx_wf w'" and "refs_ok w'" and "w' = release_cancellation c u"
    and "cancels u = cancels w" "next_cancel u = next_cancel w" "next_ctx u = next_ctx w" "next_handler u = next_handler w"
    and "0 < cancel_refs w c" and "c < next_cancel w"
    and "\<And>d. d \<noteq> c \<Longrightarrow> cancel_refs u d = cancel_refs w d"
  shows "counted w'"
proof -
  have f: "few_refs w'" "next_cancel w' = next_cancel w" using assms(2,5,7-9) by (simp_all add: few_refs_def)
  have n: "\<not> released (cancels w c)" using assms(1,10,11) by (auto simp: counted_def)
  have "released (cancels w' c) \<longleftrightarrow> c_refcount (cancels w' c) = 0"
    using n unfolding assms(5) by (auto simp: release_cancellation_def released_def assms(6) Let_def)
  moreover have "released (cancels w' d) = released (cancels w d)" if "d \<noteq> c" for d
    using that unfolding assms(5) by (auto simp: release_cancellation_def assms(6) Let_def)
  moreover have "cancel_refs w' d = cancel_refs w d" if "d \<noteq> c" for d
    using assms(12) [OF that] cancel_refs_cong [of w' u d] unfolding assms(5) by simp
  ultimately show ?thesis
    using assms(1,3,4,11) refcount_zero [OF assms(4) f(1)] unfolding counted_def f(2) by metis
qed

lemma counted_step:
  assumes "ctx_step w w'" and "counted w" and "few_refs w'"
  shows "counted w'"
proof -
  have w0: "ctx_wf w" "refs_ok w" using assms(2) by (simp_all add: counted_def)
  have wf: "ctx_wf w'" "refs_ok w'" using ctx_wf_step [OF assms(1) w0(1)] refs_ok_step [OF assms(1) w0] .
  from assms(1) show ?thesis
  proof (cases rule: ctx_step.cases)
    case (step_with cur var val)
    show ?thesis
      by (rule counted_alloc [OF assms(2) wf, where x = "(async_context_object_create (Some var) (Some val))
            \<lparr>x_parent := Some cur, x_flags := x_flags (contexts w cur), x_output := x_output (contexts w cur),
             x_cancel := x_cancel (contexts w cur)\<rparr>"]; insert step_with(2-);
          auto simp: step_with(1) context_with_def propagate_cancellation_def alloc_ctx_def ref_cancel_def
            async_context_object_create_def Let_def cancel_refs_context split: option.splits)
  next
    case (step_isolated cur)
    show ?thesis
      by (rule counted_alloc [OF assms(2) wf, where x = "(async_context_object_create None None)
            \<lparr>x_parent := Some cur, x_flags := x_flags (contexts w cur), x_output := next_ctx w,
             x_cancel := x_cancel (contexts w cur)\<rparr>"]; insert step_isolated(2-);
          auto simp: step_isolated(1) context_with_isolated_output_def propagate_cancellation_def alloc_ctx_def ref_cancel_def
            async_context_object_create_def Let_def cancel_refs_context split: option.splits)
  next
    case (step_shield cur)
    show ?thesis
      by (rule counted_alloc [OF assms(2) wf, where x = "(async_context_object_create None None)
            \<lparr>x_parent := Some cur, x_flags := x_flags (contexts w cur), x_output := x_output (contexts w cur)\<rparr>"];
          insert step_shield(2-);
          auto simp: step_shield(1) context_shield_def alloc_ctx_def async_context_object_create_def)
  next
    case (step_timeout cur t)
    let ?x = "(async_context_object_create None None)\<lparr>x_parent := Some cur, x_flags := x_flags (contexts w cur),
        x_output := x_output (contexts w cur), x_cancel := Some (next_cancel w)\<rparr>"
    have "cancel_refs w' c = cancel_refs w c + of_bool (x_live ?x \<and> x_cancel ?x = Some c)" for c
      by (rule cancel_refs_alloc) (auto simp: step_timeout(1) nested_defs split: option.splits)
    then show ?thesis
      by (intro counted_new [OF assms(2) wf])
        (auto simp: step_timeout(1) nested_defs released_def async_context_object_create_def split: option.splits)
  next
    case (step_cancel cur)
    let ?x = "(async_context_object_create None None)\<lparr>x_parent := Some cur, x_flags := x_flags (contexts w cur),
        x_output := x_output (contexts w cur), x_cancel := Some (next_cancel w)\<rparr>"
    have "cancel_refs w' c = cancel_refs w c + of_bool (x_live ?x \<and> x_cancel ?x = Some c) + of_bool (next_cancel w = c)" for c
      by (rule cancel_refs_both) (auto simp: step_cancel(1) nested_defs split: option.splits)
    then show ?thesis
      by (intro counted_new [OF assms(2) wf])
        (auto simp: step_cancel(1) nested_defs released_def async_context_object_create_def split: option.splits)
  next
    case (step_destroy x)
    let ?u = "w\<lparr>contexts := (contexts w)(x := (contexts w x)\<lparr>x_live := False\<rparr>)\<rparr>"
    have k: "cancel_refs w c = cancel_refs ?u c + of_bool (x_cancel (contexts w x) = Some c)" for c
      by (rule cancel_refs_kill) (use step_destroy in simp_all)
    show ?thesis
    proof (cases "x_cancel (contexts w x)")
      case None
      then have "w' = ?u" using step_destroy(1) by (simp add: async_context_object_destroy_def)
      with None k assms(2) wf show ?thesis by (simp add: counted_def)
    next
      case (Some c)
      then have w': "w' = release_cancellation c ?u" using step_destroy(1) by (simp add: async_context_object_destroy_def)
      have "few_refs w" using assms(3) by (simp add: few_refs_def w')
      from counted_release [OF assms(2) this wf w'] show ?thesis
        using k Some cancel_refs_context [OF step_destroy(2,3) Some] ctx_wf_cancel [OF w0(1) step_destroy(2) Some] by simp
    qed
  next
    case (step_destroy_handler h)
    show ?thesis
    proof (cases "handlers w h")
      case None
      with step_destroy_handler assms(2) show ?thesis by (simp add: async_cancellation_handler_object_destroy_def)
    next
      case (Some c)
      let ?u = "w\<lparr>handlers := (handlers w)(h := None)\<rparr>"
      have h: "h < next_handler w" "c < next_cancel w" using ctx_wf_handler [OF w0(1) Some] by simp_all
      have k: "cancel_refs w d = cancel_refs ?u d + of_bool (handlers w h = Some d)" for d
        by (rule cancel_refs_drop) (use h in simp_all)
      have w': "w' = release_cancellation c ?u"
        using step_destroy_handler(1) Some by (simp add: async_cancellation_handler_object_destroy_def)
      have "few_refs w" using assms(3) by (simp add: few_refs_def w')
      from counted_release [OF assms(2) this wf w'] show ?thesis
        using k Some cancel_refs_held [OF h(1) Some] h(2) by simp
    qed
  next
    case (step_close c)
    have "cancel_refs w' d = cancel_refs w d" for d by (rule cancel_refs_cong) (simp_all add: step_close(1) close_timeout_def)
    moreover have "released (cancels w' d) = released (cancels w d)" for d
      using step_close(3) by (simp add: step_close(1) close_timeout_def released_def)
    ultimately show ?thesis using assms(2) wf by (simp add: counted_def step_close(1) close_timeout_def)
  qed
qed

lemma few_refs_step: "ctx_step w w' \<Longrightarrow> few_refs w' \<Longrightarrow> few_refs w"
  by (erule ctx_step.cases)
    (auto simp: few_refs_def nested_defs context_with_def context_with_isolated_output_def context_shield_def
      propagate_cancellation_def async_context_object_destroy_def async_cancellation_handler_object_destroy_def
      close_timeout_def split: option.splits if_splits)

text \<open>
  C12. The reference counter of a cancellation is the number of live contexts and handlers that
  refer to it, and the cancellation is released (freed, or its timer being closed) exactly when
  there are none, in every state reached by creating and destroying contexts and handlers as long as
  fewer than \<open>2^32\<close> of them are created: neither a leak nor a release while it is in use.
\<close>

theorem cancellation_counts_references:
  assumes "ctx_step\<^sup>*\<^sup>* (boot m) w" and "next_ctx w + next_handler w < 2 ^ 32" and "c < next_cancel w"
  shows "c_refcount (cancels w c) = of_nat (cancel_refs w c) \<and> (released (cancels w c) \<longleftrightarrow> cancel_refs w c = 0)"
proof -
  from assms(1,2) have "counted w"
    unfolding few_refs_def [symmetric]
    by (induction rule: rtranclp_induct) (auto intro: counted_boot counted_step few_refs_step)
  then show ?thesis using assms(3) by (simp add: counted_def refs_ok_def)
qed

theorem cancellation_counts_references_witness:
  "released (cancels (async_cancellation_handler_object_destroy 0 (async_context_object_destroy 2
     (snd (snd (context_with_cancel 0 (boot ())))))) 0)"
proof -
  let ?w1 = "snd (snd (context_with_cancel 0 (boot ())))"
  let ?w2 = "async_context_object_destroy 2 ?w1"
  let ?w3 = "async_cancellation_handler_object_destroy 0 ?w2"
  have "ctx_step (boot ()) ?w1" by (intro step_cancel) (simp_all add: boot_contexts async_context_object_create_def)
  moreover have "ctx_step ?w1 ?w2" by (intro step_destroy) (simp_all add: nested_defs)
  moreover have "ctx_step ?w2 ?w3" by (rule step_destroy_handler)
  ultimately have "ctx_step\<^sup>*\<^sup>* (boot ()) ?w3" by auto
  moreover have "next_ctx ?w3 = 3" "next_handler ?w3 = 1" "next_cancel ?w3 = 1" "cancel_refs ?w3 0 = 0"
    by (simp_all add: nested_defs async_context_object_destroy_def async_cancellation_handler_object_destroy_def
        cancel_refs_def numeral_3_eq_3)
  ultimately show ?thesis using cancellation_counts_references [of "()" ?w3 0] by simp
qed

section \<open>Cancellations that outlive their references\<close>

text \<open>
  A timeout releases a reference it does not own: when the timer of a context fires that is the
  only holder of its cancellation, the cancellation is closed and then freed although the live
  context still refers to it, so the next \<open>isCancelled\<close> or await in that context reads freed memory.
\<close>

theorem timeout_frees_cancellation_in_use:
  assumes "context_step\<^sup>*\<^sup>* (boot m) w" and "x < next_ctx w" and "x_cancel (contexts w x) = Some c"
    and "c_refcount (cancels w c) = 1" and "has_flag (c_flags (cancels w c)) CANCELLATION_TIMEOUT"
    and "\<not> triggered (cancels w c)"
  shows "\<exists>w'. timed_out cancel_call c w = Some w' \<and> c_closing (cancels w' c) \<and> c_freed (cancels (close_timeout c w') c) \<and>
    contexts (close_timeout c w') x = contexts w x"
proof -
  let ?e = "IS_ERROR CancellationExceptionCe ''Context has timed out'' None"
  have ok: "tree_ok w" using tree_ok_reachable [OF assms(1)] .
  have c: "c < next_cancel w" using ok assms(2,3) by (auto simp: tree_ok_def dest: ctx_wf_cancel)
  have "chain_ok (trigger_cancel c ?e w)" using ok by (auto simp: tree_ok_def ctx_wf_def chain_ok_def)
  moreover have "cancelling w ?e (trigger_cancel c ?e w)"
    by (simp add: cancelling_def ctx_frame_def cancel_waits_def trigger_cancel_def)
  ultimately obtain u where u: "run_cancel_callbacks cancel_call c c (trigger_cancel c ?e w) = Some u" "cancelling w ?e u"
    "cancels u = cancelled_from c ?e (cancels (trigger_cancel c ?e w))"
    using cancelling.run_cancel_callbacks_spec [of "trigger_cancel c ?e w" c c ?e w] c by auto
  have uc: "c_refcount (cancels u c) = 1" "has_flag (c_flags (cancels u c)) CANCELLATION_TIMEOUT"
    "contexts u = contexts w"
    using assms(4,5) u(2,3) by (simp_all add: cancelled_from_def cancelling_def ctx_frame_def flag_simps del: cancelled_by_idem)
  then have "c_closing (cancels (release_cancellation c u) c)"
    by (simp add: release_cancellation_def Let_def)
  with u(1) uc(3) assms(6) show ?thesis by (simp add: timed_out_def close_timeout_def)
qed

theorem timeout_frees_cancellation_in_use_witness:
  "\<exists>w'. timed_out cancel_call 0 (snd (context_with_timeout 0 50 (boot ()))) = Some w' \<and> c_closing (cancels w' 0)"
proof -
  let ?w = "snd (context_with_timeout 0 50 (boot ()))"
  have "context_step (boot ()) ?w"
    by (intro context_method step_timeout) (simp_all add: boot_contexts async_context_object_create_def)
  moreover have "2 < next_ctx ?w" "x_cancel (contexts ?w 2) = Some 0" "c_refcount (cancels ?w 0) = 1"
    "has_flag (c_flags (cancels ?w 0)) CANCELLATION_TIMEOUT" "\<not> triggered (cancels ?w 0)"
    by (simp_all add: nested_defs has_flag_def)
  ultimately show ?thesis using timeout_frees_cancellation_in_use [of "()" ?w 2 0] by blast
qed

text \<open>
  A released cancellation stays chained: when a cancellable context is created in an open
  cancellable context and it and its handler are destroyed, its cancellation is freed but its chain
  callback is still in the list of the parent's cancellation, which will call it.
\<close>

theorem freed_cancellation_stays_chained:
  assumes "ctx_wf w" and "p < next_ctx w" and "x_cancel (contexts w p) = Some pc" and "\<not> triggered (cancels w pc)"
    and "context_with_cancel p w = (x, h, w1)"
  shows "c_freed (cancels (async_cancellation_handler_object_destroy h (async_context_object_destroy x w1)) (next_cancel w)) \<and>
    ChainCb (next_cancel w) \<in>
      set (c_callbacks (cancels (async_cancellation_handler_object_destroy h (async_context_object_destroy x w1)) pc))"
proof -
  have pc: "pc < next_cancel w" using ctx_wf_cancel [OF assms(1-3)] .
  have "x = next_ctx w" "h = next_handler w" "w1 = snd (snd (context_with_cancel p w))"
    using assms(3-5) pc by (auto simp: nested_defs split: if_splits)
  then show ?thesis
    using assms(3,4) pc
    by (simp add: nested_defs async_context_object_destroy_def async_cancellation_handler_object_destroy_def
        release_cancellation_def has_flag_def)
qed

theorem freed_cancellation_stays_chained_witness:
  "\<exists>x h w. context_with_cancel 2 (snd (snd (context_with_cancel 0 (boot ())))) = (x, h, w) \<and>
    c_freed (cancels (async_cancellation_handler_object_destroy h (async_context_object_destroy x w)) 1)"
proof -
  let ?w = "snd (snd (context_with_cancel 0 (boot ())))"
  obtain x h w where e: "context_with_cancel 2 ?w = (x, h, w)" by (cases "context_with_cancel 2 ?w")
  have "ctx_step (boot ()) ?w" by (intro step_cancel) (simp_all add: boot_contexts async_context_object_create_def)
  then have "ctx_wf ?w" by (rule ctx_wf_step) (rule ctx_wf_boot)
  moreover have "2 < next_ctx ?w" "x_cancel (contexts ?w 2) = Some 0" "\<not> triggered (cancels ?w 0)" "next_cancel ?w = 1"
    by (simp_all add: nested_defs)
  ultimately show ?thesis using freed_cancellation_stays_chained [OF _ _ _ _ e] e by auto
qed

end
