(* ===== verification/Task.thy ===== *)
theory Task
  imports Scheduler
begin

text \<open>
  Tasks and awaiting (\<open>task.c\<close>): the awaitables, \<open>Task::await\<close>, running a task in its
  fiber or inline in the awaiting fiber, the dispatch loop, the disposal of the scheduler,
  calls that must not suspend, and the components created by factories.
\<close>

section \<open>Awaitables\<close>

datatype await_status = OP_PENDING | OP_RESOLVED | OP_FAILED

record async_awaitable_impl =
  a_status :: await_status
  a_result :: zval
  a_label :: string

record await_store = task_store +
  awaitables :: "nat \<Rightarrow> async_awaitable_impl"
  next_awaitable :: nat

text \<open>\<open>async_status_label\<close> (\<open>helper.h\<close>).\<close>

fun async_status_label :: "await_status \<Rightarrow> string" where
  "async_status_label OP_RESOLVED = ''RESOLVED''"
| "async_status_label OP_FAILED = ''FAILED''"
| "async_status_label OP_PENDING = ''PENDING''"

definition upd_awaitable ::
  "nat \<Rightarrow> (async_awaitable_impl \<Rightarrow> async_awaitable_impl) \<Rightarrow> 'a await_store_scheme \<Rightarrow> 'a await_store_scheme" where
  "upd_awaitable a f w = w\<lparr>awaitables := (awaitables w)(a := f (awaitables w a))\<rparr>"

lemma upd_awaitable_sel [simp, store_simps]:
  "awaitables (upd_awaitable a f w) = (awaitables w)(a := f (awaitables w a))"
  "ops (upd_awaitable a f w) = ops w" "queues (upd_awaitable a f w) = queues w"
  "next_opid (upd_awaitable a f w) = next_opid w" "tasks (upd_awaitable a f w) = tasks w"
  "ready (upd_awaitable a f w) = ready w" "s_flags (upd_awaitable a f w) = s_flags w"
  by (simp_all add: upd_awaitable_def)

definition async_create_awaitable :: "'a await_store_scheme \<Rightarrow> nat \<times> 'a await_store_scheme" where
  "async_create_awaitable w = (next_awaitable w,
     w\<lparr>awaitables := (awaitables w)(next_awaitable w :=
          \<lparr>a_status = OP_PENDING, a_result = IS_UNDEF, a_label = async_status_label OP_PENDING\<rparr>),
        next_awaitable := Suc (next_awaitable w)\<rparr>)"

definition async_create_resolved_awaitable ::
  "zval option \<Rightarrow> 'a await_store_scheme \<Rightarrow> nat \<times> 'a await_store_scheme" where
  "async_create_resolved_awaitable result w =
     (let (a, w1) = async_create_awaitable w
      in (a, upd_awaitable a (\<lambda>x. x\<lparr>a_status := OP_RESOLVED,
               a_result := (case result of Some v \<Rightarrow> v | None \<Rightarrow> IS_NULL),
               a_label := async_status_label OP_RESOLVED\<rparr>) w1))"

definition async_create_failed_awaitable :: "zval \<Rightarrow> 'a await_store_scheme \<Rightarrow> nat \<times> 'a await_store_scheme" where
  "async_create_failed_awaitable err w =
     (let (a, w1) = async_create_awaitable w
      in (a, upd_awaitable a (\<lambda>x. x\<lparr>a_status := OP_FAILED, a_result := err,
               a_label := async_status_label OP_FAILED\<rparr>) w1))"

type_synonym 'a await_wake = "opid \<Rightarrow> 'a await_store_scheme \<Rightarrow> 'a await_store_scheme"

definition async_awaitable_resolve ::
  "'a await_wake \<Rightarrow> nat \<Rightarrow> zval option \<Rightarrow> 'a await_store_scheme \<Rightarrow> 'a await_store_scheme option" where
  "async_awaitable_resolve run a result w =
     (if a_status (awaitables w a) = OP_PENDING
      then drain_first (\<lambda>op w. async_resolve_op run op (a_result (awaitables w a)) w) (AwaitableOps a)
             (upd_awaitable a (\<lambda>x. x\<lparr>a_status := OP_RESOLVED,
                a_result := (case result of Some v \<Rightarrow> v | None \<Rightarrow> IS_NULL),
                a_label := async_status_label OP_RESOLVED\<rparr>) w)
      else Some w)"

definition async_awaitable_fail ::
  "'a await_wake \<Rightarrow> nat \<Rightarrow> zval \<Rightarrow> 'a await_store_scheme \<Rightarrow> 'a await_store_scheme option" where
  "async_awaitable_fail run a err w =
     (if a_status (awaitables w a) = OP_PENDING
      then drain_first (\<lambda>op w. async_fail_op run op (a_result (awaitables w a)) w) (AwaitableOps a)
             (upd_awaitable a (\<lambda>x. x\<lparr>a_status := OP_FAILED, a_result := err,
                a_label := async_status_label OP_FAILED\<rparr>) w)
      else Some w)"

text \<open>
  The await handlers: \<open>delegate\<close> gives the outcome of an awaitable that is settled,
  \<open>schedule\<close> queues the operation of the awaiting execution.
\<close>

definition awaitable_impl_delegate :: "nat \<Rightarrow> 'a await_store_scheme \<Rightarrow> await_status \<times> zval" where
  "awaitable_impl_delegate a w = (case a_status (awaitables w a) of
     OP_PENDING \<Rightarrow> (OP_PENDING, IS_UNDEF)
   | s \<Rightarrow> (s, a_result (awaitables w a)))"

definition awaitable_impl_schedule :: "nat \<Rightarrow> opid \<Rightarrow> 'a op_store_scheme \<Rightarrow> 'a op_store_scheme" where
  "awaitable_impl_schedule a op w = async_append_op (AwaitableOps a) op w"

section \<open>Awaiting\<close>

text \<open>Outcome of PHP code: a value, an exception, or a bailout (\<open>exit\<close>).\<close>

datatype outcome = Ret zval | Throw zval | Bail

definition await_val_checks_task :: "nat \<Rightarrow> 'a task_store_scheme \<Rightarrow> (bool \<times> string) list" where
  "await_val_checks_task t w = await_checks_task t w @
     [(has_flag (t_flags (tasks w t)) TASK_FLAG_NOWAIT, ''Cannot await within the current execution'')]"

definition await_val_checks_root :: "'a task_store_scheme \<Rightarrow> (bool \<times> string) list" where
  "await_val_checks_root w =
     [(sched_flag SCHED_DISPOSED w, ''Cannot await after the task scheduler has been disposed''),
      (sched_flag SCHED_ERROR w, ''Cannot await after the task scheduler has been stopped due to an error''),
      (sched_flag SCHED_RUNNING w, ''Cannot await in the fiber that is running the task scheduler loop''),
      (sched_flag SCHED_NOWAIT w, ''Cannot await within the current execution'')]"

text \<open>The handler of a class of awaitables (\<open>async_await_handler\<close>).\<close>

record 'w await_handler =
  h_delegate :: "nat option \<Rightarrow> nat \<Rightarrow> 'w \<Rightarrow> (await_status \<times> zval) \<times> 'w"
  h_schedule :: "opid \<Rightarrow> 'w \<Rightarrow> 'w"

definition await_val ::
  "'a yielding \<Rightarrow> 'a task_store_scheme await_handler \<Rightarrow> nat option \<Rightarrow> 'a task_store_scheme \<Rightarrow>
   (outcome \<times> 'a task_store_scheme) option" where
  "await_val yield handler task w =
     (let ctx = g_context w in
      case first_error (case task of Some t \<Rightarrow> await_val_checks_task t w | None \<Rightarrow> await_val_checks_root w) of
        Some msg \<Rightarrow> Some (Throw (IS_ERROR ErrorCe msg None), w)
      | None \<Rightarrow>
          (let op = (case task of Some t \<Rightarrow> t_op (tasks w t) | None \<Rightarrow> s_op w) in
           case h_delegate handler task ctx w of
             ((OP_RESOLVED, v), w1) \<Rightarrow> Some (Ret v, w1)
           | ((OP_FAILED, e), w1) \<Rightarrow> Some (Throw e, w1)
           | ((OP_PENDING, _), w1) \<Rightarrow>
               (let w2 = upd_op op (\<lambda>x. x\<lparr>op_status := ASYNC_STATUS_RUNNING, op_flags := 0\<rparr>) w1;
                    w3 = h_schedule handler op w2;
                    w4 = (if async_context_is_background ctx w3 then w3 else async_busy_enter w3);
                    resumed = (case task of
                        Some t \<Rightarrow> Some (yield Suspend
                          (upd_op op (\<lambda>x. x\<lparr>op_callback := Some Continue_op_task, op_arg := t\<rparr>) w4))
                      | None \<Rightarrow> async_task_scheduler_run_loop yield
                          (upd_op op (\<lambda>x. x\<lparr>op_callback := Some Continue_op_root, op_arg := g_scheduler w4\<rparr>) w4))
                in map_option (\<lambda>w5.
                     let w6 = (if async_context_is_background ctx w5 then w5 else async_busy_exit w5)
                     in if sched_flag SCHED_ERROR w6 then (Bail, async_reset_op op w6)
                        else if op_status (ops w6 op) = ASYNC_STATUS_RESOLVED then (Ret (op_result (ops w6 op)), w6)
                        else (Throw (op_result (ops w6 op)), w6)) resumed)))"

section \<open>Running tasks\<close>

text \<open>
  \<open>call\<close> is the user callback of the task, \<open>awaitable_of\<close> tells whether a value is an
  awaitable object, \<open>await_it\<close> awaits that object (\<open>await_val\<close> with its handler).
\<close>

definition await_returned ::
  "(zval \<Rightarrow> nat option) \<Rightarrow> (nat \<Rightarrow> 'w \<Rightarrow> outcome \<times> 'w) \<Rightarrow> outcome \<times> 'w \<Rightarrow> outcome \<times> 'w" where
  "await_returned awaitable_of await_it r = (case fst r of
     Ret v \<Rightarrow> (case awaitable_of v of Some a \<Rightarrow> await_it a (snd r) | None \<Rightarrow> r)
   | _ \<Rightarrow> r)"

definition settle_task :: "nat \<Rightarrow> outcome \<Rightarrow> 'a task_store_scheme \<Rightarrow> 'a task_store_scheme" where
  "settle_task t r w = upd_task t (\<lambda>x. case r of
       Ret v \<Rightarrow> x\<lparr>t_status := TASK_FINISHED, t_result := v\<rparr>
     | Throw e \<Rightarrow> x\<lparr>t_status := TASK_FAILED, t_result := e\<rparr>
     | Bail \<Rightarrow> x) w"

text \<open>
  The task opcode, in the fiber of the task. A bailout leaves the handler by a long jump to
  \<open>run_task_fiber\<close>, which stops the scheduler; then the fiber suspends for good.
\<close>

definition task_run_opcode_handler ::
  "(nat \<Rightarrow> 'a task_store_scheme \<Rightarrow> outcome \<times> 'a task_store_scheme) \<Rightarrow> (zval \<Rightarrow> nat option) \<Rightarrow>
   (nat \<Rightarrow> 'a task_store_scheme \<Rightarrow> outcome \<times> 'a task_store_scheme) \<Rightarrow> 'a wake \<Rightarrow> nat \<Rightarrow>
   'a task_store_scheme \<Rightarrow> (outcome \<times> 'a task_store_scheme) option" where
  "task_run_opcode_handler call awaitable_of await_it run t w =
     (let (r, w1) = await_returned awaitable_of await_it
            (call t (upd_task t (\<lambda>x. x\<lparr>t_status := TASK_RUNNING\<rparr>) w))
      in case r of
           Bail \<Rightarrow> Some (Bail, w1)
         | _ \<Rightarrow> map_option (\<lambda>w2. (r, w2)) (trigger_ops run t (settle_task t r w1)))"

definition run_task_fiber ::
  "(nat \<Rightarrow> 'a task_store_scheme \<Rightarrow> outcome \<times> 'a task_store_scheme) \<Rightarrow> (zval \<Rightarrow> nat option) \<Rightarrow>
   (nat \<Rightarrow> 'a task_store_scheme \<Rightarrow> outcome \<times> 'a task_store_scheme) \<Rightarrow> 'a wake \<Rightarrow> nat \<Rightarrow>
   'a task_store_scheme \<Rightarrow> 'a task_store_scheme option" where
  "run_task_fiber call awaitable_of await_it run t w =
     map_option (\<lambda>(r, w1). async_fiber_suspend (case r of Bail \<Rightarrow> async_task_scheduler_handle_exit w1 | _ \<Rightarrow> w1))
       (task_run_opcode_handler call awaitable_of await_it run t
         (w\<lparr>g_task := Some t, g_context := t_context (tasks w t)\<rparr>))"

text \<open>
  Running a task in the fiber that awaits it. A bailout of the callback is caught, the result
  stays as it was and the task counts as finished; \<open>ASYNC_FORWARD_EXIT\<close> then bails out again
  (the boolean). A bailout while a returned awaitable is awaited is not caught.
\<close>

definition async_task_execute_inline ::
  "(nat \<Rightarrow> 'a task_store_scheme \<Rightarrow> outcome \<times> 'a task_store_scheme) \<Rightarrow> (zval \<Rightarrow> nat option) \<Rightarrow>
   (nat \<Rightarrow> 'a task_store_scheme \<Rightarrow> outcome \<times> 'a task_store_scheme) \<Rightarrow> 'a wake \<Rightarrow> nat \<Rightarrow> nat \<Rightarrow>
   'a task_store_scheme \<Rightarrow> (bool \<times> 'a task_store_scheme) option" where
  "async_task_execute_inline call awaitable_of await_it run t ctx w =
     (let w1 = upd_task t (\<lambda>x. x\<lparr>t_status := TASK_RUNNING\<rparr>) (w\<lparr>ready := remove1 (TaskRef t) (ready w)\<rparr>);
          w2 = w1\<lparr>g_context := t_context (tasks w1 t)\<rparr>;
          w3 = (if async_context_is_background ctx w2 then w2 else async_busy_enter w2);
          (r, w4) = call t w3;
          w5 = (case r of Bail \<Rightarrow> async_task_scheduler_handle_exit w4 | _ \<Rightarrow> w4);
          w6 = (if async_context_is_background ctx w5 then w5 else async_busy_exit w5);
          (r', w7) = await_returned awaitable_of await_it (r, w6);
          w8 = w7\<lparr>g_context := ctx\<rparr>;
          w9 = (case r' of Bail \<Rightarrow> upd_task t (\<lambda>x. x\<lparr>t_status := TASK_FINISHED\<rparr>) w8
                         | _ \<Rightarrow> settle_task t r' w8)
      in if r' = Bail \<and> r \<noteq> Bail then Some (True, w7)
         else map_option (\<lambda>w10. (g_exit w10, w10)) (async_task_dispose run t w9))"

text \<open>
  The await handler of tasks; the awaited task runs inline when it has no fiber and its stack
  fits into the caller's. \<open>inline\<close> is \<open>async_task_execute_inline\<close>.
\<close>

definition task_await_delegate ::
  "(nat \<Rightarrow> nat \<Rightarrow> 'a task_store_scheme \<Rightarrow> 'a task_store_scheme) \<Rightarrow> bool \<Rightarrow> nat \<Rightarrow> nat option \<Rightarrow> nat \<Rightarrow>
   'a task_store_scheme \<Rightarrow> (await_status \<times> zval) \<times> 'a task_store_scheme" where
  "task_await_delegate inline inline_flag t caller ctx w =
     (if t_scheduler (tasks w t) \<noteq>
         (case caller of Some c \<Rightarrow> t_scheduler (tasks w c) | None \<Rightarrow> g_scheduler w)
      then ((OP_FAILED, IS_ERROR ErrorCe ''Cannot await a task that is running on a different scheduler'' None), w)
      else
        let w1 = (if inline_flag \<and> t_fiber (tasks w t) = None \<and>
                     (case caller of None \<Rightarrow> True
                      | Some c \<Rightarrow> t_stack_size (tasks w t) \<le> t_stack_size (tasks w c))
                  then inline t ctx w else w)
        in (case t_status (tasks w1 t) of
              TASK_FINISHED \<Rightarrow> ((OP_RESOLVED, t_result (tasks w1 t)), w1)
            | TASK_FAILED \<Rightarrow> ((OP_FAILED, t_result (tasks w1 t)), w1)
            | _ \<Rightarrow> ((OP_PENDING, IS_UNDEF), w1)))"

definition task_await_schedule :: "nat \<Rightarrow> opid \<Rightarrow> 'a op_store_scheme \<Rightarrow> 'a op_store_scheme" where
  "task_await_schedule t op w = async_append_op (TaskOps t) op w"

section \<open>Creating and dispatching tasks\<close>

text \<open>The configured stack size; 0 stands for the default of 128 pages of 4096 bytes.\<close>

definition task_stack_size :: "int \<Rightarrow> int" where
  "task_stack_size ini = (if ini = 0 then 4096 * 128 else ini)"

definition async_task_object_create ::
  "int \<Rightarrow> nat \<Rightarrow> nat \<Rightarrow> 'a task_store_scheme \<Rightarrow> nat \<times> 'a task_store_scheme" where
  "async_task_object_create ini callback ctx w =
     (let (op, w1) = async_alloc_op w;
          t = next_task w1;
          w2 = w1\<lparr>tasks := (tasks w1)(t := \<lparr>t_fiber = None, t_scheduler = g_scheduler w1, t_flags = 0,
                 t_status = TASK_INIT, t_stack_size = task_stack_size ini, t_callback = callback,
                 t_context = ctx, t_result = IS_NULL, t_op = op, t_refs = 1\<rparr>),
               next_task := Suc t\<rparr>
      in (t, async_task_scheduler_enqueue (TaskRef t) w2))"

text \<open>
  One iteration of the dispatch loop for the extracted entry. The pseudo task of the root
  execution always has a fiber; its status is never a final one. \<open>fork\<close> says whether a
  native fiber can be created, failing is a fatal error (\<open>None\<close>).
\<close>

definition dispatch_one ::
  "'a yielding \<Rightarrow> 'a wake \<Rightarrow> (nat \<Rightarrow> 'a task_store_scheme \<Rightarrow> (nat \<times> 'a task_store_scheme) option) \<Rightarrow>
   task_ref \<Rightarrow> 'a task_store_scheme \<Rightarrow> 'a task_store_scheme option" where
  "dispatch_one yield run fork r w = (case r of
     RootRef \<Rightarrow> (case s_root_fiber w of None \<Rightarrow> None | Some f \<Rightarrow> Some (yield (Switch f) w))
   | TaskRef t \<Rightarrow>
       (let finish = (\<lambda>w1. if settled (tasks w1 t) then async_task_dispose run t w1 else Some w1)
        in case t_fiber (tasks w t) of
          None \<Rightarrow>
            if sched_flag SCHED_ERROR w then async_task_dispose run t w
            else (case fork t w of
              None \<Rightarrow> None
            | Some (f, w1) \<Rightarrow> finish (yield (Switch f) (upd_task t (\<lambda>x. x\<lparr>t_fiber := Some f\<rparr>) w1)))
        | Some f \<Rightarrow> finish (yield (Switch f) (upd_task t (\<lambda>x. x\<lparr>t_status := TASK_RUNNING\<rparr>) w))))"

partial_function (option) dispatch_tasks ::
  "'a yielding \<Rightarrow> 'a wake \<Rightarrow> (nat \<Rightarrow> 'a task_store_scheme \<Rightarrow> (nat \<times> 'a task_store_scheme) option) \<Rightarrow>
   'a task_store_scheme \<Rightarrow> 'a task_store_scheme option" where
  "dispatch_tasks yield run fork w = (case list_extract_first (ready w) of
     (None, _) \<Rightarrow> Some (w\<lparr>idle_active := False\<rparr>)
   | (Some r, rest) \<Rightarrow> Option.bind (dispatch_one yield run fork r (w\<lparr>ready := rest\<rparr>))
       (dispatch_tasks yield run fork))"

text \<open>\<open>fork\<close> as the code does it: \<open>async_fiber_create\<close> and \<open>async_fiber_init\<close>.\<close>

definition fork_task_fiber ::
  "64 word \<Rightarrow> (64 word \<Rightarrow> bool) \<Rightarrow> nat \<Rightarrow> 'a task_store_scheme \<Rightarrow> (nat \<times> 'a task_store_scheme) option" where
  "fork_task_fiber page mmap t w =
     (let (f, w1) = async_fiber_create w;
          (ok, w2) = async_fiber_init page mmap f (t_context (tasks w1 t)) (Run_task_fiber t)
                       (word_of_int (t_stack_size (tasks w1 t))) w1
      in if ok then Some (f, w2) else None)"

end
