(* ===== verification/Loop.thy ===== *)
theory Loop
  imports Task
begin

text \<open>
  The event loop side of the scheduler (\<open>task.c\<close>): calls that must not suspend, tick
  callbacks, the runner fiber, the disposal of a scheduler, \<open>TaskScheduler::run\<close>, and the
  components built by registered factories. libuv is not part of the source: one run of its
  loop (\<open>uv_run\<close>), the walk over its handles and \<open>uv_loop_alive\<close> are parameters.
\<close>

section \<open>Calls that must not suspend\<close>

text \<open>
  \<open>zend_call_function\<close> is \<open>call\<close>; \<open>Ret\<close> is its SUCCESS. \<open>Bail\<close> as a result means that
  \<open>ASYNC_FORWARD_EXIT\<close> leaves by a bailout.
\<close>

definition async_call_nowait ::
  "('a task_store_scheme \<Rightarrow> outcome \<times> 'a task_store_scheme) \<Rightarrow> 'a task_store_scheme \<Rightarrow>
   outcome \<times> 'a task_store_scheme" where
  "async_call_nowait call w =
     (let (r, w') = (case g_task w of
        None \<Rightarrow>
          (let flag = sched_flag SCHED_NOWAIT w;
               (r, w1) = call (w\<lparr>s_flags := set_flag (s_flags w) SCHED_NOWAIT\<rparr>);
               w2 = (case r of Bail \<Rightarrow> async_task_scheduler_handle_exit w1 | _ \<Rightarrow> w1)
           in (r, if flag then w2 else w2\<lparr>s_flags := clear_flag (s_flags w2) SCHED_NOWAIT\<rparr>))
      | Some t \<Rightarrow>
          (let flag = has_flag (t_flags (tasks w t)) TASK_FLAG_NOWAIT;
               (r, w1) = call (upd_task t (\<lambda>x. x\<lparr>t_flags := set_flag (t_flags x) TASK_FLAG_NOWAIT\<rparr>) w);
               w2 = (case r of Bail \<Rightarrow> async_task_scheduler_handle_exit w1 | _ \<Rightarrow> w1)
           in (r, if flag then w2 else upd_task t (\<lambda>x. x\<lparr>t_flags := clear_flag (t_flags x) TASK_FLAG_NOWAIT\<rparr>) w2)))
      in (if g_exit w' then Bail else r, w'))"

section \<open>Tick callbacks\<close>

definition extract_tick :: "nat \<Rightarrow> nat list \<Rightarrow> 'a task_store_scheme \<Rightarrow> 'a task_store_scheme" where
  "extract_tick e rest w =
     (let x = tick_events w e
      in w\<lparr>ticks_running := rest,
           tick_events := (tick_events w)(e := x\<lparr>e_list := None\<rparr>),
           refticks := (if has_flag (e_flags x) TICK_EVENT_REFERENCED then refticks w - 1 else refticks w)\<rparr>)"

definition deref_tick :: "nat \<Rightarrow> 'a task_store_scheme \<Rightarrow> 'a task_store_scheme" where
  "deref_tick e w = w\<lparr>tick_events := (tick_events w)(e := (tick_events w e)\<lparr>e_refs := e_refs (tick_events w e) - 1\<rparr>)\<rparr>"

text \<open>
  The callbacks that were scheduled before the run are moved to the running list and called in
  order; the result is the exception that stopped the run, if any. The running list can only
  shrink while callbacks run (new ticks go to the other list, events can be stopped), unless
  a callback runs a nested loop, so the loop is a partial function.
\<close>

partial_function (option) run_ticks_loop ::
  "(nat \<Rightarrow> 'a task_store_scheme \<Rightarrow> outcome \<times> 'a task_store_scheme) \<Rightarrow> 'a task_store_scheme \<Rightarrow>
   (zval option \<times> 'a task_store_scheme) option" where
  "run_ticks_loop call w = (case ticks_running w of
     [] \<Rightarrow> Some (None, w)
   | e # rest \<Rightarrow>
       (case async_call_nowait (call e) (extract_tick e rest w) of
          (Bail, w1) \<Rightarrow> Some (None, deref_tick e (async_task_scheduler_handle_exit w1))
        | (Throw err, w1) \<Rightarrow> Some (Some err, deref_tick e w1)
        | (Ret _, w1) \<Rightarrow> run_ticks_loop call (deref_tick e w1)))"

text \<open>Moving the scheduled events to the running list.\<close>

definition begin_ticks :: "'a task_store_scheme \<Rightarrow> 'a task_store_scheme" where
  "begin_ticks w = w\<lparr>ticks_running := ticks w, ticks := [],
     tick_events := (\<lambda>e. if e \<in> set (ticks w) then (tick_events w e)\<lparr>e_list := Some TickRunning\<rparr>
                         else tick_events w e)\<rparr>"

definition run_ticks ::
  "(nat \<Rightarrow> 'a task_store_scheme \<Rightarrow> outcome \<times> 'a task_store_scheme) \<Rightarrow> 'a task_store_scheme \<Rightarrow>
   (zval option \<times> 'a task_store_scheme) option" where
  "run_ticks call w = run_ticks_loop call (begin_ticks w)"

section \<open>The runner fiber\<close>

text \<open>
  One round of the inner loop of \<open>run_scheduler_fiber\<close>: ticks, then libuv with
  \<open>UV_RUN_NOWAIT\<close> (\<open>True\<close>) when new ticks are waiting. The result says whether to go on.
\<close>

definition scheduler_round ::
  "(nat \<Rightarrow> 'a task_store_scheme \<Rightarrow> outcome \<times> 'a task_store_scheme) \<Rightarrow>
   (bool \<Rightarrow> 'a task_store_scheme \<Rightarrow> bool \<times> 'a task_store_scheme) \<Rightarrow>
   'a task_store_scheme \<Rightarrow> (bool \<times> 'a task_store_scheme) option" where
  "scheduler_round call uv_run w =
     (case (if ticks w = [] then Some (None, w) else run_ticks call w) of
        None \<Rightarrow> None
      | Some (err, w1) \<Rightarrow>
          (let w2 = (case err of None \<Rightarrow> w1 | Some e \<Rightarrow> async_task_scheduler_handle_error e w1);
               w3 = w2\<lparr>s_flags := set_flag (s_flags w2) SCHED_ACTIVE\<rparr>;
               (again, w4) = uv_run (ticks w3 \<noteq> []) w3;
               w5 = w4\<lparr>s_flags := clear_flag (s_flags w4) SCHED_ACTIVE\<rparr>
           in if sched_flag SCHED_ERROR w5 then Some (False, w5)
              else Some (again \<or> refticks w5 > 0, w5)))"

partial_function (option) scheduler_rounds ::
  "(nat \<Rightarrow> 'a task_store_scheme \<Rightarrow> outcome \<times> 'a task_store_scheme) \<Rightarrow>
   (bool \<Rightarrow> 'a task_store_scheme \<Rightarrow> bool \<times> 'a task_store_scheme) \<Rightarrow>
   'a task_store_scheme \<Rightarrow> 'a task_store_scheme option" where
  "scheduler_rounds call uv_run w = (case scheduler_round call uv_run w of
     None \<Rightarrow> None
   | Some (again, w1) \<Rightarrow> if again then scheduler_rounds call uv_run w1 else Some w1)"

text \<open>After the rounds the runner switches to the caller without being queued.\<close>

definition run_scheduler_fiber_once ::
  "(nat \<Rightarrow> 'a task_store_scheme \<Rightarrow> outcome \<times> 'a task_store_scheme) \<Rightarrow>
   (bool \<Rightarrow> 'a task_store_scheme \<Rightarrow> bool \<times> 'a task_store_scheme) \<Rightarrow>
   'a task_store_scheme \<Rightarrow> 'a task_store_scheme option" where
  "run_scheduler_fiber_once call uv_run w = (case scheduler_rounds call uv_run w of
     None \<Rightarrow> None
   | Some w1 \<Rightarrow> (case s_caller w1 of None \<Rightarrow> None | Some f \<Rightarrow> Some (async_fiber_switch f SUSPEND_NONE w1)))"

section \<open>Components\<close>

record component_store = await_store +
  components :: "string \<rightharpoonup> nat"
  factories :: "string \<rightharpoonup> nat"

text \<open>
  \<open>call_factory f\<close> calls the factory, \<open>instance_of ty v\<close> checks the class of what it made.
\<close>

definition async_get_component ::
  "(nat \<Rightarrow> 'a component_store_scheme \<Rightarrow> outcome \<times> 'a component_store_scheme) \<Rightarrow>
   (string \<Rightarrow> zval \<Rightarrow> nat option) \<Rightarrow> string \<Rightarrow> 'a component_store_scheme \<Rightarrow>
   outcome \<times> 'a component_store_scheme" where
  "async_get_component call_factory instance_of ty w = (case components w ty of
     Some c \<Rightarrow> (Ret (IS_OBJECT c), w)
   | None \<Rightarrow> (case factories w ty of
       None \<Rightarrow> (Throw (IS_ERROR ErrorCe (''No factory registered for type '' @ ty) None), w)
     | Some f \<Rightarrow>
         (let ctx = g_context w;
              (r, w1) = async_call_nowait (call_factory f) (w\<lparr>g_context := g_foreground w\<rparr>);
              w2 = (case r of Bail \<Rightarrow> async_task_scheduler_handle_exit w1 | _ \<Rightarrow> w1);
              w3 = w2\<lparr>g_context := ctx\<rparr>
          in case r of
               Bail \<Rightarrow> (Bail, w3)
             | Throw e \<Rightarrow> (Throw e, w3)
             | Ret v \<Rightarrow> (case instance_of ty v of
                 None \<Rightarrow> (Throw (IS_ERROR ErrorCe (''Factory must return an instance of '' @ ty) None), w3)
               | Some c \<Rightarrow>
                   (case components w3 ty of
                      None \<Rightarrow> (Ret (IS_OBJECT c), w3\<lparr>components := (components w3)(ty \<mapsto> c)\<rparr>)
                    | Some _ \<Rightarrow> (Ret IS_NULL, w3))))))"

text \<open>
  \<open>TaskScheduler::register\<close>: \<open>found\<close> is whether the class exists, \<open>callable\<close> the factory
  (\<open>None\<close> for null) with the error of \<open>zend_fcall_info_init\<close> if it cannot be called. The
  result is the previous factory.
\<close>

definition task_scheduler_register ::
  "bool \<Rightarrow> string \<Rightarrow> (nat \<times> string option) option \<Rightarrow> 'a component_store_scheme \<Rightarrow>
   (string + nat option) \<times> 'a component_store_scheme" where
  "task_scheduler_register found ty callable w =
     (if \<not> found then (Inl (''Type not found: '' @ ty), w)
      else
        let prev = factories w ty
        in case callable of
             None \<Rightarrow> (Inr prev, w\<lparr>factories := (factories w)(ty := None)\<rparr>)
           | Some (f, Some err) \<Rightarrow> (Inl (''Failed to register factory: '' @ err), w)
           | Some (f, None) \<Rightarrow> (Inr prev, w\<lparr>factories := (factories w)(ty \<mapsto> f)\<rparr>))"

section \<open>Disposing a scheduler\<close>

text \<open>
  Every component is shut down (\<open>shut c\<close> calls its \<open>shutdown\<close> method). An error stops the
  scheduler but not the loop; a bailout ends it (\<open>True\<close>).
\<close>

fun shutdown_components ::
  "(nat \<Rightarrow> 'a task_store_scheme \<Rightarrow> outcome \<times> 'a task_store_scheme) \<Rightarrow> nat list \<Rightarrow>
   'a task_store_scheme \<Rightarrow> bool \<times> 'a task_store_scheme" where
  "shutdown_components shut [] w = (False, w)"
| "shutdown_components shut (c # cs) w =
     (let (r, w1) = shut c w;
          w2 = (case r of Bail \<Rightarrow> async_task_scheduler_handle_exit w1
                  | Throw e \<Rightarrow> async_task_scheduler_handle_error e w1
                  | Ret _ \<Rightarrow> w1)
      in if g_exit w2 then (True, w2) else shutdown_components shut cs w2)"

text \<open>Calling the shutdown callbacks of the components that still have one.\<close>

partial_function (option) run_shutdown ::
  "(cancel_cb \<Rightarrow> zval \<Rightarrow> 'a task_store_scheme \<Rightarrow> 'a task_store_scheme) \<Rightarrow> zval \<Rightarrow>
   'a task_store_scheme \<Rightarrow> 'a task_store_scheme option" where
  "run_shutdown call err w = (case list_extract_first (s_shutdown w) of
     (None, _) \<Rightarrow> Some w
   | (Some cb, rest) \<Rightarrow> run_shutdown call err (call cb err (w\<lparr>s_shutdown := rest\<rparr>)))"

partial_function (option) dispose_loop ::
  "'a yielding \<Rightarrow> 'a wake \<Rightarrow> (cancel_cb \<Rightarrow> zval \<Rightarrow> 'a task_store_scheme \<Rightarrow> 'a task_store_scheme) \<Rightarrow>
   ('a task_store_scheme \<Rightarrow> 'a task_store_scheme) \<Rightarrow> ('a task_store_scheme \<Rightarrow> bool) \<Rightarrow> zval \<Rightarrow>
   'a task_store_scheme \<Rightarrow> 'a task_store_scheme option" where
  "dispose_loop yield run call walk alive err w =
     Option.bind (drain_ops (\<lambda>op. async_fail_op run op err) SchedOperations w) (\<lambda>w1.
     Option.bind (run_shutdown call err w1) (\<lambda>w2.
     Option.bind (async_task_scheduler_run_loop yield w2) (\<lambda>w3.
     Option.bind (async_task_scheduler_run_loop yield (walk w3)) (\<lambda>w4.
       if alive w4 then dispose_loop yield run call walk alive err w4 else Some w4))))"

definition async_task_scheduler_dispose ::
  "'a yielding \<Rightarrow> 'a wake \<Rightarrow> (cancel_cb \<Rightarrow> zval \<Rightarrow> 'a task_store_scheme \<Rightarrow> 'a task_store_scheme) \<Rightarrow>
   ('a task_store_scheme \<Rightarrow> 'a task_store_scheme) \<Rightarrow> ('a task_store_scheme \<Rightarrow> bool) \<Rightarrow>
   (nat \<Rightarrow> 'a task_store_scheme \<Rightarrow> outcome \<times> 'a task_store_scheme) \<Rightarrow> nat list \<Rightarrow>
   'a task_store_scheme \<Rightarrow> (bool \<times> 'a task_store_scheme) option" where
  "async_task_scheduler_dispose yield run call walk alive shut comps w =
     (if sched_flag SCHED_DISPOSED w then None
      else
        Option.bind (if s_error w = IS_UNDEF then async_task_scheduler_run_loop yield w else Some w) (\<lambda>w1.
        let w2 = dispose_ticks (w1\<lparr>s_flags := set_flag (s_flags w1) SCHED_DISPOSED\<rparr>);
            flag = sched_flag SCHED_NOWAIT w2;
            (bail, w3) = shutdown_components shut comps (w2\<lparr>s_flags := set_flag (s_flags w2) SCHED_NOWAIT\<rparr>)
        in if bail then Some (True, w3)
           else
             let w4 = (if flag then w3 else w3\<lparr>s_flags := clear_flag (s_flags w3) SCHED_NOWAIT\<rparr>)
             in map_option (Pair False)
                  (dispose_loop yield run call walk alive
                     (IS_ERROR ErrorCe ''Task scheduler has been disposed'' None) w4)))"

text \<open>
  \<open>TaskScheduler::run\<close> and \<open>runWithContext\<close> on the state of the new scheduler: the callback
  runs (in the given context), the tasks left over go to the inspector \<open>finalizer\<close>, then the
  scheduler is disposed. \<open>Throw\<close> is the error the scheduler was stopped with.
\<close>

definition task_scheduler_run ::
  "('a task_store_scheme \<Rightarrow> outcome \<times> 'a task_store_scheme) \<Rightarrow>
   ('a task_store_scheme \<Rightarrow> (bool \<times> 'a task_store_scheme) option) \<Rightarrow>
   (task_ref list \<Rightarrow> 'a task_store_scheme \<Rightarrow> 'a task_store_scheme) option \<Rightarrow> nat option \<Rightarrow>
   'a task_store_scheme \<Rightarrow> (outcome \<times> 'a task_store_scheme) option" where
  "task_scheduler_run call dispose finalizer scope w =
     (let prev = g_context w;
          (r, w1) = call (case scope of None \<Rightarrow> w | Some x \<Rightarrow> w\<lparr>g_context := x\<rparr>);
          w2 = (case r of Bail \<Rightarrow> async_task_scheduler_handle_exit w1 | _ \<Rightarrow> w1);
          w3 = (case scope of None \<Rightarrow> w2 | Some _ \<Rightarrow> w2\<lparr>g_context := prev\<rparr>)
      in if g_exit w3 then Some (Bail, w3)
         else
           let w4 = (case r of
                 Throw e \<Rightarrow> async_task_scheduler_handle_error e w3
               | _ \<Rightarrow> (case finalizer of None \<Rightarrow> w3 | Some f \<Rightarrow> f (ready w3) w3))
           in map_option (\<lambda>(bail, w5).
                (if bail \<or> g_exit w5 then Bail
                 else if s_error w5 \<noteq> IS_UNDEF then Throw (s_error w5) else r, w5)) (dispose w4))"

end
