(* ===== verification/Channel.thy ===== *)
theory Channel
  imports Loop
begin

text \<open>
  Channels (\<open>channel.c\<close>): bounded FIFO queues of messages between executions. A channel has
  an array ring buffer (possibly of size 0), a queue of senders that wait for space and a
  queue of receivers that wait for a message. Messages are read through iterators.
\<close>

section \<open>State\<close>

abbreviation CHANNEL_FLAG_CLOSED :: u8 where "CHANNEL_FLAG_CLOSED \<equiv> 1"
abbreviation ITERATOR_FLAG_FETCHING :: u8 where "ITERATOR_FLAG_FETCHING \<equiv> 1"

text \<open>
  Sizes and positions are 16-bit unsigned in the code; the constructor bounds the size by
  65535, and positions are reduced modulo the size in \<open>int\<close> arithmetic, so they are natural
  numbers here.
\<close>

record async_channel_state =
  ch_refcount :: u32
  ch_flags :: u8
  ch_error :: zval
  ch_cancel :: bool
  ch_size :: nat
  ch_len :: nat
  ch_rpos :: nat
  ch_wpos :: nat
  ch_data :: "zval list"
  ch_freed :: bool

record async_channel_iterator =
  it_flags :: u8
  it_state :: nat
  it_pos :: int
  it_entry :: zval
  it_op :: opid

record chan_store = task_store +
  chans :: "nat \<Rightarrow> async_channel_state"
  next_chan :: nat
  iterators :: "nat \<Rightarrow> async_channel_iterator"
  next_iterator :: nat
  send_values :: "opid \<Rightarrow> zval"

type_synonym 'a chan_wake = "opid \<Rightarrow> 'a chan_store_scheme \<Rightarrow> 'a chan_store_scheme"
type_synonym 'a chan_yield = "transfer \<Rightarrow> 'a chan_store_scheme \<Rightarrow> 'a chan_store_scheme"

definition upd_chan ::
  "nat \<Rightarrow> (async_channel_state \<Rightarrow> async_channel_state) \<Rightarrow> 'a chan_store_scheme \<Rightarrow> 'a chan_store_scheme" where
  "upd_chan ch f w = w\<lparr>chans := (chans w)(ch := f (chans w ch))\<rparr>"

definition upd_iterator ::
  "nat \<Rightarrow> (async_channel_iterator \<Rightarrow> async_channel_iterator) \<Rightarrow> 'a chan_store_scheme \<Rightarrow> 'a chan_store_scheme" where
  "upd_iterator it f w = w\<lparr>iterators := (iterators w)(it := f (iterators w it))\<rparr>"

lemma upd_chan_sel [simp, store_simps]:
  "chans (upd_chan ch f w) = (chans w)(ch := f (chans w ch))" "ops (upd_chan ch f w) = ops w"
  "queues (upd_chan ch f w) = queues w" "next_opid (upd_chan ch f w) = next_opid w"
  "send_values (upd_chan ch f w) = send_values w" "iterators (upd_chan ch f w) = iterators w"
  "g_context (upd_chan ch f w) = g_context w" "contexts (upd_chan ch f w) = contexts w"
  by (simp_all add: upd_chan_def)

lemma upd_iterator_sel [simp, store_simps]:
  "iterators (upd_iterator it f w) = (iterators w)(it := f (iterators w it))"
  "ops (upd_iterator it f w) = ops w" "queues (upd_iterator it f w) = queues w"
  "next_opid (upd_iterator it f w) = next_opid w" "send_values (upd_iterator it f w) = send_values w"
  "chans (upd_iterator it f w) = chans w"
  "g_context (upd_iterator it f w) = g_context w" "contexts (upd_iterator it f w) = contexts w"
  by (simp_all add: upd_iterator_def)

lemma upd_op_chan [simp]:
  "chans (upd_op op f w) = chans w" "next_chan (upd_op op f w) = next_chan w"
  "iterators (upd_op op f w) = iterators w" "next_iterator (upd_op op f w) = next_iterator w"
  "send_values (upd_op op f w) = send_values w" "chan_store.more (upd_op op f w) = chan_store.more w"
  by (simp_all add: upd_op_def)

lemma upd_queue_chan [simp]:
  "chans (upd_queue q f w) = chans w" "next_chan (upd_queue q f w) = next_chan w"
  "iterators (upd_queue q f w) = iterators w" "next_iterator (upd_queue q f w) = next_iterator w"
  "send_values (upd_queue q f w) = send_values w" "chan_store.more (upd_queue q f w) = chan_store.more w"
  by (simp_all add: upd_queue_def)

lemma upd_cancel_chan [simp]:
  "chans (upd_cancel c f w) = chans w" "next_chan (upd_cancel c f w) = next_chan w"
  "iterators (upd_cancel c f w) = iterators w" "next_iterator (upd_cancel c f w) = next_iterator w"
  "send_values (upd_cancel c f w) = send_values w"
  "chan_store.more (upd_cancel c f w) = chan_store.more w"
  by (simp_all add: upd_cancel_def)

lemma upd_task_chan [simp]:
  "chans (upd_task t f w) = chans w" "next_chan (upd_task t f w) = next_chan w"
  "iterators (upd_task t f w) = iterators w" "next_iterator (upd_task t f w) = next_iterator w"
  "send_values (upd_task t f w) = send_values w" "chan_store.more (upd_task t f w) = chan_store.more w"
  by (simp_all add: upd_task_def)

lemma busy_enter_chan [simp]:
  "chans (async_busy_enter w) = chans w" "next_chan (async_busy_enter w) = next_chan w"
  "iterators (async_busy_enter w) = iterators w" "next_iterator (async_busy_enter w) = next_iterator w"
  "send_values (async_busy_enter w) = send_values w"
  "chan_store.more (async_busy_enter w) = chan_store.more w"
  by (simp_all add: async_busy_enter_def Let_def)

lemma busy_exit_chan [simp]:
  "chans (async_busy_exit w) = chans w" "next_chan (async_busy_exit w) = next_chan w"
  "iterators (async_busy_exit w) = iterators w" "next_iterator (async_busy_exit w) = next_iterator w"
  "send_values (async_busy_exit w) = send_values w"
  "chan_store.more (async_busy_exit w) = chan_store.more w"
  by (simp_all add: async_busy_exit_def Let_def)

definition chan_closed :: "nat \<Rightarrow> 'a chan_store_scheme \<Rightarrow> bool" where
  "chan_closed ch w = has_flag (ch_flags (chans w ch)) CHANNEL_FLAG_CLOSED"

text \<open>The macro tests the queue of receivers, not the queue of senders.\<close>

definition channel_readable_nonblock :: "nat \<Rightarrow> 'a chan_store_scheme \<Rightarrow> bool" where
  "channel_readable_nonblock ch w \<longleftrightarrow> queues w (ChanReceivers ch) \<noteq> [] \<or> ch_len (chans w ch) > 0"

definition channel_readable :: "nat \<Rightarrow> 'a chan_store_scheme \<Rightarrow> bool" where
  "channel_readable ch w \<longleftrightarrow> \<not> chan_closed ch w \<or> channel_readable_nonblock ch w"

abbreviation closed_message :: string where "closed_message \<equiv> ''Channel has been closed''"

definition forward_error :: "zval \<Rightarrow> zval" where
  "forward_error cause = set_previous (IS_ERROR ChannelClosedExceptionCe closed_message None) cause"

section \<open>Buffer and queues\<close>

definition buffer_put :: "nat \<Rightarrow> zval \<Rightarrow> 'a chan_store_scheme \<Rightarrow> 'a chan_store_scheme" where
  "buffer_put ch v w = upd_chan ch (\<lambda>x. x\<lparr>ch_data := (ch_data x)[ch_wpos x := v],
     ch_wpos := (ch_wpos x + 1) mod ch_size x\<rparr>) w"

text \<open>A value, or \<open>None\<close> for FAILURE.\<close>

definition fetch_noblock ::
  "'a chan_wake \<Rightarrow> nat \<Rightarrow> 'a chan_store_scheme \<Rightarrow> zval option \<times> 'a chan_store_scheme" where
  "fetch_noblock run ch w =
     (if ch_len (chans w ch) > 0
      then
        let v = ch_data (chans w ch) ! ch_rpos (chans w ch);
            w1 = upd_chan ch (\<lambda>x. x\<lparr>ch_rpos := (ch_rpos x + 1) mod ch_size x\<rparr>) w
        in case async_next_op (ChanSenders ch) w1 of
             Some (op, w2) \<Rightarrow> (Some v, async_finish_op run op (buffer_put ch (send_values w2 op) w2))
           | None \<Rightarrow> (Some v, upd_chan ch (\<lambda>x. x\<lparr>ch_len := ch_len x - 1\<rparr>) w1)
      else case async_next_op (ChanSenders ch) w of
          Some (op, w1) \<Rightarrow> (Some (send_values w1 op), async_finish_op run op w1)
        | None \<Rightarrow> (None, w))"

definition settle_closed :: "'a chan_wake \<Rightarrow> nat \<Rightarrow> opid \<Rightarrow> 'a chan_store_scheme \<Rightarrow> 'a chan_store_scheme" where
  "settle_closed run ch op w =
     (if ch_error (chans w ch) = IS_UNDEF then async_finish_op run op w
      else async_fail_op run op (ch_error (chans w ch)) w)"

definition dispose_channel_state ::
  "'a chan_wake \<Rightarrow> nat \<Rightarrow> zval option \<Rightarrow> 'a chan_store_scheme \<Rightarrow> 'a chan_store_scheme option" where
  "dispose_channel_state run ch error w =
     (let w1 = upd_chan ch (\<lambda>x. x\<lparr>ch_cancel := False, ch_flags := set_flag (ch_flags x) CHANNEL_FLAG_CLOSED\<rparr>) w;
          w2 = (case error of
              Some e \<Rightarrow> if ch_error (chans w1 ch) = IS_UNDEF
                        then upd_chan ch (\<lambda>x. x\<lparr>ch_error := e\<rparr>) w1 else w1
            | None \<Rightarrow> w1)
      in Option.bind (drain_ops (settle_closed run ch) (ChanReceivers ch) w2)
           (drain_ops (settle_closed run ch) (ChanSenders ch)))"

definition create_channel_state :: "'a chan_store_scheme \<Rightarrow> nat \<times> 'a chan_store_scheme" where
  "create_channel_state w =
     (let ch = next_chan w
      in (ch, (upd_chan ch (\<lambda>_. \<lparr>ch_refcount = 1, ch_flags = 0, ch_error = IS_UNDEF, ch_cancel = True,
               ch_size = 0, ch_len = 0, ch_rpos = 0, ch_wpos = 0, ch_data = [], ch_freed = False\<rparr>) w)
             \<lparr>next_chan := Suc ch, s_shutdown := list_append (ShutdownCb CChannel ch) (s_shutdown w)\<rparr>))"

definition unlink_cancel :: "nat \<Rightarrow> 'a chan_store_scheme \<Rightarrow> 'a chan_store_scheme" where
  "unlink_cancel ch w = w\<lparr>s_shutdown := remove1 (ShutdownCb CChannel ch) (s_shutdown w)\<rparr>"

definition release_channel_state :: "'a chan_wake \<Rightarrow> nat \<Rightarrow> 'a chan_store_scheme \<Rightarrow> 'a chan_store_scheme option" where
  "release_channel_state run ch w =
     (let w1 = upd_chan ch (\<lambda>x. x\<lparr>ch_refcount := ch_refcount x - 1\<rparr>) w
      in if ch_refcount (chans w1 ch) \<noteq> 0 then Some w1
         else map_option (upd_chan ch (\<lambda>x. x\<lparr>ch_freed := True, ch_error := IS_UNDEF, ch_data := [], ch_len := 0\<rparr>))
           (if ch_cancel (chans w1 ch) then dispose_channel_state run ch None (unlink_cancel ch w1) else Some w1))"

section \<open>Channel objects\<close>

text \<open>The object is named by its state: there is one state per channel object.\<close>

definition async_channel_object_dtor ::
  "'a chan_wake \<Rightarrow> nat \<Rightarrow> 'a chan_store_scheme \<Rightarrow> 'a chan_store_scheme option" where
  "async_channel_object_dtor run ch w =
     (if ch_cancel (chans w ch) then dispose_channel_state run ch None (unlink_cancel ch w) else Some w)"

text \<open>\<open>show_int\<close> is the decimal notation (\<open>%d\<close>).\<close>

definition channel_construct ::
  "(int \<Rightarrow> string) \<Rightarrow> nat \<Rightarrow> int \<Rightarrow> 'a chan_store_scheme \<Rightarrow> string option \<times> 'a chan_store_scheme" where
  "channel_construct show_int ch sz w = (case first_error
       [(sz < 0, ''Channel buffer size must not be negative''),
        (sz > 0xFFFF, ''Maximum channel buffer size is '' @ show_int sz)] of
     Some msg \<Rightarrow> (Some msg, w)
   | None \<Rightarrow> (None, upd_chan ch (\<lambda>x. x\<lparr>ch_size := nat sz,
       ch_data := (if sz > 0 then replicate (nat sz) IS_UNDEF else ch_data x)\<rparr>) w))"

definition channel_close ::
  "'a chan_wake \<Rightarrow> nat \<Rightarrow> zval option \<Rightarrow> 'a chan_store_scheme \<Rightarrow> 'a chan_store_scheme option" where
  "channel_close run ch val w =
     (if ch_cancel (chans w ch)
      then dispose_channel_state run ch (case val of None \<Rightarrow> None | Some v \<Rightarrow> if v = IS_NULL then None else Some v)
             (unlink_cancel ch w)
      else Some w)"

definition channel_is_closed :: "nat \<Rightarrow> 'a chan_store_scheme \<Rightarrow> bool" where
  "channel_is_closed ch w = (\<not> ch_cancel (chans w ch))"

text \<open>Queuing a sender: the part of \<open>send\<close> before the wait.\<close>

definition channel_queue_send :: "nat \<Rightarrow> zval \<Rightarrow> 'a chan_store_scheme \<Rightarrow> opid \<times> 'a chan_store_scheme" where
  "channel_queue_send ch v w =
     (let (op, w1) = async_alloc_op w;
          w2 = async_append_op (ChanSenders ch) op w1;
          w3 = w2\<lparr>send_values := (send_values w2)(op := v)\<rparr>;
          ctx = g_context w3
      in (op, if async_context_is_background ctx w3 then w3 else async_busy_enter w3))"

definition channel_send ::
  "'a chan_yield \<Rightarrow> 'a chan_wake \<Rightarrow> nat \<Rightarrow> zval \<Rightarrow> 'a chan_store_scheme \<Rightarrow>
   (outcome \<times> 'a chan_store_scheme) option" where
  "channel_send yield run ch v w =
     (if ch_error (chans w ch) \<noteq> IS_UNDEF then Some (Throw (forward_error (ch_error (chans w ch))), w)
      else if chan_closed ch w then Some (Throw (IS_ERROR ChannelClosedExceptionCe closed_message None), w)
      else case async_next_op (ChanReceivers ch) w of
        Some (op, w1) \<Rightarrow> Some (Ret IS_NULL, async_resolve_op run op v w1)
      | None \<Rightarrow>
          if ch_len (chans w ch) < ch_size (chans w ch)
          then Some (Ret IS_NULL, upd_chan ch (\<lambda>x. x\<lparr>ch_len := ch_len x + 1\<rparr>) (buffer_put ch v w))
          else
            let ctx = g_context w;
                (op, w1) = channel_queue_send ch v w
            in map_option (\<lambda>(r, w5).
                 if r = Await_bailout then (Bail, w5)
                 else
                   let w6 = (if async_context_is_background ctx w5 then w5 else async_busy_exit w5)
                   in (if r = Await_failure then Throw (forward_error (op_result (ops w5 op))) else Ret IS_NULL,
                       async_free_op op w6))
                 (async_await_op yield op w1))"

section \<open>Iterators\<close>

definition async_channel_iterator_object_create :: "nat \<Rightarrow> 'a chan_store_scheme \<Rightarrow> nat \<times> 'a chan_store_scheme" where
  "async_channel_iterator_object_create ch w =
     (let (op, w1) = async_alloc_op w;
          it = next_iterator w1;
          w2 = (upd_iterator it (\<lambda>_. \<lparr>it_flags = 0, it_state = ch, it_pos = -1, it_entry = IS_UNDEF, it_op = op\<rparr>) w1)
                 \<lparr>next_iterator := Suc it\<rparr>
      in (it, upd_chan ch (\<lambda>x. x\<lparr>ch_refcount := ch_refcount x + 1\<rparr>) w2))"

definition channel_get_iterator :: "nat \<Rightarrow> 'a chan_store_scheme \<Rightarrow> nat \<times> 'a chan_store_scheme" where
  "channel_get_iterator ch w = async_channel_iterator_object_create ch w"

definition async_channel_iterator_object_destroy ::
  "'a chan_wake \<Rightarrow> nat \<Rightarrow> 'a chan_store_scheme \<Rightarrow> 'a chan_store_scheme option" where
  "async_channel_iterator_object_destroy run it w =
     release_channel_state run (it_state (iterators w it)) (upd_iterator it (\<lambda>x. x\<lparr>it_entry := IS_UNDEF\<rparr>) w)"

definition fetch_next_entry ::
  "'a chan_yield \<Rightarrow> 'a chan_wake \<Rightarrow> nat \<Rightarrow> 'a chan_store_scheme \<Rightarrow> (outcome \<times> 'a chan_store_scheme) option" where
  "fetch_next_entry yield run it w =
     (if has_flag (it_flags (iterators w it)) ITERATOR_FLAG_FETCHING
      then Some (Throw (IS_ERROR ErrorCe
             ''Cannot advance iterator while already awaiting next channel value'' None), w)
      else
        let ch = it_state (iterators w it)
        in case fetch_noblock run ch w of
             (Some v, w1) \<Rightarrow>
               Some (Ret IS_NULL, upd_iterator it (\<lambda>x. x\<lparr>it_entry := v, it_pos := it_pos x + 1\<rparr>) w1)
           | (None, w1) \<Rightarrow>
               (let op = it_op (iterators w1 it);
                    w2 = async_append_op (ChanReceivers ch) op
                           (upd_iterator it (\<lambda>x. x\<lparr>it_flags := set_flag (it_flags x) ITERATOR_FLAG_FETCHING\<rparr>) w1);
                    ctx = g_context w2;
                    w3 = (if async_context_is_background ctx w2 then w2 else async_busy_enter w2)
                in map_option (\<lambda>(r, w4).
                     if r = Await_bailout then (Bail, w4)
                     else
                       let res = op_result (ops w4 op);
                           out = (if r = Await_failure then Throw (forward_error res) else Ret IS_NULL);
                           w5 = (if r = Await_success \<and> \<not> chan_closed ch w4
                                 then upd_iterator it (\<lambda>x. x\<lparr>it_pos := it_pos x + 1, it_entry := res\<rparr>) w4 else w4);
                           w6 = (if async_context_is_background ctx w5 then w5 else async_busy_exit w5)
                       in (out, upd_iterator it (\<lambda>x. x\<lparr>it_flags := clear_flag (it_flags x) ITERATOR_FLAG_FETCHING\<rparr>)
                                  (async_reset_op op w6)))
                     (async_await_op yield op w3)))"

definition advance_iterator ::
  "'a chan_yield \<Rightarrow> 'a chan_wake \<Rightarrow> nat \<Rightarrow> 'a chan_store_scheme \<Rightarrow> (outcome \<times> 'a chan_store_scheme) option" where
  "advance_iterator yield run it w =
     (let ch = it_state (iterators w it)
      in if it_entry (iterators w it) \<noteq> IS_UNDEF then Some (Ret IS_NULL, w)
         else if it_pos (iterators w it) < 0 \<and> channel_readable ch w then fetch_next_entry yield run it w
         else if ch_error (chans w ch) \<noteq> IS_UNDEF then Some (Throw (forward_error (ch_error (chans w ch))), w)
         else Some (Ret IS_NULL, w))"

text \<open>The methods of the iterator; an exception of the advance replaces the return value.\<close>

definition iterator_method ::
  "(nat \<Rightarrow> 'a chan_store_scheme \<Rightarrow> zval) \<Rightarrow> 'a chan_yield \<Rightarrow> 'a chan_wake \<Rightarrow> nat \<Rightarrow>
   'a chan_store_scheme \<Rightarrow> (outcome \<times> 'a chan_store_scheme) option" where
  "iterator_method value_of yield run it w =
     map_option (\<lambda>(r, w1). (case r of Ret _ \<Rightarrow> Ret (value_of it w1) | _ \<Rightarrow> r, w1)) (advance_iterator yield run it w)"

definition iterator_rewind where
  "iterator_rewind = iterator_method (\<lambda>it w. IS_NULL)"

definition iterator_valid where
  "iterator_valid = iterator_method (\<lambda>it w. IS_BOOL (it_entry (iterators w it) \<noteq> IS_UNDEF))"

definition iterator_current where
  "iterator_current = iterator_method (\<lambda>it w.
     if it_entry (iterators w it) \<noteq> IS_UNDEF then it_entry (iterators w it) else IS_NULL)"

definition iterator_key where
  "iterator_key = iterator_method (\<lambda>it w.
     if it_entry (iterators w it) \<noteq> IS_UNDEF then IS_LONG (it_pos (iterators w it)) else IS_NULL)"

definition iterator_next ::
  "'a chan_yield \<Rightarrow> 'a chan_wake \<Rightarrow> nat \<Rightarrow> 'a chan_store_scheme \<Rightarrow> (outcome \<times> 'a chan_store_scheme) option" where
  "iterator_next yield run it w =
     (let w1 = upd_iterator it (\<lambda>x. x\<lparr>it_entry := IS_UNDEF\<rparr>) w;
          ch = it_state (iterators w1 it)
      in if channel_readable ch w1 then fetch_next_entry yield run it w1
         else if ch_error (chans w1 ch) \<noteq> IS_UNDEF then Some (Throw (forward_error (ch_error (chans w1 ch))), w1)
         else Some (Ret IS_NULL, w1))"

end
