(* ===== verification/ChannelGroup.thy ===== *)
theory ChannelGroup
  imports Channel
begin

text \<open>
  Channel groups (\<open>channel.c\<close>): \<open>select\<close> receives from the first of several channels that
  has a message, \<open>send\<close> sends to the first that takes it, both with an optional timeout.

  A group has an array of entries; an entry is an operation embedded in the array slot, the
  wrapped iterator and its key. Slots are named by their index, the operation of slot \<open>i\<close> is
  \<open>g_slots g ! i\<close>. Moving an entry to another slot moves iterator and key; the copied fields
  of the operation are all set again before the operation is used.
\<close>

section \<open>State\<close>

abbreviation GROUP_FLAG_SHUFFLE :: u8 where "GROUP_FLAG_SHUFFLE \<equiv> 1"
abbreviation GROUP_FLAG_CHECK_CLOSED :: u8 where "GROUP_FLAG_CHECK_CLOSED \<equiv> 2"

record async_channel_group =
  g_flags :: u8
  g_entries :: "(nat \<times> zval) list"
  g_slots :: "opid list"
  g_select :: opid
  g_pending :: u32
  g_entry :: "nat option"
  g_timer :: "int option"

text \<open>The operation of a group \<open>send\<close>, with the operations it queues on the channels.\<close>

record async_channel_group_send_op =
  gs_flags :: u8
  gs_entry :: "nat option"
  gs_sends :: "opid list"
  gs_timer :: "int option"

record group_store = chan_store +
  groups :: "nat \<Rightarrow> async_channel_group"
  group_sends :: "opid \<Rightarrow> async_channel_group_send_op"
  send_slots :: "opid \<Rightarrow> nat \<times> nat"

type_synonym 'a group_wake = "opid \<Rightarrow> 'a group_store_scheme \<Rightarrow> 'a group_store_scheme"
type_synonym 'a group_yield = "transfer \<Rightarrow> 'a group_store_scheme \<Rightarrow> 'a group_store_scheme"

definition upd_group ::
  "nat \<Rightarrow> (async_channel_group \<Rightarrow> async_channel_group) \<Rightarrow> 'a group_store_scheme \<Rightarrow> 'a group_store_scheme" where
  "upd_group g f w = w\<lparr>groups := (groups w)(g := f (groups w g))\<rparr>"

definition upd_group_send ::
  "opid \<Rightarrow> (async_channel_group_send_op \<Rightarrow> async_channel_group_send_op) \<Rightarrow> 'a group_store_scheme \<Rightarrow> 'a group_store_scheme" where
  "upd_group_send s f w = w\<lparr>group_sends := (group_sends w)(s := f (group_sends w s))\<rparr>"

section \<open>Maintaining the entries\<close>

text \<open>
  Fisher-Yates; \<open>rand i\<close> is the random number in the range 0 to \<open>i\<close> drawn for index \<open>i\<close>.
  For an empty group the loop counter wraps around and the loop reads outside of the array
  (\<open>None\<close>).
\<close>

fun shuffle_from :: "(nat \<Rightarrow> nat) \<Rightarrow> nat \<Rightarrow> 'e list \<Rightarrow> 'e list" where
  "shuffle_from rand 0 es = es"
| "shuffle_from rand (Suc i) es =
     shuffle_from rand i (es[Suc i := es ! rand (Suc i), rand (Suc i) := es ! Suc i])"

definition shuffle_group :: "(nat \<Rightarrow> nat) \<Rightarrow> 'e list \<Rightarrow> 'e list option" where
  "shuffle_group rand es = (if es = [] then None else Some (shuffle_from rand (length es - 1) es))"

definition drop_slot :: "nat \<Rightarrow> 'e list \<Rightarrow> 'e list" where
  "drop_slot i es = take i es @ drop (Suc i) es"

text \<open>
  \<open>compact_group\<close>: \<open>closed\<close> and \<open>failed\<close> are tests on the channel of an entry. The
  selected entry is recognised by its slot.
\<close>

function compact_from ::
  "('e \<Rightarrow> bool) \<Rightarrow> ('e \<Rightarrow> bool) \<Rightarrow> nat option \<Rightarrow> nat \<Rightarrow> 'e list \<Rightarrow> 'e list" where
  "compact_from closed failed selected i es =
     (if i < length es
      then if closed (es ! i) \<and> (\<not> failed (es ! i) \<or> selected = Some i)
           then compact_from closed failed selected i (drop_slot i es)
           else compact_from closed failed selected (Suc i) es
      else es)"
  by pat_completeness auto
termination
  by (relation "measure (\<lambda>(c, f, s, i, es). length es - i)") (auto simp: drop_slot_def)

declare compact_from.simps [simp del]

definition compact_group :: "nat \<Rightarrow> nat option \<Rightarrow> 'a group_store_scheme \<Rightarrow> 'a group_store_scheme" where
  "compact_group g selected w =
     (let ch = (\<lambda>e. it_state (iterators w (fst e)))
      in upd_group g (\<lambda>x. x\<lparr>g_entries := compact_from (\<lambda>e. chan_closed (ch e) w)
           (\<lambda>e. ch_error (chans w (ch e)) \<noteq> IS_UNDEF) selected 0 (g_entries x)\<rparr>) w)"

section \<open>Constructing a group\<close>

text \<open>
  An input is a channel iterator, an object whose \<open>getIterator\<close> gives one (or an error), an
  object of another class, or no object.
\<close>

datatype group_input =
    In_iterator nat
  | In_aggregate "string + nat option"
  | In_other
  | In_scalar

definition input_iterator :: "group_input \<Rightarrow> string + nat" where
  "input_iterator i = (case i of
     In_scalar \<Rightarrow> Inl ''Select requires all inputs to be objects''
   | In_other \<Rightarrow> Inl ''Select requires all inputs to be channel iterators or provide such an iterator via IteratorAggregate''
   | In_aggregate (Inl err) \<Rightarrow> Inl err
   | In_aggregate (Inr None) \<Rightarrow> Inl ''Aggregated iterator is not a channel iterator''
   | In_aggregate (Inr (Some it)) \<Rightarrow> Inr it
   | In_iterator it \<Rightarrow> Inr it)"

fun group_inputs :: "(zval \<times> group_input) list \<Rightarrow> string option \<times> (nat \<times> zval) list" where
  "group_inputs [] = (None, [])"
| "group_inputs ((k, i) # inputs) = (case input_iterator i of
     Inl err \<Rightarrow> (Some err, [])
   | Inr it \<Rightarrow> (let (err, es) = group_inputs inputs in (err, (it, k) # es)))"

fun alloc_ops :: "nat \<Rightarrow> 'a op_store_scheme \<Rightarrow> opid list \<times> 'a op_store_scheme" where
  "alloc_ops 0 w = ([], w)"
| "alloc_ops (Suc n) w = (let (op, w1) = async_alloc_op w; (os, w2) = alloc_ops n w1 in (op # os, w2))"

definition channel_group_construct ::
  "nat \<Rightarrow> (zval \<times> group_input) list \<Rightarrow> bool \<Rightarrow> 'a group_store_scheme \<Rightarrow> string option \<times> 'a group_store_scheme" where
  "channel_group_construct g inputs shuffle w =
     (let (err, es) = group_inputs inputs;
          (slots, w1) = alloc_ops (length inputs) w;
          (sel, w2) = async_alloc_op w1
      in (err, upd_group g (\<lambda>_. \<lparr>g_flags = (if shuffle then GROUP_FLAG_SHUFFLE else 0), g_entries = es,
                 g_slots = slots, g_select = sel, g_pending = 0, g_entry = None, g_timer = None\<rparr>) w2))"

definition channel_group_count :: "nat \<Rightarrow> 'a group_store_scheme \<Rightarrow> zval" where
  "channel_group_count g w = IS_LONG (int (length (g_entries (groups w g))))"

section \<open>Select\<close>

fun slot_index :: "opid \<Rightarrow> opid list \<Rightarrow> nat" where
  "slot_index op [] = 0"
| "slot_index op (s # slots) = (if s = op then 0 else Suc (slot_index op slots))"

text \<open>The callback of the operations queued as receivers.\<close>

definition continue_select_cb :: "'a group_wake \<Rightarrow> opid \<Rightarrow> 'a group_store_scheme \<Rightarrow> 'a group_store_scheme" where
  "continue_select_cb run op w =
     (let g = op_arg (ops w op);
          slot = slot_index op (g_slots (groups w g));
          it = fst (g_entries (groups w g) ! slot);
          ch = it_state (iterators w it);
          w1 = upd_iterator it (\<lambda>x. x\<lparr>it_flags := clear_flag (it_flags x) ITERATOR_FLAG_FETCHING\<rparr>)
                 (upd_group g (\<lambda>x. x\<lparr>g_pending := g_pending x - 1\<rparr>) w);
          w2 = (if chan_closed ch w1
                then upd_group g (\<lambda>x. x\<lparr>g_flags := set_flag (g_flags x) GROUP_FLAG_CHECK_CLOSED\<rparr>) w1 else w1);
          sel = g_select (groups w2 g)
      in if op_status (ops w2 op) = ASYNC_STATUS_FAILED
         then async_fail_op run sel (op_result (ops w2 op)) (upd_group g (\<lambda>x. x\<lparr>g_entry := Some slot\<rparr>) w2)
         else if chan_closed ch w2
         then (if g_pending (groups w2 g) = 0 then async_finish_op run sel w2 else w2)
         else async_resolve_op run sel (op_result (ops w2 op)) (upd_group g (\<lambda>x. x\<lparr>g_entry := Some slot\<rparr>) w2))"

definition timeout_select :: "'a group_wake \<Rightarrow> nat \<Rightarrow> 'a group_store_scheme \<Rightarrow> 'a group_store_scheme" where
  "timeout_select run g w = async_finish_op run (g_select (groups w g)) w"

text \<open>
  The scan for a ready channel: drops closed channels, stops at one that was closed with an
  error. The result is the slot of the first ready entry, the entries left, and the error.
\<close>

fun select_scan ::
  "'a group_store_scheme \<Rightarrow> (nat \<times> zval) list \<Rightarrow> (nat \<times> zval) list \<Rightarrow> nat option \<Rightarrow>
   nat option \<times> (nat \<times> zval) list \<times> zval option" where
  "select_scan w done_es [] head = (head, done_es, None)"
| "select_scan w done_es (e # es) head =
     (let ch = it_state (iterators w (fst e))
      in if channel_readable_nonblock ch w
         then select_scan w (done_es @ [e]) es (if head = None then Some (length done_es) else head)
         else if chan_closed ch w
         then (if ch_error (chans w ch) \<noteq> IS_UNDEF then (head, done_es @ es, Some (ch_error (chans w ch)))
               else select_scan w done_es es head)
         else select_scan w (done_es @ [e]) es head)"

text \<open>Queuing the operations of the slots as receivers.\<close>

fun select_register :: "nat \<Rightarrow> (opid \<times> nat) list \<Rightarrow> 'a group_store_scheme \<Rightarrow> 'a group_store_scheme" where
  "select_register g [] w = w"
| "select_register g ((op, it) # rest) w =
     select_register g rest
       (upd_iterator it (\<lambda>x. x\<lparr>it_flags := set_flag (it_flags x) ITERATOR_FLAG_FETCHING\<rparr>)
         (async_append_op (ChanReceivers (it_state (iterators w it))) op
           (upd_op op (\<lambda>x. x\<lparr>op_status := ASYNC_STATUS_RUNNING, op_flags := 0,
              op_callback := Some Continue_select_cb, op_arg := g\<rparr>) w)))"

text \<open>\<open>ASYNC_LIST_REMOVE\<close> only unlinks, it leaves the \<open>list\<close> field.\<close>

fun select_cleanup :: "(opid \<times> nat) list \<Rightarrow> 'a group_store_scheme \<Rightarrow> 'a group_store_scheme" where
  "select_cleanup [] w = w"
| "select_cleanup ((op, it) # rest) w =
     select_cleanup rest
       (let w1 = upd_op op (\<lambda>x. x\<lparr>op_result := IS_UNDEF\<rparr>) w
        in if op_list (ops w1 op) \<noteq> None
           then upd_queue (ChanReceivers (it_state (iterators w1 it))) (remove1 op)
                  (upd_iterator it (\<lambda>x. x\<lparr>it_flags := clear_flag (it_flags x) ITERATOR_FLAG_FETCHING\<rparr>) w1)
           else w1)"

text \<open>What \<open>select\<close> gives: nothing, or the key and value of a \<open>ChannelSelect\<close> object.\<close>

datatype select_result = Sel_none | Sel_entry zval zval | Sel_throw zval | Sel_bail

definition slots_of :: "nat \<Rightarrow> 'a group_store_scheme \<Rightarrow> (opid \<times> nat) list" where
  "slots_of g w = zip (g_slots (groups w g)) (map fst (g_entries (groups w g)))"

definition select_finish ::
  "nat \<Rightarrow> int \<Rightarrow> nat \<Rightarrow> await_result \<Rightarrow> 'a group_store_scheme \<Rightarrow> select_result \<times> 'a group_store_scheme" where
  "select_finish g timeout ctx r w =
     (if r = Await_bailout then (Sel_bail, w)
      else
        let sel = g_select (groups w g);
            w1 = (if timeout > 0 then upd_group g (\<lambda>x. x\<lparr>g_timer := None\<rparr>) w else w);
            w2 = (if async_context_is_background ctx w1 then w1 else async_busy_exit w1);
            out = (if r = Await_failure then Sel_throw (forward_error (op_result (ops w sel)))
                   else case g_entry (groups w2 g) of
                     None \<Rightarrow> Sel_none
                   | Some i \<Rightarrow> Sel_entry (snd (g_entries (groups w2 g) ! i)) (op_result (ops w2 sel)));
            w3 = select_cleanup (slots_of g w2) w2;
            w4 = (if has_flag (g_flags (groups w3 g)) GROUP_FLAG_CHECK_CLOSED
                  then compact_group g (g_entry (groups w3 g))
                         (upd_group g (\<lambda>x. x\<lparr>g_flags := clear_flag (g_flags x) GROUP_FLAG_CHECK_CLOSED\<rparr>) w3)
                  else w3)
        in (out, upd_op sel (\<lambda>x. x\<lparr>op_result := IS_UNDEF\<rparr>) w4))"

text \<open>
  \<open>millis\<close> is the timeout argument. \<open>None\<close> as a result is the out-of-bounds access of the
  shuffle of an empty group, or the fatal error of a second run of the loop.
\<close>

definition channel_group_select ::
  "'a group_yield \<Rightarrow> 'a group_wake \<Rightarrow> (nat \<Rightarrow> nat) \<Rightarrow> nat \<Rightarrow> int option \<Rightarrow> 'a group_store_scheme \<Rightarrow>
   (select_result \<times> 'a group_store_scheme) option" where
  "channel_group_select yield run rand g millis w =
     (let timeout = (case millis of None \<Rightarrow> - 1 | Some t \<Rightarrow> t)
      in if (case millis of Some t \<Rightarrow> t < 0 | None \<Rightarrow> False)
         then Some (Sel_throw (IS_ERROR ErrorCe ''Timeout must not be negative'' None), w)
         else Option.bind
           (if has_flag (g_flags (groups w g)) GROUP_FLAG_SHUFFLE
            then shuffle_group rand (g_entries (groups w g)) else Some (g_entries (groups w g))) (\<lambda>es.
         let (head, es', err) = select_scan w [] es None;
             w1 = upd_group g (\<lambda>x. x\<lparr>g_entries := es'\<rparr>) w
         in case err of
              Some e \<Rightarrow> Some (Sel_throw (forward_error e), w1)
            | None \<Rightarrow>
                (let (got, w2) = (case head of
                       None \<Rightarrow> (None, w1)
                     | Some i \<Rightarrow> fetch_noblock run (it_state (iterators w1 (fst (es' ! i)))) w1)
                 in case got of
                      Some v \<Rightarrow> Some (Sel_entry (snd (es' ! the head)) v, w2)
                    | None \<Rightarrow>
                        if es' = [] \<or> timeout = 0 then Some (Sel_none, w2)
                        else
                          let sel = g_select (groups w2 g);
                              w3 = upd_op sel (\<lambda>x. x\<lparr>op_status := ASYNC_STATUS_PENDING, op_flags := 0\<rparr>)
                                     (upd_group g (\<lambda>x. x\<lparr>g_pending := of_nat (length es'), g_entry := None\<rparr>) w2);
                              w4 = select_register g (slots_of g w3) w3;
                              ctx = g_context w4;
                              w5 = (if async_context_is_background ctx w4 then w4 else async_busy_enter w4);
                              w6 = (if timeout > 0 then upd_group g (\<lambda>x. x\<lparr>g_timer := Some timeout\<rparr>) w5 else w5)
                          in map_option (\<lambda>(r, w7). select_finish g timeout ctx r w7) (async_await_op yield sel w6))))"

section \<open>Send\<close>

definition continue_send_cb :: "'a group_wake \<Rightarrow> opid \<Rightarrow> 'a group_store_scheme \<Rightarrow> 'a group_store_scheme" where
  "continue_send_cb run op w =
     (let s = op_arg (ops w op);
          (g, slot) = send_slots w op;
          ch = it_state (iterators w (fst (g_entries (groups w g) ! slot)));
          closed = chan_closed ch w;
          err = IS_ERROR ChannelClosedExceptionCe closed_message None;
          w1 = (if closed
                then upd_group_send s (\<lambda>x. x\<lparr>gs_flags := set_flag (gs_flags x) GROUP_FLAG_CHECK_CLOSED\<rparr>) w else w)
      in if op_status (ops w1 op) = ASYNC_STATUS_FAILED
         then (let w2 = upd_group_send s (\<lambda>x. x\<lparr>gs_entry := Some slot\<rparr>) w1
               in if closed then async_fail_op run s (set_previous err (op_result (ops w2 op))) w2
                  else async_fail_op run s (op_result (ops w2 op)) w2)
         else if closed then async_fail_op run s err w1
         else async_resolve_op run s (op_result (ops w1 op)) (upd_group_send s (\<lambda>x. x\<lparr>gs_entry := Some slot\<rparr>) w1))"

definition timeout_send_cb :: "'a group_wake \<Rightarrow> opid \<Rightarrow> 'a group_store_scheme \<Rightarrow> 'a group_store_scheme" where
  "timeout_send_cb run s w = async_finish_op run s w"

definition channel_writable :: "nat \<Rightarrow> 'a chan_store_scheme \<Rightarrow> bool" where
  "channel_writable ch w \<longleftrightarrow> queues w (ChanReceivers ch) \<noteq> [] \<or> ch_len (chans w ch) < ch_size (chans w ch)"

text \<open>The scan for a writable channel; a closed one is dropped and ends it with an error.\<close>

fun send_scan ::
  "'a group_store_scheme \<Rightarrow> (nat \<times> zval) list \<Rightarrow> (nat \<times> zval) list \<Rightarrow> nat option \<Rightarrow>
   nat option \<times> (nat \<times> zval) list \<times> zval option" where
  "send_scan w done_es [] head = (head, done_es, None)"
| "send_scan w done_es (e # es) head =
     (let ch = it_state (iterators w (fst e));
          head' = (if head = None \<and> channel_writable ch w then Some (length done_es) else head)
      in if chan_closed ch w
         then (head', done_es @ es, Some (if ch_error (chans w ch) \<noteq> IS_UNDEF then forward_error (ch_error (chans w ch))
                 else IS_ERROR ChannelClosedExceptionCe closed_message None))
         else send_scan w (done_es @ [e]) es head')"

fun send_register ::
  "nat \<Rightarrow> opid \<Rightarrow> zval \<Rightarrow> nat \<Rightarrow> (opid \<times> nat) list \<Rightarrow> 'a group_store_scheme \<Rightarrow> 'a group_store_scheme" where
  "send_register g s v i [] w = w"
| "send_register g s v i ((op, it) # rest) w =
     send_register g s v (Suc i) rest
       (async_append_op (ChanSenders (it_state (iterators w it))) op
         ((upd_op op (\<lambda>x. x\<lparr>op_status := ASYNC_STATUS_RUNNING, op_callback := Some Continue_send_cb, op_arg := s\<rparr>) w)
           \<lparr>send_values := (send_values w)(op := v), send_slots := (send_slots w)(op := (g, i))\<rparr>))"

fun send_cleanup :: "nat \<Rightarrow> opid list \<Rightarrow> 'a group_store_scheme \<Rightarrow> 'a group_store_scheme" where
  "send_cleanup g [] w = w"
| "send_cleanup g (op # rest) w =
     send_cleanup g rest
       (let w1 = upd_op op (\<lambda>x. x\<lparr>op_result := IS_UNDEF\<rparr>) w
        in if op_list (ops w1 op) \<noteq> None
           then upd_queue (ChanSenders (it_state (iterators w1 (fst (g_entries (groups w1 g) ! snd (send_slots w1 op))))))
                  (remove1 op) w1
           else w1)"

datatype send_result = Send_key zval | Send_none | Send_throw zval | Send_bail

definition send_finish ::
  "nat \<Rightarrow> opid \<Rightarrow> int \<Rightarrow> nat \<Rightarrow> await_result \<Rightarrow> 'a group_store_scheme \<Rightarrow> send_result \<times> 'a group_store_scheme" where
  "send_finish g s timeout ctx r w =
     (if r = Await_bailout then (Send_bail, w)
      else
        let w1 = (if async_context_is_background ctx w then w else async_busy_exit w);
            out = (if r = Await_failure then Send_throw (op_result (ops w s))
                   else case gs_entry (group_sends w1 s) of
                     None \<Rightarrow> Send_none | Some i \<Rightarrow> Send_key (snd (g_entries (groups w1 g) ! i)));
            w2 = send_cleanup g (gs_sends (group_sends w1 s)) w1;
            w3 = (if has_flag (gs_flags (group_sends w2 s)) GROUP_FLAG_CHECK_CLOSED
                  then compact_group g (gs_entry (group_sends w2 s)) w2 else w2)
        in (out, if timeout > 0 then upd_group_send s (\<lambda>x. x\<lparr>gs_timer := None\<rparr>) w3 else async_free_op s w3))"

definition channel_group_send ::
  "'a group_yield \<Rightarrow> 'a group_wake \<Rightarrow> (nat \<Rightarrow> nat) \<Rightarrow> nat \<Rightarrow> zval \<Rightarrow> int option \<Rightarrow> 'a group_store_scheme \<Rightarrow>
   (send_result \<times> 'a group_store_scheme) option" where
  "channel_group_send yield run rand g v millis w =
     (let timeout = (case millis of None \<Rightarrow> - 1 | Some t \<Rightarrow> t)
      in if (case millis of Some t \<Rightarrow> t < 0 | None \<Rightarrow> False)
         then Some (Send_throw (IS_ERROR ErrorCe ''Timeout must not be negative'' None), w)
         else Option.bind
           (if has_flag (g_flags (groups w g)) GROUP_FLAG_SHUFFLE
            then shuffle_group rand (g_entries (groups w g)) else Some (g_entries (groups w g))) (\<lambda>es.
         let (head, es', err) = send_scan w [] es None;
             w1 = upd_group g (\<lambda>x. x\<lparr>g_entries := es'\<rparr>) w
         in case err of
              Some e \<Rightarrow> Some (Send_throw e, w1)
            | None \<Rightarrow> (case head of
                Some i \<Rightarrow>
                  (let ch = it_state (iterators w1 (fst (es' ! i)))
                   in case async_next_op (ChanReceivers ch) w1 of
                        Some (op, w2) \<Rightarrow> Some (Send_key (snd (es' ! i)), async_resolve_op run op v w2)
                      | None \<Rightarrow> Some (Send_key (snd (es' ! i)),
                          upd_chan ch (\<lambda>x. x\<lparr>ch_len := ch_len x + 1\<rparr>) (buffer_put ch v w1)))
              | None \<Rightarrow>
                  if es' = [] \<or> timeout = 0 then Some (Send_none, w1)
                  else
                    let (s, w2) = async_alloc_op w1;
                        (sends, w3) = alloc_ops (length es') w2;
                        w4 = upd_group_send s (\<lambda>_. \<lparr>gs_flags = 0, gs_entry = None, gs_sends = sends, gs_timer = None\<rparr>) w3;
                        w5 = send_register g s v 0 (zip sends (map fst es')) w4;
                        ctx = g_context w5;
                        w6 = (if async_context_is_background ctx w5 then w5 else async_busy_enter w5);
                        w7 = (if timeout > 0 then upd_group_send s (\<lambda>x. x\<lparr>gs_timer := Some timeout\<rparr>) w6 else w6)
                    in map_option (\<lambda>(r, w8). send_finish g s timeout ctx r w8) (async_await_op yield s w7))))"

end
