(* ===== verification/ChannelSpec.thy ===== *)
theory ChannelSpec
  imports ChannelGroup Boot
begin

text \<open>
  What channels promise. A channel is a FIFO queue of messages: the buffered ones, then those
  of the waiting senders. Fetching takes the head, sending adds at the tail or hands the
  message to the receiver that waited longest; waiting senders imply a full buffer, waiting
  receivers an empty channel.
\<close>

section \<open>Abstraction and invariant\<close>

definition chan_buffer :: "async_channel_state \<Rightarrow> zval list" where
  "chan_buffer x = ring_view (ch_data x) (ch_rpos x) (ch_size x) (ch_len x)"

definition chan_items :: "nat \<Rightarrow> 'a chan_store_scheme \<Rightarrow> zval list" where
  "chan_items ch w = chan_buffer (chans w ch) @ map (send_values w) (queues w (ChanSenders ch))"

definition buffer_wf :: "async_channel_state \<Rightarrow> bool" where
  "buffer_wf x \<longleftrightarrow> length (ch_data x) = ch_size x \<and> ch_len x \<le> ch_size x \<and> ch_size x \<le> 0xFFFF \<and>
     (0 < ch_size x \<longrightarrow> ch_rpos x < ch_size x \<and> ch_wpos x = (ch_rpos x + ch_len x) mod ch_size x)"

definition chan_wf :: "nat \<Rightarrow> 'a chan_store_scheme \<Rightarrow> bool" where
  "chan_wf ch w \<longleftrightarrow> buffer_wf (chans w ch) \<and>
     (queues w (ChanSenders ch) \<noteq> [] \<longrightarrow> ch_len (chans w ch) = ch_size (chans w ch)) \<and>
     (queues w (ChanReceivers ch) \<noteq> [] \<longrightarrow> chan_items ch w = [])"

lemma chan_items_cong:
  assumes "chans w' ch = chans w ch" "queues w' (ChanSenders ch) = queues w (ChanSenders ch)"
    "send_values w' = send_values w"
  shows "chan_items ch w' = chan_items ch w"
  by (simp add: chan_items_def assms)

lemma chan_wf_cong:
  assumes "chans w' ch = chans w ch" "queues w' (ChanSenders ch) = queues w (ChanSenders ch)"
    "queues w' (ChanReceivers ch) = queues w (ChanReceivers ch)" "send_values w' = send_values w"
  shows "chan_wf ch w' = chan_wf ch w"
  by (simp add: chan_wf_def chan_items_cong [of w' ch w] assms)

lemma chan_wf_buffer: "chan_wf ch w \<Longrightarrow> buffer_wf (chans w ch)"
  by (simp add: chan_wf_def)

lemma chan_items_Nil: "chan_items ch w = [] \<longleftrightarrow> ch_len (chans w ch) = 0 \<and> queues w (ChanSenders ch) = []"
  by (auto simp: chan_items_def chan_buffer_def)

text \<open>Taking the oldest buffered message, and putting one behind the newest.\<close>

lemma chan_buffer_take:
  assumes "buffer_wf x" and "0 < ch_len x"
  shows "chan_buffer x = ch_data x ! ch_rpos x #
      ring_view (ch_data x) ((ch_rpos x + 1) mod ch_size x) (ch_size x) (ch_len x - 1)"
  using assms ring_view_Cons [of "ch_len x" "ch_rpos x" "ch_size x" "ch_data x"]
  by (simp add: chan_buffer_def buffer_wf_def)

lemma buffer_take:
  fixes x :: async_channel_state and v :: zval
  assumes "buffer_wf x" and "0 < ch_len x"
  defines "x' \<equiv> x\<lparr>ch_rpos := (ch_rpos x + 1) mod ch_size x, ch_len := ch_len x - 1\<rparr>"
  shows "buffer_wf x'" and "chan_buffer x = ch_data x ! ch_rpos x # chan_buffer x'"
proof -
  have n: "0 < ch_size x" using assms by (auto simp: buffer_wf_def)
  have "((ch_rpos x + 1) mod ch_size x + (ch_len x - 1)) mod ch_size x = (ch_rpos x + 1 + (ch_len x - 1)) mod ch_size x"
    by (rule mod_add_left_eq)
  also have "\<dots> = (ch_rpos x + ch_len x) mod ch_size x" using assms(2) by simp
  finally have "((ch_rpos x + 1) mod ch_size x + (ch_len x - 1)) mod ch_size x = (ch_rpos x + ch_len x) mod ch_size x" .
  with assms n show "buffer_wf x'" by (auto simp: buffer_wf_def)
  show "chan_buffer x = ch_data x ! ch_rpos x # chan_buffer x'"
    using chan_buffer_take [OF assms(1,2)] by (simp add: x'_def chan_buffer_def)
qed

lemma buffer_add:
  fixes x :: async_channel_state and v :: zval
  assumes "buffer_wf x" and "ch_len x < ch_size x"
  defines "x' \<equiv> x\<lparr>ch_data := (ch_data x)[ch_wpos x := v], ch_wpos := (ch_wpos x + 1) mod ch_size x,
                 ch_len := ch_len x + 1\<rparr>"
  shows "buffer_wf x'" and "chan_buffer x' = chan_buffer x @ [v]"
proof -
  have n: "ch_rpos x < ch_size x" and w: "ch_wpos x = (ch_rpos x + ch_len x) mod ch_size x"
    using assms by (auto simp: buffer_wf_def)
  with assms show "buffer_wf x'" by (simp add: buffer_wf_def mod_Suc_eq)
  show "chan_buffer x' = chan_buffer x @ [v]"
    using ring_view_put [of "ch_rpos x" "ch_size x" "ch_len x" "ch_data x" v] assms(1,2) n w
    by (simp add: x'_def chan_buffer_def buffer_wf_def)
qed

text \<open>Taking from a full buffer and refilling the slot from a sender.\<close>

lemma buffer_rotate:
  fixes x :: async_channel_state and v :: zval
  assumes "buffer_wf x" and "0 < ch_len x" and "ch_len x = ch_size x"
  defines "x' \<equiv> x\<lparr>ch_rpos := (ch_rpos x + 1) mod ch_size x, ch_data := (ch_data x)[ch_wpos x := v],
                 ch_wpos := (ch_wpos x + 1) mod ch_size x\<rparr>"
  shows "buffer_wf x'" and "chan_buffer x @ [v] = ch_data x ! ch_rpos x # chan_buffer x'"
proof -
  let ?y = "x\<lparr>ch_rpos := (ch_rpos x + 1) mod ch_size x, ch_len := ch_len x - 1\<rparr>"
  have y: "buffer_wf ?y" "chan_buffer x = ch_data x ! ch_rpos x # chan_buffer ?y" "ch_len ?y < ch_size ?y"
    using buffer_take [OF assms(1,2)] assms(2,3) by simp_all
  have eq: "x' = ?y\<lparr>ch_data := (ch_data ?y)[ch_wpos ?y := v], ch_wpos := (ch_wpos ?y + 1) mod ch_size ?y,
                  ch_len := ch_len ?y + 1\<rparr>"
    using assms(2,3) by (simp add: x'_def)
  show "buffer_wf x'" "chan_buffer x @ [v] = ch_data x ! ch_rpos x # chan_buffer x'"
    using buffer_add [OF y(1,3), of v] y(2) unfolding eq by simp_all
qed

text \<open>What closing stores as the reason, and what it makes of an operation that waited.\<close>

definition close_reason :: "zval \<Rightarrow> zval option \<Rightarrow> zval" where
  "close_reason old error = (if old = IS_UNDEF then (case error of Some e \<Rightarrow> e | None \<Rightarrow> IS_UNDEF) else old)"

definition closed_op :: "zval \<Rightarrow> async_op \<Rightarrow> async_op" where
  "closed_op err x = (if err = IS_UNDEF then x\<lparr>op_status := ASYNC_STATUS_RESOLVED\<rparr>
     else x\<lparr>op_result := err, op_status := ASYNC_STATUS_FAILED\<rparr>)"

text \<open>A consumer that fetches \<open>n\<close> times.\<close>

fun fetch_n :: "'a chan_wake \<Rightarrow> nat \<Rightarrow> nat \<Rightarrow> 'a chan_store_scheme \<Rightarrow> zval option list \<times> 'a chan_store_scheme" where
  "fetch_n run ch 0 w = ([], w)"
| "fetch_n run ch (Suc n) w =
     (let (r, w1) = fetch_noblock run ch w; (rs, w2) = fetch_n run ch n w1 in (r # rs, w2))"

section \<open>Channels under a resumption that leaves them alone\<close>

locale quiet_channel = quiet_resume run
  for run :: "opid \<Rightarrow> 'a chan_store_scheme \<Rightarrow> 'a chan_store_scheme" +
  assumes run_chan [simp]: "chans (run op w) = chans w"
    and run_values [simp]: "send_values (run op w) = send_values w"
    and run_iterators [simp]: "iterators (run op w) = iterators w"
begin

lemma callback_chan [simp]:
  "chans (call_callback run op w) = chans w" "send_values (call_callback run op w) = send_values w"
  "iterators (call_callback run op w) = iterators w"
  by (simp_all add: call_callback_def split: option.split)

lemma unlink_chan [simp]:
  "chans (unlink_op op w) = chans w" "send_values (unlink_op op w) = send_values w"
  "iterators (unlink_op op w) = iterators w"
  by (simp_all add: unlink_op_def upd_op_def upd_queue_def split: option.split)

lemma op_chan_sel [simp]:
  "chans (upd_op op f w) = chans w" "send_values (upd_op op f w) = send_values w"
  "iterators (upd_op op f w) = iterators w"
  by (simp_all add: upd_op_def)

lemma queue_chan_sel [simp]:
  "chans (upd_queue q f w) = chans w" "send_values (upd_queue q f w) = send_values w"
  "iterators (upd_queue q f w) = iterators w"
  by (simp_all add: upd_queue_def)

lemma settle_chan [simp]:
  "chans (async_finish_op run op w) = chans w" "send_values (async_finish_op run op w) = send_values w"
  "chans (async_resolve_op run op v w) = chans w" "send_values (async_resolve_op run op v w) = send_values w"
  "chans (async_fail_op run op v w) = chans w" "send_values (async_fail_op run op v w) = send_values w"
  by (simp_all add: async_finish_op_def async_resolve_op_def async_fail_op_def)

lemma next_op_chan:
  assumes "async_next_op q w = Some (op, w')"
  shows "chans w' = chans w" "send_values w' = send_values w" "iterators w' = iterators w"
  using assms by (cases "queues w q"; auto simp: async_next_op_def)+

text \<open>Fetching without waiting is taking the head of the queue of messages.\<close>

lemma fetch_noblock_spec:
  assumes wf: "chan_wf ch w" and f: "fetch_noblock run ch w = (r, w')"
  shows "chan_wf ch w' \<and>
    (case chan_items ch w of [] \<Rightarrow> r = None \<and> w' = w | v # vs \<Rightarrow> r = Some v \<and> chan_items ch w' = vs)"
proof (cases "queues w (ChanSenders ch)")
  case Nil
  show ?thesis
  proof (cases "ch_len (chans w ch) = 0")
    case True
    with Nil f wf show ?thesis by (simp add: fetch_noblock_def async_next_op_def chan_items_Nil [THEN iffD2])
  next
    case False
    note t = buffer_take [OF chan_wf_buffer [OF wf]] False
    have it: "chan_items ch w = chan_buffer (chans w ch)" by (simp add: chan_items_def Nil)
    have rc: "queues w (ChanReceivers ch) = []" using wf False by (auto simp: chan_wf_def chan_items_Nil)
    from f False Nil have w': "w' = upd_chan ch (\<lambda>x. x\<lparr>ch_rpos := (ch_rpos x + 1) mod ch_size x,
          ch_len := ch_len x - 1\<rparr>) w" and r: "r = Some (ch_data (chans w ch) ! ch_rpos (chans w ch))"
      by (auto simp: fetch_noblock_def async_next_op_def Let_def upd_chan_def)
    show ?thesis
      using t rc Nil by (simp add: it w' r chan_wf_def chan_items_def)
  qed
next
  case (Cons op rest)
  have len: "ch_len (chans w ch) = ch_size (chans w ch)" and rc: "queues w (ChanReceivers ch) = []"
    using wf Cons by (auto simp: chan_wf_def chan_items_Nil)
  have nx: "async_next_op (ChanSenders ch) u = Some (op, upd_op op (\<lambda>x. x\<lparr>op_list := None\<rparr>) (upd_queue (ChanSenders ch) (\<lambda>_. rest) u))"
    if "queues u = queues w" for u :: "'a chan_store_scheme"
    using Cons that by (simp add: async_next_op_Cons)
  show ?thesis
  proof (cases "ch_len (chans w ch) = 0")
    case True
    with f nx [of w] have "r = Some (send_values w op)"
      "w' = async_finish_op run op (upd_op op (\<lambda>x. x\<lparr>op_list := None\<rparr>) (upd_queue (ChanSenders ch) (\<lambda>_. rest) w))"
      by (simp_all add: fetch_noblock_def)
    with True wf rc Cons len show ?thesis
      by (simp add: chan_items_def chan_wf_def chan_buffer_def ring_view_def)
  next
    case False
    let ?x = "chans w ch"
    let ?v = "send_values w op"
    note t = buffer_rotate [OF chan_wf_buffer [OF wf] _ len, of ?v] False
    from f False nx have w': "w' = async_finish_op run op (buffer_put ch ?v (upd_op op (\<lambda>x. x\<lparr>op_list := None\<rparr>)
          (upd_queue (ChanSenders ch) (\<lambda>_. rest) (upd_chan ch (\<lambda>x. x\<lparr>ch_rpos := (ch_rpos x + 1) mod ch_size x\<rparr>) w))))"
      and r: "r = Some (ch_data ?x ! ch_rpos ?x)"
      by (auto simp: fetch_noblock_def Let_def)
    have c': "chans w' ch = ?x\<lparr>ch_rpos := (ch_rpos ?x + 1) mod ch_size ?x, ch_data := (ch_data ?x)[ch_wpos ?x := ?v],
                 ch_wpos := (ch_wpos ?x + 1) mod ch_size ?x\<rparr>"
      and q': "queues w' (ChanSenders ch) = rest" "queues w' (ChanReceivers ch) = []" "send_values w' = send_values w"
      using rc by (simp_all add: w' buffer_put_def)
    have "chan_items ch w = (chan_buffer ?x @ [?v]) @ map (send_values w) rest"
      by (simp add: chan_items_def Cons)
    also have "\<dots> = ch_data ?x ! ch_rpos ?x # chan_items ch w'"
      using t by (simp add: chan_items_def c' q')
    finally have items: "chan_items ch w = ch_data ?x ! ch_rpos ?x # chan_items ch w'" .
    have "chan_wf ch w'" using t len by (simp add: chan_wf_def c' q')
    with items r show ?thesis by simp
  qed
qed

text \<open>Sending: to the first waiting receiver, else into the buffer.\<close>

lemma channel_send_receiver:
  assumes wf: "chan_wf ch w" and open_ch: "ch_error (chans w ch) = IS_UNDEF" "\<not> chan_closed ch w"
    and rc: "queues w (ChanReceivers ch) = op # rest"
  shows "\<exists>w'. channel_send yield run ch v w = Some (Ret IS_NULL, w') \<and>
    queues w' (ChanReceivers ch) = rest \<and> op_status (ops w' op) = ASYNC_STATUS_RESOLVED \<and>
    op_result (ops w' op) = v \<and> chan_items ch w' = [] \<and> chan_wf ch w'"
proof -
  let ?w' = "async_resolve_op run op v (upd_op op (\<lambda>x. x\<lparr>op_list := None\<rparr>) (upd_queue (ChanReceivers ch) (\<lambda>_. rest) w))"
  have "channel_send yield run ch v w = Some (Ret IS_NULL, ?w')"
    using open_ch rc by (simp add: channel_send_def async_next_op_Cons)
  moreover have items: "chan_items ch w = []" using wf rc by (simp add: chan_wf_def)
  have "chan_items ch ?w' = chan_items ch w" by (rule chan_items_cong) simp_all
  moreover from this items wf have "chan_wf ch ?w'"
    by (simp add: chan_wf_def)
  ultimately show ?thesis using items by simp
qed

lemma channel_send_buffer:
  assumes wf: "chan_wf ch w" and open_ch: "ch_error (chans w ch) = IS_UNDEF" "\<not> chan_closed ch w"
    and rc: "queues w (ChanReceivers ch) = []" and space: "ch_len (chans w ch) < ch_size (chans w ch)"
  shows "\<exists>w'. channel_send yield run ch v w = Some (Ret IS_NULL, w') \<and>
    chan_items ch w' = chan_items ch w @ [v] \<and> chan_wf ch w'"
proof -
  let ?w' = "upd_chan ch (\<lambda>x. x\<lparr>ch_len := ch_len x + 1\<rparr>) (buffer_put ch v w)"
  have "channel_send yield run ch v w = Some (Ret IS_NULL, ?w')"
    using open_ch rc space by (simp add: channel_send_def async_next_op_def)
  moreover have snd: "queues w (ChanSenders ch) = []" using wf space by (auto simp: chan_wf_def)
  note b = buffer_add [OF chan_wf_buffer [OF wf] space, of v]
  have "chan_items ch ?w' = chan_items ch w @ [v]" "chan_wf ch ?w'"
    using b snd rc by (simp_all add: chan_items_def chan_wf_def buffer_put_def)
  ultimately show ?thesis by blast
qed

text \<open>A sender that has to wait stands at the end of the queue of messages.\<close>

lemma channel_queue_send_items:
  fixes v :: zval
  assumes wf: "ops_wf w" and cw: "chan_wf ch w"
    and full: "ch_size (chans w ch) \<le> ch_len (chans w ch)" and rc: "queues w (ChanReceivers ch) = []"
  defines "w' \<equiv> snd (channel_queue_send ch v w)"
  shows "chan_items ch w' = chan_items ch w @ [v]" and "chan_wf ch w'"
    and "queues w' (ChanSenders ch) = queues w (ChanSenders ch) @ [next_opid w]"
proof -
  have q: "queues w' (ChanSenders ch) = queues w (ChanSenders ch) @ [next_opid w]"
    "queues w' (ChanReceivers ch) = []" "chans w' = chans w"
    "send_values w' = (send_values w)(next_opid w := v)"
    using rc by (auto simp: w'_def channel_queue_send_def async_alloc_op_def async_append_op_def
        async_busy_enter_def upd_op_def upd_queue_def Let_def)
  then show "queues w' (ChanSenders ch) = queues w (ChanSenders ch) @ [next_opid w]" by simp
  have "map (send_values w') (queues w (ChanSenders ch)) = map (send_values w) (queues w (ChanSenders ch))"
    using ops_wf_fresh_notin [OF wf] by (auto simp: q)
  then show items: "chan_items ch w' = chan_items ch w @ [v]" by (simp add: chan_items_def q)
  have "ch_len (chans w ch) = ch_size (chans w ch)"
    using full chan_wf_buffer [OF cw] by (simp add: buffer_wf_def)
  with cw show "chan_wf ch w'" by (simp add: chan_wf_def q items)
qed

lemma unlink_op_queues_other: "op_list (ops w op) \<noteq> Some q \<Longrightarrow> queues (unlink_op op w) q = queues w q"
  by (auto simp: unlink_op_def split: option.split)

text \<open>Fetching several times.\<close>

lemma fetch_n_spec:
  assumes "chan_wf ch w" and "n \<le> length (chan_items ch w)"
  shows "fst (fetch_n run ch n w) = map Some (take n (chan_items ch w)) \<and> chan_wf ch (snd (fetch_n run ch n w)) \<and>
    chan_items ch (snd (fetch_n run ch n w)) = drop n (chan_items ch w)"
  using assms
proof (induction n arbitrary: w)
  case 0
  then show ?case by simp
next
  case (Suc n)
  then obtain v vs where it: "chan_items ch w = v # vs" by (cases "chan_items ch w") auto
  obtain r w1 where f: "fetch_noblock run ch w = (r, w1)" by (cases "fetch_noblock run ch w")
  with fetch_noblock_spec [OF Suc.prems(1) f] it have "chan_wf ch w1" "r = Some v" "chan_items ch w1 = vs" by auto
  with Suc.IH [of w1] Suc.prems(2) f it show ?case by (simp add: split_beta)
qed

text \<open>A fetch completes the operation of the first sender and no other.\<close>

lemma fetch_noblock_status:
  assumes "fetch_noblock run ch w = (r, w')"
  shows "queues w' (ChanSenders ch) = tl (queues w (ChanSenders ch))"
    and "op_status (ops w' x) = (if queues w (ChanSenders ch) \<noteq> [] \<and> x = hd (queues w (ChanSenders ch))
      then ASYNC_STATUS_RESOLVED else op_status (ops w x))"
  using assms
  by (cases "queues w (ChanSenders ch)"; cases "ch_len (chans w ch) = 0";
      auto simp: fetch_noblock_def async_next_op_def buffer_put_def Let_def)+

lemma fetch_n_status:
  "op_status (ops w x) = ASYNC_STATUS_RESOLVED \<or> x \<in> set (take n (queues w (ChanSenders ch))) \<Longrightarrow>
   op_status (ops (snd (fetch_n run ch n w)) x) = ASYNC_STATUS_RESOLVED"
proof (induction n arbitrary: w)
  case 0
  then show ?case by simp
next
  case (Suc n)
  obtain r w1 where f: "fetch_noblock run ch w = (r, w1)" by (cases "fetch_noblock run ch w")
  note s = fetch_noblock_status [OF f]
  have "op_status (ops w1 x) = ASYNC_STATUS_RESOLVED \<or> x \<in> set (take n (queues w1 (ChanSenders ch)))"
    using Suc.prems by (cases "queues w (ChanSenders ch)") (auto simp: s)
  from Suc.IH [OF this] f show ?case by (simp add: split_beta)
qed

text \<open>Draining one of the queues of a closed channel settles every waiting operation.\<close>

lemma drain_closed:
  assumes "ops_wf w"
  shows "\<exists>w'. drain_ops (settle_closed run ch) q w = Some w' \<and>
    (chans w' = chans w \<and> send_values w' = send_values w \<and> ops_wf w') \<and> queues w' = (queues w)(q := []) \<and>
    (\<forall>x. ops w' x = (if x \<in> set (queues w q) then closed_op (ch_error (chans w ch)) ((ops w x)\<lparr>op_list := None\<rparr>) else ops w x))"
proof -
  let ?P = "\<lambda>u. chans u = chans w \<and> send_values u = send_values w \<and> next_opid u = next_opid w"
  have "\<exists>w'. drain_ops (settle_closed run ch) q w = Some w' \<and> ?P w' \<and> queues w' = (queues w)(q := []) \<and>
    (\<forall>x. ops w' x = (if x \<in> set (queues w q) then closed_op (ch_error (chans w ch)) ((ops w x)\<lparr>op_list := None\<rparr>) else ops w x))"
    by (rule drain_ops_quiet [OF assms])
      (auto simp: settle_closed_def closed_op_def async_finish_op_def async_fail_op_def)
  then obtain w' where w': "drain_ops (settle_closed run ch) q w = Some w'" "?P w'" "queues w' = (queues w)(q := [])"
    "\<forall>x. ops w' x = (if x \<in> set (queues w q) then closed_op (ch_error (chans w ch)) ((ops w x)\<lparr>op_list := None\<rparr>) else ops w x)"
    by blast
  have "ops_wf w'"
    using assms w' by (auto simp: ops_wf_def closed_op_def)
  with w' show ?thesis by blast
qed

lemma dispose_channel_spec:
  assumes wf: "ops_wf w" and err: "err = close_reason (ch_error (chans w ch)) error"
  shows "\<exists>w'. dispose_channel_state run ch error w = Some w' \<and> chan_closed ch w' \<and> channel_is_closed ch w' \<and>
    ch_error (chans w' ch) = err \<and> chan_buffer (chans w' ch) = chan_buffer (chans w ch) \<and>
    buffer_wf (chans w' ch) = buffer_wf (chans w ch) \<and>
    queues w' (ChanReceivers ch) = [] \<and> queues w' (ChanSenders ch) = [] \<and>
    (\<forall>x\<in>set (queues w (ChanReceivers ch)) \<union> set (queues w (ChanSenders ch)).
        ops w' x = closed_op err ((ops w x)\<lparr>op_list := None\<rparr>))"
proof -
  let ?w1 = "upd_chan ch (\<lambda>x. x\<lparr>ch_cancel := False, ch_flags := set_flag (ch_flags x) CHANNEL_FLAG_CLOSED, ch_error := err\<rparr>) w"
  have w1: "(case error of Some e \<Rightarrow> if ch_error (chans (upd_chan ch (\<lambda>x. x\<lparr>ch_cancel := False, ch_flags := set_flag (ch_flags x) CHANNEL_FLAG_CLOSED\<rparr>) w) ch) = IS_UNDEF
        then upd_chan ch (\<lambda>x. x\<lparr>ch_error := e\<rparr>) (upd_chan ch (\<lambda>x. x\<lparr>ch_cancel := False, ch_flags := set_flag (ch_flags x) CHANNEL_FLAG_CLOSED\<rparr>) w)
        else upd_chan ch (\<lambda>x. x\<lparr>ch_cancel := False, ch_flags := set_flag (ch_flags x) CHANNEL_FLAG_CLOSED\<rparr>) w
      | None \<Rightarrow> upd_chan ch (\<lambda>x. x\<lparr>ch_cancel := False, ch_flags := set_flag (ch_flags x) CHANNEL_FLAG_CLOSED\<rparr>) w) = ?w1"
    by (cases error; cases "chans w ch") (auto simp: err close_reason_def upd_chan_def)
  have "ops_wf ?w1" using wf by (subst ops_wf_cong [where w = w]) simp_all
  from drain_closed [OF this, of ch "ChanReceivers ch"] obtain w2 where w2:
    "drain_ops (settle_closed run ch) (ChanReceivers ch) ?w1 = Some w2" "chans w2 = chans ?w1" "ops_wf w2"
    "queues w2 = (queues w)(ChanReceivers ch := [])"
    "\<forall>x. ops w2 x = (if x \<in> set (queues w (ChanReceivers ch)) then closed_op err ((ops w x)\<lparr>op_list := None\<rparr>) else ops w x)"
    by auto
  from drain_closed [OF w2(3), of ch "ChanSenders ch"] obtain w3 where w3:
    "drain_ops (settle_closed run ch) (ChanSenders ch) w2 = Some w3" "chans w3 = chans w2"
    "queues w3 = (queues w2)(ChanSenders ch := [])"
    "\<forall>x. ops w3 x = (if x \<in> set (queues w (ChanSenders ch)) then closed_op err ((ops w2 x)\<lparr>op_list := None\<rparr>) else ops w2 x)"
    by (auto simp: w2)
  have one: "x \<notin> set (queues w (ChanReceivers ch))" if "x \<in> set (queues w (ChanSenders ch))" for x
    using ops_wf_one_queue [OF wf that] by blast
  have "dispose_channel_state run ch error w = Some w3"
    by (simp add: dispose_channel_state_def w1 w2(1) w3(1) del: upd_chan_sel)
  moreover have "ops w3 x = closed_op err ((ops w x)\<lparr>op_list := None\<rparr>)"
    if "x \<in> set (queues w (ChanReceivers ch)) \<union> set (queues w (ChanSenders ch))" for x
    using that one [of x] by (auto simp: w2(5) w3(4))
  ultimately show ?thesis
    by (auto simp: w3 w2 chan_closed_def channel_is_closed_def chan_buffer_def buffer_wf_def)
qed

end

section \<open>The scheduler's resumption\<close>

lemma chan_store_more_eq:
  assumes "task_store.more w' = task_store.more (w :: 'a chan_store_scheme)"
  shows "chans w' = chans w" "iterators w' = iterators w" "send_values w' = send_values w"
    "chan_store.more w' = chan_store.more w"
  using assms by (cases w; cases w'; simp)+

interpretation chan_waking: quiet_channel wake
  by unfold_locales (simp_all add: chan_store_more_eq [OF wake_sel(8)])

lemma settle_wake_iterators [simp]:
  "iterators (async_finish_op wake op w) = iterators w" "iterators (async_resolve_op wake op v w) = iterators w"
  "iterators (async_fail_op wake op v w) = iterators w"
  by (simp_all add: chan_store_more_eq(2) [OF settle_wake_sel(10)] chan_store_more_eq(2) [OF settle_wake_sel(11)]
      chan_store_more_eq(2) [OF settle_wake_sel(12)])

lemma fetch_noblock_flags: "s_flags (snd (fetch_noblock wake ch w)) = s_flags w"
  by (simp add: fetch_noblock_def async_next_op_def buffer_put_def upd_chan_def Let_def split: option.split)

lemma fetch_n_flags: "s_flags (snd (fetch_n wake ch n w)) = s_flags w"
proof (induction n arbitrary: w)
  case (Suc n)
  then show ?case using fetch_noblock_flags [of ch w] by (simp add: split_beta)
qed simp

section \<open>A sender that waits\<close>

text \<open>The state in which the sender is suspended.\<close>

definition send_suspended :: "nat \<Rightarrow> nat \<Rightarrow> zval \<Rightarrow> 'a chan_store_scheme \<Rightarrow> 'a chan_store_scheme" where
  "send_suspended t ch v w =
     (let (op, w1) = channel_queue_send ch v w
      in upd_task t (\<lambda>x. x\<lparr>t_status := TASK_SUSPENDED\<rparr>)
           (await_register (await_cancellation op w1) Cancel_op Continue_op_task t op
              (upd_op op (\<lambda>x. x\<lparr>op_result := IS_NULL\<rparr>) w1)))"

lemma queue_send_sel [simp]:
  "g_task (snd (channel_queue_send ch v w)) = g_task w" "contexts (snd (channel_queue_send ch v w)) = contexts w"
  "g_context (snd (channel_queue_send ch v w)) = g_context w" "cancels (snd (channel_queue_send ch v w)) = cancels w"
  "tasks (snd (channel_queue_send ch v w)) = tasks w" "s_flags (snd (channel_queue_send ch v w)) = s_flags w"
  "chans (snd (channel_queue_send ch v w)) = chans w"
  "send_values (snd (channel_queue_send ch v w)) = (send_values w)(next_opid w := v)"
  "fst (channel_queue_send ch v w) = next_opid w"
  "op_flags (ops (snd (channel_queue_send ch v w)) (next_opid w)) = 0"
  "iterators (snd (channel_queue_send ch v w)) = iterators w"
  by (simp_all add: channel_queue_send_def async_alloc_op_def async_append_op_def zero_op_def Let_def)

lemma channel_send_waits:
  fixes w :: "'a chan_store_scheme" and v :: zval
  assumes open_ch: "ch_error (chans w ch) = IS_UNDEF" "\<not> chan_closed ch w"
    and full: "ch_size (chans w ch) \<le> ch_len (chans w ch)" and rc: "queues w (ChanReceivers ch) = []"
    and task: "g_task w = Some t" "first_error (await_checks_task t w) = None"
    and canc: "\<And>c. x_cancel (contexts w (g_context w)) = Some c \<Longrightarrow> \<not> triggered (cancels w c)"
    and ok: "\<not> sched_flag SCHED_ERROR (yield Suspend (send_suspended t ch v w))"
  defines "u \<equiv> yield Suspend (send_suspended t ch v w)" and "op \<equiv> next_opid w"
  shows "\<exists>w'. channel_send yield run ch v w =
    Some (if op_status (ops u op) = ASYNC_STATUS_RESOLVED then Ret IS_NULL
          else Throw (forward_error (op_result (ops u op))), w')"
proof -
  obtain w1 where q: "channel_queue_send ch v w = (op, w1)"
    by (simp add: channel_queue_send_def async_alloc_op_def op_def Let_def)
  have w1: "w1 = snd (channel_queue_send ch v w)" by (simp add: q)
  have s: "g_task w1 = Some t" "await_checks_task t w1 = await_checks_task t w" "contexts w1 = contexts w"
    "g_context w1 = g_context w" "cancels w1 = cancels w" "op_flags (ops w1 op) = 0"
    unfolding w1 op_def using task(1) by (simp_all add: await_checks_task_def sched_flag_def)
  have "async_await_op yield op w1 = Some (await_finish (await_cancellation op w1) op u)"
    unfolding u_def send_suspended_def q
    using async_await_op_task [where w = w1 and op = op and t = t and yield = yield] s task canc
    by (simp add: await_cancellation_def)
  moreover obtain u' where "await_finish (await_cancellation op w1) op u =
      (if op_status (ops u op) = ASYNC_STATUS_RESOLVED then Await_success else Await_failure, u')"
    "op_result (ops u' op) = op_result (ops u op)"
    using await_finish_status [of u] ok unfolding u_def by blast
  ultimately show ?thesis
    using open_ch full rc by (simp add: channel_send_def async_next_op_def q Let_def)
qed

lemma send_suspended_sel [simp]:
  "queues (send_suspended t ch v w) = queues (snd (channel_queue_send ch v w))"
  "chans (send_suspended t ch v w) = chans w"
  "send_values (send_suspended t ch v w) = (send_values w)(next_opid w := v)"
  "s_flags (send_suspended t ch v w) = s_flags w" "iterators (send_suspended t ch v w) = iterators w"
proof -
  obtain w1 where q: "channel_queue_send ch v w = (next_opid w, w1)"
    by (metis queue_send_sel(9) prod.collapse)
  have l: "op_list (ops w1 (next_opid w)) \<noteq> None"
    using q by (auto simp: channel_queue_send_def async_alloc_op_def async_append_op_def Let_def)
  let ?u = "send_suspended t ch v w"
  have "task_store.more ?u = task_store.more w1"
    by (simp add: send_suspended_def q)
  then have m: "chans ?u = chans w1" "send_values ?u = send_values w1" "iterators ?u = iterators w1"
    by (rule chan_store_more_eq)+
  have e: "s_flags w1 = s_flags w" "chans w1 = chans w" "send_values w1 = (send_values w)(next_opid w := v)"
    "iterators w1 = iterators w"
    using queue_send_sel(6-8) [of ch v w] queue_send_sel(11) [of ch v w] by (simp_all only: q snd_conv)
  show "queues ?u = queues (snd (channel_queue_send ch v w))" "s_flags ?u = s_flags w"
    using l e(1) by (simp_all add: send_suspended_def q)
  show "chans ?u = chans w" "send_values ?u = (send_values w)(next_opid w := v)" "iterators ?u = iterators w"
    by (simp_all add: m e)
qed

lemma ops_wf_queue_send:
  assumes "ops_wf w" shows "ops_wf (snd (channel_queue_send ch v w))"
proof -
  obtain op w1 where a: "async_alloc_op w = (op, w1)" by (cases "async_alloc_op w")
  then have op: "op = next_opid w" "op_list (ops w1 op) = None" "op < next_opid w1"
    by (auto simp: async_alloc_op_def)
  have "ops_wf w1" using ops_wf_alloc [OF assms] by (simp add: a)
  then have "ops_wf (async_append_op (ChanSenders ch) op w1)" using op by (intro ops_wf_append)
  then show ?thesis
    by (subst ops_wf_cong [where w = "async_append_op (ChanSenders ch) op w1"])
      (simp_all add: channel_queue_send_def a Let_def)
qed

lemma ops_wf_send_suspended:
  assumes "ops_wf w" shows "ops_wf (send_suspended t ch v w)"
proof -
  obtain w1 where q: "channel_queue_send ch v w = (next_opid w, w1)"
    by (metis queue_send_sel(9) prod.collapse)
  have w1: "ops_wf w1" "next_opid w < next_opid w1"
    using ops_wf_queue_send [OF assms, of ch v] q
    by (auto simp: channel_queue_send_def async_alloc_op_def async_append_op_def Let_def)
  let ?w2 = "upd_op (next_opid w) (\<lambda>x. x\<lparr>op_result := IS_NULL\<rparr>) w1"
  have "ops_wf (await_register (await_cancellation (next_opid w) w1) Cancel_op Continue_op_task t (next_opid w) ?w2)"
    using w1 by (intro ops_wf_register ops_wf_upd_op) simp_all
  then show ?thesis
    by (subst ops_wf_cong [where w = "await_register (await_cancellation (next_opid w) w1) Cancel_op Continue_op_task t (next_opid w) ?w2"])
      (simp_all add: send_suspended_def q)
qed

end
