(* ===== verification/ChannelProps.thy ===== *)
theory ChannelProps
  imports ChannelSpec
begin

text \<open>
  Properties of channels: messages are delivered in the order they were sent, a sender that has
  to wait returns when its message was taken, closing settles everything that waits, and what an
  iterator delivers.
\<close>

section \<open>A channel to start from\<close>

text \<open>
  A new channel with \<open>n\<close> buffer slots and one iterator, used from within a running task whose
  fiber is the current one.
\<close>

definition no_channels :: chan_store where
  "no_channels = boot (chan_store.fields
     (\<lambda>_. \<lparr>ch_refcount = 0, ch_flags = 0, ch_error = IS_UNDEF, ch_cancel = False, ch_size = 0, ch_len = 0,
        ch_rpos = 0, ch_wpos = 0, ch_data = [], ch_freed = False\<rparr>) 0
     (\<lambda>_. \<lparr>it_flags = 0, it_state = 0, it_pos = 0, it_entry = IS_UNDEF, it_op = 0\<rparr>) 0 (\<lambda>_. IS_UNDEF))"

definition in_task :: "'a task_store_scheme \<Rightarrow> 'a task_store_scheme" where
  "in_task w = w\<lparr>g_task := Some 0, tasks := (tasks w)(0 := zero_task\<lparr>t_status := TASK_RUNNING, t_fiber := Some 1\<rparr>)\<rparr>"

definition new_channel :: "nat \<Rightarrow> chan_store" where
  "new_channel n = in_task (snd (channel_get_iterator 0
     (snd (channel_construct (\<lambda>_. []) 0 (int n) (snd (create_channel_state no_channels))))))"

lemma in_task_sel [simp]:
  "ops (in_task w) = ops w" "queues (in_task w) = queues w" "next_opid (in_task w) = next_opid w"
  "task_store.more (in_task w) = task_store.more w" "g_task (in_task w) = Some 0" "s_flags (in_task w) = s_flags w"
  "tasks (in_task w) 0 = zero_task\<lparr>t_status := TASK_RUNNING, t_fiber := Some 1\<rparr>"
  "contexts (in_task w) = contexts w" "cancels (in_task w) = cancels w" "g_context (in_task w) = g_context w"
  by (simp_all add: in_task_def)

lemma in_task_chan [simp]:
  "chans (in_task w) = chans w" "iterators (in_task w) = iterators w" "send_values (in_task w) = send_values w"
  by (simp_all add: in_task_def)

lemma no_channels_sel [simp]:
  "next_chan no_channels = 0" "next_iterator no_channels = 0" "send_values no_channels = (\<lambda>_. IS_UNDEF)"
  "ops no_channels = (\<lambda>_. zero_op)" "queues no_channels = (\<lambda>_. [])" "next_opid no_channels = 0"
  "contexts no_channels = contexts (boot ())" "g_context no_channels = 0" "s_flags no_channels = 0"
  by (simp_all add: no_channels_def chan_store.fields_def)
     (simp_all add: boot_defs Let_def)

lemmas new_channel_defs = new_channel_def channel_get_iterator_def async_channel_iterator_object_create_def
  channel_construct_def create_channel_state_def async_alloc_op_def

lemma new_channel_sel [simp]:
  "n \<le> 0xFFFF \<Longrightarrow> chans (new_channel n) 0 = \<lparr>ch_refcount = 2, ch_flags = 0, ch_error = IS_UNDEF, ch_cancel = True,
     ch_size = n, ch_len = 0, ch_rpos = 0, ch_wpos = 0, ch_data = replicate n IS_UNDEF, ch_freed = False\<rparr>"
  "n \<le> 0xFFFF \<Longrightarrow> iterators (new_channel n) 0 = \<lparr>it_flags = 0, it_state = 0, it_pos = -1, it_entry = IS_UNDEF, it_op = 0\<rparr>"
  "queues (new_channel n) q = []" "next_opid (new_channel n) = 1" "g_task (new_channel n) = Some 0"
  "tasks (new_channel n) 0 = zero_task\<lparr>t_status := TASK_RUNNING, t_fiber := Some 1\<rparr>" "s_flags (new_channel n) = 0"
  "contexts (new_channel n) = contexts (boot ())" "g_context (new_channel n) = 0" "ops (new_channel n) op = zero_op"
  "send_values (new_channel n) = (\<lambda>_. IS_UNDEF)"
  by (simp_all add: new_channel_defs upd_chan_def upd_iterator_def Let_def split_beta)

lemma new_channel_wf: "n \<le> 0xFFFF \<Longrightarrow> chan_wf 0 (new_channel n) \<and> ops_wf (new_channel n) \<and> chan_items 0 (new_channel n) = []"
  by (simp add: chan_wf_def buffer_wf_def chan_items_def chan_buffer_def ops_wf_def)

text \<open>A channel of two slots that holds two messages.\<close>

definition full_channel :: chan_store where
  "full_channel = upd_chan 0 (\<lambda>x. x\<lparr>ch_len := 2, ch_data := [IS_LONG 1, IS_LONG 2]\<rparr>) (new_channel 2)"

lemma full_channel_sel [simp]:
  "chans full_channel 0 = \<lparr>ch_refcount = 2, ch_flags = 0, ch_error = IS_UNDEF, ch_cancel = True,
     ch_size = 2, ch_len = 2, ch_rpos = 0, ch_wpos = 0, ch_data = [IS_LONG 1, IS_LONG 2], ch_freed = False\<rparr>"
  "queues full_channel q = []" "next_opid full_channel = 1" "g_task full_channel = Some 0"
  "tasks full_channel 0 = zero_task\<lparr>t_status := TASK_RUNNING, t_fiber := Some 1\<rparr>" "s_flags full_channel = 0"
  "contexts full_channel = contexts (boot ())" "g_context full_channel = 0" "ops full_channel op = zero_op"
  "iterators full_channel 0 = \<lparr>it_flags = 0, it_state = 0, it_pos = -1, it_entry = IS_UNDEF, it_op = 0\<rparr>"
  by (simp_all add: full_channel_def) (simp_all add: full_channel_def upd_chan_def)

lemma full_channel_wf:
  "chan_wf 0 full_channel" "ops_wf full_channel" "chan_items 0 full_channel = [IS_LONG 1, IS_LONG 2]"
  by (simp_all add: chan_wf_def buffer_wf_def chan_items_def chan_buffer_def ops_wf_def ring_view_def
      upt_rec numeral_2_eq_2)

section \<open>Sending and fetching\<close>

text \<open>
  C4. Messages leave a channel in the order in which they entered it: fetching \<open>n\<close> times takes
  the \<open>n\<close> oldest messages, first the buffered ones and then those of waiting senders, whose
  messages move into the buffer as slots become free, and leaves the others in their order.
\<close>

theorem channel_fetch_order:
  assumes "chan_wf ch w" and "n \<le> length (chan_items ch w)"
  shows "fst (fetch_n wake ch n w) = map Some (take n (chan_items ch w)) \<and>
    chan_wf ch (snd (fetch_n wake ch n w)) \<and> chan_items ch (snd (fetch_n wake ch n w)) = drop n (chan_items ch w)"
  using assms by (rule chan_waking.fetch_n_spec)

theorem channel_fetch_order_witness:
  "fst (fetch_n wake 0 2 full_channel) = [Some (IS_LONG 1), Some (IS_LONG 2)] \<and>
   chan_items 0 (snd (fetch_n wake 0 2 full_channel)) = []"
  using channel_fetch_order [of 0 full_channel 2] by (simp add: full_channel_wf)

text \<open>
  C14. Sending on an open channel that does not have to wait: if receivers wait, the one that
  waited longest gets the message and is completed, the channel stays empty and the other
  receivers keep their order; if none waits and the buffer has room, the message becomes the last
  message of the channel. Either way the call returns at once and the channel stays consistent.
\<close>

theorem channel_send_delivers:
  assumes "chan_wf ch w" and "ch_error (chans w ch) = IS_UNDEF" and "\<not> chan_closed ch w"
    and "queues w (ChanReceivers ch) \<noteq> [] \<or> ch_len (chans w ch) < ch_size (chans w ch)"
  shows "\<exists>w'. channel_send yield wake ch v w = Some (Ret IS_NULL, w') \<and> chan_wf ch w' \<and>
    (case queues w (ChanReceivers ch) of
       op # rest \<Rightarrow> op_status (ops w' op) = ASYNC_STATUS_RESOLVED \<and> op_result (ops w' op) = v \<and>
         queues w' (ChanReceivers ch) = rest \<and> chan_items ch w' = []
     | [] \<Rightarrow> chan_items ch w' = chan_items ch w @ [v])"
  using assms chan_waking.channel_send_receiver [OF assms(1-3)] chan_waking.channel_send_buffer [OF assms(1-3)]
  by (cases "queues w (ChanReceivers ch)") fastforce+

theorem channel_send_delivers_witness:
  "\<exists>w'. channel_send bounce wake 0 (IS_LONG 7) (new_channel 1) = Some (Ret IS_NULL, w') \<and> chan_items 0 w' = [IS_LONG 7]"
  using channel_send_delivers [of 0 "new_channel 1" bounce "IS_LONG 7"] new_channel_wf [of 1]
  by (auto simp: chan_closed_def)

section \<open>Senders that wait\<close>

text \<open>The condition under which \<open>send\<close> suspends the task \<open>t\<close>.\<close>

definition send_blocks :: "nat \<Rightarrow> nat \<Rightarrow> 'a chan_store_scheme \<Rightarrow> bool" where
  "send_blocks t ch w \<longleftrightarrow> chan_wf ch w \<and> ops_wf w \<and> ch_error (chans w ch) = IS_UNDEF \<and> \<not> chan_closed ch w \<and>
     ch_size (chans w ch) \<le> ch_len (chans w ch) \<and> queues w (ChanReceivers ch) = [] \<and>
     g_task w = Some t \<and> first_error (await_checks_task t w) = None \<and>
     (\<forall>c. x_cancel (contexts w (g_context w)) = Some c \<longrightarrow> \<not> triggered (cancels w c))"

lemma send_blocks_no_error: "send_blocks t ch w \<Longrightarrow> \<not> sched_flag SCHED_ERROR w"
  by (auto simp: send_blocks_def await_checks_task_def split: if_splits)

lemma send_blocks_waits:
  assumes "send_blocks t ch w" and "s_flags (yield Suspend (send_suspended t ch v w)) = s_flags w"
  shows "\<exists>w'. channel_send yield run ch v w =
    Some (if op_status (ops (yield Suspend (send_suspended t ch v w)) (next_opid w)) = ASYNC_STATUS_RESOLVED then Ret IS_NULL
          else Throw (forward_error (op_result (ops (yield Suspend (send_suspended t ch v w)) (next_opid w)))), w')"
  by (rule channel_send_waits)
    (use assms send_blocks_no_error [OF assms(1)] in \<open>auto simp: send_blocks_def sched_flag_def\<close>)

lemma send_suspended_state:
  fixes v :: zval
  assumes "send_blocks t ch w"
  defines "u \<equiv> send_suspended t ch v w"
  shows "chan_wf ch u" and "chan_items ch u = chan_items ch w @ [v]"
    and "queues u (ChanSenders ch) = queues w (ChanSenders ch) @ [next_opid w]" and "queues u (ChanReceivers ch) = []"
    and "chans u = chans w" and "s_flags u = s_flags w"
proof -
  let ?w1 = "snd (channel_queue_send ch v w)"
  note q = chan_waking.channel_queue_send_items [of w ch v]
  have b: "chan_items ch ?w1 = chan_items ch w @ [v]" "chan_wf ch ?w1"
    "queues ?w1 (ChanSenders ch) = queues w (ChanSenders ch) @ [next_opid w]"
    using q assms(1) by (simp_all add: send_blocks_def)
  have c: "chan_items ch u = chan_items ch ?w1" "chan_wf ch u = chan_wf ch ?w1"
    by (rule chan_items_cong chan_wf_cong; simp add: u_def)+
  show "chan_wf ch u" "chan_items ch u = chan_items ch w @ [v]" using b c by simp_all
  show "queues u (ChanSenders ch) = queues w (ChanSenders ch) @ [next_opid w]" using b(3) by (simp add: u_def)
  show "queues u (ChanReceivers ch) = []" using \<open>chan_wf ch u\<close> b c by (auto simp: chan_wf_def)
  show "chans u = chans w" "s_flags u = s_flags w" by (simp_all add: u_def)
qed

text \<open>
  A sender that has to wait is released by the consumer: when, while the task is suspended,
  a consumer fetches everything in the channel, it gets the older messages and last the message of
  the waiting sender, and then \<open>send\<close> returns normally.
\<close>

theorem channel_send_rendezvous:
  assumes "send_blocks t ch w" and "n = length (chan_items ch w)"
    and "yield Suspend (send_suspended t ch v w) = snd (fetch_n wake ch (Suc n) (send_suspended t ch v w))"
  shows "fst (fetch_n wake ch (Suc n) (send_suspended t ch v w)) = map Some (chan_items ch w @ [v]) \<and>
    (\<exists>w'. channel_send yield wake ch v w = Some (Ret IS_NULL, w'))"
proof -
  let ?u = "send_suspended t ch v w"
  note s = send_suspended_state [OF assms(1), of v]
  have f: "fst (fetch_n wake ch (Suc n) ?u) = map Some (take (Suc n) (chan_items ch ?u))"
    using chan_waking.fetch_n_spec [OF s(1), of "Suc n"] by (simp add: s(2) assms(2) del: fetch_n.simps)
  have "length (queues w (ChanSenders ch)) \<le> n" by (simp add: assms(2) chan_items_def)
  then have r: "op_status (ops (snd (fetch_n wake ch (Suc n) ?u)) (next_opid w)) = ASYNC_STATUS_RESOLVED"
    by (intro chan_waking.fetch_n_status) (simp add: s(3) del: send_suspended_sel)
  have "s_flags (yield Suspend ?u) = s_flags w" by (simp only: assms(3) fetch_n_flags s(6))
  from send_blocks_waits [where yield = yield and run = wake and v = v, OF assms(1) this] r
  have "\<exists>w'. channel_send yield wake ch v w = Some (Ret IS_NULL, w')"
    by (simp add: assms(3) del: fetch_n.simps)
  with f show ?thesis by (simp add: s(2) assms(2) del: fetch_n.simps)
qed

lemma full_channel_blocks: "send_blocks 0 0 full_channel"
  by (simp add: send_blocks_def full_channel_wf chan_closed_def await_checks_task_def sched_flag_def)

theorem channel_send_rendezvous_witness:
  "fst (fetch_n wake 0 3 (send_suspended 0 0 (IS_LONG 3) full_channel)) =
     [Some (IS_LONG 1), Some (IS_LONG 2), Some (IS_LONG 3)] \<and>
   (\<exists>w'. channel_send (\<lambda>_ u. snd (fetch_n wake 0 3 u)) wake 0 (IS_LONG 3) full_channel = Some (Ret IS_NULL, w'))"
  using channel_send_rendezvous [OF full_channel_blocks, of 2 "\<lambda>_ u. snd (fetch_n wake 0 3 u)" "IS_LONG 3"]
  by (simp add: full_channel_wf numeral_3_eq_3 del: fetch_n.simps)

section \<open>Closing\<close>

text \<open>The error \<open>close\<close> stores for its argument; \<open>IS_UNDEF\<close> is no error.\<close>

definition close_error :: "zval option \<Rightarrow> zval" where
  "close_error val = (case val of Some v \<Rightarrow> if v = IS_NULL then IS_UNDEF else v | None \<Rightarrow> IS_UNDEF)"

lemma dispose_channel_flags:
  assumes "dispose_channel_state wake ch e w = Some w'"
  shows "s_flags w' = s_flags w"
proof -
  have d: "s_flags u' = s_flags u" if "drain_ops (settle_closed wake ch) q u = Some u'" for q and u u' :: "'a chan_store_scheme"
  proof -
    have "s_flags (settle_closed wake ch op x') = s_flags u"
      if "s_flags x = s_flags u" "async_next_op q x = Some (op, x')" for x x' :: "'a chan_store_scheme" and op
      using that by (auto simp: settle_closed_def async_next_op_def split: option.splits)
    then show ?thesis using drain_ops_rule [OF that, of "\<lambda>x. s_flags x = s_flags u"] by blast
  qed
  from assms show ?thesis
    by (auto simp: dispose_channel_state_def Let_def bind_eq_Some_conv upd_chan_def dest!: d split: option.splits if_splits)
qed

lemma channel_close_facts:
  assumes "ops_wf w" and "buffer_wf (chans w ch)" and "ch_cancel (chans w ch)" and "ch_error (chans w ch) = IS_UNDEF"
    and "err = close_error val"
  shows "\<exists>w'. channel_close wake ch val w = Some w' \<and> chan_closed ch w' \<and> channel_is_closed ch w' \<and>
    ch_error (chans w' ch) = err \<and> queues w' (ChanReceivers ch) = [] \<and> queues w' (ChanSenders ch) = [] \<and>
    (\<forall>x\<in>set (queues w (ChanReceivers ch)) \<union> set (queues w (ChanSenders ch)).
        ops w' x = closed_op err ((ops w x)\<lparr>op_list := None\<rparr>)) \<and>
    chan_wf ch w' \<and> chan_items ch w' = chan_buffer (chans w ch) \<and> s_flags w' = s_flags w"
proof -
  let ?e = "case val of None \<Rightarrow> None | Some v \<Rightarrow> if v = IS_NULL then None else Some v"
  let ?u = "unlink_cancel ch w"
  have u: "ops ?u = ops w" "queues ?u = queues w" "chans ?u = chans w" "next_opid ?u = next_opid w"
    by (simp_all add: unlink_cancel_def)
  have wf: "ops_wf ?u" using assms(1) by (subst ops_wf_cong [where w = w]) (simp_all add: u)
  have e: "err = close_reason (ch_error (chans ?u ch)) ?e"
    by (auto simp: u assms(4,5) close_error_def close_reason_def split: option.split)
  from chan_waking.dispose_channel_spec [OF wf e] obtain w' where w':
    "dispose_channel_state wake ch ?e ?u = Some w'" "chan_closed ch w'" "channel_is_closed ch w'"
    "ch_error (chans w' ch) = err" "chan_buffer (chans w' ch) = chan_buffer (chans w ch)"
    "buffer_wf (chans w' ch) = buffer_wf (chans w ch)"
    "queues w' (ChanReceivers ch) = []" "queues w' (ChanSenders ch) = []"
    "\<forall>x\<in>set (queues w (ChanReceivers ch)) \<union> set (queues w (ChanSenders ch)).
        ops w' x = closed_op err ((ops w x)\<lparr>op_list := None\<rparr>)"
    unfolding u by blast
  have "chan_wf ch w'" using assms(2) by (simp add: chan_wf_def w')
  have i: "chan_items ch w' = chan_buffer (chans w ch)" by (simp add: chan_items_def w')
  have "s_flags w' = s_flags w" using dispose_channel_flags [OF w'(1)] by (simp add: unlink_cancel_def)
  moreover have "channel_close wake ch val w = Some w'" using w'(1) assms(3) by (simp add: channel_close_def)
  ultimately show ?thesis using w' \<open>chan_wf ch w'\<close> i by blast
qed



text \<open>
  Closing a channel without an error releases the senders that wait as if their message had
  been delivered: \<open>send\<close> returns normally although the message is dropped, and what the channel
  still delivers are the buffered messages only.
\<close>

theorem channel_close_drops_message:
  assumes "send_blocks t ch w" and "ch_cancel (chans w ch)" and "val = None \<or> val = Some IS_NULL"
    and "channel_close wake ch val (send_suspended t ch v w) = Some w1"
    and "yield Suspend (send_suspended t ch v w) = w1"
  shows "(\<exists>w'. channel_send yield wake ch v w = Some (Ret IS_NULL, w')) \<and> chan_items ch w1 = chan_buffer (chans w ch)"
proof -
  let ?u = "send_suspended t ch v w"
  note s = send_suspended_state [OF assms(1), of v]
  have wf: "ops_wf ?u" using assms(1) by (simp add: ops_wf_send_suspended send_blocks_def)
  have "close_error val = IS_UNDEF" using assms(3) by (auto simp: close_error_def)
  with channel_close_facts [OF wf, of ch IS_UNDEF val] assms(1,2,4)
  have w1: "chan_items ch w1 = chan_buffer (chans w ch)" "s_flags w1 = s_flags ?u"
    "op_status (ops w1 (next_opid w)) = ASYNC_STATUS_RESOLVED"
    by (auto simp: s send_blocks_def chan_wf_def closed_op_def simp del: send_suspended_sel)
  have "s_flags (yield Suspend ?u) = s_flags w" by (simp only: assms(5) w1(2) s(6))
  from send_blocks_waits [where yield = yield and run = wake and v = v, OF assms(1) this] w1 assms(5) show ?thesis by simp
qed

theorem channel_close_drops_message_witness:
  "\<exists>w'. channel_send (\<lambda>_ u. the (channel_close wake 0 None u)) wake 0 (IS_LONG 3) full_channel = Some (Ret IS_NULL, w')"
proof -
  let ?u = "send_suspended 0 0 (IS_LONG 3) full_channel"
  note s = send_suspended_state [OF full_channel_blocks, of "IS_LONG 3"]
  obtain w1 where w1: "channel_close wake 0 None ?u = Some w1"
    using channel_close_facts [of ?u 0 _ None] s(1,5) full_channel_wf(2)
    by (auto simp: ops_wf_send_suspended chan_wf_def simp del: send_suspended_sel)
  show ?thesis
    using channel_close_drops_message [OF full_channel_blocks, of None "IS_LONG 3" w1 "\<lambda>_ u. the (channel_close wake 0 None u)"] w1
    by simp
qed

section \<open>Iterating\<close>

text \<open>A \<open>foreach\<close> over a channel: advance, then read key and value, \<open>n\<close> times.\<close>

fun iterate_n ::
  "'a chan_yield \<Rightarrow> 'a chan_wake \<Rightarrow> nat \<Rightarrow> nat \<Rightarrow> 'a chan_store_scheme \<Rightarrow>
   ((outcome \<times> outcome) list \<times> 'a chan_store_scheme) option" where
  "iterate_n yield run it 0 w = Some ([], w)"
| "iterate_n yield run it (Suc n) w =
     Option.bind (iterator_next yield run it w) (\<lambda>(_, w1).
     Option.bind (iterator_key yield run it w1) (\<lambda>(k, w2).
     Option.bind (iterator_current yield run it w2) (\<lambda>(v, w3).
     map_option (\<lambda>(rest, w4). ((k, v) # rest, w4)) (iterate_n yield run it n w3))))"

fun keyed :: "int \<Rightarrow> zval list \<Rightarrow> (outcome \<times> outcome) list" where
  "keyed k [] = []"
| "keyed k (v # vs) = (Ret (IS_LONG k), Ret v) # keyed (k + 1) vs"

definition iterator_ready :: "nat \<Rightarrow> nat \<Rightarrow> 'a chan_store_scheme \<Rightarrow> bool" where
  "iterator_ready it ch w \<longleftrightarrow> it_state (iterators w it) = ch \<and>
     \<not> has_flag (it_flags (iterators w it)) ITERATOR_FLAG_FETCHING \<and> chan_wf ch w \<and>
     (chan_closed ch w \<longrightarrow> queues w (ChanSenders ch) = [])"

lemma fetch_noblock_frame:
  "iterators (snd (fetch_noblock wake ch w)) = iterators w"
  "chan_closed ch (snd (fetch_noblock wake ch w)) = chan_closed ch w"
  by (auto simp: fetch_noblock_def async_next_op_def buffer_put_def chan_closed_def Let_def split: option.split prod.split)

lemma iterator_next_item:
  assumes "iterator_ready it ch w" and "chan_items ch w = v # vs" and "v \<noteq> IS_UNDEF"
  shows "\<exists>w'. iterator_next yield wake it w = Some (Ret IS_NULL, w') \<and> iterator_ready it ch w' \<and>
    chan_items ch w' = vs \<and> it_entry (iterators w' it) = v \<and> it_pos (iterators w' it) = it_pos (iterators w it) + 1"
proof -
  let ?w1 = "upd_iterator it (\<lambda>x. x\<lparr>it_entry := IS_UNDEF\<rparr>) w"
  have wf: "chan_wf ch ?w1" and items: "chan_items ch ?w1 = v # vs"
    using assms by (simp_all add: iterator_ready_def chan_wf_def chan_items_def)
  obtain r w2 where f: "fetch_noblock wake ch ?w1 = (r, w2)" by (cases "fetch_noblock wake ch ?w1")
  from chan_waking.fetch_noblock_spec [OF wf f] items have r: "r = Some v" "chan_wf ch w2" "chan_items ch w2 = vs"
    by auto
  have fr: "iterators w2 = iterators ?w1" "chan_closed ch w2 = chan_closed ch ?w1"
    using fetch_noblock_frame [of ch ?w1] by (simp_all add: f)
  have q: "queues w2 (ChanSenders ch) = tl (queues w (ChanSenders ch))"
    using chan_waking.fetch_noblock_status(1) [OF f] by simp
  have readable: "channel_readable ch ?w1"
    using assms(1,2) chan_items_Nil [of ch w]
    by (auto simp: channel_readable_def channel_readable_nonblock_def iterator_ready_def chan_closed_def)
  let ?w3 = "upd_iterator it (\<lambda>x. x\<lparr>it_entry := v, it_pos := it_pos x + 1\<rparr>) w2"
  have "iterator_next yield wake it w = Some (Ret IS_NULL, ?w3)"
    using assms(1) readable f by (simp add: iterator_next_def fetch_next_entry_def iterator_ready_def r Let_def)
  moreover have "iterator_ready it ch ?w3"
    using assms(1) r fr q by (auto simp: iterator_ready_def chan_closed_def chan_wf_def chan_items_def)
  moreover have "chan_items ch ?w3 = vs" using r by (simp add: chan_items_def)
  ultimately show ?thesis using fr by auto
qed

lemma iterator_read:
  assumes "it_entry (iterators w it) \<noteq> IS_UNDEF"
  shows "iterator_key yield run it w = Some (Ret (IS_LONG (it_pos (iterators w it))), w)"
    and "iterator_current yield run it w = Some (Ret (it_entry (iterators w it)), w)"
  using assms by (simp_all add: iterator_key_def iterator_current_def iterator_method_def advance_iterator_def Let_def)

text \<open>
  Iterating over a channel yields its messages in order under consecutive keys, without
  suspending while messages are there, also on a closed channel that still has buffered messages.
\<close>

theorem channel_iteration:
  assumes "iterator_ready it ch w" and "n \<le> length (chan_items ch w)" and "IS_UNDEF \<notin> set (chan_items ch w)"
  shows "\<exists>w'. iterate_n yield wake it n w =
      Some (keyed (it_pos (iterators w it) + 1) (take n (chan_items ch w)), w') \<and>
    chan_items ch w' = drop n (chan_items ch w)"
  using assms
proof (induction n arbitrary: w)
  case 0
  then show ?case by simp
next
  case (Suc n)
  then obtain v vs where it: "chan_items ch w = v # vs" by (cases "chan_items ch w") auto
  with Suc.prems obtain w1 where w1: "iterator_next yield wake it w = Some (Ret IS_NULL, w1)" "iterator_ready it ch w1"
    "chan_items ch w1 = vs" "it_entry (iterators w1 it) = v" "it_pos (iterators w1 it) = it_pos (iterators w it) + 1"
    using iterator_next_item [OF Suc.prems(1) it, of yield] by auto
  with Suc.prems it have "v \<noteq> IS_UNDEF" "IS_UNDEF \<notin> set vs" "n \<le> length vs" by auto
  with w1 iterator_read [of w1 it] Suc.IH [of w1] show ?case
    by (auto simp: it)
qed

theorem channel_iteration_witness:
  "\<exists>w'. iterate_n bounce wake 0 2 full_channel =
     Some ([(Ret (IS_LONG 0), Ret (IS_LONG 1)), (Ret (IS_LONG 1), Ret (IS_LONG 2))], w')"
  using channel_iteration [of 0 0 full_channel 2 bounce]
  by (auto simp: iterator_ready_def full_channel_wf chan_closed_def numeral_2_eq_2 simp del: iterate_n.simps)

end
