(* ===== verification/GroupProps.thy ===== *)
theory GroupProps
  imports ChannelProps "HOL-Library.Multiset"
begin

text \<open>
  Properties of channel groups: the shuffle is a permutation, \<open>select\<close> takes the oldest message
  of the first channel that is ready and drops closed channels, and where it misses a message.
\<close>

section \<open>Shuffling\<close>

lemma mset_swap_nth:
  assumes "i < length xs" and "j < length xs"
  shows "mset (xs[i := xs ! j, j := xs ! i]) = mset xs"
  using assms by (simp add: mset_swap)

lemma mset_shuffle_from:
  assumes "\<And>i. rand i \<le> i" and "n < length es"
  shows "mset (shuffle_from rand n es) = mset es \<and> length (shuffle_from rand n es) = length es"
  using assms(2)
proof (induction n arbitrary: es)
  case 0
  then show ?case by simp
next
  case (Suc n)
  have "rand (Suc n) < length es" using assms(1) [of "Suc n"] Suc.prems by simp
  with Suc show ?case by (simp add: mset_swap_nth)
qed

text \<open>
  With random numbers in the range asked for, shuffling a group keeps every entry exactly
  once; the shuffle of an empty group is the one case in which the code leaves the array.
\<close>

theorem shuffle_group_permutes:
  assumes "\<And>i. rand i \<le> i"
  shows "case shuffle_group rand es of
     None \<Rightarrow> es = []
   | Some es' \<Rightarrow> mset es' = mset es"
  using mset_shuffle_from [of rand "length es - 1" es] assms by (simp add: shuffle_group_def)

theorem shuffle_group_permutes_witness:
  "mset (the (shuffle_group (\<lambda>i. i div 2) [1, 2, 3 :: nat])) = {#1, 2, 3#}"
  using shuffle_group_permutes [of "\<lambda>i. i div 2" "[1, 2, 3 :: nat]"] by (simp add: shuffle_group_def)

section \<open>Selecting\<close>

definition entry_chan :: "'a chan_store_scheme \<Rightarrow> nat \<times> zval \<Rightarrow> nat" where
  "entry_chan w e = it_state (iterators w (fst e))"

text \<open>The entries that stay in the group.\<close>

definition entry_stays :: "'a chan_store_scheme \<Rightarrow> nat \<times> zval \<Rightarrow> bool" where
  "entry_stays w e \<longleftrightarrow> channel_readable (entry_chan w e) w"

definition no_failed_channel :: "'a chan_store_scheme \<Rightarrow> (nat \<times> zval) list \<Rightarrow> bool" where
  "no_failed_channel w es \<longleftrightarrow> (\<forall>e\<in>set es. chan_closed (entry_chan w e) w \<longrightarrow> ch_error (chans w (entry_chan w e)) = IS_UNDEF)"

lemma select_scan_head:
  assumes "no_failed_channel w es"
  shows "select_scan w done_es es (Some h) = (Some h, done_es @ filter (entry_stays w) es, None)"
  using assms
  by (induction es arbitrary: done_es)
    (auto simp: Let_def entry_chan_def entry_stays_def channel_readable_def no_failed_channel_def)

lemma select_scan_none:
  assumes "no_failed_channel w (es @ es')" and "\<forall>e\<in>set es. \<not> channel_readable_nonblock (entry_chan w e) w"
  shows "select_scan w done_es (es @ es') None = select_scan w (done_es @ filter (entry_stays w) es) es' None"
  using assms
  by (induction es arbitrary: done_es)
    (auto simp: Let_def entry_chan_def entry_stays_def channel_readable_def no_failed_channel_def)

lemma select_scan_first:
  assumes "no_failed_channel w (pre @ e # post)" and "\<forall>x\<in>set pre. \<not> channel_readable_nonblock (entry_chan w x) w"
    and "channel_readable_nonblock (entry_chan w e) w"
  shows "select_scan w [] (pre @ e # post) None =
    (Some (length (filter (entry_stays w) pre)), filter (entry_stays w) (pre @ e # post), None)"
proof -
  have "no_failed_channel w post" using assms(1) by (simp add: no_failed_channel_def)
  then show ?thesis
    using assms select_scan_none [OF assms(1,2), of "[]"]
    by (simp add: select_scan_head entry_chan_def) (simp add: entry_stays_def entry_chan_def channel_readable_def)
qed

lemma upd_group_sel [simp]:
  "chans (upd_group g f w) = chans w" "iterators (upd_group g f w) = iterators w" "queues (upd_group g f w) = queues w"
  "send_values (upd_group g f w) = send_values w" "ops (upd_group g f w) = ops w"
  "groups (upd_group g f w) = (groups w)(g := f (groups w g))"
  by (simp_all add: upd_group_def)

lemma group_store_more_eq:
  assumes "chan_store.more w' = chan_store.more (w :: 'a group_store_scheme)"
  shows "groups w' = groups w"
  using assms by (cases w; cases w'; simp)

lemma upd_chan_more [simp]: "chan_store.more (upd_chan ch f w) = chan_store.more w"
  by (simp add: upd_chan_def)

lemma fetch_noblock_more: "chan_store.more (snd (fetch_noblock wake ch w)) = chan_store.more w"
  by (simp add: fetch_noblock_def async_next_op_def buffer_put_def Let_def chan_store_more_eq(4) [OF settle_wake_sel(10)]
      split: option.split)


text \<open>A group of one channel with the key 9 on top of a state with channels.\<close>

definition with_group :: "chan_store \<Rightarrow> group_store" where
  "with_group w = chan_store.extend w (group_store.fields
     (\<lambda>_. \<lparr>g_flags = 0, g_entries = [(0, IS_LONG 9)], g_slots = [5], g_select = 6, g_pending = 0,
        g_entry = None, g_timer = None\<rparr>)
     (\<lambda>_. \<lparr>gs_flags = 0, gs_entry = None, gs_sends = [], gs_timer = None\<rparr>) (\<lambda>_. (0, 0)))"

lemma with_group_sel [simp]:
  "chans (with_group w) = chans w" "iterators (with_group w) = iterators w" "queues (with_group w) = queues w"
  "send_values (with_group w) = send_values w" "ops (with_group w) = ops w"
  "groups (with_group w) g = \<lparr>g_flags = 0, g_entries = [(0, IS_LONG 9)], g_slots = [5], g_select = 6, g_pending = 0,
     g_entry = None, g_timer = None\<rparr>"
  by (simp_all add: with_group_def chan_store.defs group_store.defs)

lemma with_group_chan [simp]:
  "chan_items ch (with_group w) = chan_items ch w" "chan_wf ch (with_group w) = chan_wf ch w"
  "chan_closed ch (with_group w) = chan_closed ch w"
  by (simp_all add: chan_items_def chan_wf_def chan_closed_def)


lemma select_scan_idle:
  assumes "\<forall>e\<in>set es. \<not> chan_closed (entry_chan w e) w \<and> \<not> channel_readable_nonblock (entry_chan w e) w"
  shows "select_scan w done_es es None = (None, done_es @ es, None)"
  using assms by (induction es arbitrary: done_es) (simp_all add: entry_chan_def Let_def)

text \<open>
  A polling \<open>select\<close> (timeout 0) does not see senders: when all channels of the group are open
  with empty buffers and no receiver waits, it returns nothing, although a task waits to send on one
  of them and a fetch from that channel would deliver its message at once.
\<close>

theorem select_misses_sender:
  assumes "\<not> has_flag (g_flags (groups w g)) GROUP_FLAG_SHUFFLE"
    and "\<forall>e\<in>set (g_entries (groups w g)). \<not> chan_closed (entry_chan w e) w \<and>
      ch_len (chans w (entry_chan w e)) = 0 \<and> queues w (ChanReceivers (entry_chan w e)) = []"
    and "e \<in> set (g_entries (groups w g))" and "queues w (ChanSenders (entry_chan w e)) = s # rest"
  shows "(\<exists>w'. channel_group_select yield wake rand g (Some 0) w = Some (Sel_none, w') \<and>
       queues w' = queues w \<and> chans w' = chans w) \<and>
    fst (fetch_noblock wake (entry_chan w e) w) = Some (send_values w s)"
proof
  have scan: "select_scan w [] (g_entries (groups w g)) None = (None, g_entries (groups w g), None)"
    using assms(2) select_scan_idle [of "g_entries (groups w g)" w "[]"] by (simp add: channel_readable_nonblock_def)
  show "\<exists>w'. channel_group_select yield wake rand g (Some 0) w = Some (Sel_none, w') \<and>
       queues w' = queues w \<and> chans w' = chans w"
    using assms(1) scan by (simp add: channel_group_select_def Let_def)
  show "fst (fetch_noblock wake (entry_chan w e) w) = Some (send_values w s)"
    using assms(2-4) by (simp add: fetch_noblock_def async_next_op_Cons)
qed

lemma new_channel_0_blocks: "send_blocks 0 0 (new_channel 0)"
  using new_channel_wf [of 0]
  by (simp add: send_blocks_def chan_closed_def await_checks_task_def sched_flag_def)

theorem select_misses_sender_witness:
  "(\<exists>w'. channel_group_select bounce wake (\<lambda>i. 0) 0 (Some 0) (with_group (send_suspended 0 0 (IS_LONG 3) (new_channel 0)))
      = Some (Sel_none, w')) \<and>
   fst (fetch_noblock wake 0 (with_group (send_suspended 0 0 (IS_LONG 3) (new_channel 0)))) = Some (IS_LONG 3)"
proof -
  let ?u = "send_suspended 0 0 (IS_LONG 3) (new_channel 0)"
  note s = send_suspended_state [OF new_channel_0_blocks, of "IS_LONG 3"]
  show ?thesis
    using select_misses_sender [of "with_group ?u" 0 "(0, IS_LONG 9)" 1 "[]" bounce "\<lambda>i. 0"] s(3,4)
    by (auto simp: entry_chan_def chan_closed_def simp del: send_suspended_sel(1))
qed

end
