(* ===== verification/Event.thy ===== *)
theory Event
  imports Loop
begin

text \<open>
  Event watchers for callbacks (\<open>event.c\<close>, \<open>include/async/event.h\<close>): tick, timer and poll
  events. They are PHP objects; an event that is armed holds a reference on itself. libuv
  handles are modelled by what the source does with them: active, closing, referenced.
\<close>

section \<open>Tick events\<close>

definition upd_tick :: "nat \<Rightarrow> (tick_event \<Rightarrow> tick_event) \<Rightarrow> 'a task_store_scheme \<Rightarrow> 'a task_store_scheme" where
  "upd_tick e f w = w\<lparr>tick_events := (tick_events w)(e := f (tick_events w e))\<rparr>"

definition activate_tick :: "nat \<Rightarrow> 'a task_store_scheme \<Rightarrow> 'a task_store_scheme" where
  "activate_tick e w =
     (let w1 = (if ticks w = [] then stop_active_loop w else w);
          w2 = upd_tick e (\<lambda>x. x\<lparr>e_list := Some TickQueue, e_refs := e_refs x + 1\<rparr>)
                 (w1\<lparr>ticks := list_append e (ticks w1)\<rparr>)
      in if has_flag (e_flags (tick_events w2 e)) TICK_EVENT_REFERENCED
         then w2\<lparr>refticks := refticks w2 + 1\<rparr> else w2)"

definition deactivate_tick :: "nat \<Rightarrow> 'a task_store_scheme \<Rightarrow> 'a task_store_scheme" where
  "deactivate_tick e w =
     (let w1 = (case e_list (tick_events w e) of
            None \<Rightarrow> w
          | Some TickQueue \<Rightarrow> w\<lparr>ticks := remove1 e (ticks w)\<rparr>
          | Some TickRunning \<Rightarrow> w\<lparr>ticks_running := remove1 e (ticks_running w)\<rparr>);
          w2 = upd_tick e (\<lambda>x. x\<lparr>e_list := None, e_refs := e_refs x - 1\<rparr>) w1
      in if has_flag (e_flags (tick_events w2 e)) TICK_EVENT_REFERENCED
         then w2\<lparr>refticks := refticks w2 - 1\<rparr> else w2)"

text \<open>
  \<open>e\<close> is the address of the new event; a value that is not callable is an error. The object
  is returned to the caller, which holds the first reference.
\<close>

definition async_tick_event_object_create ::
  "nat \<Rightarrow> (nat, string) sum \<Rightarrow> 'a task_store_scheme \<Rightarrow> (string, nat) sum \<times> 'a task_store_scheme" where
  "async_tick_event_object_create e callback w = (case callback of
     Inr err \<Rightarrow> (Inl (''Callable required: '' @ err), w)
   | Inl cb \<Rightarrow> (Inr e, activate_tick e (upd_tick e
       (\<lambda>_. \<lparr>e_flags = TICK_EVENT_REFERENCED, e_list = None, e_callback = cb, e_refs = 1\<rparr>) w)))"

definition task_scheduler_tick ::
  "nat \<Rightarrow> (nat, string) sum \<Rightarrow> 'a task_store_scheme \<Rightarrow> (string, nat) sum \<times> 'a task_store_scheme" where
  "task_scheduler_tick e callback w = (case first_error
       [(sched_flag SCHED_DISPOSED w, ''Task scheduler has been disposed''),
        (sched_flag SCHED_ERROR w, ''Task scheduler was stopped due to an error'')] of
     Some msg \<Rightarrow> (Inl msg, w)
   | None \<Rightarrow> async_tick_event_object_create e callback w)"

definition tick_queued :: "nat \<Rightarrow> 'a task_store_scheme \<Rightarrow> bool" where
  "tick_queued e w \<longleftrightarrow> e_list (tick_events w e) \<noteq> None"

definition tick_event_close :: "nat \<Rightarrow> 'a task_store_scheme \<Rightarrow> 'a task_store_scheme" where
  "tick_event_close e w =
     (let w1 = upd_tick e (\<lambda>x. x\<lparr>e_flags := set_flag (e_flags x) TICK_EVENT_CLOSED\<rparr>) w
      in if tick_queued e w1 then deactivate_tick e w1 else w1)"

definition tick_closed_error :: "nat \<Rightarrow> 'a task_store_scheme \<Rightarrow> string option" where
  "tick_closed_error e w =
     (if has_flag (e_flags (tick_events w e)) TICK_EVENT_CLOSED then Some ''Tick has been closed'' else None)"

definition tick_event_start :: "nat \<Rightarrow> 'a task_store_scheme \<Rightarrow> string option \<times> 'a task_store_scheme" where
  "tick_event_start e w = (case tick_closed_error e w of
     Some msg \<Rightarrow> (Some msg, w)
   | None \<Rightarrow> (None, if tick_queued e w then w else activate_tick e w))"

definition tick_event_stop :: "nat \<Rightarrow> 'a task_store_scheme \<Rightarrow> string option \<times> 'a task_store_scheme" where
  "tick_event_stop e w = (case tick_closed_error e w of
     Some msg \<Rightarrow> (Some msg, w)
   | None \<Rightarrow> (None, if tick_queued e w then deactivate_tick e w else w))"

definition tick_event_ref :: "nat \<Rightarrow> 'a task_store_scheme \<Rightarrow> string option \<times> 'a task_store_scheme" where
  "tick_event_ref e w = (case tick_closed_error e w of
     Some msg \<Rightarrow> (Some msg, w)
   | None \<Rightarrow> (None,
       if has_flag (e_flags (tick_events w e)) TICK_EVENT_REFERENCED then w
       else
         let w1 = upd_tick e (\<lambda>x. x\<lparr>e_flags := set_flag (e_flags x) TICK_EVENT_REFERENCED\<rparr>) w
         in if tick_queued e w1 then w1\<lparr>refticks := refticks w1 + 1\<rparr> else w1))"

definition tick_event_unref :: "nat \<Rightarrow> 'a task_store_scheme \<Rightarrow> string option \<times> 'a task_store_scheme" where
  "tick_event_unref e w = (case tick_closed_error e w of
     Some msg \<Rightarrow> (Some msg, w)
   | None \<Rightarrow> (None,
       if has_flag (e_flags (tick_events w e)) TICK_EVENT_REFERENCED
       then
         let w1 = upd_tick e (\<lambda>x. x\<lparr>e_flags := e_flags x XOR TICK_EVENT_REFERENCED\<rparr>) w
         in if tick_queued e w1 then w1\<lparr>refticks := refticks w1 - 1\<rparr> else w1
       else w))"

section \<open>Timer and poll events\<close>

abbreviation TIMER_EVENT_PERIODIC :: u8 where "TIMER_EVENT_PERIODIC \<equiv> 1"
abbreviation TIMER_EVENT_CLOSED :: u8 where "TIMER_EVENT_CLOSED \<equiv> 2"
abbreviation TIMER_EVENT_SCHEDULED :: u8 where "TIMER_EVENT_SCHEDULED \<equiv> 4"

abbreviation POLL_EVENT_READABLE :: u8 where "POLL_EVENT_READABLE \<equiv> 1"
abbreviation POLL_EVENT_WRITABLE :: u8 where "POLL_EVENT_WRITABLE \<equiv> 2"
abbreviation POLL_EVENT_DISCONNECT :: u8 where "POLL_EVENT_DISCONNECT \<equiv> 4"
abbreviation POLL_EVENT_MASK :: u8 where "POLL_EVENT_MASK \<equiv> 3"
abbreviation POLL_EVENT_CLOSED :: u8 where "POLL_EVENT_CLOSED \<equiv> 64"
abbreviation POLL_EVENT_SCHEDULED :: u8 where "POLL_EVENT_SCHEDULED \<equiv> 128"

text \<open>
  The libuv handle of an event: what it was started with (\<open>None\<close> when stopped), whether it
  keeps the loop alive, whether \<open>uv_close\<close> was called on it.
\<close>

record 'arg uv_handle =
  uv_active :: "'arg option"
  uv_has_ref :: bool
  uv_closing :: bool

definition uv_init :: "'arg uv_handle" where
  "uv_init = \<lparr>uv_active = None, uv_has_ref = True, uv_closing = False\<rparr>"

definition uv_close :: "'arg uv_handle \<Rightarrow> 'arg uv_handle" where
  "uv_close h = h\<lparr>uv_active := None, uv_closing := True\<rparr>"

record timer_event =
  te_flags :: u8
  te_delay :: nat
  te_callback :: nat
  te_handle :: "(nat \<times> nat) uv_handle"
  te_shutdown :: bool
  te_refs :: nat

record poll_event =
  pe_flags :: u8
  pe_callback :: nat
  pe_handle :: "u8 uv_handle"
  pe_shutdown :: bool
  pe_refs :: nat

record event_store = task_store +
  timer_events :: "nat \<Rightarrow> timer_event"
  poll_events :: "nat \<Rightarrow> poll_event"

definition upd_timer_event ::
  "nat \<Rightarrow> (timer_event \<Rightarrow> timer_event) \<Rightarrow> 'a event_store_scheme \<Rightarrow> 'a event_store_scheme" where
  "upd_timer_event e f w = w\<lparr>timer_events := (timer_events w)(e := f (timer_events w e))\<rparr>"

definition upd_poll_event ::
  "nat \<Rightarrow> (poll_event \<Rightarrow> poll_event) \<Rightarrow> 'a event_store_scheme \<Rightarrow> 'a event_store_scheme" where
  "upd_poll_event e f w = w\<lparr>poll_events := (poll_events w)(e := f (poll_events w e))\<rparr>"

definition async_timer_event_object_create ::
  "nat \<Rightarrow> (nat, string) sum \<Rightarrow> 'a event_store_scheme \<Rightarrow> (string, nat) sum \<times> 'a event_store_scheme" where
  "async_timer_event_object_create e callback w = (case callback of
     Inr err \<Rightarrow> (Inl (''Callable required: '' @ err), w)
   | Inl cb \<Rightarrow> (Inr e, (upd_timer_event e
       (\<lambda>_. \<lparr>te_flags = 0, te_delay = 0, te_callback = cb, te_handle = uv_init, te_shutdown = True, te_refs = 1\<rparr>)
       w)\<lparr>s_shutdown := list_append (ShutdownCb CTimerEvent e) (s_shutdown w)\<rparr>))"

text \<open>Closing takes a reference for the close callback, unless the handle is closing already.\<close>

definition timer_event_unschedule :: "timer_event \<Rightarrow> timer_event" where
  "timer_event_unschedule x =
     (if has_flag (te_flags x) TIMER_EVENT_SCHEDULED
      then x\<lparr>te_flags := clear_flag (te_flags x) TIMER_EVENT_SCHEDULED, te_refs := te_refs x - 1\<rparr>
      else x)"

definition shutdown_timer_event :: "nat \<Rightarrow> 'a event_store_scheme \<Rightarrow> 'a event_store_scheme" where
  "shutdown_timer_event e w = upd_timer_event e (\<lambda>x.
     let x1 = x\<lparr>te_shutdown := False, te_flags := set_flag (te_flags x) TIMER_EVENT_CLOSED\<rparr>;
         x2 = (if uv_closing (te_handle x1) then x1
               else x1\<lparr>te_refs := te_refs x1 + 1, te_handle := uv_close (te_handle x1)\<rparr>)
     in timer_event_unschedule x2) w"

definition close_timer_event :: "nat \<Rightarrow> 'a event_store_scheme \<Rightarrow> 'a event_store_scheme" where
  "close_timer_event e w = upd_timer_event e (\<lambda>x. x\<lparr>te_refs := te_refs x - 1\<rparr>) w"

definition timer_event_close :: "nat \<Rightarrow> 'a event_store_scheme \<Rightarrow> 'a event_store_scheme" where
  "timer_event_close e w =
     (if has_flag (te_flags (timer_events w e)) TIMER_EVENT_CLOSED then w
      else
        let w1 = upd_timer_event e (\<lambda>x. x\<lparr>te_flags := set_flag (te_flags x) TIMER_EVENT_CLOSED\<rparr>) w
        in if te_shutdown (timer_events w1 e)
           then shutdown_timer_event e (w1\<lparr>s_shutdown := remove1 (ShutdownCb CTimerEvent e) (s_shutdown w1)\<rparr>)
           else w1)"

definition timer_event_dtor :: "nat \<Rightarrow> 'a event_store_scheme \<Rightarrow> 'a event_store_scheme" where
  "timer_event_dtor e w =
     (if te_shutdown (timer_events w e)
      then shutdown_timer_event e (w\<lparr>s_shutdown := remove1 (ShutdownCb CTimerEvent e) (s_shutdown w)\<rparr>)
      else w)"

definition timer_closed_error :: "nat \<Rightarrow> 'a event_store_scheme \<Rightarrow> string option" where
  "timer_closed_error e w =
     (if has_flag (te_flags (timer_events w e)) TIMER_EVENT_CLOSED then Some ''Timer has been closed'' else None)"

definition timer_event_start ::
  "nat \<Rightarrow> int \<Rightarrow> bool \<Rightarrow> 'a event_store_scheme \<Rightarrow> string option \<times> 'a event_store_scheme" where
  "timer_event_start e delay periodic w =
     (if delay < 0 then (Some ''Timer delay must not be negative'', w)
      else case timer_closed_error e w of
        Some msg \<Rightarrow> (Some msg, w)
      | None \<Rightarrow> (None, upd_timer_event e (\<lambda>x.
          let x1 = x\<lparr>te_delay := nat delay,
                 te_flags := (if periodic then set_flag (te_flags x) TIMER_EVENT_PERIODIC
                              else clear_flag (te_flags x) TIMER_EVENT_PERIODIC)\<rparr>;
              x2 = x1\<lparr>te_handle := (te_handle x1)\<lparr>uv_active := Some (te_delay x1,
                 if has_flag (te_flags x1) TIMER_EVENT_PERIODIC then te_delay x1 else 0)\<rparr>\<rparr>
          in if has_flag (te_flags x2) TIMER_EVENT_SCHEDULED then x2
             else x2\<lparr>te_flags := set_flag (te_flags x2) TIMER_EVENT_SCHEDULED, te_refs := te_refs x2 + 1\<rparr>) w))"

definition timer_event_stop :: "nat \<Rightarrow> 'a event_store_scheme \<Rightarrow> string option \<times> 'a event_store_scheme" where
  "timer_event_stop e w = (case timer_closed_error e w of
     Some msg \<Rightarrow> (Some msg, w)
   | None \<Rightarrow> (None, upd_timer_event e (\<lambda>x.
       timer_event_unschedule (x\<lparr>te_handle := (te_handle x)\<lparr>uv_active := None\<rparr>\<rparr>)) w))"

definition timer_event_set_ref ::
  "bool \<Rightarrow> nat \<Rightarrow> 'a event_store_scheme \<Rightarrow> string option \<times> 'a event_store_scheme" where
  "timer_event_set_ref b e w = (case timer_closed_error e w of
     Some msg \<Rightarrow> (Some msg, w)
   | None \<Rightarrow> (None, upd_timer_event e (\<lambda>x. x\<lparr>te_handle := (te_handle x)\<lparr>uv_has_ref := b\<rparr>\<rparr>) w))"

text \<open>
  The timer fires. libuv has re-armed a repeating timer and stopped any other before the
  callback runs. The event keeps a reference on itself for the time of the call.
\<close>

definition timer_event_cb ::
  "(nat \<Rightarrow> 'a event_store_scheme \<Rightarrow> outcome \<times> 'a event_store_scheme) \<Rightarrow> nat \<Rightarrow>
   'a event_store_scheme \<Rightarrow> 'a event_store_scheme" where
  "timer_event_cb call e w =
     (let w1 = upd_timer_event e (\<lambda>x.
            let x1 = x\<lparr>te_refs := te_refs x + 1\<rparr>
            in if has_flag (te_flags x1) TIMER_EVENT_PERIODIC then x1
               else x1\<lparr>te_flags := clear_flag (te_flags x1) TIMER_EVENT_SCHEDULED, te_refs := te_refs x1 - 1\<rparr>) w;
          (r, w2) = async_call_nowait (call (te_callback (timer_events w1 e))) w1;
          w3 = (case r of
              Bail \<Rightarrow> async_task_scheduler_handle_exit w2
            | Throw err \<Rightarrow> async_task_scheduler_handle_error err w2
            | Ret _ \<Rightarrow> w2)
      in upd_timer_event e (\<lambda>x. x\<lparr>te_refs := te_refs x - 1\<rparr>) w3)"

definition async_poll_event_object_create ::
  "nat \<Rightarrow> (nat, string) sum \<Rightarrow> 'a event_store_scheme \<Rightarrow> (string, nat) sum \<times> 'a event_store_scheme" where
  "async_poll_event_object_create e callback w = (case callback of
     Inr err \<Rightarrow> (Inl (''Callable required: '' @ err), w)
   | Inl cb \<Rightarrow> (Inr e, (upd_poll_event e
       (\<lambda>_. \<lparr>pe_flags = 0, pe_callback = cb, pe_handle = uv_init, pe_shutdown = True, pe_refs = 1\<rparr>)
       w)\<lparr>s_shutdown := list_append (ShutdownCb CPollEvent e) (s_shutdown w)\<rparr>))"

definition poll_event_unschedule :: "poll_event \<Rightarrow> poll_event" where
  "poll_event_unschedule x =
     (if has_flag (pe_flags x) POLL_EVENT_SCHEDULED
      then x\<lparr>pe_flags := clear_flag (pe_flags x) POLL_EVENT_SCHEDULED, pe_refs := pe_refs x - 1\<rparr>
      else x)"

definition shutdown_poll_event :: "nat \<Rightarrow> 'a event_store_scheme \<Rightarrow> 'a event_store_scheme" where
  "shutdown_poll_event e w = upd_poll_event e (\<lambda>x.
     let x1 = x\<lparr>pe_shutdown := False\<rparr>;
         x2 = (if uv_closing (pe_handle x1) then x1
               else x1\<lparr>pe_refs := pe_refs x1 + 1, pe_handle := uv_close (pe_handle x1)\<rparr>)
     in poll_event_unschedule x2) w"

definition close_poll_event :: "nat \<Rightarrow> 'a event_store_scheme \<Rightarrow> 'a event_store_scheme" where
  "close_poll_event e w = upd_poll_event e (\<lambda>x. x\<lparr>pe_refs := pe_refs x - 1\<rparr>) w"

definition poll_event_close :: "nat \<Rightarrow> 'a event_store_scheme \<Rightarrow> 'a event_store_scheme" where
  "poll_event_close e w =
     (if has_flag (pe_flags (poll_events w e)) POLL_EVENT_CLOSED then w
      else
        let w1 = upd_poll_event e (\<lambda>x. x\<lparr>pe_flags := set_flag (pe_flags x) POLL_EVENT_CLOSED\<rparr>) w
        in if pe_shutdown (poll_events w1 e)
           then shutdown_poll_event e (w1\<lparr>s_shutdown := remove1 (ShutdownCb CPollEvent e) (s_shutdown w1)\<rparr>)
           else w1)"

definition poll_closed_error :: "nat \<Rightarrow> 'a event_store_scheme \<Rightarrow> string option" where
  "poll_closed_error e w =
     (if has_flag (pe_flags (poll_events w e)) POLL_EVENT_CLOSED then Some ''Poll has been closed'' else None)"

definition poll_event_start ::
  "nat \<Rightarrow> 64 word \<Rightarrow> 'a event_store_scheme \<Rightarrow> string option \<times> 'a event_store_scheme" where
  "poll_event_start e mode w =
     (if mode AND NOT (ucast POLL_EVENT_MASK) \<noteq> 0
      then (Some ''Invalid mode, use class constants only (binary or them as needed)'', w)
      else
        let ev0 = POLL_EVENT_DISCONNECT;
            ev1 = (if has_flag mode (ucast POLL_EVENT_READABLE) then ev0 OR POLL_EVENT_READABLE else ev0);
            ev2 = (if has_flag mode (ucast POLL_EVENT_WRITABLE) then ev1 OR POLL_EVENT_WRITABLE else ev1)
        in if ev2 = POLL_EVENT_DISCONNECT
           then (Some ''You have to specify at least one of READABLE or WRITABLE as mode'', w)
           else case poll_closed_error e w of
             Some msg \<Rightarrow> (Some msg, w)
           | None \<Rightarrow> (None, upd_poll_event e (\<lambda>x.
               let x1 = x\<lparr>pe_flags := clear_flag (pe_flags x) POLL_EVENT_MASK OR (ucast mode AND POLL_EVENT_MASK),
                         pe_handle := (pe_handle x)\<lparr>uv_active := Some ev2\<rparr>\<rparr>
               in if has_flag (pe_flags x1) POLL_EVENT_SCHEDULED then x1
                  else x1\<lparr>pe_flags := set_flag (pe_flags x1) POLL_EVENT_SCHEDULED, pe_refs := pe_refs x1 + 1\<rparr>) w))"

definition poll_event_stop :: "nat \<Rightarrow> 'a event_store_scheme \<Rightarrow> string option \<times> 'a event_store_scheme" where
  "poll_event_stop e w = (case poll_closed_error e w of
     Some msg \<Rightarrow> (Some msg, w)
   | None \<Rightarrow> (None, upd_poll_event e (\<lambda>x.
       poll_event_unschedule (x\<lparr>pe_handle := (pe_handle x)\<lparr>uv_active := None\<rparr>\<rparr>)) w))"

definition poll_event_set_ref ::
  "bool \<Rightarrow> nat \<Rightarrow> 'a event_store_scheme \<Rightarrow> string option \<times> 'a event_store_scheme" where
  "poll_event_set_ref b e w = (case poll_closed_error e w of
     Some msg \<Rightarrow> (Some msg, w)
   | None \<Rightarrow> (None, upd_poll_event e (\<lambda>x. x\<lparr>pe_handle := (pe_handle x)\<lparr>uv_has_ref := b\<rparr>\<rparr>) w))"

text \<open>
  The poll callback gets the libuv status: an error other than a cancellation stops the
  scheduler (\<open>uv_strerror\<close> is \<open>strerror\<close>), success calls the user callback with the events.
\<close>

definition UV_ECANCELED :: int where "UV_ECANCELED = - 125"

definition poll_event_cb ::
  "(nat \<Rightarrow> u8 \<Rightarrow> 'a event_store_scheme \<Rightarrow> outcome \<times> 'a event_store_scheme) \<Rightarrow> (int \<Rightarrow> string) \<Rightarrow>
   nat \<Rightarrow> int \<Rightarrow> u8 \<Rightarrow> 'a event_store_scheme \<Rightarrow> 'a event_store_scheme" where
  "poll_event_cb call strerror e status events w =
     (if status < 0
      then if status = UV_ECANCELED then w
           else async_task_scheduler_handle_error
             (IS_ERROR ErrorCe (''Failed to poll: '' @ strerror status) None) w
      else
        let w1 = upd_poll_event e (\<lambda>x. x\<lparr>pe_refs := pe_refs x + 1\<rparr>) w;
            (r, w2) = async_call_nowait (call (pe_callback (poll_events w1 e)) events) w1;
            w3 = (case r of
                Bail \<Rightarrow> async_task_scheduler_handle_exit w2
              | Throw err \<Rightarrow> async_task_scheduler_handle_error err w2
              | Ret _ \<Rightarrow> w2)
        in upd_poll_event e (\<lambda>x. x\<lparr>pe_refs := pe_refs x - 1\<rparr>) w3)"

end
