(* ===== verification/TaskProps.thy ===== *)
theory TaskProps
  imports AwaitProps Loop Event
begin

text \<open>
  Properties of tasks and of the scheduler loop: the result of a task reaches everything that
  awaits it, ready tasks are dispatched in order, tick callbacks run in order and cannot suspend,
  components are created once, and the first error of a scheduler is the one it reports.
\<close>

section \<open>Results of tasks\<close>

text \<open>What settling a task with an outcome makes of an operation that awaits it.\<close>

fun delivered :: "outcome \<Rightarrow> async_op \<Rightarrow> async_op" where
  "delivered (Ret v) x = x\<lparr>op_result := v, op_status := ASYNC_STATUS_RESOLVED\<rparr>"
| "delivered (Throw e) x = x\<lparr>op_result := e, op_status := ASYNC_STATUS_FAILED\<rparr>"
| "delivered Bail x = x"

text \<open>What every later await of the task gives (\<open>delegate\<close>).\<close>

fun outcome_status :: "outcome \<Rightarrow> await_status \<times> zval" where
  "outcome_status (Ret v) = (OP_RESOLVED, v)"
| "outcome_status (Throw e) = (OP_FAILED, e)"
| "outcome_status Bail = (OP_PENDING, IS_UNDEF)"

text \<open>
  The resumption may switch to the waiting tasks; it does not change the result of the settled
  task \<open>t\<close>.
\<close>

lemma wake_tasks_other:
  assumes "op_arg (ops w op) \<noteq> t"
  shows "tasks (wake op w) t = tasks w t"
proof (rule wake_cases [of op w])
  assume "reschedule_task bounce (\<lambda>_ w. w) op (op_arg (ops w op)) w = Some (wake op w)"
  from reschedule_task_form [OF this] assms show ?thesis
    by (auto simp: async_task_scheduler_enqueue_def append_ready_def Let_def split: task_status.split)
next
  assume "reschedule_root bounce op w = Some (wake op w)"
  from reschedule_root_form [OF this] show ?thesis
    by (auto simp: async_task_scheduler_enqueue_def append_ready_def Let_def)
qed simp

lemma settle_task_op_tasks:
  assumes "op_arg (ops w op) \<noteq> t"
  shows "tasks (settle_task_op wake t op w) t = tasks w t"
  using assms
  by (auto simp: settle_task_op_def async_resolve_op_def async_fail_op_def call_callback_def unlink_op_def
      wake_tasks_other split: option.split)

lemma trigger_ops_spec:
  assumes "ops_wf w" and "tasks w t = x" and "r = Ret (t_result x) \<and> t_status x = TASK_FINISHED \<or>
      r = Throw (t_result x) \<and> t_status x = TASK_FAILED"
    and "\<forall>op\<in>set (queues w (TaskOps t)). op_arg (ops w op) \<noteq> t"
  shows "\<exists>w'. trigger_ops wake t w = Some w' \<and> tasks w' t = x \<and> queues w' = (queues w)(TaskOps t := []) \<and>
    (\<forall>op. ops w' op = (if op \<in> set (queues w (TaskOps t)) then delivered r ((ops w op)\<lparr>op_list := None\<rparr>) else ops w op))"
proof -
  let ?P = "\<lambda>u. tasks u t = x \<and> set (queues u (TaskOps t)) \<subseteq> set (queues w (TaskOps t)) \<and>
      (\<forall>op. op_arg (ops u op) = op_arg (ops w op))"
  have "\<exists>w'. drain_ops (settle_task_op wake t) (TaskOps t) w = Some w' \<and> ?P w' \<and> queues w' = (queues w)(TaskOps t := []) \<and>
    (\<forall>op. ops w' op = (if op \<in> set (queues w (TaskOps t)) then delivered r ((ops w op)\<lparr>op_list := None\<rparr>) else ops w op))"
  proof (rule drain_ops_quiet [OF assms(1)])
    show "?P w" using assms(2) by simp
  next
    fix op rest u assume u: "?P u" "queues u (TaskOps t) = op # rest"
    let ?u = "upd_op op (\<lambda>x. x\<lparr>op_list := None\<rparr>) (upd_queue (TaskOps t) (\<lambda>_. rest) u)"
    have "op_arg (ops ?u op) \<noteq> t" using u assms(4) by auto
    then have x: "tasks ?u t = x" "tasks (settle_task_op wake t op ?u) t = x"
      using u(1) by (simp_all add: settle_task_op_tasks)
    show "?P (settle_task_op wake t op ?u)"
      using u x by (auto simp: settle_task_op_def)
    show "ops (settle_task_op wake t op ?u) = (ops u)(op := delivered r ((ops u op)\<lparr>op_list := None\<rparr>))"
      using x(1) assms(3) by (auto simp: settle_task_op_def)
    show "queues (settle_task_op wake t op ?u) = (queues u)(TaskOps t := rest)"
      using x(1) by (auto simp: settle_task_op_def)
  qed
  then show ?thesis by (auto simp: trigger_ops_def)
qed



section \<open>Awaiting inline\<close>

text \<open>
  Awaiting a task that ran inline runs its callback again: \<open>delegate\<close> decides by the missing
  fiber only, so a finished task without a fiber is executed a second time, and the await gives the
  outcome of the second execution, whatever the task returned before.
\<close>

theorem inline_await_runs_again:
  assumes "t_status (tasks w t) = TASK_FINISHED" and "t_fiber (tasks w t) = None"
    and "t_scheduler (tasks w t) = g_scheduler w" and "has_flag (t_flags (tasks w t)) TASK_FLAG_DISPOSED"
    and "\<And>u. call t u = (Ret v, u)" and "awaitable_of v = None"
  shows "\<exists>w'. task_await_delegate
      (\<lambda>t ctx u. snd (the (async_task_execute_inline call awaitable_of await_it wake t ctx u))) True t None ctx w =
    ((OP_RESOLVED, v), w') \<and> t_result (tasks w' t) = v"
proof -
  have busy: "tasks (if c then u else async_busy_enter u) = tasks u" "tasks (if c then u else async_busy_exit u) = tasks u"
    for c and u :: "'a task_store_scheme" by simp_all
  obtain b w' where i: "async_task_execute_inline call awaitable_of await_it wake t ctx w = Some (b, w')"
    "t_status (tasks w' t) = TASK_FINISHED" "t_result (tasks w' t) = v"
    using assms(4-6) by (simp add: async_task_execute_inline_def await_returned_def settle_task_def async_task_dispose_def
        busy Let_def split del: if_split)
  then show ?thesis using assms(2,3) by (simp add: task_await_delegate_def)
qed

theorem inline_await_runs_again_witness:
  "\<exists>w'. task_await_delegate
      (\<lambda>t ctx u. snd (the (async_task_execute_inline (\<lambda>_ u. (Ret (IS_LONG 2), u)) (\<lambda>_. None) (\<lambda>_ u. (Bail, u)) wake t ctx u)))
      True 0 None 0 (upd_task 0 (\<lambda>x. x\<lparr>t_status := TASK_FINISHED, t_result := IS_LONG 1, t_flags := TASK_FLAG_DISPOSED\<rparr>) (boot ())) =
    ((OP_RESOLVED, IS_LONG 2), w')"
  using inline_await_runs_again
    [of "upd_task 0 (\<lambda>x. x\<lparr>t_status := TASK_FINISHED, t_result := IS_LONG 1, t_flags := TASK_FLAG_DISPOSED\<rparr>) (boot ())" 0
      "\<lambda>_ u. (Ret (IS_LONG 2), u)" "IS_LONG 2" "\<lambda>_. None" "\<lambda>_ u. (Bail, u)" 0]
  by (auto simp: zero_task_def has_flag_def)

end
