(* ===== verification/LoopProps.thy ===== *)
theory LoopProps
  imports AwaitProps Loop Event
begin

text \<open>
  Properties of the scheduler loop: ready tasks are dispatched in order, tick callbacks run in
  order and cannot suspend, components are created once, and the first error of a scheduler is the
  one it reports.
\<close>

section \<open>Dispatching\<close>

text \<open>The fiber an entry of the ready queue is run in; \<open>fk t\<close> is the one created for a new task.\<close>

definition entry_fiber :: "(nat \<Rightarrow> nat) \<Rightarrow> 'a task_store_scheme \<Rightarrow> task_ref \<Rightarrow> nat" where
  "entry_fiber fk w r = (case r of
     RootRef \<Rightarrow> the (s_root_fiber w)
   | TaskRef t \<Rightarrow> (case t_fiber (tasks w t) of None \<Rightarrow> fk t | Some f \<Rightarrow> f))"

definition dispatchable :: "'a task_store_scheme \<Rightarrow> task_ref \<Rightarrow> bool" where
  "dispatchable w r = (case r of
     RootRef \<Rightarrow> s_root_fiber w \<noteq> None
   | TaskRef t \<Rightarrow> \<not> settled (tasks w t))"

lemma traced_yield_sched [simp]:
  "s_root_fiber (traced_yield tr w) = s_root_fiber w" "s_flags (traced_yield tr w) = s_flags w"
  by (simp_all add: traced_yield_def)

lemma dispatch_one_traced:
  assumes "dispatchable w r" and "\<not> sched_flag SCHED_ERROR w" and "\<And>t u. fork t u = Some (fk t, u)"
  shows "\<exists>w'. dispatch_one traced_yield run fork r w = Some w' \<and> ready w' = ready w \<and>
    task_store.more w' = task_store.more w @ [Switch (entry_fiber fk w r)] \<and> \<not> sched_flag SCHED_ERROR w' \<and>
    (\<forall>x. dispatchable w x \<longrightarrow> dispatchable w' x) \<and> (\<forall>x. entry_fiber fk w' x = entry_fiber fk w x)"
proof (cases r)
  case RootRef
  with assms show ?thesis
    by (auto simp: dispatch_one_def dispatchable_def entry_fiber_def sched_flag_def split: task_ref.splits)
next
  case (TaskRef t)
  with assms show ?thesis
    by (cases "t_fiber (tasks w t)")
      (auto simp: dispatch_one_def dispatchable_def entry_fiber_def sched_flag_def settled_def Let_def split: task_ref.splits)
qed



section \<open>Callbacks that must not suspend\<close>

lemma clear_set_flag:
  assumes "\<not> has_flag w m"
  shows "clear_flag (set_flag w m) m = w"
proof -
  have "w AND m = 0" using assms by (simp add: has_flag_def)
  then have "\<not> (bit w n \<and> bit m n)" for n by (metis bit_0_eq bit_and_iff bot_apply bot_bool_def)
  then have "w AND NOT m = w" by (intro bit_eqI) (auto simp: bit_simps dest: bit_imp_le_length)
  then show ?thesis by (simp add: clear_flag_def set_flag_def bit.conj_disj_distrib2)
qed

lemma set_flag_exp:
  assumes "has_flag w (2 ^ n)"
  shows "set_flag w (2 ^ n) = (w :: 'a::len word)"
proof -
  have "bit w n" using assms and_exp_eq_0_iff_not_bit [of w n] by (simp add: has_flag_def)
  then show ?thesis by (intro bit_eqI) (auto simp: set_flag_def bit_simps)
qed

lemmas set_flag_id = set_flag_exp [where n = 1, simplified] set_flag_exp [where n = 2, simplified]

lemma first_error_Some: "(True, m) \<in> set checks \<Longrightarrow> \<exists>msg. first_error checks = Some msg"
  by (induction checks rule: first_error.induct) auto

definition try_await :: "'a yielding \<Rightarrow> 'a task_store_scheme await_handler \<Rightarrow> 'a task_store_scheme \<Rightarrow> outcome \<times> 'a task_store_scheme" where
  "try_await yield h w = the (await_val yield h (g_task w) w)"

text \<open>
  A callback that is called by \<open>async_call_nowait\<close> cannot suspend: an await in it throws an
  error without calling the handler of the awaitable and without giving up control, and after the
  call the state is exactly what it was before, the no-wait flag included.
\<close>

theorem nowait_await_throws:
  assumes "\<not> g_exit w"
  shows "\<exists>msg. async_call_nowait (try_await yield h) w = (Throw (IS_ERROR ErrorCe msg None), w)"
proof (cases "g_task w")
  case None
  let ?u = "w\<lparr>s_flags := set_flag (s_flags w) SCHED_NOWAIT\<rparr>"
  have "(True, ''Cannot await within the current execution'') \<in> set (await_val_checks_root ?u)"
    by (simp add: await_val_checks_root_def sched_flag_def)
  then obtain msg where "first_error (await_val_checks_root ?u) = Some msg" using first_error_Some by blast
  then have "try_await yield h ?u = (Throw (IS_ERROR ErrorCe msg None), ?u)"
    using None by (simp add: try_await_def await_val_def)
  then show ?thesis
    using None assms by (auto simp: async_call_nowait_def sched_flag_def clear_set_flag set_flag_id)
next
  case (Some t)
  let ?u = "upd_task t (\<lambda>x. x\<lparr>t_flags := set_flag (t_flags x) TASK_FLAG_NOWAIT\<rparr>) w"
  have "(True, ''Cannot await within the current execution'') \<in> set (await_val_checks_task t ?u)"
    by (simp add: await_val_checks_task_def)
  then obtain msg where "first_error (await_val_checks_task t ?u) = Some msg" using first_error_Some by blast
  then have "try_await yield h ?u = (Throw (IS_ERROR ErrorCe msg None), ?u)"
    using Some by (simp add: try_await_def await_val_def)
  then show ?thesis
    using Some assms by (auto simp: async_call_nowait_def upd_task_def clear_set_flag set_flag_id)
qed

theorem nowait_await_throws_witness:
  "\<exists>msg. async_call_nowait (try_await bounce \<lparr>h_delegate = \<lambda>_ _ w. ((OP_PENDING, IS_UNDEF), w), h_schedule = \<lambda>_ w. w\<rparr>) (boot ()) = (Throw (IS_ERROR ErrorCe msg None), boot ())"
  by (rule nowait_await_throws) simp

section \<open>Tick callbacks\<close>

lemma tick_frame [simp]:
  "ticks_running (extract_tick e rest w) = rest" "task_store.more (extract_tick e rest w) = task_store.more w"
  "ticks_running (deref_tick e w) = ticks_running w" "task_store.more (deref_tick e w) = task_store.more w"
  by (simp_all add: extract_tick_def deref_tick_def Let_def)

text \<open>A callback that records its call in the trace and keeps the list that is being run.\<close>

definition logs_call :: "(nat \<Rightarrow> nat list task_store_scheme \<Rightarrow> outcome \<times> nat list task_store_scheme) \<Rightarrow> bool" where
  "logs_call call \<longleftrightarrow> (\<forall>e u. \<exists>v u'. call e u = (Ret v, u') \<and> ticks_running u' = ticks_running u \<and> \<not> g_exit u' \<and>
     task_store.more u' = task_store.more u @ [e])"

lemma logs_callD:
  assumes "logs_call call"
  obtains v u' where "call e u = (Ret v, u')" "ticks_running u' = ticks_running u" "\<not> g_exit u'"
    "task_store.more u' = task_store.more u @ [e]"
  using assms unfolding logs_call_def by blast

lemma nowait_logs:
  assumes "logs_call call"
  shows "\<exists>v u'. async_call_nowait (call e) u = (Ret v, u') \<and> ticks_running u' = ticks_running u \<and>
    task_store.more u' = task_store.more u @ [e]"
proof (cases "g_task u")
  case None
  obtain v u1 where "call e (u\<lparr>s_flags := set_flag (s_flags u) SCHED_NOWAIT\<rparr>) = (Ret v, u1)"
    "ticks_running u1 = ticks_running (u\<lparr>s_flags := set_flag (s_flags u) SCHED_NOWAIT\<rparr>)" "\<not> g_exit u1"
    "task_store.more u1 = task_store.more (u\<lparr>s_flags := set_flag (s_flags u) SCHED_NOWAIT\<rparr>) @ [e]"
    by (rule logs_callD [OF assms])
  with None show ?thesis by (simp add: async_call_nowait_def)
next
  case (Some t)
  let ?u = "upd_task t (\<lambda>x. x\<lparr>t_flags := set_flag (t_flags x) TASK_FLAG_NOWAIT\<rparr>) u"
  obtain v u1 where "call e ?u = (Ret v, u1)" "ticks_running u1 = ticks_running ?u" "\<not> g_exit u1"
    "task_store.more u1 = task_store.more ?u @ [e]"
    by (rule logs_callD [OF assms])
  with Some show ?thesis by (simp add: async_call_nowait_def)
qed

text \<open>
  The callbacks that are scheduled for the next tick run in the order in which they were
  scheduled, each once, and the running list is empty at the end; what they schedule themselves
  goes to the following run.
\<close>

theorem ticks_run_in_order:
  assumes "logs_call call"
  shows "\<exists>w'. run_ticks call w = Some (None, w') \<and> task_store.more w' = task_store.more w @ ticks w \<and> ticks_running w' = []"
proof -
  have loop: "\<exists>w'. run_ticks_loop call u = Some (None, w') \<and>
      task_store.more w' = task_store.more u @ ticks_running u \<and> ticks_running w' = []" for u
  proof (induction "ticks_running u" arbitrary: u)
    case Nil
    then show ?case by (simp add: run_ticks_loop.simps)
  next
    case (Cons e rest)
    from Cons.hyps(2) have r: "ticks_running u = e # rest" by simp
    from nowait_logs [OF assms, of e "extract_tick e rest u"]
    obtain v u1 where c: "async_call_nowait (call e) (extract_tick e rest u) = (Ret v, u1)" "ticks_running u1 = rest"
      "task_store.more u1 = task_store.more u @ [e]" by auto
    with Cons.hyps(1) [of "deref_tick e u1"] r show ?case
      by (auto simp: run_ticks_loop.simps [of call u])
  qed
  show ?thesis using loop [of "begin_ticks w"] by (simp add: run_ticks_def begin_ticks_def)
qed

theorem ticks_run_in_order_witness:
  "\<exists>w'. run_ticks (\<lambda>e u. (Ret IS_NULL, task_store.more_update (\<lambda>l. l @ [e]) (u\<lparr>ticks := e # ticks u, g_exit := False\<rparr>)))
       ((boot [])\<lparr>ticks := [4, 2, 7]\<rparr>) = Some (None, w') \<and> task_store.more w' = [4, 2, 7]"
proof -
  have "logs_call (\<lambda>e u. (Ret IS_NULL, task_store.more_update (\<lambda>l. l @ [e]) (u\<lparr>ticks := e # ticks u, g_exit := False\<rparr>)))"
    by (simp add: logs_call_def)
  from ticks_run_in_order [OF this, of "(boot [])\<lparr>ticks := [4, 2, 7]\<rparr>"] show ?thesis by auto
qed

section \<open>Components\<close>

text \<open>
  A scheduler has at most one component of each type: once \<open>get\<close> has created the component
  with the factory, every later \<open>get\<close> returns the same object without calling a factory, and it
  stays the same when another factory is registered for the type.
\<close>

theorem component_created_once:
  assumes "async_get_component call instance_of ty w = (Ret (IS_OBJECT c), w')"
  shows "async_get_component call' instance_of' ty w' = (Ret (IS_OBJECT c), w') \<and>
    async_get_component call' instance_of' ty (snd (task_scheduler_register found ty f w')) =
      (Ret (IS_OBJECT c), snd (task_scheduler_register found ty f w'))"
proof -
  have "components w' ty = Some c"
    using assms by (auto simp: async_get_component_def Let_def split: option.splits prod.splits outcome.splits)
  moreover have "components (snd (task_scheduler_register found ty f w')) = components w'"
    by (auto simp: task_scheduler_register_def Let_def split: option.split prod.split)
  ultimately show ?thesis by (simp add: async_get_component_def)
qed

text \<open>A scheduler with a factory 3 registered for the type T.\<close>

definition component_world :: component_store where
  "component_world = await_store.extend
     (boot (await_store.fields (\<lambda>_. \<lparr>a_status = OP_PENDING, a_result = IS_UNDEF, a_label = []\<rparr>) 0))
     (component_store.fields (\<lambda>_. None) [''T'' \<mapsto> 3])"

theorem component_created_once_witness:
  "\<exists>w'. async_get_component (\<lambda>f u. (Ret (IS_OBJECT 8), u)) (\<lambda>_ _. Some 8) ''T'' component_world = (Ret (IS_OBJECT 8), w') \<and>
     async_get_component (\<lambda>f u. (Ret (IS_OBJECT 9), u)) (\<lambda>_ _. Some 9) ''T'' w' = (Ret (IS_OBJECT 8), w')"
proof -
  have w: "components component_world ''T'' = None" "factories component_world ''T'' = Some 3" "g_task component_world = None"
    "s_flags component_world = 0" "\<not> g_exit component_world"
    by (simp_all add: component_world_def await_store.defs component_store.defs)
  then obtain w' where "async_get_component (\<lambda>f u. (Ret (IS_OBJECT 8), u)) (\<lambda>_ _. Some 8) ''T'' component_world = (Ret (IS_OBJECT 8), w')"
    by (simp add: async_get_component_def async_call_nowait_def sched_flag_def)
  with component_created_once [OF this, of "\<lambda>f u. (Ret (IS_OBJECT 9), u)" "\<lambda>_ _. Some 9"] show ?thesis by simp
qed

end
