(* ===== verification/EventProps.thy ===== *)
theory EventProps
  imports AwaitProps Event Loop
begin

text \<open>
  The counter of referenced ticks, which decides whether the scheduler goes on: it is the number of
  queued events that are referenced, in every state the operations reach.
\<close>

section \<open>The invariant of the tick lists\<close>

definition tick_referenced :: "'a task_store_scheme \<Rightarrow> nat \<Rightarrow> bool" where
  "tick_referenced w e = has_flag (e_flags (tick_events w e)) TICK_EVENT_REFERENCED"

text \<open>
  An event is in at most one of the two lists, its \<open>list\<close> field names that list, and the counter
  is the number of referenced events in the lists (modulo \<open>2 ^ 32\<close>, the width of the counter).
\<close>

definition ticks_ok :: "'a task_store_scheme \<Rightarrow> bool" where
  "ticks_ok w \<longleftrightarrow> distinct (ticks w @ ticks_running w) \<and>
     (\<forall>e. (e_list (tick_events w e) = Some TickQueue \<longleftrightarrow> e \<in> set (ticks w)) \<and>
          (e_list (tick_events w e) = Some TickRunning \<longleftrightarrow> e \<in> set (ticks_running w))) \<and>
     refticks w = of_nat (length (filter (tick_referenced w) (ticks w @ ticks_running w)))"

text \<open>The operations on tick events, and what the scheduler does with them.\<close>

inductive tick_step :: "'a task_store_scheme \<Rightarrow> 'a task_store_scheme \<Rightarrow> bool" where
  step_create: "e_list (tick_events w e) = None \<Longrightarrow> tick_step w (snd (task_scheduler_tick e cb w))"
| step_start: "tick_step w (snd (tick_event_start e w))"
| step_stop: "tick_step w (snd (tick_event_stop e w))"
| step_close: "tick_step w (tick_event_close e w)"
| step_ref: "tick_step w (snd (tick_event_ref e w))"
| step_unref: "tick_step w (snd (tick_event_unref e w))"
| step_begin: "ticks_running w = [] \<Longrightarrow> tick_step w (begin_ticks w)"
| step_extract: "ticks_running w = e # rest \<Longrightarrow> tick_step w (extract_tick e rest w)"
| step_deref: "tick_step w (deref_tick e w)"
| step_error: "tick_step w (async_task_scheduler_handle_error err w)"
| step_exit: "tick_step w (async_task_scheduler_handle_exit w)"

inductive_cases tick_step_cases: "tick_step w w'"

lemma ticks_ok_cong:
  assumes "ticks w' = ticks w" and "ticks_running w' = ticks_running w" and "refticks w' = refticks w"
    and "\<And>e. e_list (tick_events w' e) = e_list (tick_events w e)"
    and "\<And>e. e \<in> set (ticks w @ ticks_running w) \<Longrightarrow> tick_referenced w' e = tick_referenced w e"
  shows "ticks_ok w' = ticks_ok w"
proof -
  have "filter (tick_referenced w') (ticks w @ ticks_running w) = filter (tick_referenced w) (ticks w @ ticks_running w)"
    using assms(5) by (intro filter_cong) auto
  then show ?thesis by (simp only: ticks_ok_def assms(1-4))
qed

lemma upd_tick_sel [simp]:
  "tick_events (upd_tick e f w) = (tick_events w)(e := f (tick_events w e))" "ticks (upd_tick e f w) = ticks w"
  "ticks_running (upd_tick e f w) = ticks_running w" "refticks (upd_tick e f w) = refticks w" "s_flags (upd_tick e f w) = s_flags w"
  by (simp_all add: upd_tick_def)

lemma stop_active_sel [simp]:
  "tick_events (stop_active_loop w) = tick_events w" "ticks (stop_active_loop w) = ticks w"
  "ticks_running (stop_active_loop w) = ticks_running w" "refticks (stop_active_loop w) = refticks w"
  by (simp_all add: stop_active_loop_def)

lemma count_remove1_filter:
  "x \<in> set xs \<Longrightarrow> length (filter P xs) = length (filter P (remove1 x xs)) + (if P x then 1 else 0)"
  by (induction xs) auto

lemma deactivate_tick_ok:
  assumes "ticks_ok w" and "e_list (tick_events w e) \<noteq> None"
  shows "ticks_ok (deactivate_tick e w)"
proof -
  let ?w = "deactivate_tick e w"
  have d: "distinct (ticks w)" "distinct (ticks_running w)" "set (ticks w) \<inter> set (ticks_running w) = {}"
    and l: "\<And>x. (e_list (tick_events w x) = Some TickQueue) = (x \<in> set (ticks w))"
      "\<And>x. (e_list (tick_events w x) = Some TickRunning) = (x \<in> set (ticks_running w))"
    and c: "refticks w = of_nat (length (filter (tick_referenced w) (ticks w @ ticks_running w)))"
    using assms(1) by (auto simp: ticks_ok_def)
  have n: "e \<in> set (ticks w) \<Longrightarrow> remove1 e (ticks_running w) = ticks_running w"
    "e \<in> set (ticks_running w) \<Longrightarrow> remove1 e (ticks w) = ticks w"
    using d(3) by (auto intro!: remove1_idem)
  have s: "ticks ?w = remove1 e (ticks w)" "ticks_running ?w = remove1 e (ticks_running w)"
    "tick_events ?w = (tick_events w)(e := (tick_events w e)\<lparr>e_list := None, e_refs := e_refs (tick_events w e) - 1\<rparr>)"
    "refticks ?w = refticks w - of_bool (tick_referenced w e)"
    using assms(2) l [of e] n by (auto simp: deactivate_tick_def tick_referenced_def Let_def remove1_idem split: option.splits tick_list.splits)
  have r: "tick_referenced ?w = tick_referenced w" by (simp add: tick_referenced_def s fun_eq_iff)
  have e: "e \<in> set (ticks w @ ticks_running w)" using assms(2) l [of e] by (cases "e_list (tick_events w e)"; cases "the (e_list (tick_events w e))") auto
  have rem: "remove1 e (ticks w @ ticks_running w) = remove1 e (ticks w) @ remove1 e (ticks_running w)"
    using n by (auto simp: remove1_append remove1_idem)
  have "refticks ?w = of_nat (length (filter (tick_referenced w) (remove1 e (ticks w) @ remove1 e (ticks_running w))))"
    using count_remove1_filter [OF e, of "tick_referenced w"] by (simp add: s c rem)
  then show ?thesis
    using d l by (auto simp: ticks_ok_def s(1-3) r set_remove1_distinct)
qed

lemma activate_tick_ok:
  assumes "ticks_ok w" and "e_list (tick_events w e) = None"
  shows "ticks_ok (activate_tick e w)"
proof -
  have n: "e \<notin> set (ticks w)" "e \<notin> set (ticks_running w)"
    using assms by (auto simp: ticks_ok_def)
  let ?w = "activate_tick e w"
  have s: "ticks ?w = ticks w @ [e]" "ticks_running ?w = ticks_running w"
    "tick_events ?w = (tick_events w)(e := (tick_events w e)\<lparr>e_list := Some TickQueue, e_refs := e_refs (tick_events w e) + 1\<rparr>)"
    "refticks ?w = refticks w + of_bool (tick_referenced w e)"
    by (simp_all add: activate_tick_def tick_referenced_def Let_def)
  have r: "tick_referenced ?w = tick_referenced w" by (simp add: tick_referenced_def s fun_eq_iff)
  show ?thesis
    using assms n by (auto simp: ticks_ok_def s r)
qed

lemma ticks_ok_queued:
  "ticks_ok w \<Longrightarrow> tick_queued e w \<longleftrightarrow> e \<in> set (ticks w @ ticks_running w)"
  by (cases "e_list (tick_events w e)"; cases "the (e_list (tick_events w e))") (auto simp: ticks_ok_def tick_queued_def)

lemma count_filter_upd:
  assumes "distinct xs" and "\<And>x. x \<noteq> e \<Longrightarrow> P' x = P x" and "\<not> P e" and "P' e"
  shows "length (filter P' xs) = length (filter P xs) + of_bool (e \<in> set xs)"
  using assms by (induction xs) auto

text \<open>Setting and clearing the reference flag.\<close>

lemma xor_flag: "has_flag w (2 ^ n) \<Longrightarrow> w XOR 2 ^ n = clear_flag w (2 ^ n :: 'a::len word)"
proof -
  assume "has_flag w (2 ^ n)"
  then have "bit w n" using and_exp_eq_0_iff_not_bit [of w n] by (simp add: has_flag_def)
  then show ?thesis by (intro bit_eqI) (auto simp: clear_flag_def bit_simps dest: bit_imp_le_length)
qed

lemma set_referenced_ok:
  assumes "ticks_ok w" and "ticks w' = ticks w" and "ticks_running w' = ticks_running w"
    and "\<And>x. e_list (tick_events w' x) = e_list (tick_events w x)"
    and "\<And>x. x \<noteq> e \<Longrightarrow> tick_referenced w' x = tick_referenced w x"
    and "refticks w' = (if tick_queued e w then if tick_referenced w' e then refticks w + 1 else refticks w - 1 else refticks w)"
    and "tick_referenced w' e \<noteq> tick_referenced w e"
  shows "ticks_ok w'"
proof -
  let ?xs = "ticks w @ ticks_running w"
  have d: "distinct ?xs" and c: "refticks w = of_nat (length (filter (tick_referenced w) ?xs))"
    using assms(1) by (auto simp: ticks_ok_def)
  have "refticks w' = of_nat (length (filter (tick_referenced w') ?xs))"
  proof (cases "tick_referenced w' e")
    case True
    then show ?thesis
      using assms(6,7) count_filter_upd [OF d, of e "tick_referenced w'" "tick_referenced w"] assms(5)
        ticks_ok_queued [OF assms(1), of e] by (auto simp: c)
  next
    case False
    then show ?thesis
      using assms(6,7) count_filter_upd [OF d, of e "tick_referenced w" "tick_referenced w'"] assms(5)
        ticks_ok_queued [OF assms(1), of e] by (auto simp: c)
  qed
  with assms(1) show ?thesis by (simp add: ticks_ok_def assms(2-4))
qed

lemma tick_ref_ok:
  assumes "ticks_ok w" shows "ticks_ok (snd (tick_event_ref e w))"
proof (cases "tick_closed_error e w = None \<and> \<not> tick_referenced w e")
  case False
  with assms show ?thesis by (auto simp: tick_event_ref_def tick_referenced_def split: option.split)
next
  case True
  then show ?thesis
    by (intro set_referenced_ok [OF assms, of _ e])
      (auto simp: tick_event_ref_def tick_referenced_def tick_queued_def Let_def)
qed

lemma tick_unref_ok:
  assumes "ticks_ok w" shows "ticks_ok (snd (tick_event_unref e w))"
proof (cases "tick_closed_error e w = None \<and> tick_referenced w e")
  case False
  with assms show ?thesis by (auto simp: tick_event_unref_def tick_referenced_def split: option.split)
next
  case True
  then have x: "e_flags (tick_events w e) XOR 2 = clear_flag (e_flags (tick_events w e)) 2"
    using xor_flag [of "e_flags (tick_events w e)" 1] by (simp add: tick_referenced_def)
  with True show ?thesis
    by (intro set_referenced_ok [OF assms, of _ e])
      (auto simp: tick_event_unref_def tick_referenced_def tick_queued_def Let_def)
qed

text \<open>Taking the first event of the running list.\<close>

lemma extract_tick_ok:
  assumes "ticks_ok w" and "ticks_running w = e # rest"
  shows "ticks_ok (extract_tick e rest w)"
proof -
  let ?w = "extract_tick e rest w"
  have s: "ticks ?w = ticks w" "ticks_running ?w = rest"
    "tick_events ?w = (tick_events w)(e := (tick_events w e)\<lparr>e_list := None\<rparr>)"
    "refticks ?w = refticks w - of_bool (tick_referenced w e)"
    by (simp_all add: extract_tick_def tick_referenced_def Let_def)
  have r: "tick_referenced ?w = tick_referenced w" by (simp add: tick_referenced_def s fun_eq_iff)
  have q: "(e_list (tick_events w x) = Some TickQueue) = (x \<in> set (ticks w))" 
    "(e_list (tick_events w x) = Some TickRunning) = (x = e \<or> x \<in> set rest)" for x
    using assms by (auto simp: ticks_ok_def)
  have d: "distinct (ticks w)" "distinct rest" "e \<notin> set (ticks w)" "e \<notin> set rest" "set (ticks w) \<inter> set rest = {}"
    and c: "refticks w = of_nat (length (filter (tick_referenced w) (ticks w @ e # rest)))"
    using assms by (auto simp: ticks_ok_def)
  then show ?thesis using q by (auto simp: ticks_ok_def s r)
qed

text \<open>Stopping the scheduler empties both lists.\<close>

lemma fold_drop_tick:
  assumes "distinct xs"
  shows "ticks (fold drop_tick xs w) = ticks w \<and> ticks_running (fold drop_tick xs w) = ticks_running w \<and>
    (\<forall>e. e_list (tick_events (fold drop_tick xs w) e) = (if e \<in> set xs then None else e_list (tick_events w e))) \<and>
    (\<forall>e. e_flags (tick_events (fold drop_tick xs w) e) = e_flags (tick_events w e)) \<and>
    refticks (fold drop_tick xs w) = refticks w - of_nat (length (filter (tick_referenced w) xs))"
  using assms
proof (induction xs arbitrary: w)
  case Nil
  then show ?case by simp
next
  case (Cons x xs)
  have r: "tick_referenced (drop_tick x w) = tick_referenced w"
    by (simp add: tick_referenced_def drop_tick_def Let_def fun_eq_iff)
  from Cons.IH [of "drop_tick x w"] Cons.prems show ?case
    by (auto simp: r) (auto simp: drop_tick_def tick_referenced_def Let_def)
qed

lemma dispose_ticks_empty:
  assumes "ticks_ok w"
  shows "ticks (dispose_ticks w) = [] \<and> ticks_running (dispose_ticks w) = [] \<and> refticks (dispose_ticks w) = 0 \<and>
    (\<forall>e. e_list (tick_events (dispose_ticks w) e) = None)"
proof -
  define w1 where "w1 = (fold drop_tick (ticks_running w) w)\<lparr>ticks_running := []\<rparr>"
  have d: "distinct (ticks w)" "distinct (ticks_running w)"
    and c: "refticks w = of_nat (length (filter (tick_referenced w) (ticks w @ ticks_running w)))"
    using assms by (auto simp: ticks_ok_def)
  note f = fold_drop_tick [OF d(2), of w]
  have t: "ticks w1 = ticks w" "tick_referenced w1 = tick_referenced w"
    using f by (auto simp: w1_def tick_referenced_def fun_eq_iff)
  note g = fold_drop_tick [of "ticks w" w1, OF d(1)]
  have "e_list (tick_events w e) = None" if "e \<notin> set (ticks w)" "e \<notin> set (ticks_running w)" for e
    using ticks_ok_queued [OF assms, of e] that by (simp add: tick_queued_def)
  with f g t c show ?thesis
    by (auto simp: dispose_ticks_def w1_def [symmetric] Let_def) (auto simp: w1_def)
qed

lemma ticks_ok_empty:
  "ticks w = [] \<Longrightarrow> ticks_running w = [] \<Longrightarrow> refticks w = 0 \<Longrightarrow> \<forall>e. e_list (tick_events w e) = None \<Longrightarrow> ticks_ok w"
  by (simp add: ticks_ok_def)

lemma handle_error_ticks:
  assumes "ticks_ok w"
  shows "ticks_ok (async_task_scheduler_handle_error err w)" "ticks_ok (async_task_scheduler_handle_exit w)"
    "refticks (async_task_scheduler_handle_error err w) = 0"
proof -
  have e: "ticks_ok (stop_active_loop (let w1 = w\<lparr>s_flags := f\<rparr> in if s_error w1 = IS_UNDEF then w1\<lparr>s_error := err\<rparr> else w1))" for f
    using assms by (subst ticks_ok_cong [where w = w]) (simp_all add: tick_referenced_def Let_def)
  have x: "ticks_ok (stop_active_loop (w\<lparr>g_exit := True, s_flags := f\<rparr>))" for f
    using assms by (subst ticks_ok_cong [where w = w]) (simp_all add: tick_referenced_def)
  show "ticks_ok (async_task_scheduler_handle_error err w)" "refticks (async_task_scheduler_handle_error err w) = 0"
    using dispose_ticks_empty [OF e] by (auto simp: async_task_scheduler_handle_error_def Let_def intro!: ticks_ok_empty)
  show "ticks_ok (async_task_scheduler_handle_exit w)"
    using dispose_ticks_empty [OF x] by (auto simp: async_task_scheduler_handle_exit_def intro!: ticks_ok_empty)
qed

lemma begin_ticks_ok:
  assumes "ticks_ok w" and "ticks_running w = []"
  shows "ticks_ok (begin_ticks w)"
proof -
  have r: "tick_referenced (begin_ticks w) = tick_referenced w"
    by (auto simp: tick_referenced_def begin_ticks_def fun_eq_iff)
  have "e_list (tick_events w e) \<noteq> Some TickRunning" for e
    using assms by (auto simp: ticks_ok_def)
  with assms show ?thesis
    by (auto simp: ticks_ok_def r) (auto simp: begin_ticks_def split: if_splits)
qed

lemma task_scheduler_tick_ok:
  assumes "ticks_ok w" and "e_list (tick_events w e) = None"
  shows "ticks_ok (snd (task_scheduler_tick e cb w))"
proof -
  let ?w = "\<lambda>f. upd_tick e (\<lambda>_. \<lparr>e_flags = TICK_EVENT_REFERENCED, e_list = None, e_callback = f, e_refs = 1\<rparr>) w"
  have "e \<notin> set (ticks w @ ticks_running w)" using ticks_ok_queued [OF assms(1), of e] assms(2) by (simp add: tick_queued_def)
  then have "ticks_ok (?w f)" for f
    using assms by (subst ticks_ok_cong [where w = w]) (auto simp: tick_referenced_def)
  then have "ticks_ok (activate_tick e (?w f))" for f by (rule activate_tick_ok) simp
  with assms(1) show ?thesis
    by (auto simp: task_scheduler_tick_def async_tick_event_object_create_def split: option.split sum.split)
qed

lemma tick_step_ok:
  assumes "tick_step w w'" and "ticks_ok w"
  shows "ticks_ok w'"
  using assms
proof (induction rule: tick_step.induct)
  case (step_create w e cb)
  then show ?case by (rule task_scheduler_tick_ok [rotated])
next
  case (step_start w e)
  then show ?case by (auto simp: tick_event_start_def tick_queued_def split: option.split intro: activate_tick_ok)
next
  case (step_stop w e)
  then show ?case by (auto simp: tick_event_stop_def tick_queued_def split: option.split intro: deactivate_tick_ok)
next
  case (step_close w e)
  let ?w = "upd_tick e (\<lambda>x. x\<lparr>e_flags := set_flag (e_flags x) TICK_EVENT_CLOSED\<rparr>) w"
  have "ticks_ok ?w"
    using step_close by (subst ticks_ok_cong [where w = w]) (auto simp: tick_referenced_def flag_simps)
  then show ?case by (auto simp: tick_event_close_def tick_queued_def Let_def intro: deactivate_tick_ok)
next
  case (step_ref w e)
  then show ?case by (rule tick_ref_ok)
next
  case (step_unref w e)
  then show ?case by (rule tick_unref_ok)
next
  case (step_begin w)
  then show ?case by (simp add: begin_ticks_ok)
next
  case (step_extract w e rest)
  then show ?case by (simp add: extract_tick_ok)
next
  case (step_deref w e)
  then show ?case by (subst ticks_ok_cong [where w = w]) (auto simp: deref_tick_def tick_referenced_def)
next
  case (step_error w err)
  then show ?case by (simp add: handle_error_ticks)
next
  case (step_exit w)
  then show ?case by (simp add: handle_error_ticks)
qed

lemma ticks_ok_boot: "ticks_ok (boot m)"
  by (simp add: ticks_ok_empty)

lemma tick_steps_ok: "rtranclp tick_step w w' \<Longrightarrow> ticks_ok w \<Longrightarrow> ticks_ok w'"
  by (induction rule: rtranclp.induct) (auto intro: tick_step_ok)

text \<open>
  C17. In every state that the operations on tick events and the scheduler reach, the counter
  \<open>refticks\<close> is the number of queued events that are referenced, and an event is queued at most
  once, in the list its \<open>list\<close> field names; the counter never wraps below zero, and it is zero when
  an error has stopped the scheduler.
\<close>

theorem refticks_counts:
  assumes "rtranclp tick_step (boot m) w"
  shows "refticks w = of_nat (length (filter (tick_referenced w) (ticks w @ ticks_running w))) \<and>
    distinct (ticks w @ ticks_running w) \<and>
    (\<forall>e. tick_queued e w \<longleftrightarrow> e \<in> set (ticks w @ ticks_running w)) \<and>
    refticks (async_task_scheduler_handle_error err w) = 0"
proof -
  have "ticks_ok w" using tick_steps_ok [OF assms ticks_ok_boot] .
  then show ?thesis using ticks_ok_queued [of w] handle_error_ticks(3) [of w err] by (simp add: ticks_ok_def)
qed

theorem refticks_counts_witness:
  "refticks (snd (tick_event_start 5 (snd (task_scheduler_tick 5 (Inl 1) (boot ()))))) = 1"
proof -
  let ?w = "snd (task_scheduler_tick 5 (Inl 1) (boot ()))"
  have "tick_step (boot ()) ?w" by (rule step_create) simp
  moreover have "tick_step ?w (snd (tick_event_start 5 ?w))" by (rule step_start)
  ultimately have "rtranclp tick_step (boot ()) (snd (tick_event_start 5 ?w))" by (meson rtranclp.intros)
  from refticks_counts [OF this, of IS_NULL]
  show ?thesis
    by (simp add: task_scheduler_tick_def async_tick_event_object_create_def activate_tick_def tick_event_start_def
        tick_closed_error_def tick_queued_def tick_referenced_def sched_flag_def has_flag_def Let_def)
qed

end
