(* ===== verification/Sync.thy ===== *)
theory Sync
  imports Task
begin

text \<open>
  Condition variables (\<open>sync.c\<close>): waiting executions are queued, \<open>signal\<close> wakes the first,
  \<open>broadcast\<close> all of them, closing fails them. While a broadcast is being delivered, the
  waiters are put on the ready queue instead of being switched to, so that a waiter that waits
  again is not woken twice; \<open>broadcast\<close> counts the deliveries that are still under way.
\<close>

section \<open>State\<close>

record async_sync_condition =
  cond_error :: zval
  cond_broadcast :: u32
  cond_shutdown :: bool

record cond_store = task_store +
  conds :: "nat \<Rightarrow> async_sync_condition"

definition upd_cond ::
  "nat \<Rightarrow> (async_sync_condition \<Rightarrow> async_sync_condition) \<Rightarrow> 'a cond_store_scheme \<Rightarrow> 'a cond_store_scheme" where
  "upd_cond c f w = w\<lparr>conds := (conds w)(c := f (conds w c))\<rparr>"

type_synonym 'a cond_wake = "opid \<Rightarrow> 'a cond_store_scheme \<Rightarrow> 'a cond_store_scheme"
type_synonym 'a cond_yield = "transfer \<Rightarrow> 'a cond_store_scheme \<Rightarrow> 'a cond_store_scheme"

section \<open>Operations\<close>

definition async_sync_condition_object_create :: "nat \<Rightarrow> 'a cond_store_scheme \<Rightarrow> 'a cond_store_scheme" where
  "async_sync_condition_object_create c w =
     (upd_cond c (\<lambda>_. \<lparr>cond_error = IS_UNDEF, cond_broadcast = 0, cond_shutdown = True\<rparr>) w)
       \<lparr>s_shutdown := list_append (ShutdownCb CCondition c) (s_shutdown w)\<rparr>"

definition shutdown_cond_cb ::
  "'a cond_wake \<Rightarrow> nat \<Rightarrow> zval option \<Rightarrow> 'a cond_store_scheme \<Rightarrow> 'a cond_store_scheme option" where
  "shutdown_cond_cb run c error w =
     (let w1 = upd_cond c (\<lambda>x. x\<lparr>cond_shutdown := False\<rparr>) w;
          w2 = (if cond_error (conds w1 c) = IS_UNDEF
                then upd_cond c (\<lambda>x. x\<lparr>cond_error := (case error of Some e \<Rightarrow> e
                       | None \<Rightarrow> IS_ERROR ErrorCe ''Condition has been closed'' None)\<rparr>) w1
                else w1)
      in drain_first (\<lambda>op w. async_fail_op run op (cond_error (conds w c)) w) (CondWaiting c) w2)"

definition async_sync_condition_object_dtor ::
  "'a cond_wake \<Rightarrow> nat \<Rightarrow> 'a cond_store_scheme \<Rightarrow> 'a cond_store_scheme option" where
  "async_sync_condition_object_dtor run c w =
     (if cond_shutdown (conds w c)
      then shutdown_cond_cb run c None (w\<lparr>s_shutdown := remove1 (ShutdownCb CCondition c) (s_shutdown w)\<rparr>)
      else Some w)"

definition condition_close ::
  "'a cond_wake \<Rightarrow> nat \<Rightarrow> zval option \<Rightarrow> 'a cond_store_scheme \<Rightarrow> 'a cond_store_scheme option" where
  "condition_close run c val w =
     (if cond_shutdown (conds w c)
      then
        let e = IS_ERROR ErrorCe ''Condition has been closed'' None;
            err = (case val of None \<Rightarrow> e | Some v \<Rightarrow> if v = IS_NULL then e else set_previous e v)
        in shutdown_cond_cb run c (Some err) (w\<lparr>s_shutdown := remove1 (ShutdownCb CCondition c) (s_shutdown w)\<rparr>)
      else Some w)"

definition condition_wait ::
  "'a cond_yield \<Rightarrow> nat \<Rightarrow> 'a cond_store_scheme \<Rightarrow> (outcome \<times> 'a cond_store_scheme) option" where
  "condition_wait yield c w =
     (if cond_error (conds w c) \<noteq> IS_UNDEF then Some (Throw (cond_error (conds w c)), w)
      else
        let ctx = g_context w;
            (op, w1) = async_alloc_op w;
            w2 = async_append_op (CondWaiting c) op w1;
            w3 = (if async_context_is_background ctx w2 then w2 else async_busy_enter w2)
        in map_option (\<lambda>(r, w4).
             if r = Await_bailout then (Bail, w4)
             else
               let w5 = (if async_context_is_background ctx w4 then w4 else async_busy_exit w4);
                   w6 = (if has_flag (op_flags (ops w5 op)) ASYNC_OP_FLAG_DEFER
                         then upd_cond c (\<lambda>x. x\<lparr>cond_broadcast := cond_broadcast x - 1\<rparr>) w5 else w5)
               in (if r = Await_failure then Throw (op_result (ops w4 op)) else Ret IS_NULL, async_free_op op w6))
             (async_await_op yield op w3))"

text \<open>A deferred wake-up: the first waiter is flagged and the delivery is counted.\<close>

definition defer_first :: "nat \<Rightarrow> opid \<Rightarrow> 'a cond_store_scheme \<Rightarrow> 'a cond_store_scheme" where
  "defer_first c op w = upd_op op (\<lambda>x. x\<lparr>op_flags := set_flag (op_flags x) ASYNC_OP_FLAG_DEFER\<rparr>)
     (upd_cond c (\<lambda>x. x\<lparr>cond_broadcast := cond_broadcast x + 1\<rparr>) w)"

definition condition_signal ::
  "'a cond_wake \<Rightarrow> nat \<Rightarrow> 'a cond_store_scheme \<Rightarrow> outcome \<times> 'a cond_store_scheme" where
  "condition_signal run c w =
     (if cond_error (conds w c) \<noteq> IS_UNDEF then (Throw (cond_error (conds w c)), w)
      else case queues w (CondWaiting c) of
        [] \<Rightarrow> (Ret (IS_LONG 0), w)
      | op # _ \<Rightarrow> (Ret (IS_LONG 1),
          async_finish_op run op (if cond_broadcast (conds w c) \<noteq> 0 then defer_first c op w else w)))"

partial_function (option) broadcast_loop ::
  "'a cond_wake \<Rightarrow> nat \<Rightarrow> int \<Rightarrow> 'a cond_store_scheme \<Rightarrow> (int \<times> 'a cond_store_scheme) option" where
  "broadcast_loop run c count w = (case queues w (CondWaiting c) of
     [] \<Rightarrow> Some (count, w)
   | op # _ \<Rightarrow> broadcast_loop run c (count + 1) (async_finish_op run op (defer_first c op w)))"

definition condition_broadcast ::
  "'a cond_wake \<Rightarrow> nat \<Rightarrow> 'a cond_store_scheme \<Rightarrow> (outcome \<times> 'a cond_store_scheme) option" where
  "condition_broadcast run c w =
     (if cond_error (conds w c) \<noteq> IS_UNDEF then Some (Throw (cond_error (conds w c)), w)
      else map_option (\<lambda>(n, w'). (Ret (IS_LONG n), w')) (broadcast_loop run c 0 w))"

end
