(* ===== verification/Deferred.thy ===== *)
theory Deferred
  imports Loop
begin

text \<open>
  Deferreds (\<open>deferred.c\<close>): a deferred and its awaitables share a state that is settled once
  and wakes the operations queued on it. \<open>combine\<close> and \<open>transform\<close> derive awaitables from
  others by operations whose callback (\<open>combine_cb\<close>, \<open>transform_cb\<close>) calls user code.

  The PHP objects are named by numbers. When an object dies is decided by PHP's reference
  counts on objects, which are not modelled; the destructors are operations of their own. The
  reference count of the shared state is modelled, and the references the code takes on the
  cancel callback (\<open>ASYNC_ADDREF_CB\<close>, \<open>ASYNC_DELREF_CB\<close>).
\<close>

section \<open>State\<close>

record async_deferred_state =
  ds_status :: await_status
  ds_refcount :: u32
  ds_file :: "string option"
  ds_line :: int
  ds_result :: zval
  ds_context :: nat
  ds_cancel :: bool
  ds_freed :: bool

record async_deferred =
  d_state :: nat
  d_cancel :: bool
  d_func :: "nat option"
  d_cb_refs :: int

record async_defer_combine =
  cm_defer :: nat
  cm_counter :: u32
  cm_started :: u32
  cm_func :: nat
  cm_freed :: bool

record defer_store = await_store +
  dstates :: "nat \<Rightarrow> async_deferred_state"
  next_dstate :: nat
  deferreds :: "nat \<Rightarrow> async_deferred"
  next_deferred :: nat
  dawaitables :: "nat \<Rightarrow> nat option"
  next_dawaitable :: nat
  combines :: "nat \<Rightarrow> async_defer_combine"
  next_combine :: nat
  op_keys :: "opid \<Rightarrow> zval"
  transforms :: "opid \<Rightarrow> nat \<times> nat"

type_synonym 'a defer_wake = "opid \<Rightarrow> 'a defer_store_scheme \<Rightarrow> 'a defer_store_scheme"

definition upd_dstate ::
  "nat \<Rightarrow> (async_deferred_state \<Rightarrow> async_deferred_state) \<Rightarrow> 'a defer_store_scheme \<Rightarrow> 'a defer_store_scheme" where
  "upd_dstate s f w = w\<lparr>dstates := (dstates w)(s := f (dstates w s))\<rparr>"

definition upd_deferred ::
  "nat \<Rightarrow> (async_deferred \<Rightarrow> async_deferred) \<Rightarrow> 'a defer_store_scheme \<Rightarrow> 'a defer_store_scheme" where
  "upd_deferred d f w = w\<lparr>deferreds := (deferreds w)(d := f (deferreds w d))\<rparr>"

lemma upd_dstate_sel [simp, store_simps]:
  "dstates (upd_dstate s f w) = (dstates w)(s := f (dstates w s))"
  "deferreds (upd_dstate s f w) = deferreds w" "ops (upd_dstate s f w) = ops w"
  "queues (upd_dstate s f w) = queues w" "next_opid (upd_dstate s f w) = next_opid w"
  "s_shutdown (upd_dstate s f w) = s_shutdown w" "cancels (upd_dstate s f w) = cancels w"
  "contexts (upd_dstate s f w) = contexts w" "next_cancel (upd_dstate s f w) = next_cancel w"
  "tasks (upd_dstate s f w) = tasks w" "ready (upd_dstate s f w) = ready w"
  by (simp_all add: upd_dstate_def)

lemma upd_deferred_sel [simp, store_simps]:
  "deferreds (upd_deferred d f w) = (deferreds w)(d := f (deferreds w d))"
  "dstates (upd_deferred d f w) = dstates w" "ops (upd_deferred d f w) = ops w"
  "queues (upd_deferred d f w) = queues w" "next_opid (upd_deferred d f w) = next_opid w"
  "s_shutdown (upd_deferred d f w) = s_shutdown w" "cancels (upd_deferred d f w) = cancels w"
  "contexts (upd_deferred d f w) = contexts w" "next_cancel (upd_deferred d f w) = next_cancel w"
  "tasks (upd_deferred d f w) = tasks w" "ready (upd_deferred d f w) = ready w"
  by (simp_all add: upd_deferred_def)

abbreviation disposed_error :: zval where
  "disposed_error \<equiv> IS_ERROR ErrorCe ''Awaitable has been disposed before it was resolved'' None"

section \<open>The shared state\<close>

definition unlink_state_cancel :: "nat \<Rightarrow> 'a defer_store_scheme \<Rightarrow> 'a defer_store_scheme" where
  "unlink_state_cancel s w =
     (if ds_cancel (dstates w s)
      then upd_dstate s (\<lambda>x. x\<lparr>ds_cancel := False\<rparr>)
             (w\<lparr>s_shutdown := remove1 (ShutdownCb CDeferredState s) (s_shutdown w)\<rparr>)
      else w)"

definition settle_deferred_op :: "'a defer_wake \<Rightarrow> nat \<Rightarrow> opid \<Rightarrow> 'a defer_store_scheme \<Rightarrow> 'a defer_store_scheme" where
  "settle_deferred_op run s op w =
     (if ds_status (dstates w s) = OP_RESOLVED then async_resolve_op run op (ds_result (dstates w s)) w
      else async_fail_op run op (ds_result (dstates w s)) w)"

definition deferred_trigger_ops ::
  "'a defer_wake \<Rightarrow> nat \<Rightarrow> 'a defer_store_scheme \<Rightarrow> 'a defer_store_scheme option" where
  "deferred_trigger_ops run s w = drain_ops (settle_deferred_op run s) (DeferredOps s) (unlink_state_cancel s w)"

definition shutdown_deferred_state ::
  "'a defer_wake \<Rightarrow> nat \<Rightarrow> zval \<Rightarrow> 'a defer_store_scheme \<Rightarrow> 'a defer_store_scheme option" where
  "shutdown_deferred_state run s err w = deferred_trigger_ops run s
     (upd_dstate s (\<lambda>x. x\<lparr>ds_cancel := False, ds_status := OP_FAILED, ds_result := err\<rparr>) w)"

definition create_deferred_state :: "nat \<Rightarrow> 'a defer_store_scheme \<Rightarrow> nat \<times> 'a defer_store_scheme" where
  "create_deferred_state ctx w =
     (let s = next_dstate w
      in (s, (upd_dstate s (\<lambda>_. \<lparr>ds_status = OP_PENDING, ds_refcount = 1, ds_file = None, ds_line = 0,
               ds_result = IS_NULL, ds_context = ctx, ds_cancel = True, ds_freed = False\<rparr>) w)
             \<lparr>next_dstate := Suc s,
              s_shutdown := list_append (ShutdownCb CDeferredState s) (s_shutdown w)\<rparr>))"

text \<open>\<open>call\<close> is the calling user function, if it is one: its file, if known, and the line.\<close>

definition capture_call_context ::
  "nat \<Rightarrow> (string option \<times> int) option \<Rightarrow> 'a defer_store_scheme \<Rightarrow> 'a defer_store_scheme" where
  "capture_call_context s call w = (case call of
     None \<Rightarrow> w
   | Some (file, line) \<Rightarrow> upd_dstate s (\<lambda>x. x\<lparr>
       ds_file := (case file of None \<Rightarrow> ds_file x | Some f \<Rightarrow> Some f), ds_line := line\<rparr>) w)"

text \<open>
  The assignment \<open>status = status == FAILED\<close> stores the value of the comparison, which is 0
  (pending) here.
\<close>

definition release_deferred_state :: "'a defer_wake \<Rightarrow> nat \<Rightarrow> 'a defer_store_scheme \<Rightarrow> 'a defer_store_scheme option" where
  "release_deferred_state run s w =
     (let w1 = upd_dstate s (\<lambda>x. x\<lparr>ds_refcount := ds_refcount x - 1\<rparr>) w
      in if ds_refcount (dstates w1 s) \<noteq> 0 then Some w1
         else
           let w2 = unlink_state_cancel s w1
           in map_option (upd_dstate s (\<lambda>x. x\<lparr>ds_freed := True\<rparr>))
                (if ds_status (dstates w2 s) = OP_PENDING \<and> queues w2 (DeferredOps s) \<noteq> []
                 then drain_ops (\<lambda>op w. async_fail_op run op (ds_result (dstates w s)) w) (DeferredOps s)
                        (upd_dstate s (\<lambda>x. x\<lparr>ds_result := disposed_error\<rparr>) w2)
                 else Some w2))"

definition deferred_await_delegate :: "nat \<Rightarrow> 'a defer_store_scheme \<Rightarrow> await_status \<times> zval" where
  "deferred_await_delegate s w = (case ds_status (dstates w s) of
     OP_PENDING \<Rightarrow> (OP_PENDING, IS_UNDEF)
   | st \<Rightarrow> (st, ds_result (dstates w s)))"

definition deferred_await_schedule :: "nat \<Rightarrow> opid \<Rightarrow> 'a op_store_scheme \<Rightarrow> 'a op_store_scheme" where
  "deferred_await_schedule s op w = async_append_op (DeferredOps s) op w"

definition async_deferred_awaitable_object_create ::
  "nat \<Rightarrow> 'a defer_store_scheme \<Rightarrow> nat \<times> 'a defer_store_scheme" where
  "async_deferred_awaitable_object_create s w =
     (let w1 = upd_dstate s (\<lambda>x. x\<lparr>ds_refcount := ds_refcount x + 1\<rparr>) w
      in (next_dawaitable w1, w1\<lparr>dawaitables := (dawaitables w1)(next_dawaitable w1 := Some s),
                                 next_dawaitable := Suc (next_dawaitable w1)\<rparr>))"

definition async_deferred_awaitable_object_destroy ::
  "'a defer_wake \<Rightarrow> nat \<Rightarrow> 'a defer_store_scheme \<Rightarrow> 'a defer_store_scheme option" where
  "async_deferred_awaitable_object_destroy run a w = (case dawaitables w a of
     None \<Rightarrow> Some w
   | Some s \<Rightarrow> release_deferred_state run s (w\<lparr>dawaitables := (dawaitables w)(a := None)\<rparr>))"

text \<open>
  Properties of the PHP objects: \<open>isset\<close> and \<open>empty\<close> on \<open>status\<close>, \<open>file\<close> and \<open>line\<close>.
  The handler of deferreds tests \<open>off_defer_line\<close> twice, so \<open>file\<close> always counts as set.
\<close>

datatype defer_prop = Prop_status | Prop_file | Prop_line | Prop_other
datatype prop_check = PROPERTY_EXISTS | PROPERTY_ISSET | PROPERTY_NOT_EMPTY

definition deferred_awaitable_has_prop :: "async_deferred_state \<Rightarrow> defer_prop option \<Rightarrow> prop_check \<Rightarrow> bool" where
  "deferred_awaitable_has_prop s p c = (case p of
     None \<Rightarrow> False
   | Some Prop_status \<Rightarrow> True
   | Some q \<Rightarrow>
       if c \<noteq> PROPERTY_EXISTS \<and> q = Prop_line then (if c = PROPERTY_NOT_EMPTY then ds_line s > 0 else True)
       else if c \<noteq> PROPERTY_EXISTS \<and> q = Prop_file then ds_file s \<noteq> None
       else True)"

definition deferred_has_prop :: "async_deferred_state \<Rightarrow> defer_prop option \<Rightarrow> prop_check \<Rightarrow> bool" where
  "deferred_has_prop s p c = (case p of
     None \<Rightarrow> False
   | Some Prop_status \<Rightarrow> True
   | Some q \<Rightarrow>
       if c \<noteq> PROPERTY_EXISTS \<and> q = Prop_line then (if c = PROPERTY_NOT_EMPTY then ds_line s > 0 else True)
       else if c \<noteq> PROPERTY_EXISTS \<and> q = Prop_line then ds_file s \<noteq> None
       else True)"

definition deferred_read_prop :: "async_deferred_state \<Rightarrow> defer_prop option \<Rightarrow> zval" where
  "deferred_read_prop s p = (case p of
     Some Prop_status \<Rightarrow> IS_STRING (async_status_label (ds_status s))
   | Some Prop_file \<Rightarrow> (case ds_file s of Some f \<Rightarrow> IS_STRING f | None \<Rightarrow> IS_NULL)
   | Some Prop_line \<Rightarrow> IS_LONG (ds_line s)
   | _ \<Rightarrow> IS_NULL)"

section \<open>Deferred objects\<close>

definition cleanup_cancel :: "nat \<Rightarrow> 'a defer_store_scheme \<Rightarrow> 'a defer_store_scheme" where
  "cleanup_cancel d w =
     (if d_cancel (deferreds w d) \<and> d_func (deferreds w d) \<noteq> None
      then case x_cancel (contexts w (ds_context (dstates w (d_state (deferreds w d))))) of
          None \<Rightarrow> w
        | Some c \<Rightarrow> upd_deferred d (\<lambda>x. x\<lparr>d_cancel := False\<rparr>)
            (upd_cancel c (\<lambda>x. x\<lparr>c_callbacks := remove1 (DeferredCb d) (c_callbacks x)\<rparr>) w)
      else w)"

text \<open>
  The cancel callback gets the deferred and the error; an exception in it is a fatal error
  (\<open>None\<close>), a bailout leaves the function.
\<close>

definition cancel_defer ::
  "(nat \<Rightarrow> nat \<Rightarrow> zval \<Rightarrow> 'a defer_store_scheme \<Rightarrow> outcome \<times> 'a defer_store_scheme) \<Rightarrow> nat \<Rightarrow> zval \<Rightarrow>
   'a defer_store_scheme \<Rightarrow> 'a defer_store_scheme option" where
  "cancel_defer call d err w =
     (let w1 = upd_deferred d (\<lambda>x. x\<lparr>d_cancel := False\<rparr>) w
      in case d_func (deferreds w1 d) of
           None \<Rightarrow> None
         | Some f \<Rightarrow> (case async_call_nowait (call f d err) w1 of
             (Throw _, _) \<Rightarrow> None
           | (Bail, w2) \<Rightarrow> Some w2
           | (Ret _, w2) \<Rightarrow> Some (upd_deferred d (\<lambda>x. x\<lparr>d_cb_refs := d_cb_refs x - 1\<rparr>) w2)))"

definition async_deferred_object_create :: "'a defer_store_scheme \<Rightarrow> nat \<times> 'a defer_store_scheme" where
  "async_deferred_object_create w =
     (let (s, w1) = create_deferred_state (g_context w) w;
          d = next_deferred w1
      in (d, (upd_deferred d (\<lambda>_. \<lparr>d_state = s, d_cancel = False, d_func = None, d_cb_refs = 0\<rparr>) w1)
               \<lparr>next_deferred := Suc d\<rparr>))"

definition deferred_construct ::
  "(nat \<Rightarrow> nat \<Rightarrow> zval \<Rightarrow> 'a defer_store_scheme \<Rightarrow> outcome \<times> 'a defer_store_scheme) \<Rightarrow> nat \<Rightarrow>
   (string option \<times> int) option \<Rightarrow> nat option \<Rightarrow> 'a defer_store_scheme \<Rightarrow> 'a defer_store_scheme option" where
  "deferred_construct call d caller func w =
     (let w1 = upd_deferred d (\<lambda>x. x\<lparr>d_func := func\<rparr>) w;
          s = d_state (deferreds w1 d);
          w2 = capture_call_context s caller w1
      in if func = None then Some w2
         else case x_cancel (contexts w2 (ds_context (dstates w2 s))) of
             None \<Rightarrow> Some w2
           | Some c \<Rightarrow>
               if triggered (cancels w2 c) then cancel_defer call d (c_error (cancels w2 c)) w2
               else Some (upd_cancel c (\<lambda>x. x\<lparr>c_callbacks := list_append (DeferredCb d) (c_callbacks x)\<rparr>)
                      (upd_deferred d (\<lambda>x. x\<lparr>d_cancel := True, d_cb_refs := d_cb_refs x + 1\<rparr>) w2)))"

definition async_deferred_object_destroy ::
  "'a defer_wake \<Rightarrow> nat \<Rightarrow> 'a defer_store_scheme \<Rightarrow> 'a defer_store_scheme option" where
  "async_deferred_object_destroy run d w =
     (let w1 = cleanup_cancel d w;
          s = d_state (deferreds w1 d)
      in Option.bind
           (if ds_status (dstates w1 s) = OP_PENDING
            then deferred_trigger_ops run s
                   (upd_dstate s (\<lambda>x. x\<lparr>ds_status := OP_FAILED, ds_result := disposed_error\<rparr>) w1)
            else Some w1)
           (release_deferred_state run s))"

definition deferred_awaitable :: "nat \<Rightarrow> 'a defer_store_scheme \<Rightarrow> nat \<times> 'a defer_store_scheme" where
  "deferred_awaitable d w = async_deferred_awaitable_object_create (d_state (deferreds w d)) w"

text \<open>\<open>is_awaitable\<close> tells whether a value is an object implementing \<open>Awaitable\<close>.\<close>

abbreviation resolve_awaitable_error :: string where
  "resolve_awaitable_error \<equiv> ''Deferred must not be resolved with an object implementing Awaitable''"

definition deferred_resolve ::
  "(zval \<Rightarrow> bool) \<Rightarrow> 'a defer_wake \<Rightarrow> nat \<Rightarrow> zval option \<Rightarrow> 'a defer_store_scheme \<Rightarrow>
   (outcome \<times> 'a defer_store_scheme) option" where
  "deferred_resolve is_awaitable run d val w =
     (if (case val of Some v \<Rightarrow> is_awaitable v | None \<Rightarrow> False)
      then Some (Throw (IS_ERROR ErrorCe resolve_awaitable_error None), w)
      else
        let s = d_state (deferreds w d)
        in if ds_status (dstates w s) \<noteq> OP_PENDING then Some (Ret IS_NULL, w)
           else
             let w1 = (case val of None \<Rightarrow> w | Some v \<Rightarrow> upd_dstate s (\<lambda>x. x\<lparr>ds_result := v\<rparr>) w);
                 w2 = upd_dstate s (\<lambda>x. x\<lparr>ds_status := OP_RESOLVED\<rparr>) w1
             in map_option (Pair (Ret IS_NULL)) (deferred_trigger_ops run s (cleanup_cancel d w2)))"

definition deferred_fail ::
  "'a defer_wake \<Rightarrow> nat \<Rightarrow> zval \<Rightarrow> 'a defer_store_scheme \<Rightarrow> 'a defer_store_scheme option" where
  "deferred_fail run d err w =
     (let s = d_state (deferreds w d)
      in if ds_status (dstates w s) \<noteq> OP_PENDING then Some w
         else deferred_trigger_ops run s
           (cleanup_cancel d (upd_dstate s (\<lambda>x. x\<lparr>ds_result := err, ds_status := OP_FAILED\<rparr>) w)))"

definition deferred_value ::
  "(zval \<Rightarrow> bool) \<Rightarrow> zval option \<Rightarrow> 'a await_store_scheme \<Rightarrow> (zval + nat) \<times> 'a await_store_scheme" where
  "deferred_value is_awaitable val w =
     (if (case val of Some v \<Rightarrow> is_awaitable v | None \<Rightarrow> False)
      then (Inl (IS_ERROR ErrorCe resolve_awaitable_error None), w)
      else let (a, w1) = async_create_resolved_awaitable val w in (Inr a, w1))"

definition deferred_error :: "zval \<Rightarrow> 'a await_store_scheme \<Rightarrow> nat \<times> 'a await_store_scheme" where
  "deferred_error err w = async_create_failed_awaitable err w"

section \<open>Combining awaitables\<close>

text \<open>
  \<open>call f (d, last, key, error, value)\<close> is the continuation of \<open>combine\<close>.
\<close>

type_synonym combine_args = "nat \<times> bool \<times> zval \<times> zval \<times> zval"

definition fail_if_pending ::
  "'a defer_wake \<Rightarrow> nat \<Rightarrow> zval \<Rightarrow> 'a defer_store_scheme \<Rightarrow> 'a defer_store_scheme option" where
  "fail_if_pending run s err w =
     (if ds_status (dstates w s) = OP_PENDING
      then deferred_trigger_ops run s (upd_dstate s (\<lambda>x. x\<lparr>ds_status := OP_FAILED, ds_result := err\<rparr>) w)
      else Some w)"

definition upd_combine ::
  "nat \<Rightarrow> (async_defer_combine \<Rightarrow> async_defer_combine) \<Rightarrow> 'a defer_store_scheme \<Rightarrow> 'a defer_store_scheme" where
  "upd_combine m f w = w\<lparr>combines := (combines w)(m := f (combines w m))\<rparr>"

definition combine_cb ::
  "'a defer_wake \<Rightarrow> (nat \<Rightarrow> combine_args \<Rightarrow> 'a defer_store_scheme \<Rightarrow> outcome \<times> 'a defer_store_scheme) \<Rightarrow>
   opid \<Rightarrow> 'a defer_store_scheme \<Rightarrow> 'a defer_store_scheme option" where
  "combine_cb run call op w =
     (let m = op_arg (ops w op);
          w1 = upd_combine m (\<lambda>x. x\<lparr>cm_started := cm_started x - 1\<rparr>) w;
          last = (cm_started (combines w1 m) = 0);
          o_ok = (op_status (ops w1 op) = ASYNC_STATUS_RESOLVED);
          res = op_result (ops w1 op);
          d = cm_defer (combines w1 m);
          s = d_state (deferreds w1 d);
          args = (d, last, op_keys w1 op, if o_ok then IS_NULL else res, if o_ok then res else IS_NULL)
      in case async_call_nowait (call (cm_func (combines w1 m)) args) w1 of
           (Bail, w2) \<Rightarrow> Some (async_task_scheduler_handle_exit w2)
         | (r, w2) \<Rightarrow>
             Option.bind (case r of Throw e \<Rightarrow> fail_if_pending run s e (async_free_op op w2)
                                  | _ \<Rightarrow> Some (async_free_op op w2)) (\<lambda>w3.
             let w4 = upd_combine m (\<lambda>x. x\<lparr>cm_counter := cm_counter x - 1\<rparr>) w3
             in if cm_counter (combines w4 m) = 0
                then map_option (upd_combine m (\<lambda>x. x\<lparr>cm_freed := True\<rparr>))
                       (fail_if_pending run s disposed_error w4)
                else Some w4))"

text \<open>
  Starting the combination: one operation per input, settled at once when the input is
  settled, otherwise queued on the input. \<open>delegate\<close> and \<open>schedule\<close> are the await handlers
  of the inputs.
\<close>

fun combine_start ::
  "'a defer_wake \<Rightarrow> ('i \<Rightarrow> 'a defer_store_scheme \<Rightarrow> await_status \<times> zval) \<Rightarrow>
   ('i \<Rightarrow> opid \<Rightarrow> 'a defer_store_scheme \<Rightarrow> 'a defer_store_scheme) \<Rightarrow> nat \<Rightarrow> (zval \<times> 'i) list \<Rightarrow>
   'a defer_store_scheme \<Rightarrow> 'a defer_store_scheme" where
  "combine_start run delegate schedule m [] w = w"
| "combine_start run delegate schedule m ((key, i) # inputs) w =
     (let (op, w1) = async_alloc_op w;
          w2 = (upd_op op (\<lambda>x. x\<lparr>op_callback := Some Combine_cb, op_arg := m\<rparr>) w1)
                 \<lparr>op_keys := (op_keys w1)(op := key)\<rparr>;
          w3 = (case delegate i w2 of
                  (OP_RESOLVED, v) \<Rightarrow> async_resolve_op run op v w2
                | (OP_FAILED, e) \<Rightarrow> async_fail_op run op e w2
                | (OP_PENDING, _) \<Rightarrow> schedule i op w2)
      in combine_start run delegate schedule m inputs w3)"

text \<open>\<open>inputs\<close> is the array; \<open>None\<close> marks an element that is not an awaitable.\<close>

definition deferred_combine ::
  "'a defer_wake \<Rightarrow> ('i \<Rightarrow> 'a defer_store_scheme \<Rightarrow> await_status \<times> zval) \<Rightarrow>
   ('i \<Rightarrow> opid \<Rightarrow> 'a defer_store_scheme \<Rightarrow> 'a defer_store_scheme) \<Rightarrow>
   (string option \<times> int) option \<Rightarrow> (zval \<times> 'i option) list \<Rightarrow> nat \<Rightarrow> 'a defer_store_scheme \<Rightarrow>
   (zval + nat) \<times> 'a defer_store_scheme" where
  "deferred_combine run delegate schedule caller inputs func w =
     (if inputs = [] then (Inl (IS_ERROR ArgumentCountErrorCe ''At least one awaitable is required'' None), w)
      else if \<exists>p\<in>set inputs. snd p = None
      then (Inl (IS_ERROR TypeErrorCe ''All input elements must be awaitable'' None), w)
      else
        let (d, w1) = async_deferred_object_create w;
            s = d_state (deferreds w1 d);
            (a, w2) = async_deferred_awaitable_object_create s w1;
            w3 = capture_call_context s caller w2;
            m = next_combine w3;
            n = of_nat (length inputs);
            w4 = w3\<lparr>combines := (combines w3)(m := \<lparr>cm_defer = d, cm_counter = n, cm_started = n,
                      cm_func = func, cm_freed = False\<rparr>), next_combine := Suc m\<rparr>
        in (Inr a, combine_start run delegate schedule m (map (\<lambda>(k, i). (k, the i)) inputs) w4))"

section \<open>Transforming an awaitable\<close>

definition transform_cb ::
  "'a defer_wake \<Rightarrow> (nat \<Rightarrow> zval \<times> zval \<Rightarrow> 'a defer_store_scheme \<Rightarrow> outcome \<times> 'a defer_store_scheme) \<Rightarrow>
   opid \<Rightarrow> 'a defer_store_scheme \<Rightarrow> 'a defer_store_scheme option" where
  "transform_cb run call op w =
     (let (s, f) = transforms w op;
          res = op_result (ops w op);
          args = (if op_status (ops w op) = ASYNC_STATUS_RESOLVED then (IS_NULL, res) else (res, IS_NULL))
      in case async_call_nowait (call f args) w of
           (Bail, w1) \<Rightarrow> Some (async_task_scheduler_handle_exit w1)
         | (r, w1) \<Rightarrow>
             Option.bind (deferred_trigger_ops run s (upd_dstate s (\<lambda>x. case r of
                   Throw e \<Rightarrow> x\<lparr>ds_status := OP_FAILED, ds_result := e\<rparr>
                 | Ret v \<Rightarrow> x\<lparr>ds_status := OP_RESOLVED, ds_result := v\<rparr>
                 | Bail \<Rightarrow> x) w1)) (\<lambda>w2.
             map_option (async_free_op op) (release_deferred_state run s w2)))"

definition deferred_transform ::
  "'a defer_wake \<Rightarrow> ('i \<Rightarrow> 'a defer_store_scheme \<Rightarrow> await_status \<times> zval) \<Rightarrow>
   ('i \<Rightarrow> opid \<Rightarrow> 'a defer_store_scheme \<Rightarrow> 'a defer_store_scheme) \<Rightarrow>
   (string option \<times> int) option \<Rightarrow> 'i \<Rightarrow> nat \<Rightarrow> 'a defer_store_scheme \<Rightarrow> nat \<times> 'a defer_store_scheme" where
  "deferred_transform run delegate schedule caller i func w =
     (let (s, w1) = create_deferred_state (g_context w) w;
          w2 = capture_call_context s caller w1;
          (a, w3) = async_deferred_awaitable_object_create s w2;
          (op, w4) = async_alloc_op w3;
          w5 = (upd_op op (\<lambda>x. x\<lparr>op_callback := Some Transform_cb\<rparr>) w4)
                 \<lparr>transforms := (transforms w4)(op := (s, func))\<rparr>;
          w6 = (case delegate i w5 of
                  (OP_RESOLVED, v) \<Rightarrow> async_resolve_op run op v w5
                | (OP_FAILED, e) \<Rightarrow> async_fail_op run op e w5
                | (OP_PENDING, _) \<Rightarrow> schedule i op w5)
      in (a, w6))"

end
