(* ===== verification/Promise.thy ===== *)
theory Promise
  imports Boot Deferred
begin

text \<open>
  The contract of awaitables that are settled by the program: those of internal operations
  (\<open>async_awaitable_impl\<close>) and those of \<open>Deferred\<close>. The first settlement decides, everything that
  waits gets that outcome, and later settlements change nothing.
\<close>

section \<open>The contract\<close>

text \<open>What a settlement makes of an operation that waits.\<close>

fun settled_op :: "await_status \<times> zval \<Rightarrow> async_op \<Rightarrow> async_op" where
  "settled_op (OP_RESOLVED, v) x = x\<lparr>op_list := None, op_result := v, op_status := ASYNC_STATUS_RESOLVED\<rparr>"
| "settled_op (OP_FAILED, e) x = x\<lparr>op_list := None, op_result := e, op_status := ASYNC_STATUS_FAILED\<rparr>"
| "settled_op (OP_PENDING, _) x = x"

locale promise =
  fixes outcome :: "'w \<Rightarrow> await_status \<times> zval"
    and waiting :: "'w \<Rightarrow> opid list"
    and op_at :: "'w \<Rightarrow> opid \<Rightarrow> async_op"
    and inv :: "'w \<Rightarrow> bool"
    and free_op :: "opid \<Rightarrow> 'w \<Rightarrow> bool"
    and schedule :: "opid \<Rightarrow> 'w \<Rightarrow> 'w"
    and settle :: "await_status \<times> zval \<Rightarrow> 'w \<Rightarrow> 'w option"
  assumes settle_pending: "inv w \<Longrightarrow> fst (outcome w) = OP_PENDING \<Longrightarrow> fst r \<noteq> OP_PENDING \<Longrightarrow>
      \<exists>w'. settle r w = Some w' \<and> inv w' \<and> outcome w' = r \<and> waiting w' = [] \<and>
        (\<forall>op. op_at w' op = (if op \<in> set (waiting w) then settled_op r (op_at w op) else op_at w op))"
    and settle_settled: "fst (outcome w) \<noteq> OP_PENDING \<Longrightarrow> settle r w = Some w"
    and schedule_waiting: "inv w \<Longrightarrow> free_op op w \<Longrightarrow>
      inv (schedule op w) \<and> outcome (schedule op w) = outcome w \<and> waiting (schedule op w) = waiting w @ [op] \<and>
      (\<forall>x. x \<noteq> op \<longrightarrow> op_at (schedule op w) x = op_at w x) \<and>
      op_at (schedule op w) op = (op_at w op)\<lparr>op_list := op_list (op_at (schedule op w) op)\<rparr>"

text \<open>Several settlements in a row.\<close>

fun settle_all :: "(await_status \<times> zval \<Rightarrow> 'w \<Rightarrow> 'w option) \<Rightarrow> (await_status \<times> zval) list \<Rightarrow> 'w \<Rightarrow> 'w option" where
  "settle_all settle [] w = Some w"
| "settle_all settle (r # rs) w = Option.bind (settle r w) (settle_all settle rs)"

context promise begin

lemma settle_all_settled: "fst (outcome w) \<noteq> OP_PENDING \<Longrightarrow> settle_all settle rs w = Some w"
  by (induction rs) (simp_all add: settle_settled)

text \<open>The first settlement decides.\<close>

lemma first_wins:
  assumes "inv w" and "fst (outcome w) = OP_PENDING" and "fst r \<noteq> OP_PENDING"
  shows "\<exists>w'. settle_all settle (r # rs) w = Some w' \<and> inv w' \<and> outcome w' = r \<and> waiting w' = [] \<and>
    (\<forall>op. op_at w' op = (if op \<in> set (waiting w) then settled_op r (op_at w op) else op_at w op))"
  using settle_pending [OF assms] settle_all_settled [of _ rs] assms(3) by fastforce

text \<open>An operation that is scheduled before the settlement is completed by it.\<close>

lemma scheduled_is_settled:
  assumes "inv w" and "fst (outcome w) = OP_PENDING" and "fst r \<noteq> OP_PENDING" and "free_op op w"
  shows "\<exists>w'. settle_all settle (r # rs) (schedule op w) = Some w' \<and> op_at w' op = settled_op r (op_at w op) \<and>
    outcome w' = r"
proof -
  have s: "inv (schedule op w)" "outcome (schedule op w) = outcome w" "waiting (schedule op w) = waiting w @ [op]"
    "op_at (schedule op w) op = (op_at w op)\<lparr>op_list := op_list (op_at (schedule op w) op)\<rparr>"
    using schedule_waiting [OF assms(1,4)] by blast+
  from first_wins [OF s(1), of r rs] assms(2,3) s(2,3)
  obtain w' where "settle_all settle (r # rs) (schedule op w) = Some w'" "outcome w' = r"
    "op_at w' op = settled_op r (op_at (schedule op w) op)" by auto
  moreover have "settled_op r (op_at (schedule op w) op) = settled_op r (op_at w op)"
    using assms(3) by (subst s(4)) (cases r; cases "fst r"; simp)
  ultimately show ?thesis by auto
qed

end

section \<open>Awaitables of internal operations\<close>

definition impl_settle :: "nat \<Rightarrow> await_status \<times> zval \<Rightarrow> 'a await_store_scheme \<Rightarrow> 'a await_store_scheme option" where
  "impl_settle a r w = (case r of
     (OP_RESOLVED, v) \<Rightarrow> async_awaitable_resolve wake a (Some v) w
   | (OP_FAILED, e) \<Rightarrow> async_awaitable_fail wake a e w
   | (OP_PENDING, _) \<Rightarrow> Some w)"

definition op_free :: "opid \<Rightarrow> 'a op_store_scheme \<Rightarrow> bool" where
  "op_free op w \<longleftrightarrow> op_list (ops w op) = None \<and> op < next_opid w"

lemma await_store_more_eq:
  assumes "task_store.more w' = task_store.more (w :: 'a await_store_scheme)"
  shows "awaitables w' = awaitables w" "next_awaitable w' = next_awaitable w" "await_store.more w' = await_store.more w"
  using assms by (cases w; cases w'; simp)+

lemma append_op_sel [simp]:
  "task_store.more (async_append_op q op w) = task_store.more w"
  "ops (async_append_op q op w) = (ops w)(op := (ops w op)\<lparr>op_list := Some q\<rparr>)"
  "queues (async_append_op q op w) = (queues w)(q := queues w q @ [op])"
  by (simp_all add: async_append_op_def)

text \<open>Settling the first operation of a queue.\<close>

lemma settle_first:
  assumes "ops_wf u" and "queues u q = op # rest"
  shows "ops (async_resolve_op wake op v u) = (ops u)(op := settled_op (OP_RESOLVED, v) (ops u op))"
    and "queues (async_resolve_op wake op v u) = (queues u)(q := rest)"
    and "ops (async_fail_op wake op v u) = (ops u)(op := settled_op (OP_FAILED, v) (ops u op))"
    and "queues (async_fail_op wake op v u) = (queues u)(q := rest)"
proof -
  have l: "op_list (ops u op) = Some q" using assms ops_wf_mem [OF assms(1), of op q] by simp
  have k: "op_list (ops (unlink_op op u) op) = None" by simp
  have q: "queues (unlink_op op u) = (queues u)(q := rest)" "ops (unlink_op op u) = (ops u)(op := (ops u op)\<lparr>op_list := None\<rparr>)"
    using l assms(2) by (auto simp: unlink_op_def)
  show "ops (async_resolve_op wake op v u) = (ops u)(op := settled_op (OP_RESOLVED, v) (ops u op))"
    "queues (async_resolve_op wake op v u) = (queues u)(q := rest)"
    "ops (async_fail_op wake op v u) = (ops u)(op := settled_op (OP_FAILED, v) (ops u op))"
    "queues (async_fail_op wake op v u) = (queues u)(q := rest)"
    by (simp_all add: async_resolve_op_def async_fail_op_def q)
qed

lemma settle_wake_await [simp]:
  "awaitables (async_resolve_op wake op v w) = awaitables w" "awaitables (async_fail_op wake op v w) = awaitables w"
  by (rule await_store_more_eq, simp)+

lemma settled_op_list [simp]: "settled_op r (x\<lparr>op_list := None\<rparr>) = settled_op r x" if "fst r \<noteq> OP_PENDING"
  using that by (cases r; cases "fst r") auto

text \<open>
  The loops of \<open>close\<close>, in both forms: every operation fails with the error, which nobody changes
  meanwhile.
\<close>

lemma drain_fail_wake:
  fixes w :: "'a task_store_scheme"
  assumes "ops_wf w" and "\<And>op u. task_store.more u = task_store.more w \<Longrightarrow> settle op u = async_fail_op wake op e u"
  shows "\<exists>w'. drain_ops settle q w = Some w' \<and> (ops_wf w' \<and> task_store.more w' = task_store.more w) \<and>
    queues w' = (queues w)(q := []) \<and>
    (\<forall>x. ops w' x = (if x \<in> set (queues w q) then settled_op (OP_FAILED, e) (ops w x) else ops w x))"
proof -
  let ?P = "\<lambda>u. ops_wf u \<and> task_store.more u = task_store.more w"
  have "\<exists>w'. drain_ops settle q w = Some w' \<and> ?P w' \<and> queues w' = (queues w)(q := []) \<and>
    (\<forall>x. ops w' x = (if x \<in> set (queues w q) then settled_op (OP_FAILED, e) ((ops w x)\<lparr>op_list := None\<rparr>) else ops w x))"
  proof (rule drain_ops_quiet [where P = ?P])
    fix op rest and u :: "'a task_store_scheme" assume u: "?P u" "queues u q = op # rest"
    let ?u = "upd_op op (\<lambda>x. x\<lparr>op_list := None\<rparr>) (upd_queue q (\<lambda>_. rest) u)"
    have "async_next_op q u = Some (op, ?u)" using u(2) by (rule async_next_op_Cons)
    then have wf: "ops_wf ?u" using ops_wf_next u(1) by blast
    have m: "task_store.more ?u = task_store.more w" using u(1) by (simp add: upd_op_def upd_queue_def)
    note s = assms(2) [OF m]
    show "?P (settle op ?u)" using wf m by (simp add: s waking_wf.inv_fail)
    show "ops (settle op ?u) = (ops u)(op := settled_op (OP_FAILED, e) ((ops u op)\<lparr>op_list := None\<rparr>))"
      "queues (settle op ?u) = (queues u)(q := rest)"
      by (simp_all add: s async_fail_op_def unlink_op_def)
  qed (use assms(1) in simp_all)
  then show ?thesis by (simp only: settled_op_list fst_conv await_status.distinct simp_thms not_False_eq_True)
qed

lemma drain_first_fail_wake:
  fixes w :: "'a task_store_scheme"
  assumes "ops_wf w" and "\<And>op u. task_store.more u = task_store.more w \<Longrightarrow> settle op u = async_fail_op wake op e u"
  shows "\<exists>w'. drain_first settle q w = Some w' \<and> (ops_wf w' \<and> task_store.more w' = task_store.more w) \<and>
    queues w' = (queues w)(q := []) \<and>
    (\<forall>x. ops w' x = (if x \<in> set (queues w q) then settled_op (OP_FAILED, e) (ops w x) else ops w x))"
proof -
  let ?P = "\<lambda>u. ops_wf u \<and> task_store.more u = task_store.more w"
  have "\<exists>w'. drain_first settle q w = Some w' \<and> ?P w' \<and> queues w' = (queues w)(q := []) \<and>
    (\<forall>x. ops w' x = (if x \<in> set (queues w q) then settled_op (OP_FAILED, e) ((ops w x)\<lparr>op_list := None\<rparr>) else ops w x))"
  proof (rule drain_first_quiet [where P = ?P])
    fix op rest and u :: "'a task_store_scheme" assume u: "?P u" "queues u q = op # rest"
    then have wf: "ops_wf u" and s: "settle op u = async_fail_op wake op e u" using assms(2) by blast+
    note f = settle_first [OF wf u(2), of e]
    show "?P (settle op u)" using u(1) by (simp add: s waking_wf.inv_fail)
    show "ops (settle op u) = (ops u)(op := settled_op (OP_FAILED, e) ((ops u op)\<lparr>op_list := None\<rparr>))"
      using f by (simp add: s)
    show "queues (settle op u) = (queues u)(q := rest)" using f by (simp add: s)
  qed (use assms(1) in simp_all)
  then show ?thesis by (simp only: settled_op_list fst_conv await_status.distinct simp_thms not_False_eq_True)
qed

text \<open>The drain loops of \<open>async_awaitable_resolve\<close> and \<open>async_awaitable_fail\<close>.\<close>

lemma drain_awaitable:
  fixes w :: "'a await_store_scheme"
  assumes "ops_wf w" and "settle = (\<lambda>op w. async_resolve_op wake op (a_result (awaitables w a)) w) \<and> fst r = OP_RESOLVED \<or>
      settle = (\<lambda>op w. async_fail_op wake op (a_result (awaitables w a)) w) \<and> fst r = OP_FAILED"
    and "a_result (awaitables w a) = snd r"
  shows "\<exists>w'. drain_first settle q w = Some w' \<and> (ops_wf w' \<and> awaitables w' = awaitables w) \<and> queues w' = (queues w)(q := []) \<and>
    (\<forall>x. ops w' x = (if x \<in> set (queues w q) then settled_op r ((ops w x)\<lparr>op_list := None\<rparr>) else ops w x))"
proof (rule drain_first_quiet [where P = "\<lambda>u. ops_wf u \<and> awaitables u = awaitables w"])
  show "ops_wf w \<and> awaitables w = awaitables w" using assms(1) by simp
next
  fix op rest and u :: "'a await_store_scheme" assume u: "ops_wf u \<and> awaitables u = awaitables w" "queues u q = op # rest"
  have r: "r = (fst r, snd r)" by simp
  note s = settle_first [OF _ u(2), of "snd r"]
  show "ops_wf (settle op u) \<and> awaitables (settle op u) = awaitables w"
    using u assms(2) by (auto simp: waking_wf.inv_resolve waking_wf.inv_fail)
  show "ops (settle op u) = (ops u)(op := settled_op r ((ops u op)\<lparr>op_list := None\<rparr>))"
    using u assms(2,3) s by (subst r) (auto simp: simp del: prod.collapse)
  show "queues (settle op u) = (queues u)(q := rest)"
    using u assms(2,3) s by auto
qed simp

lemma impl_settle_pending:
  assumes "ops_wf w" and "a_status (awaitables w a) = OP_PENDING" and "fst r \<noteq> OP_PENDING"
  shows "\<exists>w'. impl_settle a r w = Some w' \<and> ops_wf w' \<and> awaitable_impl_delegate a w' = r \<and> queues w' (AwaitableOps a) = [] \<and>
    (\<forall>op. ops w' op = (if op \<in> set (queues w (AwaitableOps a)) then settled_op r (ops w op) else ops w op))"
proof -
  obtain st v where r: "r = (st, v)" by (cases r)
  define w1 where "w1 = upd_awaitable a (\<lambda>x. x\<lparr>a_status := st, a_result := v, a_label := async_status_label st\<rparr>) w"
  have w1: "ops_wf w1" "a_status (awaitables w1 a) = st" "a_result (awaitables w1 a) = v" "queues w1 = queues w" "ops w1 = ops w"
    using assms(1) by (simp_all add: w1_def ops_wf_def)
  let ?settle = "if st = OP_RESOLVED then (\<lambda>op w. async_resolve_op wake op (a_result (awaitables w a)) w)
     else (\<lambda>op w. async_fail_op wake op (a_result (awaitables w a)) w)"
  have "?settle = (\<lambda>op w. async_resolve_op wake op (a_result (awaitables w a)) w) \<and> fst r = OP_RESOLVED \<or>
      ?settle = (\<lambda>op w. async_fail_op wake op (a_result (awaitables w a)) w) \<and> fst r = OP_FAILED"
    using assms(3) by (cases st) (auto simp: r)
  from drain_awaitable [OF w1(1) this, of "AwaitableOps a"] w1 assms(3) obtain w' where w':
    "drain_first ?settle (AwaitableOps a) w1 = Some w'" "ops_wf w'" "awaitables w' = awaitables w1"
    "queues w' = (queues w)(AwaitableOps a := [])"
    "\<forall>x. ops w' x = (if x \<in> set (queues w (AwaitableOps a)) then settled_op r (ops w x) else ops w x)"
    by (auto simp: r)
  have "impl_settle a r w = Some w'"
    using w'(1) assms(2,3) unfolding r w1_def
    by (cases st) (simp_all add: impl_settle_def async_awaitable_resolve_def async_awaitable_fail_def)
  moreover have "awaitable_impl_delegate a w' = r"
    using w'(3) w1 assms(3) by (cases st) (simp_all add: awaitable_impl_delegate_def r)
  ultimately show ?thesis using w' by simp
qed

lemma free_op_schedule:
  assumes "ops_wf w" and "op_free op w"
  shows "ops_wf (async_append_op q op w)"
  using assms by (intro ops_wf_append) (simp_all add: op_free_def)

interpretation impl: promise "awaitable_impl_delegate a" "\<lambda>w. queues w (AwaitableOps a)" ops ops_wf op_free
    "awaitable_impl_schedule a" "impl_settle a" for a
proof
  show "fst (awaitable_impl_delegate a w) \<noteq> OP_PENDING \<Longrightarrow> impl_settle a r w = Some w" for r and w :: "'a await_store_scheme"
    by (cases r; cases "fst r") (auto simp: impl_settle_def awaitable_impl_delegate_def async_awaitable_resolve_def
        async_awaitable_fail_def split: await_status.splits)
  show "\<exists>w'. impl_settle a r w = Some w' \<and> ops_wf w' \<and> awaitable_impl_delegate a w' = r \<and> queues w' (AwaitableOps a) = [] \<and>
    (\<forall>op. ops w' op = (if op \<in> set (queues w (AwaitableOps a)) then settled_op r (ops w op) else ops w op))"
    if "ops_wf w" "fst (awaitable_impl_delegate a w) = OP_PENDING" "fst r \<noteq> OP_PENDING" for r and w :: "'a await_store_scheme"
    using that by (intro impl_settle_pending) (auto simp: awaitable_impl_delegate_def split: await_status.splits)
  show "ops_wf (awaitable_impl_schedule a op w) \<and> awaitable_impl_delegate a (awaitable_impl_schedule a op w) = awaitable_impl_delegate a w \<and>
      queues (awaitable_impl_schedule a op w) (AwaitableOps a) = queues w (AwaitableOps a) @ [op] \<and>
      (\<forall>x. x \<noteq> op \<longrightarrow> ops (awaitable_impl_schedule a op w) x = ops w x) \<and>
      ops (awaitable_impl_schedule a op w) op = (ops w op)\<lparr>op_list := op_list (ops (awaitable_impl_schedule a op w) op)\<rparr>"
    if "ops_wf w" "op_free op w" for op and w :: "'a await_store_scheme"
    using that free_op_schedule [OF that] await_store_more_eq(1) [of "async_append_op (AwaitableOps a) op w" w]
    by (simp add: awaitable_impl_schedule_def awaitable_impl_delegate_def split: await_status.split)
qed

section \<open>Deferreds\<close>

definition defer_settle :: "nat \<Rightarrow> await_status \<times> zval \<Rightarrow> 'a defer_store_scheme \<Rightarrow> 'a defer_store_scheme option" where
  "defer_settle d r w = (case r of
     (OP_RESOLVED, v) \<Rightarrow> map_option snd (deferred_resolve (\<lambda>_. False) wake d (Some v) w)
   | (OP_FAILED, e) \<Rightarrow> deferred_fail wake d e w
   | (OP_PENDING, _) \<Rightarrow> Some w)"

abbreviation defer_outcome :: "nat \<Rightarrow> 'a defer_store_scheme \<Rightarrow> await_status \<times> zval" where
  "defer_outcome d w \<equiv> deferred_await_delegate (d_state (deferreds w d)) w"

lemma defer_store_more_eq:
  assumes "await_store.more w' = await_store.more (w :: 'a defer_store_scheme)"
  shows "dstates w' = dstates w" "deferreds w' = deferreds w" "combines w' = combines w" "op_keys w' = op_keys w"
    "defer_store.more w' = defer_store.more w" "transforms w' = transforms w"
  using assms by (cases w; cases w'; simp)+

lemma settle_wake_defer [simp]:
  "dstates (async_resolve_op wake op v w) = dstates w" "dstates (async_fail_op wake op v w) = dstates w"
  "deferreds (async_resolve_op wake op v w) = deferreds w" "deferreds (async_fail_op wake op v w) = deferreds w"
  "combines (async_resolve_op wake op v w) = combines w" "combines (async_fail_op wake op v w) = combines w"
  "op_keys (async_resolve_op wake op v w) = op_keys w" "op_keys (async_fail_op wake op v w) = op_keys w"
  "defer_store.more (async_resolve_op wake op v w) = defer_store.more w"
  "defer_store.more (async_fail_op wake op v w) = defer_store.more w"
  "transforms (async_resolve_op wake op v w) = transforms w" "transforms (async_fail_op wake op v w) = transforms w"
  by (rule defer_store_more_eq, rule await_store_more_eq, simp)+

lemma next_op_defer [simp]:
  "dstates (upd_op op f w) = dstates w" "dstates (upd_queue q g w) = dstates w"
  "deferreds (upd_op op f w) = deferreds w" "deferreds (upd_queue q g w) = deferreds w"
  "combines (upd_op op f w) = combines w" "combines (upd_queue q g w) = combines w"
  "op_keys (upd_op op f w) = op_keys w" "op_keys (upd_queue q g w) = op_keys w"
  "defer_store.more (upd_op op f w) = defer_store.more w" "defer_store.more (upd_queue q g w) = defer_store.more w"
  "transforms (upd_op op f w) = transforms w" "transforms (upd_queue q g w) = transforms w"
  by (simp_all add: upd_op_def upd_queue_def)

lemma unlink_state_cancel_sel [simp]:
  "ops (unlink_state_cancel s w) = ops w" "queues (unlink_state_cancel s w) = queues w"
  "next_opid (unlink_state_cancel s w) = next_opid w" "deferreds (unlink_state_cancel s w) = deferreds w"
  "ds_status (dstates (unlink_state_cancel s w) x) = ds_status (dstates w x)"
  "ds_result (dstates (unlink_state_cancel s w) x) = ds_result (dstates w x)"
  "contexts (unlink_state_cancel s w) = contexts w" "cancels (unlink_state_cancel s w) = cancels w"
  by (simp_all add: unlink_state_cancel_def)

lemma cleanup_cancel_sel [simp]:
  "ops (cleanup_cancel d w) = ops w" "queues (cleanup_cancel d w) = queues w" "next_opid (cleanup_cancel d w) = next_opid w"
  "dstates (cleanup_cancel d w) = dstates w" "d_state (deferreds (cleanup_cancel d w) x) = d_state (deferreds w x)"
  by (auto simp: cleanup_cancel_def upd_cancel_def split: option.split)

lemma upd_dstate_frame [simp]:
  "combines (upd_dstate s f w) = combines w" "op_keys (upd_dstate s f w) = op_keys w"
  "defer_store.more (upd_dstate s f w) = defer_store.more w" "g_exit (upd_dstate s f w) = g_exit w"
  "transforms (upd_dstate s f w) = transforms w"
  by (simp_all add: upd_dstate_def)

lemma unlink_state_cancel_frame [simp]:
  "combines (unlink_state_cancel s w) = combines w" "op_keys (unlink_state_cancel s w) = op_keys w"
  "defer_store.more (unlink_state_cancel s w) = defer_store.more w" "g_exit (unlink_state_cancel s w) = g_exit w"
  "transforms (unlink_state_cancel s w) = transforms w"
  "ds_refcount (dstates (unlink_state_cancel s w) x) = ds_refcount (dstates w x)"
  "ds_freed (dstates (unlink_state_cancel s w) x) = ds_freed (dstates w x)"
  by (simp_all add: unlink_state_cancel_def)

text \<open>What settling the waiting operations leaves of the rest of the state.\<close>

definition defer_frame :: "'a defer_store_scheme \<Rightarrow> 'a defer_store_scheme \<Rightarrow> bool" where
  "defer_frame w w' \<longleftrightarrow> deferreds w' = deferreds w \<and> combines w' = combines w \<and> op_keys w' = op_keys w \<and>
     defer_store.more w' = defer_store.more w \<and> transforms w' = transforms w \<and> (g_exit w' = g_exit w)"

text \<open>Settling what waits for a deferred state that has its outcome.\<close>

lemma deferred_trigger_ops_spec:
  fixes w :: "'a defer_store_scheme"
  assumes "ops_wf w" and "ds_status (dstates w s) = st" and "ds_result (dstates w s) = v" and "st \<noteq> OP_PENDING"
  shows "\<exists>w'. deferred_trigger_ops wake s w = Some w' \<and> ops_wf w' \<and> defer_frame w w' \<and>
    (\<forall>x. ds_status (dstates w' x) = ds_status (dstates w x) \<and> ds_result (dstates w' x) = ds_result (dstates w x) \<and>
       ds_refcount (dstates w' x) = ds_refcount (dstates w x) \<and> ds_freed (dstates w' x) = ds_freed (dstates w x)) \<and>
    queues w' = (queues w)(DeferredOps s := []) \<and>
    (\<forall>op. ops w' op = (if op \<in> set (queues w (DeferredOps s)) then settled_op (st, v) (ops w op) else ops w op))"
proof -
  let ?u = "unlink_state_cancel s w"
  let ?P = "\<lambda>u. ops_wf u \<and> defer_frame w u \<and> dstates u = dstates ?u"
  have wf: "ops_wf ?u" using assms(1) by (subst ops_wf_cong [where w = w]) simp_all
  have "\<exists>w'. drain_ops (settle_deferred_op wake s) (DeferredOps s) ?u = Some w' \<and> ?P w' \<and>
    queues w' = (queues ?u)(DeferredOps s := []) \<and>
    (\<forall>op. ops w' op = (if op \<in> set (queues ?u (DeferredOps s)) then settled_op (st, v) ((ops ?u op)\<lparr>op_list := None\<rparr>) else ops ?u op))"
  proof (rule drain_ops_quiet [OF wf])
    show "?P ?u" using wf by (simp add: defer_frame_def)
  next
    fix op rest and u :: "'a defer_store_scheme" assume u: "?P u" "queues u (DeferredOps s) = op # rest"
    let ?v = "upd_op op (\<lambda>x. x\<lparr>op_list := None\<rparr>) (upd_queue (DeferredOps s) (\<lambda>_. rest) u)"
    have n: "async_next_op (DeferredOps s) u = Some (op, ?v)" using u(2) by (rule async_next_op_Cons)
    have wfv: "ops_wf ?v" using ops_wf_next [OF _ n] u(1) by simp
    have st: "ds_status (dstates ?v s) = st" "ds_result (dstates ?v s) = v" using u(1) assms(2,3) by simp_all
    show "?P (settle_deferred_op wake s op ?v)"
      using u(1) wfv by (auto simp: settle_deferred_op_def defer_frame_def waking_wf.inv_resolve waking_wf.inv_fail)
    show "ops (settle_deferred_op wake s op ?v) = (ops u)(op := settled_op (st, v) ((ops u op)\<lparr>op_list := None\<rparr>))"
      using st assms(4) by (cases st) (auto simp: settle_deferred_op_def)
    show "queues (settle_deferred_op wake s op ?v) = (queues u)(DeferredOps s := rest)"
      using st by (auto simp: settle_deferred_op_def)
  qed
  then obtain w' where w': "drain_ops (settle_deferred_op wake s) (DeferredOps s) ?u = Some w'" "?P w'"
    "queues w' = (queues ?u)(DeferredOps s := [])"
    "\<forall>op. ops w' op = (if op \<in> set (queues ?u (DeferredOps s)) then settled_op (st, v) ((ops ?u op)\<lparr>op_list := None\<rparr>) else ops ?u op)"
    by blast
  then show ?thesis using assms(4) by (intro exI [of _ w']) (simp add: deferred_trigger_ops_def)
qed

lemma defer_settle_pending:
  fixes w :: "'a defer_store_scheme"
  assumes "ops_wf w" and "ds_status (dstates w s) = OP_PENDING" and "s = d_state (deferreds w d)" and "fst r \<noteq> OP_PENDING"
  shows "\<exists>w'. defer_settle d r w = Some w' \<and> ops_wf w' \<and> d_state (deferreds w' d) = s \<and>
    deferred_await_delegate s w' = r \<and> queues w' (DeferredOps s) = [] \<and>
    (\<forall>op. ops w' op = (if op \<in> set (queues w (DeferredOps s)) then settled_op r (ops w op) else ops w op))"
proof -
  obtain st v where r: "r = (st, v)" by (cases r)
  define w1 where "w1 = cleanup_cancel d (upd_dstate s (\<lambda>x. x\<lparr>ds_result := v, ds_status := st\<rparr>) w)"
  have w1: "ops_wf w1" "ds_status (dstates w1 s) = st" "ds_result (dstates w1 s) = v" "queues w1 = queues w" "ops w1 = ops w"
    "d_state (deferreds w1 d) = s"
    using assms(1,3) by (simp_all add: w1_def ops_wf_def)
  from deferred_trigger_ops_spec [OF w1(1-3)] assms(4) obtain w' where w': "deferred_trigger_ops wake s w1 = Some w'" "ops_wf w'"
    "defer_frame w1 w'" "ds_status (dstates w' s) = st" "ds_result (dstates w' s) = v"
    "queues w' = (queues w)(DeferredOps s := [])"
    "\<forall>op. ops w' op = (if op \<in> set (queues w (DeferredOps s)) then settled_op r (ops w op) else ops w op)"
    using w1 by (auto simp: r)
  have "defer_settle d r w = Some w'"
    using w'(1) assms(2-4) unfolding r w1_def
    by (cases st) (simp_all add: defer_settle_def deferred_resolve_def deferred_fail_def upd_dstate_def Let_def)
  moreover have "deferred_await_delegate s w' = r"
    using w' assms(4) by (cases st) (simp_all add: deferred_await_delegate_def r)
  ultimately show ?thesis using w' w1 by (simp add: defer_frame_def)
qed

interpretation dstate: promise "defer_outcome d" "\<lambda>w. queues w (DeferredOps (d_state (deferreds w d)))" ops ops_wf op_free
    "\<lambda>op w. deferred_await_schedule (d_state (deferreds w d)) op w" "defer_settle d" for d
proof
  show "fst (defer_outcome d w) \<noteq> OP_PENDING \<Longrightarrow> defer_settle d r w = Some w" for r and w :: "'a defer_store_scheme"
    by (cases r; cases "fst r") (auto simp: defer_settle_def deferred_await_delegate_def deferred_resolve_def
        deferred_fail_def Let_def split: await_status.splits)
  show "\<exists>w'. defer_settle d r w = Some w' \<and> ops_wf w' \<and> defer_outcome d w' = r \<and>
      queues w' (DeferredOps (d_state (deferreds w' d))) = [] \<and>
      (\<forall>op. ops w' op = (if op \<in> set (queues w (DeferredOps (d_state (deferreds w d)))) then settled_op r (ops w op) else ops w op))"
    if "ops_wf w" "fst (defer_outcome d w) = OP_PENDING" "fst r \<noteq> OP_PENDING" for r and w :: "'a defer_store_scheme"
  proof -
    have "ds_status (dstates w (d_state (deferreds w d))) = OP_PENDING"
      using that(2) by (auto simp: deferred_await_delegate_def split: await_status.splits)
    from defer_settle_pending [OF that(1) this refl that(3)] show ?thesis by auto
  qed
  show "ops_wf (deferred_await_schedule (d_state (deferreds w d)) op w) \<and>
      defer_outcome d (deferred_await_schedule (d_state (deferreds w d)) op w) = defer_outcome d w \<and>
      queues (deferred_await_schedule (d_state (deferreds w d)) op w)
        (DeferredOps (d_state (deferreds (deferred_await_schedule (d_state (deferreds w d)) op w) d))) =
        queues w (DeferredOps (d_state (deferreds w d))) @ [op] \<and>
      (\<forall>x. x \<noteq> op \<longrightarrow> ops (deferred_await_schedule (d_state (deferreds w d)) op w) x = ops w x) \<and>
      ops (deferred_await_schedule (d_state (deferreds w d)) op w) op =
        (ops w op)\<lparr>op_list := op_list (ops (deferred_await_schedule (d_state (deferreds w d)) op w) op)\<rparr>"
    if "ops_wf w" "op_free op w" for op and w :: "'a defer_store_scheme"
  proof -
    let ?u = "async_append_op (DeferredOps (d_state (deferreds w d))) op w"
    have "await_store.more ?u = await_store.more w" by (rule await_store_more_eq(3)) simp
    then have "dstates ?u = dstates w" "deferreds ?u = deferreds w" by (rule defer_store_more_eq)+
    then show ?thesis using free_op_schedule [OF that]
      by (simp add: deferred_await_schedule_def deferred_await_delegate_def split: await_status.split)
  qed
qed

end
