(* ===== verification/SyncProps.thy ===== *)
theory SyncProps
  imports AwaitProps Sync Promise
begin

text \<open>
  Properties of condition variables: a broadcast wakes exactly the executions that wait when it is
  sent, in their order; a signal wakes the first; closing fails all of them, and what comes later.
\<close>

section \<open>Broadcast\<close>

text \<open>An operation that can be woken: its task is suspended and it was not cancelled.\<close>

definition wakeable :: "opid \<Rightarrow> 'a task_store_scheme \<Rightarrow> bool" where
  "wakeable op w \<longleftrightarrow> op_callback (ops w op) = Some Continue_op_task \<and>
     \<not> has_flag (op_flags (ops w op)) ASYNC_OP_FLAG_CANCELLED \<and> t_status (tasks w (op_arg (ops w op))) = TASK_SUSPENDED"

lemma upd_cond_sel [simp]:
  "conds (upd_cond c f w) = (conds w)(c := f (conds w c))" "ops (upd_cond c f w) = ops w" "queues (upd_cond c f w) = queues w"
  "next_opid (upd_cond c f w) = next_opid w" "tasks (upd_cond c f w) = tasks w" "ready (upd_cond c f w) = ready w"
  "s_flags (upd_cond c f w) = s_flags w"
  by (simp_all add: upd_cond_def)

lemma cond_store_more_eq:
  assumes "task_store.more w' = task_store.more (w :: 'a cond_store_scheme)"
  shows "conds w' = conds w" "cond_store.more w' = cond_store.more w"
  using assms by (cases w; cases w'; simp)+

lemma settle_wake_cond [simp]:
  "conds (async_finish_op wake op w) = conds w" "conds (async_fail_op wake op v w) = conds w"
  by (rule cond_store_more_eq, simp)+

lemma defer_first_conds [simp]:
  "conds (defer_first c op u) = (conds u)(c := (conds u c)\<lparr>cond_broadcast := cond_broadcast (conds u c) + 1\<rparr>)"
  by (simp add: defer_first_def cond_store_more_eq(1) [of "upd_op _ _ _"])

text \<open>What a deferred wake-up makes of an operation.\<close>

definition woken :: "async_op \<Rightarrow> async_op" where
  "woken x = x\<lparr>op_list := None, op_status := ASYNC_STATUS_RESOLVED, op_flags := set_flag (op_flags x) ASYNC_OP_FLAG_DEFER\<rparr>"

lemma finish_deferred:
  fixes u :: "'a cond_store_scheme"
  assumes "ops_wf u" and "queues u (CondWaiting c) = op # rest" and "wakeable op u"
  defines "u' \<equiv> async_finish_op wake op (defer_first c op u)"
  shows "ops_wf u'" and "queues u' = (queues u)(CondWaiting c := rest)" and "ops u' = (ops u)(op := woken (ops u op))"
    and "ready u' = ready u @ [TaskRef (op_arg (ops u op))]" and "tasks u' = tasks u"
    and "conds u' = (conds u)(c := (conds u c)\<lparr>cond_broadcast := cond_broadcast (conds u c) + 1\<rparr>)"
proof -
  let ?d = "defer_first c op u"
  have l: "op_list (ops u op) = Some (CondWaiting c)" using assms ops_wf_mem [OF assms(1), of op "CondWaiting c"] by simp
  have d: "ops_wf ?d" "queues ?d (CondWaiting c) = op # rest"
    using assms(1,2) by (simp_all add: defer_first_def ops_wf_def)
  show "ops_wf u'" unfolding u'_def by (rule waking_wf.inv_finish [OF d(1)])
  define v where "v = upd_op op (\<lambda>x. x\<lparr>op_status := ASYNC_STATUS_RESOLVED\<rparr>) (unlink_op op ?d)"
  have v: "ops v = (ops u)(op := woken (ops u op))" "queues v = (queues u)(CondWaiting c := rest)" "tasks v = tasks u"
    "ready v = ready u"
    using l assms(2) by (auto simp: v_def unlink_op_def defer_first_def woken_def split: option.split)
  have u': "u' = wake op v"
    unfolding u'_def using assms(3) v(1) by (simp add: v_def [symmetric] async_finish_op_def call_callback_def wakeable_def woken_def)
  show "queues u' = (queues u)(CondWaiting c := rest)" "ops u' = (ops u)(op := woken (ops u op))"
    by (simp_all only: u' wake_sel v)
  have "ready u' = ready v @ [TaskRef (op_arg (ops u op))]" "tasks u' = tasks v"
    unfolding u'
    by (rule wake_deferred [where t = "op_arg (ops u op)"]; use assms(3) v in \<open>simp add: wakeable_def woken_def flag_simps\<close>)+
  then show "ready u' = ready u @ [TaskRef (op_arg (ops u op))]" "tasks u' = tasks u" by (simp_all add: v)
  show "conds u' = (conds u)(c := (conds u c)\<lparr>cond_broadcast := cond_broadcast (conds u c) + 1\<rparr>)"
    by (simp add: u'_def)
qed

lemma broadcast_loop_spec:
  fixes u :: "'a cond_store_scheme"
  assumes "ops_wf u" and "\<forall>op\<in>set (queues u (CondWaiting c)). wakeable op u"
  shows "\<exists>u'. broadcast_loop wake c n u = Some (n + int (length (queues u (CondWaiting c))), u') \<and>
    queues u' = (queues u)(CondWaiting c := []) \<and>
    (\<forall>op. ops u' op = (if op \<in> set (queues u (CondWaiting c)) then woken (ops u op) else ops u op)) \<and>
    ready u' = ready u @ map (\<lambda>op. TaskRef (op_arg (ops u op))) (queues u (CondWaiting c)) \<and> tasks u' = tasks u \<and>
    conds u' = (conds u)(c := (conds u c)\<lparr>cond_broadcast := cond_broadcast (conds u c) +
      of_nat (length (queues u (CondWaiting c)))\<rparr>)"
  using assms
proof (induction "queues u (CondWaiting c)" arbitrary: u n)
  case Nil
  then show ?case by (subst broadcast_loop.simps) (simp add: Nil.hyps [symmetric] fun_upd_idem)
next
  case (Cons op rest)
  have q: "queues u (CondWaiting c) = op # rest" using Cons.hyps(2) by simp
  let ?u = "async_finish_op wake op (defer_first c op u)"
  have w: "wakeable op u" using Cons.prems(2) q by simp
  note f = finish_deferred [OF Cons.prems(1) q w]
  have d: "op \<notin> set rest" using ops_wf_distinct [OF Cons.prems(1), of "CondWaiting c"] q by simp
  have "\<forall>op\<in>set (queues ?u (CondWaiting c)). wakeable op ?u"
    using Cons.prems(2) q d by (auto simp: f wakeable_def)
  from Cons.hyps(1) [OF _ f(1) this, of "n + 1"] obtain u' where
    "broadcast_loop wake c (n + 1) ?u = Some (n + 1 + int (length rest), u')"
    "queues u' = (queues ?u)(CondWaiting c := [])"
    "\<forall>x. ops u' x = (if x \<in> set rest then woken (ops ?u x) else ops ?u x)"
    "ready u' = ready ?u @ map (\<lambda>op. TaskRef (op_arg (ops ?u op))) rest" "tasks u' = tasks ?u"
    "conds u' = (conds ?u)(c := (conds ?u c)\<lparr>cond_broadcast := cond_broadcast (conds ?u c) + of_nat (length rest)\<rparr>)"
    by (auto simp: f)
  then show ?case using q d
    by (subst broadcast_loop.simps) (auto simp: f woken_def)
qed

text \<open>
  C10. A broadcast wakes every execution that waits when it is sent, each once and in the order in
  which they began to wait, by putting their tasks at the end of the ready queue; no fiber is
  switched to, so an execution that waits again is not woken twice; nothing waits afterwards, the
  result is the number of executions, and they are counted as deliveries under way.
\<close>

theorem broadcast_wakes_all:
  assumes "ops_wf w" and "cond_error (conds w c) = IS_UNDEF" and "\<forall>op\<in>set (queues w (CondWaiting c)). wakeable op w"
    and "q = queues w (CondWaiting c)"
  shows "\<exists>w'. condition_broadcast wake c w = Some (Ret (IS_LONG (int (length q))), w') \<and>
    ready w' = ready w @ map (\<lambda>op. TaskRef (op_arg (ops w op))) q \<and> tasks w' = tasks w \<and> queues w' (CondWaiting c) = [] \<and>
    (\<forall>op. ops w' op = (if op \<in> set q then woken (ops w op) else ops w op)) \<and>
    cond_broadcast (conds w' c) = cond_broadcast (conds w c) + of_nat (length q)"
  using broadcast_loop_spec [OF assms(1,3), of 0] assms(2,4) by (auto simp: condition_broadcast_def)

text \<open>A condition for which operation 0 of the suspended task 0 waits.\<close>

definition waiting_cond :: cond_store where
  "waiting_cond = async_append_op (CondWaiting 0) 0 (snd (async_alloc_op (boot (cond_store.fields
     (\<lambda>_. \<lparr>cond_error = IS_UNDEF, cond_broadcast = 0, cond_shutdown = True\<rparr>)))))"

definition waiting_task_cond :: cond_store where
  "waiting_task_cond = upd_op 0 (\<lambda>x. x\<lparr>op_callback := Some Continue_op_task, op_status := ASYNC_STATUS_RUNNING\<rparr>)
     (upd_task 0 (\<lambda>x. x\<lparr>t_status := TASK_SUSPENDED, t_fiber := Some 2\<rparr>) waiting_cond)"

lemma waiting_task_cond_sel [simp]:
  "ops_wf waiting_task_cond" "queues waiting_task_cond (CondWaiting 0) = [0]" "wakeable 0 waiting_task_cond"
  "conds waiting_task_cond c = \<lparr>cond_error = IS_UNDEF, cond_broadcast = 0, cond_shutdown = True\<rparr>"
  "ready waiting_task_cond = []" "op_arg (ops waiting_task_cond 0) = 0"
  "t_fiber (tasks waiting_task_cond 0) = Some 2" "\<not> has_flag (op_flags (ops waiting_task_cond 0)) ASYNC_OP_FLAG_DEFER"
proof -
  have "ops_wf waiting_cond" unfolding waiting_cond_def
    by (intro ops_wf_append ops_wf_alloc) (simp_all add: ops_wf_boot async_alloc_op_def)
  then show "ops_wf waiting_task_cond" by (simp add: waiting_task_cond_def ops_wf_def)
  show "conds waiting_task_cond c = \<lparr>cond_error = IS_UNDEF, cond_broadcast = 0, cond_shutdown = True\<rparr>"
    by (simp add: waiting_task_cond_def waiting_cond_def upd_task_def upd_op_def upd_queue_def async_append_op_def async_alloc_op_def
        cond_store.fields_def boot_defs Let_def)
qed (simp_all add: waiting_task_cond_def waiting_cond_def async_alloc_op_def async_append_op_def wakeable_def)

theorem broadcast_wakes_all_witness:
  "\<exists>w'. condition_broadcast wake 0 waiting_task_cond = Some (Ret (IS_LONG 1), w') \<and> ready w' = [TaskRef 0]"
  using broadcast_wakes_all [of waiting_task_cond 0] by simp blast

text \<open>
  A signal wakes the execution that has waited longest and no other, and gives 1: it is switched
  to at once, unless a broadcast is still being delivered, then its task is put on the ready queue
  like those of the broadcast and counted; without a waiting execution it does nothing and gives 0.
\<close>

theorem signal_wakes_first:
  assumes "ops_wf w" and "cond_error (conds w c) = IS_UNDEF" and "queues w (CondWaiting c) = op # rest" and "wakeable op w"
    and "t_fiber (tasks w (op_arg (ops w op))) = Some f" and "\<not> has_flag (op_flags (ops w op)) ASYNC_OP_FLAG_DEFER"
  shows "\<exists>w'. condition_signal wake c w = (Ret (IS_LONG 1), w') \<and> queues w' = (queues w)(CondWaiting c := rest) \<and>
    op_status (ops w' op) = ASYNC_STATUS_RESOLVED \<and> (\<forall>x. x \<noteq> op \<longrightarrow> ops w' x = ops w x) \<and>
    (if cond_broadcast (conds w c) = 0
     then ready w' = ready w \<and> t_status (tasks w' (op_arg (ops w op))) = TASK_RUNNING \<and> conds w' = conds w
     else ready w' = ready w @ [TaskRef (op_arg (ops w op))] \<and> tasks w' = tasks w \<and>
       cond_broadcast (conds w' c) = cond_broadcast (conds w c) + 1)"
proof (cases "cond_broadcast (conds w c) = 0")
  case False
  with assms(2,3) finish_deferred [OF assms(1,3,4)] show ?thesis
    by (auto simp: condition_signal_def woken_def)
next
  case True
  define v where "v = upd_op op (\<lambda>x. x\<lparr>op_status := ASYNC_STATUS_RESOLVED\<rparr>) (unlink_op op w)"
  have l: "op_list (ops w op) = Some (CondWaiting c)" using assms(1,3) ops_wf_mem [OF assms(1), of op "CondWaiting c"] by simp
  have v: "ops v = (ops w)(op := (ops w op)\<lparr>op_list := None, op_status := ASYNC_STATUS_RESOLVED\<rparr>)"
    "queues v = (queues w)(CondWaiting c := rest)" "tasks v = tasks w" "ready v = ready w"
    using l assms(3) by (auto simp: v_def unlink_op_def split: option.split)
  let ?t = "op_arg (ops w op)"
  let ?w = "bounce (Switch f) (upd_task ?t (\<lambda>x. x\<lparr>t_status := TASK_RUNNING\<rparr>) v)"
  have "wake op v = ?w"
    using assms(4-6) v
    by (simp add: wake_def continue_op_task_def reschedule_task_def settled_def wakeable_def Let_def)
  then have f: "async_finish_op wake op w = ?w"
    using assms(4) v(1) by (simp add: v_def [symmetric] async_finish_op_def call_callback_def wakeable_def)
  have "conds ?w = conds w"
    using settle_wake_cond(1) [of op w] unfolding f .
  with True f assms(2,3) v show ?thesis
    by (auto simp: condition_signal_def)
qed

theorem signal_wakes_first_witness:
  "\<exists>w'. condition_signal wake 0 waiting_task_cond = (Ret (IS_LONG 1), w') \<and> t_status (tasks w' 0) = TASK_RUNNING"
  using signal_wakes_first [of waiting_task_cond 0 0 "[]" 2] by auto

section \<open>Closing\<close>

lemma drain_cond:
  fixes w :: "'a cond_store_scheme"
  assumes "ops_wf w" and "cond_error (conds w c) = e"
  shows "\<exists>w'. drain_first (\<lambda>op w. async_fail_op wake op (cond_error (conds w c)) w) (CondWaiting c) w = Some w' \<and>
    (ops_wf w' \<and> conds w' = conds w) \<and> queues w' = (queues w)(CondWaiting c := []) \<and>
    (\<forall>x. ops w' x = (if x \<in> set (queues w (CondWaiting c)) then settled_op (OP_FAILED, e) ((ops w x)\<lparr>op_list := None\<rparr>) else ops w x))"
proof (rule drain_first_quiet [where P = "\<lambda>u. ops_wf u \<and> conds u = conds w"])
  show "ops_wf w \<and> conds w = conds w" using assms(1) by simp
next
  fix op rest and u :: "'a cond_store_scheme" assume u: "ops_wf u \<and> conds u = conds w" "queues u (CondWaiting c) = op # rest"
  show "ops_wf (async_fail_op wake op (cond_error (conds u c)) u) \<and> conds (async_fail_op wake op (cond_error (conds u c)) u) = conds w"
    using u(1) by (simp add: waking_wf.inv_fail)
  show "ops (async_fail_op wake op (cond_error (conds u c)) u) = (ops u)(op := settled_op (OP_FAILED, e) ((ops u op)\<lparr>op_list := None\<rparr>))"
    "queues (async_fail_op wake op (cond_error (conds u c)) u) = (queues u)(CondWaiting c := rest)"
    using settle_first(3,4) [OF _ u(2), of e] u(1) assms(2) by simp_all
qed simp

text \<open>
  Closing an open condition fails every execution that waits with the reason; afterwards
  waiting, signalling and broadcasting throw that same reason and change nothing, a second close
  changes nothing, and no execution is left waiting.
\<close>

theorem condition_close_fails_waiting:
  fixes w :: "'a cond_store_scheme"
  assumes "ops_wf w" and "cond_error (conds w c) = IS_UNDEF" and "cond_shutdown (conds w c)"
  shows "\<exists>w' e. condition_close wake c val w = Some w' \<and> e \<noteq> IS_UNDEF \<and> queues w' (CondWaiting c) = [] \<and>
    (\<forall>op. ops w' op = (if op \<in> set (queues w (CondWaiting c)) then settled_op (OP_FAILED, e) (ops w op) else ops w op)) \<and>
    condition_wait yield c w' = Some (Throw e, w') \<and> condition_signal run c w' = (Throw e, w') \<and>
    condition_broadcast run c w' = Some (Throw e, w') \<and> condition_close run c val' w' = Some w'"
proof -
  let ?d = "IS_ERROR ErrorCe ''Condition has been closed'' None"
  define e where "e = (case val of None \<Rightarrow> ?d | Some v \<Rightarrow> if v = IS_NULL then ?d else set_previous ?d v)"
  have e: "e \<noteq> IS_UNDEF" by (simp add: e_def split: option.split)
  define u where "u = upd_cond c (\<lambda>x. x\<lparr>cond_error := e\<rparr>) (upd_cond c (\<lambda>x. x\<lparr>cond_shutdown := False\<rparr>)
      (w\<lparr>s_shutdown := remove1 (ShutdownCb CCondition c) (s_shutdown w)\<rparr>))"
  have u: "ops_wf u" "cond_error (conds u c) = e" "ops u = ops w" "queues u = queues w" "cond_shutdown (conds u c) = False"
    using assms(1) by (simp_all add: u_def ops_wf_def)
  from drain_cond [OF u(1,2)] obtain w' where w':
    "drain_first (\<lambda>op w. async_fail_op wake op (cond_error (conds w c)) w) (CondWaiting c) u = Some w'"
    "conds w' = conds u" "queues w' = (queues w)(CondWaiting c := [])"
    "\<forall>x. ops w' x = (if x \<in> set (queues w (CondWaiting c)) then settled_op (OP_FAILED, e) (ops w x) else ops w x)"
    by (auto simp: u)
  have "condition_close wake c val w = Some w'"
    using assms(2,3) w'(1) by (simp add: condition_close_def shutdown_cond_cb_def e_def [symmetric] u_def Let_def)
  with w' u e show ?thesis
    by (intro exI [of _ w'] exI [of _ e])
      (simp add: condition_wait_def condition_signal_def condition_broadcast_def condition_close_def)
qed

theorem condition_close_fails_waiting_witness:
  "\<exists>w'. condition_close wake 0 None waiting_task_cond = Some w' \<and> op_status (ops w' 0) = ASYNC_STATUS_FAILED"
  using condition_close_fails_waiting [where w = waiting_task_cond and c = 0 and val = None and yield = bounce and run = wake
      and val' = None] by fastforce

end
