(* ===== verification/PromiseProps.thy ===== *)
theory PromiseProps
  imports Promise
begin

text \<open>
  Properties of awaitables and deferreds, from the contract of \<open>Promise\<close>: the first settlement
  decides, everything that waits gets it, the destruction of a deferred fails what waits, and
  \<open>combine\<close> calls its continuation once for each input.
\<close>

section \<open>The first settlement decides\<close>

text \<open>
  An awaitable is settled once: whatever settlements follow, the first of \<open>resolve\<close> and \<open>fail\<close>
  is what every later await of it gets, every operation that waited for it has been completed with
  exactly that outcome and unlinked, no other operation is changed, and nothing waits any more.
\<close>

theorem awaitable_settled_once:
  assumes "ops_wf w" and "a_status (awaitables w a) = OP_PENDING" and "fst r \<noteq> OP_PENDING"
  shows "\<exists>w'. settle_all (impl_settle a) (r # rs) w = Some w' \<and> awaitable_impl_delegate a w' = r \<and>
    queues w' (AwaitableOps a) = [] \<and>
    (\<forall>op. ops w' op = (if op \<in> set (queues w (AwaitableOps a)) then settled_op r (ops w op) else ops w op))"
proof -
  have "fst (awaitable_impl_delegate a w) = OP_PENDING" using assms(2) by (simp add: awaitable_impl_delegate_def)
  from impl.first_wins [OF assms(1) this assms(3), of rs] show ?thesis by blast
qed

text \<open>A state with one pending awaitable for which operation 0 waits.\<close>

definition awaiting_world :: await_store where
  "awaiting_world = async_append_op (AwaitableOps 0) 0 (snd (async_alloc_op
     (boot (await_store.fields (\<lambda>_. \<lparr>a_status = OP_PENDING, a_result = IS_UNDEF, a_label = ''PENDING''\<rparr>) 1))))"

lemma awaiting_world_sel:
  "a_status (awaitables awaiting_world a) = OP_PENDING" "ops_wf awaiting_world"
  "queues awaiting_world (AwaitableOps 0) = [0]"
proof -
  show "a_status (awaitables awaiting_world a) = OP_PENDING"
    by (simp add: awaiting_world_def await_store.fields_def async_append_op_def async_alloc_op_def upd_op_def upd_queue_def boot_defs Let_def)
  show "ops_wf awaiting_world"
    unfolding awaiting_world_def
    by (intro ops_wf_append ops_wf_alloc) (simp_all add: ops_wf_boot async_alloc_op_def)
  show "queues awaiting_world (AwaitableOps 0) = [0]"
    by (simp add: awaiting_world_def async_alloc_op_def)
qed

theorem awaitable_settled_once_witness:
  "\<exists>w'. settle_all (impl_settle 0) [(OP_RESOLVED, IS_LONG 1), (OP_FAILED, IS_OBJECT 2)] awaiting_world = Some w' \<and>
     op_result (ops w' 0) = IS_LONG 1"
  using awaitable_settled_once [OF awaiting_world_sel(2) awaiting_world_sel(1), of "(OP_RESOLVED, IS_LONG 1)" 0 "[(OP_FAILED, IS_OBJECT 2)]"]
  by (auto simp: awaiting_world_sel(3))

text \<open>
  C7. A deferred is settled once: an operation that is scheduled on its awaitable while it is
  pending, and every operation that waited before, is completed with the first of \<open>resolve\<close> and
  \<open>fail\<close>, later ones change nothing, and every later await gets the same outcome.
\<close>

theorem deferred_settled_once:
  assumes "ops_wf w" and "s = d_state (deferreds w d)" and "ds_status (dstates w s) = OP_PENDING"
    and "fst r \<noteq> OP_PENDING" and "op_list (ops w op) = None" and "op < next_opid w"
  shows "\<exists>w'. settle_all (defer_settle d) (r # rs) (deferred_await_schedule s op w) = Some w' \<and>
    deferred_await_delegate (d_state (deferreds w' d)) w' = r \<and>
    (\<forall>x\<in>insert op (set (queues w (DeferredOps s))). ops w' x = settled_op r (ops w x)) \<and>
    (\<forall>x. x \<noteq> op \<longrightarrow> x \<notin> set (queues w (DeferredOps s)) \<longrightarrow> ops w' x = ops w x)"
proof -
  let ?u = "deferred_await_schedule s op w"
  have free: "op_free op w" using assms(5,6) by (simp add: op_free_def)
  have p: "fst (defer_outcome d w) = OP_PENDING" using assms(2,3) by (simp add: deferred_await_delegate_def)
  from dstate.schedule_waiting [OF assms(1) free, of d]
  have u: "ops_wf ?u" "defer_outcome d ?u = defer_outcome d w"
    "queues ?u (DeferredOps (d_state (deferreds ?u d))) = queues w (DeferredOps s) @ [op]"
    "\<forall>x. x \<noteq> op \<longrightarrow> ops ?u x = ops w x" unfolding assms(2) by blast+
  from dstate.first_wins [OF u(1) _ assms(4), of d rs] p obtain w' where
    w': "settle_all (defer_settle d) (r # rs) ?u = Some w'" "defer_outcome d w' = r"
    "\<forall>x. ops w' x = (if x \<in> set (queues w (DeferredOps s) @ [op]) then settled_op r (ops ?u x) else ops ?u x)"
    unfolding u(2,3) by blast
  have "settled_op r (ops ?u op) = settled_op r (ops w op)"
    using assms(4) by (cases r; cases "fst r") (simp_all add: deferred_await_schedule_def)
  then have "ops w' x = settled_op r (ops w x)" if "x \<in> insert op (set (queues w (DeferredOps s)))" for x
    using that w'(3) u(4) by (cases "x = op") auto
  then show ?thesis using w' u(4) by auto
qed

text \<open>
  A pending deferred 0 with the state 0, for which operation 1 waits; operation 2 is allocated and
  free, and a combination 0 waits for two operations.
\<close>

definition deferred_base :: defer_store where
  "deferred_base = await_store.extend (boot (await_store.fields (\<lambda>_. \<lparr>a_status = OP_PENDING, a_result = IS_UNDEF,
       a_label = ''PENDING''\<rparr>) 1)) (defer_store.fields
     (\<lambda>_. \<lparr>ds_status = OP_PENDING, ds_refcount = 1, ds_file = None, ds_line = 0, ds_result = IS_NULL, ds_context = 0,
        ds_cancel = True, ds_freed = False\<rparr>) 1
     (\<lambda>_. \<lparr>d_state = 0, d_cancel = False, d_func = None, d_cb_refs = 0\<rparr>) 1 (\<lambda>_. None) 0
     (\<lambda>_. \<lparr>cm_defer = 0, cm_counter = 2, cm_started = 2, cm_func = 7, cm_freed = False\<rparr>) 1
     (\<lambda>op. IS_LONG (int op)) (\<lambda>_. (0, 0)))"

definition deferred_world :: defer_store where
  "deferred_world = snd (async_alloc_op (async_append_op (DeferredOps 0) 1 (snd (async_alloc_op (snd (async_alloc_op deferred_base))))))"

lemma deferred_base_sel [simp]:
  "ops deferred_base = (\<lambda>_. zero_op)" "queues deferred_base = (\<lambda>_. [])" "next_opid deferred_base = 0" "g_exit deferred_base = False"
  "dstates deferred_base s = \<lparr>ds_status = OP_PENDING, ds_refcount = 1, ds_file = None, ds_line = 0, ds_result = IS_NULL,
     ds_context = 0, ds_cancel = True, ds_freed = False\<rparr>"
  "deferreds deferred_base d = \<lparr>d_state = 0, d_cancel = False, d_func = None, d_cb_refs = 0\<rparr>"
  "combines deferred_base m = \<lparr>cm_defer = 0, cm_counter = 2, cm_started = 2, cm_func = 7, cm_freed = False\<rparr>"
  "op_keys deferred_base op = IS_LONG (int op)"
  by (simp_all add: deferred_base_def await_store.defs defer_store.defs)

lemma deferred_world_sel [simp]:
  "ops_wf deferred_world" "dstates deferred_world = dstates deferred_base" "deferreds deferred_world = deferreds deferred_base"
  "queues deferred_world (DeferredOps 0) = [1]" "next_opid deferred_world = 3" "op_list (ops deferred_world 2) = None"
proof -
  have "ops_wf deferred_base" by (simp add: ops_wf_def)
  then show "ops_wf deferred_world"
    unfolding deferred_world_def by (intro ops_wf_append ops_wf_alloc) (simp_all add: async_alloc_op_def)
qed (simp_all add: deferred_world_def async_alloc_op_def async_append_op_def)

theorem deferred_settled_once_witness:
  "\<exists>w'. settle_all (defer_settle 0) [(OP_FAILED, IS_OBJECT 4), (OP_RESOLVED, IS_LONG 1)]
      (deferred_await_schedule 0 2 deferred_world) = Some w' \<and>
     op_status (ops w' 1) = ASYNC_STATUS_FAILED \<and> op_result (ops w' 2) = IS_OBJECT 4"
  using deferred_settled_once [of deferred_world 0 0 "(OP_FAILED, IS_OBJECT 4)" 2 "[(OP_RESOLVED, IS_LONG 1)]"]
  by auto

section \<open>Disposal\<close>

text \<open>
  When a deferred is destroyed before it was settled, every operation that waits on one of its
  awaitables fails with the disposal error, the outcome of the awaitables that survive is that
  error, and the shared state is freed exactly when the deferred held the last reference.
\<close>

theorem destroyed_deferred_fails_waiters:
  assumes "ops_wf w" and "s = d_state (deferreds w d)" and "ds_status (dstates w s) = OP_PENDING"
    and "\<not> ds_freed (dstates w s)"
  shows "\<exists>w'. async_deferred_object_destroy wake d w = Some w' \<and>
    deferred_await_delegate s w' = (OP_FAILED, disposed_error) \<and>
    (\<forall>op. ops w' op = (if op \<in> set (queues w (DeferredOps s)) then settled_op (OP_FAILED, disposed_error) (ops w op)
       else ops w op)) \<and>
    (ds_freed (dstates w' s) \<longleftrightarrow> ds_refcount (dstates w s) = 1)"
proof -
  let ?w = "upd_dstate s (\<lambda>x. x\<lparr>ds_status := OP_FAILED, ds_result := disposed_error\<rparr>) (cleanup_cancel d w)"
  have c: "d_state (deferreds (cleanup_cancel d w) d) = s" using assms(2) by simp
  have "ops_wf ?w" using assms(1) by (simp add: ops_wf_def)
  from deferred_trigger_ops_spec [OF this, of s OP_FAILED disposed_error]
  obtain u where u: "deferred_trigger_ops wake s ?w = Some u" "ds_status (dstates u s) = OP_FAILED"
    "ds_result (dstates u s) = disposed_error" "ds_refcount (dstates u s) = ds_refcount (dstates w s)"
    "\<forall>op. ops u op = (if op \<in> set (queues w (DeferredOps s)) then settled_op (OP_FAILED, disposed_error) (ops w op)
       else ops w op)" "ds_freed (dstates u s) = ds_freed (dstates w s)" by auto
  then have "async_deferred_object_destroy wake d w = release_deferred_state wake s u"
    using assms(3) c by (simp add: async_deferred_object_destroy_def Let_def)
  then show ?thesis
    using u assms(4) by (auto simp: release_deferred_state_def deferred_await_delegate_def Let_def)
qed

theorem destroyed_deferred_fails_waiters_witness:
  "\<exists>w'. async_deferred_object_destroy wake 0 deferred_world = Some w' \<and> op_status (ops w' 1) = ASYNC_STATUS_FAILED"
  using destroyed_deferred_fails_waiters [of deferred_world 0 0] by auto

section \<open>Combining\<close>

text \<open>
  The callbacks of the combined operations run one after the other, at any time: \<open>env\<close> is what
  happens before the callback of an operation (the operation is settled, other code runs). The
  calls of the continuation are recorded in the state.
\<close>

type_synonym combine_world = "combine_args list defer_store_scheme"

definition logged ::
  "(nat \<Rightarrow> combine_args \<Rightarrow> combine_world \<Rightarrow> outcome \<times> combine_world) \<Rightarrow> nat \<Rightarrow> combine_args \<Rightarrow> combine_world \<Rightarrow> outcome \<times> combine_world" where
  "logged call f args w = (let (r, w1) = call f args w in (r, defer_store.more_update (\<lambda>l. l @ [args]) w1))"

fun combine_run ::
  "(opid \<Rightarrow> combine_world \<Rightarrow> combine_world) \<Rightarrow> (nat \<Rightarrow> combine_args \<Rightarrow> combine_world \<Rightarrow> outcome \<times> combine_world) \<Rightarrow>
   opid list \<Rightarrow> combine_world \<Rightarrow> combine_world option" where
  "combine_run env call [] w = Some w"
| "combine_run env call (op # rest) w =
     Option.bind (combine_cb wake (logged call) op (env op w)) (combine_run env call rest)"

text \<open>Other code does not touch the bookkeeping of the combination \<open>m\<close>.\<close>

definition keeps_combine :: "nat \<Rightarrow> opid set \<Rightarrow> (combine_world \<Rightarrow> combine_world) \<Rightarrow> bool" where
  "keeps_combine m A g \<longleftrightarrow> (\<forall>u. ops_wf u \<longrightarrow> ops_wf (g u) \<and> combines (g u) m = combines u m \<and>
     defer_store.more (g u) = defer_store.more u \<and> g_exit (g u) = g_exit u \<and>
     (\<forall>d. d_state (deferreds (g u) d) = d_state (deferreds u d)) \<and>
     (\<forall>op\<in>A. op_arg (ops (g u) op) = op_arg (ops u op) \<and> op_keys (g u) op = op_keys u op))"

definition combine_state :: "nat \<Rightarrow> opid set \<Rightarrow> async_defer_combine \<Rightarrow> combine_world \<Rightarrow> combine_world \<Rightarrow> bool" where
  "combine_state m A x w u \<longleftrightarrow> ops_wf u \<and> \<not> g_exit u \<and> combines u m = x \<and>
     (\<forall>d. d_state (deferreds u d) = d_state (deferreds w d)) \<and>
     (\<forall>op\<in>A. op_arg (ops u op) = m \<and> op_keys u op = op_keys w op)"

lemma combine_state_flags [simp]:
  "combine_state m A x w (u\<lparr>s_flags := fl\<rparr>) = combine_state m A x w u"
  "combine_state m A x w (upd_task t g u) = combine_state m A x w u"
  "combine_state m A x w (defer_store.more_update h u) = combine_state m A x w u"
  "defer_store.more (upd_task t g u) = defer_store.more u"
  by (simp_all add: combine_state_def ops_wf_def upd_task_def)

lemma combine_state_upd:
  "combine_state m A x w u \<Longrightarrow> combine_state m A (f x) w (upd_combine m f u)"
  "defer_store.more (upd_combine m f u) = defer_store.more u"
  by (simp_all add: combine_state_def upd_combine_def ops_wf_def)

lemma combine_state_exit: "combine_state m A x w u \<Longrightarrow> \<not> g_exit u"
  by (simp add: combine_state_def)

lemma keeps_combine_state:
  assumes "keeps_combine m A g" and "combine_state m A x w u"
  shows "combine_state m A x w (g u) \<and> defer_store.more (g u) = defer_store.more u"
  using assms by (simp add: keeps_combine_def combine_state_def)

text \<open>The flags of a call leave the rest alone.\<close>

lemma nowait_logged:
  assumes "keeps_combine m A (\<lambda>u. snd (call f args u))" and "\<And>u. fst (call f args u) \<noteq> Bail"
    and "combine_state m A x w u"
  shows "\<exists>r u'. async_call_nowait (logged call f args) u = (r, u') \<and> r \<noteq> Bail \<and> combine_state m A x w u' \<and>
    defer_store.more u' = defer_store.more u @ [args]"
proof -
  have step: "\<exists>r v'. logged call f args v = (r, v') \<and> r \<noteq> Bail \<and> combine_state m A x w v' \<and> \<not> g_exit v' \<and>
      defer_store.more v' = defer_store.more v @ [args]" if "combine_state m A x w v" for v
    using keeps_combine_state [OF assms(1) that] assms(2) [of v] combine_state_exit
    by (auto simp: logged_def split_beta)
  show ?thesis
  proof (cases "g_task u")
    case None
    from step [of "u\<lparr>s_flags := set_flag (s_flags u) SCHED_NOWAIT\<rparr>"] assms(3) obtain r v' where
      "logged call f args (u\<lparr>s_flags := set_flag (s_flags u) SCHED_NOWAIT\<rparr>) = (r, v')" "r \<noteq> Bail" "combine_state m A x w v'"
      "\<not> g_exit v'" "defer_store.more v' = defer_store.more u @ [args]" by auto
    with None show ?thesis by (cases r) (simp_all add: async_call_nowait_def Let_def)
  next
    case (Some t)
    let ?v = "upd_task t (\<lambda>x. x\<lparr>t_flags := set_flag (t_flags x) TASK_FLAG_NOWAIT\<rparr>) u"
    from step [of ?v] assms(3) obtain r v' where
      "logged call f args ?v = (r, v')" "r \<noteq> Bail" "combine_state m A x w v'" "\<not> g_exit v'"
      "defer_store.more v' = defer_store.more u @ [args]" by auto
    with Some show ?thesis by (cases r) (simp_all add: async_call_nowait_def Let_def)
  qed
qed

lemma fail_if_pending_state:
  assumes "combine_state m A x w u"
  shows "\<exists>u'. fail_if_pending wake s e u = Some u' \<and> combine_state m A x w u' \<and>
    defer_store.more u' = defer_store.more u \<and> ds_status (dstates u' s) \<noteq> OP_PENDING \<and> deferreds u' = deferreds u"
proof (cases "ds_status (dstates u s) = OP_PENDING")
  case True
  let ?u = "upd_dstate s (\<lambda>x. x\<lparr>ds_status := OP_FAILED, ds_result := e\<rparr>) u"
  have "ops_wf ?u" using assms by (simp add: combine_state_def ops_wf_def)
  from deferred_trigger_ops_spec [OF this, of s OP_FAILED e]
  obtain u' where u': "deferred_trigger_ops wake s ?u = Some u'" "ops_wf u'" "defer_frame ?u u'" "ds_status (dstates u' s) = OP_FAILED"
    "\<forall>op. ops u' op = (if op \<in> set (queues u (DeferredOps s)) then settled_op (OP_FAILED, e) (ops u op) else ops u op)"
    by auto
  from u'(5) have "op_arg (ops u' op) = op_arg (ops u op)" for op by simp
  with u' assms True show ?thesis
    by (simp add: fail_if_pending_def combine_state_def defer_frame_def)
qed (use assms in \<open>simp add: fail_if_pending_def\<close>)

lemma free_op_state:
  assumes "combine_state m A x w u"
  shows "combine_state m A x w (async_free_op op u)" "defer_store.more (async_free_op op u) = defer_store.more u"
proof -
  have "ops_wf (async_free_op op u)"
    using assms by (simp add: async_free_op_def combine_state_def ops_wf_upd_op ops_wf_unlink)
  then show "combine_state m A x w (async_free_op op u)"
    using assms by (auto simp: combine_state_def async_free_op_def unlink_op_def split: option.split)
  show "defer_store.more (async_free_op op u) = defer_store.more u"
    by (simp add: async_free_op_def unlink_op_def split: option.split)
qed

text \<open>One callback.\<close>

lemma combine_cb_state:
  assumes "combine_state m A x w u" and "op \<in> A" and "cm_started x = cm_counter x"
    and "\<And>args. keeps_combine m A (\<lambda>u. snd (call (cm_func x) args u))"
    and "\<And>args u. fst (call (cm_func x) args u) \<noteq> Bail"
    and "s = d_state (deferreds w (cm_defer x))"
  shows "\<exists>u' e v. combine_cb wake (logged call) op u = Some u' \<and>
    combine_state m A (x\<lparr>cm_counter := cm_counter x - 1, cm_started := cm_started x - 1,
      cm_freed := (if cm_counter x = 1 then True else cm_freed x)\<rparr>) w u' \<and>
    defer_store.more u' = defer_store.more u @ [(cm_defer x, cm_counter x = 1, op_keys w op, e, v)] \<and>
    (cm_counter x = 1 \<longrightarrow> ds_status (dstates u' s) \<noteq> OP_PENDING)"
proof -
  let ?u1 = "upd_combine m (\<lambda>x. x\<lparr>cm_started := cm_started x - 1\<rparr>) u"
  have u: "op_arg (ops u op) = m" "op_keys u op = op_keys w op" "combines u m = x" "d_state (deferreds u (cm_defer x)) = s"
    using assms(1,2,6) by (auto simp: combine_state_def)
  have u1: "combine_state m A (x\<lparr>cm_started := cm_started x - 1\<rparr>) w ?u1"
    using combine_state_upd(1) [OF assms(1), of "\<lambda>x. x\<lparr>cm_started := cm_started x - 1\<rparr>"] by simp
  define e where "e = (if op_status (ops u op) = ASYNC_STATUS_RESOLVED then IS_NULL else op_result (ops u op))"
  define v where "v = (if op_status (ops u op) = ASYNC_STATUS_RESOLVED then op_result (ops u op) else IS_NULL)"
  let ?args = "(cm_defer x, cm_counter x = 1, op_keys w op, e, v)"
  from nowait_logged [where call = call and f = "cm_func x" and args = ?args, OF assms(4) assms(5) u1] obtain r u2 where
    call: "async_call_nowait (logged call (cm_func x) ?args) ?u1 = (r, u2)" "r \<noteq> Bail"
      "combine_state m A (x\<lparr>cm_started := cm_started x - 1\<rparr>) w u2" "defer_store.more u2 = defer_store.more u @ [?args]"
    by (auto simp: upd_combine_def)
  let ?u3 = "case r of Throw e \<Rightarrow> fail_if_pending wake s e (async_free_op op u2) | _ \<Rightarrow> Some (async_free_op op u2)"
  obtain u3 where u3: "?u3 = Some u3" "combine_state m A (x\<lparr>cm_started := cm_started x - 1\<rparr>) w u3"
    "defer_store.more u3 = defer_store.more u2"
    using free_op_state [OF call(3), of op] fail_if_pending_state [OF free_op_state(1) [OF call(3), of op], of s] call(2)
    by (cases r) auto
  let ?u4 = "upd_combine m (\<lambda>x. x\<lparr>cm_counter := cm_counter x - 1\<rparr>) u3"
  have u4: "combine_state m A (x\<lparr>cm_started := cm_started x - 1, cm_counter := cm_counter x - 1\<rparr>) w ?u4"
    "defer_store.more ?u4 = defer_store.more u2" "combines ?u4 m = x\<lparr>cm_started := cm_started x - 1, cm_counter := cm_counter x - 1\<rparr>"
    using combine_state_upd(1) [OF u3(2), of "\<lambda>x. x\<lparr>cm_counter := cm_counter x - 1\<rparr>"] u3(2,3)
    by (simp_all add: combine_state_upd(2)) (simp add: combine_state_def upd_combine_def)
  have l: "cm_counter x - 1 = 0 \<longleftrightarrow> cm_counter x = 1" by simp
  have cb: "combine_cb wake (logged call) op u =
      (if cm_counter x = 1
       then map_option (upd_combine m (\<lambda>x. x\<lparr>cm_freed := True\<rparr>)) (fail_if_pending wake s disposed_error ?u4)
       else Some ?u4)"
  proof -
    have c: "combines ?u1 m = x\<lparr>cm_started := cm_started x - 1\<rparr>" using u(3) by (simp add: upd_combine_def)
    have o: "ops ?u1 = ops u" "op_keys ?u1 = op_keys u" "deferreds ?u1 = deferreds u" by (simp_all add: upd_combine_def)
    have n: "(cm_started x - 1 = 0) = (cm_counter x = 1)" using assms(3) by simp
    have d: "d_state (deferreds ?u1 (cm_defer (combines ?u1 m))) = s" using u(4) by (simp add: c o)
    have args: "(cm_defer (combines ?u1 m), cm_started (combines ?u1 m) = 0, op_keys ?u1 op,
        if op_status (ops ?u1 op) = ASYNC_STATUS_RESOLVED then IS_NULL else op_result (ops ?u1 op),
        if op_status (ops ?u1 op) = ASYNC_STATUS_RESOLVED then op_result (ops ?u1 op) else IS_NULL) = ?args"
      "cm_func (combines ?u1 m) = cm_func x"
      using n by (simp_all add: c o u(2) e_def v_def)
    have z: "(cm_counter (combines ?u4 m) = 0) = (cm_counter x = 1)" unfolding u4(3) by simp
    show ?thesis
      unfolding combine_cb_def Let_def u(1) d args call(1)
      using call(2) u3(1) by (cases r) (simp_all only: prod.case outcome.case option.inject z bind.bind_lunit simp_thms)
  qed
  show ?thesis
  proof (cases "cm_counter x = 1")
    case False
    with cb u4 call(4) show ?thesis by (intro exI [of _ ?u4] exI [of _ e] exI [of _ v]) (simp add: combine_state_def)
  next
    case True
    from fail_if_pending_state [OF u4(1), of s disposed_error] obtain u5 where
      u5: "fail_if_pending wake s disposed_error ?u4 = Some u5"
      "combine_state m A (x\<lparr>cm_started := cm_started x - 1, cm_counter := cm_counter x - 1\<rparr>) w u5"
      "defer_store.more u5 = defer_store.more ?u4" "ds_status (dstates u5 s) \<noteq> OP_PENDING" by auto
    with True cb u4(2) call(4) show ?thesis
      by (intro exI [of _ "upd_combine m (\<lambda>x. x\<lparr>cm_freed := True\<rparr>) u5"] exI [of _ e] exI [of _ v])
        (auto simp: combine_state_def upd_combine_def ops_wf_def)
  qed
qed

text \<open>What a call is told: the deferred, whether it is the last, the key.\<close>

fun call_info :: "combine_args \<Rightarrow> nat \<times> bool \<times> zval" where
  "call_info (d, last_call, key, err, val) = (d, last_call, key)"

lemma combine_run_state:
  assumes "combine_state m A x w u" and "l \<noteq> []" and "set l \<subseteq> A" and "length l < 2 ^ 32"
    and "cm_counter x = of_nat (length l)" and "cm_started x = of_nat (length l)"
    and "\<And>op. keeps_combine m A (env op)"
    and "\<And>args. keeps_combine m A (\<lambda>u. snd (call (cm_func x) args u))"
    and "\<And>args u. fst (call (cm_func x) args u) \<noteq> Bail"
    and "s = d_state (deferreds w (cm_defer x))"
  shows "\<exists>u' as. combine_run env call l u = Some u' \<and> defer_store.more u' = defer_store.more u @ as \<and>
    map call_info as =
      map (\<lambda>op. (cm_defer x, False, op_keys w op)) (butlast l) @ [(cm_defer x, True, op_keys w (last l))] \<and>
    ds_status (dstates u' s) \<noteq> OP_PENDING \<and> cm_freed (combines u' m)"
  using assms(1-6,8,9,10)
proof (induction l arbitrary: x u)
  case Nil
  then show ?case by simp
next
  case (Cons op l)
  have e: "combine_state m A x w (env op u)" "defer_store.more (env op u) = defer_store.more u"
    using keeps_combine_state [OF assms(7) Cons.prems(1)] by simp_all
  let ?x = "x\<lparr>cm_counter := cm_counter x - 1, cm_started := cm_started x - 1,
      cm_freed := (if cm_counter x = 1 then True else cm_freed x)\<rparr>"
  have one: "cm_counter x = 1 \<longleftrightarrow> l = []"
    using Cons.prems(4,5) by (auto simp: word_of_nat_eq_0_iff dest: dvd_imp_le)
  obtain u1 er v where u1: "combine_cb wake (logged call) op (env op u) = Some u1" "combine_state m A ?x w u1"
    "defer_store.more u1 = defer_store.more u @ [(cm_defer x, cm_counter x = 1, op_keys w op, er, v)]"
    "cm_counter x = 1 \<longrightarrow> ds_status (dstates u1 s) \<noteq> OP_PENDING"
    using combine_cb_state [where call = call and op = op, OF e(1) _ _ Cons.prems(7) Cons.prems(8) Cons.prems(9)] Cons.prems e(2)
    by auto
  show ?case
  proof (cases "l = []")
    case True
    with u1 one show ?thesis by (auto simp: combine_state_def intro!: exI [of _ "[_]"])
  next
    case False
    have "\<exists>u' as. combine_run env call l u1 = Some u' \<and> defer_store.more u' = defer_store.more u1 @ as \<and>
      map call_info as =
        map (\<lambda>op. (cm_defer ?x, False, op_keys w op)) (butlast l) @ [(cm_defer ?x, True, op_keys w (last l))] \<and>
      ds_status (dstates u' s) \<noteq> OP_PENDING \<and> cm_freed (combines u' m)"
      by (rule Cons.IH [OF u1(2) False]) (use Cons.prems in simp_all)
    then obtain u' as where "combine_run env call l u1 = Some u'" "defer_store.more u' = defer_store.more u1 @ as"
      "map call_info as =
        map (\<lambda>op. (cm_defer x, False, op_keys w op)) (butlast l) @ [(cm_defer x, True, op_keys w (last l))]"
      "ds_status (dstates u' s) \<noteq> OP_PENDING" "cm_freed (combines u' m)" by auto
    with u1 False one show ?thesis
      by (intro exI [of _ u'] exI [of _ "(cm_defer x, cm_counter x = 1, op_keys w op, er, v) # as"]) simp
  qed
qed



section \<open>A settled awaitable that changes\<close>

text \<open>
  The result of \<open>transform\<close> can change after it was settled: the callback of \<open>transform\<close> does not
  check the status, so an awaitable that has failed when the scheduler shut down (and gave that
  failure to everyone who awaited it) becomes resolved when the source settles later.
\<close>

theorem transform_overwrites_outcome:
  assumes "ops_wf w" and "transforms w op = (s, f)" and "ds_refcount (dstates w s) \<noteq> 1"
    and "\<And>u. call f (if op_status (ops w op) = ASYNC_STATUS_RESOLVED then (IS_NULL, op_result (ops w op))
        else (op_result (ops w op), IS_NULL)) u = (Ret v, u)" and "\<not> g_exit w"
    and "op \<notin> set (queues w (DeferredOps s))"
  shows "\<exists>w1 w2. shutdown_deferred_state wake s err w = Some w1 \<and> deferred_await_delegate s w1 = (OP_FAILED, err) \<and>
    transform_cb wake call op w1 = Some w2 \<and> deferred_await_delegate s w2 = (OP_RESOLVED, v)"
proof -
  let ?w = "upd_dstate s (\<lambda>x. x\<lparr>ds_cancel := False, ds_status := OP_FAILED, ds_result := err\<rparr>) w"
  have "ops_wf ?w" using assms(1) by (simp add: ops_wf_def)
  from deferred_trigger_ops_spec [OF this, of s OP_FAILED err] obtain w1 where
    w1: "deferred_trigger_ops wake s ?w = Some w1" "ops_wf w1" "g_exit w1 = g_exit w" "ds_status (dstates w1 s) = OP_FAILED"
      "ds_result (dstates w1 s) = err" "ds_refcount (dstates w1 s) = ds_refcount (dstates w s)" "ops w1 op = ops w op"
      "transforms w1 = transforms w"
    using assms(6) by (auto simp: defer_frame_def)
  define args where "args = (if op_status (ops w op) = ASYNC_STATUS_RESOLVED then (IS_NULL, op_result (ops w op))
      else (op_result (ops w op), IS_NULL))"
  define u where "u = snd (async_call_nowait (call f args) w1)"
  have u: "async_call_nowait (call f args) w1 = (Ret v, u)" "ops_wf u" "dstates u = dstates w1"
    using assms(4,5) w1(2,3) unfolding args_def [symmetric] u_def
    by (auto simp: async_call_nowait_def ops_wf_def upd_task_def Let_def split: option.split)
  let ?u = "upd_dstate s (\<lambda>x. x\<lparr>ds_status := OP_RESOLVED, ds_result := v\<rparr>) u"
  have "ops_wf ?u" using u(2) by (simp add: ops_wf_def)
  from deferred_trigger_ops_spec [OF this, of s OP_RESOLVED v] obtain w2 where
    w2: "deferred_trigger_ops wake s ?u = Some w2" "ds_status (dstates w2 s) = OP_RESOLVED" "ds_result (dstates w2 s) = v"
      "ds_refcount (dstates w2 s) = ds_refcount (dstates w s)"
    using u(3) w1(6) by auto
  have "transform_cb wake call op w1 = Some (async_free_op op (upd_dstate s (\<lambda>x. x\<lparr>ds_refcount := ds_refcount x - 1\<rparr>) w2))"
    using w1(7,8) assms(2,3) u(1) w2 unfolding args_def by (simp add: transform_cb_def release_deferred_state_def Let_def)
  moreover have "dstates (async_free_op op x) = dstates x" for x :: "'a defer_store_scheme"
    by (simp add: async_free_op_def unlink_op_def split: option.split)
  ultimately show ?thesis
    using w1(1,4,5) w2 by (intro exI [of _ w1] exI [of _ "async_free_op op (upd_dstate s (\<lambda>x. x\<lparr>ds_refcount := ds_refcount x - 1\<rparr>) w2)"]) (simp add: shutdown_deferred_state_def deferred_await_delegate_def)
qed

theorem transform_overwrites_outcome_witness:
  "\<exists>w1 w2. shutdown_deferred_state wake 0 (IS_OBJECT 5) (upd_dstate 0 (\<lambda>x. x\<lparr>ds_refcount := 2\<rparr>) deferred_world) = Some w1 \<and>
     transform_cb wake (\<lambda>_ _ u. (Ret (IS_LONG 3), u)) 2 w1 = Some w2 \<and> deferred_await_delegate 0 w2 = (OP_RESOLVED, IS_LONG 3)"
proof -
  let ?w = "upd_dstate 0 (\<lambda>x. x\<lparr>ds_refcount := 2\<rparr>) deferred_world"
  have "transforms ?w = (\<lambda>_. (0, 0))"
    by (simp add: deferred_world_def async_alloc_op_def async_append_op_def) (simp add: deferred_base_def await_store.defs defer_store.defs)
  moreover have "\<not> g_exit ?w" by (simp add: deferred_world_def async_alloc_op_def async_append_op_def)
  moreover have "ops_wf ?w" using deferred_world_sel(1) by (simp add: ops_wf_def)
  ultimately show ?thesis
    using transform_overwrites_outcome [of ?w 2 0 0 "\<lambda>_ _ u. (Ret (IS_LONG 3), u)" "IS_LONG 3" "IS_OBJECT 5"] by simp blast
qed

end
