(* ===== verification/Waiting.thy ===== *)
theory Waiting
  imports Promise
begin

text \<open>
  An execution of a task that waits for one operation: the state in which it is suspended, and what it
  finds when it continues. The properties of the network components and of DNS rest on these lemmas.
\<close>

section \<open>The suspended task\<close>

definition may_wait :: "nat \<Rightarrow> 'a task_store_scheme \<Rightarrow> bool" where
  "may_wait t w \<longleftrightarrow> g_task w = Some t \<and> first_error (await_checks_task t w) = None \<and>
     (\<forall>c. x_cancel (contexts w (g_context w)) = Some c \<longrightarrow> \<not> triggered (cancels w c))"

definition suspended :: "nat \<Rightarrow> opid \<Rightarrow> 'a task_store_scheme \<Rightarrow> 'a task_store_scheme" where
  "suspended t op w = upd_task t (\<lambda>x. x\<lparr>t_status := TASK_SUSPENDED\<rparr>)
     (await_register (await_cancellation op w) Cancel_op Continue_op_task t op (upd_op op (\<lambda>x. x\<lparr>op_result := IS_NULL\<rparr>) w))"

lemma may_wait_cong:
  assumes "g_task w' = g_task w" and "tasks w' = tasks w" and "s_flags w' = s_flags w" and "contexts w' = contexts w"
    and "g_context w' = g_context w" and "cancels w' = cancels w"
  shows "may_wait t w' = may_wait t w"
  using assms by (simp add: may_wait_def await_checks_task_def sched_flag_def)

lemma may_wait_ok: "may_wait t w \<Longrightarrow> \<not> sched_flag SCHED_ERROR w"
  by (auto simp: may_wait_def await_checks_task_def split: if_splits)

lemma suspended_more [simp]: "task_store.more (suspended t op w) = task_store.more w"
  by (simp add: suspended_def upd_task_def)

lemma suspended_sel [simp]:
  "s_flags (suspended t op w) = s_flags w" "next_opid (suspended t op w) = next_opid w"
  "op_list (ops w op) \<noteq> None \<Longrightarrow> queues (suspended t op w) = queues w"
  "op_callback (ops (suspended t op w) op) = Some Continue_op_task" "op_flags (ops (suspended t op w) x) = op_flags (ops w x)"
  "op_status (ops (suspended t op w) op) = ASYNC_STATUS_RUNNING" "op_arg (ops (suspended t op w) op) = t"
  "x \<noteq> op \<Longrightarrow> ops (suspended t op w) x = ops w x"
  by (auto simp: suspended_def await_register_def async_append_op_def Let_def split: option.split)

lemma ops_wf_suspended [inv_intros]: "ops_wf w \<Longrightarrow> op < next_opid w \<Longrightarrow> ops_wf (suspended t op w)"
  by (subst ops_wf_cong [where w = "await_register (await_cancellation op w) Cancel_op Continue_op_task t op
      (upd_op op (\<lambda>x. x\<lparr>op_result := IS_NULL\<rparr>) w)"]) (simp_all add: suspended_def ops_wf_register ops_wf_upd_op)

section \<open>Continuing\<close>

lemma await_finish_continues:
  assumes "\<not> sched_flag SCHED_ERROR u"
  shows "\<exists>w1. await_finish canc op u =
      (if op_status (ops u op) = ASYNC_STATUS_RESOLVED then Await_success else Await_failure, w1) \<and>
    task_store.more w1 = task_store.more u \<and> queues w1 = queues u \<and> next_opid w1 = next_opid u \<and>
    op_list (ops w1 op) = op_list (ops u op) \<and> op_result (ops w1 op) = op_result (ops u op) \<and>
    op_flags (ops w1 op) = op_flags (ops u op) \<and> (\<forall>x. x \<noteq> op \<longrightarrow> ops w1 x = ops u x) \<and> (ops_wf u \<longrightarrow> ops_wf w1)"
proof -
  define w1 where "w1 = (case canc of None \<Rightarrow> u
      | Some c \<Rightarrow> if op_cancel (ops u op) \<noteq> None
                  then upd_op op (\<lambda>x. x\<lparr>op_cancel := None\<rparr>)
                         (upd_cancel c (\<lambda>x. x\<lparr>c_callbacks := remove1 (OpCb op) (c_callbacks x)\<rparr>) u)
                  else u)"
  have w1: "s_flags w1 = s_flags u" "op_status (ops w1 op) = op_status (ops u op)" "op_result (ops w1 op) = op_result (ops u op)"
    "task_store.more w1 = task_store.more u" "queues w1 = queues u" "next_opid w1 = next_opid u"
    "op_list (ops w1 op) = op_list (ops u op)" "op_flags (ops w1 op) = op_flags (ops u op)" "\<forall>x. x \<noteq> op \<longrightarrow> ops w1 x = ops u x"
    by (simp_all add: w1_def split: option.split)
  have "ops_wf w1" if "ops_wf u" using that by (auto simp: w1_def ops_wf_def split: option.split)
  with w1 assms show ?thesis
    unfolding await_finish_def w1_def [symmetric] Let_def by (intro exI [of _ w1]) (simp add: sched_flag_def)
qed

lemma await_suspends:
  assumes "may_wait t w" and "\<not> sched_flag SCHED_ERROR (yield Suspend (suspended t op w))"
  defines "u \<equiv> yield Suspend (suspended t op w)"
  shows "\<exists>w1. async_await_op yield op w =
      Some (if op_status (ops u op) = ASYNC_STATUS_RESOLVED then Await_success else Await_failure, w1) \<and>
    task_store.more w1 = task_store.more u \<and> queues w1 = queues u \<and> next_opid w1 = next_opid u \<and>
    op_list (ops w1 op) = op_list (ops u op) \<and> op_result (ops w1 op) = op_result (ops u op) \<and>
    op_flags (ops w1 op) = op_flags (ops u op) \<and> (\<forall>x. x \<noteq> op \<longrightarrow> ops w1 x = ops u x) \<and> (ops_wf u \<longrightarrow> ops_wf w1)"
proof -
  have "\<not> triggered (cancels w c)" if "await_cancellation op w = Some c" for c
    using that assms(1) by (auto simp: may_wait_def await_cancellation_def split: if_splits)
  then have "async_await_op yield op w = Some (await_finish (await_cancellation op w) op u)"
    using async_await_op_task [of w t op yield] assms(1) by (simp add: may_wait_def u_def suspended_def)
  with await_finish_continues [OF assms(2) [folded u_def], of "await_cancellation op w" op] show ?thesis by auto
qed

section \<open>Closing what executions wait on\<close>

text \<open>
  The common form of the \<open>close\<close> methods: the error is stored (state \<open>u\<close>), the queue \<open>q\<close> is emptied by a
  loop whose body fails the operation with the error, and something may be done at the end (\<open>fin\<close>).
\<close>

definition closes ::
  "list_addr \<Rightarrow> ('a task_store_scheme \<Rightarrow> zval) \<Rightarrow> ('a task_store_scheme \<Rightarrow> bool) \<Rightarrow> 'a task_store_scheme \<Rightarrow>
   'a task_store_scheme option \<Rightarrow> bool" where
  "closes q error is_shut w r \<longleftrightarrow> (\<exists>settle fin (u :: 'a task_store_scheme) e. r = map_option fin (drain_ops settle q u) \<and> ops_wf u \<and> ops u = ops w \<and>
     queues u = queues w \<and> e \<noteq> IS_UNDEF \<and> (\<forall>x. task_store.more x = task_store.more u \<longrightarrow>
       (\<forall>op. settle op x = async_fail_op wake op e x) \<and> ops (fin x) = ops x \<and> queues (fin x) = queues x \<and>
       next_opid (fin x) = next_opid x \<and> error (fin x) = e \<and> is_shut (fin x)))"

lemma closes_finI:
  fixes u w :: "'a task_store_scheme" and q :: list_addr and error :: "'a task_store_scheme \<Rightarrow> zval"
    and is_shut :: "'a task_store_scheme \<Rightarrow> bool"
  assumes "ops_wf u" and "ops u = ops w" and "queues u = queues w" and "e \<noteq> IS_UNDEF"
    and "\<And>op x. task_store.more x = task_store.more u \<Longrightarrow> settle op x = async_fail_op wake op e x"
    and "\<And>x. task_store.more x = task_store.more u \<Longrightarrow> ops (fin x) = ops x \<and> queues (fin x) = queues x \<and>
       next_opid (fin x) = next_opid x \<and> error (fin x) = e \<and> is_shut (fin x)"
  shows "closes q error is_shut w (map_option fin (drain_ops settle q u))"
  unfolding closes_def using assms by blast

lemma closesI:
  fixes u w :: "'a task_store_scheme" and q :: list_addr and error :: "'a task_store_scheme \<Rightarrow> zval"
    and is_shut :: "'a task_store_scheme \<Rightarrow> bool"
  assumes "ops_wf u" and "ops u = ops w" and "queues u = queues w" and "e \<noteq> IS_UNDEF"
    and "\<And>op x. task_store.more x = task_store.more u \<Longrightarrow> settle op x = async_fail_op wake op e x"
    and "\<And>x. task_store.more x = task_store.more u \<Longrightarrow> error x = e \<and> is_shut x"
  shows "closes q error is_shut w (drain_ops settle q u)"
  using closes_finI [where fin = "\<lambda>x. x" and settle = settle and q = q and error = error and is_shut = is_shut, OF assms(1-5)] assms(6)
  by (simp add: option.map_ident)

text \<open>
  The contract: \<open>close\<close> on an open object has this form, on a closed one it does nothing, and waiting on
  a closed one throws the error.
\<close>

locale closable =
  fixes q :: list_addr
    and error :: "'a task_store_scheme \<Rightarrow> zval"
    and is_open :: "'a task_store_scheme \<Rightarrow> bool"
    and is_closed :: "'a task_store_scheme \<Rightarrow> bool"
    and close :: "zval option \<Rightarrow> 'a task_store_scheme \<Rightarrow> 'a task_store_scheme option"
    and await :: "'a task_store_scheme \<Rightarrow> (outcome \<times> 'a task_store_scheme) option"
  assumes close_open: "is_open w \<Longrightarrow> ops_wf w \<Longrightarrow> closes q error is_closed w (close val w)"
    and close_closed: "is_closed w \<Longrightarrow> close val w = Some w"
    and await_error: "is_closed w \<Longrightarrow> error w \<noteq> IS_UNDEF \<Longrightarrow> await w = Some (Throw (error w), w)"
begin

lemma close_fails_all:
  assumes "is_open w" and "ops_wf w"
  shows "\<exists>w' e. close val w = Some w' \<and> e \<noteq> IS_UNDEF \<and> queues w' = (queues w)(q := []) \<and> ops_wf w' \<and>
    (\<forall>op. ops w' op = (if op \<in> set (queues w q) then settled_op (OP_FAILED, e) (ops w op) else ops w op)) \<and>
    await w' = Some (Throw e, w') \<and> close val' w' = Some w'"
proof -
  obtain settle and fin :: "'a task_store_scheme \<Rightarrow> 'a task_store_scheme" and u :: "'a task_store_scheme" and e where u: "close val w = map_option fin (drain_ops settle q u)" "ops_wf u" "ops u = ops w"
    "queues u = queues w" "e \<noteq> IS_UNDEF"
    and x: "\<forall>x. task_store.more x = task_store.more u \<longrightarrow> (\<forall>op. settle op x = async_fail_op wake op e x) \<and> ops (fin x) = ops x \<and>
       queues (fin x) = queues x \<and> next_opid (fin x) = next_opid x \<and> error (fin x) = e \<and> is_closed (fin x)"
    using close_open [OF assms, of val] unfolding closes_def by blast
  have "settle op v = async_fail_op wake op e v" if "task_store.more v = task_store.more u" for op v using x that by blast
  from drain_fail_wake [OF u(2) this] obtain v where v: "drain_ops settle q u = Some v" "ops_wf v"
    "task_store.more v = task_store.more u" "queues v = (queues u)(q := [])"
    "\<forall>x. ops v x = (if x \<in> set (queues u q) then settled_op (OP_FAILED, e) (ops u x) else ops u x)" by blast
  have w': "close val w = Some (fin v)" using u(1) v(1) by simp
  note f = x [rule_format, OF v(3)]
  have "ops_wf (fin v)" using v(2) f by (subst ops_wf_cong [where w = v]) simp_all
  moreover have "await (fin v) = Some (Throw e, fin v)" "close val' (fin v) = Some (fin v)"
    using await_error [of "fin v"] close_closed [of "fin v"] f u(5) by auto
  ultimately show ?thesis using w' f v(4,5) u(3-5) by (intro exI [of _ "fin v"] exI [of _ e]) simp
qed

end

end
