(* ===== verification/Watcher.thy ===== *)
theory Watcher
  imports Event
begin

text \<open>
  Watchers that executions wait on (\<open>watcher/timer.c\<close>, \<open>watcher/signal.c\<close>, \<open>watcher/poll.c\<close>,
  \<open>watcher/monitor.c\<close>): timers and timeouts, signals, polled descriptors and monitored paths. A
  watcher queues one operation for each execution that waits and completes the operations from the
  callback of its libuv handle; closing it fails them. The handle keeps the loop alive while an
  execution of a foreground context waits; these are counted in eight bits.
\<close>

section \<open>State\<close>

type_synonym u64 = "64 word"

text \<open>Starting a handle that is closing fails in libuv; the source ignores the result.\<close>

definition uv_start :: "'arg \<Rightarrow> 'arg uv_handle \<Rightarrow> 'arg uv_handle" where
  "uv_start a h = (if uv_closing h then h else h\<lparr>uv_active := Some a\<rparr>)"

definition uv_stop :: "'arg uv_handle \<Rightarrow> 'arg uv_handle" where
  "uv_stop h = h\<lparr>uv_active := None\<rparr>"

record async_timer =
  tm_error :: zval
  tm_delay :: u64
  tm_handle :: "(u64 \<times> u64) uv_handle"
  tm_ref_count :: u8
  tm_cancel :: bool
  tm_refs :: nat

record async_timeout =
  to_error :: zval
  to_handle :: "(u64 \<times> u64) uv_handle"
  to_cancel :: bool
  to_refs :: nat

record sleep_timer =
  sl_op :: opid
  sl_handle :: "(u64 \<times> u64) uv_handle"
  sl_freed :: bool

text \<open>The handles of signals and polls are initialised by the constructor only.\<close>

record async_signal =
  sg_error :: zval
  sg_signum :: int
  sg_handle :: "int uv_handle option"
  sg_ref_count :: u8
  sg_cancel :: bool
  sg_refs :: nat

record async_poll =
  pl_error :: zval
  pl_fd :: int
  pl_handle :: "u32 uv_handle option"
  pl_events :: u32
  pl_ref_count :: u8
  pl_cancel :: bool
  pl_refs :: nat

record async_monitor =
  mo_error :: zval
  mo_path :: "string option"
  mo_recursive :: bool
  mo_handle :: "string uv_handle"
  mo_cancel :: bool
  mo_refs :: nat

record async_monitor_op =
  mop_status :: int
  mop_events :: int
  mop_len :: nat
  mop_path :: string

record watch_store = task_store +
  timers :: "nat \<Rightarrow> async_timer"
  timeouts :: "nat \<Rightarrow> async_timeout"
  sleepers :: "nat \<Rightarrow> sleep_timer"
  next_sleeper :: nat
  signals :: "nat \<Rightarrow> async_signal"
  polls :: "nat \<Rightarrow> async_poll"
  monitors :: "nat \<Rightarrow> async_monitor"
  monitor_ops :: "opid \<Rightarrow> async_monitor_op"

type_synonym 'a watch_wake = "opid \<Rightarrow> 'a watch_store_scheme \<Rightarrow> 'a watch_store_scheme"
type_synonym 'a watch_yield = "transfer \<Rightarrow> 'a watch_store_scheme \<Rightarrow> 'a watch_store_scheme"

definition upd_timer :: "nat \<Rightarrow> (async_timer \<Rightarrow> async_timer) \<Rightarrow> 'a watch_store_scheme \<Rightarrow> 'a watch_store_scheme" where
  "upd_timer t f w = w\<lparr>timers := (timers w)(t := f (timers w t))\<rparr>"

definition upd_timeout :: "nat \<Rightarrow> (async_timeout \<Rightarrow> async_timeout) \<Rightarrow> 'a watch_store_scheme \<Rightarrow> 'a watch_store_scheme" where
  "upd_timeout t f w = w\<lparr>timeouts := (timeouts w)(t := f (timeouts w t))\<rparr>"

definition upd_sleeper :: "nat \<Rightarrow> (sleep_timer \<Rightarrow> sleep_timer) \<Rightarrow> 'a watch_store_scheme \<Rightarrow> 'a watch_store_scheme" where
  "upd_sleeper t f w = w\<lparr>sleepers := (sleepers w)(t := f (sleepers w t))\<rparr>"

definition upd_signal :: "nat \<Rightarrow> (async_signal \<Rightarrow> async_signal) \<Rightarrow> 'a watch_store_scheme \<Rightarrow> 'a watch_store_scheme" where
  "upd_signal s f w = w\<lparr>signals := (signals w)(s := f (signals w s))\<rparr>"

definition upd_poll :: "nat \<Rightarrow> (async_poll \<Rightarrow> async_poll) \<Rightarrow> 'a watch_store_scheme \<Rightarrow> 'a watch_store_scheme" where
  "upd_poll p f w = w\<lparr>polls := (polls w)(p := f (polls w p))\<rparr>"

definition upd_monitor :: "nat \<Rightarrow> (async_monitor \<Rightarrow> async_monitor) \<Rightarrow> 'a watch_store_scheme \<Rightarrow> 'a watch_store_scheme" where
  "upd_monitor m f w = w\<lparr>monitors := (monitors w)(m := f (monitors w m))\<rparr>"

definition upd_monitor_op :: "opid \<Rightarrow> (async_monitor_op \<Rightarrow> async_monitor_op) \<Rightarrow> 'a watch_store_scheme \<Rightarrow> 'a watch_store_scheme" where
  "upd_monitor_op op f w = w\<lparr>monitor_ops := (monitor_ops w)(op := f (monitor_ops w op))\<rparr>"

section \<open>What the watchers share\<close>

text \<open>
  \<open>ASYNC_UNREF_ENTER\<close> and \<open>ASYNC_UNREF_EXIT\<close> on the counter and the handle, for an execution in a
  background context or not.
\<close>

definition async_unref_enter :: "bool \<Rightarrow> u8 \<times> 'arg uv_handle \<Rightarrow> u8 \<times> 'arg uv_handle" where
  "async_unref_enter background x =
     (if background then x
      else let n = fst x + 1 in (n, if n = 1 then (snd x)\<lparr>uv_has_ref := True\<rparr> else snd x))"

definition async_unref_exit :: "bool \<Rightarrow> u8 \<times> 'arg uv_handle \<Rightarrow> u8 \<times> 'arg uv_handle" where
  "async_unref_exit background x =
     (if background then x
      else let n = fst x - 1 in (n, if n = 0 then (snd x)\<lparr>uv_has_ref := False\<rparr> else snd x))"

text \<open>\<open>while (cont && q->first) { ASYNC_NEXT_OP; cont = (op != last); ASYNC_FINISH_OP; }\<close>\<close>

partial_function (option) finish_until ::
  "(opid \<Rightarrow> 'a op_store_scheme \<Rightarrow> 'a op_store_scheme) \<Rightarrow> list_addr \<Rightarrow> opid option \<Rightarrow> 'a op_store_scheme \<Rightarrow>
   'a op_store_scheme option" where
  "finish_until run q stop w = (case async_next_op q w of
     None \<Rightarrow> Some w
   | Some r \<Rightarrow>
       if Some (fst r) = stop then Some (async_finish_op run (fst r) (snd r))
       else finish_until run q stop (async_finish_op run (fst r) (snd r)))"

definition queue_first :: "list_addr \<Rightarrow> 'a op_store_scheme \<Rightarrow> opid option" where
  "queue_first q w = (case queues w q of [] \<Rightarrow> None | op # _ \<Rightarrow> Some op)"

definition queue_last :: "list_addr \<Rightarrow> 'a op_store_scheme \<Rightarrow> opid option" where
  "queue_last q w = (if queues w q = [] then None else Some (last (queues w q)))"

text \<open>The error of \<open>close\<close>: the default, with the argument as its cause.\<close>

definition watch_close_error :: "string \<Rightarrow> zval option \<Rightarrow> zval" where
  "watch_close_error msg val =
     (let e = IS_ERROR ErrorCe msg None
      in case val of None \<Rightarrow> e | Some v \<Rightarrow> if v = IS_NULL then e else set_previous e v)"

text \<open>
  Waiting on an operation that is queued: \<open>enter\<close> and \<open>leave\<close> are the macros on the handle of the
  watcher.
\<close>

definition watch_await ::
  "'a yielding \<Rightarrow> ('a task_store_scheme \<Rightarrow> 'a task_store_scheme) \<Rightarrow> ('a task_store_scheme \<Rightarrow> 'a task_store_scheme) \<Rightarrow> opid \<Rightarrow>
   'a task_store_scheme \<Rightarrow> (outcome \<times> 'a task_store_scheme) option" where
  "watch_await yield enter leave op w =
     map_option (\<lambda>(r, w1).
       if r = Await_bailout then (Bail, w1)
       else (if r = Await_failure then Throw (op_result (ops w1 op)) else Ret IS_NULL, async_free_op op (leave w1)))
     (async_await_op yield op (enter w))"

section \<open>Timers\<close>

definition timer_stop_idle :: "nat \<Rightarrow> 'a watch_store_scheme \<Rightarrow> 'a watch_store_scheme" where
  "timer_stop_idle t w =
     (if queues w (TimerOps t) = [] \<and> \<not> uv_closing (tm_handle (timers w t))
      then upd_timer t (\<lambda>x. x\<lparr>tm_handle := uv_stop (tm_handle x)\<rparr>) w else w)"

definition trigger_timer :: "'a watch_wake \<Rightarrow> nat \<Rightarrow> 'a watch_store_scheme \<Rightarrow> 'a watch_store_scheme option" where
  "trigger_timer run t w = map_option (timer_stop_idle t)
     (if tm_error (timers w t) = IS_UNDEF then finish_until run (TimerOps t) (queue_last (TimerOps t) w) w else Some w)"

definition close_timer :: "nat \<Rightarrow> 'a watch_store_scheme \<Rightarrow> 'a watch_store_scheme" where
  "close_timer t w = upd_timer t (\<lambda>x. x\<lparr>tm_refs := tm_refs x - 1\<rparr>) w"

definition shutdown_timer ::
  "'a watch_wake \<Rightarrow> nat \<Rightarrow> zval option \<Rightarrow> 'a watch_store_scheme \<Rightarrow> 'a watch_store_scheme option" where
  "shutdown_timer run t error w =
     (let w1 = upd_timer t (\<lambda>x. x\<lparr>tm_cancel := False,
            tm_error := (case error of Some e \<Rightarrow> if tm_error x = IS_UNDEF then e else tm_error x | None \<Rightarrow> tm_error x)\<rparr>) w;
          w2 = upd_timer t (\<lambda>x. if uv_closing (tm_handle x) then x
                 else x\<lparr>tm_refs := tm_refs x + 1, tm_handle := uv_close (tm_handle x)\<rparr>) w1
      in if error = None then Some w2
         else drain_ops (\<lambda>op w. async_fail_op run op (tm_error (timers w t)) w) (TimerOps t) w2)"

definition async_timer_object_create :: "nat \<Rightarrow> 'a watch_store_scheme \<Rightarrow> 'a watch_store_scheme" where
  "async_timer_object_create t w =
     (upd_timer t (\<lambda>_. \<lparr>tm_error = IS_UNDEF, tm_delay = 0, tm_handle = uv_init\<lparr>uv_has_ref := False\<rparr>, tm_ref_count = 0,
        tm_cancel = True, tm_refs = 1\<rparr>) w)\<lparr>s_shutdown := list_append (ShutdownCb CTimer t) (s_shutdown w)\<rparr>"

definition async_timer_object_dtor ::
  "'a watch_wake \<Rightarrow> nat \<Rightarrow> 'a watch_store_scheme \<Rightarrow> 'a watch_store_scheme option" where
  "async_timer_object_dtor run t w =
     (if tm_cancel (timers w t)
      then shutdown_timer run t None (w\<lparr>s_shutdown := remove1 (ShutdownCb CTimer t) (s_shutdown w)\<rparr>)
      else Some w)"

text \<open>The delay is converted to an unsigned integer before it is compared with 0.\<close>

definition timer_construct :: "nat \<Rightarrow> int \<Rightarrow> 'a watch_store_scheme \<Rightarrow> zval option \<times> 'a watch_store_scheme" where
  "timer_construct t milliseconds w =
     (let delay = (word_of_int milliseconds :: u64)
      in if delay < 0 then (Some (IS_ERROR ErrorCe ''Delay must not be shorter than 0 milliseconds'' None), w)
         else (None, upd_timer t (\<lambda>x. x\<lparr>tm_delay := delay\<rparr>) w))"

definition timer_close ::
  "'a watch_wake \<Rightarrow> nat \<Rightarrow> zval option \<Rightarrow> 'a watch_store_scheme \<Rightarrow> 'a watch_store_scheme option" where
  "timer_close run t val w =
     (if tm_cancel (timers w t)
      then shutdown_timer run t (Some (watch_close_error ''Timer has been closed'' val))
             (w\<lparr>s_shutdown := remove1 (ShutdownCb CTimer t) (s_shutdown w)\<rparr>)
      else Some w)"

definition timer_ref :: "(bool \<Rightarrow> u8 \<times> (u64 \<times> u64) uv_handle \<Rightarrow> u8 \<times> (u64 \<times> u64) uv_handle) \<Rightarrow> bool \<Rightarrow> nat \<Rightarrow>
    'a watch_store_scheme \<Rightarrow> 'a watch_store_scheme" where
  "timer_ref f bg t w = upd_timer t (\<lambda>x. let (n, h) = f bg (tm_ref_count x, tm_handle x)
     in x\<lparr>tm_ref_count := n, tm_handle := h\<rparr>) w"

definition timer_await_timeout ::
  "'a watch_yield \<Rightarrow> nat \<Rightarrow> 'a watch_store_scheme \<Rightarrow> (outcome \<times> 'a watch_store_scheme) option" where
  "timer_await_timeout yield t w =
     (if tm_error (timers w t) \<noteq> IS_UNDEF then Some (Throw (tm_error (timers w t)), w)
      else
        let d = tm_delay (timers w t);
            w1 = (if queues w (TimerOps t) = [] \<and> uv_active (tm_handle (timers w t)) = None
                  then upd_timer t (\<lambda>x. x\<lparr>tm_handle := uv_start (d, d) (tm_handle x)\<rparr>) w else w);
            bg = async_context_is_background (g_context w1) w1;
            (op, w2) = async_alloc_op w1;
            w3 = async_append_op (TimerOps t) op w2
        in watch_await yield (timer_ref async_unref_enter bg t) (timer_ref async_unref_exit bg t) op w3)"

section \<open>Timeouts\<close>

definition timeout_await_delegate :: "nat \<Rightarrow> 'a watch_store_scheme \<Rightarrow> await_status \<times> zval" where
  "timeout_await_delegate t w =
     (if to_cancel (timeouts w t) then (OP_PENDING, IS_UNDEF) else (OP_FAILED, to_error (timeouts w t)))"

definition timeout_await_schedule :: "nat \<Rightarrow> opid \<Rightarrow> 'a op_store_scheme \<Rightarrow> 'a op_store_scheme" where
  "timeout_await_schedule t op w = async_append_op (TimeoutOps t) op w"

definition close_timeout_handle :: "nat \<Rightarrow> 'a watch_store_scheme \<Rightarrow> 'a watch_store_scheme" where
  "close_timeout_handle t w = upd_timeout t (\<lambda>x. x\<lparr>to_refs := to_refs x - 1\<rparr>) w"

definition shutdown_timeout ::
  "'a watch_wake \<Rightarrow> nat \<Rightarrow> zval option \<Rightarrow> 'a watch_store_scheme \<Rightarrow> 'a watch_store_scheme option" where
  "shutdown_timeout run t error w =
     (let w1 = upd_timeout t (\<lambda>x. x\<lparr>to_cancel := False,
            to_error := (case error of Some e \<Rightarrow> if to_error x = IS_UNDEF then e else to_error x | None \<Rightarrow> to_error x)\<rparr>) w;
          w2 = upd_timeout t (\<lambda>x. if uv_closing (to_handle x) then x
                 else x\<lparr>to_refs := to_refs x + 1, to_handle := uv_close (to_handle x)\<rparr>) w1
      in if error = None then Some w2
         else drain_ops (\<lambda>op w. async_fail_op run op (to_error (timeouts w t)) w) (TimeoutOps t) w2)"

definition timeout_expired ::
  "'a watch_wake \<Rightarrow> nat \<Rightarrow> 'a watch_store_scheme \<Rightarrow> 'a watch_store_scheme option" where
  "timeout_expired run t w =
     (if to_cancel (timeouts w t)
      then shutdown_timeout run t (Some (IS_ERROR TimeoutExceptionCe ''Operation timed out'' None))
             (w\<lparr>s_shutdown := remove1 (ShutdownCb CTimeout t) (s_shutdown w)\<rparr>)
      else Some w)"

definition async_timeout_object_create :: "nat \<Rightarrow> u64 \<Rightarrow> 'a watch_store_scheme \<Rightarrow> 'a watch_store_scheme" where
  "async_timeout_object_create t delay w =
     (upd_timeout t (\<lambda>_. \<lparr>to_error = IS_UNDEF, to_handle = uv_start (delay, 0) (uv_init\<lparr>uv_has_ref := False\<rparr>),
        to_cancel = True, to_refs = 1\<rparr>) w)\<lparr>s_shutdown := list_append (ShutdownCb CTimeout t) (s_shutdown w)\<rparr>"

definition async_timeout_object_dtor ::
  "'a watch_wake \<Rightarrow> nat \<Rightarrow> 'a watch_store_scheme \<Rightarrow> 'a watch_store_scheme option" where
  "async_timeout_object_dtor run t w =
     (if to_cancel (timeouts w t)
      then shutdown_timeout run t None (w\<lparr>s_shutdown := remove1 (ShutdownCb CTimeout t) (s_shutdown w)\<rparr>)
      else Some w)"

definition timer_timeout :: "nat \<Rightarrow> int \<Rightarrow> 'a watch_store_scheme \<Rightarrow> outcome \<times> 'a watch_store_scheme" where
  "timer_timeout t milliseconds w =
     (let delay = (word_of_int milliseconds :: u64)
      in if delay < 0 then (Throw (IS_ERROR ErrorCe ''Delay must not be shorter than 0 milliseconds'' None), w)
         else (Ret (IS_OBJECT t), async_timeout_object_create t delay w))"

section \<open>Sleep\<close>

definition sleep_cb :: "'a watch_wake \<Rightarrow> nat \<Rightarrow> 'a watch_store_scheme \<Rightarrow> 'a watch_store_scheme" where
  "sleep_cb run t w = async_finish_op run (sl_op (sleepers w t)) w"

definition sleep_free_cb :: "nat \<Rightarrow> 'a watch_store_scheme \<Rightarrow> 'a watch_store_scheme" where
  "sleep_free_cb t w = upd_sleeper t (\<lambda>x. x\<lparr>sl_freed := True\<rparr>) w"

text \<open>
  PHP's \<open>sleep\<close>. \<open>remaining\<close> is what a PHP built with \<open>PHP_SLEEP_NON_VOID\<close> returns, without the
  exception, when the sleep was interrupted (\<open>None\<close> in other builds).
\<close>

definition asyncsleep ::
  "int option \<Rightarrow> 'a watch_yield \<Rightarrow> int \<Rightarrow> 'a watch_store_scheme \<Rightarrow> (outcome \<times> 'a watch_store_scheme) option" where
  "asyncsleep remaining yield num w =
     (if num < 0 then Some (Ret (IS_BOOL False), w)
      else
        let (op, w1) = async_alloc_op w;
            w2 = async_append_op SchedOperations op w1;
            t = next_sleeper w2;
            h = uv_start (word_of_int (num * 1000), 0) uv_init;
            bg = async_context_is_background (g_context w2) w2;
            w3 = (upd_sleeper t (\<lambda>_. \<lparr>sl_op = op, sl_handle = (if bg then h\<lparr>uv_has_ref := False\<rparr> else h), sl_freed = False\<rparr>) w2)
                   \<lparr>next_sleeper := Suc t\<rparr>
        in map_option (\<lambda>(r, w4).
             case r of Bail \<Rightarrow> (Bail, w4)
             | _ \<Rightarrow> (case (r, remaining) of (Throw _, Some n) \<Rightarrow> Ret (IS_LONG n) | _ \<Rightarrow> r,
                     upd_sleeper t (\<lambda>x. x\<lparr>sl_handle := uv_close (sl_handle x)\<rparr>) w4))
           (watch_await yield (\<lambda>w. w) (\<lambda>w. w) op w3))"

end
