(* ===== verification/SignalPoll.thy ===== *)
theory SignalPoll
  imports Watcher
begin

text \<open>
  The watchers of signals, polled descriptors and monitored paths (\<open>watcher/signal.c\<close>,
  \<open>watcher/poll.c\<close>, \<open>watcher/monitor.c\<close>). The constructors of signals and polls initialise the libuv
  handle and register the shutdown callback, the allocation of the object does not; closing a
  handle that was never initialised is \<open>None\<close>.
\<close>

section \<open>Signals\<close>

definition signal_stop_idle :: "nat \<Rightarrow> 'a watch_store_scheme \<Rightarrow> 'a watch_store_scheme" where
  "signal_stop_idle s w =
     (if queues w (SignalOps s) = []
      then upd_signal s (\<lambda>x. x\<lparr>sg_handle := map_option (\<lambda>h. if uv_closing h then h else uv_stop h) (sg_handle x)\<rparr>) w
      else w)"

definition trigger_signal :: "'a watch_wake \<Rightarrow> nat \<Rightarrow> 'a watch_store_scheme \<Rightarrow> 'a watch_store_scheme option" where
  "trigger_signal run s w = map_option (signal_stop_idle s)
     (if sg_error (signals w s) = IS_UNDEF then finish_until run (SignalOps s) (queue_last (SignalOps s) w) w
      else drain_ops (\<lambda>op w. async_fail_op run op (sg_error (signals w s)) w) (SignalOps s) w)"

definition close_signal :: "nat \<Rightarrow> 'a watch_store_scheme \<Rightarrow> 'a watch_store_scheme" where
  "close_signal s w = upd_signal s (\<lambda>x. x\<lparr>sg_refs := sg_refs x - 1\<rparr>) w"

definition shutdown_signal ::
  "'a watch_wake \<Rightarrow> nat \<Rightarrow> zval option \<Rightarrow> 'a watch_store_scheme \<Rightarrow> 'a watch_store_scheme option" where
  "shutdown_signal run s error w =
     (let w1 = upd_signal s (\<lambda>x. x\<lparr>sg_cancel := False,
            sg_error := (case error of Some e \<Rightarrow> if sg_error x = IS_UNDEF then e else sg_error x | None \<Rightarrow> sg_error x)\<rparr>) w
      in case sg_handle (signals w1 s) of
           None \<Rightarrow> None
         | Some h \<Rightarrow>
             let w2 = (if uv_closing h then w1
                   else upd_signal s (\<lambda>x. x\<lparr>sg_refs := sg_refs x + 1, sg_handle := Some (uv_close h)\<rparr>) w1)
             in if error = None then Some w2
                else drain_ops (\<lambda>op w. async_fail_op run op (sg_error (signals w s)) w) (SignalOps s) w2)"

definition async_signal_object_create :: "nat \<Rightarrow> 'a watch_store_scheme \<Rightarrow> 'a watch_store_scheme" where
  "async_signal_object_create s w = upd_signal s (\<lambda>_. \<lparr>sg_error = IS_UNDEF, sg_signum = 0, sg_handle = None,
     sg_ref_count = 0, sg_cancel = True, sg_refs = 1\<rparr>) w"

definition async_signal_object_dtor ::
  "'a watch_wake \<Rightarrow> nat \<Rightarrow> 'a watch_store_scheme \<Rightarrow> 'a watch_store_scheme option" where
  "async_signal_object_dtor run s w =
     (if sg_cancel (signals w s)
      then shutdown_signal run s None (w\<lparr>s_shutdown := remove1 (ShutdownCb CSignal s) (s_shutdown w)\<rparr>)
      else Some w)"

text \<open>The message prints the number; \<open>show_int\<close> is \<open>%d\<close>.\<close>

definition signal_construct ::
  "(int \<Rightarrow> string) \<Rightarrow> bool \<Rightarrow> nat \<Rightarrow> int \<Rightarrow> 'a watch_store_scheme \<Rightarrow> zval option \<times> 'a watch_store_scheme" where
  "signal_construct show_int cli s signum w =
     (if \<not> cli then (Some (IS_ERROR ErrorCe ''Signal support is only available in CLI mode'' None), w)
      else if signum < 1 then (Some (IS_ERROR ErrorCe (''Invalid signal number: '' @ show_int (to_c_int signum)) None), w)
      else (None, (upd_signal s (\<lambda>x. x\<lparr>sg_signum := to_c_int signum, sg_handle := Some (uv_init\<lparr>uv_has_ref := False\<rparr>)\<rparr>) w)
              \<lparr>s_shutdown := list_append (ShutdownCb CSignal s) (s_shutdown w)\<rparr>))"

definition signal_close ::
  "'a watch_wake \<Rightarrow> nat \<Rightarrow> zval option \<Rightarrow> 'a watch_store_scheme \<Rightarrow> 'a watch_store_scheme option" where
  "signal_close run s val w =
     (if sg_cancel (signals w s)
      then shutdown_signal run s (Some (watch_close_error ''Signal has been closed'' val))
             (w\<lparr>s_shutdown := remove1 (ShutdownCb CSignal s) (s_shutdown w)\<rparr>)
      else Some w)"

definition signal_ref :: "(bool \<Rightarrow> u8 \<times> int uv_handle \<Rightarrow> u8 \<times> int uv_handle) \<Rightarrow> bool \<Rightarrow> nat \<Rightarrow>
    'a watch_store_scheme \<Rightarrow> 'a watch_store_scheme" where
  "signal_ref f bg s w = upd_signal s (\<lambda>x. case sg_handle x of None \<Rightarrow> x
     | Some h \<Rightarrow> let (n, h') = f bg (sg_ref_count x, h) in x\<lparr>sg_ref_count := n, sg_handle := Some h'\<rparr>) w"

definition signal_await ::
  "'a watch_yield \<Rightarrow> nat \<Rightarrow> 'a watch_store_scheme \<Rightarrow> (outcome \<times> 'a watch_store_scheme) option" where
  "signal_await yield s w =
     (if sg_error (signals w s) \<noteq> IS_UNDEF then Some (Throw (sg_error (signals w s)), w)
      else case sg_handle (signals w s) of
        None \<Rightarrow> None
      | Some h \<Rightarrow>
        let w1 = (if queues w (SignalOps s) = [] \<and> uv_active h = None
                  then upd_signal s (\<lambda>x. x\<lparr>sg_handle := Some (uv_start (sg_signum x) h)\<rparr>) w else w);
            bg = async_context_is_background (g_context w1) w1;
            (op, w2) = async_alloc_op w1;
            w3 = async_append_op (SignalOps s) op w2
        in watch_await yield (signal_ref async_unref_enter bg s) (signal_ref async_unref_exit bg s) op w3)"

text \<open>The numbers of a Unix system (\<open>SIGUSR1\<close> and \<open>SIGUSR2\<close> come from the system headers).\<close>

definition is_signal_supported :: "int \<Rightarrow> int \<Rightarrow> bool \<Rightarrow> int \<Rightarrow> bool" where
  "is_signal_supported sigusr1 sigusr2 cli signum \<longleftrightarrow>
     signum > 0 \<and> cli \<and> signum \<in> {1, 2, 3, 9, 15, sigusr1, sigusr2}"

text \<open>\<open>raise\<close> and \<open>uv_kill\<close> are the system: \<open>Some msg\<close> is the message of their error.\<close>

definition signal_raise :: "(int \<Rightarrow> string) \<Rightarrow> (int \<Rightarrow> string option) \<Rightarrow> int \<Rightarrow> outcome" where
  "signal_raise show_int system_raise signum = (case system_raise (to_c_int signum) of
     None \<Rightarrow> Ret IS_NULL
   | Some msg \<Rightarrow> Throw (IS_ERROR ErrorCe (''Failed to raise signal '' @ show_int (to_c_int signum) @ '': '' @ msg) None))"

definition signal_send ::
  "(int \<Rightarrow> string) \<Rightarrow> int \<Rightarrow> int \<Rightarrow> bool \<Rightarrow> (int \<Rightarrow> int \<Rightarrow> string option) \<Rightarrow> int \<Rightarrow> int \<Rightarrow> outcome" where
  "signal_send show_int sigusr1 sigusr2 cli kill pid sig =
     (let signum = to_c_int sig
      in if \<not> is_signal_supported sigusr1 sigusr2 cli signum
         then Throw (IS_ERROR ErrorCe (''Signal '' @ show_int signum @ '' is not supported'') None)
         else case kill (to_c_int pid) signum of
           None \<Rightarrow> Ret IS_NULL
         | Some msg \<Rightarrow> Throw (IS_ERROR ErrorCe (''Failed to signal process '' @ show_int (to_c_int pid) @ '': '' @ msg) None))"

section \<open>Polls\<close>

abbreviation UV_READABLE :: u32 where "UV_READABLE \<equiv> 1"
abbreviation UV_WRITABLE :: u32 where "UV_WRITABLE \<equiv> 2"
abbreviation UV_DISCONNECT :: u32 where "UV_DISCONNECT \<equiv> 4"

definition poll_wanted :: "nat \<Rightarrow> 'a watch_store_scheme \<Rightarrow> u32" where
  "poll_wanted p w = UV_DISCONNECT OR (if queues w (PollReads p) \<noteq> [] then UV_READABLE else 0)
     OR (if queues w (PollWrites p) \<noteq> [] then UV_WRITABLE else 0)"

definition sync_poll :: "nat \<Rightarrow> 'a watch_store_scheme \<Rightarrow> 'a watch_store_scheme" where
  "sync_poll p w =
     (let events = poll_wanted p w
      in if events = pl_events (polls w p) then w
         else upd_poll p (\<lambda>x. x\<lparr>pl_events := events, pl_handle := map_option (\<lambda>h.
                if events = UV_DISCONNECT then uv_stop h else uv_start events h) (pl_handle x)\<rparr>) w)"

text \<open>
  An event completes the operations up to the first one that waited when it arrived, that is, one
  reader and one writer.
\<close>

definition trigger_poll :: "'a watch_wake \<Rightarrow> nat \<Rightarrow> u32 \<Rightarrow> 'a watch_store_scheme \<Rightarrow> 'a watch_store_scheme option" where
  "trigger_poll run p events w =
     (let sync = (\<lambda>w. case pl_handle (polls w p) of
            Some h \<Rightarrow> if uv_closing h then w else sync_poll p w
          | None \<Rightarrow> w)
      in map_option sync
        (if pl_error (polls w p) = IS_UNDEF
         then
           let rd = queue_first (PollReads p) w;
               wr = queue_first (PollWrites p) w
           in Option.bind
                (if events AND (UV_READABLE OR UV_DISCONNECT) \<noteq> 0 then finish_until run (PollReads p) rd w else Some w)
                (\<lambda>w1. if events AND (UV_WRITABLE OR UV_DISCONNECT) \<noteq> 0 then finish_until run (PollWrites p) wr w1 else Some w1)
         else Option.bind (drain_ops (\<lambda>op w. async_fail_op run op (pl_error (polls w p)) w) (PollReads p) w)
                (drain_ops (\<lambda>op w. async_fail_op run op (pl_error (polls w p)) w) (PollWrites p))))"

definition close_poll :: "nat \<Rightarrow> 'a watch_store_scheme \<Rightarrow> 'a watch_store_scheme" where
  "close_poll p w = upd_poll p (\<lambda>x. x\<lparr>pl_refs := pl_refs x - 1\<rparr>) w"

definition shutdown_poll ::
  "'a watch_wake \<Rightarrow> nat \<Rightarrow> zval option \<Rightarrow> 'a watch_store_scheme \<Rightarrow> 'a watch_store_scheme option" where
  "shutdown_poll run p error w =
     (let w1 = upd_poll p (\<lambda>x. x\<lparr>pl_cancel := False,
            pl_error := (case error of Some e \<Rightarrow> if pl_error x = IS_UNDEF then e else pl_error x | None \<Rightarrow> pl_error x)\<rparr>) w
      in case pl_handle (polls w1 p) of
           None \<Rightarrow> None
         | Some h \<Rightarrow>
             let w2 = (if uv_closing h then w1
                   else upd_poll p (\<lambda>x. x\<lparr>pl_refs := pl_refs x + 1, pl_handle := Some (uv_close h)\<rparr>) w1)
             in if error = None then Some w2
                else Option.bind (drain_ops (\<lambda>op w. async_fail_op run op (pl_error (polls w p)) w) (PollReads p) w2)
                       (drain_ops (\<lambda>op w. async_fail_op run op (pl_error (polls w p)) w) (PollWrites p)))"

definition poll_ref :: "(bool \<Rightarrow> u8 \<times> u32 uv_handle \<Rightarrow> u8 \<times> u32 uv_handle) \<Rightarrow> bool \<Rightarrow> nat \<Rightarrow>
    'a watch_store_scheme \<Rightarrow> 'a watch_store_scheme" where
  "poll_ref f bg p w = upd_poll p (\<lambda>x. case pl_handle x of None \<Rightarrow> x
     | Some h \<Rightarrow> let (n, h') = f bg (pl_ref_count x, h) in x\<lparr>pl_ref_count := n, pl_handle := Some h'\<rparr>) w"

definition poll_suspend ::
  "'a watch_yield \<Rightarrow> nat \<Rightarrow> list_addr \<Rightarrow> 'a watch_store_scheme \<Rightarrow> (outcome \<times> 'a watch_store_scheme) option" where
  "poll_suspend yield p q w =
     (let bg = async_context_is_background (g_context w) w;
          (op, w1) = async_alloc_op w;
          w2 = sync_poll p (async_append_op q op w1)
      in watch_await yield (poll_ref async_unref_enter bg p) (poll_ref async_unref_exit bg p) op w2)"

definition async_poll_object_create :: "nat \<Rightarrow> 'a watch_store_scheme \<Rightarrow> 'a watch_store_scheme" where
  "async_poll_object_create p w = upd_poll p (\<lambda>_. \<lparr>pl_error = IS_UNDEF, pl_fd = 0, pl_handle = None, pl_events = 0,
     pl_ref_count = 0, pl_cancel = True, pl_refs = 1\<rparr>) w"

definition async_poll_object_dtor ::
  "'a watch_wake \<Rightarrow> nat \<Rightarrow> 'a watch_store_scheme \<Rightarrow> 'a watch_store_scheme option" where
  "async_poll_object_dtor run p w =
     (if pl_cancel (polls w p)
      then shutdown_poll run p None (w\<lparr>s_shutdown := remove1 (ShutdownCb CPoll p) (s_shutdown w)\<rparr>)
      else Some w)"

text \<open>\<open>fd\<close> is the result of \<open>async_get_poll_fd\<close> on the resource: a descriptor or a message.\<close>

definition poll_construct :: "nat \<Rightarrow> string + int \<Rightarrow> 'a watch_store_scheme \<Rightarrow> zval option \<times> 'a watch_store_scheme" where
  "poll_construct p fd w = (case fd of
     Inl msg \<Rightarrow> (Some (IS_ERROR ErrorCe msg None), w)
   | Inr n \<Rightarrow> (None, (upd_poll p (\<lambda>x. x\<lparr>pl_fd := n, pl_handle := Some (uv_init\<lparr>uv_has_ref := False\<rparr>)\<rparr>) w)
        \<lparr>s_shutdown := list_append (ShutdownCb CPoll p) (s_shutdown w)\<rparr>))"

definition poll_close ::
  "'a watch_wake \<Rightarrow> nat \<Rightarrow> zval option \<Rightarrow> 'a watch_store_scheme \<Rightarrow> 'a watch_store_scheme option" where
  "poll_close run p val w =
     (if pl_cancel (polls w p)
      then shutdown_poll run p (Some (watch_close_error ''Poll has been closed'' val))
             (w\<lparr>s_shutdown := remove1 (ShutdownCb CPoll p) (s_shutdown w)\<rparr>)
      else Some w)"

definition poll_await_readable ::
  "'a watch_yield \<Rightarrow> nat \<Rightarrow> 'a watch_store_scheme \<Rightarrow> (outcome \<times> 'a watch_store_scheme) option" where
  "poll_await_readable yield p w =
     (if pl_error (polls w p) \<noteq> IS_UNDEF then Some (Throw (pl_error (polls w p)), w)
      else poll_suspend yield p (PollReads p) w)"

definition poll_await_writable ::
  "'a watch_yield \<Rightarrow> nat \<Rightarrow> 'a watch_store_scheme \<Rightarrow> (outcome \<times> 'a watch_store_scheme) option" where
  "poll_await_writable yield p w =
     (if pl_error (polls w p) \<noteq> IS_UNDEF then Some (Throw (pl_error (polls w p)), w)
      else poll_suspend yield p (PollWrites p) w)"

section \<open>Monitors\<close>

definition close_monitor_cb :: "nat \<Rightarrow> 'a watch_store_scheme \<Rightarrow> 'a watch_store_scheme" where
  "close_monitor_cb m w = upd_monitor m (\<lambda>x. x\<lparr>mo_refs := mo_refs x - 1\<rparr>) w"

definition shutdown_monitor_cb ::
  "'a watch_wake \<Rightarrow> nat \<Rightarrow> zval option \<Rightarrow> 'a watch_store_scheme \<Rightarrow> 'a watch_store_scheme option" where
  "shutdown_monitor_cb run m error w =
     (let w1 = upd_monitor m (\<lambda>x. x\<lparr>mo_cancel := False,
            mo_error := (case error of Some e \<Rightarrow> if mo_error x = IS_UNDEF then e else mo_error x | None \<Rightarrow> mo_error x)\<rparr>) w;
          w2 = upd_monitor m (\<lambda>x. if uv_closing (mo_handle x) then x
                 else x\<lparr>mo_refs := mo_refs x + 1, mo_handle := uv_close (mo_handle x)\<rparr>) w1
      in drain_first (\<lambda>op w. async_fail_op run op (mo_error (monitors w m)) w) (MonitorOps m) w2)"

definition async_monitor_object_create :: "nat \<Rightarrow> 'a watch_store_scheme \<Rightarrow> 'a watch_store_scheme" where
  "async_monitor_object_create m w =
     (upd_monitor m (\<lambda>_. \<lparr>mo_error = IS_UNDEF, mo_path = None, mo_recursive = False, mo_handle = uv_init,
        mo_cancel = True, mo_refs = 1\<rparr>) w)\<lparr>s_shutdown := list_append (ShutdownCb CMonitor m) (s_shutdown w)\<rparr>"

definition async_monitor_object_dtor ::
  "'a watch_wake \<Rightarrow> nat \<Rightarrow> 'a watch_store_scheme \<Rightarrow> 'a watch_store_scheme option" where
  "async_monitor_object_dtor run m w =
     (if mo_cancel (monitors w m)
      then shutdown_monitor_cb run m None (w\<lparr>s_shutdown := remove1 (ShutdownCb CMonitor m) (s_shutdown w)\<rparr>)
      else Some w)"

text \<open>\<open>realpath\<close> is the system's; the model is that of a Unix system.\<close>

definition monitor_construct ::
  "(string \<Rightarrow> string option) \<Rightarrow> nat \<Rightarrow> string \<Rightarrow> bool \<Rightarrow> 'a watch_store_scheme \<Rightarrow> zval option \<times> 'a watch_store_scheme" where
  "monitor_construct realpath m target recursive w = (case realpath target of
     None \<Rightarrow> (Some (IS_ERROR ErrorCe (''Failed to verify path: '' @ target) None), w)
   | Some path \<Rightarrow>
       if recursive then (Some (IS_ERROR ErrorCe ''Recursive file monitoring is only supported on Windows'' None), w)
       else (None, upd_monitor m (\<lambda>x. x\<lparr>mo_path := Some path, mo_recursive := recursive\<rparr>) w))"

text \<open>
  \<open>snprintf\<close> stores at most \<open>maxpath - 1\<close> characters and returns the length it would have needed.
\<close>

definition monitor_event_cb ::
  "nat \<Rightarrow> 'a watch_wake \<Rightarrow> nat \<Rightarrow> string \<Rightarrow> int \<Rightarrow> int \<Rightarrow> 'a watch_store_scheme \<Rightarrow> 'a watch_store_scheme" where
  "monitor_event_cb maxpath run m name events status w =
     (let path = (case mo_path (monitors w m) of None \<Rightarrow> '''' | Some p \<Rightarrow> p) @ ''/'' @ name;
          w1 = (case queues w (MonitorOps m) of
                [] \<Rightarrow> w
              | op # _ \<Rightarrow> async_finish_op run op (upd_monitor_op op (\<lambda>_. \<lparr>mop_status = status, mop_events = events,
                    mop_len = length path, mop_path = take (maxpath - 1) path\<rparr>) w))
      in if queues w1 (MonitorOps m) = [] then upd_monitor m (\<lambda>x. x\<lparr>mo_handle := uv_stop (mo_handle x)\<rparr>) w1 else w1)"

definition monitor_close ::
  "'a watch_wake \<Rightarrow> nat \<Rightarrow> zval option \<Rightarrow> 'a watch_store_scheme \<Rightarrow> 'a watch_store_scheme option" where
  "monitor_close run m val w =
     (if mo_cancel (monitors w m)
      then shutdown_monitor_cb run m (Some (watch_close_error ''Monitor has been closed'' val))
             (w\<lparr>s_shutdown := remove1 (ShutdownCb CMonitor m) (s_shutdown w)\<rparr>)
      else Some w)"

text \<open>The event object: it copies \<open>len\<close> characters; reading behind the buffer is \<open>None\<close>.\<close>

definition async_monitor_event_object_create :: "async_monitor_op \<Rightarrow> (int \<times> string) option" where
  "async_monitor_event_object_create x =
     (if mop_len x \<le> length (mop_path x) then Some (mop_events x, take (mop_len x) (mop_path x)) else None)"

text \<open>The result is \<open>Inl\<close> an outcome without an event, or \<open>Inr\<close> the event.\<close>

definition monitor_await_event ::
  "'a watch_yield \<Rightarrow> nat \<Rightarrow> 'a watch_store_scheme \<Rightarrow> ((outcome + int \<times> string) \<times> 'a watch_store_scheme) option" where
  "monitor_await_event yield m w =
     (case mo_path (monitors w m) of
        None \<Rightarrow> None
      | Some path \<Rightarrow>
        let w1 = upd_monitor m (\<lambda>x. x\<lparr>mo_handle := uv_start path (mo_handle x)\<rparr>) w;
            (op, w2) = async_alloc_op w1;
            w3 = async_append_op (MonitorOps m) op w2
        in Option.bind (watch_await yield (\<lambda>w. w) (\<lambda>w. w) op w3) (\<lambda>(r, w4). case r of
             Ret _ \<Rightarrow> map_option (\<lambda>e. (Inr e, w4)) (async_monitor_event_object_create (monitor_ops w4 op))
           | _ \<Rightarrow> Some (Inl r, w4)))"

end
