(* ===== verification/WatchProps.thy ===== *)
theory WatchProps
  imports Boot Waiting SignalPoll
begin

text \<open>
  Properties of the watchers: an event wakes every execution that waits, once, also when they wait
  again at once; the handle keeps the loop alive while somebody waits, as long as the counter does
  not wrap; closing fails all that wait; and two defects.
\<close>

section \<open>Waking what waits\<close>

text \<open>
  What an execution that is woken may do: it may wait again on the queue \<open>q\<close> with new operations;
  the operations that already wait stay as they are. The wake-ups are recorded in a trace.
\<close>

definition rewaiting :: "list_addr \<Rightarrow> (opid \<Rightarrow> opid list watch_store_scheme \<Rightarrow> opid list watch_store_scheme) \<Rightarrow> bool" where
  "rewaiting q run \<longleftrightarrow> (\<forall>op w. ops_wf w \<longrightarrow> ops_wf (run op w) \<and> watch_store.more (run op w) = watch_store.more w @ [op] \<and>
     next_opid w \<le> next_opid (run op w) \<and>
     (\<exists>xs. queues (run op w) q = queues w q @ xs \<and> (\<forall>x\<in>set xs. next_opid w \<le> x)) \<and>
     (\<forall>x\<in>set (queues w q). op_callback (ops (run op w) x) = op_callback (ops w x)))"

lemma watch_store_frame [simp]:
  "watch_store.more (upd_op op f w) = watch_store.more w" "watch_store.more (upd_queue q g w) = watch_store.more w"
  "watch_store.more (upd_timer t h w) = watch_store.more w" "queues (upd_timer t h w) = queues w"
  by (simp_all add: upd_op_def upd_queue_def upd_timer_def)

lemma finish_until_rewaiting:
  assumes "rewaiting q run" and "ops_wf w" and "queues w q = xs @ ys" and "xs \<noteq> []"
    and "\<forall>x\<in>set xs. op_callback (ops w x) \<noteq> None" and "n \<le> next_opid w" and "\<forall>y\<in>set ys. n \<le> y"
  shows "\<exists>w' zs. finish_until run q (Some (last xs)) w = Some w' \<and> ops_wf w' \<and>
    watch_store.more w' = watch_store.more w @ xs \<and> queues w' q = zs \<and> (\<forall>z\<in>set zs. n \<le> z)"
  using assms(2-)
proof (induction xs arbitrary: w ys)
  case Nil
  then show ?case by simp
next
  case (Cons op xs)
  have q: "queues w q = op # xs @ ys" using Cons.prems(2) by simp
  let ?u = "upd_op op (\<lambda>x. x\<lparr>op_list := None\<rparr>) (upd_queue q (\<lambda>_. xs @ ys) w)"
  have nx: "async_next_op q w = Some (op, ?u)" using q by (rule async_next_op_Cons)
  let ?v = "upd_op op (\<lambda>x. x\<lparr>op_status := ASYNC_STATUS_RESOLVED\<rparr>) ?u"
  have wfu: "ops_wf ?u" using ops_wf_next [OF Cons.prems(1) nx] by simp
  then have wf: "ops_wf ?v" by (rule ops_wf_upd_op) simp
  have d: "op \<notin> set (xs @ ys)" using ops_wf_distinct [OF Cons.prems(1), of q] q by simp
  have fin: "async_finish_op run op ?u = run op ?v"
    using Cons.prems(4) by (auto simp: async_finish_op_def call_callback_def)
  define w1 where "w1 = run op ?v"
  have "ops_wf w1 \<and> watch_store.more w1 = watch_store.more ?v @ [op] \<and> next_opid ?v \<le> next_opid w1 \<and>
     (\<exists>zs. queues w1 q = queues ?v q @ zs \<and> (\<forall>x\<in>set zs. next_opid ?v \<le> x)) \<and>
     (\<forall>x\<in>set (queues ?v q). op_callback (ops w1 x) = op_callback (ops ?v x))"
    unfolding w1_def using assms(1) wf unfolding rewaiting_def by blast
  then obtain zs where r: "ops_wf w1" "watch_store.more w1 = watch_store.more w @ [op]" "next_opid w \<le> next_opid w1"
    "queues w1 q = xs @ ys @ zs" "\<forall>x\<in>set zs. next_opid w \<le> x"
    "\<forall>x\<in>set (xs @ ys). op_callback (ops w1 x) = op_callback (ops ?v x)" by auto
  have cb: "\<forall>x\<in>set xs. op_callback (ops w1 x) \<noteq> None" using r(6) d Cons.prems(4) by auto
  have new: "\<forall>z\<in>set (ys @ zs). n \<le> z" using r(5) Cons.prems(5,6) by fastforce
  show ?case
  proof (cases "xs = []")
    case True
    then have "finish_until run q (Some (last (op # xs))) w = Some w1"
      using nx fin by (subst finish_until.simps) (simp add: w1_def)
    with r True new show ?thesis by auto
  next
    case False
    then have ne: "last (op # xs) \<noteq> op" using d last_in_set [of xs] by auto
    have "finish_until run q (Some (last (op # xs))) w = finish_until run q (Some (last xs)) w1"
      using ne False nx fin by (subst finish_until.simps) (simp add: w1_def)
    moreover have "n \<le> next_opid w1" using r(3) Cons.prems(5) by simp
    ultimately show ?thesis
      using Cons.IH [OF r(1) _ False cb _ new] r(2,4) by auto
  qed
qed


text \<open>The state after start, with watchers whose memory is zeroed.\<close>

definition boot_watch :: watch_store where
  "boot_watch = boot (watch_store.fields
     (\<lambda>_. \<lparr>tm_error = IS_UNDEF, tm_delay = 0, tm_handle = uv_init, tm_ref_count = 0, tm_cancel = False, tm_refs = 0\<rparr>)
     (\<lambda>_. \<lparr>to_error = IS_UNDEF, to_handle = uv_init, to_cancel = False, to_refs = 0\<rparr>)
     (\<lambda>_. \<lparr>sl_op = 0, sl_handle = uv_init, sl_freed = False\<rparr>) 0
     (\<lambda>_. \<lparr>sg_error = IS_UNDEF, sg_signum = 0, sg_handle = None, sg_ref_count = 0, sg_cancel = False, sg_refs = 0\<rparr>)
     (\<lambda>_. \<lparr>pl_error = IS_UNDEF, pl_fd = 0, pl_handle = None, pl_events = 0, pl_ref_count = 0, pl_cancel = False, pl_refs = 0\<rparr>)
     (\<lambda>_. \<lparr>mo_error = IS_UNDEF, mo_path = None, mo_recursive = False, mo_handle = uv_init, mo_cancel = False, mo_refs = 0\<rparr>)
     (\<lambda>_. \<lparr>mop_status = 0, mop_events = 0, mop_len = 0, mop_path = []\<rparr>))"

text \<open>A timer on which two executions wait; an execution that waits again at once.\<close>

definition wait_op :: "list_addr \<Rightarrow> 'a op_store_scheme \<Rightarrow> 'a op_store_scheme" where
  "wait_op q w = async_append_op q (next_opid w) (upd_op (next_opid w) (\<lambda>x. x\<lparr>op_callback := Some Continue_op_task\<rparr>)
     (snd (async_alloc_op w)))"

definition wait_again :: "list_addr \<Rightarrow> opid \<Rightarrow> opid list watch_store_scheme \<Rightarrow> opid list watch_store_scheme" where
  "wait_again q op w = wait_op q (w\<lparr>watch_store.more := watch_store.more w @ [op]\<rparr>)"

definition new_timer :: "'a \<Rightarrow> 'a watch_store_scheme" where
  "new_timer m = watch_store.extend (async_timer_object_create 0 boot_watch) m"

definition two_waiting :: "opid list watch_store_scheme" where
  "two_waiting = wait_op (TimerOps 0) (wait_op (TimerOps 0) (new_timer []))"

lemma new_timer_sel [simp]:
  "ops (new_timer m) = (\<lambda>_. zero_op)" "queues (new_timer m) = (\<lambda>_. [])" "next_opid (new_timer m) = 0"
  "tm_error (timers (new_timer m) 0) = IS_UNDEF" "tm_cancel (timers (new_timer m) 0)" "watch_store.more (new_timer m) = m"
  "ops_wf (new_timer m)"
  by (simp_all add: new_timer_def watch_store.defs async_timer_object_create_def upd_timer_def boot_watch_def boot_defs Let_def
      ops_wf_def)

lemma wait_op_sel [simp]:
  "queues (wait_op q w) = (queues w)(q := queues w q @ [next_opid w])" "next_opid (wait_op q w) = Suc (next_opid w)"
  "ops (wait_op q w) = (ops w)(next_opid w := zero_op\<lparr>op_callback := Some Continue_op_task, op_list := Some q\<rparr>)"
  by (simp_all add: wait_op_def async_alloc_op_def async_append_op_def)

lemma wait_op_watch [simp]:
  "timers (wait_op q w) = timers (w :: 'a watch_store_scheme)" "watch_store.more (wait_op q w) = watch_store.more w"
  by (simp_all add: wait_op_def async_alloc_op_def async_append_op_def upd_op_def upd_queue_def)

lemma ops_wf_wait [intro]: "ops_wf w \<Longrightarrow> ops_wf (wait_op q w)"
  unfolding wait_op_def
  by (intro ops_wf_append ops_wf_upd_op ops_wf_alloc) (simp_all add: async_alloc_op_def)

lemma rewaiting_wait_again: "rewaiting q (wait_again q)"
  unfolding rewaiting_def
proof (intro allI impI)
  fix op and w :: "opid list watch_store_scheme" assume wf: "ops_wf w"
  have "ops_wf (w\<lparr>watch_store.more := watch_store.more w @ [op]\<rparr>)" using wf by (simp add: ops_wf_def)
  then show "ops_wf (wait_again q op w) \<and> watch_store.more (wait_again q op w) = watch_store.more w @ [op] \<and>
     next_opid w \<le> next_opid (wait_again q op w) \<and>
     (\<exists>xs. queues (wait_again q op w) q = queues w q @ xs \<and> (\<forall>x\<in>set xs. next_opid w \<le> x)) \<and>
     (\<forall>x\<in>set (queues w q). op_callback (ops (wait_again q op w) x) = op_callback (ops w x))"
    using ops_wf_fresh_notin [OF wf] by (auto simp: wait_again_def)
qed

lemma two_waiting_sel [simp]:
  "ops_wf two_waiting" "queues two_waiting (TimerOps 0) = [0, 1]" "tm_error (timers two_waiting 0) = IS_UNDEF"
  "watch_store.more two_waiting = []" "op_callback (ops two_waiting 0) = Some Continue_op_task"
  "op_callback (ops two_waiting (Suc 0)) = Some Continue_op_task" "next_opid two_waiting = 2"
  by (simp_all add: two_waiting_def ops_wf_wait)


section \<open>Closing\<close>

lemma close_error_defined [simp]: "watch_close_error msg val \<noteq> IS_UNDEF"
  by (simp add: watch_close_error_def Let_def split: option.split)

lemma watch_store_more_eq:
  assumes "task_store.more w' = task_store.more (w :: 'a watch_store_scheme)"
  shows "timers w' = timers w" "timeouts w' = timeouts w" "signals w' = signals w" "polls w' = polls w" "monitors w' = monitors w"
  using assms by (cases w; cases w'; simp)+

lemma upd_watch_sel [simp]:
  "timers (upd_timer t f w) = (timers w)(t := f (timers w t))" "ops (upd_timer t f w) = ops w" "queues (upd_timer t f w) = queues w"
  "next_opid (upd_timer t f w) = next_opid w"
  "signals (upd_signal s h w) = (signals w)(s := h (signals w s))" "ops (upd_signal s h w) = ops w"
  "queues (upd_signal s h w) = queues w" "next_opid (upd_signal s h w) = next_opid w"
  by (simp_all add: upd_timer_def upd_signal_def)

interpretation timer: closable "TimerOps t" "\<lambda>w. tm_error (timers w t)"
  "\<lambda>w. tm_cancel (timers w t) \<and> tm_error (timers w t) = IS_UNDEF" "\<lambda>w. \<not> tm_cancel (timers w t)"
  "timer_close wake t" "timer_await_timeout yield t"
  for t and yield :: "'a watch_yield"
proof unfold_locales
  fix val and w :: "'a watch_store_scheme"
  assume "tm_cancel (timers w t) \<and> tm_error (timers w t) = IS_UNDEF" and "ops_wf w"
  then show "closes (TimerOps t) (\<lambda>w. tm_error (timers w t)) (\<lambda>w. \<not> tm_cancel (timers w t)) w (timer_close wake t val w)"
    by (simp add: timer_close_def shutdown_timer_def Let_def)
      (rule closesI [where e = "watch_close_error ''Timer has been closed'' val"], simp add: ops_wf_def, simp, simp, simp,
        (drule watch_store_more_eq(1), simp)+)
qed (auto simp: timer_close_def timer_await_timeout_def)

interpretation signal: closable "SignalOps s" "\<lambda>w. sg_error (signals w s)"
  "\<lambda>w. sg_cancel (signals w s) \<and> sg_error (signals w s) = IS_UNDEF \<and> sg_handle (signals w s) \<noteq> None"
  "\<lambda>w. \<not> sg_cancel (signals w s)" "signal_close wake s" "signal_await yield s"
  for s and yield :: "'a watch_yield"
proof unfold_locales
  fix val and w :: "'a watch_store_scheme"
  assume "sg_cancel (signals w s) \<and> sg_error (signals w s) = IS_UNDEF \<and> sg_handle (signals w s) \<noteq> None" and "ops_wf w"
  then show "closes (SignalOps s) (\<lambda>w. sg_error (signals w s)) (\<lambda>w. \<not> sg_cancel (signals w s)) w (signal_close wake s val w)"
    by (clarsimp simp: signal_close_def shutdown_signal_def Let_def)
      (intro conjI impI; rule closesI [where e = "watch_close_error ''Signal has been closed'' val"],
        simp add: ops_wf_def, simp, simp, simp, (drule watch_store_more_eq(3), simp)+)
qed (auto simp: signal_close_def signal_await_def)

text \<open>
  Closing an open timer fails every execution that waits on it, in the state it waits in, with
  one error; nothing waits afterwards, whoever waits later gets the same error and a second close
  does nothing.
\<close>

theorem timer_close_fails_all:
  fixes w :: "'a watch_store_scheme"
  assumes "ops_wf w" and "tm_cancel (timers w t)" and "tm_error (timers w t) = IS_UNDEF"
  shows "\<exists>w' e. timer_close wake t val w = Some w' \<and> e \<noteq> IS_UNDEF \<and> queues w' = (queues w)(TimerOps t := []) \<and>
    ops_wf w' \<and> (\<forall>op. ops w' op = (if op \<in> set (queues w (TimerOps t)) then settled_op (OP_FAILED, e) (ops w op) else ops w op)) \<and>
    timer_await_timeout yield t w' = Some (Throw e, w') \<and> timer_close wake t val' w' = Some w'"
  using timer.close_fails_all [of w t val yield val'] assms by simp

theorem timer_close_fails_all_witness:
  "\<exists>w'. timer_close wake 0 None two_waiting = Some w' \<and> op_status (ops w' 0) = ASYNC_STATUS_FAILED \<and> queues w' (TimerOps 0) = []"
  using timer_close_fails_all [of two_waiting 0 None bounce None] by (simp add: two_waiting_def) fastforce

lemma signal_close_fails_all:
  fixes w :: "'a watch_store_scheme"
  assumes "ops_wf w" and "sg_cancel (signals w s)" and "sg_error (signals w s) = IS_UNDEF" and "sg_handle (signals w s) \<noteq> None"
  shows "\<exists>w' e. signal_close wake s val w = Some w' \<and> e \<noteq> IS_UNDEF \<and> queues w' = (queues w)(SignalOps s := []) \<and>
    ops_wf w' \<and> (\<forall>op. ops w' op = (if op \<in> set (queues w (SignalOps s)) then settled_op (OP_FAILED, e) (ops w op) else ops w op)) \<and>
    signal_await yield s w' = Some (Throw e, w') \<and> signal_close wake s val' w' = Some w'"
  using signal.close_fails_all [of w s val yield val'] assms by simp

section \<open>Keeping the loop alive\<close>

text \<open>
  Executions of foreground contexts that begin (\<open>True\<close>) and end (\<open>False\<close>) to wait on a watcher, and
  how many wait after them.
\<close>

primrec unref_calls :: "bool list \<Rightarrow> u8 \<times> 'arg uv_handle \<Rightarrow> u8 \<times> 'arg uv_handle" where
  "unref_calls [] x = x"
| "unref_calls (b # bs) x = (if b then async_unref_enter False else async_unref_exit False) (unref_calls bs x)"

primrec outstanding :: "bool list \<Rightarrow> int" where
  "outstanding [] = 0"
| "outstanding (b # bs) = outstanding bs + (if b then 1 else - 1)"

text \<open>The lists hold the latest call first. At no time fewer than 0 or more than 255 wait.\<close>

primrec within_u8 :: "bool list \<Rightarrow> bool" where
  "within_u8 [] = True"
| "within_u8 (b # bs) \<longleftrightarrow> within_u8 bs \<and> 0 \<le> outstanding (b # bs) \<and> outstanding (b # bs) < 256"

text \<open>
  C29. Up to 255 executions of foreground contexts at once, the 8-bit counter of a watcher is the
  number of executions that wait, and its handle keeps the loop alive exactly while one waits.
\<close>

theorem watcher_keeps_loop_alive:
  assumes "within_u8 bs" and "\<not> uv_has_ref h"
  shows "uint (fst (unref_calls bs (0, h))) = outstanding bs \<and> (uv_has_ref (snd (unref_calls bs (0, h))) \<longleftrightarrow> 0 < outstanding bs)"
  using assms
proof (induction bs)
  case Nil
  then show ?case by simp
next
  case (Cons b bs)
  define n k where "n = fst (unref_calls bs (0, h))" and "k = snd (unref_calls bs (0, h))"
  have IH: "uint n = outstanding bs" "uv_has_ref k \<longleftrightarrow> 0 < outstanding bs"
    using Cons unfolding n_def k_def by simp_all
  have r: "0 \<le> outstanding (b # bs)" "outstanding (b # bs) < 256" using Cons.prems by simp_all
  have "uint (n + 1) = uint n + 1" if b using r that by (simp add: uint_word_ariths IH)
  moreover have "uint (n - 1) = uint n - 1" if "\<not> b" using r that by (simp add: uint_word_ariths IH)
  moreover have "n + 1 = 1 \<longleftrightarrow> uint n = 0" "n - 1 = 0 \<longleftrightarrow> uint n = 1"
    by (simp_all add: uint_0_iff word_uint_eq_iff [of n 1] eq_diff_eq [symmetric])
  ultimately show ?case
    using IH r unfolding unref_calls.simps
    by (cases b) (auto simp: async_unref_enter_def async_unref_exit_def Let_def n_def [symmetric] k_def [symmetric])
qed

theorem watcher_keeps_loop_alive_witness:
  "uv_has_ref (snd (unref_calls [False, True, True] (0, (uv_init :: nat uv_handle)\<lparr>uv_has_ref := False\<rparr>)))"
  using watcher_keeps_loop_alive [of "[False, True, True]" "(uv_init :: nat uv_handle)\<lparr>uv_has_ref := False\<rparr>"] by simp

text \<open>
  With more than 255 it is not so: after 257 executions began to wait and one of them stopped, 256
  still wait, but the handle does not keep the loop alive.
\<close>

lemma watcher_counter_wraps:
  "outstanding (False # replicate 257 True) = 256 \<and> \<not> uv_has_ref (snd (unref_calls (False # replicate 257 True) (0, h)))"
proof -
  have "outstanding (replicate n True) = int n" for n by (induction n) simp_all
  moreover have "fst (unref_calls (replicate n True) (0, h)) = of_nat n" for n
    by (induction n) (simp_all add: async_unref_enter_def Let_def)
  then have "fst (unref_calls (replicate 257 True) (0, h)) = 1" by simp
  ultimately show ?thesis
    unfolding unref_calls.simps outstanding.simps by (simp add: async_unref_exit_def Let_def del: replicate.simps)
qed

section \<open>Defects\<close>

text \<open>A timer accepts every delay, also a negative one, which becomes a very long delay.\<close>

lemma timer_accepts_negative_delay:
  "fst (timer_construct t (- 1) w) = None \<and> tm_delay (timers (snd (timer_construct t (- 1) w)) t) = 0xFFFFFFFFFFFFFFFF"
  by (simp add: timer_construct_def Let_def)

text \<open>
  An event on a path that does not fit the buffer: the length that \<open>snprintf\<close> returns is stored, and
  the event object reads behind the buffer.
\<close>

lemma monitor_event_reads_behind_path:
  assumes "queues w (MonitorOps m) = [op]" and "mo_path (monitors w m) = Some p" and "maxpath \<le> length p" and "0 < maxpath"
    and "op_callback (ops w op) = None"
  shows "async_monitor_event_object_create (monitor_ops (monitor_event_cb maxpath run m name ev st w) op) = None"
proof -
  let ?x = "\<lparr>mop_status = st, mop_events = ev, mop_len = Suc (length p + length name), mop_path = take (maxpath - 1) (p @ ''/'' @ name)\<rparr>"
  have "monitor_ops (monitor_event_cb maxpath run m name ev st w) op = ?x"
    using assms by (simp add: monitor_event_cb_def Let_def async_finish_op_def call_callback_def unlink_op_def upd_monitor_op_def
        upd_monitor_def upd_op_def upd_queue_def split: option.split)
  then show ?thesis using assms(3,4) by (simp add: async_monitor_event_object_create_def)
qed

text \<open>A poll event wakes one reader, also when two wait.\<close>

lemma poll_wakes_one_reader:
  assumes "queues w (PollReads p) = op # op' # rest" and "pl_error (polls w p) = IS_UNDEF"
  shows "\<exists>w1. async_next_op (PollReads p) w = Some (op, w1) \<and>
    trigger_poll run p UV_READABLE w = map_option (\<lambda>w. case pl_handle (polls w p) of
      Some h \<Rightarrow> if uv_closing h then w else sync_poll p w | None \<Rightarrow> w) (Some (async_finish_op run op w1))"
  using assms by (simp add: trigger_poll_def queue_first_def Let_def async_next_op_Cons finish_until.simps)

end
