(* ===== verification/Address.thy ===== *)
theory Address
  imports Prelude
begin

text \<open>
  Socket addresses (\<open>include/async/socket.h\<close>) and the C strings the parsers of \<open>dns.c\<close> work on. The
  conversions between addresses and texts are those of libuv; they are the record \<open>inet\<close>. The program is
  built with IPv6.
\<close>

section \<open>Texts\<close>

text \<open>The texts of libuv for its error codes, and numbers as \<open>%d\<close> prints them.\<close>

record texts =
  strerror :: "int \<Rightarrow> string"
  show_int :: "int \<Rightarrow> string"

text \<open>A C string ends at the first zero character.\<close>

definition c_str :: "string \<Rightarrow> string" where
  "c_str s = takeWhile (\<lambda>c. c \<noteq> CHR 0x00) s"

definition c_space :: "char \<Rightarrow> bool" where
  "c_space c \<longleftrightarrow> c \<in> {CHR '' '', CHR 0x09, CHR 0x0A, CHR 0x0B, CHR 0x0C, CHR 0x0D}"

definition c_digit :: "char \<Rightarrow> bool" where
  "c_digit c \<longleftrightarrow> c \<in> set ''0123456789''"

definition digit_val :: "char \<Rightarrow> int" where
  "digit_val c = int (of_char c) - 48"

text \<open>\<open>atoi\<close> of glibc: \<open>strtol\<close>, which saturates, converted to \<open>int\<close>.\<close>

definition c_atoi :: "string \<Rightarrow> int" where
  "c_atoi s =
     (let r = dropWhile c_space s;
          (neg, ds) = (case r of [] \<Rightarrow> (False, r)
             | c # cs \<Rightarrow> if c = CHR ''-'' then (True, cs) else if c = CHR ''+'' then (False, cs) else (False, r));
          n = foldl (\<lambda>a c. 10 * a + digit_val c) 0 (takeWhile c_digit ds)
      in to_c_int (if neg then max (- (2 ^ 63)) (- n) else min (2 ^ 63 - 1) n))"

text \<open>\<open>strrchr\<close>: what is before and what is behind the last occurrence.\<close>

definition c_strrchr :: "char \<Rightarrow> string \<Rightarrow> (string \<times> string) option" where
  "c_strrchr c s =
     (if c \<in> set s
      then Some (rev (tl (dropWhile (\<lambda>x. x \<noteq> c) (rev s))), rev (takeWhile (\<lambda>x. x \<noteq> c) (rev s)))
      else None)"

text \<open>The pieces that repeated calls of \<open>strtok\<close> with the same delimiters return.\<close>

function (sequential) tokens :: "(char \<Rightarrow> bool) \<Rightarrow> string \<Rightarrow> string list" where
  "tokens d s =
     (let r = dropWhile d s
      in if r = [] then [] else takeWhile (\<lambda>c. \<not> d c) r # tokens d (dropWhile (\<lambda>c. \<not> d c) r))"
  by pat_completeness auto

lemma tokens_decreases:
  assumes "dropWhile d s \<noteq> []"
  shows "length (dropWhile (\<lambda>c. \<not> d c) (dropWhile d s)) < length s"
proof -
  obtain c r where r: "dropWhile d s = c # r" using assms by (cases "dropWhile d s") auto
  then have "\<not> d c" using hd_dropWhile [OF assms] by simp
  then have "length (dropWhile (\<lambda>c. \<not> d c) (dropWhile d s)) \<le> length r"
    by (simp add: r length_dropWhile_le)
  also have "\<dots> < length s" using length_dropWhile_le [of d s] by (simp add: r)
  finally show ?thesis .
qed

termination tokens
  by (relation "measure (length \<circ> snd)") (auto intro: tokens_decreases)

declare tokens.simps [simp del]

lemma tokens_Nil [simp]: "tokens d [] = []"
  by (simp add: tokens.simps)

lemma tokens_delim [simp]: "d c \<Longrightarrow> tokens d (c # s) = tokens d s"
  by (subst tokens.simps, subst (2) tokens.simps) simp

lemma tokens_word:
  assumes "t \<noteq> []" and "\<forall>c\<in>set t. \<not> d c" and "s = [] \<or> d (hd s)"
  shows "tokens d (t @ s) = t # tokens d s"
proof -
  obtain c r where t: "t = c # r" using assms(1) by (cases t) auto
  have "dropWhile d (t @ s) = t @ s" using assms(2) by (simp add: t)
  moreover have "takeWhile (\<lambda>c. \<not> d c) (t @ s) = t" "dropWhile (\<lambda>c. \<not> d c) (t @ s) = s"
    using assms(2,3) by (cases s; auto simp: takeWhile_append)+
  ultimately show ?thesis using t by (subst tokens.simps) simp
qed

text \<open>Every piece is a word without delimiters.\<close>

lemma tokens_words: "t \<in> set (tokens d s) \<Longrightarrow> t \<noteq> [] \<and> (\<forall>c\<in>set t. \<not> d c)"
proof (induction d s rule: tokens.induct)
  case (1 d s)
  let ?r = "dropWhile d s"
  have e: "tokens d s = (if ?r = [] then [] else takeWhile (\<lambda>c. \<not> d c) ?r # tokens d (dropWhile (\<lambda>c. \<not> d c) ?r))"
    by (rule tokens.simps [unfolded Let_def])
  have c: "?r \<noteq> []" and m: "t = takeWhile (\<lambda>c. \<not> d c) ?r \<or> t \<in> set (tokens d (dropWhile (\<lambda>c. \<not> d c) ?r))"
    using "1.prems" unfolding e by (simp_all split: if_splits)
  show ?case
    using m
  proof
    assume t: "t = takeWhile (\<lambda>c. \<not> d c) ?r"
    obtain x xs where r: "?r = x # xs" using c by (cases ?r) auto
    then have "\<not> d x" using hd_dropWhile [OF c] by simp
    then show ?thesis using t r by (auto dest: set_takeWhileD)
  next
    assume "t \<in> set (tokens d (dropWhile (\<lambda>c. \<not> d c) ?r))"
    then show ?thesis by (rule "1.IH" [OF refl c])
  qed
qed

section \<open>Addresses\<close>

type_synonym port = "16 word"

text \<open>\<open>php_sockaddr_storage\<close>, by address family; zeroed memory has no family.\<close>

datatype sockaddr =
    AF_UNSPEC
  | AF_INET "32 word" port
  | AF_INET6 "128 word" port

text \<open>
  libuv's conversions: the addresses of texts, which also write to the destination when they fail, and
  the texts of addresses.
\<close>

record inet =
  uv_ip4_addr :: "string \<Rightarrow> port \<Rightarrow> bool \<times> sockaddr"
  uv_ip6_addr :: "string \<Rightarrow> port \<Rightarrow> bool \<times> sockaddr"
  uv_ip4_name :: "32 word \<Rightarrow> string"
  uv_ip6_name :: "128 word \<Rightarrow> string"

definition async_socket_addr_size :: "sockaddr \<Rightarrow> nat" where
  "async_socket_addr_size addr = (case addr of AF_INET6 _ _ \<Rightarrow> 28 | _ \<Rightarrow> 16)"

text \<open>The second test of the source is on \<open>AF_INET\<close> again: the branch for IPv6 is never taken.\<close>

definition async_socket_set_port :: "sockaddr \<Rightarrow> int \<Rightarrow> bool \<times> sockaddr" where
  "async_socket_set_port addr port = (case addr of
     AF_INET ip _ \<Rightarrow> (True, AF_INET ip (word_of_int port))
   | _ \<Rightarrow> (False, addr))"

definition async_socket_get_peer :: "inet \<Rightarrow> sockaddr \<Rightarrow> bool \<times> string option \<times> port" where
  "async_socket_get_peer inet addr = (case addr of
     AF_INET ip port \<Rightarrow> (True, Some (uv_ip4_name inet ip), port)
   | AF_INET6 ip port \<Rightarrow> (True, Some (uv_ip6_name inet ip), port)
   | AF_UNSPEC \<Rightarrow> (False, None, 0))"

text \<open>\<open>sockname\<close> is what \<open>php_network_get_sock_name\<close> finds.\<close>

definition async_socket_get_local_peer :: "inet \<Rightarrow> sockaddr option \<Rightarrow> bool \<times> string option \<times> port" where
  "async_socket_get_local_peer inet sockname = (case sockname of
     Some addr \<Rightarrow> async_socket_get_peer inet addr
   | None \<Rightarrow> (False, None, 0))"

definition async_socket_get_remote_peer :: "inet \<Rightarrow> sockaddr option \<Rightarrow> bool \<times> string option \<times> port" where
  "async_socket_get_remote_peer inet peername = (case peername of
     Some addr \<Rightarrow> async_socket_get_peer inet addr
   | None \<Rightarrow> (False, None, 0))"

text \<open>\<open>None\<close> is \<open>FAILURE\<close>; nothing reads the destination then.\<close>

definition async_socket_parse_ip :: "inet \<Rightarrow> string \<Rightarrow> port \<Rightarrow> sockaddr option" where
  "async_socket_parse_ip inet address port =
     (if fst (uv_ip4_addr inet address port) then Some (snd (uv_ip4_addr inet address port))
      else if fst (uv_ip6_addr inet address port) then Some (snd (uv_ip6_addr inet address port))
      else None)"

definition async_socket_parse_ipv4 :: "inet \<Rightarrow> string \<Rightarrow> port \<Rightarrow> sockaddr option" where
  "async_socket_parse_ipv4 inet address port =
     (if fst (uv_ip4_addr inet address port) then Some (snd (uv_ip4_addr inet address port)) else None)"

definition async_socket_parse_ipv6 :: "inet \<Rightarrow> string \<Rightarrow> port \<Rightarrow> sockaddr option" where
  "async_socket_parse_ipv6 inet address port =
     (if fst (uv_ip6_addr inet address port) then Some (snd (uv_ip6_addr inet address port)) else None)"

end
