(* ===== verification/DnsConfig.thy ===== *)
theory DnsConfig
  imports Address
begin

text \<open>
  The configuration of the system's resolver (\<open>dns.c\<close>, class \<open>Config\<close>) on Unix: the hosts file and the
  name servers of \<open>/etc/resolv.conf\<close>. The content of a file is a string, \<open>None\<close> is a file that cannot
  be opened. The results are the PHP arrays, in the order of insertion.
\<close>

section \<open>Reading lines\<close>

text \<open>
  \<open>php_stream_gets(fp, buf, size)\<close>: at most \<open>size - 1\<close> characters, up to and with the end of the line;
  and the rest of the file.
\<close>

definition php_stream_gets :: "nat \<Rightarrow> string \<Rightarrow> (string \<times> string) option" where
  "php_stream_gets bufsize s =
     (if s = [] \<or> bufsize < 2 then None
      else let n = min (bufsize - 1) (Suc (length (takeWhile (\<lambda>c. c \<noteq> CHR 0x0A) s))) in Some (take n s, drop n s))"

text \<open>The buffers of the loop \<open>while (NULL != php_stream_gets(fp, buf, sizeof(buf)))\<close>, as C strings.\<close>

function read_lines :: "nat \<Rightarrow> string \<Rightarrow> string list" where
  "read_lines bufsize s = (case php_stream_gets bufsize s of
     None \<Rightarrow> []
   | Some (buf, rest) \<Rightarrow> c_str buf # read_lines bufsize rest)"
  by pat_completeness auto

termination read_lines
  by (relation "measure (length \<circ> snd)")
    (auto simp: php_stream_gets_def Let_def split: if_splits)

declare read_lines.simps [simp del]

definition skip_line :: "char \<Rightarrow> bool" where
  "skip_line a \<longleftrightarrow> a \<in> {CHR ''#'', CHR '';'', CHR 0x0A, CHR 0x0D}"

text \<open>\<open>skip_line(*s)\<close>; the first character of an empty string is the zero that ends it.\<close>

definition skipped :: "string \<Rightarrow> bool" where
  "skipped s = (case s of [] \<Rightarrow> False | c # _ \<Rightarrow> skip_line c)"

definition dns_delim :: "char \<Rightarrow> bool" where
  "dns_delim c \<longleftrightarrow> c \<in> {CHR '' '', CHR 0x09, CHR 0x0A, CHR 0x0D}"

section \<open>The hosts file\<close>

type_synonym hosts = "(string \<times> string list) list"

definition config_get_hosts_file :: string where
  "config_get_hosts_file = ''/etc/hosts''"

text \<open>Appending the address to the entry of the name, which is added when it is missing.\<close>

fun add_host :: "string \<Rightarrow> string \<Rightarrow> hosts \<Rightarrow> hosts" where
  "add_host addr name [] = [(name, [addr])]"
| "add_host addr name ((k, v) # h) = (if k = name then (k, v @ [addr]) # h else (k, v) # add_host addr name h)"

text \<open>The loop over the names of a line; a comment ends it.\<close>

fun add_names :: "string \<Rightarrow> string list \<Rightarrow> hosts \<Rightarrow> hosts" where
  "add_names addr [] h = h"
| "add_names addr (name # names) h = (if skipped name then h else add_names addr names (add_host addr name h))"

definition hosts_line :: "string \<Rightarrow> hosts \<Rightarrow> hosts" where
  "hosts_line buf h =
     (if skipped buf then h
      else case tokens dns_delim buf of [] \<Rightarrow> h | addr # names \<Rightarrow> add_names addr names h)"

definition config_get_hosts :: "string option \<Rightarrow> zval + hosts" where
  "config_get_hosts file = (case file of
     None \<Rightarrow> Inl (IS_ERROR ErrorCe (''Failed to open system hosts file: '' @ config_get_hosts_file) None)
   | Some s \<Rightarrow> Inr (fold hosts_line (read_lines 1024 s) []))"

section \<open>Name servers\<close>

type_synonym nameservers = "(string \<times> int) list"

definition config_get_resolve_conf :: string where
  "config_get_resolve_conf = ''/etc/resolv.conf''"

text \<open>\<open>zend_hash_str_add\<close> keeps an entry that exists.\<close>

definition hash_add :: "'k \<Rightarrow> 'v \<Rightarrow> ('k \<times> 'v) list \<Rightarrow> ('k \<times> 'v) list" where
  "hash_add k v h = (if k \<in> fst ` set h then h else h @ [(k, v)])"

definition nameserver_entry :: "string \<Rightarrow> string \<times> int" where
  "nameserver_entry s = (case c_strrchr (CHR '':'') s of
     Some (host, port) \<Rightarrow> (host, c_atoi port)
   | None \<Rightarrow> (s, 53))"

fun add_nameservers :: "string list \<Rightarrow> nameservers \<Rightarrow> nameservers" where
  "add_nameservers [] h = h"
| "add_nameservers (s # ss) h =
     (if skipped s then h else add_nameservers ss (hash_add (fst (nameserver_entry s)) (snd (nameserver_entry s)) h))"

definition nameserver_line :: "string \<Rightarrow> nameservers \<Rightarrow> nameservers" where
  "nameserver_line buf h =
     (if skipped buf then h
      else case tokens dns_delim buf of
        [] \<Rightarrow> h
      | key # ss \<Rightarrow> if key \<noteq> ''nameserver'' then h else add_nameservers ss h)"

definition config_get_nameservers :: "string option \<Rightarrow> zval + nameservers" where
  "config_get_nameservers file = (case file of
     None \<Rightarrow> Inl (IS_ERROR ErrorCe ''Failed to open DNS config file: /etc/resolv.conf'' None)
   | Some s \<Rightarrow> Inr (fold nameserver_line (read_lines 1024 s) []))"

section \<open>Lines of a printed file\<close>

definition line_ok :: "string \<Rightarrow> bool" where
  "line_ok l \<longleftrightarrow> length l < 1023 \<and> CHR 0x0A \<notin> set l \<and> CHR 0x00 \<notin> set l"

text \<open>A file made of lines is read line by line.\<close>

lemma read_lines_line:
  assumes "line_ok l"
  shows "read_lines 1024 (l @ CHR 0x0A # rest) = (l @ [CHR 0x0A]) # read_lines 1024 rest"
proof -
  have t: "takeWhile (\<lambda>c. c \<noteq> CHR 0x0A) (l @ CHR 0x0A # rest) = l"
    using assms by (induction l) (auto simp: line_ok_def)
  have m: "min 1023 (Suc (length l)) = Suc (length l)" using assms by (simp add: line_ok_def)
  have "php_stream_gets 1024 (l @ CHR 0x0A # rest) = Some (l @ [CHR 0x0A], rest)"
    using m by (simp add: php_stream_gets_def t Let_def)
  moreover have "c_str (l @ [CHR 0x0A]) = l @ [CHR 0x0A]"
    using assms by (auto simp: c_str_def line_ok_def takeWhile_eq_all_conv)
  ultimately show ?thesis by (subst read_lines.simps) simp
qed

lemma read_lines_Nil [simp]: "read_lines bufsize [] = []"
  by (subst read_lines.simps) (simp add: php_stream_gets_def)

lemma read_lines_file:
  assumes "\<forall>l\<in>set ls. line_ok l"
  shows "read_lines 1024 (concat (map (\<lambda>l. l @ [CHR 0x0A]) ls)) = map (\<lambda>l. l @ [CHR 0x0A]) ls"
  using assms by (induction ls) (simp_all add: read_lines_line)

text \<open>A line printed from words gives the words back.\<close>

definition word_ok :: "string \<Rightarrow> bool" where
  "word_ok t \<longleftrightarrow> t \<noteq> [] \<and> (\<forall>c\<in>set t. \<not> dns_delim c \<and> c \<noteq> CHR 0x00) \<and> \<not> skipped t"

definition print_line :: "string list \<Rightarrow> string" where
  "print_line ws = concat (map (\<lambda>t. t @ '' '') ws)"

lemma tokens_print_line:
  assumes "\<forall>t\<in>set ws. word_ok t"
  shows "tokens dns_delim (print_line ws @ [CHR 0x0A]) = ws"
  using assms
proof (induction ws)
  case Nil
  show ?case by (simp add: print_line_def dns_delim_def)
next
  case (Cons t ws)
  have "tokens dns_delim (t @ CHR '' '' # (print_line ws @ [CHR 0x0A])) = t # tokens dns_delim (CHR '' '' # (print_line ws @ [CHR 0x0A]))"
    using Cons.prems by (intro tokens_word) (simp_all add: word_ok_def dns_delim_def)
  also have "\<dots> = t # ws"
    using Cons tokens_delim [of dns_delim "CHR '' ''"] by (simp add: dns_delim_def [of "CHR '' ''"])
  finally show ?case by (simp add: print_line_def)
qed

section \<open>What an array of hosts holds\<close>

definition addrs_of :: "hosts \<Rightarrow> string \<Rightarrow> string list" where
  "addrs_of h name = (case map_of h name of None \<Rightarrow> [] | Some v \<Rightarrow> v)"

lemma add_host_dom: "fst ` set (add_host addr name h) = insert name (fst ` set h)"
  by (induction addr name h rule: add_host.induct) auto

lemma add_host_distinct: "distinct (map fst h) \<Longrightarrow> distinct (map fst (add_host addr name h))"
proof (induction addr name h rule: add_host.induct)
  case (2 addr name k v h)
  then show ?case by (auto simp: add_host_dom image_iff)
qed simp

lemma addrs_of_add_host:
  "addrs_of (add_host addr name h) n = (if n = name then addrs_of h name @ [addr] else addrs_of h n)"
  by (induction addr name h rule: add_host.induct) (auto simp: addrs_of_def)

lemma add_names_distinct: "distinct (map fst h) \<Longrightarrow> distinct (map fst (add_names addr names h))"
  by (induction addr names h rule: add_names.induct) (auto intro: add_host_distinct)

lemma hosts_line_distinct: "distinct (map fst h) \<Longrightarrow> distinct (map fst (hosts_line l h))"
  by (auto simp: hosts_line_def split: list.split intro: add_names_distinct)

lemma addrs_of_add_names:
  assumes "\<forall>n\<in>set names. \<not> skipped n"
  shows "addrs_of (add_names addr names h) n = addrs_of h n @ replicate (count_list names n) addr"
  using assms
  by (induction names arbitrary: h) (auto simp: addrs_of_add_host replicate_app_Cons_same)

lemma hosts_line_entry:
  assumes "\<forall>t\<in>set (addr # names). word_ok t"
  shows "addrs_of (hosts_line (print_line (addr # names) @ [CHR 0x0A]) h) n =
    addrs_of h n @ replicate (count_list names n) addr"
proof -
  have "\<not> skipped (print_line (addr # names) @ [CHR 0x0A])"
    using assms by (cases addr) (auto simp: print_line_def skipped_def word_ok_def)
  then show ?thesis
    using assms addrs_of_add_names [of names addr h n] unfolding hosts_line_def tokens_print_line [OF assms]
    by (simp add: word_ok_def)
qed

section \<open>Properties\<close>

definition print_hosts :: "(string \<times> string list) list \<Rightarrow> string" where
  "print_hosts tbl = concat (map (\<lambda>l. l @ [CHR 0x0A]) (map (\<lambda>(a, ns). print_line (a # ns)) tbl))"

text \<open>
  Reading back a printed hosts file: for every table of lines, each an address with the names it
  serves, written as words that are not comments, in lines shorter than the buffer, \<open>getHosts\<close>
  returns one entry for each name, and the entry has the addresses of the lines that list the name, in
  the order of the lines, as often as they list it.
\<close>

theorem hosts_roundtrip:
  assumes "\<forall>(a, ns)\<in>set tbl. (\<forall>t\<in>set (a # ns). word_ok t) \<and> length (print_line (a # ns)) < 1023"
  shows "\<exists>h. config_get_hosts (Some (print_hosts tbl)) = Inr h \<and> distinct (map fst h) \<and>
    (\<forall>n. addrs_of h n = concat (map (\<lambda>(a, ns). replicate (count_list ns n) a) tbl))"
proof -
  let ?l = "\<lambda>(a, ns). print_line (a # ns) @ [CHR 0x0A]"
  have ok: "line_ok (print_line ws)" if "\<forall>t\<in>set ws. word_ok t" "length (print_line ws) < 1023" for ws
    using that by (auto simp: line_ok_def print_line_def word_ok_def dns_delim_def)
  have lines: "read_lines 1024 (print_hosts tbl) = map ?l tbl"
    unfolding print_hosts_def
    by (subst read_lines_file) (use assms ok in \<open>auto simp: comp_def split: prod.splits\<close>)
  have "distinct (map fst (fold hosts_line (map ?l t) h)) \<and>
      addrs_of (fold hosts_line (map ?l t) h) n = addrs_of h n @ concat (map (\<lambda>(a, ns). replicate (count_list ns n) a) t)"
    if "\<forall>(a, ns)\<in>set t. \<forall>x\<in>set (a # ns). word_ok x" "distinct (map fst h)" for t h n
    using that
  proof (induction t arbitrary: h)
    case (Cons x t)
    obtain a ns where x: "x = (a, ns)" by (cases x)
    show ?case
      using Cons.IH [of "hosts_line (?l x) h"] Cons.prems hosts_line_entry [of a ns h n] hosts_line_distinct [of h]
      by (simp add: x)
  qed simp
  from this [of tbl "[]"] show ?thesis
    using assms unfolding config_get_hosts_def by (auto simp: lines addrs_of_def case_prod_beta)
qed

theorem hosts_roundtrip_witness:
  "\<exists>h. config_get_hosts (Some (print_hosts [(''::1'', [''a'', ''b'']), (''127.0.0.1'', [''a''])])) = Inr h \<and>
     addrs_of h ''a'' = [''::1'', ''127.0.0.1''] \<and> addrs_of h ''b'' = [''::1'']"
  using hosts_roundtrip [of "[(''::1'', [''a'', ''b'']), (''127.0.0.1'', [''a''])]"]
  by (fastforce simp: word_ok_def dns_delim_def skipped_def skip_line_def print_line_def)

text \<open>
  The reference: the pairs of a name and an address that the lines list, in the order of the file, and
  their grouping by name, names in the order of their first occurrence.
\<close>

definition line_entries :: "string \<Rightarrow> (string \<times> string) list" where
  "line_entries buf =
     (if skipped buf then []
      else case tokens dns_delim buf of
        [] \<Rightarrow> []
      | addr # names \<Rightarrow> map (\<lambda>n. (n, addr)) (takeWhile (\<lambda>n. \<not> skipped n) names))"

definition first_occurrences :: "'a list \<Rightarrow> 'a list" where
  "first_occurrences xs = rev (remdups (rev xs))"

definition group_entries :: "(string \<times> string) list \<Rightarrow> hosts" where
  "group_entries es = map (\<lambda>n. (n, map snd (filter (\<lambda>e. fst e = n) es))) (first_occurrences (map fst es))"

lemma first_occurrences_snoc:
  "first_occurrences (xs @ [x]) = (if x \<in> set xs then first_occurrences xs else first_occurrences xs @ [x])"
  by (simp add: first_occurrences_def)

lemma first_occurrences_distinct [simp]: "distinct (first_occurrences xs)" "set (first_occurrences xs) = set xs"
  by (simp_all add: first_occurrences_def)

lemma add_host_map:
  assumes "distinct ks"
  shows "add_host a n (map (\<lambda>k. (k, f k)) ks) =
    (if n \<in> set ks then map (\<lambda>k. (k, if k = n then f k @ [a] else f k)) ks else map (\<lambda>k. (k, f k)) ks @ [(n, [a])])"
  using assms by (induction ks) auto

lemma group_entries_snoc: "group_entries (es @ [(n, a)]) = add_host a n (group_entries es)"
proof -
  have none: "map snd (filter (\<lambda>e. fst e = n) es) = []" if "n \<notin> fst ` set es"
    using that by (auto simp: filter_empty_conv)
  have ks: "map (\<lambda>k. (k, map snd (filter (\<lambda>e. fst e = k) (es @ [(n, a)])))) ks =
      map (\<lambda>k. (k, if k = n then map snd (filter (\<lambda>e. fst e = k) es) @ [a] else map snd (filter (\<lambda>e. fst e = k) es))) ks" for ks
    by simp
  show ?thesis
  proof (cases "n \<in> fst ` set es")
    case True
    then show ?thesis
      unfolding group_entries_def ks add_host_map [OF first_occurrences_distinct(1)] by (simp add: first_occurrences_snoc)
  next
    case False
    then show ?thesis
      unfolding group_entries_def ks add_host_map [OF first_occurrences_distinct(1)]
      by (auto simp: first_occurrences_snoc none [OF False])
  qed
qed

lemma fold_add_host: "fold (\<lambda>(n, a). add_host a n) es (group_entries ds) = group_entries (ds @ es)"
  by (induction es arbitrary: ds) (auto simp: group_entries_snoc [symmetric])

lemma add_names_fold:
  "add_names addr names h = fold (\<lambda>(n, a). add_host a n) (map (\<lambda>n. (n, addr)) (takeWhile (\<lambda>n. \<not> skipped n) names)) h"
  by (induction names arbitrary: h) simp_all

lemma hosts_line_group: "hosts_line buf (group_entries ds) = group_entries (ds @ line_entries buf)"
  by (auto simp: hosts_line_def line_entries_def add_names_fold fold_add_host split: list.split)

lemma hosts_lines_group: "fold hosts_line bufs (group_entries ds) = group_entries (ds @ concat (map line_entries bufs))"
  by (induction bufs arbitrary: ds) (simp_all add: hosts_line_group)

text \<open>
  On every hosts file that can be opened, whatever it contains, the loops of \<open>getHosts\<close>, which add to
  the array as they read, compute the grouping by name of the pairs that the lines list.
\<close>

theorem hosts_are_grouped:
  "config_get_hosts (Some s) = Inr (group_entries (concat (map line_entries (read_lines 1024 s))))"
proof -
  have "group_entries [] = []" by (simp add: group_entries_def first_occurrences_def)
  with hosts_lines_group [of "read_lines 1024 s" "[]"] show ?thesis by (simp add: config_get_hosts_def)
qed

text \<open>
  Of the address of an IPv6 name server, which is written without brackets in \<open>resolv.conf\<close>, everything
  from the last colon on is cut off and read as a port.
\<close>

theorem nameserver_ipv6_truncated:
  assumes "word_ok (host @ CHR '':'' # port)" and "CHR '':'' \<notin> set port"
    and "length (print_line [''nameserver'', host @ CHR '':'' # port]) < 1023"
  shows "config_get_nameservers (Some (print_line [''nameserver'', host @ CHR '':'' # port] @ [CHR 0x0A])) =
    Inr [(host, c_atoi port)]"
proof -
  let ?s = "host @ CHR '':'' # port"
  have w: "\<forall>t\<in>set [''nameserver'', ?s]. word_ok t"
    using assms(1) by (simp add: word_ok_def dns_delim_def skipped_def skip_line_def)
  have l: "line_ok (print_line [''nameserver'', ?s])"
    using assms w by (auto simp: line_ok_def print_line_def word_ok_def dns_delim_def)
  have r: "read_lines 1024 (print_line [''nameserver'', ?s] @ [CHR 0x0A]) = [print_line [''nameserver'', ?s] @ [CHR 0x0A]]"
    using read_lines_line [OF l, of "[]"] by simp
  have k: "\<not> skipped (print_line [''nameserver'', ?s] @ [CHR 0x0A])"
    by (simp add: print_line_def skipped_def skip_line_def)
  have "takeWhile (\<lambda>x. x \<noteq> CHR '':'') (rev port @ CHR '':'' # rev host) = rev port"
    "dropWhile (\<lambda>x. x \<noteq> CHR '':'') (rev port @ CHR '':'' # rev host) = CHR '':'' # rev host"
    using assms(2) by (subst takeWhile_append2 dropWhile_append2; auto)+
  then have e: "nameserver_entry ?s = (host, c_atoi port)"
    by (simp add: nameserver_entry_def c_strrchr_def)
  have "nameserver_line (print_line [''nameserver'', ?s] @ [CHR 0x0A]) [] = [(host, c_atoi port)]"
    using assms(1) unfolding nameserver_line_def tokens_print_line [OF w]
    by (simp add: k e hash_add_def word_ok_def)
  then show ?thesis by (simp add: config_get_nameservers_def r)
qed

theorem nameserver_ipv6_truncated_witness:
  "config_get_nameservers (Some ''nameserver fe80::1 \<newline>'') = Inr [(''fe80:'', 1)]"
proof -
  have "c_atoi ''1'' = 1" by (simp add: c_atoi_def c_space_def c_digit_def digit_val_def Let_def)
  then show ?thesis
    using nameserver_ipv6_truncated [of "''fe80:''" "''1''"]
    by (simp add: word_ok_def dns_delim_def skipped_def skip_line_def print_line_def)
qed

text \<open>A comment that is indented is taken for an address with names.\<close>

lemma indented_comment_is_entry:
  "config_get_hosts (Some ('' # localhost'' @ [CHR 0x0A])) = Inr [(''localhost'', [''#''])]"
proof -
  have l: "read_lines 1024 ('' # localhost'' @ [CHR 0x0A]) = ['' # localhost'' @ [CHR 0x0A]]"
    using read_lines_line [of "'' # localhost''" "[]"] by (simp add: line_ok_def)
  have t: "tokens dns_delim ('' # localhost'' @ [CHR 0x0A]) = [''#'', ''localhost'']"
    using tokens_word [of "''#''" dns_delim "'' localhost'' @ [CHR 0x0A]"]
      tokens_word [of "''localhost''" dns_delim "[CHR 0x0A]"] by (simp add: dns_delim_def)
  show ?thesis using l t by (simp add: config_get_hosts_def hosts_line_def skipped_def skip_line_def)
qed

end
