(* ===== verification/Dns.thy ===== *)
theory Dns
  imports Loop DnsConfig
begin

text \<open>
  Name resolution (\<open>dns.c\<close>): queries that a resolver written in PHP answers, the lookup of the address of
  a host with this resolver or with \<open>getaddrinfo\<close> of libuv, and the replacements of PHP's DNS functions.
  Warnings are not modelled. A PHP array with string keys is an association list in the order of
  insertion.
\<close>

section \<open>Record types\<close>

abbreviation ASYNC_DNS_A :: int where "ASYNC_DNS_A \<equiv> 1"
abbreviation ASYNC_DNS_NS :: int where "ASYNC_DNS_NS \<equiv> 2"
abbreviation ASYNC_DNS_CNAME :: int where "ASYNC_DNS_CNAME \<equiv> 5"
abbreviation ASYNC_DNS_SOA :: int where "ASYNC_DNS_SOA \<equiv> 6"
abbreviation ASYNC_DNS_PTR :: int where "ASYNC_DNS_PTR \<equiv> 12"
abbreviation ASYNC_DNS_HINFO :: int where "ASYNC_DNS_HINFO \<equiv> 13"
abbreviation ASYNC_DNS_MX :: int where "ASYNC_DNS_MX \<equiv> 15"
abbreviation ASYNC_DNS_TXT :: int where "ASYNC_DNS_TXT \<equiv> 16"
abbreviation ASYNC_DNS_AAAA :: int where "ASYNC_DNS_AAAA \<equiv> 28"
abbreviation ASYNC_DNS_SRV :: int where "ASYNC_DNS_SRV \<equiv> 33"
abbreviation ASYNC_DNS_NAPTR :: int where "ASYNC_DNS_NAPTR \<equiv> 35"
abbreviation ASYNC_DNS_A6 :: int where "ASYNC_DNS_A6 \<equiv> 38"
abbreviation ASYNC_DNS_ANY :: int where "ASYNC_DNS_ANY \<equiv> 255"
abbreviation ASYNC_DNS_CAA :: int where "ASYNC_DNS_CAA \<equiv> 257"

abbreviation PHP_DNS_A :: int where "PHP_DNS_A \<equiv> 0x00000001"
abbreviation PHP_DNS_NS :: int where "PHP_DNS_NS \<equiv> 0x00000002"
abbreviation PHP_DNS_CNAME :: int where "PHP_DNS_CNAME \<equiv> 0x00000010"
abbreviation PHP_DNS_SOA :: int where "PHP_DNS_SOA \<equiv> 0x00000020"
abbreviation PHP_DNS_PTR :: int where "PHP_DNS_PTR \<equiv> 0x00000800"
abbreviation PHP_DNS_HINFO :: int where "PHP_DNS_HINFO \<equiv> 0x00001000"
abbreviation PHP_DNS_CAA :: int where "PHP_DNS_CAA \<equiv> 0x00002000"
abbreviation PHP_DNS_MX :: int where "PHP_DNS_MX \<equiv> 0x00004000"
abbreviation PHP_DNS_TXT :: int where "PHP_DNS_TXT \<equiv> 0x00008000"
abbreviation PHP_DNS_A6 :: int where "PHP_DNS_A6 \<equiv> 0x01000000"
abbreviation PHP_DNS_SRV :: int where "PHP_DNS_SRV \<equiv> 0x02000000"
abbreviation PHP_DNS_NAPTR :: int where "PHP_DNS_NAPTR \<equiv> 0x04000000"
abbreviation PHP_DNS_AAAA :: int where "PHP_DNS_AAAA \<equiv> 0x08000000"
abbreviation PHP_DNS_ANY :: int where "PHP_DNS_ANY \<equiv> 0x10000000"
abbreviation PHP_DNS_ALL :: int where "PHP_DNS_ALL \<equiv> 0x0F00F833"

definition dns_type_name :: "int \<Rightarrow> string" where
  "dns_type_name type = (case map_of
     [(ASYNC_DNS_A, ''A''), (ASYNC_DNS_NS, ''NS''), (ASYNC_DNS_CNAME, ''CNAME''), (ASYNC_DNS_SOA, ''SOA''),
      (ASYNC_DNS_PTR, ''PTR''), (ASYNC_DNS_HINFO, ''HINFO''), (ASYNC_DNS_CAA, ''CAA''), (ASYNC_DNS_MX, ''MX''),
      (ASYNC_DNS_TXT, ''TXT''), (ASYNC_DNS_A6, ''A6''), (ASYNC_DNS_SRV, ''SRV''), (ASYNC_DNS_NAPTR, ''NAPTR''),
      (ASYNC_DNS_AAAA, ''AAAA''), (ASYNC_DNS_ANY, ''ANY'')] type of
     None \<Rightarrow> ''UNKNOWN'' | Some name \<Rightarrow> name)"

text \<open>The switch of \<open>create_dns_query\<close>; 0 is the default.\<close>

definition dns_type_of :: "int \<Rightarrow> int" where
  "dns_type_of i = (case map_of
     [(PHP_DNS_A, ASYNC_DNS_A), (PHP_DNS_A6, ASYNC_DNS_A6), (PHP_DNS_AAAA, ASYNC_DNS_AAAA), (PHP_DNS_CAA, ASYNC_DNS_CAA),
      (PHP_DNS_CNAME, ASYNC_DNS_CNAME), (PHP_DNS_HINFO, ASYNC_DNS_HINFO), (PHP_DNS_MX, ASYNC_DNS_MX),
      (PHP_DNS_NAPTR, ASYNC_DNS_NAPTR), (PHP_DNS_NS, ASYNC_DNS_NS), (PHP_DNS_PTR, ASYNC_DNS_PTR),
      (PHP_DNS_SOA, ASYNC_DNS_SOA), (PHP_DNS_SRV, ASYNC_DNS_SRV), (PHP_DNS_TXT, ASYNC_DNS_TXT),
      (PHP_DNS_ANY, ASYNC_DNS_ANY)] i of None \<Rightarrow> 0 | Some j \<Rightarrow> j)"

section \<open>Queries\<close>

type_synonym dns_record = "(string \<times> zval) list"

text \<open>Keys of the arrays that scripts pass: strings and integers.\<close>

datatype hash_key = Hash_str string | Hash_int int

abbreviation DNS_QUERY_FLAG_ANY :: u8 where "DNS_QUERY_FLAG_ANY \<equiv> 1"

record async_dns_query =
  dq_flags :: u8
  dq_types :: "int list"
  dq_records :: "dns_record list"
  dq_host :: string

text \<open>\<open>uv_codes\<close> are the codes of the operations that wait for libuv (\<open>async_uv_op\<close>).\<close>

record dns_store = component_store +
  uv_codes :: "opid \<Rightarrow> int"
  dns_queries :: "nat \<Rightarrow> async_dns_query"
  next_query :: nat

definition set_uv_code :: "opid \<Rightarrow> int \<Rightarrow> 'a dns_store_scheme \<Rightarrow> 'a dns_store_scheme" where
  "set_uv_code op code w = w\<lparr>uv_codes := (uv_codes w)(op := code)\<rparr>"

definition upd_query :: "nat \<Rightarrow> (async_dns_query \<Rightarrow> async_dns_query) \<Rightarrow> 'a dns_store_scheme \<Rightarrow> 'a dns_store_scheme" where
  "upd_query q f w = w\<lparr>dns_queries := (dns_queries w)(q := f (dns_queries w q))\<rparr>"

text \<open>\<open>zend_hash_index_add\<close> of the value true.\<close>

definition index_add :: "int \<Rightarrow> int list \<Rightarrow> int list" where
  "index_add i keys = (if i \<in> set keys then keys else keys @ [i])"

definition async_dns_query_object_create :: "'a dns_store_scheme \<Rightarrow> nat \<times> 'a dns_store_scheme" where
  "async_dns_query_object_create w =
     (let q = next_query w
      in (q, (upd_query q (\<lambda>_. \<lparr>dq_flags = 0, dq_types = [], dq_records = [], dq_host = []\<rparr>) w)\<lparr>next_query := Suc q\<rparr>))"

text \<open>The bits of \<open>types\<close> from 1 to \<open>PHP_DNS_ANY\<close>.\<close>

definition add_dns_type :: "int \<Rightarrow> int \<Rightarrow> async_dns_query \<Rightarrow> async_dns_query" where
  "add_dns_type types i x =
     (if types AND i = 0 then x
      else
        let y = (if i = PHP_DNS_ANY then x\<lparr>dq_flags := set_flag (dq_flags x) DNS_QUERY_FLAG_ANY\<rparr> else x)
        in if dns_type_of i = 0 then y else y\<lparr>dq_types := index_add (dns_type_of i) (dq_types y)\<rparr>)"

definition create_dns_query :: "string \<Rightarrow> int \<Rightarrow> 'a dns_store_scheme \<Rightarrow> nat \<times> 'a dns_store_scheme" where
  "create_dns_query host types w =
     (let (q, w1) = async_dns_query_object_create w
      in (q, upd_query q (\<lambda>x. (fold (add_dns_type types) (map (\<lambda>n. 2 ^ n) [0..<29]) x)\<lparr>dq_host := host\<rparr>) w1))"

definition dns_query_construct :: "nat \<Rightarrow> string \<Rightarrow> int list \<Rightarrow> 'a dns_store_scheme \<Rightarrow> 'a dns_store_scheme" where
  "dns_query_construct q host types w =
     upd_query q (fold (\<lambda>t x. x\<lparr>dq_flags := (if t = ASYNC_DNS_ANY then set_flag (dq_flags x) DNS_QUERY_FLAG_ANY else dq_flags x),
          dq_types := index_add t (dq_types x)\<rparr>) types)
       (upd_query q (\<lambda>x. x\<lparr>dq_host := host\<rparr>) w)"

definition dns_query_get_types :: "nat \<Rightarrow> 'a dns_store_scheme \<Rightarrow> int list" where
  "dns_query_get_types q w = dq_types (dns_queries w q)"

definition dns_query_get_records :: "nat \<Rightarrow> 'a dns_store_scheme \<Rightarrow> dns_record list" where
  "dns_query_get_records q w = dq_records (dns_queries w q)"

text \<open>
  Copying the data into the record: keys that it has are kept. An integer key is a null pointer where
  the string is expected, which \<open>zend_hash_find\<close> dereferences.
\<close>

fun copy_data :: "(hash_key \<times> zval) list \<Rightarrow> dns_record \<Rightarrow> dns_record option" where
  "copy_data [] r = Some r"
| "copy_data ((Hash_int _, _) # data) r = None"
| "copy_data ((Hash_str k, v) # data) r = copy_data data (hash_add k v r)"

definition record_head :: "string \<Rightarrow> int \<Rightarrow> int \<Rightarrow> dns_record" where
  "record_head host ttl type =
     [(''host'', IS_STRING host), (''class'', IS_STRING ''IN''), (''ttl'', IS_LONG ttl), (''type'', IS_LONG type)]"

definition dns_query_add_record ::
  "texts \<Rightarrow> nat \<Rightarrow> int \<Rightarrow> int \<Rightarrow> (hash_key \<times> zval) list \<Rightarrow> 'a dns_store_scheme \<Rightarrow> (outcome \<times> 'a dns_store_scheme) option" where
  "dns_query_add_record tx q type ttl data w =
     (let x = dns_queries w q;
          err = (\<lambda>msg. Some (Throw (IS_ERROR ErrorCe msg None), w))
      in if \<not> has_flag (dq_flags x) DNS_QUERY_FLAG_ANY \<and> type \<notin> set (dq_types x)
         then err (''Unrequested DNS record type: '' @ dns_type_name type @ '' ('' @ show_int tx type @ '')'')
         else if type = ASYNC_DNS_A \<and> Hash_str ''ip'' \<notin> fst ` set data
         then err (''DNS A record is missing data key '' @ [CHR 0x22] @ ''ip'' @ [CHR 0x22])
         else if type = ASYNC_DNS_AAAA \<and> Hash_str ''ipv6'' \<notin> fst ` set data
         then err (''DNS AAAA record is missing data key '' @ [CHR 0x22] @ ''ipv6'' @ [CHR 0x22])
         else map_option (\<lambda>r. (Ret IS_NULL, upd_query q (\<lambda>x. x\<lparr>dq_records := dq_records x @ [r]\<rparr>) w))
           (copy_data data (record_head (dq_host x) ttl type)))"

section \<open>Asking the resolver\<close>

definition async_dns_resolver_ce :: string where
  "async_dns_resolver_ce = ''Concurrent'' @ [CHR 0x5C] @ ''DNS'' @ [CHR 0x5C] @ ''Resolver''"

record addrinfo =
  ai_addr :: sockaddr
  ai_protocol :: int

text \<open>
  What the lookups use of other code: the factory of the resolver and its method \<open>search\<close>, the
  conversions of addresses, whether PHP runs in the command line (\<open>ASYNC_G(cli)\<close>), what
  \<open>uv_getaddrinfo\<close> returns (without a callback it waits for the answer), the addresses it found,
  what \<open>uv_cancel\<close> returns, and whether a string is an integer key of PHP arrays.
\<close>

record 'w dns_env =
  call_factory :: "nat \<Rightarrow> 'w \<Rightarrow> outcome \<times> 'w"
  instance_of :: "string \<Rightarrow> zval \<Rightarrow> nat option"
  search :: "nat \<Rightarrow> nat \<Rightarrow> 'w \<Rightarrow> outcome \<times> 'w"
  inet_of :: inet
  g_cli :: bool
  uv_getaddrinfo :: "string \<Rightarrow> int \<Rightarrow> 'w \<Rightarrow> int"
  req_addrinfo :: "string \<Rightarrow> int \<Rightarrow> 'w \<Rightarrow> addrinfo list"
  uv_cancel :: "'w \<Rightarrow> int"
  numeric_key :: "string \<Rightarrow> bool"

text \<open>
  \<open>async_get_component\<close>, \<open>create_dns_query\<close> and \<open>query_dns\<close>. A resolver that is created while
  its factory runs is not returned: then the null pointer is dereferenced.
\<close>

datatype asked = Asked nat | Ask_thrown zval | Ask_bail

definition query_dns ::
  "'a dns_store_scheme dns_env \<Rightarrow> nat \<Rightarrow> nat \<Rightarrow> 'a dns_store_scheme \<Rightarrow> asked \<times> 'a dns_store_scheme" where
  "query_dns env resolver q w = (case search env resolver q w of
     (Ret _, w1) \<Rightarrow> (Asked q, w1)
   | (Throw e, w1) \<Rightarrow> (Ask_thrown e, w1)
   | (Bail, w1) \<Rightarrow> (Ask_bail, w1))"

definition ask_resolver ::
  "'a dns_store_scheme dns_env \<Rightarrow> string \<Rightarrow> int \<Rightarrow> 'a dns_store_scheme \<Rightarrow> (asked \<times> 'a dns_store_scheme) option" where
  "ask_resolver env host types w =
     (case async_get_component (call_factory env) (instance_of env) async_dns_resolver_ce w of
        (Throw e, w1) \<Rightarrow> Some (Ask_thrown e, w1)
      | (Bail, w1) \<Rightarrow> Some (Ask_bail, w1)
      | (Ret v, w1) \<Rightarrow> (case v of
          IS_OBJECT resolver \<Rightarrow> (let (q, w2) = create_dns_query host types w1 in Some (query_dns env resolver q w2))
        | _ \<Rightarrow> None))"

definition has_resolver :: "'a component_store_scheme \<Rightarrow> bool" where
  "has_resolver w \<longleftrightarrow> factories w async_dns_resolver_ce \<noteq> None"

text \<open>
  The first record of a type, and the text under a key. A missing entry is a null pointer, a value that
  is not a string is read as one.
\<close>

fun first_record :: "int \<Rightarrow> dns_record list \<Rightarrow> dns_record option option" where
  "first_record type [] = Some None"
| "first_record type (r # rs) = (case map_of r ''type'' of
     Some (IS_LONG n) \<Rightarrow> if n = type then Some (Some r) else first_record type rs
   | _ \<Rightarrow> None)"

definition record_text :: "string \<Rightarrow> dns_record \<Rightarrow> string option" where
  "record_text k r = (case map_of r k of Some (IS_STRING s) \<Rightarrow> Some s | _ \<Rightarrow> None)"

datatype dns_status = Dns_no_result | Dns_resolved sockaddr | Dns_failure zval | Dns_bail

text \<open>What \<open>uv_ip4_addr\<close> and \<open>uv_ip6_addr\<close> return is ignored.\<close>

definition resolver_result :: "inet \<Rightarrow> int \<Rightarrow> dns_record list \<Rightarrow> dns_status option" where
  "resolver_result inet types rs =
     Option.bind (first_record ASYNC_DNS_A rs) (\<lambda>r4. case r4 of
        Some r \<Rightarrow> map_option (\<lambda>ip. Dns_resolved (snd (uv_ip4_addr inet ip 0))) (record_text ''ip'' r)
      | None \<Rightarrow>
          if types AND PHP_DNS_AAAA = 0 then Some Dns_no_result
          else Option.bind (first_record ASYNC_DNS_AAAA rs) (\<lambda>r6. case r6 of
             Some r \<Rightarrow> map_option (\<lambda>ip. Dns_resolved (snd (uv_ip6_addr inet ip 0))) (record_text ''ipv6'' r)
           | None \<Rightarrow> Some Dns_no_result))"

definition lookup_ip_using_resolver ::
  "'a dns_store_scheme dns_env \<Rightarrow> string \<Rightarrow> int \<Rightarrow> 'a dns_store_scheme \<Rightarrow> (dns_status \<times> 'a dns_store_scheme) option" where
  "lookup_ip_using_resolver env name types w =
     Option.bind (ask_resolver env name types w) (\<lambda>(r, w1). case r of
       Ask_thrown e \<Rightarrow> Some (Dns_failure e, w1)
     | Ask_bail \<Rightarrow> Some (Dns_bail, w1)
     | Asked q \<Rightarrow> map_option (\<lambda>s. (s, w1)) (resolver_result (inet_of env) types (dq_records (dns_queries w1 q))))"

section \<open>Asking libuv\<close>

definition dns_gethostbyname_cb ::
  "(opid \<Rightarrow> 'a dns_store_scheme \<Rightarrow> 'a dns_store_scheme) \<Rightarrow> int \<Rightarrow> opid \<Rightarrow> 'a dns_store_scheme \<Rightarrow> 'a dns_store_scheme" where
  "dns_gethostbyname_cb run status op w =
     (if status = - 125 then async_free_op op w else async_finish_op run op (set_uv_code op status w))"

datatype host_result = Host_code int | Host_thrown zval | Host_bail

text \<open>\<open>Host_code 0\<close> is success, \<open>Host_thrown\<close> is \<open>FAILURE\<close> with the error of the operation thrown.\<close>

definition dns_gethostbyname ::
  "'a dns_store_scheme dns_env \<Rightarrow> (transfer \<Rightarrow> 'a dns_store_scheme \<Rightarrow> 'a dns_store_scheme) \<Rightarrow> string \<Rightarrow> int \<Rightarrow>
   'a dns_store_scheme \<Rightarrow> (host_result \<times> 'a dns_store_scheme) option" where
  "dns_gethostbyname env yield name proto w =
     (if g_cli env \<and> \<not> (sched_flag SCHED_DISPOSED w \<or> sched_flag SCHED_ERROR w)
      then
        let (op, w1) = async_alloc_op w;
            w2 = set_uv_code op 0 w1;
            code = uv_getaddrinfo env name proto w2
        in if code < 0 then Some (Host_code code, async_free_op op w2)
           else map_option (\<lambda>(r, w3). case r of
               Await_bailout \<Rightarrow> (Host_bail, w3)
             | Await_failure \<Rightarrow> (Host_thrown (op_result (ops w3 op)),
                 if uv_cancel env w3 = 0 then async_free_op op w3
                 else upd_op op (\<lambda>x. x\<lparr>op_status := ASYNC_STATUS_FAILED\<rparr>) w3)
             | Await_success \<Rightarrow>
                 (Host_code (if uv_codes w3 op < 0 then uv_codes w3 op else 0), async_free_op op w3))
             (async_await_op yield op w2)
      else
        let code = uv_getaddrinfo env name proto w
        in Some (Host_code (if code < 0 then code else 0), w))"

section \<open>The address of a host\<close>

definition matches4 :: "int \<Rightarrow> addrinfo \<Rightarrow> bool" where
  "matches4 proto i \<longleftrightarrow> (case ai_addr i of AF_INET _ _ \<Rightarrow> True | _ \<Rightarrow> False) \<and> (ai_protocol i = proto \<or> proto = 0)"

definition matches6 :: "int \<Rightarrow> addrinfo \<Rightarrow> bool" where
  "matches6 proto i \<longleftrightarrow> (case ai_addr i of AF_INET6 _ _ \<Rightarrow> True | _ \<Rightarrow> False) \<and> (ai_protocol i = proto \<or> proto = 0)"

text \<open>The loops over the answer: the first IPv4 address, else the first IPv6 address.\<close>

definition pick_address :: "int \<Rightarrow> addrinfo list \<Rightarrow> sockaddr option" where
  "pick_address proto infos = (case find (matches4 proto) infos of
     Some i \<Rightarrow> Some (ai_addr i)
   | None \<Rightarrow> map_option ai_addr (find (matches6 proto) infos))"

abbreviation UV_EAI_NODATA :: int where "UV_EAI_NODATA \<equiv> - 3007"

text \<open>\<open>Ip_thrown\<close> is \<open>FAILURE\<close> with a pending exception.\<close>

datatype ip_lookup = Ip_found sockaddr | Ip_error int | Ip_thrown zval | Ip_bail

definition async_dns_lookup_ip ::
  "'a dns_store_scheme dns_env \<Rightarrow> (transfer \<Rightarrow> 'a dns_store_scheme \<Rightarrow> 'a dns_store_scheme) \<Rightarrow> string \<Rightarrow> int \<Rightarrow>
   'a dns_store_scheme \<Rightarrow> (ip_lookup \<times> 'a dns_store_scheme) option" where
  "async_dns_lookup_ip env yield name proto w =
     (case async_socket_parse_ip (inet_of env) name 0 of
        Some a \<Rightarrow> Some (Ip_found a, w)
      | None \<Rightarrow>
          Option.bind (if has_resolver w then lookup_ip_using_resolver env name (PHP_DNS_A OR PHP_DNS_AAAA) w
                       else Some (Dns_no_result, w)) (\<lambda>(s, w1). case s of
            Dns_failure e \<Rightarrow> Some (Ip_thrown e, w1)
          | Dns_bail \<Rightarrow> Some (Ip_bail, w1)
          | Dns_resolved a \<Rightarrow> Some (Ip_found a, w1)
          | Dns_no_result \<Rightarrow> map_option (\<lambda>(r, w2). (case r of
                Host_bail \<Rightarrow> Ip_bail
              | Host_thrown e \<Rightarrow> Ip_thrown e
              | Host_code code \<Rightarrow>
                  if code \<noteq> 0 then Ip_error code
                  else case pick_address proto (req_addrinfo env name proto w2) of
                    Some a \<Rightarrow> Ip_found a
                  | None \<Rightarrow> Ip_error UV_EAI_NODATA, w2)) (dns_gethostbyname env yield name proto w1)))"

section \<open>PHP's functions\<close>

abbreviation MAXFQDNLEN :: nat where "MAXFQDNLEN \<equiv> 255"

text \<open>The address of an IPv4 socket address, as text.\<close>

definition ip4_text :: "inet \<Rightarrow> sockaddr \<Rightarrow> string" where
  "ip4_text inet a = (case a of AF_INET ip _ \<Rightarrow> uv_ip4_name inet ip | _ \<Rightarrow> uv_ip4_name inet 0)"

text \<open>When the answer has no IPv4 address, the return value is not set.\<close>

definition async_gethostbyname ::
  "'a dns_store_scheme dns_env \<Rightarrow> (transfer \<Rightarrow> 'a dns_store_scheme \<Rightarrow> 'a dns_store_scheme) \<Rightarrow> string \<Rightarrow>
   'a dns_store_scheme \<Rightarrow> (outcome \<times> 'a dns_store_scheme) option" where
  "async_gethostbyname env yield name w =
     (if MAXFQDNLEN < length name then Some (Ret (IS_STRING name), w)
      else case async_socket_parse_ipv4 (inet_of env) name 0 of
        Some a \<Rightarrow> Some (Ret (IS_STRING (ip4_text (inet_of env) a)), w)
      | None \<Rightarrow>
          Option.bind (if has_resolver w then lookup_ip_using_resolver env name PHP_DNS_A w
                       else Some (Dns_no_result, w)) (\<lambda>(s, w1). case s of
            Dns_failure e \<Rightarrow> Some (Throw e, w1)
          | Dns_bail \<Rightarrow> Some (Bail, w1)
          | Dns_resolved a \<Rightarrow> Some (Ret (IS_STRING (ip4_text (inet_of env) a)), w1)
          | Dns_no_result \<Rightarrow> map_option (\<lambda>(r, w2). (case r of
                Host_bail \<Rightarrow> Bail
              | Host_thrown e \<Rightarrow> Throw e
              | Host_code code \<Rightarrow>
                  if code \<noteq> 0 then Ret (IS_STRING name)
                  else case find (matches4 0) (req_addrinfo env name 0 w2) of
                    Some i \<Rightarrow> Ret (IS_STRING (ip4_text (inet_of env) (ai_addr i)))
                  | None \<Rightarrow> Ret IS_NULL, w2)) (dns_gethostbyname env yield name 0 w1)))"

text \<open>
  Results of the functions that return arrays: the list of addresses, the records of a query, the arrays
  for targets and weights of \<open>getmxrr\<close>; \<open>Dns_original\<close> is a call of PHP's own function.
\<close>

datatype dns_outcome =
    Dns_list "string list"
  | Dns_value zval
  | Dns_records "dns_record list"
  | Dns_mx "zval list" "zval list option"
  | Dns_original
  | Dns_throw zval
  | Dns_exit

text \<open>
  The names are keys of a temporary array first. A name that is an integer key has no string there:
  copying it dereferences a null pointer.
\<close>

definition distinct_names :: "('w dns_env) \<Rightarrow> string list \<Rightarrow> string list option" where
  "distinct_names env ips = (if list_ex (numeric_key env) ips then None else Some (rev (remdups (rev ips))))"

definition async_gethostbynamel ::
  "'a dns_store_scheme dns_env \<Rightarrow> (transfer \<Rightarrow> 'a dns_store_scheme \<Rightarrow> 'a dns_store_scheme) \<Rightarrow> string \<Rightarrow>
   'a dns_store_scheme \<Rightarrow> (dns_outcome \<times> 'a dns_store_scheme) option" where
  "async_gethostbynamel env yield name w =
     (if MAXFQDNLEN < length name then Some (Dns_value (IS_STRING name), w)
      else case async_socket_parse_ipv4 (inet_of env) name 0 of
        Some a \<Rightarrow> Some (Dns_list [ip4_text (inet_of env) a], w)
      | None \<Rightarrow>
          Option.bind (if has_resolver w then ask_resolver env name PHP_DNS_A w else Some (Ask_bail, w)) (\<lambda>(s, w1).
            let ask_libuv = Option.bind (dns_gethostbyname env yield name 0 w1) (\<lambda>(r, w2). case r of
                Host_bail \<Rightarrow> Some (Dns_exit, w2)
              | Host_thrown e \<Rightarrow> Some (Dns_throw e, w2)
              | Host_code code \<Rightarrow>
                  if code \<noteq> 0 then Some (Dns_value (IS_BOOL False), w2)
                  else map_option (\<lambda>l. (Dns_list l, w2)) (distinct_names env
                     (map (\<lambda>i. ip4_text (inet_of env) (ai_addr i)) (filter (matches4 0) (req_addrinfo env name 0 w2)))))
            in if \<not> has_resolver w then ask_libuv
               else case s of
                 Ask_thrown e \<Rightarrow> Some (Dns_throw e, w1)
               | Ask_bail \<Rightarrow> Some (Dns_exit, w1)
               | Asked q \<Rightarrow>
                   if dq_records (dns_queries w1 q) = [] then ask_libuv
                   else Option.bind (those (map (record_text ''ip'') (dq_records (dns_queries w1 q)))) (\<lambda>ips.
                     map_option (\<lambda>l. (Dns_list l, w1)) (distinct_names env ips))))"

text \<open>The common frame of the other functions: \<open>found q\<close> makes the result from the records.\<close>

definition with_resolver ::
  "'a dns_store_scheme dns_env \<Rightarrow> string \<Rightarrow> int \<Rightarrow> (dns_record list \<Rightarrow> dns_outcome option) \<Rightarrow> 'a dns_store_scheme \<Rightarrow>
   (dns_outcome \<times> 'a dns_store_scheme) option" where
  "with_resolver env host types found w =
     Option.bind (ask_resolver env host types w) (\<lambda>(s, w1). case s of
       Ask_thrown e \<Rightarrow> Some (Dns_throw e, w1)
     | Ask_bail \<Rightarrow> Some (Dns_exit, w1)
     | Asked q \<Rightarrow>
         if dq_records (dns_queries w1 q) = [] then Some (Dns_original, w1)
         else map_option (\<lambda>r. (r, w1)) (found (dq_records (dns_queries w1 q))))"

text \<open>\<open>zend_hash_update\<close> of an entry that exists.\<close>

definition named_type :: "dns_record \<Rightarrow> dns_record option" where
  "named_type r = (case map_of r ''type'' of
     Some (IS_LONG n) \<Rightarrow> Some (map (\<lambda>(k, v). (k, if k = ''type'' then IS_STRING (dns_type_name n) else v)) r)
   | _ \<Rightarrow> None)"

definition async_dns_get_record ::
  "'a dns_store_scheme dns_env \<Rightarrow> string \<Rightarrow> int option \<Rightarrow> 'a dns_store_scheme \<Rightarrow> (dns_outcome \<times> 'a dns_store_scheme) option" where
  "async_dns_get_record env host type_arg w =
     (if \<not> has_resolver w then Some (Dns_original, w)
      else
        let type0 = (case type_arg of None \<Rightarrow> PHP_DNS_ANY | Some t \<Rightarrow> t);
            type = (if type0 AND PHP_DNS_ANY \<noteq> 0 then PHP_DNS_ANY else type0)
        in if type AND NOT PHP_DNS_ALL \<noteq> 0 \<and> type \<noteq> PHP_DNS_ANY
           then Some (Dns_throw (IS_ERROR ErrorCe ''Invalid DNS record type requested'' None), w)
           else with_resolver env host type (\<lambda>rs. map_option Dns_records (those (map named_type rs))) w)"

definition handle_get_mx ::
  "'a dns_store_scheme dns_env \<Rightarrow> string \<Rightarrow> bool \<Rightarrow> 'a dns_store_scheme \<Rightarrow> (dns_outcome \<times> 'a dns_store_scheme) option" where
  "handle_get_mx env host weight w =
     (if \<not> has_resolver w then Some (Dns_original, w)
      else with_resolver env host PHP_DNS_MX (\<lambda>rs.
        Option.bind (those (map (\<lambda>r. map_of r ''target'') rs)) (\<lambda>targets.
          if weight then map_option (\<lambda>pris. Dns_mx targets (Some pris)) (those (map (\<lambda>r. map_of r ''pri'') rs))
          else Some (Dns_mx targets None))) w)"

text \<open>Names are compared without regard to case; \<open>A6\<close> is mapped to the type of \<open>AAAA\<close>.\<close>

definition c_upper :: "char \<Rightarrow> char" where
  "c_upper c = (if 97 \<le> (of_char c :: nat) \<and> (of_char c :: nat) \<le> 122 then char_of (of_char c - 32 :: nat) else c)"

definition check_type :: "string \<Rightarrow> int option" where
  "check_type name = map_of
     [(''A'', PHP_DNS_A), (''NS'', PHP_DNS_NS), (''MX'', PHP_DNS_MX), (''PTR'', PHP_DNS_PTR), (''ANY'', PHP_DNS_ANY),
      (''SOA'', PHP_DNS_SOA), (''CAA'', PHP_DNS_CAA), (''TXT'', PHP_DNS_TXT), (''CNAME'', PHP_DNS_CNAME),
      (''AAAA'', PHP_DNS_AAAA), (''SRV'', PHP_DNS_SRV), (''NAPTR'', PHP_DNS_NAPTR), (''A6'', PHP_DNS_AAAA)]
     (map c_upper (c_str name))"

definition handle_check_record ::
  "'a dns_store_scheme dns_env \<Rightarrow> string \<Rightarrow> string option \<Rightarrow> 'a dns_store_scheme \<Rightarrow> (dns_outcome \<times> 'a dns_store_scheme) option" where
  "handle_check_record env host name w =
     (if \<not> has_resolver w then Some (Dns_original, w)
      else if host = [] then Some (Dns_value (IS_BOOL False), w)
      else case (case name of None \<Rightarrow> Some PHP_DNS_MX | Some n \<Rightarrow> check_type n) of
        None \<Rightarrow> Some (Dns_value (IS_BOOL False), w)
      | Some type \<Rightarrow> with_resolver env host type (\<lambda>_. Some (Dns_value (IS_BOOL True))) w)"

end
