(* ===== verification/Stream.thy ===== *)
theory Stream
  imports Watcher RingBuffer Dns
begin

text \<open>
  Streams on libuv handles (\<open>stream.c\<close>, \<open>include/async/stream.h\<close>): reading through the ring
  buffer with one reader at a time, writes that are queued and handed to the handle in their order,
  flushing, shutting down one direction, closing. The theory describes streams without an SSL
  engine (\<open>stream->ssl.ssl == NULL\<close>) in a build with SSL support: the branches for encrypted streams
  are left out. Error codes are those of libuv on Linux.
\<close>

section \<open>Error codes and flags\<close>

type_synonym u16 = "16 word"

abbreviation UV_EOF :: int where "UV_EOF \<equiv> - 4095"
abbreviation UV_ECANCELED :: int where "UV_ECANCELED \<equiv> - 125"
abbreviation UV_EALREADY :: int where "UV_EALREADY \<equiv> - 114"
abbreviation UV_ETIMEDOUT :: int where "UV_ETIMEDOUT \<equiv> - 110"
abbreviation UV_ENOBUFS :: int where "UV_ENOBUFS \<equiv> - 105"
abbreviation UV_ECONNRESET :: int where "UV_ECONNRESET \<equiv> - 104"
abbreviation UV_EAGAIN :: int where "UV_EAGAIN \<equiv> - 11"
abbreviation UV_EINVAL :: int where "UV_EINVAL \<equiv> - 22"
abbreviation UV_ENOTCONN :: int where "UV_ENOTCONN \<equiv> - 107"
abbreviation UV_EPIPE :: int where "UV_EPIPE \<equiv> - 32"

abbreviation STREAM_EOF :: u16 where "STREAM_EOF \<equiv> 1"
abbreviation STREAM_CLOSED :: u16 where "STREAM_CLOSED \<equiv> 2"
abbreviation STREAM_SHUT_RD :: u16 where "STREAM_SHUT_RD \<equiv> 4"
abbreviation STREAM_SHUT_WR :: u16 where "STREAM_SHUT_WR \<equiv> 8"
abbreviation STREAM_READING :: u16 where "STREAM_READING \<equiv> 16"
abbreviation STREAM_SHUTDOWN :: u16 where "STREAM_SHUTDOWN \<equiv> 32"
abbreviation STREAM_WANT_READ :: u16 where "STREAM_WANT_READ \<equiv> 64"
abbreviation STREAM_DELAY_SHUTDOWN :: u16 where "STREAM_DELAY_SHUTDOWN \<equiv> 128"
abbreviation STREAM_WRITING :: u16 where "STREAM_WRITING \<equiv> 256"
abbreviation STREAM_IPC :: u16 where "STREAM_IPC \<equiv> 1024"

abbreviation WRITE_OP_ASYNC :: u8 where "WRITE_OP_ASYNC \<equiv> 2"
abbreviation WRITE_OP_STARTED :: u8 where "WRITE_OP_STARTED \<equiv> 4"
abbreviation WRITE_OP_EXPORT :: u8 where "WRITE_OP_EXPORT \<equiv> 8"
abbreviation WRITE_OP_CALLBACK :: u8 where "WRITE_OP_CALLBACK \<equiv> 16"

section \<open>State\<close>

text \<open>
  A read request: the length that is asked for, whether the caller brought a buffer, whether it
  wants a handle from an IPC pipe, the timeout; the bytes it got and the error.
\<close>

record async_stream_read_req =
  rq_len :: nat
  rq_buffer :: bool
  rq_import :: bool
  rq_timeout :: u64
  ro_data :: "byte list"
  ro_error :: int

record async_stream_write_req =
  wq_data :: "byte list"
  wq_async :: bool
  wq_export :: bool
  wq_callback :: bool
  wq_arg :: nat
  wq_context :: "nat option"

text \<open>A write operation; \<open>wo_in\<close> is what the caller gave, \<open>wo_out\<close> what is handed to the handle.\<close>

record async_stream_write_op =
  wo_stream :: nat
  wo_context :: "nat option"
  wo_flags :: u8
  wo_code :: int
  wo_in :: "byte list"
  wo_in_offset :: nat
  wo_out :: "byte list"
  wo_out_offset :: nat

text \<open>The callbacks of \<open>async_stream_close_cb\<close>: the one of \<open>async_stream_close\<close> or that of an owner.\<close>

datatype dispose_cb = Close_cb | Owner_cb nat

text \<open>
  A stream. \<open>st_handle\<close> is active while \<open>uv_read_start\<close> is in force; \<open>st_requests\<close> are the write
  requests that libuv holds, in order, \<open>st_sent\<close> the bytes it accepted at once or completed;
  \<open>st_uv_shutdown\<close> says that \<open>uv_shutdown\<close> was called. The request of the pending read is
  \<open>st_req\<close>. The error cells are those of the owner, which reader and writer objects share.
\<close>

record async_stream =
  st_handle :: "unit uv_handle"
  st_requests :: "(opid \<times> byte list) list"
  st_sent :: "byte list"
  st_uv_shutdown :: bool
  st_timer :: "u64 uv_handle"
  st_flags :: u16
  st_ref_count :: u8
  st_base :: bool
  st_buffer :: async_ring_buffer
  st_read :: opid
  st_req :: async_stream_read_req
  st_shutdown_ref :: "nat option"
  st_read_error :: zval
  st_write_error :: zval
  st_ref :: "nat option"
  st_dispose :: "dispose_cb option"

record stream_store = dns_store +
  streams :: "nat \<Rightarrow> async_stream"
  write_ops :: "opid \<Rightarrow> async_stream_write_op"

type_synonym 'a stream_wake = "opid \<Rightarrow> 'a stream_store_scheme \<Rightarrow> 'a stream_store_scheme"
type_synonym 'a stream_yield = "transfer \<Rightarrow> 'a stream_store_scheme \<Rightarrow> 'a stream_store_scheme"

text \<open>
  What libuv and the system answer: the number of bytes or the error of \<open>uv_try_write\<close>, the result
  of \<open>uv_shutdown\<close>, of \<open>uv_accept\<close> on an IPC pipe and the handles that are pending on it.
\<close>

record 'w uv_answers =
  try_write :: "nat \<Rightarrow> byte list \<Rightarrow> 'w \<Rightarrow> int"
  start_shutdown :: "nat \<Rightarrow> 'w \<Rightarrow> int"
  pending_handles :: "nat \<Rightarrow> 'w \<Rightarrow> nat"
  accept_handle :: "nat \<Rightarrow> 'w \<Rightarrow> int"

definition upd_stream :: "nat \<Rightarrow> (async_stream \<Rightarrow> async_stream) \<Rightarrow> 'a stream_store_scheme \<Rightarrow> 'a stream_store_scheme" where
  "upd_stream s f w = w\<lparr>streams := (streams w)(s := f (streams w s))\<rparr>"

definition upd_write :: "opid \<Rightarrow> (async_stream_write_op \<Rightarrow> async_stream_write_op) \<Rightarrow> 'a stream_store_scheme \<Rightarrow>
    'a stream_store_scheme" where
  "upd_write op f w = w\<lparr>write_ops := (write_ops w)(op := f (write_ops w op))\<rparr>"

definition stream_flag :: "nat \<Rightarrow> u16 \<Rightarrow> 'a stream_store_scheme \<Rightarrow> bool" where
  "stream_flag s m w = has_flag (st_flags (streams w s)) m"

definition set_stream_flag :: "nat \<Rightarrow> u16 \<Rightarrow> 'a stream_store_scheme \<Rightarrow> 'a stream_store_scheme" where
  "set_stream_flag s m w = upd_stream s (\<lambda>x. x\<lparr>st_flags := set_flag (st_flags x) m\<rparr>) w"

definition clear_stream_flag :: "nat \<Rightarrow> u16 \<Rightarrow> 'a stream_store_scheme \<Rightarrow> 'a stream_store_scheme" where
  "clear_stream_flag s m w = upd_stream s (\<lambda>x. x\<lparr>st_flags := clear_flag (st_flags x) m\<rparr>) w"

definition write_flag :: "opid \<Rightarrow> u8 \<Rightarrow> 'a stream_store_scheme \<Rightarrow> bool" where
  "write_flag op m w = has_flag (wo_flags (write_ops w op)) m"

definition set_write_flag :: "opid \<Rightarrow> u8 \<Rightarrow> 'a stream_store_scheme \<Rightarrow> 'a stream_store_scheme" where
  "set_write_flag op m w = upd_write op (\<lambda>x. x\<lparr>wo_flags := set_flag (wo_flags x) m\<rparr>) w"

section \<open>The buffer and the handle\<close>

text \<open>The block is \<open>emalloc\<close>'s; its bytes are not read before they are written.\<close>

definition init_stream_buffer :: "nat \<Rightarrow> 'a stream_store_scheme \<Rightarrow> 'a stream_store_scheme" where
  "init_stream_buffer s w = upd_stream s (\<lambda>x. x\<lparr>st_base := True,
     st_buffer := (st_buffer x)\<lparr>rb_base := replicate (rb_size (st_buffer x)) 0, rb_rpos := 0, rb_wpos := 0\<rparr>\<rparr>) w"

text \<open>The structure is zeroed; the embedded read operation is an operation of the store.\<close>

definition async_stream_init :: "nat \<Rightarrow> unit uv_handle \<Rightarrow> nat \<Rightarrow> 'a stream_store_scheme \<Rightarrow> 'a stream_store_scheme" where
  "async_stream_init s handle bufsize w =
     (let (rd, w1) = async_alloc_op w
      in upd_stream s (\<lambda>_. \<lparr>st_handle = handle\<lparr>uv_has_ref := False\<rparr>, st_requests = [], st_sent = [], st_uv_shutdown = False,
           st_timer = uv_init\<lparr>uv_has_ref := False\<rparr>, st_flags = 0, st_ref_count = 0, st_base = False,
           st_buffer = \<lparr>rb_base = [], rb_rpos = 0, rb_wpos = 0, rb_size = max bufsize 0x8000, rb_len = 0\<rparr>,
           st_read = rd,
           st_req = \<lparr>rq_len = 0, rq_buffer = False, rq_import = False, rq_timeout = 0, ro_data = [], ro_error = 0\<rparr>,
           st_shutdown_ref = None, st_read_error = IS_UNDEF, st_write_error = IS_UNDEF, st_ref = None,
           st_dispose = None\<rparr>) w1)"

definition read_start :: "nat \<Rightarrow> 'a stream_store_scheme \<Rightarrow> 'a stream_store_scheme" where
  "read_start s w = set_stream_flag s STREAM_READING (upd_stream s (\<lambda>x. x\<lparr>st_handle := uv_start () (st_handle x)\<rparr>) w)"

definition read_stop :: "nat \<Rightarrow> 'a stream_store_scheme \<Rightarrow> 'a stream_store_scheme" where
  "read_stop s w = clear_stream_flag s STREAM_READING (upd_stream s (\<lambda>x. x\<lparr>st_handle := uv_stop (st_handle x)\<rparr>) w)"

definition stream_ref :: "(bool \<Rightarrow> u8 \<times> unit uv_handle \<Rightarrow> u8 \<times> unit uv_handle) \<Rightarrow> bool \<Rightarrow> nat \<Rightarrow>
    'a stream_store_scheme \<Rightarrow> 'a stream_store_scheme" where
  "stream_ref f bg s w = upd_stream s (\<lambda>x. let (n, h) = f bg (st_ref_count x, st_handle x)
     in x\<lparr>st_ref_count := n, st_handle := h\<rparr>) w"

text \<open>\<open>await_op\<close>: the handle keeps the loop alive meanwhile; a bailout leaves the function at once.\<close>

definition stream_await_op ::
  "'a stream_yield \<Rightarrow> nat \<Rightarrow> opid \<Rightarrow> 'a stream_store_scheme \<Rightarrow> (await_result \<times> 'a stream_store_scheme) option" where
  "stream_await_op yield s op w =
     (let bg = async_context_is_background (g_context w) w
      in map_option (\<lambda>(r, w1). (r, if r = Await_bailout then w1 else stream_ref async_unref_exit bg s w1))
           (async_await_op yield op (stream_ref async_unref_enter bg s w)))"

definition should_start_read :: "nat \<Rightarrow> 'a stream_store_scheme \<Rightarrow> bool" where
  "should_start_read s w \<longleftrightarrow> \<not> stream_flag s STREAM_IPC w \<and>
     4096 \<le> rb_size (st_buffer (streams w s)) - rb_len (st_buffer (streams w s))"

definition read_running :: "nat \<Rightarrow> 'a stream_store_scheme \<Rightarrow> bool" where
  "read_running s w \<longleftrightarrow> op_status (ops w (st_read (streams w s))) = ASYNC_STATUS_RUNNING"

definition should_continue_read :: "nat \<Rightarrow> 'a stream_store_scheme \<Rightarrow> bool" where
  "should_continue_read s w =
     (if stream_flag s STREAM_IPC w then read_running s w
      else 4096 \<le> rb_size (st_buffer (streams w s)) - rb_len (st_buffer (streams w s)))"

section \<open>Closing and shutting down\<close>

definition upd_req :: "nat \<Rightarrow> (async_stream_read_req \<Rightarrow> async_stream_read_req) \<Rightarrow> 'a stream_store_scheme \<Rightarrow>
    'a stream_store_scheme" where
  "upd_req s f w = upd_stream s (\<lambda>x. x\<lparr>st_req := f (st_req x)\<rparr>) w"

definition finish_read :: "'a stream_wake \<Rightarrow> nat \<Rightarrow> 'a stream_store_scheme \<Rightarrow> 'a stream_store_scheme" where
  "finish_read run s w = async_finish_op run (st_read (streams w s)) w"

text \<open>\<open>if (RUNNING) { error = UV_ECANCELED; ASYNC_FINISH_OP }\<close>\<close>

definition cancel_read :: "'a stream_wake \<Rightarrow> nat \<Rightarrow> 'a stream_store_scheme \<Rightarrow> 'a stream_store_scheme" where
  "cancel_read run s w =
     (if read_running s w then finish_read run s (upd_req s (\<lambda>r. r\<lparr>ro_error := UV_ECANCELED\<rparr>) w) else w)"

text \<open>\<open>own\<close> is the dispose callback of the owner of the stream.\<close>

definition call_dispose ::
  "(nat \<Rightarrow> 'a stream_store_scheme \<Rightarrow> 'a stream_store_scheme) \<Rightarrow> nat \<Rightarrow> dispose_cb \<Rightarrow> 'a stream_store_scheme \<Rightarrow> 'a stream_store_scheme" where
  "call_dispose own s cb w = (case cb of Close_cb \<Rightarrow> upd_stream s (\<lambda>x. x\<lparr>st_ref := None\<rparr>) w | Owner_cb n \<Rightarrow> own n w)"

definition close_stream_cb ::
  "(nat \<Rightarrow> 'a stream_store_scheme \<Rightarrow> 'a stream_store_scheme) \<Rightarrow> nat \<Rightarrow> 'a stream_store_scheme \<Rightarrow> 'a stream_store_scheme" where
  "close_stream_cb own s w = (case st_dispose (streams w s) of None \<Rightarrow> w | Some cb \<Rightarrow> call_dispose own s cb w)"

definition async_stream_close_cb ::
  "(nat \<Rightarrow> 'a stream_store_scheme \<Rightarrow> 'a stream_store_scheme) \<Rightarrow> 'a stream_wake \<Rightarrow> nat \<Rightarrow> dispose_cb \<Rightarrow>
   'a stream_store_scheme \<Rightarrow> 'a stream_store_scheme" where
  "async_stream_close_cb own run s cb w =
     (if stream_flag s STREAM_CLOSED w then w
      else
        let w1 = set_stream_flag s (STREAM_CLOSED OR STREAM_EOF OR (STREAM_SHUT_RD OR STREAM_SHUT_WR)) w;
            w2 = upd_stream s (\<lambda>x. x\<lparr>st_dispose := Some cb,
                   st_timer := (if uv_closing (st_timer x) then st_timer x else uv_close (st_timer x))\<rparr>) w1;
            w3 = (if stream_flag s STREAM_READING w2 then read_stop s w2 else w2);
            w4 = cancel_read run s w3
        in if uv_closing (st_handle (streams w4 s)) then call_dispose own s cb w4
           else upd_stream s (\<lambda>x. x\<lparr>st_handle := uv_close (st_handle x)\<rparr>) w4)"

definition async_stream_close ::
  "(nat \<Rightarrow> 'a stream_store_scheme \<Rightarrow> 'a stream_store_scheme) \<Rightarrow> 'a stream_wake \<Rightarrow> nat \<Rightarrow> nat option \<Rightarrow>
   'a stream_store_scheme \<Rightarrow> 'a stream_store_scheme" where
  "async_stream_close own run s ref w =
     (if stream_flag s STREAM_CLOSED w then w
      else async_stream_close_cb own run s Close_cb
             (case ref of None \<Rightarrow> w | Some r \<Rightarrow> upd_stream s (\<lambda>x. x\<lparr>st_ref := Some r\<rparr>) w))"

definition shutdown_stream_cb ::
  "(nat \<Rightarrow> 'a stream_store_scheme \<Rightarrow> 'a stream_store_scheme) \<Rightarrow> 'a stream_wake \<Rightarrow> nat \<Rightarrow> 'a stream_store_scheme \<Rightarrow>
   'a stream_store_scheme" where
  "shutdown_stream_cb own run s w =
     (let w1 = clear_stream_flag s STREAM_DELAY_SHUTDOWN (clear_stream_flag s STREAM_SHUTDOWN w);
          w2 = (if stream_flag s STREAM_SHUT_RD w1
                then async_stream_close own run s (st_shutdown_ref (streams w1 s)) w1 else w1)
      in upd_stream s (\<lambda>x. x\<lparr>st_shutdown_ref := None\<rparr>) w2)"

definition trigger_shutdown_wr ::
  "'a stream_store_scheme uv_answers \<Rightarrow> nat \<Rightarrow> 'a stream_store_scheme \<Rightarrow> int \<times> 'a stream_store_scheme" where
  "trigger_shutdown_wr env s w =
     (let code = start_shutdown env s w
      in (code, if code = 0 then set_stream_flag s STREAM_SHUTDOWN (upd_stream s (\<lambda>x. x\<lparr>st_uv_shutdown := True\<rparr>) w)
                else upd_stream s (\<lambda>x. x\<lparr>st_shutdown_ref := None\<rparr>) w))"

text \<open>
  \<open>how\<close> is a set of directions. The result is the code of a failed \<open>uv_shutdown\<close> that is thrown as
  an error (\<open>UV_ENOTCONN\<close> and \<open>UV_EPIPE\<close> are not).
\<close>

definition async_stream_shutdown ::
  "(nat \<Rightarrow> 'a stream_store_scheme \<Rightarrow> 'a stream_store_scheme) \<Rightarrow> 'a stream_store_scheme uv_answers \<Rightarrow> 'a stream_wake \<Rightarrow>
   nat \<Rightarrow> u16 \<Rightarrow> nat \<Rightarrow> 'a stream_store_scheme \<Rightarrow> int option \<times> 'a stream_store_scheme" where
  "async_stream_shutdown own env run s how ref w =
     (let rd = has_flag how STREAM_SHUT_RD; wr = has_flag how STREAM_SHUT_WR;
          new_rd = (rd \<and> \<not> stream_flag s STREAM_SHUT_RD w);
          new_wr = (wr \<and> \<not> stream_flag s STREAM_SHUT_WR w);
          w1 = (if rd then set_stream_flag s STREAM_EOF w else w);
          w2 = (if new_rd
                then let u = set_stream_flag s STREAM_SHUT_RD w1
                     in if stream_flag s STREAM_READING u then read_stop s u else u
                else w1);
          w3 = (if new_wr then set_stream_flag s STREAM_SHUT_WR w2 else w2);
          w4 = (if new_rd then cancel_read run s w3 else w3);
          (code, w5) =
            (if new_wr
             then let u = upd_stream s (\<lambda>x. x\<lparr>st_shutdown_ref := Some ref\<rparr>) w4
                  in if queues u (StreamWrites s) = [] then trigger_shutdown_wr env s u
                     else (0, set_stream_flag s (STREAM_SHUTDOWN OR STREAM_DELAY_SHUTDOWN) u)
             else (0, w4));
          w6 = (if stream_flag s STREAM_SHUT_RD w5 \<and> stream_flag s STREAM_SHUT_WR w5 \<and> code = 0 \<and> \<not> stream_flag s STREAM_SHUTDOWN w5
                then async_stream_close own run s (Some ref) w5 else w5)
      in if code < 0
         then (if code = UV_ENOTCONN \<or> code = UV_EPIPE then None else Some code, async_stream_close own run s (Some ref) w6)
         else (None, w6))"

definition async_stream_flush ::
  "'a stream_yield \<Rightarrow> nat \<Rightarrow> 'a stream_store_scheme \<Rightarrow> (outcome \<times> 'a stream_store_scheme) option" where
  "async_stream_flush yield s w =
     (if queues w (StreamWrites s) = [] then Some (Ret IS_NULL, w)
      else
        let (op, w1) = async_alloc_op w
        in watch_await yield (\<lambda>w. w) (\<lambda>w. w) op (async_append_op (StreamFlush s) op w1))"

end
