(* ===== verification/StreamIO.thy ===== *)
theory StreamIO
  imports Stream
begin

text \<open>
  Reading and writing on streams (\<open>stream.c\<close>): the read callback of libuv that fills the buffer and
  serves the waiting reader, \<open>async_stream_read\<close>, the queue of write operations with
  \<open>async_stream_write\<close> and the write callback, the reader and writer objects and the calls that
  sockets share (\<open>include/async/stream.h\<close>), and the streams in memory.
\<close>

section \<open>Reading\<close>

text \<open>
  Serving a request from the buffer. With the caller's buffer or a new string, the bytes are the same;
  the length is that of the bytes.
\<close>

definition fill_request ::
  "async_stream_read_req \<Rightarrow> async_ring_buffer \<Rightarrow> (async_stream_read_req \<times> async_ring_buffer) option" where
  "fill_request rq b =
     (if rq_buffer rq
      then map_option (\<lambda>(bs, b'). (rq\<lparr>ro_data := bs\<rparr>, b')) (async_ring_buffer_read b (min (rq_len rq) (rb_len b)))
      else map_option (\<lambda>(s, n, b'). (rq\<lparr>ro_data := (case s of None \<Rightarrow> [] | Some bs \<Rightarrow> bs)\<rparr>, b'))
             (async_ring_buffer_read_string b (min (rq_len rq) (rb_len b))))"

definition serve_read :: "nat \<Rightarrow> 'a stream_store_scheme \<Rightarrow> 'a stream_store_scheme option" where
  "serve_read s w =
     map_option (\<lambda>(rq, b). upd_stream s (\<lambda>x. x\<lparr>st_req := rq, st_buffer := b\<rparr>) w)
       (fill_request (st_req (streams w s)) (st_buffer (streams w s)))"

text \<open>\<open>while (RUNNING) { req->out.error = ...; ASYNC_FINISH_OP }\<close>\<close>

partial_function (option) finish_reads ::
  "'a stream_wake \<Rightarrow> nat \<Rightarrow> (async_stream_read_req \<Rightarrow> async_stream_read_req) \<Rightarrow> 'a stream_store_scheme \<Rightarrow>
   'a stream_store_scheme option" where
  "finish_reads run s f w =
     (if read_running s w then finish_reads run s f (finish_read run s (upd_req s f w)) else Some w)"

text \<open>\<open>while (RUNNING && buffered bytes)\<close> serves the reader, which may read again.\<close>

partial_function (option) serve_reads ::
  "'a stream_wake \<Rightarrow> nat \<Rightarrow> 'a stream_store_scheme \<Rightarrow> 'a stream_store_scheme option" where
  "serve_reads run s w =
     (if read_running s w \<and> 0 < rb_len (st_buffer (streams w s))
      then if rq_import (st_req (streams w s))
           then serve_reads run s (finish_read run s (upd_req s (\<lambda>r. r\<lparr>ro_error := UV_ENOBUFS\<rparr>) w))
           else case serve_read s w of None \<Rightarrow> None | Some w1 \<Rightarrow> serve_reads run s (finish_read run s w1)
      else Some w)"

text \<open>A handle has arrived: readers that want bytes are refused until one wants the handle.\<close>

partial_function (option) refuse_readers ::
  "'a stream_wake \<Rightarrow> nat \<Rightarrow> 'a stream_store_scheme \<Rightarrow> 'a stream_store_scheme option" where
  "refuse_readers run s w =
     (if rq_import (st_req (streams w s)) then Some w
      else refuse_readers run s (finish_read run s (upd_req s (\<lambda>r. r\<lparr>ro_error := UV_ENOBUFS\<rparr>) w)))"

definition receive_handle ::
  "'a stream_store_scheme uv_answers \<Rightarrow> 'a stream_wake \<Rightarrow> nat \<Rightarrow> nat \<Rightarrow> 'a stream_store_scheme \<Rightarrow>
   (nat \<times> 'a stream_store_scheme) option" where
  "receive_handle env run s nread w =
     (if stream_flag s STREAM_IPC w \<and> 0 < pending_handles env s w
      then map_option (\<lambda>w1. (nread - 1, finish_read run s (upd_req s (\<lambda>r. r\<lparr>ro_error := accept_handle env s w1\<rparr>) w1)))
             (refuse_readers run s w)
      else Some (nread, w))"

text \<open>\<open>process_input_bytes\<close> without SSL.\<close>

definition process_input_bytes :: "nat \<Rightarrow> nat \<Rightarrow> 'a stream_store_scheme \<Rightarrow> 'a stream_store_scheme" where
  "process_input_bytes s count w =
     upd_stream s (\<lambda>x. x\<lparr>st_buffer := async_ring_buffer_write_move (st_buffer x) count\<rparr>) w"

text \<open>
  \<open>read_cb\<close>: libuv gives an error or has stored bytes at the write position (none is the call that
  is ignored). A reset connection counts as the end of the stream.
\<close>

definition read_end :: "'a stream_wake \<Rightarrow> nat \<Rightarrow> 'a stream_store_scheme \<Rightarrow> 'a stream_store_scheme option" where
  "read_end run s w = finish_reads run s (\<lambda>r. r) (read_stop s w)"

definition read_cb ::
  "'a stream_store_scheme uv_answers \<Rightarrow> 'a stream_wake \<Rightarrow> nat \<Rightarrow> int + byte list \<Rightarrow> 'a stream_store_scheme \<Rightarrow>
   'a stream_store_scheme option" where
  "read_cb env run s input w = (case input of
     Inl err \<Rightarrow>
       (if err = UV_ECONNRESET \<or> err = UV_EOF
        then Option.bind (serve_reads run s (set_stream_flag s STREAM_EOF w)) (read_end run s)
        else finish_reads run s (\<lambda>r. r\<lparr>ro_error := err\<rparr>) (read_stop s w))
   | Inr [] \<Rightarrow> Some w
   | Inr bytes \<Rightarrow>
       (let w1 = upd_stream s (\<lambda>x. x\<lparr>st_buffer := store_bytes (st_buffer x) bytes\<rparr>) w
        in Option.bind (receive_handle env run s (length bytes) w1) (\<lambda>(n, w2).
           Option.bind (serve_reads run s (if 0 < n then process_input_bytes s n w2 else w2)) (\<lambda>w3.
             if stream_flag s STREAM_EOF w3 then read_end run s w3
             else Some (if should_continue_read s w3 then w3 else read_stop s w3)))))"

text \<open>\<open>read_alloc_cb\<close>: libuv may store as many bytes.\<close>

definition read_alloc :: "nat \<Rightarrow> 'a stream_store_scheme \<Rightarrow> nat" where
  "read_alloc s w = async_ring_buffer_write_len (st_buffer (streams w s))"

definition timeout_read :: "'a stream_wake \<Rightarrow> nat \<Rightarrow> 'a stream_store_scheme \<Rightarrow> 'a stream_store_scheme" where
  "timeout_read run s w =
     (if read_running s w then finish_read run s (upd_req s (\<lambda>r. r\<lparr>ro_error := UV_ETIMEDOUT\<rparr>) w) else w)"

text \<open>
  The results of reading and writing: success, failure with the error code of the request, failure
  with an exception that was thrown, a bailout.
\<close>

datatype stream_result = Success | Failure int | Thrown zval | Bailout

definition async_stream_read ::
  "'a stream_store_scheme uv_answers \<Rightarrow> 'a stream_yield \<Rightarrow> nat \<Rightarrow> async_stream_read_req \<Rightarrow> 'a stream_store_scheme \<Rightarrow>
   (stream_result \<times> async_stream_read_req \<times> 'a stream_store_scheme) option" where
  "async_stream_read env yield s req0 w0 =
     (let req = req0\<lparr>ro_data := [], ro_error := 0\<rparr> in
      if stream_flag s STREAM_SHUT_RD w0 then Some (Failure UV_EOF, req\<lparr>ro_error := UV_EOF\<rparr>, w0)
      else if read_running s w0 then Some (Failure UV_EALREADY, req\<lparr>ro_error := UV_EALREADY\<rparr>, w0)
      else
        let w = (if st_base (streams w0 s) then w0 else init_stream_buffer s w0)
        in if 0 < rb_len (st_buffer (streams w s))
           then if rq_import req then Some (Failure UV_EALREADY, req\<lparr>ro_error := UV_EALREADY\<rparr>, w)
                else map_option (\<lambda>(rq, b).
                  let w1 = upd_stream s (\<lambda>x. x\<lparr>st_buffer := b\<rparr>) w
                  in (Success, rq,
                      if st_flags (streams w1 s) = 0 \<and> should_start_read s w1 \<and> \<not> stream_flag s STREAM_READING w1
                      then read_start s w1 else w1)) (fill_request req (st_buffer (streams w s)))
           else if rq_import req \<and> 0 < pending_handles env s w
           then Some (Success, req\<lparr>ro_error := accept_handle env s w\<rparr>, w)
           else if stream_flag s STREAM_EOF w then Some (Success, req, w)
           else
             let w1 = (if stream_flag s STREAM_READING w then w else read_start s w);
                 w2 = upd_stream s (\<lambda>x. x\<lparr>st_req := req, st_timer :=
                        (if 0 < rq_timeout req then uv_start (rq_timeout req) (st_timer x) else st_timer x)\<rparr>) w1
             in map_option (\<lambda>(r, w3).
                  if r = Await_bailout then (Bailout, st_req (streams w3 s), w3)
                  else
                    let w4 = (if 0 < rq_timeout req then upd_stream s (\<lambda>x. x\<lparr>st_timer := uv_stop (st_timer x)\<rparr>) w3 else w3);
                        rd = st_read (streams w4 s);
                        rq = st_req (streams w4 s);
                        w5 = async_reset_op rd w4
                    in if r = Await_failure then (Thrown (op_result (ops w4 rd)), rq, w5)
                       else (if ro_error rq < 0 then Failure (ro_error rq) else Success, rq, w5))
                (stream_await_op yield s (st_read (streams w2 s)) w2))"

section \<open>Writing\<close>

text \<open>
  Handing over all bytes that were not handed over yet; \<open>encode_buffer\<close> requires that there are some.
  The result is the size as an \<open>int\<close>.
\<close>

definition encode_buffer :: "opid \<Rightarrow> 'a stream_store_scheme \<Rightarrow> (int \<times> 'a stream_store_scheme) option" where
  "encode_buffer op w =
     (let x = write_ops w op
      in if wo_in_offset x < length (wo_in x)
         then Some (to_c_int (int (length (wo_in x))),
                upd_write op (\<lambda>x. x\<lparr>wo_out := wo_in x, wo_out_offset := wo_in_offset x, wo_in_offset := length (wo_in x)\<rparr>) w)
         else None)"

definition uv_write :: "nat \<Rightarrow> opid \<Rightarrow> byte list \<Rightarrow> 'a stream_store_scheme \<Rightarrow> 'a stream_store_scheme" where
  "uv_write s op bytes w = upd_stream s (\<lambda>x. x\<lparr>st_requests := st_requests x @ [(op, bytes)]\<rparr>) w"

definition wo_rest :: "opid \<Rightarrow> 'a stream_store_scheme \<Rightarrow> byte list" where
  "wo_rest op w = drop (wo_out_offset (write_ops w op)) (wo_out (write_ops w op))"

text \<open>\<open>cleanup_write\<close> calls the callback of an asynchronous write.\<close>

definition cleanup_write :: "'a stream_wake \<Rightarrow> opid \<Rightarrow> 'a stream_store_scheme \<Rightarrow> 'a stream_store_scheme" where
  "cleanup_write run op w = async_free_op op (if write_flag op WRITE_OP_CALLBACK w then run op w else w)"

text \<open>The one byte that is sent with a handle is a full stop.\<close>

definition export_byte :: "byte list" where
  "export_byte = [46]"

text \<open>\<open>process_write\<close>: the boolean is \<open>SUCCESS\<close>, which says that the operation is over.\<close>

definition process_write :: "'a stream_wake \<Rightarrow> opid \<Rightarrow> 'a stream_store_scheme \<Rightarrow> (bool \<times> 'a stream_store_scheme) option" where
  "process_write run op w =
     (let s = wo_stream (write_ops w op) in
      if write_flag op WRITE_OP_EXPORT w
      then Some (False, set_write_flag op WRITE_OP_STARTED (uv_write s op export_byte w))
      else map_option (\<lambda>(code, w1).
        if code = - 1 then (True, cleanup_write run op (async_finish_op run op w1))
        else if code = 0 then (False, set_stream_flag s STREAM_WANT_READ w1)
        else (False, set_write_flag op WRITE_OP_STARTED (uv_write s op (wo_rest op w1) w1)))
        (encode_buffer op w))"

text \<open>
  \<open>write_cb\<close>. The loop over the following operations has the condition \<open>0\<close> and \<open>continue\<close> evaluates
  it, so it looks at one of them.
\<close>

definition start_next :: "'a stream_wake \<Rightarrow> nat \<Rightarrow> 'a stream_store_scheme \<Rightarrow> 'a stream_store_scheme option" where
  "start_next run s w = (case queues w (StreamWrites s) of
     [] \<Rightarrow> Some w
   | nx # _ \<Rightarrow> if write_flag nx WRITE_OP_STARTED w then Some w else map_option snd (process_write run nx w))"

definition writes_done ::
  "'a stream_store_scheme uv_answers \<Rightarrow> 'a stream_wake \<Rightarrow> nat \<Rightarrow> 'a stream_store_scheme \<Rightarrow> 'a stream_store_scheme option" where
  "writes_done env run s w =
     (if queues w (StreamWrites s) = []
      then map_option (\<lambda>w1. if stream_flag s STREAM_DELAY_SHUTDOWN w1 then snd (trigger_shutdown_wr env s w1) else w1)
             (drain_first (async_finish_op run) (StreamFlush s) w)
      else Some w)"

definition write_cb ::
  "'a stream_store_scheme uv_answers \<Rightarrow> 'a stream_wake \<Rightarrow> opid \<Rightarrow> int \<Rightarrow> 'a stream_store_scheme \<Rightarrow>
   'a stream_store_scheme option" where
  "write_cb env run op status w =
     (let s = wo_stream (write_ops w op);
          w1 = upd_write op (\<lambda>x. x\<lparr>wo_code := status\<rparr>) (set_stream_flag s STREAM_WRITING w);
          continue = (\<lambda>u. map_option (clear_stream_flag s STREAM_WRITING)
            (Option.bind (start_next run s u) (writes_done env run s)))
      in if status < 0 \<or> wo_in_offset (write_ops w1 op) = length (wo_in (write_ops w1 op))
         then continue (cleanup_write run op (async_finish_op run op w1))
         else case process_write run op w1 of
           None \<Rightarrow> None
         | Some (over, w2) \<Rightarrow> if over then continue w2 else Some w2)"

definition setup_async_write :: "opid \<Rightarrow> nat option \<Rightarrow> 'a stream_store_scheme \<Rightarrow> 'a stream_store_scheme" where
  "setup_async_write op ctx w = upd_write op (\<lambda>x. x\<lparr>wo_flags := set_flag (wo_flags x) WRITE_OP_ASYNC,
     wo_context := Some (case ctx of Some c \<Rightarrow> c | None \<Rightarrow> g_context w)\<rparr>) w"

text \<open>
  The loop of \<open>uv_try_write\<close>: it ends when all bytes were taken, when libuv would have to wait or with
  another error (the boolean says that the bytes are gone).
\<close>

partial_function (option) try_write_loop ::
  "'a stream_store_scheme uv_answers \<Rightarrow> nat \<Rightarrow> opid \<Rightarrow> 'a stream_store_scheme \<Rightarrow>
   ((int + bool) \<times> 'a stream_store_scheme) option" where
  "try_write_loop env s op w =
     (let code = try_write env s (wo_rest op w) w
      in if code = UV_EAGAIN then Some (Inr False, w)
         else if code < 0 then Some (Inl code, w)
         else
           let w1 = upd_write op (\<lambda>x. x\<lparr>wo_out_offset := wo_out_offset x + nat code\<rparr>)
                 (upd_stream s (\<lambda>x. x\<lparr>st_sent := st_sent x @ take (nat code) (wo_rest op w)\<rparr>) w)
           in if wo_out_offset (write_ops w1 op) = length (wo_out (write_ops w1 op)) then Some (Inr True, w1)
              else try_write_loop env s op w1)"

definition new_write :: "nat \<Rightarrow> async_stream_write_req \<Rightarrow> async_stream_write_op" where
  "new_write s req = \<lparr>wo_stream = s, wo_context = None,
     wo_flags = (if wq_async req \<and> wq_callback req then WRITE_OP_CALLBACK else 0) OR (if wq_export req then WRITE_OP_EXPORT else 0),
     wo_code = 0, wo_in = wq_data req, wo_in_offset = 0, wo_out = [], wo_out_offset = 0\<rparr>"

text \<open>
  The part of \<open>async_stream_write\<close> that tries to write at once: \<open>Some r\<close> ends the function.
\<close>

definition write_now ::
  "'a stream_store_scheme uv_answers \<Rightarrow> 'a stream_wake \<Rightarrow> nat \<Rightarrow> opid \<Rightarrow> 'a stream_store_scheme \<Rightarrow>
   (stream_result option \<times> 'a stream_store_scheme) option" where
  "write_now env run s op w =
     (if queues w (StreamWrites s) \<noteq> [] \<or> stream_flag s STREAM_WRITING w then Some (None, w)
      else if write_flag op WRITE_OP_EXPORT w
      then Some (None, set_write_flag op WRITE_OP_STARTED (uv_write s op export_byte w))
      else Option.bind (encode_buffer op w) (\<lambda>(code, w1).
        if code = - 1 then Some (Some (Failure 0), cleanup_write run op w1)
        else
          let start = (\<lambda>u. (None, set_write_flag op WRITE_OP_STARTED (uv_write s op (wo_rest op u) u)))
          in if code = 0 then Some (start (set_stream_flag s STREAM_WANT_READ w1))
             else map_option (\<lambda>(r, u). case r of
                Inl err \<Rightarrow> (Some (Failure err), cleanup_write run op u)
              | Inr True \<Rightarrow> (Some Success, cleanup_write run op u)
              | Inr False \<Rightarrow> start u) (try_write_loop env s op w1)))"

text \<open>
  The rest for a write that waits: when waiting fails and the write was handed over, it stays at the
  head of the queue as an asynchronous one.
\<close>

definition await_write ::
  "'a stream_yield \<Rightarrow> 'a stream_wake \<Rightarrow> nat \<Rightarrow> opid \<Rightarrow> 'a stream_store_scheme \<Rightarrow> (stream_result \<times> 'a stream_store_scheme) option" where
  "await_write yield run s op w =
     map_option (\<lambda>(r, w1).
       let err = op_result (ops w1 op)
       in if r = Await_bailout then (Bailout, w1)
          else if r = Await_failure
          then (Thrown err,
                if write_flag op WRITE_OP_STARTED w1
                then setup_async_write op (Some (g_context w1)) (async_prepend_op (StreamWrites s) op (async_reset_op op w1))
                else cleanup_write run op w1)
          else (if wo_code (write_ops w1 op) < 0 then Failure (wo_code (write_ops w1 op)) else Success, w1))
       (stream_await_op yield s op w)"

definition async_stream_write ::
  "'a stream_store_scheme uv_answers \<Rightarrow> 'a stream_yield \<Rightarrow> 'a stream_wake \<Rightarrow> nat \<Rightarrow> async_stream_write_req \<Rightarrow>
   'a stream_store_scheme \<Rightarrow> (stream_result \<times> 'a stream_store_scheme) option" where
  "async_stream_write env yield run s req w =
     (if stream_flag s STREAM_SHUT_WR w then Some (Failure UV_EOF, w)
      else if wq_export req \<and> \<not> stream_flag s STREAM_IPC w then Some (Failure UV_EINVAL, w)
      else
        let (op, w1) = async_alloc_op w;
            w2 = upd_write op (\<lambda>_. new_write s req) w1;
            w3 = (if wq_async req \<and> wq_callback req
                  then upd_op op (\<lambda>x. x\<lparr>op_callback := Some Finish_async_write, op_arg := wq_arg req\<rparr>) w2 else w2)
        in Option.bind (write_now env run s op w3) (\<lambda>(r, w4). case r of
             Some res \<Rightarrow> Some (res, w4)
           | None \<Rightarrow>
               let w5 = async_append_op (StreamWrites s) op w4
               in if wq_async req then Some (Success, setup_async_write op (wq_context req) w5)
                  else await_write yield run s op w5))"

end
