(* ===== verification/StreamApi.thy ===== *)
theory StreamApi
  imports StreamIO
begin

text \<open>
  What scripts see of streams: the errors of reading and writing as exceptions, the reader and writer
  objects of a stream, asynchronous writes that resolve an awaitable (the interceptors of
  \<open>TcpSocket::write\<close> and \<open>Pipe::write\<close>), and the readable and writable streams in memory.
\<close>

section \<open>Errors as exceptions\<close>

text \<open>\<open>sock\<close> says that the handle is a TCP or pipe handle.\<close>

definition is_socket_disconnect_error :: "bool \<Rightarrow> int \<Rightarrow> bool" where
  "is_socket_disconnect_error sock err \<longleftrightarrow>
     sock \<and> err \<in> {- 103, UV_ECONNRESET, - 100, - 101, UV_ENOTCONN, - 108, UV_ETIMEDOUT, UV_EOF}"

definition forward_stream_read_error :: "(int \<Rightarrow> string) \<Rightarrow> bool \<Rightarrow> int \<Rightarrow> zval" where
  "forward_stream_read_error uv_strerror sock err =
     (if err = UV_EALREADY then IS_ERROR PendingReadExceptionCe ''Cannot read while another read is pending'' None
      else IS_ERROR (if is_socket_disconnect_error sock err then SocketDisconnectExceptionCe else StreamExceptionCe)
             (''Read operation failed: '' @ uv_strerror err) None)"

definition forward_stream_write_error :: "(int \<Rightarrow> string) \<Rightarrow> bool \<Rightarrow> int \<Rightarrow> zval" where
  "forward_stream_write_error uv_strerror sock err =
     IS_ERROR (if is_socket_disconnect_error sock err then SocketDisconnectExceptionCe else StreamExceptionCe)
       (''Write operation failed: '' @ uv_strerror err) None"

datatype read_outcome = Read_data "byte list" | Read_end | Read_throw zval | Read_bailout

definition read_length :: "texts \<Rightarrow> nat \<Rightarrow> exc_class \<Rightarrow> int option \<Rightarrow> zval + nat" where
  "read_length tx def ce hint = (case hint of
     None \<Rightarrow> Inr def
   | Some n \<Rightarrow> if n < 1 then Inl (IS_ERROR ce (''Invalid read length: '' @ show_int tx (to_c_int n)) None) else Inr (nat n))"

definition async_stream_call_read ::
  "texts \<Rightarrow> bool \<Rightarrow> 'a stream_store_scheme uv_answers \<Rightarrow> 'a stream_yield \<Rightarrow> nat \<Rightarrow> int option \<Rightarrow> 'a stream_store_scheme \<Rightarrow>
   (read_outcome \<times> 'a stream_store_scheme) option" where
  "async_stream_call_read tx sock env yield s hint w =
     (case read_length tx (rb_size (st_buffer (streams w s))) SocketExceptionCe hint of
        Inl e \<Rightarrow> Some (Read_throw e, w)
      | Inr len \<Rightarrow>
          if st_read_error (streams w s) \<noteq> IS_UNDEF then Some (Read_throw (st_read_error (streams w s)), w)
          else map_option (\<lambda>(r, rq, w1). (case r of
                 Success \<Rightarrow> if ro_data rq \<noteq> [] then Read_data (ro_data rq) else Read_end
               | Failure _ \<Rightarrow> Read_throw (forward_stream_read_error (strerror tx) sock (ro_error rq))
               | Thrown e \<Rightarrow> Read_throw e
               | Bailout \<Rightarrow> Read_bailout, w1))
             (async_stream_read env yield s
               \<lparr>rq_len = len, rq_buffer = False, rq_import = False, rq_timeout = 0, ro_data = [], ro_error = 0\<rparr> w))"

definition write_outcome :: "texts \<Rightarrow> bool \<Rightarrow> stream_result \<Rightarrow> outcome" where
  "write_outcome tx sock r = (case r of
     Success \<Rightarrow> Ret IS_NULL
   | Failure err \<Rightarrow> Throw (forward_stream_write_error (strerror tx) sock err)
   | Thrown e \<Rightarrow> Throw e
   | Bailout \<Rightarrow> Bail)"

definition async_stream_call_write ::
  "texts \<Rightarrow> bool \<Rightarrow> 'a stream_store_scheme uv_answers \<Rightarrow> 'a stream_yield \<Rightarrow> 'a stream_wake \<Rightarrow> nat \<Rightarrow> byte list \<Rightarrow>
   'a stream_store_scheme \<Rightarrow> (outcome \<times> 'a stream_store_scheme) option" where
  "async_stream_call_write tx sock env yield run s data w =
     (if st_write_error (streams w s) \<noteq> IS_UNDEF then Some (Throw (st_write_error (streams w s)), w)
      else map_option (\<lambda>(r, w1). (write_outcome tx sock r, w1))
        (async_stream_write env yield run s
          \<lparr>wq_data = data, wq_async = False, wq_export = False, wq_callback = False, wq_arg = 0, wq_context = None\<rparr> w))"

section \<open>Reader and writer objects\<close>

text \<open>They are named by their stream; the error of \<open>close\<close> has the argument as its cause.\<close>

definition stream_closed_error :: "zval option \<Rightarrow> zval" where
  "stream_closed_error val =
     (let e = IS_ERROR StreamClosedExceptionCe ''Stream has been closed'' None
      in case val of None \<Rightarrow> e | Some v \<Rightarrow> if v = IS_NULL then e else set_previous e v)"

definition shutdown_outcome :: "texts \<Rightarrow> int option \<Rightarrow> outcome" where
  "shutdown_outcome tx code = (case code of
     None \<Rightarrow> Ret IS_NULL
   | Some c \<Rightarrow> Throw (IS_ERROR ErrorCe (''Shutdown failed ['' @ show_int tx c @ '']: '' @ strerror tx c) None))"

definition stream_reader_close ::
  "texts \<Rightarrow> (nat \<Rightarrow> 'a stream_store_scheme \<Rightarrow> 'a stream_store_scheme) \<Rightarrow> 'a stream_store_scheme uv_answers \<Rightarrow> 'a stream_wake \<Rightarrow>
   nat \<Rightarrow> nat \<Rightarrow> zval option \<Rightarrow> 'a stream_store_scheme \<Rightarrow> outcome \<times> 'a stream_store_scheme" where
  "stream_reader_close tx own env run this s val w =
     (if st_read_error (streams w s) \<noteq> IS_UNDEF then (Ret IS_NULL, w)
      else
        let w1 = upd_stream s (\<lambda>x. x\<lparr>st_read_error := stream_closed_error val\<rparr>) w;
            (code, w2) = async_stream_shutdown own env run s STREAM_SHUT_RD this w1
        in (shutdown_outcome tx code, w2))"

definition stream_writer_close ::
  "texts \<Rightarrow> (nat \<Rightarrow> 'a stream_store_scheme \<Rightarrow> 'a stream_store_scheme) \<Rightarrow> 'a stream_store_scheme uv_answers \<Rightarrow> 'a stream_wake \<Rightarrow>
   nat \<Rightarrow> nat \<Rightarrow> zval option \<Rightarrow> 'a stream_store_scheme \<Rightarrow> outcome \<times> 'a stream_store_scheme" where
  "stream_writer_close tx own env run this s val w =
     (if st_write_error (streams w s) \<noteq> IS_UNDEF then (Ret IS_NULL, w)
      else
        let w1 = upd_stream s (\<lambda>x. x\<lparr>st_write_error := stream_closed_error val\<rparr>) w;
            (code, w2) = async_stream_shutdown own env run s STREAM_SHUT_WR this w1
        in (shutdown_outcome tx code, w2))"

section \<open>Asynchronous writes\<close>

text \<open>The callback of an asynchronous write; the references it drops are not counted here.\<close>

definition finish_async_write :: "'a stream_wake \<Rightarrow> opid \<Rightarrow> 'a stream_store_scheme \<Rightarrow> 'a stream_store_scheme option" where
  "finish_async_write run op w =
     (if op_status (ops w op) = ASYNC_STATUS_FAILED
      then async_awaitable_fail run (op_arg (ops w op)) (op_result (ops w op)) w
      else async_awaitable_resolve run (op_arg (ops w op)) None w)"

text \<open>
  \<open>intercept_write\<close> (the same in \<open>tcp.c\<close> and \<open>pipe.c\<close>): \<open>wanted\<close> says that the caller uses the
  awaitable.
\<close>

definition intercept_write ::
  "texts \<Rightarrow> 'a stream_store_scheme uv_answers \<Rightarrow> 'a stream_yield \<Rightarrow> 'a stream_wake \<Rightarrow> nat option \<Rightarrow> nat \<Rightarrow> bool \<Rightarrow> byte list \<Rightarrow>
   'a stream_store_scheme \<Rightarrow> (outcome \<times> 'a stream_store_scheme) option" where
  "intercept_write tx env yield run ctx s wanted data w =
     (if st_write_error (streams w s) \<noteq> IS_UNDEF then Some (Throw (st_write_error (streams w s)), w)
      else
        let (a, w1) = (if wanted then async_create_awaitable w else (0, w))
        in map_option (\<lambda>(r, w2). case r of
               Success \<Rightarrow> (Ret (if wanted then IS_OBJECT a else IS_NULL), w2)
             | _ \<Rightarrow> (write_outcome tx True r, w2))
           (async_stream_write env yield run s
             \<lparr>wq_data = data, wq_async = True, wq_export = False, wq_callback = wanted, wq_arg = a, wq_context = ctx\<rparr> w1))"

section \<open>Streams in memory\<close>

record readable_memory_stream =
  rm_closed :: bool
  rm_offset :: nat
  rm_data :: "byte list"
  rm_error :: zval

record writable_memory_stream =
  wm_closed :: bool
  wm_data :: "byte list"
  wm_error :: zval

definition readable_memory_construct :: "byte list option \<Rightarrow> readable_memory_stream" where
  "readable_memory_construct str = \<lparr>rm_closed = False, rm_offset = 0,
     rm_data = (case str of None \<Rightarrow> [] | Some bs \<Rightarrow> bs), rm_error = IS_UNDEF\<rparr>"

definition closed_error :: "string \<Rightarrow> zval \<Rightarrow> zval" where
  "closed_error msg cause =
     (let e = IS_ERROR StreamClosedExceptionCe msg None in if cause = IS_UNDEF then e else set_previous e cause)"

definition readable_memory_close :: "zval option \<Rightarrow> readable_memory_stream \<Rightarrow> readable_memory_stream" where
  "readable_memory_close val m =
     (if rm_closed m then m
      else m\<lparr>rm_closed := True, rm_error := (case val of Some v \<Rightarrow> if v = IS_NULL then rm_error m else v | None \<Rightarrow> rm_error m)\<rparr>)"

definition readable_memory_read :: "texts \<Rightarrow> int option \<Rightarrow> readable_memory_stream \<Rightarrow> read_outcome \<times> readable_memory_stream" where
  "readable_memory_read tx hint m = (case read_length tx 8192 StreamExceptionCe hint of
     Inl e \<Rightarrow> (Read_throw e, m)
   | Inr len \<Rightarrow>
       if rm_closed m then (Read_throw (closed_error ''Cannot read from closed stream'' (rm_error m)), m)
       else
         let n = min len (length (rm_data m) - rm_offset m)
         in if 0 < n then (Read_data (take n (drop (rm_offset m) (rm_data m))), m\<lparr>rm_offset := rm_offset m + n\<rparr>)
            else (Read_end, m))"

definition writable_memory_create :: writable_memory_stream where
  "writable_memory_create = \<lparr>wm_closed = False, wm_data = [], wm_error = IS_UNDEF\<rparr>"

definition writable_memory_close :: "zval option \<Rightarrow> writable_memory_stream \<Rightarrow> writable_memory_stream" where
  "writable_memory_close val m =
     (if wm_closed m then m
      else m\<lparr>wm_closed := True, wm_error := (case val of Some v \<Rightarrow> if v = IS_NULL then wm_error m else v | None \<Rightarrow> wm_error m)\<rparr>)"

definition writable_memory_write :: "byte list \<Rightarrow> writable_memory_stream \<Rightarrow> outcome \<times> writable_memory_stream" where
  "writable_memory_write data m =
     (if wm_closed m then (Throw (closed_error ''Cannot write to closed stream'' (wm_error m)), m)
      else (Ret IS_NULL, m\<lparr>wm_data := wm_data m @ data\<rparr>))"

definition writable_memory_get_contents :: "writable_memory_stream \<Rightarrow> byte list" where
  "writable_memory_get_contents m = wm_data m"

end
