(* ===== verification/StreamProps.thy ===== *)
theory StreamProps
  imports Boot Promise StreamApi
begin

text \<open>
  Properties of streams: what a read gives, at once or after waiting for bytes to arrive; the bytes of
  writes reach the handle in the order of the writes; closing; streams in memory; and what goes wrong
  with writes that outlive the call that made them.
\<close>

section \<open>Frames\<close>

lemma stream_store_more_eq:
  assumes "task_store.more w' = task_store.more (w :: 'a stream_store_scheme)"
  shows "streams w' = streams w" "write_ops w' = write_ops w" "awaitables w' = awaitables w"
    "stream_store.more w' = stream_store.more w"
  using assms by (cases w; cases w'; simp)+

lemma upd_stream_sel [simp]:
  "streams (upd_stream s f w) = (streams w)(s := f (streams w s))" "write_ops (upd_stream s f w) = write_ops w"
  "ops (upd_stream s f w) = ops w" "queues (upd_stream s f w) = queues w" "next_opid (upd_stream s f w) = next_opid w"
  "s_flags (upd_stream s f w) = s_flags w" "g_task (upd_stream s f w) = g_task w" "tasks (upd_stream s f w) = tasks w"
  "contexts (upd_stream s f w) = contexts w" "g_context (upd_stream s f w) = g_context w"
  "cancels (upd_stream s f w) = cancels w" "g_background (upd_stream s f w) = g_background w"
  "stream_store.more (upd_stream s f w) = stream_store.more w"
  by (simp_all add: upd_stream_def)

lemma upd_write_sel [simp]:
  "write_ops (upd_write op g w) = (write_ops w)(op := g (write_ops w op))" "streams (upd_write op g w) = streams w"
  "ops (upd_write op g w) = ops w" "queues (upd_write op g w) = queues w" "next_opid (upd_write op g w) = next_opid w"
  "s_flags (upd_write op g w) = s_flags w" "stream_store.more (upd_write op g w) = stream_store.more w"
  "g_context (upd_write op g w) = g_context w" "cancels (upd_write op g w) = cancels w" "contexts (upd_write op g w) = contexts w"
  "g_task (upd_write op g w) = g_task w" "tasks (upd_write op g w) = tasks w"
  by (simp_all add: upd_write_def)

lemma stream_ops_frame [simp]:
  "streams (upd_op op f w) = streams (w :: 'a stream_store_scheme)" "write_ops (upd_op op f w) = write_ops w"
  "streams (upd_queue q g w) = streams w" "write_ops (upd_queue q g w) = write_ops w"
  "stream_store.more (upd_op op f w) = stream_store.more w" "stream_store.more (upd_queue q g w) = stream_store.more w"
  by (simp_all add: upd_op_def upd_queue_def)

lemma finish_status [simp]: "op_status (ops (async_finish_op wake op w) op) = ASYNC_STATUS_RESOLVED"
  by (simp add: async_finish_op_def call_callback_def split: option.split)

lemma finish_streams [simp]:
  "streams (async_finish_op wake op w) = streams (w :: 'a stream_store_scheme)"
  "write_ops (async_finish_op wake op w) = write_ops w"
  by (rule stream_store_more_eq, simp)+

section \<open>Reading what is there\<close>

lemma fill_request_spec:
  assumes "rb_wf b"
  shows "\<exists>b'. fill_request rq b = Some (rq\<lparr>ro_data := take (rq_len rq) (rb_bytes b)\<rparr>, b') \<and> rb_wf b' \<and>
    rb_bytes b' = drop (rq_len rq) (rb_bytes b) \<and> rb_size b' = rb_size b"
proof -
  define n where "n = min (rq_len rq) (rb_len b)"
  obtain b' where b': "async_ring_buffer_read b n = Some (take n (rb_bytes b), b')" "rb_wf b'"
    "rb_bytes b' = drop n (rb_bytes b)" "rb_size b' = rb_size b"
    using read_loop_bytes [OF assms, of n "[]"] by (auto simp: async_ring_buffer_read_def)
  have t: "take n (rb_bytes b) = take (rq_len rq) (rb_bytes b)" "drop n (rb_bytes b) = drop (rq_len rq) (rb_bytes b)"
    by (auto simp: n_def min_def)
  have m: "min (rb_len b) n = n" by (simp add: n_def)
  show ?thesis
  proof (cases "rq_buffer rq")
    case True
    with b' show ?thesis by (simp add: fill_request_def n_def [symmetric] t)
  next
    case False
    show ?thesis
    proof (cases "n = 0")
      case True
      have "take (rq_len rq) (rb_bytes b) = []" "drop (rq_len rq) (rb_bytes b) = rb_bytes b"
        using t [symmetric] by (simp_all only: True take_0 drop_0)
      with False assms True show ?thesis
        by (simp add: fill_request_def async_ring_buffer_read_string_def n_def [symmetric])
    next
      case n: False
      with False b' show ?thesis
        unfolding fill_request_def async_ring_buffer_read_string_def Let_def n_def [symmetric] m by (simp add: t)
    qed
  qed
qed

lemma read_start_sel [simp]:
  "streams (read_start s w) = (streams w)(s := (streams w s)\<lparr>st_handle := uv_start () (st_handle (streams w s)),
     st_flags := set_flag (st_flags (streams w s)) STREAM_READING\<rparr>)"
  "streams (read_stop s w) = (streams w)(s := (streams w s)\<lparr>st_handle := uv_stop (st_handle (streams w s)),
     st_flags := clear_flag (st_flags (streams w s)) STREAM_READING\<rparr>)"
  "streams (set_stream_flag s m w) = (streams w)(s := (streams w s)\<lparr>st_flags := set_flag (st_flags (streams w s)) m\<rparr>)"
  "streams (clear_stream_flag s m w) = (streams w)(s := (streams w s)\<lparr>st_flags := clear_flag (st_flags (streams w s)) m\<rparr>)"
  by (simp_all add: read_start_def read_stop_def set_stream_flag_def clear_stream_flag_def)

lemma stream_flag_frame [simp]:
  "ops (read_start s w) = ops w" "ops (read_stop s w) = ops w" "ops (set_stream_flag s m w) = ops w"
  "ops (clear_stream_flag s m w) = ops w" "queues (read_start s w) = queues w" "queues (read_stop s w) = queues w"
  "queues (set_stream_flag s m w) = queues w" "queues (clear_stream_flag s m w) = queues w"
  "s_flags (read_start s w) = s_flags w" "s_flags (read_stop s w) = s_flags w" "s_flags (set_stream_flag s m w) = s_flags w"
  "write_ops (set_stream_flag s m w) = write_ops w" "write_ops (clear_stream_flag s m w) = write_ops w"
  "s_flags (clear_stream_flag s m w) = s_flags w" "g_task (read_start s w) = g_task w" "tasks (read_start s w) = tasks w"
  "contexts (read_start s w) = contexts w" "g_context (read_start s w) = g_context w" "cancels (read_start s w) = cancels w"
  "g_background (read_start s w) = g_background w" "next_opid (set_stream_flag s m w) = next_opid w"
  "next_opid (clear_stream_flag s m w) = next_opid w"
  by (simp_all add: read_start_def read_stop_def set_stream_flag_def clear_stream_flag_def)

text \<open>A stream with buffered bytes.\<close>

definition buffered :: "nat \<Rightarrow> 'a stream_store_scheme \<Rightarrow> bool" where
  "buffered s w \<longleftrightarrow> st_base (streams w s) \<and> rb_wf (st_buffer (streams w s)) \<and> rb_bytes (st_buffer (streams w s)) \<noteq> []"

text \<open>
  Reading from a stream with buffered bytes gives the oldest of them at once, as many as are asked for
  or are there, and leaves the others in order; a reader after shutting down and a second reader are
  refused with their errors and change nothing.
\<close>

theorem stream_read_buffered:
  assumes "buffered s w" and "\<not> rq_import req"
  shows "\<exists>rq w'. async_stream_read env yield s req w =
      Some (if stream_flag s STREAM_SHUT_RD w then Failure UV_EOF else if read_running s w then Failure UV_EALREADY else Success,
        rq, w') \<and>
    (if stream_flag s STREAM_SHUT_RD w \<or> read_running s w then w' = w
     else ro_data rq = take (rq_len req) (rb_bytes (st_buffer (streams w s))) \<and> rb_wf (st_buffer (streams w' s)) \<and>
       rb_bytes (st_buffer (streams w' s)) = drop (rq_len req) (rb_bytes (st_buffer (streams w s))) \<and>
       st_sent (streams w' s) = st_sent (streams w s) \<and> ops w' = ops w \<and> queues w' = queues w)"
proof (cases "stream_flag s STREAM_SHUT_RD w \<or> read_running s w")
  case True
  then obtain rq where "async_stream_read env yield s req w =
      Some (if stream_flag s STREAM_SHUT_RD w then Failure UV_EOF else Failure UV_EALREADY, rq, w)"
    unfolding async_stream_read_def Let_def by (cases "stream_flag s STREAM_SHUT_RD w") simp_all
  with True show ?thesis by (intro exI [of _ rq] exI [of _ w]) (cases "stream_flag s STREAM_SHUT_RD w"; simp)
next
  case False
  have b: "st_base (streams w s)" "rb_wf (st_buffer (streams w s))" "0 < rb_len (st_buffer (streams w s))"
    using assms(1) by (simp_all add: buffered_def)
  let ?r = "req\<lparr>ro_data := [], ro_error := 0\<rparr>"
  obtain b' where b': "fill_request ?r (st_buffer (streams w s)) =
      Some (?r\<lparr>ro_data := take (rq_len req) (rb_bytes (st_buffer (streams w s)))\<rparr>, b')" "rb_wf b'"
    "rb_bytes b' = drop (rq_len req) (rb_bytes (st_buffer (streams w s)))"
    using fill_request_spec [OF b(2), of ?r] by auto
  let ?w1 = "upd_stream s (\<lambda>x. x\<lparr>st_buffer := b'\<rparr>) w"
  define w2 where "w2 = (if st_flags (streams ?w1 s) = 0 \<and> should_start_read s ?w1 \<and> \<not> stream_flag s STREAM_READING ?w1
      then read_start s ?w1 else ?w1)"
  have "async_stream_read env yield s req w =
      Some (Success, ?r\<lparr>ro_data := take (rq_len req) (rb_bytes (st_buffer (streams w s)))\<rparr>, w2)"
    unfolding async_stream_read_def Let_def w2_def using False assms(2) b b'(1) by simp
  moreover have "st_buffer (streams w2 s) = b'" "st_sent (streams w2 s) = st_sent (streams w s)" "ops w2 = ops w" "queues w2 = queues w"
    by (simp_all add: w2_def)
  ultimately show ?thesis using False b'(2,3) by simp
qed

text \<open>The state after start with streams whose memory is zeroed, and one new stream.\<close>

definition boot_stream :: "'a \<Rightarrow> 'a stream_store_scheme" where
  "boot_stream m = stream_store.extend (dns_store.extend (component_store.extend (await_store.extend (boot (await_store.fields
       (\<lambda>_. \<lparr>a_status = OP_PENDING, a_result = IS_UNDEF, a_label = []\<rparr>) 0)) (component_store.fields (\<lambda>_. None) (\<lambda>_. None)))
       (dns_store.fields (\<lambda>_. 0) (\<lambda>_. \<lparr>dq_flags = 0, dq_types = [], dq_records = [], dq_host = []\<rparr>) 0)) (stream_store.fields
     (\<lambda>_. \<lparr>st_handle = uv_init, st_requests = [], st_sent = [], st_uv_shutdown = False, st_timer = uv_init, st_flags = 0,
        st_ref_count = 0, st_base = False, st_buffer = \<lparr>rb_base = [], rb_rpos = 0, rb_wpos = 0, rb_size = 0, rb_len = 0\<rparr>,
        st_read = 0, st_req = \<lparr>rq_len = 0, rq_buffer = False, rq_import = False, rq_timeout = 0, ro_data = [], ro_error = 0\<rparr>,
        st_shutdown_ref = None, st_read_error = IS_UNDEF, st_write_error = IS_UNDEF, st_ref = None, st_dispose = None\<rparr>)
     (\<lambda>_. \<lparr>wo_stream = 0, wo_context = None, wo_flags = 0, wo_code = 0, wo_in = [], wo_in_offset = 0, wo_out = [],
        wo_out_offset = 0\<rparr>))) m"

definition new_stream :: "'a \<Rightarrow> 'a stream_store_scheme" where
  "new_stream m = async_stream_init 0 uv_init 0 (boot_stream m)"

lemma boot_stream_sel [simp]:
  "ops (boot_stream m) = (\<lambda>_. zero_op)" "queues (boot_stream m) = (\<lambda>_. [])" "next_opid (boot_stream m) = 0"
  "g_task (boot_stream m) = None" "s_flags (boot_stream m) = 0" "cancels (boot_stream m) = (\<lambda>_. init_cancellation)"
  "g_context (boot_stream m) = 0" "x_cancel (contexts (boot_stream m) c) = None" "tasks (boot_stream m) = (\<lambda>_. zero_task)"
  "stream_store.more (boot_stream m) = m"
  by (simp_all add: boot_stream_def stream_store.defs dns_store.defs component_store.defs await_store.defs boot_defs Let_def async_context_object_create_def)

lemma new_stream_sel [simp]:
  "ops (new_stream m) = (\<lambda>_. zero_op)" "queues (new_stream m) = (\<lambda>_. [])" "next_opid (new_stream m) = 1"
  "g_task (new_stream m) = None" "s_flags (new_stream m) = 0" "cancels (new_stream m) = (\<lambda>_. init_cancellation)"
  "g_context (new_stream m) = 0" "x_cancel (contexts (new_stream m) c) = None" "tasks (new_stream m) = (\<lambda>_. zero_task)"
  "stream_store.more (new_stream m) = m" "st_flags (streams (new_stream m) 0) = 0" "st_read (streams (new_stream m) 0) = 0"
  "st_base (streams (new_stream m) 0) = False" "rb_len (st_buffer (streams (new_stream m) 0)) = 0"
  "rb_size (st_buffer (streams (new_stream m) 0)) = 0x8000" "st_requests (streams (new_stream m) 0) = []"
  "st_sent (streams (new_stream m) 0) = []" "uv_closing (st_handle (streams (new_stream m) 0)) = False"
  by (simp_all add: new_stream_def async_stream_init_def async_alloc_op_def upd_stream_def uv_init_def)
    (auto simp: boot_stream_def stream_store.defs dns_store.defs component_store.defs await_store.defs boot_defs Let_def async_context_object_create_def)

definition three_bytes :: stream_store where
  "three_bytes = upd_stream 0 (\<lambda>x. x\<lparr>st_base := True, st_buffer :=
     async_ring_buffer_write_move (store_bytes (init_buffer [0, 0, 0, 0]) [1, 2, 3]) 3\<rparr>) (new_stream ())"

definition read_request :: "nat \<Rightarrow> async_stream_read_req" where
  "read_request n = \<lparr>rq_len = n, rq_buffer = False, rq_import = False, rq_timeout = 0, ro_data = [], ro_error = 0\<rparr>"

theorem stream_read_buffered_witness:
  "\<forall>env. \<exists>rq w'. async_stream_read env bounce 0 (read_request 2) three_bytes = Some (Success, rq, w') \<and> ro_data rq = [1, 2]"
proof -
  let ?b = "init_buffer [0, 0, 0, 0]"
  have w: "rb_wf ?b" "length [1, 2, 3 :: byte] \<le> async_ring_buffer_write_len ?b" "rb_bytes ?b = []"
    using rb_wf_init [of "[0, 0, 0, 0]"] by (simp_all add: async_ring_buffer_write_len_def init_buffer_def)
  have b: "buffered 0 three_bytes" "rb_bytes (st_buffer (streams three_bytes 0)) = [1, 2, 3]"
    using write_bytes [OF w(1,2)] w(3) by (simp_all add: buffered_def three_bytes_def numeral_3_eq_3)
  have f: "\<not> stream_flag 0 STREAM_SHUT_RD three_bytes" "\<not> read_running 0 three_bytes"
    by (simp_all add: three_bytes_def stream_flag_def read_running_def)
  show ?thesis
  proof
    show "\<exists>rq w'. async_stream_read env bounce 0 (read_request 2) three_bytes = Some (Success, rq, w') \<and> ro_data rq = [1, 2]" for env
      using stream_read_buffered [OF b(1), of "read_request 2" env bounce] f by (auto simp: read_request_def b(2))
  qed
qed

section \<open>Waiting for bytes\<close>

text \<open>The condition under which a read suspends the task \<open>t\<close>, and the state in which it is suspended.\<close>

definition read_blocks :: "nat \<Rightarrow> nat \<Rightarrow> 'a stream_store_scheme \<Rightarrow> bool" where
  "read_blocks t s w \<longleftrightarrow> \<not> stream_flag s STREAM_SHUT_RD w \<and> \<not> stream_flag s STREAM_EOF w \<and> \<not> stream_flag s STREAM_IPC w \<and>
     \<not> read_running s w \<and> rb_len (st_buffer (streams w s)) = 0 \<and> 0 < rb_size (st_buffer (streams w s)) \<and>
     (st_base (streams w s) \<longrightarrow> rb_wf (st_buffer (streams w s))) \<and>
     g_task w = Some t \<and> first_error (await_checks_task t w) = None \<and>
     (\<forall>c. x_cancel (contexts w (g_context w)) = Some c \<longrightarrow> \<not> triggered (cancels w c))"

definition read_ready :: "nat \<Rightarrow> async_stream_read_req \<Rightarrow> 'a stream_store_scheme \<Rightarrow> 'a stream_store_scheme" where
  "read_ready s req w0 =
     (let w = (if st_base (streams w0 s) then w0 else init_stream_buffer s w0);
          w1 = (if stream_flag s STREAM_READING w then w else read_start s w);
          w2 = upd_stream s (\<lambda>x. x\<lparr>st_req := req\<lparr>ro_data := [], ro_error := 0\<rparr>, st_timer :=
                 (if 0 < rq_timeout req then uv_start (rq_timeout req) (st_timer x) else st_timer x)\<rparr>) w1
      in stream_ref async_unref_enter (async_context_is_background (g_context w2) w2) s w2)"

definition read_suspended :: "nat \<Rightarrow> nat \<Rightarrow> async_stream_read_req \<Rightarrow> 'a stream_store_scheme \<Rightarrow> 'a stream_store_scheme" where
  "read_suspended t s req w =
     (let u = read_ready s req w; rd = st_read (streams u s)
      in upd_task t (\<lambda>x. x\<lparr>t_status := TASK_SUSPENDED\<rparr>)
           (await_register (await_cancellation rd u) Cancel_op Continue_op_task t rd (upd_op rd (\<lambda>x. x\<lparr>op_result := IS_NULL\<rparr>) u)))"

lemma stream_ref_sel [simp]:
  "streams (stream_ref f bg s w) = (streams w)(s := (streams w s)\<lparr>st_ref_count := fst (f bg (st_ref_count (streams w s), st_handle (streams w s))),
     st_handle := snd (f bg (st_ref_count (streams w s), st_handle (streams w s)))\<rparr>)"
  "ops (stream_ref f bg s w) = ops w" "queues (stream_ref f bg s w) = queues w" "s_flags (stream_ref f bg s w) = s_flags w"
  "g_task (stream_ref f bg s w) = g_task w" "tasks (stream_ref f bg s w) = tasks w" "contexts (stream_ref f bg s w) = contexts w"
  "g_context (stream_ref f bg s w) = g_context w" "cancels (stream_ref f bg s w) = cancels w" "next_opid (stream_ref f bg s w) = next_opid w"
  "write_ops (stream_ref f bg s w) = write_ops w"
  by (simp_all add: stream_ref_def split_beta)

lemma read_ready_sel:
  fixes req :: async_stream_read_req
  assumes "read_blocks t s w"
  defines "u \<equiv> read_ready s req w"
  shows "ops u = ops w" "s_flags u = s_flags w" "g_task u = Some t" "tasks u = tasks w" "contexts u = contexts w"
    "g_context u = g_context w" "cancels u = cancels w" "st_read (streams u s) = st_read (streams w s)"
    "st_req (streams u s) = req\<lparr>ro_data := [], ro_error := 0\<rparr>" "rb_wf (st_buffer (streams u s))" "rb_len (st_buffer (streams u s)) = 0"
    "rb_size (st_buffer (streams u s)) = rb_size (st_buffer (streams w s))"
    "\<not> stream_flag s STREAM_EOF u" "\<not> stream_flag s STREAM_IPC u"
  using assms(1)
  by (simp_all add: u_def read_ready_def Let_def init_stream_buffer_def read_blocks_def stream_flag_def rb_wf_def flag_simps)

lemma read_suspended_sel:
  fixes req :: async_stream_read_req
  assumes "read_blocks t s w"
  defines "u \<equiv> read_suspended t s req w"
  shows "streams u = streams (read_ready s req w)" "s_flags u = s_flags w" "read_running s u"
proof -
  let ?v = "read_ready s req w"
  have "task_store.more u = task_store.more ?v"
    by (simp add: u_def read_suspended_def Let_def upd_task_def upd_op_def)
  then show st: "streams u = streams ?v" by (rule stream_store_more_eq)
  show "s_flags u = s_flags w"
    using read_ready_sel(2) [OF assms(1), of req] by (simp add: u_def read_suspended_def Let_def upd_task_def upd_op_def)
  have "op_status (ops u (st_read (streams ?v s))) = ASYNC_STATUS_RUNNING"
    by (simp add: u_def read_suspended_def await_register_def async_append_op_def upd_task_def Let_def)
  then show "read_running s u" by (simp add: read_running_def st)
qed

text \<open>Bytes arrive for a reader that waits: it is served and woken.\<close>

lemma read_cb_serves:
  fixes w :: "'a stream_store_scheme"
  assumes "read_running s w" and "rb_wf (st_buffer (streams w s))" and "rb_len (st_buffer (streams w s)) = 0"
    and "\<not> stream_flag s STREAM_EOF w" and "\<not> stream_flag s STREAM_IPC w" and "\<not> rq_import (st_req (streams w s))"
    and "bytes \<noteq> []" and "length bytes \<le> read_alloc s w"
  shows "\<exists>w'. read_cb env wake s (Inr bytes) w = Some w' \<and>
    st_req (streams w' s) = (st_req (streams w s))\<lparr>ro_data := take (rq_len (st_req (streams w s))) bytes\<rparr> \<and>
    rb_bytes (st_buffer (streams w' s)) = drop (rq_len (st_req (streams w s))) bytes \<and> rb_wf (st_buffer (streams w' s)) \<and>
    st_read (streams w' s) = st_read (streams w s) \<and>
    op_status (ops w' (st_read (streams w s))) = ASYNC_STATUS_RESOLVED \<and> s_flags w' = s_flags w"
proof -
  let ?b = "st_buffer (streams w s)" and ?r = "st_req (streams w s)"
  define b1 where "b1 = async_ring_buffer_write_move (store_bytes ?b bytes) (length bytes)"
  have b1: "rb_wf b1" "rb_bytes b1 = bytes" "rb_len b1 = length bytes"
    using write_bytes [OF assms(2), of bytes] assms(3,8)
    by (simp_all add: b1_def read_alloc_def async_ring_buffer_write_move_def store_bytes_def rb_bytes_def)
  obtain b2 where b2: "fill_request ?r b1 = Some (?r\<lparr>ro_data := take (rq_len ?r) bytes\<rparr>, b2)" "rb_wf b2"
    "rb_bytes b2 = drop (rq_len ?r) bytes"
    using fill_request_spec [OF b1(1), of ?r] b1(2) by auto
  define w1 where "w1 = upd_stream s (\<lambda>x. x\<lparr>st_buffer := store_bytes (st_buffer x) bytes\<rparr>) w"
  define w2 where "w2 = process_input_bytes s (length bytes) w1"
  define w3 where "w3 = upd_stream s (\<lambda>x. x\<lparr>st_req := ?r\<lparr>ro_data := take (rq_len ?r) bytes\<rparr>, st_buffer := b2\<rparr>) w2"
  define w4 where "w4 = finish_read wake s w3"
  have w1: "\<not> stream_flag s STREAM_IPC w1" using assms(5) by (simp add: w1_def stream_flag_def)
  have w2: "st_buffer (streams w2 s) = b1" "st_req (streams w2 s) = ?r" "read_running s w2"
    using assms(1) by (simp_all add: w2_def w1_def process_input_bytes_def b1_def read_running_def)
  have w3: "serve_read s w2 = Some w3" using b2(1) by (simp add: serve_read_def w2 w3_def)
  have w4: "\<not> read_running s w4" by (simp add: w4_def finish_read_def read_running_def)
  have "serve_reads wake s w2 = Some w4"
    using assms(6,7) w2 w3 w4 b1(3)
    by (subst serve_reads.simps, subst serve_reads.simps) (simp add: w4_def [symmetric])
  moreover have fl: "st_flags (streams w4 s) = st_flags (streams w s)"
    by (simp add: w4_def finish_read_def w3_def w2_def process_input_bytes_def w1_def)
  ultimately have "\<not> stream_flag s STREAM_EOF w4" "serve_reads wake s w2 = Some w4" using assms(4) by (simp_all add: stream_flag_def)
  moreover have "receive_handle env wake s (length bytes) w1 = Some (length bytes, w1)" using w1 by (simp add: receive_handle_def)
  moreover have "read_cb env wake s (Inr bytes) w = Option.bind (receive_handle env wake s (length bytes) w1) (\<lambda>(n, w2).
      Option.bind (serve_reads wake s (if 0 < n then process_input_bytes s n w2 else w2)) (\<lambda>w3.
        if stream_flag s STREAM_EOF w3 then read_end wake s w3
        else Some (if should_continue_read s w3 then w3 else read_stop s w3)))"
    using assms(7) unfolding read_cb_def Let_def w1_def by (cases bytes) simp_all
  ultimately have r: "read_cb env wake s (Inr bytes) w = Some (if should_continue_read s w4 then w4 else read_stop s w4)"
    using assms(7) by (simp add: w2_def [symmetric])
  have s4: "streams w4 s = (streams w s)\<lparr>st_req := ?r\<lparr>ro_data := take (rq_len ?r) bytes\<rparr>, st_buffer := b2\<rparr>"
    "op_status (ops w4 (st_read (streams w s))) = ASYNC_STATUS_RESOLVED" "s_flags w4 = s_flags w"
    by (simp_all add: w4_def finish_read_def w3_def w2_def process_input_bytes_def w1_def)
  show ?thesis by (rule exI, intro conjI, rule r) (simp_all add: s4 b2)
qed

text \<open>
  C19. A read from an empty stream waits and is served by the bytes that arrive: whatever the sizes, it
  gets the first of them, as many as it asked for or arrived, the others are kept in order for the next
  read, and the stream can be read again.
\<close>

theorem read_gets_arriving_bytes:
  assumes "read_blocks t s w" and "\<not> rq_import req" and "bytes \<noteq> []" and "length bytes \<le> read_alloc s (read_suspended t s req w)"
    and arrival: "yield Suspend (read_suspended t s req w) = the (read_cb env wake s (Inr bytes) (read_suspended t s req w))"
  shows "\<exists>rq w'. async_stream_read env yield s req w = Some (Success, rq, w') \<and> ro_data rq = take (rq_len req) bytes \<and>
    rb_bytes (st_buffer (streams w' s)) = drop (rq_len req) bytes \<and> rb_wf (st_buffer (streams w' s)) \<and> \<not> read_running s w'"
proof -
  define v where "v = read_ready s req w"
  define u where "u = read_suspended t s req w"
  define rd where "rd = st_read (streams v s)"
  note v = read_ready_sel [OF assms(1), of req, folded v_def]
  note u = read_suspended_sel [OF assms(1), of req, folded u_def v_def]
  have b: "\<not> stream_flag s STREAM_EOF u" "\<not> stream_flag s STREAM_IPC u" using v(13,14) by (simp_all add: stream_flag_def u(1))
  have "rb_wf (st_buffer (streams u s))" "rb_len (st_buffer (streams u s)) = 0" "\<not> rq_import (st_req (streams u s))"
    using v(9-11) assms(2) by (simp_all add: u(1))
  then obtain u' where u': "read_cb env wake s (Inr bytes) u = Some u'"
    "st_req (streams u' s) = (st_req (streams u s))\<lparr>ro_data := take (rq_len (st_req (streams u s))) bytes\<rparr>"
    "rb_bytes (st_buffer (streams u' s)) = drop (rq_len (st_req (streams u s))) bytes" "rb_wf (st_buffer (streams u' s))"
    "st_read (streams u' s) = st_read (streams u s)" "op_status (ops u' (st_read (streams u s))) = ASYNC_STATUS_RESOLVED"
    "s_flags u' = s_flags u"
    using read_cb_serves [OF u(3) _ _ b _ assms(3), where env = env] assms(4) unfolding u_def by blast
  have rd: "st_read (streams u s) = rd" by (simp add: rd_def u(1))
  have y: "yield Suspend u = u'" using arrival u'(1) by (simp add: u_def)
  have e: "\<not> sched_flag SCHED_ERROR u'"
    using assms(1) u'(7) u(2) by (auto simp: read_blocks_def await_checks_task_def sched_flag_def split: if_splits)
  have chk: "first_error (await_checks_task t v) = None"
    using assms(1) v(2,4) by (simp add: read_blocks_def await_checks_task_def sched_flag_def)
  have canc: "\<not> triggered (cancels v c)" if "await_cancellation rd v = Some c" for c
    using that assms(1) v(5-7) by (simp add: await_cancellation_def read_blocks_def split: if_splits)
  have aw: "async_await_op yield rd v = Some (await_finish (await_cancellation rd v) rd u')"
    using async_await_op_task [OF v(3) chk canc, where yield = yield] y
    by (simp add: u_def read_suspended_def v_def [symmetric] rd_def Let_def)
  obtain r w1 where f: "await_finish (await_cancellation rd v) rd u' = (r, w1)" by fastforce
  have r: "r = Await_success" "task_store.more w1 = task_store.more u'"
    using await_finish_frame [where canc = "await_cancellation rd v" and op = rd and u = u'] e u'(6) by (simp_all add: f rd)
  have w1: "streams w1 = streams u'" by (rule stream_store_more_eq(1) [OF r(2)])
  define w0 where "w0 = (if st_base (streams w s) then w else init_stream_buffer s w)"
  define req1 where "req1 = req\<lparr>ro_data := [], ro_error := 0\<rparr>"
  have req1: "rq_timeout req1 = rq_timeout req" "\<not> rq_import req1" "ro_error req1 = 0" using assms(2) by (simp_all add: req1_def)
  define w2 where "w2 = upd_stream s (\<lambda>x. x\<lparr>st_req := req1, st_timer :=
      (if 0 < rq_timeout req1 then uv_start (rq_timeout req1) (st_timer x) else st_timer x)\<rparr>)
      (if stream_flag s STREAM_READING w0 then w0 else read_start s w0)"
  define bg where "bg = async_context_is_background (g_context w2) w2"
  have vw: "v = stream_ref async_unref_enter bg s w2"
    by (simp only: v_def read_ready_def Let_def w2_def w0_def bg_def req1(1)) (simp only: req1_def)
  have rd2: "st_read (streams w2 s) = rd" by (simp add: rd_def vw)
  have sa: "stream_await_op yield s rd w2 = Some (Await_success, stream_ref async_unref_exit bg s w1)"
    unfolding stream_await_op_def Let_def bg_def [symmetric] vw [symmetric] aw by (simp add: f r(1))
  have w0: "st_flags (streams w0 s) = st_flags (streams w s)" "rb_len (st_buffer (streams w0 s)) = 0"
    using assms(1) by (simp_all add: w0_def init_stream_buffer_def read_blocks_def)
  define w3 where "w3 = stream_ref async_unref_exit bg s w1"
  define w4 where "w4 = (if 0 < rq_timeout req1 then upd_stream s (\<lambda>x. x\<lparr>st_timer := uv_stop (st_timer x)\<rparr>) w3 else w3)"
  have w4: "st_read (streams w4 s) = rd" "st_req (streams w4 s) = st_req (streams u' s)" "st_buffer (streams w4 s) = st_buffer (streams u' s)"
    using u'(5) rd by (simp_all add: w4_def w3_def w1)
  have "async_stream_read env yield s req w = Some (Success, st_req (streams w4 s), async_reset_op rd w4)"
    using assms(1) w0 w4(1,2) u'(2) v(9)
    unfolding async_stream_read_def Let_def req1_def [symmetric] w0_def [symmetric] w2_def [symmetric] rd2 sa w3_def [symmetric]
    by (simp add: read_blocks_def stream_flag_def u(1) req1(2,3) w4_def [symmetric])
  moreover have "streams (async_reset_op rd w4) = streams w4"
    by (simp add: async_reset_op_def unlink_op_def split: option.split)
  moreover have "op_status (ops (async_reset_op rd w4) rd) = ASYNC_STATUS_PENDING"
    by (simp add: async_reset_op_def unlink_op_def split: option.split)
  ultimately show ?thesis
    using u'(2-4) w4 v(9)
    by (intro exI [of _ "st_req (streams w4 s)"] exI [of _ "async_reset_op rd w4"]) (simp add: u(1) read_running_def)
qed

text \<open>A new stream that task 0 reads.\<close>

definition reading_stream :: stream_store where
  "reading_stream = (new_stream ())\<lparr>g_task := Some 0, tasks := (\<lambda>_. zero_task\<lparr>t_fiber := Some 1, t_status := TASK_RUNNING\<rparr>)\<rparr>"

lemma reading_stream_blocks: "read_blocks 0 0 reading_stream"
  by (simp add: read_blocks_def reading_stream_def stream_flag_def read_running_def await_checks_task_def sched_flag_def)

theorem read_gets_arriving_bytes_witness:
  "\<forall>env. \<exists>rq w'. async_stream_read env (\<lambda>_ u. the (read_cb env wake 0 (Inr [1, 2, 3]) u)) 0 (read_request 2) reading_stream =
      Some (Success, rq, w') \<and> ro_data rq = [1, 2] \<and> rb_bytes (st_buffer (streams w' 0)) = [3]"
proof
  have "length [1, 2, 3 :: byte] \<le> read_alloc 0 (read_suspended 0 0 (read_request 2) reading_stream)"
    unfolding read_alloc_def read_suspended_sel(1) [OF reading_stream_blocks]
    by (simp add: async_ring_buffer_write_len_def reading_stream_def read_ready_def init_stream_buffer_def Let_def)
  then show "\<exists>rq w'. async_stream_read env (\<lambda>_ u. the (read_cb env wake 0 (Inr [1, 2, 3]) u)) 0 (read_request 2) reading_stream =
      Some (Success, rq, w') \<and> ro_data rq = [1, 2] \<and> rb_bytes (st_buffer (streams w' 0)) = [3]" for env
    using read_gets_arriving_bytes [OF reading_stream_blocks, of "read_request 2" "[1, 2, 3]"
        "\<lambda>_ u. the (read_cb env wake 0 (Inr [1, 2, 3]) u)" env] by (simp add: read_request_def) blast
qed

end
