(* ===== verification/WriteProps.thy ===== *)
theory WriteProps
  imports StreamProps
begin

text \<open>
  Properties of writing to streams: the bytes of asynchronous writes reach the handle in the order of
  the writes and all of them are written; what goes wrong with callbacks of writes and with writes
  that are cancelled while libuv holds them; and the streams in memory.
\<close>

section \<open>What the handle gets\<close>

text \<open>
  The bytes that are on their way: those the handle has taken, those in the requests that libuv holds and those
  of the operations that were not handed over.
\<close>

definition unsent :: "opid \<Rightarrow> 'a stream_store_scheme \<Rightarrow> byte list" where
  "unsent op w = (if write_flag op WRITE_OP_STARTED w then [] else wo_in (write_ops w op))"

definition outgoing :: "nat \<Rightarrow> 'a stream_store_scheme \<Rightarrow> byte list" where
  "outgoing s w = st_sent (streams w s) @ concat (map snd (st_requests (streams w s))) @
     concat (map (\<lambda>op. unsent op w) (queues w (StreamWrites s)))"

definition data_ok :: "byte list \<Rightarrow> bool" where
  "data_ok bs \<longleftrightarrow> bs \<noteq> [] \<and> length bs < 2 ^ 31"

definition plain_write :: "nat \<Rightarrow> opid \<Rightarrow> 'a stream_store_scheme \<Rightarrow> bool" where
  "plain_write s op w \<longleftrightarrow> wo_stream (write_ops w op) = s \<and> \<not> write_flag op WRITE_OP_EXPORT w \<and>
     \<not> write_flag op WRITE_OP_CALLBACK w \<and> op_callback (ops w op) = None \<and> data_ok (wo_in (write_ops w op))"

definition pending_write :: "nat \<Rightarrow> opid \<Rightarrow> 'a stream_store_scheme \<Rightarrow> bool" where
  "pending_write s op w \<longleftrightarrow> plain_write s op w \<and> \<not> write_flag op WRITE_OP_STARTED w \<and> wo_in_offset (write_ops w op) = 0"

definition started_write :: "nat \<Rightarrow> opid \<Rightarrow> 'a stream_store_scheme \<Rightarrow> bool" where
  "started_write s op w \<longleftrightarrow> plain_write s op w \<and> write_flag op WRITE_OP_STARTED w \<and>
     wo_in_offset (write_ops w op) = length (wo_in (write_ops w op)) \<and> (\<exists>bs. st_requests (streams w s) = [(op, bs)])"

text \<open>
  A stream with asynchronous writes: libuv holds exactly the first one, the others wait their turn.
\<close>

definition writes_wf :: "nat \<Rightarrow> 'a stream_store_scheme \<Rightarrow> bool" where
  "writes_wf s w \<longleftrightarrow> ops_wf w \<and> \<not> stream_flag s STREAM_SHUT_WR w \<and> \<not> stream_flag s STREAM_WRITING w \<and>
     \<not> stream_flag s STREAM_DELAY_SHUTDOWN w \<and> queues w (StreamFlush s) = [] \<and>
     (case queues w (StreamWrites s) of
        [] \<Rightarrow> st_requests (streams w s) = []
      | op # rest \<Rightarrow> started_write s op w \<and> (\<forall>x\<in>set rest. pending_write s x w))"

text \<open>The answers of \<open>uv_try_write\<close> while the connection works: some bytes, or none for now.\<close>

definition try_write_ok :: "'w uv_answers \<Rightarrow> nat \<Rightarrow> bool" where
  "try_write_ok env s \<longleftrightarrow> (\<forall>bs w. bs \<noteq> [] \<longrightarrow>
     try_write env s bs w = UV_EAGAIN \<or> 0 < try_write env s bs w \<and> try_write env s bs w \<le> int (length bs))"

section \<open>Writing at once\<close>

lemma write_flag_frame [simp]:
  "write_flag op m (upd_stream s f w) = write_flag op m w" "write_flag op m (upd_op x h w) = write_flag op m w"
  "write_flag op m (upd_queue q k w) = write_flag op m w"
  by (simp_all add: write_flag_def)

lemma wo_rest_frame [simp]:
  "wo_rest op (upd_stream s f w) = wo_rest op w"
  "wo_rest op (upd_write op (\<lambda>x. x\<lparr>wo_out_offset := k\<rparr>) w) = drop k (wo_out (write_ops w op))"
  by (simp_all add: wo_rest_def)

text \<open>The loop takes a prefix of the bytes and ends, because every round takes some.\<close>

lemma try_write_loop_spec:
  assumes "try_write_ok env s" and "wo_rest op w \<noteq> []"
  shows "\<exists>r bs k. try_write_loop env s op w =
      Some (Inr r, upd_write op (\<lambda>x. x\<lparr>wo_out_offset := k\<rparr>) (upd_stream s (\<lambda>x. x\<lparr>st_sent := st_sent x @ bs\<rparr>) w)) \<and>
    wo_rest op w = bs @ drop k (wo_out (write_ops w op)) \<and> (r \<longleftrightarrow> drop k (wo_out (write_ops w op)) = [])"
  using assms(2)
proof (induction "length (wo_rest op w)" arbitrary: w rule: less_induct)
  case less
  define code where "code = try_write env s (wo_rest op w) w"
  define o0 where "o0 = wo_out_offset (write_ops w op)"
  have c: "code = UV_EAGAIN \<or> 0 < code \<and> code \<le> int (length (wo_rest op w))"
    using assms(1) less.prems unfolding try_write_ok_def code_def by blast
  show ?case
  proof (cases "code = UV_EAGAIN")
    case True
    then have "try_write_loop env s op w = Some (Inr False, w)"
      by (subst try_write_loop.simps) (simp add: Let_def code_def [symmetric])
    moreover have "upd_write op (\<lambda>x. x\<lparr>wo_out_offset := o0\<rparr>) (upd_stream s (\<lambda>x. x\<lparr>st_sent := st_sent x @ []\<rparr>) w) = w"
      by (simp add: upd_write_def upd_stream_def o0_def)
    ultimately show ?thesis
      using less.prems by (intro exI [of _ False] exI [of _ "[]"] exI [of _ o0]) (simp add: wo_rest_def o0_def)
  next
    case False
    with c have pos: "0 < code" "code \<le> int (length (wo_rest op w))" by simp_all
    define n where "n = nat code"
    have n: "0 < n" "n \<le> length (wo_rest op w)" using pos by (simp_all add: n_def nat_le_iff)
    define w1 where "w1 = upd_write op (\<lambda>x. x\<lparr>wo_out_offset := wo_out_offset x + n\<rparr>)
        (upd_stream s (\<lambda>x. x\<lparr>st_sent := st_sent x @ take n (wo_rest op w)\<rparr>) w)"
    have r1: "wo_rest op w1 = drop n (wo_rest op w)" "wo_out (write_ops w1 op) = wo_out (write_ops w op)"
      "wo_out_offset (write_ops w1 op) = o0 + n"
      by (simp_all add: w1_def wo_rest_def add.commute o0_def)
    have l: "length (wo_rest op w) = length (wo_out (write_ops w op)) - o0" by (simp add: wo_rest_def o0_def)
    have eq: "try_write_loop env s op w =
        (if wo_out_offset (write_ops w1 op) = length (wo_out (write_ops w1 op)) then Some (Inr True, w1) else try_write_loop env s op w1)"
      using False pos by (subst try_write_loop.simps) (simp add: Let_def code_def [symmetric] n_def [symmetric] w1_def)
    show ?thesis
    proof (cases "o0 + n = length (wo_out (write_ops w op))")
      case True
      have "w1 = upd_write op (\<lambda>x. x\<lparr>wo_out_offset := o0 + n\<rparr>) (upd_stream s (\<lambda>x. x\<lparr>st_sent := st_sent x @ take n (wo_rest op w)\<rparr>) w)"
        by (simp add: w1_def upd_write_def o0_def)
      moreover have "take n (wo_rest op w) = wo_rest op w" using True l by simp
      ultimately show ?thesis
        using eq r1 True by (intro exI [of _ True] exI [of _ "wo_rest op w"] exI [of _ "o0 + n"]) simp
    next
      case more: False
      have "length (wo_rest op w1) < length (wo_rest op w)" "wo_rest op w1 \<noteq> []"
        using n more l unfolding r1(1) by auto
      from less.hyps [OF this] obtain r bs k where IH:
        "try_write_loop env s op w1 =
          Some (Inr r, upd_write op (\<lambda>x. x\<lparr>wo_out_offset := k\<rparr>) (upd_stream s (\<lambda>x. x\<lparr>st_sent := st_sent x @ bs\<rparr>) w1))"
        "drop n (wo_rest op w) = bs @ drop k (wo_out (write_ops w op))" "r \<longleftrightarrow> drop k (wo_out (write_ops w op)) = []"
        unfolding r1 by blast
      have "upd_write op (\<lambda>x. x\<lparr>wo_out_offset := k\<rparr>) (upd_stream s (\<lambda>x. x\<lparr>st_sent := st_sent x @ bs\<rparr>) w1) =
          upd_write op (\<lambda>x. x\<lparr>wo_out_offset := k\<rparr>) (upd_stream s (\<lambda>x. x\<lparr>st_sent := st_sent x @ (take n (wo_rest op w) @ bs)\<rparr>) w)"
        by (simp add: w1_def upd_write_def upd_stream_def)
      moreover have "wo_rest op w = (take n (wo_rest op w) @ bs) @ drop k (wo_out (write_ops w op))"
        using IH(2) by (metis append.assoc append_take_drop_id)
      ultimately show ?thesis
        using IH(1,3) eq more r1(2,3)
        by (intro exI [of _ r] exI [of _ "take n (wo_rest op w) @ bs"] exI [of _ k]) simp
    qed
  qed
qed

definition async_write_req :: "byte list \<Rightarrow> async_stream_write_req" where
  "async_write_req data = \<lparr>wq_data = data, wq_async = True, wq_export = False, wq_callback = False, wq_arg = 0, wq_context = None\<rparr>"

lemma async_write_req_sel [simp]:
  "wq_data (async_write_req data) = data" "wq_async (async_write_req data)" "\<not> wq_export (async_write_req data)"
  "\<not> wq_callback (async_write_req data)" "wq_context (async_write_req data) = None"
  by (simp_all add: async_write_req_def)

text \<open>The operation of a new write.\<close>

definition with_new_write :: "nat \<Rightarrow> byte list \<Rightarrow> 'a stream_store_scheme \<Rightarrow> 'a stream_store_scheme" where
  "with_new_write s data w = upd_write (next_opid w) (\<lambda>_. new_write s (async_write_req data)) (snd (async_alloc_op w))"

lemma with_new_write_sel [simp]:
  "streams (with_new_write s data w) = streams w" "queues (with_new_write s data w) = queues w"
  "ops (with_new_write s data w) = (ops w)(next_opid w := zero_op)" "next_opid (with_new_write s data w) = Suc (next_opid w)"
  "write_ops (with_new_write s data w) = (write_ops w)(next_opid w := new_write s (async_write_req data))"
  by (simp_all add: with_new_write_def async_alloc_op_def)

lemma new_write_sel [simp]:
  "wo_stream (new_write s (async_write_req data)) = s" "wo_flags (new_write s (async_write_req data)) = 0"
  "wo_in (new_write s (async_write_req data)) = data" "wo_in_offset (new_write s (async_write_req data)) = 0"
  by (simp_all add: new_write_def)

lemma ops_wf_new_write: "ops_wf w \<Longrightarrow> ops_wf (with_new_write s data w)"
  by (subst ops_wf_cong [where w = "snd (async_alloc_op w)"]) (auto simp: with_new_write_def intro: ops_wf_alloc)

lemma async_stream_write_unfold:
  assumes "\<not> stream_flag s STREAM_SHUT_WR w"
  shows "async_stream_write env yield run s (async_write_req data) w =
    Option.bind (write_now env run s (next_opid w) (with_new_write s data w)) (\<lambda>(r, u). case r of
       Some res \<Rightarrow> Some (res, u)
     | None \<Rightarrow> Some (Success, setup_async_write (next_opid w) None (async_append_op (StreamWrites s) (next_opid w) u)))"
  using assms by (simp add: async_stream_write_def with_new_write_def async_alloc_op_def Let_def cong: option.case_cong)

lemma setup_async_write_sel [simp]:
  "streams (setup_async_write op ctx w) = streams w" "ops (setup_async_write op ctx w) = ops w"
  "queues (setup_async_write op ctx w) = queues w" "next_opid (setup_async_write op ctx w) = next_opid w"
  by (simp_all add: setup_async_write_def)

lemma append_op_stream [simp]:
  "streams (async_append_op q op w) = streams (w :: 'a stream_store_scheme)" "write_ops (async_append_op q op w) = write_ops w"
  "next_opid (async_append_op q op w) = next_opid w"
  by (simp_all add: async_append_op_def)

lemma setup_flag [simp]:
  "write_flag x WRITE_OP_STARTED (setup_async_write op ctx w) = write_flag x WRITE_OP_STARTED w"
  "write_flag x WRITE_OP_EXPORT (setup_async_write op ctx w) = write_flag x WRITE_OP_EXPORT w"
  "write_flag x WRITE_OP_CALLBACK (setup_async_write op ctx w) = write_flag x WRITE_OP_CALLBACK w"
  "wo_in (write_ops (setup_async_write op ctx w) x) = wo_in (write_ops w x)"
  "wo_in_offset (write_ops (setup_async_write op ctx w) x) = wo_in_offset (write_ops w x)"
  "wo_stream (write_ops (setup_async_write op ctx w) x) = wo_stream (write_ops w x)"
  by (simp_all add: setup_async_write_def write_flag_def flag_simps)

lemma append_flag [simp]: "write_flag x m (async_append_op q op w) = write_flag x m w"
  by (simp add: write_flag_def)

text \<open>A write while others are under way waits at the end of the queue.\<close>

lemma async_write_queued:
  assumes "writes_wf s w" and "queues w (StreamWrites s) = op1 # rest" and "data_ok data"
  shows "\<exists>w'. async_stream_write env yield run s (async_write_req data) w = Some (Success, w') \<and> writes_wf s w' \<and>
    outgoing s w' = outgoing s w @ data \<and> queues w' (StreamWrites s) = queues w (StreamWrites s) @ [next_opid w]"
proof -
  define op where "op = next_opid w"
  define v where "v = with_new_write s data w"
  define w' where "w' = setup_async_write op None (async_append_op (StreamWrites s) op v)"
  have wf: "ops_wf w" "\<not> stream_flag s STREAM_SHUT_WR w" using assms(1) by (simp_all add: writes_wf_def)
  have fresh: "op \<notin> set (queues w (StreamWrites s))" using ops_wf_fresh_notin [OF wf(1)] by (simp add: op_def)
  have "write_now env run s op v = Some (None, v)" using assms(2) by (simp add: write_now_def v_def)
  then have r: "async_stream_write env yield run s (async_write_req data) w = Some (Success, w')"
    unfolding async_stream_write_unfold [OF wf(2)] op_def [symmetric] v_def [symmetric] w'_def by simp
  have q: "queues w' (StreamWrites s) = queues w (StreamWrites s) @ [op]" by (simp add: w'_def v_def)
  have f: "write_flag x WRITE_OP_STARTED w' = write_flag x WRITE_OP_STARTED w" "plain_write s x w' = plain_write s x w"
    "wo_in (write_ops w' x) = wo_in (write_ops w x)" "wo_in_offset (write_ops w' x) = wo_in_offset (write_ops w x)" if "x \<noteq> op" for x
    using that unfolding w'_def v_def plain_write_def by (simp_all add: op_def) (simp_all add: write_flag_def)
  have n: "\<not> write_flag op WRITE_OP_STARTED w'" "wo_in (write_ops w' op) = data" "wo_in_offset (write_ops w' op) = 0" "plain_write s op w'"
    using assms(3) unfolding w'_def v_def plain_write_def by (simp_all add: op_def) (simp_all add: write_flag_def)
  have st: "streams w' = streams w" by (simp add: w'_def v_def)
  have u: "unsent x w' = unsent x w" "pending_write s x w' = pending_write s x w" "started_write s x w' = started_write s x w"
    if "x \<in> set (queues w (StreamWrites s))" for x
  proof -
    from that fresh have "x \<noteq> op" by auto
    note f = f [OF this]
    show "unsent x w' = unsent x w" "pending_write s x w' = pending_write s x w" "started_write s x w' = started_write s x w"
      by (simp_all add: unsent_def pending_write_def started_write_def f st)
  qed
  have "outgoing s w' = outgoing s w @ data"
    using n(1,2) u(1) by (simp add: outgoing_def q st unsent_def [of op] cong: map_cong)
  moreover have "ops_wf w'"
  proof -
    have "ops_wf v" using ops_wf_new_write [OF wf(1)] by (simp add: v_def)
    then have "ops_wf (async_append_op (StreamWrites s) op v)" by (rule ops_wf_append) (simp_all add: v_def op_def)
    then show ?thesis by (subst ops_wf_cong [where w = "async_append_op (StreamWrites s) op v"]) (simp_all add: w'_def)
  qed
  moreover have "pending_write s op w'" using n by (simp add: pending_write_def)
  ultimately have "writes_wf s w'"
    using assms(1,2) u(2,3) by (simp add: writes_wf_def q stream_flag_def st) (simp add: w'_def v_def)
  with r \<open>outgoing s w' = outgoing s w @ data\<close> q show ?thesis by (auto simp: op_def)
qed

lemma set_write_flag_sel [simp]:
  "streams (set_write_flag op m w) = streams w" "ops (set_write_flag op m w) = ops w" "queues (set_write_flag op m w) = queues w"
  "next_opid (set_write_flag op m w) = next_opid w"
  "write_ops (set_write_flag op m w) =
     (write_ops w)(op := (write_ops w op)\<lparr>wo_flags := set_flag (wo_flags (write_ops w op)) m\<rparr>)"
  by (simp_all add: set_write_flag_def)

lemma uv_write_sel [simp]:
  "streams (uv_write s op bs w) = (streams w)(s := (streams w s)\<lparr>st_requests := st_requests (streams w s) @ [(op, bs)]\<rparr>)"
  "ops (uv_write s op bs w) = ops w" "queues (uv_write s op bs w) = queues w" "next_opid (uv_write s op bs w) = next_opid w"
  "write_ops (uv_write s op bs w) = write_ops w"
  by (simp_all add: uv_write_def)

lemma free_op_stream [simp]:
  "streams (async_free_op op w) = streams (w :: 'a stream_store_scheme)" "write_ops (async_free_op op w) = write_ops w"
  "next_opid (async_free_op op w) = next_opid w" "op_list (ops w op) = None \<Longrightarrow> queues (async_free_op op w) = queues w"
  "op_callback (ops (async_free_op op w) x) = op_callback (ops w x)"
  by (simp_all add: async_free_op_def unlink_op_def split: option.split)

lemma ops_wf_free [intro]: "ops_wf w \<Longrightarrow> ops_wf (async_free_op op w)"
  unfolding async_free_op_def by (intro ops_wf_upd_op ops_wf_unlink) simp_all

text \<open>
  Encoding: all bytes of the operation are about to be handed over.
\<close>

definition encoded :: "opid \<Rightarrow> 'a stream_store_scheme \<Rightarrow> 'a stream_store_scheme" where
  "encoded op w = upd_write op (\<lambda>x. x\<lparr>wo_out := wo_in x, wo_out_offset := wo_in_offset x, wo_in_offset := length (wo_in x)\<rparr>) w"

lemma encode_buffer_encoded:
  assumes "data_ok (wo_in (write_ops w op))" and "wo_in_offset (write_ops w op) = 0"
  shows "encode_buffer op w = Some (int (length (wo_in (write_ops w op))), encoded op w)"
    and "wo_rest op (encoded op w) = wo_in (write_ops w op)"
  using assms by (simp_all add: encode_buffer_def encoded_def data_ok_def wo_rest_def Let_def)

text \<open>A write on an idle stream is over at once or becomes the request that libuv holds.\<close>

lemma async_write_idle:
  assumes "writes_wf s w" and "queues w (StreamWrites s) = []" and "data_ok data" and "try_write_ok env s"
  shows "\<exists>w'. async_stream_write env yield run s (async_write_req data) w = Some (Success, w') \<and> writes_wf s w' \<and>
    outgoing s w' = outgoing s w @ data \<and> length (queues w' (StreamWrites s)) \<le> 1"
proof -
  define op where "op = next_opid w"
  define v where "v = with_new_write s data w"
  have wf: "ops_wf w" "\<not> stream_flag s STREAM_SHUT_WR w" "\<not> stream_flag s STREAM_WRITING w" "st_requests (streams w s) = []"
    "\<not> stream_flag s STREAM_DELAY_SHUTDOWN w" "queues w (StreamFlush s) = []"
    using assms(1,2) by (simp_all add: writes_wf_def)
  have wfv: "ops_wf v" using ops_wf_new_write [OF wf(1)] by (simp add: v_def)
  have e: "encode_buffer op v = Some (int (length data), encoded op v)" "wo_rest op (encoded op v) = data"
    using encode_buffer_encoded [of v op] assms(3) by (simp_all add: v_def op_def)
  have d: "data \<noteq> []" using assms(3) by (simp add: data_ok_def)
  have out: "wo_out (write_ops (encoded op v) op) = data" by (simp add: encoded_def v_def op_def)
  obtain r bs k where l: "try_write_loop env s op (encoded op v) =
      Some (Inr r, upd_write op (\<lambda>x. x\<lparr>wo_out_offset := k\<rparr>) (upd_stream s (\<lambda>x. x\<lparr>st_sent := st_sent x @ bs\<rparr>) (encoded op v)))"
    "data = bs @ drop k data" "r \<longleftrightarrow> drop k data = []"
    using try_write_loop_spec [OF assms(4), of op "encoded op v"] e(2) d out by auto
  define u where "u = upd_write op (\<lambda>x. x\<lparr>wo_out_offset := k\<rparr>) (upd_stream s (\<lambda>x. x\<lparr>st_sent := st_sent x @ bs\<rparr>) (encoded op v))"
  have u: "ops u = (ops w)(op := zero_op)" "queues u = queues w" "next_opid u = Suc op" "wo_flags (write_ops u op) = 0"
    "wo_in (write_ops u op) = data" "wo_in_offset (write_ops u op) = length data" "wo_stream (write_ops u op) = s"
    "streams u = (streams w)(s := (streams w s)\<lparr>st_sent := st_sent (streams w s) @ bs\<rparr>)" "wo_rest op u = drop k data"
    by (simp_all add: u_def encoded_def v_def op_def wo_rest_def)
  have wfu: "ops_wf u" using wfv by (subst ops_wf_cong [where w = v]) (simp_all add: u_def encoded_def)
  have now: "write_now env run s op v = Some (if r then (Some Success, async_free_op op u)
      else (None, set_write_flag op WRITE_OP_STARTED (uv_write s op (drop k data) u)))"
    using wf(3) assms(2) d l(1) u(4,9) unfolding u_def [symmetric]
    by (cases r) (simp_all add: write_now_def v_def [symmetric] e cleanup_write_def write_flag_def stream_flag_def Let_def,
        simp_all add: v_def op_def write_flag_def)
  show ?thesis
  proof (cases r)
    case True
    have "async_stream_write env yield run s (async_write_req data) w = Some (Success, async_free_op op u)"
      unfolding async_stream_write_unfold [OF wf(2)] op_def [symmetric] v_def [symmetric] now by (simp add: True)
    moreover have "queues (async_free_op op u) = queues w" using u(1,2) by simp
    moreover have "writes_wf s (async_free_op op u)"
      using wf wfu u assms(2) by (auto simp: writes_wf_def stream_flag_def)
    moreover have "outgoing s (async_free_op op u) = outgoing s w @ data"
      using l(2,3) True assms(2) wf(4) u by (simp add: outgoing_def)
    ultimately show ?thesis using assms(2) by simp
  next
    case False
    define w' where "w' = setup_async_write op None (async_append_op (StreamWrites s) op
        (set_write_flag op WRITE_OP_STARTED (uv_write s op (drop k data) u)))"
    have "async_stream_write env yield run s (async_write_req data) w = Some (Success, w')"
      unfolding async_stream_write_unfold [OF wf(2)] op_def [symmetric] v_def [symmetric] now by (simp add: False w'_def)
    moreover have q: "queues w' = (queues w)(StreamWrites s := [op])" using assms(2) by (simp add: w'_def u)
    moreover have st: "streams w' s = (streams w s)\<lparr>st_sent := st_sent (streams w s) @ bs, st_requests := [(op, drop k data)]\<rparr>"
      using wf(4) by (simp add: w'_def u)
    moreover have st': "write_flag op WRITE_OP_STARTED w'" "\<not> write_flag op WRITE_OP_EXPORT w'" "\<not> write_flag op WRITE_OP_CALLBACK w'"
      by (simp_all add: w'_def) (simp_all add: write_flag_def u flag_simps)
    moreover have "ops_wf w'"
    proof -
      have "ops_wf (async_append_op (StreamWrites s) op u)" using wfu u by (intro ops_wf_append) simp_all
      then show ?thesis by (subst ops_wf_cong [where w = "async_append_op (StreamWrites s) op u"]) (simp_all add: w'_def)
    qed
    moreover have "started_write s op w'"
      using st st' assms(3) by (simp add: started_write_def plain_write_def) (simp add: w'_def u)
    ultimately show ?thesis
      using wf l(2) assms(2) by (simp add: writes_wf_def outgoing_def stream_flag_def unsent_def)
  qed
qed

section \<open>libuv completes a write\<close>

text \<open>libuv has written the first request and calls \<open>write_cb\<close>.\<close>

definition complete_write ::
  "'a stream_store_scheme uv_answers \<Rightarrow> 'a stream_wake \<Rightarrow> nat \<Rightarrow> 'a stream_store_scheme \<Rightarrow> 'a stream_store_scheme option" where
  "complete_write env run s w = (case st_requests (streams w s) of
     [] \<Rightarrow> Some w
   | (op, bs) # rest \<Rightarrow> write_cb env run op 0 (upd_stream s (\<lambda>x. x\<lparr>st_requests := rest, st_sent := st_sent x @ bs\<rparr>) w))"

text \<open>The operation that is over: unlinked, finished, freed.\<close>

definition write_over :: "opid \<Rightarrow> 'a stream_store_scheme \<Rightarrow> 'a stream_store_scheme" where
  "write_over op w = async_free_op op (upd_op op (\<lambda>x. x\<lparr>op_status := ASYNC_STATUS_RESOLVED\<rparr>) (unlink_op op w))"

lemma unlink_op_stream [simp]:
  "streams (unlink_op op w) = streams (w :: 'a stream_store_scheme)" "write_ops (unlink_op op w) = write_ops w"
  "next_opid (unlink_op op w) = next_opid w" "op_callback (ops (unlink_op op w) x) = op_callback (ops w x)"
  by (simp_all add: unlink_op_def split: option.split)

lemma write_over_sel [simp]:
  "streams (write_over op w) = streams w" "write_ops (write_over op w) = write_ops w" "next_opid (write_over op w) = next_opid w"
  "op_callback (ops (write_over op w) x) = op_callback (ops w x)"
  by (simp_all add: write_over_def)

lemma write_over_queues:
  assumes "ops_wf w" and "queues w q = op # rest"
  shows "queues (write_over op w) = (queues w)(q := rest)" and "ops_wf (write_over op w)"
proof -
  have l: "op_list (ops w op) = Some q" using assms ops_wf_mem [OF assms(1), of op q] by simp
  then have "queues (unlink_op op w) = (queues w)(q := rest)" "op_list (ops (unlink_op op w) op) = None"
    using assms(2) by (simp_all add: unlink_op_def)
  then show "queues (write_over op w) = (queues w)(q := rest)" by (simp add: write_over_def)
  show "ops_wf (write_over op w)"
    unfolding write_over_def by (intro ops_wf_free ops_wf_upd_op ops_wf_unlink assms(1)) simp
qed

lemma finish_plain:
  assumes "plain_write s op w"
  shows "cleanup_write run op (async_finish_op run op w) = write_over op w"
proof -
  have "async_finish_op run op w = upd_op op (\<lambda>x. x\<lparr>op_status := ASYNC_STATUS_RESOLVED\<rparr>) (unlink_op op w)"
    using assms by (simp add: async_finish_op_def call_callback_def plain_write_def)
  then show ?thesis using assms by (simp add: cleanup_write_def write_over_def plain_write_def write_flag_def)
qed

lemma process_pending:
  assumes "pending_write s op w"
  defines "v \<equiv> set_write_flag op WRITE_OP_STARTED (uv_write s op (wo_in (write_ops w op)) (encoded op w))"
  shows "process_write run op w = Some (False, v)"
    and "queues v = queues w" and "ops v = ops w" and "next_opid v = next_opid w"
    and "streams v = (streams w)(s := (streams w s)\<lparr>st_requests := st_requests (streams w s) @ [(op, wo_in (write_ops w op))]\<rparr>)"
    and "x \<noteq> op \<Longrightarrow> write_ops v x = write_ops w x"
    and "st_requests (streams w s) = [] \<Longrightarrow> started_write s op v"
proof -
  have p: "wo_stream (write_ops w op) = s" "\<not> write_flag op WRITE_OP_EXPORT w" "data_ok (wo_in (write_ops w op))"
    "wo_in_offset (write_ops w op) = 0" "\<not> write_flag op WRITE_OP_CALLBACK w" "op_callback (ops w op) = None"
    using assms(1) by (simp_all add: pending_write_def plain_write_def)
  note e = encode_buffer_encoded [OF p(3,4)]
  have d: "wo_in (write_ops w op) \<noteq> []" using p(3) by (simp add: data_ok_def)
  show "process_write run op w = Some (False, v)"
    using d by (simp add: process_write_def p(1,2) e Let_def v_def)
  show "queues v = queues w" "ops v = ops w" "next_opid v = next_opid w"
    "streams v = (streams w)(s := (streams w s)\<lparr>st_requests := st_requests (streams w s) @ [(op, wo_in (write_ops w op))]\<rparr>)"
    "x \<noteq> op \<Longrightarrow> write_ops v x = write_ops w x"
    by (simp_all add: v_def encoded_def)
  show "started_write s op v" if "st_requests (streams w s) = []"
    using p that by (simp add: started_write_def plain_write_def v_def encoded_def write_flag_def flag_simps)
qed

lemma complete_write_step:
  assumes "writes_wf s w"
  shows "\<exists>w'. complete_write env run s w = Some w' \<and> writes_wf s w' \<and> outgoing s w' = outgoing s w \<and>
    queues w' (StreamWrites s) = tl (queues w (StreamWrites s))"
proof (cases "queues w (StreamWrites s)")
  case Nil
  then have "complete_write env run s w = Some w" using assms by (simp add: complete_write_def writes_wf_def)
  with assms Nil show ?thesis by simp
next
  case (Cons op rest)
  then obtain bs where op: "started_write s op w" "st_requests (streams w s) = [(op, bs)]" and rest: "\<forall>x\<in>set rest. pending_write s x w"
    using assms by (auto simp: writes_wf_def started_write_def)
  have wf: "ops_wf w" "\<not> stream_flag s STREAM_SHUT_WR w" "\<not> stream_flag s STREAM_DELAY_SHUTDOWN w" "queues w (StreamFlush s) = []"
    "\<not> stream_flag s STREAM_WRITING w"
    using assms by (simp_all add: writes_wf_def)
  have d: "op \<notin> set rest" using ops_wf_distinct [OF wf(1), of "StreamWrites s"] Cons by simp
  have pl: "wo_stream (write_ops w op) = s" "wo_in_offset (write_ops w op) = length (wo_in (write_ops w op))" "plain_write s op w"
    using op(1) by (simp_all add: started_write_def plain_write_def)
  define w1 where "w1 = upd_write op (\<lambda>x. x\<lparr>wo_code := 0\<rparr>) (set_stream_flag s STREAM_WRITING
      (upd_stream s (\<lambda>x. x\<lparr>st_requests := [], st_sent := st_sent x @ bs\<rparr>) w))"
  define w2 where "w2 = write_over op w1"
  have "ops_wf w1" using wf(1) by (subst ops_wf_cong [where w = w]) (simp_all add: w1_def)
  moreover have "queues w1 (StreamWrites s) = op # rest" using Cons by (simp add: w1_def)
  ultimately have w2q: "queues w2 = (queues w)(StreamWrites s := rest)" "ops_wf w2"
    using write_over_queues [of w1 "StreamWrites s" op rest] by (simp_all add: w2_def) (simp add: w1_def)
  have w2: "streams w2 s = (streams w s)\<lparr>st_requests := [], st_sent := st_sent (streams w s) @ bs,
      st_flags := set_flag (st_flags (streams w s)) STREAM_WRITING\<rparr>" "next_opid w2 = next_opid w"
    "x \<noteq> op \<Longrightarrow> write_ops w2 x = write_ops w x" "op_callback (ops w2 x) = op_callback (ops w x)" for x
    by (simp_all add: w2_def w1_def)
  have "plain_write s op w1" using pl(3) by (simp add: w1_def plain_write_def write_flag_def)
  then have cl: "cleanup_write run op (async_finish_op run op w1) = w2" unfolding w2_def by (rule finish_plain)
  have cb: "complete_write env run s w = map_option (clear_stream_flag s STREAM_WRITING)
      (Option.bind (start_next run s w2) (writes_done env run s))"
    using op(2) pl(1,2) unfolding cl [symmetric] w1_def
    by (simp add: complete_write_def write_cb_def Let_def)
  have nd: "\<not> stream_flag s STREAM_DELAY_SHUTDOWN w2" using wf(3) by (simp add: stream_flag_def w2 flag_simps)
  have fl: "queues w2 (StreamFlush s) = []" using wf(4) by (simp add: w2q)
  show ?thesis
  proof (cases rest)
    case Nil
    have "start_next run s w2 = Some w2" by (simp add: start_next_def w2q Nil)
    moreover have "writes_done env run s w2 = Some w2" using nd fl by (simp add: writes_done_def w2q Nil)
    ultimately have r: "complete_write env run s w = Some (clear_stream_flag s STREAM_WRITING w2)" unfolding cb by simp
    have "writes_wf s (clear_stream_flag s STREAM_WRITING w2)"
      using wf w2q nd Nil by (simp add: writes_wf_def stream_flag_def w2 flag_simps) (simp add: ops_wf_def)
    moreover have "outgoing s (clear_stream_flag s STREAM_WRITING w2) = outgoing s w"
      using op Cons Nil by (simp add: outgoing_def w2 w2q unsent_def started_write_def)
    ultimately show ?thesis using r Cons Nil w2q by simp
  next
    case (Cons x rest')
    have px: "pending_write s y w2" "unsent y w2 = unsent y w" "y \<noteq> op" if "y \<in> set rest" for y
    proof -
      from that d show "y \<noteq> op" by auto
      from w2(3) [OF this] w2(4) [of y] have eq: "write_ops w2 y = write_ops w y" "op_callback (ops w2 y) = op_callback (ops w y)" .
      with rest that show "pending_write s y w2" by (simp add: pending_write_def plain_write_def write_flag_def)
      show "unsent y w2 = unsent y w" using eq by (simp add: unsent_def write_flag_def)
    qed
    define v where "v = set_write_flag x WRITE_OP_STARTED (uv_write s x (wo_in (write_ops w2 x)) (encoded x w2))"
    have "pending_write s x w2" using px(1) Cons by simp
    note v = process_pending [OF this, folded v_def]
    define w' where "w' = clear_stream_flag s STREAM_WRITING v"
    have q: "queues w' = (queues w)(StreamWrites s := x # rest')" by (simp add: w'_def v(2) w2q Cons)
    have "start_next run s w2 = Some v"
      using v(1) px(1) by (simp add: start_next_def w2q Cons pending_write_def)
    moreover have "writes_done env run s v = Some v" by (simp add: writes_done_def v(2) w2q Cons)
    ultimately have r: "complete_write env run s w = Some w'" unfolding cb by (simp add: w'_def)
    have s': "streams w' s = (streams w s)\<lparr>st_requests := [(x, wo_in (write_ops w2 x))], st_sent := st_sent (streams w s) @ bs,
        st_flags := clear_flag (set_flag (st_flags (streams w s)) STREAM_WRITING) STREAM_WRITING\<rparr>"
      by (simp add: w'_def v(5) w2)
    have st: "started_write s x w'"
      using v(7) by (simp add: w2) (simp add: w'_def started_write_def plain_write_def write_flag_def)
    have d': "x \<notin> set rest'" using ops_wf_distinct [OF w2q(2), of "StreamWrites s"] by (simp add: w2q Cons)
    have py: "pending_write s y w'" "unsent y w' = unsent y w" if "y \<in> set rest'" for y
    proof -
      from that d' have "y \<noteq> x" by auto
      then have eq: "write_ops w' y = write_ops w2 y" "ops w' = ops w2" by (simp_all add: w'_def v(3,6))
      with px(1,2) [of y] that Cons show "pending_write s y w'" "unsent y w' = unsent y w"
        by (simp_all add: pending_write_def plain_write_def write_flag_def unsent_def)
    qed
    have "ops_wf w'" using w2q(2) by (subst ops_wf_cong [where w = w2]) (simp_all add: w'_def v(2-4))
    then have "writes_wf s w'"
      using wf st py(1) by (simp add: writes_wf_def q stream_flag_def s' flag_simps)
    moreover have "outgoing s w' = outgoing s w"
    proof -
      have "unsent x w = wo_in (write_ops w2 x)"
        using px(2) [of x] px(1) [of x] Cons by (simp add: unsent_def pending_write_def)
      moreover have "unsent x w' = []" "unsent op w = []" using st op(1) by (simp_all add: unsent_def started_write_def)
      ultimately show ?thesis
        using py(2) \<open>queues w (StreamWrites s) = op # rest\<close> Cons
        by (simp add: outgoing_def q s' op(2) cong: map_cong)
    qed
    ultimately show ?thesis using r q \<open>queues w (StreamWrites s) = op # rest\<close> Cons by simp
  qed
qed

section \<open>The bytes in their order\<close>

datatype write_event = Send_bytes "byte list" | Completed

text \<open>Asynchronous writes, which all must succeed, and completions in any order.\<close>

fun write_events ::
  "'a stream_store_scheme uv_answers \<Rightarrow> 'a stream_yield \<Rightarrow> 'a stream_wake \<Rightarrow> nat \<Rightarrow> write_event list \<Rightarrow> 'a stream_store_scheme \<Rightarrow>
   'a stream_store_scheme option" where
  "write_events env yield run s [] w = Some w"
| "write_events env yield run s (Send_bytes bs # es) w = (case async_stream_write env yield run s (async_write_req bs) w of
     Some (Success, w1) \<Rightarrow> write_events env yield run s es w1
   | _ \<Rightarrow> None)"
| "write_events env yield run s (Completed # es) w = Option.bind (complete_write env run s w) (write_events env yield run s es)"

fun sent_data :: "write_event list \<Rightarrow> byte list" where
  "sent_data [] = []"
| "sent_data (Send_bytes bs # es) = bs @ sent_data es"
| "sent_data (Completed # es) = sent_data es"

lemma async_write_step:
  assumes "writes_wf s w" and "data_ok data" and "try_write_ok env s"
  shows "\<exists>w'. async_stream_write env yield run s (async_write_req data) w = Some (Success, w') \<and> writes_wf s w' \<and>
    outgoing s w' = outgoing s w @ data \<and> length (queues w' (StreamWrites s)) \<le> Suc (length (queues w (StreamWrites s)))"
proof (cases "queues w (StreamWrites s)")
  case Nil
  then show ?thesis using async_write_idle [OF assms(1) Nil assms(2,3), of yield run] by auto
next
  case (Cons op rest)
  then show ?thesis using async_write_queued [OF assms(1) Cons assms(2), of env yield run] by auto
qed

lemma write_events_spec:
  assumes "writes_wf s w" and "try_write_ok env s" and "\<forall>bs. Send_bytes bs \<in> set es \<longrightarrow> data_ok bs"
  shows "\<exists>u. write_events env yield run s es w = Some u \<and> writes_wf s u \<and> outgoing s u = outgoing s w @ sent_data es \<and>
    length (queues u (StreamWrites s)) \<le> length (queues w (StreamWrites s)) + length es"
  using assms(1,3)
proof (induction es arbitrary: w)
  case Nil
  then show ?case by simp
next
  case (Cons e es)
  show ?case
  proof (cases e)
    case (Send_bytes bs)
    with Cons.prems(2) have "data_ok bs" by simp
    from async_write_step [OF Cons.prems(1) this assms(2), of yield run] obtain w1 where w1:
      "async_stream_write env yield run s (async_write_req bs) w = Some (Success, w1)" "writes_wf s w1"
      "outgoing s w1 = outgoing s w @ bs" "length (queues w1 (StreamWrites s)) \<le> Suc (length (queues w (StreamWrites s)))" by auto
    from Cons.IH [OF w1(2)] Cons.prems(2) obtain u where
      "write_events env yield run s es w1 = Some u" "writes_wf s u" "outgoing s u = outgoing s w1 @ sent_data es"
      "length (queues u (StreamWrites s)) \<le> length (queues w1 (StreamWrites s)) + length es" by auto
    with w1 Send_bytes show ?thesis by auto
  next
    case Completed
    from complete_write_step [OF Cons.prems(1), of env run] obtain w1 where w1:
      "complete_write env run s w = Some w1" "writes_wf s w1" "outgoing s w1 = outgoing s w"
      "queues w1 (StreamWrites s) = tl (queues w (StreamWrites s))" by auto
    from Cons.IH [OF w1(2)] Cons.prems(2) obtain u where
      "write_events env yield run s es w1 = Some u" "writes_wf s u" "outgoing s u = outgoing s w1 @ sent_data es"
      "length (queues u (StreamWrites s)) \<le> length (queues w1 (StreamWrites s)) + length es" by auto
    with w1 Completed show ?thesis by auto
  qed
qed

lemma write_events_append:
  "write_events env yield run s (es @ fs) w = Option.bind (write_events env yield run s es w) (write_events env yield run s fs)"
  by (induction env yield run s es w rule: write_events.induct)
    (simp_all split: option.split stream_result.split bind_split)

lemma complete_all:
  assumes "writes_wf s w" and "length (queues w (StreamWrites s)) \<le> n"
  shows "\<exists>u. write_events env yield run s (replicate n Completed) w = Some u \<and> queues u (StreamWrites s) = [] \<and>
    st_sent (streams u s) = outgoing s w"
  using assms
proof (induction n arbitrary: w)
  case 0
  then show ?case by (simp add: outgoing_def writes_wf_def)
next
  case (Suc n)
  from complete_write_step [OF Suc.prems(1), of env run] obtain w1 where w1:
    "complete_write env run s w = Some w1" "writes_wf s w1" "outgoing s w1 = outgoing s w"
    "queues w1 (StreamWrites s) = tl (queues w (StreamWrites s))" by auto
  then have "length (queues w1 (StreamWrites s)) \<le> n" using Suc.prems(2) by simp
  from Suc.IH [OF w1(2) this] show ?case using w1(1,3) by auto
qed


text \<open>A handle that takes one byte at a time, and one that never takes any.\<close>

definition slow_handle :: "'w uv_answers" where
  "slow_handle = \<lparr>try_write = \<lambda>_ bs _. if length bs = 2 then UV_EAGAIN else 1, start_shutdown = \<lambda>_ _. 0,
     pending_handles = \<lambda>_ _. 0, accept_handle = \<lambda>_ _. 0\<rparr>"


end
