(* ===== verification/StreamEnds.thy ===== *)
theory StreamEnds
  imports WriteProps
begin

text \<open>
  How streams end: closing refuses everything afterwards; what goes wrong with the callbacks of
  asynchronous writes and with writes that are cancelled while libuv holds them; and the streams in
  memory, which give back what was written.
\<close>

section \<open>Closing\<close>

lemma has_flag_set_mono: "has_flag m k \<Longrightarrow> has_flag (set_flag x m) k"
  by (simp add: has_flag_def set_flag_def bit.conj_disj_distrib2 or_eq_0_iff)



section \<open>Callbacks of asynchronous writes\<close>

text \<open>A callback that records its calls with the status of the operation.\<close>

definition log_run :: "(opid \<times> async_status) list stream_wake" where
  "log_run op w = w\<lparr>stream_store.more := stream_store.more w @ [(op, op_status (ops w op))]\<rparr>"

lemma log_run_sel [simp]:
  "ops (log_run op w) = ops w" "queues (log_run op w) = queues w" "streams (log_run op w) = streams w"
  "write_ops (log_run op w) = write_ops w" "stream_store.more (log_run op w) = stream_store.more w @ [(op, op_status (ops w op))]"
  by (simp_all add: log_run_def)

lemma free_op_more [simp]: "stream_store.more (async_free_op op w) = stream_store.more w"
  "stream_store.more (unlink_op op w) = stream_store.more w" "stream_store.more (set_stream_flag s m w) = stream_store.more w"
  "stream_store.more (clear_stream_flag s m w) = stream_store.more w"
  by (simp_all add: async_free_op_def unlink_op_def set_stream_flag_def clear_stream_flag_def split: option.split)

text \<open>
  The callback of an asynchronous write that libuv had to hold is called twice when the write is over, and
  both times with a resolved operation, also when the write failed: the awaitable is resolved in either
  case, and the references that the callback drops are dropped twice.
\<close>

theorem async_write_callback_twice:
  assumes "ops_wf w" and "queues w (StreamWrites s) = [op]" and "queues w (StreamFlush s) = []" and "\<not> stream_flag s STREAM_DELAY_SHUTDOWN w"
    and "wo_stream (write_ops w op) = s" and "write_flag op WRITE_OP_CALLBACK w" and "op_callback (ops w op) = Some Finish_async_write"
    and "status < 0 \<or> wo_in_offset (write_ops w op) = length (wo_in (write_ops w op))"
  shows "\<exists>w'. write_cb env log_run op status w = Some w' \<and>
    stream_store.more w' = stream_store.more w @ [(op, ASYNC_STATUS_RESOLVED), (op, ASYNC_STATUS_RESOLVED)]"
proof -
  define w1 where "w1 = upd_write op (\<lambda>x. x\<lparr>wo_code := status\<rparr>) (set_stream_flag s STREAM_WRITING w)"
  define w2 where "w2 = upd_op op (\<lambda>x. x\<lparr>op_status := ASYNC_STATUS_RESOLVED\<rparr>) (unlink_op op w1)"
  have l: "op_list (ops w1 op) = Some (StreamWrites s)"
    using assms(2) ops_wf_mem [OF assms(1), of op "StreamWrites s"] by (simp add: w1_def)
  have w2: "queues w2 = (queues w)(StreamWrites s := [])" "op_list (ops w2 op) = None" "op_status (ops w2 op) = ASYNC_STATUS_RESOLVED"
    "op_callback (ops w2 op) = Some Finish_async_write" "write_flag op WRITE_OP_CALLBACK w2"
    "st_flags (streams w2 s) = set_flag (st_flags (streams w s)) STREAM_WRITING" "stream_store.more w2 = stream_store.more w"
    using l assms(2,6,7) by (simp_all add: w2_def unlink_op_def) (simp_all add: w1_def write_flag_def)
  have f: "async_finish_op log_run op w1 = log_run op w2"
    using w2(4) by (simp add: async_finish_op_def w2_def [symmetric] call_callback_def)
  define w3 where "w3 = async_free_op op (log_run op (log_run op w2))"
  have c: "cleanup_write log_run op (async_finish_op log_run op w1) = w3"
    using w2(5) by (simp add: f cleanup_write_def w3_def write_flag_def)
  have w3: "queues w3 = (queues w)(StreamWrites s := [])" "st_flags (streams w3 s) = set_flag (st_flags (streams w s)) STREAM_WRITING"
    "stream_store.more w3 = stream_store.more w @ [(op, ASYNC_STATUS_RESOLVED), (op, ASYNC_STATUS_RESOLVED)]"
    using w2 by (simp_all add: w3_def)
  have "write_cb env log_run op status w = map_option (clear_stream_flag s STREAM_WRITING)
      (Option.bind (start_next log_run s w3) (writes_done env log_run s))"
    using assms(5,8) unfolding c [symmetric] w1_def by (simp add: write_cb_def Let_def)
  moreover have "start_next log_run s w3 = Some w3" by (simp add: start_next_def w3(1))
  moreover have "writes_done env log_run s w3 = Some w3"
    using assms(3,4) by (simp add: writes_done_def w3 stream_flag_def flag_simps)
  ultimately show ?thesis by (simp add: w3(3))
qed

text \<open>A write of two bytes with a callback that libuv holds.\<close>

definition held_write :: "(opid \<times> async_status) list stream_store_scheme" where
  "held_write = async_append_op (StreamWrites 0) 1 (upd_op 1 (\<lambda>x. x\<lparr>op_callback := Some Finish_async_write\<rparr>)
     (upd_write 1 (\<lambda>_. \<lparr>wo_stream = 0, wo_context = None, wo_flags = WRITE_OP_CALLBACK OR WRITE_OP_ASYNC OR WRITE_OP_STARTED,
        wo_code = 0, wo_in = [1, 2], wo_in_offset = 2, wo_out = [1, 2], wo_out_offset = 0\<rparr>) (snd (async_alloc_op (new_stream [])))))"

lemma held_write_sel [simp]:
  "ops_wf held_write" "queues held_write = (\<lambda>_. [])(StreamWrites 0 := [Suc 0])" "st_flags (streams held_write 0) = 0"
  "wo_stream (write_ops held_write (Suc 0)) = 0" "write_flag (Suc 0) WRITE_OP_CALLBACK held_write"
  "op_callback (ops held_write (Suc 0)) = Some Finish_async_write" "wo_in (write_ops held_write (Suc 0)) = [1, 2]"
  "wo_in_offset (write_ops held_write (Suc 0)) = 2" "stream_store.more held_write = []"
proof -
  let ?w = "snd (async_alloc_op (new_stream ([] :: (opid \<times> async_status) list)))"
  have [simp]: "queues ?w = (\<lambda>_. [])" "ops ?w = (\<lambda>_. zero_op)" "next_opid ?w = 2"
    "stream_store.more ?w = []"
    by (auto simp: async_alloc_op_def)
  have "ops_wf ?w" by (simp add: ops_wf_def)
  then show "ops_wf held_write"
    unfolding held_write_def by (intro ops_wf_append) (auto simp: ops_wf_def)
qed (simp_all add: held_write_def write_flag_def has_flag_def async_append_op_def async_alloc_op_def)

theorem async_write_callback_twice_witness:
  "\<exists>w'. write_cb slow_handle log_run 1 (- 32) held_write = Some w' \<and>
    stream_store.more w' = [(1, ASYNC_STATUS_RESOLVED), (1, ASYNC_STATUS_RESOLVED)]"
  using async_write_callback_twice [of held_write 0 1 "- 32" slow_handle] by (simp add: stream_flag_def)

section \<open>Cancelled writes\<close>

text \<open>The task \<open>t\<close> has handed a write to libuv and is about to wait for it.\<close>

definition write_waits :: "nat \<Rightarrow> nat \<Rightarrow> opid \<Rightarrow> 'a stream_store_scheme \<Rightarrow> bool" where
  "write_waits t s op w \<longleftrightarrow> ops_wf w \<and> op < next_opid w \<and> queues w (StreamWrites s) = [op] \<and> queues w (StreamFlush s) = [] \<and>
     \<not> stream_flag s STREAM_DELAY_SHUTDOWN w \<and> wo_stream (write_ops w op) = s \<and> write_flag op WRITE_OP_STARTED w \<and>
     \<not> write_flag op WRITE_OP_CALLBACK w \<and> wo_in_offset (write_ops w op) = length (wo_in (write_ops w op)) \<and>
     g_task w = Some t \<and> first_error (await_checks_task t w) = None \<and> t_fiber (tasks w t) \<noteq> None \<and>
     \<not> has_flag (op_flags (ops w op)) ASYNC_OP_FLAG_DEFER \<and>
     (\<forall>c. x_cancel (contexts w (g_context w)) = Some c \<longrightarrow> \<not> triggered (cancels w c))"

text \<open>The cancellation of the context switches to the task with the operation failed.\<close>

lemma cancel_op_state:
  assumes "op_status (ops u op) = ASYNC_STATUS_RUNNING" and "op_arg (ops u op) = t" and "t_fiber (tasks u t) \<noteq> None"
    and "\<not> has_flag (op_flags (ops u op)) ASYNC_OP_FLAG_DEFER"
  shows "\<exists>u'. cancel_op bounce run op err u = Some u' \<and> ops u' = ops (mark_cancelled op err u) \<and> queues u' = queues u \<and>
    next_opid u' = next_opid u \<and> s_flags u' = s_flags u \<and> task_store.more u' = task_store.more u"
proof -
  let ?m = "mark_cancelled op err u"
  have m: "queues ?m = queues u" "next_opid ?m = next_opid u" "s_flags ?m = s_flags u" "task_store.more ?m = task_store.more u"
    "tasks ?m = tasks u"
    by (simp_all add: mark_cancelled_def upd_op_def)
  obtain f where f: "t_fiber (tasks u t) = Some f" using assms(3) by auto
  have "\<not> has_flag (op_flags (ops ?m op)) ASYNC_OP_FLAG_DEFER" using assms(4) by (simp add: mark_cancelled_def flag_simps)
  then obtain u' where "reschedule_task bounce run op t ?m = Some u'"
    using f by (simp add: reschedule_task_def m(5) settled_def Let_def)
  with reschedule_task_bounce [OF this] assms(1,2) m show ?thesis by (simp add: cancel_op_def)
qed

lemma write_cb_resumes:
  assumes "ops_wf w" and "queues w (StreamWrites s) = [op]" and "queues w (StreamFlush s) = []" and "\<not> stream_flag s STREAM_DELAY_SHUTDOWN w"
    and "wo_stream (write_ops w op) = s" and "\<not> write_flag op WRITE_OP_CALLBACK w" and "op_callback (ops w op) \<noteq> None"
    and "wo_in_offset (write_ops w op) = length (wo_in (write_ops w op))"
  shows "\<exists>w'. write_cb env log_run op status w = Some w' \<and> stream_store.more w' = stream_store.more w @ [(op, ASYNC_STATUS_RESOLVED)]"
proof -
  define w1 where "w1 = upd_write op (\<lambda>x. x\<lparr>wo_code := status\<rparr>) (set_stream_flag s STREAM_WRITING w)"
  define w2 where "w2 = log_run op (upd_op op (\<lambda>x. x\<lparr>op_status := ASYNC_STATUS_RESOLVED\<rparr>) (unlink_op op w1))"
  have l: "op_list (ops w1 op) = Some (StreamWrites s)"
    using assms(2) ops_wf_mem [OF assms(1), of op "StreamWrites s"] by (simp add: w1_def)
  have w2: "queues w2 = (queues w)(StreamWrites s := [])" "op_list (ops w2 op) = None" "\<not> write_flag op WRITE_OP_CALLBACK w2"
    "st_flags (streams w2 s) = set_flag (st_flags (streams w s)) STREAM_WRITING"
    "stream_store.more w2 = stream_store.more w @ [(op, ASYNC_STATUS_RESOLVED)]"
    using l assms(2,6) by (simp_all add: w2_def unlink_op_def) (simp_all add: w1_def write_flag_def)
  have "async_finish_op log_run op w1 = w2"
    using assms(7) by (auto simp: async_finish_op_def w2_def call_callback_def w1_def)
  then have "write_cb env log_run op status w = map_option (clear_stream_flag s STREAM_WRITING)
      (Option.bind (start_next log_run s (async_free_op op w2)) (writes_done env log_run s))"
    using assms(5,8) w2(3) by (simp add: write_cb_def Let_def w1_def [symmetric] cleanup_write_def)
  moreover have "start_next log_run s (async_free_op op w2) = Some (async_free_op op w2)" using w2 by (simp add: start_next_def)
  moreover have "writes_done env log_run s (async_free_op op w2) = Some (async_free_op op w2)"
    using assms(3,4) w2 by (simp add: writes_done_def stream_flag_def flag_simps)
  ultimately show ?thesis by (simp add: w2(5))
qed

lemma register_op:
  "op_status (ops (await_register canc cf cb a op w) op) = ASYNC_STATUS_RUNNING"
  "op_callback (ops (await_register canc cf cb a op w) op) = Some cb" "op_arg (ops (await_register canc cf cb a op w) op) = a"
  "op_flags (ops (await_register canc cf cb a op w) op) = op_flags (ops w op)"
  "tasks (await_register canc cf cb a op w) = tasks w" "next_opid (await_register canc cf cb a op w) = next_opid w"
  by (simp_all add: await_register_def async_append_op_def Let_def upd_op_def upd_queue_def upd_cancel_def split: option.split)

lemma prepend_op_sel [simp]:
  "streams (async_prepend_op q op w) = streams (w :: 'a stream_store_scheme)" "write_ops (async_prepend_op q op w) = write_ops w"
  "next_opid (async_prepend_op q op w) = next_opid w" "queues (async_prepend_op q op w) = (queues w)(q := op # queues w q)"
  "ops (async_prepend_op q op w) = (ops w)(op := (ops w op)\<lparr>op_list := Some q\<rparr>)"
  "stream_store.more (async_prepend_op q op w) = stream_store.more w"
  by (simp_all add: async_prepend_op_def)

lemma reset_op_sel [simp]:
  "streams (async_reset_op op w) = streams (w :: 'a stream_store_scheme)" "write_ops (async_reset_op op w) = write_ops w"
  "next_opid (async_reset_op op w) = next_opid w" "op_list (ops (async_reset_op op w) op) = None"
  "op_callback (ops (async_reset_op op w) op) = op_callback (ops w op)" "op_arg (ops (async_reset_op op w) op) = op_arg (ops w op)"
  "op_flags (ops (async_reset_op op w) op) = 0" "stream_store.more (async_reset_op op w) = stream_store.more w"
  "ops_wf w \<Longrightarrow> ops_wf (async_reset_op op w)"
  by (simp_all add: async_reset_op_def ops_wf_unlink ops_wf_upd_op)

lemma reset_op_queue:
  assumes "ops_wf w" and "queues w q = [op]"
  shows "queues (async_reset_op op w) = (queues w)(q := [])"
proof -
  have "op_list (ops w op) = Some q" using assms ops_wf_mem [OF assms(1), of op q] by simp
  then show ?thesis using assms(2) by (simp add: async_reset_op_def unlink_op_def)
qed

text \<open>
  A write that is cancelled while libuv holds it goes on in the background, but its operation keeps
  the callback that resumes the task, without the mark of the cancellation: when libuv has completed the
  write, the task is resumed again, wherever it waits by then.
\<close>

theorem cancelled_write_resumes_task:
  assumes "write_waits t s op w" and cancelled: "\<And>u. yield Suspend u = the (cancel_op bounce wake op err u)"
  shows "\<exists>w1 w2. await_write yield wake s op w = Some (Thrown err, w1) \<and> op_callback (ops w1 op) = Some Continue_op_task \<and>
    op_arg (ops w1 op) = t \<and> op_flags (ops w1 op) = 0 \<and>
    write_cb env log_run op status w1 = Some w2 \<and> stream_store.more w2 = stream_store.more w @ [(op, ASYNC_STATUS_RESOLVED)]"
proof -
  note a = assms(1) [unfolded write_waits_def]
  define bg where "bg = async_context_is_background (g_context w) w"
  define v where "v = stream_ref async_unref_enter bg s w"
  define canc where "canc = await_cancellation op v"
  define u where "u = upd_task t (\<lambda>x. x\<lparr>t_status := TASK_SUSPENDED\<rparr>)
      (await_register canc Cancel_op Continue_op_task t op (upd_op op (\<lambda>x. x\<lparr>op_result := IS_NULL\<rparr>) v))"
  have l: "op_list (ops w op) = Some (StreamWrites s)"
    using a ops_wf_mem [of w op "StreamWrites s"] by simp
  have more: "task_store.more u = task_store.more v" by (simp add: u_def upd_task_def upd_op_def)
  have st: "streams u = streams v" "write_ops u = write_ops v" "stream_store.more u = stream_store.more v"
    by (rule stream_store_more_eq, rule more)+
  have u: "op_status (ops u op) = ASYNC_STATUS_RUNNING" "op_callback (ops u op) = Some Continue_op_task" "op_arg (ops u op) = t"
    "op_flags (ops u op) = op_flags (ops w op)" "queues u = queues w" "s_flags u = s_flags w" "t_fiber (tasks u t) \<noteq> None"
    using l a by (simp_all add: u_def register_op upd_task_def v_def)
  have "ops_wf v" using a by (subst ops_wf_cong [where w = w]) (simp_all add: v_def)
  then have "ops_wf (await_register canc Cancel_op Continue_op_task t op (upd_op op (\<lambda>x. x\<lparr>op_result := IS_NULL\<rparr>) v))"
    using a by (intro ops_wf_register ops_wf_upd_op) (simp_all add: v_def)
  then have wfu: "ops_wf u" "next_opid u = next_opid w"
    by (simp_all add: u_def upd_task_def ops_wf_def register_op v_def)
  have df: "\<not> has_flag (op_flags (ops u op)) ASYNC_OP_FLAG_DEFER" using u(4) a by simp
  obtain u' where u': "cancel_op bounce wake op err u = Some u'" "ops u' = ops (mark_cancelled op err u)" "queues u' = queues u"
    "next_opid u' = next_opid u" "s_flags u' = s_flags u" "task_store.more u' = task_store.more u"
    using cancel_op_state [OF u(1,3,7) df, of wake err] by blast
  have y: "yield Suspend u = u'" by (simp add: cancelled u'(1))
  have st': "streams u' = streams v" "write_ops u' = write_ops v" "stream_store.more u' = stream_store.more v"
    using stream_store_more_eq [OF u'(6)] st by simp_all
  have o': "op_callback (ops u' op) = Some Continue_op_task" "op_arg (ops u' op) = t" "op_cancel (ops u' op) = None"
    "op_status (ops u' op) = ASYNC_STATUS_FAILED" "op_result (ops u' op) = err" "ops_wf u'"
    using u(2,3) wfu(1) by (simp_all add: u'(2) mark_cancelled_def)
      (subst ops_wf_cong [where w = u]; simp add: u' mark_cancelled_def)
  have e: "\<not> sched_flag SCHED_ERROR u'"
    using a u'(5) u(6) by (auto simp: await_checks_task_def sched_flag_def split: if_splits)
  have chk: "g_task v = Some t" "first_error (await_checks_task t v) = None"
    using a by (simp_all add: v_def await_checks_task_def sched_flag_def)
  have cn: "\<not> triggered (cancels v c)" if "await_cancellation op v = Some c" for c
    using that a by (simp add: await_cancellation_def v_def split: if_splits)
  have aw: "async_await_op yield op v = Some (await_finish canc op u')"
    using async_await_op_task [OF chk cn, where yield = yield] y by (simp add: canc_def u_def)
  have f: "await_finish canc op u' = (Await_failure, u')"
    using e o'(3,4) by (simp add: await_finish_def Let_def split: option.split)
  define x where "x = stream_ref async_unref_exit bg s u'"
  define w1 where "w1 = setup_async_write op (Some (g_context x)) (async_prepend_op (StreamWrites s) op (async_reset_op op x))"
  have sa: "stream_await_op yield s op w = Some (Await_failure, x)"
    unfolding stream_await_op_def Let_def bg_def [symmetric] v_def [symmetric] aw by (simp add: f x_def)
  have r: "await_write yield wake s op w = Some (Thrown err, w1)"
    using a o'(5) by (simp add: await_write_def sa w1_def Let_def write_flag_def x_def st') (simp add: v_def)
  have x: "queues x = queues w" "ops_wf x" "next_opid x = next_opid w" "ops x = ops u'" "write_ops x = write_ops w"
    "st_flags (streams x s) = st_flags (streams w s)" "stream_store.more x = stream_store.more w"
    using u(5) u'(3,4) wfu(2) o'(6) by (simp_all add: x_def st' v_def stream_ref_def split_beta)
      (subst ops_wf_cong [where w = u']; simp add: upd_stream_def)
  have w1: "queues w1 (StreamWrites s) = [op]" "queues w1 (StreamFlush s) = []" "st_flags (streams w1 s) = st_flags (streams w s)"
    "op_callback (ops w1 op) = Some Continue_op_task" "op_arg (ops w1 op) = t" "op_flags (ops w1 op) = 0"
    "stream_store.more w1 = stream_store.more w"
    using reset_op_queue [OF x(2), of "StreamWrites s" op] a x o'(1,2) by (simp_all add: w1_def setup_async_write_def)
  have w1o: "wo_stream (write_ops w1 op) = s" "\<not> write_flag op WRITE_OP_CALLBACK w1"
    "wo_in_offset (write_ops w1 op) = length (wo_in (write_ops w1 op))"
    using a by (simp_all add: w1_def x) (simp add: write_flag_def x)
  have "ops_wf (async_prepend_op (StreamWrites s) op (async_reset_op op x))"
    using a x(2,3) by (intro ops_wf_prepend) simp_all
  then have "ops_wf w1" by (subst ops_wf_cong [where w = "async_prepend_op (StreamWrites s) op (async_reset_op op x)"])
      (simp_all add: w1_def)
  from write_cb_resumes [OF this w1(1,2) _ w1o(1,2) _ w1o(3), of env status] w1 a r show ?thesis
    by (auto simp: stream_flag_def)
qed

text \<open>Task 0 waits for a write of two bytes that libuv holds.\<close>

definition handed_write :: "(opid \<times> async_status) list stream_store_scheme" where
  "handed_write = (async_append_op (StreamWrites 0) 1
     (upd_write 1 (\<lambda>_. \<lparr>wo_stream = 0, wo_context = None, wo_flags = WRITE_OP_STARTED, wo_code = 0, wo_in = [1, 2],
        wo_in_offset = 2, wo_out = [1, 2], wo_out_offset = 0\<rparr>) (snd (async_alloc_op (new_stream [])))))
     \<lparr>g_task := Some 0, tasks := (\<lambda>_. zero_task\<lparr>t_fiber := Some 1, t_status := TASK_RUNNING\<rparr>)\<rparr>"

lemma handed_write_waits: "write_waits 0 0 1 handed_write"
proof -
  let ?w = "snd (async_alloc_op (new_stream ([] :: (opid \<times> async_status) list)))"
  have [simp]: "queues ?w = (\<lambda>_. [])" "ops ?w = (\<lambda>_. zero_op)" "next_opid ?w = 2" by (auto simp: async_alloc_op_def)
  have "ops_wf ?w" by (simp add: ops_wf_def)
  then have "ops_wf handed_write"
    unfolding handed_write_def
    by (subst ops_wf_cong [where w = "async_append_op (StreamWrites 0) 1 ?w"]) (auto intro!: ops_wf_append)
  then show ?thesis
    by (simp add: write_waits_def handed_write_def write_flag_def has_flag_def stream_flag_def await_checks_task_def sched_flag_def
        async_append_op_def async_alloc_op_def)
qed

theorem cancelled_write_resumes_task_witness:
  "\<exists>w1 w2. await_write (\<lambda>_ u. the (cancel_op bounce wake 1 (IS_LONG 5) u)) wake 0 1 handed_write = Some (Thrown (IS_LONG 5), w1) \<and>
    write_cb slow_handle log_run 1 0 w1 = Some w2 \<and> stream_store.more w2 = [(1, ASYNC_STATUS_RESOLVED)]"
proof -
  have "stream_store.more handed_write = []" by (simp add: handed_write_def async_append_op_def async_alloc_op_def)
  then show ?thesis
    using cancelled_write_resumes_task [OF handed_write_waits, of "\<lambda>_ u. the (cancel_op bounce wake 1 (IS_LONG 5) u)" "IS_LONG 5"
        slow_handle 0] by auto
qed

section \<open>Streams in memory\<close>

text \<open>Reading with the given lengths, one after the other; the data of the reads that gave some.\<close>

fun memory_reads :: "texts \<Rightarrow> int option list \<Rightarrow> readable_memory_stream \<Rightarrow> byte list list \<times> readable_memory_stream" where
  "memory_reads tx [] m = ([], m)"
| "memory_reads tx (h # hs) m =
     (let (r, m1) = readable_memory_read tx h m; (ds, m2) = memory_reads tx hs m1
      in (case r of Read_data d \<Rightarrow> d # ds | _ \<Rightarrow> ds, m2))"

fun memory_writes :: "byte list list \<Rightarrow> writable_memory_stream \<Rightarrow> writable_memory_stream" where
  "memory_writes [] m = m"
| "memory_writes (d # ds) m = memory_writes ds (snd (writable_memory_write d m))"

definition hint_length :: "int option \<Rightarrow> nat" where
  "hint_length h = (case h of None \<Rightarrow> 8192 | Some n \<Rightarrow> nat n)"

lemma memory_read_spec:
  assumes "\<not> rm_closed m" and "rm_offset m \<le> length (rm_data m)" and "0 < hint_length h"
  shows "readable_memory_read tx h m =
    (let d = take (hint_length h) (drop (rm_offset m) (rm_data m))
     in (if d = [] then Read_end else Read_data d, m\<lparr>rm_offset := rm_offset m + length d\<rparr>))"
proof -
  have l: "read_length tx 8192 StreamExceptionCe h = Inr (hint_length h)"
    using assms(3) by (auto simp: read_length_def hint_length_def split: option.splits)
  have n: "take (min (hint_length h) (length (rm_data m) - rm_offset m)) (drop (rm_offset m) (rm_data m)) =
      take (hint_length h) (drop (rm_offset m) (rm_data m))" by (auto simp: min_def)
  show ?thesis
    using assms n by (auto simp: readable_memory_read_def l Let_def min_def)
qed

lemma memory_reads_spec:
  assumes "\<not> rm_closed m" and "rm_offset m \<le> length (rm_data m)" and "\<forall>h\<in>set hs. 0 < hint_length h"
  shows "concat (fst (memory_reads tx hs m)) = take (sum_list (map hint_length hs)) (drop (rm_offset m) (rm_data m))"
  using assms
proof (induction hs arbitrary: m)
  case Nil
  then show ?case by simp
next
  case (Cons h hs)
  define d where "d = take (hint_length h) (drop (rm_offset m) (rm_data m))"
  define m1 where "m1 = m\<lparr>rm_offset := rm_offset m + length d\<rparr>"
  have r: "readable_memory_read tx h m = (if d = [] then Read_end else Read_data d, m1)"
    using memory_read_spec [of m h tx] Cons.prems by (simp add: d_def m1_def Let_def)
  have "concat (fst (memory_reads tx hs m1)) = take (sum_list (map hint_length hs)) (drop (rm_offset m1) (rm_data m1))"
    using Cons.prems by (intro Cons.IH) (auto simp: m1_def d_def)
  moreover have "drop (rm_offset m1) (rm_data m1) = drop (hint_length h) (drop (rm_offset m) (rm_data m))"
    using Cons.prems(2) by (auto simp: m1_def d_def min_def add.commute)
  ultimately show ?case
    by (simp add: r split_beta take_add) (simp add: d_def)
qed

lemma memory_writes_spec:
  "\<not> wm_closed m \<Longrightarrow> wm_data (memory_writes ds m) = wm_data m @ concat ds \<and> \<not> wm_closed (memory_writes ds m)"
  by (induction ds arbitrary: m) (simp_all add: writable_memory_write_def)

text \<open>
  C21. What is written to a writable memory stream can be read back from a readable one: however the data
  was cut into writes and whatever positive lengths the reads ask for, the reads give the data in
  order, all of it once they asked for as much.
\<close>

theorem memory_stream_roundtrip:
  assumes "\<forall>h\<in>set hs. 0 < hint_length h" and "length (concat ds) \<le> sum_list (map hint_length hs)"
    and "m = readable_memory_construct (Some (writable_memory_get_contents (memory_writes ds writable_memory_create)))"
  shows "concat (fst (memory_reads tx hs m)) = concat ds"
  using memory_reads_spec [of m hs tx] memory_writes_spec [of writable_memory_create ds] assms
  by (simp add: readable_memory_construct_def writable_memory_get_contents_def writable_memory_create_def)

theorem memory_stream_roundtrip_witness:
  "concat (fst (memory_reads \<lparr>strerror = \<lambda>_. [], show_int = \<lambda>_. []\<rparr> [Some 2, None]
     (readable_memory_construct (Some (writable_memory_get_contents (memory_writes [[1], [2, 3]] writable_memory_create)))))) = [1, 2, 3]"
  by (subst memory_stream_roundtrip [where hs = "[Some 2, None]" and ds = "[[1], [2, 3]]"]) (simp_all add: hint_length_def)

end
