(* ===== verification/DnsProps.thy ===== *)
theory DnsProps
  imports Dns Resume
begin

text \<open>
  Properties of name resolution: the records of a query have the types that were asked for and the data
  that the lookups read, whatever a resolver adds; what a lookup does with an address that is no
  IPv4 address; and a request that is cancelled.
\<close>

section \<open>Records of queries\<close>

text \<open>A record as the lookups expect it, for a query with given types and flags.\<close>

definition record_ok :: "u8 \<Rightarrow> int list \<Rightarrow> string \<Rightarrow> dns_record \<Rightarrow> bool" where
  "record_ok flags types host r \<longleftrightarrow> distinct (map fst r) \<and>
     map_of r ''host'' = Some (IS_STRING host) \<and> map_of r ''class'' = Some (IS_STRING ''IN'') \<and>
     (\<exists>t. map_of r ''type'' = Some (IS_LONG t) \<and> (has_flag flags DNS_QUERY_FLAG_ANY \<or> t \<in> set types) \<and>
        (t = ASYNC_DNS_A \<longrightarrow> map_of r ''ip'' \<noteq> None) \<and> (t = ASYNC_DNS_AAAA \<longrightarrow> map_of r ''ipv6'' \<noteq> None))"

definition query_ok :: "async_dns_query \<Rightarrow> bool" where
  "query_ok x \<longleftrightarrow> (\<forall>r\<in>set (dq_records x). record_ok (dq_flags x) (dq_types x) (dq_host x) r)"

lemma map_of_hash_add: "map_of (hash_add k v h) n = (if n = k \<and> map_of h k = None then Some v else map_of h n)"
  by (auto simp: hash_add_def map_add_def map_of_eq_None_iff split: option.split)
    (metis fst_conv imageI map_of_eq_None_iff map_of_SomeD not_None_eq)+

lemma hash_add_distinct: "distinct (map fst h) \<Longrightarrow> distinct (map fst (hash_add k v h))"
  by (auto simp: hash_add_def)

text \<open>Copied data never replaces what the record has, and all keys of the data are there.\<close>

lemma copy_data_keeps: "copy_data data r = Some r' \<Longrightarrow> map_of r k = Some v \<Longrightarrow> map_of r' k = Some v"
proof (induction data r rule: copy_data.induct)
  case (3 k' v' data r)
  have "map_of (hash_add k' v' r) k = Some v" using "3.prems"(2) by (auto simp: map_of_hash_add)
  then show ?case using 3 by simp
qed simp_all

lemma copy_data_distinct: "copy_data data r = Some r' \<Longrightarrow> distinct (map fst r) \<Longrightarrow> distinct (map fst r')"
  by (induction data r rule: copy_data.induct) (auto intro: hash_add_distinct)

lemma copy_data_dom: "copy_data data r = Some r' \<Longrightarrow> Hash_str k \<in> fst ` set data \<Longrightarrow> map_of r' k \<noteq> None"
proof (induction data r rule: copy_data.induct)
  case (3 k' v data r)
  have c: "copy_data data (hash_add k' v r) = Some r'" using "3.prems"(1) by simp
  show ?case
  proof (cases "Hash_str k \<in> fst ` set data")
    case True
    then show ?thesis using "3.IH" c by simp
  next
    case False
    then have "k = k'" using "3.prems"(2) by simp
    then obtain u where "map_of (hash_add k' v r) k = Some u" by (cases "map_of r k'") (auto simp: map_of_hash_add)
    then show ?thesis using copy_data_keeps [OF c] by simp
  qed
qed simp_all

lemma copy_data_values:
  "copy_data data r = Some r' \<Longrightarrow> map_of r' k = Some v \<Longrightarrow> map_of r k = Some v \<or> v \<in> snd ` set data"
proof (induction data r rule: copy_data.induct)
  case (3 k' u data r)
  then have "map_of (hash_add k' u r) k = Some v \<or> v \<in> snd ` set data" by simp
  then show ?case by (auto simp: map_of_hash_add split: if_splits)
qed simp_all

lemma record_head_simps [simp]:
  "distinct (map fst (record_head host ttl t))" "map_of (record_head host ttl t) ''host'' = Some (IS_STRING host)"
  "map_of (record_head host ttl t) ''class'' = Some (IS_STRING ''IN'')"
  "map_of (record_head host ttl t) ''type'' = Some (IS_LONG t)"
  "map_of (record_head host ttl t) ''ip'' = None" "map_of (record_head host ttl t) ''ipv6'' = None"
  by (simp_all add: record_head_def)

text \<open>A call of \<open>addRecord\<close> throws and changes nothing, or it adds one record.\<close>

lemma add_record_cases [consumes 1, case_names refused added]:
  assumes "dns_query_add_record tx q type ttl data w = Some (out, w')"
  obtains e where "out = Throw e" "w' = w"
  | r where "out = Ret IS_NULL" "has_flag (dq_flags (dns_queries w q)) DNS_QUERY_FLAG_ANY \<or> type \<in> set (dq_types (dns_queries w q))"
    "type = ASYNC_DNS_A \<longrightarrow> Hash_str ''ip'' \<in> fst ` set data" "type = ASYNC_DNS_AAAA \<longrightarrow> Hash_str ''ipv6'' \<in> fst ` set data"
    "copy_data data (record_head (dq_host (dns_queries w q)) ttl type) = Some r"
    "w' = upd_query q (\<lambda>x. x\<lparr>dq_records := dq_records x @ [r]\<rparr>) w"
proof -
  let ?c1 = "\<not> has_flag (dq_flags (dns_queries w q)) DNS_QUERY_FLAG_ANY \<and> type \<notin> set (dq_types (dns_queries w q))"
  let ?c2 = "type = ASYNC_DNS_A \<and> Hash_str ''ip'' \<notin> fst ` set data"
  let ?c3 = "type = ASYNC_DNS_AAAA \<and> Hash_str ''ipv6'' \<notin> fst ` set data"
  show ?thesis
  proof (cases "?c1 \<or> ?c2 \<or> ?c3")
    case True
    then have "\<exists>e. out = Throw e \<and> w' = w"
      using assms unfolding dns_query_add_record_def Let_def
      by (cases ?c1; cases ?c2; cases ?c3) (simp_all only: if_True if_False simp_thms option.inject prod.inject, blast+)
    then show ?thesis using that(1) by blast
  next
    case False
    then have n: "\<not> ?c1" "\<not> ?c2" "\<not> ?c3" by blast+
    have "dns_query_add_record tx q type ttl data w =
        map_option (\<lambda>r. (Ret IS_NULL, upd_query q (\<lambda>x. x\<lparr>dq_records := dq_records x @ [r]\<rparr>) w))
          (copy_data data (record_head (dq_host (dns_queries w q)) ttl type))"
      unfolding dns_query_add_record_def Let_def if_not_P [OF n(1)] if_not_P [OF n(2)] if_not_P [OF n(3)] ..
    then show ?thesis using assms False that(2) by (cases "copy_data data (record_head (dq_host (dns_queries w q)) ttl type)") auto
  qed
qed

lemma query_ok_add_record:
  assumes "query_ok (dns_queries w q)" and "dns_query_add_record tx q type ttl data w = Some (out, w')"
  shows "query_ok (dns_queries w' q) \<and> dq_flags (dns_queries w' q) = dq_flags (dns_queries w q) \<and>
    dq_types (dns_queries w' q) = dq_types (dns_queries w q) \<and> dq_host (dns_queries w' q) = dq_host (dns_queries w q)"
  using assms(2)
proof (cases rule: add_record_cases)
  case (added r)
  let ?x = "dns_queries w q"
  note k = copy_data_keeps [OF added(5)]
  have "record_ok (dq_flags ?x) (dq_types ?x) (dq_host ?x) r"
    unfolding record_ok_def
    using added(2,3,4) copy_data_dom [OF added(5)] copy_data_distinct [OF added(5)]
      k [of "''host''"] k [of "''class''"] k [of "''type''"] by simp
  then show ?thesis using assms(1) by (auto simp: added(6) upd_query_def query_ok_def)
qed (use assms(1) in simp)

text \<open>What a resolver does with its query: any sequence of calls of \<open>addRecord\<close>.\<close>

fun add_records ::
  "texts \<Rightarrow> nat \<Rightarrow> (int \<times> int \<times> (hash_key \<times> zval) list) list \<Rightarrow> 'a dns_store_scheme \<Rightarrow> 'a dns_store_scheme option" where
  "add_records tx q [] w = Some w"
| "add_records tx q ((type, ttl, data) # calls) w =
     Option.bind (dns_query_add_record tx q type ttl data w) (\<lambda>(_, w1). add_records tx q calls w1)"

lemma query_ok_add_records:
  assumes "query_ok (dns_queries w q)" and "add_records tx q calls w = Some w'"
  shows "query_ok (dns_queries w' q) \<and> dq_flags (dns_queries w' q) = dq_flags (dns_queries w q) \<and>
    dq_types (dns_queries w' q) = dq_types (dns_queries w q) \<and> dq_host (dns_queries w' q) = dq_host (dns_queries w q)"
  using assms
proof (induction calls arbitrary: w)
  case (Cons c calls)
  obtain type ttl data where c: "c = (type, ttl, data)" by (cases c)
  obtain out w1 where a: "dns_query_add_record tx q type ttl data w = Some (out, w1)" "add_records tx q calls w1 = Some w'"
    using Cons.prems(2) by (auto simp: c split: Option.bind_splits)
  show ?case
    using query_ok_add_record [OF Cons.prems(1) a(1)] Cons.IH [OF _ a(2)] by simp
qed simp

lemma add_dns_type_frame [simp]:
  "dq_records (fold (add_dns_type types) is x) = dq_records x"
  by (induction "is" arbitrary: x) (simp_all add: add_dns_type_def Let_def)

lemma created_query:
  assumes "create_dns_query host types w = (q, w0)"
  shows "dq_records (dns_queries w0 q) = []" "dq_host (dns_queries w0 q) = host"
  using assms by (auto simp: create_dns_query_def async_dns_query_object_create_def upd_query_def Let_def)

text \<open>
  The types of a query for the addresses of a host: exactly A and AAAA, and no flag that would admit
  others.
\<close>

lemma address_query_types:
  assumes "create_dns_query host (PHP_DNS_A OR PHP_DNS_AAAA) w = (q, w0)"
  shows "dq_types (dns_queries w0 q) = [ASYNC_DNS_A, ASYNC_DNS_AAAA]" "dq_flags (dns_queries w0 q) = 0"
proof -
  have "fold (add_dns_type (PHP_DNS_A OR PHP_DNS_AAAA)) (map (\<lambda>n. 2 ^ n) [0..<29]) x =
      x\<lparr>dq_types := index_add ASYNC_DNS_AAAA (index_add ASYNC_DNS_A (dq_types x))\<rparr>" for x
    by (simp add: upt_rec add_dns_type_def dns_type_of_def)
  then show "dq_types (dns_queries w0 q) = [ASYNC_DNS_A, ASYNC_DNS_AAAA]" "dq_flags (dns_queries w0 q) = 0"
    using assms
    by (auto simp: create_dns_query_def async_dns_query_object_create_def upd_query_def Let_def index_add_def)
qed

definition of_type :: "int \<Rightarrow> dns_record \<Rightarrow> bool" where
  "of_type t r \<longleftrightarrow> map_of r ''type'' = Some (IS_LONG t)"

text \<open>Values of the data that are strings stay strings in the records.\<close>

definition string_values :: "dns_record \<Rightarrow> bool" where
  "string_values r \<longleftrightarrow> (\<forall>k\<in>{''ip'', ''ipv6''}. \<forall>v. map_of r k = Some v \<longrightarrow> (\<exists>s. v = IS_STRING s))"

lemma add_records_strings:
  assumes "add_records tx q calls w = Some w'"
    and "\<forall>(type, ttl, data)\<in>set calls. \<forall>v\<in>snd ` set data. \<exists>s. v = IS_STRING s"
    and "\<forall>r\<in>set (dq_records (dns_queries w q)). string_values r"
  shows "\<forall>r\<in>set (dq_records (dns_queries w' q)). string_values r"
  using assms
proof (induction calls arbitrary: w)
  case (Cons c calls)
  obtain type ttl data where c: "c = (type, ttl, data)" by (cases c)
  obtain out w1 where a: "dns_query_add_record tx q type ttl data w = Some (out, w1)" "add_records tx q calls w1 = Some w'"
    using Cons.prems(1) by (auto simp: c split: Option.bind_splits)
  have "\<forall>r\<in>set (dq_records (dns_queries w1 q)). string_values r"
    using a(1)
  proof (cases rule: add_record_cases)
    case (added r)
    have "string_values r"
      unfolding string_values_def
    proof (intro ballI allI impI)
      fix k v assume k: "k \<in> {''ip'', ''ipv6''}" "map_of r k = Some v"
      then have "map_of (record_head (dq_host (dns_queries w q)) ttl type) k = None" by auto
      then have "v \<in> snd ` set data" using copy_data_values [OF added(5) k(2)] by simp
      then show "\<exists>s. v = IS_STRING s" using Cons.prems(2) by (auto simp: c)
    qed
    then show ?thesis using Cons.prems(3) by (auto simp: added(6) upd_query_def)
  qed (use Cons.prems(3) in simp)
  then show ?case using Cons.IH [OF a(2)] Cons.prems(2) by simp
qed simp

lemma first_record_ok:
  assumes "\<forall>r\<in>set rs. \<exists>t. map_of r ''type'' = Some (IS_LONG t)"
  shows "first_record type rs = Some (find (of_type type) rs)"
  using assms by (induction type rs rule: first_record.induct) (auto simp: of_type_def)

text \<open>
  C30. Whatever records a resolver adds to the query of an address lookup, in any number of calls that
  are accepted or refused: every record has the host of the query, one of the types that were asked
  for and the address under its key, and, when the values are strings, the lookup reads its result
  from them without a null pointer: the first A record decides, else the first AAAA record, and only
  when there is neither there is no result.
\<close>

theorem resolver_records_typed:
  assumes "create_dns_query host (PHP_DNS_A OR PHP_DNS_AAAA) w = (q, w0)"
    and "add_records tx q calls w0 = Some w1"
    and "\<forall>(type, ttl, data)\<in>set calls. \<forall>v\<in>snd ` set data. \<exists>s. v = IS_STRING s"
  defines "rs \<equiv> dq_records (dns_queries w1 q)"
  shows "(\<forall>r\<in>set rs. record_ok 0 [ASYNC_DNS_A, ASYNC_DNS_AAAA] host r) \<and>
    (\<exists>s. resolver_result inet (PHP_DNS_A OR PHP_DNS_AAAA) rs = Some s \<and>
      (case find (of_type ASYNC_DNS_A) rs of
         Some r \<Rightarrow> \<exists>ip. map_of r ''ip'' = Some (IS_STRING ip) \<and> s = Dns_resolved (snd (uv_ip4_addr inet ip 0))
       | None \<Rightarrow> (case find (of_type ASYNC_DNS_AAAA) rs of
           Some r \<Rightarrow> \<exists>ip. map_of r ''ipv6'' = Some (IS_STRING ip) \<and> s = Dns_resolved (snd (uv_ip6_addr inet ip 0))
         | None \<Rightarrow> rs = [] \<and> s = Dns_no_result)))"
proof -
  have "query_ok (dns_queries w0 q)" using created_query [OF assms(1)] by (simp add: query_ok_def)
  from query_ok_add_records [OF this assms(2)]
  have ok: "query_ok (dns_queries w1 q)" and fl: "dq_flags (dns_queries w1 q) = 0"
    "dq_types (dns_queries w1 q) = [ASYNC_DNS_A, ASYNC_DNS_AAAA]" "dq_host (dns_queries w1 q) = host"
    using created_query [OF assms(1)] address_query_types [OF assms(1)] by simp_all
  have ro: "\<forall>r\<in>set rs. record_ok 0 [ASYNC_DNS_A, ASYNC_DNS_AAAA] host r"
    using ok unfolding query_ok_def fl rs_def .
  have str: "\<forall>r\<in>set rs. string_values r"
    using add_records_strings [OF assms(2,3)] created_query [OF assms(1)] by (simp add: rs_def)
  have ty: "\<forall>r\<in>set rs. \<exists>t. map_of r ''type'' = Some (IS_LONG t)"
    using ro unfolding record_ok_def by blast
  have got: "\<exists>s. record_text k r = Some s \<and> map_of r k = Some (IS_STRING s)"
    if "r \<in> set rs" "of_type t r" "(t, k) \<in> {(ASYNC_DNS_A, ''ip''), (ASYNC_DNS_AAAA, ''ipv6'')}" for r t k
    using bspec [OF ro that(1)] bspec [OF str that(1)] that(2,3)
    by (auto simp: record_ok_def string_values_def record_text_def of_type_def)
  note first = first_record_ok [OF ty]
  have "\<exists>s. resolver_result inet (PHP_DNS_A OR PHP_DNS_AAAA) rs = Some s \<and>
      (case find (of_type ASYNC_DNS_A) rs of
         Some r \<Rightarrow> \<exists>ip. map_of r ''ip'' = Some (IS_STRING ip) \<and> s = Dns_resolved (snd (uv_ip4_addr inet ip 0))
       | None \<Rightarrow> (case find (of_type ASYNC_DNS_AAAA) rs of
           Some r \<Rightarrow> \<exists>ip. map_of r ''ipv6'' = Some (IS_STRING ip) \<and> s = Dns_resolved (snd (uv_ip6_addr inet ip 0))
         | None \<Rightarrow> rs = [] \<and> s = Dns_no_result))"
  proof (cases "find (of_type ASYNC_DNS_A) rs")
    case (Some r)
    then have r: "r \<in> set rs" "of_type ASYNC_DNS_A r" by (auto simp: find_Some_iff)
    obtain ip where "record_text ''ip'' r = Some ip" "map_of r ''ip'' = Some (IS_STRING ip)" using got [OF r] by blast
    then show ?thesis by (simp add: resolver_result_def first Some)
  next
    case none4: None
    show ?thesis
    proof (cases "find (of_type ASYNC_DNS_AAAA) rs")
      case (Some r)
      then have r: "r \<in> set rs" "of_type ASYNC_DNS_AAAA r" by (auto simp: find_Some_iff)
      obtain ip where "record_text ''ipv6'' r = Some ip" "map_of r ''ipv6'' = Some (IS_STRING ip)"
        using got [OF r] by blast
      then show ?thesis by (simp add: none4 Some resolver_result_def first)
    next
      case none6: None
      have "rs = []"
      proof (cases rs)
        case (Cons r rs')
        then have "\<not> of_type ASYNC_DNS_A r" "\<not> of_type ASYNC_DNS_AAAA r"
          using none4 none6 by (auto simp: find_None_iff)
        moreover have "record_ok 0 [ASYNC_DNS_A, ASYNC_DNS_AAAA] host r" using ro Cons by simp
        ultimately show ?thesis by (auto simp: record_ok_def of_type_def has_flag_def)
      qed
      then show ?thesis by (simp add: resolver_result_def)
    qed
  qed
  then show ?thesis using ro by blast
qed

theorem resolver_records_typed_witness:
  "\<forall>(w :: dns_store) tx inet. \<exists>q w0 w1 s. create_dns_query ''a.de'' (PHP_DNS_A OR PHP_DNS_AAAA) w = (q, w0) \<and>
     add_records tx q [(ASYNC_DNS_A, 60, [(Hash_str ''ip'', IS_STRING ''10.0.0.1'')])] w0 = Some w1 \<and>
     resolver_result inet (PHP_DNS_A OR PHP_DNS_AAAA) (dq_records (dns_queries w1 q)) = Some s \<and> s \<noteq> Dns_no_result"
proof (intro allI)
  fix w :: dns_store and tx :: texts and inet :: inet
  let ?c = "[(ASYNC_DNS_A, 60, [(Hash_str ''ip'', IS_STRING ''10.0.0.1'')])]"
  obtain q w0 where c: "create_dns_query ''a.de'' (PHP_DNS_A OR PHP_DNS_AAAA) w = (q, w0)" by (rule prod.exhaust)
  have "ASYNC_DNS_A \<in> set (dq_types (dns_queries w0 q))" using address_query_types [OF c] by simp
  then have "\<exists>w1. add_records tx q ?c w0 = Some w1 \<and> dq_records (dns_queries w1 q) \<noteq> []"
    by (auto simp: dns_query_add_record_def Let_def upd_query_def)
  then obtain w1 where a: "add_records tx q ?c w0 = Some w1" "dq_records (dns_queries w1 q) \<noteq> []" by blast
  then have "\<exists>s. resolver_result inet (PHP_DNS_A OR PHP_DNS_AAAA) (dq_records (dns_queries w1 q)) = Some s \<and> s \<noteq> Dns_no_result"
    using resolver_records_typed [OF c a(1), of inet] by (auto split: option.splits)
  then show "\<exists>q w0 w1 s. create_dns_query ''a.de'' (PHP_DNS_A OR PHP_DNS_AAAA) w = (q, w0) \<and> add_records tx q ?c w0 = Some w1 \<and>
     resolver_result inet (PHP_DNS_A OR PHP_DNS_AAAA) (dq_records (dns_queries w1 q)) = Some s \<and> s \<noteq> Dns_no_result"
    using c a(1) by blast
qed

section \<open>Addresses that are not IPv4\<close>

text \<open>The port of an IPv6 address is never set.\<close>

lemma set_port_ignores_ipv6: "async_socket_set_port (AF_INET6 ip port) n = (False, AF_INET6 ip port)"
  by (simp add: async_socket_set_port_def)

section \<open>Cancelled requests\<close>

text \<open>
  When the wait for \<open>getaddrinfo\<close> fails and the request can still be cancelled, the operation is freed,
  and freed a second time when libuv reports the cancellation to the callback.
\<close>

lemma cancelled_lookup_frees_twice:
  assumes "g_cli env" and "\<not> sched_flag SCHED_DISPOSED w" and "\<not> sched_flag SCHED_ERROR w"
    and "async_alloc_op w = (op, w1)" and "0 \<le> uv_getaddrinfo env name proto (set_uv_code op 0 w1)"
    and "async_await_op yield op (set_uv_code op 0 w1) = Some (Await_failure, w2)" and "uv_cancel env w2 = 0"
  shows "dns_gethostbyname env yield name proto w = Some (Host_thrown (op_result (ops w2 op)), async_free_op op w2) \<and>
    dns_gethostbyname_cb run (- 125) op (async_free_op op w2) = async_free_op op (async_free_op op w2)"
  using assms by (simp add: dns_gethostbyname_def dns_gethostbyname_cb_def)

end
