(* ===== verification/Net.thy ===== *)
theory Net
  imports StreamApi
begin

text \<open>
  The state of the network components: TCP sockets and servers (\<open>tcp.c\<close>), pipes and pipe servers
  (\<open>pipe.c\<close>, \<open>include/async/pipe.h\<close>), UDP sockets and datagrams (\<open>udp.c\<close>); and what their operations
  ask of libuv and the system. TCP sockets and pipes have the number of their stream, whose handle is
  theirs, and whose error cells are theirs. The handle of a server is active while it listens, that of
  a UDP socket while it receives.
\<close>

section \<open>Objects\<close>

text \<open>The settings of a TLS client: what is cloned, and the name of the peer.\<close>

record tls_client =
  tls_settings :: nat
  tls_peer_name :: "string option"

record async_tcp_socket =
  so_cancel :: bool
  so_name :: "string option"
  so_local_addr :: "string option"
  so_local_port :: port
  so_remote_addr :: "string option"
  so_remote_port :: port
  so_server :: "nat option"
  so_encryption :: "tls_client option"

abbreviation TCP_SERVER_FLAG_LAZY :: u8 where "TCP_SERVER_FLAG_LAZY \<equiv> 1"

record async_tcp_server =
  sv_handle :: "unit uv_handle"
  sv_flags :: u8
  sv_name :: "string option"
  sv_addr :: "string option"
  sv_port :: port
  sv_pending :: u8
  sv_error :: zval
  sv_ref_count :: u8
  sv_cancel :: bool
  sv_refs :: nat
  sv_encryption :: "nat option"

abbreviation PIPE_FLAG_IPC :: u8 where "PIPE_FLAG_IPC \<equiv> 1"
abbreviation PIPE_FLAG_LAZY :: u8 where "PIPE_FLAG_LAZY \<equiv> 2"

record async_pipe =
  pi_flags :: u8
  pi_cancel :: bool
  pi_name :: "string option"
  pi_server :: "nat option"

record async_pipe_server =
  ps_handle :: "unit uv_handle"
  ps_flags :: u8
  ps_name :: "string option"
  ps_pending :: u8
  ps_error :: zval
  ps_ref_count :: u8
  ps_cancel :: bool
  ps_refs :: nat

abbreviation UDP_FLAG_RECEIVING :: u8 where "UDP_FLAG_RECEIVING \<equiv> 1"
abbreviation UDP_FLAG_CONNECTED :: u8 where "UDP_FLAG_CONNECTED \<equiv> 2"

text \<open>\<open>ud_requests\<close> are the send requests that libuv holds; a request is a part of its operation.\<close>

record async_udp_socket =
  ud_handle :: "unit uv_handle"
  ud_flags :: u8
  ud_name :: "string option"
  ud_ip :: "string option"
  ud_port :: port
  ud_error :: zval
  ud_ref_count :: u8
  ud_cancel :: bool
  ud_refs :: nat
  ud_requests :: "opid list"

record async_udp_datagram =
  dg_peer :: sockaddr
  dg_data :: "byte list"
  dg_address :: zval
  dg_port :: zval

record async_udp_send_op =
  us_socket :: nat
  us_datagram :: nat
  us_context :: nat
  us_awaitable :: "nat option"

text \<open>
  \<open>connect_reqs\<close> are the connection requests that libuv holds, each with the operation it refers to.
\<close>

record net_store = stream_store +
  tcp_sockets :: "nat \<Rightarrow> async_tcp_socket"
  tcp_servers :: "nat \<Rightarrow> async_tcp_server"
  pipes :: "nat \<Rightarrow> async_pipe"
  pipe_servers :: "nat \<Rightarrow> async_pipe_server"
  udp_sockets :: "nat \<Rightarrow> async_udp_socket"
  datagrams :: "nat \<Rightarrow> async_udp_datagram"
  next_datagram :: nat
  recv_sizes :: "opid \<Rightarrow> nat"
  send_ops :: "opid \<Rightarrow> async_udp_send_op"
  connect_reqs :: "(nat \<times> opid) list"
  next_net :: nat

type_synonym 'a net_wake = "opid \<Rightarrow> 'a net_store_scheme \<Rightarrow> 'a net_store_scheme"
type_synonym 'a net_yield = "transfer \<Rightarrow> 'a net_store_scheme \<Rightarrow> 'a net_store_scheme"
type_synonym 'a net_own = "nat \<Rightarrow> 'a net_store_scheme \<Rightarrow> 'a net_store_scheme"

definition upd_tcp :: "nat \<Rightarrow> (async_tcp_socket \<Rightarrow> async_tcp_socket) \<Rightarrow> 'a net_store_scheme \<Rightarrow> 'a net_store_scheme" where
  "upd_tcp s f w = w\<lparr>tcp_sockets := (tcp_sockets w)(s := f (tcp_sockets w s))\<rparr>"

definition upd_tcp_server :: "nat \<Rightarrow> (async_tcp_server \<Rightarrow> async_tcp_server) \<Rightarrow> 'a net_store_scheme \<Rightarrow> 'a net_store_scheme" where
  "upd_tcp_server s f w = w\<lparr>tcp_servers := (tcp_servers w)(s := f (tcp_servers w s))\<rparr>"

definition upd_pipe :: "nat \<Rightarrow> (async_pipe \<Rightarrow> async_pipe) \<Rightarrow> 'a net_store_scheme \<Rightarrow> 'a net_store_scheme" where
  "upd_pipe s f w = w\<lparr>pipes := (pipes w)(s := f (pipes w s))\<rparr>"

definition upd_pipe_server :: "nat \<Rightarrow> (async_pipe_server \<Rightarrow> async_pipe_server) \<Rightarrow> 'a net_store_scheme \<Rightarrow>
    'a net_store_scheme" where
  "upd_pipe_server s f w = w\<lparr>pipe_servers := (pipe_servers w)(s := f (pipe_servers w s))\<rparr>"

definition upd_udp :: "nat \<Rightarrow> (async_udp_socket \<Rightarrow> async_udp_socket) \<Rightarrow> 'a net_store_scheme \<Rightarrow> 'a net_store_scheme" where
  "upd_udp s f w = w\<lparr>udp_sockets := (udp_sockets w)(s := f (udp_sockets w s))\<rparr>"

definition upd_datagram :: "nat \<Rightarrow> (async_udp_datagram \<Rightarrow> async_udp_datagram) \<Rightarrow> 'a net_store_scheme \<Rightarrow>
    'a net_store_scheme" where
  "upd_datagram d f w = w\<lparr>datagrams := (datagrams w)(d := f (datagrams w d))\<rparr>"

section \<open>What libuv and the system answer\<close>

record 'w net_env = "'w dns_env" +
  tcp_connect_code :: "nat \<Rightarrow> sockaddr \<Rightarrow> 'w \<Rightarrow> int"
  bind_code :: "nat \<Rightarrow> sockaddr \<Rightarrow> nat \<Rightarrow> 'w \<Rightarrow> int"
  pipe_bind_code :: "nat \<Rightarrow> string \<Rightarrow> 'w \<Rightarrow> int"
  listen_code :: "nat \<Rightarrow> 'w \<Rightarrow> int"
  accept_code :: "nat \<Rightarrow> nat \<Rightarrow> 'w \<Rightarrow> int"
  open_code :: "nat \<Rightarrow> int \<Rightarrow> 'w \<Rightarrow> int"
  has_fileno :: "nat \<Rightarrow> 'w \<Rightarrow> bool"
  sock_name :: "nat \<Rightarrow> 'w \<Rightarrow> sockaddr option"
  peer_name :: "nat \<Rightarrow> 'w \<Rightarrow> sockaddr option"
  pipe_sockname :: "nat \<Rightarrow> 'w \<Rightarrow> string option"
  option_code :: "nat \<Rightarrow> int \<Rightarrow> int \<Rightarrow> 'w \<Rightarrow> int"
  write_queue_size :: "nat \<Rightarrow> 'w \<Rightarrow> nat"
  udp_connect_code :: "nat \<Rightarrow> sockaddr \<Rightarrow> 'w \<Rightarrow> int"
  join_code :: "nat \<Rightarrow> string \<Rightarrow> 'w \<Rightarrow> int"
  recv_start_code :: "nat \<Rightarrow> 'w \<Rightarrow> int"
  try_send_code :: "nat \<Rightarrow> sockaddr option \<Rightarrow> byte list \<Rightarrow> 'w \<Rightarrow> int"
  send_code :: "nat \<Rightarrow> sockaddr option \<Rightarrow> byte list \<Rightarrow> 'w \<Rightarrow> int"

section \<open>What the components share\<close>

abbreviation IPPROTO_TCP :: int where "IPPROTO_TCP \<equiv> 6"
abbreviation IPPROTO_UDP :: int where "IPPROTO_UDP \<equiv> 17"

text \<open>The error of \<open>close\<close>: a new exception with the argument as its cause.\<close>

definition net_close_error :: "exc_class \<Rightarrow> string \<Rightarrow> zval option \<Rightarrow> zval" where
  "net_close_error ce msg val =
     (let e = IS_ERROR ce msg None
      in case val of None \<Rightarrow> e | Some v \<Rightarrow> if v = IS_NULL then e else set_previous e v)"

definition uv_error :: "texts \<Rightarrow> exc_class \<Rightarrow> string \<Rightarrow> int \<Rightarrow> zval" where
  "uv_error tx ce msg code = IS_ERROR ce (msg @ strerror tx code) None"

text \<open>
  Looking up an address for a call: the error that is thrown when it fails. After \<open>FAILURE\<close>, which
  is the code \<open>-1\<close>, the pending exception becomes the cause of the new one.
\<close>

datatype addr_result = Addr_ok sockaddr | Addr_error zval | Addr_exit

definition assemble_address ::
  "texts \<Rightarrow> 'a net_store_scheme net_env \<Rightarrow> 'a net_yield \<Rightarrow> string \<Rightarrow> int \<Rightarrow> 'a net_store_scheme \<Rightarrow>
   (addr_result \<times> 'a net_store_scheme) option" where
  "assemble_address tx env yield host proto w =
     map_option (\<lambda>(r, w1). (case r of
         Ip_found a \<Rightarrow> Addr_ok a
       | Ip_error code \<Rightarrow> Addr_error (uv_error tx SocketExceptionCe ''Failed to assemble IP address: '' code)
       | Ip_thrown e \<Rightarrow> Addr_error (set_previous (uv_error tx SocketExceptionCe ''Failed to assemble IP address: '' (- 1)) e)
       | Ip_bail \<Rightarrow> Addr_exit, w1))
     (async_dns_lookup_ip (dns_env.truncate env) yield (c_str host) proto w)"

text \<open>The address argument of servers and UDP sockets; null is the wildcard.\<close>

definition host_or_wildcard :: "string option \<Rightarrow> string" where
  "host_or_wildcard name = (case name of None \<Rightarrow> ''0.0.0.0'' | Some host \<Rightarrow> host)"

text \<open>\<open>connect_cb\<close> (the same in \<open>tcp.c\<close> and \<open>pipe.c\<close>): libuv ends a request.\<close>

definition connect_cb :: "'a net_wake \<Rightarrow> nat \<Rightarrow> opid \<Rightarrow> int \<Rightarrow> 'a net_store_scheme \<Rightarrow> 'a net_store_scheme" where
  "connect_cb run s op status w =
     async_finish_op run op (set_uv_code op status (w\<lparr>connect_reqs := remove1 (s, op) (connect_reqs w)\<rparr>))"

text \<open>
  \<open>async_socket_is_alive\<close> for a stream without SSL: \<open>probe\<close> is what polling and peeking at the
  descriptor find: no descriptor, nothing to read, bytes, or an error code.
\<close>

datatype probe = No_descriptor | Not_readable | Peeked nat | Peek_error int

definition async_socket_is_alive :: "(nat \<Rightarrow> 'a stream_store_scheme \<Rightarrow> probe) \<Rightarrow> nat \<Rightarrow> 'a stream_store_scheme \<Rightarrow> bool" where
  "async_socket_is_alive probe s w =
     (if stream_flag s STREAM_CLOSED w then False
      else if 0 < rb_len (st_buffer (streams w s)) then True
      else case probe s w of
        No_descriptor \<Rightarrow> False
      | Not_readable \<Rightarrow> True
      | Peeked n \<Rightarrow> 0 < n
      | Peek_error e \<Rightarrow> e \<in> {- 11, - 90})"

end
