(* ===== verification/Pipe.thy ===== *)
theory Pipe
  imports Net
begin

text \<open>
  Pipes and pipe servers (\<open>pipe.c\<close>) on Unix. A pipe with the IPC flag transfers handles; the functions
  for it are used by the sockets of the other components, too.
\<close>

section \<open>Pipes\<close>

definition shutdown_pipe ::
  "'a net_own \<Rightarrow> 'a net_wake \<Rightarrow> nat \<Rightarrow> zval option \<Rightarrow> 'a net_store_scheme \<Rightarrow> 'a net_store_scheme" where
  "shutdown_pipe own run p error w =
     (let w1 = upd_pipe p (\<lambda>x. x\<lparr>pi_cancel := False\<rparr>) w;
          w2 = (case error of None \<Rightarrow> w1
             | Some e \<Rightarrow> upd_stream p (\<lambda>x. x\<lparr>
                 st_read_error := (if st_read_error x = IS_UNDEF then e else st_read_error x),
                 st_write_error := (if st_write_error x = IS_UNDEF then e else st_write_error x)\<rparr>) w1)
      in async_stream_close own run p (Some p) w2)"

definition async_pipe_object_create :: "bool \<Rightarrow> 'a net_store_scheme \<Rightarrow> nat \<times> 'a net_store_scheme" where
  "async_pipe_object_create ipc w =
     (let p = next_net w;
          w1 = upd_pipe p (\<lambda>_. \<lparr>pi_flags = (if ipc then PIPE_FLAG_IPC else 0), pi_cancel = True, pi_name = None, pi_server = None\<rparr>)
                 (w\<lparr>next_net := Suc p, s_shutdown := list_append (ShutdownCb CPipe p) (s_shutdown w)\<rparr>);
          w2 = async_stream_init p uv_init (if ipc then 1 else 0) w1
      in (p, if ipc then set_stream_flag p STREAM_IPC w2 else w2))"

definition async_pipe_object_dtor :: "'a net_own \<Rightarrow> 'a net_wake \<Rightarrow> nat \<Rightarrow> 'a net_store_scheme \<Rightarrow> 'a net_store_scheme" where
  "async_pipe_object_dtor own run p w =
     (if pi_cancel (pipes w p)
      then shutdown_pipe own run p None (w\<lparr>s_shutdown := remove1 (ShutdownCb CPipe p) (s_shutdown w)\<rparr>)
      else w)"

definition async_pipe_init_ipc :: "'a net_store_scheme \<Rightarrow> nat \<times> 'a net_store_scheme" where
  "async_pipe_init_ipc w =
     (let (p, w1) = async_pipe_object_create True w in (p, upd_pipe p (\<lambda>x. x\<lparr>pi_name := Some ''ipc''\<rparr>) w1))"

text \<open>A wait that fails leaves the request with libuv; the operation is freed.\<close>

definition pipe_connect ::
  "texts \<Rightarrow> 'a net_own \<Rightarrow> 'a net_yield \<Rightarrow> 'a net_wake \<Rightarrow> string \<Rightarrow> string option \<Rightarrow> int \<Rightarrow> 'a net_store_scheme \<Rightarrow>
   (outcome \<times> 'a net_store_scheme) option" where
  "pipe_connect tx own yield run name host ipc w =
     (if host \<noteq> None then Some (Throw (IS_ERROR ErrorCe ''Cannot connect a pipe to a host'' None), w)
      else
        let (p, w1) = async_pipe_object_create (ipc \<noteq> 0) w;
            w2 = upd_pipe p (\<lambda>x. x\<lparr>pi_name := Some name\<rparr>) w1;
            (op, w3) = async_alloc_op w2;
            w4 = (set_uv_code op 0 w3)\<lparr>connect_reqs := (p, op) # connect_reqs w3\<rparr>
        in map_option (\<lambda>(r, w5).
             if r = Await_bailout then (Bail, w5)
             else if r = Await_failure
             then (Throw (op_result (ops w5 op)), async_free_op op (async_pipe_object_dtor own run p w5))
             else
               let code = uv_codes w5 op; w6 = async_free_op op w5
               in if code < 0 then (Throw (uv_error tx SocketConnectExceptionCe ''Failed to connect pipe: '' code),
                                    async_pipe_object_dtor own run p w6)
                  else (Ret (IS_OBJECT p), w6)) (stream_await_op yield p op w4))"

section \<open>Handles through pipes\<close>

definition async_pipe_import_stream ::
  "texts \<Rightarrow> 'a net_store_scheme uv_answers \<Rightarrow> 'a net_yield \<Rightarrow> nat \<Rightarrow> 'a net_store_scheme \<Rightarrow>
   (outcome \<times> 'a net_store_scheme) option" where
  "async_pipe_import_stream tx env yield p w =
     (if \<not> has_flag (pi_flags (pipes w p)) PIPE_FLAG_IPC
      then Some (Throw (IS_ERROR StreamExceptionCe ''Reading a handle requires pipe to be opened with IPC support'' None), w)
      else map_option (\<lambda>(r, rq, w1). (case r of
             Success \<Rightarrow> Ret IS_NULL
           | Failure _ \<Rightarrow> Throw (forward_stream_read_error (strerror tx) True (ro_error rq))
           | Thrown e \<Rightarrow> Throw e
           | Bailout \<Rightarrow> Bail, w1))
         (async_stream_read env yield p
           \<lparr>rq_len = 0, rq_buffer = False, rq_import = True, rq_timeout = 0, ro_data = [], ro_error = 0\<rparr> w))"

definition async_pipe_export_stream ::
  "texts \<Rightarrow> 'a net_store_scheme uv_answers \<Rightarrow> 'a net_yield \<Rightarrow> 'a net_wake \<Rightarrow> nat \<Rightarrow> 'a net_store_scheme \<Rightarrow>
   (outcome \<times> 'a net_store_scheme) option" where
  "async_pipe_export_stream tx env yield run p w =
     (if \<not> has_flag (pi_flags (pipes w p)) PIPE_FLAG_IPC
      then Some (Throw (IS_ERROR StreamExceptionCe ''Writing a handle requires pipe to be opened with IPC support'' None), w)
      else map_option (\<lambda>(r, w1). (write_outcome tx True r, w1))
         (async_stream_write env yield run p
           \<lparr>wq_data = [], wq_async = False, wq_export = True, wq_callback = False, wq_arg = 0, wq_context = None\<rparr> w))"

text \<open>The object is destroyed when the import fails.\<close>

definition pipe_import ::
  "texts \<Rightarrow> 'a net_store_scheme uv_answers \<Rightarrow> 'a net_store_scheme net_env \<Rightarrow> 'a net_own \<Rightarrow> 'a net_yield \<Rightarrow> 'a net_wake \<Rightarrow>
   nat \<Rightarrow> int \<Rightarrow> 'a net_store_scheme \<Rightarrow> (outcome \<times> 'a net_store_scheme) option" where
  "pipe_import tx env net own yield run conn ipc w =
     (let (p, w1) = async_pipe_object_create (ipc \<noteq> 0) w
      in map_option (\<lambda>(r, w2). case r of
             Ret _ \<Rightarrow> (Ret (IS_OBJECT p), upd_pipe p (\<lambda>x. x\<lparr>pi_name := Some
                        (case pipe_sockname net p w2 of Some name \<Rightarrow> name | None \<Rightarrow> ''unknown'')\<rparr>) w2)
           | Throw e \<Rightarrow> (Throw e, async_pipe_object_dtor own run p w2)
           | Bail \<Rightarrow> (Bail, w2))
         (async_pipe_import_stream tx env yield conn w1))"

definition pipe_export ::
  "texts \<Rightarrow> 'a net_store_scheme uv_answers \<Rightarrow> 'a net_yield \<Rightarrow> 'a net_wake \<Rightarrow> nat \<Rightarrow> nat \<Rightarrow> 'a net_store_scheme \<Rightarrow>
   (outcome \<times> 'a net_store_scheme) option" where
  "pipe_export tx env yield run this ipc w = async_pipe_export_stream tx env yield run ipc w"

text \<open>
  \<open>Pipe::pair\<close>: \<open>fds\<close> are the descriptors of \<open>socketpair\<close> or its error. The second member of the
  result are the descriptors that nothing owns when the function returns.
\<close>

fun open_pipes ::
  "texts \<Rightarrow> 'a net_store_scheme net_env \<Rightarrow> 'a net_own \<Rightarrow> 'a net_wake \<Rightarrow> bool \<Rightarrow> int list \<Rightarrow> nat list \<Rightarrow> 'a net_store_scheme \<Rightarrow>
   (zval + nat list) \<times> int list \<times> 'a net_store_scheme" where
  "open_pipes tx net own run ipc [] ps w = (Inr ps, [], w)"
| "open_pipes tx net own run ipc (fd # fds) ps w =
     (let (p, w1) = async_pipe_object_create ipc w;
          code = open_code net p fd w1
      in if code \<noteq> 0
         then (Inl (uv_error tx StreamExceptionCe ''Failed to open pipe: '' code), fd # fds,
               fold (async_pipe_object_dtor own run) (p # ps) w1)
         else open_pipes tx net own run ipc fds (ps @ [p]) (upd_pipe p (\<lambda>x. x\<lparr>pi_name := Some ''pair''\<rparr>) w1))"

definition pipe_pair ::
  "texts \<Rightarrow> 'a net_store_scheme net_env \<Rightarrow> 'a net_own \<Rightarrow> 'a net_wake \<Rightarrow> int + int list \<Rightarrow> int \<Rightarrow> 'a net_store_scheme \<Rightarrow>
   (zval + nat list) \<times> int list \<times> 'a net_store_scheme" where
  "pipe_pair tx net own run fds ipc w = (case fds of
     Inl code \<Rightarrow> (Inl (uv_error tx StreamExceptionCe ''Failed to create pipe pair: '' code), [], w)
   | Inr fs \<Rightarrow> open_pipes tx net own run (ipc \<noteq> 0) fs [] w)"

section \<open>Methods of pipes\<close>

definition pipe_close ::
  "'a net_own \<Rightarrow> 'a net_wake \<Rightarrow> nat \<Rightarrow> zval option \<Rightarrow> 'a net_store_scheme \<Rightarrow> 'a net_store_scheme" where
  "pipe_close own run p val w =
     (if \<not> pi_cancel (pipes w p) then w
      else shutdown_pipe own run p (Some (net_close_error StreamClosedExceptionCe ''Socket has been closed'' val))
             (w\<lparr>s_shutdown := remove1 (ShutdownCb CPipe p) (s_shutdown w)\<rparr>))"

text \<open>Unlike \<open>TcpSocket::flush\<close>, the write error is not looked at.\<close>

definition pipe_flush :: "'a net_yield \<Rightarrow> nat \<Rightarrow> 'a net_store_scheme \<Rightarrow> (outcome \<times> 'a net_store_scheme) option" where
  "pipe_flush yield p w = async_stream_flush yield p w"

text \<open>A missing name is a null pointer.\<close>

definition pipe_get_address :: "nat \<Rightarrow> 'a net_store_scheme \<Rightarrow> string option" where
  "pipe_get_address p w = pi_name (pipes w p)"

definition pipe_get_remote_address :: "nat \<Rightarrow> 'a net_store_scheme \<Rightarrow> string option" where
  "pipe_get_remote_address p w = pi_name (pipes w p)"

definition pipe_set_option :: "int \<Rightarrow> zval \<Rightarrow> zval" where
  "pipe_set_option opt val = IS_BOOL False"

definition pipe_is_alive :: "(nat \<Rightarrow> 'a stream_store_scheme \<Rightarrow> probe) \<Rightarrow> nat \<Rightarrow> 'a stream_store_scheme \<Rightarrow> bool" where
  "pipe_is_alive probe p w = async_socket_is_alive probe p w"

definition pipe_read ::
  "texts \<Rightarrow> 'a net_store_scheme uv_answers \<Rightarrow> 'a net_yield \<Rightarrow> nat \<Rightarrow> int option \<Rightarrow> 'a net_store_scheme \<Rightarrow>
   (read_outcome \<times> 'a net_store_scheme) option" where
  "pipe_read tx env yield p hint w = async_stream_call_read tx True env yield p hint w"

definition pipe_write ::
  "texts \<Rightarrow> 'a net_store_scheme uv_answers \<Rightarrow> 'a net_yield \<Rightarrow> 'a net_wake \<Rightarrow> nat \<Rightarrow> byte list \<Rightarrow> 'a net_store_scheme \<Rightarrow>
   (outcome \<times> 'a net_store_scheme) option" where
  "pipe_write tx env yield run p data w = async_stream_call_write tx True env yield run p data w"

definition pipe_get_write_queue_size :: "'a net_store_scheme net_env \<Rightarrow> nat \<Rightarrow> 'a net_store_scheme \<Rightarrow> nat" where
  "pipe_get_write_queue_size net p w =
     (if st_write_error (streams w p) = IS_UNDEF then write_queue_size net p w else 0)"

section \<open>Pipe servers\<close>

text \<open>
  Closing accepts and closes the connections of the backlog first; their handles are not visible to
  scripts. Then every execution that waits for a connection gets the error, or the code
  \<open>UV_ECANCELED\<close> when there is none.
\<close>

definition settle_pipe_accept :: "'a net_wake \<Rightarrow> nat \<Rightarrow> opid \<Rightarrow> 'a net_store_scheme \<Rightarrow> 'a net_store_scheme" where
  "settle_pipe_accept run s op w =
     (if ps_error (pipe_servers w s) \<noteq> IS_UNDEF then async_fail_op run op (ps_error (pipe_servers w s)) w
      else async_finish_op run op (set_uv_code op UV_ECANCELED w))"

definition pipe_shutdown_server ::
  "'a net_wake \<Rightarrow> nat \<Rightarrow> zval option \<Rightarrow> 'a net_store_scheme \<Rightarrow> 'a net_store_scheme option" where
  "pipe_shutdown_server run s error w =
     (let w1 = upd_pipe_server s (\<lambda>x. x\<lparr>ps_cancel := False, ps_pending := 0,
            ps_error := (case error of Some e \<Rightarrow> if ps_error x = IS_UNDEF then e else ps_error x | None \<Rightarrow> ps_error x)\<rparr>) w
      in map_option (upd_pipe_server s (\<lambda>x. if uv_closing (ps_handle x) then x
              else x\<lparr>ps_refs := ps_refs x + 1, ps_handle := uv_close (ps_handle x)\<rparr>))
           (drain_ops (settle_pipe_accept run s) (PipeAccepts s) w1))"

definition async_piper_server_object_create :: "'a net_store_scheme \<Rightarrow> nat \<times> 'a net_store_scheme" where
  "async_piper_server_object_create w =
     (let s = next_net w
      in (s, upd_pipe_server s (\<lambda>_. \<lparr>ps_handle = uv_init, ps_flags = 0, ps_name = None, ps_pending = 0, ps_error = IS_UNDEF,
               ps_ref_count = 0, ps_cancel = True, ps_refs = 1\<rparr>)
             (w\<lparr>next_net := Suc s, s_shutdown := list_append (ShutdownCb CPipeServer s) (s_shutdown w)\<rparr>)))"

definition async_pipe_server_object_dtor ::
  "'a net_wake \<Rightarrow> nat \<Rightarrow> 'a net_store_scheme \<Rightarrow> 'a net_store_scheme option" where
  "async_pipe_server_object_dtor run s w =
     (if ps_cancel (pipe_servers w s)
      then pipe_shutdown_server run s None (w\<lparr>s_shutdown := remove1 (ShutdownCb CPipeServer s) (s_shutdown w)\<rparr>)
      else Some w)"

definition pipe_listen_cb :: "'a net_wake \<Rightarrow> nat \<Rightarrow> int \<Rightarrow> 'a net_store_scheme \<Rightarrow> 'a net_store_scheme" where
  "pipe_listen_cb run s status w = (case async_next_op (PipeAccepts s) w of
     None \<Rightarrow> upd_pipe_server s (\<lambda>x. x\<lparr>ps_pending := ps_pending x + 1\<rparr>) w
   | Some (op, w1) \<Rightarrow> async_finish_op run op (set_uv_code op status w1))"

text \<open>\<open>Inl e\<close>: the error is thrown and there is no server.\<close>

definition pipe_create_server ::
  "texts \<Rightarrow> 'a net_store_scheme net_env \<Rightarrow> 'a net_wake \<Rightarrow> string \<Rightarrow> int \<Rightarrow> 'a net_store_scheme \<Rightarrow>
   ((zval + nat) \<times> 'a net_store_scheme) option" where
  "pipe_create_server tx net run name ipc w =
     (let (s, w1) = async_piper_server_object_create w;
          w2 = (if ipc \<noteq> 0 then upd_pipe_server s (\<lambda>x. x\<lparr>ps_flags := set_flag (ps_flags x) PIPE_FLAG_IPC\<rparr>) w1 else w1);
          code = pipe_bind_code net s name w2
      in if code \<noteq> 0
         then map_option (Pair (Inl (uv_error tx SocketBindExceptionCe ''Failed to bind server: '' code)))
                (async_pipe_server_object_dtor run s w2)
         else Some (Inr s, upd_pipe_server s (\<lambda>x. x\<lparr>ps_name := Some name, ps_handle := (ps_handle x)\<lparr>uv_has_ref := False\<rparr>\<rparr>) w2))"

text \<open>The flags are overwritten: the IPC flag of the new server is lost.\<close>

definition pipe_server_bind ::
  "texts \<Rightarrow> 'a net_store_scheme net_env \<Rightarrow> 'a net_wake \<Rightarrow> string \<Rightarrow> int \<Rightarrow> 'a net_store_scheme \<Rightarrow>
   (outcome \<times> 'a net_store_scheme) option" where
  "pipe_server_bind tx net run name ipc w =
     map_option (\<lambda>(r, w1). case r of
         Inl e \<Rightarrow> (Throw e, w1)
       | Inr s \<Rightarrow> (Ret (IS_OBJECT s), upd_pipe_server s (\<lambda>x. x\<lparr>ps_flags := PIPE_FLAG_LAZY\<rparr>) w1))
     (pipe_create_server tx net run name ipc w)"

definition pipe_listen :: "nat \<Rightarrow> 'a net_store_scheme \<Rightarrow> 'a net_store_scheme" where
  "pipe_listen s w = upd_pipe_server s (\<lambda>x. x\<lparr>ps_handle := uv_start () (ps_handle x)\<rparr>) w"

definition pipe_server_listen ::
  "texts \<Rightarrow> 'a net_store_scheme net_env \<Rightarrow> 'a net_wake \<Rightarrow> string \<Rightarrow> int \<Rightarrow> 'a net_store_scheme \<Rightarrow>
   (outcome \<times> 'a net_store_scheme) option" where
  "pipe_server_listen tx net run name ipc w =
     Option.bind (pipe_create_server tx net run name ipc w) (\<lambda>(r, w1). case r of
         Inl e \<Rightarrow> Some (Throw e, w1)
       | Inr s \<Rightarrow>
           if listen_code net s w1 \<noteq> 0
           then map_option (Pair (Throw (uv_error tx SocketListenExceptionCe ''Server failed to listen: '' (listen_code net s w1))))
                  (async_pipe_server_object_dtor run s w1)
           else Some (Ret (IS_OBJECT s), pipe_listen s w1))"

text \<open>The handle of an imported server stays referenced.\<close>

definition pipe_server_import ::
  "texts \<Rightarrow> 'a net_store_scheme uv_answers \<Rightarrow> 'a net_store_scheme net_env \<Rightarrow> 'a net_yield \<Rightarrow> 'a net_wake \<Rightarrow>
   nat \<Rightarrow> int \<Rightarrow> 'a net_store_scheme \<Rightarrow> (outcome \<times> 'a net_store_scheme) option" where
  "pipe_server_import tx env net yield run conn ipc w =
     (let (s, w1) = async_piper_server_object_create w;
          w2 = upd_pipe_server s (\<lambda>x. x\<lparr>ps_flags := (if ipc \<noteq> 0 then set_flag PIPE_FLAG_LAZY PIPE_FLAG_IPC else PIPE_FLAG_LAZY)\<rparr>) w1
      in Option.bind (async_pipe_import_stream tx env yield conn w2) (\<lambda>(r, w3). case r of
             Ret _ \<Rightarrow> Some (Ret (IS_OBJECT s), upd_pipe_server s (\<lambda>x. x\<lparr>ps_name := Some
                        (case pipe_sockname net s w3 of Some name \<Rightarrow> name | None \<Rightarrow> ''unknown'')\<rparr>) w3)
           | Throw e \<Rightarrow> map_option (Pair (Throw e)) (async_pipe_server_object_dtor run s w3)
           | Bail \<Rightarrow> Some (Bail, w3)))"

definition pipe_server_export ::
  "texts \<Rightarrow> 'a net_store_scheme uv_answers \<Rightarrow> 'a net_yield \<Rightarrow> 'a net_wake \<Rightarrow> nat \<Rightarrow> nat \<Rightarrow> 'a net_store_scheme \<Rightarrow>
   (outcome \<times> 'a net_store_scheme) option" where
  "pipe_server_export tx env yield run this conn w = async_pipe_export_stream tx env yield run conn w"

definition pipe_server_close ::
  "'a net_wake \<Rightarrow> nat \<Rightarrow> zval option \<Rightarrow> 'a net_store_scheme \<Rightarrow> 'a net_store_scheme option" where
  "pipe_server_close run s val w =
     (if \<not> ps_cancel (pipe_servers w s) then Some w
      else pipe_shutdown_server run s (Some (net_close_error SocketExceptionCe ''Server has been closed'' val))
             (w\<lparr>s_shutdown := remove1 (ShutdownCb CPipeServer s) (s_shutdown w)\<rparr>))"

definition pipe_server_get_address :: "nat \<Rightarrow> 'a net_store_scheme \<Rightarrow> string option" where
  "pipe_server_get_address s w = ps_name (pipe_servers w s)"

definition pipe_server_set_option :: "int \<Rightarrow> zval \<Rightarrow> zval" where
  "pipe_server_set_option opt val = IS_BOOL False"

section \<open>Accepting connections\<close>

definition pipe_server_ref :: "(bool \<Rightarrow> u8 \<times> unit uv_handle \<Rightarrow> u8 \<times> unit uv_handle) \<Rightarrow> bool \<Rightarrow> nat \<Rightarrow>
    'a net_store_scheme \<Rightarrow> 'a net_store_scheme" where
  "pipe_server_ref f bg s w = upd_pipe_server s (\<lambda>x. let (n, h) = f bg (ps_ref_count x, ps_handle x)
     in x\<lparr>ps_ref_count := n, ps_handle := h\<rparr>) w"

text \<open>The end of \<open>accept\<close>: a connection is there.\<close>

definition pipe_accept_now ::
  "texts \<Rightarrow> 'a net_store_scheme net_env \<Rightarrow> 'a net_own \<Rightarrow> 'a net_wake \<Rightarrow> nat \<Rightarrow> 'a net_store_scheme \<Rightarrow>
   outcome \<times> 'a net_store_scheme" where
  "pipe_accept_now tx net own run s w =
     (let (p, w1) = async_pipe_object_create (has_flag (ps_flags (pipe_servers w s)) PIPE_FLAG_IPC) w;
          code = accept_code net s p w1
      in if code \<noteq> 0
         then (Throw (uv_error tx SocketAcceptExceptionCe ''Failed to accept pipe connection: '' code),
               async_pipe_object_dtor own run p w1)
         else (Ret (IS_OBJECT p),
               upd_pipe_server s (\<lambda>x. x\<lparr>ps_refs := ps_refs x + 1\<rparr>)
                 (upd_pipe p (\<lambda>x. x\<lparr>pi_server := Some s, pi_name := ps_name (pipe_servers w1 s)\<rparr>) w1)))"

definition pipe_accept_wait ::
  "texts \<Rightarrow> 'a net_store_scheme net_env \<Rightarrow> 'a net_own \<Rightarrow> 'a net_yield \<Rightarrow> 'a net_wake \<Rightarrow> nat \<Rightarrow> 'a net_store_scheme \<Rightarrow>
   (outcome \<times> 'a net_store_scheme) option" where
  "pipe_accept_wait tx net own yield run s w =
     (let (op, w1) = async_alloc_op w;
          w2 = async_append_op (PipeAccepts s) op (set_uv_code op 0 w1);
          bg = async_context_is_background (g_context w2) w2
      in map_option (\<lambda>(r, w3). case r of
             Ret _ \<Rightarrow>
               if uv_codes w3 op < 0
               then (Throw (uv_error tx SocketAcceptExceptionCe ''Failed to accept pipe connection: '' (uv_codes w3 op)), w3)
               else pipe_accept_now tx net own run s w3
           | _ \<Rightarrow> (r, w3))
         (watch_await yield (pipe_server_ref async_unref_enter bg s) (pipe_server_ref async_unref_exit bg s) op w2))"

definition pipe_server_accept ::
  "texts \<Rightarrow> 'a net_store_scheme net_env \<Rightarrow> 'a net_own \<Rightarrow> 'a net_yield \<Rightarrow> 'a net_wake \<Rightarrow> nat \<Rightarrow> 'a net_store_scheme \<Rightarrow>
   (outcome \<times> 'a net_store_scheme) option" where
  "pipe_server_accept tx net own yield run s w =
     (let lazy = has_flag (ps_flags (pipe_servers w s)) PIPE_FLAG_LAZY;
          code = listen_code net s w
      in if lazy \<and> code \<noteq> 0
         then Some (Throw (uv_error tx SocketListenExceptionCe ''Server failed to listen: '' code), w)
         else
           let w1 = (if lazy then upd_pipe_server s (\<lambda>x. x\<lparr>ps_flags := ps_flags x XOR PIPE_FLAG_LAZY\<rparr>) (pipe_listen s w) else w)
           in if ps_pending (pipe_servers w1 s) \<noteq> 0
              then Some (pipe_accept_now tx net own run s
                     (upd_pipe_server s (\<lambda>x. x\<lparr>ps_pending := ps_pending x - 1\<rparr>) w1))
              else if ps_error (pipe_servers w1 s) \<noteq> IS_UNDEF then Some (Throw (ps_error (pipe_servers w1 s)), w1)
              else pipe_accept_wait tx net own yield run s w1)"

section \<open>Objects through pipes\<close>

text \<open>
  \<open>async_pipe_import\<close>: the imported handle becomes a pipe when it is writable, else a server that
  listens; \<open>Inl\<close> is the error code. \<open>async_pipe_export\<close> tells whether an object has a pipe handle.
\<close>

definition async_pipe_import ::
  "'a net_store_scheme net_env \<Rightarrow> nat \<Rightarrow> (nat \<Rightarrow> 'a net_store_scheme \<Rightarrow> bool) \<Rightarrow> 'a net_store_scheme \<Rightarrow>
   (int + component \<times> nat) \<times> 'a net_store_scheme" where
  "async_pipe_import net handle writable w =
     (let p = next_net w; w1 = w\<lparr>next_net := Suc p\<rparr>; code = accept_code net handle p w1
      in if code \<noteq> 0 then (Inl code, w1)
         else if writable p w1
         then (Inr (CPipe, p), async_stream_init p uv_init 0
                 (upd_pipe p (\<lambda>_. \<lparr>pi_flags = 0, pi_cancel = True, pi_name = None, pi_server = None\<rparr>)
                   (w1\<lparr>s_shutdown := list_append (ShutdownCb CPipe p) (s_shutdown w1)\<rparr>)))
         else (Inr (CPipeServer, p),
                 upd_pipe_server p (\<lambda>_. \<lparr>ps_handle = (uv_start () uv_init)\<lparr>uv_has_ref := False\<rparr>, ps_flags = 0, ps_name = None,
                     ps_pending = 0, ps_error = IS_UNDEF, ps_ref_count = 0, ps_cancel = True, ps_refs = 1\<rparr>)
                   (w1\<lparr>s_shutdown := list_append (ShutdownCb CPipeServer p) (s_shutdown w1)\<rparr>)))"

definition async_pipe_export :: "component \<Rightarrow> bool" where
  "async_pipe_export ce \<longleftrightarrow> ce = CPipe \<or> ce = CPipeServer"

end
