(* ===== verification/Tcp.thy ===== *)
theory Tcp
  imports Pipe
begin

text \<open>
  TCP sockets and servers (\<open>tcp.c\<close>) in a build with SSL support, without the handshake
  (\<open>TcpSocket::encrypt\<close>). The TLS settings are kept as they are passed.
\<close>

section \<open>Sockets\<close>

definition shutdown_socket ::
  "'a net_own \<Rightarrow> 'a net_wake \<Rightarrow> nat \<Rightarrow> zval option \<Rightarrow> 'a net_store_scheme \<Rightarrow> 'a net_store_scheme" where
  "shutdown_socket own run s error w =
     (let w1 = upd_tcp s (\<lambda>x. x\<lparr>so_cancel := False\<rparr>) w;
          w2 = (case error of None \<Rightarrow> w1
             | Some e \<Rightarrow> upd_stream s (\<lambda>x. x\<lparr>
                 st_read_error := (if st_read_error x = IS_UNDEF then e else st_read_error x),
                 st_write_error := (if st_write_error x = IS_UNDEF then e else st_write_error x)\<rparr>) w1)
      in async_stream_close own run s (Some s) w2)"

definition async_tcp_socket_object_create :: "'a net_store_scheme \<Rightarrow> nat \<times> 'a net_store_scheme" where
  "async_tcp_socket_object_create w =
     (let s = next_net w;
          w1 = upd_tcp s (\<lambda>_. \<lparr>so_cancel = True, so_name = None, so_local_addr = None, so_local_port = 0,
                   so_remote_addr = None, so_remote_port = 0, so_server = None, so_encryption = None\<rparr>)
                 (w\<lparr>next_net := Suc s, s_shutdown := list_append (ShutdownCb CSocket s) (s_shutdown w)\<rparr>)
      in (s, async_stream_init s uv_init 0 w1))"

definition async_tcp_socket_object_dtor :: "'a net_own \<Rightarrow> 'a net_wake \<Rightarrow> nat \<Rightarrow> 'a net_store_scheme \<Rightarrow> 'a net_store_scheme" where
  "async_tcp_socket_object_dtor own run s w =
     (if so_cancel (tcp_sockets w s)
      then shutdown_socket own run s None (w\<lparr>s_shutdown := remove1 (ShutdownCb CSocket s) (s_shutdown w)\<rparr>)
      else w)"

text \<open>The settings are copied, and the name of the socket is the default name of the peer.\<close>

definition setup_client_tls :: "nat \<Rightarrow> tls_client option \<Rightarrow> 'a net_store_scheme \<Rightarrow> 'a net_store_scheme" where
  "setup_client_tls s tls w = (case tls of None \<Rightarrow> w
     | Some t \<Rightarrow> upd_tcp s (\<lambda>x. x\<lparr>so_encryption := Some
         (if tls_peer_name t = None then t\<lparr>tls_peer_name := so_name x\<rparr> else t)\<rparr>) w)"

text \<open>\<open>if (0 == uv_fileno(...)) { get_local_peer; get_remote_peer }\<close>\<close>

definition set_peers :: "'a net_store_scheme net_env \<Rightarrow> nat \<Rightarrow> 'a net_store_scheme \<Rightarrow> 'a net_store_scheme" where
  "set_peers net s w =
     (if has_fileno net s w
      then
        let l = async_socket_get_local_peer (inet_of net) (sock_name net s w);
            r = async_socket_get_remote_peer (inet_of net) (peer_name net s w)
        in upd_tcp s (\<lambda>x. x\<lparr>so_local_addr := fst (snd l), so_local_port := snd (snd l),
             so_remote_addr := fst (snd r), so_remote_port := snd (snd r)\<rparr>) w
      else w)"

text \<open>
  The part of \<open>connect\<close> behind the lookup. The request lives on the stack of the function, and a wait
  that fails leaves it with libuv.
\<close>

definition tcp_connect_to ::
  "texts \<Rightarrow> 'a net_store_scheme net_env \<Rightarrow> 'a net_own \<Rightarrow> 'a net_yield \<Rightarrow> 'a net_wake \<Rightarrow> string \<Rightarrow> sockaddr \<Rightarrow>
   tls_client option \<Rightarrow> 'a net_store_scheme \<Rightarrow> (outcome \<times> 'a net_store_scheme) option" where
  "tcp_connect_to tx net own yield run name dest tls w =
     (let (s, w1) = async_tcp_socket_object_create w;
          w2 = upd_tcp s (\<lambda>x. x\<lparr>so_name := Some name\<rparr>) w1;
          code = tcp_connect_code net s dest w2
      in if code \<noteq> 0
         then Some (Throw (uv_error tx SocketConnectExceptionCe ''Failed to connect socket: '' code),
                    async_tcp_socket_object_dtor own run s w2)
         else
           let (op, w3) = async_alloc_op w2;
               w4 = (set_uv_code op 0 w3)\<lparr>connect_reqs := (s, op) # connect_reqs w3\<rparr>
           in map_option (\<lambda>(r, w5).
                if r = Await_bailout then (Bail, w5)
                else if r = Await_failure
                then (Throw (op_result (ops w5 op)), async_free_op op (async_tcp_socket_object_dtor own run s w5))
                else
                  let code = uv_codes w5 op; w6 = async_free_op op w5
                  in if code < 0 then (Throw (uv_error tx SocketConnectExceptionCe ''Failed to connect socket: '' code),
                                       async_tcp_socket_object_dtor own run s w6)
                     else (Ret (IS_OBJECT s), set_peers net s (setup_client_tls s tls w6)))
              (stream_await_op yield s op w4))"

definition tcp_socket_connect ::
  "texts \<Rightarrow> 'a net_store_scheme net_env \<Rightarrow> 'a net_own \<Rightarrow> 'a net_yield \<Rightarrow> 'a net_wake \<Rightarrow> string \<Rightarrow> int \<Rightarrow>
   tls_client option \<Rightarrow> 'a net_store_scheme \<Rightarrow> (outcome \<times> 'a net_store_scheme) option" where
  "tcp_socket_connect tx net own yield run name port tls w =
     (if sched_flag SCHED_DISPOSED w
      then Some (Throw (IS_ERROR SocketExceptionCe ''Task scheduler has been disposed'' None), w)
      else if sched_flag SCHED_ERROR w
      then Some (Throw (IS_ERROR SocketExceptionCe ''Task scheduler was stopped due to an error'' None), w)
      else Option.bind (assemble_address tx net yield name IPPROTO_TCP w) (\<lambda>(a, w1). case a of
        Addr_error e \<Rightarrow> Some (Throw e, w1)
      | Addr_exit \<Rightarrow> Some (Bail, w1)
      | Addr_ok dest \<Rightarrow> tcp_connect_to tx net own yield run name (snd (async_socket_set_port dest port)) tls w1))"

text \<open>Without a descriptor the name stays null; it is empty when the address is not known.\<close>

definition tcp_socket_import ::
  "texts \<Rightarrow> 'a net_store_scheme uv_answers \<Rightarrow> 'a net_store_scheme net_env \<Rightarrow> 'a net_own \<Rightarrow> 'a net_yield \<Rightarrow> 'a net_wake \<Rightarrow>
   nat \<Rightarrow> tls_client option \<Rightarrow> 'a net_store_scheme \<Rightarrow> (outcome \<times> 'a net_store_scheme) option" where
  "tcp_socket_import tx env net own yield run conn tls w =
     (let (s, w1) = async_tcp_socket_object_create w
      in map_option (\<lambda>(r, w2). case r of
             Ret _ \<Rightarrow>
               let w3 = setup_client_tls s tls w2
               in (Ret (IS_OBJECT s),
                   if has_fileno net s w3
                   then upd_tcp s (\<lambda>x. x\<lparr>so_name := (if fst (async_socket_get_local_peer (inet_of net) (sock_name net s w3))
                          then so_local_addr x else Some [])\<rparr>) (set_peers net s w3)
                   else w3)
           | Throw e \<Rightarrow> (Throw e, async_tcp_socket_object_dtor own run s w2)
           | Bail \<Rightarrow> (Bail, w2))
         (async_pipe_import_stream tx env yield conn w1))"

definition tcp_socket_export ::
  "texts \<Rightarrow> 'a net_store_scheme uv_answers \<Rightarrow> 'a net_yield \<Rightarrow> 'a net_wake \<Rightarrow> nat \<Rightarrow> nat \<Rightarrow> 'a net_store_scheme \<Rightarrow>
   (outcome \<times> 'a net_store_scheme) option" where
  "tcp_socket_export tx env yield run this ipc w = async_pipe_export_stream tx env yield run ipc w"

text \<open>
  \<open>tcp_socket_pair\<close> on Unix: what the system calls return, in their order (\<open>socket\<close>, \<open>bind\<close>,
  \<open>getsockname\<close>, \<open>listen\<close>, \<open>socket\<close>, \<open>connect\<close>, \<open>accept\<close>). The result are the two descriptors, if
  it succeeds, and the descriptors that were closed.
\<close>

definition tcp_socket_pair :: "int \<Rightarrow> int \<Rightarrow> int \<Rightarrow> int \<Rightarrow> int \<Rightarrow> int \<Rightarrow> int \<Rightarrow> (int \<times> int) option \<times> int list" where
  "tcp_socket_pair sock0 bound named listening sock1 connected redirect =
     (if sock0 = - 1 then (None, [- 1, - 1, - 1])
      else if bound \<noteq> 0 \<or> named \<noteq> 0 \<or> listening \<noteq> 0 then (None, [- 1, sock0, - 1])
      else if sock1 = - 1 then (None, [- 1, sock0, - 1])
      else if connected \<noteq> 0 \<or> redirect = - 1 then (None, [- 1, sock0, sock1])
      else (Some (redirect, sock1), [sock0]))"

text \<open>What \<open>uv_tcp_open\<close> returns is ignored; the ports are not set.\<close>

definition open_tcp_socket :: "int \<Rightarrow> nat list \<times> 'a net_store_scheme \<Rightarrow> nat list \<times> 'a net_store_scheme" where
  "open_tcp_socket fd st =
     (let (s, w1) = async_tcp_socket_object_create (snd st)
      in (fst st @ [s], upd_tcp s (\<lambda>x. x\<lparr>so_local_addr := Some ''127.0.0.1'', so_remote_addr := Some ''127.0.0.1''\<rparr>) w1))"

definition tcp_pair :: "texts \<Rightarrow> bool \<Rightarrow> int + int \<times> int \<Rightarrow> 'a net_store_scheme \<Rightarrow> (zval + nat list) \<times> 'a net_store_scheme" where
  "tcp_pair tx used pair w =
     (if \<not> used then (Inr [], w)
      else case pair of
        Inl code \<Rightarrow> (Inl (uv_error tx SocketExceptionCe ''Failed to create socket pair: '' code), w)
      | Inr (fd0, fd1) \<Rightarrow> (let (ss, w1) = open_tcp_socket fd1 (open_tcp_socket fd0 ([], w)) in (Inr ss, w1)))"

section \<open>Methods of sockets\<close>

definition tcp_socket_close ::
  "'a net_own \<Rightarrow> 'a net_wake \<Rightarrow> nat \<Rightarrow> zval option \<Rightarrow> 'a net_store_scheme \<Rightarrow> 'a net_store_scheme" where
  "tcp_socket_close own run s val w =
     (if \<not> so_cancel (tcp_sockets w s) then w
      else shutdown_socket own run s (Some (net_close_error StreamClosedExceptionCe ''Socket has been closed'' val))
             (w\<lparr>s_shutdown := remove1 (ShutdownCb CSocket s) (s_shutdown w)\<rparr>))"

definition tcp_socket_flush :: "'a net_yield \<Rightarrow> nat \<Rightarrow> 'a net_store_scheme \<Rightarrow> (outcome \<times> 'a net_store_scheme) option" where
  "tcp_socket_flush yield s w =
     (if st_write_error (streams w s) \<noteq> IS_UNDEF then Some (Throw (st_write_error (streams w s)), w)
      else async_stream_flush yield s w)"

text \<open>A missing address is a null pointer.\<close>

definition tcp_socket_get_address :: "nat \<Rightarrow> 'a net_store_scheme \<Rightarrow> string option" where
  "tcp_socket_get_address s w = so_local_addr (tcp_sockets w s)"

definition tcp_socket_get_port :: "nat \<Rightarrow> 'a net_store_scheme \<Rightarrow> int" where
  "tcp_socket_get_port s w = uint (so_local_port (tcp_sockets w s))"

definition tcp_socket_get_remote_address :: "nat \<Rightarrow> 'a net_store_scheme \<Rightarrow> string option" where
  "tcp_socket_get_remote_address s w = so_remote_addr (tcp_sockets w s)"

definition tcp_socket_get_remote_port :: "nat \<Rightarrow> 'a net_store_scheme \<Rightarrow> int" where
  "tcp_socket_get_remote_port s w = uint (so_remote_port (tcp_sockets w s))"

text \<open>\<open>option_code\<close> is what the call for an option returns; unknown options succeed.\<close>

definition tcp_socket_set_option :: "'a net_store_scheme net_env \<Rightarrow> nat \<Rightarrow> int \<Rightarrow> int \<Rightarrow> 'a net_store_scheme \<Rightarrow> bool" where
  "tcp_socket_set_option net s opt val w =
     (let code = (if to_c_int opt \<in> {100, 101} then option_code net s (to_c_int opt) val w else 0) in \<not> code < 0)"

definition tcp_socket_is_alive :: "(nat \<Rightarrow> 'a stream_store_scheme \<Rightarrow> probe) \<Rightarrow> nat \<Rightarrow> 'a stream_store_scheme \<Rightarrow> bool" where
  "tcp_socket_is_alive probe s w = async_socket_is_alive probe s w"

definition tcp_socket_read ::
  "texts \<Rightarrow> 'a net_store_scheme uv_answers \<Rightarrow> 'a net_yield \<Rightarrow> nat \<Rightarrow> int option \<Rightarrow> 'a net_store_scheme \<Rightarrow>
   (read_outcome \<times> 'a net_store_scheme) option" where
  "tcp_socket_read tx env yield s hint w = async_stream_call_read tx True env yield s hint w"

definition tcp_socket_write ::
  "texts \<Rightarrow> 'a net_store_scheme uv_answers \<Rightarrow> 'a net_yield \<Rightarrow> 'a net_wake \<Rightarrow> nat \<Rightarrow> byte list \<Rightarrow> 'a net_store_scheme \<Rightarrow>
   (outcome \<times> 'a net_store_scheme) option" where
  "tcp_socket_write tx env yield run s data w = async_stream_call_write tx True env yield run s data w"

definition tcp_socket_get_write_queue_size :: "'a net_store_scheme net_env \<Rightarrow> nat \<Rightarrow> 'a net_store_scheme \<Rightarrow> nat" where
  "tcp_socket_get_write_queue_size net s w =
     (if st_write_error (streams w s) = IS_UNDEF then write_queue_size net s w else 0)"

section \<open>Servers\<close>

definition settle_accept :: "'a net_wake \<Rightarrow> nat \<Rightarrow> opid \<Rightarrow> 'a net_store_scheme \<Rightarrow> 'a net_store_scheme" where
  "settle_accept run s op w =
     (if sv_error (tcp_servers w s) \<noteq> IS_UNDEF then async_fail_op run op (sv_error (tcp_servers w s)) w
      else async_finish_op run op (set_uv_code op UV_ECANCELED w))"

definition shutdown_server ::
  "'a net_wake \<Rightarrow> nat \<Rightarrow> zval option \<Rightarrow> 'a net_store_scheme \<Rightarrow> 'a net_store_scheme option" where
  "shutdown_server run s error w =
     (let w1 = upd_tcp_server s (\<lambda>x. x\<lparr>sv_cancel := False,
            sv_error := (case error of Some e \<Rightarrow> if sv_error x = IS_UNDEF then e else sv_error x | None \<Rightarrow> sv_error x)\<rparr>) w
      in map_option (upd_tcp_server s (\<lambda>x. if uv_closing (sv_handle x) then x
              else x\<lparr>sv_refs := sv_refs x + 1, sv_handle := uv_close (sv_handle x)\<rparr>))
           (drain_ops (settle_accept run s) (ServerAccepts s) w1))"

definition async_tcp_server_object_create :: "'a net_store_scheme \<Rightarrow> nat \<times> 'a net_store_scheme" where
  "async_tcp_server_object_create w =
     (let s = next_net w
      in (s, upd_tcp_server s (\<lambda>_. \<lparr>sv_handle = uv_init, sv_flags = 0, sv_name = None, sv_addr = None, sv_port = 0,
               sv_pending = 0, sv_error = IS_UNDEF, sv_ref_count = 0, sv_cancel = True, sv_refs = 1, sv_encryption = None\<rparr>)
             (w\<lparr>next_net := Suc s, s_shutdown := list_append (ShutdownCb CServer s) (s_shutdown w)\<rparr>)))"

definition async_tcp_server_object_dtor ::
  "'a net_wake \<Rightarrow> nat \<Rightarrow> 'a net_store_scheme \<Rightarrow> 'a net_store_scheme option" where
  "async_tcp_server_object_dtor run s w =
     (if sv_cancel (tcp_servers w s)
      then shutdown_server run s None (w\<lparr>s_shutdown := remove1 (ShutdownCb CServer s) (s_shutdown w)\<rparr>)
      else Some w)"

text \<open>A failed connection attempt counts as pending, too, when nobody waits.\<close>

definition server_connected :: "'a net_wake \<Rightarrow> nat \<Rightarrow> int \<Rightarrow> 'a net_store_scheme \<Rightarrow> 'a net_store_scheme" where
  "server_connected run s status w = (case async_next_op (ServerAccepts s) w of
     None \<Rightarrow> upd_tcp_server s (\<lambda>x. x\<lparr>sv_pending := sv_pending x + 1\<rparr>) w
   | Some (op, w1) \<Rightarrow> async_finish_op run op (set_uv_code op status w1))"

text \<open>The calls of OpenSSL that prepare the context are not modelled.\<close>

definition setup_server_tls :: "nat \<Rightarrow> nat option \<Rightarrow> 'a net_store_scheme \<Rightarrow> 'a net_store_scheme" where
  "setup_server_tls s tls w = (case tls of None \<Rightarrow> w | Some t \<Rightarrow> upd_tcp_server s (\<lambda>x. x\<lparr>sv_encryption := Some t\<rparr>) w)"

text \<open>
  \<open>create_server\<close>; the flag 1 of \<open>uv_tcp_bind\<close> is \<open>UV_TCP_IPV6ONLY\<close>. The options of the descriptor
  (\<open>reuseaddr\<close>, \<open>reuseport\<close>) are not modelled.
\<close>

datatype created = Created nat | Not_created zval | Create_exit

definition create_server_at ::
  "texts \<Rightarrow> 'a net_store_scheme net_env \<Rightarrow> 'a net_wake \<Rightarrow> string \<Rightarrow> int \<Rightarrow> sockaddr \<Rightarrow> nat option \<Rightarrow> 'a net_store_scheme \<Rightarrow>
   (created \<times> 'a net_store_scheme) option" where
  "create_server_at tx net run host port addr tls w =
     (let (s, w1) = async_tcp_server_object_create w;
          ipv6 = (case addr of AF_INET6 _ _ \<Rightarrow> 1 | _ \<Rightarrow> 0)
      in if \<not> has_fileno net s w1
         then map_option (Pair (Not_created (IS_ERROR SocketBindExceptionCe ''Failed to create socket handle'' None)))
                (async_tcp_server_object_dtor run s w1)
         else
           let w2 = upd_tcp_server s (\<lambda>x. x\<lparr>sv_name := Some host, sv_port := word_of_int port\<rparr>) w1;
               code = bind_code net s addr ipv6 w2
           in if code \<noteq> 0
              then map_option (Pair (Not_created (uv_error tx SocketBindExceptionCe ''Failed to bind server: '' code)))
                     (async_tcp_server_object_dtor run s w2)
              else
                let l = async_socket_get_local_peer (inet_of net) (sock_name net s w2)
                in Some (Created s, setup_server_tls s tls (upd_tcp_server s (\<lambda>x. x\<lparr>
                     sv_handle := (sv_handle x)\<lparr>uv_has_ref := False\<rparr>, sv_addr := fst (snd l), sv_port := snd (snd l)\<rparr>) w2)))"

definition create_server ::
  "texts \<Rightarrow> 'a net_store_scheme net_env \<Rightarrow> 'a net_yield \<Rightarrow> 'a net_wake \<Rightarrow> string option \<Rightarrow> int \<Rightarrow> nat option \<Rightarrow>
   'a net_store_scheme \<Rightarrow> (created \<times> 'a net_store_scheme) option" where
  "create_server tx net yield run name port tls w =
     (let host = host_or_wildcard name
      in Option.bind (assemble_address tx net yield host IPPROTO_TCP w) (\<lambda>(a, w1). case a of
        Addr_error e \<Rightarrow> Some (Not_created e, w1)
      | Addr_exit \<Rightarrow> Some (Create_exit, w1)
      | Addr_ok addr \<Rightarrow> create_server_at tx net run host port (snd (async_socket_set_port addr port)) tls w1))"

definition tcp_server_bind ::
  "texts \<Rightarrow> 'a net_store_scheme net_env \<Rightarrow> 'a net_yield \<Rightarrow> 'a net_wake \<Rightarrow> string option \<Rightarrow> int \<Rightarrow> nat option \<Rightarrow>
   'a net_store_scheme \<Rightarrow> (outcome \<times> 'a net_store_scheme) option" where
  "tcp_server_bind tx net yield run name port tls w =
     map_option (\<lambda>(r, w1). case r of
         Not_created e \<Rightarrow> (Throw e, w1)
       | Create_exit \<Rightarrow> (Bail, w1)
       | Created s \<Rightarrow> (Ret (IS_OBJECT s), upd_tcp_server s (\<lambda>x. x\<lparr>sv_flags := TCP_SERVER_FLAG_LAZY\<rparr>) w1))
     (create_server tx net yield run name port tls w)"

definition tcp_listen :: "nat \<Rightarrow> 'a net_store_scheme \<Rightarrow> 'a net_store_scheme" where
  "tcp_listen s w = upd_tcp_server s (\<lambda>x. x\<lparr>sv_handle := uv_start () (sv_handle x)\<rparr>) w"

definition tcp_server_listen ::
  "texts \<Rightarrow> 'a net_store_scheme net_env \<Rightarrow> 'a net_yield \<Rightarrow> 'a net_wake \<Rightarrow> string option \<Rightarrow> int \<Rightarrow> nat option \<Rightarrow>
   'a net_store_scheme \<Rightarrow> (outcome \<times> 'a net_store_scheme) option" where
  "tcp_server_listen tx net yield run name port tls w =
     Option.bind (create_server tx net yield run name port tls w) (\<lambda>(r, w1). case r of
         Not_created e \<Rightarrow> Some (Throw e, w1)
       | Create_exit \<Rightarrow> Some (Bail, w1)
       | Created s \<Rightarrow>
           if listen_code net s w1 \<noteq> 0
           then map_option (Pair (Throw (uv_error tx SocketListenExceptionCe ''Server failed to listen: '' (listen_code net s w1))))
                  (async_tcp_server_object_dtor run s w1)
           else Some (Ret (IS_OBJECT s), tcp_listen s w1))"

text \<open>The TLS settings that are passed are not used.\<close>

definition tcp_server_import ::
  "texts \<Rightarrow> 'a net_store_scheme uv_answers \<Rightarrow> 'a net_store_scheme net_env \<Rightarrow> 'a net_yield \<Rightarrow> 'a net_wake \<Rightarrow>
   nat \<Rightarrow> nat option \<Rightarrow> 'a net_store_scheme \<Rightarrow> (outcome \<times> 'a net_store_scheme) option" where
  "tcp_server_import tx env net yield run conn tls w =
     (let (s, w1) = async_tcp_server_object_create w;
          w2 = upd_tcp_server s (\<lambda>x. x\<lparr>sv_flags := TCP_SERVER_FLAG_LAZY\<rparr>) w1
      in Option.bind (async_pipe_import_stream tx env yield conn w2) (\<lambda>(r, w3). case r of
             Ret _ \<Rightarrow>
               let l = async_socket_get_local_peer (inet_of net) (sock_name net s w3);
                   w4 = (if has_fileno net s w3
                         then upd_tcp_server s (\<lambda>x. x\<lparr>sv_addr := fst (snd l), sv_port := snd (snd l),
                                sv_name := (if fst l then fst (snd l) else Some [])\<rparr>) w3
                         else w3)
               in Some (Ret (IS_OBJECT s), upd_tcp_server s (\<lambda>x. x\<lparr>sv_handle := (sv_handle x)\<lparr>uv_has_ref := False\<rparr>\<rparr>) w4)
           | Throw e \<Rightarrow> map_option (Pair (Throw e)) (async_tcp_server_object_dtor run s w3)
           | Bail \<Rightarrow> Some (Bail, w3)))"

definition tcp_server_export ::
  "texts \<Rightarrow> 'a net_store_scheme uv_answers \<Rightarrow> 'a net_yield \<Rightarrow> 'a net_wake \<Rightarrow> nat \<Rightarrow> nat \<Rightarrow> 'a net_store_scheme \<Rightarrow>
   (outcome \<times> 'a net_store_scheme) option" where
  "tcp_server_export tx env yield run this ipc w = async_pipe_export_stream tx env yield run ipc w"

definition tcp_server_close ::
  "'a net_wake \<Rightarrow> nat \<Rightarrow> zval option \<Rightarrow> 'a net_store_scheme \<Rightarrow> 'a net_store_scheme option" where
  "tcp_server_close run s val w =
     (if \<not> sv_cancel (tcp_servers w s) then Some w
      else shutdown_server run s (Some (net_close_error SocketExceptionCe ''Server has been closed'' val))
             (w\<lparr>s_shutdown := remove1 (ShutdownCb CServer s) (s_shutdown w)\<rparr>))"

text \<open>The address of a server is the name it was created with.\<close>

definition tcp_server_get_address :: "nat \<Rightarrow> 'a net_store_scheme \<Rightarrow> string option" where
  "tcp_server_get_address s w = sv_name (tcp_servers w s)"

definition tcp_server_get_port :: "nat \<Rightarrow> 'a net_store_scheme \<Rightarrow> int" where
  "tcp_server_get_port s w = uint (sv_port (tcp_servers w s))"

definition tcp_server_set_option :: "'a net_store_scheme net_env \<Rightarrow> nat \<Rightarrow> int \<Rightarrow> int \<Rightarrow> 'a net_store_scheme \<Rightarrow> bool" where
  "tcp_server_set_option net s opt val w =
     (let code = (if to_c_int opt = 150 then option_code net s (to_c_int opt) val w else 0) in \<not> code < 0)"

section \<open>Accepting connections\<close>

definition tcp_server_ref :: "(bool \<Rightarrow> u8 \<times> unit uv_handle \<Rightarrow> u8 \<times> unit uv_handle) \<Rightarrow> bool \<Rightarrow> nat \<Rightarrow>
    'a net_store_scheme \<Rightarrow> 'a net_store_scheme" where
  "tcp_server_ref f bg s w = upd_tcp_server s (\<lambda>x. let (n, h) = f bg (sv_ref_count x, sv_handle x)
     in x\<lparr>sv_ref_count := n, sv_handle := h\<rparr>) w"

definition tcp_accept_now ::
  "texts \<Rightarrow> 'a net_store_scheme net_env \<Rightarrow> 'a net_own \<Rightarrow> 'a net_wake \<Rightarrow> nat \<Rightarrow> 'a net_store_scheme \<Rightarrow>
   outcome \<times> 'a net_store_scheme" where
  "tcp_accept_now tx net own run s w =
     (let (c, w1) = async_tcp_socket_object_create w;
          code = accept_code net s c w1
      in if code \<noteq> 0
         then (Throw (uv_error tx SocketAcceptExceptionCe ''Failed to accept socket connection: '' code),
               async_tcp_socket_object_dtor own run c w1)
         else (Ret (IS_OBJECT c),
               upd_tcp_server s (\<lambda>x. x\<lparr>sv_refs := sv_refs x + 1\<rparr>)
                 (set_peers net c (upd_tcp c (\<lambda>x. x\<lparr>so_server := Some s\<rparr>) w1))))"

definition tcp_accept_wait ::
  "texts \<Rightarrow> 'a net_store_scheme net_env \<Rightarrow> 'a net_own \<Rightarrow> 'a net_yield \<Rightarrow> 'a net_wake \<Rightarrow> nat \<Rightarrow> 'a net_store_scheme \<Rightarrow>
   (outcome \<times> 'a net_store_scheme) option" where
  "tcp_accept_wait tx net own yield run s w =
     (let (op, w1) = async_alloc_op w;
          w2 = async_append_op (ServerAccepts s) op (set_uv_code op 0 w1);
          bg = async_context_is_background (g_context w2) w2
      in map_option (\<lambda>(r, w3). case r of
             Ret _ \<Rightarrow>
               if uv_codes w3 op < 0
               then (Throw (uv_error tx SocketAcceptExceptionCe ''Failed to accept socket connection: '' (uv_codes w3 op)), w3)
               else tcp_accept_now tx net own run s w3
           | _ \<Rightarrow> (r, w3))
         (watch_await yield (tcp_server_ref async_unref_enter bg s) (tcp_server_ref async_unref_exit bg s) op w2))"

definition tcp_server_accept ::
  "texts \<Rightarrow> 'a net_store_scheme net_env \<Rightarrow> 'a net_own \<Rightarrow> 'a net_yield \<Rightarrow> 'a net_wake \<Rightarrow> nat \<Rightarrow> 'a net_store_scheme \<Rightarrow>
   (outcome \<times> 'a net_store_scheme) option" where
  "tcp_server_accept tx net own yield run s w =
     (let lazy = has_flag (sv_flags (tcp_servers w s)) TCP_SERVER_FLAG_LAZY;
          code = listen_code net s w
      in if lazy \<and> code \<noteq> 0
         then Some (Throw (uv_error tx SocketListenExceptionCe ''Server failed to listen: '' code), w)
         else
           let w1 = (if lazy then upd_tcp_server s (\<lambda>x. x\<lparr>sv_flags := sv_flags x XOR TCP_SERVER_FLAG_LAZY\<rparr>) (tcp_listen s w) else w)
           in if sv_pending (tcp_servers w1 s) \<noteq> 0
              then Some (tcp_accept_now tx net own run s
                     (upd_tcp_server s (\<lambda>x. x\<lparr>sv_pending := sv_pending x - 1\<rparr>) w1))
              else if sv_error (tcp_servers w1 s) \<noteq> IS_UNDEF then Some (Throw (sv_error (tcp_servers w1 s)), w1)
              else tcp_accept_wait tx net own yield run s w1)"

end
