(* ===== verification/Udp.thy ===== *)
theory Udp
  imports Net
begin

text \<open>
  UDP sockets and datagrams (\<open>udp.c\<close>). A send request is a part of its operation: libuv keeps a pointer
  into the operation until it calls the callback.
\<close>

section \<open>Sockets\<close>

definition udp_socket_shutdown ::
  "'a net_wake \<Rightarrow> nat \<Rightarrow> zval option \<Rightarrow> 'a net_store_scheme \<Rightarrow> 'a net_store_scheme option" where
  "udp_socket_shutdown run s error w =
     (let w1 = upd_udp s (\<lambda>x. x\<lparr>ud_cancel := False,
            ud_error := (case error of Some e \<Rightarrow> if ud_error x = IS_UNDEF then e else ud_error x | None \<Rightarrow> ud_error x)\<rparr>) w;
          w2 = upd_udp s (\<lambda>x. if uv_closing (ud_handle x) then x
                 else x\<lparr>ud_refs := ud_refs x + 1, ud_handle := uv_close (ud_handle x)\<rparr>) w1;
          fail = (\<lambda>op w. async_fail_op run op (ud_error (udp_sockets w s)) w)
      in if error = None then Some w2
         else Option.bind (drain_first fail (UdpReceivers s) w2) (\<lambda>w3.
              Option.bind (drain_first fail (UdpSenders s) w3) (drain_first fail (UdpFlush s))))"

definition async_udp_socket_object_create :: "'a net_store_scheme \<Rightarrow> nat \<times> 'a net_store_scheme" where
  "async_udp_socket_object_create w =
     (let s = next_net w
      in (s, upd_udp s (\<lambda>_. \<lparr>ud_handle = uv_init\<lparr>uv_has_ref := False\<rparr>, ud_flags = 0, ud_name = None, ud_ip = None, ud_port = 0,
               ud_error = IS_UNDEF, ud_ref_count = 0, ud_cancel = True, ud_refs = 1, ud_requests = []\<rparr>)
             (w\<lparr>next_net := Suc s, s_shutdown := list_append (ShutdownCb CUdpSocket s) (s_shutdown w)\<rparr>)))"

definition async_udp_socket_object_dtor ::
  "'a net_wake \<Rightarrow> nat \<Rightarrow> 'a net_store_scheme \<Rightarrow> 'a net_store_scheme option" where
  "async_udp_socket_object_dtor run s w =
     (if ud_cancel (udp_sockets w s)
      then udp_socket_shutdown run s None (w\<lparr>s_shutdown := remove1 (ShutdownCb CUdpSocket s) (s_shutdown w)\<rparr>)
      else Some w)"

text \<open>Creating fails: the new object is destroyed and the error is thrown.\<close>

definition drop_udp ::
  "'a net_wake \<Rightarrow> nat \<Rightarrow> zval \<Rightarrow> 'a net_store_scheme \<Rightarrow> (outcome \<times> 'a net_store_scheme) option" where
  "drop_udp run s e w = map_option (Pair (Throw e)) (async_udp_socket_object_dtor run s w)"

definition set_udp_peer :: "'a net_store_scheme net_env \<Rightarrow> nat \<Rightarrow> 'a net_store_scheme \<Rightarrow> 'a net_store_scheme" where
  "set_udp_peer net s w =
     (let l = async_socket_get_local_peer (inet_of net) (sock_name net s w)
      in if has_fileno net s w then upd_udp s (\<lambda>x. x\<lparr>ud_ip := fst (snd l), ud_port := snd (snd l)\<rparr>) w else w)"

text \<open>The flag of \<open>uv_udp_bind\<close> is \<open>UV_UDP_REUSEADDR\<close>, 4.\<close>

definition udp_socket_bind ::
  "texts \<Rightarrow> 'a net_store_scheme net_env \<Rightarrow> 'a net_yield \<Rightarrow> 'a net_wake \<Rightarrow> string option \<Rightarrow> int \<Rightarrow> 'a net_store_scheme \<Rightarrow>
   (outcome \<times> 'a net_store_scheme) option" where
  "udp_socket_bind tx net yield run name port w =
     (let host = host_or_wildcard name
      in Option.bind (assemble_address tx net yield host IPPROTO_UDP w) (\<lambda>(a, w1). case a of
        Addr_error e \<Rightarrow> Some (Throw e, w1)
      | Addr_exit \<Rightarrow> Some (Bail, w1)
      | Addr_ok addr \<Rightarrow>
          let (s, w2) = async_udp_socket_object_create w1;
              w3 = upd_udp s (\<lambda>x. x\<lparr>ud_name := Some host\<rparr>) w2;
              code = bind_code net s (snd (async_socket_set_port addr port)) 4 w3
          in if code \<noteq> 0 then drop_udp run s (uv_error tx SocketBindExceptionCe ''Failed to bind UDP socket: '' code) w3
             else Some (Ret (IS_OBJECT s), set_udp_peer net s w3)))"

definition udp_connect_from ::
  "texts \<Rightarrow> 'a net_store_scheme net_env \<Rightarrow> 'a net_wake \<Rightarrow> string \<Rightarrow> sockaddr \<Rightarrow> sockaddr \<Rightarrow> 'a net_store_scheme \<Rightarrow>
   (outcome \<times> 'a net_store_scheme) option" where
  "udp_connect_from tx net run host addr dest w =
     (let (s, w1) = async_udp_socket_object_create w;
          w2 = upd_udp s (\<lambda>x. x\<lparr>ud_name := Some host\<rparr>) w1;
          code = bind_code net s addr 4 w2
      in if code \<noteq> 0 then drop_udp run s (uv_error tx SocketBindExceptionCe ''Failed to bind UDP socket: '' code) w2
         else
           let w3 = set_udp_peer net s w2; code = udp_connect_code net s dest w3
           in if code \<noteq> 0 then drop_udp run s (uv_error tx SocketConnectExceptionCe ''Failed to connect UDP socket: '' code) w3
              else Some (Ret (IS_OBJECT s), upd_udp s (\<lambda>x. x\<lparr>ud_flags := set_flag (ud_flags x) UDP_FLAG_CONNECTED\<rparr>) w3))"

definition udp_socket_connect ::
  "texts \<Rightarrow> 'a net_store_scheme net_env \<Rightarrow> 'a net_yield \<Rightarrow> 'a net_wake \<Rightarrow> string \<Rightarrow> int \<Rightarrow> string option \<Rightarrow> int \<Rightarrow>
   'a net_store_scheme \<Rightarrow> (outcome \<times> 'a net_store_scheme) option" where
  "udp_socket_connect tx net yield run remote remote_port name port w =
     (if sched_flag SCHED_DISPOSED w
      then Some (Throw (IS_ERROR SocketExceptionCe ''Task scheduler has been disposed'' None), w)
      else if sched_flag SCHED_ERROR w
      then Some (Throw (IS_ERROR SocketExceptionCe ''Task scheduler was stopped due to an error'' None), w)
      else
        let host = host_or_wildcard name
        in Option.bind (assemble_address tx net yield host IPPROTO_UDP w) (\<lambda>(a, w1). case a of
          Addr_error e \<Rightarrow> Some (Throw e, w1)
        | Addr_exit \<Rightarrow> Some (Bail, w1)
        | Addr_ok addr \<Rightarrow> Option.bind (assemble_address tx net yield remote IPPROTO_UDP w1) (\<lambda>(b, w2). case b of
            Addr_error e \<Rightarrow> Some (Throw e, w2)
          | Addr_exit \<Rightarrow> Some (Bail, w2)
          | Addr_ok dest \<Rightarrow> udp_connect_from tx net run host (snd (async_socket_set_port addr port))
                              (snd (async_socket_set_port dest remote_port)) w2)))"

definition udp_socket_multicast ::
  "texts \<Rightarrow> 'a net_store_scheme net_env \<Rightarrow> 'a net_wake \<Rightarrow> string \<Rightarrow> int \<Rightarrow> 'a net_store_scheme \<Rightarrow>
   (outcome \<times> 'a net_store_scheme) option" where
  "udp_socket_multicast tx net run grp port w =
     (let (s, w1) = async_udp_socket_object_create w;
          w2 = upd_udp s (\<lambda>x. x\<lparr>ud_name := Some ''localhost''\<rparr>) w1;
          (ok, dest) = uv_ip4_addr (inet_of net) ''0.0.0.0'' (word_of_int port)
      in if \<not> ok then drop_udp run s (uv_error tx SocketExceptionCe ''Failed to assemble IP address: '' UV_EINVAL) w2
         else
           let code = bind_code net s dest 4 w2
           in if code \<noteq> 0 then drop_udp run s (uv_error tx SocketBindExceptionCe ''Failed to bind UDP socket: '' code) w2
              else
                let code = join_code net s grp w2
                in if code \<noteq> 0
                   then drop_udp run s (uv_error tx SocketExceptionCe ''Failed to join UDP multicast group: '' code) w2
                   else Some (Ret (IS_OBJECT s), set_udp_peer net s w2))"

definition udp_socket_close ::
  "'a net_wake \<Rightarrow> nat \<Rightarrow> zval option \<Rightarrow> 'a net_store_scheme \<Rightarrow> 'a net_store_scheme option" where
  "udp_socket_close run s val w =
     (if \<not> ud_cancel (udp_sockets w s) then Some w
      else udp_socket_shutdown run s (Some (net_close_error StreamClosedExceptionCe ''Socket has been closed'' val))
             (w\<lparr>s_shutdown := remove1 (ShutdownCb CUdpSocket s) (s_shutdown w)\<rparr>))"

definition udp_socket_flush :: "'a net_yield \<Rightarrow> nat \<Rightarrow> 'a net_store_scheme \<Rightarrow> (outcome \<times> 'a net_store_scheme) option" where
  "udp_socket_flush yield s w =
     (if ud_error (udp_sockets w s) \<noteq> IS_UNDEF then Some (Throw (ud_error (udp_sockets w s)), w)
      else if queues w (UdpSenders s) = [] then Some (Ret IS_NULL, w)
      else
        let (op, w1) = async_alloc_op w
        in watch_await yield (\<lambda>w. w) (\<lambda>w. w) op (async_append_op (UdpFlush s) op w1))"

text \<open>A missing address is a null pointer.\<close>

definition udp_socket_get_address :: "nat \<Rightarrow> 'a net_store_scheme \<Rightarrow> string option" where
  "udp_socket_get_address s w = ud_ip (udp_sockets w s)"

definition udp_socket_get_port :: "nat \<Rightarrow> 'a net_store_scheme \<Rightarrow> int" where
  "udp_socket_get_port s w = uint (ud_port (udp_sockets w s))"

definition udp_socket_set_option :: "'a net_store_scheme net_env \<Rightarrow> nat \<Rightarrow> int \<Rightarrow> int \<Rightarrow> 'a net_store_scheme \<Rightarrow> bool" where
  "udp_socket_set_option net s opt val w =
     (let code = (if to_c_int opt \<in> {200, 250, 251} then option_code net s (to_c_int opt) val w else 0) in \<not> code < 0)"

definition udp_ref :: "(bool \<Rightarrow> u8 \<times> unit uv_handle \<Rightarrow> u8 \<times> unit uv_handle) \<Rightarrow> bool \<Rightarrow> nat \<Rightarrow>
    'a net_store_scheme \<Rightarrow> 'a net_store_scheme" where
  "udp_ref f bg s w = upd_udp s (\<lambda>x. let (n, h) = f bg (ud_ref_count x, ud_handle x)
     in x\<lparr>ud_ref_count := n, ud_handle := h\<rparr>) w"

section \<open>Receiving\<close>

definition async_udp_datagram_object_create :: "'a net_store_scheme \<Rightarrow> nat \<times> 'a net_store_scheme" where
  "async_udp_datagram_object_create w =
     (let d = next_datagram w
      in (d, (upd_datagram d (\<lambda>_. \<lparr>dg_peer = AF_UNSPEC, dg_data = [], dg_address = IS_NULL, dg_port = IS_NULL\<rparr>) w)
               \<lparr>next_datagram := Suc d\<rparr>))"

text \<open>The address of a peer as the properties of a datagram have it; a null string is \<open>IS_UNDEF\<close> here.\<close>

definition peer_props :: "inet \<Rightarrow> sockaddr \<Rightarrow> async_udp_datagram \<Rightarrow> async_udp_datagram" where
  "peer_props inet addr x =
     (let (_, ip, port) = async_socket_get_peer inet addr
      in x\<lparr>dg_address := (case ip of Some t \<Rightarrow> IS_STRING t | None \<Rightarrow> IS_UNDEF), dg_port := IS_LONG (uint port)\<rparr>)"

text \<open>
  \<open>socket_received\<close>: libuv has an error (negative), nothing (0) or bytes. \<open>None\<close> is the assertion that
  somebody waits.
\<close>

definition udp_recv_stop :: "nat \<Rightarrow> 'a net_store_scheme \<Rightarrow> 'a net_store_scheme" where
  "udp_recv_stop s w =
     (if queues w (UdpReceivers s) = []
      then upd_udp s (\<lambda>x. x\<lparr>ud_handle := uv_stop (ud_handle x), ud_flags := clear_flag (ud_flags x) UDP_FLAG_RECEIVING\<rparr>) w
      else w)"

definition socket_received ::
  "inet \<Rightarrow> 'a net_wake \<Rightarrow> nat \<Rightarrow> int + byte list \<times> sockaddr option \<Rightarrow> 'a net_store_scheme \<Rightarrow> 'a net_store_scheme option" where
  "socket_received inet run s input w =
     (if queues w (UdpReceivers s) = [] then None
      else case input of
        Inr ([], _) \<Rightarrow> Some w
      | Inr (bytes, addr) \<Rightarrow> Option.bind (async_next_op (UdpReceivers s) w) (\<lambda>(op, w1).
          let (d, w2) = async_udp_datagram_object_create w1;
              w3 = upd_datagram d (\<lambda>x. let y = x\<lparr>dg_data := bytes\<rparr>
                     in case addr of None \<Rightarrow> y | Some a \<Rightarrow> peer_props inet a (y\<lparr>dg_peer := a\<rparr>)) w2;
              w4 = set_uv_code op (to_c_int (int (length bytes))) (upd_op op (\<lambda>x. x\<lparr>op_result := IS_OBJECT d\<rparr>) w3)
          in Some (udp_recv_stop s (async_finish_op run op w4)))
      | Inl code \<Rightarrow>
          if code = 0 then Some w
          else Option.bind (async_next_op (UdpReceivers s) w) (\<lambda>(op, w1).
            Some (udp_recv_stop s (async_finish_op run op (set_uv_code op (to_c_int code) w1)))))"

text \<open>The length of the buffer libuv gets: the size of the first receiver; a null pointer when there is none.\<close>

definition socket_alloc_buffer :: "nat \<Rightarrow> 'a net_store_scheme \<Rightarrow> nat option" where
  "socket_alloc_buffer s w = map_option (recv_sizes w) (queue_first (UdpReceivers s) w)"

text \<open>Waiting in \<open>receive\<close> and its end.\<close>

definition udp_receive_wait ::
  "texts \<Rightarrow> 'a net_yield \<Rightarrow> nat \<Rightarrow> nat \<Rightarrow> 'a net_store_scheme \<Rightarrow> (outcome \<times> 'a net_store_scheme) option" where
  "udp_receive_wait tx yield s n w =
     (let (op, w1) = async_alloc_op w;
          w2 = async_append_op (UdpReceivers s) op (set_uv_code op 0 w1);
          w3 = w2\<lparr>recv_sizes := (recv_sizes w2)(op := n)\<rparr>;
          bg = async_context_is_background (g_context w3) w3
      in map_option (\<lambda>(r, w4).
           if r = Await_bailout then (Bail, w4)
           else
             let w5 = udp_ref async_unref_exit bg s w4
             in (if r = Await_failure then Throw (op_result (ops w5 op))
                 else if uv_codes w5 op < 0 then Throw (uv_error tx StreamExceptionCe ''UDP receive error: '' (uv_codes w5 op))
                 else Ret (op_result (ops w5 op)), async_free_op op w5))
         (async_await_op yield op (udp_ref async_unref_enter bg s w3)))"

definition udp_socket_receive ::
  "texts \<Rightarrow> 'a net_store_scheme net_env \<Rightarrow> 'a net_yield \<Rightarrow> nat \<Rightarrow> int \<Rightarrow> 'a net_store_scheme \<Rightarrow>
   (outcome \<times> 'a net_store_scheme) option" where
  "udp_socket_receive tx net yield s n w =
     (if n < 0 then Some (Throw (IS_ERROR ErrorCe ''UDP receive buffer size must not be negative'' None), w)
      else if ud_error (udp_sockets w s) \<noteq> IS_UNDEF then Some (Throw (ud_error (udp_sockets w s)), w)
      else
        let receiving = has_flag (ud_flags (udp_sockets w s)) UDP_FLAG_RECEIVING;
            code = recv_start_code net s w
        in if \<not> receiving \<and> code \<noteq> 0
           then Some (Throw (uv_error tx SocketExceptionCe ''Failed to receive UDP data: '' code), w)
           else udp_receive_wait tx yield s (if n = 0 then 8192 else nat n)
                  (if receiving then w
                   else upd_udp s (\<lambda>x. x\<lparr>ud_handle := uv_start () (ud_handle x),
                          ud_flags := set_flag (ud_flags x) UDP_FLAG_RECEIVING\<rparr>) w))"

section \<open>Sending\<close>

definition finish_flush :: "'a net_wake \<Rightarrow> nat \<Rightarrow> 'a net_store_scheme \<Rightarrow> 'a net_store_scheme option" where
  "finish_flush run s w =
     (if queues w (UdpSenders s) = [] then drain_first (async_finish_op run) (UdpFlush s) w else Some w)"

text \<open>\<open>socket_sent\<close>: an operation that was cancelled belongs to libuv and is freed here.\<close>

definition drop_request :: "opid \<Rightarrow> 'a net_store_scheme \<Rightarrow> 'a net_store_scheme" where
  "drop_request op w = upd_udp (us_socket (send_ops w op)) (\<lambda>x. x\<lparr>ud_requests := remove1 op (ud_requests x)\<rparr>) w"

definition socket_sent :: "'a net_wake \<Rightarrow> opid \<Rightarrow> int \<Rightarrow> 'a net_store_scheme \<Rightarrow> 'a net_store_scheme" where
  "socket_sent run op status w =
     (let w1 = upd_udp (us_socket (send_ops w op)) (\<lambda>x. x\<lparr>ud_refs := ud_refs x - 1\<rparr>) (drop_request op w)
      in if has_flag (op_flags (ops w1 op)) ASYNC_OP_FLAG_CANCELLED then async_free_op op w1
         else async_finish_op run op (set_uv_code op status w1))"

text \<open>The checks of \<open>send\<close> and of its interceptor: \<open>Inr dest\<close> is the address to send to.\<close>

definition send_target :: "nat \<Rightarrow> nat \<Rightarrow> 'a net_store_scheme \<Rightarrow> zval + sockaddr option" where
  "send_target s d w =
     (if ud_error (udp_sockets w s) \<noteq> IS_UNDEF then Inl (ud_error (udp_sockets w s))
      else if has_flag (ud_flags (udp_sockets w s)) UDP_FLAG_CONNECTED
      then (if dg_address (datagrams w d) \<noteq> IS_NULL
            then Inl (IS_ERROR SocketExceptionCe ''Connected UDP socket cannot send to a different address'' None) else Inr None)
      else (if dg_address (datagrams w d) = IS_NULL
            then Inl (IS_ERROR SocketExceptionCe ''Unconnected UDP socket requires a target address'' None)
            else Inr (Some (dg_peer (datagrams w d)))))"

text \<open>
  The operation is given to libuv and waits. When the wait ends, the operation is freed unless it
  was cancelled; then the executions that wait for the queue to be empty are woken.
\<close>

definition udp_send_wait ::
  "texts \<Rightarrow> 'a net_store_scheme net_env \<Rightarrow> 'a net_yield \<Rightarrow> 'a net_wake \<Rightarrow> nat \<Rightarrow> nat \<Rightarrow> sockaddr option \<Rightarrow>
   'a net_store_scheme \<Rightarrow> (outcome \<times> 'a net_store_scheme) option" where
  "udp_send_wait tx net yield run s d dest w =
     (let (op, w0) = async_alloc_op w;
          w1 = w0\<lparr>send_ops := (send_ops w0)(op := \<lparr>us_socket = s, us_datagram = d, us_context = g_context w0, us_awaitable = None\<rparr>)\<rparr>;
          code = send_code net s dest (dg_data (datagrams w1 d)) w1
      in if code < 0 then Some (Throw (uv_error tx SocketExceptionCe ''Failed to send UDP data: '' code), async_free_op op w1)
         else
           let w2 = async_append_op (UdpSenders s) op
                      (upd_udp s (\<lambda>x. x\<lparr>ud_requests := ud_requests x @ [op], ud_refs := ud_refs x + 1\<rparr>) w1);
               bg = async_context_is_background (g_context w2) w2
           in Option.bind (async_await_op yield op (udp_ref async_unref_enter bg s w2)) (\<lambda>(r, w3).
                if r = Await_bailout then Some (Bail, w3)
                else
                  let w4 = udp_ref async_unref_exit bg s w3;
                      w5 = (if has_flag (op_flags (ops w4 op)) ASYNC_OP_FLAG_CANCELLED then w4 else async_free_op op w4)
                  in map_option (Pair (if r = Await_failure then Throw (op_result (ops w4 op)) else Ret IS_NULL))
                       (finish_flush run s w5)))"

definition udp_socket_send ::
  "texts \<Rightarrow> 'a net_store_scheme net_env \<Rightarrow> 'a net_yield \<Rightarrow> 'a net_wake \<Rightarrow> nat \<Rightarrow> nat \<Rightarrow> 'a net_store_scheme \<Rightarrow>
   (outcome \<times> 'a net_store_scheme) option" where
  "udp_socket_send tx net yield run s d w = (case send_target s d w of
     Inl e \<Rightarrow> Some (Throw e, w)
   | Inr dest \<Rightarrow>
       let code = try_send_code net s dest (dg_data (datagrams w d)) w
       in if queues w (UdpSenders s) = [] \<and> 0 \<le> code then Some (Ret IS_NULL, w)
          else if queues w (UdpSenders s) = [] \<and> code \<noteq> UV_EAGAIN
          then Some (Throw (uv_error tx SocketExceptionCe ''Failed to send UDP data: '' code), w)
          else udp_send_wait tx net yield run s d dest w)"

section \<open>Asynchronous sending\<close>

text \<open>
  \<open>socket_sent_async\<close>: the operation leaves the queue, the last one wakes those that flush, and the
  awaitable is settled.
\<close>

definition socket_sent_async ::
  "texts \<Rightarrow> 'a net_wake \<Rightarrow> opid \<Rightarrow> int \<Rightarrow> 'a net_store_scheme \<Rightarrow> 'a net_store_scheme option" where
  "socket_sent_async tx run op status w =
     (let x = send_ops w op;
          s = us_socket x;
          w1 = udp_ref async_unref_exit (async_context_is_background (us_context x) w) s
                 (set_uv_code op status (drop_request op w));
          w2 = unlink_op op w1
      in Option.bind (finish_flush run s w2) (\<lambda>w3.
         map_option (\<lambda>w4. async_free_op op (upd_udp s (\<lambda>y. y\<lparr>ud_refs := ud_refs y - 1\<rparr>) w4))
           (case us_awaitable x of
              None \<Rightarrow> Some w3
            | Some a \<Rightarrow>
                if status < 0
                then async_awaitable_fail run a (uv_error tx SocketExceptionCe ''Failed to send UDP data: '' status) w3
                else async_awaitable_resolve run a None w3)))"

text \<open>
  \<open>intercept_send\<close>: \<open>wanted\<close> says that the caller uses the awaitable. When libuv refuses, two
  references of the awaitable are given up, also when there is none: a null pointer.
\<close>

definition intercept_send ::
  "texts \<Rightarrow> 'a net_store_scheme net_env \<Rightarrow> nat \<Rightarrow> nat \<Rightarrow> bool \<Rightarrow> nat \<Rightarrow> 'a net_store_scheme \<Rightarrow>
   (outcome \<times> 'a net_store_scheme) option" where
  "intercept_send tx net ctx s wanted d w = (case send_target s d w of
     Inl e \<Rightarrow> Some (Throw e, w)
   | Inr dest \<Rightarrow>
       let code = try_send_code net s dest (dg_data (datagrams w d)) w
       in if queues w (UdpSenders s) = [] \<and> 0 \<le> code
          then (if wanted then let (a, w1) = async_create_resolved_awaitable None w in Some (Ret (IS_OBJECT a), w1)
                else Some (Ret IS_NULL, w))
          else if queues w (UdpSenders s) = [] \<and> code \<noteq> UV_EAGAIN
          then Some (Throw (uv_error tx SocketExceptionCe ''Failed to send UDP data: '' code), w)
          else
            let (op, w0) = async_alloc_op w;
                (aw, w1) = (if wanted then let (a, u) = async_create_awaitable w0 in (Some a, u) else (None, w0));
                w2 = w1\<lparr>send_ops := (send_ops w1)(op := \<lparr>us_socket = s, us_datagram = d, us_context = ctx, us_awaitable = aw\<rparr>)\<rparr>;
                code = send_code net s dest (dg_data (datagrams w2 d)) w2
            in if code \<noteq> 0
               then (if aw = None then None
                     else Some (Throw (uv_error tx SocketExceptionCe ''Failed to send UDP data: '' code), async_free_op op w2))
               else Some (case aw of None \<Rightarrow> Ret IS_NULL | Some a \<Rightarrow> Ret (IS_OBJECT a),
                      udp_ref async_unref_enter (async_context_is_background ctx w2) s
                        (async_append_op (UdpSenders s) op
                          (upd_udp s (\<lambda>x. x\<lparr>ud_requests := ud_requests x @ [op], ud_refs := ud_refs x + 1\<rparr>) w2))))"

section \<open>Datagrams\<close>

text \<open>
  The constructors look up the address; they throw when the result is not 0. A pending exception is the
  cause of the error.
\<close>

definition lookup_peer ::
  "'a net_store_scheme net_env \<Rightarrow> 'a net_yield \<Rightarrow> string \<Rightarrow> 'a net_store_scheme \<Rightarrow> (addr_result \<times> 'a net_store_scheme) option" where
  "lookup_peer net yield host w =
     map_option (\<lambda>(r, w1). (case r of
         Ip_found a \<Rightarrow> Addr_ok a
       | Ip_error _ \<Rightarrow> Addr_error (IS_ERROR ErrorCe ''Failed to assemble peer IP address'' None)
       | Ip_thrown e \<Rightarrow> Addr_error (IS_ERROR ErrorCe ''Failed to assemble peer IP address'' (Some e))
       | Ip_bail \<Rightarrow> Addr_exit, w1))
     (async_dns_lookup_ip (dns_env.truncate net) yield (c_str host) IPPROTO_UDP w)"

definition udp_datagram_construct ::
  "'a net_store_scheme net_env \<Rightarrow> 'a net_yield \<Rightarrow> nat \<Rightarrow> byte list \<Rightarrow> string option \<Rightarrow> int \<Rightarrow> 'a net_store_scheme \<Rightarrow>
   (outcome \<times> 'a net_store_scheme) option" where
  "udp_datagram_construct net yield d data host port w =
     map_option (\<lambda>(r, w1). case r of
         Addr_error e \<Rightarrow> (Throw e, w1)
       | Addr_exit \<Rightarrow> (Bail, w1)
       | Addr_ok a \<Rightarrow>
           (Ret IS_NULL, upd_datagram d (\<lambda>x. case host of
              None \<Rightarrow> x\<lparr>dg_address := IS_NULL, dg_port := IS_NULL, dg_data := data\<rparr>
            | Some _ \<Rightarrow>
                let peer = snd (async_socket_set_port a port)
                in (peer_props (inet_of net) peer (x\<lparr>dg_peer := peer\<rparr>))\<lparr>dg_data := data\<rparr>) w1))
     (case host of None \<Rightarrow> Some (Addr_ok AF_UNSPEC, w) | Some h \<Rightarrow> lookup_peer net yield h w)"

definition udp_datagram_with_data :: "nat \<Rightarrow> byte list \<Rightarrow> 'a net_store_scheme \<Rightarrow> nat \<times> 'a net_store_scheme" where
  "udp_datagram_with_data d data w =
     (let (n, w1) = async_udp_datagram_object_create w; x = datagrams w1 d
      in (n, upd_datagram n (\<lambda>y. y\<lparr>dg_peer := dg_peer x, dg_data := data, dg_address := dg_address x, dg_port := dg_port x\<rparr>) w1))"

definition udp_datagram_with_peer ::
  "'a net_store_scheme net_env \<Rightarrow> 'a net_yield \<Rightarrow> nat \<Rightarrow> string \<Rightarrow> int \<Rightarrow> 'a net_store_scheme \<Rightarrow>
   (outcome \<times> 'a net_store_scheme) option" where
  "udp_datagram_with_peer net yield d address port w =
     (let (n, w1) = async_udp_datagram_object_create w
      in map_option (\<lambda>(r, w2). case r of
           Addr_error e \<Rightarrow> (Throw e, w2)
         | Addr_exit \<Rightarrow> (Bail, w2)
         | Addr_ok a \<Rightarrow>
             let peer = snd (async_socket_set_port a port)
             in (Ret (IS_OBJECT n), upd_datagram n (\<lambda>y. peer_props (inet_of net) peer
                  (y\<lparr>dg_peer := peer, dg_data := dg_data (datagrams w2 d)\<rparr>)) w2))
         (lookup_peer net yield address w1))"

definition udp_datagram_without_peer :: "nat \<Rightarrow> 'a net_store_scheme \<Rightarrow> nat \<times> 'a net_store_scheme" where
  "udp_datagram_without_peer d w =
     (let (n, w1) = async_udp_datagram_object_create w; x = datagrams w1 d
      in (n, upd_datagram n (\<lambda>y. y\<lparr>dg_data := dg_data x, dg_address := IS_NULL, dg_port := IS_NULL\<rparr>) w1))"

end
