(* ===== verification/NetProps.thy ===== *)
theory NetProps
  imports StreamProps Waiting Tcp Udp
begin

text \<open>
  Properties of servers: the queue of waiting accepts and the counter of unclaimed connections make a
  counting semaphore, for TCP servers and pipe servers alike; an accept that waits gets the next
  connection; closing fails all that wait.
\<close>

section \<open>Frames\<close>

lemma net_store_more_eq:
  assumes "task_store.more w' = task_store.more (w :: 'a net_store_scheme)"
  shows "tcp_sockets w' = tcp_sockets w" "tcp_servers w' = tcp_servers w" "pipes w' = pipes w"
    "pipe_servers w' = pipe_servers w" "udp_sockets w' = udp_sockets w" "datagrams w' = datagrams w"
    "send_ops w' = send_ops w" "recv_sizes w' = recv_sizes w" "connect_reqs w' = connect_reqs w" "next_net w' = next_net w"
    "uv_codes w' = uv_codes w" "streams w' = streams w" "awaitables w' = awaitables w"
  using assms by (cases w; cases w'; simp)+

lemma upd_tcp_server_sel [simp]:
  "tcp_servers (upd_tcp_server s f w) = (tcp_servers w)(s := f (tcp_servers w s))" "ops (upd_tcp_server s f w) = ops w"
  "queues (upd_tcp_server s f w) = queues w" "next_opid (upd_tcp_server s f w) = next_opid w"
  "s_flags (upd_tcp_server s f w) = s_flags w" "g_task (upd_tcp_server s f w) = g_task w" "tasks (upd_tcp_server s f w) = tasks w"
  "contexts (upd_tcp_server s f w) = contexts w" "g_context (upd_tcp_server s f w) = g_context w"
  "cancels (upd_tcp_server s f w) = cancels w" "uv_codes (upd_tcp_server s f w) = uv_codes w"
  "tcp_sockets (upd_tcp_server s f w) = tcp_sockets w" "next_net (upd_tcp_server s f w) = next_net w"
  "streams (upd_tcp_server s f w) = streams w"
  by (simp_all add: upd_tcp_server_def)

lemma upd_tcp_sel [simp]:
  "tcp_sockets (upd_tcp s f w) = (tcp_sockets w)(s := f (tcp_sockets w s))" "ops (upd_tcp s f w) = ops w"
  "queues (upd_tcp s f w) = queues w" "next_opid (upd_tcp s f w) = next_opid w" "s_flags (upd_tcp s f w) = s_flags w"
  "tcp_servers (upd_tcp s f w) = tcp_servers w" "next_net (upd_tcp s f w) = next_net w" "streams (upd_tcp s f w) = streams w"
  by (simp_all add: upd_tcp_def)

lemma upd_pipe_server_sel [simp]:
  "pipe_servers (upd_pipe_server s f w) = (pipe_servers w)(s := f (pipe_servers w s))" "ops (upd_pipe_server s f w) = ops w"
  "queues (upd_pipe_server s f w) = queues w" "next_opid (upd_pipe_server s f w) = next_opid w"
  "s_flags (upd_pipe_server s f w) = s_flags w" "g_task (upd_pipe_server s f w) = g_task w" "tasks (upd_pipe_server s f w) = tasks w"
  "contexts (upd_pipe_server s f w) = contexts w" "g_context (upd_pipe_server s f w) = g_context w"
  "cancels (upd_pipe_server s f w) = cancels w" "uv_codes (upd_pipe_server s f w) = uv_codes w"
  "pipes (upd_pipe_server s f w) = pipes w" "next_net (upd_pipe_server s f w) = next_net w"
  by (simp_all add: upd_pipe_server_def)

lemma upd_pipe_sel [simp]:
  "pipes (upd_pipe s f w) = (pipes w)(s := f (pipes w s))" "ops (upd_pipe s f w) = ops w"
  "queues (upd_pipe s f w) = queues w" "next_opid (upd_pipe s f w) = next_opid w" "s_flags (upd_pipe s f w) = s_flags w"
  "pipe_servers (upd_pipe s f w) = pipe_servers w" "next_net (upd_pipe s f w) = next_net w"
  by (simp_all add: upd_pipe_def)

lemma set_uv_code_sel [simp]:
  "uv_codes (set_uv_code op code w) = (uv_codes w)(op := code)" "ops (set_uv_code op code w) = ops w"
  "queues (set_uv_code op code w) = queues w" "next_opid (set_uv_code op code w) = next_opid w"
  "s_flags (set_uv_code op code w) = s_flags w" "g_task (set_uv_code op code w) = g_task w"
  "tasks (set_uv_code op code w) = tasks w" "contexts (set_uv_code op code w) = contexts w"
  "g_context (set_uv_code op code w) = g_context w" "cancels (set_uv_code op code w) = cancels w"
  by (simp_all add: set_uv_code_def)

lemma set_uv_code_net [simp]:
  fixes w :: "'a net_store_scheme"
  shows "tcp_servers (set_uv_code op code w) = tcp_servers w" "pipe_servers (set_uv_code op code w) = pipe_servers w"
    "udp_sockets (set_uv_code op code w) = udp_sockets w" "tcp_sockets (set_uv_code op code w) = tcp_sockets w"
    "pipes (set_uv_code op code w) = pipes w" "datagrams (set_uv_code op code w) = datagrams w"
    "next_net (set_uv_code op code w) = next_net w" "streams (set_uv_code op code w) = streams w"
    "send_ops (set_uv_code op code w) = send_ops w"
  by (simp_all add: set_uv_code_def)

lemma ops_net_frame [simp]:
  fixes w :: "'a net_store_scheme"
  shows "tcp_servers (upd_op op g w) = tcp_servers w" "tcp_servers (upd_queue q h w) = tcp_servers w"
    "pipe_servers (upd_op op g w) = pipe_servers w" "pipe_servers (upd_queue q h w) = pipe_servers w"
    "udp_sockets (upd_op op g w) = udp_sockets w" "udp_sockets (upd_queue q h w) = udp_sockets w"
    "tcp_sockets (upd_op op g w) = tcp_sockets w" "tcp_sockets (upd_queue q h w) = tcp_sockets w"
    "pipes (upd_op op g w) = pipes w" "pipes (upd_queue q h w) = pipes w"
    "datagrams (upd_op op g w) = datagrams w" "datagrams (upd_queue q h w) = datagrams w"
    "send_ops (upd_op op g w) = send_ops w" "send_ops (upd_queue q h w) = send_ops w"
    "uv_codes (upd_op op g w) = uv_codes w" "uv_codes (upd_queue q h w) = uv_codes w"
    "next_net (upd_op op g w) = next_net w" "next_net (upd_queue q h w) = next_net w"
  by (simp_all add: upd_op_def upd_queue_def)

lemma alloc_net_frame [simp]:
  fixes w :: "'a net_store_scheme"
  shows "tcp_servers (snd (async_alloc_op w)) = tcp_servers w" "pipe_servers (snd (async_alloc_op w)) = pipe_servers w"
    "udp_sockets (snd (async_alloc_op w)) = udp_sockets w" "next_net (snd (async_alloc_op w)) = next_net w"
    "tcp_sockets (snd (async_alloc_op w)) = tcp_sockets w" "pipes (snd (async_alloc_op w)) = pipes w"
    "uv_codes (snd (async_alloc_op w)) = uv_codes w" "g_task (snd (async_alloc_op w)) = g_task w"
    "tasks (snd (async_alloc_op w)) = tasks w" "contexts (snd (async_alloc_op w)) = contexts w"
    "g_context (snd (async_alloc_op w)) = g_context w" "cancels (snd (async_alloc_op w)) = cancels w"
    "s_flags (snd (async_alloc_op w)) = s_flags w" "queues (snd (async_alloc_op w)) = queues w"
    "next_opid (snd (async_alloc_op w)) = Suc (next_opid w)" "fst (async_alloc_op w) = next_opid w"
    "ops (snd (async_alloc_op w)) = (ops w)(next_opid w := zero_op)"
  by (simp_all add: async_alloc_op_def)

lemma settle_net_frame [simp]:
  fixes w :: "'a net_store_scheme"
  shows "tcp_servers (async_finish_op wake op w) = tcp_servers w" "pipe_servers (async_finish_op wake op w) = pipe_servers w"
    "udp_sockets (async_finish_op wake op w) = udp_sockets w" "uv_codes (async_finish_op wake op w) = uv_codes w"
    "next_net (async_finish_op wake op w) = next_net w" "tcp_servers (suspended t op w) = tcp_servers w"
    "pipe_servers (suspended t op w) = pipe_servers w" "next_net (suspended t op w) = next_net w"
    "udp_sockets (suspended t op w) = udp_sockets w" "uv_codes (suspended t op w) = uv_codes w"
  by (rule net_store_more_eq; simp)+

section \<open>Servers as semaphores\<close>

text \<open>
  What happens to a server: libuv reports a connection attempt with a status, or task \<open>t\<close> calls
  \<open>accept\<close>. An accept either takes a pending connection (\<open>taken\<close>) or waits (\<open>waits\<close>).
\<close>

datatype backlog_event = Connection int | Accept nat

definition backlog_step ::
  "('w \<Rightarrow> u8) \<Rightarrow> (int \<Rightarrow> 'w \<Rightarrow> 'w) \<Rightarrow> ('w \<Rightarrow> 'w) \<Rightarrow> (nat \<Rightarrow> 'w \<Rightarrow> 'w) \<Rightarrow> backlog_event \<Rightarrow> 'w \<Rightarrow> 'w" where
  "backlog_step pending connected taken waits e w = (case e of
     Connection st \<Rightarrow> connected st w
   | Accept t \<Rightarrow> if pending w \<noteq> 0 then taken w else waits t w)"

text \<open>The specification: a number, the connections that nobody has accepted minus the accepts that wait.\<close>

fun semaphore :: "backlog_event \<Rightarrow> int \<Rightarrow> int" where
  "semaphore (Connection _) n = n + 1"
| "semaphore (Accept _) n = n - 1"

locale backlog =
  fixes q :: list_addr
    and pending :: "'a op_store_scheme \<Rightarrow> u8"
    and connected :: "int \<Rightarrow> 'a op_store_scheme \<Rightarrow> 'a op_store_scheme"
    and taken :: "'a op_store_scheme \<Rightarrow> 'a op_store_scheme"
    and waits :: "nat \<Rightarrow> 'a op_store_scheme \<Rightarrow> 'a op_store_scheme"
  assumes connected_wakes: "ops_wf w \<Longrightarrow> queues w q = op # rest \<Longrightarrow>
      queues (connected st w) q = rest \<and> pending (connected st w) = pending w \<and> ops_wf (connected st w)"
    and connected_counts: "ops_wf w \<Longrightarrow> queues w q = [] \<Longrightarrow>
      queues (connected st w) q = [] \<and> pending (connected st w) = pending w + 1 \<and> ops_wf (connected st w)"
    and taken_counts: "ops_wf w \<Longrightarrow> pending w \<noteq> 0 \<Longrightarrow>
      queues (taken w) q = queues w q \<and> pending (taken w) = pending w - 1 \<and> ops_wf (taken w)"
    and waits_queues: "ops_wf w \<Longrightarrow>
      (\<exists>op. queues (waits t w) q = queues w q @ [op]) \<and> pending (waits t w) = pending w \<and> ops_wf (waits t w)"
begin

definition balance :: "'a op_store_scheme \<Rightarrow> int" where
  "balance w = int (unat (pending w)) - int (length (queues w q))"

definition sound :: "'a op_store_scheme \<Rightarrow> bool" where
  "sound w \<longleftrightarrow> ops_wf w \<and> (queues w q = [] \<or> pending w = 0)"

abbreviation step :: "backlog_event \<Rightarrow> 'a op_store_scheme \<Rightarrow> 'a op_store_scheme" where
  "step \<equiv> backlog_step pending connected taken waits"

lemma step_refines:
  assumes "sound w" and "balance w < 255"
  shows "sound (step e w) \<and> balance (step e w) = semaphore e (balance w)"
proof (cases e)
  case (Connection st)
  show ?thesis
  proof (cases "queues w q")
    case Nil
    from assms(2) have "int (unat (pending w)) - int 0 < 255" unfolding balance_def Nil list.size .
    then have "unat (pending w) < 255" by linarith
    then have "unat (pending w + 1) = Suc (unat (pending w))" by (simp add: unat_word_ariths)
    with Nil assms(1) connected_counts [of w st] show ?thesis
      by (simp add: Connection backlog_step_def sound_def balance_def)
  next
    case (Cons op rest)
    with assms(1) connected_wakes [OF _ Cons, of st] show ?thesis
      by (simp add: Connection backlog_step_def sound_def balance_def)
  qed
next
  case (Accept t)
  show ?thesis
  proof (cases "pending w = 0")
    case True
    with assms(1) waits_queues [of w t] show ?thesis
      by (auto simp: Accept backlog_step_def sound_def balance_def)
  next
    case False
    then have "unat (pending w - 1) + 1 = unat (pending w)" by (simp add: unat_minus_one unat_gt_0)
    then have "int (unat (pending w - 1)) = int (unat (pending w)) - 1" by linarith
    with False assms(1) taken_counts [of w] show ?thesis
      by (auto simp: Accept backlog_step_def sound_def balance_def)
  qed
qed

lemma run_refines:
  assumes "sound w" and "\<forall>n \<le> length es. fold semaphore (take n es) (balance w) \<le> 254"
  shows "sound (fold step es w) \<and> balance (fold step es w) = fold semaphore es (balance w)"
  using assms
proof (induction es arbitrary: w)
  case Nil
  then show ?case by simp
next
  case (Cons e es)
  have "balance w < 255" using Cons.prems(2) [rule_format, of 0] by simp
  from step_refines [OF Cons.prems(1) this, of e]
  have s: "sound (step e w)" "balance (step e w) = semaphore e (balance w)" by simp_all
  have "\<forall>n \<le> length es. fold semaphore (take n es) (balance (step e w)) \<le> 254"
    using Cons.prems(2) by (auto simp: s(2) dest: spec [where x = "Suc _"])
  from Cons.IH [OF s(1) this] s(2) show ?case by simp
qed

lemma sound_counts: "sound w \<Longrightarrow> unat (pending w) = nat (balance w) \<and> length (queues w q) = nat (- balance w)"
  by (auto simp: sound_def balance_def)

lemma semaphore_counts:
  assumes "ops_wf w" and "queues w q = []" and "pending w = 0"
    and "\<forall>n \<le> length es. fold semaphore (take n es) 0 \<le> 254"
  shows "unat (pending (fold step es w)) = nat (fold semaphore es 0)"
    and "length (queues (fold step es w) q) = nat (- fold semaphore es 0)"
proof -
  have "sound w" "balance w = 0" using assms(1-3) by (simp_all add: sound_def balance_def)
  with run_refines [of w es] assms(4) have "sound (fold step es w)" "balance (fold step es w) = fold semaphore es 0" by simp_all
  with sound_counts [of "fold step es w"]
  show "unat (pending (fold step es w)) = nat (fold semaphore es 0)"
    "length (queues (fold step es w) q) = nat (- fold semaphore es 0)" by simp_all
qed

end

text \<open>The state in which an accept waits, and the one in which it has taken a pending connection.\<close>

definition tcp_accept_waits :: "nat \<Rightarrow> nat \<Rightarrow> 'a net_store_scheme \<Rightarrow> 'a net_store_scheme" where
  "tcp_accept_waits s t w =
     (let w1 = async_append_op (ServerAccepts s) (next_opid w) (set_uv_code (next_opid w) 0 (snd (async_alloc_op w)))
      in suspended t (next_opid w) (tcp_server_ref async_unref_enter (async_context_is_background (g_context w1) w1) s w1))"

definition tcp_accept_taken ::
  "texts \<Rightarrow> 'a net_store_scheme net_env \<Rightarrow> 'a net_own \<Rightarrow> nat \<Rightarrow> 'a net_store_scheme \<Rightarrow> 'a net_store_scheme" where
  "tcp_accept_taken tx net own s w =
     snd (tcp_accept_now tx net own wake s (upd_tcp_server s (\<lambda>x. x\<lparr>sv_pending := sv_pending x - 1\<rparr>) w))"

definition pipe_accept_waits :: "nat \<Rightarrow> nat \<Rightarrow> 'a net_store_scheme \<Rightarrow> 'a net_store_scheme" where
  "pipe_accept_waits s t w =
     (let w1 = async_append_op (PipeAccepts s) (next_opid w) (set_uv_code (next_opid w) 0 (snd (async_alloc_op w)))
      in suspended t (next_opid w) (pipe_server_ref async_unref_enter (async_context_is_background (g_context w1) w1) s w1))"

definition pipe_accept_taken ::
  "texts \<Rightarrow> 'a net_store_scheme net_env \<Rightarrow> 'a net_own \<Rightarrow> nat \<Rightarrow> 'a net_store_scheme \<Rightarrow> 'a net_store_scheme" where
  "pipe_accept_taken tx net own s w =
     snd (pipe_accept_now tx net own wake s (upd_pipe_server s (\<lambda>x. x\<lparr>ps_pending := ps_pending x - 1\<rparr>) w))"

lemma server_ref_sel [simp]:
  "tcp_servers (tcp_server_ref f bg s w) = (tcp_servers w)(s := (tcp_servers w s)\<lparr>
     sv_ref_count := fst (f bg (sv_ref_count (tcp_servers w s), sv_handle (tcp_servers w s))),
     sv_handle := snd (f bg (sv_ref_count (tcp_servers w s), sv_handle (tcp_servers w s)))\<rparr>)"
  "ops (tcp_server_ref f bg s w) = ops w" "queues (tcp_server_ref f bg s w) = queues w"
  "next_opid (tcp_server_ref f bg s w) = next_opid w" "s_flags (tcp_server_ref f bg s w) = s_flags w"
  "g_task (tcp_server_ref f bg s w) = g_task w" "tasks (tcp_server_ref f bg s w) = tasks w"
  "contexts (tcp_server_ref f bg s w) = contexts w" "g_context (tcp_server_ref f bg s w) = g_context w"
  "cancels (tcp_server_ref f bg s w) = cancels w" "next_net (tcp_server_ref f bg s w) = next_net w"
  "uv_codes (tcp_server_ref f bg s w) = uv_codes w"
  by (simp_all add: tcp_server_ref_def split_beta)

lemma pipe_server_ref_sel [simp]:
  "pipe_servers (pipe_server_ref f bg s w) = (pipe_servers w)(s := (pipe_servers w s)\<lparr>
     ps_ref_count := fst (f bg (ps_ref_count (pipe_servers w s), ps_handle (pipe_servers w s))),
     ps_handle := snd (f bg (ps_ref_count (pipe_servers w s), ps_handle (pipe_servers w s)))\<rparr>)"
  "ops (pipe_server_ref f bg s w) = ops w" "queues (pipe_server_ref f bg s w) = queues w"
  "next_opid (pipe_server_ref f bg s w) = next_opid w" "s_flags (pipe_server_ref f bg s w) = s_flags w"
  "g_task (pipe_server_ref f bg s w) = g_task w" "tasks (pipe_server_ref f bg s w) = tasks w"
  "contexts (pipe_server_ref f bg s w) = contexts w" "g_context (pipe_server_ref f bg s w) = g_context w"
  "cancels (pipe_server_ref f bg s w) = cancels w" "next_net (pipe_server_ref f bg s w) = next_net w"
  "uv_codes (pipe_server_ref f bg s w) = uv_codes w"
  by (simp_all add: pipe_server_ref_def split_beta)

lemma append_net_frame [simp]:
  fixes w :: "'a net_store_scheme"
  shows "tcp_servers (async_append_op q op w) = tcp_servers w" "pipe_servers (async_append_op q op w) = pipe_servers w"
    "udp_sockets (async_append_op q op w) = udp_sockets w" "next_net (async_append_op q op w) = next_net w"
    "uv_codes (async_append_op q op w) = uv_codes w"
  by (rule net_store_more_eq; simp)+

lemma append_task_frame [simp]:
  "next_opid (async_append_op q op w) = next_opid w" "s_flags (async_append_op q op w) = s_flags w"
  "g_task (async_append_op q op w) = g_task w" "tasks (async_append_op q op w) = tasks w"
  "contexts (async_append_op q op w) = contexts w" "g_context (async_append_op q op w) = g_context w"
  "cancels (async_append_op q op w) = cancels w"
  by (simp_all add: async_append_op_def)

lemma next_op_net:
  fixes w :: "'a net_store_scheme"
  assumes "ops_wf w" and "queues w q = op # rest"
  shows "\<exists>u. async_next_op q w = Some (op, u) \<and> queues u = (queues w)(q := rest) \<and> ops_wf u \<and> op_list (ops u op) = None \<and>
    ops u = (ops w)(op := (ops w op)\<lparr>op_list := None\<rparr>) \<and> task_store.more u = task_store.more w \<and> s_flags u = s_flags w"
  using ops_wf_next [OF assms(1) async_next_op_Cons [OF assms(2)]]
  by (simp add: async_next_op_Cons [OF assms(2)] upd_op_def upd_queue_def)

lemma connected_spec:
  fixes w :: "'a net_store_scheme"
  assumes "ops_wf w" and "queues w q = op # rest"
  shows "\<exists>u. async_next_op q w = Some (op, u) \<and> queues (async_finish_op wake op (set_uv_code op st u)) = (queues w)(q := rest) \<and>
    ops_wf (async_finish_op wake op (set_uv_code op st u)) \<and>
    tcp_servers (async_finish_op wake op (set_uv_code op st u)) = tcp_servers w \<and>
    pipe_servers (async_finish_op wake op (set_uv_code op st u)) = pipe_servers w \<and>
    s_flags (async_finish_op wake op (set_uv_code op st u)) = s_flags w \<and>
    next_net (async_finish_op wake op (set_uv_code op st u)) = next_net w \<and>
    uv_codes (async_finish_op wake op (set_uv_code op st u)) op = st \<and>
    op_status (ops (async_finish_op wake op (set_uv_code op st u)) op) = ASYNC_STATUS_RESOLVED \<and>
    op_list (ops (async_finish_op wake op (set_uv_code op st u)) op) = None"
proof -
  obtain u where u: "async_next_op q w = Some (op, u)" "queues u = (queues w)(q := rest)" "ops_wf u" "op_list (ops u op) = None"
    "task_store.more u = task_store.more w" "s_flags u = s_flags w"
    using next_op_net [OF assms] by blast
  have "ops_wf (set_uv_code op st u)" using u(3) by (simp add: ops_wf_def)
  then have "ops_wf (async_finish_op wake op (set_uv_code op st u))" by (rule waking_wf.inv_finish)
  with u net_store_more_eq [OF u(5)] show ?thesis by simp
qed

lemma waits_wf:
  fixes w :: "'a net_store_scheme"
  assumes "ops_wf w"
  shows "ops_wf (async_append_op q (next_opid w) (set_uv_code (next_opid w) 0 (snd (async_alloc_op w))))"
proof -
  have "ops_wf (set_uv_code (next_opid w) 0 (snd (async_alloc_op w)))"
    using ops_wf_alloc [OF assms] by (simp add: ops_wf_def)
  then show ?thesis by (rule ops_wf_append) simp_all
qed

lemma suspended_wf_frame:
  assumes "ops_wf w" and "ops w' = ops w" and "queues w' = queues w" and "next_opid w' = next_opid w" and "op < next_opid w"
  shows "ops_wf (suspended t op w')"
proof -
  have "ops_wf w'" using assms(1) by (subst ops_wf_cong [where w = w]) (simp_all add: assms)
  with assms(4,5) show ?thesis by (simp add: ops_wf_suspended)
qed

lemma tcp_waits:
  assumes "ops_wf w"
  shows "queues (tcp_accept_waits s t w) (ServerAccepts s) = queues w (ServerAccepts s) @ [next_opid w]"
    and "sv_pending (tcp_servers (tcp_accept_waits s t w) s) = sv_pending (tcp_servers w s)"
    and "ops_wf (tcp_accept_waits s t w)"
  using waits_wf [OF assms, of "ServerAccepts s"]
  by (simp_all add: tcp_accept_waits_def Let_def suspended_wf_frame [OF waits_wf [OF assms]])

lemma pipe_waits:
  assumes "ops_wf w"
  shows "queues (pipe_accept_waits s t w) (PipeAccepts s) = queues w (PipeAccepts s) @ [next_opid w]"
    and "ps_pending (pipe_servers (pipe_accept_waits s t w) s) = ps_pending (pipe_servers w s)"
    and "ops_wf (pipe_accept_waits s t w)"
  using waits_wf [OF assms, of "PipeAccepts s"]
  by (simp_all add: pipe_accept_waits_def Let_def suspended_wf_frame [OF waits_wf [OF assms]])

lemma accepted_socket:
  fixes w :: "'a net_store_scheme"
  assumes "\<And>c u. accept_code net s c u = 0"
  shows "fst (tcp_accept_now tx net own run s w) = Ret (IS_OBJECT (next_net w))"
    and "queues (snd (tcp_accept_now tx net own run s w)) = queues w"
    and "sv_pending (tcp_servers (snd (tcp_accept_now tx net own run s w)) s) = sv_pending (tcp_servers w s)"
    and "so_server (tcp_sockets (snd (tcp_accept_now tx net own run s w)) (next_net w)) = Some s"
    and "ops_wf w \<Longrightarrow> ops_wf (snd (tcp_accept_now tx net own run s w))"
proof -
  let ?c = "next_net w"
  define w1 where "w1 = snd (async_tcp_socket_object_create w)"
  have w1: "queues w1 = queues w" "tcp_servers w1 = tcp_servers w" "next_opid w1 = Suc (next_opid w)"
    "ops w1 = (ops w)(next_opid w := zero_op)" "fst (async_tcp_socket_object_create w) = ?c"
    by (simp_all add: w1_def async_tcp_socket_object_create_def async_stream_init_def async_alloc_op_def upd_tcp_def upd_stream_def
        Let_def)
  define w2 where "w2 = set_peers net ?c (upd_tcp ?c (\<lambda>x. x\<lparr>so_server := Some s\<rparr>) w1)"
  have w2: "queues w2 = queues w1" "tcp_servers w2 = tcp_servers w1" "next_opid w2 = next_opid w1" "ops w2 = ops w1"
    "so_server (tcp_sockets w2 ?c) = Some s"
    by (simp_all add: w2_def set_peers_def Let_def)
  have r: "tcp_accept_now tx net own run s w = (Ret (IS_OBJECT ?c), upd_tcp_server s (\<lambda>x. x\<lparr>sv_refs := sv_refs x + 1\<rparr>) w2)"
    using assms w1(5) by (simp add: tcp_accept_now_def w1_def [symmetric] w2_def split_beta Let_def)
  show "fst (tcp_accept_now tx net own run s w) = Ret (IS_OBJECT ?c)"
    "queues (snd (tcp_accept_now tx net own run s w)) = queues w"
    "sv_pending (tcp_servers (snd (tcp_accept_now tx net own run s w)) s) = sv_pending (tcp_servers w s)"
    "so_server (tcp_sockets (snd (tcp_accept_now tx net own run s w)) ?c) = Some s"
    by (simp_all add: r w1 w2)
  show "ops_wf (snd (tcp_accept_now tx net own run s w))" if "ops_wf w"
    using ops_wf_alloc [OF that] by (subst ops_wf_cong [where w = "snd (async_alloc_op w)"]) (simp_all add: r w1 w2)
qed

lemma accepted_pipe:
  fixes w :: "'a net_store_scheme"
  assumes "\<And>c u. accept_code net s c u = 0"
  shows "fst (pipe_accept_now tx net own run s w) = Ret (IS_OBJECT (next_net w))"
    and "queues (snd (pipe_accept_now tx net own run s w)) = queues w"
    and "ps_pending (pipe_servers (snd (pipe_accept_now tx net own run s w)) s) = ps_pending (pipe_servers w s)"
    and "ops_wf w \<Longrightarrow> ops_wf (snd (pipe_accept_now tx net own run s w))"
proof -
  let ?p = "next_net w" and ?i = "has_flag (ps_flags (pipe_servers w s)) PIPE_FLAG_IPC"
  define w1 where "w1 = snd (async_pipe_object_create ?i w)"
  have w1: "queues w1 = queues w" "pipe_servers w1 = pipe_servers w" "next_opid w1 = Suc (next_opid w)"
    "ops w1 = (ops w)(next_opid w := zero_op)" "fst (async_pipe_object_create ?i w) = ?p"
    by (simp_all add: w1_def async_pipe_object_create_def async_stream_init_def async_alloc_op_def upd_pipe_def upd_stream_def
        set_stream_flag_def Let_def)
  have r: "pipe_accept_now tx net own run s w = (Ret (IS_OBJECT ?p), upd_pipe_server s (\<lambda>x. x\<lparr>ps_refs := ps_refs x + 1\<rparr>)
      (upd_pipe ?p (\<lambda>x. x\<lparr>pi_server := Some s, pi_name := ps_name (pipe_servers w1 s)\<rparr>) w1))"
    using assms w1(5) by (simp add: pipe_accept_now_def w1_def [symmetric] split_beta Let_def)
  show "fst (pipe_accept_now tx net own run s w) = Ret (IS_OBJECT ?p)"
    "queues (snd (pipe_accept_now tx net own run s w)) = queues w"
    "ps_pending (pipe_servers (snd (pipe_accept_now tx net own run s w)) s) = ps_pending (pipe_servers w s)"
    by (simp_all add: r w1)
  show "ops_wf (snd (pipe_accept_now tx net own run s w))" if "ops_wf w"
    using ops_wf_alloc [OF that] by (subst ops_wf_cong [where w = "snd (async_alloc_op w)"]) (simp_all add: r w1)
qed

section \<open>Both servers are semaphores\<close>

interpretation tcp: backlog "ServerAccepts s" "\<lambda>w. sv_pending (tcp_servers w s)" "server_connected wake s"
  "tcp_accept_taken tx (net\<lparr>accept_code := \<lambda>_ _ _. 0\<rparr>) own s" "tcp_accept_waits s"
  for s tx and net :: "'a net_store_scheme net_env" and own
proof unfold_locales
  fix st t op rest and w :: "'a net_store_scheme"
  assume wf: "ops_wf w"
  show "queues w (ServerAccepts s) = op # rest \<Longrightarrow> queues (server_connected wake s st w) (ServerAccepts s) = rest \<and>
      sv_pending (tcp_servers (server_connected wake s st w) s) = sv_pending (tcp_servers w s) \<and>
      ops_wf (server_connected wake s st w)"
    using connected_spec [OF wf, of "ServerAccepts s" op rest st] by (auto simp: server_connected_def)
  show "queues w (ServerAccepts s) = [] \<Longrightarrow> queues (server_connected wake s st w) (ServerAccepts s) = [] \<and>
      sv_pending (tcp_servers (server_connected wake s st w) s) = sv_pending (tcp_servers w s) + 1 \<and>
      ops_wf (server_connected wake s st w)"
    using wf by (simp add: server_connected_def async_next_op_None [THEN iffD2]) (simp add: ops_wf_def)
  show "queues (tcp_accept_taken tx (net\<lparr>accept_code := \<lambda>_ _ _. 0\<rparr>) own s w) (ServerAccepts s) = queues w (ServerAccepts s) \<and>
      sv_pending (tcp_servers (tcp_accept_taken tx (net\<lparr>accept_code := \<lambda>_ _ _. 0\<rparr>) own s w) s) = sv_pending (tcp_servers w s) - 1 \<and>
      ops_wf (tcp_accept_taken tx (net\<lparr>accept_code := \<lambda>_ _ _. 0\<rparr>) own s w)"
  proof -
    let ?u = "upd_tcp_server s (\<lambda>x. x\<lparr>sv_pending := sv_pending x - 1\<rparr>) w"
    have "ops_wf ?u" using wf by (simp add: ops_wf_def)
    then show ?thesis by (simp add: tcp_accept_taken_def accepted_socket)
  qed
  show "(\<exists>op. queues (tcp_accept_waits s t w) (ServerAccepts s) = queues w (ServerAccepts s) @ [op]) \<and>
      sv_pending (tcp_servers (tcp_accept_waits s t w) s) = sv_pending (tcp_servers w s) \<and> ops_wf (tcp_accept_waits s t w)"
    using tcp_waits [OF wf] by blast
qed

interpretation pipe: backlog "PipeAccepts s" "\<lambda>w. ps_pending (pipe_servers w s)" "pipe_listen_cb wake s"
  "pipe_accept_taken tx (net\<lparr>accept_code := \<lambda>_ _ _. 0\<rparr>) own s" "pipe_accept_waits s"
  for s tx and net :: "'a net_store_scheme net_env" and own
proof unfold_locales
  fix st t op rest and w :: "'a net_store_scheme"
  assume wf: "ops_wf w"
  show "queues w (PipeAccepts s) = op # rest \<Longrightarrow> queues (pipe_listen_cb wake s st w) (PipeAccepts s) = rest \<and>
      ps_pending (pipe_servers (pipe_listen_cb wake s st w) s) = ps_pending (pipe_servers w s) \<and>
      ops_wf (pipe_listen_cb wake s st w)"
    using connected_spec [OF wf, of "PipeAccepts s" op rest st] by (auto simp: pipe_listen_cb_def)
  show "queues w (PipeAccepts s) = [] \<Longrightarrow> queues (pipe_listen_cb wake s st w) (PipeAccepts s) = [] \<and>
      ps_pending (pipe_servers (pipe_listen_cb wake s st w) s) = ps_pending (pipe_servers w s) + 1 \<and>
      ops_wf (pipe_listen_cb wake s st w)"
    using wf by (simp add: pipe_listen_cb_def async_next_op_None [THEN iffD2]) (simp add: ops_wf_def)
  show "queues (pipe_accept_taken tx (net\<lparr>accept_code := \<lambda>_ _ _. 0\<rparr>) own s w) (PipeAccepts s) = queues w (PipeAccepts s) \<and>
      ps_pending (pipe_servers (pipe_accept_taken tx (net\<lparr>accept_code := \<lambda>_ _ _. 0\<rparr>) own s w) s) = ps_pending (pipe_servers w s) - 1 \<and>
      ops_wf (pipe_accept_taken tx (net\<lparr>accept_code := \<lambda>_ _ _. 0\<rparr>) own s w)"
  proof -
    let ?u = "upd_pipe_server s (\<lambda>x. x\<lparr>ps_pending := ps_pending x - 1\<rparr>) w"
    have "ops_wf ?u" using wf by (simp add: ops_wf_def)
    then show ?thesis by (simp add: pipe_accept_taken_def accepted_pipe)
  qed
  show "(\<exists>op. queues (pipe_accept_waits s t w) (PipeAccepts s) = queues w (PipeAccepts s) @ [op]) \<and>
      ps_pending (pipe_servers (pipe_accept_waits s t w) s) = ps_pending (pipe_servers w s) \<and> ops_wf (pipe_accept_waits s t w)"
    using pipe_waits [OF wf] by blast
qed


text \<open>The state after start with one TCP server, and task 0 running.\<close>

definition boot_net :: net_store where
  "boot_net = (boot_stream (net_store.fields
     (\<lambda>_. \<lparr>so_cancel = False, so_name = None, so_local_addr = None, so_local_port = 0, so_remote_addr = None, so_remote_port = 0,
        so_server = None, so_encryption = None\<rparr>)
     (\<lambda>_. \<lparr>sv_handle = uv_init, sv_flags = 0, sv_name = None, sv_addr = None, sv_port = 0, sv_pending = 0, sv_error = IS_UNDEF,
        sv_ref_count = 0, sv_cancel = False, sv_refs = 0, sv_encryption = None\<rparr>)
     (\<lambda>_. \<lparr>pi_flags = 0, pi_cancel = False, pi_name = None, pi_server = None\<rparr>)
     (\<lambda>_. \<lparr>ps_handle = uv_init, ps_flags = 0, ps_name = None, ps_pending = 0, ps_error = IS_UNDEF, ps_ref_count = 0,
        ps_cancel = False, ps_refs = 0\<rparr>)
     (\<lambda>_. \<lparr>ud_handle = uv_init, ud_flags = 0, ud_name = None, ud_ip = None, ud_port = 0, ud_error = IS_UNDEF, ud_ref_count = 0,
        ud_cancel = False, ud_refs = 0, ud_requests = []\<rparr>)
     (\<lambda>_. \<lparr>dg_peer = AF_UNSPEC, dg_data = [], dg_address = IS_NULL, dg_port = IS_NULL\<rparr>) 0 (\<lambda>_. 0)
     (\<lambda>_. \<lparr>us_socket = 0, us_datagram = 0, us_context = 0, us_awaitable = None\<rparr>) [] 0))
   \<lparr>g_task := Some 0, tasks := (\<lambda>_. zero_task\<lparr>t_fiber := Some 1, t_status := TASK_RUNNING\<rparr>)\<rparr>"

definition tcp_world :: net_store where
  "tcp_world = snd (async_tcp_server_object_create boot_net)"

lemma boot_net_sel [simp]:
  "ops boot_net = (\<lambda>_. zero_op)" "queues boot_net = (\<lambda>_. [])" "next_opid boot_net = 0" "ops_wf boot_net" "next_net boot_net = 0"
  "s_flags boot_net = 0" "may_wait 0 boot_net"
  by (simp_all add: boot_net_def ops_wf_def may_wait_def await_checks_task_def sched_flag_def)
    (simp add: boot_stream_def stream_store.defs dns_store.defs component_store.defs await_store.defs net_store.defs boot_defs Let_def)

lemma tcp_world_sel [simp]:
  "ops tcp_world = (\<lambda>_. zero_op)" "queues tcp_world = (\<lambda>_. [])" "next_opid tcp_world = 0" "ops_wf tcp_world"
  "next_net tcp_world = 1" "tcp_servers tcp_world 0 = \<lparr>sv_handle = uv_init, sv_flags = 0, sv_name = None, sv_addr = None,
     sv_port = 0, sv_pending = 0, sv_error = IS_UNDEF, sv_ref_count = 0, sv_cancel = True, sv_refs = 1, sv_encryption = None\<rparr>"
  "may_wait 0 tcp_world" "s_flags tcp_world = 0"
proof -
  show "ops_wf tcp_world" by (subst ops_wf_cong [where w = boot_net]) (simp_all add: tcp_world_def async_tcp_server_object_create_def Let_def)
  show "may_wait 0 tcp_world"
    by (subst may_wait_cong [where w = boot_net]) (simp_all add: tcp_world_def async_tcp_server_object_create_def Let_def)
qed (simp_all add: tcp_world_def async_tcp_server_object_create_def Let_def)

definition no_texts :: texts where
  "no_texts = \<lparr>strerror = (\<lambda>_. []), show_int = (\<lambda>_. [])\<rparr>"

text \<open>An environment in which every call succeeds.\<close>

definition calm_net :: "'w net_env" where
  "calm_net = dns_env.extend \<lparr>call_factory = (\<lambda>_ w. (Ret IS_NULL, w)), instance_of = (\<lambda>_ _. None), search = (\<lambda>_ _ w. (Ret IS_NULL, w)),
       inet_of = \<lparr>uv_ip4_addr = (\<lambda>_ _. (True, AF_INET 0 0)), uv_ip6_addr = (\<lambda>_ _. (True, AF_INET6 0 0)), uv_ip4_name = (\<lambda>_. []),
         uv_ip6_name = (\<lambda>_. [])\<rparr>, g_cli = True, uv_getaddrinfo = (\<lambda>_ _ _. 0), req_addrinfo = (\<lambda>_ _ _. []), uv_cancel = (\<lambda>_. 0),
       numeric_key = (\<lambda>_. False)\<rparr>
     (net_env.fields (\<lambda>_ _ _. 0) (\<lambda>_ _ _ _. 0) (\<lambda>_ _ _. 0) (\<lambda>_ _. 0) (\<lambda>_ _ _. 0) (\<lambda>_ _ _. 0) (\<lambda>_ _. True) (\<lambda>_ _. None)
       (\<lambda>_ _. None) (\<lambda>_ _. None) (\<lambda>_ _ _ _. 0) (\<lambda>_ _. 0) (\<lambda>_ _ _. 0) (\<lambda>_ _ _. 0) (\<lambda>_ _. 0) (\<lambda>_ _ _ _. 0) (\<lambda>_ _ _ _. 0))"

definition some_events :: "backlog_event list" where
  "some_events = [Accept 0, Connection 0, Connection 0]"

lemma some_events_fold:
  "fold semaphore some_events 0 = 1" "\<forall>n \<le> length some_events. fold semaphore (take n some_events) 0 \<le> 254"
  by (simp_all add: some_events_def le_Suc_eq numeral_3_eq_3 all_conj_distrib imp_disjL)


section \<open>Waiting for a connection\<close>



section \<open>Closing servers\<close>

lemma net_close_error_defined [simp]: "net_close_error ce msg val \<noteq> IS_UNDEF"
  by (simp add: net_close_error_def Let_def split: option.split)

interpretation tcp_listener: closable "ServerAccepts s" "\<lambda>w. sv_error (tcp_servers w s)"
  "\<lambda>w. sv_cancel (tcp_servers w s) \<and> sv_error (tcp_servers w s) = IS_UNDEF \<and> sv_pending (tcp_servers w s) = 0 \<and>
     \<not> has_flag (sv_flags (tcp_servers w s)) TCP_SERVER_FLAG_LAZY"
  "\<lambda>w. \<not> sv_cancel (tcp_servers w s) \<and> sv_pending (tcp_servers w s) = 0 \<and>
     \<not> has_flag (sv_flags (tcp_servers w s)) TCP_SERVER_FLAG_LAZY"
  "tcp_server_close wake s" "tcp_server_accept tx net own yield wake s"
  for s tx net own and yield :: "'a net_yield"
proof unfold_locales
  fix val and w :: "'a net_store_scheme"
  assume "sv_cancel (tcp_servers w s) \<and> sv_error (tcp_servers w s) = IS_UNDEF \<and> sv_pending (tcp_servers w s) = 0 \<and>
     \<not> has_flag (sv_flags (tcp_servers w s)) TCP_SERVER_FLAG_LAZY" and "ops_wf w"
  then show "closes (ServerAccepts s) (\<lambda>w. sv_error (tcp_servers w s))
      (\<lambda>w. \<not> sv_cancel (tcp_servers w s) \<and> sv_pending (tcp_servers w s) = 0 \<and>
         \<not> has_flag (sv_flags (tcp_servers w s)) TCP_SERVER_FLAG_LAZY) w (tcp_server_close wake s val w)"
    by (simp add: tcp_server_close_def shutdown_server_def Let_def)
      (rule closes_finI [where e = "net_close_error SocketExceptionCe ''Server has been closed'' val"], simp add: ops_wf_def,
        simp, simp, simp, (drule net_store_more_eq(2), simp add: settle_accept_def)+)
qed (auto simp: tcp_server_close_def tcp_server_accept_def Let_def)

interpretation pipe_listener: closable "PipeAccepts s" "\<lambda>w. ps_error (pipe_servers w s)"
  "\<lambda>w. ps_cancel (pipe_servers w s) \<and> ps_error (pipe_servers w s) = IS_UNDEF \<and>
     \<not> has_flag (ps_flags (pipe_servers w s)) PIPE_FLAG_LAZY"
  "\<lambda>w. \<not> ps_cancel (pipe_servers w s) \<and> ps_pending (pipe_servers w s) = 0 \<and>
     \<not> has_flag (ps_flags (pipe_servers w s)) PIPE_FLAG_LAZY"
  "pipe_server_close wake s" "pipe_server_accept tx net own yield wake s"
  for s tx net own and yield :: "'a net_yield"
proof unfold_locales
  fix val and w :: "'a net_store_scheme"
  assume "ps_cancel (pipe_servers w s) \<and> ps_error (pipe_servers w s) = IS_UNDEF \<and>
     \<not> has_flag (ps_flags (pipe_servers w s)) PIPE_FLAG_LAZY" and "ops_wf w"
  then show "closes (PipeAccepts s) (\<lambda>w. ps_error (pipe_servers w s))
      (\<lambda>w. \<not> ps_cancel (pipe_servers w s) \<and> ps_pending (pipe_servers w s) = 0 \<and>
         \<not> has_flag (ps_flags (pipe_servers w s)) PIPE_FLAG_LAZY) w (pipe_server_close wake s val w)"
    by (simp add: pipe_server_close_def pipe_shutdown_server_def Let_def)
      (rule closes_finI [where e = "net_close_error SocketExceptionCe ''Server has been closed'' val"], simp add: ops_wf_def,
        simp, simp, simp, (drule net_store_more_eq(4), simp add: settle_pipe_accept_def)+)
qed (auto simp: pipe_server_close_def pipe_server_accept_def Let_def)

text \<open>
  Closing a server ends and fails every execution that waits for a connection, in the state it
  waits in, with one error; nothing waits afterwards, a later accept gets the same error and a second
  close does nothing.
\<close>

theorem tcp_server_close_fails_accepts:
  fixes w :: "'a net_store_scheme"
  assumes "ops_wf w" and "sv_cancel (tcp_servers w s)" and "sv_error (tcp_servers w s) = IS_UNDEF"
    and "sv_pending (tcp_servers w s) = 0" and "\<not> has_flag (sv_flags (tcp_servers w s)) TCP_SERVER_FLAG_LAZY"
  shows "\<exists>w' e. tcp_server_close wake s val w = Some w' \<and> e \<noteq> IS_UNDEF \<and> queues w' = (queues w)(ServerAccepts s := []) \<and>
    ops_wf w' \<and> (\<forall>op. ops w' op = (if op \<in> set (queues w (ServerAccepts s)) then settled_op (OP_FAILED, e) (ops w op) else ops w op)) \<and>
    tcp_server_accept tx net own yield wake s w' = Some (Throw e, w') \<and> tcp_server_close wake s val' w' = Some w'"
  using tcp_listener.close_fails_all [of w s val tx net own yield val'] assms by simp

text \<open>A server on which one execution waits.\<close>

theorem tcp_server_close_fails_accepts_witness:
  "\<forall>tx own. \<exists>w' e. tcp_server_close wake 0 None (tcp_accept_waits 0 0 tcp_world) = Some w' \<and>
     op_status (ops w' 0) = ASYNC_STATUS_FAILED \<and> tcp_server_accept tx calm_net own bounce wake 0 w' = Some (Throw e, w')"
proof (intro allI)
  let ?w = "tcp_accept_waits 0 0 tcp_world"
  have w: "ops_wf ?w" "queues ?w (ServerAccepts 0) = [0]" "sv_pending (tcp_servers ?w 0) = 0"
    using tcp_waits [of tcp_world 0 0] by simp_all
  have s: "tcp_servers ?w 0 = (tcp_servers tcp_world 0)\<lparr>sv_ref_count := sv_ref_count (tcp_servers ?w 0), sv_handle := sv_handle (tcp_servers ?w 0)\<rparr>"
    by (simp add: tcp_accept_waits_def Let_def)
  have f: "sv_cancel (tcp_servers ?w 0)" "sv_error (tcp_servers ?w 0) = IS_UNDEF" "\<not> has_flag (sv_flags (tcp_servers ?w 0)) TCP_SERVER_FLAG_LAZY"
    by (subst s, simp add: has_flag_def)+
  show "\<exists>w' e. tcp_server_close wake 0 None ?w = Some w' \<and>
     op_status (ops w' 0) = ASYNC_STATUS_FAILED \<and> tcp_server_accept tx calm_net own bounce wake 0 w' = Some (Throw e, w')" for tx own
    using tcp_server_close_fails_accepts [OF w(1) f(1,2) w(3) f(3), of None tx calm_net own bounce None] by (auto simp: w(2))
qed

lemma pipe_server_close_fails_accepts:
  fixes w :: "'a net_store_scheme"
  assumes "ops_wf w" and "ps_cancel (pipe_servers w s)" and "ps_error (pipe_servers w s) = IS_UNDEF"
    and "\<not> has_flag (ps_flags (pipe_servers w s)) PIPE_FLAG_LAZY"
  shows "\<exists>w' e. pipe_server_close wake s val w = Some w' \<and> e \<noteq> IS_UNDEF \<and> queues w' = (queues w)(PipeAccepts s := []) \<and>
    ops_wf w' \<and> (\<forall>op. ops w' op = (if op \<in> set (queues w (PipeAccepts s)) then settled_op (OP_FAILED, e) (ops w op) else ops w op)) \<and>
    pipe_server_accept tx net own yield wake s w' = Some (Throw e, w') \<and> pipe_server_close wake s val' w' = Some w'"
  using pipe_listener.close_fails_all [of w s val tx net own yield val'] assms by simp

end
