(* ===== verification/ConnectProps.thy ===== *)
theory ConnectProps
  imports NetProps
begin

text \<open>
  Connecting a TCP socket: the answer of libuv decides between a socket that is open and an error after
  which the handle is closed.
\<close>

section \<open>Frames\<close>

lemma net_stream_frame [simp]:
  fixes w :: "'a net_store_scheme"
  shows "tcp_sockets (upd_stream s f w) = tcp_sockets w" "connect_reqs (upd_stream s f w) = connect_reqs w"
    "uv_codes (upd_stream s f w) = uv_codes w" "next_net (upd_stream s f w) = next_net w"
    "tcp_sockets (stream_ref g bg s w) = tcp_sockets w" "connect_reqs (stream_ref g bg s w) = connect_reqs w"
    "uv_codes (stream_ref g bg s w) = uv_codes w"
  by (simp_all add: upd_stream_def stream_ref_def split_beta)

lemma upd_tcp_frame [simp]:
  "streams (upd_tcp s f w) = streams w" "connect_reqs (upd_tcp s f w) = connect_reqs w" "g_task (upd_tcp s f w) = g_task w"
  "tasks (upd_tcp s f w) = tasks w" "contexts (upd_tcp s f w) = contexts w" "g_context (upd_tcp s f w) = g_context w"
  "cancels (upd_tcp s f w) = cancels w" "uv_codes (upd_tcp s f w) = uv_codes w"
  by (simp_all add: upd_tcp_def)

lemma net_ops_frame [simp]:
  fixes w :: "'a net_store_scheme"
  shows "connect_reqs (upd_op op g w) = connect_reqs w" "connect_reqs (upd_queue q h w) = connect_reqs w"
    "connect_reqs (snd (async_alloc_op w)) = connect_reqs w" "connect_reqs (set_uv_code op code w) = connect_reqs w"
    "streams (snd (async_alloc_op w)) = streams w"
  by (simp_all add: upd_op_def upd_queue_def async_alloc_op_def set_uv_code_def)

lemma free_op_net [simp]:
  fixes w :: "'a net_store_scheme"
  shows "tcp_sockets (async_free_op op w) = tcp_sockets w" "connect_reqs (async_free_op op w) = connect_reqs w"
    "streams (async_free_op op w) = streams w"
  by (simp_all add: async_free_op_def unlink_op_def split: option.split)

lemma set_peers_sel [simp]:
  "streams (set_peers net s w) = streams w" "connect_reqs (set_peers net s w) = connect_reqs w"
  "so_name (tcp_sockets (set_peers net s w) s) = so_name (tcp_sockets w s)"
  "so_cancel (tcp_sockets (set_peers net s w) s) = so_cancel (tcp_sockets w s)"
  by (simp_all add: set_peers_def Let_def)

lemma setup_client_tls_sel [simp]:
  "streams (setup_client_tls s tls w) = streams w" "connect_reqs (setup_client_tls s tls w) = connect_reqs w"
  "so_name (tcp_sockets (setup_client_tls s tls w) s) = so_name (tcp_sockets w s)"
  "so_cancel (tcp_sockets (setup_client_tls s tls w) s) = so_cancel (tcp_sockets w s)"
  by (simp_all add: setup_client_tls_def split: option.split)

lemma unref_closing [simp]:
  "uv_closing (snd (async_unref_enter bg x)) = uv_closing (snd x)" "uv_closing (snd (async_unref_exit bg x)) = uv_closing (snd x)"
  by (simp_all add: async_unref_enter_def async_unref_exit_def Let_def)

lemma cancel_read_frame:
  fixes w :: "'a net_store_scheme"
  shows "st_handle (streams (cancel_read wake s w) s) = st_handle (streams w s)" "tcp_sockets (cancel_read wake s w) = tcp_sockets w"
    "connect_reqs (cancel_read wake s w) = connect_reqs w"
proof -
  have "tcp_sockets (async_finish_op wake op v) = tcp_sockets v" "connect_reqs (async_finish_op wake op v) = connect_reqs v"
    "streams (async_finish_op wake op v) = streams v" for op and v :: "'a net_store_scheme"
    by (rule net_store_more_eq, simp)+
  then show "st_handle (streams (cancel_read wake s w) s) = st_handle (streams w s)" "tcp_sockets (cancel_read wake s w) = tcp_sockets w"
    "connect_reqs (cancel_read wake s w) = connect_reqs w"
    by (simp_all add: cancel_read_def finish_read_def upd_req_def)
qed

lemma stream_close_closes:
  fixes w :: "'a net_store_scheme"
  assumes "\<not> stream_flag s STREAM_CLOSED w" and "\<not> uv_closing (st_handle (streams w s))"
  shows "uv_closing (st_handle (streams (async_stream_close own wake s (Some r) w) s)) \<and>
    tcp_sockets (async_stream_close own wake s (Some r) w) = tcp_sockets w \<and>
    connect_reqs (async_stream_close own wake s (Some r) w) = connect_reqs w"
proof -
  let ?w = "upd_stream s (\<lambda>x. x\<lparr>st_ref := Some r\<rparr>) w"
  have f: "\<not> stream_flag s STREAM_CLOSED ?w" using assms(1) by (simp add: stream_flag_def)
  define w2 where "w2 = upd_stream s (\<lambda>x. x\<lparr>st_dispose := Some Close_cb,
       st_timer := (if uv_closing (st_timer x) then st_timer x else uv_close (st_timer x))\<rparr>)
     (set_stream_flag s (STREAM_CLOSED OR STREAM_EOF OR (STREAM_SHUT_RD OR STREAM_SHUT_WR)) ?w)"
  define w3 where "w3 = (if stream_flag s STREAM_READING w2 then read_stop s w2 else w2)"
  have w3: "\<not> uv_closing (st_handle (streams w3 s))" "tcp_sockets w3 = tcp_sockets w" "connect_reqs w3 = connect_reqs w"
    using assms(2) by (simp_all add: w3_def w2_def read_stop_def set_stream_flag_def clear_stream_flag_def uv_stop_def)
  note c = cancel_read_frame [of s w3]
  have "async_stream_close own wake s (Some r) w = upd_stream s (\<lambda>x. x\<lparr>st_handle := uv_close (st_handle x)\<rparr>) (cancel_read wake s w3)"
    using assms(1) f w3(1) c(1)
    unfolding async_stream_close_def async_stream_close_cb_def Let_def option.case w2_def [symmetric] w3_def [symmetric] by simp
  with w3 c show ?thesis by (simp add: uv_close_def)
qed

section \<open>Connecting\<close>

text \<open>The state in which task \<open>t\<close> waits for the connection.\<close>

definition tcp_connect_waits :: "string \<Rightarrow> nat \<Rightarrow> 'a net_store_scheme \<Rightarrow> 'a net_store_scheme" where
  "tcp_connect_waits name t w =
     (let s = next_net w;
          w1 = upd_tcp s (\<lambda>x. x\<lparr>so_name := Some name\<rparr>) (snd (async_tcp_socket_object_create w));
          op = next_opid w1;
          w2 = (set_uv_code op 0 (snd (async_alloc_op w1)))\<lparr>connect_reqs := (s, op) # connect_reqs (snd (async_alloc_op w1))\<rparr>
      in suspended t op (stream_ref async_unref_enter (async_context_is_background (g_context w2) w2) s w2))"

text \<open>
  C33. Connecting to an address waits for libuv; when the connection is there the result is an open
  socket with the name it was given, when it failed an error is thrown and the handle is closed; the
  request is not left with libuv in either case.
\<close>

theorem connect_opens_or_closes:
  fixes w :: "'a net_store_scheme"
  assumes "may_wait t w" and "async_socket_parse_ip (inet_of net) (c_str name) 0 = Some a"
    and "\<forall>s dest u. tcp_connect_code net s dest u = 0"
    and "yield Suspend (tcp_connect_waits name t w) = connect_cb wake (next_net w) (Suc (next_opid w)) st (tcp_connect_waits name t w)"
  defines "s \<equiv> next_net w"
  shows "\<exists>w'. tcp_socket_connect tx net own yield wake name port tls w =
      Some (if st < 0 then Throw (uv_error tx SocketConnectExceptionCe ''Failed to connect socket: '' st) else Ret (IS_OBJECT s), w') \<and>
    (uv_closing (st_handle (streams w' s)) \<longleftrightarrow> st < 0) \<and> (so_cancel (tcp_sockets w' s) \<longleftrightarrow> 0 \<le> st) \<and>
    so_name (tcp_sockets w' s) = Some name \<and> connect_reqs w' = connect_reqs w"
proof -
  define w1 where "w1 = upd_tcp s (\<lambda>x. x\<lparr>so_name := Some name\<rparr>) (snd (async_tcp_socket_object_create w))"
  have w1: "next_opid w1 = Suc (next_opid w)" "fst (async_tcp_socket_object_create w) = s" "connect_reqs w1 = connect_reqs w"
    "so_name (tcp_sockets w1 s) = Some name" "so_cancel (tcp_sockets w1 s)" "st_flags (streams w1 s) = 0"
    "\<not> uv_closing (st_handle (streams w1 s))" "s_flags w1 = s_flags w" "g_task w1 = g_task w" "tasks w1 = tasks w"
    "contexts w1 = contexts w" "g_context w1 = g_context w" "cancels w1 = cancels w"
    by (simp_all add: w1_def s_def async_tcp_socket_object_create_def async_stream_init_def async_alloc_op_def upd_stream_def
        upd_tcp_def uv_init_def Let_def)
  let ?op = "next_opid w1"
  define w2 where "w2 = (set_uv_code ?op 0 (snd (async_alloc_op w1)))\<lparr>connect_reqs := (s, ?op) # connect_reqs (snd (async_alloc_op w1))\<rparr>"
  define bg where "bg = async_context_is_background (g_context w2) w2"
  define w3 where "w3 = stream_ref async_unref_enter bg s w2"
  have wt: "tcp_connect_waits name t w = suspended t ?op w3"
    unfolding tcp_connect_waits_def Let_def s_def [symmetric] w1_def [symmetric] w2_def [symmetric] bg_def [symmetric] w3_def [symmetric]
    by (rule refl)
  have w3: "ops w3 ?op = zero_op" "tcp_sockets w3 = tcp_sockets w1" "connect_reqs w3 = (s, ?op) # connect_reqs w"
    "s_flags w3 = s_flags w" "st_flags (streams w3 s) = 0" "\<not> uv_closing (st_handle (streams w3 s))"
    using w1 by (simp_all add: w3_def w2_def)
  have mw: "may_wait t w3" using assms(1) w1 by (subst may_wait_cong [where w = w]) (simp_all add: w3_def w2_def)
  define v where "v = suspended t ?op w3"
  have vm: "task_store.more v = task_store.more w3" by (simp add: v_def)
  note v = net_store_more_eq [OF vm]
  define x where "x = set_uv_code ?op st (v\<lparr>connect_reqs := remove1 (s, ?op) (connect_reqs v)\<rparr>)"
  have x: "connect_reqs x = connect_reqs w" "tcp_sockets x = tcp_sockets w1" "uv_codes x ?op = st" "streams x = streams w3"
    "s_flags x = s_flags w"
    using w3 by (simp_all add: x_def v) (simp add: v_def)
  define u where "u = async_finish_op wake ?op x"
  have um: "task_store.more u = task_store.more x" "s_flags u = s_flags w" "op_status (ops u ?op) = ASYNC_STATUS_RESOLVED"
    using x(5) by (simp_all add: u_def)
  have y: "yield Suspend (suspended t ?op w3) = u"
    using assms(4) unfolding s_def [symmetric] w1(1) [symmetric] wt connect_cb_def v_def [symmetric] x_def [symmetric] u_def [symmetric] .
  have "\<not> sched_flag SCHED_ERROR u" using may_wait_ok [OF assms(1)] um(2) by (simp add: sched_flag_def)
  with await_suspends [OF mw, of yield ?op] um(3) obtain w4 where w4:
    "async_await_op yield ?op w3 = Some (Await_success, w4)" "task_store.more w4 = task_store.more u"
    by (auto simp: y)
  note m = net_store_more_eq [OF w4(2)] net_store_more_eq [OF um(1)]
  have sa: "stream_await_op yield s ?op w2 = Some (Await_success, stream_ref async_unref_exit bg s w4)"
    unfolding stream_await_op_def Let_def bg_def [symmetric] w3_def [symmetric] w4(1) by simp
  define w5 where "w5 = async_free_op ?op (stream_ref async_unref_exit bg s w4)"
  have w5: "connect_reqs w5 = connect_reqs w" "tcp_sockets w5 = tcp_sockets w1" "st_flags (streams w5 s) = 0"
    "\<not> uv_closing (st_handle (streams w5 s))"
    using x w3 by (simp_all add: w5_def m)
  have "sched_flag SCHED_DISPOSED w = False" "sched_flag SCHED_ERROR w = False"
    using assms(1) by (auto simp: may_wait_def await_checks_task_def split: if_splits)
  then have r: "tcp_socket_connect tx net own yield wake name port tls w =
      tcp_connect_to tx net own yield wake name (snd (async_socket_set_port a port)) tls w"
    using assms(2) by (simp add: tcp_socket_connect_def assemble_address_def async_dns_lookup_ip_def dns_env.defs)
  have c: "tcp_connect_to tx net own yield wake name dest tls w =
      Some (if st < 0 then (Throw (uv_error tx SocketConnectExceptionCe ''Failed to connect socket: '' st), async_tcp_socket_object_dtor own wake s w5)
        else (Ret (IS_OBJECT s), set_peers net s (setup_client_tls s tls w5)))" for dest
    using assms(3) x(3) unfolding tcp_connect_to_def Let_def split_beta alloc_net_frame(16) w1(2) w1_def [symmetric] w2_def [symmetric] sa
    by (simp add: w5_def m)
  show ?thesis
  proof (cases "st < 0")
    case True
    let ?z = "upd_tcp s (\<lambda>x. x\<lparr>so_cancel := False\<rparr>) (w5\<lparr>s_shutdown := remove1 (ShutdownCb CSocket s) (s_shutdown w5)\<rparr>)"
    have "\<not> stream_flag s STREAM_CLOSED ?z" "\<not> uv_closing (st_handle (streams ?z s))"
      using w5 by (simp_all add: stream_flag_def has_flag_def)
    note z = stream_close_closes [OF this, of own s]
    have "async_tcp_socket_object_dtor own wake s w5 = async_stream_close own wake s (Some s) ?z"
      using w5 w1(5) by (simp add: async_tcp_socket_object_dtor_def shutdown_socket_def)
    with True r c z w5 w1 show ?thesis by simp
  next
    case False
    with r c w5 w1 show ?thesis by simp
  qed
qed

theorem connect_opens_or_closes_witness:
  "\<forall>tx own. \<exists>w'. tcp_socket_connect tx calm_net own (\<lambda>_. connect_cb wake 0 1 (- 111)) wake ''10.0.0.1'' 80 None boot_net =
      Some (Throw (uv_error tx SocketConnectExceptionCe ''Failed to connect socket: '' (- 111)), w') \<and>
    uv_closing (st_handle (streams w' 0)) \<and> connect_reqs w' = connect_reqs boot_net"
proof (intro allI)
  have p: "async_socket_parse_ip (inet_of calm_net) (c_str ''10.0.0.1'') 0 = Some (AF_INET 0 0)"
    by (simp add: calm_net_def dns_env.defs async_socket_parse_ip_def)
  have c: "\<forall>s dest u. tcp_connect_code calm_net s dest u = 0" by (simp add: calm_net_def dns_env.defs net_env.defs)
  show "\<exists>w'. tcp_socket_connect tx calm_net own (\<lambda>_. connect_cb wake 0 1 (- 111)) wake ''10.0.0.1'' 80 None boot_net =
      Some (Throw (uv_error tx SocketConnectExceptionCe ''Failed to connect socket: '' (- 111)), w') \<and>
    uv_closing (st_handle (streams w' 0)) \<and> connect_reqs w' = connect_reqs boot_net" for tx own
    using connect_opens_or_closes [OF boot_net_sel(7) p c, of "\<lambda>_. connect_cb wake 0 1 (- 111)" "- 111" tx own 80 None]
    by (simp only: boot_net_sel(3,5) One_nat_def [symmetric]) auto
qed

end
