(* ===== verification/UdpProps.thy ===== *)
theory UdpProps
  imports NetProps
begin

text \<open>
  Properties of UDP sockets: an execution that receives gets the datagram that arrives; closing ends,
  whatever the woken executions do short of waiting on the socket again.
\<close>

section \<open>Frames\<close>

lemma upd_udp_sel [simp]:
  "udp_sockets (upd_udp s f w) = (udp_sockets w)(s := f (udp_sockets w s))" "ops (upd_udp s f w) = ops w"
  "queues (upd_udp s f w) = queues w" "next_opid (upd_udp s f w) = next_opid w" "s_flags (upd_udp s f w) = s_flags w"
  "g_task (upd_udp s f w) = g_task w" "tasks (upd_udp s f w) = tasks w" "contexts (upd_udp s f w) = contexts w"
  "g_context (upd_udp s f w) = g_context w" "cancels (upd_udp s f w) = cancels w" "uv_codes (upd_udp s f w) = uv_codes w"
  "datagrams (upd_udp s f w) = datagrams w" "next_datagram (upd_udp s f w) = next_datagram w" "recv_sizes (upd_udp s f w) = recv_sizes w"
  "send_ops (upd_udp s f w) = send_ops w"
  by (simp_all add: upd_udp_def)

lemma udp_ref_sel [simp]:
  "udp_sockets (udp_ref f bg s w) = (udp_sockets w)(s := (udp_sockets w s)\<lparr>
     ud_ref_count := fst (f bg (ud_ref_count (udp_sockets w s), ud_handle (udp_sockets w s))),
     ud_handle := snd (f bg (ud_ref_count (udp_sockets w s), ud_handle (udp_sockets w s)))\<rparr>)"
  "ops (udp_ref f bg s w) = ops w" "queues (udp_ref f bg s w) = queues w" "next_opid (udp_ref f bg s w) = next_opid w"
  "s_flags (udp_ref f bg s w) = s_flags w" "g_task (udp_ref f bg s w) = g_task w" "tasks (udp_ref f bg s w) = tasks w"
  "contexts (udp_ref f bg s w) = contexts w" "g_context (udp_ref f bg s w) = g_context w" "cancels (udp_ref f bg s w) = cancels w"
  "uv_codes (udp_ref f bg s w) = uv_codes w" "datagrams (udp_ref f bg s w) = datagrams w"
  "next_datagram (udp_ref f bg s w) = next_datagram w" "recv_sizes (udp_ref f bg s w) = recv_sizes w"
  by (simp_all add: udp_ref_def split_beta)

section \<open>Closing\<close>

text \<open>The executions that are woken do not wait on the queues \<open>Q\<close> again; others may be taken out of them.\<close>

definition leaves_queues :: "list_addr set \<Rightarrow> (opid \<Rightarrow> 'a op_store_scheme \<Rightarrow> 'a op_store_scheme) \<Rightarrow> bool" where
  "leaves_queues Q run \<longleftrightarrow> (\<forall>op w. ops_wf w \<longrightarrow> ops_wf (run op w) \<and>
     (\<forall>q\<in>Q. length (queues (run op w) q) \<le> length (queues w q)))"

lemma fail_first_shrinks:
  assumes "leaves_queues Q run" and "ops_wf w" and "queues w q = op # rest" and "p \<in> Q"
  shows "ops_wf (async_fail_op run op e w)"
    and "length (queues (async_fail_op run op e w) p) \<le> length (queues w p)"
    and "p = q \<Longrightarrow> length (queues (async_fail_op run op e w) p) < length (queues w p)"
proof -
  have l: "op_list (ops w op) = Some q" using ops_wf_mem [OF assms(2), of op q] assms(3) by simp
  define u where "u = upd_op op (\<lambda>x. x\<lparr>op_result := e, op_status := ASYNC_STATUS_FAILED\<rparr>) (unlink_op op w)"
  have wf: "ops_wf u" using assms(2) by (simp add: u_def ops_wf_upd_op ops_wf_unlink)
  have q: "queues u = (queues w)(q := rest)" using l assms(3) by (auto simp: u_def unlink_op_def)
  have r: "async_fail_op run op e w = call_callback run op u" by (simp add: async_fail_op_def u_def)
  have c: "ops_wf (call_callback run op u) \<and> length (queues (call_callback run op u) p) \<le> length (queues u p)"
    using assms(1,4) wf by (auto simp: call_callback_def leaves_queues_def split: option.split)
  then show "ops_wf (async_fail_op run op e w)"
    and "length (queues (async_fail_op run op e w) p) \<le> length (queues w p)"
    and "p = q \<Longrightarrow> length (queues (async_fail_op run op e w) p) < length (queues w p)"
    using q assms(3) by (auto simp: r split: if_splits)
qed

lemma drain_first_leaves:
  fixes w :: "'a op_store_scheme"
  assumes "leaves_queues Q run" and "ops_wf w" and "q \<in> Q" and "\<And>op u. settle op u = async_fail_op run op (err u) u"
  shows "\<exists>w'. drain_first settle q w = Some w' \<and> ops_wf w' \<and> queues w' q = [] \<and>
    (\<forall>p\<in>Q. length (queues w' p) \<le> length (queues w p))"
proof -
  let ?P = "\<lambda>u. ops_wf u \<and> (\<forall>p\<in>Q. length (queues u p) \<le> length (queues w p))"
  have P: "?P w" using assms(2) by simp
  have step: "?P (settle op u) \<and> length (queues (settle op u) q) < length (queues u q)"
    if "?P u" "queues u q = op # rest" for u op rest
    unfolding assms(4) using fail_first_shrinks [OF assms(1) _ that(2)] that(1) assms(3) by (blast intro: order_trans)
  have "\<exists>w'. drain_first settle q w = Some w'"
    by (rule drain_first_terminates [where P = ?P, OF P]) (rule step)
  then obtain w' where w': "drain_first settle q w = Some w'" ..
  have "?P w' \<and> queues w' q = []"
    by (rule drain_first_rule [where P = ?P, OF w' P]) (use step in blast)
  with w' show ?thesis by blast
qed

text \<open>
  C35. Closing a UDP socket ends, and nothing waits on it afterwards, neither receivers nor senders nor
  executions that flush, whatever the executions do that it wakes, except waiting on this socket
  again.
\<close>

theorem udp_close_ends:
  fixes w :: "'a net_store_scheme"
  assumes "leaves_queues {UdpReceivers s, UdpSenders s, UdpFlush s} run" and "ops_wf w" and "ud_cancel (udp_sockets w s)"
  shows "\<exists>w'. udp_socket_close run s val w = Some w' \<and> ops_wf w' \<and> queues w' (UdpReceivers s) = [] \<and>
    queues w' (UdpSenders s) = [] \<and> queues w' (UdpFlush s) = []"
proof -
  let ?Q = "{UdpReceivers s, UdpSenders s, UdpFlush s}" and ?f = "\<lambda>op w. async_fail_op run op (ud_error (udp_sockets w s)) w"
  let ?e = "net_close_error StreamClosedExceptionCe ''Socket has been closed'' val"
  define w1 where "w1 = upd_udp s (\<lambda>x. if uv_closing (ud_handle x) then x
      else x\<lparr>ud_refs := ud_refs x + 1, ud_handle := uv_close (ud_handle x)\<rparr>)
    (upd_udp s (\<lambda>x. x\<lparr>ud_cancel := False, ud_error := (if ud_error x = IS_UNDEF then ?e else ud_error x)\<rparr>)
      (w\<lparr>s_shutdown := remove1 (ShutdownCb CUdpSocket s) (s_shutdown w)\<rparr>))"
  have r: "udp_socket_close run s val w = Option.bind (drain_first ?f (UdpReceivers s) w1) (\<lambda>w3.
      Option.bind (drain_first ?f (UdpSenders s) w3) (drain_first ?f (UdpFlush s)))"
    using assms(3) by (simp add: udp_socket_close_def udp_socket_shutdown_def w1_def Let_def)
  have wf: "ops_wf w1" using assms(2) by (subst ops_wf_cong [where w = w]) (simp_all add: w1_def)
  obtain w2 where w2: "drain_first ?f (UdpReceivers s) w1 = Some w2" "ops_wf w2" "queues w2 (UdpReceivers s) = []"
    using drain_first_leaves [OF assms(1) wf, of "UdpReceivers s" ?f "\<lambda>w. ud_error (udp_sockets w s)"] by auto
  obtain w3 where w3: "drain_first ?f (UdpSenders s) w2 = Some w3" "ops_wf w3" "queues w3 (UdpSenders s) = []"
    "\<forall>p\<in>?Q. length (queues w3 p) \<le> length (queues w2 p)"
    using drain_first_leaves [OF assms(1) w2(2), of "UdpSenders s" ?f "\<lambda>w. ud_error (udp_sockets w s)"] by auto
  obtain w4 where w4: "drain_first ?f (UdpFlush s) w3 = Some w4" "ops_wf w4" "queues w4 (UdpFlush s) = []"
    "\<forall>p\<in>?Q. length (queues w4 p) \<le> length (queues w3 p)"
    using drain_first_leaves [OF assms(1) w3(2), of "UdpFlush s" ?f "\<lambda>w. ud_error (udp_sockets w s)"] by auto
  from w2 w3 w4 show ?thesis by (simp add: r)
qed

text \<open>A socket on which an execution receives and another one flushes.\<close>

definition udp_world :: net_store where
  "udp_world = snd (async_udp_socket_object_create boot_net)"

lemma udp_world_sel [simp]:
  "ops udp_world = (\<lambda>_. zero_op)" "queues udp_world = (\<lambda>_. [])" "next_opid udp_world = 0" "ops_wf udp_world"
  "ud_flags (udp_sockets udp_world 0) = 0" "ud_cancel (udp_sockets udp_world 0)" "ud_error (udp_sockets udp_world 0) = IS_UNDEF"
  "may_wait 0 udp_world" "s_flags udp_world = 0"
proof -
  show "ops_wf udp_world" by (subst ops_wf_cong [where w = boot_net]) (simp_all add: udp_world_def async_udp_socket_object_create_def Let_def)
  show "may_wait 0 udp_world"
    by (subst may_wait_cong [where w = boot_net]) (simp_all add: udp_world_def async_udp_socket_object_create_def Let_def)
qed (simp_all add: udp_world_def async_udp_socket_object_create_def Let_def)

lemma leaves_queues_wake: "leaves_queues Q (wake :: 'a wake)"
  by (simp add: leaves_queues_def ops_wf_wake)

theorem udp_close_ends_witness:
  "\<exists>w'. udp_socket_close wake 0 None (async_append_op (UdpFlush 0) 0 (snd (async_alloc_op udp_world))) = Some w' \<and> queues w' (UdpFlush 0) = []"
proof -
  have "ops_wf (async_append_op (UdpFlush 0) 0 (snd (async_alloc_op udp_world)))"
    by (intro ops_wf_append ops_wf_alloc) simp_all
  from udp_close_ends [OF leaves_queues_wake this, of 0 None] show ?thesis by auto
qed

section \<open>Receiving\<close>

text \<open>The state in which an execution waits for a datagram.\<close>

definition udp_receive_waits :: "nat \<Rightarrow> nat \<Rightarrow> nat \<Rightarrow> 'a net_store_scheme \<Rightarrow> 'a net_store_scheme" where
  "udp_receive_waits s t n w =
     (let op = next_opid w;
          w1 = async_append_op (UdpReceivers s) op (set_uv_code op 0 (snd (async_alloc_op w)));
          w2 = w1\<lparr>recv_sizes := (recv_sizes w1)(op := n)\<rparr>
      in suspended t op (udp_ref async_unref_enter (async_context_is_background (g_context w2) w2) s w2))"

definition udp_start :: "nat \<Rightarrow> 'a net_store_scheme \<Rightarrow> 'a net_store_scheme" where
  "udp_start s w = upd_udp s (\<lambda>x. x\<lparr>ud_handle := uv_start () (ud_handle x), ud_flags := set_flag (ud_flags x) UDP_FLAG_RECEIVING\<rparr>) w"

text \<open>A datagram arrives for the first receiver.\<close>

lemma socket_received_spec:
  fixes w :: "'a net_store_scheme"
  assumes "ops_wf w" and "queues w (UdpReceivers s) = op # rest" and "bytes \<noteq> []" and "length bytes < 2 ^ 31"
  shows "\<exists>w'. socket_received inet wake s (Inr (bytes, Some a)) w = Some w' \<and> queues w' = (queues w)(UdpReceivers s := rest) \<and>
    op_status (ops w' op) = ASYNC_STATUS_RESOLVED \<and> op_list (ops w' op) = None \<and>
    op_result (ops w' op) = IS_OBJECT (next_datagram w) \<and> uv_codes w' op = int (length bytes) \<and>
    dg_data (datagrams w' (next_datagram w)) = bytes \<and> dg_peer (datagrams w' (next_datagram w)) = a \<and>
    s_flags w' = s_flags w \<and>
    (has_flag (ud_flags (udp_sockets w' s)) UDP_FLAG_RECEIVING \<longleftrightarrow>
       rest \<noteq> [] \<and> has_flag (ud_flags (udp_sockets w s)) UDP_FLAG_RECEIVING)"
proof -
  obtain u where u: "async_next_op (UdpReceivers s) w = Some (op, u)" "queues u = (queues w)(UdpReceivers s := rest)"
    "op_list (ops u op) = None" "task_store.more u = task_store.more w" "s_flags u = s_flags w"
    using next_op_net [OF assms(1,2)] by blast
  note m = net_store_more_eq [OF u(4)]
  let ?d = "next_datagram w"
  have nd: "next_datagram u = ?d" using u(4) by (cases u; cases w) simp
  define w2 where "w2 = snd (async_udp_datagram_object_create u)"
  have w2: "queues w2 = queues u" "ops w2 = ops u" "s_flags w2 = s_flags u" "udp_sockets w2 = udp_sockets u"
    "fst (async_udp_datagram_object_create u) = ?d"
    by (simp_all add: w2_def async_udp_datagram_object_create_def Let_def nd upd_datagram_def)
  define w4 where "w4 = set_uv_code op (int (length bytes)) (upd_op op (\<lambda>x. x\<lparr>op_result := IS_OBJECT ?d\<rparr>)
      (upd_datagram ?d (\<lambda>x. peer_props inet a (x\<lparr>dg_data := bytes, dg_peer := a\<rparr>)) w2))"
  have p: "dg_data (peer_props inet a x) = dg_data x" "dg_peer (peer_props inet a x) = dg_peer x" for x
    by (simp_all add: peer_props_def split_beta)
  have w4: "queues w4 = queues u" "op_list (ops w4 op) = None" "op_result (ops w4 op) = IS_OBJECT ?d" "s_flags w4 = s_flags w"
    "uv_codes w4 op = int (length bytes)" "dg_data (datagrams w4 ?d) = bytes" "dg_peer (datagrams w4 ?d) = a"
    "udp_sockets w4 = udp_sockets w"
    using u(3,5) w2 by (simp_all add: w4_def upd_datagram_def p m)
  have f: "task_store.more (async_finish_op wake op w4) = task_store.more w4" by simp
  note fm = net_store_more_eq [OF f]
  have r: "socket_received inet wake s (Inr (bytes, Some a)) w = Some (udp_recv_stop s (async_finish_op wake op w4))"
    using assms(2-4) w2(5) unfolding socket_received_def
    by (cases bytes) (simp_all add: u(1) split_beta w2_def [symmetric] w4_def Let_def)
  show ?thesis
    unfolding r using w4 u(2) fm by (auto simp: udp_recv_stop_def)
qed



end
