(* ===== verification/ProcessBuilder.thy ===== *)
theory ProcessBuilder
  imports Pipe
begin

text \<open>
  Process builders (\<open>process/builder.c\<close>, \<open>process/env.c\<close>, \<open>include/async/process.h\<close>) on Unix: the
  command, arguments, environment, working directory and standard streams of processes to be
  started. The methods \<open>with\<dots>\<close> return a changed copy. The arguments are values whose
  type nobody checks; they are handed to libuv as C strings.
\<close>

section \<open>State\<close>

abbreviation PROCESS_STDIN :: nat where "PROCESS_STDIN \<equiv> 0"
abbreviation PROCESS_STDOUT :: nat where "PROCESS_STDOUT \<equiv> 1"
abbreviation PROCESS_STDERR :: nat where "PROCESS_STDERR \<equiv> 2"
abbreviation PROCESS_IPC :: nat where "PROCESS_IPC \<equiv> 3"

abbreviation PROCESS_FLAG_IPC :: u8 where "PROCESS_FLAG_IPC \<equiv> 1"
abbreviation PROCESS_FLAG_INHERIT_ENV :: u8 where "PROCESS_FLAG_INHERIT_ENV \<equiv> 2"
abbreviation PROCESS_FLAG_INTERACTIVE_SHELL :: u8 where "PROCESS_FLAG_INTERACTIVE_SHELL \<equiv> 4"

text \<open>The flags of libuv for a standard stream of a child.\<close>

abbreviation UV_IGNORE :: u32 where "UV_IGNORE \<equiv> 0"
abbreviation UV_CREATE_PIPE :: u32 where "UV_CREATE_PIPE \<equiv> 1"
abbreviation UV_INHERIT_FD :: u32 where "UV_INHERIT_FD \<equiv> 2"
abbreviation UV_READABLE_PIPE :: u32 where "UV_READABLE_PIPE \<equiv> 16"
abbreviation UV_WRITABLE_PIPE :: u32 where "UV_WRITABLE_PIPE \<equiv> 32"

text \<open>\<open>uv_stdio_container_t\<close>: flags and a union, which holds a descriptor or a stream.\<close>

datatype stdio_data = Stdio_fd int | Stdio_stream nat

record uv_stdio =
  sio_flags :: u32
  sio_data :: stdio_data

text \<open>
  A builder. The environment is \<open>None\<close> while it is undefined; \<open>pb_freed\<close> says that the memory was
  given back.
\<close>

record async_process_builder =
  pb_flags :: u8
  pb_command :: "string option"
  pb_argv :: "zval list"
  pb_cwd :: "string option"
  pb_env :: "(string \<times> string) list option"
  pb_stdio :: "uv_stdio list"
  pb_freed :: bool

text \<open>
  The state of a pipe between the program and a standard stream of a child: its stream and the
  error of \<open>close\<close>.
\<close>

record process_pipe_state =
  pp_stream :: nat
  pp_error :: zval

text \<open>What is handed to \<open>uv_spawn\<close>; \<open>op_stdio\<close> names the builder whose array of streams is used.\<close>

record uv_process_options =
  op_file :: string
  op_args :: "string list"
  op_cwd :: "string option"
  op_env :: "string list option"
  op_stdio_count :: nat
  op_stdio :: nat

record async_process =
  pr_flags :: u8
  pr_handle :: "unit uv_handle"
  pr_options :: uv_process_options
  pr_pid :: int
  pr_status :: int
  pr_stdin :: process_pipe_state
  pr_stdout :: process_pipe_state
  pr_stderr :: process_pipe_state
  pr_ipc :: "nat option"
  pr_pipes :: u8
  pr_cancel :: bool
  pr_refs :: nat
  pr_destructed :: bool
  pr_freed :: bool
  pr_kills :: "int list"

text \<open>\<open>freed_streams\<close> are the streams that \<open>async_stream_free\<close> gave back, \<open>pipe_refs\<close> the references to IPC pipes.\<close>

record proc_store = net_store +
  builders :: "nat \<Rightarrow> async_process_builder"
  next_builder :: nat
  processes :: "nat \<Rightarrow> async_process"
  next_process :: nat
  freed_streams :: "nat list"
  pipe_refs :: "nat \<Rightarrow> nat"

type_synonym 'a proc_wake = "opid \<Rightarrow> 'a proc_store_scheme \<Rightarrow> 'a proc_store_scheme"
type_synonym 'a proc_yield = "transfer \<Rightarrow> 'a proc_store_scheme \<Rightarrow> 'a proc_store_scheme"
type_synonym 'a proc_own = "nat \<Rightarrow> 'a proc_store_scheme \<Rightarrow> 'a proc_store_scheme"

definition upd_builder :: "nat \<Rightarrow> (async_process_builder \<Rightarrow> async_process_builder) \<Rightarrow> 'a proc_store_scheme \<Rightarrow>
    'a proc_store_scheme" where
  "upd_builder b f w = w\<lparr>builders := (builders w)(b := f (builders w b))\<rparr>"

definition upd_process :: "nat \<Rightarrow> (async_process \<Rightarrow> async_process) \<Rightarrow> 'a proc_store_scheme \<Rightarrow> 'a proc_store_scheme" where
  "upd_process p f w = w\<lparr>processes := (processes w)(p := f (processes w p))\<rparr>"

text \<open>
  What the system and libuv answer: the working directory, the variables of the environment, the
  settings of PHP, the result of \<open>uv_spawn\<close> (its code and the new process id) and of sending a
  signal.
\<close>

record 'w proc_env = "'w net_env" +
  getcwd :: "'w \<Rightarrow> string option"
  environ :: "string list"
  php_binary :: string
  php_ini_path :: "string option"
  ini_entries :: "string option"
  forked :: bool
  spawn :: "uv_process_options \<Rightarrow> uv_stdio list \<Rightarrow> 'w \<Rightarrow> int \<times> int"
  kill_code :: "nat \<Rightarrow> int \<Rightarrow> 'w \<Rightarrow> int"

section \<open>Objects\<close>

definition zero_stdio :: uv_stdio where
  "zero_stdio = \<lparr>sio_flags = 0, sio_data = Stdio_fd 0\<rparr>"

definition async_process_builder_object_create ::
  "'a proc_store_scheme proc_env \<Rightarrow> 'a proc_store_scheme \<Rightarrow> nat \<times> 'a proc_store_scheme" where
  "async_process_builder_object_create env w =
     (let b = next_builder w
      in (b, upd_builder b (\<lambda>_. \<lparr>pb_flags = PROCESS_FLAG_INHERIT_ENV, pb_command = None, pb_argv = [],
                pb_cwd = map_option c_str (getcwd env w), pb_env = None, pb_stdio = replicate 4 zero_stdio,
                pb_freed = False\<rparr>) (w\<lparr>next_builder := Suc b\<rparr>)))"

text \<open>The copy shares the arguments, the environment and the streams with the original.\<close>

definition clone_builder :: "nat \<Rightarrow> 'a proc_store_scheme \<Rightarrow> nat \<times> 'a proc_store_scheme" where
  "clone_builder b w =
     (let c = next_builder w; x = builders w b
      in (c, upd_builder c (\<lambda>_. \<lparr>pb_flags = pb_flags x, pb_command = pb_command x, pb_argv = pb_argv x, pb_cwd = pb_cwd x,
                pb_env = pb_env x, pb_stdio = pb_stdio x, pb_freed = False\<rparr>) (w\<lparr>next_builder := Suc c\<rparr>)))"

text \<open>Releasing a builder without a command dereferences a null pointer: \<open>None\<close>.\<close>

definition async_process_builder_object_destroy :: "nat \<Rightarrow> 'a proc_store_scheme \<Rightarrow> 'a proc_store_scheme option" where
  "async_process_builder_object_destroy b w =
     (if pb_command (builders w b) = None then None else Some (upd_builder b (\<lambda>x. x\<lparr>pb_freed := True\<rparr>) w))"

definition builder_construct :: "nat \<Rightarrow> string \<Rightarrow> zval list \<Rightarrow> 'a proc_store_scheme \<Rightarrow> 'a proc_store_scheme" where
  "builder_construct b cmd argv w = upd_builder b (\<lambda>x. x\<lparr>pb_command := Some cmd, pb_argv := argv\<rparr>) w"

section \<open>Environment and shell\<close>

text \<open>\<open>async_process_create_env\<close>: what is inherited comes first.\<close>

definition env_entry :: "string \<times> string \<Rightarrow> string" where
  "env_entry kv = c_str (fst kv) @ ''='' @ c_str (snd kv)"

definition async_process_create_env :: "string list \<Rightarrow> (string \<times> string) list \<Rightarrow> bool \<Rightarrow> string list" where
  "async_process_create_env own add inherit = (if inherit then own else []) @ List.map env_entry add"

definition async_process_setup_shell :: "nat \<Rightarrow> bool \<Rightarrow> 'a proc_store_scheme \<Rightarrow> 'a proc_store_scheme" where
  "async_process_setup_shell b interactive w =
     (let w1 = upd_builder b (\<lambda>x. x\<lparr>pb_command := Some ''/bin/sh''\<rparr>) w
      in if interactive then w1 else upd_builder b (\<lambda>x. x\<lparr>pb_argv := [IS_STRING ''-c'']\<rparr>) w1)"

section \<open>Forked workers and shells\<close>

text \<open>
  \<open>split_ini_settings\<close>: \<open>line\<close> is what was read since the last end of a line. A setting that is not
  ended by one is dropped.
\<close>

fun split_lines :: "string \<Rightarrow> string \<Rightarrow> string list" where
  "split_lines line [] = []"
| "split_lines line (c # cs) =
     (if c = CHR 0x0A then (''-d'' @ line) # split_lines [] cs else split_lines (line @ [c]) cs)"

definition split_ini_settings :: "string option \<Rightarrow> string list" where
  "split_ini_settings settings = (case settings of None \<Rightarrow> [] | Some s \<Rightarrow> split_lines [] (c_str s))"

definition set_stdio :: "nat \<Rightarrow> (uv_stdio \<Rightarrow> uv_stdio) \<Rightarrow> nat \<Rightarrow> 'a proc_store_scheme \<Rightarrow> 'a proc_store_scheme" where
  "set_stdio i f b w = upd_builder b (\<lambda>x. x\<lparr>pb_stdio := (pb_stdio x)[i := f (pb_stdio x ! i)]\<rparr>) w"

definition builder_fork ::
  "'a proc_store_scheme proc_env \<Rightarrow> zval \<Rightarrow> 'a proc_store_scheme \<Rightarrow> outcome \<times> 'a proc_store_scheme" where
  "builder_fork env file w =
     (let (b, w1) = async_process_builder_object_create env w;
          ini = (case php_ini_path env of None \<Rightarrow> [] | Some path \<Rightarrow> [''-c'' @ c_str path]);
          w2 = upd_builder b (\<lambda>x. x\<lparr>pb_command := Some (c_str (php_binary env)),
                 pb_argv := List.map IS_STRING (ini @ split_ini_settings (ini_entries env) @ [''-dasync.forked=1'']) @ [file],
                 pb_flags := set_flag (set_flag (pb_flags x) PROCESS_FLAG_IPC) PROCESS_FLAG_INHERIT_ENV\<rparr>) w1;
          w3 = set_stdio PROCESS_STDIN (\<lambda>s. s\<lparr>sio_flags := UV_IGNORE\<rparr>) b w2;
          w4 = set_stdio PROCESS_STDOUT (\<lambda>_. \<lparr>sio_flags = UV_INHERIT_FD, sio_data = Stdio_fd (int PROCESS_STDOUT)\<rparr>) b w3;
          w5 = set_stdio PROCESS_STDERR (\<lambda>_. \<lparr>sio_flags = UV_INHERIT_FD, sio_data = Stdio_fd (int PROCESS_STDERR)\<rparr>) b w4
      in (Ret (IS_OBJECT b), w5))"

definition pipe_for_reading :: "uv_stdio \<Rightarrow> uv_stdio" where
  "pipe_for_reading s = s\<lparr>sio_flags := set_flag UV_CREATE_PIPE UV_READABLE_PIPE\<rparr>"

definition pipe_for_writing :: "uv_stdio \<Rightarrow> uv_stdio" where
  "pipe_for_writing s = s\<lparr>sio_flags := set_flag UV_CREATE_PIPE UV_WRITABLE_PIPE\<rparr>"

definition builder_shell ::
  "'a proc_store_scheme proc_env \<Rightarrow> int \<Rightarrow> 'a proc_store_scheme \<Rightarrow> outcome \<times> 'a proc_store_scheme" where
  "builder_shell env interactive w =
     (let (b, w1) = async_process_builder_object_create env w;
          w2 = async_process_setup_shell b (interactive \<noteq> 0) w1
      in (Ret (IS_OBJECT b),
          if interactive \<noteq> 0
          then set_stdio PROCESS_STDERR pipe_for_writing b (set_stdio PROCESS_STDOUT pipe_for_writing b
                 (set_stdio PROCESS_STDIN pipe_for_reading b
                   (upd_builder b (\<lambda>x. x\<lparr>pb_flags := set_flag (pb_flags x) PROCESS_FLAG_INTERACTIVE_SHELL\<rparr>) w2)))
          else w2))"

section \<open>Changed copies\<close>

definition builder_with_cwd :: "nat \<Rightarrow> string \<Rightarrow> 'a proc_store_scheme \<Rightarrow> outcome \<times> 'a proc_store_scheme" where
  "builder_with_cwd b cwd w =
     (let (c, w1) = clone_builder b w in (Ret (IS_OBJECT c), upd_builder c (\<lambda>x. x\<lparr>pb_cwd := Some cwd\<rparr>) w1))"

text \<open>
  The keys of a PHP array, and the loop of \<open>withEnv\<close>. Converting a value to a string may run code of
  the script, \<open>convert\<close>, and throw. The macro that is meant to end the loop then does not leave it, so
  \<open>pend\<close> is the exception that is pending; while there is one, no code of the script runs, and a
  further error gets it as its cause. \<open>zend_hash_add\<close> keeps the first value of a key.
\<close>

datatype array_key = Index int | Key string

definition env_value ::
  "(zval \<Rightarrow> 'w \<Rightarrow> (zval + string) \<times> 'w) \<Rightarrow> zval option \<Rightarrow> zval \<Rightarrow> 'w \<Rightarrow> (zval + string) \<times> 'w" where
  "env_value convert pend v w =
     (case v of IS_STRING s \<Rightarrow> (Inr s, w) | _ \<Rightarrow> if pend = None then convert v w else (Inr [], w))"

fun collect_env ::
  "texts \<Rightarrow> (zval \<Rightarrow> 'w \<Rightarrow> (zval + string) \<times> 'w) \<Rightarrow> (array_key \<times> zval) list \<Rightarrow> zval option \<Rightarrow> (string \<times> string) list \<Rightarrow> 'w \<Rightarrow>
   (zval + (string \<times> string) list) \<times> 'w" where
  "collect_env tx convert [] pend acc w = ((case pend of None \<Rightarrow> Inr acc | Some e \<Rightarrow> Inl e), w)"
| "collect_env tx convert ((Index i, v) # xs) pend acc w =
     (let e = IS_ERROR ErrorCe (''Cannot use index '' @ show_int tx (i mod 2 ^ 64) @ '' as env var name'') None
      in (Inl (case pend of None \<Rightarrow> e | Some p \<Rightarrow> set_previous e p), w))"
| "collect_env tx convert ((Key k, v) # xs) pend acc w =
     (case env_value convert pend v w of
        (Inl e, w1) \<Rightarrow> collect_env tx convert xs (Some e) acc w1
      | (Inr s, w1) \<Rightarrow> collect_env tx convert xs pend (if k \<in> fst ` set acc then acc else acc @ [(k, s)]) w1)"

definition builder_with_env ::
  "texts \<Rightarrow> (zval \<Rightarrow> 'a proc_store_scheme \<Rightarrow> (zval + string) \<times> 'a proc_store_scheme) \<Rightarrow> nat \<Rightarrow> (array_key \<times> zval) list \<Rightarrow> int \<Rightarrow>
   'a proc_store_scheme \<Rightarrow> (outcome \<times> 'a proc_store_scheme) option" where
  "builder_with_env tx convert b env inherit w =
     (let (c, w1) = clone_builder b w; (r, w2) = collect_env tx convert env None [] w1
      in case r of
           Inl e \<Rightarrow> map_option (Pair (Throw e)) (async_process_builder_object_destroy c w2)
         | Inr kvs \<Rightarrow> Some (Ret (IS_OBJECT c), upd_builder c (\<lambda>x. x\<lparr>pb_env := Some kvs,
              pb_flags := (if inherit \<noteq> 0 then set_flag (pb_flags x) PROCESS_FLAG_INHERIT_ENV
                           else clear_flag (pb_flags x) PROCESS_FLAG_INHERIT_ENV)\<rparr>) w2))"

definition clone_with :: "nat \<Rightarrow> (uv_stdio \<Rightarrow> uv_stdio) \<Rightarrow> nat \<Rightarrow> 'a proc_store_scheme \<Rightarrow> outcome \<times> 'a proc_store_scheme" where
  "clone_with i f b w = (let (c, w1) = clone_builder b w in (Ret (IS_OBJECT c), set_stdio i f c w1))"

definition inherit_fd :: "int \<Rightarrow> uv_stdio \<Rightarrow> uv_stdio" where
  "inherit_fd fd _ = \<lparr>sio_flags = UV_INHERIT_FD, sio_data = Stdio_fd (to_c_int fd)\<rparr>"

definition ignore_stdio :: "uv_stdio \<Rightarrow> uv_stdio" where
  "ignore_stdio s = s\<lparr>sio_flags := UV_IGNORE\<rparr>"

definition builder_with_stdin_pipe :: "nat \<Rightarrow> 'a proc_store_scheme \<Rightarrow> outcome \<times> 'a proc_store_scheme" where
  "builder_with_stdin_pipe b w = clone_with PROCESS_STDIN pipe_for_reading b w"

definition builder_with_stdin_inherited :: "nat \<Rightarrow> int \<Rightarrow> 'a proc_store_scheme \<Rightarrow> outcome \<times> 'a proc_store_scheme" where
  "builder_with_stdin_inherited b fd w =
     (if fd \<noteq> int PROCESS_STDIN
      then (Throw (IS_ERROR ErrorCe ''Child process STDIN can only inherit from parent STDIN'' None), w)
      else clone_with PROCESS_STDIN (inherit_fd fd) b w)"

definition builder_without_stdin :: "nat \<Rightarrow> 'a proc_store_scheme \<Rightarrow> outcome \<times> 'a proc_store_scheme" where
  "builder_without_stdin b w = clone_with PROCESS_STDIN ignore_stdio b w"

definition builder_with_stdout_pipe :: "nat \<Rightarrow> 'a proc_store_scheme \<Rightarrow> outcome \<times> 'a proc_store_scheme" where
  "builder_with_stdout_pipe b w = clone_with PROCESS_STDOUT pipe_for_writing b w"

definition builder_with_stdout_inherited :: "nat \<Rightarrow> int \<Rightarrow> 'a proc_store_scheme \<Rightarrow> outcome \<times> 'a proc_store_scheme" where
  "builder_with_stdout_inherited b fd w =
     (if fd \<noteq> int PROCESS_STDOUT \<and> fd \<noteq> int PROCESS_STDERR
      then (Throw (IS_ERROR ErrorCe ''Child process STDOUT can only inherit from parent STDOUT or STDERR'' None), w)
      else clone_with PROCESS_STDOUT (inherit_fd fd) b w)"

definition builder_without_stdout :: "nat \<Rightarrow> 'a proc_store_scheme \<Rightarrow> outcome \<times> 'a proc_store_scheme" where
  "builder_without_stdout b w = clone_with PROCESS_STDOUT ignore_stdio b w"

definition builder_with_stderr_pipe :: "nat \<Rightarrow> 'a proc_store_scheme \<Rightarrow> outcome \<times> 'a proc_store_scheme" where
  "builder_with_stderr_pipe b w = clone_with PROCESS_STDERR pipe_for_writing b w"

definition builder_with_stderr_inherited :: "nat \<Rightarrow> int \<Rightarrow> 'a proc_store_scheme \<Rightarrow> outcome \<times> 'a proc_store_scheme" where
  "builder_with_stderr_inherited b fd w =
     (if fd \<noteq> int PROCESS_STDOUT \<and> fd \<noteq> int PROCESS_STDERR
      then (Throw (IS_ERROR ErrorCe ''Child process STDERR can only inherit from parent STDERR or STDOUT'' None), w)
      else clone_with PROCESS_STDERR (inherit_fd fd) b w)"

definition builder_without_stderr :: "nat \<Rightarrow> 'a proc_store_scheme \<Rightarrow> outcome \<times> 'a proc_store_scheme" where
  "builder_without_stderr b w = clone_with PROCESS_STDERR ignore_stdio b w"

end
