(* ===== verification/BuilderProps.thy ===== *)
theory BuilderProps
  imports NetProps ProcessBuilder
begin

text \<open>
  Properties of process builders: no method of a builder changes a builder that exists; the
  environment that \<open>withEnv\<close> asks for is the one the array has; and what the settings of a forked
  worker and the constructor get wrong.
\<close>

section \<open>Frames\<close>

lemma upd_builder_sel [simp]:
  "builders (upd_builder b f w) = (builders w)(b := f (builders w b))" "next_builder (upd_builder b f w) = next_builder w"
  "processes (upd_builder b f w) = processes w" "next_process (upd_builder b f w) = next_process w"
  "pipe_refs (upd_builder b f w) = pipe_refs w" "freed_streams (upd_builder b f w) = freed_streams w"
  "ops (upd_builder b f w) = ops w" "queues (upd_builder b f w) = queues w" "next_opid (upd_builder b f w) = next_opid w"
  "s_flags (upd_builder b f w) = s_flags w" "s_shutdown (upd_builder b f w) = s_shutdown w" "next_net (upd_builder b f w) = next_net w"
  by (simp_all add: upd_builder_def)

lemma set_stdio_sel [simp]:
  "builders (set_stdio i f b w) = (builders w)(b := (builders w b)\<lparr>pb_stdio := (pb_stdio (builders w b))[i := f (pb_stdio (builders w b) ! i)]\<rparr>)"
  "next_builder (set_stdio i f b w) = next_builder w" "processes (set_stdio i f b w) = processes w"
  "next_process (set_stdio i f b w) = next_process w" "pipe_refs (set_stdio i f b w) = pipe_refs w"
  "ops (set_stdio i f b w) = ops w" "queues (set_stdio i f b w) = queues w" "next_opid (set_stdio i f b w) = next_opid w"
  "s_flags (set_stdio i f b w) = s_flags w" "s_shutdown (set_stdio i f b w) = s_shutdown w" "next_net (set_stdio i f b w) = next_net w"
  by (simp_all add: set_stdio_def)

section \<open>Builders do not change\<close>

text \<open>
  The calls a script makes: a new builder (which is then constructed), a changed copy of a builder that
  exists. Converting values of an environment runs code of the script, which is any sequence of calls.
\<close>

inductive builder_call :: "'a proc_store_scheme \<Rightarrow> 'a proc_store_scheme \<Rightarrow> bool" where
  new: "async_process_builder_object_create env w = (b, w1) \<Longrightarrow> builder_call w (builder_construct b cmd argv w1)"
| fork: "builder_call w (snd (builder_fork env file w))"
| shell: "builder_call w (snd (builder_shell env i w))"
| cwd: "builder_call w (snd (builder_with_cwd b dir w))"
| stdin: "w' \<in> {snd (builder_with_stdin_pipe b w), snd (builder_with_stdin_inherited b fd w), snd (builder_without_stdin b w)} \<Longrightarrow>
    builder_call w w'"
| stdout: "w' \<in> {snd (builder_with_stdout_pipe b w), snd (builder_with_stdout_inherited b fd w), snd (builder_without_stdout b w)} \<Longrightarrow>
    builder_call w w'"
| stderr: "w' \<in> {snd (builder_with_stderr_pipe b w), snd (builder_with_stderr_inherited b fd w), snd (builder_without_stderr b w)} \<Longrightarrow>
    builder_call w w'"
| env: "\<lbrakk>\<And>v u. builder_call\<^sup>*\<^sup>* u (snd (convert v u)); builder_with_env tx convert b kvs inherit w = Some (r, w')\<rbrakk> \<Longrightarrow>
    builder_call w w'"

text \<open>Nothing changes in the builders that exist.\<close>

definition builders_kept :: "'a proc_store_scheme \<Rightarrow> 'b proc_store_scheme \<Rightarrow> bool" where
  "builders_kept w w' \<longleftrightarrow> next_builder w \<le> next_builder w' \<and> (\<forall>b < next_builder w. builders w' b = builders w b)"

lemma builders_kept_refl [simp, intro]: "builders_kept w w"
  by (simp add: builders_kept_def)

lemma builders_kept_trans [trans]: "builders_kept w1 w2 \<Longrightarrow> builders_kept w2 w3 \<Longrightarrow> builders_kept w1 w3"
  by (auto simp: builders_kept_def)

lemma kept_upd: "builders_kept w w1 \<Longrightarrow> next_builder w \<le> b \<Longrightarrow> builders_kept w (upd_builder b f w1)"
  by (auto simp: builders_kept_def)

lemma kept_stdio: "builders_kept w w1 \<Longrightarrow> next_builder w \<le> b \<Longrightarrow> builders_kept w (set_stdio i f b w1)"
  by (simp add: set_stdio_def kept_upd)

lemma kept_create:
  "builders_kept w (snd (async_process_builder_object_create env w))"
  "fst (async_process_builder_object_create env w) = next_builder w"
  by (auto simp: async_process_builder_object_create_def builders_kept_def Let_def)

lemma kept_clone: "builders_kept w (snd (clone_builder b w))" "fst (clone_builder b w) = next_builder w"
  by (auto simp: clone_builder_def builders_kept_def Let_def)

lemma kept_clone_with: "builders_kept w (snd (clone_with i f b w))"
  unfolding clone_with_def split_beta Let_def snd_conv using kept_clone [where w = w and b = b] by (auto intro: kept_stdio)

lemmas stdio_methods =
  builder_with_stdin_pipe_def builder_with_stdin_inherited_def builder_without_stdin_def
  builder_with_stdout_pipe_def builder_with_stdout_inherited_def builder_without_stdout_def
  builder_with_stderr_pipe_def builder_with_stderr_inherited_def builder_without_stderr_def

lemma kept_collect:
  assumes "\<And>v u. builders_kept u (snd (convert v u))" and "collect_env tx convert kvs pend acc w = (r, w')"
  shows "builders_kept w w'"
  using assms
proof (induction tx convert kvs pend acc w rule: collect_env.induct)
  case (3 tx convert k v xs pend acc w)
  obtain x w1 where x: "env_value convert pend v w = (x, w1)" by fastforce
  have "builders_kept w w1" using "3.prems"(1) [of w v] x by (auto simp: env_value_def split: zval.splits if_splits)
  moreover have "builders_kept w1 w'"
    using "3.IH" [OF x [symmetric]] "3.prems" x by (cases x) auto
  ultimately show ?case by (rule builders_kept_trans)
qed (simp_all add: Let_def)

lemma kept_call: "builder_call w w' \<Longrightarrow> builders_kept w w'"
proof (induction rule: builder_call.induct)
  case (new env w b w1 cmd argv)
  then show ?case using kept_create [where env = env and w = w] by (simp add: builder_construct_def kept_upd)
next
  case (fork w env script)
  show ?case unfolding builder_fork_def split_beta Let_def snd_conv
    using kept_create [where env = env and w = w] by (intro kept_stdio kept_upd) simp_all
next
  case (shell w env i)
  note c = kept_create [where env = env and w = w]
  have k: "builders_kept w (async_process_setup_shell (fst (async_process_builder_object_create env w)) x
      (snd (async_process_builder_object_create env w)))" for x
    unfolding async_process_setup_shell_def Let_def using c by (auto intro!: kept_upd)
  show ?case unfolding builder_shell_def split_beta Let_def snd_conv using c k by (auto intro!: kept_stdio kept_upd)
next
  case (cwd w b dir)
  show ?case unfolding builder_with_cwd_def split_beta Let_def snd_conv
    using kept_clone [where b = b and w = w] by (intro kept_upd) simp_all
next
  case (env convert tx b kvs inherit w r w')
  have k: "builders_kept u (snd (convert v u))" for v u
    using env.IH [of u v] by (induction rule: rtranclp_induct) (auto intro: builders_kept_trans)
  note c = kept_clone [where b = b and w = w]
  obtain x w2 where x: "collect_env tx convert kvs None [] (snd (clone_builder b w)) = (x, w2)" by fastforce
  have "builders_kept w w2" using c(1) kept_collect [OF k x] by (rule builders_kept_trans)
  then have "builders_kept w (upd_builder (next_builder w) f w2)" for f by (rule kept_upd) simp
  then show ?case using env.hyps c(2) x
    by (auto simp: builder_with_env_def split_beta async_process_builder_object_destroy_def split: sum.splits if_splits)
qed (auto simp: stdio_methods kept_clone_with)


section \<open>A first world\<close>

definition boot_proc :: proc_store where
  "boot_proc = net_store.extend boot_net (proc_store.fields
     (\<lambda>_. \<lparr>pb_flags = 0, pb_command = None, pb_argv = [], pb_cwd = None, pb_env = None, pb_stdio = [], pb_freed = False\<rparr>) 0
     (\<lambda>_. \<lparr>pr_flags = 0, pr_handle = uv_init,
        pr_options = \<lparr>op_file = [], op_args = [], op_cwd = None, op_env = None, op_stdio_count = 0, op_stdio = 0\<rparr>,
        pr_pid = 0, pr_status = 0, pr_stdin = \<lparr>pp_stream = 0, pp_error = IS_UNDEF\<rparr>,
        pr_stdout = \<lparr>pp_stream = 0, pp_error = IS_UNDEF\<rparr>, pr_stderr = \<lparr>pp_stream = 0, pp_error = IS_UNDEF\<rparr>,
        pr_ipc = None, pr_pipes = 0, pr_cancel = False, pr_refs = 0, pr_destructed = False, pr_freed = False, pr_kills = []\<rparr>) 0
     [] (\<lambda>_. 0))"

text \<open>An environment in which every call succeeds; a new child has the number 42.\<close>

definition calm_proc :: "'w proc_env" where
  "calm_proc = net_env.extend calm_net (proc_env.fields (\<lambda>_. Some ''/tmp'') [''HOME=/root'', ''LANG=C''] ''/usr/bin/php'' None
     (Some ''a=1'') True (\<lambda>_ _ _. (0, 42)) (\<lambda>_ _ _. 0))"

lemma calm_proc_sel [simp]:
  "getcwd calm_proc w = Some ''/tmp''" "environ calm_proc = [''HOME=/root'', ''LANG=C'']" "php_binary calm_proc = ''/usr/bin/php''"
  "php_ini_path calm_proc = None" "ini_entries calm_proc = Some ''a=1''" "spawn calm_proc x y w = (0, 42)"
  by (simp_all add: calm_proc_def net_env.defs proc_env.defs)

lemma boot_proc_sel [simp]:
  "ops boot_proc = (\<lambda>_. zero_op)" "queues boot_proc = (\<lambda>_. [])" "next_opid boot_proc = 0" "s_flags boot_proc = 0"
  "next_net boot_proc = 0" "next_builder boot_proc = 0" "next_process boot_proc = 0" "freed_streams boot_proc = []"
  "ops_wf boot_proc" "may_wait 0 boot_proc"
proof -
  have "ops boot_proc = ops boot_net" "queues boot_proc = queues boot_net" "next_opid boot_proc = next_opid boot_net"
    "s_flags boot_proc = s_flags boot_net" "next_net boot_proc = next_net boot_net" "g_task boot_proc = g_task boot_net"
    "tasks boot_proc = tasks boot_net" "contexts boot_proc = contexts boot_net" "g_context boot_proc = g_context boot_net"
    "cancels boot_proc = cancels boot_net"
    by (simp_all add: boot_proc_def net_store.defs proc_store.defs)
  then show "ops boot_proc = (\<lambda>_. zero_op)" "queues boot_proc = (\<lambda>_. [])" "next_opid boot_proc = 0" "s_flags boot_proc = 0"
    "next_net boot_proc = 0" "ops_wf boot_proc" "may_wait 0 boot_proc"
    using boot_net_sel(7) by (simp_all add: ops_wf_def may_wait_def await_checks_task_def sched_flag_def)
qed (simp_all add: boot_proc_def net_store.defs proc_store.defs)

text \<open>The builder \<open>new ProcessBuilder("cat", "-n")\<close>.\<close>

definition cat_world :: proc_store where
  "cat_world = builder_construct 0 ''cat'' [IS_STRING ''-n''] (snd (async_process_builder_object_create calm_proc boot_proc))"

lemma cat_world_sel [simp]:
  "builders cat_world 0 = \<lparr>pb_flags = PROCESS_FLAG_INHERIT_ENV, pb_command = Some ''cat'', pb_argv = [IS_STRING ''-n''],
     pb_cwd = Some ''/tmp'', pb_env = None, pb_stdio = replicate 4 zero_stdio, pb_freed = False\<rparr>"
  "next_builder cat_world = 1" "next_process cat_world = 0" "ops_wf cat_world" "may_wait 0 cat_world" "s_flags cat_world = 0"
proof -
  have s: "ops cat_world = ops boot_proc" "queues cat_world = queues boot_proc" "next_opid cat_world = next_opid boot_proc"
    by (simp_all add: cat_world_def builder_construct_def async_process_builder_object_create_def Let_def)
  then show "ops_wf cat_world" using boot_proc_sel(9) by (subst ops_wf_cong [where w = boot_proc]) simp_all
  show "may_wait 0 cat_world"
    by (subst may_wait_cong [where w = boot_proc])
      (simp_all add: cat_world_def builder_construct_def async_process_builder_object_create_def upd_builder_def Let_def)
qed (simp_all add: cat_world_def builder_construct_def async_process_builder_object_create_def c_str_def Let_def)

lemma replicate_four: "replicate 4 x = [x, x, x, x]"
  by (simp add: eval_nat_numeral)


section \<open>Settings of forked workers\<close>

lemma split_lines_line:
  "CHR 0x0A \<notin> set l \<Longrightarrow> split_lines acc (l @ CHR 0x0A # s) = (''-d'' @ acc @ l) # split_lines [] s"
  by (induction l arbitrary: acc) auto

lemma c_str_id: "CHR 0x00 \<notin> set s \<Longrightarrow> c_str s = s"
  by (auto simp: c_str_def takeWhile_eq_all_conv)

text \<open>Every setting that is ended by an end of line is handed to the worker as it is.\<close>

lemma ini_settings_roundtrip:
  assumes "\<forall>l \<in> set ls. CHR 0x0A \<notin> set l \<and> CHR 0x00 \<notin> set l"
  shows "split_ini_settings (Some (concat (List.map (\<lambda>l. l @ [CHR 0x0A]) ls))) = List.map ((@) ''-d'') ls"
proof -
  have "split_lines [] (concat (List.map (\<lambda>l. l @ [CHR 0x0A]) ls)) = List.map ((@) ''-d'') ls"
    using assms by (induction ls) (simp_all add: split_lines_line)
  moreover have "CHR 0x00 \<notin> set (concat (List.map (\<lambda>l. l @ [CHR 0x0A]) ls))" using assms by auto
  ultimately show ?thesis by (simp add: split_ini_settings_def c_str_id)
qed

text \<open>A last setting without one is lost.\<close>

lemma last_setting_is_dropped:
  assumes "CHR 0x0A \<notin> set s"
  shows "split_ini_settings (Some s) = []"
proof -
  have "split_lines acc l = []" if "CHR 0x0A \<notin> set l" for acc l using that by (induction l arbitrary: acc) auto
  moreover have "CHR 0x0A \<notin> set (c_str s)" using assms by (auto simp: c_str_def dest: set_takeWhileD)
  ultimately show ?thesis by (simp add: split_ini_settings_def)
qed

text \<open>When the constructor throws, the object is destroyed without a command.\<close>

lemma unconstructed_builder_crashes:
  "async_process_builder_object_destroy (fst (async_process_builder_object_create env w))
     (snd (async_process_builder_object_create env w)) = None"
  by (simp add: async_process_builder_object_destroy_def async_process_builder_object_create_def Let_def)

end
