(* ===== verification/Process.thy ===== *)
theory Process
  imports ProcessBuilder
begin

text \<open>
  Processes (\<open>process/runner.c\<close>) on Unix: starting a child with the settings of a builder, waiting for
  its end, signals, and the pipes to its standard streams. \<open>None\<close> is an access to memory that was
  given back, a null pointer, or a value of the wrong type.
\<close>

section \<open>Objects\<close>

datatype process_end = P_stdin | P_stdout | P_stderr

definition pipe_state :: "process_end \<Rightarrow> async_process \<Rightarrow> process_pipe_state" where
  "pipe_state e x = (case e of P_stdin \<Rightarrow> pr_stdin x | P_stdout \<Rightarrow> pr_stdout x | P_stderr \<Rightarrow> pr_stderr x)"

definition upd_pipe_state :: "process_end \<Rightarrow> (process_pipe_state \<Rightarrow> process_pipe_state) \<Rightarrow> async_process \<Rightarrow> async_process" where
  "upd_pipe_state e f x = (case e of
     P_stdin \<Rightarrow> x\<lparr>pr_stdin := f (pr_stdin x)\<rparr>
   | P_stdout \<Rightarrow> x\<lparr>pr_stdout := f (pr_stdout x)\<rparr>
   | P_stderr \<Rightarrow> x\<lparr>pr_stderr := f (pr_stderr x)\<rparr>)"

definition process_kill :: "nat \<Rightarrow> int \<Rightarrow> 'a proc_store_scheme \<Rightarrow> 'a proc_store_scheme" where
  "process_kill p sig w = upd_process p (\<lambda>x. x\<lparr>pr_kills := pr_kills x @ [sig]\<rparr>) w"

text \<open>The signal is sent whether the child runs or not.\<close>

definition shutdown_process :: "nat \<Rightarrow> zval option \<Rightarrow> 'a proc_store_scheme \<Rightarrow> 'a proc_store_scheme" where
  "shutdown_process p error w =
     upd_process p (\<lambda>x. x\<lparr>pr_refs := pr_refs x + 1, pr_handle := uv_close (pr_handle x)\<rparr>)
       (process_kill p 9 (upd_process p (\<lambda>x. x\<lparr>pr_cancel := False\<rparr>) w))"

text \<open>The executable's scheduler list \<open>shutdown\<close> has the callback only after \<open>start\<close>.\<close>

definition async_process_object_create :: "'a proc_store_scheme \<Rightarrow> nat \<times> 'a proc_store_scheme" where
  "async_process_object_create w =
     (let p = next_process w
      in (p, upd_process p (\<lambda>_. \<lparr>pr_flags = 0, pr_handle = uv_init,
               pr_options = \<lparr>op_file = [], op_args = [], op_cwd = None, op_env = None, op_stdio_count = 0, op_stdio = 0\<rparr>,
               pr_pid = 0, pr_status = - 1, pr_stdin = \<lparr>pp_stream = 0, pp_error = IS_UNDEF\<rparr>,
               pr_stdout = \<lparr>pp_stream = 0, pp_error = IS_UNDEF\<rparr>, pr_stderr = \<lparr>pp_stream = 0, pp_error = IS_UNDEF\<rparr>,
               pr_ipc = None, pr_pipes = 0, pr_cancel = True, pr_refs = 1, pr_destructed = False, pr_freed = False,
               pr_kills = []\<rparr>) (w\<lparr>next_process := Suc p\<rparr>)))"

definition stop_process :: "nat \<Rightarrow> 'a proc_store_scheme \<Rightarrow> 'a proc_store_scheme" where
  "stop_process p w = shutdown_process p None (w\<lparr>s_shutdown := remove1 (ShutdownCb CProcess p) (s_shutdown w)\<rparr>)"

definition async_process_object_dtor :: "nat \<Rightarrow> 'a proc_store_scheme \<Rightarrow> 'a proc_store_scheme" where
  "async_process_object_dtor p w = (if pr_cancel (processes w p) then stop_process p w else w)"

definition pipe_delref :: "'a proc_own \<Rightarrow> 'a proc_wake \<Rightarrow> nat \<Rightarrow> 'a proc_store_scheme \<Rightarrow> 'a proc_store_scheme" where
  "pipe_delref own run i w =
     (let w1 = w\<lparr>pipe_refs := (pipe_refs w)(i := pipe_refs w i - 1)\<rparr>
      in if pipe_refs w1 i = 0 then async_pipe_object_dtor own run i w1 else w1)"

definition async_process_object_destroy ::
  "'a proc_own \<Rightarrow> 'a proc_wake \<Rightarrow> nat \<Rightarrow> 'a proc_store_scheme \<Rightarrow> 'a proc_store_scheme option" where
  "async_process_object_destroy own run p w =
     map_option (upd_process p (\<lambda>x. x\<lparr>pr_freed := True\<rparr>))
       (if has_flag (pr_flags (processes w p)) PROCESS_FLAG_IPC
        then map_option (\<lambda>i. pipe_delref own run i w) (pr_ipc (processes w p))
        else Some w)"

text \<open>
  \<open>ASYNC_DELREF\<close>: the last reference calls the destructor, once, and frees the object unless the
  destructor took a new reference.
\<close>

definition process_destruct :: "nat \<Rightarrow> 'a proc_store_scheme \<Rightarrow> 'a proc_store_scheme" where
  "process_destruct p w =
     (if pr_destructed (processes w p) then w
      else upd_process p (\<lambda>x. x\<lparr>pr_refs := pr_refs x - 1\<rparr>)
             (async_process_object_dtor p (upd_process p (\<lambda>x. x\<lparr>pr_destructed := True, pr_refs := 1\<rparr>) w)))"

definition process_delref ::
  "'a proc_own \<Rightarrow> 'a proc_wake \<Rightarrow> nat \<Rightarrow> 'a proc_store_scheme \<Rightarrow> 'a proc_store_scheme option" where
  "process_delref own run p w =
     (if pr_freed (processes w p) then None
      else
        let w1 = upd_process p (\<lambda>x. x\<lparr>pr_refs := pr_refs x - 1\<rparr>) w
        in if pr_refs (processes w1 p) \<noteq> 0 then Some w1
           else
             let w2 = process_destruct p w1
             in if pr_refs (processes w2 p) \<noteq> 0 then Some w2 else async_process_object_destroy own run p w2)"

section \<open>The end of a process\<close>

text \<open>libuv has closed the handle of the process: all that wait are woken.\<close>

definition dispose_process ::
  "'a proc_own \<Rightarrow> 'a proc_wake \<Rightarrow> nat \<Rightarrow> 'a proc_store_scheme \<Rightarrow> 'a proc_store_scheme option" where
  "dispose_process own run p w =
     Option.bind (drain_ops (async_finish_op run) (ProcessObservers p) w) (process_delref own run p)"

text \<open>libuv tells that the child has ended; the signal that ended it is not looked at.\<close>

definition exit_process :: "nat \<Rightarrow> int \<Rightarrow> int \<Rightarrow> 'a proc_store_scheme \<Rightarrow> 'a proc_store_scheme" where
  "exit_process p status signal w =
     (let w1 = upd_process p (\<lambda>x. x\<lparr>pr_pid := 0, pr_status := to_c_int status\<rparr>) w
      in if pr_cancel (processes w1 p) then stop_process p w1 else w1)"

section \<open>Starting a process\<close>

fun z_strvals :: "zval list \<Rightarrow> string list option" where
  "z_strvals [] = Some []"
| "z_strvals (v # vs) = (case v of IS_STRING s \<Rightarrow> map_option (Cons (c_str s)) (z_strvals vs) | _ \<Rightarrow> None)"

text \<open>
  The options name the streams of the builder itself. The environment is \<open>None\<close> when the child
  inherits that of the program.
\<close>

definition prepare_env :: "string list \<Rightarrow> async_process_builder \<Rightarrow> string list option" where
  "prepare_env own x =
     (case pb_env x of
        Some (kv # kvs) \<Rightarrow> Some (async_process_create_env own (kv # kvs) (has_flag (pb_flags x) PROCESS_FLAG_INHERIT_ENV))
      | _ \<Rightarrow> if has_flag (pb_flags x) PROCESS_FLAG_INHERIT_ENV then None else Some [])"

definition prepare_process ::
  "string list \<Rightarrow> nat \<Rightarrow> nat \<Rightarrow> zval list \<Rightarrow> 'a proc_store_scheme \<Rightarrow> 'a proc_store_scheme option" where
  "prepare_process own b p params w =
     (let x = builders w b
      in case (pb_command x, pb_cwd x, z_strvals (pb_argv x @ params)) of
           (Some cmd, Some cwd, Some args) \<Rightarrow> Some (upd_process p (\<lambda>q. q\<lparr>pr_flags := pb_flags x,
              pr_options := \<lparr>op_file = c_str cmd, op_args = c_str cmd # args, op_cwd = Some (c_str cwd),
                op_env = prepare_env own x, op_stdio_count = 3, op_stdio = b\<rparr>\<rparr>) w)
         | _ \<Rightarrow> None)"

text \<open>\<open>uv_spawn\<close>: \<open>Inl\<close> is the error code, \<open>Inr\<close> the process id.\<close>

definition uv_spawn ::
  "'a proc_store_scheme proc_env \<Rightarrow> nat \<Rightarrow> 'a proc_store_scheme \<Rightarrow> (int + int) \<times> 'a proc_store_scheme" where
  "uv_spawn env p w =
     (let opts = pr_options (processes w p);
          (code, pid) = spawn env opts (take (op_stdio_count opts) (pb_stdio (builders w (op_stdio opts)))) w
      in if code \<noteq> 0 then (Inl code, w)
         else (Inr pid, upd_process p (\<lambda>x. x\<lparr>pr_handle := uv_start () (pr_handle x)\<rparr>) w))"

definition launch_error :: "texts \<Rightarrow> nat \<Rightarrow> int \<Rightarrow> 'a proc_store_scheme \<Rightarrow> zval" where
  "launch_error tx b code w =
     IS_ERROR ErrorCe (''Failed to launch process \"'' @ c_str (the (pb_command (builders w b))) @ ''\": '' @ strerror tx code) None"

definition create_readable_state :: "nat \<Rightarrow> process_end \<Rightarrow> nat \<Rightarrow> 'a proc_store_scheme \<Rightarrow> 'a proc_store_scheme" where
  "create_readable_state p e i w =
     (let s = next_net w;
          w1 = set_stdio i (\<lambda>x. x\<lparr>sio_data := Stdio_stream s\<rparr>) (op_stdio (pr_options (processes w p))) (w\<lparr>next_net := Suc s\<rparr>);
          w2 = upd_process p (\<lambda>x. upd_pipe_state e (\<lambda>q. q\<lparr>pp_stream := s\<rparr>) (x\<lparr>pr_pipes := pr_pipes x + 1\<rparr>)) w1
      in async_stream_init s uv_init 0 w2)"

definition create_writable_state :: "nat \<Rightarrow> process_end \<Rightarrow> nat \<Rightarrow> 'a proc_store_scheme \<Rightarrow> 'a proc_store_scheme" where
  "create_writable_state p e i w =
     (let s = next_net w;
          w1 = set_stdio i (\<lambda>x. x\<lparr>sio_data := Stdio_stream s\<rparr>) (op_stdio (pr_options (processes w p))) (w\<lparr>next_net := Suc s\<rparr>);
          w2 = upd_process p (\<lambda>x. upd_pipe_state e (\<lambda>q. q\<lparr>pp_stream := s\<rparr>) (x\<lparr>pr_pipes := pr_pipes x + 1\<rparr>)) w1
      in async_stream_init s uv_init 0 w2)"

definition stdio_is_pipe :: "nat \<Rightarrow> nat \<Rightarrow> 'a proc_store_scheme \<Rightarrow> bool" where
  "stdio_is_pipe b i w = has_flag (sio_flags (pb_stdio (builders w b) ! i)) UV_CREATE_PIPE"

definition create_ipc :: "nat \<Rightarrow> 'a proc_store_scheme \<Rightarrow> 'a proc_store_scheme" where
  "create_ipc p w =
     (let (i, w1) = async_pipe_init_ipc w;
          w2 = upd_process p (\<lambda>x. x\<lparr>pr_ipc := Some i, pr_options := (pr_options x)\<lparr>op_stdio_count := 4\<rparr>\<rparr>)
                 (w1\<lparr>pipe_refs := (pipe_refs w1)(i := 1)\<rparr>)
      in set_stdio PROCESS_IPC
           (\<lambda>_. \<lparr>sio_flags = set_flag (set_flag UV_CREATE_PIPE UV_READABLE_PIPE) UV_WRITABLE_PIPE, sio_data = Stdio_stream i\<rparr>)
           (op_stdio (pr_options (processes w2 p))) w2)"

definition create_pipes :: "nat \<Rightarrow> nat \<Rightarrow> 'a proc_store_scheme \<Rightarrow> 'a proc_store_scheme" where
  "create_pipes b p w =
     (let w1 = (if stdio_is_pipe b PROCESS_STDIN w then create_writable_state p P_stdin PROCESS_STDIN w else w);
          w2 = (if stdio_is_pipe b PROCESS_STDOUT w1 then create_readable_state p P_stdout PROCESS_STDOUT w1 else w1);
          w3 = (if stdio_is_pipe b PROCESS_STDERR w2 then create_readable_state p P_stderr PROCESS_STDERR w2 else w2);
          w4 = (if has_flag (pr_flags (processes w3 p)) PROCESS_FLAG_INTERACTIVE_SHELL \<and> stdio_is_pipe b PROCESS_IPC w3
                then create_readable_state p P_stdout PROCESS_IPC w3 else w3)
      in if has_flag (pr_flags (processes w4 p)) PROCESS_FLAG_IPC then create_ipc p w4 else w4)"

definition async_process_start ::
  "texts \<Rightarrow> 'a proc_store_scheme proc_env \<Rightarrow> 'a proc_own \<Rightarrow> 'a proc_wake \<Rightarrow> nat \<Rightarrow> zval list \<Rightarrow> 'a proc_store_scheme \<Rightarrow>
   (outcome \<times> 'a proc_store_scheme) option" where
  "async_process_start tx env own run b argv w =
     (let (p, w1) = async_process_object_create w
      in Option.bind (prepare_process (environ env) b p argv w1) (\<lambda>w2.
           let (r, w3) = uv_spawn env p (create_pipes b p w2)
           in case r of
                Inl code \<Rightarrow> map_option (Pair (Throw (launch_error tx b code w3))) (process_delref own run p w3)
              | Inr pid \<Rightarrow> Some (Ret (IS_OBJECT p),
                  upd_process p (\<lambda>x. x\<lparr>pr_pid := pid, pr_handle := (pr_handle x)\<lparr>uv_has_ref := False\<rparr>\<rparr>)
                    (w3\<lparr>s_shutdown := list_append (ShutdownCb CProcess p) (s_shutdown w3)\<rparr>))))"

text \<open>The end of \<open>execute\<close>: the child runs, the execution waits for it.\<close>

definition execute_wait ::
  "'a proc_own \<Rightarrow> 'a proc_yield \<Rightarrow> 'a proc_wake \<Rightarrow> nat \<Rightarrow> 'a proc_store_scheme \<Rightarrow>
   (outcome \<times> 'a proc_store_scheme) option" where
  "execute_wait own yield run p w =
     (let w1 = (if async_context_is_background (g_context w) w
                then upd_process p (\<lambda>x. x\<lparr>pr_handle := (pr_handle x)\<lparr>uv_has_ref := False\<rparr>\<rparr>) w else w);
          (op, w2) = async_alloc_op w1
      in Option.bind (async_await_op yield op (async_append_op (ProcessObservers p) op w2)) (\<lambda>(r, w3).
           if r = Await_bailout then Some (Bail, w3)
           else
             let w4 = (if has_flag (op_flags (ops w3 op)) ASYNC_OP_FLAG_CANCELLED then process_kill p 9 w3 else w3);
                 w5 = async_free_op op w4
             in map_option (Pair (if r = Await_failure then Throw (op_result (ops w3 op)) else Ret (IS_LONG (pr_status (processes w5 p)))))
                  (process_delref own run p w5)))"

definition async_process_execute ::
  "texts \<Rightarrow> 'a proc_store_scheme proc_env \<Rightarrow> 'a proc_own \<Rightarrow> 'a proc_yield \<Rightarrow> 'a proc_wake \<Rightarrow> nat \<Rightarrow> zval list \<Rightarrow>
   'a proc_store_scheme \<Rightarrow> (outcome \<times> 'a proc_store_scheme) option" where
  "async_process_execute tx env own yield run b argv w =
     (if \<exists>i \<in> {0, 1, 2, 3}. stdio_is_pipe b i w
      then Some (Throw (IS_ERROR ErrorCe ''Cannot use pipes in execute(), use start() instead'' None), w)
      else
        let (p, w1) = async_process_object_create w
        in Option.bind (prepare_process (environ env) b p argv w1) (\<lambda>w2.
             let (r, w3) = uv_spawn env p w2
             in case r of
                  Inl code \<Rightarrow> map_option (Pair (Throw (launch_error tx b code w3))) (process_delref own run p w3)
                | Inr _ \<Rightarrow> execute_wait own yield run p w3))"

text \<open>\<open>ProcessBuilder::execute\<close> and \<open>start\<close>; the code \<open>FAILURE\<close> is \<open>-1\<close>.\<close>

definition builder_execute ::
  "texts \<Rightarrow> 'a proc_store_scheme proc_env \<Rightarrow> 'a proc_own \<Rightarrow> 'a proc_yield \<Rightarrow> 'a proc_wake \<Rightarrow> nat \<Rightarrow> zval list \<Rightarrow>
   'a proc_store_scheme \<Rightarrow> (outcome \<times> 'a proc_store_scheme) option" where
  "builder_execute tx env own yield run b argv w =
     map_option (\<lambda>(r, w1). (if r = Ret (IS_LONG (- 1)) then Ret IS_NULL else r, w1))
       (async_process_execute tx env own yield run b argv w)"

definition builder_start ::
  "texts \<Rightarrow> 'a proc_store_scheme proc_env \<Rightarrow> 'a proc_own \<Rightarrow> 'a proc_wake \<Rightarrow> nat \<Rightarrow> zval list \<Rightarrow> 'a proc_store_scheme \<Rightarrow>
   (outcome \<times> 'a proc_store_scheme) option" where
  "builder_start tx env own run b argv w = async_process_start tx env own run b argv w"

section \<open>Methods of processes\<close>

definition process_is_worker :: "'w proc_env \<Rightarrow> bool" where
  "process_is_worker env = forked env"

text \<open>When the descriptor cannot be opened, the new pipe object is lost.\<close>

definition process_connect ::
  "texts \<Rightarrow> 'a proc_store_scheme proc_env \<Rightarrow> 'a proc_store_scheme \<Rightarrow> outcome \<times> 'a proc_store_scheme" where
  "process_connect tx env w =
     (if \<not> forked env
      then (Throw (IS_ERROR ErrorCe ''Access to IPC pipe requires using fork() with a process builder'' None), w)
      else
        let (i, w1) = async_pipe_init_ipc w; code = open_code env i (int PROCESS_IPC) w1
        in if code \<noteq> 0 then (Throw (uv_error tx ErrorCe ''Failed to open process IPC pipe: '' code), w1)
           else (Ret (IS_OBJECT i), w1))"

definition process_debug_info :: "nat \<Rightarrow> 'a proc_store_scheme \<Rightarrow> (string \<times> zval) list" where
  "process_debug_info p w =
     [(''pid'', IS_LONG (pr_pid (processes w p))), (''exit_code'', IS_LONG (pr_status (processes w p))),
      (''running'', IS_BOOL (pr_status (processes w p) < 0))]"

definition process_is_running :: "nat \<Rightarrow> 'a proc_store_scheme \<Rightarrow> bool" where
  "process_is_running p w \<longleftrightarrow> pr_status (processes w p) < 0"

definition process_get_pid :: "nat \<Rightarrow> 'a proc_store_scheme \<Rightarrow> int" where
  "process_get_pid p w = pr_pid (processes w p)"

text \<open>
  The streams of a child: the flags are read from the builder. A new pipe object takes a reference to
  the process.
\<close>

definition process_pipe_object_create :: "nat \<Rightarrow> 'a proc_store_scheme \<Rightarrow> 'a proc_store_scheme" where
  "process_pipe_object_create p w = upd_process p (\<lambda>x. x\<lparr>pr_refs := pr_refs x + 1\<rparr>) w"

definition process_get_pipe :: "string \<Rightarrow> nat \<Rightarrow> nat \<Rightarrow> 'a proc_store_scheme \<Rightarrow> (outcome \<times> 'a proc_store_scheme) option" where
  "process_get_pipe name i p w =
     (let b = op_stdio (pr_options (processes w p))
      in if pb_freed (builders w b) then None
         else if \<not> stdio_is_pipe b i w
         then Some (Throw (IS_ERROR ErrorCe (''Cannot access '' @ name @ '' because it is not configured to be a pipe'') None), w)
         else Some (Ret (IS_OBJECT p), process_pipe_object_create p w))"

definition process_get_stdin :: "nat \<Rightarrow> 'a proc_store_scheme \<Rightarrow> (outcome \<times> 'a proc_store_scheme) option" where
  "process_get_stdin p w = process_get_pipe ''STDIN'' PROCESS_STDIN p w"

definition process_get_stdout :: "nat \<Rightarrow> 'a proc_store_scheme \<Rightarrow> (outcome \<times> 'a proc_store_scheme) option" where
  "process_get_stdout p w = process_get_pipe ''STDOUT'' PROCESS_STDOUT p w"

definition process_get_stderr :: "nat \<Rightarrow> 'a proc_store_scheme \<Rightarrow> (outcome \<times> 'a proc_store_scheme) option" where
  "process_get_stderr p w = process_get_pipe ''STDERR'' PROCESS_STDERR p w"

definition process_get_ipc :: "nat \<Rightarrow> 'a proc_store_scheme \<Rightarrow> (outcome \<times> 'a proc_store_scheme) option" where
  "process_get_ipc p w =
     (if \<not> has_flag (pr_flags (processes w p)) PROCESS_FLAG_IPC
      then Some (Throw (IS_ERROR ErrorCe ''Access to IPC pipe requires using fork() with a process builder'' None), w)
      else map_option (\<lambda>i. (Ret (IS_OBJECT i), w\<lparr>pipe_refs := (pipe_refs w)(i := pipe_refs w i + 1)\<rparr>)) (pr_ipc (processes w p)))"

definition process_signal ::
  "texts \<Rightarrow> 'a proc_store_scheme proc_env \<Rightarrow> nat \<Rightarrow> int \<Rightarrow> 'a proc_store_scheme \<Rightarrow> outcome \<times> 'a proc_store_scheme" where
  "process_signal tx env p signum w =
     (if 0 \<le> pr_status (processes w p)
      then (Throw (IS_ERROR ErrorCe ''Cannot signal a process that has alredy been terminated'' None), w)
      else
        let code = kill_code env p (to_c_int signum) w; w1 = process_kill p (to_c_int signum) w
        in (if code \<noteq> 0 then Throw (uv_error tx ErrorCe ''Failed to signal process: '' code) else Ret IS_NULL, w1))"

text \<open>Waiting references the handle; the first execution that stops waiting takes the reference away from all.\<close>

definition process_ref :: "bool \<Rightarrow> bool \<Rightarrow> nat \<Rightarrow> 'a proc_store_scheme \<Rightarrow> 'a proc_store_scheme" where
  "process_ref r bg p w =
     (if bg then w else upd_process p (\<lambda>x. x\<lparr>pr_handle := (pr_handle x)\<lparr>uv_has_ref := r\<rparr>\<rparr>) w)"

definition process_join :: "'a proc_yield \<Rightarrow> nat \<Rightarrow> 'a proc_store_scheme \<Rightarrow> (outcome \<times> 'a proc_store_scheme) option" where
  "process_join yield p w =
     (if 0 \<le> pr_status (processes w p) then Some (Ret (IS_LONG (pr_status (processes w p))), w)
      else
        let bg = async_context_is_background (g_context w) w;
            (op, w1) = async_alloc_op w
        in map_option (\<lambda>(r, w2). (case r of Ret _ \<Rightarrow> Ret (IS_LONG (pr_status (processes w2 p))) | _ \<Rightarrow> r, w2))
             (watch_await yield (process_ref True bg p) (process_ref False bg p) op (async_append_op (ProcessObservers p) op w1)))"

section \<open>Pipes to the standard streams\<close>

definition process_stream_free :: "nat \<Rightarrow> 'a proc_store_scheme \<Rightarrow> 'a proc_store_scheme option" where
  "process_stream_free s w =
     (if s \<in> set (freed_streams w) then None
      else Some (upd_stream s (\<lambda>x. x\<lparr>st_base := False\<rparr>) (w\<lparr>freed_streams := s # freed_streams w\<rparr>)))"

text \<open>A pipe object goes: it drops two references, although it took one when it was created.\<close>

definition process_pipe_object_destroy ::
  "'a proc_own \<Rightarrow> 'a proc_wake \<Rightarrow> nat \<Rightarrow> process_end \<Rightarrow> 'a proc_store_scheme \<Rightarrow> 'a proc_store_scheme option" where
  "process_pipe_object_destroy own run p e w =
     (let w1 = upd_process p (\<lambda>x. x\<lparr>pr_pipes := pr_pipes x - 1\<rparr>) w
      in Option.bind (process_stream_free (pp_stream (pipe_state e (processes w1 p))) w1) (\<lambda>w2.
         Option.bind (process_delref own run p w2) (process_delref own run p)))"

definition close_process_pipe ::
  "'a proc_own \<Rightarrow> 'a proc_wake \<Rightarrow> nat \<Rightarrow> nat \<Rightarrow> process_end \<Rightarrow> zval \<Rightarrow> 'a proc_store_scheme \<Rightarrow> 'a proc_store_scheme" where
  "close_process_pipe own run this p e err w =
     (let w1 = upd_process p (upd_pipe_state e (\<lambda>q. q\<lparr>pp_error := err\<rparr>)) w;
          s = pp_stream (pipe_state e (processes w1 p))
      in if stream_flag s STREAM_CLOSED w1 then w1
         else async_stream_close own run s (Some this) (upd_process p (\<lambda>x. x\<lparr>pr_refs := pr_refs x + 1\<rparr>) w1))"

definition readable_pipe_close ::
  "'a proc_own \<Rightarrow> 'a proc_wake \<Rightarrow> nat \<Rightarrow> nat \<Rightarrow> process_end \<Rightarrow> zval option \<Rightarrow> 'a proc_store_scheme \<Rightarrow> 'a proc_store_scheme" where
  "readable_pipe_close own run this p e val w =
     (if pp_error (pipe_state e (processes w p)) \<noteq> IS_UNDEF then w
      else close_process_pipe own run this p e (net_close_error StreamClosedExceptionCe ''Pipe has been closed'' val) w)"

definition readable_pipe_read ::
  "texts \<Rightarrow> 'a proc_store_scheme uv_answers \<Rightarrow> 'a proc_yield \<Rightarrow> nat \<Rightarrow> process_end \<Rightarrow> int option \<Rightarrow> 'a proc_store_scheme \<Rightarrow>
   (read_outcome \<times> 'a proc_store_scheme) option" where
  "readable_pipe_read tx env yield p e hint w =
     (let q = pipe_state e (processes w p); s = pp_stream q
      in case read_length tx (rb_size (st_buffer (streams w s))) ErrorCe hint of
           Inl err \<Rightarrow> Some (Read_throw err, w)
         | Inr len \<Rightarrow>
             if pp_error q \<noteq> IS_UNDEF then Some (Read_throw (pp_error q), w)
             else map_option (\<lambda>(r, rq, w1). (case r of
                    Success \<Rightarrow> if ro_data rq \<noteq> [] then Read_data (ro_data rq) else Read_end
                  | Failure _ \<Rightarrow> Read_throw (forward_stream_read_error (strerror tx) True (ro_error rq))
                  | Thrown err \<Rightarrow> Read_throw err
                  | Bailout \<Rightarrow> Read_bailout, w1))
                (async_stream_read env yield s
                  \<lparr>rq_len = len, rq_buffer = False, rq_import = False, rq_timeout = 0, ro_data = [], ro_error = 0\<rparr> w))"

text \<open>The argument of \<open>close\<close> is not used.\<close>

definition writable_pipe_close ::
  "'a proc_own \<Rightarrow> 'a proc_wake \<Rightarrow> nat \<Rightarrow> nat \<Rightarrow> process_end \<Rightarrow> zval option \<Rightarrow> 'a proc_store_scheme \<Rightarrow> 'a proc_store_scheme" where
  "writable_pipe_close own run this p e val w =
     (if pp_error (pipe_state e (processes w p)) \<noteq> IS_UNDEF then w
      else close_process_pipe own run this p e (IS_ERROR StreamClosedExceptionCe ''Pipe has been closed'' None) w)"

definition writable_pipe_write ::
  "texts \<Rightarrow> 'a proc_store_scheme uv_answers \<Rightarrow> 'a proc_yield \<Rightarrow> 'a proc_wake \<Rightarrow> nat \<Rightarrow> process_end \<Rightarrow> byte list \<Rightarrow>
   'a proc_store_scheme \<Rightarrow> (outcome \<times> 'a proc_store_scheme) option" where
  "writable_pipe_write tx env yield run p e data w =
     (let q = pipe_state e (processes w p)
      in if pp_error q \<noteq> IS_UNDEF then Some (Throw (pp_error q), w)
         else map_option (\<lambda>(r, w1). (write_outcome tx True r, w1))
           (async_stream_write env yield run (pp_stream q)
             \<lparr>wq_data = data, wq_async = False, wq_export = False, wq_callback = False, wq_arg = 0, wq_context = None\<rparr> w))"

end
