(* ===== verification/ProcessProps.thy ===== *)
theory ProcessProps
  imports BuilderProps Process
begin

text \<open>
  Properties of processes: what the child is started with; joining and executing return the status
  the child ends with; and how pipe objects, forked workers and inherited variables fail.
\<close>

section \<open>Frames\<close>

lemma proc_store_more_eq:
  assumes "task_store.more w' = task_store.more (w :: 'a proc_store_scheme)"
  shows "processes w' = processes w" "builders w' = builders w" "pipe_refs w' = pipe_refs w"
    "next_process w' = next_process w" "next_builder w' = next_builder w" "freed_streams w' = freed_streams w"
  using assms by (cases w; cases w'; simp)+

lemma upd_process_sel [simp]:
  "processes (upd_process p f w) = (processes w)(p := f (processes w p))" "next_process (upd_process p f w) = next_process w"
  "builders (upd_process p f w) = builders w" "pipe_refs (upd_process p f w) = pipe_refs w"
  "freed_streams (upd_process p f w) = freed_streams w" "streams (upd_process p f w) = streams w"
  "ops (upd_process p f w) = ops w" "queues (upd_process p f w) = queues w" "next_opid (upd_process p f w) = next_opid w"
  "s_flags (upd_process p f w) = s_flags w" "s_shutdown (upd_process p f w) = s_shutdown w" "g_task (upd_process p f w) = g_task w"
  "tasks (upd_process p f w) = tasks w" "contexts (upd_process p f w) = contexts w" "g_context (upd_process p f w) = g_context w"
  "cancels (upd_process p f w) = cancels w" "next_net (upd_process p f w) = next_net w"
  by (simp_all add: upd_process_def)

lemma ops_proc_frame [simp]:
  fixes w :: "'a proc_store_scheme"
  shows "processes (upd_op op g w) = processes w" "processes (upd_queue q h w) = processes w"
    "processes (snd (async_alloc_op w)) = processes w" "processes (async_append_op q op w) = processes w"
    "builders (async_append_op q op w) = builders w" "builders (snd (async_alloc_op w)) = builders w"
    "processes (async_free_op op w) = processes w" "processes (async_finish_op wake op w) = processes w"
    "processes (suspended t op w) = processes w"
  by (rule proc_store_more_eq(1,2); simp add: async_append_op_def async_free_op_def async_alloc_op_def unlink_op_def split: option.split)+

lemma process_ref_sel [simp]:
  "processes (process_ref r bg p w) = (processes w)(p := (processes w p)\<lparr>pr_handle :=
     (if bg then pr_handle (processes w p) else (pr_handle (processes w p))\<lparr>uv_has_ref := r\<rparr>)\<rparr>)"
  "ops (process_ref r bg p w) = ops w" "queues (process_ref r bg p w) = queues w" "next_opid (process_ref r bg p w) = next_opid w"
  "s_flags (process_ref r bg p w) = s_flags w" "g_task (process_ref r bg p w) = g_task w" "tasks (process_ref r bg p w) = tasks w"
  "contexts (process_ref r bg p w) = contexts w" "g_context (process_ref r bg p w) = g_context w"
  "cancels (process_ref r bg p w) = cancels w"
  by (auto simp: process_ref_def)

section \<open>What a child is started with\<close>

text \<open>The variables a child sees: its own environment, or the one of the program.\<close>

definition child_env :: "string list \<Rightarrow> uv_process_options \<Rightarrow> string list" where
  "child_env own x = (case op_env x of None \<Rightarrow> own | Some e \<Rightarrow> e)"

lemma child_env_prepared:
  assumes "op_env x = prepare_env own b"
  shows "child_env own x = (if has_flag (pb_flags b) PROCESS_FLAG_INHERIT_ENV then own else []) @
    List.map env_entry (case pb_env b of None \<Rightarrow> [] | Some kvs \<Rightarrow> kvs)"
  using assms by (auto simp: child_env_def prepare_env_def async_process_create_env_def split: option.splits list.splits)

text \<open>Creating the pipes and the handle changes neither what the child is started with nor its state.\<close>

definition same_start :: "async_process \<Rightarrow> async_process \<Rightarrow> bool" where
  "same_start x y \<longleftrightarrow> op_file (pr_options x) = op_file (pr_options y) \<and> op_args (pr_options x) = op_args (pr_options y) \<and>
     op_cwd (pr_options x) = op_cwd (pr_options y) \<and> op_env (pr_options x) = op_env (pr_options y) \<and>
     op_stdio (pr_options x) = op_stdio (pr_options y) \<and> pr_flags x = pr_flags y \<and> pr_status x = pr_status y \<and>
     pr_refs x = pr_refs y \<and> pr_cancel x = pr_cancel y \<and> pr_freed x = pr_freed y"

lemma same_start_refl [simp]: "same_start x x"
  by (simp add: same_start_def)

lemma same_start_trans: "same_start x y \<Longrightarrow> same_start y z \<Longrightarrow> same_start x z"
  by (simp add: same_start_def)

lemma stream_init_processes [simp]: "processes (async_stream_init s h n w) = processes w"
  by (simp add: async_stream_init_def async_alloc_op_def upd_stream_def)

lemma create_state_same:
  "same_start (processes (create_readable_state p e i w) p) (processes w p)"
  "same_start (processes (create_writable_state p e i w) p) (processes w p)"
  by (cases e; simp add: create_readable_state_def create_writable_state_def same_start_def upd_pipe_state_def Let_def)+

lemma create_ipc_same: "same_start (processes (create_ipc p w) p) (processes w p)"
proof -
  have "processes (snd (async_pipe_init_ipc w)) = processes w"
    by (simp add: async_pipe_init_ipc_def async_pipe_object_create_def split_beta Let_def set_stream_flag_def upd_stream_def upd_pipe_def)
  then show ?thesis by (simp add: create_ipc_def split_beta Let_def same_start_def)
qed

lemma create_pipes_same: "same_start (processes (create_pipes b p w) p) (processes w p)"
proof -
  define w1 where "w1 = (if stdio_is_pipe b PROCESS_STDIN w then create_writable_state p P_stdin PROCESS_STDIN w else w)"
  define w2 where "w2 = (if stdio_is_pipe b PROCESS_STDOUT w1 then create_readable_state p P_stdout PROCESS_STDOUT w1 else w1)"
  define w3 where "w3 = (if stdio_is_pipe b PROCESS_STDERR w2 then create_readable_state p P_stderr PROCESS_STDERR w2 else w2)"
  define w4 where "w4 = (if has_flag (pr_flags (processes w3 p)) PROCESS_FLAG_INTERACTIVE_SHELL \<and> stdio_is_pipe b PROCESS_IPC w3
                then create_readable_state p P_stdout PROCESS_IPC w3 else w3)"
  have "same_start (processes w1 p) (processes w p)" "same_start (processes w2 p) (processes w1 p)"
    "same_start (processes w3 p) (processes w2 p)" "same_start (processes w4 p) (processes w3 p)"
    by (simp_all add: w1_def w2_def w3_def w4_def create_state_same)
  then have "same_start (processes w4 p) (processes w p)" by (meson same_start_trans)
  then show ?thesis
    unfolding create_pipes_def Let_def w1_def [symmetric] w2_def [symmetric] w3_def [symmetric] w4_def [symmetric]
    using create_ipc_same [of p w4] by (auto intro: same_start_trans)
qed

text \<open>
  Starting a process launches the command with the arguments of the builder followed by those of
  the call, in the directory of the builder, with the inherited variables (when they are inherited)
  followed by those of the builder; the process runs, has the number libuv gave, and is stopped when
  the scheduler is shut down.
\<close>

theorem start_launches_child:
  assumes "pb_command (builders w b) = Some cmd" and "pb_cwd (builders w b) = Some dir"
    and "z_strvals (pb_argv (builders w b) @ argv) = Some args" and "\<forall>x y u. spawn env x y u = (0, pid)"
  shows "\<exists>w' p x. builder_start tx env own run b argv w = Some (Ret (IS_OBJECT p), w') \<and> x = pr_options (processes w' p) \<and>
    op_file x = c_str cmd \<and> op_args x = c_str cmd # args \<and> op_cwd x = Some (c_str dir) \<and>
    child_env (environ env) x = (if has_flag (pb_flags (builders w b)) PROCESS_FLAG_INHERIT_ENV then environ env else []) @
      List.map env_entry (case pb_env (builders w b) of None \<Rightarrow> [] | Some kvs \<Rightarrow> kvs) \<and>
    process_is_running p w' \<and> process_get_pid p w' = pid \<and> ShutdownCb CProcess p \<in> set (s_shutdown w')"
proof -
  let ?p = "next_process w"
  define w1 where "w1 = snd (async_process_object_create w)"
  have w1: "builders w1 = builders w" "async_process_object_create w = (?p, w1)" "pr_status (processes w1 ?p) = - 1"
    by (simp_all add: w1_def async_process_object_create_def Let_def)
  define w2 where "w2 = the (prepare_process (environ env) b ?p argv w1)"
  have w2: "prepare_process (environ env) b ?p argv w1 = Some w2" "op_file (pr_options (processes w2 ?p)) = c_str cmd"
    "op_args (pr_options (processes w2 ?p)) = c_str cmd # args" "op_cwd (pr_options (processes w2 ?p)) = Some (c_str dir)"
    "op_env (pr_options (processes w2 ?p)) = prepare_env (environ env) (builders w b)" "pr_status (processes w2 ?p) = - 1"
    using assms(1-3) w1 by (simp_all add: w2_def prepare_process_def Let_def)
  define w3 where "w3 = snd (uv_spawn env ?p (create_pipes b ?p w2))"
  have w3: "uv_spawn env ?p (create_pipes b ?p w2) = (Inr pid, w3)" using assms(4) by (simp add: w3_def uv_spawn_def Let_def)
  have s: "same_start (processes w3 ?p) (processes w2 ?p)"
    using create_pipes_same [where p = ?p and b = b and w = w2] assms(4) by (simp add: w3_def uv_spawn_def Let_def same_start_def)
  define w' where "w' = upd_process ?p (\<lambda>x. x\<lparr>pr_pid := pid, pr_handle := (pr_handle x)\<lparr>uv_has_ref := False\<rparr>\<rparr>)
                    (w3\<lparr>s_shutdown := list_append (ShutdownCb CProcess ?p) (s_shutdown w3)\<rparr>)"
  have r: "builder_start tx env own run b argv w = Some (Ret (IS_OBJECT ?p), w')"
    unfolding builder_start_def async_process_start_def w1(2) Let_def split w2(1) Option.bind.simps w3 by (simp add: w'_def)
  have x: "pr_options (processes w' ?p) = pr_options (processes w3 ?p)" "pr_status (processes w' ?p) = pr_status (processes w3 ?p)"
    "pr_pid (processes w' ?p) = pid" "ShutdownCb CProcess ?p \<in> set (s_shutdown w')"
    by (simp_all add: w'_def)
  have "op_env (pr_options (processes w' ?p)) = prepare_env (environ env) (builders w b)"
    using s w2(5) by (simp add: x same_start_def)
  note e = child_env_prepared [OF this]
  show ?thesis
    using r s w2 x(2-4) e
    by (intro exI [of _ w'] exI [of _ ?p]) (simp add: x(1) same_start_def process_is_running_def process_get_pid_def)
qed

theorem start_launches_child_witness:
  "\<forall>own run. \<exists>w' p. builder_start no_texts calm_proc own run 0 [IS_STRING ''file''] cat_world = Some (Ret (IS_OBJECT p), w') \<and>
     op_args (pr_options (processes w' p)) = [''cat'', ''-n'', ''file''] \<and>
     child_env [''HOME=/root'', ''LANG=C''] (pr_options (processes w' p)) = [''HOME=/root'', ''LANG=C''] \<and> process_get_pid p w' = 42"
proof (intro allI)
  show "\<exists>w' p. builder_start no_texts calm_proc own run 0 [IS_STRING ''file''] cat_world = Some (Ret (IS_OBJECT p), w') \<and>
     op_args (pr_options (processes w' p)) = [''cat'', ''-n'', ''file''] \<and>
     child_env [''HOME=/root'', ''LANG=C''] (pr_options (processes w' p)) = [''HOME=/root'', ''LANG=C''] \<and> process_get_pid p w' = 42" for own run
    using start_launches_child [of cat_world 0 "''cat''" "''/tmp''" "[IS_STRING ''file'']" "[''-n'', ''file'']" calm_proc 42 no_texts own run]
    by (simp add: c_str_def has_flag_def) blast
qed

section \<open>The end of a child\<close>

lemma drain_finish_wake:
  fixes w :: "'a proc_store_scheme"
  assumes "ops_wf w"
  shows "\<exists>w'. drain_ops (async_finish_op wake) q w = Some w' \<and>
    (ops_wf w' \<and> task_store.more w' = task_store.more w \<and> s_flags w' = s_flags w) \<and> queues w' = (queues w)(q := []) \<and>
    (\<forall>x. ops w' x = (if x \<in> set (queues w q) then (ops w x)\<lparr>op_list := None, op_status := ASYNC_STATUS_RESOLVED\<rparr> else ops w x))"
proof (rule drain_ops_quiet [OF assms])
  fix op rest and u :: "'a proc_store_scheme"
  assume u: "ops_wf u \<and> task_store.more u = task_store.more w \<and> s_flags u = s_flags w" "queues u q = op # rest"
  let ?u = "upd_op op (\<lambda>x. x\<lparr>op_list := None\<rparr>) (upd_queue q (\<lambda>_. rest) u)"
  have "async_next_op q u = Some (op, ?u)" using u(2) by (rule async_next_op_Cons)
  then have wf: "ops_wf ?u" using ops_wf_next u(1) by blast
  have "task_store.more ?u = task_store.more w" using u(1) by (simp add: upd_op_def upd_queue_def)
  then show "ops_wf (async_finish_op wake op ?u) \<and> task_store.more (async_finish_op wake op ?u) = task_store.more w \<and>
      s_flags (async_finish_op wake op ?u) = s_flags w"
    using wf u(1) by (simp add: waking_wf.inv_finish)
  show "ops (async_finish_op wake op ?u) = (ops u)(op := ((ops u op)\<lparr>op_list := None\<rparr>)\<lparr>op_status := ASYNC_STATUS_RESOLVED\<rparr>)"
    "queues (async_finish_op wake op ?u) = (queues u)(q := rest)"
    by (simp_all add: async_finish_op_def unlink_op_def)
qed (use assms in simp_all)

lemma exit_process_sel [simp]:
  "ops (exit_process p st sig w) = ops w" "queues (exit_process p st sig w) = queues w" "s_flags (exit_process p st sig w) = s_flags w"
  "next_opid (exit_process p st sig w) = next_opid w"
  "pr_cancel (processes w p) \<Longrightarrow> processes (exit_process p st sig w) p = (processes w p)\<lparr>pr_pid := 0, pr_status := to_c_int st, pr_cancel := False,
     pr_refs := pr_refs (processes w p) + 1, pr_kills := pr_kills (processes w p) @ [9], pr_handle := uv_close (pr_handle (processes w p))\<rparr>"
  by (simp_all add: exit_process_def stop_process_def shutdown_process_def process_kill_def Let_def)

text \<open>libuv reports the end of a child whose object is in use, and then that the handle is closed.\<close>

lemma child_ends:
  fixes w :: "'a proc_store_scheme"
  assumes "ops_wf w" and "pr_cancel (processes w p)" and "\<not> pr_freed (processes w p)" and "0 < pr_refs (processes w p)"
  shows "\<exists>w'. dispose_process own wake p (exit_process p st sig w) = Some w' \<and> ops_wf w' \<and> s_flags w' = s_flags w \<and>
    queues w' = (queues w)(ProcessObservers p := []) \<and>
    (\<forall>x. ops w' x = (if x \<in> set (queues w (ProcessObservers p))
       then (ops w x)\<lparr>op_list := None, op_status := ASYNC_STATUS_RESOLVED\<rparr> else ops w x)) \<and>
    processes w' p = (processes w p)\<lparr>pr_pid := 0, pr_status := to_c_int st, pr_cancel := False,
      pr_kills := pr_kills (processes w p) @ [9], pr_handle := uv_close (pr_handle (processes w p))\<rparr>"
proof -
  let ?e = "exit_process p st sig w"
  have "ops_wf ?e" using assms(1) by (subst ops_wf_cong [where w = w]) simp_all
  from drain_finish_wake [OF this, of "ProcessObservers p", unfolded exit_process_sel(1-3)] obtain v where v: "drain_ops (async_finish_op wake) (ProcessObservers p) ?e = Some v" "ops_wf v"
    "task_store.more v = task_store.more ?e" "s_flags v = s_flags w" "queues v = (queues w)(ProcessObservers p := [])"
    "\<forall>x. ops v x = (if x \<in> set (queues w (ProcessObservers p)) then (ops w x)\<lparr>op_list := None, op_status := ASYNC_STATUS_RESOLVED\<rparr> else ops w x)"
    by blast
  have q: "processes v p = processes ?e p" using proc_store_more_eq(1) [OF v(3)] by simp
  define w' where "w' = upd_process p (\<lambda>x. x\<lparr>pr_refs := pr_refs x - 1\<rparr>) v"
  have "process_delref own wake p v = Some w'" using assms(2-4) by (simp add: process_delref_def q w'_def)
  with v(1) have "dispose_process own wake p ?e = Some w'" by (simp add: dispose_process_def)
  moreover have "ops_wf w'" using v(2) by (subst ops_wf_cong [where w = v]) (simp_all add: w'_def)
  ultimately show ?thesis using v(4-6) q assms(2) by (intro exI [of _ w']) (simp add: w'_def)
qed

section \<open>Waiting for a child\<close>

text \<open>The state in which task \<open>t\<close> waits in \<open>join\<close>.\<close>

definition observed :: "nat \<Rightarrow> 'a proc_store_scheme \<Rightarrow> 'a proc_store_scheme" where
  "observed p w = async_append_op (ProcessObservers p) (next_opid w) (snd (async_alloc_op w))"

definition join_waits :: "nat \<Rightarrow> nat \<Rightarrow> 'a proc_store_scheme \<Rightarrow> 'a proc_store_scheme" where
  "join_waits p t w = suspended t (next_opid w) (process_ref True (async_context_is_background (g_context w) w) p (observed p w))"

lemma observed_sel [simp]:
  "queues (observed p w) = (queues w)(ProcessObservers p := queues w (ProcessObservers p) @ [next_opid w])"
  "processes (observed p w) = processes w" "s_flags (observed p w) = s_flags w" "g_task (observed p w) = g_task w"
  "tasks (observed p w) = tasks w" "contexts (observed p w) = contexts w" "g_context (observed p w) = g_context w"
  "cancels (observed p w) = cancels w" "next_opid (observed p w) = Suc (next_opid w)"
  "op_list (ops (observed p w) (next_opid w)) = Some (ProcessObservers p)"
  by (simp_all add: observed_def async_append_op_def)

lemma ops_wf_observed: "ops_wf w \<Longrightarrow> ops_wf (observed p w)"
  unfolding observed_def by (intro ops_wf_append ops_wf_alloc) simp_all

text \<open>What an execution that observes a running child finds when the child has ended.\<close>

lemma observer_continues:
  fixes v :: "'a proc_store_scheme"
  assumes "ops_wf v" and "may_wait t v" and "op \<in> set (queues v (ProcessObservers p))"
    and "pr_cancel (processes v p)" and "\<not> pr_freed (processes v p)" and "0 < pr_refs (processes v p)"
    and y: "yield Suspend (suspended t op v) = the (dispose_process own wake p (exit_process p st sig (suspended t op v)))"
  shows "\<exists>w'. async_await_op yield op v = Some (Await_success, w') \<and> op_list (ops w' op) = None \<and>
    op_flags (ops w' op) = op_flags (ops v op) \<and> queues w' = (queues v)(ProcessObservers p := []) \<and>
    processes w' p = (processes v p)\<lparr>pr_pid := 0, pr_status := to_c_int st, pr_cancel := False,
      pr_kills := pr_kills (processes v p) @ [9], pr_handle := uv_close (pr_handle (processes v p))\<rparr>"
proof -
  have l: "op_list (ops v op) \<noteq> None" "op < next_opid v" using assms(1,3) by (auto simp: ops_wf_def not_le [symmetric])
  let ?s = "suspended t op v"
  have s: "ops_wf ?s" "queues ?s = queues v" using assms(1) l by (simp_all add: ops_wf_suspended)
  from child_ends [where w = ?s and p = p and own = own and st = st and sig = sig] s assms(4-6) obtain u where
    u: "dispose_process own wake p (exit_process p st sig ?s) = Some u" "s_flags u = s_flags v"
    "queues u = (queues v)(ProcessObservers p := [])"
    "\<forall>x. ops u x = (if x \<in> set (queues v (ProcessObservers p)) then (ops ?s x)\<lparr>op_list := None, op_status := ASYNC_STATUS_RESOLVED\<rparr> else ops ?s x)"
    "processes u p = (processes v p)\<lparr>pr_pid := 0, pr_status := to_c_int st, pr_cancel := False,
      pr_kills := pr_kills (processes v p) @ [9], pr_handle := uv_close (pr_handle (processes v p))\<rparr>"
    by auto
  have o: "op_status (ops u op) = ASYNC_STATUS_RESOLVED" "op_list (ops u op) = None" "op_flags (ops u op) = op_flags (ops v op)"
    using u(4) assms(3) by auto
  have yu: "yield Suspend ?s = u" using y u(1) by simp
  have "\<not> sched_flag SCHED_ERROR u" using may_wait_ok [OF assms(2)] u(2) by (simp add: sched_flag_def)
  with await_suspends [OF assms(2), of yield op] o(1) obtain w' where w': "async_await_op yield op v = Some (Await_success, w')"
    "task_store.more w' = task_store.more u" "queues w' = queues u" "op_list (ops w' op) = None" "op_flags (ops w' op) = op_flags (ops v op)"
    using o(2,3) by (auto simp: yu)
  with u(3,5) proc_store_more_eq(1) [OF w'(2)] show ?thesis by (intro exI [of _ w']) simp
qed

text \<open>
  C36. An execution that joins a running child waits, and when the child ends it gets the status the
  child ended with; nothing waits for the child afterwards, it has no number any more, and joining
  it again returns the same status at once.
\<close>

theorem join_gets_exit_status:
  fixes w :: "'a proc_store_scheme"
  assumes "ops_wf w" and "may_wait t w" and "process_is_running p w"
    and "pr_cancel (processes w p)" and "\<not> pr_freed (processes w p)" and "0 < pr_refs (processes w p)" and "0 \<le> st" and "st < 2 ^ 31"
    and "yield Suspend (join_waits p t w) = the (dispose_process own wake p (exit_process p st sig (join_waits p t w)))"
  shows "\<exists>w'. process_join yield p w = Some (Ret (IS_LONG st), w') \<and> queues w' (ProcessObservers p) = [] \<and>
    \<not> process_is_running p w' \<and> process_get_pid p w' = 0 \<and> process_join yield p w' = Some (Ret (IS_LONG st), w')"
proof -
  let ?op = "next_opid w"
  define bg where "bg = async_context_is_background (g_context w) w"
  define v where "v = process_ref True bg p (observed p w)"
  have v: "ops_wf v" using ops_wf_observed [OF assms(1)] by (subst ops_wf_cong [where w = "observed p w"]) (simp_all add: v_def)
  have m: "may_wait t v" using assms(2) by (subst may_wait_cong [where w = w]) (simp_all add: v_def)
  have y: "yield Suspend (suspended t ?op v) = the (dispose_process own wake p (exit_process p st sig (suspended t ?op v)))"
    using assms(9) by (simp add: join_waits_def v_def bg_def)
  obtain u where u: "async_await_op yield ?op v = Some (Await_success, u)" "op_list (ops u ?op) = None"
    "queues u (ProcessObservers p) = []" "pr_status (processes u p) = st" "pr_pid (processes u p) = 0"
    using observer_continues [where v = v and t = t and op = ?op and p = p and yield = yield and own = own and st = st and sig = sig] v m y assms(4-8)
    by (auto simp: v_def)
  define w' where "w' = async_free_op ?op (process_ref False bg p u)"
  have w': "queues w' (ProcessObservers p) = []" "pr_status (processes w' p) = st" "pr_pid (processes w' p) = 0"
    using u by (simp_all add: w'_def) (simp add: async_free_op_def unlink_op_def)
  have o: "async_alloc_op w = (?op, snd (async_alloc_op w))" by (simp add: async_alloc_op_def)
  have "watch_await yield (process_ref True bg p) (process_ref False bg p) ?op (observed p w) = Some (Ret IS_NULL, w')"
    by (simp add: watch_await_def v_def [symmetric] u(1) w'_def)
  then have "process_join yield p w = Some (Ret (IS_LONG st), w')"
    using assms(3) unfolding process_join_def Let_def bg_def [symmetric]
    by (subst o) (simp add: process_is_running_def w'(2) observed_def [symmetric])
  then show ?thesis
    using w' assms(7) by (intro exI [of _ w']) (simp add: process_is_running_def process_get_pid_def process_join_def)
qed

text \<open>A started \<open>cat\<close>, and an execution that joins it while it ends with the status 3.\<close>

definition started_world :: proc_store where
  "started_world = upd_process 0 (\<lambda>_. (processes (snd (async_process_object_create cat_world)) 0)\<lparr>pr_pid := 42\<rparr>) cat_world"

lemma started_world_sel:
  "ops_wf started_world" "may_wait 0 started_world" "process_is_running 0 started_world" "pr_cancel (processes started_world 0)"
  "\<not> pr_freed (processes started_world 0)" "0 < pr_refs (processes started_world 0)"
proof -
  show "ops_wf started_world" by (subst ops_wf_cong [where w = cat_world]) (simp_all add: started_world_def)
  show "may_wait 0 started_world" by (subst may_wait_cong [where w = cat_world]) (simp_all add: started_world_def)
qed (simp_all add: started_world_def process_is_running_def async_process_object_create_def Let_def)

theorem join_gets_exit_status_witness:
  "\<forall>own. \<exists>w'. process_join (\<lambda>_ u. the (dispose_process own wake 0 (exit_process 0 3 0 u))) 0 started_world = Some (Ret (IS_LONG 3), w') \<and>
     \<not> process_is_running 0 w'"
proof (intro allI)
  show "\<exists>w'. process_join (\<lambda>_ u. the (dispose_process own wake 0 (exit_process 0 3 0 u))) 0 started_world = Some (Ret (IS_LONG 3), w') \<and>
     \<not> process_is_running 0 w'" for own
    using join_gets_exit_status [OF started_world_sel, of 3 "\<lambda>_ u. the (dispose_process own wake 0 (exit_process 0 3 0 u))" own 0] by auto
qed

section \<open>Executing a command\<close>

text \<open>The state after the launch, and the one in which task \<open>t\<close> waits.\<close>

definition launched :: "'a proc_store_scheme proc_env \<Rightarrow> nat \<Rightarrow> zval list \<Rightarrow> 'a proc_store_scheme \<Rightarrow> 'a proc_store_scheme" where
  "launched env b argv w =
     (let (p, w1) = async_process_object_create w; (r, w2) = uv_spawn env p (the (prepare_process (environ env) b p argv w1))
      in if async_context_is_background (g_context w2) w2
         then upd_process p (\<lambda>x. x\<lparr>pr_handle := (pr_handle x)\<lparr>uv_has_ref := False\<rparr>\<rparr>) w2 else w2)"

definition execute_waits :: "'a proc_store_scheme proc_env \<Rightarrow> nat \<Rightarrow> nat \<Rightarrow> zval list \<Rightarrow> 'a proc_store_scheme \<Rightarrow> 'a proc_store_scheme" where
  "execute_waits env t b argv w = suspended t (next_opid w) (observed (next_process w) (launched env b argv w))"

lemma launched_spec:
  assumes "pb_command (builders w b) = Some cmd" and "pb_cwd (builders w b) = Some dir"
    and "z_strvals (pb_argv (builders w b) @ argv) = Some args" and "\<forall>x y u. spawn env x y u = (0, pid)"
    and "\<forall>i \<in> {0, 1, 2, 3}. \<not> stdio_is_pipe b i w"
  defines "p \<equiv> next_process w" and "v \<equiv> launched env b argv w"
  shows "async_process_execute tx env own yield run b argv w =
      Option.bind (async_await_op yield (next_opid v) (observed p v)) (\<lambda>(r, w3).
           if r = Await_bailout then Some (Bail, w3)
           else
             let w4 = (if has_flag (op_flags (ops w3 (next_opid v))) ASYNC_OP_FLAG_CANCELLED then process_kill p 9 w3 else w3);
                 w5 = async_free_op (next_opid v) w4
             in map_option (Pair (if r = Await_failure then Throw (op_result (ops w3 (next_opid v))) else Ret (IS_LONG (pr_status (processes w5 p)))))
                  (process_delref own run p w5))"
    and "ops v = ops w" "queues v = queues w" "next_opid v = next_opid w" "s_flags v = s_flags w" "g_task v = g_task w" "tasks v = tasks w"
    "contexts v = contexts w" "g_context v = g_context w" "cancels v = cancels w"
    "pr_cancel (processes v p)" "\<not> pr_freed (processes v p)" "pr_refs (processes v p) = 1" "\<not> pr_destructed (processes v p)"
    "pr_flags (processes v p) = pb_flags (builders w b)"
proof -
  define w1 where "w1 = snd (async_process_object_create w)"
  have w1: "builders w1 = builders w" "async_process_object_create w = (p, w1)"
    by (simp_all add: w1_def p_def async_process_object_create_def Let_def)
  define w2 where "w2 = the (prepare_process (environ env) b p argv w1)"
  have w2: "prepare_process (environ env) b p argv w1 = Some w2" using assms(1-3) w1 by (simp add: w2_def prepare_process_def Let_def)
  define w3 where "w3 = upd_process p (\<lambda>x. x\<lparr>pr_handle := uv_start () (pr_handle x)\<rparr>) w2"
  have s: "uv_spawn env p w2 = (Inr pid, w3)" using assms(4) by (simp add: w3_def uv_spawn_def Let_def)
  have v: "v = (if async_context_is_background (g_context w3) w3
      then upd_process p (\<lambda>x. x\<lparr>pr_handle := (pr_handle x)\<lparr>uv_has_ref := False\<rparr>\<rparr>) w3 else w3)"
    by (simp add: v_def launched_def w1(2) w2_def [symmetric] s)
  have n: "\<not> (\<exists>i \<in> {0, 1, 2, 3}. stdio_is_pipe b i w)" using assms(5) by blast
  have o: "async_alloc_op x = (next_opid x, snd (async_alloc_op x))" for x :: "'a proc_store_scheme" by (simp add: async_alloc_op_def)
  show "async_process_execute tx env own yield run b argv w =
      Option.bind (async_await_op yield (next_opid v) (observed p v)) (\<lambda>(r, w3).
           if r = Await_bailout then Some (Bail, w3)
           else
             let w4 = (if has_flag (op_flags (ops w3 (next_opid v))) ASYNC_OP_FLAG_CANCELLED then process_kill p 9 w3 else w3);
                 w5 = async_free_op (next_opid v) w4
             in map_option (Pair (if r = Await_failure then Throw (op_result (ops w3 (next_opid v))) else Ret (IS_LONG (pr_status (processes w5 p)))))
                  (process_delref own run p w5))"
    unfolding async_process_execute_def if_not_P [OF n] w1(2) Let_def split w2 Option.bind.simps s sum.case execute_wait_def v [symmetric]
    by (subst o) (simp add: observed_def)
  show "ops v = ops w" "queues v = queues w" "next_opid v = next_opid w" "s_flags v = s_flags w" "g_task v = g_task w" "tasks v = tasks w"
    "contexts v = contexts w" "g_context v = g_context w" "cancels v = cancels w"
    "pr_cancel (processes v p)" "\<not> pr_freed (processes v p)" "pr_refs (processes v p) = 1" "\<not> pr_destructed (processes v p)"
    "pr_flags (processes v p) = pb_flags (builders w b)"
    using assms(1-3) by (simp_all add: v w3_def w2_def prepare_process_def w1(1) Let_def)
      (simp_all add: w1_def async_process_object_create_def p_def Let_def)
qed

lemma process_delref_last:
  assumes "\<not> pr_freed (processes w p)" and "pr_refs (processes w p) = 1" and "\<not> pr_cancel (processes w p)"
    and "\<not> has_flag (pr_flags (processes w p)) PROCESS_FLAG_IPC"
  shows "\<exists>w'. process_delref own run p w = Some w' \<and> pr_freed (processes w' p) \<and> queues w' = queues w \<and> s_shutdown w' = s_shutdown w"
  using assms by (simp add: process_delref_def process_destruct_def async_process_object_dtor_def async_process_object_destroy_def Let_def)



section \<open>What goes wrong\<close>

text \<open>
  A forked worker cannot be executed: the object of the process has the flag of the IPC pipe but no
  pipe, so giving it back dereferences a null pointer, whatever the child does.
\<close>

lemma executed_fork_crashes:
  assumes "\<not> pr_freed (processes w p)" and "pr_refs (processes w p) = 1" and "\<not> pr_cancel (processes w p)"
    and "has_flag (pr_flags (processes w p)) PROCESS_FLAG_IPC" and "pr_ipc (processes w p) = None"
  shows "process_delref own run p w = None"
  using assms by (simp add: process_delref_def process_destruct_def async_process_object_dtor_def async_process_object_destroy_def Let_def)

text \<open>Starting a forked worker changes the builder: it cannot be executed any more.\<close>

lemma start_changes_builder:
  assumes "length (pb_stdio (builders w (op_stdio (pr_options (processes w p))))) = 4"
  shows "stdio_is_pipe (op_stdio (pr_options (processes w p))) 3 (create_ipc p w)"
proof -
  have "builders (snd (async_pipe_init_ipc w)) = builders w" "processes (snd (async_pipe_init_ipc w)) = processes w"
    by (simp_all add: async_pipe_init_ipc_def async_pipe_object_create_def split_beta Let_def set_stream_flag_def upd_stream_def upd_pipe_def
      async_stream_init_def async_alloc_op_def)
  then show ?thesis
    using assms by (simp add: create_ipc_def split_beta Let_def stdio_is_pipe_def has_flag_def set_flag_def)
qed

text \<open>
  A pipe object that is dropped without being closed takes one reference too many: a child whose
  object the script holds is killed.
\<close>

lemma dropped_pipe_kills_child:
  assumes "process_get_stdout p w = Some (Ret (IS_OBJECT p), w1)" and "pr_refs (processes w p) = 1"
    and "pr_cancel (processes w p)" and "\<not> pr_freed (processes w p)" and "\<not> pr_destructed (processes w p)"
    and "pp_stream (pr_stdout (processes w p)) \<notin> set (freed_streams w)"
  shows "\<exists>w'. process_pipe_object_destroy own run p P_stdout w1 = Some w' \<and> 9 \<in> set (pr_kills (processes w' p)) \<and>
    uv_closing (pr_handle (processes w' p))"
proof -
  have w1: "w1 = upd_process p (\<lambda>x. x\<lparr>pr_refs := pr_refs x + 1\<rparr>) w"
    using assms(1) by (auto simp: process_get_stdout_def process_get_pipe_def process_pipe_object_create_def Let_def split: if_splits)
  define w2 where "w2 = the (process_stream_free (pp_stream (pr_stdout (processes w p))) (upd_process p (\<lambda>x. x\<lparr>pr_pipes := pr_pipes x - 1\<rparr>) w1))"
  have w2: "process_stream_free (pp_stream (pr_stdout (processes w p))) (upd_process p (\<lambda>x. x\<lparr>pr_pipes := pr_pipes x - 1\<rparr>) w1) = Some w2"
    "processes w2 p = (processes w p)\<lparr>pr_refs := 2, pr_pipes := pr_pipes (processes w p) - 1\<rparr>"
    using assms(2,6) by (simp_all add: w2_def w1 process_stream_free_def upd_stream_def)
  then show ?thesis
    using assms(3-5) unfolding process_pipe_object_destroy_def Let_def
    by (simp add: w1 pipe_state_def process_delref_def process_destruct_def async_process_object_dtor_def stop_process_def
      shutdown_process_def process_kill_def uv_close_def Let_def)
qed

text \<open>
  Variables of the builder do not replace inherited ones: the child finds the first entry of a name,
  which is the inherited one.
\<close>

definition getenv :: "string \<Rightarrow> string list \<Rightarrow> string option" where
  "getenv k env = map_option (drop (length k + 1)) (List.find (\<lambda>e. take (length k + 1) e = k @ ''='') env)"

lemma inherited_variable_wins:
  assumes "op_env x = prepare_env own b" and "has_flag (pb_flags b) PROCESS_FLAG_INHERIT_ENV" and "getenv k own = Some v"
  shows "getenv k (child_env own x) = Some v"
proof -
  have "List.find P xs = Some e \<Longrightarrow> List.find P (xs @ ys) = Some e" for P :: "string \<Rightarrow> bool" and xs ys e
    by (induction xs) auto
  with assms(3) have "getenv k (own @ more) = Some v" for more by (auto simp: getenv_def)
  then show ?thesis using child_env_prepared [OF assms(1)] assms(2) by simp
qed

text \<open>Two executions join; when the first stops waiting, the child does not keep the loop alive for the second.\<close>

lemma join_is_not_counted:
  "\<not> uv_has_ref (pr_handle (processes (process_ref False False p (process_ref True False p (process_ref True False p w))) p))"
  by simp

end
