(* ===== verification/File.thy ===== *)
theory File
  imports Scheduler Address
begin

text \<open>
  Files and directories (\<open>filesystem.c\<close>) on Linux: the calls of \<open>uv_fs_*\<close>, which run in a thread of
  libuv while the execution waits or, for includes and after the scheduler has stopped, at once; file
  streams with their positions; directory streams.
\<close>

section \<open>Requests\<close>

datatype fs_req =
    Fs_open string "32 word" int
  | Fs_close int
  | Fs_read int nat int
  | Fs_write int "8 word list" int
  | Fs_fstat int
  | Fs_ftruncate int int
  | Fs_scandir string
  | Fs_stat string
  | Fs_lstat string
  | Fs_unlink string
  | Fs_rename string string
  | Fs_mkdir string int
  | Fs_rmdir string
  | Fs_chmod string int
  | Fs_utime string int int

record uv_stat =
  us_dev :: int
  us_mode :: int
  us_size :: int
  us_nlink :: int
  us_rdev :: int
  us_atim :: "int \<times> int"
  us_mtim :: "int \<times> int"
  us_ctim :: "int \<times> int"
  us_ino :: int
  us_uid :: int
  us_gid :: int
  us_blksize :: int
  us_blocks :: int

text \<open>What a request that was executed has: its result and what it read.\<close>

record fs_answer =
  fa_result :: int
  fa_bytes :: "8 word list"
  fa_stat :: uv_stat
  fa_names :: "string list"

section \<open>State\<close>

text \<open>A file stream, with the flags of the PHP stream it belongs to (\<open>fd_eof\<close>, \<open>fd_no_buffer\<close>, the size of its buffer).\<close>

record async_filestream_data =
  fd_file :: int
  fd_fmode :: string
  fd_mode :: "32 word"
  fd_lock_flag :: int
  fd_async :: bool
  fd_finished :: bool
  fd_rpos :: int
  fd_wpos :: int
  fd_eof :: bool
  fd_no_buffer :: bool
  fd_readbuf :: nat

text \<open>A directory stream: the chain of entries is a list, a pointer into it a position; \<open>None\<close> is the null pointer.\<close>

record async_dirstream_data =
  ds_entries :: "string list"
  ds_entry :: "nat option"
  ds_offset :: int
  ds_size :: int

text \<open>\<open>fs_reqs\<close> are the requests that libuv holds, \<open>fs_warnings\<close> the warnings that were raised.\<close>

record file_store = task_store +
  filestreams :: "nat \<Rightarrow> async_filestream_data"
  dirstreams :: "nat \<Rightarrow> async_dirstream_data"
  next_filestream :: nat
  fs_reqs :: "(opid \<times> fs_req) list"
  fs_answers :: "opid \<Rightarrow> fs_answer"
  fs_warnings :: "string list"

type_synonym 'a file_wake = "opid \<Rightarrow> 'a file_store_scheme \<Rightarrow> 'a file_store_scheme"
type_synonym 'a file_yield = "transfer \<Rightarrow> 'a file_store_scheme \<Rightarrow> 'a file_store_scheme"

definition upd_file :: "nat \<Rightarrow> (async_filestream_data \<Rightarrow> async_filestream_data) \<Rightarrow> 'a file_store_scheme \<Rightarrow> 'a file_store_scheme" where
  "upd_file f g w = w\<lparr>filestreams := (filestreams w)(f := g (filestreams w f))\<rparr>"

definition upd_dir :: "nat \<Rightarrow> (async_dirstream_data \<Rightarrow> async_dirstream_data) \<Rightarrow> 'a file_store_scheme \<Rightarrow> 'a file_store_scheme" where
  "upd_dir d g w = w\<lparr>dirstreams := (dirstreams w)(d := g (dirstreams w d))\<rparr>"

text \<open>
  What libuv and the system do: execute a request at once, accept a request for a thread, cancel a
  request; \<open>open_basedir\<close>, the expansion of paths, \<open>stat\<close>, \<open>flock\<close> and \<open>fdopen\<close> of the system.
\<close>

record 'w fs_env =
  fs_sync :: "fs_req \<Rightarrow> 'w \<Rightarrow> fs_answer \<times> 'w"
  fs_start :: "fs_req \<Rightarrow> 'w \<Rightarrow> int"
  fs_cancel :: "opid \<Rightarrow> 'w \<Rightarrow> int"
  basedir_denied :: "string \<Rightarrow> bool"
  expand_filepath :: "string \<Rightarrow> string option"
  path_exists :: "string \<Rightarrow> 'w \<Rightarrow> bool"
  flock_code :: "int \<Rightarrow> int \<Rightarrow> 'w \<Rightarrow> int"
  fdopen_ok :: "int \<Rightarrow> string \<Rightarrow> bool"
  fs_cli :: bool

section \<open>Calling libuv\<close>

text \<open>The value of a function, with the exception that is pending when it returns; or the engine left it.\<close>

datatype 'v fs_value = Fs_value 'v "zval option" | Fs_exit

definition fs_stopped :: "'a file_store_scheme \<Rightarrow> bool" where
  "fs_stopped w \<longleftrightarrow> sched_flag SCHED_DISPOSED w \<or> sched_flag SCHED_ERROR w"

definition no_stat :: uv_stat where
  "no_stat = \<lparr>us_dev = 0, us_mode = 0, us_size = 0, us_nlink = 0, us_rdev = 0, us_atim = (0, 0), us_mtim = (0, 0), us_ctim = (0, 0),
     us_ino = 0, us_uid = 0, us_gid = 0, us_blksize = 0, us_blocks = 0\<rparr>"

definition fs_failed :: "int \<Rightarrow> fs_answer" where
  "fs_failed code = \<lparr>fa_result = code, fa_bytes = [], fa_stat = no_stat, fa_names = []\<rparr>"

text \<open>
  The common part of the macros: a wait that fails has the result \<open>-1\<close>, and the request is cancelled;
  when that succeeds the operation is freed, although libuv calls \<open>dummy_cb\<close> with it later.
\<close>

definition fs_request ::
  "'a file_store_scheme fs_env \<Rightarrow> 'a file_yield \<Rightarrow> bool \<Rightarrow> fs_req \<Rightarrow> 'a file_store_scheme \<Rightarrow>
   (fs_answer fs_value \<times> 'a file_store_scheme) option" where
  "fs_request env yield async req w =
     (if \<not> async then (let (a, w1) = fs_sync env req w in Some (Fs_value a None, w1))
      else
        let (op, w1) = async_alloc_op w; code = fs_start env req w1
        in if code < 0 then Some (Fs_value (fs_failed code) None, async_free_op op w1)
           else map_option (\<lambda>(r, w2).
               if r = Await_bailout then (Fs_exit, w2)
               else if r = Await_failure
               then (Fs_value (fs_failed (- 1)) (Some (op_result (ops w2 op))),
                     if fs_cancel env op w2 = 0 then async_free_op op w2
                     else upd_op op (\<lambda>x. x\<lparr>op_status := ASYNC_STATUS_FAILED\<rparr>) w2)
               else (Fs_value (fs_answers w2 op) None, async_free_op op w2))
             (async_await_op yield op (w1\<lparr>fs_reqs := (op, req) # fs_reqs w1\<rparr>)))"

text \<open>\<open>ASYNC_FS_CALL\<close> on a stream, which stops being asynchronous with the scheduler, and \<open>ASYNC_FS_CALLW\<close>.\<close>

definition async_fs_call ::
  "'a file_store_scheme fs_env \<Rightarrow> 'a file_yield \<Rightarrow> nat \<Rightarrow> fs_req \<Rightarrow> 'a file_store_scheme \<Rightarrow>
   (fs_answer fs_value \<times> 'a file_store_scheme) option" where
  "async_fs_call env yield f req w =
     (let w1 = (if fs_stopped w then upd_file f (\<lambda>x. x\<lparr>fd_async := False\<rparr>) w else w)
      in fs_request env yield (fd_async (filestreams w1 f)) req w1)"

definition async_fs_callw ::
  "'a file_store_scheme fs_env \<Rightarrow> 'a file_yield \<Rightarrow> bool \<Rightarrow> fs_req \<Rightarrow> 'a file_store_scheme \<Rightarrow>
   (fs_answer fs_value \<times> 'a file_store_scheme) option" where
  "async_fs_callw env yield async req w = fs_request env yield (async \<and> \<not> fs_stopped w) req w"

text \<open>\<open>dummy_cb\<close>: a thread has executed the request.\<close>

definition dummy_cb :: "'a file_wake \<Rightarrow> opid \<Rightarrow> fs_answer \<Rightarrow> 'a file_store_scheme \<Rightarrow> 'a file_store_scheme" where
  "dummy_cb run op a w =
     (let w1 = w\<lparr>fs_reqs := filter (\<lambda>r. fst r \<noteq> op) (fs_reqs w), fs_answers := (fs_answers w)(op := a)\<rparr>
      in if fa_result a = - 125 then async_free_op op w1 else async_finish_op run op w1)"

section \<open>Modes\<close>

abbreviation O_RDONLY :: "32 word" where "O_RDONLY \<equiv> 0"
abbreviation O_WRONLY :: "32 word" where "O_WRONLY \<equiv> 1"
abbreviation O_RDWR :: "32 word" where "O_RDWR \<equiv> 2"
abbreviation O_CREAT :: "32 word" where "O_CREAT \<equiv> 0x40"
abbreviation O_EXCL :: "32 word" where "O_EXCL \<equiv> 0x80"
abbreviation O_TRUNC :: "32 word" where "O_TRUNC \<equiv> 0x200"
abbreviation O_APPEND :: "32 word" where "O_APPEND \<equiv> 0x400"
abbreviation O_NONBLOCK :: "32 word" where "O_NONBLOCK \<equiv> 0x800"
abbreviation O_CLOEXEC :: "32 word" where "O_CLOEXEC \<equiv> 0x80000"

definition parse_open_mode :: "string \<Rightarrow> 32 word option" where
  "parse_open_mode mode =
     (let kind = (case mode of [] \<Rightarrow> None
          | c # _ \<Rightarrow>
              if c = CHR ''r'' then Some 0
              else if c = CHR ''w'' then Some (O_TRUNC OR O_CREAT)
              else if c = CHR ''a'' then Some (O_CREAT OR O_APPEND)
              else if c = CHR ''x'' then Some (O_CREAT OR O_EXCL)
              else if c = CHR ''c'' then Some O_CREAT
              else None)
      in map_option (\<lambda>flags.
           let f1 = (if CHR ''+'' \<in> set mode then flags OR O_RDWR else if flags \<noteq> 0 then flags OR O_WRONLY else flags OR O_RDONLY);
               f2 = (if CHR ''e'' \<in> set mode then f1 OR O_CLOEXEC else f1)
           in if CHR ''n'' \<in> set mode then f2 OR O_NONBLOCK else f2) kind)"

text \<open>The fields of \<open>struct stat\<close> that the extension fills in on Linux are those of libuv.\<close>

definition map_stat :: "uv_stat \<Rightarrow> uv_stat" where
  "map_stat s = \<lparr>us_dev = us_dev s, us_mode = us_mode s, us_size = us_size s, us_nlink = us_nlink s, us_rdev = us_rdev s,
     us_atim = us_atim s, us_mtim = us_mtim s, us_ctim = us_ctim s, us_ino = us_ino s, us_uid = us_uid s, us_gid = us_gid s,
     us_blksize = us_blksize s, us_blocks = us_blocks s\<rparr>"

section \<open>Directory streams\<close>

definition entry_next :: "'e list \<Rightarrow> nat option \<Rightarrow> nat option" where
  "entry_next es e = (case e of None \<Rightarrow> None | Some i \<Rightarrow> if Suc i < length es then Some (Suc i) else None)"

definition entry_prev :: "nat option \<Rightarrow> nat option" where
  "entry_prev e = (case e of None \<Rightarrow> None | Some i \<Rightarrow> if 0 < i then Some (i - 1) else None)"

text \<open>\<open>None\<close>: the end of the directory.\<close>

definition async_dirstream_read :: "nat \<Rightarrow> 'a file_store_scheme \<Rightarrow> string option \<times> 'a file_store_scheme" where
  "async_dirstream_read d w = (case ds_entry (dirstreams w d) of
     None \<Rightarrow> (None, w)
   | Some i \<Rightarrow> (Some (ds_entries (dirstreams w d) ! i),
       upd_dir d (\<lambda>x. x\<lparr>ds_entry := entry_next (ds_entries x) (Some i), ds_offset := ds_offset x + 1\<rparr>) w))"

datatype whence = SEEK_SET | SEEK_CUR | SEEK_END | SEEK_OTHER

fun walk :: "nat \<Rightarrow> (nat option \<Rightarrow> nat option) \<Rightarrow> nat option \<Rightarrow> nat option" where
  "walk 0 step e = e"
| "walk (Suc n) step e = walk n step (if e = None then None else step e)"

text \<open>Relative to the current position, the walk starts at the first entry. The result is the new offset.\<close>

definition async_dirstream_rewind :: "nat \<Rightarrow> int \<Rightarrow> whence \<Rightarrow> 'a file_store_scheme \<Rightarrow> int option \<times> 'a file_store_scheme" where
  "async_dirstream_rewind d off whence w =
     (let es = ds_entries (dirstreams w d);
          start = (if es = [] then None else Some 0);
          fin = (if es = [] then None else Some (length es - 1));
          w1 = (case whence of
              SEEK_SET \<Rightarrow> upd_dir d (\<lambda>x. x\<lparr>ds_entry := walk (nat off) (entry_next es) start, ds_offset := off\<rparr>) w
            | SEEK_CUR \<Rightarrow> upd_dir d (\<lambda>x. x\<lparr>ds_entry := walk (nat off) (entry_next es) start, ds_offset := ds_offset x + off\<rparr>) w
            | SEEK_END \<Rightarrow> upd_dir d (\<lambda>x. x\<lparr>ds_entry := walk (nat off) entry_prev fin, ds_offset := ds_size x - off\<rparr>) w
            | SEEK_OTHER \<Rightarrow> w)
      in (if whence = SEEK_OTHER then None else Some (ds_offset (dirstreams w1 d)), w1))"

section \<open>File streams\<close>

definition c_int64 :: "int \<Rightarrow> int" where
  "c_int64 n = sint (word_of_int n :: 64 word)"

definition async_filestream_write ::
  "'a file_store_scheme fs_env \<Rightarrow> 'a file_yield \<Rightarrow> nat \<Rightarrow> 8 word list \<Rightarrow> 'a file_store_scheme \<Rightarrow>
   (nat fs_value \<times> 'a file_store_scheme) option" where
  "async_filestream_write env yield f buf w =
     map_option (\<lambda>(r, w1). case r of
         Fs_exit \<Rightarrow> (Fs_exit, w1)
       | Fs_value a e \<Rightarrow>
           if fa_result a < 0 then (Fs_value 0 e, w1)
           else (Fs_value (nat (fa_result a)) e, upd_file f (\<lambda>x. x\<lparr>fd_wpos := c_int64 (fd_wpos x + fa_result a)\<rparr>) w1))
     (async_fs_call env yield f (Fs_write (fd_file (filestreams w f)) buf (fd_wpos (filestreams w f))) w)"

text \<open>Reads of less than 8192 bytes return nothing. A short read is the end of the file.\<close>

definition async_filestream_read ::
  "'a file_store_scheme fs_env \<Rightarrow> 'a file_yield \<Rightarrow> nat \<Rightarrow> nat \<Rightarrow> 'a file_store_scheme \<Rightarrow>
   (8 word list fs_value \<times> 'a file_store_scheme) option" where
  "async_filestream_read env yield f count w =
     (if fd_finished (filestreams w f) \<or> count < 8192 then Some (Fs_value [] None, w)
      else map_option (\<lambda>(r, w1). case r of
          Fs_exit \<Rightarrow> (Fs_exit, w1)
        | Fs_value a e \<Rightarrow>
            if fa_result a < 0 then (Fs_value [] e, w1)
            else (Fs_value (take (nat (fa_result a)) (fa_bytes a)) e,
                  upd_file f (\<lambda>x. x\<lparr>fd_finished := (nat (fa_result a) < count \<or> fd_finished x),
                    fd_eof := (nat (fa_result a) < count \<or> fd_eof x), fd_rpos := c_int64 (fd_rpos x + fa_result a)\<rparr>) w1))
      (async_fs_call env yield f (Fs_read (fd_file (filestreams w f)) count (fd_rpos (filestreams w f))) w))"

text \<open>Without \<open>close_handle\<close> the value is that of a variable that was never set, \<open>garbage\<close>.\<close>

definition async_filestream_close ::
  "'a file_store_scheme fs_env \<Rightarrow> 'a file_yield \<Rightarrow> int \<Rightarrow> nat \<Rightarrow> bool \<Rightarrow> 'a file_store_scheme \<Rightarrow>
   (int fs_value \<times> 'a file_store_scheme) option" where
  "async_filestream_close env yield garbage f close_handle w =
     (if \<not> close_handle then Some (Fs_value (if garbage < 1 then 1 else 0) None, w)
      else map_option (\<lambda>(r, w1). (map_fs_value (\<lambda>a. if fa_result a < 1 then 1 else 0) r, w1))
        (async_fs_call env yield f (Fs_close (fd_file (filestreams w f))) w))"

definition async_filestream_flush :: int where
  "async_filestream_flush = 0"

datatype cast_as = As_stdio bool | As_fd bool | As_other

text \<open>The flag says that the caller wants the descriptor. \<open>Some None\<close>: success without one.\<close>

definition async_filestream_cast :: "'w fs_env \<Rightarrow> nat \<Rightarrow> cast_as \<Rightarrow> 'a file_store_scheme \<Rightarrow> int option option" where
  "async_filestream_cast env f castas w = (case castas of
     As_stdio ret \<Rightarrow>
       if \<not> ret then Some None
       else if fdopen_ok env (fd_file (filestreams w f)) (fd_fmode (filestreams w f)) then Some (Some (fd_file (filestreams w f))) else None
   | As_fd ret \<Rightarrow> if ret then Some (Some (fd_file (filestreams w f))) else Some None
   | As_other \<Rightarrow> None)"

definition async_filestream_stat ::
  "'a file_store_scheme fs_env \<Rightarrow> 'a file_yield \<Rightarrow> nat \<Rightarrow> 'a file_store_scheme \<Rightarrow>
   (uv_stat option fs_value \<times> 'a file_store_scheme) option" where
  "async_filestream_stat env yield f w =
     map_option (\<lambda>(r, w1). (map_fs_value (\<lambda>a. if fa_result a < 0 then None else Some (map_stat (fa_stat a))) r, w1))
       (async_fs_call env yield f (Fs_fstat (fd_file (filestreams w f))) w)"

text \<open>Seeking moves the position for reading, and that for writing unless the file is open for appending.\<close>

definition seek_to :: "nat \<Rightarrow> int \<Rightarrow> whence \<Rightarrow> int \<Rightarrow> 'a file_store_scheme \<Rightarrow> int option \<times> 'a file_store_scheme" where
  "seek_to f off whence len w =
     (let pos = fd_rpos (filestreams w f);
          target = (case whence of SEEK_SET \<Rightarrow> off | SEEK_CUR \<Rightarrow> c_int64 (pos + off) | SEEK_END \<Rightarrow> c_int64 (len + off) | SEEK_OTHER \<Rightarrow> pos)
      in if whence = SEEK_OTHER \<or> target < 0 then (None, w)
         else (Some target, upd_file f (\<lambda>x. x\<lparr>fd_rpos := target,
                fd_wpos := (if fd_mode x AND O_APPEND = 0 then target else fd_wpos x),
                fd_finished := (if target < len then False else fd_finished x),
                fd_eof := (if target < len then False else fd_eof x)\<rparr>) w))"

definition async_filestream_seek ::
  "'a file_store_scheme fs_env \<Rightarrow> 'a file_yield \<Rightarrow> nat \<Rightarrow> int \<Rightarrow> whence \<Rightarrow> 'a file_store_scheme \<Rightarrow>
   (int option fs_value \<times> 'a file_store_scheme) option" where
  "async_filestream_seek env yield f off whence w =
     map_option (\<lambda>(r, w1). case r of
         Fs_exit \<Rightarrow> (Fs_exit, w1)
       | Fs_value None e \<Rightarrow> (Fs_value None e, w1)
       | Fs_value (Some st) e \<Rightarrow> (let (pos, w2) = seek_to f off whence (us_size st) w1 in (Fs_value pos e, w2)))
     (async_filestream_stat env yield f w)"

definition async_truncate ::
  "'a file_store_scheme fs_env \<Rightarrow> 'a file_yield \<Rightarrow> nat \<Rightarrow> int \<Rightarrow> 'a file_store_scheme \<Rightarrow>
   (bool fs_value \<times> 'a file_store_scheme) option" where
  "async_truncate env yield f nsize w =
     map_option (\<lambda>(r, w1). (map_fs_value (\<lambda>a. \<not> fa_result a < 0) r, w1))
       (async_fs_call env yield f (Fs_ftruncate (fd_file (filestreams w f)) nsize) w)"

text \<open>
  The options with their arguments. The value is \<open>PHP_STREAM_OPTION_RETURN_OK\<close> (0), \<open>ERR\<close> (-1) or
  \<open>NOTIMPL\<close> (-2); \<open>Option_meta\<close> also adds to an array.
\<close>

datatype stream_option =
    Option_meta
  | Option_read_buffer "nat option"
  | Option_locking "int option"
  | Option_mmap
  | Option_truncate_supported
  | Option_truncate int
  | Option_other

definition filestream_meta :: "nat \<Rightarrow> 'a file_store_scheme \<Rightarrow> (string \<times> zval) list" where
  "filestream_meta f w = [(''timed_out'', IS_BOOL False), (''blocked'', IS_BOOL True), (''eof'', IS_BOOL (fd_eof (filestreams w f)))]"

definition async_filestream_set_option ::
  "'a file_store_scheme fs_env \<Rightarrow> 'a file_yield \<Rightarrow> nat \<Rightarrow> stream_option \<Rightarrow> 'a file_store_scheme \<Rightarrow>
   (int fs_value \<times> 'a file_store_scheme) option" where
  "async_filestream_set_option env yield f opt w = (case opt of
     Option_meta \<Rightarrow> Some (Fs_value 0 None, w)
   | Option_read_buffer None \<Rightarrow> Some (Fs_value 0 None, upd_file f (\<lambda>x. x\<lparr>fd_no_buffer := True\<rparr>) w)
   | Option_read_buffer (Some n) \<Rightarrow> Some (Fs_value 0 None, upd_file f (\<lambda>x. x\<lparr>fd_no_buffer := False, fd_readbuf := max n 0x8000\<rparr>) w)
   | Option_locking None \<Rightarrow> Some (Fs_value 0 None, w)
   | Option_locking (Some v) \<Rightarrow>
       if flock_code env (fd_file (filestreams w f)) v w = 0
       then Some (Fs_value 0 None, upd_file f (\<lambda>x. x\<lparr>fd_lock_flag := v\<rparr>) w) else Some (Fs_value (- 1) None, w)
   | Option_mmap \<Rightarrow> Some (Fs_value (- 1) None, w)
   | Option_truncate_supported \<Rightarrow> Some (Fs_value 0 None, w)
   | Option_truncate n \<Rightarrow>
       if n < 0 then Some (Fs_value (- 1) None, w)
       else map_option (\<lambda>(r, w1). (map_fs_value (\<lambda>ok. if ok then 0 else - 1) r, w1)) (async_truncate env yield f n w)
   | Option_other \<Rightarrow> Some (Fs_value (- 2) None, w))"

end
