(* ===== verification/FileWrapper.thy ===== *)
theory FileWrapper
  imports File
begin

text \<open>
  The stream wrapper for files (\<open>filesystem.c\<close>): opening files and directories, and the operations on
  paths. Warnings are collected in \<open>fs_warnings\<close>; clearing the cache of \<open>stat\<close> results is not modelled.
  Directories are created with all that is missing above them by editing the path in place.
\<close>

section \<open>Paths\<close>

definition fs_warn :: "string \<Rightarrow> 'a file_store_scheme \<Rightarrow> 'a file_store_scheme" where
  "fs_warn msg w = w\<lparr>fs_warnings := fs_warnings w @ [msg]\<rparr>"

definition lower :: "char \<Rightarrow> char" where
  "lower c = (let n = (of_char c :: nat) in if 65 \<le> n \<and> n \<le> 90 then char_of (n + 32) else c)"

definition strip_file_scheme :: "string \<Rightarrow> string" where
  "strip_file_scheme url =
     (if List.map lower (take 7 url) = ''file://'' then drop 7 url
      else if List.map lower (take 13 url) = ''async-file://'' then drop 13 url
      else url)"

text \<open>The options of a call.\<close>

record open_options =
  oo_report :: bool
  oo_include :: bool
  oo_no_basedir :: bool
  oo_realpath :: bool

definition real_path :: "'w fs_env \<Rightarrow> open_options \<Rightarrow> string \<Rightarrow> string option" where
  "real_path env opts path = (if oo_realpath opts then Some (take 4095 path) else expand_filepath env path)"

section \<open>Opening\<close>

text \<open>
  The result is the stream and its path, or \<open>None\<close>. The mode is copied into eight bytes without a check:
  no result when it is longer.
\<close>

definition open_file ::
  "nat \<Rightarrow> string \<Rightarrow> 32 word \<Rightarrow> bool \<Rightarrow> fs_answer \<Rightarrow> 'a file_store_scheme \<Rightarrow> 'a file_store_scheme option" where
  "open_file f mode flags async a w =
     (if 8 \<le> length mode then None
      else Some (upd_file f (\<lambda>_. \<lparr>fd_file = fa_result a, fd_fmode = mode, fd_mode = flags, fd_lock_flag = 8, fd_async = async,
                   fd_finished = False, fd_rpos = 0, fd_wpos = 0, fd_eof = False, fd_no_buffer = False, fd_readbuf = 0\<rparr>)
                 (w\<lparr>next_filestream := Suc f\<rparr>)))"

definition async_filestream_wrapper_open ::
  "'a file_store_scheme fs_env \<Rightarrow> 'a file_yield \<Rightarrow> string \<Rightarrow> string \<Rightarrow> open_options \<Rightarrow> 'a file_store_scheme \<Rightarrow>
   ((nat \<times> string) option fs_value \<times> 'a file_store_scheme) option" where
  "async_filestream_wrapper_open env yield path mode opts w = (case parse_open_mode mode of
     None \<Rightarrow> Some (Fs_value None None,
       if oo_report opts then fs_warn ('''' @ CHR 0x27 # mode @ CHR 0x27 # '' is not a valid mode for fopen'') w else w)
   | Some flags \<Rightarrow>
       if \<not> oo_no_basedir opts \<and> basedir_denied env path then Some (Fs_value None None, w)
       else
         let async = \<not> oo_include opts \<and> fs_cli env
         in case real_path env opts path of
              None \<Rightarrow> Some (Fs_value None None, w)
            | Some real \<Rightarrow> Option.bind (async_fs_callw env yield async (Fs_open real flags 438) w) (\<lambda>(r, w1). case r of
                  Fs_exit \<Rightarrow> Some (Fs_exit, w1)
                | Fs_value a e \<Rightarrow>
                    if fa_result a < 0
                    then Some (Fs_value None e, if oo_report opts then fs_warn (''Failed to open file: '' @ real) w1 else w1)
                    else map_option (Pair (Fs_value (Some (next_filestream w1, real)) e))
                           (open_file (next_filestream w1) mode flags async a w1)))"

definition create_dirstream :: "nat \<Rightarrow> string list \<Rightarrow> 'a file_store_scheme \<Rightarrow> 'a file_store_scheme" where
  "create_dirstream d names w =
     upd_dir d (\<lambda>_. \<lparr>ds_entries = ''.'' # ''..'' # names, ds_entry = Some 0, ds_offset = 0, ds_size = 2 + int (length names)\<rparr>)
       (w\<lparr>next_filestream := Suc d\<rparr>)"

definition async_filestream_wrapper_opendir ::
  "texts \<Rightarrow> 'a file_store_scheme fs_env \<Rightarrow> 'a file_yield \<Rightarrow> string \<Rightarrow> open_options \<Rightarrow> 'a file_store_scheme \<Rightarrow>
   ((nat \<times> string) option fs_value \<times> 'a file_store_scheme) option" where
  "async_filestream_wrapper_opendir tx env yield path opts w =
     (if \<not> oo_no_basedir opts \<and> basedir_denied env path then Some (Fs_value None None, w)
      else case real_path env opts path of
         None \<Rightarrow> Some (Fs_value None None, w)
       | Some real \<Rightarrow> map_option (\<lambda>(r, w1). case r of
             Fs_exit \<Rightarrow> (Fs_exit, w1)
           | Fs_value a e \<Rightarrow>
               if fa_result a < 0
               then (Fs_value None e,
                     if oo_report opts then fs_warn (''Failed to open dir '' @ real @ '': '' @ strerror tx (fa_result a)) w1 else w1)
               else (Fs_value (Some (next_filestream w1, real)) e, create_dirstream (next_filestream w1) (fa_names a) w1))
         (async_fs_callw env yield (fs_cli env) (Fs_scandir real) w))"

text \<open>The entries are freed.\<close>

definition async_dirstream_close :: "nat \<Rightarrow> 'a file_store_scheme \<Rightarrow> 'a file_store_scheme" where
  "async_dirstream_close d w = upd_dir d (\<lambda>x. x\<lparr>ds_entries := [], ds_entry := None\<rparr>) w"

section \<open>Operations on paths\<close>

text \<open>The common form: the request, a warning when it fails and errors are reported, and whether it worked.\<close>

definition path_request ::
  "texts \<Rightarrow> 'a file_store_scheme fs_env \<Rightarrow> 'a file_yield \<Rightarrow> fs_req \<Rightarrow> bool \<Rightarrow> (string \<Rightarrow> string) \<Rightarrow> 'a file_store_scheme \<Rightarrow>
   (bool fs_value \<times> 'a file_store_scheme) option" where
  "path_request tx env yield req report msg w =
     map_option (\<lambda>(r, w1). case r of
         Fs_exit \<Rightarrow> (Fs_exit, w1)
       | Fs_value a e \<Rightarrow>
           if fa_result a < 0
           then (Fs_value False e, if report then fs_warn (msg (strerror tx (fa_result a))) w1 else w1)
           else (Fs_value True e, w1))
     (async_fs_callw env yield (fs_cli env) req w)"

definition async_filestream_wrapper_url_stat ::
  "texts \<Rightarrow> 'a file_store_scheme fs_env \<Rightarrow> 'a file_yield \<Rightarrow> string \<Rightarrow> bool \<Rightarrow> bool \<Rightarrow> 'a file_store_scheme \<Rightarrow>
   (uv_stat option fs_value \<times> 'a file_store_scheme) option" where
  "async_filestream_wrapper_url_stat tx env yield url link report w =
     (let path = strip_file_scheme url
      in if basedir_denied env path then Some (Fs_value None None, w)
         else case expand_filepath env path of
           None \<Rightarrow> Some (Fs_value None None, w)
         | Some real \<Rightarrow> map_option (\<lambda>(r, w1). case r of
               Fs_exit \<Rightarrow> (Fs_exit, w1)
             | Fs_value a e \<Rightarrow>
                 if fa_result a < 0
                 then (Fs_value None e,
                       if report then fs_warn (''Failed to stat file '' @ real @ '': '' @ strerror tx (fa_result a)) w1 else w1)
                 else (Fs_value (Some (map_stat (fa_stat a))) e, w1))
           (async_fs_callw env yield (fs_cli env) (if link then Fs_lstat real else Fs_stat real) w))"

definition async_filestream_wrapper_unlink ::
  "texts \<Rightarrow> 'a file_store_scheme fs_env \<Rightarrow> 'a file_yield \<Rightarrow> string \<Rightarrow> open_options \<Rightarrow> 'a file_store_scheme \<Rightarrow>
   (bool fs_value \<times> 'a file_store_scheme) option" where
  "async_filestream_wrapper_unlink tx env yield url opts w =
     (let path = strip_file_scheme url
      in if \<not> oo_no_basedir opts \<and> basedir_denied env path then Some (Fs_value False None, w)
         else case expand_filepath env path of
           None \<Rightarrow> Some (Fs_value False None, w)
         | Some real \<Rightarrow> path_request tx env yield (Fs_unlink real) (oo_report opts)
             (\<lambda>err. ''Failed to unlink file '' @ real @ '': '' @ err) w)"

text \<open>The paths are not expanded.\<close>

definition async_filestream_wrapper_rename ::
  "texts \<Rightarrow> 'a file_store_scheme fs_env \<Rightarrow> 'a file_yield \<Rightarrow> string \<Rightarrow> string \<Rightarrow> open_options \<Rightarrow> 'a file_store_scheme \<Rightarrow>
   (bool fs_value \<times> 'a file_store_scheme) option" where
  "async_filestream_wrapper_rename tx env yield url_from url_to opts w =
     (let src = strip_file_scheme url_from; dst = strip_file_scheme url_to
      in if basedir_denied env src \<or> basedir_denied env dst then Some (Fs_value False None, w)
         else path_request tx env yield (Fs_rename src dst) (oo_report opts)
             (\<lambda>err. ''Failed to rename '' @ src @ '': '' @ err) w)"

definition async_filestream_wrapper_rmdir ::
  "texts \<Rightarrow> 'a file_store_scheme fs_env \<Rightarrow> 'a file_yield \<Rightarrow> string \<Rightarrow> open_options \<Rightarrow> 'a file_store_scheme \<Rightarrow>
   (bool fs_value \<times> 'a file_store_scheme) option" where
  "async_filestream_wrapper_rmdir tx env yield url opts w =
     (let path = strip_file_scheme url
      in if \<not> oo_no_basedir opts \<and> basedir_denied env path then Some (Fs_value False None, w)
         else case expand_filepath env path of
           None \<Rightarrow> Some (Fs_value False None, w)
         | Some real \<Rightarrow> path_request tx env yield (Fs_rmdir real) (oo_report opts)
             (\<lambda>err. ''Failed to delete '' @ real @ '': '' @ err) w)"

section \<open>Creating directories\<close>

definition async_mkdir ::
  "'a file_store_scheme fs_env \<Rightarrow> 'a file_yield \<Rightarrow> string \<Rightarrow> int \<Rightarrow> 'a file_store_scheme \<Rightarrow>
   (int fs_value \<times> 'a file_store_scheme) option" where
  "async_mkdir env yield url mode w =
     map_option (\<lambda>(r, w1). (map_fs_value (\<lambda>a. to_c_int (fa_result a)) r, w1))
       (async_fs_callw env yield (fs_cli env) (Fs_mkdir url mode) w)"

text \<open>
  The buffer with the path; its end is followed by a zero character. \<open>last_slash\<close> is
  \<open>strrchr(buf + off, '/')\<close>; \<open>strip_slashes\<close> overwrites the slashes that end at a position, \<open>restore_slashes\<close> puts
  them back.
\<close>

definition last_slash :: "nat \<Rightarrow> string \<Rightarrow> nat option" where
  "last_slash off buf =
     (let s = c_str (drop off buf)
      in if CHR ''/'' \<in> set s then Some (off + (length s - Suc (length (takeWhile (\<lambda>c. c \<noteq> CHR ''/'') (rev s))))) else None)"

fun strip_slashes :: "string \<Rightarrow> nat \<Rightarrow> nat \<Rightarrow> string \<times> nat \<times> nat" where
  "strip_slashes buf 0 n = (buf, 0, n)"
| "strip_slashes buf (Suc p) n =
     (if buf ! p = CHR ''/'' then strip_slashes (buf[p := CHR 0x00]) p (Suc n) else (buf, Suc p, n))"

fun restore_slashes :: "string \<Rightarrow> nat \<Rightarrow> nat \<Rightarrow> string \<times> nat" where
  "restore_slashes buf p 0 = (buf[p := CHR ''/''], p)"
| "restore_slashes buf p (Suc n) = restore_slashes (buf[p := CHR ''/'']) (Suc p) n"

lemma last_slash_at:
  assumes "last_slash off buf = Some p"
  shows "p < length buf" and "buf ! p = CHR ''/''"
proof -
  define s where "s = c_str (drop off buf)"
  define k where "k = length (takeWhile (\<lambda>c. c \<noteq> CHR ''/'') (rev s))"
  have s: "CHR ''/'' \<in> set s" "p = off + (length s - Suc k)" using assms by (auto simp: last_slash_def s_def k_def Let_def split: if_splits)
  have "length (takeWhile P xs) < length xs" if "\<exists>x\<in>set xs. \<not> P x" for P and xs :: string
    using that by (induction xs) auto
  from this [of "rev s" "\<lambda>c. c \<noteq> CHR ''/''"] s(1) have k: "k < length s" unfolding k_def by auto
  have "rev s ! k = CHR ''/''" using nth_length_takeWhile [of "\<lambda>c. c \<noteq> CHR ''/''" "rev s"] k unfolding k_def by simp
  then have c: "s ! (p - off) = CHR ''/''" using k s(2) by (simp add: rev_nth)
  obtain n where t: "s = take n (drop off buf)" unfolding s_def c_str_def by (metis takeWhile_eq_take)
  then have l: "length s \<le> length buf - off" by simp
  have "s ! (p - off) = drop off buf ! (p - off)" unfolding t using k s(2) t by (intro nth_take) auto
  also have "\<dots> = buf ! p" using k s(2) l by simp
  finally have "s ! (p - off) = buf ! p" .
  with c show "buf ! p = CHR ''/''" by simp
  show "p < length buf" using k s(2) l by simp
qed

definition slashes :: "string \<Rightarrow> nat" where
  "slashes buf = length (filter (\<lambda>c. c = CHR ''/'') buf)"

lemma slashes_overwrite:
  assumes "p < length buf" and "buf ! p = CHR ''/''" and "c \<noteq> CHR ''/''"
  shows "slashes (buf[p := c]) < slashes buf"
proof -
  have "slashes buf = length (filter (\<lambda>c. c = CHR ''/'') (take p buf @ buf ! p # drop (Suc p) buf))"
    using assms(1) by (simp add: slashes_def id_take_nth_drop [symmetric])
  with assms show ?thesis by (simp add: slashes_def upd_conv_take_nth_drop)
qed

lemma strip_slashes_le: "strip_slashes buf p n = (b, r) \<Longrightarrow> p \<le> length buf \<Longrightarrow> slashes b \<le> slashes buf"
proof (induction buf p n rule: strip_slashes.induct)
  case (2 buf p n)
  show ?case
  proof (cases "buf ! p = CHR ''/''")
    case True
    then have "slashes b \<le> slashes (buf[p := CHR 0x00])" using 2 by simp
    also have "\<dots> < slashes buf" using True "2.prems"(2) by (intro slashes_overwrite) simp_all
    finally show ?thesis by simp
  qed (use "2.prems" in simp)
qed simp

text \<open>
  The loop that looks for the first directory, from the end of the path, that exists: the path up to
  there is left in the buffer, and its separator; \<open>None\<close> when none exists.
\<close>

function find_top :: "nat \<Rightarrow> (string \<Rightarrow> bool) \<Rightarrow> string \<Rightarrow> string \<times> nat option" where
  "find_top off ex buf = (case last_slash off buf of
     None \<Rightarrow> (buf, None)
   | Some p \<Rightarrow>
       let (b, q, n) = strip_slashes (buf[p := CHR 0x00]) p 0
       in if ex (c_str b) then (let (b', q') = restore_slashes b q n in (b', Some q')) else find_top off ex b)"
  by pat_completeness auto
termination
proof (relation "measure (\<lambda>(off, ex, buf). slashes buf)")
  fix off ex buf p x b y q n
  assume p: "last_slash off buf = Some p" and x: "x = strip_slashes (buf[p := CHR 0x00]) p 0" "(b, y) = x"
  have "slashes b \<le> slashes (buf[p := CHR 0x00])" using x last_slash_at(1) [OF p] strip_slashes_le [of "buf[p := CHR 0x00]" p 0 b y] by simp
  also have "\<dots> < slashes buf" using last_slash_at [OF p] by (intro slashes_overwrite) simp_all
  finally show "((off, ex, b), (off, ex, buf)) \<in> measure (\<lambda>(off, ex, buf). slashes buf)" by simp
qed simp

text \<open>The loop that creates what is behind a position \<open>p\<close>: every end of a string is turned into a separator again.\<close>

function create_below ::
  "(string \<Rightarrow> 'w \<Rightarrow> (int fs_value \<times> 'w) option) \<Rightarrow> string \<Rightarrow> nat \<Rightarrow> int fs_value \<Rightarrow> 'w \<Rightarrow> (int fs_value \<times> 'w) option" where
  "create_below mk buf p ret w =
     (if length buf \<le> Suc p then Some (ret, w)
      else if buf ! Suc p \<noteq> CHR 0x00 then create_below mk buf (Suc p) ret w
      else
        let b = buf[Suc p := CHR ''/'']
        in if length b \<le> Suc (Suc p) \<or> b ! Suc (Suc p) = CHR 0x00 then create_below mk b (Suc p) ret w
           else (case mk (c_str b) w of
             None \<Rightarrow> None
           | Some (r, w1) \<Rightarrow> (case r of
               Fs_exit \<Rightarrow> Some (Fs_exit, w1)
             | Fs_value code e \<Rightarrow>
                 if code < 0 then Some (r, w1) else create_below mk b (Suc p) r w1)))"
  by pat_completeness auto
termination
  by (relation "measure (\<lambda>(mk, buf, p, ret, w). length buf - p)") auto

declare find_top.simps [simp del] create_below.simps [simp del]

definition create_directories ::
  "(string \<Rightarrow> 'w \<Rightarrow> (int fs_value \<times> 'w) option) \<Rightarrow> (string \<Rightarrow> 'w \<Rightarrow> bool) \<Rightarrow> string \<Rightarrow> string \<Rightarrow> 'w \<Rightarrow>
   (int fs_value \<times> 'w) option" where
  "create_directories mk ex dir buf w =
     (let (b, p) = (if length dir = 1 then (buf, Some 0) else find_top (if dir = [] then 0 else 1) (\<lambda>s. ex s w) buf)
      in if p = Some 0 then mk dir w
         else Option.bind (mk (c_str b) w) (\<lambda>(r, w1). case r of
             Fs_exit \<Rightarrow> Some (Fs_exit, w1)
           | Fs_value code e \<Rightarrow> if code \<noteq> 0 then Some (r, w1) else create_below mk b (case p of None \<Rightarrow> 0 | Some q \<Rightarrow> q) r w1))"

text \<open>The expansion of a path is absolute: it starts with a slash.\<close>

definition async_filestream_wrapper_mkdir ::
  "texts \<Rightarrow> 'a file_store_scheme fs_env \<Rightarrow> 'a file_yield \<Rightarrow> string \<Rightarrow> int \<Rightarrow> bool \<Rightarrow> open_options \<Rightarrow> 'a file_store_scheme \<Rightarrow>
   (bool fs_value \<times> 'a file_store_scheme) option" where
  "async_filestream_wrapper_mkdir tx env yield url mode recursive opts w =
     (let dir = strip_file_scheme url; mk = (\<lambda>path w. async_mkdir env yield path mode w);
          ends = map_option (\<lambda>(r, w1). case r of
              Fs_exit \<Rightarrow> (Fs_exit, w1)
            | Fs_value code e \<Rightarrow> (Fs_value (\<not> code < 0) e, if code < 0 \<and> oo_report opts then fs_warn (strerror tx code) w1 else w1))
      in if \<not> recursive then ends (mk dir w)
         else case expand_filepath env dir of
           None \<Rightarrow> Some (Fs_value False None, fs_warn ''Invalid path'' w)
         | Some buf \<Rightarrow> ends (create_directories mk (path_exists env) dir buf w))"

section \<open>Meta data\<close>

definition async_chmod ::
  "texts \<Rightarrow> 'a file_store_scheme fs_env \<Rightarrow> 'a file_yield \<Rightarrow> string \<Rightarrow> int \<Rightarrow> 'a file_store_scheme \<Rightarrow>
   (int fs_value \<times> 'a file_store_scheme) option" where
  "async_chmod tx env yield url mode w =
     map_option (\<lambda>(r, w1). (map_fs_value (\<lambda>ok. if ok then 1 else 0) r, w1))
       (path_request tx env yield (Fs_chmod url mode) True (\<lambda>err. ''Operation failed: '' @ err) w)"

abbreviation UV_ENOENT :: int where "UV_ENOENT \<equiv> - 2"

definition async_touch ::
  "texts \<Rightarrow> 'a file_store_scheme fs_env \<Rightarrow> 'a file_yield \<Rightarrow> string \<Rightarrow> int \<Rightarrow> int \<Rightarrow> 'a file_store_scheme \<Rightarrow>
   (int fs_value \<times> 'a file_store_scheme) option" where
  "async_touch tx env yield url actime modtime w =
     map_option (\<lambda>(r, w1). case r of
         Fs_exit \<Rightarrow> (Fs_exit, w1)
       | Fs_value a e \<Rightarrow>
           if fa_result a = UV_ENOENT then (Fs_value UV_ENOENT e, w1)
           else if fa_result a < 0 then (Fs_value 0 e, fs_warn (''Operation failed: '' @ strerror tx (fa_result a)) w1)
           else (Fs_value 1 e, w1))
     (async_fs_callw env yield (fs_cli env) (Fs_utime url actime modtime) w)"

text \<open>The new file gets no permissions at all.\<close>

definition async_touch_create ::
  "texts \<Rightarrow> 'a file_store_scheme fs_env \<Rightarrow> 'a file_yield \<Rightarrow> string \<Rightarrow> 'a file_store_scheme \<Rightarrow>
   (int fs_value \<times> 'a file_store_scheme) option" where
  "async_touch_create tx env yield url w =
     Option.bind (async_fs_callw env yield (fs_cli env) (Fs_open url (O_CREAT OR O_APPEND) 0) w) (\<lambda>(r, w1). case r of
         Fs_exit \<Rightarrow> Some (Fs_exit, w1)
       | Fs_value a e \<Rightarrow>
           if fa_result a < 0 then Some (Fs_value 0 e, fs_warn (''Operation failed: '' @ strerror tx (fa_result a)) w1)
           else map_option (\<lambda>(r, w2). (map_fs_value (\<lambda>_. 1) r, w2))
                  (async_fs_callw env yield (fs_cli env) (Fs_close (fa_result a)) w1))"

text \<open>
  The options of \<open>stream_metadata\<close>; owners and groups are left to the wrapper that was replaced. When an
  exception is pending, it stays the pending one.
\<close>

datatype metadata = Meta_access int | Meta_touch int int | Meta_other

definition or_pending :: "'v fs_value \<Rightarrow> zval option \<Rightarrow> 'v fs_value" where
  "or_pending r e = (case r of Fs_exit \<Rightarrow> Fs_exit | Fs_value v e' \<Rightarrow> Fs_value v (if e' = None then e else e'))"

definition touch_file ::
  "texts \<Rightarrow> 'a file_store_scheme fs_env \<Rightarrow> 'a file_yield \<Rightarrow> string \<Rightarrow> int \<Rightarrow> int \<Rightarrow> 'a file_store_scheme \<Rightarrow>
   (int fs_value \<times> 'a file_store_scheme) option" where
  "touch_file tx env yield path actime modtime w =
     Option.bind (async_touch tx env yield path actime modtime w) (\<lambda>(r, w1). case r of
         Fs_exit \<Rightarrow> Some (Fs_exit, w1)
       | Fs_value ret e \<Rightarrow>
           if ret \<noteq> UV_ENOENT then Some (r, w1)
           else Option.bind (async_touch_create tx env yield path w1) (\<lambda>(r, w2). case r of
               Fs_exit \<Rightarrow> Some (Fs_exit, w2)
             | Fs_value ret e \<Rightarrow>
                 if ret = 0 then Some (r, w2)
                 else map_option (\<lambda>(r, w3). (or_pending (map_fs_value (\<lambda>ret. if ret = UV_ENOENT then 0 else ret) r) e, w3))
                        (async_touch tx env yield path actime modtime w2)))"

definition async_filestream_wrapper_metadata ::
  "texts \<Rightarrow> 'a file_store_scheme fs_env \<Rightarrow> 'a file_yield \<Rightarrow>
   (string \<Rightarrow> 'a file_store_scheme \<Rightarrow> (int fs_value \<times> 'a file_store_scheme) option) \<Rightarrow> string \<Rightarrow> metadata \<Rightarrow> 'a file_store_scheme \<Rightarrow>
   (int fs_value \<times> 'a file_store_scheme) option" where
  "async_filestream_wrapper_metadata tx env yield orig url opt w =
     (let path = strip_file_scheme url
      in if basedir_denied env path then Some (Fs_value 0 None, w)
         else case opt of
           Meta_access mode \<Rightarrow> async_chmod tx env yield path (to_c_int mode) w
         | Meta_touch actime modtime \<Rightarrow> touch_file tx env yield path actime modtime w
         | Meta_other \<Rightarrow> orig path w)"

section \<open>The module\<close>

text \<open>
  The wrapper is registered for its own scheme, and it takes the place of the wrapper for plain files
  when the settings say so, from the start to the end of the module.
\<close>

record 'p fs_module =
  fm_cli :: bool
  fm_enabled :: bool
  fm_schemes :: "string list"
  fm_plain :: 'p
  fm_orig :: 'p

definition async_filesystem_init :: "'p \<Rightarrow> 'p fs_module \<Rightarrow> 'p fs_module" where
  "async_filesystem_init async m =
     (if fm_cli m then
        let m1 = m\<lparr>fm_schemes := ''async-file'' # fm_schemes m\<rparr>
        in if fm_enabled m then m1\<lparr>fm_orig := fm_plain m1, fm_plain := async\<rparr> else m1
      else m)"

definition async_filesystem_shutdown :: "'p fs_module \<Rightarrow> 'p fs_module" where
  "async_filesystem_shutdown m =
     (if fm_cli m then
        let m1 = (if fm_enabled m then m\<lparr>fm_plain := fm_orig m\<rparr> else m)
        in m1\<lparr>fm_schemes := removeAll ''async-file'' (fm_schemes m1)\<rparr>
      else m)"

lemma shutdown_restores_wrapper:
  assumes "''async-file'' \<notin> set (fm_schemes m)"
  shows "fm_plain (async_filesystem_shutdown (async_filesystem_init async m)) = fm_plain m"
    and "fm_schemes (async_filesystem_shutdown (async_filesystem_init async m)) = fm_schemes m"
  using assms by (simp_all add: async_filesystem_init_def async_filesystem_shutdown_def Let_def removeAll_id)

end
