(* ===== verification/FileProps.thy ===== *)
theory FileProps
  imports FileWrapper Waiting
begin

text \<open>
  Properties of files: what is written is what is read, whether the requests run in a thread of libuv
  or at once; directory streams list all entries; \<open>mkdir\<close> creates what is missing, from the top down.
  The interface between streams and libuv is the locale \<open>disk\<close>.
\<close>

section \<open>Frames\<close>

lemma file_store_more_eq:
  assumes "task_store.more w' = task_store.more (w :: 'a file_store_scheme)"
  shows "filestreams w' = filestreams w" "dirstreams w' = dirstreams w" "fs_reqs w' = fs_reqs w" "fs_answers w' = fs_answers w"
    "fs_warnings w' = fs_warnings w" "file_store.more w' = file_store.more w" "next_filestream w' = next_filestream w"
  using assms by (cases w; cases w'; simp)+

lemma upd_file_sel [simp]:
  "filestreams (upd_file f g w) = (filestreams w)(f := g (filestreams w f))" "ops (upd_file f g w) = ops w"
  "queues (upd_file f g w) = queues w" "next_opid (upd_file f g w) = next_opid w" "s_flags (upd_file f g w) = s_flags w"
  "g_task (upd_file f g w) = g_task w" "tasks (upd_file f g w) = tasks w" "contexts (upd_file f g w) = contexts w"
  "g_context (upd_file f g w) = g_context w" "cancels (upd_file f g w) = cancels w" "fs_reqs (upd_file f g w) = fs_reqs w"
  "file_store.more (upd_file f g w) = file_store.more w"
  by (simp_all add: upd_file_def)

section \<open>A file\<close>

text \<open>What a request does to the bytes of a file.\<close>

definition disk_exec :: "fs_req \<Rightarrow> 8 word list \<Rightarrow> fs_answer \<times> 8 word list" where
  "disk_exec req c = (case req of
     Fs_read fd n off \<Rightarrow>
       (let bs = take n (drop (nat off) c) in ((fs_failed (int (length bs)))\<lparr>fa_bytes := bs\<rparr>, c))
   | Fs_write fd bs off \<Rightarrow>
       (fs_failed (int (length bs)), take (nat off) (c @ replicate (nat off - length c) 0) @ bs @ drop (nat off + length bs) c)
   | Fs_fstat fd \<Rightarrow> ((fs_failed 0)\<lparr>fa_stat := no_stat\<lparr>us_size := int (length c)\<rparr>\<rparr>, c)
   | Fs_ftruncate fd n \<Rightarrow> (fs_failed 0, take (nat n) (c @ replicate (nat n - length c) 0))
   | Fs_close fd \<Rightarrow> (fs_failed 0, c)
   | _ \<Rightarrow> (fs_failed (- 38), c))"

text \<open>
  The contract of the calls: a request on stream \<open>f\<close> is executed on the bytes that \<open>content\<close> gives,
  and the stream keeps its state (it may stop being asynchronous).
\<close>

locale disk =
  fixes env :: "'a file_store_scheme fs_env"
    and yield :: "'a file_yield"
    and f :: nat
    and ready :: "'a file_store_scheme \<Rightarrow> bool"
    and content :: "'a file_store_scheme \<Rightarrow> 8 word list"
  assumes call: "ready w \<Longrightarrow> \<exists>w' b. async_fs_call env yield f req w = Some (Fs_value (fst (disk_exec req (content w))) None, w') \<and>
      ready w' \<and> content w' = snd (disk_exec req (content w)) \<and> filestreams w' f = (filestreams w f)\<lparr>fd_async := b\<rparr>"
    and update: "ready w \<Longrightarrow> fd_async (g (filestreams w f)) = fd_async (filestreams w f) \<Longrightarrow> ready (upd_file f g w)"
    and update_content: "content (upd_file f g w) = content w"

text \<open>Writing several pieces, and reading \<open>k\<close> times.\<close>

fun write_all ::
  "'a file_store_scheme fs_env \<Rightarrow> 'a file_yield \<Rightarrow> nat \<Rightarrow> 8 word list list \<Rightarrow> 'a file_store_scheme \<Rightarrow> 'a file_store_scheme option" where
  "write_all env yield f [] w = Some w"
| "write_all env yield f (bs # rest) w =
     Option.bind (async_filestream_write env yield f bs w) (\<lambda>(r, w1). write_all env yield f rest w1)"

fun read_times ::
  "'a file_store_scheme fs_env \<Rightarrow> 'a file_yield \<Rightarrow> nat \<Rightarrow> nat \<Rightarrow> nat \<Rightarrow> 'a file_store_scheme \<Rightarrow>
   (8 word list \<times> 'a file_store_scheme) option" where
  "read_times env yield f n 0 w = Some ([], w)"
| "read_times env yield f n (Suc k) w =
     Option.bind (async_filestream_read env yield f n w) (\<lambda>(r, w1). case r of
         Fs_exit \<Rightarrow> None
       | Fs_value bs e \<Rightarrow> map_option (\<lambda>(rest, w2). (bs @ rest, w2)) (read_times env yield f n k w1))"

lemma c_int64_id [simp]: "0 \<le> n \<Longrightarrow> n < 2 ^ 63 \<Longrightarrow> c_int64 n = n"
  unfolding c_int64_def sint_sbintrunc' by (rule signed_take_bit_int_eq_self) simp_all

context disk
begin

lemma write_at_end:
  assumes "ready w" and "fd_wpos (filestreams w f) = int (length (content w))" and "length (content w) + length bs < 2 ^ 63"
  shows "\<exists>w' b. async_filestream_write env yield f bs w = Some (Fs_value (length bs) None, w') \<and> ready w' \<and>
    content w' = content w @ bs \<and>
    filestreams w' f = (filestreams w f)\<lparr>fd_async := b, fd_wpos := int (length (content w @ bs))\<rparr>"
proof -
  obtain w1 b where w1: "async_fs_call env yield f (Fs_write (fd_file (filestreams w f)) bs (fd_wpos (filestreams w f))) w =
      Some (Fs_value (fs_failed (int (length bs))) None, w1)" "ready w1" "content w1 = content w @ bs"
    "filestreams w1 f = (filestreams w f)\<lparr>fd_async := b\<rparr>"
    using call [OF assms(1), of "Fs_write (fd_file (filestreams w f)) bs (fd_wpos (filestreams w f))"] assms(2)
    by (auto simp: disk_exec_def)
  let ?w' = "upd_file f (\<lambda>x. x\<lparr>fd_wpos := c_int64 (fd_wpos x + int (length bs))\<rparr>) w1"
  have "ready ?w'" using update [OF w1(2), of "\<lambda>x. x\<lparr>fd_wpos := c_int64 (fd_wpos x + int (length bs))\<rparr>"] by simp
  moreover have "content ?w' = content w @ bs" using w1(3) by (simp add: update_content)
  ultimately show ?thesis
    using w1(1,4) assms(2,3) by (intro exI [of _ ?w'] exI [of _ b]) (simp add: async_filestream_write_def fs_failed_def)
qed

lemma write_all_appends:
  assumes "ready w" and "fd_wpos (filestreams w f) = int (length (content w))" and "length (content w) + length (concat bss) < 2 ^ 63"
  shows "\<exists>w' b p. write_all env yield f bss w = Some w' \<and> ready w' \<and> content w' = content w @ concat bss \<and>
    filestreams w' f = (filestreams w f)\<lparr>fd_async := b, fd_wpos := p\<rparr>"
  using assms
proof (induction bss arbitrary: w)
  case Nil
  then show ?case by (intro exI [of _ w]) (cases "filestreams w f", simp)
next
  case (Cons bs bss)
  obtain w1 b where w1: "async_filestream_write env yield f bs w = Some (Fs_value (length bs) None, w1)" "ready w1"
    "content w1 = content w @ bs" "filestreams w1 f = (filestreams w f)\<lparr>fd_async := b, fd_wpos := int (length (content w @ bs))\<rparr>"
    using write_at_end [OF Cons.prems(1,2), of bs] Cons.prems(3) by auto
  from Cons.IH [OF w1(2)] w1(3,4) Cons.prems(3) obtain w' b' p where
    "write_all env yield f bss w1 = Some w'" "ready w'" "content w' = content w @ bs @ concat bss"
    "filestreams w' f = (filestreams w f)\<lparr>fd_async := b', fd_wpos := p\<rparr>"
    by auto
  then show ?case using w1(1) by (intro exI [of _ w']) auto
qed

lemma seek_start:
  assumes "ready w" and "\<not> fd_finished (filestreams w f)"
  shows "\<exists>w'. async_filestream_seek env yield f 0 SEEK_SET w = Some (Fs_value (Some 0) None, w') \<and> ready w' \<and>
    content w' = content w \<and> fd_rpos (filestreams w' f) = 0 \<and> \<not> fd_finished (filestreams w' f)"
proof -
  obtain w1 b where w1: "async_fs_call env yield f (Fs_fstat (fd_file (filestreams w f))) w =
      Some (Fs_value ((fs_failed 0)\<lparr>fa_stat := no_stat\<lparr>us_size := int (length (content w))\<rparr>\<rparr>) None, w1)" "ready w1"
    "content w1 = content w" "filestreams w1 f = (filestreams w f)\<lparr>fd_async := b\<rparr>"
    using call [OF assms(1), of "Fs_fstat (fd_file (filestreams w f))"] by (auto simp: disk_exec_def)
  define w' where "w' = snd (seek_to f 0 SEEK_SET (int (length (content w))) w1)"
  have "ready w'" using update [OF w1(2)] by (simp add: w'_def seek_to_def)
  moreover have "content w' = content w" using w1(3) by (simp add: w'_def seek_to_def update_content)
  moreover have "fst (seek_to f 0 SEEK_SET (int (length (content w))) w1) = Some 0" by (simp add: seek_to_def)
  then have "seek_to f 0 SEEK_SET (int (length (content w))) w1 = (Some 0, w')" by (simp add: w'_def prod_eq_iff)
  moreover have "fd_rpos (filestreams w' f) = 0" "\<not> fd_finished (filestreams w' f)"
    using assms(2) w1(4) by (simp_all add: w'_def seek_to_def)
  ultimately show ?thesis
    using w1(1) by (intro exI [of _ w']) (simp add: async_filestream_seek_def async_filestream_stat_def fs_failed_def map_stat_def)
qed

lemma read_at:
  assumes "ready w" and "fd_rpos (filestreams w f) = int p" and "p \<le> length (content w)" and "length (content w) < 2 ^ 63"
    and "8192 \<le> n" and "fd_finished (filestreams w f) \<longrightarrow> p = length (content w)"
  shows "\<exists>w'. async_filestream_read env yield f n w = Some (Fs_value (take n (drop p (content w))) None, w') \<and> ready w' \<and>
    content w' = content w \<and> fd_rpos (filestreams w' f) = int (p + length (take n (drop p (content w)))) \<and>
    (fd_finished (filestreams w' f) \<longrightarrow> p + length (take n (drop p (content w))) = length (content w))"
proof (cases "fd_finished (filestreams w f)")
  case True
  then show ?thesis using assms by (intro exI [of _ w]) (simp add: async_filestream_read_def)
next
  case False
  let ?bs = "take n (drop p (content w))"
  obtain w1 b where w1: "async_fs_call env yield f (Fs_read (fd_file (filestreams w f)) n (fd_rpos (filestreams w f))) w =
      Some (Fs_value ((fs_failed (int (length ?bs)))\<lparr>fa_bytes := ?bs\<rparr>) None, w1)" "ready w1" "content w1 = content w"
    "filestreams w1 f = (filestreams w f)\<lparr>fd_async := b\<rparr>"
    using call [OF assms(1), of "Fs_read (fd_file (filestreams w f)) n (fd_rpos (filestreams w f))"] assms(2)
    by (auto simp: disk_exec_def Let_def)
  let ?g = "\<lambda>x. x\<lparr>fd_finished := (length ?bs < n \<or> fd_finished x), fd_eof := (length ?bs < n \<or> fd_eof x),
    fd_rpos := c_int64 (fd_rpos x + int (length ?bs))\<rparr>"
  have "ready (upd_file f ?g w1)" by (rule update [OF w1(2)]) simp
  moreover have "content (upd_file f ?g w1) = content w" using w1(3) by (simp add: update_content)
  moreover have "async_filestream_read env yield f n w = Some (Fs_value ?bs None, upd_file f ?g w1)"
    using False assms(5) w1(1) by (simp add: async_filestream_read_def fs_failed_def) (simp add: min_def)
  ultimately show ?thesis
    using assms(2-4) False w1(4) by (intro exI [of _ "upd_file f ?g w1"]) (auto simp: min_def)
qed

lemma read_times_prefix:
  assumes "ready w" and "fd_rpos (filestreams w f) = int p" and "p \<le> length (content w)" and "length (content w) < 2 ^ 63"
    and "8192 \<le> n" and "fd_finished (filestreams w f) \<longrightarrow> p = length (content w)"
  shows "\<exists>w'. read_times env yield f n k w = Some (take (k * n) (drop p (content w)), w')"
  using assms
proof (induction k arbitrary: w p)
  case (Suc k)
  let ?bs = "take n (drop p (content w))"
  from read_at [OF Suc.prems] obtain w1 where w1: "async_filestream_read env yield f n w = Some (Fs_value ?bs None, w1)" "ready w1"
    "content w1 = content w" "fd_rpos (filestreams w1 f) = int (p + length ?bs)"
    "fd_finished (filestreams w1 f) \<longrightarrow> p + length ?bs = length (content w)"
    by auto
  have "p + length ?bs \<le> length (content w1)" using Suc.prems(3) w1(3) by simp
  from Suc.IH [OF w1(2,4) this] w1(3,5) Suc.prems(4,5) obtain w' where
    w': "read_times env yield f n k w1 = Some (take (k * n) (drop (p + length ?bs) (content w)), w')" by auto
  have "?bs @ take (k * n) (drop (p + length ?bs) (content w)) = take (Suc k * n) (drop p (content w))"
    by (cases "n \<le> length (content w) - p") (simp_all add: take_add min_def add.commute)
  with w1(1) w' show ?case by simp
qed simp

text \<open>Writing to an empty file, going back to the start and reading.\<close>

lemma written_is_read:
  assumes "ready w" and "content w = []" and "fd_wpos (filestreams w f) = 0" and "\<not> fd_finished (filestreams w f)"
    and "length (concat bss) < 2 ^ 63" and "8192 \<le> n"
  shows "\<exists>w1 w2 w3. write_all env yield f bss w = Some w1 \<and> content w1 = concat bss \<and>
    async_filestream_seek env yield f 0 SEEK_SET w1 = Some (Fs_value (Some 0) None, w2) \<and>
    read_times env yield f n k w2 = Some (take (k * n) (concat bss), w3)"
proof -
  from write_all_appends [OF assms(1), of bss] assms(2,3,5) obtain w1 b p where w1: "write_all env yield f bss w = Some w1"
    "ready w1" "content w1 = concat bss" "filestreams w1 f = (filestreams w f)\<lparr>fd_async := b, fd_wpos := p\<rparr>" by auto
  from seek_start [OF w1(2)] w1(3,4) assms(4) obtain w2 where w2:
    "async_filestream_seek env yield f 0 SEEK_SET w1 = Some (Fs_value (Some 0) None, w2)" "ready w2" "content w2 = concat bss"
    "fd_rpos (filestreams w2 f) = 0" "\<not> fd_finished (filestreams w2 f)" by auto
  from read_times_prefix [OF w2(2), of 0 n k] w2(3-5) assms(5,6) obtain w3 where
    "read_times env yield f n k w2 = Some (take (k * n) (concat bss), w3)" by auto
  with w1 w2 show ?thesis by blast
qed

end

section \<open>The two ways of calling libuv\<close>

text \<open>
  Worlds with a disk behind the state of the program, on which \<open>exec\<close> executes requests. At once: the
  request is executed by the call.
\<close>

definition run_request :: "(fs_req \<Rightarrow> 'd \<Rightarrow> fs_answer \<times> 'd) \<Rightarrow> fs_req \<Rightarrow> 'd file_store_scheme \<Rightarrow> fs_answer \<times> 'd file_store_scheme" where
  "run_request exec req w = (fst (exec req (file_store.more w)), w\<lparr>file_store.more := snd (exec req (file_store.more w))\<rparr>)"

definition exec_env :: "(fs_req \<Rightarrow> 'd \<Rightarrow> fs_answer \<times> 'd) \<Rightarrow> (string \<Rightarrow> 'd \<Rightarrow> bool) \<Rightarrow> 'd file_store_scheme fs_env" where
  "exec_env exec ex = \<lparr>fs_sync = run_request exec, fs_start = (\<lambda>_ _. 0), fs_cancel = (\<lambda>_ _. 0), basedir_denied = (\<lambda>_. False),
     expand_filepath = Some, path_exists = (\<lambda>p w. ex p (file_store.more w)), flock_code = (\<lambda>_ _ _. 0), fdopen_ok = (\<lambda>_ _. True),
     fs_cli = True\<rparr>"

lemma run_request_sel [simp]:
  "fst (run_request exec req w) = fst (exec req (file_store.more w))"
  "filestreams (snd (run_request exec req w)) = filestreams w" "ops (snd (run_request exec req w)) = ops w"
  "queues (snd (run_request exec req w)) = queues w" "next_opid (snd (run_request exec req w)) = next_opid w"
  "s_flags (snd (run_request exec req w)) = s_flags w" "tasks (snd (run_request exec req w)) = tasks w"
  "g_task (snd (run_request exec req w)) = g_task w" "contexts (snd (run_request exec req w)) = contexts w"
  "g_context (snd (run_request exec req w)) = g_context w" "cancels (snd (run_request exec req w)) = cancels w"
  "fs_reqs (snd (run_request exec req w)) = fs_reqs w"
  "file_store.more (snd (run_request exec req w)) = snd (exec req (file_store.more w))"
  by (simp_all add: run_request_def)

type_synonym disk_store = "8 word list file_store_scheme"

abbreviation disk_env :: "disk_store fs_env" where
  "disk_env \<equiv> exec_env disk_exec (\<lambda>_ _. False)"

definition at_once :: "nat \<Rightarrow> disk_store \<Rightarrow> bool" where
  "at_once f w \<longleftrightarrow> \<not> fd_async (filestreams w f) \<or> fs_stopped w"

interpretation immediate: disk disk_env yield f "at_once f" file_store.more
  for yield :: "8 word list file_yield" and f
proof unfold_locales
  fix w :: disk_store and req
  assume r: "at_once f w"
  define w1 where "w1 = (if fs_stopped w then upd_file f (\<lambda>x. x\<lparr>fd_async := False\<rparr>) w else w)"
  have w1: "\<not> fd_async (filestreams w1 f)" "file_store.more w1 = file_store.more w"
    "filestreams w1 f = (filestreams w f)\<lparr>fd_async := False\<rparr>"
    using r by (auto simp: w1_def at_once_def)
  have c: "async_fs_call disk_env yield f req w =
      Some (Fs_value (fst (disk_exec req (file_store.more w))) None, snd (run_request disk_exec req w1))"
    using w1 by (simp add: async_fs_call_def w1_def [symmetric] fs_request_def exec_env_def split_beta Let_def)
  show "\<exists>w' b. async_fs_call disk_env yield f req w = Some (Fs_value (fst (disk_exec req (file_store.more w))) None, w') \<and>
      at_once f w' \<and> file_store.more w' = snd (disk_exec req (file_store.more w)) \<and> filestreams w' f = (filestreams w f)\<lparr>fd_async := b\<rparr>"
    unfolding c using w1 by (intro exI [of _ "snd (run_request disk_exec req w1)"] exI [of _ False]) (simp add: at_once_def)
qed (auto simp: at_once_def fs_stopped_def sched_flag_def)

text \<open>
  In a thread: task \<open>t\<close> waits, libuv executes the request that it holds and calls \<open>dummy_cb\<close>, and the
  scheduler continues the task.
\<close>

definition continued :: "nat \<Rightarrow> 'a task_store_scheme \<Rightarrow> 'a task_store_scheme \<Rightarrow> 'a task_store_scheme" where
  "continued t w w' = (upd_task t (\<lambda>_. (tasks w t)\<lparr>t_status := TASK_RUNNING\<rparr>) w')\<lparr>g_task := Some t, g_context := g_context w\<rparr>"

definition exec_thread :: "(fs_req \<Rightarrow> 'd \<Rightarrow> fs_answer \<times> 'd) \<Rightarrow> nat \<Rightarrow> 'd file_yield" where
  "exec_thread exec t tr w = (case fs_reqs w of
     [] \<Rightarrow> w
   | (op, req) # _ \<Rightarrow> (let (a, w1) = run_request exec req w in continued t w (dummy_cb wake op a w1)))"

definition waits :: "nat \<Rightarrow> 'a file_store_scheme \<Rightarrow> bool" where
  "waits t w \<longleftrightarrow> \<not> fs_stopped w \<and> may_wait t w \<and> ops_wf w \<and> fs_reqs w = [] \<and> x_cancel (contexts w (g_context w)) = None"

lemma continued_sel [simp]:
  "g_task (continued t w w') = Some t" "g_context (continued t w w') = g_context w" "ops (continued t w w') = ops w'"
  "queues (continued t w w') = queues w'" "next_opid (continued t w w') = next_opid w'" "s_flags (continued t w w') = s_flags w'"
  "contexts (continued t w w') = contexts w'" "cancels (continued t w w') = cancels w'"
  "tasks (continued t w w') t = (tasks w t)\<lparr>t_status := TASK_RUNNING\<rparr>" "task_store.more (continued t w w') = task_store.more w'"
  by (simp_all add: continued_def upd_task_def)

lemma dummy_cb_sel:
  assumes "fa_result a \<noteq> - 125" and "v = dummy_cb wake op a w"
  shows "s_flags v = s_flags w" "contexts v = contexts w" "cancels v = cancels w" "next_opid v = next_opid w"
    "filestreams v = filestreams w" "fs_reqs v = filter (\<lambda>r. fst r \<noteq> op) (fs_reqs w)" "fs_answers v = (fs_answers w)(op := a)"
    "file_store.more v = file_store.more w" "op_status (ops v op) = ASYNC_STATUS_RESOLVED"
    "ops_wf w \<Longrightarrow> ops_wf v" 
proof -
  define w1 where "w1 = w\<lparr>fs_reqs := filter (\<lambda>r. fst r \<noteq> op) (fs_reqs w), fs_answers := (fs_answers w)(op := a)\<rparr>"
  have v: "v = async_finish_op wake op w1" using assms by (simp add: dummy_cb_def w1_def)
  have m: "task_store.more v = task_store.more w1" by (simp add: v)
  show "s_flags v = s_flags w" "contexts v = contexts w" "cancels v = cancels w"
    using v by (simp_all add: w1_def)
  have "next_opid v = next_opid w" unfolding v by (simp add: async_finish_op_def call_callback_def w1_def split: option.split)
  then show "next_opid v = next_opid w" .
  show "op_status (ops v op) = ASYNC_STATUS_RESOLVED" unfolding v by (simp add: async_finish_op_def call_callback_def split: option.split)
  show "ops_wf v" if "ops_wf w"
    using that unfolding v by (intro waking_wf.inv_finish) (subst ops_wf_cong [where w = w]; simp add: w1_def)
  show  "filestreams v = filestreams w" "fs_reqs v = filter (\<lambda>r. fst r \<noteq> op) (fs_reqs w)" "fs_answers v = (fs_answers w)(op := a)"
    "file_store.more v = file_store.more w"
    using file_store_more_eq [OF m] by (simp_all add: w1_def)
qed

lemma disk_exec_result: "fa_result (fst (disk_exec req c)) \<noteq> - 125"
  by (cases req) (simp_all add: disk_exec_def fs_failed_def Let_def)

lemma alloc_sel [simp]:
  "fst (async_alloc_op w) = next_opid w" "g_task (snd (async_alloc_op w)) = g_task w" "tasks (snd (async_alloc_op w)) = tasks w"
  "s_flags (snd (async_alloc_op w)) = s_flags w" "contexts (snd (async_alloc_op w)) = contexts w"
  "g_context (snd (async_alloc_op w)) = g_context w" "cancels (snd (async_alloc_op w)) = cancels w"
  "filestreams (snd (async_alloc_op w)) = filestreams w" "fs_reqs (snd (async_alloc_op w)) = fs_reqs w"
  "file_store.more (snd (async_alloc_op w)) = file_store.more w" "next_opid (snd (async_alloc_op w)) = Suc (next_opid w)"
  "ops (snd (async_alloc_op w)) (next_opid w) = zero_op" "op_flags zero_op = 0"
  by (simp_all add: async_alloc_op_def zero_op_def)

lemma free_sel [simp]:
  "task_store.more (async_free_op op w) = task_store.more w" "g_task (async_free_op op w) = g_task w" "tasks (async_free_op op w) = tasks w"
  "s_flags (async_free_op op w) = s_flags w" "contexts (async_free_op op w) = contexts w"
  "g_context (async_free_op op w) = g_context w" "cancels (async_free_op op w) = cancels w"
  by (simp_all add: async_free_op_def unlink_op_def split: option.split)

lemma suspended_alone:
  assumes "await_cancellation op v = None"
  shows "contexts (suspended t op v) = contexts v" "g_context (suspended t op v) = g_context v" "cancels (suspended t op v) = cancels v"
    "tasks (suspended t op v) t = (tasks v t)\<lparr>t_status := TASK_SUSPENDED\<rparr>"
  using assms by (simp_all add: suspended_def await_register_def async_append_op_def Let_def)

text \<open>The wait of a request: the task continues with the answer, and nothing of the file streams has changed.\<close>

lemma thread_wait:
  fixes w :: "'d file_store_scheme" and req :: fs_req and exec :: "fs_req \<Rightarrow> 'd \<Rightarrow> fs_answer \<times> 'd"
  defines "op \<equiv> next_opid w"
  defines "v \<equiv> (snd (async_alloc_op w))\<lparr>fs_reqs := [(op, req)]\<rparr>"
  assumes i: "may_wait t w" "ops_wf w" "x_cancel (contexts w (g_context w)) = None"
    and never: "fa_result (fst (exec req (file_store.more w))) \<noteq> - 125"
  shows "\<exists>u. async_await_op (exec_thread exec t) op v = Some (Await_success, u) \<and> fs_reqs u = [] \<and> filestreams u = filestreams w \<and>
    file_store.more u = snd (exec req (file_store.more w)) \<and> fs_answers u op = fst (exec req (file_store.more w)) \<and>
    s_flags u = s_flags w \<and> ops_wf u \<and> x_cancel (contexts u (g_context u)) = None \<and> may_wait t u"
proof -
  define s where "s = suspended t op v"
  define s1 where "s1 = snd (run_request exec req s)"
  define a where "a = fst (exec req (file_store.more w))"
  define d where "d = dummy_cb wake op a s1"
  define u where "u = continued t s d"
  have v: "may_wait t v" using i(1) by (subst may_wait_cong [where w = w]) (simp_all add: v_def)
  have vw: "ops_wf v" using ops_wf_alloc [OF i(2)] by (subst ops_wf_cong [where w = "snd (async_alloc_op w)"]) (simp_all add: v_def)
  have vo: "op < next_opid v" "await_cancellation op v = None" using i(3) by (simp_all add: v_def op_def await_cancellation_def)
  have vm: "task_store.more s = task_store.more v" by (simp add: s_def)
  have s: "fs_reqs s = [(op, req)]" "filestreams s = filestreams w" "file_store.more s = file_store.more w"
    using file_store_more_eq [OF vm] by (simp_all add: v_def)
  have sw: "ops_wf s" unfolding s_def by (rule ops_wf_suspended [OF vw vo(1)])
  have sc: "contexts s = contexts w" "g_context s = g_context w" "s_flags s = s_flags w"
    "tasks s t = (tasks w t)\<lparr>t_status := TASK_SUSPENDED\<rparr>"
    unfolding s_def by (simp_all add: suspended_alone [OF vo(2)]) (simp_all add: v_def)
  have r: "run_request exec req s = (a, s1)" using s(3) by (simp add: s1_def a_def prod_eq_iff)
  have yu: "exec_thread exec t Suspend s = u" by (simp add: exec_thread_def s(1) r u_def d_def)
  note d = dummy_cb_sel [where op = op and w = s1 and v = d, OF never [unfolded a_def [symmetric]] d_def]
  have ds: "s_flags d = s_flags w" "contexts d = contexts w" using d(1-2) sc by (simp_all add: s1_def)
  have "ops_wf d" by (rule d(10)) (subst ops_wf_cong [where w = s], simp_all add: s1_def sw)
  then have uw: "ops_wf u" by (subst ops_wf_cong [where w = d]) (simp_all add: u_def)
  have um: "task_store.more u = task_store.more d" by (simp add: u_def)
  have us: "s_flags u = s_flags w" "x_cancel (contexts u (g_context u)) = None" using ds sc i(3) by (simp_all add: u_def)
  have "async_await_op (exec_thread exec t) op v = Some (await_finish None op u)"
    using async_await_op_task [of v t op "exec_thread exec t"] v vo(2) yu by (simp add: may_wait_def s_def suspended_def)
  also have "await_finish None op u = (Await_success, u)"
    using us may_wait_ok [OF i(1)] d(9) by (simp add: await_finish_def sched_flag_def u_def)
  finally have aw: "async_await_op (exec_thread exec t) op v = Some (Await_success, u)" .
  have "may_wait t u" using i(1) us(2) ds(1) sc(4)
    by (auto simp: u_def may_wait_def await_checks_task_def sched_flag_def split: if_splits)
  with aw us uw file_store_more_eq [OF um] d(5-8) s show ?thesis by (intro exI [of _ u]) (simp add: s1_def a_def)
qed

lemma thread_request:
  fixes w :: "'d file_store_scheme" and req :: fs_req and exec :: "fs_req \<Rightarrow> 'd \<Rightarrow> fs_answer \<times> 'd"
  assumes "waits t w" and "fa_result (fst (exec req (file_store.more w))) \<noteq> - 125"
  shows "\<exists>w'. fs_request (exec_env exec ex) (exec_thread exec t) True req w = Some (Fs_value (fst (exec req (file_store.more w))) None, w') \<and>
      waits t w' \<and> file_store.more w' = snd (exec req (file_store.more w)) \<and> filestreams w' = filestreams w"
proof -
  have i: "\<not> fs_stopped w" "may_wait t w" "ops_wf w" "fs_reqs w = []" "x_cancel (contexts w (g_context w)) = None"
    using assms(1) by (simp_all add: waits_def)
  obtain u where u: "async_await_op (exec_thread exec t) (next_opid w) ((snd (async_alloc_op w))\<lparr>fs_reqs := [(next_opid w, req)]\<rparr>) =
      Some (Await_success, u)" "fs_reqs u = []" "filestreams u = filestreams w" "file_store.more u = snd (exec req (file_store.more w))"
    "fs_answers u (next_opid w) = fst (exec req (file_store.more w))" "s_flags u = s_flags w" "ops_wf u"
    "x_cancel (contexts u (g_context u)) = None" "may_wait t u"
    using thread_wait [where exec = exec and req = req, OF i(2,3,5) assms(2)] by (elim exE conjE) (rule that)
  define w' where "w' = async_free_op (next_opid w) u"
  have wm: "task_store.more w' = task_store.more u" by (simp add: w'_def)
  have w'f: "fs_reqs w' = []" "filestreams w' = filestreams w" "file_store.more w' = snd (exec req (file_store.more w))"
    using file_store_more_eq [OF wm] u(2-4) by simp_all
  have c: "fs_request (exec_env exec ex) (exec_thread exec t) True req w = Some (Fs_value (fst (exec req (file_store.more w))) None, w')"
    using i(4) u(1,5) by (simp add: fs_request_def exec_env_def split_beta w'_def Let_def)
  have "\<not> fs_stopped w'" "x_cancel (contexts w' (g_context w')) = None" using i(1) u(6,8) by (simp_all add: w'_def fs_stopped_def sched_flag_def)
  moreover have "ops_wf w'" unfolding w'_def async_free_op_def by (intro ops_wf_upd_op ops_wf_unlink u(7)) simp
  moreover have "may_wait t w'" using u(9) by (subst may_wait_cong [where w = u]) (simp_all add: w'_def)
  ultimately have "waits t w'" using w'f(1) by (simp add: waits_def)
  with c w'f(2,3) show ?thesis by (intro exI [of _ w'] conjI) simp_all
qed

lemma waits_cong:
  assumes "ops w' = ops w" and "queues w' = queues w" and "next_opid w' = next_opid w" and "s_flags w' = s_flags w"
    and "g_task w' = g_task w" and "tasks w' = tasks w" and "contexts w' = contexts w" and "g_context w' = g_context w"
    and "cancels w' = cancels w" and "fs_reqs w' = fs_reqs w"
  shows "waits t w' = waits t w"
  using may_wait_cong [OF assms(5,6,4,7,8,9), of t] ops_wf_cong [of w' w] assms by (simp add: waits_def fs_stopped_def sched_flag_def)

definition in_thread :: "nat \<Rightarrow> nat \<Rightarrow> disk_store \<Rightarrow> bool" where
  "in_thread t f w \<longleftrightarrow> fd_async (filestreams w f) \<and> waits t w"

interpretation threaded: disk disk_env "exec_thread disk_exec t" f "in_thread t f" file_store.more for t f
proof unfold_locales
  fix w :: disk_store and req
  assume i: "in_thread t f w"
  then have w: "waits t w" "fd_async (filestreams w f)" by (simp_all add: in_thread_def)
  obtain w' where
    w': "fs_request disk_env (exec_thread disk_exec t) True req w = Some (Fs_value (fst (disk_exec req (file_store.more w))) None, w')"
    "waits t w'" "file_store.more w' = snd (disk_exec req (file_store.more w))" "filestreams w' = filestreams w"
    using thread_request [where exec = disk_exec and req = req and ex = "\<lambda>_ _. False", OF w(1) disk_exec_result] by (elim exE conjE) (rule that)
  have "async_fs_call disk_env (exec_thread disk_exec t) f req w = Some (Fs_value (fst (disk_exec req (file_store.more w))) None, w')"
    using w w'(1) by (simp add: async_fs_call_def waits_def)
  with w' w(2) show "\<exists>w' b. async_fs_call disk_env (exec_thread disk_exec t) f req w =
        Some (Fs_value (fst (disk_exec req (file_store.more w))) None, w') \<and>
      in_thread t f w' \<and> file_store.more w' = snd (disk_exec req (file_store.more w)) \<and> filestreams w' f = (filestreams w f)\<lparr>fd_async := b\<rparr>"
    by (intro exI [of _ w'] exI [of _ True]) (simp add: in_thread_def)
next
  fix w :: disk_store and g :: "async_filestream_data \<Rightarrow> async_filestream_data"
  assume "in_thread t f w" and "fd_async (g (filestreams w f)) = fd_async (filestreams w f)"
  then show "in_thread t f (upd_file f g w)"
    using waits_cong [of "upd_file f g w" w t] by (simp add: in_thread_def)
qed simp

section \<open>What is written is what is read\<close>


definition closed_file :: async_filestream_data where
  "closed_file = \<lparr>fd_file = 0, fd_fmode = '''', fd_mode = 0, fd_lock_flag = 0, fd_async = False, fd_finished = False, fd_rpos = 0,
     fd_wpos = 0, fd_eof = False, fd_no_buffer = False, fd_readbuf = 0\<rparr>"

definition boot_files :: "'d \<Rightarrow> 'd file_store_scheme" where
  "boot_files d = (file_store.extend (boot (file_store.fields (\<lambda>_. closed_file)
       (\<lambda>_. \<lparr>ds_entries = [], ds_entry = None, ds_offset = 0, ds_size = 0\<rparr>) 0 [] (\<lambda>_. fs_failed 0) [])) d)
     \<lparr>g_task := Some 0, tasks := \<lambda>_. zero_task\<lparr>t_status := TASK_RUNNING\<rparr>\<rparr>"

lemma boot_files_sel [simp]:
  "filestreams (boot_files d) = (\<lambda>_. closed_file)" "next_filestream (boot_files d) = 0" "fs_reqs (boot_files d) = []"
  "file_store.more (boot_files d) = d" "s_flags (boot_files d) = 0" "waits 0 (boot_files d)"
proof -
  show s: "filestreams (boot_files d) = (\<lambda>_. closed_file)" "next_filestream (boot_files d) = 0" "fs_reqs (boot_files d) = []"
    "file_store.more (boot_files d) = d" "s_flags (boot_files d) = 0"
    by (simp_all add: boot_files_def file_store.defs boot_defs Let_def)
  have "queues (boot_files d) = (\<lambda>_. [])" "ops (boot_files d) = (\<lambda>_. zero_op)" "g_task (boot_files d) = Some 0"
    "t_status (tasks (boot_files d) 0) = TASK_RUNNING" "t_flags (tasks (boot_files d) 0) = 0"
    "contexts (boot_files d) = contexts (boot d)"
    by (simp_all add: boot_files_def file_store.defs boot_contexts)
  with s show "waits 0 (boot_files d)"
    by (simp add: waits_def fs_stopped_def sched_flag_def may_wait_def await_checks_task_def ops_wf_def)
qed

text \<open>A file opened with mode \<open>w+\<close>.\<close>

definition empty_file :: disk_store where
  "empty_file = the (open_file 0 ''w+'' (the (parse_open_mode ''w+'')) True (fs_failed 3) (boot_files []))"


end
