(* ===== verification/DirProps.thy ===== *)
theory DirProps
  imports FileProps
begin

text \<open>
  Properties of directories: a directory stream lists all entries, and \<open>mkdir\<close> creates what is missing
  above a directory, from the top down. The interface to what creates one directory is the locale
  \<open>dir_maker\<close>. Then, what goes wrong in requests that are cancelled, and in files that are touched.
\<close>

section \<open>Directory streams\<close>

fun read_entries :: "nat \<Rightarrow> nat \<Rightarrow> 'a file_store_scheme \<Rightarrow> string option list \<times> 'a file_store_scheme" where
  "read_entries d 0 w = ([], w)"
| "read_entries d (Suc k) w = (let (e, w1) = async_dirstream_read d w; (es, w2) = read_entries d k w1 in (e # es, w2))"

lemma upd_dir_sel [simp]: "dirstreams (upd_dir d g w) = (dirstreams w)(d := g (dirstreams w d))"
  by (simp add: upd_dir_def)

lemma read_entries_from:
  assumes "ds_entries (dirstreams w d) = es" and "ds_entry (dirstreams w d) = (if i < length es then Some i else None)"
  shows "\<exists>w'. read_entries d k w = (map Some (take k (drop i es)) @ replicate (k - (length es - i)) None, w') \<and>
    ds_entries (dirstreams w' d) = es"
  using assms
proof (induction k arbitrary: w i)
  case (Suc k)
  show ?case
  proof (cases "i < length es")
    case True
    let ?w1 = "upd_dir d (\<lambda>x. x\<lparr>ds_entry := entry_next (ds_entries x) (Some i), ds_offset := ds_offset x + 1\<rparr>) w"
    have "\<exists>w'. read_entries d k ?w1 = (map Some (take k (drop (Suc i) es)) @ replicate (k - (length es - Suc i)) None, w') \<and>
        ds_entries (dirstreams w' d) = es"
      using Suc.prems(1) by (intro Suc.IH) (simp_all add: entry_next_def)
    with True Suc.prems show ?thesis
      by (auto simp: async_dirstream_read_def Cons_nth_drop_Suc [symmetric] Suc_diff_Suc Let_def)
  next
    case False
    with Suc.IH [OF Suc.prems] Suc.prems show ?thesis by (auto simp: async_dirstream_read_def Let_def)
  qed
qed simp

text \<open>
  A directory stream gives ".", ".." and every name that libuv listed, in its order, then the end
  of the directory again and again; a script that goes back to the start reads the same.
\<close>

theorem directory_lists_entries:
  defines "es \<equiv> \<lambda>names k. map Some (take k (''.'' # ''..'' # names)) @ replicate (k - (length names + 2)) None"
  shows "\<exists>w1 w2 w3. read_entries d k (create_dirstream d names w) = (es names k, w1) \<and>
    async_dirstream_rewind d 0 SEEK_SET w1 = (Some 0, w2) \<and> read_entries d j w2 = (es names j, w3)"
proof -
  define all where "all = ''.'' # ''..'' # names"
  from read_entries_from [of "create_dirstream d names w" d all 0 k] obtain w1 where
    w1: "read_entries d k (create_dirstream d names w) = (es names k, w1)" "ds_entries (dirstreams w1 d) = all"
    by (auto simp: create_dirstream_def all_def es_def)
  define w2 where "w2 = snd (async_dirstream_rewind d 0 SEEK_SET w1)"
  have w2: "async_dirstream_rewind d 0 SEEK_SET w1 = (Some 0, w2)" "ds_entries (dirstreams w2 d) = all" "ds_entry (dirstreams w2 d) = Some 0"
    using w1(2) by (simp_all add: w2_def async_dirstream_rewind_def all_def)
  from read_entries_from [of w2 d all 0 j] w2(2,3) obtain w3 where "read_entries d j w2 = (es names j, w3)"
    by (auto simp: all_def es_def)
  with w1 w2 show ?thesis by blast
qed

section \<open>Paths in a buffer\<close>

definition path_of :: "string list \<Rightarrow> string" where
  "path_of cs = concat (map ((#) (CHR ''/'')) cs)"

text \<open>A buffer in which the separators from some point on are overwritten.\<close>

definition buffer :: "string list \<Rightarrow> string list \<Rightarrow> string" where
  "buffer xs ys = path_of xs @ concat (map ((#) (CHR 0x00)) ys)"

definition component :: "string \<Rightarrow> bool" where
  "component c \<longleftrightarrow> c \<noteq> [] \<and> CHR ''/'' \<notin> set c \<and> CHR 0x00 \<notin> set c"

lemma path_of_simps [simp]: "path_of [] = []" "path_of (xs @ ys) = path_of xs @ path_of ys" "path_of (c # cs) = CHR ''/'' # c @ path_of cs"
  by (simp_all add: path_of_def)

lemma path_of_Nil [simp]: "path_of cs = [] \<longleftrightarrow> cs = []"
  by (cases cs) simp_all

lemma path_of_no_end: "\<forall>c\<in>set cs. component c \<Longrightarrow> CHR 0x00 \<notin> set (path_of cs)"
  by (auto simp: path_of_def component_def)

lemma c_str_append: "CHR 0x00 \<notin> set a \<Longrightarrow> c_str (a @ b) = a @ c_str b"
  by (induction a) (auto simp: c_str_def)

lemma c_str_ends: "c_str [] = []" "c_str (CHR 0x00 # b) = []"
  by (simp_all add: c_str_def)

lemma c_str_buffer: "\<forall>c\<in>set xs. component c \<Longrightarrow> c_str (buffer xs ys) = path_of xs"
  using c_str_append [OF path_of_no_end, of xs "[]"]
  by (cases ys) (simp_all add: buffer_def c_str_append path_of_no_end c_str_ends)

lemma last_slash_buffer:
  assumes "\<forall>c\<in>set (zs @ [c]). component c"
  shows "last_slash 1 (buffer (zs @ [c]) ys) = (if zs = [] then None else Some (length (path_of zs)))"
proof -
  have d: "c_str (drop 1 (buffer (zs @ [c]) ys)) = drop 1 (path_of (zs @ [c]))"
  proof -
    obtain r where r: "buffer (zs @ [c]) ys = CHR ''/'' # r" by (cases zs) (simp_all add: buffer_def)
    have "CHR ''/'' # c_str r = path_of (zs @ [c])" using c_str_buffer [OF assms, of ys] unfolding r by (simp add: c_str_def)
    then show ?thesis unfolding r by (metis drop_Suc_Cons drop_0 One_nat_def)
  qed
  have c: "CHR ''/'' \<notin> set c" using assms by (simp add: component_def)
  show ?thesis
  proof (cases zs)
    case Nil
    then show ?thesis unfolding last_slash_def d using c by (simp add: Let_def)
  next
    case (Cons z zs')
    have "takeWhile (\<lambda>x. x \<noteq> CHR ''/'') (rev c @ CHR ''/'' # r) = rev c" for r
      using c by (subst takeWhile_append2) auto
    then show ?thesis unfolding last_slash_def d using Cons by (simp add: Let_def)
  qed
qed

lemma strip_buffer:
  assumes "\<forall>c\<in>set zs. component c" and "zs \<noteq> []"
  shows "strip_slashes ((buffer (zs @ [c]) ys)[length (path_of zs) := CHR 0x00]) (length (path_of zs)) 0 =
    (buffer zs (c # ys), length (path_of zs), 0)"
proof -
  obtain as a where z: "zs = as @ [a]" using assms(2) by (metis rev_exhaust)
  have b: "(buffer (zs @ [c]) ys)[length (path_of zs) := CHR 0x00] = buffer zs (c # ys)" by (simp add: buffer_def)
  have a: "a \<noteq> []" "CHR ''/'' \<notin> set a" using assms(1) z by (simp_all add: component_def)
  define p where "p = length (path_of as) + length a"
  have p: "length (path_of zs) = Suc p" by (simp add: z p_def)
  have "buffer zs (c # ys) ! p = (path_of as @ CHR ''/'' # a) ! p"
    unfolding buffer_def z by (subst nth_append) (simp add: p_def)
  also have "\<dots> = last a" using a(1) by (simp add: p_def nth_append last_conv_nth nth_Cons')
  finally have "buffer zs (c # ys) ! p \<noteq> CHR ''/''" using a last_in_set by metis
  then show ?thesis unfolding b unfolding p by simp
qed

lemma find_top_step:
  assumes "\<forall>c\<in>set (zs @ [c]). component c"
  shows "find_top 1 ex (buffer (zs @ [c]) ys) =
    (if zs = [] then (buffer [c] ys, None)
     else if ex (path_of zs) then (buffer (zs @ [c]) ys, Some (length (path_of zs)))
     else find_top 1 ex (buffer zs (c # ys)))"
proof (cases "zs = []")
  case True
  then show ?thesis using last_slash_buffer [OF assms, of ys] by (simp add: find_top.simps)
next
  case False
  have z: "\<forall>c\<in>set zs. component c" using assms by simp
  have "restore_slashes (buffer zs (c # ys)) (length (path_of zs)) 0 = (buffer (zs @ [c]) ys, length (path_of zs))"
    by (simp add: buffer_def)
  then show ?thesis
    using False last_slash_buffer [OF assms, of ys]
    by (simp add: find_top.simps [of "Suc 0" ex "buffer (zs @ [c]) ys"] strip_buffer [OF z False] c_str_buffer [OF z])
qed

text \<open>The search ends at the longest path that exists, or with the first component.\<close>

lemma find_top_result:
  assumes "\<forall>c\<in>set xs. component c" and "xs \<noteq> []"
  shows "\<exists>k. k < length xs \<and> find_top 1 ex (buffer xs ys) =
      (buffer (take (Suc k) xs) (drop (Suc k) xs @ ys), if k = 0 then None else Some (length (path_of (take k xs)))) \<and>
    (0 < k \<longrightarrow> ex (path_of (take k xs))) \<and> (\<forall>i. k < i \<longrightarrow> i < length xs \<longrightarrow> \<not> ex (path_of (take i xs)))"
  using assms
proof (induction xs arbitrary: ys rule: rev_induct)
  case (snoc c zs)
  consider "zs = []" | "zs \<noteq> []" "ex (path_of zs)" | "zs \<noteq> []" "\<not> ex (path_of zs)" by blast
  then show ?case
  proof cases
    case 1
    then show ?thesis using find_top_step [OF snoc.prems(1), of ex ys] by simp
  next
    case 2
    then show ?thesis using find_top_step [OF snoc.prems(1), of ex ys] by (intro exI [of _ "length zs"]) simp
  next
    case 3
    have "\<forall>c\<in>set zs. component c" using snoc.prems(1) by simp
    from snoc.IH [OF this 3(1), of "c # ys"] obtain k where k: "k < length zs" "find_top 1 ex (buffer zs (c # ys)) =
        (buffer (take (Suc k) zs) (drop (Suc k) zs @ c # ys), if k = 0 then None else Some (length (path_of (take k zs))))"
      "0 < k \<longrightarrow> ex (path_of (take k zs))" "\<forall>i. k < i \<longrightarrow> i < length zs \<longrightarrow> \<not> ex (path_of (take i zs))" by blast
    have "\<not> ex (path_of (take i (zs @ [c])))" if "k < i" "i < length (zs @ [c])" for i
      using k(4) that 3(2) by (cases "i = length zs") simp_all
    with k 3 show ?thesis using find_top_step [OF snoc.prems(1), of ex ys] by (intro exI [of _ k]) simp
  qed
qed simp

text \<open>The loop below a position skips to the next end of a string.\<close>

lemma create_below_skip:
  assumes "p \<le> q" and "q < length buf" and "\<forall>j. p < j \<longrightarrow> j \<le> q \<longrightarrow> buf ! j \<noteq> CHR 0x00"
  shows "create_below mk buf p ret w = create_below mk buf q ret w"
  using assms
proof (induction "q - p" arbitrary: p)
  case (Suc d)
  have "Suc p < length buf" "buf ! Suc p \<noteq> CHR 0x00" using Suc.prems Suc.hyps(2) by simp_all
  then have "create_below mk buf p ret w = create_below mk buf (Suc p) ret w"
    unfolding create_below.simps [of mk buf p] by simp
  also have "\<dots> = create_below mk buf q ret w" using Suc.prems Suc.hyps(2) by (intro Suc.hyps(1)) simp_all
  finally show ?case .
qed simp

lemma create_below_stop: "length buf \<le> Suc p \<Longrightarrow> create_below mk buf p ret w = Some (ret, w)"
  by (subst create_below.simps) simp

lemma create_below_end:
  assumes "\<forall>c\<in>set xs. component c" and "p < length (path_of xs)"
  shows "create_below mk (buffer xs ys) p ret w = create_below mk (buffer xs ys) (length (path_of xs) - 1) ret w"
proof (rule create_below_skip)
  have "buffer xs ys ! j = path_of xs ! j" if "j < length (path_of xs)" for j using that by (simp add: buffer_def nth_append)
  moreover have "path_of xs ! j \<noteq> CHR 0x00" if "j < length (path_of xs)" for j
    using path_of_no_end [OF assms(1)] nth_mem [OF that] by metis
  ultimately show "\<forall>j. p < j \<longrightarrow> j \<le> length (path_of xs) - 1 \<longrightarrow> buffer xs ys ! j \<noteq> CHR 0x00"
    using assms(2) by (metis One_nat_def Suc_pred le_imp_less_Suc less_nat_zero_code linorder_neqE_nat)
  have "path_of xs \<noteq> []" using assms(2) by auto
  then show "p \<le> length (path_of xs) - 1" "length (path_of xs) - 1 < length (buffer xs ys)"
    using assms(2) by (simp_all add: buffer_def)
qed

lemma create_below_next:
  assumes "\<forall>c\<in>set (xs @ [y]). component c" and "p < length (path_of xs)"
  shows "create_below mk (buffer xs (y # ys)) p ret w = (case mk (path_of (xs @ [y])) w of
      None \<Rightarrow> None
    | Some (r, w1) \<Rightarrow> (case r of
        Fs_exit \<Rightarrow> Some (Fs_exit, w1)
      | Fs_value code e \<Rightarrow>
          if code < 0 then Some (r, w1) else create_below mk (buffer (xs @ [y]) ys) (length (path_of xs)) r w1))"
proof -
  define n where "n = length (path_of xs)"
  have n: "0 < n" "Suc (n - 1) = n" using assms(2) unfolding n_def by linarith+
  have b: "(buffer xs (y # ys))[n := CHR ''/''] = buffer (xs @ [y]) ys" "buffer xs (y # ys) ! n = CHR 0x00"
    "n < length (buffer xs (y # ys))"
    by (simp_all add: buffer_def n_def)
  have y: "y \<noteq> []" "CHR 0x00 \<notin> set y" using assms(1) by (simp_all add: component_def)
  have l: "Suc n < length (buffer (xs @ [y]) ys)" using y(1) by (simp add: buffer_def n_def)
  have "buffer (xs @ [y]) ys ! Suc n = hd y" using y(1) by (cases y) (simp_all add: buffer_def n_def nth_append)
  then have f: "buffer (xs @ [y]) ys ! Suc n \<noteq> CHR 0x00" using y hd_in_set by metis
  have "create_below mk (buffer xs (y # ys)) p ret w = create_below mk (buffer xs (y # ys)) (n - 1) ret w"
    using create_below_end [of xs p] assms by (simp add: n_def)
  also have "\<dots> = (case mk (c_str (buffer (xs @ [y]) ys)) w of
      None \<Rightarrow> None
    | Some (r, w1) \<Rightarrow> (case r of
        Fs_exit \<Rightarrow> Some (Fs_exit, w1)
      | Fs_value code e \<Rightarrow>
          if code < 0 then Some (r, w1) else create_below mk (buffer (xs @ [y]) ys) n r w1))"
    using b l f unfolding create_below.simps [of mk _ "n - 1" ret w] n(2) b(1) Let_def by simp
  finally show ?thesis unfolding c_str_buffer [OF assms(1)] unfolding n_def .
qed

section \<open>Creating directories\<close>

text \<open>The directories of a disk are the set of their paths; the root is the empty string.\<close>

definition parent_of :: "string \<Rightarrow> string" where
  "parent_of path = rev (tl (dropWhile (\<lambda>c. c \<noteq> CHR ''/'') (rev path)))"

definition dir_exec :: "fs_req \<Rightarrow> string set \<Rightarrow> fs_answer \<times> string set" where
  "dir_exec req D = (case req of
     Fs_mkdir path mode \<Rightarrow>
       if path \<in> D then (fs_failed (- 17), D)
       else if parent_of path \<notin> D then (fs_failed (- 2), D)
       else (fs_failed 0, insert path D)
   | _ \<Rightarrow> (fs_failed (- 38), D))"

lemma parent_of_path:
  assumes "component c"
  shows "parent_of (path_of (xs @ [c])) = path_of xs"
proof -
  have "dropWhile (\<lambda>c. c \<noteq> CHR ''/'') (rev c @ CHR ''/'' # r) = CHR ''/'' # r" for r
    using assms by (subst dropWhile_append2) (auto simp: component_def)
  then show ?thesis by (simp add: parent_of_def)
qed

text \<open>The contract: a directory below an existing one is created.\<close>

locale dir_maker =
  fixes mk :: "string \<Rightarrow> 'w \<Rightarrow> (int fs_value \<times> 'w) option"
    and good :: "'w \<Rightarrow> bool"
    and dirs :: "'w \<Rightarrow> string set"
  assumes creates: "good w \<Longrightarrow> path \<notin> dirs w \<Longrightarrow> parent_of path \<in> dirs w \<Longrightarrow>
    \<exists>w'. mk path w = Some (Fs_value 0 None, w') \<and> good w' \<and> dirs w' = insert path (dirs w)"
begin

lemma creates_below:
  assumes "good w" and "path_of xs \<in> dirs w" and "\<forall>c\<in>set (xs @ ys). component c" and "p < length (path_of xs)"
    and "\<forall>i. 0 < i \<longrightarrow> i \<le> length ys \<longrightarrow> path_of (xs @ take i ys) \<notin> dirs w"
  shows "\<exists>w'. create_below mk (buffer xs ys) p (Fs_value 0 None) w = Some (Fs_value 0 None, w') \<and> good w' \<and>
    dirs w' = dirs w \<union> (\<lambda>i. path_of (xs @ take i ys)) ` {1..length ys}"
  using assms
proof (induction ys arbitrary: xs p w)
  case Nil
  have "create_below mk (buffer xs []) p (Fs_value 0 None) w = Some (Fs_value 0 None, w)"
    using Nil.prems(3,4) by (subst create_below_end) (auto simp: buffer_def create_below_stop)
  with Nil.prems(1) show ?case by simp
next
  case (Cons y ys)
  have y: "component y" "\<forall>c\<in>set (xs @ [y]). component c" using Cons.prems(3) by simp_all
  have "path_of (xs @ [y]) \<notin> dirs w" using Cons.prems(5) [rule_format, of 1] by simp
  with creates [OF Cons.prems(1), of "path_of (xs @ [y])"] Cons.prems(2) obtain w1 where
    w1: "mk (path_of (xs @ [y])) w = Some (Fs_value 0 None, w1)" "good w1" "dirs w1 = insert (path_of (xs @ [y])) (dirs w)"
    unfolding parent_of_path [OF y(1)] by blast
  have new: "path_of ((xs @ [y]) @ take i ys) \<notin> dirs w1" if "0 < i" "i \<le> length ys" for i
  proof -
    have "take i ys \<noteq> []" using that by auto
    moreover have "path_of (xs @ take (Suc i) (y # ys)) \<notin> dirs w" using Cons.prems(5) [rule_format, of "Suc i"] that by simp
    ultimately show ?thesis using w1(3) by simp
  qed
  have pre: "path_of (xs @ [y]) \<in> dirs w1" "\<forall>c\<in>set ((xs @ [y]) @ ys). component c" "length (path_of xs) < length (path_of (xs @ [y]))"
    using w1(3) Cons.prems(3) by simp_all
  have new: "\<forall>i. 0 < i \<longrightarrow> i \<le> length ys \<longrightarrow> path_of ((xs @ [y]) @ take i ys) \<notin> dirs w1" using new by blast
  obtain w' where
    w': "create_below mk (buffer (xs @ [y]) ys) (length (path_of xs)) (Fs_value 0 None) w1 = Some (Fs_value 0 None, w')" "good w'"
    "dirs w' = dirs w1 \<union> (\<lambda>i. path_of ((xs @ [y]) @ take i ys)) ` {1..length ys}"
    using Cons.IH [OF w1(2) pre new] by blast
  have "{1..length (y # ys)} = insert 1 (Suc ` {1..length ys})" unfolding image_Suc_atLeastAtMost by auto
  then have "(\<lambda>i. path_of (xs @ take i (y # ys))) ` {1..length (y # ys)} =
      insert (path_of (xs @ [y])) ((\<lambda>i. path_of ((xs @ [y]) @ take i ys)) ` {1..length ys})"
    unfolding image_insert image_image by (simp only: image_insert image_image) simp
  then have "dirs w' = dirs w \<union> (\<lambda>i. path_of (xs @ take i (y # ys))) ` {1..length (y # ys)}"
    using w'(3) w1(3) by (simp only: Un_insert_left Un_insert_right)
  moreover have "create_below mk (buffer xs (y # ys)) p (Fs_value 0 None) w = Some (Fs_value 0 None, w')"
    unfolding create_below_next [OF y(2) Cons.prems(4)] w1(1) by (simp add: w'(1))
  ultimately show ?case using w'(2) by blast
qed

lemma creates_missing:
  assumes "good w" and "\<forall>c\<in>set cs. component c" and "cs \<noteq> []" and "length dir \<noteq> 1" and "dir \<noteq> []"
    and "[] \<in> dirs w" and "path_of cs \<notin> dirs w"
    and closed: "\<forall>i. path_of (take (Suc i) cs) \<in> dirs w \<longrightarrow> path_of (take i cs) \<in> dirs w"
  shows "\<exists>w'. create_directories mk (\<lambda>path w. path \<in> dirs w) dir (path_of cs) w = Some (Fs_value 0 None, w') \<and> good w' \<and>
    dirs w' = dirs w \<union> (\<lambda>i. path_of (take i cs)) ` {..length cs}"
proof -
  obtain k where k: "k < length cs" "find_top 1 (\<lambda>s. s \<in> dirs w) (buffer cs []) =
      (buffer (take (Suc k) cs) (drop (Suc k) cs), if k = 0 then None else Some (length (path_of (take k cs))))"
    "0 < k \<longrightarrow> path_of (take k cs) \<in> dirs w" "\<forall>i. k < i \<longrightarrow> i < length cs \<longrightarrow> path_of (take i cs) \<notin> dirs w"
    using find_top_result [OF assms(2,3), of "\<lambda>s. s \<in> dirs w" "[]"] by auto
  define xs where "xs = take (Suc k) cs"
  define ys where "ys = drop (Suc k) cs"
  have cs: "cs = xs @ ys" by (simp add: xs_def ys_def)
  have xs: "xs = take k cs @ [cs ! k]" using k(1) by (simp add: xs_def take_Suc_conv_app_nth)
  have c: "component (cs ! k)" "\<forall>c\<in>set xs. component c" "\<forall>c\<in>set (xs @ ys). component c"
    using assms(2) nth_mem [OF k(1)] by (auto simp: xs_def ys_def dest: in_set_takeD in_set_dropD)
  have old: "path_of (take k cs) \<in> dirs w" using k(3) assms(6) by (cases "k = 0") simp_all
  have missing: "path_of (take i cs) \<notin> dirs w" if "k < i" "i \<le> length cs" for i
    using k(4) assms(7) that by (cases "i = length cs") simp_all
  have "path_of xs \<notin> dirs w" using missing [of "Suc k"] k(1) by (simp add: xs_def)
  with creates [OF assms(1), of "path_of xs"] old c(1) obtain w1 where
    w1: "mk (path_of xs) w = Some (Fs_value 0 None, w1)" "good w1" "dirs w1 = insert (path_of xs) (dirs w)"
    unfolding xs by (metis parent_of_path)
  have ext: "xs @ take i ys = take (Suc k + i) cs" for i by (simp only: xs_def ys_def take_add)
  have new: "\<forall>i. 0 < i \<longrightarrow> i \<le> length ys \<longrightarrow> path_of (xs @ take i ys) \<notin> dirs w1"
  proof (intro allI impI)
    fix i assume i: "0 < i" "i \<le> length ys"
    then have "path_of (xs @ take i ys) \<notin> dirs w" using missing [of "Suc k + i"] k(1) unfolding ext by (simp add: ys_def)
    moreover have "take i ys \<noteq> []" using i by auto
    ultimately show "path_of (xs @ take i ys) \<notin> dirs w1" using w1(3) by simp
  qed
  have p: "length (path_of (take k cs)) < length (path_of xs)" "path_of xs \<in> dirs w1" by (simp_all add: xs w1(3))
  obtain w' where w': "create_below mk (buffer xs ys) (length (path_of (take k cs))) (Fs_value 0 None) w1 = Some (Fs_value 0 None, w')"
    "good w'" "dirs w' = dirs w1 \<union> (\<lambda>i. path_of (xs @ take i ys)) ` {1..length ys}"
    using creates_below [OF w1(2) p(2) c(3) p(1) new] by blast
  have "path_of cs = buffer cs []" by (simp add: buffer_def)
  then have "create_directories mk (\<lambda>path w. path \<in> dirs w) dir (path_of cs) w = Some (Fs_value 0 None, w')"
    unfolding create_directories_def using assms(4,5) k(1,2) w1(1) w'(1)
    by (simp add: xs_def [symmetric] ys_def [symmetric] c_str_buffer [OF c(2)] del: path_of_simps) (auto simp: xs)
  moreover have "dirs w' = dirs w \<union> (\<lambda>i. path_of (take i cs)) ` {..length cs}"
  proof -
    have "path_of (take i cs) \<in> dirs w" if "i \<le> k" for i
      using that old closed by (induction rule: inc_induct) simp_all
    moreover have "{..length cs} = {..k} \<union> insert (Suc k) ((\<lambda>i. Suc k + i) ` {1..length ys})"
      using k(1) unfolding image_add_atLeastAtMost by (auto simp: ys_def)
    ultimately show ?thesis unfolding w'(3) w1(3) ext image_Un image_insert image_image by (auto simp: xs_def)
  qed
  ultimately show ?thesis using w'(2) by blast
qed

end

text \<open>A task that waits for libuv to create the directory in a thread.\<close>

abbreviation tree_env :: "string set file_store_scheme fs_env" where
  "tree_env \<equiv> exec_env dir_exec (\<in>)"

lemma exec_env_sel [simp]:
  "fs_cli (exec_env exec ex)" "expand_filepath (exec_env exec ex) = Some"
  "path_exists (exec_env exec ex) = (\<lambda>p w. ex p (file_store.more w))" "basedir_denied (exec_env exec ex) = (\<lambda>_. False)"
  by (simp_all add: exec_env_def)

interpretation in_tree: dir_maker "\<lambda>path. async_mkdir tree_env (exec_thread dir_exec t) path mode" "waits t" file_store.more
  for t mode
proof
  fix w :: "string set file_store_scheme" and path
  assume w: "waits t w" "path \<notin> file_store.more w" "parent_of path \<in> file_store.more w"
  then have e: "dir_exec (Fs_mkdir path mode) (file_store.more w) = (fs_failed 0, insert path (file_store.more w))"
    by (simp add: dir_exec_def)
  then have "fa_result (fst (dir_exec (Fs_mkdir path mode) (file_store.more w))) \<noteq> - 125" by (simp add: fs_failed_def)
  from thread_request [where ex = "(\<in>)" and exec = dir_exec and req = "Fs_mkdir path mode", OF w(1) this] obtain w' where
    "fs_request tree_env (exec_thread dir_exec t) True (Fs_mkdir path mode) w = Some (Fs_value (fs_failed 0) None, w')"
    "waits t w'" "file_store.more w' = insert path (file_store.more w)" unfolding e by auto
  then show "\<exists>w'. async_mkdir tree_env (exec_thread dir_exec t) path mode w = Some (Fs_value 0 None, w') \<and> waits t w' \<and>
      file_store.more w' = insert path (file_store.more w)"
    using w(1) by (intro exI [of _ w']) (simp add: async_mkdir_def async_fs_callw_def waits_def fs_failed_def to_c_int_def)
qed



section \<open>Requests that are cancelled\<close>

text \<open>
  When a wait fails and libuv accepts the cancellation, the operation is freed while libuv still has the
  request; the callback that libuv then calls frees the operation again.
\<close>

lemma cancelled_request_is_freed_twice:
  assumes "async_await_op yield (next_opid w) (w1\<lparr>fs_reqs := (next_opid w, req) # fs_reqs w1\<rparr>) = Some (Await_failure, w2)"
    and "w1 = snd (async_alloc_op w)" and "fs_start env req w1 = 0" and "fs_cancel env (next_opid w) w2 = 0"
  shows "fs_request env yield True req w =
      Some (Fs_value (fs_failed (- 1)) (Some (op_result (ops w2 (next_opid w)))), async_free_op (next_opid w) w2)"
    and "dummy_cb run (next_opid w) (fs_failed (- 125)) v =
      async_free_op (next_opid w) (v\<lparr>fs_reqs := filter (\<lambda>r. fst r \<noteq> next_opid w) (fs_reqs v),
        fs_answers := (fs_answers v)(next_opid w := fs_failed (- 125))\<rparr>)"
  using assms by (simp_all add: fs_request_def dummy_cb_def split_beta Let_def) (simp add: fs_failed_def)

end
