(* ===== verification/Console.thy ===== *)
theory Console
  imports StreamApi Address
begin

text \<open>
  The standard streams of the process (\<open>console.c\<close>). What stands behind a descriptor decides: a terminal
  or a pipe is a stream; a file is read and written by requests to libuv, reading through a buffer.
\<close>

section \<open>State\<close>

abbreviation CONSOLE_FLAG_TTY :: u16 where "CONSOLE_FLAG_TTY \<equiv> 1"
abbreviation CONSOLE_FLAG_PIPE :: u16 where "CONSOLE_FLAG_PIPE \<equiv> 2"
abbreviation CONSOLE_FLAG_FILE :: u16 where "CONSOLE_FLAG_FILE \<equiv> 4"
abbreviation CONSOLE_FLAG_EOF :: u16 where "CONSOLE_FLAG_EOF \<equiv> 32"

text \<open>
  \<open>rp_rest\<close> are the bytes of the buffer that were not read yet (\<open>offset\<close> and \<open>len\<close>), \<open>rp_shutdown\<close> says that
  the pipe is in the list of the scheduler (\<open>shutdown.func != NULL\<close>).
\<close>

record async_readable_pipe =
  rp_flags :: u16
  rp_stream :: nat
  rp_file :: int
  rp_op :: opid
  rp_size :: nat
  rp_rest :: "byte list"
  rp_shutdown :: bool
  rp_error :: zval
  rp_refs :: nat
  rp_freed :: bool

text \<open>The queue of pending writes is \<open>ConsoleWrites\<close>; nothing is ever put into it.\<close>

record async_writable_pipe =
  wp_flags :: u16
  wp_stream :: nat
  wp_file :: int
  wp_shutdown :: bool
  wp_error :: zval
  wp_refs :: nat
  wp_freed :: bool

datatype console_req =
    Con_read opid int nat
  | Con_write opid int "byte list"
  | Con_close_read nat int
  | Con_close_write nat int

text \<open>\<open>con_reqs\<close> are the requests that libuv holds, \<open>con_results\<close> what it reported: the result and the bytes read.\<close>

record console_store = stream_store +
  readable_pipes :: "nat \<Rightarrow> async_readable_pipe"
  writable_pipes :: "nat \<Rightarrow> async_writable_pipe"
  next_console :: nat
  con_reqs :: "console_req list"
  con_results :: "opid \<Rightarrow> int \<times> byte list"

type_synonym 'a con_wake = "opid \<Rightarrow> 'a console_store_scheme \<Rightarrow> 'a console_store_scheme"
type_synonym 'a con_yield = "transfer \<Rightarrow> 'a console_store_scheme \<Rightarrow> 'a console_store_scheme"
type_synonym 'a con_own = "nat \<Rightarrow> 'a console_store_scheme \<Rightarrow> 'a console_store_scheme"

definition upd_rpipe :: "nat \<Rightarrow> (async_readable_pipe \<Rightarrow> async_readable_pipe) \<Rightarrow> 'a console_store_scheme \<Rightarrow> 'a console_store_scheme" where
  "upd_rpipe p f w = w\<lparr>readable_pipes := (readable_pipes w)(p := f (readable_pipes w p))\<rparr>"

definition upd_wpipe :: "nat \<Rightarrow> (async_writable_pipe \<Rightarrow> async_writable_pipe) \<Rightarrow> 'a console_store_scheme \<Rightarrow> 'a console_store_scheme" where
  "upd_wpipe p f w = w\<lparr>writable_pipes := (writable_pipes w)(p := f (writable_pipes w p))\<rparr>"

text \<open>What the system says of a descriptor, and the answers of libuv.\<close>

datatype uv_handle_type = Uv_tty | Uv_named_pipe | Uv_file | Uv_other

record 'w console_env =
  guess_handle :: "int \<Rightarrow> uv_handle_type"
  handle_type_name :: "int \<Rightarrow> string"
  con_init_code :: "'w \<Rightarrow> int"
  con_open_code :: "int \<Rightarrow> 'w \<Rightarrow> int"
  con_write_code :: "int \<Rightarrow> byte list \<Rightarrow> 'w \<Rightarrow> int"
  con_cli :: bool

section \<open>The life of a readable pipe\<close>

definition console_stream_free :: "nat \<Rightarrow> 'a console_store_scheme \<Rightarrow> 'a console_store_scheme" where
  "console_stream_free s w = upd_stream s (\<lambda>x. x\<lparr>st_base := False\<rparr>) w"

definition async_readable_pipe_object_destroy :: "nat \<Rightarrow> 'a console_store_scheme \<Rightarrow> 'a console_store_scheme" where
  "async_readable_pipe_object_destroy p w =
     (let x = readable_pipes w p;
          w1 = (if has_flag (rp_flags x) CONSOLE_FLAG_FILE then upd_rpipe p (\<lambda>x. x\<lparr>rp_rest := []\<rparr>) w
                else console_stream_free (rp_stream x) w)
      in upd_rpipe p (\<lambda>x. x\<lparr>rp_error := IS_UNDEF, rp_freed := True\<rparr>) w1)"

definition con_error :: "zval option \<Rightarrow> zval" where
  "con_error error = (case error of None \<Rightarrow> IS_ERROR StreamClosedExceptionCe ''Console stream has been closed'' None | Some e \<Rightarrow> e)"

text \<open>A pending read from a file fails; the file is closed by a request that refers to the pipe.\<close>

definition readable_pipe_shutdown ::
  "'a con_own \<Rightarrow> 'a con_wake \<Rightarrow> nat \<Rightarrow> zval option \<Rightarrow> 'a console_store_scheme \<Rightarrow> 'a console_store_scheme" where
  "readable_pipe_shutdown own run p error w =
     (let w1 = upd_rpipe p (\<lambda>x. x\<lparr>rp_shutdown := False, rp_error := (if rp_error x = IS_UNDEF then con_error error else rp_error x)\<rparr>) w;
          x = readable_pipes w1 p
      in if has_flag (rp_flags x) CONSOLE_FLAG_FILE
         then
           let w2 = upd_rpipe p (\<lambda>x. x\<lparr>rp_refs := rp_refs x + 1\<rparr>) w1;
               w3 = (if op_status (ops w2 (rp_op x)) = ASYNC_STATUS_RUNNING then async_fail_op run (rp_op x) (rp_error x) w2 else w2)
           in w3\<lparr>con_reqs := Con_close_read p (rp_file x) # con_reqs w3\<rparr>
         else if stream_flag (rp_stream x) STREAM_CLOSED w1 then w1
         else async_stream_close own run (rp_stream x) (Some p) (upd_rpipe p (\<lambda>x. x\<lparr>rp_refs := rp_refs x + 1\<rparr>) w1))"

definition async_readable_pipe_object_dtor :: "'a con_own \<Rightarrow> 'a con_wake \<Rightarrow> nat \<Rightarrow> 'a console_store_scheme \<Rightarrow> 'a console_store_scheme" where
  "async_readable_pipe_object_dtor own run p w =
     (if rp_shutdown (readable_pipes w p)
      then readable_pipe_shutdown own run p None (w\<lparr>s_shutdown := remove1 (ShutdownCb CReadablePipe p) (s_shutdown w)\<rparr>)
      else w)"

text \<open>\<open>ASYNC_DELREF\<close>: the last reference destroys the object, unless its destructor made a new one.\<close>

definition readable_delref :: "'a con_own \<Rightarrow> 'a con_wake \<Rightarrow> nat \<Rightarrow> 'a console_store_scheme \<Rightarrow> 'a console_store_scheme" where
  "readable_delref own run p w =
     (let w1 = upd_rpipe p (\<lambda>x. x\<lparr>rp_refs := rp_refs x - 1\<rparr>) w
      in if 0 < rp_refs (readable_pipes w1 p) then w1
         else
           let w2 = async_readable_pipe_object_dtor own run p w1
           in if 0 < rp_refs (readable_pipes w2 p) then w2 else async_readable_pipe_object_destroy p w2)"

definition read_close_file_cb :: "'a con_own \<Rightarrow> 'a con_wake \<Rightarrow> nat \<Rightarrow> 'a console_store_scheme \<Rightarrow> 'a console_store_scheme" where
  "read_close_file_cb own run p w =
     readable_delref own run p (w\<lparr>con_reqs := filter (\<lambda>r. \<forall>f. r \<noteq> Con_close_read p f) (con_reqs w)\<rparr>)"

text \<open>\<open>Inl (Some e)\<close>: an exception; \<open>Inl None\<close>: the descriptor is none of the kinds that can be read.\<close>

definition new_readable :: "nat \<Rightarrow> u16 \<Rightarrow> int \<Rightarrow> 'a console_store_scheme \<Rightarrow> 'a console_store_scheme" where
  "new_readable p flags f w =
     (let (rd, w1) = async_alloc_op w
      in upd_rpipe p (\<lambda>_. \<lparr>rp_flags = flags, rp_stream = p, rp_file = f, rp_op = rd, rp_size = 0x8000, rp_rest = [],
             rp_shutdown = True, rp_error = IS_UNDEF, rp_refs = 1, rp_freed = False\<rparr>)
           (w1\<lparr>next_console := Suc p, s_shutdown := list_append (ShutdownCb CReadablePipe p) (s_shutdown w1)\<rparr>))"

definition async_readable_pipe_object_create ::
  "texts \<Rightarrow> 'a console_store_scheme console_env \<Rightarrow> int \<Rightarrow> uv_handle_type \<Rightarrow> 'a console_store_scheme \<Rightarrow>
   (zval option + nat) \<times> 'a console_store_scheme" where
  "async_readable_pipe_object_create tx con f type w =
     (let p = next_console w in case type of
        Uv_tty \<Rightarrow> (Inr p, new_readable p CONSOLE_FLAG_TTY f (async_stream_init p uv_init 0 w))
      | Uv_named_pipe \<Rightarrow>
          if con_init_code con w < 0
          then (Inl (Some (IS_ERROR ErrorCe (''Failed to init pipe: '' @ strerror tx (con_init_code con w)) None)), w)
          else if con_open_code con f w < 0
          then (Inl (Some (IS_ERROR ErrorCe (''Failed to open pipe ['' @ show_int tx f @ '']: '' @ strerror tx (con_open_code con f w)) None)), w)
          else (Inr p, new_readable p CONSOLE_FLAG_PIPE f (async_stream_init p uv_init 0 w))
      | Uv_file \<Rightarrow> (Inr p, new_readable p CONSOLE_FLAG_FILE f w)
      | Uv_other \<Rightarrow> (Inl None, w))"

section \<open>Methods of readable pipes\<close>

definition readable_get_stdin ::
  "texts \<Rightarrow> 'a console_store_scheme console_env \<Rightarrow> 'a console_store_scheme \<Rightarrow> outcome \<times> 'a console_store_scheme" where
  "readable_get_stdin tx con w =
     (if \<not> con_cli con then (Throw (IS_ERROR ErrorCe ''Cannot access STDIN when not running in cli mode'' None), w)
      else case async_readable_pipe_object_create tx con 0 (guess_handle con 0) w of
        (Inr p, w1) \<Rightarrow> (Ret (IS_OBJECT p), w1)
      | (Inl (Some e), w1) \<Rightarrow> (Throw e, w1)
      | (Inl None, w1) \<Rightarrow> (Throw (IS_ERROR ErrorCe (''STDIN cannot be opened, it is detected as '' @ handle_type_name con 0) None), w1))"

definition readable_is_terminal :: "nat \<Rightarrow> 'a console_store_scheme \<Rightarrow> bool" where
  "readable_is_terminal p w = has_flag (rp_flags (readable_pipes w p)) CONSOLE_FLAG_TTY"

definition con_close_error :: "zval option \<Rightarrow> zval" where
  "con_close_error val =
     (let e = IS_ERROR StreamClosedExceptionCe ''Console stream has been closed'' None
      in case val of None \<Rightarrow> e | Some v \<Rightarrow> if v = IS_NULL then e else set_previous e v)"

definition readable_close ::
  "'a con_own \<Rightarrow> 'a con_wake \<Rightarrow> nat \<Rightarrow> zval option \<Rightarrow> 'a console_store_scheme \<Rightarrow> 'a console_store_scheme" where
  "readable_close own run p val w =
     (if \<not> rp_shutdown (readable_pipes w p) then w
      else readable_pipe_shutdown own run p (Some (con_close_error val))
             (w\<lparr>s_shutdown := remove1 (ShutdownCb CReadablePipe p) (s_shutdown w)\<rparr>))"

definition read_fs_cb :: "'a con_wake \<Rightarrow> opid \<Rightarrow> int \<times> byte list \<Rightarrow> 'a console_store_scheme \<Rightarrow> 'a console_store_scheme" where
  "read_fs_cb run op res w =
     async_finish_op run op (w\<lparr>con_reqs := filter (\<lambda>r. \<forall>f n. r \<noteq> Con_read op f n) (con_reqs w),
       con_results := (con_results w)(op := res)\<rparr>)"

text \<open>What is left of the buffer, up to \<open>len\<close> bytes.\<close>

definition take_rest :: "nat \<Rightarrow> nat \<Rightarrow> 'a console_store_scheme \<Rightarrow> read_outcome \<times> 'a console_store_scheme" where
  "take_rest len p w =
     (Read_data (take len (rp_rest (readable_pipes w p))), upd_rpipe p (\<lambda>x. x\<lparr>rp_rest := drop len (rp_rest x)\<rparr>) w)"

definition fill_rest ::
  "texts \<Rightarrow> 'a con_yield \<Rightarrow> nat \<Rightarrow> nat \<Rightarrow> 'a console_store_scheme \<Rightarrow> (read_outcome \<times> 'a console_store_scheme) option" where
  "fill_rest tx yield len p w =
     (let x = readable_pipes w p; op = rp_op x
      in map_option (\<lambda>(r, w1).
           if r = Await_bailout then (Read_bailout, w1)
           else
             let err = op_result (ops w1 op); w2 = async_reset_op op w1; (n, bs) = con_results w2 op
             in if r = Await_failure then (Read_throw err, w2)
                else if n < 0 then (Read_throw (IS_ERROR StreamExceptionCe (''Failed to read from input file: '' @ strerror tx (to_c_int n)) None), w2)
                else if n = 0 then (Read_end, upd_rpipe p (\<lambda>x. x\<lparr>rp_flags := set_flag (rp_flags x) CONSOLE_FLAG_EOF\<rparr>) w2)
                else take_rest len p (upd_rpipe p (\<lambda>x. x\<lparr>rp_rest := take (nat n) bs\<rparr>) w2))
         (async_await_op yield op (w\<lparr>con_reqs := Con_read op (rp_file x) (rp_size x) # con_reqs w\<rparr>)))"

definition readable_read_file ::
  "texts \<Rightarrow> 'a con_yield \<Rightarrow> nat \<Rightarrow> nat \<Rightarrow> 'a console_store_scheme \<Rightarrow> (read_outcome \<times> 'a console_store_scheme) option" where
  "readable_read_file tx yield len p w =
     (let x = readable_pipes w p
      in if has_flag (rp_flags x) CONSOLE_FLAG_EOF then Some (Read_end, w)
         else if op_status (ops w (rp_op x)) = ASYNC_STATUS_RUNNING
         then Some (Read_throw (IS_ERROR PendingReadExceptionCe ''Cannot read while another read is pending'' None), w)
         else if rp_rest x = [] then fill_rest tx yield len p w
         else Some (take_rest len p w))"

definition readable_read ::
  "texts \<Rightarrow> 'a console_store_scheme uv_answers \<Rightarrow> 'a con_yield \<Rightarrow> nat \<Rightarrow> int option \<Rightarrow> 'a console_store_scheme \<Rightarrow>
   (read_outcome \<times> 'a console_store_scheme) option" where
  "readable_read tx env yield p hint w =
     (let x = readable_pipes w p; s = rp_stream x
      in case read_length tx (if has_flag (rp_flags x) CONSOLE_FLAG_FILE then rp_size x else rb_size (st_buffer (streams w s)))
                StreamExceptionCe hint of
           Inl err \<Rightarrow> Some (Read_throw err, w)
         | Inr len \<Rightarrow>
             if rp_error x \<noteq> IS_UNDEF then Some (Read_throw (rp_error x), w)
             else if has_flag (rp_flags x) CONSOLE_FLAG_FILE then readable_read_file tx yield len p w
             else map_option (\<lambda>(r, rq, w1). (case r of
                    Success \<Rightarrow> if ro_data rq \<noteq> [] then Read_data (ro_data rq) else Read_end
                  | Failure _ \<Rightarrow> Read_throw (forward_stream_read_error (strerror tx) (has_flag (rp_flags x) CONSOLE_FLAG_PIPE) (ro_error rq))
                  | Thrown err \<Rightarrow> Read_throw err
                  | Bailout \<Rightarrow> Read_bailout, w1))
                (async_stream_read env yield s
                  \<lparr>rq_len = len, rq_buffer = False, rq_import = False, rq_timeout = 0, ro_data = [], ro_error = 0\<rparr> w))"

section \<open>The life of a writable pipe\<close>

definition async_writable_pipe_object_destroy :: "nat \<Rightarrow> 'a console_store_scheme \<Rightarrow> 'a console_store_scheme" where
  "async_writable_pipe_object_destroy p w =
     (let x = writable_pipes w p;
          w1 = (if has_flag (wp_flags x) CONSOLE_FLAG_TTY \<or> has_flag (wp_flags x) CONSOLE_FLAG_PIPE
                then console_stream_free (wp_stream x) w else w)
      in upd_wpipe p (\<lambda>x. x\<lparr>wp_error := IS_UNDEF, wp_freed := True\<rparr>) w1)"

text \<open>The loop over the pending writes may not end when the callbacks add writes.\<close>

definition writable_pipe_shutdown ::
  "'a con_own \<Rightarrow> 'a con_wake \<Rightarrow> nat \<Rightarrow> zval option \<Rightarrow> 'a console_store_scheme \<Rightarrow> 'a console_store_scheme option" where
  "writable_pipe_shutdown own run p error w =
     (let w1 = upd_wpipe p (\<lambda>x. x\<lparr>wp_shutdown := False, wp_error := (if wp_error x = IS_UNDEF then con_error error else wp_error x)\<rparr>) w;
          x = writable_pipes w1 p
      in if has_flag (wp_flags x) CONSOLE_FLAG_FILE
         then
           map_option (\<lambda>w3. w3\<lparr>con_reqs := Con_close_write p (wp_file x) # con_reqs w3\<rparr>)
             (drain_ops (\<lambda>op w. async_fail_op run op (wp_error (writable_pipes w p)) w) (ConsoleWrites p)
               (upd_wpipe p (\<lambda>x. x\<lparr>wp_refs := wp_refs x + 1\<rparr>) w1))
         else if stream_flag (wp_stream x) STREAM_CLOSED w1 then Some w1
         else Some (async_stream_close own run (wp_stream x) (Some p) (upd_wpipe p (\<lambda>x. x\<lparr>wp_refs := wp_refs x + 1\<rparr>) w1)))"

definition async_writable_pipe_object_dtor ::
  "'a con_own \<Rightarrow> 'a con_wake \<Rightarrow> nat \<Rightarrow> 'a console_store_scheme \<Rightarrow> 'a console_store_scheme option" where
  "async_writable_pipe_object_dtor own run p w =
     (if wp_shutdown (writable_pipes w p)
      then writable_pipe_shutdown own run p None (w\<lparr>s_shutdown := remove1 (ShutdownCb CWritablePipe p) (s_shutdown w)\<rparr>)
      else Some w)"

definition writable_delref :: "'a con_own \<Rightarrow> 'a con_wake \<Rightarrow> nat \<Rightarrow> 'a console_store_scheme \<Rightarrow> 'a console_store_scheme option" where
  "writable_delref own run p w =
     (let w1 = upd_wpipe p (\<lambda>x. x\<lparr>wp_refs := wp_refs x - 1\<rparr>) w
      in if 0 < wp_refs (writable_pipes w1 p) then Some w1
         else map_option (\<lambda>w2. if 0 < wp_refs (writable_pipes w2 p) then w2 else async_writable_pipe_object_destroy p w2)
                (async_writable_pipe_object_dtor own run p w1))"

definition write_close_file_cb :: "'a con_own \<Rightarrow> 'a con_wake \<Rightarrow> nat \<Rightarrow> 'a console_store_scheme \<Rightarrow> 'a console_store_scheme option" where
  "write_close_file_cb own run p w =
     writable_delref own run p (w\<lparr>con_reqs := filter (\<lambda>r. \<forall>f. r \<noteq> Con_close_write p f) (con_reqs w)\<rparr>)"

text \<open>The codes of libuv are not looked at here.\<close>

definition async_writable_pipe_object_create ::
  "int \<Rightarrow> uv_handle_type \<Rightarrow> 'a console_store_scheme \<Rightarrow> nat option \<times> 'a console_store_scheme" where
  "async_writable_pipe_object_create f type w =
     (let p = next_console w;
          new = (\<lambda>flags w. upd_wpipe p (\<lambda>_. \<lparr>wp_flags = flags, wp_stream = p, wp_file = f, wp_shutdown = True, wp_error = IS_UNDEF,
                    wp_refs = 1, wp_freed = False\<rparr>)
                  (w\<lparr>next_console := Suc p, s_shutdown := list_append (ShutdownCb CWritablePipe p) (s_shutdown w)\<rparr>))
      in case type of
        Uv_tty \<Rightarrow> (Some p, new CONSOLE_FLAG_TTY (async_stream_init p uv_init 0 w))
      | Uv_named_pipe \<Rightarrow> (Some p, new CONSOLE_FLAG_PIPE (async_stream_init p uv_init 0 w))
      | Uv_file \<Rightarrow> (Some p, new CONSOLE_FLAG_FILE w)
      | Uv_other \<Rightarrow> (None, w))"

section \<open>Methods of writable pipes\<close>

definition writable_get ::
  "string \<Rightarrow> int \<Rightarrow> 'a console_store_scheme console_env \<Rightarrow> 'a console_store_scheme \<Rightarrow> outcome \<times> 'a console_store_scheme" where
  "writable_get name f con w =
     (if \<not> con_cli con then (Throw (IS_ERROR ErrorCe (''Cannot access '' @ name @ '' when not running in cli mode'') None), w)
      else case async_writable_pipe_object_create f (guess_handle con f) w of
        (Some p, w1) \<Rightarrow> (Ret (IS_OBJECT p), w1)
      | (None, w1) \<Rightarrow> (Throw (IS_ERROR ErrorCe (name @ '' cannot be opened, it is detected as '' @ handle_type_name con f) None), w1))"

definition writable_get_stdout :: "'a console_store_scheme console_env \<Rightarrow> 'a console_store_scheme \<Rightarrow> outcome \<times> 'a console_store_scheme" where
  "writable_get_stdout = writable_get ''STDOUT'' 1"

definition writable_get_stderr :: "'a console_store_scheme console_env \<Rightarrow> 'a console_store_scheme \<Rightarrow> outcome \<times> 'a console_store_scheme" where
  "writable_get_stderr = writable_get ''STDERR'' 2"

definition writable_is_terminal :: "nat \<Rightarrow> 'a console_store_scheme \<Rightarrow> bool" where
  "writable_is_terminal p w = has_flag (wp_flags (writable_pipes w p)) CONSOLE_FLAG_TTY"

definition writable_close ::
  "'a con_own \<Rightarrow> 'a con_wake \<Rightarrow> nat \<Rightarrow> zval option \<Rightarrow> 'a console_store_scheme \<Rightarrow> 'a console_store_scheme option" where
  "writable_close own run p val w =
     (if \<not> wp_shutdown (writable_pipes w p) then Some w
      else writable_pipe_shutdown own run p (Some (con_close_error val))
             (w\<lparr>s_shutdown := remove1 (ShutdownCb CWritablePipe p) (s_shutdown w)\<rparr>))"

definition write_fs_cb :: "'a con_wake \<Rightarrow> opid \<Rightarrow> int \<Rightarrow> 'a console_store_scheme \<Rightarrow> 'a console_store_scheme" where
  "write_fs_cb run op res w =
     async_finish_op run op (w\<lparr>con_reqs := filter (\<lambda>r. \<forall>f bs. r \<noteq> Con_write op f bs) (con_reqs w),
       con_results := (con_results w)(op := (res, []))\<rparr>)"

text \<open>The number of bytes that were written is not looked at.\<close>

definition writable_write_file ::
  "texts \<Rightarrow> 'a console_store_scheme console_env \<Rightarrow> 'a con_yield \<Rightarrow> nat \<Rightarrow> byte list \<Rightarrow> 'a console_store_scheme \<Rightarrow>
   (outcome \<times> 'a console_store_scheme) option" where
  "writable_write_file tx con yield p data w =
     (let f = wp_file (writable_pipes w p); (op, w1) = async_alloc_op w; code = con_write_code con f data w1;
          failed = (\<lambda>code. Throw (IS_ERROR StreamExceptionCe (''Failed to write data to file: '' @ strerror tx code) None))
      in if code < 0 then Some (failed code, async_free_op op w1)
         else map_option (\<lambda>(r, w2).
           if r = Await_bailout then (Bail, w2)
           else if r = Await_failure then (Throw (op_result (ops w2 op)), async_free_op op w2)
           else
             let n = fst (con_results w2 op)
             in (if n < 0 then failed (to_c_int n) else Ret IS_NULL, async_free_op op w2))
           (async_await_op yield op (w1\<lparr>con_reqs := Con_write op f data # con_reqs w1\<rparr>)))"

definition writable_write ::
  "texts \<Rightarrow> 'a console_store_scheme uv_answers \<Rightarrow> 'a console_store_scheme console_env \<Rightarrow> 'a con_yield \<Rightarrow> 'a con_wake \<Rightarrow> nat \<Rightarrow>
   byte list \<Rightarrow> 'a console_store_scheme \<Rightarrow> (outcome \<times> 'a console_store_scheme) option" where
  "writable_write tx env con yield run p data w =
     (let x = writable_pipes w p
      in if wp_error x \<noteq> IS_UNDEF then Some (Throw (wp_error x), w)
         else if has_flag (wp_flags x) CONSOLE_FLAG_FILE then writable_write_file tx con yield p data w
         else map_option (\<lambda>(r, w1). (write_outcome tx (has_flag (wp_flags x) CONSOLE_FLAG_PIPE) r, w1))
           (async_stream_write env yield run (wp_stream x)
             \<lparr>wq_data = data, wq_async = False, wq_export = False, wq_callback = False, wq_arg = 0, wq_context = None\<rparr> w))"

end
