(* ===== verification/Thread.thy ===== *)
theory Thread
  imports Pipe
begin

text \<open>
  Threads (\<open>thread.c\<close>) in a build of PHP that is thread safe, on Unix. The object belongs to the thread
  that created it; the new thread runs \<open>run_thread\<close>, which has three parts here, between which the
  creator may act: \<open>thread_enter\<close>, \<open>thread_leave\<close> and \<open>thread_exit\<close>. Both sides use the mutex
  around what they share, so these accesses are single steps.
\<close>

section \<open>State\<close>

abbreviation THREAD_FLAG_RUNNING :: u16 where "THREAD_FLAG_RUNNING \<equiv> 1"
abbreviation THREAD_FLAG_TERMINATED :: u16 where "THREAD_FLAG_TERMINATED \<equiv> 2"
abbreviation THREAD_FLAG_KILLED :: u16 where "THREAD_FLAG_KILLED \<equiv> 4"

text \<open>How far the new thread is: not created, created, running, leaving, at its end.\<close>

datatype th_phase = Th_none | Th_created | Th_running | Th_leaving | Th_ended

text \<open>
  \<open>th_interrupt\<close> is the pointer to \<open>vm_interrupt\<close> of the new thread and \<open>th_vm_interrupt\<close> the flag itself;
  the memory of the flag exists while the thread is running or leaving. \<open>th_sent\<close> says that
  \<open>uv_async_send\<close> was called, \<open>th_slave\<close> that the pipe in the new thread is open.
\<close>

record async_thread =
  th_flags :: u16
  th_shutdown :: bool
  th_handle :: "unit uv_handle"
  th_master :: "nat option"
  th_slave :: bool
  th_pipes :: "int \<times> int"
  th_bootstrap :: "string option"
  th_exit_code :: int
  th_interrupt :: bool
  th_vm_interrupt :: bool
  th_phase :: th_phase
  th_sent :: bool
  th_refs :: nat
  th_freed :: bool

text \<open>\<open>closed_fds\<close> are the descriptors that were closed, in order; \<open>ipc_refs\<close> the references to pipe objects.\<close>

record thread_store = net_store +
  threads :: "nat \<Rightarrow> async_thread"
  next_thread :: nat
  closed_fds :: "int list"
  ipc_refs :: "nat \<Rightarrow> nat"

type_synonym 'a th_wake = "opid \<Rightarrow> 'a thread_store_scheme \<Rightarrow> 'a thread_store_scheme"
type_synonym 'a th_yield = "transfer \<Rightarrow> 'a thread_store_scheme \<Rightarrow> 'a thread_store_scheme"
type_synonym 'a th_own = "nat \<Rightarrow> 'a thread_store_scheme \<Rightarrow> 'a thread_store_scheme"

definition upd_thread :: "nat \<Rightarrow> (async_thread \<Rightarrow> async_thread) \<Rightarrow> 'a thread_store_scheme \<Rightarrow> 'a thread_store_scheme" where
  "upd_thread t f w = w\<lparr>threads := (threads w)(t := f (threads w t))\<rparr>"

text \<open>
  What the system does: the file behind a path, \<open>socketpair\<close> (an error or two descriptors),
  \<open>uv_thread_create\<close>, and waiting for the end of a thread (\<open>uv_thread_join\<close>).
\<close>

record 'w thread_env =
  thread_cli :: bool
  thread_realpath :: "string \<Rightarrow> string option"
  thread_socketpair :: "'w \<Rightarrow> int + int \<times> int"
  thread_create_code :: "'w \<Rightarrow> int"
  await_thread :: "nat \<Rightarrow> 'w \<Rightarrow> 'w"

section \<open>The new thread\<close>

text \<open>It lets others interrupt it, and opens its end of the pipe; when that fails the process aborts.\<close>

definition thread_enter :: "int \<Rightarrow> nat \<Rightarrow> 'a thread_store_scheme \<Rightarrow> 'a thread_store_scheme option" where
  "thread_enter code t w =
     (if code < 0 then None
      else Some (upd_thread t (\<lambda>x. x\<lparr>th_phase := Th_running, th_interrupt := True, th_vm_interrupt := False, th_slave := True\<rparr>) w))"

text \<open>
  What becomes of the file: it cannot be opened, it was compiled and executed (with an exception that
  is pending at the end or not), or the engine left it.
\<close>

datatype bootstrap = Boot_missing | Boot_run bool | Boot_exit

definition run_bootstrap :: "bootstrap \<Rightarrow> int \<Rightarrow> int" where
  "run_bootstrap b status = (case b of Boot_run True \<Rightarrow> 1 | _ \<Rightarrow> status)"

definition thread_leave :: "bootstrap \<Rightarrow> int \<Rightarrow> nat \<Rightarrow> 'a thread_store_scheme \<Rightarrow> 'a thread_store_scheme" where
  "thread_leave b status t w =
     upd_thread t (\<lambda>x. x\<lparr>th_phase := Th_leaving, th_interrupt := False, th_slave := False, th_exit_code := run_bootstrap b status\<rparr>)
       (w\<lparr>closed_fds := closed_fds w @ [snd (th_pipes (threads w t))]\<rparr>)"

definition thread_exit :: "nat \<Rightarrow> 'a thread_store_scheme \<Rightarrow> 'a thread_store_scheme" where
  "thread_exit t w = upd_thread t (\<lambda>x. x\<lparr>th_phase := Th_ended, th_sent := True\<rparr>) w"

text \<open>The handler of interrupts: a thread that was killed leaves the engine.\<close>

definition interrupt_thread :: "nat option \<Rightarrow> (outcome \<Rightarrow> outcome) \<Rightarrow> 'a thread_store_scheme \<Rightarrow> outcome" where
  "interrupt_thread cur prev w =
     (if (case cur of None \<Rightarrow> False | Some t \<Rightarrow> has_flag (th_flags (threads w t)) THREAD_FLAG_KILLED) then Bail else prev (Ret IS_NULL))"

section \<open>The life of the object\<close>

text \<open>The handle that the new thread sends to keeps the loop alive from the creation of the object on.\<close>

definition async_thread_object_create :: "'a thread_store_scheme \<Rightarrow> nat \<times> 'a thread_store_scheme" where
  "async_thread_object_create w =
     (let t = next_thread w
      in (t, upd_thread t (\<lambda>_. \<lparr>th_flags = 0, th_shutdown = True, th_handle = uv_start () uv_init, th_master = None, th_slave = False,
             th_pipes = (0, 0), th_bootstrap = None, th_exit_code = 0, th_interrupt = False, th_vm_interrupt = False,
             th_phase = Th_none, th_sent = False, th_refs = 2, th_freed = False\<rparr>)
           (w\<lparr>next_thread := Suc t, s_shutdown := list_append (ShutdownCb CThread t) (s_shutdown w)\<rparr>)))"

text \<open>\<open>shutdown_cb\<close>: only on Windows there is something to close.\<close>

definition thread_shutdown_cb :: "nat \<Rightarrow> 'a thread_store_scheme \<Rightarrow> 'a thread_store_scheme" where
  "thread_shutdown_cb t w = upd_thread t (\<lambda>x. x\<lparr>th_shutdown := False\<rparr>) w"

definition async_thread_object_dtor :: "nat \<Rightarrow> 'a thread_store_scheme \<Rightarrow> 'a thread_store_scheme" where
  "async_thread_object_dtor t w =
     (if th_shutdown (threads w t)
      then thread_shutdown_cb t (w\<lparr>s_shutdown := remove1 (ShutdownCb CThread t) (s_shutdown w)\<rparr>)
      else w)"

definition ipc_delref :: "'a th_own \<Rightarrow> 'a th_wake \<Rightarrow> nat \<Rightarrow> 'a thread_store_scheme \<Rightarrow> 'a thread_store_scheme" where
  "ipc_delref own run p w =
     (let w1 = w\<lparr>ipc_refs := (ipc_refs w)(p := ipc_refs w p - 1)\<rparr>
      in if ipc_refs w1 p = 0 then async_pipe_object_dtor own run p w1 else w1)"

text \<open>\<open>uv_thread_join\<close> on a thread that was never created has no defined result.\<close>

definition async_thread_object_destroy ::
  "'a thread_store_scheme thread_env \<Rightarrow> 'a th_own \<Rightarrow> 'a th_wake \<Rightarrow> nat \<Rightarrow> 'a thread_store_scheme \<Rightarrow> 'a thread_store_scheme option" where
  "async_thread_object_destroy env own run t w =
     (if has_flag (th_flags (threads w t)) THREAD_FLAG_RUNNING \<and> th_phase (threads w t) = Th_none then None
      else
        let w1 = (if has_flag (th_flags (threads w t)) THREAD_FLAG_RUNNING
                  then await_thread env t (upd_thread t (\<lambda>x. x\<lparr>th_flags := clear_flag (th_flags x) THREAD_FLAG_RUNNING\<rparr>) w) else w);
            w2 = (case th_master (threads w1 t) of None \<Rightarrow> w1 | Some p \<Rightarrow> ipc_delref own run p w1)
        in Some (upd_thread t (\<lambda>x. x\<lparr>th_bootstrap := None, th_freed := True\<rparr>) w2))"

definition thread_delref ::
  "'a thread_store_scheme thread_env \<Rightarrow> 'a th_own \<Rightarrow> 'a th_wake \<Rightarrow> nat \<Rightarrow> 'a thread_store_scheme \<Rightarrow> 'a thread_store_scheme option" where
  "thread_delref env own run t w =
     (let w1 = upd_thread t (\<lambda>x. x\<lparr>th_refs := th_refs x - 1\<rparr>) w
      in if 0 < th_refs (threads w1 t) then Some w1
         else async_thread_object_destroy env own run t (async_thread_object_dtor t w1))"

definition close_async_cb ::
  "'a thread_store_scheme thread_env \<Rightarrow> 'a th_own \<Rightarrow> 'a th_wake \<Rightarrow> nat \<Rightarrow> 'a thread_store_scheme \<Rightarrow> 'a thread_store_scheme option" where
  "close_async_cb env own run t w = thread_delref env own run t w"

definition try_close :: "nat \<Rightarrow> 'a thread_store_scheme \<Rightarrow> 'a thread_store_scheme" where
  "try_close t w = (if uv_closing (th_handle (threads w t)) then w else upd_thread t (\<lambda>x. x\<lparr>th_handle := uv_close (th_handle x)\<rparr>) w)"

text \<open>
  The new thread has sent its end: all executions that join are woken. The descriptor of the end of the
  pipe that the new thread used is closed.
\<close>

definition notify_thread_cb :: "'a th_wake \<Rightarrow> nat \<Rightarrow> 'a thread_store_scheme \<Rightarrow> 'a thread_store_scheme option" where
  "notify_thread_cb run t w =
     (let w1 = upd_thread t (\<lambda>x. x\<lparr>th_flags := set_flag (th_flags x) THREAD_FLAG_TERMINATED\<rparr>) w;
          w2 = (if th_shutdown (threads w1 t)
                then upd_thread t (\<lambda>x. x\<lparr>th_shutdown := False\<rparr>) (w1\<lparr>s_shutdown := remove1 (ShutdownCb CThread t) (s_shutdown w1)\<rparr>)
                else w1)
      in map_option (\<lambda>w3. try_close t (w3\<lparr>closed_fds := closed_fds w3 @ [snd (th_pipes (threads w3 t))]\<rparr>))
           (drain_first (async_finish_op run) (ThreadJoin t) w2))"

section \<open>Methods\<close>

definition thread_error :: "texts \<Rightarrow> string \<Rightarrow> int \<Rightarrow> zval" where
  "thread_error tx msg code = IS_ERROR ErrorCe (msg @ strerror tx code) None"

text \<open>The constructor in three parts: starting the thread, with a pair of sockets for its pipe, for a file that exists.\<close>

definition thread_launch ::
  "texts \<Rightarrow> 'a thread_store_scheme net_env \<Rightarrow> 'a thread_store_scheme thread_env \<Rightarrow> 'a th_own \<Rightarrow> 'a th_wake \<Rightarrow> nat \<Rightarrow>
   'a thread_store_scheme \<Rightarrow> outcome \<times> 'a thread_store_scheme" where
  "thread_launch tx net env own run t w =
     (let w1 = upd_thread t (\<lambda>x. x\<lparr>th_flags := set_flag (th_flags x) THREAD_FLAG_RUNNING\<rparr>) w; code = thread_create_code env w1
      in if code < 0 then (Throw (thread_error tx ''Failed to create thread: '' code), try_close t w1)
         else
           let w2 = upd_thread t (\<lambda>x. x\<lparr>th_phase := Th_created\<rparr>) w1;
               (p, w3) = async_pipe_init_ipc w2;
               w4 = w3\<lparr>ipc_refs := (ipc_refs w3)(p := 1)\<rparr>;
               code = open_code net p (fst (th_pipes (threads w4 t))) w4
           in if code < 0 then (Throw (thread_error tx ''Failed to open IPC pipe: '' code), ipc_delref own run p w4)
              else (Ret IS_NULL, upd_thread t (\<lambda>x. x\<lparr>th_master := Some p\<rparr>) w4))"

definition thread_start ::
  "texts \<Rightarrow> 'a thread_store_scheme net_env \<Rightarrow> 'a thread_store_scheme thread_env \<Rightarrow> 'a th_own \<Rightarrow> 'a th_wake \<Rightarrow> nat \<Rightarrow>
   'a thread_store_scheme \<Rightarrow> outcome \<times> 'a thread_store_scheme" where
  "thread_start tx net env own run t w = (case thread_socketpair env w of
     Inl code \<Rightarrow> (Throw (thread_error tx ''Failed to create IPC pipe: '' code), try_close t w)
   | Inr fds \<Rightarrow> thread_launch tx net env own run t (upd_thread t (\<lambda>x. x\<lparr>th_pipes := fds\<rparr>) w))"

definition thread_construct ::
  "texts \<Rightarrow> 'a thread_store_scheme net_env \<Rightarrow> 'a thread_store_scheme thread_env \<Rightarrow> 'a th_own \<Rightarrow> 'a th_wake \<Rightarrow> nat \<Rightarrow> string \<Rightarrow>
   'a thread_store_scheme \<Rightarrow> outcome \<times> 'a thread_store_scheme" where
  "thread_construct tx net env own run t name w =
     (if \<not> thread_cli env
      then (Throw (IS_ERROR ErrorCe ''Threads are only supported if PHP is run from the command line (cli)'' None), w)
      else case thread_realpath env (c_str name) of
        None \<Rightarrow> (Throw (IS_ERROR ErrorCe (''Failed to locate thread bootstrap file: '' @ c_str name) None), try_close t w)
      | Some path \<Rightarrow> thread_start tx net env own run t (upd_thread t (\<lambda>x. x\<lparr>th_bootstrap := Some path\<rparr>) w))"

definition thread_is_available :: "'w thread_env \<Rightarrow> bool" where
  "thread_is_available env = thread_cli env"

definition thread_is_worker :: "nat option \<Rightarrow> bool" where
  "thread_is_worker cur = (cur \<noteq> None)"

text \<open>In the new thread: \<open>cur\<close> is the object of the thread that runs. The result says that the pipe is returned.\<close>

definition thread_connect :: "nat option \<Rightarrow> 'a thread_store_scheme \<Rightarrow> zval + nat" where
  "thread_connect cur w = (case cur of
     None \<Rightarrow> Inl (IS_ERROR ErrorCe ''Only threads can connect to the parent process'' None)
   | Some t \<Rightarrow> if th_slave (threads w t) then Inr t else Inl (IS_ERROR ErrorCe ''IPC pipe is not available'' None))"

definition thread_get_ipc :: "nat \<Rightarrow> 'a thread_store_scheme \<Rightarrow> outcome \<times> 'a thread_store_scheme" where
  "thread_get_ipc t w = (case th_master (threads w t) of
     None \<Rightarrow> (Throw (IS_ERROR ErrorCe ''IPC pipe is not available'' None), w)
   | Some p \<Rightarrow> (Ret (IS_OBJECT p), w\<lparr>ipc_refs := (ipc_refs w)(p := ipc_refs w p + 1)\<rparr>))"

definition thread_kill :: "nat \<Rightarrow> 'a thread_store_scheme \<Rightarrow> 'a thread_store_scheme" where
  "thread_kill t w =
     upd_thread t (\<lambda>x. x\<lparr>th_flags := set_flag (th_flags x) THREAD_FLAG_KILLED, th_vm_interrupt := (th_interrupt x \<or> th_vm_interrupt x)\<rparr>) w"

definition thread_join :: "'a th_yield \<Rightarrow> nat \<Rightarrow> 'a thread_store_scheme \<Rightarrow> (outcome \<times> 'a thread_store_scheme) option" where
  "thread_join yield t w =
     (if has_flag (th_flags (threads w t)) THREAD_FLAG_TERMINATED then Some (Ret (IS_LONG (th_exit_code (threads w t))), w)
      else
        let (op, w1) = async_alloc_op w
        in map_option (\<lambda>(r, w2).
             if r = Await_bailout then (Bail, w2)
             else (if r = Await_failure then Throw (op_result (ops w2 op)) else Ret (IS_LONG (th_exit_code (threads w2 t))),
                   async_free_op op w2))
           (async_await_op yield op (async_append_op (ThreadJoin t) op w1)))"

section \<open>The module\<close>

text \<open>The interrupt handler of PHP is replaced by that of the extension, and put back at the end.\<close>

record 'h interrupt_module =
  im_cli :: bool
  im_handler :: 'h
  im_prev :: 'h
  im_deactivate :: "'h option"
  im_saved :: "'h option"

definition async_thread_ce_register :: "'h \<Rightarrow> 'h interrupt_module \<Rightarrow> 'h interrupt_module" where
  "async_thread_ce_register interrupt m =
     (if im_cli m then m\<lparr>im_saved := im_deactivate m, im_deactivate := None, im_prev := im_handler m, im_handler := interrupt\<rparr> else m)"

definition async_thread_ce_unregister :: "'h interrupt_module \<Rightarrow> 'h interrupt_module" where
  "async_thread_ce_unregister m = (if im_cli m then m\<lparr>im_handler := im_prev m, im_deactivate := im_saved m\<rparr> else m)"

end
