(* ===== verification/ThreadProps.thy ===== *)
theory ThreadProps
  imports Thread NetProps
begin

text \<open>
  Properties of threads: the creator and the new thread as interleaved steps, with what they may rely on;
  what an execution that joins a thread gets; and interrupts and descriptors that go wrong.
\<close>

section \<open>Frames\<close>

lemma thread_store_more_eq:
  assumes "task_store.more w' = task_store.more (w :: 'a thread_store_scheme)"
  shows "threads w' = threads w" "closed_fds w' = closed_fds w" "next_thread w' = next_thread w"
  using assms by (cases w; cases w'; simp)+

lemma upd_thread_sel [simp]:
  "threads (upd_thread t f w) = (threads w)(t := f (threads w t))" "ops (upd_thread t f w) = ops w"
  "queues (upd_thread t f w) = queues w" "next_opid (upd_thread t f w) = next_opid w" "s_flags (upd_thread t f w) = s_flags w"
  "s_shutdown (upd_thread t f w) = s_shutdown w" "closed_fds (upd_thread t f w) = closed_fds w" "tasks (upd_thread t f w) = tasks w"
  "g_task (upd_thread t f w) = g_task w" "contexts (upd_thread t f w) = contexts w" "g_context (upd_thread t f w) = g_context w"
  "cancels (upd_thread t f w) = cancels w"
  by (simp_all add: upd_thread_def)

lemma thread_steps_sel [simp]:
  "threads (thread_leave b st t w) = (threads w)(t := (threads w t)\<lparr>th_phase := Th_leaving, th_interrupt := False, th_slave := False,
     th_exit_code := run_bootstrap b st\<rparr>)"
  "threads (thread_exit t w) = (threads w)(t := (threads w t)\<lparr>th_phase := Th_ended, th_sent := True\<rparr>)"
  "ops (thread_leave b st t w) = ops w" "queues (thread_leave b st t w) = queues w" "next_opid (thread_leave b st t w) = next_opid w"
  "s_flags (thread_leave b st t w) = s_flags w" "ops (thread_exit t w) = ops w" "queues (thread_exit t w) = queues w"
  "next_opid (thread_exit t w) = next_opid w" "s_flags (thread_exit t w) = s_flags w"
  "closed_fds (thread_leave b st t w) = closed_fds w @ [snd (th_pipes (threads w t))]" "closed_fds (thread_exit t w) = closed_fds w"
  by (simp_all add: thread_leave_def thread_exit_def)

section \<open>The end of a thread\<close>

text \<open>What the creator finds when libuv tells that the new thread has sent its end.\<close>

lemma notify_wakes_all:
  fixes w :: "'a thread_store_scheme"
  assumes "ops_wf w"
  shows "\<exists>w'. notify_thread_cb wake t w = Some w' \<and> ops_wf w' \<and> s_flags w' = s_flags w \<and>
    queues w' = (queues w)(ThreadJoin t := []) \<and>
    (\<forall>x. ops w' x = (if x \<in> set (queues w (ThreadJoin t))
       then (ops w x)\<lparr>op_list := None, op_status := ASYNC_STATUS_RESOLVED\<rparr> else ops w x)) \<and>
    (\<forall>u. u \<noteq> t \<longrightarrow> threads w' u = threads w u) \<and>
    (\<exists>h. threads w' t = (threads w t)\<lparr>th_flags := set_flag (th_flags (threads w t)) THREAD_FLAG_TERMINATED, th_shutdown := False,
       th_handle := h\<rparr> \<and> uv_closing h) \<and>
    closed_fds w' = closed_fds w @ [snd (th_pipes (threads w t))]"
proof -
  define w1 where "w1 = upd_thread t (\<lambda>x. x\<lparr>th_flags := set_flag (th_flags x) THREAD_FLAG_TERMINATED\<rparr>) w"
  define w2 where "w2 = (if th_shutdown (threads w1 t)
    then upd_thread t (\<lambda>x. x\<lparr>th_shutdown := False\<rparr>) (w1\<lparr>s_shutdown := remove1 (ShutdownCb CThread t) (s_shutdown w1)\<rparr>) else w1)"
  have w2: "ops w2 = ops w" "queues w2 = queues w" "next_opid w2 = next_opid w" "s_flags w2 = s_flags w" "closed_fds w2 = closed_fds w"
    "threads w2 = (threads w)(t := (threads w t)\<lparr>th_flags := set_flag (th_flags (threads w t)) THREAD_FLAG_TERMINATED, th_shutdown := False\<rparr>)"
    by (simp_all add: w2_def w1_def) (cases "threads w t"; auto)
  have "\<exists>v. drain_first (async_finish_op wake) (ThreadJoin t) w2 = Some v \<and>
      (ops_wf v \<and> task_store.more v = task_store.more w2 \<and> s_flags v = s_flags w) \<and> queues v = (queues w2)(ThreadJoin t := []) \<and>
      (\<forall>x. ops v x = (if x \<in> set (queues w2 (ThreadJoin t)) then (ops w2 x)\<lparr>op_list := None\<rparr>\<lparr>op_status := ASYNC_STATUS_RESOLVED\<rparr> else ops w2 x))"
  proof (rule drain_first_quiet)
    show "ops_wf w2 \<and> task_store.more w2 = task_store.more w2 \<and> s_flags w2 = s_flags w"
      using assms w2 by (simp add: ops_wf_cong [of w2 w])
  next
    fix op rest and u :: "'a thread_store_scheme"
    assume u: "ops_wf u \<and> task_store.more u = task_store.more w2 \<and> s_flags u = s_flags w" "queues u (ThreadJoin t) = op # rest"
    then have l: "op_list (ops u op) = Some (ThreadJoin t)" by (metis list.set_intros(1) ops_wf_mem)
    show "ops_wf (async_finish_op wake op u) \<and> task_store.more (async_finish_op wake op u) = task_store.more w2 \<and>
        s_flags (async_finish_op wake op u) = s_flags w"
      using u(1) by (simp add: waking_wf.inv_finish)
    show "ops (async_finish_op wake op u) = (ops u)(op := (ops u op)\<lparr>op_list := None\<rparr>\<lparr>op_status := ASYNC_STATUS_RESOLVED\<rparr>)"
      "queues (async_finish_op wake op u) = (queues u)(ThreadJoin t := rest)"
      using l u(2) by (simp_all add: async_finish_op_def unlink_op_def)
  qed simp
  then obtain v where v: "drain_first (async_finish_op wake) (ThreadJoin t) w2 = Some v" "ops_wf v" "task_store.more v = task_store.more w2"
    "s_flags v = s_flags w" "queues v = (queues w)(ThreadJoin t := [])"
    "\<forall>x. ops v x = (if x \<in> set (queues w (ThreadJoin t)) then (ops w x)\<lparr>op_list := None, op_status := ASYNC_STATUS_RESOLVED\<rparr> else ops w x)"
    unfolding w2(1,2) by auto
  define w' where "w' = try_close t (v\<lparr>closed_fds := closed_fds v @ [snd (th_pipes (threads v t))]\<rparr>)"
  have r: "notify_thread_cb wake t w = Some w'" using v(1) by (simp add: notify_thread_cb_def w1_def [symmetric] w2_def [symmetric] w'_def Let_def)
  have x: "threads v = threads w2" "closed_fds v = closed_fds w" using thread_store_more_eq [OF v(3)] w2(5) by simp_all
  have "ops w' = ops v" "queues w' = queues v" "next_opid w' = next_opid v" "s_flags w' = s_flags v" by (simp_all add: w'_def try_close_def)
  moreover from this have "ops_wf w'" using v(2) by (subst ops_wf_cong [where w = v]) simp_all
  moreover have "\<exists>h. threads w' t = (threads w t)\<lparr>th_flags := set_flag (th_flags (threads w t)) THREAD_FLAG_TERMINATED, th_shutdown := False,
       th_handle := h\<rparr> \<and> uv_closing h"
    by (cases "uv_closing (th_handle (threads w t))")
      (rule exI [of _ "th_handle (threads w t)"], simp add: w'_def try_close_def x w2(6),
       rule exI [of _ "uv_close (th_handle (threads w t))"], simp add: w'_def try_close_def x w2(6) uv_close_def)
  moreover have "\<forall>u. u \<noteq> t \<longrightarrow> threads w' u = threads w u" "closed_fds w' = closed_fds w @ [snd (th_pipes (threads w t))]"
    by (simp_all add: w'_def try_close_def x w2(6))
  ultimately show ?thesis using r v(4-6) by (intro exI [of _ w']) simp
qed

section \<open>Joining\<close>

text \<open>The state in which task \<open>s\<close> waits in \<open>join\<close>, and the end of the new thread while it waits.\<close>

definition joining :: "nat \<Rightarrow> 'a thread_store_scheme \<Rightarrow> 'a thread_store_scheme" where
  "joining t w = async_append_op (ThreadJoin t) (next_opid w) (snd (async_alloc_op w))"

definition thread_ends :: "bootstrap \<Rightarrow> int \<Rightarrow> nat \<Rightarrow> 'a thread_store_scheme \<Rightarrow> 'a thread_store_scheme" where
  "thread_ends b st t w = the (notify_thread_cb wake t (thread_exit t (thread_leave b st t w)))"

lemma joining_sel [simp]:
  "queues (joining t w) = (queues w)(ThreadJoin t := queues w (ThreadJoin t) @ [next_opid w])"
  "threads (joining t w) = threads w" "s_flags (joining t w) = s_flags w" "g_task (joining t w) = g_task w"
  "tasks (joining t w) = tasks w" "contexts (joining t w) = contexts w" "g_context (joining t w) = g_context w"
  "cancels (joining t w) = cancels w" "next_opid (joining t w) = Suc (next_opid w)"
  "op_list (ops (joining t w) (next_opid w)) = Some (ThreadJoin t)"
  by (simp_all add: joining_def async_append_op_def async_alloc_op_def) (simp add: upd_queue_def upd_op_def)

lemma ops_wf_joining: "ops_wf w \<Longrightarrow> ops_wf (joining t w)"
  unfolding joining_def by (intro ops_wf_append ops_wf_alloc) (simp_all add: async_alloc_op_def zero_op_def)


text \<open>A first world, with a thread that was created and has not yet begun.\<close>

definition boot_thread :: thread_store where
  "boot_thread = net_store.extend boot_net (thread_store.fields
     (\<lambda>_. \<lparr>th_flags = 0, th_shutdown = True, th_handle = uv_start () uv_init, th_master = None, th_slave = False, th_pipes = (5, 6),
        th_bootstrap = Some ''/t.php'', th_exit_code = 0, th_interrupt = False, th_vm_interrupt = False, th_phase = Th_created,
        th_sent = False, th_refs = 2, th_freed = False\<rparr>) 1 [] (\<lambda>_. 0))"

lemma boot_thread_sel [simp]:
  "ops boot_thread = (\<lambda>_. zero_op)" "queues boot_thread = (\<lambda>_. [])" "next_opid boot_thread = 0"
  "ops_wf boot_thread" "may_wait 0 boot_thread" "th_flags (threads boot_thread t) = 0" "th_phase (threads boot_thread t) = Th_created"
  "\<not> th_interrupt (threads boot_thread t)" "\<not> th_vm_interrupt (threads boot_thread t)" "\<not> th_sent (threads boot_thread t)"
proof -
  have "ops boot_thread = ops boot_net" "queues boot_thread = queues boot_net" "next_opid boot_thread = next_opid boot_net"
    "s_flags boot_thread = s_flags boot_net" "g_task boot_thread = g_task boot_net" "tasks boot_thread = tasks boot_net"
    "contexts boot_thread = contexts boot_net" "g_context boot_thread = g_context boot_net" "cancels boot_thread = cancels boot_net"
    by (simp_all add: boot_thread_def net_store.defs thread_store.defs)
  then show "ops boot_thread = (\<lambda>_. zero_op)" "queues boot_thread = (\<lambda>_. [])" "next_opid boot_thread = 0"
    "ops_wf boot_thread" "may_wait 0 boot_thread"
    using boot_net_sel(7) by (simp_all add: ops_wf_def may_wait_def await_checks_task_def sched_flag_def)
qed (simp_all add: boot_thread_def net_store.defs thread_store.defs)


section \<open>The creator and the new thread\<close>

text \<open>
  The steps of both sides, in any order: the new thread proceeds, the creator kills it, libuv tells of its
  end (once: the handle is closed then), other code leaves the object as it is.
\<close>

inductive thread_step :: "nat \<Rightarrow> 'a thread_store_scheme \<Rightarrow> 'a thread_store_scheme \<Rightarrow> bool" for t where
  enter: "th_phase (threads w t) = Th_created \<Longrightarrow> thread_enter code t w = Some w' \<Longrightarrow> thread_step t w w'"
| leave: "th_phase (threads w t) = Th_running \<Longrightarrow> thread_step t w (thread_leave b st t w)"
| exit: "th_phase (threads w t) = Th_leaving \<Longrightarrow> thread_step t w (thread_exit t w)"
| kill: "thread_step t w (thread_kill t w)"
| notify: "th_sent (threads w t) \<Longrightarrow> \<not> uv_closing (th_handle (threads w t)) \<Longrightarrow> ops_wf w \<Longrightarrow>
    notify_thread_cb wake t w = Some w' \<Longrightarrow> thread_step t w w'"
| other: "threads w' t = threads w t \<Longrightarrow> thread_step t w w'"

text \<open>
  The pointer to the flag is set exactly while the thread runs; the thread has been reported as terminated
  only after it has sent its end, which is its last action; a flag that is set belongs to a killed thread.
\<close>

definition thread_ok :: "async_thread \<Rightarrow> bool" where
  "thread_ok x \<longleftrightarrow> (th_interrupt x \<longleftrightarrow> th_phase x = Th_running) \<and> (th_sent x \<longrightarrow> th_phase x = Th_ended) \<and>
     (has_flag (th_flags x) THREAD_FLAG_TERMINATED \<longrightarrow> th_sent x) \<and> (th_vm_interrupt x \<longrightarrow> has_flag (th_flags x) THREAD_FLAG_KILLED)"

lemma thread_flags [simp]:
  "has_flag (set_flag (fl :: u16) 4) 2 = has_flag fl 2" "has_flag (set_flag (fl :: u16) 2) 4 = has_flag fl 4"
  by (simp_all add: has_flag_set_other)

lemma thread_step_ok:
  assumes "thread_step t w w'" and "thread_ok (threads w t)"
  shows "thread_ok (threads w' t)"
  using assms(1)
proof (cases rule: thread_step.cases)
  case notify
  from notify_wakes_all [OF notify(3), of t] notify(4) obtain h where
    "threads w' t = (threads w t)\<lparr>th_flags := set_flag (th_flags (threads w t)) THREAD_FLAG_TERMINATED, th_shutdown := False, th_handle := h\<rparr>"
    by auto
  with assms(2) notify(1) show ?thesis by (auto simp: thread_ok_def)
qed (use assms(2) in \<open>auto simp: thread_ok_def thread_enter_def thread_kill_def split: if_splits\<close>)

text \<open>
  C28. However the steps of the creator and of the new thread are interleaved, killing a thread writes to the
  interrupt flag only while the thread runs and its memory exists; a thread that finds the flag leaves the
  engine; and when a thread is marked as terminated, so that joins return, it has done its last action.
\<close>

theorem thread_steps_are_safe:
  assumes "(thread_step t)\<^sup>*\<^sup>* w w'" and "th_phase (threads w t) \<in> {Th_none, Th_created}" and "\<not> th_interrupt (threads w t)"
    and "\<not> th_vm_interrupt (threads w t)" and "\<not> th_sent (threads w t)" and "\<not> has_flag (th_flags (threads w t)) THREAD_FLAG_TERMINATED"
  shows "(th_vm_interrupt (threads (thread_kill t w') t) \<noteq> th_vm_interrupt (threads w' t) \<longrightarrow> th_phase (threads w' t) = Th_running) \<and>
    (th_vm_interrupt (threads w' t) \<longrightarrow> interrupt_thread (Some t) prev w' = Bail) \<and>
    (has_flag (th_flags (threads w' t)) THREAD_FLAG_TERMINATED \<longrightarrow> th_phase (threads w' t) = Th_ended)"
proof -
  have "thread_ok (threads w' t)"
    using assms(1) by (induction rule: rtranclp_induct) (use assms(2-6) thread_step_ok in \<open>auto simp: thread_ok_def\<close>)
  then show ?thesis by (auto simp: thread_ok_def thread_kill_def interrupt_thread_def)
qed

lemma thread_steps_are_safe_witness:
  "\<exists>w'. (thread_step 0)\<^sup>*\<^sup>* boot_thread w' \<and> th_vm_interrupt (threads w' 0) \<and> (\<forall>prev. interrupt_thread (Some 0) prev w' = Bail)"
proof -
  define v where "v = upd_thread 0 (\<lambda>x. x\<lparr>th_phase := Th_running, th_interrupt := True, th_vm_interrupt := False, th_slave := True\<rparr>) boot_thread"
  have "thread_enter 0 0 boot_thread = Some v" by (simp add: v_def thread_enter_def)
  with boot_thread_sel(7) have "thread_step 0 boot_thread v" by (rule thread_step.enter)
  then have r: "(thread_step 0)\<^sup>*\<^sup>* boot_thread (thread_kill 0 v)"
    by (rule converse_rtranclp_into_rtranclp) (rule r_into_rtranclp, rule thread_step.kill)
  have k: "th_vm_interrupt (threads (thread_kill 0 v) 0)" by (simp add: thread_kill_def v_def)
  have "interrupt_thread (Some 0) prev (thread_kill 0 v) = Bail" for prev
    using thread_steps_are_safe [OF r, of prev] k by (simp add: has_flag_def)
  then show ?thesis by (intro exI [of _ "thread_kill 0 v"] conjI allI r k)
qed

section \<open>What goes wrong\<close>

text \<open>A thread that is killed before it runs does not notice: entering resets the flag.\<close>

lemma kill_before_start_is_lost:
  assumes "\<not> th_interrupt (threads w t)" and "0 \<le> code"
  shows "\<exists>w'. thread_enter code t (thread_kill t w) = Some w' \<and> has_flag (th_flags (threads w' t)) THREAD_FLAG_KILLED \<and>
    \<not> th_vm_interrupt (threads w' t)"
  using assms by (simp add: thread_enter_def thread_kill_def)

text \<open>The end of the pipe in the new thread is closed there, and its descriptor again by the creator.\<close>

lemma slave_is_closed_twice:
  assumes "ops_wf w" and "notify_thread_cb wake t (thread_exit t (thread_leave b st t w)) = Some w'"
  shows "closed_fds w' = closed_fds w @ [snd (th_pipes (threads w t)), snd (th_pipes (threads w t))]"
proof -
  have "ops_wf (thread_exit t (thread_leave b st t w))" using assms(1) by (subst ops_wf_cong [where w = w]) simp_all
  from notify_wakes_all [OF this, of t] assms(2) show ?thesis by auto
qed

text \<open>When the thread cannot be created, its object is marked as running, and destroying it joins nothing.\<close>

lemma failed_thread_is_joined:
  assumes "thread_create_code env (upd_thread t (\<lambda>x. x\<lparr>th_flags := set_flag (th_flags x) THREAD_FLAG_RUNNING\<rparr>) w) < 0"
    and "th_phase (threads w t) = Th_none"
  shows "async_thread_object_destroy env own run t (snd (thread_launch tx net env own run t w)) = None"
  using assms by (simp add: thread_launch_def async_thread_object_destroy_def try_close_def Let_def)

text \<open>A constructor that throws because PHP does not run from the command line leaves the handle open.\<close>

lemma refused_thread_keeps_loop_alive:
  assumes "\<not> thread_cli env" and "async_thread_object_create w = (t, w1)"
  shows "uv_active (th_handle (threads (snd (thread_construct tx net env own run t name w1)) t)) \<noteq> None"
    and "uv_has_ref (th_handle (threads (snd (thread_construct tx net env own run t name w1)) t))"
  using assms by (auto simp: thread_construct_def async_thread_object_create_def uv_start_def uv_init_def Let_def)

end
