(* ===== verification/XpSocket.thy ===== *)
theory XpSocket
  imports Net
begin

text \<open>
  What the stream transports share (\<open>xp/socket.c\<close>, \<open>include/async/xp.h\<close>): the data of a socket behind a
  PHP stream, parsing addresses, the list of ALPN protocols, the settings of TLS servers, and how a socket
  is created and disposed. A socket, its PHP stream and its \<open>async_stream\<close> have the same number. The
  contexts and options of PHP streams, and the functions of OpenSSL, are parameters.
\<close>

section \<open>State\<close>

abbreviation XP_BLOCKING :: u8 where "XP_BLOCKING \<equiv> 1"
abbreviation XP_DGRAM :: u8 where "XP_DGRAM \<equiv> 2"
abbreviation XP_ACCEPTED :: u8 where "XP_ACCEPTED \<equiv> 4"
abbreviation XP_TIMED_OUT :: u8 where "XP_TIMED_OUT \<equiv> 8"
abbreviation XP_INIT :: u8 where "XP_INIT \<equiv> 16"
abbreviation XP_UDP_CONNECTED :: u8 where "XP_UDP_CONNECTED \<equiv> 64"
abbreviation XP_UDP_RECEIVING :: u8 where "XP_UDP_RECEIVING \<equiv> 128"

text \<open>The sets of function pointers that the code installs: by the factory of TCP, for accepted clients, for UDP.\<close>

datatype xp_vtable = Vt_tcp | Vt_tcp_client | Vt_udp

text \<open>
  The data of a TCP or UDP socket. \<open>xd_handle\<close> is its handle until there is an \<open>async_stream\<close>, whose
  handle it is then; the memory of a handle that was not initialised is zero.
\<close>

record xp_socket_data =
  xd_vtable :: xp_vtable
  xd_handle :: "unit uv_handle"
  xd_astream :: bool
  xd_flags :: u8
  xd_timeout :: u64
  xd_timer :: "u64 uv_handle"
  xd_peer :: "string option"
  xd_ssl :: "nat option"
  xd_pending :: u16
  xd_encrypt :: bool
  xd_dest :: sockaddr
  xd_freed :: bool

text \<open>The fields of the PHP stream that the code uses.\<close>

record php_stream =
  ph_eof :: bool
  ph_ctx :: "nat option"
  ph_readbuf :: nat
  ph_readbuflen :: nat
  ph_no_buffer :: bool

record xp_ssl =
  xl_refcount :: u32
  xl_options :: nat
  xl_cert :: "string option"
  xl_key :: "string option"
  xl_passphrase :: "string option"
  xl_sni :: bool
  xl_alpn :: "byte list option"
  xl_freed :: bool

text \<open>The settings of a TLS client stream; \<open>cl_server\<close> are the TLS settings of a server whose context it uses.\<close>

record xp_ssl_settings =
  cl_server :: "nat option"
  cl_verify_depth :: int
  cl_peer_name :: "string option"
  cl_self_signed :: bool
  cl_disable_sni :: bool
  cl_alpn :: "byte list option"

text \<open>A receive operation; \<open>xr_want\<close> says that it has parameters of a call, which get the address of the peer.\<close>

record xp_udp_receive_op =
  xr_flags :: nat
  xr_want :: bool
  xr_len :: nat
  xr_data :: "byte list"
  xr_peer :: "sockaddr option"

abbreviation UNIX_LAZY :: u8 where "UNIX_LAZY \<equiv> 2"
abbreviation UNIX_BLOCKING :: u8 where "UNIX_BLOCKING \<equiv> 4"
abbreviation UNIX_ACCEPTED :: u8 where "UNIX_ACCEPTED \<equiv> 16"
abbreviation UNIX_TIMED_OUT :: u8 where "UNIX_TIMED_OUT \<equiv> 32"
abbreviation UNIX_INIT :: u8 where "UNIX_INIT \<equiv> 64"

text \<open>The data of a Unix socket (\<open>async_pipe_data\<close> of \<open>xp/unix.c\<close>).\<close>

record async_pipe_data =
  pd_handle :: "unit uv_handle"
  pd_astream :: bool
  pd_flags :: u8
  pd_pending :: u8
  pd_ref_count :: u8
  pd_timeout :: u64
  pd_timer :: "u64 uv_handle"
  pd_freed :: bool

text \<open>\<open>xp_freed_streams\<close> are the streams given back by \<open>async_stream_free\<close>, \<open>xp_closing\<close> the handles of pending connections that are closed.\<close>

record xp_store = net_store +
  xps :: "nat \<Rightarrow> xp_socket_data"
  php_streams :: "nat \<Rightarrow> php_stream"
  xp_ssls :: "nat \<Rightarrow> xp_ssl"
  next_ssl :: nat
  xp_settings :: "nat \<Rightarrow> xp_ssl_settings"
  recv_ops :: "opid \<Rightarrow> xp_udp_receive_op"
  unixs :: "nat \<Rightarrow> async_pipe_data"
  xp_freed_streams :: "nat list"
  xp_dropped :: "nat list"
  xp_warnings :: "string list"

type_synonym 'a xp_wake = "opid \<Rightarrow> 'a xp_store_scheme \<Rightarrow> 'a xp_store_scheme"
type_synonym 'a xp_yield = "transfer \<Rightarrow> 'a xp_store_scheme \<Rightarrow> 'a xp_store_scheme"

definition upd_xp :: "nat \<Rightarrow> (xp_socket_data \<Rightarrow> xp_socket_data) \<Rightarrow> 'a xp_store_scheme \<Rightarrow> 'a xp_store_scheme" where
  "upd_xp t f w = w\<lparr>xps := (xps w)(t := f (xps w t))\<rparr>"

definition upd_php :: "nat \<Rightarrow> (php_stream \<Rightarrow> php_stream) \<Rightarrow> 'a xp_store_scheme \<Rightarrow> 'a xp_store_scheme" where
  "upd_php t f w = w\<lparr>php_streams := (php_streams w)(t := f (php_streams w t))\<rparr>"

definition upd_ssl :: "nat \<Rightarrow> (xp_ssl \<Rightarrow> xp_ssl) \<Rightarrow> 'a xp_store_scheme \<Rightarrow> 'a xp_store_scheme" where
  "upd_ssl l f w = w\<lparr>xp_ssls := (xp_ssls w)(l := f (xp_ssls w l))\<rparr>"

definition upd_recv :: "opid \<Rightarrow> (xp_udp_receive_op \<Rightarrow> xp_udp_receive_op) \<Rightarrow> 'a xp_store_scheme \<Rightarrow> 'a xp_store_scheme" where
  "upd_recv op f w = w\<lparr>recv_ops := (recv_ops w)(op := f (recv_ops w op))\<rparr>"

definition upd_unix :: "nat \<Rightarrow> (async_pipe_data \<Rightarrow> async_pipe_data) \<Rightarrow> 'a xp_store_scheme \<Rightarrow> 'a xp_store_scheme" where
  "upd_unix t f w = w\<lparr>unixs := (unixs w)(t := f (unixs w t))\<rparr>"

definition xp_flag :: "nat \<Rightarrow> u8 \<Rightarrow> 'a xp_store_scheme \<Rightarrow> bool" where
  "xp_flag t m w = has_flag (xd_flags (xps w t)) m"

definition xp_warn :: "string \<Rightarrow> 'a xp_store_scheme \<Rightarrow> 'a xp_store_scheme" where
  "xp_warn msg w = w\<lparr>xp_warnings := xp_warnings w @ [msg]\<rparr>"

text \<open>
  What PHP, OpenSSL and the system do: options of a stream context, \<open>zend_is_true\<close>, the texts of
  addresses, what polling a descriptor finds, \<open>VCWD_REALPATH\<close>, the host of a URL (nothing when it cannot be parsed), creating the socket of
  a handle, its descriptor, its remote or local name and whether it may broadcast, the calls that enable encryption (they come back to \<open>setup_ssl\<close> and \<open>toggle_ssl\<close>), loading a
  certificate and its key, and the bytes of a buffer that was not initialised.
\<close>

record 'w xp_env = "'w net_env" +
  ctx_option :: "nat \<Rightarrow> string \<Rightarrow> string \<Rightarrow> zval option"
  zend_true :: "zval \<Rightarrow> bool"
  name_text :: "sockaddr \<Rightarrow> string"
  xp_probe :: "nat \<Rightarrow> 'w \<Rightarrow> probe"
  xp_realpath :: "string \<Rightarrow> string option"
  url_host :: "string \<Rightarrow> string option option"
  init_code :: "nat \<Rightarrow> sockaddr \<Rightarrow> 'w \<Rightarrow> int"
  xp_fileno :: "nat \<Rightarrow> 'w \<Rightarrow> int option"
  xp_getname :: "nat \<Rightarrow> bool \<Rightarrow> 'w \<Rightarrow> int + sockaddr"
  broadcast_code :: "nat \<Rightarrow> 'w \<Rightarrow> int"
  crypto_setup :: "nat \<Rightarrow> 'w \<Rightarrow> bool \<times> 'w"
  crypto_enable :: "nat \<Rightarrow> 'w \<Rightarrow> bool \<times> 'w"
  use_certificate :: "string \<Rightarrow> bool"
  use_private_key :: "string \<Rightarrow> bool"
  check_private_key :: bool
  uninitialised :: "nat \<Rightarrow> byte"

section \<open>The parameters of a transport call\<close>

record xport_param =
  xi_name :: string
  xi_backlog :: int
  xi_timeout :: "(int \<times> int) option"
  xi_addr :: "sockaddr option"
  xi_buf :: "byte list"
  xi_buflen :: nat
  xi_want_error :: bool
  xi_want_text :: bool
  xi_want_addr :: bool
  xi_how :: int

record xport_out =
  xo_client :: "nat option"
  xo_error_code :: int
  xo_error_text :: "string option"
  xo_text :: "string option"
  xo_addr :: "sockaddr option"
  xo_data :: "byte list"

definition no_out :: xport_out where
  "no_out = \<lparr>xo_client = None, xo_error_code = 0, xo_error_text = None, xo_text = None, xo_addr = None, xo_data = []\<rparr>"

text \<open>\<open>ASYNC_XP_SOCKET_REPORT_NETWORK_ERROR\<close>\<close>

definition report_error :: "texts \<Rightarrow> int \<Rightarrow> xport_out \<Rightarrow> xport_out" where
  "report_error tx code out = out\<lparr>xo_error_code := - code, xo_error_text := Some (strerror tx code)\<rparr>"

text \<open>A function returns, with an exception or without, or the engine bails out.\<close>

datatype 'r xp_ret = Xp_ret 'r "zval option" | Xp_exit

text \<open>\<open>SUCCESS\<close> is 0 and \<open>FAILURE\<close> is -1.\<close>

abbreviation FAILURE :: int where "FAILURE \<equiv> - 1"

section \<open>Addresses\<close>

text \<open>The address and the port; otherwise the text of the error. The length of the text is what \<open>memchr\<close> gets.\<close>

definition c_find :: "char \<Rightarrow> string \<Rightarrow> (string \<times> string) option" where
  "c_find c s = (if c \<in> set s then Some (takeWhile (\<lambda>x. x \<noteq> c) s, tl (dropWhile (\<lambda>x. x \<noteq> c) s)) else None)"

definition async_xp_parse_ip :: "string \<Rightarrow> string + string \<times> int" where
  "async_xp_parse_ip str =
     (if 1 < length str \<and> hd str = CHR ''[''
      then case c_find (CHR '']'') (butlast (tl str)) of
             Some (host, rest) \<Rightarrow>
               let behind = drop (length host + 2) str
               in if behind \<noteq> [] \<and> hd behind = CHR '':'' then Inr (c_str host, c_atoi (tl behind))
                  else Inl (''Failed to parse IPv6 address '' @ CHR 0x22 # c_str str @ [CHR 0x22])
           | None \<Rightarrow> Inl (''Failed to parse IPv6 address '' @ CHR 0x22 # c_str str @ [CHR 0x22])
      else case c_find (CHR '':'') (butlast str) of
             Some (host, _) \<Rightarrow> Inr (c_str host, c_atoi (drop (length host + 1) str))
           | None \<Rightarrow> Inl (''Failed to parse address '' @ CHR 0x22 # c_str str @ [CHR 0x22]))"

text \<open>
  Parsing and looking up an address, as \<open>bind\<close> and \<open>connect\<close> do: the address with its port. Without an
  address, a null pointer is looked up.
\<close>

datatype target = Target sockaddr | No_target int "zval option" | Target_exit

definition lookup_target ::
  "'a xp_store_scheme xp_env \<Rightarrow> 'a xp_yield \<Rightarrow> xport_param \<Rightarrow> int \<Rightarrow> 'a xp_store_scheme \<Rightarrow> (target \<times> 'a xp_store_scheme) option" where
  "lookup_target env yield p proto w = (case async_xp_parse_ip (xi_name p) of
     Inl _ \<Rightarrow> None
   | Inr (ip, port) \<Rightarrow> map_option (\<lambda>(r, w1). (case r of
         Ip_found a \<Rightarrow> Target (snd (async_socket_set_port a port))
       | Ip_error code \<Rightarrow> No_target code None
       | Ip_thrown e \<Rightarrow> No_target FAILURE (Some e)
       | Ip_bail \<Rightarrow> Target_exit, w1))
       (async_dns_lookup_ip (dns_env.truncate env) yield ip proto w))"

section \<open>Creating and disposing\<close>

definition async_xp_socket_create_ssl :: "nat \<Rightarrow> 'a xp_store_scheme \<Rightarrow> nat \<times> 'a xp_store_scheme" where
  "async_xp_socket_create_ssl options w =
     (let l = next_ssl w
      in (l, upd_ssl l (\<lambda>_. \<lparr>xl_refcount = 1, xl_options = options, xl_cert = None, xl_key = None, xl_passphrase = None,
               xl_sni = False, xl_alpn = None, xl_freed = False\<rparr>) (w\<lparr>next_ssl := Suc l\<rparr>)))"

definition async_xp_socket_release_ssl :: "nat \<Rightarrow> 'a xp_store_scheme \<Rightarrow> 'a xp_store_scheme" where
  "async_xp_socket_release_ssl l w =
     upd_ssl l (\<lambda>x. x\<lparr>xl_refcount := xl_refcount x - 1, xl_freed := (xl_refcount x = 1 \<or> xl_freed x)\<rparr>) w"

text \<open>\<open>ASYNC_UV_CLOSE\<close>: closing a handle that is closing is an assertion of libuv.\<close>

definition uv_close_once :: "'c uv_handle \<Rightarrow> 'c uv_handle option" where
  "uv_close_once h = (if uv_closing h then None else Some (uv_close h))"

definition release_data :: "nat \<Rightarrow> 'a xp_store_scheme \<Rightarrow> 'a xp_store_scheme" where
  "release_data t w = upd_xp t (\<lambda>x. x\<lparr>xd_freed := True\<rparr>)
     (case xd_ssl (xps w t) of None \<Rightarrow> w | Some l \<Rightarrow> async_xp_socket_release_ssl l w)"

definition dispose_timer :: "nat \<Rightarrow> 'a xp_store_scheme \<Rightarrow> 'a xp_store_scheme" where
  "dispose_timer t w = release_data t w"

text \<open>\<open>if (uv_is_closing(timer)) { ... } else { ASYNC_UV_CLOSE(timer, dispose_timer) }\<close>\<close>

definition drop_data :: "nat \<Rightarrow> 'a xp_store_scheme \<Rightarrow> 'a xp_store_scheme" where
  "drop_data t w =
     (let w1 = upd_xp t (\<lambda>x. x\<lparr>xd_peer := None\<rparr>) w
      in if uv_closing (xd_timer (xps w1 t)) then release_data t w1
         else upd_xp t (\<lambda>x. x\<lparr>xd_timer := uv_close (xd_timer x)\<rparr>) w1)"

text \<open>The stream has no SSL engine.\<close>

definition xp_close_cb :: "nat \<Rightarrow> 'a xp_store_scheme \<Rightarrow> 'a xp_store_scheme" where
  "xp_close_cb t w = drop_data t (upd_stream t (\<lambda>x. x\<lparr>st_base := False\<rparr>) (w\<lparr>xp_freed_streams := xp_freed_streams w @ [t]\<rparr>))"

definition close_dgram_cb :: "nat \<Rightarrow> 'a xp_store_scheme \<Rightarrow> 'a xp_store_scheme" where
  "close_dgram_cb t w = drop_data t w"

definition async_xp_socket_close :: "'a xp_wake \<Rightarrow> nat \<Rightarrow> 'a xp_store_scheme \<Rightarrow> 'a xp_store_scheme option" where
  "async_xp_socket_close run t w =
     (let x = xps w t
      in if \<not> xd_astream x
         then if \<not> xp_flag t XP_INIT w \<or> uv_closing (xd_handle x)
              then map_option (\<lambda>h. upd_xp t (\<lambda>x. x\<lparr>xd_peer := None, xd_timer := h\<rparr>) w) (uv_close_once (xd_timer x))
              else Some (upd_xp t (\<lambda>x. x\<lparr>xd_handle := uv_close (xd_handle x)\<rparr>) w)
         else Some (async_stream_close_cb xp_close_cb run t (Owner_cb t) w))"

text \<open>
  \<open>async_xp_socket_create\<close> for zeroed data (\<open>init\<close> sets what the caller set before); \<open>php_stream_alloc\<close>
  does not fail. The timer does not keep anything but the loop, and only while it is active.
\<close>

definition zero_xp :: "xp_vtable \<Rightarrow> xp_socket_data" where
  "zero_xp vt = \<lparr>xd_vtable = vt, xd_handle = uv_init, xd_astream = False, xd_flags = 0, xd_timeout = 0, xd_timer = uv_init,
     xd_peer = None, xd_ssl = None, xd_pending = 0, xd_encrypt = False, xd_dest = AF_UNSPEC, xd_freed = False\<rparr>"

definition new_php_stream :: php_stream where
  "new_php_stream = \<lparr>ph_eof = False, ph_ctx = None, ph_readbuf = 0, ph_readbuflen = 0, ph_no_buffer = False\<rparr>"

definition async_xp_socket_create :: "nat \<Rightarrow> 'a xp_store_scheme \<Rightarrow> 'a xp_store_scheme" where
  "async_xp_socket_create t w =
     upd_php t (\<lambda>_. new_php_stream) (upd_xp t (\<lambda>x. x\<lparr>xd_flags := set_flag (xd_flags x) XP_BLOCKING, xd_timer := uv_init\<rparr>) w)"

text \<open>\<open>async_xp_socket_register\<close>: the factories by protocol; the result is the one that was registered before.\<close>

definition async_xp_socket_register ::
  "string \<Rightarrow> 'f \<Rightarrow> (string \<Rightarrow> 'f option) \<Rightarrow> 'f option \<times> (string \<Rightarrow> 'f option)" where
  "async_xp_socket_register protocol factory h = (h protocol, h(protocol \<mapsto> factory))"

section \<open>TLS settings\<close>

text \<open>
  \<open>create_alpn_proto_list\<close>: for each name between commas a byte with its length and the name. The length is an
  unsigned char. The string that is returned has one character more than the text, whatever was written:
  the rest is what was in the buffer. Writing or reading behind the 4096 bytes of the buffer is undefined.
\<close>

definition char_byte :: "char \<Rightarrow> byte" where
  "char_byte c = of_nat (of_char c)"

definition alpn_item :: "string \<Rightarrow> byte \<Rightarrow> byte list \<Rightarrow> byte list" where
  "alpn_item seen j out = (if 0 < j then out @ j # map char_byte (rev (take (unat j) seen)) else out)"

fun alpn_loop :: "string \<Rightarrow> string \<Rightarrow> byte \<Rightarrow> byte list \<Rightarrow> byte list" where
  "alpn_loop [] seen j out = alpn_item seen j out"
| "alpn_loop (c # cs) seen j out =
     (if c = CHR '','' then alpn_loop cs (c # seen) 0 (alpn_item seen j out) else alpn_loop cs (c # seen) (j + 1) out)"

definition create_alpn_proto_list :: "(nat \<Rightarrow> byte) \<Rightarrow> string \<Rightarrow> byte list option" where
  "create_alpn_proto_list junk alpn =
     (let out = alpn_loop alpn [] 0 []
      in if 4096 < length out \<or> 4096 < length alpn + 1 then None
         else Some (take (length alpn + 1) (out @ map junk [length out..<4096])))"

text \<open>An option of the \<open>ssl\<close> part of the context, if there is a context.\<close>

definition ssl_opt :: "'w xp_env \<Rightarrow> nat \<Rightarrow> string \<Rightarrow> 'a xp_store_scheme \<Rightarrow> zval option" where
  "ssl_opt env t name w = Option.bind (ph_ctx (php_streams w t)) (\<lambda>c. ctx_option env c ''ssl'' name)"

definition zval_text :: "zval \<Rightarrow> string option" where
  "zval_text z = (case z of IS_STRING s \<Rightarrow> Some s | _ \<Rightarrow> None)"

definition opt_on :: "'w xp_env \<Rightarrow> zval option \<Rightarrow> bool" where
  "opt_on env z = (case z of None \<Rightarrow> True | Some v \<Rightarrow> zend_true env v)"

text \<open>
  \<open>setup_server_encryption\<close>. The options are used as strings without a test of their type (nothing
  when they are not); a private key that is not found leaves a null pointer. The files of
  certification authorities are given to OpenSSL. The bits are \<open>SSL_OP_SINGLE_DH_USE\<close> (here 1) and
  \<open>SSL_OP_CIPHER_SERVER_PREFERENCE\<close> (2).
\<close>

definition server_ssl_options :: "'w xp_env \<Rightarrow> nat \<Rightarrow> 'a xp_store_scheme \<Rightarrow> nat" where
  "server_ssl_options env t w =
     (if opt_on env (ssl_opt env t ''single_dh_use'' w) then 1 else 0) +
     (if opt_on env (ssl_opt env t ''honor_cipher_order'' w) then 2 else 0)"

definition server_key :: "'w xp_env \<Rightarrow> zval option \<Rightarrow> string \<Rightarrow> string option option" where
  "server_key env pk cert = (case pk of
     None \<Rightarrow> Some (Some cert)
   | Some v \<Rightarrow> map_option (\<lambda>s. xp_realpath env (c_str s)) (zval_text v))"

definition finish_server_encryption ::
  "'a xp_store_scheme xp_env \<Rightarrow> nat \<Rightarrow> nat \<Rightarrow> 'a xp_store_scheme \<Rightarrow> (int \<times> 'a xp_store_scheme) option" where
  "finish_server_encryption env t l w =
     (let w1 = (if check_private_key env then w else xp_warn ''Private key does not match certificate!'' w);
          w2 = upd_ssl l (\<lambda>x. x\<lparr>xl_sni := opt_on env (ssl_opt env t ''SNI_enabled'' w1)\<rparr>) w1
      in case ssl_opt env t ''alpn_protocols'' w2 of
           None \<Rightarrow> Some (0, w2)
         | Some v \<Rightarrow> Option.bind (zval_text v) (\<lambda>s. map_option (\<lambda>bs. (0, upd_ssl l (\<lambda>x. x\<lparr>xl_alpn := Some bs\<rparr>) w2))
             (create_alpn_proto_list (uninitialised env) s)))"

definition load_server_certificate ::
  "'a xp_store_scheme xp_env \<Rightarrow> nat \<Rightarrow> nat \<Rightarrow> string \<Rightarrow> string option \<Rightarrow> 'a xp_store_scheme \<Rightarrow> (int \<times> 'a xp_store_scheme) option" where
  "load_server_certificate env t l cert key w =
     (if \<not> use_certificate env cert
      then Some (FAILURE, xp_warn (''Unable to set local cert chain file `'' @ cert @ [CHR 0x27]) w)
      else case key of
        None \<Rightarrow> None
      | Some k \<Rightarrow> if \<not> use_private_key env k
                  then Some (FAILURE, xp_warn (''Unable to set private key file `'' @ k @ [CHR 0x27]) w)
                  else finish_server_encryption env t l w)"

definition setup_server_encryption ::
  "'a xp_store_scheme xp_env \<Rightarrow> nat \<Rightarrow> 'a xp_store_scheme \<Rightarrow> (int \<times> 'a xp_store_scheme) option" where
  "setup_server_encryption env t w = (case ssl_opt env t ''local_cert'' w of
     None \<Rightarrow> Some (0, w)
   | Some c \<Rightarrow> Option.bind (zval_text c) (\<lambda>s.
       let (l, w1) = async_xp_socket_create_ssl (server_ssl_options env t w) w;
           w2 = upd_xp t (\<lambda>x. x\<lparr>xd_ssl := Some l\<rparr>) w1
       in case xp_realpath env (c_str s) of
            None \<Rightarrow> Some (FAILURE, xp_warn (''Unable to find local cert file `'' @ c_str s @ [CHR 0x27]) w2)
          | Some cert \<Rightarrow> Option.bind (server_key env (ssl_opt env t ''local_pk'' w2) cert) (\<lambda>key.
              let w3 = upd_ssl l (\<lambda>x. x\<lparr>xl_cert := Some cert, xl_key := key\<rparr>) w2
              in case ssl_opt env t ''passphrase'' w3 of
                   None \<Rightarrow> load_server_certificate env t l cert key w3
                 | Some v \<Rightarrow> Option.bind (zval_text v) (\<lambda>ps.
                     load_server_certificate env t l cert key (upd_ssl l (\<lambda>x. x\<lparr>xl_passphrase := Some ps\<rparr>) w3)))))"

text \<open>\<open>cert_passphrase_cb\<close>: the bytes that are written and the length; the size of the buffer is not respected.\<close>

definition cert_passphrase_cb :: "string option \<Rightarrow> string \<times> int" where
  "cert_passphrase_cb key = (case key of None \<Rightarrow> ([], 0) | Some k \<Rightarrow> (take (length k) (c_str k @ replicate (length k) (CHR 0x00)), to_c_int (int (length k))))"

end
