(* ===== verification/XpTcp.thy ===== *)
theory XpTcp
  imports XpSocket
begin

text \<open>
  TCP and TLS streams of PHP (\<open>xp/tcp.c\<close>). Encryption is enabled by a call of PHP, a parameter, which
  comes back to \<open>setup_ssl\<close> and \<open>toggle_ssl\<close>. The options of the descriptor (\<open>reuseaddr\<close>,
  \<open>reuseport\<close>) are system calls.
\<close>

type_synonym 'a xp_result = "(int xp_ret \<times> xport_out \<times> 'a xp_store_scheme) option"

section \<open>Servers\<close>

definition socket_opt :: "'w xp_env \<Rightarrow> nat \<Rightarrow> string \<Rightarrow> 'a xp_store_scheme \<Rightarrow> bool" where
  "socket_opt env t name w = (case Option.bind (ph_ctx (php_streams w t)) (\<lambda>c. ctx_option env c ''socket'' name) of
     None \<Rightarrow> False | Some v \<Rightarrow> v \<noteq> IS_NULL \<and> zend_true env v)"

definition is_ipv6 :: "sockaddr \<Rightarrow> bool" where
  "is_ipv6 a = (case a of AF_INET6 _ _ \<Rightarrow> True | _ \<Rightarrow> False)"

definition init_handle :: "nat \<Rightarrow> 'a xp_store_scheme \<Rightarrow> 'a xp_store_scheme" where
  "init_handle t w = upd_xp t (\<lambda>x. x\<lparr>xd_handle := uv_init, xd_flags := set_flag (xd_flags x) XP_INIT\<rparr>) w"

text \<open>The flag 1 of \<open>uv_tcp_bind\<close> is \<open>UV_TCP_IPV6ONLY\<close>.\<close>

definition xp_tcp_bind ::
  "'a xp_store_scheme xp_env \<Rightarrow> 'a xp_yield \<Rightarrow> nat \<Rightarrow> xport_param \<Rightarrow> xport_out \<Rightarrow> 'a xp_store_scheme \<Rightarrow> 'a xp_result" where
  "xp_tcp_bind env yield t p out w =
     map_option (\<lambda>(r, w1). case r of
         Target_exit \<Rightarrow> (Xp_exit, out, w1)
       | No_target _ e \<Rightarrow> (Xp_ret FAILURE e, out, w1)
       | Target dest \<Rightarrow>
           if init_code env t dest w1 < 0 then (Xp_ret FAILURE None, out, w1)
           else
             let w2 = init_handle t w1
             in if xp_fileno env t w2 = None then (Xp_ret FAILURE None, out, w2)
                else (Xp_ret (bind_code env t dest (if is_ipv6 dest \<and> socket_opt env t ''ipv6_v6only'' w2 then 1 else 0) w2) None,
                      out, w2))
     (lookup_target env yield p IPPROTO_TCP w)"

text \<open>All that wait are woken; each looks for a connection again.\<close>

definition xp_listen_cb :: "'a xp_wake \<Rightarrow> nat \<Rightarrow> int \<Rightarrow> 'a xp_store_scheme \<Rightarrow> 'a xp_store_scheme option" where
  "xp_listen_cb run t status w =
     drain_first (\<lambda>op w. async_finish_op run op (set_uv_code op status w)) (XpTcpOps t)
       (if status = 0 then upd_xp t (\<lambda>x. x\<lparr>xd_pending := xd_pending x + 1\<rparr>) w else w)"

definition xp_tcp_listen ::
  "texts \<Rightarrow> 'a xp_store_scheme xp_env \<Rightarrow> nat \<Rightarrow> xport_param \<Rightarrow> xport_out \<Rightarrow> 'a xp_store_scheme \<Rightarrow> 'a xp_result" where
  "xp_tcp_listen tx env t p out w =
     (let code = listen_code env t w
      in Some (if code < 0 then (Xp_ret FAILURE None, report_error tx code out, w)
               else (Xp_ret code None, out, upd_xp t (\<lambda>x. x\<lparr>xd_handle := uv_start () (xd_handle x)\<rparr>) w)))"

section \<open>Encryption\<close>

text \<open>Setting up and enabling encryption on stream \<open>c\<close>: whether both worked.\<close>

definition encrypt_stream :: "'a xp_store_scheme xp_env \<Rightarrow> nat \<Rightarrow> 'a xp_store_scheme \<Rightarrow> bool \<times> 'a xp_store_scheme" where
  "encrypt_stream env c w =
     (let (ok, w1) = crypto_setup env c w
      in if \<not> ok then (False, xp_warn ''Failed to setup crypto'' w1)
         else let (ok, w2) = crypto_enable env c w1
              in if \<not> ok then (False, xp_warn ''Failed to enable crypto'' w2) else (True, w2))"

definition attach_stream :: "nat \<Rightarrow> 'a xp_store_scheme \<Rightarrow> 'a xp_store_scheme" where
  "attach_stream t w = upd_xp t (\<lambda>x. x\<lparr>xd_astream := True\<rparr>) (async_stream_init t (xd_handle (xps w t)) 0 w)"

section \<open>Clients\<close>

definition timeout_ms :: "int \<times> int \<Rightarrow> u64" where
  "timeout_ms tv = word_of_int (fst tv) * 1000 + word_of_int (snd tv) div 1000"

definition xp_connect_cb :: "'a xp_wake \<Rightarrow> nat \<Rightarrow> opid \<Rightarrow> int \<Rightarrow> 'a xp_store_scheme \<Rightarrow> 'a xp_store_scheme" where
  "xp_connect_cb run t op status w =
     async_finish_op run op (set_uv_code op (if status = UV_ECANCELED then UV_ETIMEDOUT else status)
       (w\<lparr>connect_reqs := remove1 (t, op) (connect_reqs w)\<rparr>))"

text \<open>The timer of a connection attempt, which is active once.\<close>

definition connect_timer_cb :: "nat \<Rightarrow> 'a xp_store_scheme \<Rightarrow> 'a xp_store_scheme option" where
  "connect_timer_cb t w =
     (if xp_flag t XP_INIT w
      then map_option (\<lambda>h. upd_xp t (\<lambda>x. x\<lparr>xd_handle := h\<rparr>) w) (uv_close_once (xd_handle (xps w t))) else Some w)"

text \<open>
  The connection attempt: the result is the code, or what ends the function. The request is on the
  stack: it is gone when the wait fails, and so is the operation it refers to.
\<close>

definition xp_connect_wait ::
  "'a xp_yield \<Rightarrow> nat \<Rightarrow> int \<times> int \<Rightarrow> 'a xp_store_scheme \<Rightarrow> (int xp_ret \<times> 'a xp_store_scheme) option" where
  "xp_connect_wait yield t tv w =
     (let (op, w1) = async_alloc_op w;
          w2 = async_append_op (XpTcpOps t) op (set_uv_code op 0 (w1\<lparr>connect_reqs := (t, op) # connect_reqs w1\<rparr>));
          ms = timeout_ms tv;
          w3 = (if 0 < ms then upd_xp t (\<lambda>x. x\<lparr>xd_timer := uv_start ms (xd_timer x)\<rparr>) w2 else w2)
      in map_option (\<lambda>(r, w4).
           if r = Await_bailout then (Xp_exit, w4)
           else
             let w5 = (if 0 < ms then upd_xp t (\<lambda>x. x\<lparr>xd_timer := uv_stop (xd_timer x)\<rparr>) w4 else w4)
             in if r = Await_failure then (Xp_ret 1 (Some (op_result (ops w5 op))), async_free_op op w5)
                else (Xp_ret (uv_codes w5 op) None, async_free_op op w5))
         (async_await_op yield op w3))"

text \<open>What follows the attempt; an exception means that the wait failed.\<close>

definition xp_connected ::
  "texts \<Rightarrow> 'a xp_store_scheme xp_env \<Rightarrow> nat \<Rightarrow> xport_out \<Rightarrow> int xp_ret \<Rightarrow> 'a xp_store_scheme \<Rightarrow>
   int xp_ret \<times> xport_out \<times> 'a xp_store_scheme" where
  "xp_connected tx env t out r w = (case r of
     Xp_exit \<Rightarrow> (Xp_exit, out, w)
   | Xp_ret _ (Some e) \<Rightarrow> (Xp_ret FAILURE (Some e), out, w)
   | Xp_ret code None \<Rightarrow>
       if code < 0 then (Xp_ret FAILURE None, report_error tx code out, w)
       else
         let w1 = attach_stream t w
         in if xd_encrypt (xps w1 t)
            then let (ok, w2) = encrypt_stream env t w1 in (Xp_ret (if ok then 0 else FAILURE) None, out, w2)
            else (Xp_ret 0 None, out, w1))"

definition xp_tcp_connect ::
  "texts \<Rightarrow> 'a xp_store_scheme xp_env \<Rightarrow> 'a xp_yield \<Rightarrow> nat \<Rightarrow> xport_param \<Rightarrow> xport_out \<Rightarrow> 'a xp_store_scheme \<Rightarrow> 'a xp_result" where
  "xp_tcp_connect tx env yield t p out w =
     Option.bind (lookup_target env yield p IPPROTO_TCP w) (\<lambda>(r, w1). case r of
         Target_exit \<Rightarrow> Some (Xp_exit, out, w1)
       | No_target _ e \<Rightarrow> Some (Xp_ret FAILURE e, out, w1)
       | Target dest \<Rightarrow>
           let w2 = init_handle t w1; code = tcp_connect_code env t dest w2
           in if code \<noteq> 0 then Some (xp_connected tx env t out (Xp_ret code None) w2)
              else Option.bind (xi_timeout p) (\<lambda>tv.
                map_option (\<lambda>(r, w3). xp_connected tx env t out r w3) (xp_connect_wait yield t tv w2)))"

definition shut_flag :: "int \<Rightarrow> u16" where
  "shut_flag how = (if how = 0 then STREAM_SHUT_RD else if how = 1 then STREAM_SHUT_WR else STREAM_SHUT_RD OR STREAM_SHUT_WR)"

text \<open>The error of a failed \<open>uv_shutdown\<close> is thrown by \<open>async_stream_shutdown\<close>.\<close>

definition shutdown_error :: "texts \<Rightarrow> int \<Rightarrow> zval" where
  "shutdown_error tx code = IS_ERROR ErrorCe (''Shutdown failed ['' @ show_int tx code @ '']: '' @ strerror tx code) None"

definition xp_tcp_shutdown ::
  "texts \<Rightarrow> 'a xp_store_scheme uv_answers \<Rightarrow> 'a xp_wake \<Rightarrow> nat \<Rightarrow> int \<Rightarrow> 'a xp_store_scheme \<Rightarrow> (int xp_ret \<times> 'a xp_store_scheme) option" where
  "xp_tcp_shutdown tx ans run t how w =
     (if \<not> xd_astream (xps w t) then None
      else let (e, w1) = async_stream_shutdown xp_close_cb ans run t (shut_flag how) t w
           in Some (Xp_ret 0 (map_option (shutdown_error tx) e), w1))"

text \<open>\<open>get_peer\<close>: the name of a socket, remote or local, in the forms that are wanted.\<close>

definition give_name :: "'w xp_env \<Rightarrow> xport_param \<Rightarrow> sockaddr \<Rightarrow> xport_out \<Rightarrow> xport_out" where
  "give_name env p a out = out\<lparr>xo_text := (if xi_want_text p then Some (name_text env a) else xo_text out),
     xo_addr := (if xi_want_addr p then Some a else xo_addr out)\<rparr>"

definition xp_tcp_get_peer ::
  "'a xp_store_scheme xp_env \<Rightarrow> nat \<Rightarrow> bool \<Rightarrow> xport_param \<Rightarrow> xport_out \<Rightarrow> 'a xp_store_scheme \<Rightarrow> int \<times> xport_out" where
  "xp_tcp_get_peer env t remote p out w = (case xp_getname env t remote w of
     Inl code \<Rightarrow> (code, out)
   | Inr a \<Rightarrow> (0, give_name env p a out))"

section \<open>Accepting\<close>

text \<open>
  The loop of \<open>accept\<close>: a pending connection is tried, otherwise or when that fails the function waits.
  The result is the client, or the code that is returned without one: that of the last event or attempt,
  also when waiting fails with an exception.
\<close>

partial_function (option) xp_accept_loop ::
  "'a xp_store_scheme xp_env \<Rightarrow> 'a xp_yield \<Rightarrow> nat \<Rightarrow> nat \<Rightarrow> int \<Rightarrow> 'a xp_store_scheme \<Rightarrow>
   ((bool \<times> int \<times> zval option) option \<times> 'a xp_store_scheme) option" where
  "xp_accept_loop env yield t c code w =
     (let took = xd_pending (xps w t) \<noteq> 0;
          w1 = (if took then upd_xp t (\<lambda>x. x\<lparr>xd_pending := xd_pending x - 1\<rparr>) w else w);
          code1 = (if took then accept_code env t c w1 else code)
      in if took \<and> code1 = 0 then Some (Some (True, 0, None), w1)
         else
           let (op, w2) = async_alloc_op w1;
               w3 = async_append_op (XpTcpOps t) op (set_uv_code op 0 w2)
           in case async_await_op yield op w3 of
                None \<Rightarrow> None
              | Some (r, w4) \<Rightarrow>
                  if r = Await_bailout then Some (None, w4)
                  else
                    let w5 = async_free_op op w4
                    in if r = Await_failure then Some (Some (False, code1, Some (op_result (ops w4 op))), w5)
                       else if uv_codes w4 op < 0 then Some (Some (False, uv_codes w4 op, None), w5)
                       else xp_accept_loop env yield t c (uv_codes w4 op) w5)"

text \<open>A client that was accepted: it shares the context and the TLS settings of the server.\<close>

definition share_server :: "nat \<Rightarrow> nat \<Rightarrow> 'a xp_store_scheme \<Rightarrow> 'a xp_store_scheme" where
  "share_server t c w =
     (let w1 = upd_php c (\<lambda>x. x\<lparr>ph_ctx := ph_ctx (php_streams w t)\<rparr>) (async_xp_socket_create c w);
          w2 = attach_stream c (upd_xp c (\<lambda>x. x\<lparr>xd_vtable := Vt_tcp_client, xd_flags := set_flag (xd_flags x) XP_ACCEPTED\<rparr>) w1)
      in case xd_ssl (xps w2 t) of
           None \<Rightarrow> w2
         | Some l \<Rightarrow> upd_ssl l (\<lambda>x. x\<lparr>xl_refcount := xl_refcount x + 1\<rparr>) (upd_xp c (\<lambda>x. x\<lparr>xd_ssl := Some l\<rparr>) w2))"

text \<open>The client's data are released by \<open>free_cb\<close> when its handle was closed without an \<open>accept\<close>.\<close>

definition xp_free_cb :: "nat \<Rightarrow> 'a xp_store_scheme \<Rightarrow> 'a xp_store_scheme" where
  "xp_free_cb t w = upd_xp t (\<lambda>x. x\<lparr>xd_freed := True\<rparr>) w"

definition xp_tcp_accept ::
  "'a xp_store_scheme xp_env \<Rightarrow> 'a xp_yield \<Rightarrow> 'a xp_wake \<Rightarrow> nat \<Rightarrow> xport_out \<Rightarrow> 'a xp_store_scheme \<Rightarrow> 'a xp_result" where
  "xp_tcp_accept env yield run t out w =
     (let c = next_net w;
          w1 = upd_xp c (\<lambda>_. (zero_xp Vt_tcp)\<lparr>xd_flags := XP_INIT\<rparr>) (w\<lparr>next_net := Suc c\<rparr>)
      in Option.bind (xp_accept_loop env yield t c 0 w1) (\<lambda>(r, w2). case r of
           None \<Rightarrow> Some (Xp_exit, out, w2)
         | Some (ok, code, e) \<Rightarrow>
             if \<not> ok then Some (Xp_ret code e, out, upd_xp c (\<lambda>x. x\<lparr>xd_handle := uv_close (xd_handle x)\<rparr>) w2)
             else
               let w3 = share_server t c w2; out1 = out\<lparr>xo_client := Some c\<rparr>
               in if xd_encrypt (xps w3 t)
                  then let (ok, w4) = encrypt_stream env c w3
                       in if ok then Some (Xp_ret 0 None, out1, w4)
                          else map_option (\<lambda>w5. (Xp_ret FAILURE None, out1, w5)) (async_xp_socket_close run c w4)
                  else Some (Xp_ret 0 None, out1, w3)))"

section \<open>The factory\<close>

text \<open>\<open>parse_host\<close>: the host of the address without full stops at its end.\<close>

definition parse_host :: "'w xp_env \<Rightarrow> string option \<Rightarrow> string option" where
  "parse_host env res = (case res of
     None \<Rightarrow> None
   | Some r \<Rightarrow> (case url_host env r of
       Some (Some h) \<Rightarrow> (let s = rev (dropWhile (\<lambda>c. c = CHR ''.'') (rev h)) in if s = [] then None else Some s)
     | _ \<Rightarrow> None))"

text \<open>\<open>strncmp(proto, name, plen) != 0\<close> of C strings.\<close>

definition differs :: "string \<Rightarrow> nat \<Rightarrow> string \<Rightarrow> bool" where
  "differs proto plen name \<longleftrightarrow> take plen (c_str proto @ [CHR 0x00]) \<noteq> take plen (name @ [CHR 0x00])"

definition xp_tcp_factory ::
  "'w xp_env \<Rightarrow> string \<Rightarrow> nat \<Rightarrow> string option \<Rightarrow> 'a xp_store_scheme \<Rightarrow> nat \<times> 'a xp_store_scheme" where
  "xp_tcp_factory env proto plen res w =
     (let t = next_net w;
          w1 = async_xp_socket_create t (upd_xp t (\<lambda>_. zero_xp Vt_tcp) (w\<lparr>next_net := Suc t\<rparr>))
      in (t, upd_xp t (\<lambda>x. x\<lparr>xd_peer := parse_host env res,
               xd_encrypt := (differs proto plen ''tcp'' \<and> differs proto plen ''async-tcp'')\<rparr>) w1))"

text \<open>
  The module: the factories that were registered for \<open>tcp\<close> and \<open>tls\<close> are kept (a lookup does not
  distinguish a null pointer from none).
\<close>

definition async_tcp_socket_init ::
  "bool \<Rightarrow> 'f \<Rightarrow> (string \<Rightarrow> 'f option) \<Rightarrow> ('f option \<times> 'f option) \<times> (string \<Rightarrow> 'f option)" where
  "async_tcp_socket_init enabled factory h =
     (let (o1, h1) = (if enabled then async_xp_socket_register ''tcp'' factory h else (None, h));
          (o2, h2) = (if enabled then async_xp_socket_register ''tls'' factory h1 else (None, h1))
      in ((o1, o2), h2(''async-tcp'' \<mapsto> factory, ''async-tls'' \<mapsto> factory)))"

definition async_tcp_socket_shutdown ::
  "bool \<Rightarrow> 'f option \<times> 'f option \<Rightarrow> (string \<Rightarrow> 'f option) \<Rightarrow> (string \<Rightarrow> 'f option)" where
  "async_tcp_socket_shutdown enabled orig h =
     (let h1 = h(''async-tls'' := None, ''async-tcp'' := None)
      in if enabled then h1(''tls'' := snd orig, ''tcp'' := fst orig) else h1)"

end
