(* ===== verification/XpUdp.thy ===== *)
theory XpUdp
  imports XpTcp
begin

text \<open>
  UDP streams of PHP (\<open>xp/udp.c\<close>). A send request is on the stack of the function that waits for it.
\<close>

section \<open>Binding\<close>

text \<open>The flags of \<open>uv_udp_bind\<close> are \<open>UV_UDP_IPV6ONLY\<close>, 1, and \<open>UV_UDP_REUSEADDR\<close>, 4.\<close>

definition xp_udp_bind ::
  "texts \<Rightarrow> 'a xp_store_scheme xp_env \<Rightarrow> 'a xp_yield \<Rightarrow> nat \<Rightarrow> xport_param \<Rightarrow> xport_out \<Rightarrow> 'a xp_store_scheme \<Rightarrow> 'a xp_result" where
  "xp_udp_bind tx env yield t p out w =
     map_option (\<lambda>(r, w1). case r of
         Target_exit \<Rightarrow> (Xp_exit, out, w1)
       | No_target code e \<Rightarrow> (Xp_ret FAILURE e, report_error tx code out, w1)
       | Target dest \<Rightarrow>
           let fl = (if socket_opt env t ''so_reuseport'' w1 then 4 else 0) +
                    (if is_ipv6 dest \<and> socket_opt env t ''ipv6_v6only'' w1 then 1 else 0);
               code = bind_code env t dest fl w1
           in if code \<noteq> 0 then (Xp_ret FAILURE None, report_error tx code out, w1)
              else if socket_opt env t ''so_broadcast'' w1 \<and> broadcast_code env t w1 < 0
              then (Xp_ret FAILURE None, report_error tx (broadcast_code env t w1) out, w1)
              else (Xp_ret 0 None, out, w1))
     (lookup_target env yield p IPPROTO_UDP w)"

text \<open>
  \<open>connect\<close> binds to the wildcard (\<open>uv_ip4_addr\<close> may fail) and stores the destination. The lookup is
  for \<open>IPPROTO_TCP\<close>.
\<close>

definition xp_udp_connect ::
  "texts \<Rightarrow> 'a xp_store_scheme xp_env \<Rightarrow> 'a xp_yield \<Rightarrow> nat \<Rightarrow> xport_param \<Rightarrow> xport_out \<Rightarrow> 'a xp_store_scheme \<Rightarrow> 'a xp_result" where
  "xp_udp_connect tx env yield t p out w =
     (let (ok, any) = uv_ip4_addr (inet_of env) ''0.0.0.0'' 0; code = bind_code env t any 0 w
      in if \<not> ok then Some (Xp_ret FAILURE None, out, w)
         else if code \<noteq> 0 then Some (Xp_ret FAILURE None, report_error tx code out, w)
         else map_option (\<lambda>(r, w1). case r of
             Target_exit \<Rightarrow> (Xp_exit, out, w1)
           | No_target code e \<Rightarrow> (Xp_ret FAILURE e, report_error tx code out, w1)
           | Target dest \<Rightarrow> (Xp_ret 0 None, out,
               upd_xp t (\<lambda>x. x\<lparr>xd_dest := dest, xd_flags := set_flag (xd_flags x) XP_UDP_CONNECTED\<rparr>) w1))
         (lookup_target env yield p IPPROTO_TCP w))"

definition xp_udp_get_peer ::
  "'a xp_store_scheme xp_env \<Rightarrow> nat \<Rightarrow> bool \<Rightarrow> xport_param \<Rightarrow> xport_out \<Rightarrow> 'a xp_store_scheme \<Rightarrow> int \<times> xport_out" where
  "xp_udp_get_peer env t remote p out w =
     (if remote then (FAILURE, out)
      else case xp_getname env t False w of Inl code \<Rightarrow> (code, out) | Inr a \<Rightarrow> (0, give_name env p a out))"

section \<open>Sending\<close>

definition xp_send_cb :: "'a xp_wake \<Rightarrow> opid \<Rightarrow> int \<Rightarrow> 'a xp_store_scheme \<Rightarrow> 'a xp_store_scheme" where
  "xp_send_cb run op status w = async_finish_op run op (set_uv_code op status w)"

definition xp_send_wait ::
  "'a xp_yield \<Rightarrow> nat \<Rightarrow> 'a xp_store_scheme \<Rightarrow> (int xp_ret \<times> 'a xp_store_scheme) option" where
  "xp_send_wait yield t w =
     (let (op, w1) = async_alloc_op w
      in map_option (\<lambda>(r, w2).
           if r = Await_bailout then (Xp_exit, w2)
           else if r = Await_failure then (Xp_ret FAILURE (Some (op_result (ops w2 op))), async_free_op op w2)
           else (Xp_ret (uv_codes w2 op) None, async_free_op op w2))
         (async_await_op yield op (async_append_op (XpSenders t) op (set_uv_code op 0 w1))))"

definition do_send ::
  "'a xp_store_scheme xp_env \<Rightarrow> 'a xp_yield \<Rightarrow> nat \<Rightarrow> sockaddr option \<Rightarrow> byte list \<Rightarrow> 'a xp_store_scheme \<Rightarrow>
   (int xp_ret \<times> 'a xp_store_scheme) option" where
  "do_send env yield t dest bytes w =
     (let to_addr = Some (case dest of Some a \<Rightarrow> a | None \<Rightarrow> xd_dest (xps w t)); code = try_send_code env t to_addr bytes w
      in if 0 \<le> code then Some (Xp_ret 0 None, w)
         else if code \<noteq> UV_EAGAIN then Some (Xp_ret code None, w)
         else
           let code = send_code env t to_addr bytes w
           in if code < 0 then Some (Xp_ret code None, w) else xp_send_wait yield t w)"

definition xp_udp_send ::
  "'a xp_store_scheme xp_env \<Rightarrow> 'a xp_yield \<Rightarrow> nat \<Rightarrow> xport_param \<Rightarrow> xport_out \<Rightarrow> 'a xp_store_scheme \<Rightarrow> 'a xp_result" where
  "xp_udp_send env yield t p out w = map_option (\<lambda>(r, w1). (r, out, w1)) (do_send env yield t (xi_addr p) (take (xi_buflen p) (xi_buf p)) w)"

text \<open>A write without a destination is an assertion. The results are converted to \<open>size_t\<close>.\<close>

definition xp_udp_write ::
  "'a xp_store_scheme xp_env \<Rightarrow> 'a xp_yield \<Rightarrow> nat \<Rightarrow> byte list \<Rightarrow> 'a xp_store_scheme \<Rightarrow> (u64 xp_ret \<times> 'a xp_store_scheme) option" where
  "xp_udp_write env yield t bytes w =
     (if \<not> xp_flag t XP_UDP_CONNECTED w then None
      else map_option (\<lambda>(r, w1). (case r of
          Xp_exit \<Rightarrow> Xp_exit
        | Xp_ret code e \<Rightarrow> Xp_ret (if code = 0 then word_of_int (int (length bytes)) else word_of_int FAILURE) e, w1))
        (do_send env yield t None bytes w))"

section \<open>Receiving\<close>

text \<open>
  \<open>udp_socket_receive_cb\<close>: libuv has an error, nothing (0 bytes) or bytes with the address of the peer.
  \<open>None\<close> is the assertion that somebody waits.
\<close>

definition xp_recv_stop :: "nat \<Rightarrow> 'a xp_store_scheme \<Rightarrow> 'a xp_store_scheme" where
  "xp_recv_stop t w =
     (if queues w (XpReceivers t) = []
      then upd_xp t (\<lambda>x. x\<lparr>xd_handle := uv_stop (xd_handle x), xd_flags := clear_flag (xd_flags x) XP_UDP_RECEIVING\<rparr>) w
      else w)"

definition xp_receive_cb ::
  "'a xp_wake \<Rightarrow> nat \<Rightarrow> int + byte list \<times> sockaddr \<Rightarrow> nat \<Rightarrow> 'a xp_store_scheme \<Rightarrow> 'a xp_store_scheme option" where
  "xp_receive_cb run t input flags w =
     (if queues w (XpReceivers t) = [] then None
      else if input = Inl 0 \<or> (case input of Inr (bytes, _) \<Rightarrow> bytes = [] | _ \<Rightarrow> False) then Some w
      else map_option (\<lambda>(op, w1).
        let w2 = (case input of
               Inl code \<Rightarrow> upd_recv op (\<lambda>x. x\<lparr>xr_flags := flags\<rparr>) (set_uv_code op (to_c_int code) w1)
             | Inr (bytes, addr) \<Rightarrow> upd_recv op (\<lambda>x. x\<lparr>xr_flags := flags, xr_data := bytes,
                   xr_peer := (if xr_want x then Some addr else xr_peer x)\<rparr>) (set_uv_code op (to_c_int (int (length bytes))) w1))
        in xp_recv_stop t (async_finish_op run op w2)) (async_next_op (XpReceivers t) w))"

text \<open>The buffer of the first receiver; a null pointer when there is none.\<close>

definition xp_receive_alloc :: "nat \<Rightarrow> 'a xp_store_scheme \<Rightarrow> nat option" where
  "xp_receive_alloc t w = map_option (\<lambda>op. xr_len (recv_ops w op)) (queue_first (XpReceivers t) w)"

text \<open>
  The common part of \<open>receive\<close> and \<open>read\<close>: the result is the code, the bytes and the address of the peer.
  What \<open>uv_udp_recv_start\<close> returns is ignored. When the wait fails, receiving goes on.
\<close>

definition receive_start :: "nat \<Rightarrow> 'a xp_store_scheme \<Rightarrow> 'a xp_store_scheme" where
  "receive_start t w =
     (if xp_flag t XP_UDP_RECEIVING w then w
      else upd_xp t (\<lambda>x. x\<lparr>xd_handle := uv_start () (xd_handle x), xd_flags := set_flag (xd_flags x) XP_UDP_RECEIVING\<rparr>) w)"

definition receive_wait ::
  "'a xp_yield \<Rightarrow> nat \<Rightarrow> bool \<Rightarrow> nat \<Rightarrow> 'a xp_store_scheme \<Rightarrow>
   (int xp_ret \<times> byte list \<times> sockaddr option \<times> 'a xp_store_scheme) option" where
  "receive_wait yield t want n w =
     (let (op, w1) = async_alloc_op (receive_start t w);
          w2 = upd_recv op (\<lambda>_. \<lparr>xr_flags = 0, xr_want = want, xr_len = n, xr_data = [], xr_peer = None\<rparr>)
                 (async_append_op (XpReceivers t) op (set_uv_code op 0 w1))
      in map_option (\<lambda>(r, w3).
           if r = Await_bailout then (Xp_exit, [], None, w3)
           else if r = Await_failure then (Xp_ret FAILURE (Some (op_result (ops w3 op))), [], None, async_free_op op w3)
           else (Xp_ret (uv_codes w3 op) None, xr_data (recv_ops w3 op), xr_peer (recv_ops w3 op), async_free_op op w3))
         (async_await_op yield op w2))"

definition xp_udp_receive ::
  "'a xp_store_scheme xp_env \<Rightarrow> 'a xp_yield \<Rightarrow> nat \<Rightarrow> xport_param \<Rightarrow> xport_out \<Rightarrow> 'a xp_store_scheme \<Rightarrow> 'a xp_result" where
  "xp_udp_receive env yield t p out w =
     map_option (\<lambda>(r, bytes, peer, w1). (r, (case peer of None \<Rightarrow> out | Some a \<Rightarrow> give_name env p a out)\<lparr>xo_data := bytes\<rparr>, w1))
       (receive_wait yield t True (xi_buflen p) w)"

definition xp_udp_read ::
  "'a xp_yield \<Rightarrow> nat \<Rightarrow> nat \<Rightarrow> 'a xp_store_scheme \<Rightarrow> (u64 xp_ret \<times> byte list \<times> 'a xp_store_scheme) option" where
  "xp_udp_read yield t n w =
     (if \<not> xp_flag t XP_UDP_CONNECTED w then None
      else map_option (\<lambda>(r, bytes, _, w1). (case r of Xp_exit \<Rightarrow> Xp_exit | Xp_ret code e \<Rightarrow> Xp_ret (word_of_int code) e, bytes, w1))
        (receive_wait yield t False n w))"

section \<open>The factory\<close>

text \<open>The handle is initialised, but the flag that says so is not set.\<close>

definition xp_udp_factory :: "'a xp_store_scheme \<Rightarrow> nat \<times> 'a xp_store_scheme" where
  "xp_udp_factory w =
     (let t = next_net w
      in (t, async_xp_socket_create t (upd_xp t (\<lambda>_. (zero_xp Vt_udp)\<lparr>xd_flags := XP_DGRAM\<rparr>) (w\<lparr>next_net := Suc t\<rparr>))))"

definition async_udp_socket_init :: "bool \<Rightarrow> 'f \<Rightarrow> (string \<Rightarrow> 'f option) \<Rightarrow> 'f option \<times> (string \<Rightarrow> 'f option)" where
  "async_udp_socket_init enabled factory h =
     (let (orig, h1) = (if enabled then async_xp_socket_register ''udp'' factory h else (None, h))
      in (orig, h1(''async-udp'' \<mapsto> factory)))"

definition async_udp_socket_shutdown :: "bool \<Rightarrow> 'f option \<Rightarrow> (string \<Rightarrow> 'f option) \<Rightarrow> (string \<Rightarrow> 'f option)" where
  "async_udp_socket_shutdown enabled orig h =
     (let h1 = h(''async-udp'' := None) in if enabled then h1(''udp'' := orig) else h1)"

end
