(* ===== verification/XpApi.thy ===== *)
theory XpApi
  imports XpUdp
begin

text \<open>
  The operations of PHP streams on TCP and UDP sockets (\<open>xp/socket.c\<close>): reading and writing, the calls of
  the transport API, which the function pointers of the socket lead to the functions of TCP or UDP, and
  the options. Enabling encryption (\<open>toggle_ssl\<close>), which runs a handshake of OpenSSL, and what is told of
  a cipher are left out.
\<close>

section \<open>Reading and writing\<close>

text \<open>\<open>ASYNC_XP_SOCKET_EOF\<close>\<close>

definition xp_eof :: "nat \<Rightarrow> 'a xp_store_scheme \<Rightarrow> bool" where
  "xp_eof t w \<longleftrightarrow> xd_astream (xps w t) \<and> stream_flag t STREAM_EOF w \<and> rb_len (st_buffer (streams w t)) = 0"

definition plain_write :: "byte list \<Rightarrow> async_stream_write_req" where
  "plain_write bytes = \<lparr>wq_data = bytes, wq_async = False, wq_export = False, wq_callback = False, wq_arg = 0, wq_context = None\<rparr>"

definition plain_read :: "nat \<Rightarrow> u64 \<Rightarrow> async_stream_read_req" where
  "plain_read n ms = \<lparr>rq_len = n, rq_buffer = True, rq_import = False, rq_timeout = ms, ro_data = [], ro_error = 0\<rparr>"

text \<open>Writing by the stream: all bytes or none.\<close>

definition written :: "byte list \<Rightarrow> stream_result \<Rightarrow> u64 xp_ret" where
  "written bytes r = (case r of
     Success \<Rightarrow> Xp_ret (word_of_int (int (length bytes))) None
   | Failure _ \<Rightarrow> Xp_ret 0 None
   | Thrown e \<Rightarrow> Xp_ret 0 (Some e)
   | Bailout \<Rightarrow> Xp_exit)"

definition async_xp_socket_write ::
  "'a xp_store_scheme uv_answers \<Rightarrow> 'a xp_store_scheme xp_env \<Rightarrow> 'a xp_yield \<Rightarrow> 'a xp_wake \<Rightarrow> nat \<Rightarrow> byte list \<Rightarrow>
   'a xp_store_scheme \<Rightarrow> (u64 xp_ret \<times> 'a xp_store_scheme) option" where
  "async_xp_socket_write ans env yield run t bytes w =
     (if xd_vtable (xps w t) = Vt_udp then xp_udp_write env yield t bytes w
      else if \<not> xd_astream (xps w t) then None
      else map_option (\<lambda>(r, w1). (written bytes r, w1)) (async_stream_write ans yield run t (plain_write bytes) w))"

definition mark_eof :: "nat \<Rightarrow> 'a xp_store_scheme \<Rightarrow> 'a xp_store_scheme" where
  "mark_eof t w = upd_php t (\<lambda>x. x\<lparr>ph_eof := True\<rparr>) w"

text \<open>The end of a read without an exception that failed with an error code.\<close>

definition read_failed :: "texts \<Rightarrow> nat \<Rightarrow> int \<Rightarrow> 'a xp_store_scheme \<Rightarrow> 'a xp_store_scheme" where
  "read_failed tx t err w =
     (if err = UV_ETIMEDOUT then upd_xp t (\<lambda>x. x\<lparr>xd_flags := set_flag (xd_flags x) XP_TIMED_OUT\<rparr>) w
      else if err = UV_EOF then mark_eof t w
      else xp_warn (''Read operation failed: '' @ strerror tx err) w)"

definition xp_stream_read ::
  "texts \<Rightarrow> 'a xp_store_scheme uv_answers \<Rightarrow> 'a xp_yield \<Rightarrow> nat \<Rightarrow> nat \<Rightarrow> 'a xp_store_scheme \<Rightarrow>
   (u64 xp_ret \<times> byte list \<times> 'a xp_store_scheme) option" where
  "xp_stream_read tx ans yield t n w =
     map_option (\<lambda>(r, rq, w1).
       if r = Bailout then (Xp_exit, [], w1)
       else
         let w2 = (if xp_eof t w1 then mark_eof t w1 else w1)
         in case r of
              Success \<Rightarrow> (Xp_ret (word_of_int (int (length (ro_data rq)))) None, ro_data rq, w2)
            | Thrown e \<Rightarrow> (Xp_ret 0 (Some e), [], w2)
            | Failure err \<Rightarrow> (Xp_ret 0 None, [], read_failed tx t err w2))
     (async_stream_read ans yield t (plain_read n (xd_timeout (xps w t))) w)"

definition async_xp_socket_read ::
  "texts \<Rightarrow> 'a xp_store_scheme uv_answers \<Rightarrow> 'a xp_yield \<Rightarrow> nat \<Rightarrow> nat \<Rightarrow> 'a xp_store_scheme \<Rightarrow>
   (u64 xp_ret \<times> byte list \<times> 'a xp_store_scheme) option" where
  "async_xp_socket_read tx ans yield t n w =
     (if xd_vtable (xps w t) = Vt_udp then xp_udp_read yield t n w
      else if \<not> xd_astream (xps w t) then None
      else xp_stream_read tx ans yield t n (upd_xp t (\<lambda>x. x\<lparr>xd_flags := clear_flag (xd_flags x) XP_TIMED_OUT\<rparr>) w))"

definition async_xp_socket_flush :: "nat \<Rightarrow> int" where
  "async_xp_socket_flush t = 0"

text \<open>A descriptor is given as a descriptor only; \<open>FAILURE\<close> is nothing.\<close>

definition async_xp_socket_cast :: "'a xp_store_scheme xp_env \<Rightarrow> nat \<Rightarrow> bool \<Rightarrow> 'a xp_store_scheme \<Rightarrow> int option" where
  "async_xp_socket_cast env t as_fd w = (if as_fd then xp_fileno env t w else None)"

definition async_xp_socket_stat :: "nat \<Rightarrow> int" where
  "async_xp_socket_stat t = FAILURE"

section \<open>The transport API\<close>

datatype xport_op = Op_accept | Op_bind | Op_connect | Op_get_name | Op_get_peer_name | Op_listen | Op_recv | Op_send | Op_shutdown

text \<open>A missing function is \<open>FAILURE\<close>.\<close>

definition no_function :: "xport_out \<Rightarrow> 'a xp_store_scheme \<Rightarrow> 'a xp_result" where
  "no_function out w = Some (Xp_ret FAILURE None, out, w)"

text \<open>After \<open>accept\<close> and \<open>connect\<close> succeeded, assertions look at the stream of the client.\<close>

definition checked :: "('a xp_store_scheme \<Rightarrow> xport_out \<Rightarrow> bool) \<Rightarrow> 'a xp_result \<Rightarrow> 'a xp_result" where
  "checked ok res = Option.bind res (\<lambda>(r, out, w). case r of
     Xp_ret code e \<Rightarrow> if code = 0 \<and> \<not> ok w out then None else Some (r, out, w)
   | Xp_exit \<Rightarrow> Some (r, out, w))"

definition xp_accept :: "'a xp_store_scheme xp_env \<Rightarrow> 'a xp_yield \<Rightarrow> 'a xp_wake \<Rightarrow> nat \<Rightarrow> xport_out \<Rightarrow>
    'a xp_store_scheme \<Rightarrow> 'a xp_result" where
  "xp_accept env yield run t out w =
     checked (\<lambda>w out. case xo_client out of None \<Rightarrow> False | Some c \<Rightarrow> xd_astream (xps w c))
       (if xd_vtable (xps w t) = Vt_tcp then xp_tcp_accept env yield run t out w else no_function out w)"

definition xp_connect :: "texts \<Rightarrow> 'a xp_store_scheme xp_env \<Rightarrow> 'a xp_yield \<Rightarrow> nat \<Rightarrow> xport_param \<Rightarrow> xport_out \<Rightarrow>
    'a xp_store_scheme \<Rightarrow> 'a xp_result" where
  "xp_connect tx env yield t p out w =
     checked (\<lambda>w _. xp_flag t XP_DGRAM w \<or> xd_astream (xps w t))
       (case xd_vtable (xps w t) of
          Vt_tcp \<Rightarrow> xp_tcp_connect tx env yield t p out w
        | Vt_tcp_client \<Rightarrow> no_function out w
        | Vt_udp \<Rightarrow> xp_udp_connect tx env yield t p out w)"

definition xp_listen :: "texts \<Rightarrow> 'a xp_store_scheme xp_env \<Rightarrow> nat \<Rightarrow> xport_param \<Rightarrow> xport_out \<Rightarrow>
    'a xp_store_scheme \<Rightarrow> 'a xp_result" where
  "xp_listen tx env t p out w =
     (if xd_vtable (xps w t) \<noteq> Vt_tcp then no_function out w
      else Option.bind (xp_tcp_listen tx env t p out w) (\<lambda>(r, out1, w1).
        if r = Xp_ret 0 None
        then map_option (\<lambda>(code, w2). (Xp_ret code None, out1, w2)) (setup_server_encryption env t w1)
        else Some (r, out1, w1)))"

definition xp_get_peer :: "'a xp_store_scheme xp_env \<Rightarrow> nat \<Rightarrow> bool \<Rightarrow> xport_param \<Rightarrow> xport_out \<Rightarrow> 'a xp_store_scheme \<Rightarrow>
    'a xp_result" where
  "xp_get_peer env t remote p out w =
     (let (code, out1) = (if xd_vtable (xps w t) = Vt_udp then xp_udp_get_peer env t remote p out w
                          else xp_tcp_get_peer env t remote p out w)
      in Some (Xp_ret code None, out1, w))"

text \<open>The return code of the call is a part of its parameters; the function itself returns that the option is known.\<close>

definition async_xp_socket_xport_api ::
  "texts \<Rightarrow> 'a xp_store_scheme uv_answers \<Rightarrow> 'a xp_store_scheme xp_env \<Rightarrow> 'a xp_yield \<Rightarrow> 'a xp_wake \<Rightarrow> nat \<Rightarrow> xport_op \<Rightarrow>
   xport_param \<Rightarrow> xport_out \<Rightarrow> 'a xp_store_scheme \<Rightarrow> 'a xp_result" where
  "async_xp_socket_xport_api tx ans env yield run t op p out w =
     (let vt = xd_vtable (xps w t) in case op of
        Op_accept \<Rightarrow> xp_accept env yield run t out w
      | Op_bind \<Rightarrow> (case vt of
            Vt_tcp \<Rightarrow> xp_tcp_bind env yield t p out w
          | Vt_tcp_client \<Rightarrow> no_function out w
          | Vt_udp \<Rightarrow> xp_udp_bind tx env yield t p out w)
      | Op_connect \<Rightarrow> xp_connect tx env yield t p out w
      | Op_get_name \<Rightarrow> xp_get_peer env t False p out w
      | Op_get_peer_name \<Rightarrow> xp_get_peer env t True p out w
      | Op_listen \<Rightarrow> xp_listen tx env t p out w
      | Op_recv \<Rightarrow> if vt = Vt_udp then xp_udp_receive env yield t p out w else no_function out w
      | Op_send \<Rightarrow> if vt = Vt_udp then xp_udp_send env yield t p out w else no_function out w
      | Op_shutdown \<Rightarrow>
          if vt = Vt_udp then Some (Xp_ret 0 None, out, w)
          else map_option (\<lambda>(r, w1). (r, out, w1)) (xp_tcp_shutdown tx ans run t (xi_how p) w))"

section \<open>Options\<close>

text \<open>
  \<open>setup_ssl\<close>: the settings of the stream. The options are used without a test of their type (nothing when
  they have another one). A stream of a server uses its context and nothing else.
\<close>

definition zval_long :: "zval \<Rightarrow> int option" where
  "zval_long z = (case z of IS_LONG n \<Rightarrow> Some n | _ \<Rightarrow> None)"

definition client_peer_name :: "'w xp_env \<Rightarrow> nat \<Rightarrow> 'a xp_store_scheme \<Rightarrow> string option option" where
  "client_peer_name env t w = (case ssl_opt env t ''peer_name'' w of
     Some v \<Rightarrow> map_option Some (zval_text v)
   | None \<Rightarrow> Some (xd_peer (xps w t)))"

definition client_alpn :: "'w xp_env \<Rightarrow> nat \<Rightarrow> 'a xp_store_scheme \<Rightarrow> byte list option option" where
  "client_alpn env t w = (case ssl_opt env t ''alpn_protocols'' w of
     None \<Rightarrow> Some None
   | Some v \<Rightarrow> Option.bind (zval_text v) (\<lambda>s. map_option Some (create_alpn_proto_list (uninitialised env) s)))"

definition setup_ssl :: "'w xp_env \<Rightarrow> nat \<Rightarrow> 'a xp_store_scheme \<Rightarrow> 'a xp_store_scheme option" where
  "setup_ssl env t w =
     (let upd = (\<lambda>f. w\<lparr>xp_settings := (xp_settings w)(t := f (xp_settings w t))\<rparr>)
      in if \<not> xd_astream (xps w t) then None
         else case xd_ssl (xps w t) of
           Some l \<Rightarrow> Some (upd (\<lambda>x. x\<lparr>cl_server := Some l\<rparr>))
         | None \<Rightarrow> Option.bind (client_peer_name env t w) (\<lambda>name.
             Option.bind (case ssl_opt env t ''verify_depth'' w of None \<Rightarrow> Some 9 | Some v \<Rightarrow> map_option to_c_int (zval_long v)) (\<lambda>depth.
             map_option (\<lambda>alpn. upd (\<lambda>x. x\<lparr>cl_verify_depth := depth,
                 cl_peer_name := (case name of Some s \<Rightarrow> Some s | None \<Rightarrow> cl_peer_name x),
                 cl_self_signed := (cl_self_signed x \<or>
                   (case ssl_opt env t ''allow_self_signed'' w of None \<Rightarrow> False | Some v \<Rightarrow> zend_true env v)),
                 cl_disable_sni := (cl_disable_sni x \<or> \<not> opt_on env (ssl_opt env t ''SNI_enabled'' w)),
                 cl_alpn := (case alpn of Some bs \<Rightarrow> Some bs | None \<Rightarrow> cl_alpn x)\<rparr>)) (client_alpn env t w))))"

text \<open>The options but \<open>PHP_STREAM_OPTION_XPORT_API\<close>, which is the function above.\<close>

datatype xp_option =
    Opt_crypto_setup
  | Opt_meta_data
  | Opt_blocking int
  | Opt_check_liveness
  | Opt_read_timeout int int
  | Opt_read_buffer "nat option"
  | Opt_other

datatype option_code = Option_ok | Option_err | Option_notimpl

text \<open>What \<open>stream_get_meta_data\<close> shows: timed out, blocked, at the end. The result of the crypto call is its return code.\<close>

datatype option_data = No_data | Meta_data bool bool bool | Crypto_code int

definition read_timeout_ms :: "int \<Rightarrow> int \<Rightarrow> u64" where
  "read_timeout_ms sec usec =
     (let ms = word_of_int sec * 1000 + word_of_int (if usec < 0 then - (- usec div 1000) else usec div 1000)
      in if ms = 0 \<and> 0 < usec then 1 else ms)"

definition set_read_buffer :: "nat option \<Rightarrow> php_stream \<Rightarrow> php_stream" where
  "set_read_buffer n x = (case n of
     None \<Rightarrow> x\<lparr>ph_readbuf := 0, ph_no_buffer := True\<rparr>
   | Some k \<Rightarrow> x\<lparr>ph_readbuflen := max k 0x8000, ph_readbuf := max k 0x8000, ph_no_buffer := False\<rparr>)"

definition async_xp_socket_set_option ::
  "'a xp_store_scheme xp_env \<Rightarrow> nat \<Rightarrow> xp_option \<Rightarrow> 'a xp_store_scheme \<Rightarrow>
   (option_code \<times> option_data \<times> 'a xp_store_scheme) option" where
  "async_xp_socket_set_option env t opt w = (case opt of
     Opt_crypto_setup \<Rightarrow>
       if xp_flag t XP_DGRAM w then Some (Option_ok, Crypto_code FAILURE, w)
       else map_option (\<lambda>w1. (Option_ok, Crypto_code 0, w1)) (setup_ssl env t w)
   | Opt_meta_data \<Rightarrow> Some (Option_ok, Meta_data (xp_flag t XP_TIMED_OUT w) (xp_flag t XP_BLOCKING w) (xp_eof t w), w)
   | Opt_blocking v \<Rightarrow> Some (Option_ok, No_data, upd_xp t (\<lambda>x. x\<lparr>xd_flags :=
         (if v \<noteq> 0 then set_flag (xd_flags x) XP_BLOCKING else (xd_flags x OR XP_BLOCKING) XOR XP_BLOCKING)\<rparr>) w)
   | Opt_check_liveness \<Rightarrow>
       Some (if xd_astream (xps w t) \<and> async_socket_is_alive (xp_probe env) t w then Option_ok else Option_err, No_data, w)
   | Opt_read_timeout sec usec \<Rightarrow> Some (Option_ok, No_data, upd_xp t (\<lambda>x. x\<lparr>xd_timeout := read_timeout_ms sec usec\<rparr>) w)
   | Opt_read_buffer n \<Rightarrow> Some (Option_ok, No_data, upd_php t (set_read_buffer n) w)
   | Opt_other \<Rightarrow> Some (Option_notimpl, No_data, w))"

end
