(* ===== verification/XpUnix.thy ===== *)
theory XpUnix
  imports XpApi
begin

text \<open>Streams of PHP on Unix sockets (\<open>xp/unix.c\<close>), which do not share the functions of \<open>xp/socket.c\<close>.\<close>

section \<open>The life of a socket\<close>

definition unix_flag :: "nat \<Rightarrow> u8 \<Rightarrow> 'a xp_store_scheme \<Rightarrow> bool" where
  "unix_flag t m w = has_flag (pd_flags (unixs w t)) m"

definition set_unix_flag :: "nat \<Rightarrow> u8 \<Rightarrow> 'a xp_store_scheme \<Rightarrow> 'a xp_store_scheme" where
  "set_unix_flag t m w = upd_unix t (\<lambda>x. x\<lparr>pd_flags := set_flag (pd_flags x) m\<rparr>) w"

definition async_pipe_create :: "'a xp_store_scheme \<Rightarrow> nat \<times> 'a xp_store_scheme" where
  "async_pipe_create w =
     (let t = next_net w
      in (t, upd_php t (\<lambda>_. new_php_stream)
               (upd_unix t (\<lambda>_. \<lparr>pd_handle = uv_init, pd_astream = False, pd_flags = UNIX_BLOCKING, pd_pending = 0, pd_ref_count = 0,
                  pd_timeout = 0, pd_timer = uv_init, pd_freed = False\<rparr>) (w\<lparr>next_net := Suc t\<rparr>))))"

definition unix_socket_factory :: "'a xp_store_scheme \<Rightarrow> nat \<times> 'a xp_store_scheme" where
  "unix_socket_factory w = async_pipe_create w"

text \<open>The callback of both the timer and a handle that belonged to no stream.\<close>

definition unix_free :: "nat \<Rightarrow> 'a xp_store_scheme \<Rightarrow> 'a xp_store_scheme" where
  "unix_free t w = upd_unix t (\<lambda>x. x\<lparr>pd_freed := True\<rparr>) w"

definition unix_dispose_timer :: "nat \<Rightarrow> 'a xp_store_scheme \<Rightarrow> 'a xp_store_scheme" where
  "unix_dispose_timer t w = unix_free t w"

definition unix_free_cb :: "nat \<Rightarrow> 'a xp_store_scheme \<Rightarrow> 'a xp_store_scheme" where
  "unix_free_cb t w = unix_free t w"

definition unix_close_dgram_cb :: "nat \<Rightarrow> 'a xp_store_scheme \<Rightarrow> 'a xp_store_scheme" where
  "unix_close_dgram_cb t w =
     (if uv_closing (pd_timer (unixs w t)) then unix_free t w
      else upd_unix t (\<lambda>x. x\<lparr>pd_timer := uv_close (pd_timer x)\<rparr>) w)"

definition unix_close_cb :: "nat \<Rightarrow> 'a xp_store_scheme \<Rightarrow> 'a xp_store_scheme" where
  "unix_close_cb t w =
     unix_close_dgram_cb t (upd_stream t (\<lambda>x. x\<lparr>st_base := False\<rparr>) (w\<lparr>xp_freed_streams := xp_freed_streams w @ [t]\<rparr>))"

text \<open>Pending connections are accepted and closed at once; they get numbers of their own.\<close>

definition drop_pending :: "nat \<Rightarrow> 'a xp_store_scheme \<Rightarrow> 'a xp_store_scheme" where
  "drop_pending t w =
     (let n = unat (pd_pending (unixs w t))
      in (upd_unix t (\<lambda>x. x\<lparr>pd_pending := 0\<rparr>) w)\<lparr>xp_dropped := xp_dropped w @ [next_net w..<next_net w + n],
            next_net := next_net w + n\<rparr>)"

definition async_pipe_close :: "'a xp_wake \<Rightarrow> nat \<Rightarrow> 'a xp_store_scheme \<Rightarrow> 'a xp_store_scheme option" where
  "async_pipe_close run t w =
     Option.bind (drain_first (\<lambda>op w. async_finish_op run op (set_uv_code op UV_ECANCELED w)) (XpAccepts t) (drop_pending t w)) (\<lambda>w1.
       let x = unixs w1 t
       in if pd_astream x then Some (async_stream_close_cb unix_close_cb run t (Owner_cb t) w1)
          else if \<not> unix_flag t UNIX_INIT w1
          then map_option (\<lambda>h. upd_unix t (\<lambda>x. x\<lparr>pd_timer := h\<rparr>) w1) (uv_close_once (pd_timer x))
          else map_option (\<lambda>h. upd_unix t (\<lambda>x. x\<lparr>pd_handle := h\<rparr>) w1) (uv_close_once (pd_handle x)))"

section \<open>Reading and writing\<close>

text \<open>Without a stream, a null pointer is used.\<close>

definition async_pipe_write ::
  "'a xp_store_scheme uv_answers \<Rightarrow> 'a xp_yield \<Rightarrow> 'a xp_wake \<Rightarrow> nat \<Rightarrow> byte list \<Rightarrow> 'a xp_store_scheme \<Rightarrow>
   (u64 xp_ret \<times> 'a xp_store_scheme) option" where
  "async_pipe_write ans yield run t bytes w =
     (if \<not> pd_astream (unixs w t) then None
      else map_option (\<lambda>(r, w1). (written bytes r, w1)) (async_stream_write ans yield run t (plain_write bytes) w))"

text \<open>The flag of a timeout and the end of the PHP stream are never set.\<close>

definition async_pipe_read ::
  "texts \<Rightarrow> 'a xp_store_scheme uv_answers \<Rightarrow> 'a xp_yield \<Rightarrow> nat \<Rightarrow> nat \<Rightarrow> 'a xp_store_scheme \<Rightarrow>
   (u64 xp_ret \<times> byte list \<times> 'a xp_store_scheme) option" where
  "async_pipe_read tx ans yield t n w =
     (if \<not> pd_astream (unixs w t) then None
      else map_option (\<lambda>(r, rq, w1). case r of
          Bailout \<Rightarrow> (Xp_exit, [], w1)
        | Success \<Rightarrow> (Xp_ret (word_of_int (int (length (ro_data rq)))) None, ro_data rq, w1)
        | Thrown e \<Rightarrow> (Xp_ret 0 (Some e), [], w1)
        | Failure err \<Rightarrow> (Xp_ret 0 None, [], xp_warn (''Read operation failed: '' @ strerror tx err) w1))
        (async_stream_read ans yield t (plain_read n (pd_timeout (unixs w t))) w))"

definition async_pipe_flush :: "'a xp_yield \<Rightarrow> nat \<Rightarrow> 'a xp_store_scheme \<Rightarrow> (outcome \<times> 'a xp_store_scheme) option" where
  "async_pipe_flush yield t w = (if \<not> pd_astream (unixs w t) then None else async_stream_flush yield t w)"

definition async_pipe_cast :: "'a xp_store_scheme xp_env \<Rightarrow> nat \<Rightarrow> bool \<Rightarrow> 'a xp_store_scheme \<Rightarrow> int option" where
  "async_pipe_cast env t as_fd w = (if as_fd then xp_fileno env t w else None)"

definition async_pipe_stat :: "nat \<Rightarrow> int" where
  "async_pipe_stat t = FAILURE"

definition unix_socket_shutdown ::
  "texts \<Rightarrow> 'a xp_store_scheme uv_answers \<Rightarrow> 'a xp_wake \<Rightarrow> nat \<Rightarrow> int \<Rightarrow> 'a xp_store_scheme \<Rightarrow> (int xp_ret \<times> 'a xp_store_scheme) option" where
  "unix_socket_shutdown tx ans run t how w =
     (if \<not> pd_astream (unixs w t) then None
      else let (e, w1) = async_stream_shutdown unix_close_cb ans run t (shut_flag how) t w
           in Some (Xp_ret 0 (map_option (shutdown_error tx) e), w1))"

section \<open>Servers\<close>

text \<open>A connection that failed counts as pending, too, when nobody waits.\<close>

definition unix_listen_cb :: "'a xp_wake \<Rightarrow> nat \<Rightarrow> int \<Rightarrow> 'a xp_store_scheme \<Rightarrow> 'a xp_store_scheme" where
  "unix_listen_cb run t status w = (case async_next_op (XpAccepts t) w of
     None \<Rightarrow> upd_unix t (\<lambda>x. x\<lparr>pd_pending := pd_pending x + 1\<rparr>) w
   | Some (op, w1) \<Rightarrow> async_finish_op run op (set_uv_code op status w1))"

text \<open>All flags are replaced when the socket is bound.\<close>

definition unix_bind ::
  "texts \<Rightarrow> 'a xp_store_scheme xp_env \<Rightarrow> nat \<Rightarrow> xport_param \<Rightarrow> xport_out \<Rightarrow> 'a xp_store_scheme \<Rightarrow> 'a xp_result" where
  "unix_bind tx env t p out w =
     (let w1 = set_unix_flag t UNIX_INIT w; code = pipe_bind_code env t (c_str (xi_name p)) w1
      in Some (if code \<noteq> 0 then (Xp_ret FAILURE None, out, xp_warn (''Failed to bind server: '' @ strerror tx code) w1)
               else (Xp_ret 0 None, out,
                     upd_unix t (\<lambda>x. x\<lparr>pd_handle := (pd_handle x)\<lparr>uv_has_ref := False\<rparr>, pd_flags := UNIX_LAZY\<rparr>) w1)))"

text \<open>The text of the warning is that of a code which was not set yet (\<open>before\<close>).\<close>

definition unix_listen ::
  "texts \<Rightarrow> 'a xp_store_scheme xp_env \<Rightarrow> nat \<Rightarrow> xport_param \<Rightarrow> int \<Rightarrow> xport_out \<Rightarrow> 'a xp_store_scheme \<Rightarrow> 'a xp_result" where
  "unix_listen tx env t p before out w =
     (let w1 = set_unix_flag t UNIX_INIT w;
          bound = (if unix_flag t UNIX_LAZY w1 then 0 else pipe_bind_code env t (c_str (xi_name p)) w1);
          code = (if bound = 0 then listen_code env t w1 else bound);
          w2 = (if code = 0 then upd_unix t (\<lambda>x. x\<lparr>pd_handle := uv_start () (pd_handle x)\<rparr>) w1
                else xp_warn (''Server failed to listen: '' @ strerror tx before) w1)
      in Some (Xp_ret code None, out, w2))"

definition unix_ref :: "(bool \<Rightarrow> u8 \<times> unit uv_handle \<Rightarrow> u8 \<times> unit uv_handle) \<Rightarrow> bool \<Rightarrow> nat \<Rightarrow>
    'a xp_store_scheme \<Rightarrow> 'a xp_store_scheme" where
  "unix_ref f bg t w = upd_unix t (\<lambda>x. let (n, h) = f bg (pd_ref_count x, pd_handle x)
     in x\<lparr>pd_ref_count := n, pd_handle := h\<rparr>) w"

text \<open>
  \<open>accept\<close>: a client is created first. The end when a connection is there; a client without one is
  closed with \<open>free_cb\<close>, and the code of \<open>uv_accept\<close> is what the option returns. The result of the
  transport call is \<open>FAILURE\<close> until a client is there.
\<close>

definition unix_take ::
  "'a xp_store_scheme xp_env \<Rightarrow> nat \<Rightarrow> nat \<Rightarrow> xport_out \<Rightarrow> 'a xp_store_scheme \<Rightarrow> int xp_ret \<times> xport_out \<times> 'a xp_store_scheme" where
  "unix_take env t c out w =
     (let code = accept_code env t c w
      in if code \<noteq> 0 then (Xp_ret FAILURE None, out, upd_unix c (\<lambda>x. x\<lparr>pd_handle := uv_close (pd_handle x)\<rparr>) w)
         else
           let w1 = set_unix_flag c UNIX_ACCEPTED w;
               w2 = upd_unix c (\<lambda>x. x\<lparr>pd_astream := True\<rparr>) (async_stream_init c (pd_handle (unixs w1 c)) 0 w1)
           in (Xp_ret 0 None, out\<lparr>xo_client := Some c\<rparr>, w2))"

text \<open>When waiting fails, or the connection did, there is a warning (with the text of the code) but no exception.\<close>

definition unix_accept ::
  "texts \<Rightarrow> 'a xp_store_scheme xp_env \<Rightarrow> 'a xp_yield \<Rightarrow> nat \<Rightarrow> xport_out \<Rightarrow> 'a xp_store_scheme \<Rightarrow> 'a xp_result" where
  "unix_accept tx env yield t out w =
     (let (c, w1) = async_pipe_create w; w2 = set_unix_flag c UNIX_INIT w1
      in if pd_pending (unixs w2 t) \<noteq> 0
         then Some (unix_take env t c out (upd_unix t (\<lambda>x. x\<lparr>pd_pending := pd_pending x - 1\<rparr>) w2))
         else
           let (op, w3) = async_alloc_op w2;
               w4 = async_append_op (XpAccepts t) op (set_uv_code op 0 w3);
               bg = async_context_is_background (g_context w4) w4
           in map_option (\<lambda>(r, w5).
                if r = Await_bailout then (Xp_exit, out, w5)
                else
                  let w6 = unix_ref async_unref_exit bg t w5; code = (if r = Await_failure then FAILURE else uv_codes w6 op);
                      w7 = async_free_op op w6
                  in if code < 0 then (Xp_ret FAILURE None, out, xp_warn (''Server failed to listen: '' @ strerror tx code) w7)
                     else unix_take env t c out w7)
              (async_await_op yield op (unix_ref async_unref_enter bg t w4)))"

section \<open>Clients\<close>

definition unix_connect_cb :: "'a xp_wake \<Rightarrow> nat \<Rightarrow> opid \<Rightarrow> int \<Rightarrow> 'a xp_store_scheme \<Rightarrow> 'a xp_store_scheme" where
  "unix_connect_cb run t op status w =
     async_finish_op run op (set_uv_code op status (w\<lparr>connect_reqs := remove1 (t, op) (connect_reqs w)\<rparr>))"

text \<open>The handle is that of the stream; closing a handle that is closing is an assertion of libuv.\<close>

definition unix_connect_timer_cb :: "nat \<Rightarrow> 'a xp_store_scheme \<Rightarrow> 'a xp_store_scheme option" where
  "unix_connect_timer_cb t w =
     (if \<not> unix_flag t UNIX_INIT w then Some w
      else if pd_astream (unixs w t)
      then map_option (\<lambda>h. upd_stream t (\<lambda>x. x\<lparr>st_handle := h\<rparr>) w) (uv_close_once (st_handle (streams w t)))
      else map_option (\<lambda>h. upd_unix t (\<lambda>x. x\<lparr>pd_handle := h\<rparr>) w) (uv_close_once (pd_handle (unixs w t))))"

text \<open>
  The stream is created before the connection is there. A failed attempt raises a warning, and its
  code is the result; the operation that waits is in no queue.
\<close>

definition unix_connect ::
  "texts \<Rightarrow> 'a xp_yield \<Rightarrow> nat \<Rightarrow> xport_param \<Rightarrow> xport_out \<Rightarrow> 'a xp_store_scheme \<Rightarrow> 'a xp_result" where
  "unix_connect tx yield t p out w =
     Option.bind (xi_timeout p) (\<lambda>tv.
       let w1 = set_unix_flag t UNIX_INIT (upd_unix t (\<lambda>x. x\<lparr>pd_astream := True\<rparr>) (async_stream_init t (pd_handle (unixs w t)) 0 w));
           (op, w2) = async_alloc_op w1;
           w3 = set_uv_code op 0 (w2\<lparr>connect_reqs := (t, op) # connect_reqs w2\<rparr>);
           ms = timeout_ms tv;
           w4 = (if 0 < ms then upd_unix t (\<lambda>x. x\<lparr>pd_timer := uv_start ms (pd_timer x)\<rparr>) w3 else w3);
           bg = async_context_is_background (g_context w4) w4
       in map_option (\<lambda>(r, w5).
            if r = Await_bailout then (Xp_exit, out, w5)
            else
              let w6 = (if 0 < ms then upd_unix t (\<lambda>x. x\<lparr>pd_timer := uv_stop (pd_timer x)\<rparr>) w5 else w5);
                  w7 = stream_ref async_unref_exit bg t w6;
                  code = uv_codes w7 op;
                  w8 = async_free_op op w7
              in if r = Await_failure then (Xp_ret FAILURE (Some (op_result (ops w7 op))), out, w8)
                 else (Xp_ret code None, out, if code < 0 then xp_warn (''Failed to connect pipe: '' @ strerror tx code) w8 else w8))
          (async_await_op yield op (stream_ref async_unref_enter bg t w4)))"

section \<open>The transport API\<close>

text \<open>\<open>before\<close> is the return code that the parameters have when the call begins.\<close>

definition async_pipe_xport_api ::
  "texts \<Rightarrow> 'a xp_store_scheme uv_answers \<Rightarrow> 'a xp_store_scheme xp_env \<Rightarrow> 'a xp_yield \<Rightarrow> 'a xp_wake \<Rightarrow> nat \<Rightarrow> xport_op \<Rightarrow>
   xport_param \<Rightarrow> int \<Rightarrow> xport_out \<Rightarrow> 'a xp_store_scheme \<Rightarrow> 'a xp_result" where
  "async_pipe_xport_api tx ans env yield run t op p before out w = (case op of
     Op_accept \<Rightarrow> unix_accept tx env yield t out w
   | Op_bind \<Rightarrow> unix_bind tx env t p out w
   | Op_connect \<Rightarrow> unix_connect tx yield t p out w
   | Op_get_name \<Rightarrow> no_function out w
   | Op_get_peer_name \<Rightarrow> no_function out w
   | Op_listen \<Rightarrow> unix_listen tx env t p before out w
   | Op_recv \<Rightarrow> no_function out w
   | Op_send \<Rightarrow> no_function out w
   | Op_shutdown \<Rightarrow> map_option (\<lambda>(r, w1). (r, out, w1)) (unix_socket_shutdown tx ans run t (xi_how p) w))"

definition unix_eof :: "nat \<Rightarrow> 'a xp_store_scheme \<Rightarrow> bool" where
  "unix_eof t w \<longleftrightarrow> pd_astream (unixs w t) \<and> stream_flag t STREAM_EOF w \<and> rb_len (st_buffer (streams w t)) = 0"

definition async_pipe_set_option ::
  "'a xp_store_scheme xp_env \<Rightarrow> nat \<Rightarrow> xp_option \<Rightarrow> 'a xp_store_scheme \<Rightarrow> option_code \<times> option_data \<times> 'a xp_store_scheme" where
  "async_pipe_set_option env t opt w = (case opt of
     Opt_meta_data \<Rightarrow> (Option_ok, Meta_data (unix_flag t UNIX_TIMED_OUT w) (unix_flag t UNIX_BLOCKING w) (unix_eof t w), w)
   | Opt_blocking v \<Rightarrow> (Option_ok, No_data, upd_unix t (\<lambda>x. x\<lparr>pd_flags :=
         (if v \<noteq> 0 then set_flag (pd_flags x) UNIX_BLOCKING else (pd_flags x OR UNIX_BLOCKING) XOR UNIX_BLOCKING)\<rparr>) w)
   | Opt_check_liveness \<Rightarrow>
       (if pd_astream (unixs w t) \<and> async_socket_is_alive (xp_probe env) t w then Option_ok else Option_err, No_data, w)
   | Opt_read_timeout sec usec \<Rightarrow> (Option_ok, No_data, upd_unix t (\<lambda>x. x\<lparr>pd_timeout := read_timeout_ms sec usec\<rparr>) w)
   | Opt_read_buffer n \<Rightarrow> (Option_ok, No_data, upd_php t (set_read_buffer n) w)
   | _ \<Rightarrow> (Option_notimpl, No_data, w))"

definition async_unix_socket_init :: "bool \<Rightarrow> 'f \<Rightarrow> (string \<Rightarrow> 'f option) \<Rightarrow> 'f option \<times> (string \<Rightarrow> 'f option)" where
  "async_unix_socket_init enabled factory h =
     (let (orig, h1) = (if enabled then async_xp_socket_register ''unix'' factory h else (None, h))
      in (orig, h1(''async-unix'' \<mapsto> factory)))"

definition async_unix_socket_shutdown :: "bool \<Rightarrow> 'f option \<Rightarrow> (string \<Rightarrow> 'f option) \<Rightarrow> (string \<Rightarrow> 'f option)" where
  "async_unix_socket_shutdown enabled orig h =
     (let h1 = h(''async-unix'' := None) in if enabled then h1(''unix'' := orig) else h1)"

end
