(* ===== verification/XpProps.thy ===== *)
theory XpProps
  imports XpUnix NetProps
begin

text \<open>
  Properties of the stream transports: the texts of addresses and the lists of ALPN protocols, connection
  attempts that time out, accepting, and what goes wrong.
\<close>

section \<open>Addresses\<close>

text \<open>The text of an address with its port (\<open>digits\<close>), as URLs have it: IPv6 addresses in brackets.\<close>

definition address_text :: "string \<Rightarrow> string \<Rightarrow> string" where
  "address_text host digits =
     (if CHR '':'' \<in> set host then CHR ''['' # host @ '']:'' @ digits else host @ CHR '':'' # digits)"

lemma c_find_first: "c \<notin> set xs \<Longrightarrow> c_find c (xs @ c # ys) = Some (xs, ys)"
  by (induction xs) (auto simp: c_find_def)

lemma c_str_same: "CHR 0x00 \<notin> set s \<Longrightarrow> c_str s = s"
  by (auto simp: c_str_def takeWhile_eq_all_conv)

text \<open>
  Parsing the text of an address gives the host and the port back, with brackets for a host that has
  colons and without for one that has none.
\<close>

theorem parse_ip_roundtrip:
  assumes "CHR 0x00 \<notin> set host" and "CHR '']'' \<notin> set host" and "digits \<noteq> []" and "host \<noteq> []" and "hd host \<noteq> CHR ''[''"
  shows "async_xp_parse_ip (address_text host digits) = Inr (host, c_atoi digits)"
proof (cases "CHR '':'' \<in> set host")
  case True
  have "butlast (host @ '']:'' @ digits) = host @ CHR '']'' # CHR '':'' # butlast digits"
    using assms(3) by (simp add: butlast_append)
  then have "c_find (CHR '']'') (butlast (host @ '']:'' @ digits)) = Some (host, CHR '':'' # butlast digits)"
    by (simp only: c_find_first [OF assms(2)])
  with True assms(1) show ?thesis by (simp add: async_xp_parse_ip_def address_text_def c_str_same)
next
  case False
  have "butlast (host @ CHR '':'' # digits) = host @ CHR '':'' # butlast digits" using assms(3) by (simp add: butlast_append)
  then have "c_find (CHR '':'') (butlast (host @ CHR '':'' # digits)) = Some (host, butlast digits)"
    by (simp only: c_find_first [OF False])
  moreover have "hd (host @ CHR '':'' # digits) \<noteq> CHR ''[''" using assms(4,5) by simp
  ultimately show ?thesis using False assms(1) by (simp add: async_xp_parse_ip_def address_text_def c_str_same)
qed

lemma parse_ip_roundtrip_witness:
  "async_xp_parse_ip (address_text ''::1'' ''80'') = Inr (''::1'', 80)"
  using parse_ip_roundtrip [of "''::1''" "''80''"] by (simp add: c_atoi_def c_space_def c_digit_def digit_val_def to_c_int_def)

section \<open>ALPN\<close>

text \<open>The list of protocols as it is sent (RFC 7301): for each name a byte with its length, and the name.\<close>

definition alpn_wire :: "string list \<Rightarrow> byte list" where
  "alpn_wire ps = concat (map (\<lambda>p. of_nat (length p) # map char_byte p) ps)"

fun comma_list :: "string list \<Rightarrow> string" where
  "comma_list [] = []"
| "comma_list [p] = p"
| "comma_list (p # ps) = p @ CHR '','' # comma_list ps"

text \<open>Reading such a list: a length and as many bytes, until the end.\<close>

fun alpn_read :: "nat \<Rightarrow> byte list \<Rightarrow> byte list list" where
  "alpn_read 0 bs = []"
| "alpn_read (Suc n) bs = (case bs of [] \<Rightarrow> [] | l # rest \<Rightarrow> take (unat l) rest # alpn_read n (drop (unat l) rest))"

lemma alpn_wire_simps:
  "alpn_wire [] = []" "alpn_wire (p # ps) = of_nat (length p) # map char_byte p @ alpn_wire ps"
  by (simp_all add: alpn_wire_def)

lemma alpn_loop_word:
  assumes "CHR '','' \<notin> set p"
  shows "alpn_loop (p @ cs) seen j out = alpn_loop cs (rev p @ seen) (j + of_nat (length p)) out"
  using assms by (induction p arbitrary: seen j) (auto simp: add.assoc)

lemma alpn_item_word:
  assumes "0 < length p" and "length p < 256"
  shows "alpn_item (rev p @ seen) (of_nat (length p)) out = out @ of_nat (length p) # map char_byte p"
proof -
  have u: "unat (of_nat (length p) :: byte) = length p" using assms(2) by (simp add: unat_of_nat)
  then have "(0 :: byte) < of_nat (length p)" using assms(1) by (metis unat_0 unat_gt_0 less_numeral_extra(3) word_neq_0_conv)
  then show ?thesis using u by (simp add: alpn_item_def)
qed

lemma alpn_loop_list:
  assumes "ps \<noteq> []" and "\<forall>p\<in>set ps. 0 < length p \<and> length p < 256 \<and> CHR '','' \<notin> set p"
  shows "alpn_loop (comma_list ps) seen 0 out = out @ alpn_wire ps"
  using assms
proof (induction ps arbitrary: seen out rule: comma_list.induct)
  case (2 p)
  then have "alpn_loop p seen 0 out = alpn_item (rev p @ seen) (of_nat (length p)) out"
    using alpn_loop_word [of p "[]" seen 0 out] by simp
  then show ?case using 2 alpn_item_word [of p seen out] by (simp add: alpn_wire_def)
next
  case (3 p q ps)
  then have "alpn_loop (comma_list (p # q # ps)) seen 0 out =
      alpn_loop (CHR '','' # comma_list (q # ps)) (rev p @ seen) (of_nat (length p)) out"
    using alpn_loop_word [of p "CHR '','' # comma_list (q # ps)" seen 0 out] by simp
  also have "\<dots> = alpn_loop (comma_list (q # ps)) (CHR '','' # rev p @ seen) 0 (out @ of_nat (length p) # map char_byte p)"
    using 3 alpn_item_word [of p seen out] by simp
  also have "\<dots> = out @ alpn_wire (p # q # ps)" using 3 by (simp add: alpn_wire_def)
  finally show ?case .
qed simp

lemma alpn_wire_length: "ps \<noteq> [] \<Longrightarrow> length (alpn_wire ps) = Suc (length (comma_list ps))"
  by (induction ps rule: comma_list.induct) (simp_all add: alpn_wire_def)

lemma alpn_read_wire:
  assumes "\<forall>p\<in>set ps. length p < 256" and "length ps \<le> n"
  shows "alpn_read n (alpn_wire ps) = map (map char_byte) ps"
  using assms
proof (induction ps arbitrary: n)
  case Nil
  then show ?case by (cases n) (simp_all add: alpn_wire_def)
next
  case (Cons p ps)
  then obtain m where n: "n = Suc m" "length ps \<le> m" by (cases n) auto
  have "unat (of_nat (length p) :: byte) = length p" using Cons.prems(1) by (simp add: unat_of_nat)
  moreover have "alpn_wire (p # ps) = of_nat (length p) # map char_byte p @ alpn_wire ps" by (simp add: alpn_wire_def)
  ultimately show ?case using Cons n by simp
qed



text \<open>An empty entry makes the list shorter than the string that is returned: bytes of the stack follow.\<close>

lemma take_one_more: "n < m \<Longrightarrow> length xs = n \<Longrightarrow> take (n + 1) (xs @ map f [n..<m]) = xs @ [f n]"
  by (subst upt_rec) simp

lemma alpn_leaks_stack: "create_alpn_proto_list junk ''h2,'' = Some (2 # map char_byte ''h2'' @ [junk 3])"
proof -
  have l: "alpn_loop ''h2,'' [] 0 [] = 2 # map char_byte ''h2''" by (simp add: alpn_item_def)
  have n: "length (2 # map char_byte ''h2'') = 3" "length ''h2,'' = 3" by simp_all
  show ?thesis
    unfolding create_alpn_proto_list_def Let_def l n by (subst take_one_more) simp_all
qed

section \<open>Frames\<close>

lemma xp_store_more_eq:
  assumes "task_store.more w' = task_store.more (w :: 'a xp_store_scheme)"
  shows "xps w' = xps w" "php_streams w' = php_streams w" "xp_ssls w' = xp_ssls w" "uv_codes w' = uv_codes w"
    "connect_reqs w' = connect_reqs w" "streams w' = streams w" "recv_ops w' = recv_ops w" "next_net w' = next_net w"
    "unixs w' = unixs w"
  using assms by (cases w; cases w'; simp)+

lemma upd_xp_sel [simp]:
  "xps (upd_xp t f w) = (xps w)(t := f (xps w t))" "ops (upd_xp t f w) = ops w" "queues (upd_xp t f w) = queues w"
  "next_opid (upd_xp t f w) = next_opid w" "s_flags (upd_xp t f w) = s_flags w" "g_task (upd_xp t f w) = g_task w"
  "tasks (upd_xp t f w) = tasks w" "contexts (upd_xp t f w) = contexts w" "g_context (upd_xp t f w) = g_context w"
  "cancels (upd_xp t f w) = cancels w" "uv_codes (upd_xp t f w) = uv_codes w" "connect_reqs (upd_xp t f w) = connect_reqs w"
  "streams (upd_xp t f w) = streams w" "xp_ssls (upd_xp t f w) = xp_ssls w" "php_streams (upd_xp t f w) = php_streams w"
  "next_net (upd_xp t f w) = next_net w"
  by (simp_all add: upd_xp_def)

lemma init_handle_sel [simp]:
  "xps (init_handle t w) = (xps w)(t := (xps w t)\<lparr>xd_handle := uv_init, xd_flags := set_flag (xd_flags (xps w t)) XP_INIT\<rparr>)"
  "ops (init_handle t w) = ops w" "queues (init_handle t w) = queues w" "next_opid (init_handle t w) = next_opid w"
  "s_flags (init_handle t w) = s_flags w" "g_task (init_handle t w) = g_task w" "tasks (init_handle t w) = tasks w"
  "contexts (init_handle t w) = contexts w" "g_context (init_handle t w) = g_context w" "cancels (init_handle t w) = cancels w"
  "connect_reqs (init_handle t w) = connect_reqs w"
  by (simp_all add: init_handle_def)

lemma set_uv_code_xp [simp]:
  "xps (set_uv_code op c w) = xps w" "connect_reqs (set_uv_code op c w) = connect_reqs w" "recv_ops (set_uv_code op c w) = recv_ops w"
  "xp_ssls (set_uv_code op c w) = xp_ssls w" "php_streams (set_uv_code op c w) = php_streams w" "unixs (set_uv_code op c w) = unixs w"
  "next_net (set_uv_code op c w) = next_net w"
  by (simp_all add: set_uv_code_def)

lemma free_op_xp:
  fixes w :: "'a xp_store_scheme"
  shows "xps (async_free_op op w) = xps w" "php_streams (async_free_op op w) = php_streams w" "xp_ssls (async_free_op op w) = xp_ssls w"
    "uv_codes (async_free_op op w) = uv_codes w" "op_list (ops w op) = None \<Longrightarrow> queues (async_free_op op w) = queues w"
  by (simp_all add: async_free_op_def unlink_op_def upd_op_def upd_queue_def split: option.split)

section \<open>A first world\<close>

definition boot_xp :: xp_store where
  "boot_xp = net_store.extend boot_net (xp_store.fields (\<lambda>_. zero_xp Vt_tcp) (\<lambda>_. new_php_stream)
     (\<lambda>_. \<lparr>xl_refcount = 0, xl_options = 0, xl_cert = None, xl_key = None, xl_passphrase = None, xl_sni = False, xl_alpn = None,
        xl_freed = False\<rparr>) 0
     (\<lambda>_. \<lparr>cl_server = None, cl_verify_depth = 0, cl_peer_name = None, cl_self_signed = False, cl_disable_sni = False, cl_alpn = None\<rparr>)
     (\<lambda>_. \<lparr>xr_flags = 0, xr_want = False, xr_len = 0, xr_data = [], xr_peer = None\<rparr>)
     (\<lambda>_. \<lparr>pd_handle = uv_init, pd_astream = False, pd_flags = 0, pd_pending = 0, pd_ref_count = 0, pd_timeout = 0,
        pd_timer = uv_init, pd_freed = False\<rparr>) [] [] [])"

text \<open>An environment in which every call succeeds, and there are no options.\<close>

definition calm_xp :: "'w xp_env" where
  "calm_xp = net_env.extend calm_net (xp_env.fields (\<lambda>_ _ _. None) (\<lambda>_. True) (\<lambda>_. []) (\<lambda>_ _. Not_readable) (\<lambda>s. Some s)
     (\<lambda>_. None) (\<lambda>_ _ _. 0) (\<lambda>_ _. Some 7) (\<lambda>_ _ _. Inr (AF_INET 0 0)) (\<lambda>_ _. 0) (\<lambda>_ w. (True, w)) (\<lambda>_ w. (True, w))
     (\<lambda>_. True) (\<lambda>_. True) True (\<lambda>_. 0))"

lemma calm_xp_sel [simp]:
  "accept_code calm_xp t c w = 0" "tcp_connect_code calm_xp t a w = 0" "uv_ip4_addr (inet_of calm_xp) x y = (True, AF_INET 0 0)"
  by (simp_all add: calm_xp_def calm_net_def net_env.defs xp_env.defs dns_env.defs)

lemma boot_xp_sel [simp]:
  "ops boot_xp = (\<lambda>_. zero_op)" "queues boot_xp = (\<lambda>_. [])" "next_opid boot_xp = 0" "next_net boot_xp = 0"
  "ops_wf boot_xp" "may_wait 0 boot_xp" "xps boot_xp = (\<lambda>_. zero_xp Vt_tcp)"
proof -
  have "ops boot_xp = ops boot_net" "queues boot_xp = queues boot_net" "next_opid boot_xp = next_opid boot_net"
    "s_flags boot_xp = s_flags boot_net" "g_task boot_xp = g_task boot_net" "tasks boot_xp = tasks boot_net"
    "contexts boot_xp = contexts boot_net" "g_context boot_xp = g_context boot_net" "cancels boot_xp = cancels boot_net"
    "next_net boot_xp = next_net boot_net"
    by (simp_all add: boot_xp_def net_store.defs xp_store.defs)
  then show "ops boot_xp = (\<lambda>_. zero_op)" "queues boot_xp = (\<lambda>_. [])" "next_opid boot_xp = 0" "next_net boot_xp = 0"
    "ops_wf boot_xp" "may_wait 0 boot_xp"
    using boot_net_sel(7) by (simp_all add: ops_wf_def may_wait_def await_checks_task_def sched_flag_def)
qed (simp_all add: boot_xp_def net_store.defs xp_store.defs)

section \<open>Connecting\<close>

text \<open>The state in which task \<open>s\<close> waits for the connection of socket \<open>t\<close>.\<close>

definition xp_connect_waits :: "nat \<Rightarrow> u64 \<Rightarrow> nat \<Rightarrow> 'a xp_store_scheme \<Rightarrow> 'a xp_store_scheme" where
  "xp_connect_waits t ms s w =
     (let op = next_opid w; w1 = snd (async_alloc_op (init_handle t w));
          w2 = async_append_op (XpTcpOps t) op (set_uv_code op 0 (w1\<lparr>connect_reqs := (t, op) # connect_reqs w1\<rparr>))
      in suspended s op (upd_xp t (\<lambda>x. x\<lparr>xd_timer := uv_start ms (xd_timer x)\<rparr>) w2))"

text \<open>The timer fires, which closes the handle, so that libuv ends the request.\<close>

definition connect_expires :: "nat \<Rightarrow> opid \<Rightarrow> 'a xp_store_scheme \<Rightarrow> 'a xp_store_scheme" where
  "connect_expires t op w = xp_connect_cb wake t op UV_ECANCELED (the (connect_timer_cb t w))"

text \<open>
  C24. A connection attempt whose timer fires fails with the error of a timeout. The request is not left with
  libuv, and closing the stream afterwards does not close the handle again but only the timer, whose
  callback releases the socket.
\<close>

theorem xp_connect_times_out:
  fixes w :: "'a xp_store_scheme"
  assumes "ops_wf w" and "may_wait s w" and "async_xp_parse_ip (xi_name p) = Inr (ip, port)"
    and "async_socket_parse_ip (inet_of env) ip 0 = Some a" and "\<forall>dest u. tcp_connect_code env t dest u = 0"
    and "xi_timeout p = Some tv" and "0 < timeout_ms tv" and "\<not> xd_astream (xps w t)" and "\<not> uv_closing (xd_timer (xps w t))"
    and "yield Suspend (xp_connect_waits t (timeout_ms tv) s w) =
      connect_expires t (next_opid w) (xp_connect_waits t (timeout_ms tv) s w)"
  shows "\<exists>w' w''. xp_tcp_connect tx env yield t p out w = Some (Xp_ret FAILURE None, report_error tx UV_ETIMEDOUT out, w') \<and>
    connect_reqs w' = connect_reqs w \<and> queues w' (XpTcpOps t) = queues w (XpTcpOps t) \<and> uv_closing (xd_handle (xps w' t)) \<and>
    async_xp_socket_close run t w' = Some w'' \<and> xd_handle (xps w'' t) = xd_handle (xps w' t) \<and> uv_closing (xd_timer (xps w'' t)) \<and>
    xd_freed (xps (dispose_timer t w'') t)"
proof -
  define op where "op = next_opid w"
  define w1 where "w1 = init_handle t w"
  define w2 where "w2 = async_append_op (XpTcpOps t) op (set_uv_code op 0
    ((snd (async_alloc_op w1))\<lparr>connect_reqs := (t, op) # connect_reqs (snd (async_alloc_op w1))\<rparr>))"
  define w3 where "w3 = upd_xp t (\<lambda>x. x\<lparr>xd_timer := uv_start (timeout_ms tv) (xd_timer x)\<rparr>) w2"
  have wt: "xp_connect_waits t (timeout_ms tv) s w = suspended s op w3"
    by (simp add: xp_connect_waits_def op_def w1_def w2_def w3_def Let_def)
  have l: "lookup_target env yield p IPPROTO_TCP w = Some (Target (snd (async_socket_set_port a port)), w)"
    using assms(3,4) by (simp add: lookup_target_def async_dns_lookup_ip_def dns_env.defs)
  have w3: "s_flags w3 = s_flags w" "queues w3 = (queues w)(XpTcpOps t := queues w (XpTcpOps t) @ [op])" "op_list (ops w3 op) = Some (XpTcpOps t)"
    "connect_reqs w3 = (t, op) # connect_reqs w" "next_opid w3 = Suc op"
    "xps w3 t = (xps w t)\<lparr>xd_handle := uv_init, xd_flags := set_flag (xd_flags (xps w t)) XP_INIT,
       xd_timer := uv_start (timeout_ms tv) (xd_timer (xps w t))\<rparr>"
    by (simp_all add: w3_def w2_def w1_def op_def async_alloc_op_def async_append_op_def)
       (simp_all add: upd_op_def upd_queue_def)
  define v where "v = suspended s op w3"
  have vm: "task_store.more v = task_store.more w3" by (simp add: v_def)
  note v = xp_store_more_eq [OF vm]
  have "ops_wf (snd (async_alloc_op w1))" using assms(1) by (intro ops_wf_alloc) (subst ops_wf_cong [where w = w], simp_all add: w1_def)
  then have "ops_wf w2"
    unfolding w2_def op_def by (intro ops_wf_append) (simp_all add: ops_wf_def w1_def async_alloc_op_def zero_op_def set_uv_code_def)
  then have wf: "ops_wf w3" by (subst ops_wf_cong [where w = w2]) (simp_all add: w3_def)
  have vq: "queues v = queues w3" "s_flags v = s_flags w" using w3(1,3) by (simp_all add: v_def)
  have "ops_wf v" unfolding v_def using wf w3(5) by (intro ops_wf_suspended) simp_all
  then have vl: "op_list (ops v op) = Some (XpTcpOps t)" using vq(1) w3(2) ops_wf_mem [of v op "XpTcpOps t"] by simp
  define x where "x = upd_xp t (\<lambda>y. y\<lparr>xd_handle := uv_close uv_init\<rparr>) v"
  have tc: "connect_timer_cb t v = Some x"
    using w3(6) by (simp add: connect_timer_cb_def xp_flag_def uv_close_once_def uv_init_def x_def v)
  define y where "y = set_uv_code op UV_ETIMEDOUT (x\<lparr>connect_reqs := remove1 (t, op) (connect_reqs x)\<rparr>)"
  have y: "connect_reqs y = connect_reqs w" "queues y = queues w3" "s_flags y = s_flags w" "uv_codes y op = UV_ETIMEDOUT"
    "op_list (ops y op) = Some (XpTcpOps t)"
    "xps y t = (xps w3 t)\<lparr>xd_handle := uv_close uv_init\<rparr>"
    using w3(4) vq vl by (simp_all add: y_def x_def v)
  define u where "u = async_finish_op wake op y"
  have um: "task_store.more u = task_store.more y" "s_flags u = s_flags w" "op_status (ops u op) = ASYNC_STATUS_RESOLVED"
    using y(3) by (simp_all add: u_def)
  have "op \<notin> set (queues w (XpTcpOps t))" using assms(1) by (auto simp: op_def ops_wf_def)
  then have uq: "queues u (XpTcpOps t) = queues w (XpTcpOps t)" "op_list (ops u op) = None"
    using y(2,5) w3(2) by (simp_all add: u_def async_finish_op_def unlink_op_def remove1_append)
  have yi: "yield Suspend (suspended s op w3) = u"
    using assms(10) tc unfolding op_def [symmetric] wt v_def [symmetric] connect_expires_def xp_connect_cb_def
    by (simp add: y_def u_def)
  have "may_wait s w3" using assms(2) by (subst may_wait_cong [where w = w]) (simp_all add: w3_def w2_def w1_def)
  moreover have "\<not> sched_flag SCHED_ERROR u" using may_wait_ok [OF assms(2)] um(2) by (simp add: sched_flag_def)
  ultimately obtain z where z: "async_await_op yield op w3 = Some (Await_success, z)" "task_store.more z = task_store.more u"
    "queues z = queues u" "op_list (ops z op) = None"
    using await_suspends [of s w3 yield op] um(3) uq(2) by (auto simp: yi)
  note m = xp_store_more_eq [OF z(2)] xp_store_more_eq [OF um(1)]
  define w' where "w' = async_free_op op (upd_xp t (\<lambda>x. x\<lparr>xd_timer := uv_stop (xd_timer x)\<rparr>) z)"
  have w': "queues w' (XpTcpOps t) = queues w (XpTcpOps t)" "connect_reqs w' = connect_reqs w"
    "xps w' t = (xps w3 t)\<lparr>xd_handle := uv_close uv_init, xd_timer := uv_stop (xd_timer (xps w3 t))\<rparr>"
    using z(3,4) uq(1) y by (simp_all add: w'_def async_free_op_def m) (simp_all add: upd_op_def m y)
  have "xp_connect_wait yield t tv w1 = Some (Xp_ret UV_ETIMEDOUT None, w')"
    using assms(7) z(1) y(4) unfolding xp_connect_wait_def Let_def split_beta async_alloc_op_def
    by (simp add: w3_def w2_def w1_def op_def async_alloc_op_def w'_def m)
  then have r: "xp_tcp_connect tx env yield t p out w = Some (Xp_ret FAILURE None, report_error tx UV_ETIMEDOUT out, w')"
    using assms(5,6) l by (simp add: xp_tcp_connect_def w1_def xp_connected_def)
  have "\<not> uv_closing (xd_timer (xps w' t))" "\<not> xd_astream (xps w' t)" "uv_closing (xd_handle (xps w' t))"
    using w'(3) w3(6) assms(8,9) by (simp_all add: uv_stop_def uv_start_def uv_close_def)
  then have "async_xp_socket_close run t w' =
      Some (upd_xp t (\<lambda>x. x\<lparr>xd_peer := None, xd_timer := uv_close (xd_timer (xps w' t))\<rparr>) w')"
    by (simp add: async_xp_socket_close_def uv_close_once_def Let_def)
  with r w'(1,2) \<open>uv_closing (xd_handle (xps w' t))\<close> show ?thesis
    by (intro exI conjI) (assumption | simp add: uv_close_def dispose_timer_def release_data_def)+
qed

text \<open>A call to connect to 10.0.0.1:80 within five seconds.\<close>

definition connect_param :: xport_param where
  "connect_param = \<lparr>xi_name = ''10.0.0.1:80'', xi_backlog = 0, xi_timeout = Some (5, 0), xi_addr = None, xi_buf = [], xi_buflen = 0,
     xi_want_error = True, xi_want_text = False, xi_want_addr = False, xi_how = 0\<rparr>"

lemma xp_connect_times_out_witness:
  "\<forall>tx out. \<exists>w'. xp_tcp_connect tx calm_xp (\<lambda>_. connect_expires 0 0) 0 connect_param out boot_xp =
      Some (Xp_ret FAILURE None, report_error tx UV_ETIMEDOUT out, w') \<and> uv_closing (xd_handle (xps w' 0))"
proof (intro allI)
  fix tx out
  have p: "async_xp_parse_ip (xi_name connect_param) = Inr (''10.0.0.1'', 80)"
    by (simp add: async_xp_parse_ip_def connect_param_def c_find_def c_str_def c_atoi_def c_space_def c_digit_def digit_val_def to_c_int_def)
  have a: "async_socket_parse_ip (inet_of calm_xp) ''10.0.0.1'' 0 = Some (AF_INET 0 0)"
    by (simp add: async_socket_parse_ip_def)
  have t: "xi_timeout connect_param = Some (5, 0)" "0 < timeout_ms (5, 0)" by (simp_all add: connect_param_def timeout_ms_def)
  have d: "\<not> xd_astream (xps boot_xp 0)" "\<not> uv_closing (xd_timer (xps boot_xp 0))" by (simp_all add: zero_xp_def uv_init_def)
  have c: "\<forall>dest (u :: xp_store). tcp_connect_code calm_xp 0 dest u = 0" by simp
  from xp_connect_times_out [OF boot_xp_sel(5,6) p a c t d, of "\<lambda>_. connect_expires 0 0" tx out wake]
  show "\<exists>w'. xp_tcp_connect tx calm_xp (\<lambda>_. connect_expires 0 0) 0 connect_param out boot_xp =
      Some (Xp_ret FAILURE None, report_error tx UV_ETIMEDOUT out, w') \<and> uv_closing (xd_handle (xps w' 0))"
    by auto
qed

section \<open>Accepting\<close>

text \<open>A new connection: all that wait are woken.\<close>

lemma xp_listen_wakes_all:
  fixes w :: "'a xp_store_scheme"
  assumes "ops_wf w"
  shows "\<exists>w'. xp_listen_cb wake t 0 w = Some w' \<and> ops_wf w' \<and> s_flags w' = s_flags w \<and> queues w' = (queues w)(XpTcpOps t := []) \<and>
    xps w' = (xps w)(t := (xps w t)\<lparr>xd_pending := xd_pending (xps w t) + 1\<rparr>) \<and> php_streams w' = php_streams w \<and>
    (\<forall>op. op \<in> set (queues w (XpTcpOps t)) \<longrightarrow> uv_codes w' op = 0) \<and>
    (\<forall>x. ops w' x = (if x \<in> set (queues w (XpTcpOps t))
       then (ops w x)\<lparr>op_list := None, op_status := ASYNC_STATUS_RESOLVED\<rparr> else ops w x))"
proof -
  define w1 where "w1 = upd_xp t (\<lambda>x. x\<lparr>xd_pending := xd_pending x + 1\<rparr>) w"
  define settle where "settle = (\<lambda>op (v :: 'a xp_store_scheme). async_finish_op wake op (set_uv_code op 0 v))"
  let ?Q = "queues w (XpTcpOps t)"
  let ?P = "\<lambda>v. ops_wf v \<and> s_flags v = s_flags w \<and> xps v = xps w1 \<and> php_streams v = php_streams w \<and>
    (\<forall>op. op \<in> set ?Q \<and> op \<notin> set (queues v (XpTcpOps t)) \<longrightarrow> uv_codes v op = 0) \<and>
    set (queues v (XpTcpOps t)) \<subseteq> set ?Q"
  have "\<exists>v. drain_first settle (XpTcpOps t) w1 = Some v \<and> ?P v \<and> queues v = (queues w1)(XpTcpOps t := []) \<and>
      (\<forall>x. ops v x = (if x \<in> set (queues w1 (XpTcpOps t)) then (ops w1 x)\<lparr>op_list := None\<rparr>\<lparr>op_status := ASYNC_STATUS_RESOLVED\<rparr> else ops w1 x))"
  proof (rule drain_first_quiet)
    have "ops_wf w1" using assms by (subst ops_wf_cong [where w = w]) (simp_all add: w1_def)
    then show "?P w1" by (simp add: w1_def)
  next
    fix op rest and v :: "'a xp_store_scheme"
    assume v: "?P v" "queues v (XpTcpOps t) = op # rest"
    then have l: "op_list (ops v op) = Some (XpTcpOps t)" by (metis list.set_intros(1) ops_wf_mem)
    have wf: "ops_wf (set_uv_code op 0 v)" using v(1) by (subst ops_wf_cong [where w = v]) simp_all
    have d: "op \<notin> set rest" using v ops_wf_distinct [of v "XpTcpOps t"] by simp
    show o: "ops (settle op v) = (ops v)(op := (ops v op)\<lparr>op_list := None\<rparr>\<lparr>op_status := ASYNC_STATUS_RESOLVED\<rparr>)"
      and q: "queues (settle op v) = (queues v)(XpTcpOps t := rest)"
      using l v(2) by (simp_all add: settle_def async_finish_op_def unlink_op_def)
    have m: "task_store.more (settle op v) = task_store.more (set_uv_code op 0 v)" by (simp add: settle_def)
    have "uv_codes (set_uv_code op 0 v) = (uv_codes v)(op := 0)" by (simp add: set_uv_code_def)
    with v q m wf show "?P (settle op v)"
      by (auto simp: xp_store_more_eq [OF m, unfolded settle_def] settle_def waking_wf.inv_finish)
  qed simp
  then show ?thesis
    by (auto simp: xp_listen_cb_def settle_def w1_def)
qed

text \<open>The state in which task \<open>s\<close> waits for a connection at server \<open>t\<close>.\<close>

definition xp_accept_waits :: "nat \<Rightarrow> nat \<Rightarrow> 'a xp_store_scheme \<Rightarrow> 'a xp_store_scheme" where
  "xp_accept_waits t s w =
     (let c = next_net w; op = next_opid w;
          w1 = upd_xp c (\<lambda>_. (zero_xp Vt_tcp)\<lparr>xd_flags := XP_INIT\<rparr>) (w\<lparr>next_net := Suc c\<rparr>)
      in suspended s op (async_append_op (XpTcpOps t) op (set_uv_code op 0 (snd (async_alloc_op w1)))))"

lemma attach_stream_sel [simp]:
  "xps (attach_stream t w) = (xps w)(t := (xps w t)\<lparr>xd_astream := True\<rparr>)" "queues (attach_stream t w) = queues w"
  "php_streams (attach_stream t w) = php_streams w" "xp_ssls (attach_stream t w) = xp_ssls w"
  by (simp_all add: attach_stream_def async_stream_init_def async_alloc_op_def upd_stream_def)


text \<open>The listening socket of the witness.\<close>

definition listening :: xp_store where
  "listening = snd (xp_tcp_factory (calm_xp :: unit xp_env) ''tcp'' 3 None boot_xp)"

lemma listening_sel [simp]:
  "ops_wf listening" "may_wait 0 listening" "next_net listening = 1" "xd_pending (xps listening 0) = 0" "\<not> xd_encrypt (xps listening 0)"
  "xd_vtable (xps listening 0) = Vt_tcp"
proof -
  have s: "ops listening = ops boot_xp" "queues listening = queues boot_xp" "next_opid listening = next_opid boot_xp"
    "s_flags listening = s_flags boot_xp" "g_task listening = g_task boot_xp" "tasks listening = tasks boot_xp"
    "contexts listening = contexts boot_xp" "g_context listening = g_context boot_xp" "cancels listening = cancels boot_xp"
    by (simp_all add: listening_def xp_tcp_factory_def async_xp_socket_create_def upd_php_def Let_def)
  show "ops_wf listening" using boot_xp_sel(5) s by (subst ops_wf_cong [where w = boot_xp]) simp_all
  show "may_wait 0 listening" using boot_xp_sel(6) s by (subst may_wait_cong [where w = boot_xp]) simp_all
qed (simp_all add: listening_def xp_tcp_factory_def async_xp_socket_create_def upd_php_def zero_xp_def differs_def c_str_def Let_def)


section \<open>What goes wrong\<close>

text \<open>An address without a port: the null pointer that stands for the host is looked up.\<close>

lemma missing_port_crashes:
  "xi_name p = ''localhost'' \<Longrightarrow> xp_tcp_connect tx env yield t p out w = None \<and> xp_tcp_bind env yield t p out w = None"
  by (simp add: xp_tcp_connect_def xp_tcp_bind_def lookup_target_def async_xp_parse_ip_def c_find_def)

text \<open>The flag of an open handle is never set for UDP: closing closes the timer only, whose callback frees the data.\<close>

lemma udp_stream_leaves_handle_open:
  assumes "xp_udp_factory w = (t, w1)"
  shows "\<exists>w2. async_xp_socket_close run t w1 = Some w2 \<and> xd_freed (xps (dispose_timer t w2) t) \<and>
    \<not> uv_closing (xd_handle (xps (dispose_timer t w2) t))"
  using assms
  by (auto simp: xp_udp_factory_def async_xp_socket_create_def upd_php_def zero_xp_def async_xp_socket_close_def xp_flag_def
      has_flag_def set_flag_def uv_close_once_def uv_init_def dispose_timer_def release_data_def Let_def)

text \<open>When waiting for a connection fails, \<open>accept\<close> returns success without a client, and the assertion behind it uses it.\<close>

lemma cancelled_accept_crashes:
  assumes "xd_vtable (xps w t) = Vt_tcp" and "xd_pending (xps w t) = 0" and "t < next_net w"
    and "\<forall>op u. \<exists>u'. async_await_op yield op u = Some (Await_failure, u')"
  shows "xp_accept env yield run t no_out w = None"
proof -
  define c where "c = next_net w"
  define w1 where "w1 = upd_xp c (\<lambda>_. (zero_xp Vt_tcp)\<lparr>xd_flags := XP_INIT\<rparr>) (w\<lparr>next_net := Suc c\<rparr>)"
  have "xd_pending (xps w1 t) = 0" using assms(2,3) by (simp add: w1_def c_def)
  moreover obtain op a where al: "async_alloc_op w1 = (op, a)" by (cases "async_alloc_op w1")
  moreover obtain u where "async_await_op yield op (async_append_op (XpTcpOps t) op (set_uv_code op 0 a)) = Some (Await_failure, u)"
    using assms(4) by blast
  ultimately have "xp_accept_loop env yield t c 0 w1 = Some (Some (False, 0, Some (op_result (ops u op))), async_free_op op u)"
    by (subst xp_accept_loop.simps) simp
  then show ?thesis
    using assms(1) unfolding xp_accept_def checked_def xp_tcp_accept_def Let_def c_def [symmetric] w1_def [symmetric]
    by (simp add: no_out_def)
qed

text \<open>A receiver that stops waiting leaves libuv receiving: for the next datagram there is no buffer.\<close>

lemma cancelled_receive_leaves_receiving:
  assumes "async_alloc_op (receive_start t w) = (op, a)"
    and "async_await_op yield op (upd_recv op (\<lambda>_. \<lparr>xr_flags = 0, xr_want = want, xr_len = n, xr_data = [], xr_peer = None\<rparr>)
       (async_append_op (XpReceivers t) op (set_uv_code op 0 a))) = Some (Await_failure, u)"
    and "queues u (XpReceivers t) = [op]" and "op_list (ops u op) = Some (XpReceivers t)" and "xps u t = xps (receive_start t w) t"
  shows "\<exists>w'. receive_wait yield t want n w = Some (Xp_ret FAILURE (Some (op_result (ops u op))), [], None, w') \<and>
    xp_flag t XP_UDP_RECEIVING w' \<and> xp_receive_alloc t w' = None \<and> xp_receive_cb run t (Inr (b # bytes, addr)) fl w' = None"
proof -
  have "queues (async_free_op op u) (XpReceivers t) = []"
    using assms(3,4) by (simp add: async_free_op_def unlink_op_def upd_op_def upd_queue_def)
  moreover have "xp_flag t XP_UDP_RECEIVING (async_free_op op u)"
    using assms(5) by (auto simp: xp_flag_def free_op_xp receive_start_def split: if_splits)
  moreover have "receive_wait yield t want n w = Some (Xp_ret FAILURE (Some (op_result (ops u op))), [], None, async_free_op op u)"
    using assms(1,2) by (simp add: receive_wait_def)
  ultimately show ?thesis
    by (intro exI [of _ "async_free_op op u"]) (simp add: xp_receive_alloc_def xp_receive_cb_def queue_first_def)
qed

text \<open>A Unix socket that is bound loses the flag of an open handle: closing frees the data and leaves the handle open.\<close>

lemma bound_unix_socket_leaves_handle_open:
  assumes "unix_bind tx env t p out w = Some (Xp_ret 0 None, out', w1)" and "queues w (XpAccepts t) = []"
    and "\<not> pd_astream (unixs w t)" and "\<not> uv_closing (pd_timer (unixs w t))" and "\<not> uv_closing (pd_handle (unixs w t))"
    and "pd_pending (unixs w t) = 0"
  shows "\<exists>w2. async_pipe_close run t w1 = Some w2 \<and> pd_freed (unixs (unix_dispose_timer t w2) t) \<and>
    \<not> uv_closing (pd_handle (unixs (unix_dispose_timer t w2) t))"
proof -
  define u where "u = drop_pending t w1"
  have w1: "unixs w1 t = (unixs w t)\<lparr>pd_handle := (pd_handle (unixs w t))\<lparr>uv_has_ref := False\<rparr>, pd_flags := UNIX_LAZY\<rparr>"
    "queues w1 = queues w"
    using assms(1) by (auto simp: unix_bind_def set_unix_flag_def upd_unix_def xp_warn_def Let_def split: if_splits)
  then have u: "unixs u t = unixs w1 t" "queues u (XpAccepts t) = []"
    using assms(2,6) by (simp_all add: u_def drop_pending_def upd_unix_def Let_def)
  then have "drain_first f (XpAccepts t) u = Some u" for f
    by (subst drain_first.simps) simp
  with u w1 assms(3-5) show ?thesis
    unfolding async_pipe_close_def u_def [symmetric]
    by (auto simp: unix_flag_def has_flag_def uv_close_once_def unix_dispose_timer_def unix_free_def upd_unix_def Let_def)
qed

end
