(* ===== verification/FiberBackend.thy ===== *)
theory FiberBackend
  imports Fiber
begin

text \<open>
  The three implementations of \<open>include/async/fiber.h\<close>: \<open>fiber/asm.c\<close> on Boost's fcontext,
  \<open>fiber/winfib.c\<close> on the Windows fiber API and \<open>fiber/ucontext.c\<close> on \<open>swapcontext\<close>. Here the
  machine switch is explicit: a suspended computation is a frame, the point of the code it
  stands at with the local variables it reads when it goes on. The locale \<open>fiber_backend\<close> is
  what the scheduler relies on: with the frames left out, an implementation is the \<open>Fiber\<close>
  theory's \<open>async_fiber_suspend\<close> and \<open>async_fiber_switch\<close>. It is interpreted on the asm and the
  Windows implementation. The ucontext implementation does not meet it: its structure has no
  \<open>async_fiber\<close> at its start, so the state saved on a switch and the machine context share
  their bytes.

  The fcontext functions (vendored assembly), the Windows API and the ucontext functions enter
  by their documented behaviour; \<open>None\<close> is a failed assertion, a jump to a context that is not
  suspended, or the fatal error on a failed \<open>swapcontext\<close>. Addresses on the stack are not
  modelled.
\<close>

section \<open>The scheduler's view\<close>

text \<open>The fiber that a suspension continues.\<close>

definition suspend_target :: "'a fiber_store_scheme \<Rightarrow> nat" where
  "suspend_target w = (case fiber_queue w of [] \<Rightarrow> runner w | f # _ \<Rightarrow> f)"

text \<open>The queue operation of \<open>async_fiber_suspend\<close>: the head loses its flag and leaves.\<close>

definition dequeue_fiber :: "'a fiber_store_scheme \<Rightarrow> 'a fiber_store_scheme" where
  "dequeue_fiber w = (case fiber_queue w of
       [] \<Rightarrow> w
     | f # rest \<Rightarrow> upd_fiber f (\<lambda>x. x\<lparr>f_flags := clear_flag (f_flags x) ASYNC_FIBER_FLAG_QUEUED\<rparr>)
                     (w\<lparr>fiber_queue := rest\<rparr>))"

lemma suspend_by_target:
  "async_fiber_suspend w =
     (if g_fiber w = suspend_target w then dequeue_fiber w
      else jump_fiber (suspend_target w) (async_fiber_capture_state (g_fiber w) (dequeue_fiber w)))"
  by (simp add: async_fiber_suspend_def suspend_target_def dequeue_fiber_def Let_def
      split: list.split)

lemma dequeue_sel [simp]:
  "g_fiber (dequeue_fiber w) = g_fiber w" "runner (dequeue_fiber w) = runner w"
  "f_entry (fibers (dequeue_fiber w) x) = f_entry (fibers w x)"
  by (simp_all add: dequeue_fiber_def split: list.split)

lemma jump_fiber_entry [simp]:
  "f_entry (fibers (jump_fiber f w) x) = (if x = f then None else f_entry (fibers w x))"
  by (simp add: jump_fiber_def async_fiber_restore_state_def start_fiber_def Let_def
      split: option.split fiber_entry.split)

text \<open>A caller of the interface: what the scheduler and the tasks do to the fibers.\<close>

datatype fiber_call = Call_suspend | Call_switch nat async_fiber_suspend_type

fun run_call ::
  "('w \<Rightarrow> 'w option) \<Rightarrow> (nat \<Rightarrow> async_fiber_suspend_type \<Rightarrow> 'w \<Rightarrow> 'w option) \<Rightarrow> fiber_call \<Rightarrow>
   'w \<Rightarrow> 'w option" where
  "run_call su sw Call_suspend w = su w"
| "run_call su sw (Call_switch f s) w = sw f s w"

fun run_calls ::
  "('w \<Rightarrow> 'w option) \<Rightarrow> (nat \<Rightarrow> async_fiber_suspend_type \<Rightarrow> 'w \<Rightarrow> 'w option) \<Rightarrow> fiber_call list \<Rightarrow>
   'w \<Rightarrow> 'w option" where
  "run_calls su sw [] w = Some w"
| "run_calls su sw (c # cs) w = Option.bind (run_call su sw c w) (run_calls su sw cs)"

text \<open>The same calls on the scheduler's view, and when they are allowed.\<close>

fun do_fiber_call :: "fiber_call \<Rightarrow> fiber_store \<Rightarrow> fiber_store" where
  "do_fiber_call Call_suspend w = async_fiber_suspend w"
| "do_fiber_call (Call_switch f s) w = async_fiber_switch f s w"

fun call_allowed :: "(nat \<Rightarrow> bool) \<Rightarrow> fiber_call \<Rightarrow> fiber_store \<Rightarrow> bool" where
  "call_allowed ini Call_suspend w = ini (suspend_target w)"
| "call_allowed ini (Call_switch f s) w = (ini f \<and> f \<noteq> g_fiber w)"

fun calls_allowed :: "(nat \<Rightarrow> bool) \<Rightarrow> fiber_call list \<Rightarrow> fiber_store \<Rightarrow> bool" where
  "calls_allowed ini [] w = True"
| "calls_allowed ini (c # cs) w =
     (call_allowed ini c w \<and> calls_allowed ini cs (do_fiber_call c w))"

text \<open>
  A backend: its two operations, the view of its state the scheduler has, an invariant and the
  set of fibers that were initialised. An operation whose target is initialised succeeds, is
  the operation of the \<open>Fiber\<close> theory on the view and keeps the invariant.
\<close>

locale fiber_backend =
  fixes do_suspend :: "'w \<Rightarrow> 'w option"
    and do_switch :: "nat \<Rightarrow> async_fiber_suspend_type \<Rightarrow> 'w \<Rightarrow> 'w option"
    and view :: "'w \<Rightarrow> fiber_store"
    and inv :: "'w \<Rightarrow> bool"
    and inited :: "'w \<Rightarrow> nat \<Rightarrow> bool"
  assumes suspend_ok: "inv w \<Longrightarrow> inited w (suspend_target (view w)) \<Longrightarrow>
      \<exists>w'. do_suspend w = Some w' \<and> view w' = async_fiber_suspend (view w) \<and> inv w' \<and>
           inited w' = inited w"
    and switch_ok: "inv w \<Longrightarrow> inited w f \<Longrightarrow> f \<noteq> g_fiber (view w) \<Longrightarrow>
      \<exists>w'. do_switch f s w = Some w' \<and> view w' = async_fiber_switch f s (view w) \<and> inv w' \<and>
           inited w' = inited w"
begin

lemma call_ok:
  assumes "inv w" and "call_allowed (inited w) c (view w)"
  shows "\<exists>w'. run_call do_suspend do_switch c w = Some w' \<and>
     view w' = do_fiber_call c (view w) \<and> inv w' \<and> inited w' = inited w"
  using assms suspend_ok switch_ok by (cases c) auto

lemma calls_refine:
  assumes "inv w" and "calls_allowed (inited w) cs (view w)"
  shows "\<exists>w'. run_calls do_suspend do_switch cs w = Some w' \<and>
     view w' = fold do_fiber_call cs (view w) \<and> inv w'"
  using assms
proof (induction cs arbitrary: w)
  case (Cons c cs)
  then obtain w' where w': "run_call do_suspend do_switch c w = Some w'"
    "view w' = do_fiber_call c (view w)" "inv w'" "inited w' = inited w"
    using call_ok [of w c] by auto
  then show ?case using Cons.IH [of w'] Cons.prems(2) by simp
qed simp

end

section \<open>fcontext: fiber/asm.c\<close>

text \<open>
  The points at which \<open>jump_fcontext\<close> suspends a computation: the entry of
  \<open>async_fiber_asm_run\<close>, its own jump back (with the record it was given), the jump in
  \<open>async_fiber_init\<close>, and the jump in \<open>async_fiber_suspend\<close> or \<open>async_fiber_switch\<close> (with the
  local \<open>current\<close>). What a jump hands over is the record or the fiber that jumped.
\<close>

record async_fiber_record_asm =
  r_fiber :: nat
  r_func :: fiber_entry

datatype frame = At_start | In_run async_fiber_record_asm | In_init nat | In_switch nat

datatype transfer_data = Data_record async_fiber_record_asm | Data_fiber nat

record async_fiber_asm =
  a_ctx :: nat
  a_id :: "32 word"
  a_initialized :: bool
  a_root :: bool

record asm_store = fiber_store +
  asms :: "nat \<Rightarrow> async_fiber_asm option"
  fcontexts :: "nat \<Rightarrow> frame option"
  next_fcontext :: nat
  asm_counter :: "32 word"
  mapped_stacks :: "nat set"

text \<open>
  \<open>make_fcontext\<close> prepares a context that starts \<open>fn\<close>; \<open>jump_fcontext\<close> saves the running
  computation under a new handle, which it hands to the computation it continues. The handle
  jumped to is used up.
\<close>

definition make_fcontext :: "'a asm_store_scheme \<Rightarrow> nat \<times> 'a asm_store_scheme" where
  "make_fcontext w = (next_fcontext w,
     w\<lparr>fcontexts := (fcontexts w)(next_fcontext w \<mapsto> At_start),
       next_fcontext := Suc (next_fcontext w)\<rparr>)"

definition jump_fcontext ::
  "nat \<Rightarrow> frame \<Rightarrow> 'a asm_store_scheme \<Rightarrow> (frame \<times> nat \<times> 'a asm_store_scheme) option" where
  "jump_fcontext to self w = (case fcontexts w to of
     None \<Rightarrow> None
   | Some fr \<Rightarrow> Some (fr, next_fcontext w,
       w\<lparr>fcontexts := (fcontexts w)(to := None, next_fcontext w \<mapsto> self),
         next_fcontext := Suc (next_fcontext w)\<rparr>))"

definition set_asm_ctx :: "nat \<Rightarrow> nat \<Rightarrow> 'a asm_store_scheme \<Rightarrow> 'a asm_store_scheme" where
  "set_asm_ctx f c w = w\<lparr>asms := (asms w)(f := map_option (\<lambda>a. a\<lparr>a_ctx := c\<rparr>) (asms w f))\<rparr>"

definition asm_fiber_create_root :: "'a asm_store_scheme \<Rightarrow> nat \<times> 'a asm_store_scheme" where
  "asm_fiber_create_root w =
     (let (f, w1) = async_fiber_create w
      in (f, w1\<lparr>asms := (asms w1)(f \<mapsto> \<lparr>a_ctx = 0, a_id = 0, a_initialized = True, a_root = True\<rparr>)\<rparr>))"

definition asm_fiber_create :: "'a asm_store_scheme \<Rightarrow> nat \<times> 'a asm_store_scheme" where
  "asm_fiber_create w =
     (let (f, w1) = async_fiber_create w
      in (f, w1\<lparr>asms := (asms w1)(f \<mapsto> \<lparr>a_ctx = 0, a_id = asm_counter w + 1,
                  a_initialized = False, a_root = False\<rparr>),
                asm_counter := asm_counter w + 1\<rparr>))"

text \<open>
  \<open>async_fiber_asm_run\<close> up to its jump, and after it: the fiber that jumped gets its handle
  and the fiber's function starts.
\<close>

definition async_fiber_asm_run_start ::
  "nat \<Rightarrow> transfer_data \<Rightarrow> 'a asm_store_scheme \<Rightarrow>
   (frame \<times> nat \<times> transfer_data \<times> 'a asm_store_scheme) option" where
  "async_fiber_asm_run_start ctx data w = (case data of
     Data_fiber _ \<Rightarrow> None
   | Data_record rec \<Rightarrow> (case jump_fcontext ctx (In_run rec) w of
       None \<Rightarrow> None
     | Some (fr, tok, w1) \<Rightarrow> Some (fr, tok, Data_fiber (r_fiber rec), w1)))"

definition async_fiber_asm_run_func ::
  "async_fiber_record_asm \<Rightarrow> 'a fiber_store_scheme \<Rightarrow> 'a fiber_store_scheme" where
  "async_fiber_asm_run_func rec w =
     start_fiber (r_func rec) (r_fiber rec) (upd_fiber (r_fiber rec) (\<lambda>x. x\<lparr>f_entry := None\<rparr>) w)"

text \<open>
  How a fiber goes on: after the jump in \<open>async_fiber_suspend\<close> or \<open>async_fiber_switch\<close> with the
  globals of its local \<open>current\<close>, before its function with the prologue of that.
\<close>

definition continue_frame :: "frame \<Rightarrow> 'a fiber_store_scheme \<Rightarrow> 'a fiber_store_scheme option" where
  "continue_frame fr w = (case fr of
     In_switch current \<Rightarrow> Some (async_fiber_restore_state current w)
   | In_run rec \<Rightarrow> Some (async_fiber_asm_run_func rec w)
   | _ \<Rightarrow> None)"

definition asm_fiber_init ::
  "64 word \<Rightarrow> (64 word \<Rightarrow> bool) \<Rightarrow> nat \<Rightarrow> nat \<Rightarrow> fiber_entry \<Rightarrow> 64 word \<Rightarrow>
   'a asm_store_scheme \<Rightarrow> (bool \<times> 'a asm_store_scheme) option" where
  "asm_fiber_init page mmap f ctx entry stack_size w =
     (case asms w f of
        None \<Rightarrow> None
      | Some impl \<Rightarrow>
          if a_initialized impl then None
          else let sz = async_fiber_stack_allocate page stack_size
               in if \<not> mmap sz then Some (False, w)
                  else
                    let rec = \<lparr>r_fiber = f, r_func = entry\<rparr>;
                        (c, w1) = make_fcontext (upd_fiber f (\<lambda>x. x\<lparr>f_stack_size := sz\<rparr>)
                                    (w\<lparr>mapped_stacks := insert f (mapped_stacks w)\<rparr>));
                        w2 = set_asm_ctx f c w1
                    in case jump_fcontext c (In_init f) w2 of
                         Some (At_start, back, w3) \<Rightarrow>
                           (case async_fiber_asm_run_start back (Data_record rec) w3 of
                              Some (In_init g, tok, _, w4) \<Rightarrow>
                                (let w5 = set_asm_ctx g tok w4
                                 in Some (True, upd_fiber g (\<lambda>x. x\<lparr>f_context := ctx, f_entry := Some entry\<rparr>)
                                      (w5\<lparr>asms := (asms w5)(g := map_option (\<lambda>a. a\<lparr>a_initialized := True\<rparr>)
                                            (asms w5 g))\<rparr>)))
                            | _ \<Rightarrow> None)
                       | _ \<Rightarrow> None)"

definition asm_fiber_destroy :: "nat \<Rightarrow> 'a asm_store_scheme \<Rightarrow> 'a asm_store_scheme" where
  "asm_fiber_destroy f w = (case asms w f of
     None \<Rightarrow> w
   | Some impl \<Rightarrow>
       (let w1 = (if \<not> a_root impl \<and> a_initialized impl
                  then w\<lparr>mapped_stacks := mapped_stacks w - {f}\<rparr> else w)
        in w1\<lparr>asms := (asms w1)(f := None)\<rparr>))"

text \<open>What the computation that is continued does first: its handle goes to the fiber that jumped.\<close>

definition asm_resume ::
  "frame \<times> nat \<times> 'a asm_store_scheme \<Rightarrow> transfer_data \<Rightarrow> 'a asm_store_scheme option" where
  "asm_resume r data = (case r of (fr, tok, w) \<Rightarrow> (case data of
     Data_record _ \<Rightarrow> None
   | Data_fiber from \<Rightarrow> continue_frame fr (set_asm_ctx from tok w)))"

definition asm_jump :: "nat \<Rightarrow> nat \<Rightarrow> 'a asm_store_scheme \<Rightarrow> 'a asm_store_scheme option" where
  "asm_jump current next w =
     (case (asms w current, asms w next) of
        (Some from, Some to) \<Rightarrow>
          if a_initialized from \<and> a_initialized to
          then (let w1 = (async_fiber_capture_state current w)\<lparr>g_fiber := next\<rparr>
                in case jump_fcontext (a_ctx to) (In_switch current) w1 of
                     None \<Rightarrow> None
                   | Some r \<Rightarrow> asm_resume r (Data_fiber current))
          else None
      | _ \<Rightarrow> None)"

definition asm_fiber_suspend :: "'a asm_store_scheme \<Rightarrow> 'a asm_store_scheme option" where
  "asm_fiber_suspend w =
     (let current = g_fiber w;
          (next, w1) = (case fiber_queue w of
             [] \<Rightarrow> (runner w, w)
           | f # rest \<Rightarrow> (f, upd_fiber f (\<lambda>x. x\<lparr>f_flags := clear_flag (f_flags x) ASYNC_FIBER_FLAG_QUEUED\<rparr>)
                              (w\<lparr>fiber_queue := rest\<rparr>)))
      in if current = next then Some w1 else asm_jump current next w1)"

definition asm_fiber_switch ::
  "nat \<Rightarrow> async_fiber_suspend_type \<Rightarrow> 'a asm_store_scheme \<Rightarrow> 'a asm_store_scheme option" where
  "asm_fiber_switch next suspend w =
     (if g_fiber w = next then None
      else asm_jump (g_fiber w) next (queue_fiber suspend (g_fiber w) w))"

subsection \<open>Every suspended fiber's handle is the place it was suspended at\<close>

definition asm_inited :: "'a asm_store_scheme \<Rightarrow> nat \<Rightarrow> bool" where
  "asm_inited w f \<longleftrightarrow> (\<exists>a. asms w f = Some a \<and> a_initialized a)"

definition frame_of :: "async_fiber \<Rightarrow> nat \<Rightarrow> frame" where
  "frame_of x f = (case f_entry x of
     None \<Rightarrow> In_switch f | Some e \<Rightarrow> In_run \<lparr>r_fiber = f, r_func = e\<rparr>)"

definition asm_ok :: "'a asm_store_scheme \<Rightarrow> bool" where
  "asm_ok w \<longleftrightarrow> asm_inited w (g_fiber w) \<and> f_entry (fibers w (g_fiber w)) = None \<and>
     (\<forall>c. fcontexts w c \<noteq> None \<longrightarrow> c < next_fcontext w) \<and>
     (\<forall>f a. asms w f = Some a \<and> a_initialized a \<and> f \<noteq> g_fiber w \<longrightarrow>
        fcontexts w (a_ctx a) = Some (frame_of (fibers w f) f))"


text \<open>The view of a state: its machine part left out. The operations commute with it.\<close>

abbreviation fiber_view :: "'a fiber_store_scheme \<Rightarrow> fiber_store" where
  "fiber_view \<equiv> fiber_store.truncate"

lemma fiber_view_sel [simp]:
  "g_fiber (fiber_view w) = g_fiber w" "fiber_queue (fiber_view w) = fiber_queue w"
  "fibers (fiber_view w) = fibers w" "runner (fiber_view w) = runner w"
  "g_context (fiber_view w) = g_context w" "g_task (fiber_view w) = g_task w"
  "g_scheduler (fiber_view w) = g_scheduler w" "g_foreground (fiber_view w) = g_foreground w"
  by (simp_all add: fiber_store.truncate_def)

lemma fiber_view_upd [simp]:
  "fiber_view (upd_fiber f h w) = upd_fiber f h (fiber_view w)"
  "fiber_view (w\<lparr>fiber_queue := q\<rparr>) = (fiber_view w)\<lparr>fiber_queue := q\<rparr>"
  "fiber_view (w\<lparr>g_fiber := g\<rparr>) = (fiber_view w)\<lparr>g_fiber := g\<rparr>"
  "fiber_view (async_fiber_capture_state f w) = async_fiber_capture_state f (fiber_view w)"
  "fiber_view (async_fiber_restore_state f w) = async_fiber_restore_state f (fiber_view w)"
  "fiber_view (start_fiber e f w) = start_fiber e f (fiber_view w)"
  by (auto simp: fiber_store.truncate_def upd_fiber_def async_fiber_capture_state_def
      async_fiber_restore_state_def start_fiber_def split: fiber_entry.split)

lemma fiber_view_queue [simp]:
  "fiber_view (queue_fiber s f w) = queue_fiber s f (fiber_view w)"
  "fiber_view (dequeue_fiber w) = dequeue_fiber (fiber_view w)"
  by (simp_all add: queue_fiber_def dequeue_fiber_def Let_def
      split: async_fiber_suspend_type.split list.split)

lemma fiber_view_asm [simp]:
  "fiber_view (set_asm_ctx f c w) = fiber_view w"
  "fiber_view (w\<lparr>fcontexts := m, next_fcontext := n\<rparr>) = fiber_view w"
  by (simp_all add: fiber_store.truncate_def set_asm_ctx_def)

text \<open>What a change of the queue leaves alone.\<close>

lemma asm_queue_sel [simp]:
  "asms (queue_fiber s f w) = asms w" "fcontexts (queue_fiber s f w) = fcontexts w"
  "next_fcontext (queue_fiber s f w) = next_fcontext w"
  "asms (dequeue_fiber w) = asms w" "fcontexts (dequeue_fiber w) = fcontexts w"
  "next_fcontext (dequeue_fiber w) = next_fcontext w"
  by (simp_all add: queue_fiber_def dequeue_fiber_def upd_fiber_def Let_def
      split: async_fiber_suspend_type.split list.split)

lemma frame_of_cong: "f_entry x = f_entry y \<Longrightarrow> frame_of x f = frame_of y f"
  by (simp add: frame_of_def)

lemma asm_ok_cong:
  assumes "asms w' = asms w" "fcontexts w' = fcontexts w" "next_fcontext w' = next_fcontext w"
    and "g_fiber w' = g_fiber w" and "\<And>f. f_entry (fibers w' f) = f_entry (fibers w f)"
  shows "asm_ok w' = asm_ok w" and "asm_inited w' = asm_inited w"
proof -
  show i: "asm_inited w' = asm_inited w"
    using assms(1) by (simp add: asm_inited_def fun_eq_iff)
  have "frame_of (fibers w' f) f = frame_of (fibers w f) f" for f
    by (rule frame_of_cong) (rule assms(5))
  then show "asm_ok w' = asm_ok w"
    using assms i by (simp add: asm_ok_def)
qed

lemma asm_ok_queue [simp]:
  "asm_ok (queue_fiber s f w) = asm_ok w" "asm_ok (dequeue_fiber w) = asm_ok w"
  "asm_inited (queue_fiber s f w) = asm_inited w" "asm_inited (dequeue_fiber w) = asm_inited w"
  by (rule asm_ok_cong; simp)+

lemma frame_of_inj: "frame_of x f = frame_of y g \<Longrightarrow> f = g"
  by (auto simp: frame_of_def split: option.splits)

text \<open>A fiber's own frame continues it as \<open>jump_fiber\<close> does.\<close>

lemma continue_frame_jump:
  assumes "g_fiber w = f"
  shows "continue_frame (frame_of (fibers w f) f) w = Some (jump_fiber f w)"
proof -
  have "w\<lparr>g_fiber := f\<rparr> = w" using assms by (cases w) simp
  then show ?thesis
    by (simp add: continue_frame_def frame_of_def jump_fiber_def async_fiber_asm_run_func_def
        split: option.split)
qed

lemma jump_fiber_view [simp]: "fiber_view (jump_fiber f w) = jump_fiber f (fiber_view w)"
  by (simp add: jump_fiber_def Let_def split: option.split)

lemma jump_fiber_self: "jump_fiber f (w\<lparr>g_fiber := f\<rparr>) = jump_fiber f w"
  by (simp add: jump_fiber_def)

lemma asm_jump_fiber_sel [simp]:
  "asms (jump_fiber f w) = asms w" "fcontexts (jump_fiber f w) = fcontexts w"
  "next_fcontext (jump_fiber f w) = next_fcontext w"
  by (simp_all add: jump_fiber_def async_fiber_restore_state_def start_fiber_def upd_fiber_def
      Let_def split: option.split fiber_entry.split)

lemma asm_capture_sel [simp]:
  "asms (async_fiber_capture_state f w) = asms w"
  "fcontexts (async_fiber_capture_state f w) = fcontexts w"
  "next_fcontext (async_fiber_capture_state f w) = next_fcontext w"
  by (simp_all add: async_fiber_capture_state_def upd_fiber_def)

text \<open>The jump: the fiber that is named goes on, with its globals.\<close>

lemma asm_jump_ok:
  assumes ok: "asm_ok w" and ini: "asm_inited w next" and ne: "next \<noteq> g_fiber w"
  shows "\<exists>w'. asm_jump (g_fiber w) next w = Some w' \<and>
     fiber_view w' = jump_fiber next (async_fiber_capture_state (g_fiber w) (fiber_view w)) \<and>
     asm_ok w' \<and> asm_inited w' = asm_inited w"
proof -
  let ?c = "g_fiber w" and ?n = "next_fcontext w"
  obtain a b where a: "asms w ?c = Some a" "a_initialized a"
    and b: "asms w next = Some b" "a_initialized b"
    using ok ini by (auto simp: asm_ok_def asm_inited_def)
  have fr: "fcontexts w (a_ctx b) = Some (frame_of (fibers w next) next)"
    and entry: "f_entry (fibers w ?c) = None" and lt: "\<And>c. fcontexts w c \<noteq> None \<Longrightarrow> c < ?n"
    using ok b ne by (auto simp: asm_ok_def)
  define w1 where "w1 = (async_fiber_capture_state ?c w)\<lparr>g_fiber := next,
     fcontexts := (fcontexts w)(a_ctx b := None, ?n \<mapsto> In_switch ?c), next_fcontext := Suc ?n\<rparr>"
  define w2 where "w2 = set_asm_ctx ?c ?n w1"
  let ?w' = "jump_fiber next w2"
  have [simp]: "fibers w2 = fibers (async_fiber_capture_state ?c w)" "g_fiber w2 = next"
    "next_fcontext w2 = Suc ?n" "fcontexts w2 = fcontexts w1"
    "fcontexts w1 = (fcontexts w)(a_ctx b := None, ?n \<mapsto> In_switch ?c)"
    by (simp_all add: w2_def w1_def set_asm_ctx_def)
  have asms: "asms w2 = (asms w)(?c \<mapsto> a\<lparr>a_ctx := ?n\<rparr>)"
    using a by (simp add: w2_def w1_def set_asm_ctx_def async_fiber_capture_state_def upd_fiber_def)
  have "frame_of (fibers w next) next = frame_of (fibers w2 next) next"
    by (rule frame_of_cong) simp
  then have "jump_fcontext (a_ctx b) (In_switch ?c) ((async_fiber_capture_state ?c w)\<lparr>g_fiber := next\<rparr>)
      = Some (frame_of (fibers w2 next) next, ?n, w1)"
    using fr by (simp add: jump_fcontext_def w1_def)
  then have step: "asm_jump ?c next w = Some ?w'"
    using a b continue_frame_jump [of w2, OF refl]
    by (simp add: asm_jump_def asm_resume_def w2_def [symmetric])
  have view: "fiber_view ?w' = jump_fiber next (async_fiber_capture_state ?c (fiber_view w))"
    by (simp add: w2_def w1_def set_asm_ctx_def fiber_store.truncate_def
        async_fiber_capture_state_def upd_fiber_def jump_fiber_def async_fiber_restore_state_def
        start_fiber_def Let_def split: option.split fiber_entry.split)
  have inited: "asm_inited ?w' = asm_inited w"
    using a by (auto simp: asm_inited_def asms fun_eq_iff)
  have "fcontexts ?w' (a_ctx d) = Some (frame_of (fibers ?w' f) f)"
    if d: "asms w2 f = Some d" "a_initialized d" "f \<noteq> next" for f d
  proof (cases "f = ?c")
    case True
    then have "a_ctx d = ?n" using d by (auto simp: asms)
    then show ?thesis using True entry ne by (simp add: frame_of_def)
  next
    case False
    then have df: "fcontexts w (a_ctx d) = Some (frame_of (fibers w f) f)"
      using d ok by (simp add: asms asm_ok_def)
    then have "a_ctx d \<noteq> a_ctx b" using fr d(3) frame_of_inj by fastforce
    moreover have "a_ctx d \<noteq> ?n" using lt [of "a_ctx d"] df by auto
    moreover have "frame_of (fibers ?w' f) f = frame_of (fibers w f) f"
      by (rule frame_of_cong) (simp add: d(3))
    ultimately show ?thesis using df by simp
  qed
  moreover have "c < Suc ?n" if "fcontexts ?w' c \<noteq> None" for c
    using that lt [of c] by (auto split: if_splits)
  ultimately have "asm_ok ?w'"
    using ini by (auto simp: asm_ok_def inited)
  then show ?thesis using step view inited by blast
qed

lemma asm_suspend_by_target:
  "asm_fiber_suspend w = (if g_fiber w = suspend_target w then Some (dequeue_fiber w)
     else asm_jump (g_fiber w) (suspend_target w) (dequeue_fiber w))"
  by (simp add: asm_fiber_suspend_def suspend_target_def dequeue_fiber_def Let_def
      split: list.split)

lemma suspend_target_view [simp]: "suspend_target (fiber_view w) = suspend_target w"
  by (simp add: suspend_target_def split: list.split)

interpretation asm_backend:
  fiber_backend asm_fiber_suspend asm_fiber_switch fiber_view asm_ok asm_inited
proof (unfold_locales, goal_cases)
  case (1 w)
  then show ?case using asm_jump_ok [of "dequeue_fiber w" "suspend_target w"]
    by (auto simp: asm_suspend_by_target suspend_by_target)
next
  case (2 w f s)
  then show ?case using asm_jump_ok [of "queue_fiber s (g_fiber w) w" f]
    by (auto simp: asm_fiber_switch_def async_fiber_switch_def)
qed


text \<open>
  Initialising a fiber: on the view it is \<open>async_fiber_init\<close> of the \<open>Fiber\<close> theory, the calling
  fiber goes on, and the new fiber can be switched to.
\<close>

lemma asm_fiber_init_ok:
  assumes ok: "asm_ok w" and f: "asms w f = Some a" "\<not> a_initialized a" and nf: "f \<noteq> g_fiber w"
  shows "\<exists>b w'. asm_fiber_init page mmap f ctx e sz w = Some (b, w') \<and>
     (b, fiber_view w') = async_fiber_init page mmap f ctx e sz (fiber_view w) \<and> asm_ok w' \<and>
     asm_inited w' = (if b then (asm_inited w)(f := True) else asm_inited w)"
proof (cases "mmap (async_fiber_stack_allocate page sz)")
  case False
  then show ?thesis using f ok
    by (auto simp: asm_fiber_init_def async_fiber_init_def Let_def)
next
  case True
  let ?n = "next_fcontext w" and ?S = "async_fiber_stack_allocate page sz"
  let ?rec = "\<lparr>r_fiber = f, r_func = e\<rparr>"
  define w' where "w' = upd_fiber f (\<lambda>x. x\<lparr>f_stack_size := ?S, f_context := ctx, f_entry := Some e\<rparr>)
     (w\<lparr>mapped_stacks := insert f (mapped_stacks w),
        asms := (asms w)(f \<mapsto> a\<lparr>a_ctx := Suc (Suc ?n), a_initialized := True\<rparr>),
        fcontexts := (fcontexts w)(?n := None, Suc ?n := None, Suc (Suc ?n) \<mapsto> In_run ?rec),
        next_fcontext := Suc (Suc (Suc ?n))\<rparr>)"
  have "asm_fiber_init page mmap f ctx e sz w = Some (True, w')"
    using True f
    by (simp add: asm_fiber_init_def make_fcontext_def jump_fcontext_def set_asm_ctx_def
        async_fiber_asm_run_start_def upd_fiber_def w'_def fun_upd_twist Let_def)
  moreover have "(True, fiber_view w') = async_fiber_init page mmap f ctx e sz (fiber_view w)"
    using True
    by (simp add: async_fiber_init_def w'_def fiber_store.truncate_def upd_fiber_def Let_def,
        cases "fibers w f", simp)
  moreover have inited: "asm_inited w' = (asm_inited w)(f := True)"
    by (auto simp: asm_inited_def w'_def upd_fiber_def fun_eq_iff)
  moreover have "fcontexts w' (a_ctx d) = Some (frame_of (fibers w' g) g)"
    if d: "asms w' g = Some d" "a_initialized d" "g \<noteq> g_fiber w" for g d
  proof (cases "g = f")
    case True
    then show ?thesis using d by (auto simp: w'_def upd_fiber_def frame_of_def)
  next
    case False
    then have df: "fcontexts w (a_ctx d) = Some (frame_of (fibers w g) g)"
      using d ok by (simp add: w'_def upd_fiber_def asm_ok_def)
    then have "a_ctx d < ?n" using ok by (auto simp: asm_ok_def)
    then show ?thesis using df False by (simp add: w'_def upd_fiber_def)
  qed
  moreover have "c < next_fcontext w'" if "fcontexts w' c \<noteq> None" for c
    using that ok by (auto simp: w'_def upd_fiber_def asm_ok_def less_Suc_eq split: if_splits)
  ultimately show ?thesis using ok nf
    by (auto simp: asm_ok_def inited w'_def upd_fiber_def)
qed


section \<open>The Windows fiber API: fiber/winfib.c\<close>

text \<open>
  A native fiber keeps its handle for its life; \<open>SwitchToFiber\<close> saves the running computation
  in the native fiber that runs and continues the given one. \<open>cur_native\<close> is the native fiber
  the thread runs, \<open>None\<close> while it is not a fiber.
\<close>

abbreviation ASYNC_FIBER_WINFIB_FLAG_ROOT :: u8 where "ASYNC_FIBER_WINFIB_FLAG_ROOT \<equiv> 1"
abbreviation ASYNC_FIBER_WINFIB_FLAG_INITIALIZED :: u8 where "ASYNC_FIBER_WINFIB_FLAG_INITIALIZED \<equiv> 2"
abbreviation ASYNC_FIBER_WINFIB_FLAG_WAS_FIBER :: u8 where "ASYNC_FIBER_WINFIB_FLAG_WAS_FIBER \<equiv> 4"

record async_fiber_win32 =
  wf_fiber :: "nat option"
  wf_id :: "32 word"
  wf_flags :: u8

record win_store = fiber_store +
  wins :: "nat \<Rightarrow> async_fiber_win32 option"
  natives :: "nat \<Rightarrow> frame option"
  next_native :: nat
  cur_native :: "nat option"
  win_counter :: "32 word"

definition SwitchToFiber :: "nat \<Rightarrow> frame \<Rightarrow> 'a win_store_scheme \<Rightarrow> (frame \<times> 'a win_store_scheme) option" where
  "SwitchToFiber h self w = (case (cur_native w, natives w h) of
     (Some c, Some fr) \<Rightarrow>
       Some (fr, w\<lparr>natives := (natives w)(h := None, c \<mapsto> self), cur_native := Some h\<rparr>)
   | _ \<Rightarrow> None)"

text \<open>\<open>converted\<close>: whether \<open>ConvertThreadToFiberEx\<close> succeeds.\<close>

definition win_fiber_create_root ::
  "bool \<Rightarrow> 'a win_store_scheme \<Rightarrow> nat option \<times> 'a win_store_scheme" where
  "win_fiber_create_root converted w =
     (let (f, w1) = async_fiber_create w;
          flags = ASYNC_FIBER_WINFIB_FLAG_ROOT OR ASYNC_FIBER_WINFIB_FLAG_INITIALIZED;
          put = (\<lambda>h fl v. v\<lparr>wins := (wins v)(f \<mapsto> \<lparr>wf_fiber = h, wf_id = 0, wf_flags = fl\<rparr>)\<rparr>)
      in case cur_native w1 of
           Some h \<Rightarrow> (Some f, put (Some h) (flags OR ASYNC_FIBER_WINFIB_FLAG_WAS_FIBER) w1)
         | None \<Rightarrow>
             if converted
             then (Some f, put (Some (next_native w1)) flags
                     (w1\<lparr>cur_native := Some (next_native w1), next_native := Suc (next_native w1)\<rparr>))
             else (None, put None flags w1))"

definition win_fiber_create :: "'a win_store_scheme \<Rightarrow> nat \<times> 'a win_store_scheme" where
  "win_fiber_create w =
     (let (f, w1) = async_fiber_create w
      in (f, w1\<lparr>wins := (wins w1)(f \<mapsto> \<lparr>wf_fiber = None, wf_id = win_counter w + 1, wf_flags = 0\<rparr>),
                win_counter := win_counter w + 1\<rparr>))"

text \<open>\<open>create\<close>: whether \<open>CreateFiberEx\<close> gives a fiber with a stack of that size.\<close>

definition win_fiber_init ::
  "(64 word \<Rightarrow> bool) \<Rightarrow> nat \<Rightarrow> nat \<Rightarrow> fiber_entry \<Rightarrow> 64 word \<Rightarrow>
   'a win_store_scheme \<Rightarrow> (bool \<times> 'a win_store_scheme) option" where
  "win_fiber_init create f ctx entry stack_size w = (case wins w f of
     None \<Rightarrow> None
   | Some impl \<Rightarrow>
       if has_flag (wf_flags impl) ASYNC_FIBER_WINFIB_FLAG_INITIALIZED then None
       else if \<not> create stack_size
       then Some (False, w\<lparr>wins := (wins w)(f \<mapsto> impl\<lparr>wf_fiber := None\<rparr>)\<rparr>)
       else Some (True, upd_fiber f (\<lambda>x. x\<lparr>f_context := ctx, f_entry := Some entry\<rparr>)
         (w\<lparr>natives := (natives w)(next_native w \<mapsto> In_run \<lparr>r_fiber = f, r_func = entry\<rparr>),
            wins := (wins w)(f \<mapsto> impl\<lparr>wf_fiber := Some (next_native w),
              wf_flags := wf_flags impl OR ASYNC_FIBER_WINFIB_FLAG_INITIALIZED\<rparr>),
            next_native := Suc (next_native w)\<rparr>)))"

definition win_fiber_destroy :: "nat \<Rightarrow> 'a win_store_scheme \<Rightarrow> 'a win_store_scheme option" where
  "win_fiber_destroy f w = (case wins w f of
     None \<Rightarrow> Some w
   | Some impl \<Rightarrow>
       (let freed = (\<lambda>v. v\<lparr>wins := (wins v)(f := None)\<rparr>)
        in if has_flag (wf_flags impl) ASYNC_FIBER_WINFIB_FLAG_ROOT
           then (if has_flag (wf_flags impl) ASYNC_FIBER_WINFIB_FLAG_WAS_FIBER then Some (freed w)
                 else Some (freed (w\<lparr>cur_native := None\<rparr>)))
           else if has_flag (wf_flags impl) ASYNC_FIBER_WINFIB_FLAG_INITIALIZED
           then (if wf_fiber impl = cur_native w then None
                 else Some (freed (case wf_fiber impl of
                        None \<Rightarrow> w | Some h \<Rightarrow> w\<lparr>natives := (natives w)(h := None)\<rparr>)))
           else Some (freed w)))"

definition win_inited :: "'a win_store_scheme \<Rightarrow> nat \<Rightarrow> bool" where
  "win_inited w f \<longleftrightarrow>
     (\<exists>a. wins w f = Some a \<and> has_flag (wf_flags a) ASYNC_FIBER_WINFIB_FLAG_INITIALIZED)"

definition win_jump :: "nat \<Rightarrow> nat \<Rightarrow> 'a win_store_scheme \<Rightarrow> 'a win_store_scheme option" where
  "win_jump current next w =
     (case (wins w current, wins w next) of
        (Some from, Some to) \<Rightarrow>
          if has_flag (wf_flags from) ASYNC_FIBER_WINFIB_FLAG_INITIALIZED \<and>
             has_flag (wf_flags to) ASYNC_FIBER_WINFIB_FLAG_INITIALIZED
          then (let w1 = (async_fiber_capture_state current w)\<lparr>g_fiber := next\<rparr>
                in case wf_fiber to of
                     None \<Rightarrow> None
                   | Some h \<Rightarrow> (case SwitchToFiber h (In_switch current) w1 of
                       None \<Rightarrow> None
                     | Some (fr, w2) \<Rightarrow> continue_frame fr w2))
          else None
      | _ \<Rightarrow> None)"

definition win_fiber_suspend :: "'a win_store_scheme \<Rightarrow> 'a win_store_scheme option" where
  "win_fiber_suspend w =
     (let current = g_fiber w;
          (next, w1) = (case fiber_queue w of
             [] \<Rightarrow> (runner w, w)
           | f # rest \<Rightarrow> (f, upd_fiber f (\<lambda>x. x\<lparr>f_flags := clear_flag (f_flags x) ASYNC_FIBER_FLAG_QUEUED\<rparr>)
                              (w\<lparr>fiber_queue := rest\<rparr>)))
      in if current = next then Some w1 else win_jump current next w1)"

definition win_fiber_switch ::
  "nat \<Rightarrow> async_fiber_suspend_type \<Rightarrow> 'a win_store_scheme \<Rightarrow> 'a win_store_scheme option" where
  "win_fiber_switch next suspend w =
     (if g_fiber w = next then None
      else win_jump (g_fiber w) next (queue_fiber suspend (g_fiber w) w))"

text \<open>
  The running fiber's handle is that of the native fiber that runs; every other initialised
  fiber's handle names a native fiber suspended at the fiber's own frame.
\<close>

definition win_ok :: "'a win_store_scheme \<Rightarrow> bool" where
  "win_ok w \<longleftrightarrow> f_entry (fibers w (g_fiber w)) = None \<and>
     (\<exists>h a. wins w (g_fiber w) = Some a \<and> has_flag (wf_flags a) ASYNC_FIBER_WINFIB_FLAG_INITIALIZED \<and>
        wf_fiber a = Some h \<and> cur_native w = Some h \<and> natives w h = None) \<and>
     (\<forall>h. natives w h \<noteq> None \<or> cur_native w = Some h \<longrightarrow> h < next_native w) \<and>
     (\<forall>f a. wins w f = Some a \<and> has_flag (wf_flags a) ASYNC_FIBER_WINFIB_FLAG_INITIALIZED \<and>
        f \<noteq> g_fiber w \<longrightarrow>
        (\<exists>h. wf_fiber a = Some h \<and> natives w h = Some (frame_of (fibers w f) f)))"

lemma win_sel [simp]:
  "wins (queue_fiber s f w) = wins w" "natives (queue_fiber s f w) = natives w"
  "cur_native (queue_fiber s f w) = cur_native w" "next_native (queue_fiber s f w) = next_native w"
  "wins (dequeue_fiber w) = wins w" "natives (dequeue_fiber w) = natives w"
  "cur_native (dequeue_fiber w) = cur_native w" "next_native (dequeue_fiber w) = next_native w"
  "wins (async_fiber_capture_state f w) = wins w"
  "natives (async_fiber_capture_state f w) = natives w"
  "cur_native (async_fiber_capture_state f w) = cur_native w"
  "next_native (async_fiber_capture_state f w) = next_native w"
  by (simp_all add: queue_fiber_def dequeue_fiber_def upd_fiber_def async_fiber_capture_state_def
      Let_def split: async_fiber_suspend_type.split list.split)

lemma win_jump_fiber_sel [simp]:
  "wins (jump_fiber f w) = wins w" "natives (jump_fiber f w) = natives w"
  "cur_native (jump_fiber f w) = cur_native w" "next_native (jump_fiber f w) = next_native w"
  by (simp_all add: jump_fiber_def async_fiber_restore_state_def start_fiber_def upd_fiber_def
      Let_def split: option.split fiber_entry.split)

lemma win_ok_cong:
  assumes "wins w' = wins w" "natives w' = natives w" "cur_native w' = cur_native w"
    and "next_native w' = next_native w" and "g_fiber w' = g_fiber w" and "\<And>f. f_entry (fibers w' f) = f_entry (fibers w f)"
  shows "win_ok w' = win_ok w" and "win_inited w' = win_inited w"
proof -
  show i: "win_inited w' = win_inited w"
    using assms(1) by (simp add: win_inited_def fun_eq_iff)
  have "frame_of (fibers w' f) f = frame_of (fibers w f) f" for f
    by (rule frame_of_cong) (rule assms(6))
  then show "win_ok w' = win_ok w"
    using assms i by (simp add: win_ok_def)
qed

lemma win_ok_queue [simp]:
  "win_ok (queue_fiber s f w) = win_ok w" "win_ok (dequeue_fiber w) = win_ok w"
  "win_inited (queue_fiber s f w) = win_inited w" "win_inited (dequeue_fiber w) = win_inited w"
  by (rule win_ok_cong; simp)+

lemma win_ok_other:
  assumes "win_ok w" "wins w f = Some a" "has_flag (wf_flags a) ASYNC_FIBER_WINFIB_FLAG_INITIALIZED"
    "f \<noteq> g_fiber w"
  obtains h where "wf_fiber a = Some h" "natives w h = Some (frame_of (fibers w f) f)"
  using assms unfolding win_ok_def by blast

lemma win_jump_ok:
  assumes ok: "win_ok w" and ini: "win_inited w next" and ne: "next \<noteq> g_fiber w"
  shows "\<exists>w'. win_jump (g_fiber w) next w = Some w' \<and>
     fiber_view w' = jump_fiber next (async_fiber_capture_state (g_fiber w) (fiber_view w)) \<and>
     win_ok w' \<and> win_inited w' = win_inited w"
proof -
  let ?c = "g_fiber w"
  obtain a h where a: "wins w ?c = Some a" "has_flag (wf_flags a) ASYNC_FIBER_WINFIB_FLAG_INITIALIZED"
    "wf_fiber a = Some h" "cur_native w = Some h" "natives w h = None"
    using ok by (auto simp: win_ok_def)
  obtain b where b0: "wins w next = Some b"
    "has_flag (wf_flags b) ASYNC_FIBER_WINFIB_FLAG_INITIALIZED"
    using ini by (auto simp: win_inited_def)
  then obtain k where b: "wins w next = Some b"
    "has_flag (wf_flags b) ASYNC_FIBER_WINFIB_FLAG_INITIALIZED" "wf_fiber b = Some k"
    and fr: "natives w k = Some (frame_of (fibers w next) next)"
    using win_ok_other [OF ok b0 ne] by metis
  have entry: "f_entry (fibers w ?c) = None" using ok by (simp add: win_ok_def)
  define w2 where "w2 = (async_fiber_capture_state ?c w)\<lparr>g_fiber := next,
     natives := (natives w)(k := None, h \<mapsto> In_switch ?c), cur_native := Some k\<rparr>"
  let ?w' = "jump_fiber next w2"
  have [simp]: "fibers w2 = fibers (async_fiber_capture_state ?c w)" "g_fiber w2 = next"
    "wins w2 = wins w" "natives w2 = (natives w)(k := None, h \<mapsto> In_switch ?c)"
    "cur_native w2 = Some k" "next_native w2 = next_native w"
    by (simp_all add: w2_def)
  have kh: "k \<noteq> h" using a fr by auto
  have "frame_of (fibers w next) next = frame_of (fibers w2 next) next"
    by (rule frame_of_cong) simp
  then have "SwitchToFiber k (In_switch ?c) ((async_fiber_capture_state ?c w)\<lparr>g_fiber := next\<rparr>)
      = Some (frame_of (fibers w2 next) next, w2)"
    using a fr by (simp add: SwitchToFiber_def w2_def)
  then have step: "win_jump ?c next w = Some ?w'"
    using a b continue_frame_jump [of w2, OF refl] by (simp add: win_jump_def)
  have view: "fiber_view ?w' = jump_fiber next (async_fiber_capture_state ?c (fiber_view w))"
    by (simp add: w2_def fiber_store.truncate_def
        async_fiber_capture_state_def upd_fiber_def jump_fiber_def async_fiber_restore_state_def
        start_fiber_def Let_def split: option.split fiber_entry.split)
  have "\<exists>g. wf_fiber d = Some g \<and> natives ?w' g = Some (frame_of (fibers ?w' f) f)"
    if d: "wins w f = Some d" "has_flag (wf_flags d) ASYNC_FIBER_WINFIB_FLAG_INITIALIZED"
      "f \<noteq> next" for f d
  proof (cases "f = ?c")
    case True
    then show ?thesis using d a kh entry ne by (auto simp: frame_of_def)
  next
    case False
    then obtain g where g: "wf_fiber d = Some g" "natives w g = Some (frame_of (fibers w f) f)"
      using win_ok_other [OF ok d(1,2)] by metis
    then have "g \<noteq> k" "g \<noteq> h" using fr a d(3) frame_of_inj by fastforce+
    moreover have "frame_of (fibers ?w' f) f = frame_of (fibers w f) f"
      by (rule frame_of_cong) (simp add: d(3))
    ultimately show ?thesis using g by simp
  qed
  moreover have "\<forall>h. natives w2 h \<noteq> None \<or> cur_native w2 = Some h \<longrightarrow> h < next_native w"
    using ok a fr by (auto simp: win_ok_def)
  ultimately have "win_ok ?w'" using b kh by (auto simp: win_ok_def)
  moreover have "win_inited ?w' = win_inited w" by (simp add: win_inited_def fun_eq_iff)
  ultimately show ?thesis using step view by blast
qed

lemma win_suspend_by_target:
  "win_fiber_suspend w = (if g_fiber w = suspend_target w then Some (dequeue_fiber w)
     else win_jump (g_fiber w) (suspend_target w) (dequeue_fiber w))"
  by (simp add: win_fiber_suspend_def suspend_target_def dequeue_fiber_def Let_def
      split: list.split)

interpretation win_backend:
  fiber_backend win_fiber_suspend win_fiber_switch fiber_view win_ok win_inited
proof (unfold_locales, goal_cases)
  case (1 w)
  then show ?case using win_jump_ok [of "dequeue_fiber w" "suspend_target w"]
    by (auto simp: win_suspend_by_target suspend_by_target)
next
  case (2 w f s)
  then show ?case using win_jump_ok [of "queue_fiber s (g_fiber w) w" f]
    by (auto simp: win_fiber_switch_def async_fiber_switch_def)
qed


text \<open>\<open>CreateFiberEx\<close> takes the size as it is, so the view of the stack size does not change.\<close>

lemma win_fiber_init_ok:
  assumes ok: "win_ok w" and f: "wins w f = Some a"
    "\<not> has_flag (wf_flags a) ASYNC_FIBER_WINFIB_FLAG_INITIALIZED" and create: "create sz"
  shows "\<exists>w'. win_fiber_init create f ctx e sz w = Some (True, w') \<and>
     fiber_view w' = upd_fiber f (\<lambda>x. x\<lparr>f_context := ctx, f_entry := Some e\<rparr>) (fiber_view w) \<and>
     win_ok w' \<and> win_inited w' = (win_inited w)(f := True)"
proof -
  let ?n = "next_native w"
  have ne: "f \<noteq> g_fiber w" using ok f by (auto simp: win_ok_def)
  have flag: "has_flag (wf_flags a OR ASYNC_FIBER_WINFIB_FLAG_INITIALIZED) ASYNC_FIBER_WINFIB_FLAG_INITIALIZED"
    using has_flag_set [of ASYNC_FIBER_WINFIB_FLAG_INITIALIZED "wf_flags a"] by (simp add: set_flag_def)
  define w' where "w' = upd_fiber f (\<lambda>x. x\<lparr>f_context := ctx, f_entry := Some e\<rparr>)
         (w\<lparr>natives := (natives w)(?n \<mapsto> In_run \<lparr>r_fiber = f, r_func = e\<rparr>),
            wins := (wins w)(f \<mapsto> a\<lparr>wf_fiber := Some ?n,
              wf_flags := wf_flags a OR ASYNC_FIBER_WINFIB_FLAG_INITIALIZED\<rparr>),
            next_native := Suc ?n\<rparr>)"
  have sel: "natives w' = (natives w)(?n \<mapsto> In_run \<lparr>r_fiber = f, r_func = e\<rparr>)"
    "wins w' = (wins w)(f \<mapsto> a\<lparr>wf_fiber := Some ?n,
              wf_flags := wf_flags a OR ASYNC_FIBER_WINFIB_FLAG_INITIALIZED\<rparr>)"
    "next_native w' = Suc ?n" "cur_native w' = cur_native w" "g_fiber w' = g_fiber w"
    "f_entry (fibers w' f) = Some e" "\<And>g. g \<noteq> f \<Longrightarrow> fibers w' g = fibers w g"
    by (simp_all add: w'_def upd_fiber_def)
  have lt: "\<And>h. natives w h \<noteq> None \<or> cur_native w = Some h \<Longrightarrow> h < ?n"
    using ok by (auto simp: win_ok_def)
  have "\<exists>h. wf_fiber d = Some h \<and> natives w' h = Some (frame_of (fibers w' g) g)"
    if d: "wins w' g = Some d" "has_flag (wf_flags d) ASYNC_FIBER_WINFIB_FLAG_INITIALIZED"
      "g \<noteq> g_fiber w" for g d
  proof (cases "g = f")
    case True
    then show ?thesis using d by (auto simp: sel frame_of_def)
  next
    case False
    then have "wins w g = Some d" using d by (simp add: sel)
    then obtain h where h: "wf_fiber d = Some h" "natives w h = Some (frame_of (fibers w g) g)"
      using win_ok_other [OF ok _ d(2,3)] by metis
    then show ?thesis using lt [of h] False by (auto simp: sel)
  qed
  moreover obtain h b where h: "wins w (g_fiber w) = Some b"
    "has_flag (wf_flags b) ASYNC_FIBER_WINFIB_FLAG_INITIALIZED" "wf_fiber b = Some h"
    "cur_native w = Some h" "natives w h = None" "f_entry (fibers w (g_fiber w)) = None"
    using ok by (auto simp: win_ok_def)
  moreover have "k < Suc ?n" if "natives w' k \<noteq> None \<or> cur_native w' = Some k" for k
    using that lt [of k] by (auto simp: sel split: if_splits)
  ultimately have "win_ok w'"
    using ne lt [of h] by (auto simp: win_ok_def sel)
  moreover have "win_inited w' = (win_inited w)(f := True)"
    using flag by (auto simp: win_inited_def sel fun_eq_iff)
  moreover have "win_fiber_init create f ctx e sz w = Some (True, w')"
    using f create by (simp add: win_fiber_init_def w'_def)
  moreover have "fiber_view w' = upd_fiber f (\<lambda>x. x\<lparr>f_context := ctx, f_entry := Some e\<rparr>) (fiber_view w)"
    by (simp add: w'_def fiber_store.truncate_def upd_fiber_def)
  ultimately show ?thesis by blast
qed

section \<open>ucontext: fiber/ucontext.c\<close>

text \<open>
  The structure of this backend starts with the \<open>ucontext_t\<close> and has no \<open>async_fiber\<close> in front
  of it, while every other file accesses it as an \<open>async_fiber\<close>: flags, scheduler, context, task
  and entry share their bytes with the saved context. A layout of the platform says what is
  read of those fields from the bytes of a context (\<open>l_base\<close>), and what the bytes are after a
  field was written (\<open>l_write\<close>) or a computation was saved there (\<open>l_save\<close>, by \<open>swapcontext\<close>
  or \<open>makecontext\<close>); \<open>l_frame\<close> is the computation that \<open>swapcontext\<close> continues from the bytes.
\<close>

record 'c uc_layout =
  l_base :: "'c \<Rightarrow> async_fiber"
  l_write :: "async_fiber \<Rightarrow> 'c \<Rightarrow> 'c"
  l_save :: "frame \<Rightarrow> 'c \<Rightarrow> 'c"
  l_frame :: "'c \<Rightarrow> frame option"

record async_fiber_ucontext =
  uf_id :: "32 word"
  uf_initialized :: bool
  uf_root :: bool

record 'c uc_store = fiber_store +
  ucs :: "nat \<Rightarrow> async_fiber_ucontext option"
  uctx :: "nat \<Rightarrow> 'c"
  uc_counter :: "32 word"
  uc_stacks :: "nat set"

text \<open>
  The two views of the same bytes are kept together: \<open>base_written\<close> after a write through the
  \<open>async_fiber\<close>, \<open>ctx_written\<close> after a write of the context.
\<close>

definition base_written :: "'c uc_layout \<Rightarrow> nat \<Rightarrow> ('c, 'a) uc_store_scheme \<Rightarrow> ('c, 'a) uc_store_scheme" where
  "base_written L f w = w\<lparr>uctx := (uctx w)(f := l_write L (fibers w f) (uctx w f))\<rparr>"

definition ctx_written ::
  "'c uc_layout \<Rightarrow> nat \<Rightarrow> 'c \<Rightarrow> ('c, 'a) uc_store_scheme \<Rightarrow> ('c, 'a) uc_store_scheme" where
  "ctx_written L f c w = w\<lparr>uctx := (uctx w)(f := c),
     fibers := (fibers w)(f := (l_base L c)\<lparr>f_entry := f_entry (fibers w f),
                                 f_stack_size := f_stack_size (fibers w f)\<rparr>)\<rparr>"

definition uc_fiber_create_root ::
  "'c uc_layout \<Rightarrow> ('c, 'a) uc_store_scheme \<Rightarrow> nat \<times> ('c, 'a) uc_store_scheme" where
  "uc_fiber_create_root L w =
     (let (f, w1) = async_fiber_create w
      in (f, base_written L f (w1\<lparr>ucs := (ucs w1)(f \<mapsto> \<lparr>uf_id = 0, uf_initialized = True, uf_root = True\<rparr>)\<rparr>)))"

definition uc_fiber_create ::
  "'c uc_layout \<Rightarrow> ('c, 'a) uc_store_scheme \<Rightarrow> nat \<times> ('c, 'a) uc_store_scheme" where
  "uc_fiber_create L w =
     (let (f, w1) = async_fiber_create w
      in (f, base_written L f (w1\<lparr>ucs := (ucs w1)(f \<mapsto>
               \<lparr>uf_id = uc_counter w + 1, uf_initialized = False, uf_root = False\<rparr>),
             uc_counter := uc_counter w + 1\<rparr>)))"

text \<open>\<open>getctx\<close>: whether \<open>getcontext\<close> succeeds.\<close>

definition uc_fiber_init ::
  "'c uc_layout \<Rightarrow> 64 word \<Rightarrow> (64 word \<Rightarrow> bool) \<Rightarrow> bool \<Rightarrow> nat \<Rightarrow> nat \<Rightarrow> fiber_entry \<Rightarrow> 64 word \<Rightarrow>
   ('c, 'a) uc_store_scheme \<Rightarrow> (bool \<times> ('c, 'a) uc_store_scheme) option" where
  "uc_fiber_init L page mmap getctx f ctx entry stack_size w = (case ucs w f of
     None \<Rightarrow> None
   | Some impl \<Rightarrow>
       if uf_initialized impl then None
       else if \<not> mmap (async_fiber_stack_allocate page stack_size) then Some (False, w)
       else
         let w1 = w\<lparr>uc_stacks := insert f (uc_stacks w)\<rparr>
         in if \<not> getctx then Some (False, w1)
            else
              let w2 = ctx_written L f (l_save L (In_run \<lparr>r_fiber = f, r_func = entry\<rparr>) (uctx w1 f)) w1;
                  w3 = upd_fiber f (\<lambda>x. x\<lparr>f_entry := Some entry,
                           f_stack_size := async_fiber_stack_allocate page stack_size\<rparr>)
                         (w2\<lparr>ucs := (ucs w2)(f \<mapsto> impl\<lparr>uf_initialized := True\<rparr>)\<rparr>)
              in Some (True, base_written L f (upd_fiber f (\<lambda>x. x\<lparr>f_context := ctx\<rparr>) w3)))"

definition uc_fiber_destroy :: "nat \<Rightarrow> ('c, 'a) uc_store_scheme \<Rightarrow> ('c, 'a) uc_store_scheme" where
  "uc_fiber_destroy f w = (case ucs w f of
     None \<Rightarrow> w
   | Some impl \<Rightarrow>
       (let w1 = (if \<not> uf_root impl \<and> uf_initialized impl
                  then w\<lparr>uc_stacks := uc_stacks w - {f}\<rparr> else w)
        in w1\<lparr>ucs := (ucs w1)(f := None)\<rparr>))"

text \<open>\<open>ok\<close>: whether \<open>swapcontext\<close> succeeds.\<close>

definition swapcontext ::
  "'c uc_layout \<Rightarrow> bool \<Rightarrow> nat \<Rightarrow> nat \<Rightarrow> ('c, 'a) uc_store_scheme \<Rightarrow>
   (frame \<times> ('c, 'a) uc_store_scheme) option" where
  "swapcontext L ok from to w =
     (if \<not> ok then None
      else map_option (\<lambda>fr. (fr, ctx_written L from (l_save L (In_switch from) (uctx w from)) w))
             (l_frame L (uctx w to)))"

definition uc_jump ::
  "'c uc_layout \<Rightarrow> bool \<Rightarrow> nat \<Rightarrow> nat \<Rightarrow> ('c, 'a) uc_store_scheme \<Rightarrow> ('c, 'a) uc_store_scheme option" where
  "uc_jump L ok current next w =
     (case (ucs w current, ucs w next) of
        (Some from, Some to) \<Rightarrow>
          if uf_initialized from \<and> uf_initialized to
          then (let w1 = (base_written L current (async_fiber_capture_state current w))\<lparr>g_fiber := next\<rparr>
                in case swapcontext L ok current next w1 of
                     None \<Rightarrow> None
                   | Some (fr, w2) \<Rightarrow> continue_frame fr w2)
          else None
      | _ \<Rightarrow> None)"

definition uc_fiber_suspend ::
  "'c uc_layout \<Rightarrow> bool \<Rightarrow> ('c, 'a) uc_store_scheme \<Rightarrow> ('c, 'a) uc_store_scheme option" where
  "uc_fiber_suspend L ok w =
     (let current = g_fiber w;
          (next, w1) = (case fiber_queue w of
             [] \<Rightarrow> (runner w, w)
           | f # rest \<Rightarrow> (f, base_written L f
                (upd_fiber f (\<lambda>x. x\<lparr>f_flags := clear_flag (f_flags x) ASYNC_FIBER_FLAG_QUEUED\<rparr>)
                              (w\<lparr>fiber_queue := rest\<rparr>))))
      in if current = next then Some w1 else uc_jump L ok current next w1)"

definition uc_fiber_switch ::
  "'c uc_layout \<Rightarrow> bool \<Rightarrow> nat \<Rightarrow> async_fiber_suspend_type \<Rightarrow> ('c, 'a) uc_store_scheme \<Rightarrow>
   ('c, 'a) uc_store_scheme option" where
  "uc_fiber_switch L ok next suspend w =
     (if g_fiber w = next then None
      else uc_jump L ok (g_fiber w) next
        (let w1 = queue_fiber suspend (g_fiber w) w
         in if fibers w1 = fibers w then w1 else base_written L (g_fiber w) w1))"


text \<open>
  What a suspended fiber gets back: the fields the saved registers leave in its structure, not
  the ones stored there before the switch.
\<close>

lemma uc_jump_leaves_registers:
  assumes "uc_jump L True current next w = Some w'" and "current \<noteq> next"
  shows "f_task (fibers w' current) = f_task (l_base L (uctx w' current)) \<and>
     (\<exists>c. uctx w' current = l_save L (In_switch current) c)"
  using assms
  by (auto simp: uc_jump_def swapcontext_def ctx_written_def base_written_def Let_def
      continue_frame_def async_fiber_restore_state_def async_fiber_asm_run_func_def start_fiber_def
      upd_fiber_def async_fiber_capture_state_def
      split: option.splits if_splits frame.splits fiber_entry.splits)

text \<open>
  A layout in which the registers lie where the task is, as \<open>r8\<close> does with glibc on x86-64: a
  task that switches away and is switched back to has lost its task, which fcontext keeps.
\<close>

definition overlaid :: "(async_fiber \<times> frame option) uc_layout" where
  "overlaid = \<lparr>l_base = fst, l_write = (\<lambda>x c. (x, snd c)),
     l_save = (\<lambda>fr c. ((fst c)\<lparr>f_task := None\<rparr>, Some fr)), l_frame = snd\<rparr>"

definition fiber_of_task :: "nat option \<Rightarrow> async_fiber" where
  "fiber_of_task t = \<lparr>f_flags = 0, f_scheduler = 0, f_context = 0, f_task = t, f_entry = None,
     f_stack_size = 0\<rparr>"

definition two_fibers :: "fiber_store \<Rightarrow> (async_fiber \<times> frame option) uc_store" where
  "two_fibers w = fiber_store.extend
     (w\<lparr>fibers := (\<lambda>f. fiber_of_task None), fiber_queue := [], g_fiber := 0, g_task := Some 7\<rparr>)
     (uc_store.fields (\<lambda>f. if f < 2 then Some \<lparr>uf_id = 0, uf_initialized = True, uf_root = False\<rparr> else None)
        (\<lambda>f. (fiber_of_task None, Some (In_switch f))) 0 {})"

lemma uc_loses_task:
  "map_option g_task (Option.bind (uc_fiber_switch overlaid True 1 SUSPEND_NONE (two_fibers w))
     (uc_fiber_switch overlaid True 0 SUSPEND_NONE)) = Some None \<and> g_task (two_fibers w) = Some 7"
  by (simp add: two_fibers_def fiber_store.defs uc_store.defs uc_fiber_switch_def uc_jump_def
      swapcontext_def ctx_written_def base_written_def queue_fiber_def Let_def continue_frame_def
      async_fiber_restore_state_def async_fiber_capture_state_def upd_fiber_def overlaid_def
      fiber_of_task_def)


section \<open>The backends agree\<close>

text \<open>
  C26. fcontext and the Windows fibers are the same scheduler: from states with the same view
  and the same initialised fibers, every sequence of suspensions and switches to initialised
  fibers succeeds on both, and leaves both with the view that the scheduler's own operations
  compute - the same fiber running, with its scheduler, context and task, and the same queue.
\<close>

theorem backends_agree:
  assumes "asm_ok a" and "win_ok b" and "fiber_view a = fiber_view b"
    and "asm_inited a = win_inited b" and "calls_allowed (asm_inited a) cs (fiber_view a)"
  shows "\<exists>a' b'. run_calls asm_fiber_suspend asm_fiber_switch cs a = Some a' \<and>
     run_calls win_fiber_suspend win_fiber_switch cs b = Some b' \<and>
     fiber_view a' = fold do_fiber_call cs (fiber_view a) \<and> fiber_view b' = fiber_view a' \<and>
     asm_ok a' \<and> win_ok b'"
  using asm_backend.calls_refine [of a cs] win_backend.calls_refine [of b cs] assms by metis

text \<open>The root fiber 0 runs, fiber 1 was initialised with the function of the scheduler.\<close>

definition asm_two :: "fiber_store \<Rightarrow> asm_store" where
  "asm_two w = fiber_store.extend w (asm_store.fields
     [0 \<mapsto> \<lparr>a_ctx = 0, a_id = 0, a_initialized = True, a_root = True\<rparr>,
      1 \<mapsto> \<lparr>a_ctx = 5, a_id = 1, a_initialized = True, a_root = False\<rparr>]
     [5 \<mapsto> In_run \<lparr>r_fiber = 1, r_func = Run_scheduler_fiber 0\<rparr>] 6 1 {1})"

definition win_two :: "fiber_store \<Rightarrow> win_store" where
  "win_two w = fiber_store.extend w (win_store.fields
     [0 \<mapsto> \<lparr>wf_fiber = Some 0, wf_id = 0, wf_flags = 3\<rparr>,
      1 \<mapsto> \<lparr>wf_fiber = Some 1, wf_id = 1, wf_flags = 2\<rparr>]
     [1 \<mapsto> In_run \<lparr>r_fiber = 1, r_func = Run_scheduler_fiber 0\<rparr>] 2 (Some 0) 1)"

definition two_view :: "fiber_store \<Rightarrow> fiber_store" where
  "two_view w = w\<lparr>fibers := (\<lambda>f. (fiber_of_task None)\<lparr>f_entry :=
       (if f = 1 then Some (Run_scheduler_fiber 0) else None)\<rparr>),
     fiber_queue := [], g_fiber := 0, runner := 1, g_task := Some 7\<rparr>"

lemma two_fiber_sel [simp]:
  "fiber_view (asm_two (two_view w)) = two_view w" "fiber_view (win_two (two_view w)) = two_view w"
  by (simp_all add: asm_two_def win_two_def fiber_store.defs)

lemma two_inited [simp]: "asm_inited (asm_two w) = (\<lambda>f. f < 2)" "win_inited (win_two w) = (\<lambda>f. f < 2)"
  by (auto simp: asm_two_def win_two_def fiber_store.defs asm_store.defs win_store.defs asm_inited_def
      win_inited_def has_flag_def fun_eq_iff less_2_cases_iff)

lemma two_ok [simp]: "asm_ok (asm_two (two_view w))" "win_ok (win_two (two_view w))"
  by (auto simp: asm_ok_def win_ok_def asm_inited_def asm_two_def win_two_def two_view_def
      fiber_store.defs asm_store.defs win_store.defs has_flag_def frame_of_def fiber_of_task_def
      split: if_splits)

lemma backends_agree_witness:
  "\<forall>w. \<exists>a' b'.
     run_calls asm_fiber_suspend asm_fiber_switch [Call_switch 1 SUSPEND_PREPEND, Call_suspend]
       (asm_two (two_view w)) = Some a' \<and>
     run_calls win_fiber_suspend win_fiber_switch [Call_switch 1 SUSPEND_PREPEND, Call_suspend]
       (win_two (two_view w)) = Some b' \<and>
     fiber_view a' = fold do_fiber_call [Call_switch 1 SUSPEND_PREPEND, Call_suspend] (two_view w) \<and>
     fiber_view b' = fiber_view a' \<and> asm_ok a' \<and> win_ok b' \<and> g_task a' = Some 7"
proof
  fix w
  let ?cs = "[Call_switch 1 SUSPEND_PREPEND, Call_suspend]"
  have "calls_allowed (\<lambda>f. f < 2) ?cs (two_view w)"
    by (simp add: two_view_def suspend_target_def async_fiber_switch_def queue_fiber_def
        fiber_of_task_def Let_def)
  then obtain a' b' where r:
    "run_calls asm_fiber_suspend asm_fiber_switch ?cs (asm_two (two_view w)) = Some a'"
    "run_calls win_fiber_suspend win_fiber_switch ?cs (win_two (two_view w)) = Some b'"
    and v: "fiber_view a' = fold do_fiber_call ?cs (two_view w)" "fiber_view b' = fiber_view a'"
    "asm_ok a'" "win_ok b'"
    using backends_agree [of "asm_two (two_view w)" "win_two (two_view w)" ?cs] by auto
  have "g_task (fiber_view a') = Some 7"
    unfolding v by (simp add: two_view_def async_fiber_switch_def async_fiber_suspend_def
        queue_fiber_def fiber_of_task_def jump_fiber_def start_fiber_def upd_fiber_def
        async_fiber_capture_state_def async_fiber_restore_state_def)
  then have "g_task a' = Some 7" by simp
  with r v show "\<exists>a' b'. run_calls asm_fiber_suspend asm_fiber_switch ?cs (asm_two (two_view w)) = Some a' \<and>
     run_calls win_fiber_suspend win_fiber_switch ?cs (win_two (two_view w)) = Some b' \<and>
     fiber_view a' = fold do_fiber_call ?cs (two_view w) \<and>
     fiber_view b' = fiber_view a' \<and> asm_ok a' \<and> win_ok b' \<and> g_task a' = Some 7"
    by auto
qed

end
