(* ===== verification/Spec2Isabelle.thy ===== *)
theory Spec2Isabelle
  imports AsyncList RingBuffer ContextProps GroupProps TaskProps LoopProps EventProps SyncProps PromiseProps WatchProps StreamEnds DnsProps ConnectProps UdpProps ProcessProps DirProps Console ThreadProps XpProps FiberBackend
begin

text \<open>
  A model of the PHP extension \<open>async\<close>: cooperative multitasking for PHP on top of fibers and the
  event loop of libuv. The theories translate the C code under \<open>src/\<close> into definitions over explicit
  states and prove what makes it correct.

  \<^bold>\<open>How the program works.\<close> A script runs tasks; a task is a function that runs in a fiber. An
  execution that has to wait allocates an operation (\<open>async_op\<close>), puts it into the queue of whatever
  it waits for (a channel, a timer, a stream, another task) and calls \<open>async_await_op\<close>: the operation
  gets the callback that resumes the execution, the cancellation handler of the context is registered,
  and the fiber is suspended. Whoever settles the operation (a macro \<open>ASYNC_FINISH_OP\<close>,
  \<open>ASYNC_RESOLVE_OP\<close> or \<open>ASYNC_FAIL_OP\<close>) takes it out of its queue and calls the callback, which puts
  the task into the ready queue of the scheduler or switches to its fiber. Between two runs of ready
  tasks the scheduler lets libuv call the callbacks of its handles.

  \<^bold>\<open>The state.\<close> It is one extensible record, and each component adds its own fields:
  \<open>op_store\<close> (operations and their queues), \<open>ctx_store\<close> (contexts, variables, cancellations),
  \<open>fiber_store\<close> (fibers and the globals of the running one), \<open>task_store\<close> (tasks, scheduler, ready
  queue), and from there branches: \<open>await_store\<close> (awaitables) with \<open>defer_store\<close> and, one behind the
  other, \<open>component_store\<close>, \<open>dns_store\<close>, \<open>stream_store\<close>, \<open>net_store\<close> and \<open>proc_store\<close>; \<open>event_store\<close>; \<open>cond_store\<close>; \<open>chan_store\<close> with
  \<open>group_store\<close>; \<open>watch_store\<close>; \<open>file_store\<close>. Behind \<open>stream_store\<close> there is also
  \<open>console_store\<close>, behind \<open>net_store\<close> also \<open>thread_store\<close> and
  \<open>xp_store\<close>. Definitions of a component are polymorphic in the fields behind their own,
  so they act on every larger state. Objects are named by numbers, memory is the map from numbers to
  records, and pointers between objects are the numbers. \<open>Boot\<close> gives the state after the start of
  the module, on which the witnesses evaluate.

  \<^bold>\<open>Control.\<close> Two parameters stand for what other executions do meanwhile. \<open>run op w\<close> is the state after
  the callback of \<open>op\<close> returned, \<open>yield tr w\<close> the state when the execution that gave up control
  (suspended, or switched to another fiber) continues. \<open>Resume\<close> gives the instances that the scheduler
  provides (\<open>wake\<close>, \<open>bounce\<close>); the properties quantify over them where they can. User code, answers of
  libuv and the system (\<open>uv_answers\<close>, \<open>dns_env\<close>, \<open>net_env\<close>, \<open>proc_env\<close>, \<open>fs_env\<close>, \<open>thread_env\<close>, \<open>xp_env\<close>), the random generator are parameters as well. A bailout of the
  engine (\<open>Bail\<close>, \<open>Await_bailout\<close>) leaves a function at once. \<open>None\<close> is a fatal error, a
  failing assertion or a loop that does not end; errors that scripts can catch are values (\<open>Throw e\<close>).

  \<^bold>\<open>Theories, components and sources.\<close>
  \<^item> \<open>Prelude\<close>: PHP values, exceptions, flags, lemmas on lists and rings.
  \<^item> \<open>AsyncList\<close>: the macros \<open>ASYNC_LIST_*\<close> of \<open>php_async.h\<close> on linked nodes; locale \<open>async_queue\<close>, and
    the refinement to lists (\<open>async_list_fifo\<close>). The other theories use lists.
  \<^item> \<open>Ops\<close>, \<open>Drain\<close>: operations and the macros \<open>ASYNC_*_OP\<close> of \<open>php_async.h\<close>; the invariant \<open>ops_wf\<close>
    (queues hold allocated operations, each at most once); loops that empty a queue.
  \<^item> \<open>RingBuffer\<close>: \<open>include/async/buffer.h\<close>, with the abstraction to the bytes it holds.
  \<^item> \<open>Context\<close>, \<open>ContextProps\<close>: \<open>context.c\<close>, contexts, variables, cancellation handlers, timeouts.
  \<^item> \<open>Fiber\<close>: \<open>include/async/fiber.h\<close>, \<open>task.c\<close>: which fiber runs and the queue of suspended ones.
    \<open>FiberBackend\<close>: \<open>fiber/asm.c\<close>, \<open>winfib.c\<close>, \<open>ucontext.c\<close>: how each of them switches; the locale
    \<open>fiber_backend\<close> is the contract with \<open>Fiber\<close>, with instances for the first two.
  \<^item> \<open>Scheduler\<close>, \<open>Resume\<close>, \<open>Task\<close>, \<open>Loop\<close>: \<open>task.c\<close>: the ready queue, \<open>async_await_op\<close>, awaiting
    values, running tasks, ticks, shutdown, components; \<open>AwaitProps\<close>, \<open>TaskProps\<close>, \<open>LoopProps\<close> hold their
    properties.
  \<^item> \<open>Event\<close>, \<open>EventProps\<close>: \<open>event.c\<close>, callbacks for ticks, timers and descriptors.
  \<^item> \<open>Sync\<close>, \<open>SyncProps\<close>: \<open>sync.c\<close>, condition variables.
  \<^item> \<open>Deferred\<close>, \<open>Promise\<close>, \<open>PromiseProps\<close>: \<open>deferred.c\<close>; \<open>Promise\<close> is the contract of awaitables that
    the program settles, with instances for \<open>Deferred\<close> and for the awaitables of \<open>task.c\<close>.
  \<^item> \<open>Channel\<close>, \<open>ChannelGroup\<close>, \<open>ChannelSpec\<close>, \<open>ChannelProps\<close>, \<open>GroupProps\<close>: \<open>channel.c\<close>;
    \<open>ChannelSpec\<close> is the queue of messages that a channel implements.
  \<^item> \<open>Watcher\<close>, \<open>SignalPoll\<close>, \<open>WatchProps\<close>: \<open>watcher/timer.c\<close>, \<open>signal.c\<close>, \<open>poll.c\<close>, \<open>monitor.c\<close>.
  \<^item> \<open>Stream\<close>, \<open>StreamIO\<close>, \<open>StreamApi\<close>, \<open>StreamProps\<close>, \<open>WriteProps\<close>, \<open>StreamEnds\<close>: \<open>stream.c\<close>,
    \<open>include/async/stream.h\<close> and the asynchronous writes of \<open>tcp.c\<close> and \<open>pipe.c\<close>.
  \<^item> \<open>Address\<close>: \<open>include/async/socket.h\<close>, socket addresses, and the functions of C on strings.
  \<^item> \<open>DnsConfig\<close>, \<open>Dns\<close>, \<open>DnsProps\<close>: \<open>dns.c\<close>, the configuration files and the lookups.
  \<^item> \<open>Net\<close>: the objects of the network components and what they ask libuv; \<open>Pipe\<close>: \<open>pipe.c\<close>;
    \<open>Tcp\<close>: \<open>tcp.c\<close>; \<open>Udp\<close>: \<open>udp.c\<close>. \<open>NetProps\<close> has the locale \<open>backlog\<close>, in which a server is a
    counting semaphore, with instances for TCP servers and pipe servers; \<open>ConnectProps\<close> and \<open>UdpProps\<close>
    hold the properties of sockets.
  \<^item> \<open>ProcessBuilder\<close>, \<open>BuilderProps\<close>: \<open>process/builder.c\<close> and \<open>process/env.c\<close>; builders are immutable.
    \<open>Process\<close>, \<open>ProcessProps\<close>: \<open>process/runner.c\<close>, starting children, waiting for them, their pipes.
  \<^item> \<open>File\<close>, \<open>FileWrapper\<close>: \<open>filesystem.c\<close>: requests to libuv, file and directory streams, the stream
    wrapper. \<open>FileProps\<close> has the locale \<open>disk\<close> of streams whose requests are executed on bytes, with
    instances for requests in a thread and at once; \<open>DirProps\<close> the locale \<open>dir_maker\<close> and the directories
    that \<open>mkdir\<close> creates.
  \<^item> \<open>Console\<close>: \<open>console.c\<close>: the standard streams as terminals, pipes and files.
  \<^item> \<open>Thread\<close>, \<open>ThreadProps\<close>: \<open>thread.c\<close>: threads of a thread-safe build on Unix; the creator and the new
    thread are steps that interleave.
  \<^item> \<open>XpSocket\<close>, \<open>XpTcp\<close>, \<open>XpUdp\<close>, \<open>XpApi\<close>, \<open>XpUnix\<close>, \<open>XpProps\<close>: \<open>xp/socket.c\<close>, \<open>xp/tcp.c\<close>, \<open>xp/udp.c\<close>
    and \<open>xp/unix.c\<close>: the streams of PHP on sockets; connecting, accepting, and the list of ALPN protocols.
  \<^item> \<open>Waiting\<close>: the state in which a task waits for an operation, what it finds when it continues, and
    the locale \<open>closable\<close> of the objects whose \<open>close\<close> fails all that wait (timers, signals, servers).

  \<^bold>\<open>Loops.\<close> A loop that may run for ever, because the callbacks it calls may add work, is a
  \<open>partial_function\<close> in the option monad; that it returns is part of the statements about it, from the
  law that the callbacks do not grow the queue or by computation. No fuel is used.

  \<^bold>\<open>Not modelled.\<close> Streams with an SSL engine and the TLS handshake (\<open>ssl/\<close>), which run in OpenSSL (with them \<open>TcpSocket::encrypt\<close>
  and \<open>toggle_ssl\<close> of \<open>xp/socket.c\<close>); the
  assembly of the vendored Boost code that switches the machine stack, and the registers of the virtual
  machine that a fiber saves; the virtual machine of PHP,
  which executes the code of tasks; the inside of libuv and other code under \<open>thirdparty\<close>; the registration
  of classes and functions; reference counts of objects, except where the code's behaviour depends on
  them (channels, cancellations, handles that close).
\<close>

end
